(* ===== verification/Kuayle_Prelude.thy ===== *)
theory Kuayle_Prelude
  imports Main "HOL-Library.Product_Lexorder"
begin

text \<open>
  Vocabulary shared by every component of the development: identifiers, instants and durations,
  the results of fallible calls, and relational tables as lists of rows with the lemmas the
  component theories use about them.
  \<^item> A \<open>uuid.UUID\<close> is a natural number, with \<open>uuid.Nil\<close> as \<open>0\<close>. A function whose source calls
    \<open>uuid.New()\<close> takes the fresh identifier as an argument.
  \<^item> A \<open>time.Time\<close> is the integer number of nanoseconds since Go's zero instant, so the zero value
    of \<open>time.Time\<close> is \<open>0\<close>; a \<open>time.Duration\<close> is an integer number of nanoseconds.
    A function whose source reads the clock takes \<open>now\<close> as an argument; SQL's \<open>NOW()\<close> is constant
    within a transaction, so one argument stands for every \<open>NOW()\<close> of the transaction.
  \<^item> A table is the list of its rows. \<open>UPDATE t SET f WHERE P\<close> is \<open>update_where P f\<close>,
    \<open>DELETE FROM t WHERE P\<close> is \<open>delete_where P\<close>, and the number of affected rows is
    \<open>rows_affected P\<close>.
\<close>

section \<open>Identifiers and time\<close>

type_synonym uuid = nat
type_synonym time = int
type_synonym duration = int

abbreviation (input) uuid_Nil :: uuid where
  "uuid_Nil \<equiv> 0"

definition seconds :: "int \<Rightarrow> duration" where
  "seconds n = n * 1000000000"

definition minutes :: "int \<Rightarrow> duration" where
  "minutes n = n * 60000000000"

lemma seconds_mono [simp]: "seconds a \<le> seconds b \<longleftrightarrow> a \<le> b"
  by (simp add: seconds_def)

lemma seconds_less [simp]: "seconds a < seconds b \<longleftrightarrow> a < b"
  by (simp add: seconds_def)

lemma seconds_nonneg [simp]: "0 \<le> seconds a \<longleftrightarrow> 0 \<le> a"
  by (simp add: seconds_def)

lemma seconds_pos [simp]: "0 < seconds a \<longleftrightarrow> 0 < a"
  by (simp add: seconds_def)

section \<open>Rule collections\<close>

named_theorems table_simps \<open>membership and keys of updated, filtered and extended tables\<close>
named_theorems store_defs \<open>definitions of the repository's operations\<close>

section \<open>Tables\<close>

definition update_where :: "('r \<Rightarrow> bool) \<Rightarrow> ('r \<Rightarrow> 'r) \<Rightarrow> 'r list \<Rightarrow> 'r list" where
  "update_where P f rows = map (\<lambda>r. if P r then f r else r) rows"

definition delete_where :: "('r \<Rightarrow> bool) \<Rightarrow> 'r list \<Rightarrow> 'r list" where
  "delete_where P rows = filter (\<lambda>r. \<not> P r) rows"

definition rows_affected :: "('r \<Rightarrow> bool) \<Rightarrow> 'r list \<Rightarrow> nat" where
  "rows_affected P rows = length (filter P rows)"

definition exists_where :: "('r \<Rightarrow> bool) \<Rightarrow> 'r list \<Rightarrow> bool" where
  "exists_where P rows = list_ex P rows"

lemma exists_where_iff [table_simps]: "exists_where P rows \<longleftrightarrow> (\<exists>r \<in> set rows. P r)"
  by (simp add: exists_where_def list_ex_iff)

lemma set_update_where [table_simps]:
  "set (update_where P f rows) = (\<lambda>r. if P r then f r else r) ` set rows"
  by (simp add: update_where_def)

lemma set_delete_where [table_simps]: "set (delete_where P rows) = {r \<in> set rows. \<not> P r}"
  by (auto simp: delete_where_def)

lemma length_update_where [simp]: "length (update_where P f rows) = length rows"
  by (simp add: update_where_def)

lemma update_where_none: "\<forall>r \<in> set rows. \<not> P r \<Longrightarrow> update_where P f rows = rows"
  by (simp add: update_where_def map_idI)

lemma delete_where_none: "\<forall>r \<in> set rows. \<not> P r \<Longrightarrow> delete_where P rows = rows"
  by (simp add: delete_where_def)

lemma rows_affected_0: "rows_affected P rows = 0 \<longleftrightarrow> (\<forall>r \<in> set rows. \<not> P r)"
  by (simp add: rows_affected_def filter_empty_conv)

lemma exists_where_update_same:
  assumes "\<And>r. P r \<Longrightarrow> Q (f r) = Q r"
  shows "exists_where Q (update_where P f rows) = exists_where Q rows"
  using assms unfolding exists_where_iff set_update_where by (auto; force)

lemma in_update_whereE:
  assumes "r' \<in> set (update_where P f rows)"
  obtains r where "r \<in> set rows" "P r" "r' = f r" | "r' \<in> set rows" "\<not> P r'"
  using assms by (auto simp: set_update_where split: if_splits)

lemma exists_where_cleared:
  assumes "\<And>r. r \<in> set rows \<Longrightarrow> P r \<Longrightarrow> \<not> Q (f r)"
    and "\<And>r. r \<in> set rows \<Longrightarrow> \<not> P r \<Longrightarrow> \<not> Q r"
  shows "\<not> exists_where Q (update_where P f rows)"
  unfolding exists_where_iff using assms by (blast elim: in_update_whereE)

lemma find_Some_iff_distinct:
  assumes "distinct (map key rows)"
  shows "find (\<lambda>r. key r = k) rows = Some r \<longleftrightarrow> r \<in> set rows \<and> key r = k"
  using assms
proof (induction rows)
  case Nil
  then show ?case by simp
next
  case (Cons a rows)
  then show ?case by (auto simp: rev_image_eqI)
qed

lemma find_None_all: "find P rows = None \<longleftrightarrow> (\<forall>r \<in> set rows. \<not> P r)"
  by (auto simp: find_None_iff)

lemma find_SomeD: "find P rows = Some r \<Longrightarrow> r \<in> set rows \<and> P r"
  by (auto simp: find_Some_iff)

lemma distinct_key_eq:
  "distinct (map key rows) \<Longrightarrow> r \<in> set rows \<Longrightarrow> s \<in> set rows \<Longrightarrow> key r = key s \<Longrightarrow> r = s"
  by (auto simp: distinct_map inj_on_def)

lemma find_Some_unique:
  assumes "distinct (map key rows)" and "\<And>r. P r \<Longrightarrow> key r = k"
  shows "find P rows = Some r \<longleftrightarrow> r \<in> set rows \<and> P r"
proof
  assume r: "r \<in> set rows \<and> P r"
  then obtain s where s: "find P rows = Some s"
    by (cases "find P rows") (auto simp: find_None_all)
  then have "s \<in> set rows" "P s" by (auto dest: find_SomeD)
  with r assms have "s = r" by (auto intro: distinct_key_eq [of key rows])
  with s show "find P rows = Some r" by simp
qed (rule find_SomeD)

lemma rows_affected_update_where_le:
  "rows_affected Q (update_where P f rows) \<le> rows_affected Q rows + rows_affected P rows"
  by (induction rows) (auto simp: rows_affected_def update_where_def)

lemma rows_affected_append [simp]:
  "rows_affected P (xs @ ys) = rows_affected P xs + rows_affected P ys"
  by (simp add: rows_affected_def)

lemma rows_affected_distinct_le:
  assumes "distinct (map key rows)" and "\<And>r. P r \<Longrightarrow> key r = k"
  shows "rows_affected P rows \<le> 1"
  using assms(1)
proof (induction rows)
  case Nil
  then show ?case by (simp add: rows_affected_def)
next
  case (Cons a rows)
  show ?case
  proof (cases "P a")
    case True
    with Cons.prems assms(2) have "\<forall>r \<in> set rows. \<not> P r" by (force dest: assms(2))
    then have "rows_affected P rows = 0" by (simp add: rows_affected_0)
    then show ?thesis using True by (simp add: rows_affected_def)
  qed (use Cons in \<open>simp add: rows_affected_def\<close>)
qed

lemma find_append:
  "find P (xs @ ys) = (case find P xs of None \<Rightarrow> find P ys | Some r \<Rightarrow> Some r)"
  by (induction xs) auto

lemma rows_affected_1_find:
  assumes "rows_affected P rows = 1"
  shows "\<exists>r. find P rows = Some r \<and> r \<in> set rows \<and> P r"
proof -
  from assms have "\<not> (\<forall>r \<in> set rows. \<not> P r)"
    by (simp flip: rows_affected_0)
  then obtain r where "find P rows = Some r"
    by (cases "find P rows") (auto simp: find_None_all)
  then show ?thesis by (blast dest: find_SomeD)
qed

lemma distinct_map_filter: "distinct (map key rows) \<Longrightarrow> distinct (map key (filter P rows))"
  by (simp add: distinct_map_filter)

lemma distinct_delete_where: "distinct (map key rows) \<Longrightarrow> distinct (map key (delete_where P rows))"
  by (simp add: delete_where_def distinct_map_filter)

lemma length_filter_update_where_le:
  assumes "\<And>r. r \<in> set rows \<Longrightarrow> P r \<Longrightarrow> Q (f r) \<Longrightarrow> Q r"
  shows "length (filter Q (update_where P f rows)) \<le> length (filter Q rows)"
  using assms
proof (induction rows)
  case Nil
  then show ?case by (simp add: update_where_def)
next
  case (Cons a rows)
  have "length (filter Q (update_where P f rows)) \<le> length (filter Q rows)"
    by (rule Cons.IH) (use Cons.prems in auto)
  moreover have "P a \<Longrightarrow> Q (f a) \<Longrightarrow> Q a"
    using Cons.prems by simp
  ultimately show ?case
    by (auto simp: update_where_def)
qed

text \<open>
  An update that keeps the column a table is keyed by keeps the column as a whole: uniqueness of
  keys, presence of keys, and the row found under a key change only as the update says.
\<close>

locale keyed_update =
  fixes key :: "'r \<Rightarrow> 'k" and f :: "'r \<Rightarrow> 'r"
  assumes key_stable: "key (f r) = key r"
begin

lemma map_key: "map key (update_where P f rows) = map key rows"
  by (induction rows) (auto simp: update_where_def key_stable)

lemma distinct_keys: "distinct (map key (update_where P f rows)) \<longleftrightarrow> distinct (map key rows)"
  by (simp add: map_key)

lemma find_key:
  "find (\<lambda>r. key r = k) (update_where P f rows)
     = map_option (\<lambda>r. if P r then f r else r) (find (\<lambda>r. key r = k) rows)"
  by (induction rows) (auto simp: update_where_def key_stable)

lemma count_le:
  assumes "\<And>r. Q (f r) \<Longrightarrow> Q r"
  shows "length (filter Q (update_where P f rows)) \<le> length (filter Q rows)"
  by (rule length_filter_update_where_le) (rule assms)

end

text \<open>The first row of an \<open>ORDER BY\<close> is a row of the query.\<close>

lemma first_of_sort_key: "sort_key f xs = r # t \<Longrightarrow> r \<in> set xs"
  by (metis list.set_intros(1) set_sort)

lemma sort_key_empty: "sort_key f xs = [] \<longleftrightarrow> xs = []"
  by (metis length_0_conv length_sort)

text \<open>
  Pages by cursor: the rows above the last key of a page, in key order, are the rest of the listing.
\<close>

lemma strictly_sorted_above_last:
  assumes "sorted_wrt (\<lambda>a b. key a < key b) xs" and "take n xs \<noteq> []"
  shows "filter (\<lambda>r. key (last (take n xs)) < (key r :: 'k :: linorder)) xs = drop n xs"
proof -
  let ?c = "last (take n xs)"
  have c: "?c \<in> set (take n xs)" using assms(2) by (rule last_in_set)
  have split: "sorted_wrt (\<lambda>a b. key a < key b) (take n xs @ drop n xs)" using assms(1) by simp
  have low: "\<not> key ?c < key r" if "r \<in> set (take n xs)" for r
  proof -
    have app: "take n xs = butlast (take n xs) @ [?c]" using assms(2) by simp
    then have "r = ?c \<or> r \<in> set (butlast (take n xs))" using that
      by (metis Un_iff empty_iff insert_iff list.set(1) list.set(2) set_append)
    moreover have "sorted_wrt (\<lambda>a b. key a < key b) (butlast (take n xs) @ [?c])"
      using split app by (metis sorted_wrt_append)
    ultimately show ?thesis by (auto simp: sorted_wrt_append)
  qed
  have high: "key ?c < key r" if "r \<in> set (drop n xs)" for r
    using split that c unfolding sorted_wrt_append by blast
  have "filter (\<lambda>r. key ?c < key r) (take n xs @ drop n xs) = drop n xs"
    unfolding filter_append using low high by (simp add: filter_id_conv)
  then show ?thesis by simp
qed

lemma page_continues:
  assumes "distinct (map key rows)" and "p = take n (sort_key key (filter P rows))" and "p \<noteq> []"
  shows "take (n + m) (sort_key key (filter P rows))
    = p @ take m (sort_key key (filter (\<lambda>r. P r \<and> key (last p) < (key r :: 'k :: linorder)) rows))"
proof -
  let ?xs = "sort_key key (filter P rows)"
  have "distinct (map key ?xs)"
  proof -
    have "inj_on key (set rows)" "distinct rows" using assms(1) by (simp_all add: distinct_map)
    then show ?thesis by (auto simp: distinct_map intro: inj_on_subset)
  qed
  then have "sorted_wrt (<) (map key ?xs)"
    by (simp add: strict_sorted_iff)
  then have "sorted_wrt (\<lambda>a b. key a < key b) ?xs" by (simp add: sorted_wrt_map)
  with assms(2,3) have "filter (\<lambda>r. key (last p) < key r) ?xs = drop n ?xs"
    by (simp add: strictly_sorted_above_last)
  then have "sort_key key (filter (\<lambda>r. P r \<and> key (last p) < key r) rows) = drop n ?xs"
    by (simp add: filter_sort conj_commute)
  with assms(2) show ?thesis by (simp add: take_add)
qed

section \<open>Decimal numerals\<close>

text \<open>\<open>%d\<close> of \<open>fmt.Sprintf\<close>.\<close>

definition digit_char :: "nat \<Rightarrow> char" where
  "digit_char n = char_of (48 + n)"

definition digit_value :: "char \<Rightarrow> nat" where
  "digit_value c = of_char c - 48"

fun nat_decimal :: "nat \<Rightarrow> string" where
  "nat_decimal n = (if n < 10 then [digit_char n] else nat_decimal (n div 10) @ [digit_char (n mod 10)])"

declare nat_decimal.simps [simp del]

definition int_decimal :: "int \<Rightarrow> string" where
  "int_decimal i = (if i < 0 then ''-'' @ nat_decimal (nat (- i)) else nat_decimal (nat i))"

definition decimal_value :: "string \<Rightarrow> nat" where
  "decimal_value = foldl (\<lambda>n c. 10 * n + digit_value c) 0"

lemma digit_value_char: "n < 10 \<Longrightarrow> digit_value (digit_char n) = n"
  by (simp add: digit_value_def digit_char_def of_char_of)

lemma decimal_value_nat_decimal: "decimal_value (nat_decimal n) = n"
proof (induction n rule: nat_decimal.induct)
  case (1 n)
  show ?case
  proof (cases "n < 10")
    case True
    then show ?thesis by (simp add: nat_decimal.simps [of n] decimal_value_def digit_value_char)
  next
    case False
    with 1 have "decimal_value (nat_decimal (n div 10)) = n div 10" by simp
    with False show ?thesis
      by (simp add: nat_decimal.simps [of n] decimal_value_def digit_value_char)
  qed
qed

lemma nat_decimal_inject [simp]: "nat_decimal a = nat_decimal b \<longleftrightarrow> a = b"
  by (metis decimal_value_nat_decimal)

lemma nat_decimal_hd_not_minus: "nat_decimal n \<noteq> CHR ''-'' # s"
proof (induction n arbitrary: s rule: nat_decimal.induct)
  case (1 n)
  have digit: "digit_char k \<noteq> CHR ''-''" if "k < 10" for k
  proof
    assume "digit_char k = CHR ''-''"
    then have "of_char (char_of (48 + k)) = (of_char CHR ''-'' :: nat)"
      by (simp add: digit_char_def)
    with that show False by (simp add: of_char_of)
  qed
  show ?case
  proof (cases "n < 10")
    case True
    then show ?thesis by (simp add: nat_decimal.simps [of n] digit)
  next
    case False
    have "nat_decimal (n div 10) \<noteq> []" by (subst nat_decimal.simps) simp
    then obtain c cs where "nat_decimal (n div 10) = c # cs" by (cases "nat_decimal (n div 10)") auto
    with 1 [of cs] False show ?thesis by (auto simp: nat_decimal.simps [of n])
  qed
qed

lemma int_decimal_inject [simp]: "int_decimal a = int_decimal b \<longleftrightarrow> a = b"
  by (auto simp: int_decimal_def nat_decimal_hd_not_minus nat_decimal_hd_not_minus [symmetric])

section \<open>Fallible results\<close>

text \<open>
  A call that fails returns \<open>Inl\<close> of the error, as Go's \<open>(T, error)\<close> with a non-nil error does.
  A transaction that fails is rolled back (every transaction of the source defers
  \<open>tx.Rollback()\<close>), so its model returns only the error and the caller keeps the old database.
\<close>

definition bindE :: "'e + 'a \<Rightarrow> ('a \<Rightarrow> 'e + 'b) \<Rightarrow> 'e + 'b" where
  "bindE m k = (case m of Inl e \<Rightarrow> Inl e | Inr x \<Rightarrow> k x)"

lemma bindE_simps [simp]: "bindE (Inl e) k = Inl e" "bindE (Inr x) k = k x"
  by (simp_all add: bindE_def)

lemma bindE_Inr: "bindE m k = Inr y \<longleftrightarrow> (\<exists>x. m = Inr x \<and> k x = Inr y)"
  by (cases m) auto

end
