(* ===== verification/Machine_Domain.thy ===== *)
theory Machine_Domain
  imports Complex_Main Kuayle_Prelude
begin

text \<open>
  The data model of the development-machine control plane
  (\<open>BE/internal/domain/dev_machine.go\<close>): its enumerations, its rows, the table of operations
  allowed in each machine status, the predicate for machines that may be purged, and the machine
  sizes. Field names are the source's, prefixed per record because record selectors are global:
  \<open>m_\<close> machine, \<open>op_\<close> operation, \<open>ar_\<close> agent run, \<open>sv_\<close> service, \<open>at_\<close> access ticket,
  \<open>as_\<close> access session, \<open>en_\<close> environment, \<open>co_\<close> checkout, \<open>ts_\<close> terminal session, and so on.
  The enumerated columns are closed types, because the migration declares them as SQL enumerations;
  the statuses the migration declares as \<open>VARCHAR\<close> stay strings. Integers are unbounded: no
  property here depends on their width, and where SQL's 32-bit arithmetic can fail
  (\<open>FailOperation\<close>) the failure is written out. A \<open>float64\<close> is only copied.
\<close>

section \<open>Enumerations\<close>

type_synonym rawjson = string
type_synonym float64 = rat

datatype DevMachineStatus =
    StatusConfiguring
  | StatusQueued
  | StatusSpawning
  | StatusRunning
  | StatusPaused
  | StatusStopping
  | StatusStopped
  | StatusTearingDown
  | StatusDestroyed
  | StatusFailed
  | StatusExpired

datatype DevMachineOperationAction =
    OpSpawn
  | OpStart
  | OpStop
  | OpPause
  | OpTeardown
  | OpReconcile
  | OpRunAgent
  | OpCancelAgent
  | OpCheckoutIssue
  | OpSnapshotEnvironment
  | OpTerminateTerminal

datatype DevMachineOperationStatus =
    OpStatusPending
  | OpStatusLeased
  | OpStatusCompleted
  | OpStatusFailed
  | OpStatusCancelled

datatype DevMachineAgentRunStatus =
    RunQueued
  | RunStarting
  | RunRunning
  | RunWaitingInput
  | RunSucceeded
  | RunFailed
  | RunCancelled
  | RunTimeout

datatype DevMachineAccessTicketStatus =
    TicketActive
  | TicketUsed
  | TicketExpired
  | TicketRevoked

section \<open>Rows\<close>

record DevMachine =
  m_ID :: uuid
  m_WorkspaceID :: uuid
  m_ProjectID :: "uuid option"
  m_IssueID :: "uuid option"
  m_CreatedByUserID :: "uuid option"
  m_RoutingKey :: string
  m_Name :: string
  m_Status :: DevMachineStatus
  m_DesiredStatus :: DevMachineStatus
  m_Generation :: int
  m_RepoURL :: string
  m_RepoProvider :: string
  m_RepoOwner :: string
  m_RepoName :: string
  m_BaseBranch :: string
  m_WorkingBranch :: string
  m_MachineSize :: string
  m_CPUMillis :: int
  m_MemoryMB :: int
  m_DiskGB :: int
  m_PidsLimit :: int
  m_MaxRuntimeMinutes :: int
  m_EnvironmentID :: "uuid option"
  m_RepositoryAffinityID :: "uuid option"
  m_KeepRunning :: bool
  m_EnvironmentBuilder :: bool
  m_DeleteRequestedAt :: "time option"
  m_DockerNetworkName :: "string option"
  m_WorkspaceVolumeName :: "string option"
  m_ServicesConfig :: rawjson
  m_Labels :: rawjson
  m_LastErrorCode :: "string option"
  m_LastErrorMessage :: "string option"
  m_LastActivityAt :: "time option"
  m_CreatedAt :: time
  m_UpdatedAt :: time
  m_StartedAt :: "time option"
  m_StoppedAt :: "time option"
  m_ExpiresAt :: time
  m_TeardownAt :: "time option"
  m_DestroyedAt :: "time option"

record DevMachineAgentProvider =
  ap_ID :: uuid
  ap_MachineID :: uuid
  ap_ProviderID :: string
  ap_DisplayName :: string
  ap_ImageRef :: string
  ap_SupportedModes :: rawjson
  ap_RequiredSecrets :: rawjson
  ap_Config :: rawjson
  ap_Enabled :: bool
  ap_IsCustom :: bool
  ap_CreatedAt :: time
  ap_UpdatedAt :: time

record DevMachineService =
  sv_ID :: uuid
  sv_WorkspaceID :: uuid
  sv_MachineID :: uuid
  sv_AgentRunID :: "uuid option"
  sv_ServiceType :: string
  sv_ServiceKey :: string
  sv_ContainerID :: "string option"
  sv_ContainerName :: string
  sv_ImageRef :: string
  sv_InternalHost :: string
  sv_InternalPort :: int
  sv_Status :: string
  sv_HealthStatus :: string
  sv_HealthMessage :: "string option"
  sv_StartedAt :: "time option"
  sv_StoppedAt :: "time option"
  sv_CreatedAt :: time
  sv_UpdatedAt :: time

record DevMachineVolume =
  vo_ID :: uuid
  vo_MachineID :: uuid
  vo_VolumeType :: string
  vo_RuntimeName :: string
  vo_MountPath :: string
  vo_SizeLimitBytes :: int
  vo_CurrentSizeBytes :: int
  vo_CreatedAt :: time
  vo_DeletedAt :: "time option"

record DevMachineEnvVar =
  ev_ID :: uuid
  ev_MachineID :: uuid
  ev_AgentRunID :: "uuid option"
  ev_ProviderID :: "string option"
  ev_TargetService :: string
  ev_Name :: string
  ev_EncryptedValue :: string
  ev_EncryptionKeyVersion :: int
  ev_IsSecret :: bool
  ev_ExpiresAt :: "time option"
  ev_RevokedAt :: "time option"
  ev_CreatedAt :: time

record DevMachineRuntimeCredential =
  rc_ID :: uuid
  rc_MachineID :: uuid
  rc_Scope :: string
  rc_CredentialType :: string
  rc_FingerprintSHA256 :: string
  rc_EncryptedValue :: string
  rc_EncryptionKeyVersion :: int
  rc_ExpiresAt :: time
  rc_CreatedAt :: time
  rc_UpdatedAt :: time

record DevMachineToken =
  tk_ID :: uuid
  tk_MachineID :: uuid
  tk_AgentRunID :: "uuid option"
  tk_TokenHash :: string
  tk_Scopes :: rawjson
  tk_ExpiresAt :: time
  tk_LastUsedAt :: "time option"
  tk_RevokedAt :: "time option"
  tk_CreatedAt :: time

record DevMachineOperation =
  op_ID :: uuid
  op_MachineID :: uuid
  op_AgentRunID :: "uuid option"
  op_CheckoutID :: "uuid option"
  op_EnvironmentID :: "uuid option"
  op_TerminalSessionID :: "uuid option"
  op_WorkspaceID :: uuid
  op_Action :: DevMachineOperationAction
  op_Status :: DevMachineOperationStatus
  op_Generation :: int
  op_IdempotencyKey :: string
  op_RequestedByUserID :: "uuid option"
  op_LeaseOwner :: "string option"
  op_LeaseExpiresAt :: "time option"
  op_Attempts :: int
  op_MaxAttempts :: int
  op_ErrorCode :: "string option"
  op_ErrorMessage :: "string option"
  op_AvailableAt :: time
  op_CreatedAt :: time
  op_UpdatedAt :: time
  op_CompletedAt :: "time option"

record DevMachineAgentRun =
  ar_ID :: uuid
  ar_MachineID :: uuid
  ar_WorkspaceID :: uuid
  ar_IssueID :: "uuid option"
  ar_CheckoutID :: "uuid option"
  ar_RequestedByUserID :: "uuid option"
  ar_ProviderID :: string
  ar_Mode :: string
  ar_Status :: DevMachineAgentRunStatus
  ar_Prompt :: string
  ar_AcceptanceCriteria :: rawjson
  ar_AllowedCommands :: rawjson
  ar_ForbiddenPaths :: rawjson
  ar_AllowedSecrets :: rawjson
  ar_TestCommand :: "rawjson option"
  ar_CommandArgv :: rawjson
  ar_MaxRuntimeSeconds :: int
  ar_PushBranch :: bool
  ar_OpenPullRequest :: bool
  ar_Result :: "rawjson option"
  ar_Summary :: "string option"
  ar_ChangedFiles :: rawjson
  ar_Commits :: rawjson
  ar_Branch :: "string option"
  ar_PullRequestURL :: "string option"
  ar_TestsRun :: rawjson
  ar_TestStatus :: string
  ar_RiskNotes :: rawjson
  ar_ExitCode :: "int option"
  ar_ErrorMessage :: "string option"
  ar_CreatedAt :: time
  ar_StartedAt :: "time option"
  ar_CompletedAt :: "time option"
  ar_CancelledAt :: "time option"

record DevMachineEvent =
  me_ID :: int
  me_WorkspaceID :: uuid
  me_MachineID :: uuid
  me_AgentRunID :: "uuid option"
  me_ActorUserID :: "uuid option"
  me_Source :: string
  me_EventType :: string
  me_Payload :: rawjson
  me_OccurredAt :: time
  me_CreatedAt :: time

record DevMachineLogChunk =
  lc_ID :: int
  lc_WorkspaceID :: uuid
  lc_MachineID :: uuid
  lc_AgentRunID :: "uuid option"
  lc_ServiceID :: "uuid option"
  lc_Stream :: string
  lc_Sequence :: int
  lc_Content :: string
  lc_Truncated :: bool
  lc_CreatedAt :: time

record DevMachineGitRef =
  gr_ID :: uuid
  gr_WorkspaceID :: uuid
  gr_MachineID :: uuid
  gr_AgentRunID :: "uuid option"
  gr_IssueID :: "uuid option"
  gr_RefType :: string
  gr_RepositoryFullName :: string
  gr_RefName :: "string option"
  gr_CommitSHA :: "string option"
  gr_PullRequestNumber :: "int option"
  gr_URL :: "string option"
  gr_CreatedAt :: time

record DevMachineAccessTicket =
  at_ID :: uuid
  at_WorkspaceID :: uuid
  at_MachineID :: uuid
  at_ServiceID :: uuid
  at_TerminalSessionID :: "uuid option"
  at_UserID :: uuid
  at_TokenHash :: string
  at_Status :: DevMachineAccessTicketStatus
  at_BoundHost :: string
  at_ExpiresAt :: time
  at_UsedAt :: "time option"
  at_CreatedAt :: time
  at_RevokedAt :: "time option"

record DevMachineAccessSession =
  as_ID :: uuid
  as_WorkspaceID :: uuid
  as_MachineID :: uuid
  as_ServiceID :: uuid
  as_UserID :: uuid
  as_TokenHash :: string
  as_BoundHost :: string
  as_ExpiresAt :: time
  as_LastSeenAt :: time
  as_CreatedAt :: time
  as_RevokedAt :: "time option"

record DevMachineAccessLog =
  al_ID :: int
  al_WorkspaceID :: "uuid option"
  al_MachineID :: "uuid option"
  al_ServiceID :: "uuid option"
  al_UserID :: "uuid option"
  al_Decision :: string
  al_Reason :: "string option"
  al_Method :: string
  al_Path :: string
  al_ResponseStatus :: "int option"
  al_RemoteIP :: "string option"
  al_UserAgent :: "string option"
  al_CreatedAt :: time

record DevMachineResourceSample =
  rs_ID :: int
  rs_WorkspaceID :: uuid
  rs_MachineID :: uuid
  rs_CPUPercent :: rat
  rs_MemoryBytes :: int
  rs_DiskBytes :: int
  rs_Pids :: int
  rs_NetworkRxBytes :: int
  rs_NetworkTxBytes :: int
  rs_CreatedAt :: time

record DevMachineWorkspacePolicy =
  wp_WorkspaceID :: uuid
  wp_Enabled :: bool
  wp_MaxConcurrentMachines :: int
  wp_MaxMachinesPerUser :: int
  wp_MaxDailyAgentRuns :: int
  wp_MaxRuntimeMinutes :: int
  wp_MaxDiskGB :: int
  wp_AllowedProviders :: rawjson
  wp_AllowedRepositories :: rawjson
  wp_AllowCustomProviders :: bool
  wp_IdlePauseMinutes :: int
  wp_CreatedAt :: time
  wp_UpdatedAt :: time

record DevMachineEnvironment =
  en_ID :: uuid
  en_WorkspaceID :: uuid
  en_Name :: string
  en_ImageRef :: string
  en_ImageDigest :: "string option"
  en_Status :: string
  en_SourceMachineID :: "uuid option"
  en_CreatedByUserID :: "uuid option"
  en_DeleteRequestedAt :: "time option"
  en_CreatedAt :: time
  en_UpdatedAt :: time

record DevMachineScopeSetting =
  ss_ID :: uuid
  ss_WorkspaceID :: uuid
  ss_TeamID :: "uuid option"
  ss_ProjectID :: "uuid option"
  ss_IssueID :: "uuid option"
  ss_GitHubRepoID :: "uuid option"
  ss_BaseBranch :: "string option"
  ss_EnvironmentID :: "uuid option"
  ss_CreatedAt :: time
  ss_UpdatedAt :: time

record DevMachineCheckout =
  co_ID :: uuid
  co_WorkspaceID :: uuid
  co_MachineID :: uuid
  co_IssueID :: uuid
  co_GitHubRepoID :: uuid
  co_RepositoryFullName :: string
  co_BaseBranch :: string
  co_WorkingBranch :: string
  co_WorkspacePath :: string
  co_Status :: string
  co_LastError :: "string option"
  co_CreatedAt :: time
  co_UpdatedAt :: time
  co_LastActivityAt :: "time option"

record DevMachineTerminalSession =
  ts_ID :: uuid
  ts_WorkspaceID :: uuid
  ts_MachineID :: uuid
  ts_CheckoutID :: "uuid option"
  ts_UserID :: uuid
  ts_Name :: string
  ts_RuntimeSessionName :: string
  ts_Status :: string
  ts_CreatedAt :: time
  ts_LastActivityAt :: time
  ts_ClosedAt :: "time option"

text \<open>The tables of the GitHub integration the control plane reads (\<open>BE/internal/domain/github.go\<close>).\<close>

record GitHubInstallation =
  gi_ID :: uuid
  gi_WorkspaceID :: uuid
  gi_InstallationID :: int
  gi_AccountLogin :: string
  gi_AccountType :: string
  gi_AccessToken :: string
  gi_TokenExpiresAt :: "time option"
  gi_InstalledBy :: uuid
  gi_CreatedAt :: time
  gi_UpdatedAt :: time

record GitHubRepoModel =
  gh_ID :: uuid
  gh_InstallationID :: uuid
  gh_WorkspaceID :: uuid
  gh_GitHubRepoID :: int
  gh_FullName :: string
  gh_DefaultBranch :: string
  gh_IsActive :: bool
  gh_CreatedAt :: time

record GitHubAppConfig =
  gc_ID :: uuid
  gc_WorkspaceID :: uuid
  gc_AppID :: int
  gc_AppSlug :: "string option"
  gc_ClientID :: string
  gc_ClientSecret :: string
  gc_PrivateKey :: string
  gc_WebhookSecret :: string
  gc_HTMLURL :: "string option"
  gc_CreatedAt :: time

text \<open>
  The rows of \<open>issues\<close> and \<open>projects\<close> (\<open>BE/internal/domain/issue.go\<close>, \<open>project.go\<close>); what they
  share with the rows of \<open>teams\<close>, of which no more is read, is an \<open>owned_row\<close>.
\<close>

record owned_row =
  ow_ID :: uuid
  ow_WorkspaceID :: uuid

record Issue = owned_row +
  iss_TeamID :: uuid
  iss_ProjectID :: "uuid option"
  iss_CycleID :: "uuid option"
  iss_Number :: int
  iss_Identifier :: string
  iss_Title :: string
  iss_Description :: "string option"
  iss_Status :: string
  iss_Priority :: int
  iss_CreatorID :: uuid
  iss_AssigneeID :: "uuid option"
  iss_ParentID :: "uuid option"
  iss_DueDate :: "time option"
  iss_SortOrder :: float64
  iss_StatusID :: "uuid option"
  iss_Triaged :: bool
  iss_StartedAt :: "time option"
  iss_CompletedAt :: "time option"
  iss_CancelledAt :: "time option"
  iss_TriagedAt :: "time option"
  iss_CreatedAt :: time
  iss_UpdatedAt :: time

record Project = owned_row +
  pj_TeamID :: "uuid option"
  pj_Name :: string
  pj_Description :: "string option"
  pj_Status :: string
  pj_LeadID :: "uuid option"
  pj_StartDate :: "time option"
  pj_TargetDate :: "time option"
  pj_SortOrder :: float64
  pj_CreatedAt :: time
  pj_UpdatedAt :: time

section \<open>Operations allowed in a status\<close>

fun ValidOperationForStatus :: "DevMachineOperationAction \<Rightarrow> DevMachineStatus \<Rightarrow> bool" where
  "ValidOperationForStatus OpSpawn status =
     (status = StatusConfiguring \<or> status = StatusQueued \<or> status = StatusFailed)"
| "ValidOperationForStatus OpStart status =
     (status = StatusStopped \<or> status = StatusPaused \<or> status = StatusFailed)"
| "ValidOperationForStatus OpStop status = (status = StatusRunning \<or> status = StatusPaused)"
| "ValidOperationForStatus OpPause status = (status = StatusRunning)"
| "ValidOperationForStatus OpTeardown status =
     (status \<noteq> StatusDestroyed \<and> status \<noteq> StatusTearingDown)"
| "ValidOperationForStatus OpReconcile status = (status \<noteq> StatusDestroyed)"
| "ValidOperationForStatus OpRunAgent status = (status = StatusRunning)"
| "ValidOperationForStatus OpCancelAgent status = (status = StatusRunning)"
| "ValidOperationForStatus OpCheckoutIssue status = (status = StatusRunning)"
| "ValidOperationForStatus OpSnapshotEnvironment status =
     (status = StatusPaused \<or> status = StatusStopped)"
| "ValidOperationForStatus _ status = False"

text \<open>The pointer argument may be nil.\<close>

definition DevMachineSafelyPurgeable :: "DevMachine option \<Rightarrow> bool" where
  "DevMachineSafelyPurgeable machine =
     (case machine of
        None \<Rightarrow> False
      | Some m \<Rightarrow>
          (if m_Status m = StatusDestroyed then True
           else if m_Status m = StatusFailed \<or> m_Status m = StatusExpired
           then m_DockerNetworkName m = None \<and> m_WorkspaceVolumeName m = None
           else False))"

text \<open>CPU in thousandths of a core, memory in MB, disk in GB, runtime in minutes.\<close>

definition DevMachineSize :: "string \<Rightarrow> int \<times> int \<times> int \<times> int \<times> bool" where
  "DevMachineSize sz =
     (if sz = ''small'' then (2000, 4096, 20, 120, True)
      else if sz = ''medium'' then (4000, 8192, 50, 240, True)
      else if sz = ''large'' then (8000, 16384, 100, 480, True)
      else (0, 0, 0, 0, False))"

section \<open>Status classes the SQL of the repository tests\<close>

definition run_active :: "DevMachineAgentRunStatus \<Rightarrow> bool" where
  "run_active status \<longleftrightarrow> status \<in> {RunQueued, RunStarting, RunRunning, RunWaitingInput}"

definition terminalAgentStatus :: "DevMachineAgentRunStatus \<Rightarrow> bool" where
  "terminalAgentStatus status \<longleftrightarrow> status \<in> {RunSucceeded, RunFailed, RunCancelled, RunTimeout}"

definition op_unfinished :: "DevMachineOperationStatus \<Rightarrow> bool" where
  "op_unfinished status \<longleftrightarrow> status \<in> {OpStatusPending, OpStatusLeased}"

definition counts_against_quota :: "DevMachine \<Rightarrow> bool" where
  "counts_against_quota m \<longleftrightarrow>
     m_Status m \<notin> {StatusDestroyed, StatusFailed, StatusExpired, StatusStopped}
     \<or> m_DesiredStatus m = StatusRunning"

lemma run_active_iff [simp]: "run_active status \<longleftrightarrow> \<not> terminalAgentStatus status"
  by (cases status) (simp_all add: run_active_def terminalAgentStatus_def)

lemma op_unfinished_simps [simp]:
  "op_unfinished OpStatusPending" "op_unfinished OpStatusLeased"
  "\<not> op_unfinished OpStatusCompleted" "\<not> op_unfinished OpStatusFailed"
  "\<not> op_unfinished OpStatusCancelled"
  by (simp_all add: op_unfinished_def)

lemma terminalAgentStatus_simps [simp]:
  "terminalAgentStatus RunSucceeded" "terminalAgentStatus RunFailed"
  "terminalAgentStatus RunCancelled" "terminalAgentStatus RunTimeout"
  "\<not> terminalAgentStatus RunQueued" "\<not> terminalAgentStatus RunStarting"
  "\<not> terminalAgentStatus RunRunning" "\<not> terminalAgentStatus RunWaitingInput"
  by (simp_all add: terminalAgentStatus_def)

lemma DevMachineSafelyPurgeable_Some:
  "DevMachineSafelyPurgeable (Some m) \<longleftrightarrow>
     m_Status m = StatusDestroyed
     \<or> (m_Status m \<in> {StatusExpired, StatusFailed}
        \<and> m_DockerNetworkName m = None \<and> m_WorkspaceVolumeName m = None)"
  by (auto simp: DevMachineSafelyPurgeable_def)

end
