(* ===== verification/Machine_Store.thy ===== *)
theory Machine_Store
  imports Machine_Domain
begin

text \<open>
  The control plane's database and its durable operation queue
  (\<open>BE/internal/repository/dev_machine.go\<close>, functions \<open>enqueueOperation\<close>, \<open>LeaseOperations\<close>,
  \<open>RenewOperationLease\<close>, \<open>CompleteOperation\<close>, \<open>FailOperation\<close>). One table of the migration
  \<open>BE/migrations/000033_dev_machines.up.sql\<close> is one list of rows of the record \<open>db\<close>. The
  \<open>updated_at\<close> triggers, the unique keys and the foreign keys the statements rely on are written
  out. Each statement or transaction runs alone (the source serialises writers of a machine by
  advisory and row locks); rows another transaction holds locked, which \<open>SKIP LOCKED\<close> passes over,
  are the argument \<open>locked\<close>. Where SQL leaves the order of equal rows open, the model takes table
  order.
\<close>

section \<open>Errors and the database\<close>

datatype store_error =
    ErrNoRows
  | ErrIdempotencyKeyConflict
  | ErrCheckoutMachineConflict
  | ErrActiveAgentRun
  | ErrMachineStateConflict
  | ErrMachineQuota
  | ErrMachineNameConflict
  | ErrEnvironmentInUse
  | ErrEnvironmentUnavailable
  | ErrEnvironmentInvalidState
  | ErrEnvironmentDeletionConflict
  | ErrLeaseLost
  | ErrDailyRunLimit
  | ErrInvalidProject
  | ErrInvalidIssue
  | ErrInvalidScope
  | ErrUniqueViolation
  | ErrForeignKey
  | ErrCheckViolation
  | ErrIntegerRange
  | ErrWorkspaceSlugTaken
  | ErrWorkspaceHasDevMachineRuntimes
  | ErrWorkspaceEnvironmentCleanupPending
  | ErrContext
  | ErrDatabase

record WorkspaceMember =
  wm_WorkspaceID :: uuid
  wm_UserID :: uuid
  wm_Role :: string
  wm_CreatedAt :: time

record db =
  db_machines :: "DevMachine list"
  db_operations :: "DevMachineOperation list"
  db_runs :: "DevMachineAgentRun list"
  db_services :: "DevMachineService list"
  db_providers :: "DevMachineAgentProvider list"
  db_volumes :: "DevMachineVolume list"
  db_envvars :: "DevMachineEnvVar list"
  db_tokens :: "DevMachineToken list"
  db_credentials :: "DevMachineRuntimeCredential list"
  db_events :: "DevMachineEvent list"
  db_logs :: "DevMachineLogChunk list"
  db_gitrefs :: "DevMachineGitRef list"
  db_tickets :: "DevMachineAccessTicket list"
  db_sessions :: "DevMachineAccessSession list"
  db_accesslogs :: "DevMachineAccessLog list"
  db_samples :: "DevMachineResourceSample list"
  db_policies :: "DevMachineWorkspacePolicy list"
  db_environments :: "DevMachineEnvironment list"
  db_settings :: "DevMachineScopeSetting list"
  db_checkouts :: "DevMachineCheckout list"
  db_terminals :: "DevMachineTerminalSession list"
  db_members :: "WorkspaceMember list"
  db_projects :: "Project list"
  db_issues :: "Issue list"
  db_teams :: "owned_row list"
  db_installations :: "GitHubInstallation list"
  db_repos :: "GitHubRepoModel list"
  db_appconfigs :: "GitHubAppConfig list"

section \<open>Foreign keys of an operation\<close>

text \<open>A nullable column that is \<open>NULL\<close> satisfies its foreign key.\<close>

definition references :: "('r \<Rightarrow> bool) \<Rightarrow> 'a option \<Rightarrow> 'r list \<Rightarrow> bool" where
  "references P key rows \<longleftrightarrow> key = None \<or> exists_where P rows"

definition operation_references :: "db \<Rightarrow> DevMachineOperation \<Rightarrow> bool" where
  "operation_references d operation \<longleftrightarrow>
     exists_where (\<lambda>m. m_WorkspaceID m = op_WorkspaceID operation \<and> m_ID m = op_MachineID operation)
       (db_machines d)
   \<and> references (\<lambda>r. ar_WorkspaceID r = op_WorkspaceID operation
         \<and> ar_MachineID r = op_MachineID operation \<and> Some (ar_ID r) = op_AgentRunID operation)
       (op_AgentRunID operation) (db_runs d)
   \<and> references (\<lambda>c. co_WorkspaceID c = op_WorkspaceID operation
         \<and> co_MachineID c = op_MachineID operation \<and> Some (co_ID c) = op_CheckoutID operation)
       (op_CheckoutID operation) (db_checkouts d)
   \<and> references (\<lambda>e. en_WorkspaceID e = op_WorkspaceID operation
         \<and> en_SourceMachineID e = Some (op_MachineID operation)
         \<and> Some (en_ID e) = op_EnvironmentID operation)
       (op_EnvironmentID operation) (db_environments d)
   \<and> references (\<lambda>t. ts_WorkspaceID t = op_WorkspaceID operation
         \<and> ts_MachineID t = op_MachineID operation \<and> Some (ts_ID t) = op_TerminalSessionID operation)
       (op_TerminalSessionID operation) (db_terminals d)"

section \<open>The queue's operations\<close>

definition touch_op :: "time \<Rightarrow> DevMachineOperation \<Rightarrow> DevMachineOperation" where
  "touch_op now operation = operation\<lparr>op_UpdatedAt := now\<rparr>"

definition same_key :: "DevMachineOperation \<Rightarrow> DevMachineOperation \<Rightarrow> bool" where
  "same_key operation r \<longleftrightarrow> op_MachineID r = op_MachineID operation
     \<and> op_IdempotencyKey r = op_IdempotencyKey operation"

text \<open>The row the \<open>INSERT\<close> writes: the columns it lists, the others at their defaults.\<close>

definition new_operation_row :: "time \<Rightarrow> DevMachineOperation \<Rightarrow> DevMachineOperation" where
  "new_operation_row now operation = operation\<lparr>
     op_TerminalSessionID := None, op_LeaseOwner := None, op_LeaseExpiresAt := None,
     op_Attempts := 0, op_ErrorCode := None, op_ErrorMessage := None, op_AvailableAt := now,
     op_CreatedAt := now, op_UpdatedAt := now, op_CompletedAt := None\<rparr>"

text \<open>\<open>RETURNING id, status, attempts, available_at, created_at, updated_at\<close>, scanned into the caller's struct.\<close>

definition scan_operation :: "DevMachineOperation \<Rightarrow> DevMachineOperation \<Rightarrow> DevMachineOperation" where
  "scan_operation row operation = operation\<lparr>
     op_ID := op_ID row, op_Status := op_Status row, op_Attempts := op_Attempts row,
     op_AvailableAt := op_AvailableAt row, op_CreatedAt := op_CreatedAt row,
     op_UpdatedAt := op_UpdatedAt row\<rparr>"

definition default_operation :: "uuid \<Rightarrow> DevMachineOperation \<Rightarrow> DevMachineOperation" where
  "default_operation fresh operation =
     (let o1 = (if op_ID operation = uuid_Nil then operation\<lparr>op_ID := fresh\<rparr> else operation)
      in if op_MaxAttempts o1 = 0 then o1\<lparr>op_MaxAttempts := 5\<rparr> else o1)"

definition enqueueOperation ::
  "time \<Rightarrow> uuid \<Rightarrow> DevMachineOperation \<Rightarrow> db \<Rightarrow> store_error + (DevMachineOperation \<times> db)" where
  "enqueueOperation now fresh operation0 d =
     (let operation = default_operation fresh operation0 in
      case find (same_key operation) (db_operations d) of
        Some existing \<Rightarrow>
          Inr (scan_operation (touch_op now existing) operation,
               d\<lparr>db_operations := update_where (same_key operation) (touch_op now) (db_operations d)\<rparr>)
      | None \<Rightarrow>
          if op_MaxAttempts operation \<le> 0 then Inl ErrCheckViolation
          else if exists_where (\<lambda>r. op_ID r = op_ID operation) (db_operations d)
          then Inl ErrUniqueViolation
          else if \<not> operation_references d (new_operation_row now operation)
          then Inl ErrForeignKey
          else (let row = new_operation_row now operation in
            Inr (scan_operation row operation, d\<lparr>db_operations := db_operations d @ [row]\<rparr>)))"

definition EnqueueInternalOperation ::
  "time \<Rightarrow> uuid \<Rightarrow> DevMachineOperation \<Rightarrow> db \<Rightarrow> store_error + (DevMachineOperation \<times> db)" where
  "EnqueueInternalOperation now fresh operation d = enqueueOperation now fresh operation d"

definition GetOperationByIdempotency ::
  "uuid \<Rightarrow> uuid \<Rightarrow> string \<Rightarrow> db \<Rightarrow> DevMachineOperation option" where
  "GetOperationByIdempotency workspaceID machineID key d =
     find (\<lambda>r. op_WorkspaceID r = workspaceID \<and> op_MachineID r = machineID
            \<and> op_IdempotencyKey r = key) (db_operations d)"

text \<open>The actions the queue serves first and beside a running operation.\<close>

definition cleanup_action :: "DevMachineOperationAction \<Rightarrow> bool" where
  "cleanup_action action \<longleftrightarrow> action \<in> {OpTeardown, OpCancelAgent, OpTerminateTerminal}"

definition lease_live :: "time \<Rightarrow> DevMachineOperation \<Rightarrow> bool" where
  "lease_live now r \<longleftrightarrow> op_Status r = OpStatusLeased
     \<and> (case op_LeaseExpiresAt r of None \<Rightarrow> False | Some t \<Rightarrow> now \<le> t)"

definition lease_expired :: "time \<Rightarrow> DevMachineOperation \<Rightarrow> bool" where
  "lease_expired now r \<longleftrightarrow> op_Status r = OpStatusLeased
     \<and> (case op_LeaseExpiresAt r of None \<Rightarrow> False | Some t \<Rightarrow> t < now)"

definition leasable :: "time \<Rightarrow> db \<Rightarrow> DevMachineOperation \<Rightarrow> bool" where
  "leasable now d r \<longleftrightarrow>
     (op_Status r = OpStatusPending \<and> op_AvailableAt r \<le> now \<or> lease_expired now r)
   \<and> (cleanup_action (op_Action r)
      \<or> \<not> exists_where (\<lambda>l. op_MachineID l = op_MachineID r \<and> op_ID l \<noteq> op_ID r \<and> lease_live now l)
            (db_operations d))"

definition lease_rank :: "DevMachineOperation \<Rightarrow> int \<times> int \<times> int" where
  "lease_rank r = (if cleanup_action (op_Action r) then 0 else 1, - op_Generation r, op_CreatedAt r)"

text \<open>\<open>ROW_NUMBER() OVER (PARTITION BY machine_id ORDER BY \<dots>) = 1\<close>\<close>

definition first_of_machine :: "time \<Rightarrow> db \<Rightarrow> DevMachineOperation \<Rightarrow> bool" where
  "first_of_machine now d r \<longleftrightarrow>
     (case sort_key lease_rank
        (filter (\<lambda>s. leasable now d s \<and> op_MachineID s = op_MachineID r) (db_operations d)) of
        [] \<Rightarrow> False
      | s # _ \<Rightarrow> op_ID s = op_ID r)"

definition lease_candidates ::
  "time \<Rightarrow> (uuid \<Rightarrow> bool) \<Rightarrow> nat \<Rightarrow> db \<Rightarrow> DevMachineOperation list" where
  "lease_candidates now locked limit d =
     take limit (sort_key lease_rank
       (filter (\<lambda>r. leasable now d r \<and> first_of_machine now d r
            \<and> exists_where (\<lambda>m. m_ID m = op_MachineID r) (db_machines d) \<and> \<not> locked (op_ID r))
          (db_operations d)))"

text \<open>\<open>int(duration.Seconds())\<close>: truncation towards zero.\<close>

definition whole_seconds :: "duration \<Rightarrow> int" where
  "whole_seconds duration =
     (if 0 \<le> duration then duration div 1000000000 else - ((- duration) div 1000000000))"

definition lease_row :: "time \<Rightarrow> string \<Rightarrow> duration \<Rightarrow> DevMachineOperation \<Rightarrow> DevMachineOperation" where
  "lease_row now owner duration r = r\<lparr>op_Status := OpStatusLeased, op_LeaseOwner := Some owner,
     op_LeaseExpiresAt := Some (now + seconds (whole_seconds duration)),
     op_Attempts := op_Attempts r + 1, op_UpdatedAt := now\<rparr>"

definition LeaseOperations ::
  "time \<Rightarrow> (uuid \<Rightarrow> bool) \<Rightarrow> string \<Rightarrow> nat \<Rightarrow> duration \<Rightarrow> db \<Rightarrow> DevMachineOperation list \<times> db" where
  "LeaseOperations now locked owner limit duration d =
     (let ids = map op_ID (lease_candidates now locked limit d);
          operations = update_where (\<lambda>r. op_ID r \<in> set ids) (lease_row now owner duration) (db_operations d)
      in (filter (\<lambda>r. op_ID r \<in> set ids) operations, d\<lparr>db_operations := operations\<rparr>))"

definition leased_by :: "uuid \<Rightarrow> string \<Rightarrow> DevMachineOperation \<Rightarrow> bool" where
  "leased_by i owner r \<longleftrightarrow> op_ID r = i \<and> op_Status r = OpStatusLeased \<and> op_LeaseOwner r = Some owner"

definition RenewOperationLease ::
  "time \<Rightarrow> uuid \<Rightarrow> string \<Rightarrow> duration \<Rightarrow> db \<Rightarrow> store_error + db" where
  "RenewOperationLease now i owner duration d =
     (if rows_affected (leased_by i owner) (db_operations d) \<noteq> 1 then Inl ErrLeaseLost
      else Inr (d\<lparr>db_operations := update_where (leased_by i owner)
        (\<lambda>r. r\<lparr>op_LeaseExpiresAt := Some (now + seconds (whole_seconds duration)), op_UpdatedAt := now\<rparr>)
        (db_operations d)\<rparr>))"

definition CompleteOperation :: "time \<Rightarrow> uuid \<Rightarrow> string \<Rightarrow> db \<Rightarrow> store_error + db" where
  "CompleteOperation now i owner d =
     (if rows_affected (leased_by i owner) (db_operations d) \<noteq> 1 then Inl ErrLeaseLost
      else Inr (d\<lparr>db_operations := update_where (leased_by i owner)
        (\<lambda>r. r\<lparr>op_Status := OpStatusCompleted, op_CompletedAt := Some now, op_LeaseOwner := None,
               op_LeaseExpiresAt := None, op_UpdatedAt := now\<rparr>)
        (db_operations d)\<rparr>))"

text \<open>SQL's \<open>INT\<close> product \<open>attempts * attempts * 5\<close> fails outside 32 bits.\<close>

definition backoff_seconds :: "int \<Rightarrow> int" where
  "backoff_seconds attempts = min 300 (attempts * attempts * 5)"

definition owned_by :: "uuid \<Rightarrow> string \<Rightarrow> DevMachineOperation \<Rightarrow> bool" where
  "owned_by i owner r \<longleftrightarrow> op_ID r = i \<and> op_LeaseOwner r = Some owner"

definition failed_row ::
  "time \<Rightarrow> string \<Rightarrow> string \<Rightarrow> bool \<Rightarrow> DevMachineOperation \<Rightarrow> DevMachineOperation" where
  "failed_row now code message retryable r =
     (let again = retryable \<and> op_Attempts r < op_MaxAttempts r in
      r\<lparr>op_Status := (if again then OpStatusPending else OpStatusFailed),
        op_ErrorCode := Some code, op_ErrorMessage := Some message,
        op_LeaseOwner := None, op_LeaseExpiresAt := None,
        op_AvailableAt := now + seconds (backoff_seconds (op_Attempts r)),
        op_CompletedAt := (if again then None else Some now), op_UpdatedAt := now\<rparr>)"

definition FailOperation ::
  "time \<Rightarrow> uuid \<Rightarrow> string \<Rightarrow> string \<Rightarrow> string \<Rightarrow> bool \<Rightarrow> db \<Rightarrow> store_error + (bool \<times> db)" where
  "FailOperation now i owner code message retryable d =
     (case find (owned_by i owner) (db_operations d) of
        None \<Rightarrow> Inl ErrNoRows
      | Some r \<Rightarrow>
          if op_Attempts r * op_Attempts r * 5 \<ge> 2 ^ 31 then Inl ErrIntegerRange
          else Inr (op_Status (failed_row now code message retryable r) = OpStatusPending,
            d\<lparr>db_operations := update_where (owned_by i owner)
               (failed_row now code message retryable) (db_operations d)\<rparr>))"

section \<open>Well-formed queues\<close>

definition lease_wf :: "DevMachineOperation \<Rightarrow> bool" where
  "lease_wf r \<longleftrightarrow> (op_Status r = OpStatusLeased \<longleftrightarrow> op_LeaseOwner r \<noteq> None)
     \<and> (op_LeaseOwner r = None \<longleftrightarrow> op_LeaseExpiresAt r = None)"

definition op_key :: "DevMachineOperation \<Rightarrow> uuid \<times> string" where
  "op_key r = (op_MachineID r, op_IdempotencyKey r)"

text \<open>
  The primary key, the unique key on \<open>(machine_id, idempotency_key)\<close>, and the agreement of status,
  lease owner and lease expiry.
\<close>

definition ops_wf :: "DevMachineOperation list \<Rightarrow> bool" where
  "ops_wf rows \<longleftrightarrow> distinct (map op_ID rows) \<and> distinct (map op_key rows)
     \<and> (\<forall>r \<in> set rows. lease_wf r)"

lemma ops_wf_append:
  assumes "ops_wf rows" and "lease_wf r"
    and "\<forall>s \<in> set rows. op_ID s \<noteq> op_ID r" and "\<forall>s \<in> set rows. op_key s \<noteq> op_key r"
  shows "ops_wf (rows @ [r])"
  using assms by (force simp: ops_wf_def)

lemma same_key_iff: "same_key operation r \<longleftrightarrow> op_key r = op_key operation"
  by (simp add: same_key_def op_key_def)

text \<open>An update of operations that keeps identity and key.\<close>

locale op_update =
  fixes f :: "DevMachineOperation \<Rightarrow> DevMachineOperation"
  assumes id_stable: "op_ID (f r) = op_ID r"
    and key_stable: "op_key (f r) = op_key r"
begin

sublocale by_id: keyed_update op_ID f
  by unfold_locales (rule id_stable)

sublocale by_key: keyed_update op_key f
  by unfold_locales (rule key_stable)

lemma update_wf:
  assumes "ops_wf rows" and "\<And>r. r \<in> set rows \<Longrightarrow> P r \<Longrightarrow> lease_wf (f r)"
  shows "ops_wf (update_where P f rows)"
  using assms
  by (auto simp: ops_wf_def by_id.distinct_keys by_key.distinct_keys elim!: in_update_whereE)

end

interpretation touch_up: op_update "touch_op now"
  by unfold_locales (simp_all add: touch_op_def op_key_def)

interpretation lease_up: op_update "lease_row now owner duration"
  by unfold_locales (simp_all add: lease_row_def op_key_def)

interpretation renew_up: op_update "\<lambda>r. r\<lparr>op_LeaseExpiresAt := t, op_UpdatedAt := now\<rparr>"
  by unfold_locales (simp_all add: op_key_def)

interpretation complete_up: op_update "\<lambda>r. r\<lparr>op_Status := st, op_CompletedAt := c,
    op_LeaseOwner := None, op_LeaseExpiresAt := None, op_UpdatedAt := now\<rparr>"
  by unfold_locales (simp_all add: op_key_def)

interpretation fail_up: op_update "failed_row now code message retryable"
  by unfold_locales (simp_all add: failed_row_def op_key_def Let_def)

section \<open>Enqueueing\<close>

lemma default_operation_key [simp]:
  "op_MachineID (default_operation fresh operation) = op_MachineID operation"
  "op_IdempotencyKey (default_operation fresh operation) = op_IdempotencyKey operation"
  "op_Action (default_operation fresh operation) = op_Action operation"
  "op_Status (default_operation fresh operation) = op_Status operation"
  "op_Generation (default_operation fresh operation) = op_Generation operation"
  "op_WorkspaceID (default_operation fresh operation) = op_WorkspaceID operation"
  by (simp_all add: default_operation_def Let_def)

lemma new_operation_row_fields [simp]:
  "op_ID (new_operation_row now operation) = op_ID operation"
  "op_MachineID (new_operation_row now operation) = op_MachineID operation"
  "op_WorkspaceID (new_operation_row now operation) = op_WorkspaceID operation"
  "op_IdempotencyKey (new_operation_row now operation) = op_IdempotencyKey operation"
  "op_Action (new_operation_row now operation) = op_Action operation"
  "op_Status (new_operation_row now operation) = op_Status operation"
  "op_Generation (new_operation_row now operation) = op_Generation operation"
  "op_LeaseOwner (new_operation_row now operation) = None"
  "op_LeaseExpiresAt (new_operation_row now operation) = None"
  by (simp_all add: new_operation_row_def)

text \<open>The two ways an enqueue succeeds: a row with the same key is there already, or a row is added.\<close>

lemma enqueueOperation_cases:
  assumes "enqueueOperation now fresh operation d = Inr (result, d')"
  obtains (existing) row where
      "find (same_key (default_operation fresh operation)) (db_operations d) = Some row"
      "d' = d\<lparr>db_operations := update_where (same_key operation) (touch_op now) (db_operations d)\<rparr>"
      "result = scan_operation (touch_op now row) (default_operation fresh operation)"
    | (added) row where
      "row = new_operation_row now (default_operation fresh operation)"
      "\<forall>s \<in> set (db_operations d). \<not> same_key operation s \<and> op_ID s \<noteq> op_ID row"
      "operation_references d row"
      "d' = d\<lparr>db_operations := db_operations d @ [row]\<rparr>"
      "result = scan_operation row (default_operation fresh operation)"
proof -
  have key: "same_key (default_operation fresh operation) = same_key operation"
    by (simp add: same_key_def fun_eq_iff)
  show thesis
  proof (cases "find (same_key (default_operation fresh operation)) (db_operations d)")
    case (Some row)
    with assms key show thesis
      by (intro existing) (auto simp: enqueueOperation_def Let_def)
  next
    case None
    with key have "\<forall>s \<in> set (db_operations d). \<not> same_key operation s"
      by (auto simp: find_None_all)
    with assms None show thesis
      by (intro added [OF refl])
        (auto simp: enqueueOperation_def Let_def table_simps split: if_splits)
  qed
qed

lemma enqueueOperation_frame:
  "enqueueOperation now fresh operation d = Inr (result, d')
     \<Longrightarrow> \<exists>rows. d' = d\<lparr>db_operations := rows\<rparr>"
  by (erule enqueueOperation_cases) auto

lemma enqueueOperation_wf:
  assumes "enqueueOperation now fresh operation d = Inr (result, d')"
    and "ops_wf (db_operations d)" and "op_Status operation \<noteq> OpStatusLeased"
  shows "ops_wf (db_operations d')"
  using assms(1)
proof (cases rule: enqueueOperation_cases)
  case (existing row)
  have "ops_wf (update_where (same_key operation) (touch_op now) (db_operations d))"
    by (rule touch_up.update_wf [OF assms(2)])
      (use assms(2) in \<open>auto simp: ops_wf_def lease_wf_def touch_op_def\<close>)
  with existing show ?thesis by simp
next
  case (added row)
  have "op_key row = op_key operation"
    by (simp add: added(1) op_key_def)
  moreover have "lease_wf row"
    using assms(3) by (simp add: added(1) lease_wf_def)
  ultimately show ?thesis
    using added assms(2) by (auto intro!: ops_wf_append simp: same_key_iff)
qed

section \<open>Leasing\<close>

definition lease_ids :: "time \<Rightarrow> (uuid \<Rightarrow> bool) \<Rightarrow> nat \<Rightarrow> db \<Rightarrow> uuid set" where
  "lease_ids now locked limit d = set (map op_ID (lease_candidates now locked limit d))"

lemma LeaseOperations_ops:
  "snd (LeaseOperations now locked owner limit duration d)
     = d\<lparr>db_operations := update_where (\<lambda>r. op_ID r \<in> lease_ids now locked limit d)
         (lease_row now owner duration) (db_operations d)\<rparr>"
  by (simp add: LeaseOperations_def lease_ids_def Let_def)

lemma LeaseOperations_result:
  "fst (LeaseOperations now locked owner limit duration d)
     = filter (\<lambda>r. op_ID r \<in> lease_ids now locked limit d)
         (db_operations (snd (LeaseOperations now locked owner limit duration d)))"
  by (simp add: LeaseOperations_def lease_ids_def Let_def)

lemma lease_candidatesD:
  assumes "c \<in> set (lease_candidates now locked limit d)"
  shows "c \<in> set (db_operations d)" "leasable now d c" "first_of_machine now d c" "\<not> locked (op_ID c)"
  using assms by (auto simp: lease_candidates_def dest: in_set_takeD)

lemma lease_idsD:
  assumes "ops_wf (db_operations d)" and "r \<in> set (db_operations d)"
    and "op_ID r \<in> lease_ids now locked limit d"
  shows "r \<in> set (lease_candidates now locked limit d)"
proof -
  from assms(3) obtain c where c: "c \<in> set (lease_candidates now locked limit d)" "op_ID c = op_ID r"
    by (auto simp: lease_ids_def)
  with assms have "c = r"
    by (auto simp: ops_wf_def dest: lease_candidatesD(1) intro: distinct_key_eq)
  with c show ?thesis by simp
qed

lemma lease_ids_facts:
  assumes "ops_wf (db_operations d)" and "r \<in> set (db_operations d)"
    and "op_ID r \<in> lease_ids now locked limit d"
  shows "leasable now d r" "first_of_machine now d r" "\<not> locked (op_ID r)"
  using lease_idsD [OF assms] by (auto dest: lease_candidatesD)

lemma first_of_machine_unique:
  assumes "first_of_machine now d r" and "first_of_machine now d s" and "op_MachineID r = op_MachineID s"
  shows "op_ID r = op_ID s"
  using assms by (auto simp: first_of_machine_def split: list.splits)

lemma lease_row_live: "0 \<le> duration \<Longrightarrow> lease_live now (lease_row now owner duration r)"
  by (simp add: lease_live_def lease_row_def whole_seconds_def)

lemma lease_row_wf: "lease_wf (lease_row now owner duration r)"
  by (simp add: lease_wf_def lease_row_def)

lemma lease_row_fields [simp]:
  "op_ID (lease_row now owner duration r) = op_ID r"
  "op_MachineID (lease_row now owner duration r) = op_MachineID r"
  "op_Action (lease_row now owner duration r) = op_Action r"
  "op_Generation (lease_row now owner duration r) = op_Generation r"
  "op_CreatedAt (lease_row now owner duration r) = op_CreatedAt r"
  "op_Status (lease_row now owner duration r) = OpStatusLeased"
  "op_LeaseOwner (lease_row now owner duration r) = Some owner"
  "op_Attempts (lease_row now owner duration r) = op_Attempts r + 1"
  "op_MaxAttempts (lease_row now owner duration r) = op_MaxAttempts r"
  by (simp_all add: lease_row_def)

lemma LeaseOperations_wf:
  "ops_wf (db_operations d)
     \<Longrightarrow> ops_wf (db_operations (snd (LeaseOperations now locked owner limit duration d)))"
  by (simp add: LeaseOperations_ops lease_up.update_wf lease_row_wf)

text \<open>
  At most one live lease per machine on the operations that change its runtime (the cleanup
  actions may run beside them).
\<close>

definition exclusive :: "time \<Rightarrow> DevMachineOperation list \<Rightarrow> bool" where
  "exclusive now rows \<longleftrightarrow>
     (\<forall>r \<in> set rows. \<forall>s \<in> set rows.
        lease_live now r \<and> lease_live now s \<and> \<not> cleanup_action (op_Action r)
        \<and> \<not> cleanup_action (op_Action s) \<and> op_MachineID r = op_MachineID s \<longrightarrow> op_ID r = op_ID s)"

lemma lease_live_earlier: "lease_live later r \<Longrightarrow> now \<le> later \<Longrightarrow> lease_live now r"
  by (auto simp: lease_live_def split: option.splits)

lemma exclusive_later: "exclusive now rows \<Longrightarrow> now \<le> later \<Longrightarrow> exclusive later rows"
  unfolding exclusive_def by (meson lease_live_earlier)

lemma exclusiveI_ids:
  assumes "\<And>r s. r \<in> set rows \<Longrightarrow> s \<in> set rows \<Longrightarrow> lease_live now r \<Longrightarrow> lease_live now s
      \<Longrightarrow> \<not> cleanup_action (op_Action r) \<Longrightarrow> \<not> cleanup_action (op_Action s)
      \<Longrightarrow> op_MachineID r = op_MachineID s \<Longrightarrow> op_ID r = op_ID s"
  shows "exclusive now rows"
  unfolding exclusive_def using assms by blast

lemma leasable_excludes:
  assumes "leasable now d r" and "\<not> cleanup_action (op_Action r)" and "s \<in> set (db_operations d)"
    and "lease_live now s" and "op_MachineID s = op_MachineID r"
  shows "op_ID s = op_ID r"
  using assms by (auto simp: leasable_def table_simps)

lemma LeaseOperations_exclusive:
  assumes wf: "ops_wf (db_operations d)" and ex: "exclusive now (db_operations d)"
  shows "exclusive now (db_operations (snd (LeaseOperations now locked owner limit duration d)))"
proof (rule exclusiveI_ids)
  let ?ids = "lease_ids now locked limit d"
  let ?ops = "update_where (\<lambda>r. op_ID r \<in> ?ids) (lease_row now owner duration) (db_operations d)"
  fix r' s'
  assume r': "r' \<in> set (db_operations (snd (LeaseOperations now locked owner limit duration d)))"
    and s': "s' \<in> set (db_operations (snd (LeaseOperations now locked owner limit duration d)))"
    and live: "lease_live now r'" "lease_live now s'"
    and normal: "\<not> cleanup_action (op_Action r')" "\<not> cleanup_action (op_Action s')"
    and same: "op_MachineID r' = op_MachineID s'"
  note won = lease_ids_facts [OF wf, where now = now and locked = locked and limit = limit]
  from r' have r'u: "r' \<in> set ?ops" by (simp add: LeaseOperations_ops)
  from s' have s'u: "s' \<in> set ?ops" by (simp add: LeaseOperations_ops)
  from r'u show "op_ID r' = op_ID s'"
  proof (cases rule: in_update_whereE)
    case r: (1 r)
    from s'u show ?thesis
    proof (cases rule: in_update_whereE)
      case s: (1 s)
      with r same show ?thesis
        using first_of_machine_unique [OF won(2) won(2), of r s] by simp
    next
      case s: 2
      with r same live normal show ?thesis
        using leasable_excludes [OF won(1), of r s'] by simp
    qed
  next
    case r: 2
    from s'u show ?thesis
    proof (cases rule: in_update_whereE)
      case s: (1 s)
      with r same live normal show ?thesis
        using leasable_excludes [OF won(1), of s r'] by simp
    next
      case s: 2
      with r ex live normal same show ?thesis unfolding exclusive_def by blast
    qed
  qed
qed

text \<open>The winner of a machine has the least rank among the machine's leasable operations.\<close>

lemma first_of_machine_least:
  assumes wf: "ops_wf (db_operations d)" and "r \<in> set (db_operations d)"
    and first: "first_of_machine now d r"
    and s: "s \<in> set (db_operations d)" "leasable now d s" "op_MachineID s = op_MachineID r"
  shows "lease_rank r \<le> lease_rank s"
proof -
  let ?xs = "filter (\<lambda>s. leasable now d s \<and> op_MachineID s = op_MachineID r) (db_operations d)"
  from first obtain h t where ht: "sort_key lease_rank ?xs = h # t" and h: "op_ID h = op_ID r"
    by (auto simp: first_of_machine_def split: list.splits)
  have "h \<in> set (sort_key lease_rank ?xs)" by (simp add: ht)
  then have "h \<in> set (db_operations d)" by simp
  with wf assms(2) h have "h = r"
    by (auto simp: ops_wf_def intro: distinct_key_eq)
  have "sorted (map lease_rank (h # t))"
    using sorted_sort_key [of lease_rank ?xs] by (simp only: ht)
  moreover have "s \<in> set (h # t)"
  proof -
    have "s \<in> set (sort_key lease_rank ?xs)" using s by simp
    then show ?thesis by (simp only: ht)
  qed
  ultimately have "lease_rank h \<le> lease_rank s" by auto
  with \<open>h = r\<close> show ?thesis by simp
qed

text \<open>A machine with a leasable operation has a first one.\<close>

lemma first_of_machine_ex:
  assumes "s \<in> set (db_operations d)" and "leasable now d s"
  shows "\<exists>r \<in> set (db_operations d). leasable now d r \<and> first_of_machine now d r
           \<and> op_MachineID r = op_MachineID s"
proof -
  let ?xs = "filter (\<lambda>t. leasable now d t \<and> op_MachineID t = op_MachineID s) (db_operations d)"
  have "s \<in> set (sort_key lease_rank ?xs)" using assms by simp
  then obtain h t where ht: "sort_key lease_rank ?xs = h # t"
    by (cases "sort_key lease_rank ?xs") auto
  have "h \<in> set (sort_key lease_rank ?xs)" by (simp add: ht)
  then have h: "h \<in> set (db_operations d)" "leasable now d h" "op_MachineID h = op_MachineID s"
    by auto
  then have "first_of_machine now d h" by (simp add: first_of_machine_def ht)
  with h show ?thesis by blast
qed

section \<open>Settling an operation\<close>

text \<open>
  What the manager relies on when it renews, completes or fails an operation: the call needs the
  caller's lease, and completing or failing gives the lease up, so an operation is settled at most
  once per lease.
\<close>

definition holds_lease :: "uuid \<Rightarrow> string \<Rightarrow> db \<Rightarrow> bool" where
  "holds_lease i owner d \<longleftrightarrow> exists_where (owned_by i owner) (db_operations d)"

locale lease_guarded =
  fixes act :: "uuid \<Rightarrow> string \<Rightarrow> db \<Rightarrow> store_error + 'r"
  assumes needs_lease: "\<not> holds_lease i owner d \<Longrightarrow> \<exists>e. act i owner d = Inl e"

locale settling = lease_guarded +
  fixes after :: "'r \<Rightarrow> db"
  assumes releases: "ops_wf (db_operations d) \<Longrightarrow> act i owner d = Inr r \<Longrightarrow> \<not> holds_lease i owner (after r)"
begin

lemma once:
  "ops_wf (db_operations d) \<Longrightarrow> act i owner d = Inr r \<Longrightarrow> \<exists>e. act i owner (after r) = Inl e"
  by (rule needs_lease) (rule releases)

end

lemma no_lease_no_rows:
  "\<not> holds_lease i owner d \<Longrightarrow> rows_affected (leased_by i owner) (db_operations d) = 0"
  by (auto simp: holds_lease_def table_simps rows_affected_0 leased_by_def owned_by_def)

lemma leased_by_owned:
  "ops_wf rows \<Longrightarrow> r \<in> set rows \<Longrightarrow> leased_by i owner r \<longleftrightarrow> owned_by i owner r"
  by (auto simp: ops_wf_def lease_wf_def leased_by_def owned_by_def)

interpretation renew: lease_guarded "\<lambda>i owner. RenewOperationLease now i owner duration"
  by unfold_locales (simp add: RenewOperationLease_def no_lease_no_rows)

interpretation complete: settling "CompleteOperation now" "\<lambda>d. d"
proof unfold_locales
  fix i owner d
  assume "\<not> holds_lease i owner d"
  then show "\<exists>e. CompleteOperation now i owner d = Inl e"
    by (simp add: CompleteOperation_def no_lease_no_rows)
next
  fix d i owner d'
  assume wf: "ops_wf (db_operations d)" and "CompleteOperation now i owner d = Inr d'"
  then have "db_operations d' = update_where (leased_by i owner)
      (\<lambda>r. r\<lparr>op_Status := OpStatusCompleted, op_CompletedAt := Some now, op_LeaseOwner := None,
        op_LeaseExpiresAt := None, op_UpdatedAt := now\<rparr>) (db_operations d)"
    by (auto simp: CompleteOperation_def split: if_splits)
  then show "\<not> holds_lease i owner d'"
    unfolding holds_lease_def
    by (simp only:, intro exists_where_cleared) (simp_all add: leased_by_owned [OF wf] owned_by_def)
qed

interpretation fail: settling
  "\<lambda>i owner d. FailOperation now i owner code message retryable d" snd
proof unfold_locales
  fix i owner d
  assume "\<not> holds_lease i owner d"
  then have "find (owned_by i owner) (db_operations d) = None"
    by (auto simp: holds_lease_def table_simps find_None_all)
  then show "\<exists>e. FailOperation now i owner code message retryable d = Inl e"
    by (simp add: FailOperation_def)
next
  fix d i owner and r :: "bool \<times> db"
  assume "FailOperation now i owner code message retryable d = Inr r"
  then have "db_operations (snd r) = update_where (owned_by i owner)
      (failed_row now code message retryable) (db_operations d)"
    by (auto simp: FailOperation_def split: option.splits if_splits)
  then show "\<not> holds_lease i owner (snd r)"
    unfolding holds_lease_def
    by (simp only:, intro exists_where_cleared) (simp_all add: owned_by_def failed_row_def Let_def)
qed

lemma RenewOperationLease_ops:
  "RenewOperationLease now i owner duration d = Inr d' \<longleftrightarrow>
     rows_affected (leased_by i owner) (db_operations d) = 1
     \<and> d' = d\<lparr>db_operations := update_where (leased_by i owner)
        (\<lambda>r. r\<lparr>op_LeaseExpiresAt := Some (now + seconds (whole_seconds duration)), op_UpdatedAt := now\<rparr>)
        (db_operations d)\<rparr>"
  by (auto simp: RenewOperationLease_def)

lemma RenewOperationLease_wf:
  assumes wf: "ops_wf (db_operations d)" and "RenewOperationLease now i owner duration d = Inr d'"
  shows "ops_wf (db_operations d')"
proof -
  have "lease_wf (r\<lparr>op_LeaseExpiresAt := Some t, op_UpdatedAt := now\<rparr>)" if "leased_by i owner r" for r t
    using that by (simp add: lease_wf_def leased_by_def)
  with assms show ?thesis by (simp add: RenewOperationLease_ops renew_up.update_wf)
qed

lemma CompleteOperation_wf:
  assumes "ops_wf (db_operations d)" and "CompleteOperation now i owner d = Inr d'"
  shows "ops_wf (db_operations d')"
  using assms
  by (auto simp: CompleteOperation_def lease_wf_def split: if_splits intro!: complete_up.update_wf)

lemma failed_row_wf: "lease_wf (failed_row now code message retryable r)"
  by (simp add: failed_row_def lease_wf_def Let_def)

lemma FailOperation_wf:
  assumes "ops_wf (db_operations d)" and "FailOperation now i owner code message retryable d = Inr (b, d')"
  shows "ops_wf (db_operations d')"
  using assms
  by (auto simp: FailOperation_def failed_row_wf split: if_splits option.splits intro!: fail_up.update_wf)

lemmas queue_wf = enqueueOperation_wf LeaseOperations_wf RenewOperationLease_wf
  CompleteOperation_wf FailOperation_wf

text \<open>An update that makes no new live lease keeps the leases exclusive.\<close>

lemma exclusive_update:
  assumes "exclusive now rows"
    and "\<And>r. r \<in> set rows \<Longrightarrow> P r \<Longrightarrow> lease_live now (f r) \<Longrightarrow> lease_live now r"
    and "\<And>r. op_ID (f r) = op_ID r \<and> op_MachineID (f r) = op_MachineID r \<and> op_Action (f r) = op_Action r"
  shows "exclusive now (update_where P f rows)"
proof (rule exclusiveI_ids)
  fix r' s'
  assume r': "r' \<in> set (update_where P f rows)" and s': "s' \<in> set (update_where P f rows)"
    and live: "lease_live now r'" "lease_live now s'"
    and normal: "\<not> cleanup_action (op_Action r')" "\<not> cleanup_action (op_Action s')"
    and same: "op_MachineID r' = op_MachineID s'"
  have old: "\<exists>r \<in> set rows. lease_live now r \<and> op_ID r = op_ID t \<and> op_MachineID r = op_MachineID t
        \<and> op_Action r = op_Action t"
    if "t \<in> set (update_where P f rows)" "lease_live now t" for t
    using that(1)
  proof (cases rule: in_update_whereE)
    case (1 r)
    with that(2) assms(2) [of r] assms(3) [of r] show ?thesis by auto
  next
    case 2
    with that(2) show ?thesis by blast
  qed
  from old [OF r' live(1)] old [OF s' live(2)] normal same assms(1)
  show "op_ID r' = op_ID s'"
    unfolding exclusive_def by metis
qed

end
