(* ===== verification/Machine_Samples.thy ===== *)
theory Machine_Samples
  imports Machine_Store
begin

text \<open>
  Concrete rows of the control plane, for the witnesses of the properties: a running machine of
  workspace 1 created by user 7, its first operation, an agent run, an enabled policy, an
  environment, a checkout, a service, an access ticket and session, and the database without rows.
\<close>

definition machine0 :: DevMachine where
  "machine0 = \<lparr>
    m_ID = 1, m_WorkspaceID = 1, m_ProjectID = None, m_IssueID = None,
    m_CreatedByUserID = Some 7, m_RoutingKey = ''abcdefghijkl'', m_Name = ''box'',
    m_Status = StatusRunning, m_DesiredStatus = StatusRunning, m_Generation = 1,
    m_RepoURL = '''', m_RepoProvider = '''', m_RepoOwner = '''', m_RepoName = '''',
    m_BaseBranch = '''', m_WorkingBranch = '''', m_MachineSize = ''small'', m_CPUMillis = 2000,
    m_MemoryMB = 4096, m_DiskGB = 20, m_PidsLimit = 512, m_MaxRuntimeMinutes = 120,
    m_EnvironmentID = None, m_RepositoryAffinityID = None, m_KeepRunning = False,
    m_EnvironmentBuilder = False, m_DeleteRequestedAt = None, m_DockerNetworkName = None,
    m_WorkspaceVolumeName = None, m_ServicesConfig = ''{}'', m_Labels = ''{}'',
    m_LastErrorCode = None, m_LastErrorMessage = None, m_LastActivityAt = None, m_CreatedAt = 0,
    m_UpdatedAt = 0, m_StartedAt = None, m_StoppedAt = None, m_ExpiresAt = seconds 100000,
    m_TeardownAt = None, m_DestroyedAt = None\<rparr>"

definition operation0 :: DevMachineOperation where
  "operation0 = \<lparr>
    op_ID = 1, op_MachineID = 1, op_AgentRunID = None, op_CheckoutID = None,
    op_EnvironmentID = None, op_TerminalSessionID = None, op_WorkspaceID = 1,
    op_Action = OpStart, op_Status = OpStatusPending, op_Generation = 1,
    op_IdempotencyKey = ''k1'', op_RequestedByUserID = None, op_LeaseOwner = None,
    op_LeaseExpiresAt = None, op_Attempts = 0, op_MaxAttempts = 5, op_ErrorCode = None,
    op_ErrorMessage = None, op_AvailableAt = 0, op_CreatedAt = 0, op_UpdatedAt = 0,
    op_CompletedAt = None\<rparr>"

definition run0 :: DevMachineAgentRun where
  "run0 = \<lparr>
    ar_ID = 1, ar_MachineID = 1, ar_WorkspaceID = 1, ar_IssueID = None, ar_CheckoutID = None,
    ar_RequestedByUserID = None, ar_ProviderID = ''codex'', ar_Mode = ''autonomous'',
    ar_Status = RunQueued, ar_Prompt = '''', ar_AcceptanceCriteria = ''[]'',
    ar_AllowedCommands = ''[]'', ar_ForbiddenPaths = ''[]'', ar_AllowedSecrets = ''[]'',
    ar_TestCommand = None, ar_CommandArgv = ''[]'', ar_MaxRuntimeSeconds = 600,
    ar_PushBranch = False, ar_OpenPullRequest = False, ar_Result = None, ar_Summary = None,
    ar_ChangedFiles = ''[]'', ar_Commits = ''[]'', ar_Branch = None, ar_PullRequestURL = None,
    ar_TestsRun = ''[]'', ar_TestStatus = ''not_run'', ar_RiskNotes = ''[]'', ar_ExitCode = None,
    ar_ErrorMessage = None, ar_CreatedAt = 0, ar_StartedAt = None, ar_CompletedAt = None,
    ar_CancelledAt = None\<rparr>"

definition policy0 :: DevMachineWorkspacePolicy where
  "policy0 = \<lparr>
    wp_WorkspaceID = 1, wp_Enabled = True, wp_MaxConcurrentMachines = 5,
    wp_MaxMachinesPerUser = 2, wp_MaxDailyAgentRuns = 25, wp_MaxRuntimeMinutes = 480,
    wp_MaxDiskGB = 100, wp_AllowedProviders = ''[]'', wp_AllowedRepositories = ''[]'',
    wp_AllowCustomProviders = False, wp_IdlePauseMinutes = 240, wp_CreatedAt = 0, wp_UpdatedAt = 0\<rparr>"

definition environment0 :: DevMachineEnvironment where
  "environment0 = \<lparr>
    en_ID = 1, en_WorkspaceID = 1, en_Name = ''env'', en_ImageRef = ''img'',
    en_ImageDigest = None, en_Status = ''ready'', en_SourceMachineID = None,
    en_CreatedByUserID = None, en_DeleteRequestedAt = None, en_CreatedAt = 0, en_UpdatedAt = 0\<rparr>"

definition checkout0 :: DevMachineCheckout where
  "checkout0 = \<lparr>
    co_ID = 1, co_WorkspaceID = 1, co_MachineID = 1, co_IssueID = 1, co_GitHubRepoID = 1,
    co_RepositoryFullName = ''o/r'', co_BaseBranch = '''', co_WorkingBranch = '''',
    co_WorkspacePath = '''', co_Status = ''queued'', co_LastError = None, co_CreatedAt = 0,
    co_UpdatedAt = 0, co_LastActivityAt = None\<rparr>"

definition service0 :: DevMachineService where
  "service0 = \<lparr>
    sv_ID = 1, sv_WorkspaceID = 1, sv_MachineID = 1, sv_AgentRunID = None,
    sv_ServiceType = ''ide'', sv_ServiceKey = ''ide'', sv_ContainerID = Some ''c1'',
    sv_ContainerName = '''', sv_ImageRef = '''', sv_InternalHost = '''', sv_InternalPort = 8080,
    sv_Status = ''running'', sv_HealthStatus = ''healthy'', sv_HealthMessage = None,
    sv_StartedAt = None, sv_StoppedAt = None, sv_CreatedAt = 0, sv_UpdatedAt = 0\<rparr>"

definition ticket0 :: DevMachineAccessTicket where
  "ticket0 = \<lparr>
    at_ID = 1, at_WorkspaceID = 1, at_MachineID = 1, at_ServiceID = 1,
    at_TerminalSessionID = None, at_UserID = 7, at_TokenHash = ''t'', at_Status = TicketActive,
    at_BoundHost = ''h'', at_ExpiresAt = seconds 60, at_UsedAt = None, at_CreatedAt = 0,
    at_RevokedAt = None\<rparr>"

definition session0 :: DevMachineAccessSession where
  "session0 = \<lparr>
    as_ID = 1, as_WorkspaceID = 1, as_MachineID = 1, as_ServiceID = 1, as_UserID = 7,
    as_TokenHash = ''s'', as_BoundHost = ''h'', as_ExpiresAt = seconds 600, as_LastSeenAt = 0,
    as_CreatedAt = 0, as_RevokedAt = None\<rparr>"

definition terminal0 :: DevMachineTerminalSession where
  "terminal0 = \<lparr>
    ts_ID = 1, ts_WorkspaceID = 1, ts_MachineID = 1, ts_CheckoutID = None, ts_UserID = 7,
    ts_Name = ''term'', ts_RuntimeSessionName = ''tmux1'', ts_Status = ''active'',
    ts_CreatedAt = 0, ts_LastActivityAt = 0, ts_ClosedAt = None\<rparr>"

definition db0 :: db where
  "db0 = \<lparr>
    db_machines = [], db_operations = [], db_runs = [], db_services = [], db_providers = [],
    db_volumes = [], db_envvars = [], db_tokens = [], db_credentials = [], db_events = [],
    db_logs = [], db_gitrefs = [], db_tickets = [], db_sessions = [], db_accesslogs = [],
    db_samples = [], db_policies = [], db_environments = [], db_settings = [], db_checkouts = [],
    db_terminals = [], db_members = [], db_projects = [], db_issues = [], db_teams = [],
    db_installations = [], db_repos = [], db_appconfigs = []\<rparr>"

lemmas sample_defs = machine0_def operation0_def run0_def policy0_def environment0_def checkout0_def
  service0_def ticket0_def session0_def terminal0_def db0_def

end
