(* ===== verification/Queue_Properties.thy ===== *)
theory Queue_Properties
  imports Machine_Samples
begin

text \<open>
  What the operation queue promises the manager: exclusive leases, the order in which it serves a
  machine, progress, settlement by the lease holder only, bounded retry, idempotent enqueueing.
\<close>

section \<open>Exclusive leases\<close>

text \<open>
  (C1) Leasing keeps leases exclusive. If at most one live lease per machine is held on operations
  other than cleanups, the same is true after \<open>LeaseOperations\<close> at any later time, for any batch
  size, owner and set of locked rows; and one batch never hands out two operations of one machine.
\<close>

theorem lease_keeps_exclusive:
  assumes "ops_wf (db_operations d)" and "exclusive earlier (db_operations d)" and "earlier \<le> now"
  shows "exclusive now (db_operations (snd (LeaseOperations now locked owner limit duration d)))
    \<and> distinct (map op_MachineID (fst (LeaseOperations now locked owner limit duration d)))"
proof
  note wf = assms(1)
  show "exclusive now (db_operations (snd (LeaseOperations now locked owner limit duration d)))"
    by (rule LeaseOperations_exclusive [OF wf exclusive_later [OF assms(2,3)]])
  let ?leased = "fst (LeaseOperations now locked owner limit duration d)"
  have ids: "distinct (map op_ID ?leased)"
    using LeaseOperations_wf [OF wf, of now locked owner limit duration]
    by (auto simp: LeaseOperations_result ops_wf_def distinct_map_filter)
  have won: "\<exists>r \<in> set (db_operations d). first_of_machine now d r \<and> op_ID r = op_ID l
      \<and> op_MachineID r = op_MachineID l" if "l \<in> set ?leased" for l
    using that lease_ids_facts(2) [OF wf]
    by (force simp: LeaseOperations_result LeaseOperations_ops elim!: in_update_whereE)
  have "inj_on op_MachineID (set ?leased)"
  proof (rule inj_onI)
    fix l k
    assume l: "l \<in> set ?leased" and k: "k \<in> set ?leased" and "op_MachineID l = op_MachineID k"
    with won [OF l] won [OF k] have "op_ID l = op_ID k"
      by (metis first_of_machine_unique)
    with ids l k show "l = k" by (rule distinct_key_eq)
  qed
  with ids show "distinct (map op_MachineID ?leased)"
    by (simp add: distinct_map)
qed

theorem lease_keeps_exclusive_witness:
  "exclusive 1 (db_operations (snd (LeaseOperations 1 (\<lambda>_. False) ''w'' 8 (seconds 120)
      (db0\<lparr>db_machines := [machine0], db_operations := [operation0]\<rparr>))))"
  by (rule lease_keeps_exclusive [where earlier = 0, THEN conjunct1])
    (simp_all add: ops_wf_def lease_wf_def exclusive_def sample_defs)

section \<open>Service order and progress\<close>

text \<open>
  Service order. Among the operations of a machine that could be leased, the one
  \<open>LeaseOperations\<close> hands out is a cleanup if any cleanup could be leased, and within its class it
  has the newest generation, and among equal generations the earliest creation time.
\<close>

theorem lease_serves_newest_cleanup_first:
  assumes "ops_wf (db_operations d)"
    and "l \<in> set (fst (LeaseOperations now locked owner limit duration d))"
    and "s \<in> set (db_operations d)" and "leasable now d s" and "op_MachineID s = op_MachineID l"
  shows "op_Status l = OpStatusLeased \<and> op_LeaseOwner l = Some owner
    \<and> (cleanup_action (op_Action s) \<longrightarrow> cleanup_action (op_Action l))
    \<and> (cleanup_action (op_Action s) = cleanup_action (op_Action l) \<longrightarrow> op_Generation s \<le> op_Generation l)
    \<and> (cleanup_action (op_Action s) = cleanup_action (op_Action l) \<and> op_Generation s = op_Generation l
         \<longrightarrow> op_CreatedAt l \<le> op_CreatedAt s)"
proof -
  from assms(2) obtain r where r: "r \<in> set (db_operations d)"
      "op_ID r \<in> lease_ids now locked limit d" "l = lease_row now owner duration r"
    by (auto simp: LeaseOperations_result LeaseOperations_ops elim!: in_update_whereE)
  have "lease_rank r \<le> lease_rank s"
    by (rule first_of_machine_least [OF assms(1) r(1) lease_ids_facts(2) [OF assms(1) r(1,2)]])
      (use assms r in auto)
  with r show ?thesis
    by (auto simp: lease_rank_def split: if_splits)
qed

text \<open>
  Progress. When some operation can be leased, its machine exists, no row is locked by another
  transaction and the manager has a free slot, a call of \<open>LeaseOperations\<close> hands out an operation.
\<close>

theorem lease_makes_progress:
  assumes "s \<in> set (db_operations d)" and "leasable now d s"
    and "exists_where (\<lambda>m. m_ID m = op_MachineID s) (db_machines d)" and "0 < limit"
  shows "fst (LeaseOperations now (\<lambda>_. False) owner limit duration d) \<noteq> []"
proof -
  obtain r where r: "r \<in> set (db_operations d)" "leasable now d r" "first_of_machine now d r"
      "op_MachineID r = op_MachineID s"
    using first_of_machine_ex [OF assms(1,2)] by blast
  have "lease_candidates now (\<lambda>_. False) limit d \<noteq> []"
  proof -
    have "r \<in> set (sort_key lease_rank (filter (\<lambda>r. leasable now d r \<and> first_of_machine now d r
        \<and> exists_where (\<lambda>m. m_ID m = op_MachineID r) (db_machines d)) (db_operations d)))"
      using r assms(3) by simp
    then have "sort_key lease_rank (filter (\<lambda>r. leasable now d r \<and> first_of_machine now d r
        \<and> exists_where (\<lambda>m. m_ID m = op_MachineID r) (db_machines d)) (db_operations d)) \<noteq> []"
      by (metis empty_iff empty_set)
    with assms(4) show ?thesis by (auto simp: lease_candidates_def)
  qed
  then obtain c where c: "c \<in> set (lease_candidates now (\<lambda>_. False) limit d)"
    by (meson list.set_sel(1))
  then have "op_ID c \<in> lease_ids now (\<lambda>_. False) limit d" by (simp add: lease_ids_def)
  with lease_candidatesD(1) [OF c]
  have "lease_row now owner duration c
      \<in> set (fst (LeaseOperations now (\<lambda>_. False) owner limit duration d))"
    by (force simp: LeaseOperations_result LeaseOperations_ops set_update_where)
  then show ?thesis by auto
qed

theorem lease_makes_progress_witness:
  "fst (LeaseOperations 1 (\<lambda>_. False) ''w'' 1 (seconds 120)
      (db0\<lparr>db_machines := [machine0], db_operations := [operation0]\<rparr>)) \<noteq> []"
  by (rule lease_makes_progress [where s = operation0])
    (simp_all add: leasable_def lease_live_def exists_where_def sample_defs)

theorem lease_serves_newest_cleanup_first_witness:
  "op_LeaseOwner (lease_row 1 ''w'' (seconds 120)
     (operation0\<lparr>op_ID := 2, op_Action := OpTeardown, op_IdempotencyKey := ''k2''\<rparr>)) = Some ''w''"
  by (rule lease_serves_newest_cleanup_first
      [where d = "db0\<lparr>db_machines := [machine0], db_operations := [operation0,
         operation0\<lparr>op_ID := 2, op_Action := OpTeardown, op_IdempotencyKey := ''k2''\<rparr>]\<rparr>"
       and now = 1 and locked = "\<lambda>_. False" and owner = "''w''" and limit = 8
       and duration = "seconds 120" and s = operation0, THEN conjunct2, THEN conjunct1])
    code_simp+

section \<open>Settlement\<close>

text \<open>
  (C3) Only the lease holder settles an operation, and once. Without the caller's lease on the
  operation, renewing, completing and failing it are errors (an error leaves the database as it
  was); after a successful completion or a recorded failure the former holder can neither renew,
  complete nor fail it again.
\<close>

theorem operation_settled_once:
  assumes "ops_wf (db_operations d)"
    and "\<not> holds_lease i owner d
      \<or> CompleteOperation now0 i owner d0 = Inr d \<and> ops_wf (db_operations d0)
      \<or> FailOperation now0 i owner code0 message0 retryable0 d0 = Inr (again, d) \<and> ops_wf (db_operations d0)"
  shows "(\<exists>e. RenewOperationLease now i owner duration d = Inl e)
    \<and> (\<exists>e. CompleteOperation now i owner d = Inl e)
    \<and> (\<exists>e. FailOperation now i owner code message retryable d = Inl e)"
proof -
  from assms(2) have "\<not> holds_lease i owner d"
    by (elim disjE conjE) (auto dest: complete.releases fail.releases)
  then show ?thesis
    by (auto dest: renew.needs_lease complete.needs_lease fail.needs_lease)
qed

theorem operation_settled_once_witness:
  "\<exists>e. CompleteOperation 5 1 ''w'' (db0\<lparr>db_operations := [operation0]\<rparr>) = Inl e"
  by (rule operation_settled_once [THEN conjunct2, THEN conjunct1])
    (simp_all add: ops_wf_def lease_wf_def holds_lease_def exists_where_def owned_by_def sample_defs)

section \<open>Renewal\<close>

text \<open>
  Renewing in time keeps leases exclusive: while the renewed lease is still live, a successful
  \<open>RenewOperationLease\<close> keeps at most one live lease per machine on operations other than cleanups.
\<close>

theorem timely_renewal_keeps_exclusive:
  assumes "exclusive now (db_operations d)"
    and "RenewOperationLease now i owner duration d = Inr d'"
    and "\<forall>r \<in> set (db_operations d). leased_by i owner r \<longrightarrow> lease_live now r"
  shows "exclusive now (db_operations d')"
  using assms by (auto simp: RenewOperationLease_ops intro!: exclusive_update)

theorem timely_renewal_keeps_exclusive_witness:
  "exclusive 1 (db_operations (db0\<lparr>db_operations := [operation0\<lparr>op_Status := OpStatusLeased,
     op_LeaseOwner := Some ''w'', op_LeaseExpiresAt := Some (1 + seconds 120), op_UpdatedAt := 1\<rparr>]\<rparr>))"
  by (rule timely_renewal_keeps_exclusive
      [where d = "db0\<lparr>db_operations := [operation0\<lparr>op_Status := OpStatusLeased,
          op_LeaseOwner := Some ''w'', op_LeaseExpiresAt := Some 2\<rparr>]\<rparr>"
        and i = 1 and owner = "''w''" and duration = "seconds 120"]) code_simp+

text \<open>
  Late renewal breaks exclusivity. \<open>RenewOperationLease\<close> tests the owner but not that the
  lease is still live. When a lease runs out, another worker may lease a newer operation of the
  same machine; the first worker's late renewal is then accepted, and two workers hold live leases
  on two lifecycle operations of one machine.
\<close>

theorem late_renewal_breaks_exclusive:
  "\<exists>d d' t t'. ops_wf (db_operations d) \<and> exclusive t (db_operations d) \<and> t \<le> t'
     \<and> map op_ID (fst (LeaseOperations t (\<lambda>_. False) ''w2'' 8 (seconds 120) d)) = [2]
     \<and> exclusive t' (db_operations (snd (LeaseOperations t (\<lambda>_. False) ''w2'' 8 (seconds 120) d)))
     \<and> RenewOperationLease t' 1 ''w1'' (seconds 120)
         (snd (LeaseOperations t (\<lambda>_. False) ''w2'' 8 (seconds 120) d)) = Inr d'
     \<and> \<not> exclusive t' (db_operations d')"
proof -
  let ?a = "operation0\<lparr>op_Status := OpStatusLeased, op_LeaseOwner := Some ''w1'',
              op_LeaseExpiresAt := Some 100\<rparr>"
  let ?b = "operation0\<lparr>op_ID := 2, op_Action := OpStop, op_Generation := 2, op_IdempotencyKey := ''k2''\<rparr>"
  let ?d = "db0\<lparr>db_machines := [machine0], db_operations := [?a, ?b]\<rparr>"
  let ?d1 = "snd (LeaseOperations 200 (\<lambda>_. False) ''w2'' 8 (seconds 120) ?d)"
  let ?d2 = "db0\<lparr>db_machines := [machine0],
       db_operations := [?a\<lparr>op_LeaseExpiresAt := Some (201 + seconds 120), op_UpdatedAt := 201\<rparr>,
                         lease_row 200 ''w2'' (seconds 120) ?b]\<rparr>"
  have "ops_wf (db_operations ?d)" by code_simp
  moreover have "exclusive 200 (db_operations ?d)" by code_simp
  moreover have "map op_ID (fst (LeaseOperations 200 (\<lambda>_. False) ''w2'' 8 (seconds 120) ?d)) = [2]"
    by code_simp
  moreover have "exclusive 201 (db_operations ?d1)" by code_simp
  moreover have "RenewOperationLease 201 1 ''w1'' (seconds 120) ?d1 = Inr ?d2" by code_simp
  moreover have "\<not> exclusive 201 (db_operations ?d2)" by code_simp
  ultimately show ?thesis
    by (intro exI [of _ ?d] exI [of _ ?d2] exI [of _ 200] exI [of _ 201] conjI) simp_all
qed

section \<open>Retry\<close>

lemma find_leased:
  "find (\<lambda>r. op_ID r = i) (db_operations (snd (LeaseOperations now locked owner limit duration d)))
     = map_option (\<lambda>r. if op_ID r \<in> lease_ids now locked limit d then lease_row now owner duration r else r)
         (find (\<lambda>r. op_ID r = i) (db_operations d))"
  by (simp add: LeaseOperations_ops lease_up.by_id.find_key)

lemma FailOperation_row:
  assumes "ops_wf (db_operations d)" and "find (\<lambda>r. op_ID r = i) (db_operations d) = Some r"
    and "FailOperation now i owner code message retryable d = Inr (again, d')"
  shows "find (\<lambda>r. op_ID r = i) (db_operations d') = Some (failed_row now code message retryable r)
    \<and> op_Status r = OpStatusLeased \<and> op_LeaseOwner r = Some owner
    \<and> (again \<longleftrightarrow> retryable \<and> op_Attempts r < op_MaxAttempts r)"
proof -
  from assms(3) obtain s where s: "find (owned_by i owner) (db_operations d) = Some s"
      "again \<longleftrightarrow> op_Status (failed_row now code message retryable s) = OpStatusPending"
      "d' = d\<lparr>db_operations := update_where (owned_by i owner)
         (failed_row now code message retryable) (db_operations d)\<rparr>"
    by (auto simp: FailOperation_def split: option.splits if_splits)
  from s(1) have "s \<in> set (db_operations d)" "op_ID s = i" "op_LeaseOwner s = Some owner"
    by (auto simp: owned_by_def dest: find_SomeD)
  with assms(1,2) have "s = r"
    by (auto simp: ops_wf_def find_Some_iff_distinct intro: distinct_key_eq)
  with assms(1,2) s \<open>op_ID s = i\<close> \<open>op_LeaseOwner s = Some owner\<close> \<open>s \<in> set (db_operations d)\<close>
  show ?thesis
    by (auto simp: fail_up.by_id.find_key owned_by_def failed_row_def Let_def ops_wf_def lease_wf_def)
qed

text \<open>Alternate leasing and reporting a retryable failure of operation \<open>i\<close>, counting the retries granted.\<close>

fun granted_retries :: "(time \<times> time) list \<Rightarrow> uuid \<Rightarrow> string \<Rightarrow> nat \<Rightarrow> duration \<Rightarrow> db \<Rightarrow> nat" where
  "granted_retries [] i owner limit duration d = 0"
| "granted_retries ((t_lease, t_fail) # ts) i owner limit duration d =
     (let d1 = snd (LeaseOperations t_lease (\<lambda>_. False) owner limit duration d) in
      case FailOperation t_fail i owner ''runtime_error'' ''failed'' True d1 of
        Inl _ \<Rightarrow> granted_retries ts i owner limit duration d1
      | Inr (again, d2) \<Rightarrow> (if again then 1 else 0) + granted_retries ts i owner limit duration d2)"

definition retries_left :: "DevMachineOperation \<Rightarrow> nat" where
  "retries_left r = nat (op_MaxAttempts r - op_Attempts r - (if op_Status r = OpStatusLeased then 0 else 1))"

lemma retries_left_lease_row: "retries_left (lease_row now owner duration r) \<le> retries_left r"
  by (auto simp: retries_left_def)

lemma retries_left_failed_row:
  assumes "op_Status r = OpStatusLeased" and "again \<longleftrightarrow> op_Attempts r < op_MaxAttempts r"
  shows "(if again then 1 else 0) + retries_left (failed_row now code message True r) \<le> retries_left r"
  using assms by (auto simp: retries_left_def failed_row_def Let_def)

lemma granted_retries_le:
  assumes "ops_wf (db_operations d)" and "find (\<lambda>r. op_ID r = i) (db_operations d) = Some r"
  shows "granted_retries ts i owner limit duration d \<le> retries_left r"
  using assms
proof (induction ts arbitrary: d r)
  case Nil
  then show ?case by simp
next
  case (Cons t ts)
  obtain tl tf where t: "t = (tl, tf)" by (cases t)
  let ?d1 = "snd (LeaseOperations tl (\<lambda>_. False) owner limit duration d)"
  have wf1: "ops_wf (db_operations ?d1)" by (rule LeaseOperations_wf [OF Cons.prems(1)])
  obtain r1 where r1: "find (\<lambda>r. op_ID r = i) (db_operations ?d1) = Some r1"
      and le1: "retries_left r1 \<le> retries_left r"
    using Cons.prems(2) retries_left_lease_row [of tl owner duration r] by (simp add: find_leased)
  show ?case
  proof (cases "FailOperation tf i owner ''runtime_error'' ''failed'' True ?d1")
    case (Inl e)
    then show ?thesis using Cons.IH [OF wf1 r1] le1 by (simp add: t Let_def)
  next
    case (Inr p)
    obtain again d2 where p: "p = (again, d2)" by (cases p)
    note fail = Inr [unfolded p]
    note row = FailOperation_row [OF wf1 r1 fail]
    have "granted_retries ts i owner limit duration d2
        \<le> retries_left (failed_row tf ''runtime_error'' ''failed'' True r1)"
      by (rule Cons.IH [OF FailOperation_wf [OF wf1 fail]]) (use row in blast)
    with retries_left_failed_row [of r1 again tf "''runtime_error''" "''failed''"] row le1 fail
    show ?thesis by (simp add: t Let_def)
  qed
qed

text \<open>
  (C2) Bounded retry. However often workers lease an operation and report a retryable failure of
  it, at most \<open>max_attempts - attempts\<close> of the reports put it back into the queue (one fewer
  unless it is leased at the start); after that it stays failed.
\<close>

theorem retries_are_bounded:
  assumes "ops_wf (db_operations d)" and "find (\<lambda>r. op_ID r = i) (db_operations d) = Some r"
  shows "granted_retries ts i owner limit duration d
    \<le> nat (op_MaxAttempts r - op_Attempts r - (if op_Status r = OpStatusLeased then 0 else 1))"
  using granted_retries_le [OF assms] by (simp add: retries_left_def)

theorem retries_are_bounded_witness:
  "granted_retries [(1, 2), (seconds 10, seconds 11), (seconds 500, seconds 501)] 1 ''w'' 8 (seconds 120)
     (db0\<lparr>db_machines := [machine0], db_operations := [operation0]\<rparr>) \<le> nat (5 - 0 - 1)"
  using retries_are_bounded [of "db0\<lparr>db_machines := [machine0], db_operations := [operation0]\<rparr>" 1 operation0
      "[(1, 2), (seconds 10, seconds 11), (seconds 500, seconds 501)]" "''w''" 8 "seconds 120"]
  by (simp add: ops_wf_def lease_wf_def sample_defs)

text \<open>
  What a recorded failure does. The failing operation goes back to the queue exactly when the
  error is retryable and attempts remain; otherwise it is failed and stamped as completed. It is
  available again after \<open>min 300 (5 * attempts * attempts)\<close> seconds, so never later than five
  minutes, the lease is gone, and every other operation is untouched.
\<close>

theorem failure_outcome:
  assumes "ops_wf (db_operations d)" and "find (\<lambda>r. op_ID r = i) (db_operations d) = Some r"
    and "FailOperation now i owner code message retryable d = Inr (again, d')"
  shows "again = (retryable \<and> op_Attempts r < op_MaxAttempts r)
    \<and> find (\<lambda>r. op_ID r = i) (db_operations d') = Some (r\<lparr>
        op_Status := (if again then OpStatusPending else OpStatusFailed),
        op_ErrorCode := Some code, op_ErrorMessage := Some message,
        op_LeaseOwner := None, op_LeaseExpiresAt := None,
        op_AvailableAt := now + seconds (min 300 (5 * op_Attempts r ^ 2)),
        op_CompletedAt := (if again then None else Some now), op_UpdatedAt := now\<rparr>)
    \<and> (\<forall>j. j \<noteq> i \<longrightarrow> find (\<lambda>r. op_ID r = j) (db_operations d') = find (\<lambda>r. op_ID r = j) (db_operations d))"
proof -
  note row = FailOperation_row [OF assms]
  have frame: "d' = d\<lparr>db_operations := update_where (owned_by i owner)
         (failed_row now code message retryable) (db_operations d)\<rparr>"
    using assms(3) by (auto simp: FailOperation_def split: option.splits if_splits)
  have "find (\<lambda>r. op_ID r = j) (db_operations d') = find (\<lambda>r. op_ID r = j) (db_operations d)"
    if "j \<noteq> i" for j
    using that find_SomeD [of "\<lambda>r. op_ID r = j" "db_operations d"]
    by (cases "find (\<lambda>r. op_ID r = j) (db_operations d)")
      (auto simp: frame fail_up.by_id.find_key owned_by_def)
  with row show ?thesis
    by (auto simp: failed_row_def Let_def backoff_seconds_def power2_eq_square mult.commute)
qed

theorem failure_outcome_witness:
  "\<exists>d'. FailOperation 9 1 ''w'' ''c'' ''m'' True (db0\<lparr>db_operations := [operation0\<lparr>
       op_Status := OpStatusLeased, op_LeaseOwner := Some ''w'', op_LeaseExpiresAt := Some 8,
       op_Attempts := 5\<rparr>]\<rparr>) = Inr (False, d')"
proof -
  let ?r = "operation0\<lparr>op_Status := OpStatusLeased, op_LeaseOwner := Some ''w'',
       op_LeaseExpiresAt := Some 8, op_Attempts := 5\<rparr>"
  obtain again d' where f: "FailOperation 9 1 ''w'' ''c'' ''m'' True (db0\<lparr>db_operations := [?r]\<rparr>)
      = Inr (again, d')"
    by (simp add: FailOperation_def owned_by_def sample_defs)
  have "again = (True \<and> op_Attempts ?r < op_MaxAttempts ?r)"
    by (rule failure_outcome [OF _ _ f, THEN conjunct1])
      (simp_all add: ops_wf_def lease_wf_def sample_defs)
  with f show ?thesis by (auto simp: sample_defs)
qed

section \<open>Idempotent enqueueing\<close>

lemma enqueueOperation_present:
  assumes "enqueueOperation now fresh operation d = Inr (result, d')"
  shows "\<exists>row. find (same_key operation) (db_operations d') = Some row
     \<and> op_ID row = op_ID result \<and> op_Status row = op_Status result"
proof -
  have key: "same_key (default_operation fresh operation) = same_key operation"
    by (simp add: same_key_def fun_eq_iff)
  from assms show ?thesis
  proof (cases rule: enqueueOperation_cases)
    case (existing row)
    have eq: "same_key operation = (\<lambda>r. op_key r = op_key operation)"
      by (simp add: same_key_iff fun_eq_iff)
    from existing(1) have "find (\<lambda>r. op_key r = op_key operation) (db_operations d) = Some row"
      and "op_key row = op_key operation"
      by (auto simp: key eq dest: find_SomeD)
    with existing(2,3) show ?thesis
      by (simp add: eq touch_up.by_key.find_key) (simp add: scan_operation_def touch_op_def)
  next
    case (added row)
    have "find (same_key operation) (db_operations d) = None" and "same_key operation row"
      using added by (auto simp: find_None_all same_key_def)
    then have "find (same_key operation) (db_operations d @ [row]) = Some row"
      by (simp add: find_append)
    with added show ?thesis by (simp add: scan_operation_def)
  qed
qed

text \<open>
  Enqueueing is idempotent. A second enqueue under the same machine and idempotency key
  succeeds, adds no operation, and reports the identity and status of the operation the first one
  left, whatever else the second request says.
\<close>

theorem enqueue_is_idempotent:
  assumes "enqueueOperation t1 fresh1 first d = Inr (result1, d1)"
    and "op_MachineID second = op_MachineID first" and "op_IdempotencyKey second = op_IdempotencyKey first"
  shows "\<exists>result2 d2. enqueueOperation t2 fresh2 second d1 = Inr (result2, d2)
    \<and> op_ID result2 = op_ID result1 \<and> op_Status result2 = op_Status result1
    \<and> map op_ID (db_operations d2) = map op_ID (db_operations d1)
    \<and> map op_Status (db_operations d2) = map op_Status (db_operations d1)"
proof -
  have key: "same_key (default_operation fresh2 second) = same_key first"
    using assms(2,3) by (simp add: same_key_def fun_eq_iff)
  obtain row where row: "find (same_key first) (db_operations d1) = Some row"
      "op_ID row = op_ID result1" "op_Status row = op_Status result1"
    using enqueueOperation_present [OF assms(1)] by blast
  have "map op_Status (update_where P (touch_op t2) rows) = map op_Status rows" for P rows
    by (simp add: update_where_def touch_op_def)
  with row show ?thesis
    by (simp add: enqueueOperation_def key Let_def touch_up.by_id.map_key)
      (simp add: scan_operation_def touch_op_def)
qed

theorem enqueue_is_idempotent_witness:
  "\<exists>result2 d2. enqueueOperation 9 4 (operation0\<lparr>op_ID := 0, op_Action := OpStop\<rparr>)
     (db0\<lparr>db_machines := [machine0], db_operations := [new_operation_row 3 operation0]\<rparr>)
     = Inr (result2, d2) \<and> op_ID result2 = 1"
proof -
  have "enqueueOperation 3 4 operation0 (db0\<lparr>db_machines := [machine0]\<rparr>)
      = Inr (scan_operation (new_operation_row 3 operation0) operation0,
          db0\<lparr>db_machines := [machine0], db_operations := [new_operation_row 3 operation0]\<rparr>)"
    by code_simp
  from enqueue_is_idempotent [OF this, of "operation0\<lparr>op_ID := 0, op_Action := OpStop\<rparr>" 9 4]
  show ?thesis by (auto simp: scan_operation_def new_operation_row_def sample_defs)
qed

end
