(* ===== verification/Machine_Lifecycle.thy ===== *)
theory Machine_Lifecycle
  imports Machine_Samples
begin

text \<open>
  The lifecycle of a machine's row (\<open>BE/internal/repository/dev_machine.go\<close>): creation of the whole
  bundle under the workspace's quota (\<open>CreateBundle\<close>), the desired state with its operation
  (\<open>SetDesiredAndEnqueue\<close>), the observed state (\<open>SetMachineState\<close>, \<open>SetMachineStateForOperation\<close>),
  preferences and activity, permanent deletion and purging, and the lists the reconciler works
  through. A \<open>DELETE\<close> of machines carries the migration's cascades: rows that belong to a machine go
  with it, references that survive it are set to \<open>NULL\<close>.
\<close>

section \<open>Reading machines and policies\<close>

definition touch_m :: "time \<Rightarrow> DevMachine \<Rightarrow> DevMachine" where
  "touch_m now m = m\<lparr>m_UpdatedAt := now\<rparr>"

definition is_machine :: "uuid \<Rightarrow> uuid \<Rightarrow> DevMachine \<Rightarrow> bool" where
  "is_machine workspaceID machineID m \<longleftrightarrow> m_WorkspaceID m = workspaceID \<and> m_ID m = machineID"

definition GetMachine :: "uuid \<Rightarrow> uuid \<Rightarrow> db \<Rightarrow> DevMachine option" where
  "GetMachine workspaceID machineID d = find (is_machine workspaceID machineID) (db_machines d)"

definition GetMachineForUser :: "uuid \<Rightarrow> uuid \<Rightarrow> uuid \<Rightarrow> db \<Rightarrow> DevMachine option" where
  "GetMachineForUser workspaceID machineID userID d =
     find (\<lambda>m. is_machine workspaceID machineID m \<and> m_CreatedByUserID m = Some userID) (db_machines d)"

definition GetMachineInternal :: "uuid \<Rightarrow> db \<Rightarrow> DevMachine option" where
  "GetMachineInternal machineID d = find (\<lambda>m. m_ID m = machineID) (db_machines d)"

definition GetPolicy :: "uuid \<Rightarrow> db \<Rightarrow> DevMachineWorkspacePolicy option" where
  "GetPolicy workspaceID d = find (\<lambda>p. wp_WorkspaceID p = workspaceID) (db_policies d)"

definition upsert_policy_row ::
  "time \<Rightarrow> DevMachineWorkspacePolicy \<Rightarrow> DevMachineWorkspacePolicy \<Rightarrow> DevMachineWorkspacePolicy" where
  "upsert_policy_row now policy p = policy\<lparr>wp_WorkspaceID := wp_WorkspaceID p,
     wp_CreatedAt := wp_CreatedAt p, wp_UpdatedAt := now\<rparr>"

definition policy_row_ok :: "DevMachineWorkspacePolicy \<Rightarrow> bool" where
  "policy_row_ok p \<longleftrightarrow> 0 \<le> wp_MaxConcurrentMachines p \<and> 0 \<le> wp_MaxMachinesPerUser p
     \<and> 0 \<le> wp_MaxDailyAgentRuns p \<and> 5 \<le> wp_MaxRuntimeMinutes p \<and> wp_MaxRuntimeMinutes p \<le> 1440
     \<and> 20 \<le> wp_MaxDiskGB p \<and> wp_MaxDiskGB p \<le> 2048
     \<and> 5 \<le> wp_IdlePauseMinutes p \<and> wp_IdlePauseMinutes p \<le> 10080"

definition UpsertPolicy ::
  "time \<Rightarrow> DevMachineWorkspacePolicy \<Rightarrow> db \<Rightarrow> store_error + (DevMachineWorkspacePolicy \<times> db)" where
  "UpsertPolicy now policy d =
     (if \<not> policy_row_ok policy then Inl ErrCheckViolation
      else Inr (case GetPolicy (wp_WorkspaceID policy) d of
        Some p \<Rightarrow> (upsert_policy_row now policy p,
          d\<lparr>db_policies := update_where (\<lambda>p. wp_WorkspaceID p = wp_WorkspaceID policy)
             (upsert_policy_row now policy) (db_policies d)\<rparr>)
      | None \<Rightarrow> (let row = policy\<lparr>wp_CreatedAt := now, wp_UpdatedAt := now\<rparr> in
          (row, d\<lparr>db_policies := db_policies d @ [row]\<rparr>))))"

text \<open>A comparison of a column with a parameter that is \<open>NULL\<close> selects no row; the first two
  queries pass a \<open>NULL\<close> user for all users.\<close>

definition CountActiveMachines :: "uuid \<Rightarrow> uuid option \<Rightarrow> db \<Rightarrow> nat" where
  "CountActiveMachines workspaceID userID d =
     rows_affected (\<lambda>m. m_WorkspaceID m = workspaceID
       \<and> (userID = None \<or> m_CreatedByUserID m = userID) \<and> counts_against_quota m) (db_machines d)"

definition user_count :: "uuid \<Rightarrow> uuid option \<Rightarrow> db \<Rightarrow> nat" where
  "user_count workspaceID creatorID d =
     rows_affected (\<lambda>m. m_WorkspaceID m = workspaceID \<and> creatorID \<noteq> None
       \<and> m_CreatedByUserID m = creatorID \<and> counts_against_quota m) (db_machines d)"

text \<open>The quota test shared by \<open>CreateBundle\<close> and \<open>SetDesiredAndEnqueue\<close>.\<close>

definition check_quota :: "uuid \<Rightarrow> uuid option \<Rightarrow> db \<Rightarrow> store_error + unit" where
  "check_quota workspaceID creatorID d =
     (case find (\<lambda>p. wp_WorkspaceID p = workspaceID \<and> wp_Enabled p) (db_policies d) of
        None \<Rightarrow> Inl ErrNoRows
      | Some p \<Rightarrow>
          if int (CountActiveMachines workspaceID None d) \<ge> wp_MaxConcurrentMachines p
             \<or> int (user_count workspaceID creatorID d) \<ge> wp_MaxMachinesPerUser p
          then Inl ErrMachineQuota else Inr ())"

definition environment_ready :: "uuid \<Rightarrow> uuid option \<Rightarrow> db \<Rightarrow> bool" where
  "environment_ready workspaceID environmentID d \<longleftrightarrow>
     environmentID = None
     \<or> exists_where (\<lambda>e. en_WorkspaceID e = workspaceID \<and> Some (en_ID e) = environmentID
          \<and> en_Status e = ''ready'') (db_environments d)"

definition has_active_run :: "uuid \<Rightarrow> db \<Rightarrow> bool" where
  "has_active_run machineID d \<longleftrightarrow>
     exists_where (\<lambda>r. ar_MachineID r = machineID \<and> run_active (ar_Status r)) (db_runs d)"

definition has_unfinished_op :: "uuid \<Rightarrow> db \<Rightarrow> bool" where
  "has_unfinished_op machineID d \<longleftrightarrow>
     exists_where (\<lambda>r. op_MachineID r = machineID \<and> op_unfinished (op_Status r)) (db_operations d)"

definition snapshot_active :: "uuid \<Rightarrow> db \<Rightarrow> bool" where
  "snapshot_active machineID d \<longleftrightarrow>
     exists_where (\<lambda>r. op_MachineID r = machineID \<and> op_Action r = OpSnapshotEnvironment
       \<and> op_unfinished (op_Status r)) (db_operations d)"

section \<open>Creating a machine\<close>

text \<open>The columns the \<open>INSERT\<close> does not list are at their defaults.\<close>

definition new_machine_row :: "time \<Rightarrow> DevMachine \<Rightarrow> DevMachine" where
  "new_machine_row now m = m\<lparr>m_DeleteRequestedAt := None, m_DockerNetworkName := None,
     m_WorkspaceVolumeName := None, m_LastErrorCode := None, m_LastErrorMessage := None,
     m_CreatedAt := now, m_UpdatedAt := now, m_StartedAt := None, m_StoppedAt := None,
     m_TeardownAt := None, m_DestroyedAt := None\<rparr>"

text \<open>\<open>LOWER\<close> of the unique index on names; ASCII letters.\<close>

definition lower_char :: "char \<Rightarrow> char" where
  "lower_char c = (if 65 \<le> (of_char c :: nat) \<and> (of_char c :: nat) \<le> 90
     then char_of ((of_char c :: nat) + 32) else c)"

definition lower :: "string \<Rightarrow> string" where
  "lower s = map lower_char s"

definition MachineNameExistsForUser :: "uuid \<Rightarrow> uuid \<Rightarrow> string \<Rightarrow> db \<Rightarrow> bool" where
  "MachineNameExistsForUser workspaceID userID name d \<longleftrightarrow>
     exists_where (\<lambda>m. m_WorkspaceID m = workspaceID \<and> m_CreatedByUserID m = Some userID
       \<and> lower (m_Name m) = lower name) (db_machines d)"

definition machine_name_taken :: "DevMachine \<Rightarrow> db \<Rightarrow> bool" where
  "machine_name_taken machine d \<longleftrightarrow>
     m_CreatedByUserID machine \<noteq> None
     \<and> exists_where (\<lambda>m. m_WorkspaceID m = m_WorkspaceID machine
          \<and> m_CreatedByUserID m = m_CreatedByUserID machine
          \<and> lower (m_Name m) = lower (m_Name machine)) (db_machines d)"

definition new_provider_row :: "time \<Rightarrow> DevMachineAgentProvider \<Rightarrow> DevMachineAgentProvider" where
  "new_provider_row now p = p\<lparr>ap_CreatedAt := now, ap_UpdatedAt := now\<rparr>"

definition new_service_row :: "time \<Rightarrow> uuid \<Rightarrow> DevMachineService \<Rightarrow> DevMachineService" where
  "new_service_row now workspaceID s = s\<lparr>sv_WorkspaceID := workspaceID, sv_AgentRunID := None,
     sv_ContainerID := None, sv_HealthMessage := None, sv_StartedAt := None, sv_StoppedAt := None,
     sv_CreatedAt := now, sv_UpdatedAt := now\<rparr>"

definition new_volume_row :: "time \<Rightarrow> DevMachineVolume \<Rightarrow> DevMachineVolume" where
  "new_volume_row now v = v\<lparr>vo_CurrentSizeBytes := 0, vo_CreatedAt := now, vo_DeletedAt := None\<rparr>"

definition new_envvar_row :: "time \<Rightarrow> DevMachineEnvVar \<Rightarrow> DevMachineEnvVar" where
  "new_envvar_row now v = v\<lparr>ev_AgentRunID := None, ev_RevokedAt := None, ev_CreatedAt := now\<rparr>"

definition new_token_row :: "time \<Rightarrow> DevMachineToken \<Rightarrow> DevMachineToken" where
  "new_token_row now t = t\<lparr>tk_LastUsedAt := None, tk_RevokedAt := None, tk_CreatedAt := now\<rparr>"

text \<open>
  The parts of a bundle reference the bundle's machine and bring fresh identifiers; an insert that
  breaks a unique key or a reference fails the transaction. \<open>bundle_ok\<close> stands for the constraints
  of the five part tables that the statements meet.
\<close>

definition bundle_ok ::
  "DevMachineAgentProvider list \<Rightarrow> DevMachineService list \<Rightarrow> DevMachineVolume list
     \<Rightarrow> DevMachineEnvVar list \<Rightarrow> DevMachineToken list \<Rightarrow> db \<Rightarrow> bool" where
  "bundle_ok providers services volumes envVars tokens d \<longleftrightarrow>
     distinct (map ap_ID (db_providers d @ providers))
   \<and> distinct (map (\<lambda>p. (ap_MachineID p, ap_ProviderID p)) (db_providers d @ providers))
   \<and> distinct (map sv_ID (db_services d @ services))
   \<and> distinct (map (\<lambda>s. (sv_MachineID s, sv_ServiceKey s)) (db_services d @ services))
   \<and> distinct (map vo_ID (db_volumes d @ volumes))
   \<and> distinct (map (\<lambda>v. (vo_MachineID v, vo_RuntimeName v)) (db_volumes d @ volumes))
   \<and> distinct (map ev_ID (db_envvars d @ envVars))
   \<and> distinct (map (\<lambda>v. (ev_MachineID v, ev_AgentRunID v, ev_ProviderID v, ev_TargetService v, ev_Name v))
        (db_envvars d @ envVars))
   \<and> distinct (map tk_ID (db_tokens d @ tokens))
   \<and> distinct (map tk_TokenHash (db_tokens d @ tokens))"

definition bundle_references ::
  "DevMachineAgentProvider list \<Rightarrow> DevMachineService list \<Rightarrow> DevMachineVolume list
     \<Rightarrow> DevMachineEnvVar list \<Rightarrow> DevMachineToken list \<Rightarrow> db \<Rightarrow> bool" where
  "bundle_references providers services volumes envVars tokens d \<longleftrightarrow>
     (let known = (\<lambda>i. exists_where (\<lambda>m. m_ID m = i) (db_machines d)) in
      list_all (\<lambda>p. known (ap_MachineID p)) providers
    \<and> list_all (\<lambda>s. exists_where (is_machine (sv_WorkspaceID s) (sv_MachineID s)) (db_machines d)) services
    \<and> list_all (\<lambda>v. known (vo_MachineID v)) volumes
    \<and> list_all (\<lambda>v. known (ev_MachineID v)) envVars
    \<and> list_all (\<lambda>t. known (tk_MachineID t) \<and> references (\<lambda>r. ar_MachineID r = tk_MachineID t
          \<and> Some (ar_ID r) = tk_AgentRunID t) (tk_AgentRunID t) (db_runs d)) tokens)"

definition CreateBundle ::
  "time \<Rightarrow> uuid \<Rightarrow> DevMachine \<Rightarrow> DevMachineAgentProvider list \<Rightarrow> DevMachineService list
     \<Rightarrow> DevMachineVolume list \<Rightarrow> DevMachineEnvVar list \<Rightarrow> DevMachineToken list \<Rightarrow> DevMachineOperation
     \<Rightarrow> db \<Rightarrow> store_error + (DevMachineOperation \<times> db)" where
  "CreateBundle now fresh machine providers services volumes envVars tokens operation d =
     (let ws = m_WorkspaceID machine in
      if \<not> environment_ready ws (m_EnvironmentID machine) d then Inl ErrEnvironmentUnavailable
      else bindE (check_quota ws (m_CreatedByUserID machine) d) (\<lambda>_.
      if m_ProjectID machine \<noteq> None
         \<and> \<not> exists_where (\<lambda>p. Some (ow_ID p) = m_ProjectID machine \<and> ow_WorkspaceID p = ws) (db_projects d)
      then Inl ErrInvalidProject
      else if m_IssueID machine \<noteq> None
         \<and> \<not> exists_where (\<lambda>i. Some (ow_ID i) = m_IssueID machine \<and> ow_WorkspaceID i = ws) (db_issues d)
      then Inl ErrInvalidIssue
      else if machine_name_taken machine d then Inl ErrMachineNameConflict
      else if exists_where (\<lambda>m. m_ID m = m_ID machine \<or> m_RoutingKey m = m_RoutingKey machine) (db_machines d)
      then Inl ErrUniqueViolation
      else (let ps = map (new_provider_row now) providers;
                ss = map (new_service_row now ws) services;
                vs = map (new_volume_row now) volumes;
                es = map (new_envvar_row now) envVars;
                ts = map (new_token_row now) tokens;
                d1 = d\<lparr>db_machines := db_machines d @ [new_machine_row now machine]\<rparr> in
        if \<not> bundle_ok ps ss vs es ts d1 then Inl ErrUniqueViolation
        else if \<not> bundle_references ps ss vs es ts d1 then Inl ErrForeignKey
        else enqueueOperation now fresh operation
          (d1\<lparr>db_providers := db_providers d @ ps, db_services := db_services d @ ss,
              db_volumes := db_volumes d @ vs, db_envvars := db_envvars d @ es,
              db_tokens := db_tokens d @ ts\<rparr>))))"

definition status_text :: "DevMachineStatus \<Rightarrow> string" where
  "status_text status = (case status of
      StatusConfiguring \<Rightarrow> ''configuring'' | StatusQueued \<Rightarrow> ''queued''
    | StatusSpawning \<Rightarrow> ''spawning'' | StatusRunning \<Rightarrow> ''running'' | StatusPaused \<Rightarrow> ''paused''
    | StatusStopping \<Rightarrow> ''stopping'' | StatusStopped \<Rightarrow> ''stopped''
    | StatusTearingDown \<Rightarrow> ''tearing_down'' | StatusDestroyed \<Rightarrow> ''destroyed''
    | StatusFailed \<Rightarrow> ''failed'' | StatusExpired \<Rightarrow> ''expired'')"

text \<open>
  The page and the total of \<open>ListMachinesForUser\<close>. \<open>ORDER BY x DESC\<close> sorts by the negated key,
  \<open>LIMIT\<close> and \<open>OFFSET\<close> take and drop rows.
\<close>

definition listed_for_user ::
  "uuid \<Rightarrow> uuid \<Rightarrow> string \<Rightarrow> uuid option \<Rightarrow> db \<Rightarrow> DevMachine \<Rightarrow> bool" where
  "listed_for_user workspaceID userID status issueID d m \<longleftrightarrow>
     m_WorkspaceID m = workspaceID \<and> m_CreatedByUserID m = Some userID \<and> m_DeleteRequestedAt m = None
   \<and> (status = [] \<or> status_text (m_Status m) = status)
   \<and> (issueID = None \<or> m_IssueID m = issueID
      \<or> exists_where (\<lambda>c. co_MachineID c = m_ID m \<and> Some (co_IssueID c) = issueID) (db_checkouts d))"

definition ListMachinesForUser ::
  "uuid \<Rightarrow> uuid \<Rightarrow> string \<Rightarrow> uuid option \<Rightarrow> nat \<Rightarrow> nat \<Rightarrow> db \<Rightarrow> DevMachine list \<times> nat" where
  "ListMachinesForUser workspaceID userID status issueID limit offset d =
     (let rows = filter (listed_for_user workspaceID userID status issueID d) (db_machines d) in
      (take limit (drop offset (sort_key (\<lambda>m. (- m_CreatedAt m, - int (m_ID m))) rows)), length rows))"

section \<open>The desired state and its operation\<close>

definition sameOptionalUUID :: "uuid option \<Rightarrow> uuid option \<Rightarrow> bool" where
  "sameOptionalUUID left right =
     (if left = None \<or> right = None then left = None \<and> right = None else left = right)"

definition set_desired :: "time \<Rightarrow> DevMachineStatus \<Rightarrow> int \<Rightarrow> DevMachine \<Rightarrow> DevMachine" where
  "set_desired now desired generation m =
     m\<lparr>m_DesiredStatus := desired, m_Generation := generation, m_UpdatedAt := now\<rparr>"

definition older_than :: "uuid \<Rightarrow> uuid \<Rightarrow> int \<Rightarrow> DevMachine \<Rightarrow> bool" where
  "older_than workspaceID machineID generation m \<longleftrightarrow>
     is_machine workspaceID machineID m \<and> m_Generation m < generation"

text \<open>The checks of a request that is not a repetition, in the order of the source.\<close>

definition may_set_desired ::
  "uuid \<Rightarrow> DevMachine \<Rightarrow> DevMachineStatus \<Rightarrow> DevMachineOperation \<Rightarrow> db \<Rightarrow> store_error + unit" where
  "may_set_desired workspaceID m desired operation d =
     (if m_Generation m \<ge> op_Generation operation then Inl ErrMachineStateConflict
      else if snapshot_active (m_ID m) d then Inl ErrMachineStateConflict
      else if op_Action operation \<in> {OpPause, OpStop, OpTeardown} \<and> has_active_run (m_ID m) d
      then Inl ErrActiveAgentRun
      else if desired = StatusRunning \<and> \<not> environment_ready workspaceID (m_EnvironmentID m) d
      then Inl ErrEnvironmentUnavailable
      else if desired = StatusRunning \<and> (m_Status m = StatusStopped \<or> m_Status m = StatusFailed)
      then check_quota workspaceID (m_CreatedByUserID m) d
      else Inr ())"

definition SetDesiredAndEnqueue ::
  "time \<Rightarrow> uuid \<Rightarrow> uuid \<Rightarrow> uuid \<Rightarrow> DevMachineStatus \<Rightarrow> DevMachineOperation \<Rightarrow> db
     \<Rightarrow> store_error + (DevMachineOperation \<times> db)" where
  "SetDesiredAndEnqueue now fresh workspaceID machineID desired operation d =
     (case GetOperationByIdempotency workspaceID machineID (op_IdempotencyKey operation) d of
        Some existing \<Rightarrow>
          if op_Action existing \<noteq> op_Action operation
             \<or> \<not> sameOptionalUUID (op_RequestedByUserID existing) (op_RequestedByUserID operation)
          then Inl ErrIdempotencyKeyConflict else Inr (existing, d)
      | None \<Rightarrow>
          (case GetMachine workspaceID machineID d of
             None \<Rightarrow> Inl ErrNoRows
           | Some m \<Rightarrow> bindE (may_set_desired workspaceID m desired operation d) (\<lambda>_.
               if rows_affected (older_than workspaceID machineID (op_Generation operation)) (db_machines d) \<noteq> 1
               then Inl ErrNoRows
               else enqueueOperation now fresh operation
                 (d\<lparr>db_machines := update_where (older_than workspaceID machineID (op_Generation operation))
                     (set_desired now desired (op_Generation operation)) (db_machines d)\<rparr>))))"

section \<open>The observed state\<close>

definition coalesce :: "'a option \<Rightarrow> 'a option \<Rightarrow> 'a option" where
  "coalesce a b = (case a of None \<Rightarrow> b | Some x \<Rightarrow> Some x)"

definition state_row ::
  "time \<Rightarrow> DevMachineStatus \<Rightarrow> string option \<Rightarrow> string option \<Rightarrow> string option \<Rightarrow> string option
     \<Rightarrow> DevMachine \<Rightarrow> DevMachine" where
  "state_row now status networkName volumeName errorCode errorMessage m = m\<lparr>
     m_Status := status,
     m_DockerNetworkName := coalesce networkName (m_DockerNetworkName m),
     m_WorkspaceVolumeName := coalesce volumeName (m_WorkspaceVolumeName m),
     m_LastErrorCode := errorCode, m_LastErrorMessage := errorMessage,
     m_StartedAt := (if status = StatusRunning then coalesce (m_StartedAt m) (Some now) else m_StartedAt m),
     m_StoppedAt := (if status = StatusStopped then Some now else m_StoppedAt m),
     m_TeardownAt := (if status = StatusTearingDown then Some now else m_TeardownAt m),
     m_DestroyedAt := (if status = StatusDestroyed then Some now else m_DestroyedAt m),
     m_UpdatedAt := now\<rparr>"

definition SetMachineState ::
  "time \<Rightarrow> uuid \<Rightarrow> DevMachineStatus \<Rightarrow> string option \<Rightarrow> string option \<Rightarrow> string option \<Rightarrow> string option
     \<Rightarrow> db \<Rightarrow> db" where
  "SetMachineState now machineID status networkName volumeName errorCode errorMessage d =
     d\<lparr>db_machines := update_where (\<lambda>m. m_ID m = machineID)
        (state_row now status networkName volumeName errorCode errorMessage) (db_machines d)\<rparr>"

definition current_for :: "uuid \<Rightarrow> int \<Rightarrow> bool \<Rightarrow> DevMachine \<Rightarrow> bool" where
  "current_for machineID generation allowStale m \<longleftrightarrow>
     m_ID m = machineID \<and> (allowStale \<or> m_Generation m = generation)"

definition SetMachineStateForOperation ::
  "time \<Rightarrow> uuid \<Rightarrow> int \<Rightarrow> bool \<Rightarrow> DevMachineStatus \<Rightarrow> string option \<Rightarrow> string option \<Rightarrow> string option
     \<Rightarrow> string option \<Rightarrow> db \<Rightarrow> bool \<times> db" where
  "SetMachineStateForOperation now machineID generation allowStale status networkName volumeName
     errorCode errorMessage d =
     (rows_affected (current_for machineID generation allowStale) (db_machines d) = 1,
      d\<lparr>db_machines := update_where (current_for machineID generation allowStale)
        (state_row now status networkName volumeName errorCode errorMessage) (db_machines d)\<rparr>)"

definition retired :: "DevMachineStatus \<Rightarrow> bool" where
  "retired status \<longleftrightarrow> status \<in> {StatusTearingDown, StatusDestroyed, StatusExpired}"

definition accepts_preferences :: "uuid \<Rightarrow> uuid \<Rightarrow> uuid option \<Rightarrow> DevMachine \<Rightarrow> bool" where
  "accepts_preferences workspaceID machineID userID m \<longleftrightarrow>
     is_machine workspaceID machineID m \<and> (userID = None \<or> m_CreatedByUserID m = userID)
   \<and> m_DeleteRequestedAt m = None \<and> \<not> retired (m_Status m) \<and> \<not> retired (m_DesiredStatus m)"

text \<open>The result is \<open>None\<close> where the source returns a nil machine and a nil error.\<close>

definition updateMachinePreferences ::
  "time \<Rightarrow> uuid \<Rightarrow> uuid \<Rightarrow> uuid option \<Rightarrow> bool option \<Rightarrow> db \<Rightarrow> store_error + (DevMachine option \<times> db)" where
  "updateMachinePreferences now workspaceID machineID userID keepRunning d =
     (let P = accepts_preferences workspaceID machineID userID;
          f = (\<lambda>m. case keepRunning of None \<Rightarrow> m | Some k \<Rightarrow> m\<lparr>m_KeepRunning := k, m_UpdatedAt := now\<rparr>) in
      case find P (db_machines d) of
        Some m \<Rightarrow> Inr (Some (f m), d\<lparr>db_machines := update_where P f (db_machines d)\<rparr>)
      | None \<Rightarrow>
          (case (case userID of None \<Rightarrow> GetMachine workspaceID machineID d
                 | Some u \<Rightarrow> GetMachineForUser workspaceID machineID u d) of
             None \<Rightarrow> Inr (None, d)
           | Some _ \<Rightarrow> Inl ErrMachineStateConflict))"

definition UpdateMachinePreferencesForUser ::
  "time \<Rightarrow> uuid \<Rightarrow> uuid \<Rightarrow> uuid \<Rightarrow> bool option \<Rightarrow> db \<Rightarrow> store_error + (DevMachine option \<times> db)" where
  "UpdateMachinePreferencesForUser now workspaceID machineID userID keepRunning d =
     updateMachinePreferences now workspaceID machineID (Some userID) keepRunning d"

definition TouchMachineActivity :: "time \<Rightarrow> uuid \<Rightarrow> time \<Rightarrow> db \<Rightarrow> db" where
  "TouchMachineActivity now machineID act d =
     d\<lparr>db_machines := update_where (\<lambda>m. m_ID m = machineID)
        (\<lambda>m. m\<lparr>m_LastActivityAt := Some (max (case m_LastActivityAt m of None \<Rightarrow> act | Some t \<Rightarrow> t) act),
               m_UpdatedAt := now\<rparr>) (db_machines d)\<rparr>"

section \<open>Deleting machines\<close>

text \<open>
  The result of a \<open>DELETE FROM dev_machines\<close> that succeeds: \<open>ON DELETE CASCADE\<close> of every table whose
  rows belong to a machine, \<open>ON DELETE SET NULL\<close> of \<open>dev_machine_access_logs\<close> and of the source
  machine of an environment.
\<close>

definition delete_machines :: "time \<Rightarrow> (DevMachine \<Rightarrow> bool) \<Rightarrow> db \<Rightarrow> db" where
  "delete_machines now P d =
     (let gone = (\<lambda>i. i \<in> set (map m_ID (filter P (db_machines d)))) in d\<lparr>
        db_machines := delete_where P (db_machines d),
        db_operations := delete_where (\<lambda>r. gone (op_MachineID r)) (db_operations d),
        db_runs := delete_where (\<lambda>r. gone (ar_MachineID r)) (db_runs d),
        db_services := delete_where (\<lambda>r. gone (sv_MachineID r)) (db_services d),
        db_providers := delete_where (\<lambda>r. gone (ap_MachineID r)) (db_providers d),
        db_volumes := delete_where (\<lambda>r. gone (vo_MachineID r)) (db_volumes d),
        db_envvars := delete_where (\<lambda>r. gone (ev_MachineID r)) (db_envvars d),
        db_tokens := delete_where (\<lambda>r. gone (tk_MachineID r)) (db_tokens d),
        db_credentials := delete_where (\<lambda>r. gone (rc_MachineID r)) (db_credentials d),
        db_events := delete_where (\<lambda>r. gone (me_MachineID r)) (db_events d),
        db_logs := delete_where (\<lambda>r. gone (lc_MachineID r)) (db_logs d),
        db_gitrefs := delete_where (\<lambda>r. gone (gr_MachineID r)) (db_gitrefs d),
        db_tickets := delete_where (\<lambda>r. gone (at_MachineID r)) (db_tickets d),
        db_sessions := delete_where (\<lambda>r. gone (as_MachineID r)) (db_sessions d),
        db_samples := delete_where (\<lambda>r. gone (rs_MachineID r)) (db_samples d),
        db_checkouts := delete_where (\<lambda>r. gone (co_MachineID r)) (db_checkouts d),
        db_terminals := delete_where (\<lambda>r. gone (ts_MachineID r)) (db_terminals d),
        db_accesslogs := update_where (\<lambda>l. case al_MachineID l of None \<Rightarrow> False | Some i \<Rightarrow> gone i)
          (\<lambda>l. l\<lparr>al_MachineID := None, al_ServiceID := None\<rparr>) (db_accesslogs d),
        db_environments := update_where (\<lambda>e. case en_SourceMachineID e of None \<Rightarrow> False | Some i \<Rightarrow> gone i)
          (\<lambda>e. e\<lparr>en_SourceMachineID := None, en_UpdatedAt := now\<rparr>) (db_environments d)\<rparr>)"

text \<open>The purge condition of the SQL statements.\<close>

definition sql_purgeable :: "DevMachine \<Rightarrow> bool" where
  "sql_purgeable m \<longleftrightarrow> m_Status m = StatusDestroyed
     \<or> (m_Status m \<in> {StatusExpired, StatusFailed}
        \<and> m_DockerNetworkName m = None \<and> m_WorkspaceVolumeName m = None)"

definition PurgePermanentDeleteRequest :: "time \<Rightarrow> uuid \<Rightarrow> uuid \<Rightarrow> db \<Rightarrow> store_error + db" where
  "PurgePermanentDeleteRequest now workspaceID machineID d =
     (let P = (\<lambda>m. is_machine workspaceID machineID m \<and> sql_purgeable m \<and> \<not> has_unfinished_op (m_ID m) d) in
      if rows_affected P (db_machines d) \<noteq> 1 then Inl ErrNoRows else Inr (delete_machines now P d))"

definition purge_time :: "DevMachine \<Rightarrow> time" where
  "purge_time m = (case m_DestroyedAt m of Some t \<Rightarrow> t | None \<Rightarrow>
     (case m_DeleteRequestedAt m of Some t \<Rightarrow> t | None \<Rightarrow> m_UpdatedAt m))"

definition bulk_purgeable :: "uuid \<Rightarrow> uuid list \<Rightarrow> time \<Rightarrow> bool \<Rightarrow> bool \<Rightarrow> db \<Rightarrow> DevMachine \<Rightarrow> bool" where
  "bulk_purgeable workspaceID machineIDs olderThan includeFailed includeExpired d m \<longleftrightarrow>
     m_WorkspaceID m = workspaceID
   \<and> m_Status m \<in> set ([StatusDestroyed] @ (if includeExpired then [StatusExpired] else [])
        @ (if includeFailed then [StatusFailed] else []))
   \<and> purge_time m < olderThan \<and> \<not> has_unfinished_op (m_ID m) d
   \<and> (m_Status m = StatusDestroyed \<or> m_DockerNetworkName m = None \<and> m_WorkspaceVolumeName m = None)
   \<and> (machineIDs = [] \<or> m_ID m \<in> set machineIDs)"

definition BulkPurgeMachines ::
  "time \<Rightarrow> uuid \<Rightarrow> uuid list \<Rightarrow> time \<Rightarrow> bool \<Rightarrow> bool \<Rightarrow> db \<Rightarrow> nat \<times> db" where
  "BulkPurgeMachines now workspaceID machineIDs olderThan includeFailed includeExpired d =
     (let P = bulk_purgeable workspaceID machineIDs olderThan includeFailed includeExpired d in
      (rows_affected P (db_machines d), delete_machines now P d))"

section \<open>Requesting a permanent delete\<close>

definition request_delete_row :: "time \<Rightarrow> DevMachine \<Rightarrow> DevMachine" where
  "request_delete_row now m =
     m\<lparr>m_DeleteRequestedAt := coalesce (m_DeleteRequestedAt m) (Some now), m_UpdatedAt := now\<rparr>"

definition destroy_row :: "time \<Rightarrow> int \<Rightarrow> DevMachine \<Rightarrow> DevMachine" where
  "destroy_row now generation m = m\<lparr>m_DesiredStatus := StatusDestroyed,
     m_Generation := max (m_Generation m) generation, m_UpdatedAt := now\<rparr>"

definition active_teardown :: "uuid \<Rightarrow> uuid \<Rightarrow> db \<Rightarrow> DevMachineOperation option" where
  "active_teardown workspaceID machineID d =
     (case sort_key (\<lambda>r. (- op_Generation r, op_CreatedAt r))
        (filter (\<lambda>r. op_WorkspaceID r = workspaceID \<and> op_MachineID r = machineID
            \<and> op_Action r = OpTeardown \<and> op_unfinished (op_Status r)) (db_operations d)) of
        [] \<Rightarrow> None | r # _ \<Rightarrow> Some r)"

definition delete_operation :: "uuid \<Rightarrow> uuid \<Rightarrow> DevMachine \<Rightarrow> uuid option \<Rightarrow> DevMachineOperation" where
  "delete_operation new_id workspaceID m requestedByUserID = \<lparr>
     op_ID = new_id, op_MachineID = m_ID m, op_AgentRunID = None, op_CheckoutID = None,
     op_EnvironmentID = None, op_TerminalSessionID = None, op_WorkspaceID = workspaceID,
     op_Action = OpTeardown, op_Status = OpStatusPending, op_Generation = m_Generation m + 1,
     op_IdempotencyKey = ''permanent-delete:'' @ int_decimal (m_Generation m + 1),
     op_RequestedByUserID = requestedByUserID, op_LeaseOwner = None, op_LeaseExpiresAt = None,
     op_Attempts = 0, op_MaxAttempts = 10, op_ErrorCode = None, op_ErrorMessage = None,
     op_AvailableAt = 0, op_CreatedAt = 0, op_UpdatedAt = 0, op_CompletedAt = None\<rparr>"

definition RequestPermanentDelete ::
  "time \<Rightarrow> uuid \<Rightarrow> uuid \<Rightarrow> uuid \<Rightarrow> uuid option \<Rightarrow> db
     \<Rightarrow> store_error + (DevMachineOperation option \<times> db)" where
  "RequestPermanentDelete now new_id workspaceID machineID requestedByUserID d =
     (case find (\<lambda>m. is_machine workspaceID machineID m
          \<and> (requestedByUserID = None \<or> m_CreatedByUserID m = requestedByUserID)) (db_machines d) of
        None \<Rightarrow> Inl ErrNoRows
      | Some m \<Rightarrow>
        (let this = is_machine workspaceID machineID;
             d1 = d\<lparr>db_machines := update_where this (request_delete_row now) (db_machines d)\<rparr> in
         case active_teardown workspaceID machineID d of
           Some active \<Rightarrow> Inr (Some active,
             if m_DesiredStatus m \<noteq> StatusDestroyed
             then d1\<lparr>db_machines := update_where this (destroy_row now (op_Generation active)) (db_machines d1)\<rparr>
             else d1)
         | None \<Rightarrow>
           if DevMachineSafelyPurgeable (Some m)
              \<and> \<not> exists_where (\<lambda>r. op_WorkspaceID r = workspaceID \<and> op_MachineID r = machineID
                    \<and> op_unfinished (op_Status r)) (db_operations d)
           then Inr (None, d1)
           else
             (let operation = delete_operation new_id workspaceID m requestedByUserID in
              case GetOperationByIdempotency workspaceID machineID (op_IdempotencyKey operation) d of
                Some existing \<Rightarrow>
                  if op_Action existing \<noteq> op_Action operation
                     \<or> \<not> sameOptionalUUID (op_RequestedByUserID existing) requestedByUserID
                  then Inl ErrIdempotencyKeyConflict else Inr (Some existing, d1)
              | None \<Rightarrow>
                  if rows_affected (older_than workspaceID machineID (op_Generation operation)) (db_machines d1) \<noteq> 1
                  then Inl ErrNoRows
                  else bindE (enqueueOperation now new_id operation
                    (d1\<lparr>db_machines := update_where (older_than workspaceID machineID (op_Generation operation))
                        (set_desired now StatusDestroyed (op_Generation operation)) (db_machines d1)\<rparr>))
                    (\<lambda>(result, d2). Inr (Some result, d2)))))"

section \<open>The reconciler's work lists\<close>

definition ListExpiredMachines :: "time \<Rightarrow> nat \<Rightarrow> db \<Rightarrow> DevMachine list" where
  "ListExpiredMachines now limit d = take limit (sort_key m_ExpiresAt (filter (\<lambda>m.
       m_ExpiresAt m \<le> now \<and> m_Status m \<notin> {StatusTearingDown, StatusDestroyed}
     \<and> \<not> exists_where (\<lambda>r. op_MachineID r = m_ID m \<and> op_Action r = OpTeardown \<and> op_unfinished (op_Status r))
          (db_operations d)) (db_machines d)))"

definition ListTimedOutAgentRuns :: "time \<Rightarrow> nat \<Rightarrow> db \<Rightarrow> DevMachineAgentRun list" where
  "ListTimedOutAgentRuns now limit d =
     take limit (sort_key (\<lambda>r. case ar_StartedAt r of None \<Rightarrow> 0 | Some t \<Rightarrow> t) (filter (\<lambda>r.
       ar_Status r = RunRunning
     \<and> (case ar_StartedAt r of None \<Rightarrow> False | Some t \<Rightarrow> t + seconds (ar_MaxRuntimeSeconds r) \<le> now))
       (db_runs d)))"

definition ListRuntimeMachines :: "nat \<Rightarrow> nat \<Rightarrow> db \<Rightarrow> DevMachine list" where
  "ListRuntimeMachines limit offset d =
     take limit (drop offset (sort_key (\<lambda>m. (m_UpdatedAt m, m_ID m)) (filter (\<lambda>m.
       (m_Status m \<in> {StatusSpawning, StatusRunning, StatusPaused, StatusStopping, StatusTearingDown, StatusFailed}
        \<or> m_DesiredStatus m = StatusRunning
          \<and> m_Status m \<notin> {StatusDestroyed, StatusTearingDown, StatusExpired})
     \<and> \<not> has_unfinished_op (m_ID m) d) (db_machines d))))"

definition ListPermanentDeleteRequests :: "nat \<Rightarrow> db \<Rightarrow> DevMachine list" where
  "ListPermanentDeleteRequests limit d =
     take limit (sort_key (\<lambda>m. (case m_DeleteRequestedAt m of None \<Rightarrow> 0 | Some t \<Rightarrow> t, m_UpdatedAt m))
       (filter (\<lambda>m. m_DeleteRequestedAt m \<noteq> None) (db_machines d)))"

definition last_active :: "DevMachine \<Rightarrow> time" where
  "last_active m = (case m_LastActivityAt m of Some t \<Rightarrow> t | None \<Rightarrow>
     (case m_StartedAt m of Some t \<Rightarrow> t | None \<Rightarrow> m_CreatedAt m))"

definition idle_machine :: "time \<Rightarrow> db \<Rightarrow> DevMachine \<Rightarrow> bool" where
  "idle_machine now d m \<longleftrightarrow>
     m_Status m = StatusRunning \<and> m_DesiredStatus m = StatusRunning \<and> \<not> m_KeepRunning m
   \<and> exists_where (\<lambda>p. wp_WorkspaceID p = m_WorkspaceID m \<and> wp_Enabled p
        \<and> last_active m + minutes (wp_IdlePauseMinutes p) \<le> now) (db_policies d)
   \<and> \<not> has_active_run (m_ID m) d \<and> \<not> has_unfinished_op (m_ID m) d"

definition ListIdleMachines :: "time \<Rightarrow> nat \<Rightarrow> db \<Rightarrow> DevMachine list" where
  "ListIdleMachines now limit d =
     take limit (sort_key last_active (filter (idle_machine now d) (db_machines d)))"

end
