(* ===== verification/Lifecycle_Properties.thy ===== *)
theory Lifecycle_Properties
  imports Machine_Lifecycle
begin

text \<open>
  Properties of the machine lifecycle: generations only grow and a stale writer changes nothing,
  a new desired state leaves exactly one machine changed and one operation queued under the
  request's key, the workspace's quota is respected, a purge takes a machine that holds no runtime
  resources together with everything that belongs to it, and a permanent delete ends in a teardown
  or in a machine that can be purged.
\<close>

section \<open>Generations\<close>

definition machine_grows :: "DevMachine \<Rightarrow> DevMachine \<Rightarrow> bool" where
  "machine_grows m m' \<longleftrightarrow> m_ID m' = m_ID m \<and> m_WorkspaceID m' = m_WorkspaceID m
     \<and> m_CreatedByUserID m' = m_CreatedByUserID m \<and> m_Generation m \<le> m_Generation m'"

definition generations_grow :: "db \<Rightarrow> db \<Rightarrow> bool" where
  "generations_grow d d' \<longleftrightarrow> list_all2 machine_grows (db_machines d) (db_machines d')"

lemma machine_grows_refl [simp]: "machine_grows m m"
  by (simp add: machine_grows_def)

lemma generations_grow_refl [simp]: "generations_grow d d"
  by (simp add: generations_grow_def list.rel_refl)

lemma generations_grow_trans [trans]:
  "generations_grow d d' \<Longrightarrow> generations_grow d' d'' \<Longrightarrow> generations_grow d d''"
  unfolding generations_grow_def
  by (erule (1) list_all2_trans [rotated]) (auto simp: machine_grows_def)

lemma generations_grow_same: "db_machines d = db_machines d' \<Longrightarrow> generations_grow d d'"
  by (simp add: generations_grow_def list.rel_refl)

text \<open>An update of machines under a condition that keeps identity, owner and generation order.\<close>

locale machine_update = keyed_update m_ID f for f :: "DevMachine \<Rightarrow> DevMachine" +
  fixes P :: "DevMachine \<Rightarrow> bool"
  assumes grows: "P m \<Longrightarrow> machine_grows m (f m)"
begin

lemma update_grows: "generations_grow d (d\<lparr>db_machines := update_where P f (db_machines d)\<rparr>)"
  by (auto simp: generations_grow_def update_where_def list_all2_conv_all_nth grows)

end

interpretation desired_up: machine_update "set_desired now desired generation" "older_than ws mid generation"
  by unfold_locales (auto simp: set_desired_def machine_grows_def older_than_def)

interpretation state_up: machine_update "state_row now status net vol code msg" P
  by unfold_locales (simp_all add: state_row_def machine_grows_def)

interpretation request_up: machine_update "request_delete_row now" P
  by unfold_locales (simp_all add: request_delete_row_def machine_grows_def)

interpretation destroy_up: machine_update "destroy_row now generation" P
  by unfold_locales (simp_all add: destroy_row_def machine_grows_def)

lemmas machine_up = desired_up.update_grows state_up.update_grows request_up.update_grows
  destroy_up.update_grows

lemma enqueueOperation_machines:
  "enqueueOperation now fresh operation d = Inr (r, d') \<Longrightarrow> db_machines d' = db_machines d"
  by (auto dest: enqueueOperation_frame)

text \<open>The successful outcomes of \<open>SetDesiredAndEnqueue\<close>.\<close>

lemma SetDesiredAndEnqueue_cases:
  assumes "SetDesiredAndEnqueue now fresh ws mid desired operation d = Inr (r, d')"
  obtains (repeated) "GetOperationByIdempotency ws mid (op_IdempotencyKey operation) d = Some r" "d' = d"
      "op_Action r = op_Action operation"
    | (queued) m where
      "GetOperationByIdempotency ws mid (op_IdempotencyKey operation) d = None"
      "GetMachine ws mid d = Some m" "may_set_desired ws m desired operation d = Inr ()"
      "enqueueOperation now fresh operation
         (d\<lparr>db_machines := update_where (older_than ws mid (op_Generation operation))
             (set_desired now desired (op_Generation operation)) (db_machines d)\<rparr>) = Inr (r, d')"
  using assms
  by (auto simp: SetDesiredAndEnqueue_def bindE_Inr split: option.splits if_splits)

lemma SetDesiredAndEnqueue_grows:
  assumes "SetDesiredAndEnqueue now fresh ws mid desired operation d = Inr (r, d')"
  shows "generations_grow d d'"
  using assms
proof (cases rule: SetDesiredAndEnqueue_cases)
  case (queued m)
  from enqueueOperation_machines [OF queued(4)] show ?thesis
    by (intro generations_grow_trans [OF desired_up.update_grows generations_grow_same]) auto
qed simp

lemma may_set_desiredD:
  assumes "may_set_desired ws m desired operation d = Inr ()"
  shows "m_Generation m < op_Generation operation" "\<not> snapshot_active (m_ID m) d"
    "op_Action operation \<in> {OpPause, OpStop, OpTeardown} \<Longrightarrow> \<not> has_active_run (m_ID m) d"
    "desired = StatusRunning \<Longrightarrow> environment_ready ws (m_EnvironmentID m) d"
    "desired = StatusRunning \<Longrightarrow> m_Status m \<in> {StatusStopped, StatusFailed}
       \<Longrightarrow> check_quota ws (m_CreatedByUserID m) d = Inr ()"
  using assms by (auto simp: may_set_desired_def split: if_splits)

lemma GetMachineD:
  assumes "GetMachine ws mid d = Some m"
  shows "m \<in> set (db_machines d)" "m_ID m = mid" "m_WorkspaceID m = ws"
  using find_SomeD [OF assms [unfolded GetMachine_def]] by (simp_all add: is_machine_def)

definition machines_wf :: "db \<Rightarrow> bool" where
  "machines_wf d \<longleftrightarrow> distinct (map m_ID (db_machines d))"

text \<open>The foreign key of operations.\<close>

definition ops_refer :: "db \<Rightarrow> bool" where
  "ops_refer d \<longleftrightarrow> (\<forall>r \<in> set (db_operations d). \<exists>m \<in> set (db_machines d).
     m_ID m = op_MachineID r \<and> m_WorkspaceID m = op_WorkspaceID r)"

lemma GetMachine_Some:
  "machines_wf d \<Longrightarrow> GetMachine ws mid d = Some m \<longleftrightarrow>
     m \<in> set (db_machines d) \<and> m_WorkspaceID m = ws \<and> m_ID m = mid"
  unfolding machines_wf_def GetMachine_def
  by (subst find_Some_unique [where key = m_ID and k = mid]) (simp_all add: is_machine_def)

lemma GetMachineInternal_Some:
  "machines_wf d \<Longrightarrow> GetMachineInternal mid d = Some m \<longleftrightarrow> m \<in> set (db_machines d) \<and> m_ID m = mid"
  by (simp add: machines_wf_def GetMachineInternal_def find_Some_iff_distinct)

lemma machine_after_update:
  assumes "keyed_update m_ID f" and "machines_wf d"
    and "d' = d\<lparr>db_machines := update_where P f (db_machines d), db_operations := ops\<rparr>"
  shows "GetMachineInternal i d' = map_option (\<lambda>m. if P m then f m else m) (GetMachineInternal i d)"
    "machines_wf d'"
  using keyed_update.find_key [OF assms(1)] keyed_update.distinct_keys [OF assms(1)] assms(2,3)
  by (simp_all add: GetMachineInternal_def machines_wf_def)

lemma other_machine_kept:
  assumes "keyed_update m_ID f" and "machines_wf d"
    and "d' = d\<lparr>db_machines := update_where P f (db_machines d), db_operations := ops\<rparr>"
    and "\<And>m. P m \<Longrightarrow> m_ID m = k" and "i \<noteq> k"
  shows "GetMachineInternal i d' = GetMachineInternal i d"
proof (cases "GetMachineInternal i d")
  case None
  then show ?thesis by (simp add: machine_after_update(1) [OF assms(1-3)])
next
  case (Some n)
  with assms(2,4,5) have "\<not> P n" by (auto simp: GetMachineInternal_Some)
  with Some show ?thesis by (simp add: machine_after_update(1) [OF assms(1-3)])
qed

lemma enqueue_result:
  assumes "enqueueOperation now fresh operation d = Inr (r, d')"
    and "\<forall>s \<in> set (db_operations d). \<not> same_key operation s"
  shows "\<exists>row. d' = d\<lparr>db_operations := db_operations d @ [row]\<rparr> \<and> same_key operation row
      \<and> op_Action row = op_Action operation \<and> op_Status row = op_Status operation
      \<and> op_Generation row = op_Generation operation \<and> op_WorkspaceID row = op_WorkspaceID operation
      \<and> op_ID row = op_ID r \<and> op_LeaseOwner row = None"
  using assms(1)
proof (cases rule: enqueueOperation_cases)
  case (existing row)
  then have "row \<in> set (db_operations d)" "same_key (default_operation fresh operation) row"
    by (auto dest: find_SomeD)
  with assms(2) have False by (simp add: same_key_def) blast
  then show ?thesis ..
next
  case (added row)
  then show ?thesis by (auto simp: same_key_iff op_key_def scan_operation_def)
qed

text \<open>A key that is unused in the workspace is unused on the machine.\<close>

lemma workspace_of_operation:
  assumes "machines_wf d" and "ops_refer d" and "GetMachine ws mid d = Some m"
    and "s \<in> set (db_operations d)" and "op_MachineID s = mid"
  shows "op_WorkspaceID s = ws"
proof -
  from assms(2,4) obtain n where n: "n \<in> set (db_machines d)" "m_ID n = op_MachineID s"
    "m_WorkspaceID n = op_WorkspaceID s" by (auto simp: ops_refer_def)
  with assms(1,3,5) have "n = m"
    by (auto simp: GetMachine_Some machines_wf_def intro: distinct_key_eq [of m_ID])
  with n(3) GetMachineD(3) [OF assms(3)] show ?thesis by simp
qed

lemma key_unused:
  assumes "machines_wf d" and "ops_refer d" and "GetMachine ws mid d = Some m"
    and "GetOperationByIdempotency ws mid k d = None"
  shows "\<forall>s \<in> set (db_operations d). op_MachineID s = mid \<longrightarrow> op_IdempotencyKey s \<noteq> k"
  using workspace_of_operation [OF assms(1-3)] assms(4)
  by (auto simp: GetOperationByIdempotency_def find_None_all)

section \<open>Desired states\<close>

lemma set_desired_effect:
  assumes "machines_wf d" and "ops_refer d"
    and "op_MachineID operation = mid" and "op_WorkspaceID operation = ws"
    and "GetOperationByIdempotency ws mid (op_IdempotencyKey operation) d = None"
    and "SetDesiredAndEnqueue now fresh ws mid desired operation d = Inr (r, d')"
  shows "\<exists>m row. GetMachine ws mid d = Some m \<and> m_Generation m < op_Generation operation
     \<and> \<not> snapshot_active mid d
     \<and> (op_Action operation \<in> {OpPause, OpStop, OpTeardown} \<longrightarrow> \<not> has_active_run mid d)
     \<and> GetMachine ws mid d' = Some (set_desired now desired (op_Generation operation) m)
     \<and> (\<forall>i. i \<noteq> mid \<longrightarrow> GetMachineInternal i d' = GetMachineInternal i d)
     \<and> db_operations d' = db_operations d @ [row] \<and> same_key operation row
     \<and> op_Action row = op_Action operation \<and> op_Generation row = op_Generation operation
     \<and> op_Status row = op_Status operation \<and> op_ID row = op_ID r"
  using assms(6)
proof (cases rule: SetDesiredAndEnqueue_cases)
  case repeated
  with assms(5) show ?thesis by simp
next
  case (queued m)
  note m = GetMachineD [OF queued(2)]
  let ?P = "older_than ws mid (op_Generation operation)"
  let ?f = "set_desired now desired (op_Generation operation)"
  have fresh: "\<forall>s \<in> set (db_operations d). \<not> same_key operation s"
    using key_unused [OF assms(1,2) queued(2) assms(5)] assms(3) by (simp add: same_key_def)
  obtain row where row: "d' = d\<lparr>db_machines := update_where ?P ?f (db_machines d),
        db_operations := db_operations d @ [row]\<rparr>" "same_key operation row"
      "op_Action row = op_Action operation" "op_Status row = op_Status operation"
      "op_Generation row = op_Generation operation" "op_ID row = op_ID r"
    using enqueue_result [OF queued(4)] fresh by auto
  note after = machine_after_update [OF desired_up.keyed_update_axioms assms(1) row(1)]
  have internal: "GetMachineInternal mid d = Some m"
    using m assms(1) by (simp add: GetMachineInternal_Some)
  have "?P m" using m may_set_desiredD(1) [OF queued(3)] by (simp add: older_than_def is_machine_def)
  then have "GetMachineInternal mid d' = Some (?f m)" by (simp add: after(1) internal)
  then have "GetMachine ws mid d' = Some (?f m)"
    using m after(2) by (simp add: GetMachine_Some GetMachineInternal_Some set_desired_def)
  moreover have "GetMachineInternal i d' = GetMachineInternal i d" if "i \<noteq> mid" for i
    by (rule other_machine_kept [OF desired_up.keyed_update_axioms assms(1) row(1) _ that])
      (simp add: older_than_def is_machine_def)
  ultimately show ?thesis
    using queued m may_set_desiredD [OF queued(3)] row by (intro exI [of _ m] exI [of _ row]) auto
qed

text \<open>
  A request that is not a repetition succeeds only when its generation is newer than the
  machine's, no snapshot of the machine is unfinished and, for pausing, stopping and tearing down,
  no agent run is active. It then sets exactly the requested desired status and generation of that
  machine, leaves every other machine as it was, and adds one operation with the request's key,
  action and generation to the queue.
\<close>

theorem set_desired_takes_effect:
  assumes "machines_wf d" and "ops_refer d"
    and "op_MachineID operation = mid" and "op_WorkspaceID operation = ws"
    and "GetOperationByIdempotency ws mid (op_IdempotencyKey operation) d = None"
    and "SetDesiredAndEnqueue now fresh ws mid desired operation d = Inr (r, d')"
  shows "\<exists>m row. GetMachine ws mid d = Some m \<and> m_Generation m < op_Generation operation
     \<and> \<not> snapshot_active mid d
     \<and> (op_Action operation \<in> {OpPause, OpStop, OpTeardown} \<longrightarrow> \<not> has_active_run mid d)
     \<and> GetMachine ws mid d' = Some (set_desired now desired (op_Generation operation) m)
     \<and> (\<forall>i. i \<noteq> mid \<longrightarrow> GetMachineInternal i d' = GetMachineInternal i d)
     \<and> db_operations d' = db_operations d @ [row] \<and> same_key operation row
     \<and> op_Action row = op_Action operation \<and> op_Generation row = op_Generation operation
     \<and> op_Status row = op_Status operation \<and> op_ID row = op_ID r"
  using assms by (rule set_desired_effect)

definition pause_request :: DevMachineOperation where
  "pause_request = operation0\<lparr>op_ID := 2, op_Action := OpPause, op_Generation := 2,
     op_IdempotencyKey := ''pause-2''\<rparr>"

definition running_db :: db where
  "running_db = db0\<lparr>db_machines := [machine0], db_policies := [policy0]\<rparr>"

lemma pause_request_accepted:
  "\<exists>r d'. SetDesiredAndEnqueue 5 3 1 1 StatusPaused pause_request running_db = Inr (r, d')"
proof -
  have "case SetDesiredAndEnqueue 5 3 1 1 StatusPaused pause_request running_db of Inl _ \<Rightarrow> False | Inr _ \<Rightarrow> True"
    by code_simp
  then show ?thesis by (auto split: sum.splits)
qed

theorem set_desired_takes_effect_witness:
  "\<exists>r d' m. SetDesiredAndEnqueue 5 3 1 1 StatusPaused pause_request running_db = Inr (r, d')
     \<and> GetMachine 1 1 d' = Some (set_desired 5 StatusPaused 2 m)"
proof -
  obtain r d' where *: "SetDesiredAndEnqueue 5 3 1 1 StatusPaused pause_request running_db = Inr (r, d')"
    using pause_request_accepted by blast
  have "machines_wf running_db" "ops_refer running_db" "op_MachineID pause_request = 1"
    "op_WorkspaceID pause_request = 1"
    "GetOperationByIdempotency 1 1 (op_IdempotencyKey pause_request) running_db = None"
    "op_Generation pause_request = 2"
    by code_simp+
  with set_desired_takes_effect [OF _ _ _ _ _ *] * show ?thesis by auto
qed

section \<open>Quota\<close>

text \<open>The policy a workspace's machines are counted against.\<close>

definition enabled_policy :: "uuid \<Rightarrow> db \<Rightarrow> DevMachineWorkspacePolicy option" where
  "enabled_policy ws d = find (\<lambda>p. wp_WorkspaceID p = ws \<and> wp_Enabled p) (db_policies d)"

lemma check_quotaD:
  assumes "check_quota ws creator d = Inr ()"
  shows "\<exists>p. enabled_policy ws d = Some p
    \<and> int (CountActiveMachines ws None d) < wp_MaxConcurrentMachines p
    \<and> int (user_count ws creator d) < wp_MaxMachinesPerUser p"
  using assms by (auto simp: check_quota_def enabled_policy_def split: option.splits if_splits)

lemma CreateBundle_machines:
  assumes "CreateBundle now fresh machine ps ss vs es ts operation d = Inr (r, d')"
  shows "db_machines d' = db_machines d @ [new_machine_row now machine]"
    "check_quota (m_WorkspaceID machine) (m_CreatedByUserID machine) d = Inr ()"
  using assms
  by (auto simp: CreateBundle_def Let_def bindE_Inr split: if_splits dest!: enqueueOperation_machines)

text \<open>
  The quota holds when a machine is created. After a successful \<open>CreateBundle\<close> the workspace
  has an enabled policy, and neither the workspace nor the creator has more counted machines than it
  allows.
\<close>

theorem create_respects_quota:
  assumes "CreateBundle now fresh machine ps ss vs es ts operation d = Inr (r, d')"
  shows "\<exists>p. enabled_policy (m_WorkspaceID machine) d = Some p
    \<and> int (CountActiveMachines (m_WorkspaceID machine) None d') \<le> wp_MaxConcurrentMachines p
    \<and> int (user_count (m_WorkspaceID machine) (m_CreatedByUserID machine) d') \<le> wp_MaxMachinesPerUser p"
proof -
  note new = CreateBundle_machines [OF assms]
  have "CountActiveMachines (m_WorkspaceID machine) None d'
          \<le> CountActiveMachines (m_WorkspaceID machine) None d + 1"
    "user_count (m_WorkspaceID machine) (m_CreatedByUserID machine) d'
          \<le> user_count (m_WorkspaceID machine) (m_CreatedByUserID machine) d + 1"
    unfolding CountActiveMachines_def user_count_def new(1) rows_affected_append
    by (simp_all add: rows_affected_def)
  with check_quotaD [OF new(2)] show ?thesis by force
qed

definition new_machine :: DevMachine where
  "new_machine = machine0\<lparr>m_ID := 9, m_RoutingKey := ''zzzzzzzzzzzz'', m_Name := ''two'',
     m_Status := StatusConfiguring\<rparr>"

definition spawn_request :: DevMachineOperation where
  "spawn_request = operation0\<lparr>op_ID := 9, op_MachineID := 9, op_Action := OpSpawn\<rparr>"

theorem create_respects_quota_witness:
  "\<exists>r d'. CreateBundle 5 3 new_machine [] [] [] [] [] spawn_request running_db = Inr (r, d')
     \<and> (\<exists>p. enabled_policy 1 running_db = Some p
          \<and> int (CountActiveMachines 1 None d') \<le> wp_MaxConcurrentMachines p)"
proof -
  have "case CreateBundle 5 3 new_machine [] [] [] [] [] spawn_request running_db of
      Inl _ \<Rightarrow> False | Inr _ \<Rightarrow> True" by code_simp
  then obtain r d' where *: "CreateBundle 5 3 new_machine [] [] [] [] [] spawn_request running_db = Inr (r, d')"
    by (auto split: sum.splits)
  have ws: "m_WorkspaceID new_machine = 1" by code_simp
  from create_respects_quota [OF *] * show ?thesis unfolding ws by blast
qed

text \<open>
  The quota holds when a machine is started. For a machine that is not destroyed or expired,
  a successful \<open>SetDesiredAndEnqueue\<close> leaves the workspace's and the creator's counts where they
  were, or within what the enabled policy allows.
\<close>

theorem start_respects_quota:
  assumes "machines_wf d" and "GetMachine ws mid d = Some m"
    and "m_Status m \<notin> {StatusDestroyed, StatusExpired}"
    and "SetDesiredAndEnqueue now fresh ws mid desired operation d = Inr (r, d')"
  shows "(CountActiveMachines ws None d' \<le> CountActiveMachines ws None d
          \<and> user_count ws (m_CreatedByUserID m) d' \<le> user_count ws (m_CreatedByUserID m) d)
     \<or> (\<exists>p. enabled_policy ws d = Some p
          \<and> int (CountActiveMachines ws None d') \<le> wp_MaxConcurrentMachines p
          \<and> int (user_count ws (m_CreatedByUserID m) d') \<le> wp_MaxMachinesPerUser p)"
  using assms(4)
proof (cases rule: SetDesiredAndEnqueue_cases)
  case (queued m')
  with assms(2) have m': "m' = m" by simp
  let ?P = "older_than ws mid (op_Generation operation)"
  let ?f = "set_desired now desired (op_Generation operation)"
  have machines: "db_machines d' = update_where ?P ?f (db_machines d)"
    using enqueueOperation_machines [OF queued(4)] by simp
  have only: "n = m" if "n \<in> set (db_machines d)" "?P n" for n
    using that GetMachineD [OF assms(2)] assms(1)
    by (auto simp: older_than_def is_machine_def machines_wf_def intro: distinct_key_eq)
  show ?thesis
  proof (cases "desired = StatusRunning \<and> m_Status m \<in> {StatusStopped, StatusFailed}")
    case True
    have one: "rows_affected ?P (db_machines d) \<le> 1"
      using assms(1) unfolding machines_wf_def
      by (rule rows_affected_distinct_le [where k = mid]) (simp add: older_than_def is_machine_def)
    from True queued(3) have "check_quota ws (m_CreatedByUserID m) d = Inr ()"
      unfolding m' by (auto dest: may_set_desiredD(5))
    then obtain p where p: "enabled_policy ws d = Some p"
      "int (CountActiveMachines ws None d) < wp_MaxConcurrentMachines p"
      "int (user_count ws (m_CreatedByUserID m) d) < wp_MaxMachinesPerUser p"
      by (blast dest: check_quotaD)
    have "rows_affected Q (db_machines d') \<le> rows_affected Q (db_machines d) + 1" for Q
      using rows_affected_update_where_le [of Q ?P ?f "db_machines d"] one machines by simp
    then have "CountActiveMachines ws None d' \<le> CountActiveMachines ws None d + 1"
      "user_count ws (m_CreatedByUserID m) d' \<le> user_count ws (m_CreatedByUserID m) d + 1"
      unfolding CountActiveMachines_def user_count_def by blast+
    with p show ?thesis by (intro disjI2 exI [of _ p]) simp
  next
    case False
    have kept: "counts_against_quota n" if "n \<in> set (db_machines d)" "?P n" "counts_against_quota (?f n)" for n
      using False assms(3) only [OF that(1,2)] that(3)
      by (auto simp: counts_against_quota_def set_desired_def)
    have "rows_affected Q (db_machines d') \<le> rows_affected Q (db_machines d)"
      if "\<And>n. Q (?f n) \<Longrightarrow> counts_against_quota (?f n)"
        "\<And>n. Q (?f n) \<Longrightarrow> counts_against_quota n \<Longrightarrow> Q n" for Q
      unfolding rows_affected_def machines
      by (rule length_filter_update_where_le) (use that kept in blast)
    note count = this
    have "CountActiveMachines ws None d' \<le> CountActiveMachines ws None d"
      "user_count ws (m_CreatedByUserID m) d' \<le> user_count ws (m_CreatedByUserID m) d"
      unfolding CountActiveMachines_def user_count_def
      by (rule count; simp add: set_desired_def)+
    then show ?thesis by blast
  qed
qed simp

definition start_request :: DevMachineOperation where
  "start_request = operation0\<lparr>op_ID := 2, op_Generation := 2, op_IdempotencyKey := ''start-2''\<rparr>"

definition stopped_machine :: DevMachine where
  "stopped_machine = machine0\<lparr>m_Status := StatusStopped, m_DesiredStatus := StatusStopped\<rparr>"

theorem start_respects_quota_witness:
  "\<exists>r d'. SetDesiredAndEnqueue 5 3 1 1 StatusRunning start_request
       (running_db\<lparr>db_machines := [stopped_machine]\<rparr>) = Inr (r, d')
     \<and> (\<exists>p. enabled_policy 1 (running_db\<lparr>db_machines := [stopped_machine]\<rparr>) = Some p
          \<and> int (CountActiveMachines 1 None d') \<le> wp_MaxConcurrentMachines p)"
proof -
  let ?d = "running_db\<lparr>db_machines := [stopped_machine]\<rparr>"
  have "case SetDesiredAndEnqueue 5 3 1 1 StatusRunning start_request ?d of
      Inl _ \<Rightarrow> False | Inr (_, d') \<Rightarrow> CountActiveMachines 1 None d' = 1" by code_simp
  then obtain r d' where *: "SetDesiredAndEnqueue 5 3 1 1 StatusRunning start_request ?d = Inr (r, d')"
    and one: "CountActiveMachines 1 None d' = 1"
    by (auto split: sum.splits)
  have "machines_wf ?d" "GetMachine 1 1 ?d = Some stopped_machine"
    "m_Status stopped_machine \<notin> {StatusDestroyed, StatusExpired}"
    "CountActiveMachines 1 None ?d = 0"
    by code_simp+
  with start_respects_quota [OF _ _ _ *] one * show ?thesis by (auto simp del: One_nat_def)
qed

section \<open>Observed states\<close>

text \<open>
  A late result of an old operation changes nothing. \<open>SetMachineStateForOperation\<close> with a
  generation that is not the machine's, and without \<open>allowStale\<close>, reports \<open>false\<close> and leaves the
  database as it was; with the current generation it reports \<open>true\<close> and sets the status.
\<close>

theorem stale_state_is_ignored:
  assumes "machines_wf d" and "GetMachineInternal mid d = Some m"
  shows "(if allowStale \<or> m_Generation m = generation
      then \<exists>d'. SetMachineStateForOperation now mid generation allowStale status net vol code msg d = (True, d')
        \<and> GetMachineInternal mid d' = Some (state_row now status net vol code msg m)
      else SetMachineStateForOperation now mid generation allowStale status net vol code msg d = (False, d))"
proof -
  let ?P = "current_for mid generation allowStale"
  have m: "m \<in> set (db_machines d)" "m_ID m = mid"
    using assms by (simp_all add: GetMachineInternal_Some)
  have only: "n = m" if "n \<in> set (db_machines d)" "m_ID n = mid" for n
    using that m assms(1) by (auto simp: machines_wf_def intro: distinct_key_eq)
  show ?thesis
  proof (cases "allowStale \<or> m_Generation m = generation")
    case False
    then have "\<forall>n \<in> set (db_machines d). \<not> ?P n"
      using only by (auto simp: current_for_def)
    with False show ?thesis
      by (simp add: SetMachineStateForOperation_def update_where_none
          iffD2 [OF rows_affected_0])
  next
    case True
    have "rows_affected ?P (db_machines d) \<le> 1"
      using assms(1) unfolding machines_wf_def
      by (rule rows_affected_distinct_le) (simp add: current_for_def)
    moreover have "rows_affected ?P (db_machines d) \<noteq> 0"
      using True m by (auto simp: rows_affected_0 current_for_def)
    ultimately have "rows_affected ?P (db_machines d) = 1" by simp
    with True m assms(2) show ?thesis
      by (simp add: SetMachineStateForOperation_def GetMachineInternal_def state_up.find_key)
        (simp add: current_for_def)
  qed
qed

theorem stale_state_is_ignored_witness:
  "SetMachineStateForOperation 5 1 7 False StatusFailed None None None None running_db = (False, running_db)"
  using stale_state_is_ignored [of running_db 1 machine0 False 7]
  by (simp add: running_db_def machines_wf_def GetMachineInternal_def sample_defs)

section \<open>Purging\<close>

text \<open>The machine identifiers the rows of the tables that belong to machines mention.\<close>

definition mentions :: "db \<Rightarrow> uuid list list" where
  "mentions d = [map op_MachineID (db_operations d), map ar_MachineID (db_runs d),
     map sv_MachineID (db_services d), map ap_MachineID (db_providers d),
     map vo_MachineID (db_volumes d), map ev_MachineID (db_envvars d),
     map tk_MachineID (db_tokens d), map rc_MachineID (db_credentials d),
     map me_MachineID (db_events d), map lc_MachineID (db_logs d),
     map gr_MachineID (db_gitrefs d), map at_MachineID (db_tickets d),
     map as_MachineID (db_sessions d), map rs_MachineID (db_samples d),
     map co_MachineID (db_checkouts d), map ts_MachineID (db_terminals d),
     List.map_filter al_MachineID (db_accesslogs d),
     List.map_filter en_SourceMachineID (db_environments d)]"

definition mentioned :: "db \<Rightarrow> uuid set" where
  "mentioned d = set (concat (mentions d))"

definition refers_only_to_machines :: "db \<Rightarrow> bool" where
  "refers_only_to_machines d \<longleftrightarrow> mentioned d \<subseteq> m_ID ` set (db_machines d)"

lemma set_map_filter_update:
  "set (List.map_filter key (update_where (\<lambda>l. case key l of None \<Rightarrow> False | Some i \<Rightarrow> gone i) f rows))
     \<subseteq> {i \<in> set (List.map_filter key rows). \<not> gone i}"
  if "\<And>l. key (f l) = None"
  using that by (induction rows) (auto simp: update_where_def List.map_filter_simps split: option.splits)

lemma image_delete_where: "key ` set (delete_where (\<lambda>r. key r \<in> G) rows) = key ` set rows - G"
  by (auto simp: set_delete_where)

lemma concat_subset_minus:
  "list_all2 (\<lambda>xs ys. set xs \<subseteq> set ys - G) xss yss \<Longrightarrow> set (concat xss) \<subseteq> set (concat yss) - G"
  by (induction rule: list_all2_induct) auto

lemma delete_machines_mentioned:
  "mentioned (delete_machines now P d) \<subseteq> mentioned d - m_ID ` {m \<in> set (db_machines d). P m}"
proof -
  define G where "G = set (map m_ID (filter P (db_machines d)))"
  have logs: "set (List.map_filter al_MachineID (update_where
        (\<lambda>l. case al_MachineID l of None \<Rightarrow> False | Some i \<Rightarrow> i \<in> G)
        (\<lambda>l. l\<lparr>al_MachineID := None, al_ServiceID := None\<rparr>) (db_accesslogs d)))
      \<subseteq> set (List.map_filter al_MachineID (db_accesslogs d)) - G"
    using set_map_filter_update [of al_MachineID
        "\<lambda>l. l\<lparr>al_MachineID := None, al_ServiceID := None\<rparr>" "\<lambda>i. i \<in> G"] by auto
  have envs: "set (List.map_filter en_SourceMachineID (update_where
        (\<lambda>e. case en_SourceMachineID e of None \<Rightarrow> False | Some i \<Rightarrow> i \<in> G)
        (\<lambda>e. e\<lparr>en_SourceMachineID := None, en_UpdatedAt := now\<rparr>) (db_environments d)))
      \<subseteq> set (List.map_filter en_SourceMachineID (db_environments d)) - G"
    using set_map_filter_update [of en_SourceMachineID
        "\<lambda>e. e\<lparr>en_SourceMachineID := None, en_UpdatedAt := now\<rparr>" "\<lambda>i. i \<in> G"] by auto
  have G: "m_ID ` {m \<in> set (db_machines d). P m} = G" by (auto simp: G_def)
  show ?thesis
    unfolding G unfolding mentioned_def
    by (rule concat_subset_minus)
      (simp add: mentions_def delete_machines_def Let_def G image_delete_where logs envs)
qed

lemma delete_machines_machines: "db_machines (delete_machines now P d) = delete_where P (db_machines d)"
  by (simp add: delete_machines_def Let_def)

lemma delete_machines_refers:
  "refers_only_to_machines d \<Longrightarrow> refers_only_to_machines (delete_machines now P d)"
  using delete_machines_mentioned [of now P d]
  unfolding refers_only_to_machines_def delete_machines_machines set_delete_where by blast

text \<open>
  What of the database concerns one machine and what concerns none: the rows of the machine, and the tables whose rows
  belong to no machine.
\<close>

definition rows_of_machine :: "uuid \<Rightarrow> db \<Rightarrow> db" where
  "rows_of_machine i d = d\<lparr>
     db_machines := filter (\<lambda>m. m_ID m = i) (db_machines d),
     db_operations := filter (\<lambda>r. op_MachineID r = i) (db_operations d),
     db_runs := filter (\<lambda>r. ar_MachineID r = i) (db_runs d),
     db_services := filter (\<lambda>r. sv_MachineID r = i) (db_services d),
     db_providers := filter (\<lambda>r. ap_MachineID r = i) (db_providers d),
     db_volumes := filter (\<lambda>r. vo_MachineID r = i) (db_volumes d),
     db_envvars := filter (\<lambda>r. ev_MachineID r = i) (db_envvars d),
     db_tokens := filter (\<lambda>r. tk_MachineID r = i) (db_tokens d),
     db_credentials := filter (\<lambda>r. rc_MachineID r = i) (db_credentials d),
     db_events := filter (\<lambda>r. me_MachineID r = i) (db_events d),
     db_logs := filter (\<lambda>r. lc_MachineID r = i) (db_logs d),
     db_gitrefs := filter (\<lambda>r. gr_MachineID r = i) (db_gitrefs d),
     db_tickets := filter (\<lambda>r. at_MachineID r = i) (db_tickets d),
     db_sessions := filter (\<lambda>r. as_MachineID r = i) (db_sessions d),
     db_samples := filter (\<lambda>r. rs_MachineID r = i) (db_samples d),
     db_checkouts := filter (\<lambda>r. co_MachineID r = i) (db_checkouts d),
     db_terminals := filter (\<lambda>r. ts_MachineID r = i) (db_terminals d),
     db_accesslogs := filter (\<lambda>l. al_MachineID l = Some i) (db_accesslogs d),
     db_environments := filter (\<lambda>e. en_SourceMachineID e = Some i) (db_environments d)\<rparr>"

text \<open>No access log and no environment goes; the ones of machines that go forget their machine, the others stay as they are.\<close>

definition traces_stay :: "uuid set \<Rightarrow> db \<Rightarrow> db \<Rightarrow> bool" where
  "traces_stay gone d d' \<longleftrightarrow>
     list_all2 (\<lambda>l l'. if al_MachineID l \<in> Some ` gone then l' = l\<lparr>al_MachineID := None, al_ServiceID := None\<rparr> else l' = l)
       (db_accesslogs d) (db_accesslogs d')
   \<and> list_all2 (\<lambda>e e'. if en_SourceMachineID e \<in> Some ` gone
         then \<exists>now. e' = e\<lparr>en_SourceMachineID := None, en_UpdatedAt := now\<rparr> else e' = e)
       (db_environments d) (db_environments d')"

lemma filter_delete_other: "\<not> G i \<Longrightarrow> filter (\<lambda>r. key r = i) (delete_where (\<lambda>r. G (key r)) rows) = filter (\<lambda>r. key r = i) rows"
  by (induction rows) (auto simp: delete_where_def)

lemma filter_update_other:
  assumes "\<not> G i" and "\<And>r. key (f r) = None"
  shows "filter (\<lambda>r. key r = Some i) (update_where (\<lambda>r. case key r of None \<Rightarrow> False | Some j \<Rightarrow> G j) f rows)
    = filter (\<lambda>r. key r = Some i) rows"
  using assms by (induction rows) (auto simp: update_where_def split: option.splits)

lemma delete_machines_rows:
  assumes "i \<notin> m_ID ` {m \<in> set (db_machines d). P m}"
  shows "rows_of_machine i (delete_machines now P d) = rows_of_machine i d"
proof -
  define G where "G = (\<lambda>i. i \<in> set (map m_ID (filter P (db_machines d))))"
  have "\<not> G i" using assms by (auto simp: G_def)
  note other = filter_delete_other [of G, OF this] filter_update_other [of G, OF this]
  have machines: "filter (\<lambda>m. m_ID m = i) (delete_where P (db_machines d)) = filter (\<lambda>m. m_ID m = i) (db_machines d)"
    using assms by (auto simp: delete_where_def intro!: filter_cong)
  show ?thesis
    unfolding rows_of_machine_def delete_machines_def Let_def G_def [symmetric] by (simp add: other machines)
qed

lemma delete_machines_traces: "traces_stay (m_ID ` {m \<in> set (db_machines d). P m}) d (delete_machines now P d)"
  by (auto simp: traces_stay_def delete_machines_def Let_def update_where_def list_all2_map2 split: option.splits
    intro!: list_all2_refl)

lemma sql_purgeable_iff: "sql_purgeable m \<longleftrightarrow> DevMachineSafelyPurgeable (Some m)"
  by (simp add: sql_purgeable_def DevMachineSafelyPurgeable_Some)

lemma bulk_purgeableD:
  assumes "bulk_purgeable ws ids olderThan incFailed incExpired d m"
  shows "m_WorkspaceID m = ws" "DevMachineSafelyPurgeable (Some m)" "\<not> has_unfinished_op (m_ID m) d"
    "ids \<noteq> [] \<Longrightarrow> m_ID m \<in> set ids" "purge_time m < olderThan"
  using assms by (auto simp: bulk_purgeable_def DevMachineSafelyPurgeable_Some split: if_splits)

text \<open>
  (C4) Purging is safe and complete. \<open>PurgePermanentDeleteRequest\<close> and \<open>BulkPurgeMachines\<close> delete
  only machines of the workspace that the Go predicate \<open>DevMachineSafelyPurgeable\<close> accepts and that
  have no unfinished operation, so no machine that may still own a container network or a volume is
  forgotten; they delete every row that belongs to a deleted machine, except that access logs and
  environments stay and forget it. Nothing else changes: of every machine that is not deleted all rows of all tables
  stay as they were, and so do all tables without machines. If every row referred to a machine before, every
  row does so after.
\<close>

theorem purge_is_safe_and_complete:
  assumes "PurgePermanentDeleteRequest now ws mid d = Inr d'
     \<or> BulkPurgeMachines now ws ids olderThan incFailed incExpired d = (count, d')"
  shows "(\<forall>m \<in> set (db_machines d). m \<notin> set (db_machines d') \<longrightarrow>
       m_WorkspaceID m = ws \<and> DevMachineSafelyPurgeable (Some m) \<and> \<not> has_unfinished_op (m_ID m) d
       \<and> m_ID m \<notin> mentioned d')
     \<and> set (db_machines d') \<subseteq> set (db_machines d)
     \<and> (let gone = m_ID ` (set (db_machines d) - set (db_machines d')) in
         traces_stay gone d d' \<and> (\<forall>i. i \<notin> gone \<longrightarrow> rows_of_machine i d' = rows_of_machine i d))
     \<and> (refers_only_to_machines d \<longrightarrow> refers_only_to_machines d')"
proof -
  obtain P where d': "d' = delete_machines now P d"
    and P: "\<And>m. P m \<Longrightarrow> m_WorkspaceID m = ws \<and> DevMachineSafelyPurgeable (Some m)
       \<and> \<not> has_unfinished_op (m_ID m) d"
    using assms
  proof
    assume "PurgePermanentDeleteRequest now ws mid d = Inr d'"
    then show thesis
      by (intro that [of "\<lambda>m. is_machine ws mid m \<and> sql_purgeable m \<and> \<not> has_unfinished_op (m_ID m) d"])
        (auto simp: PurgePermanentDeleteRequest_def Let_def is_machine_def sql_purgeable_iff split: if_splits)
  next
    assume "BulkPurgeMachines now ws ids olderThan incFailed incExpired d = (count, d')"
    then show thesis
      by (intro that [of "bulk_purgeable ws ids olderThan incFailed incExpired d"])
        (auto simp: BulkPurgeMachines_def Let_def dest: bulk_purgeableD)
  qed
  have gone: "set (db_machines d) - set (db_machines d') = {m \<in> set (db_machines d). P m}"
    by (auto simp: d' delete_machines_machines set_delete_where)
  have unmentioned: "m_ID m \<notin> mentioned d'" if "m \<in> set (db_machines d)" "m \<notin> set (db_machines d')" for m
    using that delete_machines_mentioned [of now P d]
    by (auto simp: d' delete_machines_machines set_delete_where)
  have "P m" if "m \<in> set (db_machines d)" "m \<notin> set (db_machines d')" for m
    using that gone by blast
  with P unmentioned have "\<forall>m \<in> set (db_machines d). m \<notin> set (db_machines d') \<longrightarrow>
       m_WorkspaceID m = ws \<and> DevMachineSafelyPurgeable (Some m) \<and> \<not> has_unfinished_op (m_ID m) d
       \<and> m_ID m \<notin> mentioned d'" by blast
  moreover have "set (db_machines d') \<subseteq> set (db_machines d)"
    by (auto simp: d' delete_machines_machines set_delete_where)
  moreover have "traces_stay (m_ID ` {m \<in> set (db_machines d). P m}) d d'"
    unfolding d' by (rule delete_machines_traces)
  moreover have "\<forall>i. i \<notin> m_ID ` {m \<in> set (db_machines d). P m} \<longrightarrow> rows_of_machine i d' = rows_of_machine i d"
    unfolding d' using delete_machines_rows by blast
  moreover have "refers_only_to_machines d \<longrightarrow> refers_only_to_machines d'"
    by (simp add: d' delete_machines_refers)
  ultimately show ?thesis unfolding gone Let_def by (intro conjI)
qed

definition destroyed_machine :: DevMachine where
  "destroyed_machine = machine0\<lparr>m_Status := StatusDestroyed, m_DesiredStatus := StatusDestroyed\<rparr>"

definition purge_db :: db where
  "purge_db = db0\<lparr>db_machines := [destroyed_machine], db_services := [service0], db_tickets := [ticket0]\<rparr>"

theorem purge_is_safe_and_complete_witness:
  "\<exists>d'. PurgePermanentDeleteRequest 9 1 1 purge_db = Inr d' \<and> m_ID destroyed_machine \<notin> mentioned d'"
proof -
  have "case PurgePermanentDeleteRequest 9 1 1 purge_db of Inl _ \<Rightarrow> False
      | Inr d' \<Rightarrow> destroyed_machine \<notin> set (db_machines d')" by code_simp
  then obtain d' where d': "PurgePermanentDeleteRequest 9 1 1 purge_db = Inr d'"
    "destroyed_machine \<notin> set (db_machines d')"
    by (auto split: sum.splits)
  have "destroyed_machine \<in> set (db_machines purge_db)" by code_simp
  with purge_is_safe_and_complete [OF disjI1, OF d'(1)] d' show ?thesis by blast
qed

section \<open>Permanent deletion\<close>

lemma active_teardownD:
  assumes "active_teardown ws mid d = Some r"
  shows "r \<in> set (db_operations d)" "op_WorkspaceID r = ws" "op_MachineID r = mid"
    "op_Action r = OpTeardown" "op_unfinished (op_Status r)"
  using assms by (auto simp: active_teardown_def split: list.splits dest!: first_of_sort_key)

lemma active_teardown_None:
  assumes "active_teardown ws mid d = None" and "r \<in> set (db_operations d)"
    and "op_WorkspaceID r = ws" "op_MachineID r = mid" "op_Action r = OpTeardown"
  shows "\<not> op_unfinished (op_Status r)"
  using assms
  by (auto simp: active_teardown_def filter_empty_conv sort_key_empty split: list.splits)

definition generation_bound :: "db \<Rightarrow> bool" where
  "generation_bound d \<longleftrightarrow> (\<forall>r \<in> set (db_operations d). \<forall>m \<in> set (db_machines d).
     m_ID m = op_MachineID r \<longrightarrow> op_Generation r \<le> m_Generation m)"

lemma request_delete_row_fields [simp]:
  "m_ID (request_delete_row now m) = m_ID m"
  "m_WorkspaceID (request_delete_row now m) = m_WorkspaceID m"
  "m_Generation (request_delete_row now m) = m_Generation m"
  "m_DesiredStatus (request_delete_row now m) = m_DesiredStatus m"
  "\<exists>y. m_DeleteRequestedAt (request_delete_row now m) = Some y"
  "sql_purgeable (request_delete_row now m) = sql_purgeable m"
  by (simp_all add: request_delete_row_def coalesce_def sql_purgeable_def split: option.splits)

lemma delete_operation_fields [simp]:
  "op_MachineID (delete_operation fresh ws m requester) = m_ID m"
  "op_Action (delete_operation fresh ws m requester) = OpTeardown"
  "op_Status (delete_operation fresh ws m requester) = OpStatusPending"
  "op_Generation (delete_operation fresh ws m requester) = m_Generation m + 1"
  by (simp_all add: delete_operation_def)

definition deletion_arranged :: "uuid \<Rightarrow> DevMachineOperation option \<Rightarrow> db \<Rightarrow> bool" where
  "deletion_arranged mid result d \<longleftrightarrow> (\<exists>m \<in> set (db_machines d).
     m_ID m = mid \<and> m_DeleteRequestedAt m \<noteq> None
   \<and> (case result of
        None \<Rightarrow> \<forall>now. \<exists>d'. PurgePermanentDeleteRequest now (m_WorkspaceID m) mid d = Inr d'
      | Some r \<Rightarrow> m_DesiredStatus m = StatusDestroyed
          \<and> (\<exists>row \<in> set (db_operations d). op_ID row = op_ID r \<and> op_MachineID row = mid
               \<and> op_Action row = OpTeardown \<and> op_unfinished (op_Status row)
               \<and> op_Generation row \<le> m_Generation m)))"

lemma purge_succeeds:
  assumes "machines_wf d" and "m \<in> set (db_machines d)" and "sql_purgeable m"
    and "\<not> has_unfinished_op (m_ID m) d"
  shows "\<exists>d'. PurgePermanentDeleteRequest now (m_WorkspaceID m) (m_ID m) d = Inr d'"
proof -
  let ?P = "\<lambda>n. is_machine (m_WorkspaceID m) (m_ID m) n \<and> sql_purgeable n \<and> \<not> has_unfinished_op (m_ID n) d"
  have "rows_affected ?P (db_machines d) \<le> 1"
    using assms(1) unfolding machines_wf_def
    by (rule rows_affected_distinct_le) (simp add: is_machine_def)
  moreover have "rows_affected ?P (db_machines d) \<noteq> 0"
    using assms(2-4) by (auto simp: rows_affected_0 is_machine_def)
  ultimately have "rows_affected ?P (db_machines d) = 1" by simp
  then show ?thesis by (simp add: PurgePermanentDeleteRequest_def Let_def)
qed

definition delete_key_unused :: "uuid \<Rightarrow> uuid \<Rightarrow> db \<Rightarrow> bool" where
  "delete_key_unused ws mid d \<longleftrightarrow> (case GetMachine ws mid d of None \<Rightarrow> True
     | Some m \<Rightarrow> GetOperationByIdempotency ws mid
          (''permanent-delete:'' @ int_decimal (m_Generation m + 1)) d = None)"

text \<open>The ways \<open>RequestPermanentDelete\<close> succeeds when the key of its own operation is unused.\<close>

lemma RequestPermanentDelete_cases:
  assumes "RequestPermanentDelete now fresh ws mid requester d = Inr (result, d')"
    and "delete_key_unused ws mid d" and "machines_wf d"
  obtains (active) m r where "GetMachine ws mid d = Some m" "active_teardown ws mid d = Some r"
      "result = Some r"
      "d' = d\<lparr>db_machines := update_where (is_machine ws mid) (\<lambda>m. if m_DesiredStatus m \<noteq> StatusDestroyed
          then destroy_row now (op_Generation r) (request_delete_row now m) else request_delete_row now m)
          (db_machines d)\<rparr>"
    | (ready) m where "GetMachine ws mid d = Some m" "sql_purgeable m" "result = None"
      "\<forall>r \<in> set (db_operations d). op_WorkspaceID r = ws \<and> op_MachineID r = mid \<longrightarrow> \<not> op_unfinished (op_Status r)"
      "d' = d\<lparr>db_machines := update_where (is_machine ws mid) (request_delete_row now) (db_machines d)\<rparr>"
    | (queued) m r where "GetMachine ws mid d = Some m" "result = Some r"
      "enqueueOperation now fresh (delete_operation fresh ws m requester)
         (d\<lparr>db_machines := update_where (older_than ws mid (m_Generation m + 1))
             (set_desired now StatusDestroyed (m_Generation m + 1))
             (update_where (is_machine ws mid) (request_delete_row now) (db_machines d))\<rparr>) = Inr (r, d')"
proof -
  let ?own = "\<lambda>m. is_machine ws mid m \<and> (requester = None \<or> m_CreatedByUserID m = requester)"
  from assms(1) obtain m where m: "find ?own (db_machines d) = Some m"
    by (auto simp: RequestPermanentDelete_def split: option.splits)
  then have get: "GetMachine ws mid d = Some m"
    using assms(3) by (auto simp: GetMachine_Some is_machine_def dest: find_SomeD)
  from assms(2) get have key: "GetOperationByIdempotency ws mid
      (''permanent-delete:'' @ int_decimal (m_Generation m + 1)) d = None"
    by (simp add: delete_key_unused_def)
  show thesis
  proof (cases "active_teardown ws mid d")
    case (Some r)
    have "update_where (is_machine ws mid) (destroy_row now (op_Generation r))
           (update_where (is_machine ws mid) (request_delete_row now) (db_machines d))
        = update_where (is_machine ws mid) (\<lambda>m. destroy_row now (op_Generation r) (request_delete_row now m))
            (db_machines d)"
      by (simp add: update_where_def is_machine_def)
    moreover have "update_where (is_machine ws mid) (\<lambda>n. if m_DesiredStatus n \<noteq> StatusDestroyed
          then destroy_row now (op_Generation r) (request_delete_row now n) else request_delete_row now n)
          (db_machines d)
        = update_where (is_machine ws mid) (\<lambda>n. if m_DesiredStatus m \<noteq> StatusDestroyed
          then destroy_row now (op_Generation r) (request_delete_row now n) else request_delete_row now n)
          (db_machines d)"
      unfolding update_where_def
    proof (rule map_cong [OF refl])
      fix n assume "n \<in> set (db_machines d)"
      then have "n = m" if "is_machine ws mid n"
        using that get assms(3) by (auto simp: GetMachine_Some is_machine_def machines_wf_def
            intro: distinct_key_eq)
      then show "(if is_machine ws mid n then if m_DesiredStatus n \<noteq> StatusDestroyed
            then destroy_row now (op_Generation r) (request_delete_row now n) else request_delete_row now n else n)
          = (if is_machine ws mid n then if m_DesiredStatus m \<noteq> StatusDestroyed
            then destroy_row now (op_Generation r) (request_delete_row now n) else request_delete_row now n else n)"
        by auto
    qed
    ultimately show thesis
      using assms(1) m Some
      by (intro active [OF get Some]) (auto simp: RequestPermanentDelete_def Let_def)
  next
    case None
    with assms(1) m key show thesis
      by (auto simp: RequestPermanentDelete_def Let_def bindE_Inr delete_operation_def
            sql_purgeable_iff exists_where_iff
          split: if_splits option.splits intro: ready [OF get] queued [OF get])
  qed
qed

text \<open>
  A permanent delete is arranged. A successful \<open>RequestPermanentDelete\<close> leaves the machine marked
  for deletion, and either no operation, when a purge of the machine then succeeds at any time, or an
  unfinished teardown of the machine in the queue, not newer than the machine's generation, with
  \<open>destroyed\<close> as the machine's desired status.
\<close>

theorem permanent_delete_is_arranged:
  assumes wf: "machines_wf d" and refer: "ops_refer d" and bound: "generation_bound d"
    and key: "delete_key_unused ws mid d"
    and run: "RequestPermanentDelete now fresh ws mid requester d = Inr (result, d')"
  shows "deletion_arranged mid result d'"
  using run key wf
proof (cases rule: RequestPermanentDelete_cases)
  case (active m r)
  note m = GetMachineD [OF active(1)] and r = active_teardownD [OF active(2)]
  let ?m = "if m_DesiredStatus m \<noteq> StatusDestroyed
      then destroy_row now (op_Generation r) (request_delete_row now m) else request_delete_row now m"
  have "?m \<in> set (db_machines d')"
    using m by (auto simp: active(4) set_update_where is_machine_def intro!: rev_image_eqI [of m])
  moreover have "op_Generation r \<le> m_Generation m"
    using bound m r by (auto simp: generation_bound_def)
  moreover have "r \<in> set (db_operations d')" using r by (simp add: active(4))
  ultimately show ?thesis
    unfolding deletion_arranged_def active(3) using m r
    by (intro bexI [of _ ?m]) (auto simp: destroy_row_def intro!: bexI [of _ r])
next
  case (ready m)
  note m = GetMachineD [OF ready(1)]
  let ?m = "request_delete_row now m"
  have "?m \<in> set (db_machines d')"
    using m by (auto simp: ready(5) set_update_where is_machine_def intro!: rev_image_eqI [of m])
  moreover have "\<not> has_unfinished_op mid d'"
    using ready(4) workspace_of_operation [OF wf refer ready(1)]
    by (auto simp: has_unfinished_op_def exists_where_iff ready(5))
  moreover have "machines_wf d'"
    using wf by (simp add: ready(5) machines_wf_def request_up.distinct_keys)
  ultimately have "\<exists>d''. PurgePermanentDeleteRequest t (m_WorkspaceID ?m) mid d' = Inr d''" for t
    using purge_succeeds [of d' ?m t] ready(2) m by simp
  with \<open>?m \<in> set (db_machines d')\<close> m show ?thesis
    unfolding deletion_arranged_def ready(3) by (intro bexI [of _ ?m]) auto
next
  case (queued m r)
  note m = GetMachineD [OF queued(1)]
  let ?m = "set_desired now StatusDestroyed (m_Generation m + 1) (request_delete_row now m)"
  have fresh: "\<forall>s \<in> set (db_operations d). \<not> same_key (delete_operation fresh ws m requester) s"
    using key_unused [OF wf refer queued(1)] key queued(1) m
    by (auto simp: same_key_def delete_operation_def delete_key_unused_def)
  have "\<exists>row. db_operations d' = db_operations d @ [row] \<and> op_MachineID row = m_ID m
      \<and> op_Action row = OpTeardown \<and> op_Status row = OpStatusPending
      \<and> op_Generation row = m_Generation m + 1 \<and> op_ID row = op_ID r"
    using enqueue_result [OF queued(3)] fresh by (auto simp: same_key_def)
  then obtain row where "db_operations d' = db_operations d @ [row]" and row: "op_MachineID row = mid"
      "op_Action row = OpTeardown" "op_Status row = OpStatusPending"
      "op_Generation row = m_Generation m + 1" "op_ID row = op_ID r"
    unfolding m(2) by blast
  then have "row \<in> set (db_operations d')" by simp
  note row = this row
  have "?m \<in> set (db_machines d')"
    using enqueueOperation_machines [OF queued(3)] m
    by (auto simp: set_update_where is_machine_def older_than_def image_image intro!: rev_image_eqI [of m])
  then show ?thesis
    unfolding deletion_arranged_def queued(2) using m row
    by (intro bexI [of _ ?m]) (auto simp: set_desired_def intro!: bexI [of _ row])
qed

theorem permanent_delete_is_arranged_witness:
  "\<exists>result d'. RequestPermanentDelete 5 3 1 1 (Some 7) running_db = Inr (result, d')
     \<and> deletion_arranged 1 result d'"
proof -
  have "case RequestPermanentDelete 5 3 1 1 (Some 7) running_db of Inl _ \<Rightarrow> False | Inr _ \<Rightarrow> True"
    by code_simp
  then obtain result d' where *: "RequestPermanentDelete 5 3 1 1 (Some 7) running_db = Inr (result, d')"
    by (auto split: sum.splits)
  have "machines_wf running_db" "ops_refer running_db" "generation_bound running_db"
    "delete_key_unused 1 1 running_db" by code_simp+
  then have "deletion_arranged 1 result d'"
    by (rule permanent_delete_is_arranged [OF _ _ _ _ *])
  with * show ?thesis by blast
qed

section \<open>Idle machines\<close>

text \<open>
  An idle machine can be paused. A machine the reconciler's \<open>ListIdleMachines\<close> names passes every
  check \<open>SetDesiredAndEnqueue\<close> makes for a pause at the next generation: it runs, is not kept
  running, has no active agent run and no unfinished operation, and its last activity is at least
  the policy's idle time ago.
\<close>

theorem idle_machines_can_be_paused:
  assumes "m \<in> set (ListIdleMachines now limit d)"
    and "op_Generation operation = m_Generation m + 1" and "op_Action operation = OpPause"
  shows "may_set_desired (m_WorkspaceID m) m StatusPaused operation d = Inr ()
     \<and> m_Status m = StatusRunning \<and> \<not> m_KeepRunning m \<and> \<not> has_active_run (m_ID m) d
     \<and> (\<exists>p \<in> set (db_policies d). wp_WorkspaceID p = m_WorkspaceID m \<and> wp_Enabled p
          \<and> last_active m + minutes (wp_IdlePauseMinutes p) \<le> now)"
proof -
  from assms(1) have m: "idle_machine now d m"
    by (auto simp: ListIdleMachines_def dest!: in_set_takeD)
  then have "\<not> snapshot_active (m_ID m) d"
    by (auto simp: idle_machine_def has_unfinished_op_def snapshot_active_def exists_where_iff)
  with m assms(2,3) show ?thesis
    by (auto simp: may_set_desired_def idle_machine_def exists_where_iff)
qed

theorem idle_machines_can_be_paused_witness:
  "may_set_desired (m_WorkspaceID machine0) machine0 StatusPaused pause_request running_db = Inr ()"
  by (rule idle_machines_can_be_paused [where now = "minutes 300" and limit = 10, THEN conjunct1])
    code_simp+

end
