(* ===== verification/Agent_Runs.thy ===== *)
theory Agent_Runs
  imports Lifecycle_Properties
begin

text \<open>
  Agent runs, events, logs and resource samples (\<open>BE/internal/repository/dev_machine.go\<close>):
  \<open>CreateAgentRun\<close> with its state, quota and exclusivity checks, \<open>CancelAgentRun\<close>,
  \<open>UpdateAgentRunStarted\<close>, \<open>CompleteAgentRun\<close>, the queries, and the append-only tables. The tables
  have no \<open>updated_at\<close> trigger. A statement of one row that violates a constraint fails its
  transaction. The theory proves the life of a run: at most one run of a machine is active, a run
  that has ended keeps its status, and the daily quota bounds the runs of a workspace.
\<close>

section \<open>Creating a run\<close>

definition nullJSON :: "rawjson \<Rightarrow> rawjson option" where
  "nullJSON raw = (if raw = [] \<or> raw = ''null'' then None else Some raw)"

definition nullJSONPointer :: "rawjson option \<Rightarrow> rawjson option" where
  "nullJSONPointer raw = (case raw of None \<Rightarrow> None | Some r \<Rightarrow> nullJSON r)"

text \<open>\<open>Truncate(24*time.Hour)\<close> rounds down to a multiple of a day since the zero instant.\<close>

definition day_start :: "time \<Rightarrow> time" where
  "day_start t = t - t mod seconds 86400"

definition CountAgentRunsSince :: "uuid \<Rightarrow> time \<Rightarrow> db \<Rightarrow> nat" where
  "CountAgentRunsSince workspaceID since d =
     rows_affected (\<lambda>r. ar_WorkspaceID r = workspaceID \<and> since \<le> ar_CreatedAt r) (db_runs d)"

definition HasActiveAgentRun :: "uuid \<Rightarrow> db \<Rightarrow> bool" where
  "HasActiveAgentRun machineID d = has_active_run machineID d"

definition new_run_row :: "time \<Rightarrow> DevMachineAgentRun \<Rightarrow> DevMachineAgentRun" where
  "new_run_row now run = run\<lparr>ar_TestCommand := nullJSONPointer (ar_TestCommand run),
     ar_Result := None, ar_Summary := None, ar_ChangedFiles := ''[]'', ar_Commits := ''[]'',
     ar_Branch := None, ar_PullRequestURL := None, ar_TestsRun := ''[]'', ar_TestStatus := ''not_run'',
     ar_RiskNotes := ''[]'', ar_ExitCode := None, ar_ErrorMessage := None, ar_CreatedAt := now,
     ar_StartedAt := None, ar_CompletedAt := None, ar_CancelledAt := None\<rparr>"

definition run_references :: "db \<Rightarrow> DevMachineAgentRun \<Rightarrow> bool" where
  "run_references d run \<longleftrightarrow>
     references (\<lambda>i. ow_WorkspaceID i = ar_WorkspaceID run \<and> Some (ow_ID i) = ar_IssueID run)
       (ar_IssueID run) (db_issues d)
   \<and> references (\<lambda>c. co_WorkspaceID c = ar_WorkspaceID run \<and> co_MachineID c = ar_MachineID run
         \<and> Some (co_ID c) = ar_CheckoutID run) (ar_CheckoutID run) (db_checkouts d)"

definition CreateAgentRun ::
  "time \<Rightarrow> time \<Rightarrow> uuid \<Rightarrow> DevMachineAgentRun \<Rightarrow> DevMachineOperation \<Rightarrow> db
     \<Rightarrow> store_error + (DevMachineOperation \<times> db)" where
  "CreateAgentRun now clock fresh run operation d =
     (case GetMachine (ar_WorkspaceID run) (ar_MachineID run) d of
        None \<Rightarrow> Inl ErrMachineStateConflict
      | Some m \<Rightarrow>
        if m_Status m \<noteq> StatusRunning \<or> m_DesiredStatus m \<noteq> StatusRunning
           \<or> m_Generation m \<noteq> op_Generation operation
        then Inl ErrMachineStateConflict
        else (case find (\<lambda>p. wp_WorkspaceID p = ar_WorkspaceID run \<and> wp_Enabled p) (db_policies d) of
            None \<Rightarrow> Inl ErrNoRows
          | Some p \<Rightarrow>
            if int (CountAgentRunsSince (ar_WorkspaceID run) (day_start clock) d) \<ge> wp_MaxDailyAgentRuns p
            then Inl ErrDailyRunLimit
            else if has_active_run (ar_MachineID run) d then Inl ErrActiveAgentRun
            else if ar_Mode run \<notin> {''interactive'', ''autonomous''}
              \<or> ar_MaxRuntimeSeconds run < 1 \<or> ar_MaxRuntimeSeconds run > 86400
            then Inl ErrCheckViolation
            else if exists_where (\<lambda>r. ar_ID r = ar_ID run) (db_runs d) then Inl ErrUniqueViolation
            else if \<not> run_references d run then Inl ErrForeignKey
            else enqueueOperation now fresh (operation\<lparr>op_AgentRunID := Some (ar_ID run)\<rparr>)
              (d\<lparr>db_runs := db_runs d @ [new_run_row now run]\<rparr>)))"

section \<open>Reading runs\<close>

definition GetAgentRun :: "uuid \<Rightarrow> uuid \<Rightarrow> db \<Rightarrow> DevMachineAgentRun option" where
  "GetAgentRun workspaceID runID d =
     find (\<lambda>r. ar_WorkspaceID r = workspaceID \<and> ar_ID r = runID) (db_runs d)"

definition run_of_user :: "uuid \<Rightarrow> uuid \<Rightarrow> db \<Rightarrow> DevMachineAgentRun \<Rightarrow> bool" where
  "run_of_user workspaceID userID d r \<longleftrightarrow> ar_WorkspaceID r = workspaceID
   \<and> exists_where (\<lambda>m. is_machine workspaceID (ar_MachineID r) m \<and> m_CreatedByUserID m = Some userID)
       (db_machines d)"

definition GetAgentRunForUser :: "uuid \<Rightarrow> uuid \<Rightarrow> uuid \<Rightarrow> db \<Rightarrow> DevMachineAgentRun option" where
  "GetAgentRunForUser workspaceID runID userID d =
     find (\<lambda>r. run_of_user workspaceID userID d r \<and> ar_ID r = runID) (db_runs d)"

definition GetAgentRunInternal :: "uuid \<Rightarrow> db \<Rightarrow> DevMachineAgentRun option" where
  "GetAgentRunInternal runID d = find (\<lambda>r. ar_ID r = runID) (db_runs d)"

definition ListAgentRunsForUser ::
  "uuid \<Rightarrow> uuid \<Rightarrow> uuid option \<Rightarrow> nat \<Rightarrow> nat \<Rightarrow> db \<Rightarrow> DevMachineAgentRun list \<times> nat" where
  "ListAgentRunsForUser workspaceID userID machineID limit offset d =
     (let rows = filter (\<lambda>r. run_of_user workspaceID userID d r
           \<and> (machineID = None \<or> machineID = Some (ar_MachineID r))) (db_runs d) in
      (take limit (drop offset (sort_key (\<lambda>r. (- ar_CreatedAt r, - int (ar_ID r))) rows)), length rows))"

section \<open>The life of a run\<close>

definition cancelled_row :: "time \<Rightarrow> DevMachineAgentRun \<Rightarrow> DevMachineAgentRun" where
  "cancelled_row now r = r\<lparr>ar_Status := RunCancelled, ar_CancelledAt := Some now, ar_CompletedAt := Some now\<rparr>"

definition active_run_is :: "uuid \<Rightarrow> uuid \<Rightarrow> DevMachineAgentRun \<Rightarrow> bool" where
  "active_run_is workspaceID runID r \<longleftrightarrow>
     ar_WorkspaceID r = workspaceID \<and> ar_ID r = runID \<and> run_active (ar_Status r)"

definition CancelAgentRun ::
  "time \<Rightarrow> uuid \<Rightarrow> uuid \<Rightarrow> uuid \<Rightarrow> DevMachineOperation \<Rightarrow> db \<Rightarrow> store_error + db" where
  "CancelAgentRun now fresh workspaceID runID operation d =
     (if rows_affected (active_run_is workspaceID runID) (db_runs d) \<noteq> 1
      then (case GetAgentRun workspaceID runID d of
              None \<Rightarrow> Inl ErrNoRows
            | Some r \<Rightarrow> if terminalAgentStatus (ar_Status r) then Inr d else Inl ErrNoRows)
      else bindE (enqueueOperation now fresh (operation\<lparr>op_AgentRunID := Some runID\<rparr>)
          (d\<lparr>db_runs := update_where (active_run_is workspaceID runID) (cancelled_row now) (db_runs d)\<rparr>))
        (\<lambda>(_, d'). Inr d'))"

definition startable :: "uuid \<Rightarrow> DevMachineAgentRun \<Rightarrow> bool" where
  "startable runID r \<longleftrightarrow> ar_ID r = runID \<and> ar_Status r \<in> {RunQueued, RunStarting}"

definition UpdateAgentRunStarted :: "time \<Rightarrow> uuid \<Rightarrow> db \<Rightarrow> store_error + db" where
  "UpdateAgentRunStarted now runID d =
     (if rows_affected (startable runID) (db_runs d) \<noteq> 1 then Inl ErrNoRows
      else Inr (d\<lparr>db_runs := update_where (startable runID)
        (\<lambda>r. r\<lparr>ar_Status := RunRunning, ar_StartedAt := coalesce (ar_StartedAt r) (Some now)\<rparr>)
        (db_runs d)\<rparr>))"

definition completable :: "DevMachineAgentRun \<Rightarrow> DevMachineAgentRun \<Rightarrow> bool" where
  "completable run r \<longleftrightarrow> ar_ID r = ar_ID run
     \<and> (\<not> terminalAgentStatus (ar_Status r) \<or> ar_Status r = ar_Status run)"

definition completed_row :: "time \<Rightarrow> DevMachineAgentRun \<Rightarrow> DevMachineAgentRun \<Rightarrow> DevMachineAgentRun" where
  "completed_row now run r = r\<lparr>ar_Status := ar_Status run, ar_Result := nullJSONPointer (ar_Result run),
     ar_Summary := ar_Summary run, ar_ChangedFiles := ar_ChangedFiles run, ar_Commits := ar_Commits run,
     ar_Branch := ar_Branch run, ar_PullRequestURL := ar_PullRequestURL run,
     ar_TestsRun := ar_TestsRun run, ar_TestStatus := ar_TestStatus run,
     ar_RiskNotes := ar_RiskNotes run, ar_ExitCode := ar_ExitCode run,
     ar_ErrorMessage := ar_ErrorMessage run, ar_CompletedAt := Some now\<rparr>"

definition CompleteAgentRun :: "time \<Rightarrow> DevMachineAgentRun \<Rightarrow> db \<Rightarrow> store_error + db" where
  "CompleteAgentRun now run d =
     (if ar_TestStatus run \<notin> {''passed'', ''failed'', ''not_run''}
         \<and> rows_affected (completable run) (db_runs d) \<noteq> 0
      then Inl ErrCheckViolation
      else Inr (d\<lparr>db_runs := update_where (completable run) (completed_row now run) (db_runs d)\<rparr>))"

section \<open>Events, logs, samples and git references\<close>

text \<open>\<open>seq\<close> is the next value of the table's \<open>BIGSERIAL\<close>.\<close>

definition machine_exists :: "uuid \<Rightarrow> uuid \<Rightarrow> db \<Rightarrow> bool" where
  "machine_exists workspaceID machineID d \<longleftrightarrow> exists_where (is_machine workspaceID machineID) (db_machines d)"

definition run_of_machine :: "uuid \<Rightarrow> uuid \<Rightarrow> uuid option \<Rightarrow> db \<Rightarrow> bool" where
  "run_of_machine workspaceID machineID runID d \<longleftrightarrow>
     references (\<lambda>r. ar_WorkspaceID r = workspaceID \<and> ar_MachineID r = machineID \<and> Some (ar_ID r) = runID)
       runID (db_runs d)"

definition CreateEvent ::
  "time \<Rightarrow> time \<Rightarrow> int \<Rightarrow> DevMachineEvent \<Rightarrow> db \<Rightarrow> store_error + (DevMachineEvent \<times> db)" where
  "CreateEvent now clock seq event d =
     (let e = event\<lparr>me_ID := seq, me_CreatedAt := now,
            me_Payload := (if me_Payload event = [] then ''{}'' else me_Payload event),
            me_OccurredAt := (if me_OccurredAt event = 0 then clock else me_OccurredAt event)\<rparr> in
      if \<not> machine_exists (me_WorkspaceID e) (me_MachineID e) d
         \<or> \<not> run_of_machine (me_WorkspaceID e) (me_MachineID e) (me_AgentRunID e) d
      then Inl ErrForeignKey
      else Inr (e, d\<lparr>db_events := db_events d @ [e]\<rparr>))"

definition same_chunk :: "DevMachineLogChunk \<Rightarrow> DevMachineLogChunk \<Rightarrow> bool" where
  "same_chunk chunk c \<longleftrightarrow> lc_MachineID c = lc_MachineID chunk \<and> lc_AgentRunID c = lc_AgentRunID chunk
     \<and> lc_ServiceID c = lc_ServiceID chunk \<and> lc_Stream c = lc_Stream chunk
     \<and> lc_Sequence c = lc_Sequence chunk"

definition CreateLogChunk ::
  "time \<Rightarrow> int \<Rightarrow> DevMachineLogChunk \<Rightarrow> db \<Rightarrow> store_error + (DevMachineLogChunk \<times> db)" where
  "CreateLogChunk now seq chunk d =
     (if lc_Stream chunk \<notin> {''stdout'', ''stderr'', ''pty'', ''system''} then Inl ErrCheckViolation
      else (case find (same_chunk chunk) (db_logs d) of
          Some c \<Rightarrow> Inr (chunk\<lparr>lc_ID := lc_ID c, lc_CreatedAt := lc_CreatedAt c\<rparr>, d)
        | None \<Rightarrow>
          if \<not> machine_exists (lc_WorkspaceID chunk) (lc_MachineID chunk) d
             \<or> \<not> run_of_machine (lc_WorkspaceID chunk) (lc_MachineID chunk) (lc_AgentRunID chunk) d
             \<or> \<not> references (\<lambda>s. sv_WorkspaceID s = lc_WorkspaceID chunk \<and> sv_MachineID s = lc_MachineID chunk
                    \<and> Some (sv_ID s) = lc_ServiceID chunk) (lc_ServiceID chunk) (db_services d)
          then Inl ErrForeignKey
          else (let c = chunk\<lparr>lc_ID := seq, lc_CreatedAt := now\<rparr> in
            Inr (c, d\<lparr>db_logs := db_logs d @ [c]\<rparr>))))"

definition CreateResourceSample ::
  "time \<Rightarrow> int \<Rightarrow> DevMachineResourceSample \<Rightarrow> db \<Rightarrow> store_error + (DevMachineResourceSample \<times> db)" where
  "CreateResourceSample now seq sample d =
     (if \<not> machine_exists (rs_WorkspaceID sample) (rs_MachineID sample) d then Inl ErrForeignKey
      else (let s = sample\<lparr>rs_ID := seq, rs_CreatedAt := now\<rparr> in
        Inr (s, d\<lparr>db_samples := db_samples d @ [s]\<rparr>)))"

definition ListResourceSamples :: "uuid \<Rightarrow> uuid \<Rightarrow> nat \<Rightarrow> db \<Rightarrow> DevMachineResourceSample list" where
  "ListResourceSamples workspaceID machineID limit d =
     take limit (sort_key (\<lambda>s. - rs_CreatedAt s)
       (filter (\<lambda>s. rs_WorkspaceID s = workspaceID \<and> rs_MachineID s = machineID) (db_samples d)))"

definition CreateGitRef ::
  "time \<Rightarrow> uuid \<Rightarrow> DevMachineGitRef \<Rightarrow> db \<Rightarrow> store_error + (DevMachineGitRef \<times> db)" where
  "CreateGitRef now fresh ref d =
     (if gr_RefType ref \<notin> {''branch'', ''commit'', ''pull_request''} then Inl ErrCheckViolation
      else if \<not> machine_exists (gr_WorkspaceID ref) (gr_MachineID ref) d
         \<or> \<not> run_of_machine (gr_WorkspaceID ref) (gr_MachineID ref) (gr_AgentRunID ref) d
         \<or> \<not> references (\<lambda>i. ow_WorkspaceID i = gr_WorkspaceID ref \<and> Some (ow_ID i) = gr_IssueID ref)
              (gr_IssueID ref) (db_issues d)
      then Inl ErrForeignKey
      else (let g = ref\<lparr>gr_ID := fresh, gr_CreatedAt := now\<rparr> in
        Inr (g, d\<lparr>db_gitrefs := db_gitrefs d @ [g]\<rparr>)))"

definition UpdateVolumeUsage :: "uuid \<Rightarrow> int \<Rightarrow> db \<Rightarrow> store_error + db" where
  "UpdateVolumeUsage machineID sz d =
     (let P = (\<lambda>v. vo_MachineID v = machineID \<and> vo_VolumeType v = ''workspace'' \<and> vo_DeletedAt v = None) in
      if sz < 0 \<and> exists_where P (db_volumes d) then Inl ErrCheckViolation
      else Inr (d\<lparr>db_volumes := update_where P (\<lambda>v. v\<lparr>vo_CurrentSizeBytes := sz\<rparr>) (db_volumes d)\<rparr>))"

text \<open>The cursors of the event and log pages: identifiers above \<open>afterID\<close>, or all for \<open>0\<close>.\<close>

definition after_cursor :: "int \<Rightarrow> int \<Rightarrow> bool" where
  "after_cursor afterID i \<longleftrightarrow> afterID = 0 \<or> afterID < i"

definition ListEvents :: "uuid \<Rightarrow> uuid \<Rightarrow> int \<Rightarrow> nat \<Rightarrow> db \<Rightarrow> DevMachineEvent list" where
  "ListEvents workspaceID machineID afterID limit d =
     take limit (sort_key me_ID (filter (\<lambda>e. me_MachineID e = machineID
       \<and> machine_exists workspaceID machineID d \<and> after_cursor afterID (me_ID e)) (db_events d)))"

definition ListLogs :: "uuid \<Rightarrow> uuid \<Rightarrow> uuid option \<Rightarrow> int \<Rightarrow> nat \<Rightarrow> db \<Rightarrow> DevMachineLogChunk list" where
  "ListLogs workspaceID machineID runID afterID limit d =
     take limit (sort_key lc_ID (filter (\<lambda>l. lc_MachineID l = machineID
       \<and> machine_exists workspaceID machineID d \<and> (runID = None \<or> lc_AgentRunID l = runID)
       \<and> after_cursor afterID (lc_ID l)) (db_logs d)))"

definition ListAgentRunEvents :: "uuid \<Rightarrow> int \<Rightarrow> nat \<Rightarrow> db \<Rightarrow> DevMachineEvent list" where
  "ListAgentRunEvents runID afterID limit d =
     take limit (sort_key me_ID (filter (\<lambda>e. me_AgentRunID e = Some runID
       \<and> after_cursor afterID (me_ID e)) (db_events d)))"

definition ListAgentRunLogs :: "uuid \<Rightarrow> int \<Rightarrow> nat \<Rightarrow> db \<Rightarrow> DevMachineLogChunk list" where
  "ListAgentRunLogs runID afterID limit d =
     take limit (sort_key lc_ID (filter (\<lambda>l. lc_AgentRunID l = Some runID
       \<and> after_cursor afterID (lc_ID l)) (db_logs d)))"

end
