(* ===== verification/Run_Properties.thy ===== *)
theory Run_Properties
  imports Agent_Runs
begin

text \<open>
  Properties of agent runs. The operations on the run table are the step relation \<open>run_step\<close>; by
  rule induction along its steps a machine has at most one active run and a run that has ended keeps
  its status. Further: the daily quota, the idempotence of cancelling, and cursor paging.
\<close>

section \<open>Steps\<close>

inductive run_step :: "db \<Rightarrow> db \<Rightarrow> bool" where
  create: "CreateAgentRun now clock fresh run operation d = Inr (r, d') \<Longrightarrow> run_step d d'"
| cancel: "CancelAgentRun now fresh ws runID operation d = Inr d' \<Longrightarrow> run_step d d'"
| start: "UpdateAgentRunStarted now runID d = Inr d' \<Longrightarrow> run_step d d'"
| finish: "CompleteAgentRun now run d = Inr d' \<Longrightarrow> run_step d d'"

definition machine_active :: "uuid \<Rightarrow> DevMachineAgentRun \<Rightarrow> bool" where
  "machine_active i r \<longleftrightarrow> ar_MachineID r = i \<and> run_active (ar_Status r)"

definition one_active :: "db \<Rightarrow> bool" where
  "one_active d \<longleftrightarrow> (\<forall>i. rows_affected (machine_active i) (db_runs d) \<le> 1)"

lemma has_active_run_iff: "has_active_run i d \<longleftrightarrow> rows_affected (machine_active i) (db_runs d) \<noteq> 0"
  unfolding has_active_run_def exists_where_iff rows_affected_0 machine_active_def by blast

lemma enqueueOperation_runs:
  "enqueueOperation now fresh operation d = Inr (r, d') \<Longrightarrow> db_runs d' = db_runs d"
  by (auto dest: enqueueOperation_frame)

lemma enqueueOperation_key:
  assumes "enqueueOperation now fresh operation d = Inr (r, d')"
  shows "exists_where (same_key operation) (db_operations d')"
  using assms
proof (cases rule: enqueueOperation_cases)
  case (existing row)
  then have row: "row \<in> set (db_operations d)" "same_key operation row"
    by (auto simp: same_key_def dest: find_SomeD)
  then have "touch_op now row \<in> set (db_operations d')"
    by (force simp: existing(2) set_update_where)
  moreover have "same_key operation (touch_op now row)"
    using row(2) by (simp add: same_key_def touch_op_def)
  ultimately show ?thesis by (auto simp: exists_where_iff)
next
  case (added row)
  then show ?thesis by (simp add: exists_where_iff same_key_def)
qed

lemma CreateAgentRun_runs:
  assumes "CreateAgentRun now clock fresh run operation d = Inr (r, d')"
  shows "db_runs d' = db_runs d @ [new_run_row now run]" "\<not> has_active_run (ar_MachineID run) d"
    "\<exists>p. find (\<lambda>p. wp_WorkspaceID p = ar_WorkspaceID run \<and> wp_Enabled p) (db_policies d) = Some p
       \<and> int (CountAgentRunsSince (ar_WorkspaceID run) (day_start clock) d) < wp_MaxDailyAgentRuns p"
    "\<exists>m. GetMachine (ar_WorkspaceID run) (ar_MachineID run) d = Some m \<and> m_Status m = StatusRunning
       \<and> m_DesiredStatus m = StatusRunning \<and> m_Generation m = op_Generation operation"
  using assms
  by (auto simp: CreateAgentRun_def split: option.splits if_splits dest!: enqueueOperation_runs)

lemma new_run_row_fields [simp]:
  "ar_ID (new_run_row now run) = ar_ID run"
  "ar_MachineID (new_run_row now run) = ar_MachineID run"
  "ar_WorkspaceID (new_run_row now run) = ar_WorkspaceID run"
  "ar_Status (new_run_row now run) = ar_Status run"
  "ar_CreatedAt (new_run_row now run) = now"
  by (simp_all add: new_run_row_def)

text \<open>
  Cancelling, starting and completing update runs in place: identity and machine stay, an ended run
  keeps its status, and no ended run becomes active.
\<close>

locale run_update =
  fixes P :: "DevMachineAgentRun \<Rightarrow> bool" and f :: "DevMachineAgentRun \<Rightarrow> DevMachineAgentRun"
  assumes run_kept: "ar_ID (f r) = ar_ID r" "ar_MachineID (f r) = ar_MachineID r"
    and ended_kept: "P r \<Longrightarrow> terminalAgentStatus (ar_Status r) \<Longrightarrow> ar_Status (f r) = ar_Status r"
begin

lemma active_le:
  "rows_affected (machine_active i) (update_where P f rows) \<le> rows_affected (machine_active i) rows"
  unfolding rows_affected_def
  by (rule length_filter_update_where_le) (auto simp: machine_active_def run_kept dest: ended_kept)

lemma update_one_active:
  "one_active d \<Longrightarrow> one_active (d\<lparr>db_runs := update_where P f (db_runs d)\<rparr>)"
  unfolding one_active_def by (simp add: order_trans [OF active_le])

lemma update_ended:
  assumes "r \<in> set rows" and "terminalAgentStatus (ar_Status r)"
  shows "\<exists>r' \<in> set (update_where P f rows). ar_ID r' = ar_ID r \<and> ar_Status r' = ar_Status r"
  using assms ended_kept [of r] run_kept(1) [of r]
  by (intro bexI [of _ "if P r then f r else r"]) (auto simp: set_update_where)

end

interpretation cancel_up: run_update "active_run_is ws runID" "cancelled_row now"
  by unfold_locales (simp_all add: cancelled_row_def active_run_is_def)

interpretation start_up: run_update "startable runID"
    "\<lambda>r. r\<lparr>ar_Status := RunRunning, ar_StartedAt := coalesce (ar_StartedAt r) (Some now)\<rparr>"
  by unfold_locales (auto simp: startable_def)

interpretation finish_up: run_update "completable run" "completed_row now run"
  by unfold_locales (auto simp: completed_row_def completable_def)

text \<open>The run table after a step.\<close>

lemma run_step_cases:
  assumes "run_step d d'"
  obtains (added) run now where "db_runs d' = db_runs d @ [new_run_row now run]"
      "\<not> has_active_run (ar_MachineID run) d"
    | (updated) P f where "run_update P f" "db_runs d' = update_where P f (db_runs d)"
    | (same) "db_runs d' = db_runs d"
  using assms
proof (cases rule: run_step.cases)
  case (create now clock fresh run operation r)
  show thesis by (rule added [OF CreateAgentRun_runs(1,2) [OF create]])
next
  case (cancel now fresh ws runID operation)
  then consider "d' = d"
    | r where "enqueueOperation now fresh (operation\<lparr>op_AgentRunID := Some runID\<rparr>)
          (d\<lparr>db_runs := update_where (active_run_is ws runID) (cancelled_row now) (db_runs d)\<rparr>) = Inr (r, d')"
    by (auto simp: CancelAgentRun_def bindE_Inr split: if_splits option.splits)
  then show thesis
  proof cases
    case 1
    then show thesis by (simp add: same)
  next
    case 2
    from enqueueOperation_runs [OF this] show thesis
      by (intro updated [OF cancel_up.run_update_axioms]) simp
  qed
next
  case (start now runID)
  then show thesis
    by (intro updated [OF start_up.run_update_axioms])
      (auto simp: UpdateAgentRunStarted_def split: if_splits)
next
  case (finish now run)
  then show thesis
    by (intro updated [OF finish_up.run_update_axioms])
      (auto simp: CompleteAgentRun_def split: if_splits)
qed

section \<open>At most one active run\<close>

text \<open>
  (C5) One active run per machine. Along any sequence of \<open>CreateAgentRun\<close>, \<open>CancelAgentRun\<close>,
  \<open>UpdateAgentRunStarted\<close> and \<open>CompleteAgentRun\<close> no machine ever has two runs that have not ended.
\<close>

theorem at_most_one_active_run:
  assumes "run_step\<^sup>*\<^sup>* d d'" and "one_active d"
  shows "one_active d'"
  using assms
proof (induction rule: rtranclp_induct)
  case base
  then show ?case .
next
  case (step d1 d2)
  from step.hyps(2) show ?case
  proof (cases rule: run_step_cases)
    case (added run now)
    have "rows_affected (machine_active i) (db_runs d2) \<le> 1" for i
    proof (cases "i = ar_MachineID run")
      case True
      with added show ?thesis
        by (simp add: has_active_run_iff) (simp add: rows_affected_def)
    next
      case False
      then have "\<not> machine_active i (new_run_row now run)" by (simp add: machine_active_def)
      with added(1) step.IH [OF step.prems] show ?thesis
        by (simp add: one_active_def) (simp add: rows_affected_def)
    qed
    then show ?thesis by (simp add: one_active_def)
  next
    case (updated P f)
    with run_update.update_one_active [OF updated(1) step.IH [OF step.prems]] show ?thesis
      by (simp add: one_active_def)
  next
    case same
    with step.IH [OF step.prems] show ?thesis by (simp add: one_active_def)
  qed
qed

definition run_request :: DevMachineOperation where
  "run_request = operation0\<lparr>op_ID := 5, op_Action := OpRunAgent, op_IdempotencyKey := ''run-agent:1''\<rparr>"

lemma run_created:
  "\<exists>r d'. CreateAgentRun 5 5 3 run0 run_request running_db = Inr (r, d') \<and> run_step running_db d'"
proof -
  have "case CreateAgentRun 5 5 3 run0 run_request running_db of Inl _ \<Rightarrow> False | Inr _ \<Rightarrow> True"
    by code_simp
  then show ?thesis by (auto split: sum.splits intro: run_step.create)
qed

theorem at_most_one_active_run_witness:
  "\<exists>d'. run_step\<^sup>*\<^sup>* running_db d' \<and> running_db \<noteq> d' \<and> one_active d'"
proof -
  obtain r d' where d': "CreateAgentRun 5 5 3 run0 run_request running_db = Inr (r, d')"
    "run_step running_db d'" using run_created by blast
  have "one_active running_db"
    by (simp add: one_active_def running_db_def db0_def rows_affected_def)
  with at_most_one_active_run [OF r_into_rtranclp [of run_step, OF d'(2)]] have "one_active d'" by blast
  moreover have "running_db \<noteq> d'" using CreateAgentRun_runs(1) [OF d'(1)] by auto
  ultimately show ?thesis using d'(2) by blast
qed

text \<open>
  A run that has ended keeps its status. Whatever runs are created, cancelled, started and
  completed afterwards, a run that succeeded, failed, was cancelled or timed out stays so.
\<close>

theorem ended_runs_stay_ended:
  assumes "run_step\<^sup>*\<^sup>* d d'" and "r \<in> set (db_runs d)" and "terminalAgentStatus (ar_Status r)"
  shows "\<exists>r' \<in> set (db_runs d'). ar_ID r' = ar_ID r \<and> ar_Status r' = ar_Status r"
  using assms
proof (induction rule: rtranclp_induct)
  case base
  then show ?case by blast
next
  case (step d1 d2)
  then obtain s where s: "s \<in> set (db_runs d1)" "ar_ID s = ar_ID r" "ar_Status s = ar_Status r" by blast
  from step.hyps(2) show ?case
  proof (cases rule: run_step_cases)
    case (updated P f)
    have "terminalAgentStatus (ar_Status s)" using step.prems(2) by (simp only: s(3))
    from run_update.update_ended [OF updated(1) s(1) this] show ?thesis by (simp only: updated(2) s)
  next
    case (added run now)
    then show ?thesis by (intro bexI [of _ s]) (simp_all add: s)
  next
    case same
    then show ?thesis by (intro bexI [of _ s]) (simp_all add: s)
  qed
qed

theorem ended_runs_stay_ended_witness:
  "\<exists>d'. CompleteAgentRun 9 (run0\<lparr>ar_Status := RunFailed\<rparr>)
       (db0\<lparr>db_runs := [run0\<lparr>ar_Status := RunCancelled\<rparr>]\<rparr>) = Inr d'
     \<and> (\<exists>r' \<in> set (db_runs d'). ar_ID r' = 1 \<and> ar_Status r' = RunCancelled)"
proof -
  let ?d = "db0\<lparr>db_runs := [run0\<lparr>ar_Status := RunCancelled\<rparr>]\<rparr>"
  obtain d' where d': "CompleteAgentRun 9 (run0\<lparr>ar_Status := RunFailed\<rparr>) ?d = Inr d'"
    by (simp add: CompleteAgentRun_def sample_defs)
  then have "run_step\<^sup>*\<^sup>* ?d d'" by (blast intro: run_step.finish)
  from ended_runs_stay_ended [OF this, of "run0\<lparr>ar_Status := RunCancelled\<rparr>"] d' show ?thesis
    by (simp add: sample_defs)
qed

section \<open>Quota, state and cancelling\<close>

text \<open>
  A run is created only on a running machine of the request's generation, with no other active
  run, under an enabled policy, and the workspace's runs of the day, the new one included, stay
  within the policy's daily maximum. (The clocks of the program and of the database are assumed to
  agree on the day.)
\<close>

theorem run_creation_respects_limits:
  assumes "CreateAgentRun now clock fresh run operation d = Inr (r, d')" and "day_start clock \<le> now"
  shows "\<exists>p m. p \<in> set (db_policies d) \<and> wp_WorkspaceID p = ar_WorkspaceID run \<and> wp_Enabled p
     \<and> int (CountAgentRunsSince (ar_WorkspaceID run) (day_start clock) d') \<le> wp_MaxDailyAgentRuns p
     \<and> GetMachine (ar_WorkspaceID run) (ar_MachineID run) d = Some m \<and> m_Status m = StatusRunning
     \<and> m_DesiredStatus m = StatusRunning \<and> m_Generation m = op_Generation operation
     \<and> \<not> has_active_run (ar_MachineID run) d"
proof -
  note made = CreateAgentRun_runs [OF assms(1)]
  have "CountAgentRunsSince (ar_WorkspaceID run) (day_start clock) d'
      = CountAgentRunsSince (ar_WorkspaceID run) (day_start clock) d + 1"
    using assms(2) by (simp add: CountAgentRunsSince_def made(1)) (simp add: rows_affected_def)
  moreover obtain p where "find (\<lambda>p. wp_WorkspaceID p = ar_WorkspaceID run \<and> wp_Enabled p) (db_policies d) = Some p"
    and "int (CountAgentRunsSince (ar_WorkspaceID run) (day_start clock) d) < wp_MaxDailyAgentRuns p"
    using made(3) by blast
  ultimately show ?thesis using made(2,4) by (force dest: find_SomeD)
qed

theorem run_creation_respects_limits_witness:
  "\<exists>r d' p. CreateAgentRun 5 5 3 run0 run_request running_db = Inr (r, d') \<and> p \<in> set (db_policies running_db)
     \<and> int (CountAgentRunsSince (ar_WorkspaceID run0) (day_start 5) d') \<le> wp_MaxDailyAgentRuns p"
proof -
  obtain r d' where d': "CreateAgentRun 5 5 3 run0 run_request running_db = Inr (r, d')"
    using run_created by blast
  have "day_start 5 \<le> 5" by (simp add: day_start_def)
  from run_creation_respects_limits [OF d' this] d' show ?thesis by blast
qed

lemma CancelAgentRun_cases:
  assumes "CancelAgentRun now fresh ws runID operation d = Inr d'"
  obtains (ended) r where "GetAgentRun ws runID d = Some r" "terminalAgentStatus (ar_Status r)" "d' = d"
    | (cancelled) x where "rows_affected (active_run_is ws runID) (db_runs d) = 1"
      "enqueueOperation now fresh (operation\<lparr>op_AgentRunID := Some runID\<rparr>)
          (d\<lparr>db_runs := update_where (active_run_is ws runID) (cancelled_row now) (db_runs d)\<rparr>) = Inr (x, d')"
  using assms by (auto simp: CancelAgentRun_def bindE_Inr split: if_splits option.splits)

text \<open>
  Cancelling works and is idempotent. After a successful \<open>CancelAgentRun\<close> the run exists and has
  ended; a later cancel of it succeeds without changing anything. If the run was active, it is now
  cancelled and an operation with the request's key is in the queue.
\<close>

theorem cancel_is_idempotent:
  assumes ids: "distinct (map ar_ID (db_runs d))"
    and run: "CancelAgentRun now fresh ws runID operation d = Inr d'"
  shows "(\<exists>r. GetAgentRun ws runID d' = Some r \<and> terminalAgentStatus (ar_Status r))
     \<and> CancelAgentRun later fresh' ws runID operation' d' = Inr d'
     \<and> (exists_where (active_run_is ws runID) (db_runs d) \<longrightarrow>
          (\<exists>r. GetAgentRun ws runID d' = Some r \<and> ar_Status r = RunCancelled)
          \<and> exists_where (same_key operation) (db_operations d'))"
  using run
proof (cases rule: CancelAgentRun_cases)
  case (ended r)
  have r: "r \<in> set (db_runs d)" "ar_ID r = runID"
    using ended(1) by (auto simp: GetAgentRun_def dest: find_SomeD)
  have "\<not> active_run_is ws runID s" if "s \<in> set (db_runs d)" for s
  proof
    assume s: "active_run_is ws runID s"
    then have "ar_ID s = ar_ID r" by (simp add: active_run_is_def r)
    with that r(1) ids have "s = r" by (metis distinct_key_eq)
    with s ended(2) show False by (simp add: active_run_is_def)
  qed
  then have none: "\<not> exists_where (active_run_is ws runID) (db_runs d)"
      "rows_affected (active_run_is ws runID) (db_runs d) = 0"
    by (simp_all add: exists_where_iff rows_affected_0)
  have "CancelAgentRun later fresh' ws runID operation' d' = Inr d'"
    using ended none(2) by (simp add: CancelAgentRun_def)
  with ended none(1) show ?thesis by simp
next
  case (cancelled x)
  let ?rows = "update_where (active_run_is ws runID) (cancelled_row now) (db_runs d)"
  have rows: "db_runs d' = ?rows" using enqueueOperation_runs [OF cancelled(2)] by simp
  obtain r where r: "r \<in> set (db_runs d)" "active_run_is ws runID r"
    using rows_affected_1_find [OF cancelled(1)] by blast
  have "distinct (map ar_ID ?rows)"
    using ids by (simp add: update_where_def cancelled_row_def comp_def if_distrib cong: if_cong)
  moreover have "cancelled_row now r \<in> set ?rows" using r by (force simp: set_update_where)
  ultimately have get: "GetAgentRun ws runID d' = Some (cancelled_row now r)"
    unfolding GetAgentRun_def rows
    by (subst find_Some_unique [where key = ar_ID and k = runID])
      (use r in \<open>simp_all add: cancelled_row_def active_run_is_def\<close>)
  have "\<forall>s \<in> set (db_runs d'). \<not> active_run_is ws runID s"
    unfolding rows by (auto simp: cancelled_row_def active_run_is_def elim!: in_update_whereE)
  then have "rows_affected (active_run_is ws runID) (db_runs d') = 0" by (simp add: rows_affected_0)
  then have "CancelAgentRun later fresh' ws runID operation' d' = Inr d'"
    using get by (simp add: CancelAgentRun_def cancelled_row_def)
  moreover have "exists_where (same_key operation) (db_operations d')"
    using enqueueOperation_key [OF cancelled(2)] by (simp add: exists_where_iff same_key_def)
  ultimately show ?thesis using get by (simp add: cancelled_row_def)
qed

definition cancel_request :: DevMachineOperation where
  "cancel_request = operation0\<lparr>op_ID := 6, op_Action := OpCancelAgent, op_IdempotencyKey := ''cancel-agent:1''\<rparr>"

theorem cancel_is_idempotent_witness:
  "\<exists>d'. CancelAgentRun 5 3 1 1 cancel_request (running_db\<lparr>db_runs := [run0]\<rparr>) = Inr d'
     \<and> CancelAgentRun 6 4 1 1 cancel_request d' = Inr d'"
proof -
  let ?d = "running_db\<lparr>db_runs := [run0]\<rparr>"
  have "case CancelAgentRun 5 3 1 1 cancel_request ?d of Inl _ \<Rightarrow> False | Inr _ \<Rightarrow> True" by code_simp
  then obtain d' where d': "CancelAgentRun 5 3 1 1 cancel_request ?d = Inr d'"
    by (auto split: sum.splits)
  have "distinct (map ar_ID (db_runs ?d))" by code_simp
  from cancel_is_idempotent [OF this d'] d' show ?thesis by blast
qed

section \<open>Cursor pages\<close>

text \<open>
  Paging by cursor loses and repeats nothing. The page of \<open>ListEvents\<close> after the last identifier
  of a page continues the listing: together the two are the page of both sizes. Event identifiers
  are positive, as a \<open>BIGSERIAL\<close>'s are.
\<close>

theorem event_pages_continue:
  assumes "distinct (map me_ID (db_events d))" and "\<forall>e \<in> set (db_events d). 0 < me_ID e"
    and "0 \<le> afterID" and "p = ListEvents ws mid afterID n d" and "p \<noteq> []"
  shows "ListEvents ws mid afterID (n + m) d = p @ ListEvents ws mid (me_ID (last p)) m d"
proof -
  let ?Q = "\<lambda>e. me_MachineID e = mid \<and> machine_exists ws mid d"
  have p: "p = take n (sort_key me_ID (filter (\<lambda>e. me_MachineID e = mid \<and> machine_exists ws mid d
      \<and> after_cursor afterID (me_ID e)) (db_events d)))"
    using assms(4) by (simp add: ListEvents_def)
  have "last p \<in> set p" using assms(5) by simp
  then have last: "last p \<in> set (db_events d)" "after_cursor afterID (me_ID (last p))"
    unfolding p by (auto dest!: in_set_takeD)
  with assms(2) have pos: "0 < me_ID (last p)" by simp
  have "filter (\<lambda>e. me_MachineID e = mid \<and> machine_exists ws mid d \<and> after_cursor (me_ID (last p)) (me_ID e))
        (db_events d)
      = filter (\<lambda>e. (me_MachineID e = mid \<and> machine_exists ws mid d \<and> after_cursor afterID (me_ID e))
          \<and> me_ID (last p) < me_ID e) (db_events d)"
    using pos last(2) assms(3) by (intro filter_cong [OF refl]) (auto simp: after_cursor_def)
  with page_continues [OF assms(1) p assms(5)] show ?thesis
    by (simp add: ListEvents_def)
qed

definition event0 :: DevMachineEvent where
  "event0 = \<lparr>me_ID = 1, me_WorkspaceID = 1, me_MachineID = 1, me_AgentRunID = None, me_ActorUserID = None,
     me_Source = ''system'', me_EventType = ''e'', me_Payload = ''{}'', me_OccurredAt = 1, me_CreatedAt = 1\<rparr>"

theorem event_pages_continue_witness:
  "ListEvents 1 1 0 (1 + 5) (running_db\<lparr>db_events := [event0\<lparr>me_ID := 2\<rparr>, event0]\<rparr>)
     = [event0] @ ListEvents 1 1 (me_ID (last [event0])) 5 (running_db\<lparr>db_events := [event0\<lparr>me_ID := 2\<rparr>, event0]\<rparr>)"
  by (rule event_pages_continue) code_simp+

end
