(* ===== verification/Machine_Access.thy ===== *)
theory Machine_Access
  imports Lifecycle_Properties
begin

text \<open>
  Services, routes, secrets and access (\<open>BE/internal/repository/dev_machine.go\<close>): the services of a
  machine and the gateway's route to them, environment variables and runtime credentials, machine
  tokens, and the tickets, sessions and logs of browser access. Comparisons of the database's text
  order (\<open>ORDER BY service_key\<close>, \<open>provider_id\<close>, \<open>name\<close>) use a parameter \<open>collate\<close>, the rank its
  collation gives a text, and the \<open>JSONB\<close> operator \<open>scopes ? scope\<close> is the parameter \<open>has_scope\<close>.
\<close>

section \<open>Services and routes\<close>

definition service_rank :: "string \<Rightarrow> nat" where
  "service_rank t = (if t = ''egress'' then 0 else if t = ''collector'' then 1 else if t = ''ide'' then 2
     else if t = ''browser'' then 3 else 4)"

definition ListServices :: "(string \<Rightarrow> nat) \<Rightarrow> uuid \<Rightarrow> uuid \<Rightarrow> db \<Rightarrow> DevMachineService list" where
  "ListServices collate workspaceID machineID d =
     sort_key (\<lambda>s. (service_rank (sv_ServiceType s), collate (sv_ServiceKey s)))
       (filter (\<lambda>s. sv_MachineID s = machineID \<and> exists_where (is_machine workspaceID machineID) (db_machines d))
         (db_services d))"

definition GetService :: "uuid \<Rightarrow> uuid \<Rightarrow> string \<Rightarrow> db \<Rightarrow> DevMachineService option" where
  "GetService workspaceID machineID serviceKey d =
     find (\<lambda>s. sv_MachineID s = machineID \<and> sv_ServiceKey s = serviceKey
       \<and> exists_where (is_machine workspaceID machineID) (db_machines d)) (db_services d)"

definition route_machine :: "string \<Rightarrow> db \<Rightarrow> DevMachine option" where
  "route_machine routingKey d =
     find (\<lambda>m. m_RoutingKey m = routingKey
       \<and> exists_where (\<lambda>p. wp_WorkspaceID p = m_WorkspaceID m \<and> wp_Enabled p) (db_policies d)) (db_machines d)"

definition GetRoute :: "string \<Rightarrow> string \<Rightarrow> db \<Rightarrow> DevMachine option \<times> DevMachineService option" where
  "GetRoute routingKey serviceType d =
     (case route_machine routingKey d of
        None \<Rightarrow> (None, None)
      | Some m \<Rightarrow>
          (case sort_key sv_CreatedAt (filter (\<lambda>s. sv_MachineID s = m_ID m \<and> sv_ServiceType s = serviceType
                \<and> sv_AgentRunID s = None \<and> sv_Status s = ''running'' \<and> m_DesiredStatus m = StatusRunning)
              (db_services d)) of
             [] \<Rightarrow> (Some m, None) | s # _ \<Rightarrow> (Some m, Some s)))"

definition service_runtime_row ::
  "time \<Rightarrow> string \<Rightarrow> string \<Rightarrow> string \<Rightarrow> string option \<Rightarrow> DevMachineService \<Rightarrow> DevMachineService" where
  "service_runtime_row now containerID status healthStatus healthMessage s = s\<lparr>
     sv_ContainerID := Some containerID, sv_Status := status, sv_HealthStatus := healthStatus,
     sv_HealthMessage := healthMessage,
     sv_StartedAt := (if status = ''running'' then coalesce (sv_StartedAt s) (Some now) else sv_StartedAt s),
     sv_StoppedAt := (if status = ''stopped'' then Some now else sv_StoppedAt s), sv_UpdatedAt := now\<rparr>"

definition UpdateServiceRuntime ::
  "time \<Rightarrow> uuid \<Rightarrow> string \<Rightarrow> string \<Rightarrow> string \<Rightarrow> string option \<Rightarrow> db \<Rightarrow> db" where
  "UpdateServiceRuntime now serviceID containerID status healthStatus healthMessage d =
     d\<lparr>db_services := update_where (\<lambda>s. sv_ID s = serviceID)
        (service_runtime_row now containerID status healthStatus healthMessage) (db_services d)\<rparr>"

text \<open>The caller's struct gets the row's identifier and times back.\<close>

definition CreateRuntimeService ::
  "time \<Rightarrow> DevMachineService \<Rightarrow> db \<Rightarrow> store_error + (DevMachineService \<times> db)" where
  "CreateRuntimeService now service d =
     (let same = (\<lambda>s. sv_MachineID s = sv_MachineID service \<and> sv_ServiceKey s = sv_ServiceKey service) in
      if sv_ServiceType service \<notin> {''ide'', ''terminal'', ''agent'', ''browser'', ''collector'', ''egress''}
         \<or> sv_InternalPort service < 1 \<or> sv_InternalPort service > 65535
      then Inl ErrCheckViolation
      else (case find same (db_services d) of
          Some s \<Rightarrow> Inr (service\<lparr>sv_ID := sv_ID s, sv_CreatedAt := sv_CreatedAt s, sv_UpdatedAt := now\<rparr>,
            d\<lparr>db_services := update_where same
               (\<lambda>s. s\<lparr>sv_ImageRef := sv_ImageRef service, sv_UpdatedAt := now\<rparr>) (db_services d)\<rparr>)
        | None \<Rightarrow>
          if exists_where (\<lambda>s. sv_ID s = sv_ID service) (db_services d) then Inl ErrUniqueViolation
          else if \<not> exists_where (is_machine (sv_WorkspaceID service) (sv_MachineID service)) (db_machines d)
            \<or> \<not> references (\<lambda>r. ar_WorkspaceID r = sv_WorkspaceID service
                  \<and> ar_MachineID r = sv_MachineID service \<and> Some (ar_ID r) = sv_AgentRunID service)
                 (sv_AgentRunID service) (db_runs d)
          then Inl ErrForeignKey
          else Inr (service\<lparr>sv_CreatedAt := now, sv_UpdatedAt := now\<rparr>,
            d\<lparr>db_services := db_services d @ [service\<lparr>sv_ContainerID := None, sv_HealthMessage := None,
               sv_StartedAt := None, sv_StoppedAt := None, sv_CreatedAt := now, sv_UpdatedAt := now\<rparr>]\<rparr>)))"

definition GetProvider :: "uuid \<Rightarrow> uuid \<Rightarrow> string \<Rightarrow> db \<Rightarrow> DevMachineAgentProvider option" where
  "GetProvider workspaceID machineID providerID d =
     find (\<lambda>p. ap_MachineID p = machineID \<and> ap_ProviderID p = providerID \<and> ap_Enabled p
       \<and> exists_where (is_machine workspaceID machineID) (db_machines d)) (db_providers d)"

definition ListProviders :: "(string \<Rightarrow> nat) \<Rightarrow> uuid \<Rightarrow> uuid \<Rightarrow> db \<Rightarrow> DevMachineAgentProvider list" where
  "ListProviders collate workspaceID machineID d =
     sort_key (\<lambda>p. collate (ap_ProviderID p)) (filter (\<lambda>p. ap_MachineID p = machineID
       \<and> exists_where (is_machine workspaceID machineID) (db_machines d)) (db_providers d))"

section \<open>Secrets\<close>

definition live_envvar :: "time \<Rightarrow> uuid \<Rightarrow> string option \<Rightarrow> string \<Rightarrow> DevMachineEnvVar \<Rightarrow> bool" where
  "live_envvar now machineID providerID target v \<longleftrightarrow>
     ev_MachineID v = machineID \<and> (target = [] \<or> ev_TargetService v = target)
   \<and> ev_RevokedAt v = None \<and> (case ev_ExpiresAt v of None \<Rightarrow> True | Some t \<Rightarrow> now < t)
   \<and> (providerID = None \<or> ev_ProviderID v = None \<or> ev_ProviderID v = providerID)"

definition ListEnvVarsInternal ::
  "time \<Rightarrow> (string \<Rightarrow> nat) \<Rightarrow> uuid \<Rightarrow> string option \<Rightarrow> string \<Rightarrow> db \<Rightarrow> DevMachineEnvVar list" where
  "ListEnvVarsInternal now collate machineID providerID target d =
     sort_key (\<lambda>v. collate (ev_Name v)) (filter (live_envvar now machineID providerID target) (db_envvars d))"

definition default_credential :: "uuid \<Rightarrow> DevMachineRuntimeCredential \<Rightarrow> DevMachineRuntimeCredential" where
  "default_credential fresh c = c\<lparr>
     rc_ID := (if rc_ID c = uuid_Nil then fresh else rc_ID c),
     rc_Scope := (if rc_Scope c = [] then ''machine'' else rc_Scope c),
     rc_CredentialType := (if rc_CredentialType c = [] then ''github_installation_token'' else rc_CredentialType c),
     rc_EncryptionKeyVersion := (if rc_EncryptionKeyVersion c = 0 then 1 else rc_EncryptionKeyVersion c)\<rparr>"

definition hex_char :: "char \<Rightarrow> bool" where
  "hex_char c \<longleftrightarrow> (let n = of_char c :: nat in 48 \<le> n \<and> n \<le> 57 \<or> 97 \<le> n \<and> n \<le> 102)"

definition UpsertRuntimeCredential ::
  "time \<Rightarrow> uuid \<Rightarrow> DevMachineRuntimeCredential \<Rightarrow> db
     \<Rightarrow> store_error + (DevMachineRuntimeCredential \<times> db)" where
  "UpsertRuntimeCredential now fresh credential d =
     (let c = default_credential fresh credential;
          same = (\<lambda>r. rc_MachineID r = rc_MachineID c \<and> rc_FingerprintSHA256 r = rc_FingerprintSHA256 c) in
      if rc_Scope c \<noteq> ''machine'' \<or> length (rc_FingerprintSHA256 c) \<noteq> 64
         \<or> \<not> list_all hex_char (rc_FingerprintSHA256 c)
      then Inl ErrCheckViolation
      else (case find same (db_credentials d) of
          Some r \<Rightarrow> Inr (c\<lparr>rc_ID := rc_ID r, rc_CreatedAt := rc_CreatedAt r, rc_UpdatedAt := now\<rparr>,
            d\<lparr>db_credentials := update_where same
               (\<lambda>r. r\<lparr>rc_Scope := rc_Scope c, rc_CredentialType := rc_CredentialType c,
                 rc_EncryptedValue := rc_EncryptedValue c,
                 rc_EncryptionKeyVersion := rc_EncryptionKeyVersion c,
                 rc_ExpiresAt := rc_ExpiresAt c, rc_UpdatedAt := now\<rparr>) (db_credentials d)\<rparr>)
        | None \<Rightarrow>
          if exists_where (\<lambda>r. rc_ID r = rc_ID c) (db_credentials d) then Inl ErrUniqueViolation
          else if \<not> exists_where (\<lambda>m. m_ID m = rc_MachineID c) (db_machines d) then Inl ErrForeignKey
          else (let row = c\<lparr>rc_CreatedAt := now, rc_UpdatedAt := now\<rparr> in
            Inr (row, d\<lparr>db_credentials := db_credentials d @ [row]\<rparr>))))"

definition ListRuntimeCredentials :: "time \<Rightarrow> uuid \<Rightarrow> db \<Rightarrow> DevMachineRuntimeCredential list" where
  "ListRuntimeCredentials now machineID d = sort_key (\<lambda>c. (rc_ExpiresAt c, rc_CreatedAt c))
     (filter (\<lambda>c. rc_MachineID c = machineID \<and> now < rc_ExpiresAt c) (db_credentials d))"

definition PurgeExpiredRuntimeCredentials :: "time \<Rightarrow> db \<Rightarrow> nat \<times> db" where
  "PurgeExpiredRuntimeCredentials now d =
     (rows_affected (\<lambda>c. rc_ExpiresAt c \<le> now) (db_credentials d),
      d\<lparr>db_credentials := delete_where (\<lambda>c. rc_ExpiresAt c \<le> now) (db_credentials d)\<rparr>)"

section \<open>Machine tokens\<close>

definition live_token :: "(rawjson \<Rightarrow> string \<Rightarrow> bool) \<Rightarrow> time \<Rightarrow> string \<Rightarrow> string \<Rightarrow> DevMachineToken \<Rightarrow> bool" where
  "live_token has_scope now tokenHash scope t \<longleftrightarrow>
     tk_TokenHash t = tokenHash \<and> tk_RevokedAt t = None \<and> now < tk_ExpiresAt t \<and> has_scope (tk_Scopes t) scope"

text \<open>The machine is read in the same transaction; without it the update is rolled back.\<close>

definition AuthenticateMachineToken ::
  "(rawjson \<Rightarrow> string \<Rightarrow> bool) \<Rightarrow> time \<Rightarrow> string \<Rightarrow> string \<Rightarrow> db \<Rightarrow> (DevMachineToken \<times> DevMachine) option \<times> db" where
  "AuthenticateMachineToken has_scope now tokenHash scope d =
     (let P = live_token has_scope now tokenHash scope; f = (\<lambda>t. t\<lparr>tk_LastUsedAt := Some now\<rparr>) in
      case find P (db_tokens d) of
        None \<Rightarrow> (None, d)
      | Some t \<Rightarrow>
          (case find (\<lambda>m. m_ID m = tk_MachineID t \<and> m_Status m = StatusRunning \<and> now < m_ExpiresAt m)
               (db_machines d) of
             None \<Rightarrow> (None, d)
           | Some m \<Rightarrow> (Some (f t, m), d\<lparr>db_tokens := update_where P f (db_tokens d)\<rparr>)))"

section \<open>Browser access\<close>

text \<open>
  The condition shared by the statements that grant access: the creator, a member of the workspace
  with a writing role, reaches a running service of his own running, unexpired machine.
\<close>

definition open_machine :: "time \<Rightarrow> uuid \<Rightarrow> uuid \<Rightarrow> uuid \<Rightarrow> DevMachine \<Rightarrow> bool" where
  "open_machine now workspaceID machineID userID m \<longleftrightarrow>
     is_machine workspaceID machineID m \<and> m_CreatedByUserID m = Some userID
   \<and> m_Status m = StatusRunning \<and> m_DesiredStatus m = StatusRunning \<and> now < m_ExpiresAt m"

definition open_service :: "uuid \<Rightarrow> uuid \<Rightarrow> DevMachineService \<Rightarrow> bool" where
  "open_service machineID serviceID s \<longleftrightarrow>
     sv_ID s = serviceID \<and> sv_MachineID s = machineID \<and> sv_Status s = ''running''"

definition writing_member :: "uuid \<Rightarrow> uuid \<Rightarrow> WorkspaceMember \<Rightarrow> bool" where
  "writing_member workspaceID userID w \<longleftrightarrow> wm_WorkspaceID w = workspaceID \<and> wm_UserID w = userID
     \<and> wm_Role w \<in> {''owner'', ''admin'', ''member''}"

definition access_open :: "time \<Rightarrow> db \<Rightarrow> uuid \<Rightarrow> uuid \<Rightarrow> uuid \<Rightarrow> uuid \<Rightarrow> bool" where
  "access_open now d workspaceID machineID serviceID userID \<longleftrightarrow>
     exists_where (open_machine now workspaceID machineID userID) (db_machines d)
   \<and> exists_where (open_service machineID serviceID) (db_services d)
   \<and> exists_where (writing_member workspaceID userID) (db_members d)"

definition terminal_active :: "uuid \<Rightarrow> uuid \<Rightarrow> uuid \<Rightarrow> uuid option \<Rightarrow> db \<Rightarrow> bool" where
  "terminal_active workspaceID machineID userID sessionID d \<longleftrightarrow>
     exists_where (\<lambda>t. Some (ts_ID t) = sessionID \<and> ts_WorkspaceID t = workspaceID
       \<and> ts_MachineID t = machineID \<and> ts_UserID t = userID \<and> ts_Status t = ''active'') (db_terminals d)"

definition grant_open ::
  "time \<Rightarrow> db \<Rightarrow> uuid \<Rightarrow> uuid \<Rightarrow> uuid \<Rightarrow> uuid \<Rightarrow> time \<Rightarrow> bool" where
  "grant_open now d workspaceID machineID serviceID userID expiresAt \<longleftrightarrow>
     access_open now d workspaceID machineID serviceID userID
   \<and> exists_where (\<lambda>m. open_machine now workspaceID machineID userID m \<and> expiresAt \<le> m_ExpiresAt m)
       (db_machines d)
   \<and> now < expiresAt"

text \<open>The ticket row references its service and, if any, its terminal session.\<close>

definition CreateAccessTicket ::
  "time \<Rightarrow> DevMachineAccessTicket \<Rightarrow> db \<Rightarrow> store_error + (DevMachineAccessTicket \<times> db)" where
  "CreateAccessTicket now ticket d =
     (let t = ticket\<lparr>at_UsedAt := None, at_RevokedAt := None, at_CreatedAt := now\<rparr> in
      if \<not> grant_open now d (at_WorkspaceID t) (at_MachineID t) (at_ServiceID t) (at_UserID t) (at_ExpiresAt t)
         \<or> \<not> (at_TerminalSessionID t = None
              \<or> exists_where (\<lambda>s. open_service (at_MachineID t) (at_ServiceID t) s
                    \<and> sv_ServiceType s = ''terminal'') (db_services d)
                \<and> terminal_active (at_WorkspaceID t) (at_MachineID t) (at_UserID t) (at_TerminalSessionID t) d)
      then Inl ErrNoRows
      else if exists_where (\<lambda>r. at_ID r = at_ID t \<or> at_TokenHash r = at_TokenHash t) (db_tickets d)
      then Inl ErrUniqueViolation
      else Inr (ticket\<lparr>at_CreatedAt := now\<rparr>, d\<lparr>db_tickets := db_tickets d @ [t]\<rparr>))"

definition consumable :: "time \<Rightarrow> db \<Rightarrow> string \<Rightarrow> string \<Rightarrow> DevMachineAccessTicket \<Rightarrow> bool" where
  "consumable now d tokenHash host t \<longleftrightarrow>
     at_TokenHash t = tokenHash \<and> at_BoundHost t = host \<and> at_Status t = TicketActive
   \<and> now < at_ExpiresAt t
   \<and> access_open now d (at_WorkspaceID t) (at_MachineID t) (at_ServiceID t) (at_UserID t)
   \<and> (at_TerminalSessionID t = None
      \<or> terminal_active (at_WorkspaceID t) (at_MachineID t) (at_UserID t) (at_TerminalSessionID t) d)"

definition used_row :: "time \<Rightarrow> DevMachineAccessTicket \<Rightarrow> DevMachineAccessTicket" where
  "used_row now t = t\<lparr>at_Status := TicketUsed, at_UsedAt := Some now\<rparr>"

definition ConsumeAccessTicket ::
  "time \<Rightarrow> string \<Rightarrow> string \<Rightarrow> db \<Rightarrow> DevMachineAccessTicket option \<times> db" where
  "ConsumeAccessTicket now tokenHash host d =
     (map_option (used_row now) (find (consumable now d tokenHash host) (db_tickets d)),
      d\<lparr>db_tickets := update_where (consumable now d tokenHash host) (used_row now) (db_tickets d)\<rparr>)"

definition CreateAccessSession ::
  "time \<Rightarrow> DevMachineAccessSession \<Rightarrow> db \<Rightarrow> store_error + (DevMachineAccessSession \<times> db)" where
  "CreateAccessSession now session d =
     (if \<not> grant_open now d (as_WorkspaceID session) (as_MachineID session) (as_ServiceID session)
           (as_UserID session) (as_ExpiresAt session)
      then Inl ErrNoRows
      else if exists_where (\<lambda>r. as_ID r = as_ID session \<or> as_TokenHash r = as_TokenHash session) (db_sessions d)
      then Inl ErrUniqueViolation
      else Inr (session\<lparr>as_CreatedAt := now, as_LastSeenAt := now\<rparr>, d\<lparr>db_sessions := db_sessions d
        @ [session\<lparr>as_CreatedAt := now, as_LastSeenAt := now, as_RevokedAt := None\<rparr>]\<rparr>))"

definition live_session :: "time \<Rightarrow> db \<Rightarrow> string \<Rightarrow> string \<Rightarrow> DevMachineAccessSession \<Rightarrow> bool" where
  "live_session now d tokenHash host s \<longleftrightarrow>
     as_TokenHash s = tokenHash \<and> as_BoundHost s = host \<and> as_RevokedAt s = None \<and> now < as_ExpiresAt s
   \<and> access_open now d (as_WorkspaceID s) (as_MachineID s) (as_ServiceID s) (as_UserID s)"

definition seen_row :: "time \<Rightarrow> DevMachineAccessSession \<Rightarrow> DevMachineAccessSession" where
  "seen_row now s = s\<lparr>as_LastSeenAt := now\<rparr>"

definition GetAccessSession ::
  "time \<Rightarrow> string \<Rightarrow> string \<Rightarrow> db \<Rightarrow> DevMachineAccessSession option \<times> db" where
  "GetAccessSession now tokenHash host d =
     (map_option (seen_row now) (find (live_session now d tokenHash host) (db_sessions d)),
      d\<lparr>db_sessions := update_where (live_session now d tokenHash host) (seen_row now) (db_sessions d)\<rparr>)"

definition RevokeMachineAccess :: "time \<Rightarrow> uuid \<Rightarrow> db \<Rightarrow> db" where
  "RevokeMachineAccess now machineID d = d\<lparr>
     db_tickets := update_where (\<lambda>t. at_MachineID t = machineID \<and> at_Status t = TicketActive)
       (\<lambda>t. t\<lparr>at_Status := TicketRevoked, at_RevokedAt := Some now\<rparr>) (db_tickets d),
     db_sessions := update_where (\<lambda>s. as_MachineID s = machineID \<and> as_RevokedAt s = None)
       (\<lambda>s. s\<lparr>as_RevokedAt := Some now\<rparr>) (db_sessions d)\<rparr>"

section \<open>Access logs\<close>

definition CreateAccessLog ::
  "time \<Rightarrow> int \<Rightarrow> DevMachineAccessLog \<Rightarrow> db \<Rightarrow> store_error + (DevMachineAccessLog \<times> db)" where
  "CreateAccessLog now seq entry d =
     (let l = entry\<lparr>al_ID := seq, al_CreatedAt := now\<rparr> in
      if al_Decision l \<notin> {''allowed'', ''denied''} \<or> (al_MachineID l \<noteq> None \<and> al_WorkspaceID l = None)
         \<or> (al_ServiceID l \<noteq> None \<and> al_MachineID l = None)
      then Inl ErrCheckViolation
      else if \<not> references (\<lambda>m. Some (m_WorkspaceID m) = al_WorkspaceID l \<and> Some (m_ID m) = al_MachineID l)
             (al_MachineID l) (db_machines d)
         \<or> \<not> references (\<lambda>s. Some (sv_WorkspaceID s) = al_WorkspaceID l \<and> Some (sv_MachineID s) = al_MachineID l
             \<and> Some (sv_ID s) = al_ServiceID l) (al_ServiceID l) (db_services d)
      then Inl ErrForeignKey
      else Inr (l, d\<lparr>db_accesslogs := db_accesslogs d @ [l]\<rparr>))"

definition expired_logs :: "time \<Rightarrow> int \<Rightarrow> db \<Rightarrow> int list" where
  "expired_logs before limit d = map al_ID (take (nat limit)
     (sort_key (\<lambda>l. (al_CreatedAt l, al_ID l)) (filter (\<lambda>l. al_CreatedAt l < before) (db_accesslogs d))))"

definition PurgeAccessLogs :: "time \<Rightarrow> int \<Rightarrow> db \<Rightarrow> nat \<times> db" where
  "PurgeAccessLogs before limit d =
     (if limit \<le> 0 then (0, d)
      else (let P = (\<lambda>l. al_ID l \<in> set (expired_logs before limit d)) in
        (rows_affected P (db_accesslogs d), d\<lparr>db_accesslogs := delete_where P (db_accesslogs d)\<rparr>)))"

end
