(* ===== verification/Machine_Environments.thy ===== *)
theory Machine_Environments
  imports Machine_Access
begin

text \<open>
  Environments, checkouts, terminal sessions and scope settings
  (\<open>BE/internal/repository/dev_machine.go\<close>): building an environment from a stopped builder machine,
  requesting and completing its deletion, the reconciler's sweep over orphaned builds and checkouts,
  preparing a checkout on a running machine, closing a terminal session with its tickets, and the
  settings that choose an environment for a scope. Rows another transaction holds locked, which the
  sweeps pass over, are the argument \<open>locked\<close>.
\<close>

section \<open>Environments\<close>

definition is_environment :: "uuid \<Rightarrow> uuid \<Rightarrow> DevMachineEnvironment \<Rightarrow> bool" where
  "is_environment workspaceID environmentID e \<longleftrightarrow> en_WorkspaceID e = workspaceID \<and> en_ID e = environmentID"

definition ListEnvironments :: "uuid \<Rightarrow> db \<Rightarrow> DevMachineEnvironment list" where
  "ListEnvironments workspaceID d = sort_key (\<lambda>e. - en_CreatedAt e)
     (filter (\<lambda>e. en_WorkspaceID e = workspaceID \<and> en_Status e \<noteq> ''delete_requested'') (db_environments d))"

definition GetEnvironment :: "uuid \<Rightarrow> uuid \<Rightarrow> db \<Rightarrow> DevMachineEnvironment option" where
  "GetEnvironment workspaceID environmentID d =
     find (is_environment workspaceID environmentID) (db_environments d)"

definition environment_status :: "string \<Rightarrow> bool" where
  "environment_status status \<longleftrightarrow> status \<in> {''pending'', ''building'', ''ready'', ''failed'', ''delete_requested''}"

definition lifecycle_action :: "DevMachineOperationAction \<Rightarrow> bool" where
  "lifecycle_action action \<longleftrightarrow> action \<in> {OpSpawn, OpStart, OpStop, OpPause, OpTeardown, OpReconcile}"

definition lifecycle_active :: "uuid \<Rightarrow> db \<Rightarrow> bool" where
  "lifecycle_active machineID d \<longleftrightarrow> exists_where (\<lambda>r. op_MachineID r = machineID
     \<and> op_unfinished (op_Status r) \<and> lifecycle_action (op_Action r)) (db_operations d)"

definition stable_machine :: "DevMachine \<Rightarrow> bool" where
  "stable_machine m \<longleftrightarrow> m_Status m = m_DesiredStatus m
     \<and> (m_Status m = StatusPaused \<or> m_Status m = StatusStopped)"

definition new_environment_row :: "time \<Rightarrow> DevMachineEnvironment \<Rightarrow> DevMachineEnvironment" where
  "new_environment_row now e = e\<lparr>en_ImageDigest := None, en_DeleteRequestedAt := None,
     en_CreatedAt := now, en_UpdatedAt := now\<rparr>"

definition CreateEnvironment ::
  "time \<Rightarrow> uuid \<Rightarrow> DevMachineEnvironment \<Rightarrow> DevMachineOperation \<Rightarrow> db
     \<Rightarrow> store_error + (DevMachineOperation \<times> db)" where
  "CreateEnvironment now fresh environment operation d =
     (case en_SourceMachineID environment of
        None \<Rightarrow> Inl ErrMachineStateConflict
      | Some source \<Rightarrow>
        if op_MachineID operation \<noteq> source \<or> op_WorkspaceID operation \<noteq> en_WorkspaceID environment
           \<or> op_Action operation \<noteq> OpSnapshotEnvironment
           \<or> op_EnvironmentID operation \<noteq> Some (en_ID environment)
        then Inl ErrMachineStateConflict
        else (case GetMachine (en_WorkspaceID environment) source d of
            None \<Rightarrow> Inl ErrMachineStateConflict
          | Some m \<Rightarrow>
            if \<not> m_EnvironmentBuilder m \<or> \<not> stable_machine m \<or> m_Generation m \<noteq> op_Generation operation
            then Inl ErrMachineStateConflict
            else if lifecycle_active source d then Inl ErrMachineStateConflict
            else if \<not> environment_status (en_Status environment) then Inl ErrCheckViolation
            else if exists_where (\<lambda>e. en_ID e = en_ID environment
                 \<or> en_WorkspaceID e = en_WorkspaceID environment \<and> en_Name e = en_Name environment)
               (db_environments d)
            then Inl ErrUniqueViolation
            else enqueueOperation now fresh operation
              (d\<lparr>db_environments := db_environments d @ [new_environment_row now environment]\<rparr>)))"

definition environment_in_use :: "uuid \<Rightarrow> db \<Rightarrow> bool" where
  "environment_in_use environmentID d \<longleftrightarrow>
     exists_where (\<lambda>s. ss_EnvironmentID s = Some environmentID) (db_settings d)
   \<or> exists_where (\<lambda>m. m_EnvironmentID m = Some environmentID
       \<and> (m_Status m \<noteq> StatusDestroyed \<or> m_DesiredStatus m = StatusRunning
          \<or> exists_where (\<lambda>r. op_MachineID r = m_ID m \<and> op_unfinished (op_Status r)
               \<and> op_Action r \<in> {OpSpawn, OpStart, OpReconcile, OpSnapshotEnvironment}) (db_operations d)))
       (db_machines d)"

text \<open>\<open>lease_expires_at IS NULL OR lease_expires_at >= NOW()\<close>\<close>

definition lease_not_over :: "time \<Rightarrow> DevMachineOperation \<Rightarrow> bool" where
  "lease_not_over now r \<longleftrightarrow> (case op_LeaseExpiresAt r of None \<Rightarrow> True | Some t \<Rightarrow> now \<le> t)"

definition builds :: "uuid \<Rightarrow> DevMachineOperation \<Rightarrow> bool" where
  "builds environmentID r \<longleftrightarrow> op_EnvironmentID r = Some environmentID \<and> op_Action r = OpSnapshotEnvironment"

definition cancelled_op :: "time \<Rightarrow> string \<Rightarrow> string \<Rightarrow> DevMachineOperation \<Rightarrow> DevMachineOperation" where
  "cancelled_op now code message r = r\<lparr>op_Status := OpStatusCancelled, op_ErrorCode := Some code,
     op_ErrorMessage := Some message, op_LeaseOwner := None, op_LeaseExpiresAt := None,
     op_CompletedAt := Some now, op_UpdatedAt := now\<rparr>"

definition delete_requested_row :: "time \<Rightarrow> DevMachineEnvironment \<Rightarrow> DevMachineEnvironment" where
  "delete_requested_row now e = e\<lparr>en_Status := ''delete_requested'',
     en_DeleteRequestedAt := coalesce (en_DeleteRequestedAt e) (Some now), en_UpdatedAt := now\<rparr>"

definition deletable_status :: "string \<Rightarrow> bool" where
  "deletable_status status \<longleftrightarrow> status \<in> {''pending'', ''building'', ''ready'', ''failed''}"

definition RequestEnvironmentDeletion :: "time \<Rightarrow> uuid \<Rightarrow> uuid \<Rightarrow> db \<Rightarrow> store_error + db" where
  "RequestEnvironmentDeletion now workspaceID environmentID d =
     (case GetEnvironment workspaceID environmentID d of
        None \<Rightarrow> Inl ErrNoRows
      | Some e \<Rightarrow>
        if en_Status e = ''delete_requested'' then Inr d
        else if \<not> deletable_status (en_Status e)
        then Inl ErrEnvironmentInvalidState
        else if environment_in_use environmentID d then Inl ErrEnvironmentInUse
        else if exists_where (\<lambda>r. builds environmentID r \<and> op_Status r = OpStatusLeased \<and> lease_not_over now r)
             (db_operations d)
        then Inl ErrEnvironmentDeletionConflict
        else Inr (d\<lparr>
          db_operations := update_where (\<lambda>r. builds environmentID r
               \<and> (op_Status r = OpStatusPending \<or> lease_expired now r))
             (cancelled_op now ''environment_deletion_requested''
                ''snapshot cancelled because environment deletion was requested'') (db_operations d),
          db_environments := update_where (is_environment workspaceID environmentID)
             (delete_requested_row now) (db_environments d)\<rparr>))"

text \<open>\<open>NULLS LAST\<close> puts the rows without a value after the others.\<close>

definition ListDeleteRequestedEnvironments :: "nat \<Rightarrow> db \<Rightarrow> DevMachineEnvironment list" where
  "ListDeleteRequestedEnvironments limit d =
     take limit (sort_key (\<lambda>e. (case en_DeleteRequestedAt e of None \<Rightarrow> (1 :: nat, 0) | Some t \<Rightarrow> (0, t), en_UpdatedAt e))
       (filter (\<lambda>e. en_Status e = ''delete_requested'') (db_environments d)))"

text \<open>
  Deleting the row sets the references of machines and settings to \<open>NULL\<close> and cascades to the
  environment's operations.
\<close>

definition DeleteEnvironment :: "time \<Rightarrow> uuid \<Rightarrow> uuid \<Rightarrow> db \<Rightarrow> store_error + db" where
  "DeleteEnvironment now workspaceID environmentID d =
     (let P = (\<lambda>e. is_environment workspaceID environmentID e \<and> en_Status e = ''delete_requested'') in
      if rows_affected P (db_environments d) \<noteq> 1 then Inl ErrNoRows
      else Inr (d\<lparr>
        db_environments := delete_where P (db_environments d),
        db_machines := update_where (\<lambda>m. m_EnvironmentID m = Some environmentID)
          (\<lambda>m. m\<lparr>m_EnvironmentID := None, m_UpdatedAt := now\<rparr>) (db_machines d),
        db_settings := update_where (\<lambda>s. ss_EnvironmentID s = Some environmentID)
          (\<lambda>s. s\<lparr>ss_EnvironmentID := None, ss_UpdatedAt := now\<rparr>) (db_settings d),
        db_operations := delete_where (\<lambda>r. op_EnvironmentID r = Some environmentID) (db_operations d)\<rparr>))"

definition environment_state_row ::
  "time \<Rightarrow> string \<Rightarrow> string \<Rightarrow> string option \<Rightarrow> DevMachineEnvironment \<Rightarrow> DevMachineEnvironment" where
  "environment_state_row now status imageRef digest e = e\<lparr>en_Status := status,
     en_ImageRef := (if imageRef = [] then en_ImageRef e else imageRef),
     en_ImageDigest := coalesce digest (en_ImageDigest e), en_UpdatedAt := now\<rparr>"

definition UpdateEnvironmentState ::
  "time \<Rightarrow> uuid \<Rightarrow> string \<Rightarrow> string \<Rightarrow> string option \<Rightarrow> db \<Rightarrow> store_error + db" where
  "UpdateEnvironmentState now environmentID status imageRef digest d =
     (let P = (\<lambda>e. en_ID e = environmentID \<and> en_Status e \<noteq> ''delete_requested'') in
      if rows_affected P (db_environments d) \<noteq> 1 then Inl ErrEnvironmentDeletionConflict
      else if \<not> environment_status status then Inl ErrCheckViolation
      else Inr (d\<lparr>db_environments :=
        update_where P (environment_state_row now status imageRef digest) (db_environments d)\<rparr>))"

section \<open>Sweeping orphans\<close>

text \<open>
  The two sweeps have one shape: the oldest rows in an unfinished status; for each, the operations
  that could still finish it with their machines; and, if none can, the cancellation of the
  operations and the failure of the row. \<open>lease_active\<close> is the column of that name.
\<close>

definition lease_active :: "time \<Rightarrow> DevMachineOperation \<Rightarrow> bool" where
  "lease_active now r \<longleftrightarrow> op_Status r = OpStatusLeased
     \<and> (case op_LeaseExpiresAt r of None \<Rightarrow> False | Some t \<Rightarrow> now \<le> t)"

definition viable_op :: "time \<Rightarrow> (DevMachine \<Rightarrow> bool) \<Rightarrow> db \<Rightarrow> DevMachineOperation \<Rightarrow> bool" where
  "viable_op now fit d r \<longleftrightarrow> exists_where (\<lambda>m. m_ID m = op_MachineID r
     \<and> (lease_active now r
        \<or> op_Status r = OpStatusPending \<and> op_Generation r = m_Generation m \<and> fit m)) (db_machines d)"

definition no_longer_runnable :: "time \<Rightarrow> DevMachineOperation \<Rightarrow> bool" where
  "no_longer_runnable now r \<longleftrightarrow> op_Status r = OpStatusPending
     \<or> op_Status r = OpStatusLeased \<and> (case op_LeaseExpiresAt r of None \<Rightarrow> True | Some t \<Rightarrow> t < now)"

definition unfinished_environment :: "DevMachineEnvironment \<Rightarrow> bool" where
  "unfinished_environment e \<longleftrightarrow> en_Status e = ''pending'' \<or> en_Status e = ''building''"

definition environment_viable :: "time \<Rightarrow> uuid \<Rightarrow> db \<Rightarrow> bool" where
  "environment_viable now environmentID d \<longleftrightarrow>
     exists_where (\<lambda>r. builds environmentID r \<and> viable_op now stable_machine d r) (db_operations d)"

definition reconcile_environment :: "time \<Rightarrow> uuid \<Rightarrow> nat \<times> db \<Rightarrow> nat \<times> db" where
  "reconcile_environment now environmentID = (\<lambda>(n, d).
     if environment_viable now environmentID d then (n, d)
     else (let P = (\<lambda>e. en_ID e = environmentID \<and> unfinished_environment e) in
       (n + (if rows_affected P (db_environments d) = 1 then 1 else 0),
        d\<lparr>db_operations := update_where (\<lambda>r. builds environmentID r \<and> no_longer_runnable now r)
              (cancelled_op now ''environment_snapshot_orphaned'' ''snapshot operation is no longer runnable'')
              (db_operations d),
          db_environments := update_where P (\<lambda>e. e\<lparr>en_Status := ''failed'', en_UpdatedAt := now\<rparr>)
              (db_environments d)\<rparr>)))"

definition sweep_limit :: "int \<Rightarrow> nat" where
  "sweep_limit limit = (if limit \<le> 0 then 100 else nat limit)"

definition unfinished_environment_ids :: "(uuid \<Rightarrow> bool) \<Rightarrow> nat \<Rightarrow> db \<Rightarrow> uuid list" where
  "unfinished_environment_ids locked limit d = map en_ID (take limit
     (sort_key (\<lambda>e. (en_UpdatedAt e, en_ID e))
       (filter (\<lambda>e. unfinished_environment e \<and> \<not> locked (en_ID e)) (db_environments d))))"

definition ReconcileOrphanedEnvironments :: "time \<Rightarrow> (uuid \<Rightarrow> bool) \<Rightarrow> int \<Rightarrow> db \<Rightarrow> nat \<times> db" where
  "ReconcileOrphanedEnvironments now locked limit d =
     fold (reconcile_environment now) (unfinished_environment_ids locked (sweep_limit limit) d) (0, d)"

definition prepares :: "uuid \<Rightarrow> DevMachineOperation \<Rightarrow> bool" where
  "prepares checkoutID r \<longleftrightarrow> op_CheckoutID r = Some checkoutID \<and> op_Action r = OpCheckoutIssue"

definition running_machine :: "DevMachine \<Rightarrow> bool" where
  "running_machine m \<longleftrightarrow> m_Status m = StatusRunning \<and> m_DesiredStatus m = StatusRunning"

definition unfinished_checkout :: "DevMachineCheckout \<Rightarrow> bool" where
  "unfinished_checkout c \<longleftrightarrow> co_Status c = ''queued'' \<or> co_Status c = ''preparing''"

definition checkout_viable :: "time \<Rightarrow> uuid \<Rightarrow> db \<Rightarrow> bool" where
  "checkout_viable now checkoutID d \<longleftrightarrow>
     exists_where (\<lambda>r. prepares checkoutID r \<and> viable_op now running_machine d r) (db_operations d)"

definition reconcile_checkout :: "time \<Rightarrow> uuid \<Rightarrow> nat \<times> db \<Rightarrow> nat \<times> db" where
  "reconcile_checkout now checkoutID = (\<lambda>(n, d).
     if checkout_viable now checkoutID d then (n, d)
     else (let P = (\<lambda>c. co_ID c = checkoutID \<and> unfinished_checkout c) in
       (n + (if rows_affected P (db_checkouts d) = 1 then 1 else 0),
        d\<lparr>db_operations := update_where (\<lambda>r. prepares checkoutID r \<and> no_longer_runnable now r)
              (cancelled_op now ''checkout_preparation_orphaned'' ''checkout preparation is no longer runnable'')
              (db_operations d),
          db_checkouts := update_where P (\<lambda>c. c\<lparr>co_Status := ''failed'',
              co_LastError := Some ''checkout preparation was interrupted; try again'',
              co_UpdatedAt := now\<rparr>) (db_checkouts d)\<rparr>)))"

definition unfinished_checkout_ids :: "(uuid \<Rightarrow> bool) \<Rightarrow> nat \<Rightarrow> db \<Rightarrow> uuid list" where
  "unfinished_checkout_ids locked limit d = map co_ID (take limit
     (sort_key (\<lambda>c. (co_UpdatedAt c, co_ID c))
       (filter (\<lambda>c. unfinished_checkout c \<and> \<not> locked (co_ID c)) (db_checkouts d))))"

definition ReconcileOrphanedCheckouts :: "time \<Rightarrow> (uuid \<Rightarrow> bool) \<Rightarrow> int \<Rightarrow> db \<Rightarrow> nat \<times> db" where
  "ReconcileOrphanedCheckouts now locked limit d =
     fold (reconcile_checkout now) (unfinished_checkout_ids locked (sweep_limit limit) d) (0, d)"

section \<open>Checkouts\<close>

definition GetCheckout :: "uuid \<Rightarrow> uuid \<Rightarrow> uuid \<Rightarrow> db \<Rightarrow> DevMachineCheckout option" where
  "GetCheckout workspaceID machineID checkoutID d =
     find (\<lambda>c. co_WorkspaceID c = workspaceID \<and> co_MachineID c = machineID \<and> co_ID c = checkoutID)
       (db_checkouts d)"

definition GetCheckoutInternal :: "uuid \<Rightarrow> db \<Rightarrow> DevMachineCheckout option" where
  "GetCheckoutInternal checkoutID d = find (\<lambda>c. co_ID c = checkoutID) (db_checkouts d)"

definition ListCheckouts :: "uuid \<Rightarrow> uuid \<Rightarrow> db \<Rightarrow> DevMachineCheckout list" where
  "ListCheckouts workspaceID machineID d = sort_key (\<lambda>c. - co_CreatedAt c)
     (filter (\<lambda>c. co_WorkspaceID c = workspaceID \<and> co_MachineID c = machineID) (db_checkouts d))"

text \<open>SQL's \<open>split_part\<close>: the \<open>n\<close>-th field (from 1), or the empty text.\<close>

fun split_on :: "char \<Rightarrow> string \<Rightarrow> string list" where
  "split_on sep [] = [[]]"
| "split_on sep (c # cs) = (if c = sep then [] # split_on sep cs
     else (case split_on sep cs of [] \<Rightarrow> [[c]] | f # fs \<Rightarrow> (c # f) # fs))"

definition split_part :: "string \<Rightarrow> char \<Rightarrow> nat \<Rightarrow> string" where
  "split_part s sep n = (let fs = split_on sep s in if 1 \<le> n \<and> n \<le> length fs then fs ! (n - 1) else [])"

definition affine :: "DevMachineCheckout \<Rightarrow> DevMachine \<Rightarrow> bool" where
  "affine checkout m \<longleftrightarrow> is_machine (co_WorkspaceID checkout) (co_MachineID checkout) m
     \<and> (m_RepositoryAffinityID m = None \<or> m_RepositoryAffinityID m = Some (co_GitHubRepoID checkout))
     \<and> running_machine m"

definition checkout_machine_row :: "time \<Rightarrow> DevMachineCheckout \<Rightarrow> DevMachine \<Rightarrow> DevMachine" where
  "checkout_machine_row now c m = m\<lparr>m_RepositoryAffinityID := Some (co_GitHubRepoID c),
     m_IssueID := Some (co_IssueID c), m_RepoURL := ''https://github.com/'' @ co_RepositoryFullName c,
     m_RepoProvider := ''github'', m_RepoOwner := split_part (co_RepositoryFullName c) CHR ''/'' 1,
     m_RepoName := split_part (co_RepositoryFullName c) CHR ''/'' 2, m_BaseBranch := co_BaseBranch c,
     m_WorkingBranch := co_WorkingBranch c, m_LastActivityAt := Some now, m_UpdatedAt := now\<rparr>"

definition checkout_status :: "string \<Rightarrow> bool" where
  "checkout_status status \<longleftrightarrow> status \<in> {''queued'', ''preparing'', ''ready'', ''failed''}"

definition linked :: "db \<Rightarrow> uuid \<Rightarrow> uuid \<Rightarrow> bool" where
  "linked d workspaceID repositoryID \<longleftrightarrow>
     exists_where (\<lambda>r. gh_WorkspaceID r = workspaceID \<and> gh_ID r = repositoryID) (db_repos d)"

definition CreateCheckout ::
  "time \<Rightarrow> uuid \<Rightarrow> DevMachineCheckout \<Rightarrow> DevMachineOperation \<Rightarrow> db
     \<Rightarrow> store_error + (DevMachineCheckout \<times> DevMachineOperation \<times> db)" where
  "CreateCheckout now fresh checkout operation d =
     (let same = (\<lambda>c. co_MachineID c = co_MachineID checkout \<and> co_IssueID c = co_IssueID checkout) in
      if rows_affected (affine checkout) (db_machines d) \<noteq> 1 then Inl ErrCheckoutMachineConflict
      else if \<not> linked d (co_WorkspaceID checkout) (co_GitHubRepoID checkout)
         \<or> \<not> exists_where (\<lambda>i. ow_WorkspaceID i = co_WorkspaceID checkout \<and> ow_ID i = co_IssueID checkout)
              (db_issues d)
      then Inl ErrForeignKey
      else if \<not> checkout_status (co_Status checkout) then Inl ErrCheckViolation
      else (let d1 = d\<lparr>db_machines := update_where (affine checkout) (checkout_machine_row now checkout)
                 (db_machines d)\<rparr>;
                enqueue = (\<lambda>c d2. bindE (enqueueOperation now fresh
                   (operation\<lparr>op_CheckoutID := Some (co_ID c)\<rparr>) d2) (\<lambda>(r, d3). Inr (c, r, d3))) in
        case find same (db_checkouts d) of
          Some c \<Rightarrow> enqueue (checkout\<lparr>co_ID := co_ID c, co_CreatedAt := co_CreatedAt c, co_UpdatedAt := now\<rparr>)
            (d1\<lparr>db_checkouts := update_where same (\<lambda>c. c\<lparr>co_Status := co_Status checkout,
               co_LastError := None, co_LastActivityAt := Some now, co_UpdatedAt := now\<rparr>) (db_checkouts d)\<rparr>)
        | None \<Rightarrow>
          if exists_where (\<lambda>c. co_ID c = co_ID checkout
               \<or> co_MachineID c = co_MachineID checkout \<and> co_WorkspacePath c = co_WorkspacePath checkout)
             (db_checkouts d)
          then Inl ErrUniqueViolation
          else enqueue (checkout\<lparr>co_CreatedAt := now, co_UpdatedAt := now\<rparr>)
            (d1\<lparr>db_checkouts := db_checkouts d @ [checkout\<lparr>co_LastError := None, co_CreatedAt := now,
               co_UpdatedAt := now, co_LastActivityAt := None\<rparr>]\<rparr>)))"

definition UpdateCheckoutState ::
  "time \<Rightarrow> uuid \<Rightarrow> string \<Rightarrow> string option \<Rightarrow> db \<Rightarrow> store_error + db" where
  "UpdateCheckoutState now checkoutID status lastError d =
     (let P = (\<lambda>c. co_ID c = checkoutID) in
      if \<not> checkout_status status \<and> exists_where P (db_checkouts d) then Inl ErrCheckViolation
      else Inr (d\<lparr>db_checkouts := update_where P (\<lambda>c. c\<lparr>co_Status := status, co_LastError := lastError,
        co_LastActivityAt := (if status = ''ready'' then Some now else co_LastActivityAt c),
        co_UpdatedAt := now\<rparr>) (db_checkouts d)\<rparr>))"

section \<open>Terminal sessions\<close>

definition terminal_status :: "string \<Rightarrow> bool" where
  "terminal_status status \<longleftrightarrow> status \<in> {''active'', ''closing'', ''close_failed'', ''closed''}"

definition CreateTerminalSession ::
  "time \<Rightarrow> DevMachineTerminalSession \<Rightarrow> db \<Rightarrow> store_error + (DevMachineTerminalSession \<times> db)" where
  "CreateTerminalSession now session d =
     (let row = session\<lparr>ts_CreatedAt := now, ts_LastActivityAt := now, ts_ClosedAt := None\<rparr> in
      if \<not> terminal_status (ts_Status row) then Inl ErrCheckViolation
      else if exists_where (\<lambda>t. ts_ID t = ts_ID row \<or> ts_MachineID t = ts_MachineID row
            \<and> ts_RuntimeSessionName t = ts_RuntimeSessionName row) (db_terminals d)
      then Inl ErrUniqueViolation
      else if \<not> exists_where (is_machine (ts_WorkspaceID row) (ts_MachineID row)) (db_machines d)
         \<or> \<not> references (\<lambda>c. co_WorkspaceID c = ts_WorkspaceID row \<and> co_MachineID c = ts_MachineID row
               \<and> Some (co_ID c) = ts_CheckoutID row) (ts_CheckoutID row) (db_checkouts d)
      then Inl ErrForeignKey
      else Inr (session\<lparr>ts_CreatedAt := now, ts_LastActivityAt := now\<rparr>,
        d\<lparr>db_terminals := db_terminals d @ [row]\<rparr>))"

definition ListTerminalSessions :: "uuid \<Rightarrow> uuid \<Rightarrow> uuid \<Rightarrow> db \<Rightarrow> DevMachineTerminalSession list" where
  "ListTerminalSessions workspaceID machineID userID d = sort_key (\<lambda>t. - ts_CreatedAt t)
     (filter (\<lambda>t. ts_WorkspaceID t = workspaceID \<and> ts_MachineID t = machineID \<and> ts_UserID t = userID)
       (db_terminals d))"

definition GetTerminalSessionInternal :: "uuid \<Rightarrow> db \<Rightarrow> DevMachineTerminalSession option" where
  "GetTerminalSessionInternal sessionID d = find (\<lambda>t. ts_ID t = sessionID) (db_terminals d)"

definition terminal_ticket :: "uuid \<Rightarrow> DevMachineAccessTicket \<Rightarrow> bool" where
  "terminal_ticket sessionID t \<longleftrightarrow> at_TerminalSessionID t = Some sessionID
     \<and> (at_Status t = TicketActive \<or> at_Status t = TicketUsed)"

definition revoke_terminal_row :: "time \<Rightarrow> DevMachineAccessTicket \<Rightarrow> DevMachineAccessTicket" where
  "revoke_terminal_row now t =
     t\<lparr>at_Status := TicketRevoked, at_RevokedAt := coalesce (at_RevokedAt t) (Some now)\<rparr>"

text \<open>\<open>ON CONFLICT (machine_id,idempotency_key) DO UPDATE\<close>: an operation that is over starts again.\<close>

definition op_over :: "DevMachineOperation \<Rightarrow> bool" where
  "op_over r \<longleftrightarrow> op_Status r \<in> {OpStatusCompleted, OpStatusFailed, OpStatusCancelled}"

definition requeued_row :: "time \<Rightarrow> DevMachineOperation \<Rightarrow> DevMachineOperation" where
  "requeued_row now r = (if op_over r
     then r\<lparr>op_Status := OpStatusPending, op_Attempts := 0, op_LeaseOwner := None, op_LeaseExpiresAt := None,
            op_AvailableAt := now, op_CompletedAt := None, op_ErrorCode := None, op_ErrorMessage := None,
            op_UpdatedAt := now\<rparr>
     else r\<lparr>op_UpdatedAt := now\<rparr>)"

definition close_operation ::
  "uuid \<Rightarrow> uuid \<Rightarrow> int \<Rightarrow> DevMachineOperation \<Rightarrow> DevMachineOperation" where
  "close_operation fresh sessionID generation operation =
     default_operation fresh (operation\<lparr>op_Generation := generation, op_TerminalSessionID := Some sessionID\<rparr>)"

text \<open>The columns the statement lists; the others at their defaults.\<close>

definition close_row :: "time \<Rightarrow> DevMachineOperation \<Rightarrow> DevMachineOperation" where
  "close_row now operation = operation\<lparr>op_AgentRunID := None, op_CheckoutID := None, op_EnvironmentID := None,
     op_LeaseOwner := None, op_LeaseExpiresAt := None, op_Attempts := 0, op_ErrorCode := None,
     op_ErrorMessage := None, op_AvailableAt := now, op_CreatedAt := now, op_UpdatedAt := now,
     op_CompletedAt := None\<rparr>"

definition RequestTerminalSessionClose ::
  "time \<Rightarrow> uuid \<Rightarrow> uuid \<Rightarrow> uuid \<Rightarrow> uuid \<Rightarrow> uuid \<Rightarrow> DevMachineOperation \<Rightarrow> db
     \<Rightarrow> store_error + (DevMachineTerminalSession option \<times> db)" where
  "RequestTerminalSessionClose now fresh workspaceID machineID userID sessionID operation0' d =
     (case find (\<lambda>t. ts_WorkspaceID t = workspaceID \<and> ts_MachineID t = machineID \<and> ts_UserID t = userID
            \<and> ts_ID t = sessionID) (db_terminals d) of
        None \<Rightarrow> Inr (None, d)
      | Some session \<Rightarrow>
        if ts_Status session = ''closed'' then Inr (Some session, d)
        else (case GetMachine workspaceID machineID d of
            None \<Rightarrow> Inl ErrNoRows
          | Some m \<Rightarrow>
            (let operation = close_operation fresh sessionID (m_Generation m) operation0';
                 row = close_row now operation;
                 d1 = d\<lparr>db_terminals := update_where (\<lambda>t. ts_ID t = sessionID)
                          (\<lambda>t. t\<lparr>ts_Status := ''closing'', ts_ClosedAt := None\<rparr>) (db_terminals d),
                        db_tickets := update_where (terminal_ticket sessionID) (revoke_terminal_row now)
                          (db_tickets d)\<rparr> in
             case find (same_key operation) (db_operations d) of
               Some existing \<Rightarrow> Inr (Some (session\<lparr>ts_Status := ''closing''\<rparr>),
                 d1\<lparr>db_operations := update_where (same_key operation) (requeued_row now) (db_operations d)\<rparr>)
             | None \<Rightarrow>
                 if op_MaxAttempts row \<le> 0 then Inl ErrCheckViolation
                 else if exists_where (\<lambda>r. op_ID r = op_ID row) (db_operations d) then Inl ErrUniqueViolation
                 else if \<not> operation_references d1 row then Inl ErrForeignKey
                 else Inr (Some (session\<lparr>ts_Status := ''closing''\<rparr>),
                   d1\<lparr>db_operations := db_operations d @ [row]\<rparr>))))"

definition CompleteTerminalSessionClose :: "time \<Rightarrow> uuid \<Rightarrow> db \<Rightarrow> db" where
  "CompleteTerminalSessionClose now sessionID d = d\<lparr>
     db_tickets := update_where (terminal_ticket sessionID) (revoke_terminal_row now) (db_tickets d),
     db_terminals := update_where (\<lambda>t. ts_ID t = sessionID \<and> ts_Status t \<noteq> ''closed'')
       (\<lambda>t. t\<lparr>ts_Status := ''closed'', ts_ClosedAt := coalesce (ts_ClosedAt t) (Some now)\<rparr>)
       (db_terminals d)\<rparr>"

definition FailTerminalSessionClose :: "uuid \<Rightarrow> db \<Rightarrow> db" where
  "FailTerminalSessionClose sessionID d = d\<lparr>db_terminals :=
     update_where (\<lambda>t. ts_ID t = sessionID \<and> ts_Status t = ''closing'')
       (\<lambda>t. t\<lparr>ts_Status := ''close_failed''\<rparr>) (db_terminals d)\<rparr>"

section \<open>Scope settings\<close>

definition scope_rank :: "DevMachineScopeSetting \<Rightarrow> nat" where
  "scope_rank s = (if ss_IssueID s \<noteq> None then 0 else if ss_ProjectID s \<noteq> None then 1
     else if ss_TeamID s \<noteq> None then 2 else 3)"

definition ListScopeSettings :: "uuid \<Rightarrow> db \<Rightarrow> DevMachineScopeSetting list" where
  "ListScopeSettings workspaceID d = sort_key (\<lambda>s. (scope_rank s, - ss_CreatedAt s))
     (filter (\<lambda>s. ss_WorkspaceID s = workspaceID) (db_settings d))"

text \<open>\<open>IS NOT DISTINCT FROM\<close> is equality of nullable values.\<close>

definition has_scope_key ::
  "uuid \<Rightarrow> uuid option \<Rightarrow> uuid option \<Rightarrow> uuid option \<Rightarrow> DevMachineScopeSetting \<Rightarrow> bool" where
  "has_scope_key workspaceID teamID projectID issueID s \<longleftrightarrow> ss_WorkspaceID s = workspaceID
     \<and> ss_TeamID s = teamID \<and> ss_ProjectID s = projectID \<and> ss_IssueID s = issueID"

definition GetScopeSetting ::
  "uuid \<Rightarrow> uuid option \<Rightarrow> uuid option \<Rightarrow> uuid option \<Rightarrow> db \<Rightarrow> DevMachineScopeSetting option" where
  "GetScopeSetting workspaceID teamID projectID issueID d =
     find (has_scope_key workspaceID teamID projectID issueID) (db_settings d)"

text \<open>The rows the unique index named in the conflict target compares with.\<close>

definition conflict_target :: "DevMachineScopeSetting \<Rightarrow> (DevMachineScopeSetting \<Rightarrow> bool) option" where
  "conflict_target s =
     (case (ss_TeamID s, ss_ProjectID s, ss_IssueID s) of
        (None, None, None) \<Rightarrow> Some (\<lambda>r. ss_WorkspaceID r = ss_WorkspaceID s \<and> ss_TeamID r = None
            \<and> ss_ProjectID r = None \<and> ss_IssueID r = None)
      | (Some t, None, None) \<Rightarrow> Some (\<lambda>r. ss_TeamID r = Some t)
      | (None, Some p, None) \<Rightarrow> Some (\<lambda>r. ss_ProjectID r = Some p)
      | (None, None, Some i) \<Rightarrow> Some (\<lambda>r. ss_IssueID r = Some i)
      | _ \<Rightarrow> None)"

definition owned :: "uuid \<Rightarrow> uuid option \<Rightarrow> 'a owned_row_scheme list \<Rightarrow> bool" where
  "owned workspaceID key rows \<longleftrightarrow>
     references (\<lambda>r. ow_WorkspaceID r = workspaceID \<and> Some (ow_ID r) = key) key rows"

definition setting_references :: "db \<Rightarrow> DevMachineScopeSetting \<Rightarrow> bool" where
  "setting_references d s \<longleftrightarrow>
     owned (ss_WorkspaceID s) (ss_TeamID s) (db_teams d)
   \<and> owned (ss_WorkspaceID s) (ss_ProjectID s) (db_projects d)
   \<and> owned (ss_WorkspaceID s) (ss_IssueID s) (db_issues d)
   \<and> (case ss_GitHubRepoID s of None \<Rightarrow> True | Some r \<Rightarrow> linked d (ss_WorkspaceID s) r)"

definition UpsertScopeSetting ::
  "time \<Rightarrow> uuid \<Rightarrow> DevMachineScopeSetting \<Rightarrow> db
     \<Rightarrow> store_error + (DevMachineScopeSetting \<times> db)" where
  "UpsertScopeSetting now fresh setting d =
     (let s = (if ss_ID setting = uuid_Nil then setting\<lparr>ss_ID := fresh\<rparr> else setting) in
      if \<not> environment_ready (ss_WorkspaceID s) (ss_EnvironmentID s) d then Inl ErrEnvironmentUnavailable
      else (case conflict_target s of
          None \<Rightarrow> Inl ErrInvalidScope
        | Some same \<Rightarrow>
          if ss_BaseBranch s = Some [] then Inl ErrCheckViolation
          else if \<not> setting_references d s then Inl ErrForeignKey
          else (case find same (db_settings d) of
              Some r \<Rightarrow>
                if ss_WorkspaceID r \<noteq> ss_WorkspaceID s then Inl ErrNoRows
                else Inr (s\<lparr>ss_ID := ss_ID r, ss_CreatedAt := ss_CreatedAt r, ss_UpdatedAt := now\<rparr>,
                  d\<lparr>db_settings := update_where same (\<lambda>r. r\<lparr>ss_GitHubRepoID := ss_GitHubRepoID s,
                     ss_BaseBranch := ss_BaseBranch s, ss_EnvironmentID := ss_EnvironmentID s,
                     ss_UpdatedAt := now\<rparr>) (db_settings d)\<rparr>)
            | None \<Rightarrow>
                if exists_where (\<lambda>r. ss_ID r = ss_ID s) (db_settings d) then Inl ErrUniqueViolation
                else (let row = s\<lparr>ss_CreatedAt := now, ss_UpdatedAt := now\<rparr> in
                  Inr (row, d\<lparr>db_settings := db_settings d @ [row]\<rparr>)))))"

definition DeleteScopeSetting :: "uuid \<Rightarrow> uuid option \<Rightarrow> uuid option \<Rightarrow> uuid option \<Rightarrow> db \<Rightarrow> db" where
  "DeleteScopeSetting workspaceID teamID projectID issueID d =
     d\<lparr>db_settings := delete_where (has_scope_key workspaceID teamID projectID issueID) (db_settings d)\<rparr>"

definition ScopeResourceExists :: "uuid \<Rightarrow> string \<Rightarrow> uuid option \<Rightarrow> db \<Rightarrow> bool" where
  "ScopeResourceExists workspaceID scopeType scopeID d =
     (if scopeType = ''workspace'' then scopeID = None
      else (case scopeID of
          None \<Rightarrow> False
        | Some i \<Rightarrow>
          if scopeType = ''team''
          then exists_where (\<lambda>r. ow_ID r = i \<and> ow_WorkspaceID r = workspaceID) (db_teams d)
          else if scopeType = ''project''
          then exists_where (\<lambda>r. ow_ID r = i \<and> ow_WorkspaceID r = workspaceID) (db_projects d)
          else if scopeType = ''issue''
          then exists_where (\<lambda>r. ow_ID r = i \<and> ow_WorkspaceID r = workspaceID) (db_issues d)
          else False))"

section \<open>The context of a machine\<close>

definition GetLinkedRepository :: "uuid \<Rightarrow> uuid \<Rightarrow> db \<Rightarrow> GitHubRepoModel option" where
  "GetLinkedRepository workspaceID repositoryID d =
     find (\<lambda>r. gh_WorkspaceID r = workspaceID \<and> gh_ID r = repositoryID \<and> gh_IsActive r) (db_repos d)"

definition GetLinkedRepositoryByFullName :: "uuid \<Rightarrow> string \<Rightarrow> db \<Rightarrow> GitHubRepoModel option" where
  "GetLinkedRepositoryByFullName workspaceID fullName d =
     find (\<lambda>r. gh_WorkspaceID r = workspaceID \<and> lower (gh_FullName r) = lower fullName \<and> gh_IsActive r)
       (db_repos d)"

definition GetIssueDevelopmentContext :: "uuid \<Rightarrow> uuid \<Rightarrow> db \<Rightarrow> Issue option" where
  "GetIssueDevelopmentContext workspaceID issueID d =
     find (\<lambda>i. ow_WorkspaceID i = workspaceID \<and> ow_ID i = issueID) (db_issues d)"

definition GetProjectDevelopmentContext :: "uuid \<Rightarrow> uuid \<Rightarrow> db \<Rightarrow> Project option" where
  "GetProjectDevelopmentContext workspaceID projectID d =
     find (\<lambda>p. ow_WorkspaceID p = workspaceID \<and> ow_ID p = projectID) (db_projects d)"

section \<open>The GitHub integration of a workspace\<close>

text \<open>
  \<open>GetContext\<close> scans the first row of the result; \<open>sql.ErrNoRows\<close> is \<open>None\<close>.
\<close>

definition GetGitHubInstallationID :: "uuid \<Rightarrow> string \<Rightarrow> db \<Rightarrow> int option" where
  "GetGitHubInstallationID workspaceID fullName d =
     map_option gi_InstallationID (find (\<lambda>gi. gi_WorkspaceID gi = workspaceID
       \<and> exists_where (\<lambda>gr. gh_InstallationID gr = gi_ID gi
            \<and> lower (gh_FullName gr) = lower fullName \<and> gh_IsActive gr) (db_repos d))
       (db_installations d))"

definition GetGitHubAppConfig :: "uuid \<Rightarrow> db \<Rightarrow> GitHubAppConfig option" where
  "GetGitHubAppConfig workspaceID d = find (\<lambda>c. gc_WorkspaceID c = workspaceID) (db_appconfigs d)"

end
