(* ===== verification/Access_Properties.thy ===== *)
theory Access_Properties
  imports Machine_Environments
begin

text \<open>
  Properties of browser access. \<open>access_step\<close> is the step relation of everything that writes tickets
  or sessions; along its steps a ticket that is no longer active and a session that is revoked stay
  so, whence a ticket is used once and a revocation is final. Further: what every grant implies, that
  a desired state other than \<open>running\<close> cuts access off at once, and what closing a terminal
  session leaves behind.
\<close>

section \<open>Steps\<close>

inductive access_step :: "db \<Rightarrow> db \<Rightarrow> bool" where
  ticket: "CreateAccessTicket now t d = Inr (t', d') \<Longrightarrow> access_step d d'"
| consume: "ConsumeAccessTicket now tokenHash host d = (r, d') \<Longrightarrow> access_step d d'"
| session: "CreateAccessSession now s d = Inr (s', d') \<Longrightarrow> access_step d d'"
| seen: "GetAccessSession now tokenHash host d = (s, d') \<Longrightarrow> access_step d d'"
| revoke: "access_step d (RevokeMachineAccess now mid d)"
| close: "RequestTerminalSessionClose now fresh ws mid uid sid operation d = Inr (x, d') \<Longrightarrow> access_step d d'"
| closed: "access_step d (CompleteTerminalSessionClose now sid d)"
| other: "db_tickets d' = db_tickets d \<Longrightarrow> db_sessions d' = db_sessions d \<Longrightarrow> access_step d d'"

text \<open>
  A grant table: rows have a token hash and are open or not. An update that keeps the hash and opens
  no row keeps every closed hash closed.
\<close>

locale grant_update =
  fixes hash :: "'r \<Rightarrow> string" and is_open :: "'r \<Rightarrow> bool" and P :: "'r \<Rightarrow> bool" and f :: "'r \<Rightarrow> 'r"
  assumes hash_kept: "hash (f r) = hash r"
    and opens_none: "P r \<Longrightarrow> is_open (f r) \<Longrightarrow> is_open r"
begin

lemma stays_closed:
  assumes "\<exists>r \<in> set rows. hash r = h" and "\<forall>r \<in> set rows. hash r = h \<longrightarrow> \<not> is_open r"
  shows "(\<exists>r \<in> set (update_where P f rows). hash r = h)
    \<and> (\<forall>r \<in> set (update_where P f rows). hash r = h \<longrightarrow> \<not> is_open r)"
proof
  from assms(1) obtain r where r: "r \<in> set rows" "hash r = h" by blast
  then have "(if P r then f r else r) \<in> set (update_where P f rows)" by (simp add: set_update_where)
  moreover have "hash (if P r then f r else r) = h" using r(2) by (simp add: hash_kept)
  ultimately show "\<exists>r \<in> set (update_where P f rows). hash r = h" by blast
  show "\<forall>r \<in> set (update_where P f rows). hash r = h \<longrightarrow> \<not> is_open r"
    using assms(2) by (auto elim!: in_update_whereE simp: hash_kept dest: opens_none)
qed

end

definition ticket_open :: "DevMachineAccessTicket \<Rightarrow> bool" where
  "ticket_open t \<longleftrightarrow> at_Status t = TicketActive"

definition session_open :: "DevMachineAccessSession \<Rightarrow> bool" where
  "session_open s \<longleftrightarrow> as_RevokedAt s = None"

interpretation consume_up: grant_update at_TokenHash ticket_open P "used_row now"
  by unfold_locales (simp_all add: used_row_def ticket_open_def)

interpretation revoke_up: grant_update at_TokenHash ticket_open P
    "\<lambda>t. t\<lparr>at_Status := TicketRevoked, at_RevokedAt := Some now\<rparr>"
  by unfold_locales (simp_all add: ticket_open_def)

interpretation terminal_up: grant_update at_TokenHash ticket_open P "revoke_terminal_row now"
  by unfold_locales (simp_all add: revoke_terminal_row_def ticket_open_def)

interpretation seen_up: grant_update as_TokenHash session_open P "seen_row now"
  by unfold_locales (simp_all add: seen_row_def session_open_def)

interpretation end_up: grant_update as_TokenHash session_open P "\<lambda>s. s\<lparr>as_RevokedAt := Some now\<rparr>"
  by unfold_locales (simp_all add: session_open_def)

definition closed_ticket :: "string \<Rightarrow> db \<Rightarrow> bool" where
  "closed_ticket h d \<longleftrightarrow> (\<exists>t \<in> set (db_tickets d). at_TokenHash t = h)
     \<and> (\<forall>t \<in> set (db_tickets d). at_TokenHash t = h \<longrightarrow> \<not> ticket_open t)"

definition closed_session :: "string \<Rightarrow> db \<Rightarrow> bool" where
  "closed_session h d \<longleftrightarrow> (\<exists>s \<in> set (db_sessions d). as_TokenHash s = h)
     \<and> (\<forall>s \<in> set (db_sessions d). as_TokenHash s = h \<longrightarrow> \<not> session_open s)"

text \<open>A new row brings a new hash.\<close>

lemma new_hash_stays_closed:
  assumes "(\<exists>r \<in> set rows. hash r = h) \<and> (\<forall>r \<in> set rows. hash r = h \<longrightarrow> \<not> is_open r)"
    and "\<forall>r \<in> set rows. hash r \<noteq> hash n"
  shows "(\<exists>r \<in> set (rows @ [n]). hash r = h) \<and> (\<forall>r \<in> set (rows @ [n]). hash r = h \<longrightarrow> \<not> is_open r)"
proof -
  from assms have "hash n \<noteq> h" by blast
  with assms(1) show ?thesis by simp
qed

lemma CreateAccessTicket_row:
  assumes "CreateAccessTicket now t d = Inr (t', d')"
  shows "\<exists>n. db_tickets d' = db_tickets d @ [n] \<and> (\<forall>r \<in> set (db_tickets d). at_TokenHash r \<noteq> at_TokenHash n)
    \<and> db_sessions d' = db_sessions d"
proof -
  let ?n = "t\<lparr>at_UsedAt := None, at_RevokedAt := None, at_CreatedAt := now\<rparr>"
  from assms have "d' = d\<lparr>db_tickets := db_tickets d @ [?n]\<rparr>"
    "\<not> exists_where (\<lambda>r. at_ID r = at_ID ?n \<or> at_TokenHash r = at_TokenHash ?n) (db_tickets d)"
    unfolding CreateAccessTicket_def Let_def by (simp_all split: if_splits)
  then show ?thesis by (intro exI [of _ ?n]) (simp add: exists_where_iff)
qed

lemma CreateAccessSession_row:
  assumes "CreateAccessSession now s d = Inr (s', d')"
  shows "\<exists>n. db_sessions d' = db_sessions d @ [n] \<and> (\<forall>r \<in> set (db_sessions d). as_TokenHash r \<noteq> as_TokenHash n)
    \<and> db_tickets d' = db_tickets d"
proof -
  let ?n = "s\<lparr>as_CreatedAt := now, as_LastSeenAt := now, as_RevokedAt := None\<rparr>"
  from assms have "d' = d\<lparr>db_sessions := db_sessions d @ [?n]\<rparr>"
    "\<not> exists_where (\<lambda>r. as_ID r = as_ID s \<or> as_TokenHash r = as_TokenHash s) (db_sessions d)"
    unfolding CreateAccessSession_def by (auto split: if_splits)
  then show ?thesis by (intro exI [of _ ?n]) (simp add: exists_where_iff)
qed

lemma RequestTerminalSessionClose_access:
  assumes "RequestTerminalSessionClose now fresh ws mid uid sid operation d = Inr (x, d')"
  shows "db_sessions d' = db_sessions d"
    "db_tickets d' = db_tickets d
     \<or> db_tickets d' = update_where (terminal_ticket sid) (revoke_terminal_row now) (db_tickets d)"
  using assms
  by (auto simp: RequestTerminalSessionClose_def Let_def split: option.splits if_splits)

lemma closed_ticket_step: "access_step d d' \<Longrightarrow> closed_ticket h d \<Longrightarrow> closed_ticket h d'"
proof (induction rule: access_step.induct)
  case (ticket now t d t' d')
  from CreateAccessTicket_row [OF ticket(1)] obtain n where "db_tickets d' = db_tickets d @ [n]"
    "\<forall>r \<in> set (db_tickets d). at_TokenHash r \<noteq> at_TokenHash n" by blast
  note n = this
  show ?case
    unfolding closed_ticket_def n(1)
    by (rule new_hash_stays_closed [OF ticket(2) [unfolded closed_ticket_def] n(2)])
next
  case (consume now tokenHash host d r d')
  then show ?case
    using consume_up.stays_closed [of "db_tickets d" h]
    by (auto simp: ConsumeAccessTicket_def closed_ticket_def)
next
  case (revoke d now mid)
  then show ?case
    using revoke_up.stays_closed [of "db_tickets d" h] by (simp add: RevokeMachineAccess_def closed_ticket_def)
next
  case (close now fresh ws mid uid sid operation d x d')
  from RequestTerminalSessionClose_access(2) [OF close(1)] close(2) show ?case
    using terminal_up.stays_closed [of "db_tickets d" h] by (auto simp: closed_ticket_def)
next
  case (closed d now sid)
  then show ?case
    using terminal_up.stays_closed [of "db_tickets d" h]
    by (simp add: CompleteTerminalSessionClose_def closed_ticket_def)
qed (auto simp: CreateAccessSession_def GetAccessSession_def closed_ticket_def split: if_splits)

lemma closed_session_step: "access_step d d' \<Longrightarrow> closed_session h d \<Longrightarrow> closed_session h d'"
proof (induction rule: access_step.induct)
  case (session now s d s' d')
  from CreateAccessSession_row [OF session(1)] obtain n where "db_sessions d' = db_sessions d @ [n]"
    "\<forall>r \<in> set (db_sessions d). as_TokenHash r \<noteq> as_TokenHash n" by blast
  note n = this
  show ?case
    unfolding closed_session_def n(1)
    by (rule new_hash_stays_closed [OF session(2) [unfolded closed_session_def] n(2)])
next
  case (seen now tokenHash host d s d')
  then show ?case
    using seen_up.stays_closed [of "db_sessions d" h] by (auto simp: GetAccessSession_def closed_session_def)
next
  case (revoke d now mid)
  then show ?case
    using end_up.stays_closed [of "db_sessions d" h] by (simp add: RevokeMachineAccess_def closed_session_def)
next
  case (close now fresh ws mid uid sid operation d x d')
  with RequestTerminalSessionClose_access(1) [OF close(1)] show ?case by (simp add: closed_session_def)
qed (auto simp: CreateAccessTicket_def ConsumeAccessTicket_def CompleteTerminalSessionClose_def
      closed_session_def Let_def split: if_splits)

lemma closed_steps:
  assumes "access_step\<^sup>*\<^sup>* d d'"
  shows "closed_ticket h d \<Longrightarrow> closed_ticket h d'" "closed_session h d \<Longrightarrow> closed_session h d'"
  using assms by (induction rule: rtranclp_induct) (auto dest: closed_ticket_step closed_session_step)

lemma closed_ticket_refused:
  assumes "closed_ticket h d"
  shows "ConsumeAccessTicket later h host d = (None, d)"
proof -
  have "\<forall>t \<in> set (db_tickets d). \<not> consumable later d h host t"
    using assms by (auto simp: closed_ticket_def consumable_def ticket_open_def)
  then show ?thesis by (simp add: ConsumeAccessTicket_def update_where_none iffD2 [OF find_None_all])
qed

lemma closed_session_refused:
  assumes "closed_session h d"
  shows "GetAccessSession later h host d = (None, d)"
proof -
  have "\<forall>s \<in> set (db_sessions d). \<not> live_session later d h host s"
    using assms by (auto simp: closed_session_def live_session_def session_open_def)
  then show ?thesis by (simp add: GetAccessSession_def update_where_none iffD2 [OF find_None_all])
qed

section \<open>Tickets and revocation\<close>

text \<open>
  (C6) A ticket is used once. After \<open>ConsumeAccessTicket\<close> has accepted a token, no sequence of
  operations that create, consume, revoke or close anything makes it accept the token again, for
  any host. Token hashes are unique, as the table's key has it.
\<close>

theorem ticket_is_used_once:
  assumes "distinct (map at_TokenHash (db_tickets d))"
    and "ConsumeAccessTicket now h host d = (Some t, d1)" and "access_step\<^sup>*\<^sup>* d1 d2"
  shows "ConsumeAccessTicket later h host' d2 = (None, d2)"
proof -
  obtain t0 where t0: "t0 \<in> set (db_tickets d)" "consumable now d h host t0"
    using assms(2) by (auto simp: ConsumeAccessTicket_def dest!: find_SomeD)
  have d1: "db_tickets d1 = update_where (consumable now d h host) (used_row now) (db_tickets d)"
    using assms(2) by (auto simp: ConsumeAccessTicket_def)
  have hash: "at_TokenHash t0 = h" using t0(2) by (simp add: consumable_def)
  have "used_row now t0 \<in> set (db_tickets d1)" using t0 by (force simp: d1 set_update_where)
  moreover have "\<not> ticket_open r" if "r \<in> set (db_tickets d1)" "at_TokenHash r = h" for r
    using that(1) unfolding d1
  proof (cases rule: in_update_whereE)
    case (1 s)
    then show ?thesis by (simp add: used_row_def ticket_open_def)
  next
    case 2
    have "r = t0"
      by (rule distinct_key_eq [OF assms(1) 2(1) t0(1)]) (simp only: hash that(2))
    with 2 t0(2) show ?thesis by simp
  qed
  moreover have "at_TokenHash (used_row now t0) = h" by (simp add: used_row_def hash)
  ultimately have "closed_ticket h d1"
    unfolding closed_ticket_def by blast
  then show ?thesis by (rule closed_ticket_refused [OF closed_steps(1) [OF assms(3)]])
qed

definition access_db :: db where
  "access_db = running_db\<lparr>db_services := [service0], db_tickets := [ticket0], db_sessions := [session0],
     db_members := [\<lparr>wm_WorkspaceID = 1, wm_UserID = 7, wm_Role = ''member'', wm_CreatedAt = 0\<rparr>]\<rparr>"

theorem ticket_is_used_once_witness:
  "\<exists>t d1. ConsumeAccessTicket 5 ''t'' ''h'' access_db = (Some t, d1)
     \<and> ConsumeAccessTicket 6 ''t'' ''h'' d1 = (None, d1)"
proof -
  have "distinct (map at_TokenHash (db_tickets access_db))" by code_simp
  moreover have "fst (ConsumeAccessTicket 5 ''t'' ''h'' access_db) \<noteq> None" by code_simp
  then obtain t d1 where "ConsumeAccessTicket 5 ''t'' ''h'' access_db = (Some t, d1)"
    by (cases "ConsumeAccessTicket 5 ''t'' ''h'' access_db") auto
  ultimately show ?thesis using ticket_is_used_once [OF _ _ rtranclp.rtrancl_refl] by blast
qed

text \<open>
  (C7) Revocation is final. After \<open>RevokeMachineAccess\<close>, whatever is created, consumed, revoked or
  closed later, no ticket and no session the machine had at that time opens anything again.
\<close>

theorem revocation_is_final:
  assumes "distinct (map at_TokenHash (db_tickets d))" and "distinct (map as_TokenHash (db_sessions d))"
    and "access_step\<^sup>*\<^sup>* (RevokeMachineAccess now mid d) d2"
  shows "(\<forall>t \<in> set (db_tickets d). at_MachineID t = mid \<longrightarrow>
       ConsumeAccessTicket later (at_TokenHash t) host d2 = (None, d2))
     \<and> (\<forall>s \<in> set (db_sessions d). as_MachineID s = mid \<longrightarrow>
       GetAccessSession later (as_TokenHash s) host d2 = (None, d2))"
proof (intro conjI ballI impI)
  fix t assume t: "t \<in> set (db_tickets d)" "at_MachineID t = mid"
  let ?P = "\<lambda>t. at_MachineID t = mid \<and> at_Status t = TicketActive"
  let ?f = "\<lambda>t. t\<lparr>at_Status := TicketRevoked, at_RevokedAt := Some now\<rparr>"
  have d1: "db_tickets (RevokeMachineAccess now mid d) = update_where ?P ?f (db_tickets d)"
    by (simp add: RevokeMachineAccess_def)
  have "(if ?P t then ?f t else t) \<in> set (update_where ?P ?f (db_tickets d))"
    using t(1) unfolding set_update_where by (rule imageI)
  moreover have "at_TokenHash (if ?P t then ?f t else t) = at_TokenHash t" by simp
  moreover have "\<not> ticket_open r" if "r \<in> set (update_where ?P ?f (db_tickets d))" "at_TokenHash r = at_TokenHash t" for r
    using that(1)
  proof (cases rule: in_update_whereE)
    case (1 s)
    then show ?thesis by (simp add: ticket_open_def)
  next
    case 2
    then have "r = t" using distinct_key_eq [OF assms(1) 2(1) t(1) that(2)] by simp
    with 2 t(2) show ?thesis by (simp add: ticket_open_def)
  qed
  ultimately have "closed_ticket (at_TokenHash t) (RevokeMachineAccess now mid d)"
    unfolding closed_ticket_def d1 by blast
  then show "ConsumeAccessTicket later (at_TokenHash t) host d2 = (None, d2)"
    by (rule closed_ticket_refused [OF closed_steps(1) [OF assms(3)]])
next
  fix s assume s: "s \<in> set (db_sessions d)" "as_MachineID s = mid"
  let ?P = "\<lambda>s. as_MachineID s = mid \<and> as_RevokedAt s = None"
  let ?f = "\<lambda>s. s\<lparr>as_RevokedAt := Some now\<rparr>"
  have d1: "db_sessions (RevokeMachineAccess now mid d) = update_where ?P ?f (db_sessions d)"
    by (simp add: RevokeMachineAccess_def)
  have "(if ?P s then ?f s else s) \<in> set (update_where ?P ?f (db_sessions d))"
    using s(1) unfolding set_update_where by (rule imageI)
  moreover have "as_TokenHash (if ?P s then ?f s else s) = as_TokenHash s" by simp
  moreover have "\<not> session_open r" if "r \<in> set (update_where ?P ?f (db_sessions d))" "as_TokenHash r = as_TokenHash s" for r
    using that(1)
  proof (cases rule: in_update_whereE)
    case (1 u)
    then show ?thesis by (simp add: session_open_def)
  next
    case 2
    then have "r = s" using distinct_key_eq [OF assms(2) 2(1) s(1) that(2)] by simp
    with 2 s(2) show ?thesis by (simp add: session_open_def)
  qed
  ultimately have "closed_session (as_TokenHash s) (RevokeMachineAccess now mid d)"
    unfolding closed_session_def d1 by blast
  then show "GetAccessSession later (as_TokenHash s) host d2 = (None, d2)"
    by (rule closed_session_refused [OF closed_steps(2) [OF assms(3)]])
qed

theorem revocation_is_final_witness:
  "ConsumeAccessTicket 6 (at_TokenHash ticket0) ''h'' (RevokeMachineAccess 5 1 access_db)
     = (None, RevokeMachineAccess 5 1 access_db)"
proof -
  have "distinct (map at_TokenHash (db_tickets access_db))" "distinct (map as_TokenHash (db_sessions access_db))"
    "ticket0 \<in> set (db_tickets access_db)" "at_MachineID ticket0 = 1"
    by code_simp+
  with revocation_is_final [OF _ _ rtranclp.rtrancl_refl] show ?thesis by blast
qed

section \<open>What a grant implies\<close>

text \<open>
  Every grant is deserved. A ticket that \<open>ConsumeAccessTicket\<close> accepts and a session that
  \<open>GetAccessSession\<close> returns is an unexpired row of the table, for the presented token and host,
  of a machine that runs and is to run and has not expired, whose creator the user is, with the
  service running and the user a member of the workspace with a writing role.
\<close>

theorem grants_are_deserved:
  shows "(ConsumeAccessTicket now h host d = (Some t, d1) \<longrightarrow> (\<exists>t0 \<in> set (db_tickets d).
       t = used_row now t0 \<and> at_TokenHash t0 = h \<and> at_BoundHost t0 = host \<and> at_Status t0 = TicketActive
       \<and> now < at_ExpiresAt t0
       \<and> access_open now d (at_WorkspaceID t) (at_MachineID t) (at_ServiceID t) (at_UserID t)))
     \<and> (GetAccessSession now h host d = (Some s, d2) \<longrightarrow> (\<exists>s0 \<in> set (db_sessions d).
       s = seen_row now s0 \<and> as_TokenHash s0 = h \<and> as_BoundHost s0 = host \<and> as_RevokedAt s0 = None
       \<and> now < as_ExpiresAt s0
       \<and> access_open now d (as_WorkspaceID s) (as_MachineID s) (as_ServiceID s) (as_UserID s)))"
  by (auto simp: ConsumeAccessTicket_def GetAccessSession_def consumable_def live_session_def used_row_def
      seen_row_def dest!: find_SomeD)

theorem grants_are_deserved_witness:
  "\<exists>t. fst (ConsumeAccessTicket 5 ''t'' ''h'' access_db) = Some t
     \<and> access_open 5 access_db (at_WorkspaceID t) (at_MachineID t) (at_ServiceID t) (at_UserID t)"
proof -
  have "fst (ConsumeAccessTicket 5 ''t'' ''h'' access_db) \<noteq> None" by code_simp
  then obtain t d1 where *: "ConsumeAccessTicket 5 ''t'' ''h'' access_db = (Some t, d1)"
    by (cases "ConsumeAccessTicket 5 ''t'' ''h'' access_db") auto
  with grants_are_deserved [THEN conjunct1, THEN mp, OF *] show ?thesis by auto
qed

text \<open>
  (C8) Leaving \<open>running\<close> cuts access off at once. As soon as \<open>SetDesiredAndEnqueue\<close> has queued a
  desired status other than \<open>running\<close>, before any operation on the runtime is done, no ticket is
  accepted, no session is valid and no ticket or session is created for the machine.
\<close>

theorem leaving_running_cuts_access:
  assumes "machines_wf d" and "ops_refer d"
    and "op_MachineID operation = mid" and "op_WorkspaceID operation = ws"
    and "GetOperationByIdempotency ws mid (op_IdempotencyKey operation) d = None"
    and "SetDesiredAndEnqueue now fresh ws mid desired operation d = Inr (r, d')"
    and "desired \<noteq> StatusRunning"
  shows "\<not> access_open later d' ws' mid sid uid
     \<and> (\<forall>t. fst (ConsumeAccessTicket later h host d') = Some t \<longrightarrow> at_MachineID t \<noteq> mid)
     \<and> (\<forall>s. fst (GetAccessSession later h host d') = Some s \<longrightarrow> as_MachineID s \<noteq> mid)
     \<and> (at_MachineID ticket = mid \<longrightarrow> CreateAccessTicket later ticket d' = Inl ErrNoRows)
     \<and> (as_MachineID session = mid \<longrightarrow> CreateAccessSession later session d' = Inl ErrNoRows)"
proof -
  obtain m where m: "GetMachine ws mid d' = Some (set_desired now desired (op_Generation operation) m)"
    using set_desired_effect [OF assms(1-6)] by blast
  have "machines_wf d'"
    using SetDesiredAndEnqueue_grows [OF assms(6)] assms(1)
    by (auto simp: generations_grow_def machines_wf_def machine_grows_def list_all2_conv_all_nth
        intro!: nth_equalityI elim!: back_subst [of distinct])
  then have shut: "\<not> access_open later d' ws' mid sid uid" for ws' sid uid
    using m assms(7)
    by (auto simp: access_open_def exists_where_iff open_machine_def is_machine_def GetMachine_Some
        machines_wf_def set_desired_def dest: distinct_key_eq)
  show ?thesis
    using shut
    by (auto simp: ConsumeAccessTicket_def GetAccessSession_def consumable_def live_session_def used_row_def
        seen_row_def CreateAccessTicket_def CreateAccessSession_def grant_open_def dest!: find_SomeD)
qed

theorem leaving_running_cuts_access_witness:
  "\<exists>r d'. SetDesiredAndEnqueue 5 3 1 1 StatusPaused pause_request access_db = Inr (r, d')
     \<and> (\<forall>s. fst (GetAccessSession 6 ''s'' ''h'' d') = Some s \<longrightarrow> as_MachineID s \<noteq> 1)"
proof -
  have "case SetDesiredAndEnqueue 5 3 1 1 StatusPaused pause_request access_db of
      Inl _ \<Rightarrow> False | Inr _ \<Rightarrow> True" by code_simp
  then obtain r d' where *: "SetDesiredAndEnqueue 5 3 1 1 StatusPaused pause_request access_db = Inr (r, d')"
    by (auto split: sum.splits)
  have "machines_wf access_db" "ops_refer access_db" "op_MachineID pause_request = 1"
    "op_WorkspaceID pause_request = 1"
    "GetOperationByIdempotency 1 1 (op_IdempotencyKey pause_request) access_db = None"
    by code_simp+
  from leaving_running_cuts_access [OF this *] * show ?thesis by blast
qed

section \<open>Closing a terminal\<close>

text \<open>
  A terminal's close is arranged. When \<open>RequestTerminalSessionClose\<close> reports a session that is
  closing, an unfinished operation with the request's key is in the queue (a finished one with the
  same key starts again with its attempts reset), and no ticket of the session is active or used.
\<close>

theorem terminal_close_is_arranged:
  assumes "RequestTerminalSessionClose now fresh ws mid uid sid operation d = Inr (Some s, d')"
    and "ts_Status s = ''closing''" and "op_Status operation = OpStatusPending"
  shows "exists_where (\<lambda>r. same_key operation r \<and> op_unfinished (op_Status r)) (db_operations d')
     \<and> \<not> exists_where (terminal_ticket sid) (db_tickets d')"
proof -
  let ?o = "\<lambda>g. close_operation fresh sid g operation"
  have key: "same_key (?o g) = same_key operation" for g
    by (simp add: same_key_def close_operation_def fun_eq_iff)
  have ops: "db_operations d' = update_where (same_key operation) (requeued_row now) (db_operations d)
        \<and> exists_where (same_key operation) (db_operations d)
      \<or> (\<exists>g. db_operations d' = db_operations d @ [close_row now (?o g)])"
    and tickets: "db_tickets d' = update_where (terminal_ticket sid) (revoke_terminal_row now) (db_tickets d)"
    using assms(1,2)
    by (auto simp: RequestTerminalSessionClose_def Let_def key exists_where_iff
        split: option.splits if_splits dest!: find_SomeD)
  have requeued: "same_key operation (requeued_row now r) \<and> op_unfinished (op_Status (requeued_row now r))"
    if "same_key operation r" for r
    using that by (cases "op_Status r") (simp_all add: requeued_row_def op_over_def same_key_def)
  have "exists_where (\<lambda>r. same_key operation r \<and> op_unfinished (op_Status r)) (db_operations d')"
    using ops
  proof
    assume *: "db_operations d' = update_where (same_key operation) (requeued_row now) (db_operations d)
        \<and> exists_where (same_key operation) (db_operations d)"
    then obtain r where r: "r \<in> set (db_operations d)" "same_key operation r"
      by (auto simp: exists_where_iff)
    then have "requeued_row now r \<in> set (db_operations d')"
      using * by (force simp: set_update_where)
    with requeued [OF r(2)] show ?thesis by (auto simp: exists_where_iff)
  next
    assume "\<exists>g. db_operations d' = db_operations d @ [close_row now (?o g)]"
    then show ?thesis
      using assms(3) by (auto simp: exists_where_iff close_row_def close_operation_def same_key_def)
  qed
  moreover have "\<not> exists_where (terminal_ticket sid) (db_tickets d')"
    unfolding tickets
    by (intro exists_where_cleared) (simp_all add: terminal_ticket_def revoke_terminal_row_def)
  ultimately show ?thesis by blast
qed

definition close_request :: DevMachineOperation where
  "close_request = operation0\<lparr>op_ID := 8, op_Action := OpTerminateTerminal, op_IdempotencyKey := ''terminal-close:1''\<rparr>"

theorem terminal_close_is_arranged_witness:
  "\<exists>s d'. RequestTerminalSessionClose 5 3 1 1 7 1 close_request (running_db\<lparr>db_terminals := [terminal0],
       db_tickets := [ticket0\<lparr>at_TerminalSessionID := Some 1\<rparr>]\<rparr>) = Inr (Some s, d')
     \<and> \<not> exists_where (terminal_ticket 1) (db_tickets d')"
proof -
  let ?d = "running_db\<lparr>db_terminals := [terminal0], db_tickets := [ticket0\<lparr>at_TerminalSessionID := Some 1\<rparr>]\<rparr>"
  have "case RequestTerminalSessionClose 5 3 1 1 7 1 close_request ?d of
      Inr (Some s, _) \<Rightarrow> ts_Status s = ''closing'' | _ \<Rightarrow> False" by code_simp
  then obtain s d' where *: "RequestTerminalSessionClose 5 3 1 1 7 1 close_request ?d = Inr (Some s, d')"
    "ts_Status s = ''closing''"
    by (auto split: sum.splits option.splits)
  have "op_Status close_request = OpStatusPending" by code_simp
  from terminal_close_is_arranged [OF * this] * show ?thesis by blast
qed

end
