(* ===== verification/Environment_Properties.thy ===== *)
theory Environment_Properties
  imports Machine_Environments
begin

text \<open>
  Properties of environments and checkouts: a request to delete an environment leaves nothing that
  uses or builds it and is never undone, and the two sweeps of the reconciler leave an unfinished
  environment or checkout only where an operation can still finish it.
\<close>

section \<open>Deleting an environment\<close>

text \<open>The successful outcomes of \<open>RequestEnvironmentDeletion\<close>.\<close>

lemma RequestEnvironmentDeletion_cases:
  assumes "RequestEnvironmentDeletion now ws eid d = Inr d'"
  obtains (repeated) e where "GetEnvironment ws eid d = Some e" "en_Status e = ''delete_requested''" "d' = d"
    | (requested) "\<not> environment_in_use eid d"
      "\<not> exists_where (\<lambda>r. builds eid r \<and> op_Status r = OpStatusLeased \<and> lease_not_over now r) (db_operations d)"
      "d' = d\<lparr>db_operations := update_where (\<lambda>r. builds eid r \<and> (op_Status r = OpStatusPending \<or> lease_expired now r))
             (cancelled_op now ''environment_deletion_requested''
                ''snapshot cancelled because environment deletion was requested'') (db_operations d),
          db_environments := update_where (is_environment ws eid) (delete_requested_row now) (db_environments d)\<rparr>"
proof -
  obtain e where e: "GetEnvironment ws eid d = Some e"
    using assms by (cases "GetEnvironment ws eid d") (simp_all add: RequestEnvironmentDeletion_def)
  show thesis
  proof (cases "en_Status e = ''delete_requested''")
    case True
    with assms e show thesis by (intro repeated) (simp_all add: RequestEnvironmentDeletion_def)
  next
    case False
    have "\<not> environment_in_use eid d"
      "\<not> exists_where (\<lambda>r. builds eid r \<and> op_Status r = OpStatusLeased \<and> lease_not_over now r) (db_operations d)"
      using assms e False unfolding RequestEnvironmentDeletion_def by (simp_all split: if_split_asm)
    with assms e False show thesis
      by (intro requested) (simp_all add: RequestEnvironmentDeletion_def split: if_split_asm)
  qed
qed

lemma cancelled_op_fields [simp]:
  "op_Status (cancelled_op now code msg r) = OpStatusCancelled"
  "op_MachineID (cancelled_op now code msg r) = op_MachineID r"
  "op_Action (cancelled_op now code msg r) = op_Action r"
  "op_EnvironmentID (cancelled_op now code msg r) = op_EnvironmentID r"
  "op_CheckoutID (cancelled_op now code msg r) = op_CheckoutID r"
  "op_Generation (cancelled_op now code msg r) = op_Generation r"
  by (simp_all add: cancelled_op_def)

text \<open>Cancelling operations cannot bring an environment into use.\<close>

lemma in_use_after_cancel:
  assumes "environment_in_use eid (d\<lparr>db_operations := update_where P (cancelled_op now code msg) (db_operations d),
      db_environments := es\<rparr>)"
  shows "environment_in_use eid d"
proof -
  let ?busy = "\<lambda>m ops. exists_where (\<lambda>r. op_MachineID r = m_ID m \<and> op_unfinished (op_Status r)
      \<and> op_Action r \<in> {OpSpawn, OpStart, OpReconcile, OpSnapshotEnvironment}) ops"
  have busy: "?busy m (db_operations d)"
    if "?busy m (update_where P (cancelled_op now code msg) (db_operations d))" for m :: DevMachine
    using that unfolding exists_where_iff by (fastforce elim!: in_update_whereE)
  from assms consider "exists_where (\<lambda>s. ss_EnvironmentID s = Some eid) (db_settings d)"
    | m where "m \<in> set (db_machines d)" "m_EnvironmentID m = Some eid"
        "m_Status m \<noteq> StatusDestroyed \<or> m_DesiredStatus m = StatusRunning
         \<or> ?busy m (update_where P (cancelled_op now code msg) (db_operations d))"
    unfolding environment_in_use_def by (simp add: exists_where_iff) blast
  then show ?thesis
  proof cases
    case 1
    then show ?thesis by (simp add: environment_in_use_def)
  next
    case 2
    with busy [of m] show ?thesis unfolding environment_in_use_def exists_where_iff by blast
  qed
qed

text \<open>
  A requested deletion is honoured. If \<open>RequestEnvironmentDeletion\<close> changes the database, then
  afterwards no setting and no machine that is not destroyed uses the environment, no unfinished
  operation builds it, it is not ready for any machine to start from, and a second request succeeds
  without changing anything.
\<close>

theorem deletion_request_is_honoured:
  assumes wf: "distinct (map en_ID (db_environments d))"
    and run: "RequestEnvironmentDeletion now ws eid d = Inr d'" and changed: "d' \<noteq> d"
  shows "\<not> environment_in_use eid d'
     \<and> \<not> exists_where (\<lambda>r. builds eid r \<and> op_unfinished (op_Status r)) (db_operations d')
     \<and> \<not> environment_ready ws (Some eid) d'
     \<and> RequestEnvironmentDeletion later ws eid d' = Inr d'"
  using run
proof (cases rule: RequestEnvironmentDeletion_cases)
  case (repeated e)
  with changed show ?thesis by simp
next
  case requested
  let ?es = "update_where (is_environment ws eid) (delete_requested_row now) (db_environments d)"
  have "\<not> environment_in_use eid d'"
    using requested(1) in_use_after_cancel unfolding requested(3) by blast
  moreover have "\<not> exists_where (\<lambda>r. builds eid r \<and> op_unfinished (op_Status r)) (db_operations d')"
    unfolding requested(3)
  proof (simp, rule exists_where_cleared)
    fix r assume r: "r \<in> set (db_operations d)"
      "\<not> (builds eid r \<and> (op_Status r = OpStatusPending \<or> lease_expired now r))"
    show "\<not> (builds eid r \<and> op_unfinished (op_Status r))"
    proof
      assume b: "builds eid r \<and> op_unfinished (op_Status r)"
      with r(2) have "op_Status r = OpStatusLeased" "\<not> lease_expired now r"
        by (auto simp: op_unfinished_def)
      then have "lease_not_over now r"
        by (auto simp: lease_expired_def lease_not_over_def split: option.splits)
      with b r(1) requested(2) \<open>op_Status r = OpStatusLeased\<close> show False
        by (auto simp: exists_where_iff)
    qed
  qed simp
  moreover have "\<not> environment_ready ws (Some eid) d'"
    unfolding requested(3) environment_ready_def exists_where_iff
    by (auto simp: is_environment_def delete_requested_row_def elim!: in_update_whereE)
  moreover have "\<exists>e. GetEnvironment ws eid d' = Some e \<and> en_Status e = ''delete_requested''"
  proof -
    obtain e where "GetEnvironment ws eid d = Some e"
      using run by (auto simp: RequestEnvironmentDeletion_def split: option.splits)
    then have e: "e \<in> set (db_environments d)" "is_environment ws eid e"
      by (auto simp: GetEnvironment_def dest: find_SomeD)
    have "keyed_update en_ID (delete_requested_row now)"
      by unfold_locales (simp add: delete_requested_row_def)
    then have "distinct (map en_ID ?es)" using wf by (simp add: keyed_update.distinct_keys)
    moreover have "delete_requested_row now e \<in> set ?es" using e by (force simp: set_update_where)
    ultimately have "find (is_environment ws eid) ?es = Some (delete_requested_row now e)"
      using e(2) by (subst find_Some_unique [where key = en_ID and k = eid])
        (simp_all add: is_environment_def delete_requested_row_def)
    then show ?thesis by (simp add: GetEnvironment_def requested(3) delete_requested_row_def)
  qed
  ultimately show ?thesis by (auto simp: RequestEnvironmentDeletion_def)
qed

theorem deletion_request_is_honoured_witness:
  "\<exists>d'. RequestEnvironmentDeletion 5 1 1 (db0\<lparr>db_environments := [environment0]\<rparr>) = Inr d'
     \<and> \<not> environment_ready 1 (Some 1) d'"
proof -
  let ?d = "db0\<lparr>db_environments := [environment0]\<rparr>"
  have "case RequestEnvironmentDeletion 5 1 1 ?d of
      Inl _ \<Rightarrow> False | Inr d' \<Rightarrow> db_environments d' \<noteq> db_environments ?d" by code_simp
  then obtain d' where *: "RequestEnvironmentDeletion 5 1 1 ?d = Inr d'" "d' \<noteq> ?d"
    by (cases "RequestEnvironmentDeletion 5 1 1 ?d") force+
  have "distinct (map en_ID (db_environments ?d))" by code_simp
  from deletion_request_is_honoured [OF this *] * show ?thesis by blast
qed

section \<open>Deletion is not undone\<close>

text \<open>Everything that writes environments, but for the deletion of the row itself.\<close>

inductive environment_step :: "db \<Rightarrow> db \<Rightarrow> bool" where
  create: "CreateEnvironment now fresh e operation d = Inr (r, d') \<Longrightarrow> environment_step d d'"
| request: "RequestEnvironmentDeletion now ws eid d = Inr d' \<Longrightarrow> environment_step d d'"
| state: "UpdateEnvironmentState now eid status imageRef digest d = Inr d' \<Longrightarrow> environment_step d d'"
| sweep: "ReconcileOrphanedEnvironments now locked limit d = (n, d') \<Longrightarrow> environment_step d d'"
| purge: "environment_step d (delete_machines now P d)"
| other: "db_environments d' = db_environments d \<Longrightarrow> environment_step d d'"

definition deletion_pending :: "uuid \<Rightarrow> db \<Rightarrow> bool" where
  "deletion_pending eid d \<longleftrightarrow> (\<exists>e \<in> set (db_environments d). en_ID e = eid)
     \<and> (\<forall>e \<in> set (db_environments d). en_ID e = eid \<longrightarrow> en_Status e = ''delete_requested'')"

lemma deletion_pending_update:
  assumes "deletion_pending eid d" and "db_environments d' = update_where P f (db_environments d)"
    and "\<And>e. en_ID (f e) = en_ID e"
    and "\<And>e. P e \<Longrightarrow> en_Status e = ''delete_requested'' \<Longrightarrow> en_Status (f e) = ''delete_requested''"
  shows "deletion_pending eid d'"
  unfolding deletion_pending_def assms(2)
proof
  from assms(1) obtain e where e: "e \<in> set (db_environments d)" "en_ID e = eid"
    by (auto simp: deletion_pending_def)
  then have "(if P e then f e else e) \<in> set (update_where P f (db_environments d))"
    by (simp add: set_update_where)
  moreover have "en_ID (if P e then f e else e) = eid" using e(2) assms(3) by simp
  ultimately show "\<exists>e \<in> set (update_where P f (db_environments d)). en_ID e = eid" by blast
  show "\<forall>e \<in> set (update_where P f (db_environments d)). en_ID e = eid \<longrightarrow> en_Status e = ''delete_requested''"
  proof (intro ballI impI)
    fix e assume "e \<in> set (update_where P f (db_environments d))" and eid: "en_ID e = eid"
    then show "en_Status e = ''delete_requested''"
    proof (cases rule: in_update_whereE)
      case (1 r)
      with assms(1,3) eid have "en_Status r = ''delete_requested''" by (simp add: deletion_pending_def)
      with 1 assms(4) show ?thesis by simp
    next
      case 2
      with assms(1) eid show ?thesis by (simp add: deletion_pending_def)
    qed
  qed
qed

lemma reconcile_environment_environments:
  "db_environments (snd (reconcile_environment now i (n, d))) = db_environments d
   \<or> db_environments (snd (reconcile_environment now i (n, d)))
       = update_where (\<lambda>e. en_ID e = i \<and> unfinished_environment e)
           (\<lambda>e. e\<lparr>en_Status := ''failed'', en_UpdatedAt := now\<rparr>) (db_environments d)"
  by (simp add: reconcile_environment_def Let_def)

lemma deletion_pending_sweep_one:
  "deletion_pending eid d \<Longrightarrow> deletion_pending eid (snd (reconcile_environment now i (n, d)))"
  using reconcile_environment_environments [of now i n d]
proof
  assume "deletion_pending eid d"
    and "db_environments (snd (reconcile_environment now i (n, d))) = db_environments d"
  then show ?thesis by (simp add: deletion_pending_def)
next
  assume "deletion_pending eid d"
    and "db_environments (snd (reconcile_environment now i (n, d)))
       = update_where (\<lambda>e. en_ID e = i \<and> unfinished_environment e)
           (\<lambda>e. e\<lparr>en_Status := ''failed'', en_UpdatedAt := now\<rparr>) (db_environments d)"
  then show ?thesis
    by (rule deletion_pending_update) (auto simp: unfinished_environment_def)
qed

lemma deletion_pending_sweep:
  "deletion_pending eid d \<Longrightarrow> deletion_pending eid (snd (fold (reconcile_environment now) is (n, d)))"
proof (induction "is" arbitrary: n d)
  case Nil
  then show ?case by simp
next
  case (Cons i "is")
  obtain n1 d1 where 1: "reconcile_environment now i (n, d) = (n1, d1)" by fastforce
  with deletion_pending_sweep_one [OF Cons.prems, of now i n] have "deletion_pending eid d1" by simp
  from Cons.IH [OF this] show ?case by (simp add: 1)
qed

lemma CreateEnvironment_row:
  assumes "CreateEnvironment now fresh e operation d = Inr (r, d')"
  shows "db_environments d' = db_environments d @ [new_environment_row now e]
     \<and> (\<forall>s \<in> set (db_environments d). en_ID s \<noteq> en_ID e)"
  using assms
  by (auto simp: CreateEnvironment_def exists_where_iff split: option.splits if_splits
      dest!: enqueueOperation_frame)

lemma deletion_pending_step: "environment_step d d' \<Longrightarrow> deletion_pending eid d \<Longrightarrow> deletion_pending eid d'"
proof (induction rule: environment_step.induct)
  case (create now fresh e operation d r d')
  note new = CreateEnvironment_row [OF create(1)]
  from create(2) new have "en_ID (new_environment_row now e) \<noteq> eid"
    by (auto simp: deletion_pending_def new_environment_row_def)
  with create(2) new show ?case by (auto simp: deletion_pending_def)
next
  case (request now ws i d d')
  from request(1) show ?case
  proof (cases rule: RequestEnvironmentDeletion_cases)
    case (repeated e)
    with request(2) show ?thesis by simp
  next
    case requested
    then have "db_environments d' = update_where (is_environment ws i) (delete_requested_row now) (db_environments d)"
      by simp
    with request(2) show ?thesis
      by (rule deletion_pending_update) (simp_all add: delete_requested_row_def)
  qed
next
  case (state now i status imageRef digest d d')
  then have "db_environments d' = update_where (\<lambda>e. en_ID e = i \<and> en_Status e \<noteq> ''delete_requested'')
      (environment_state_row now status imageRef digest) (db_environments d)"
    by (auto simp: UpdateEnvironmentState_def Let_def simp del: One_nat_def split: if_split_asm)
  with state(2) show ?case
    by (rule deletion_pending_update) (simp_all add: environment_state_row_def)
next
  case (sweep now locked limit d n d')
  then show ?case
    using deletion_pending_sweep [OF sweep(2)] by (metis ReconcileOrphanedEnvironments_def snd_conv)
next
  case (purge d now P)
  have "\<exists>Q. db_environments (delete_machines now P d) = update_where Q
      (\<lambda>e. e\<lparr>en_SourceMachineID := None, en_UpdatedAt := now\<rparr>) (db_environments d)"
    by (auto simp: delete_machines_def Let_def)
  then show ?case using deletion_pending_update [OF purge] by auto
next
  case (other d' d)
  then show ?case by (simp add: deletion_pending_def)
qed

text \<open>
  (C9) A requested deletion is not undone. As long as the row is not deleted, no operation brings an
  environment back from \<open>delete_requested\<close>: not the result of a snapshot that was still running
  (\<open>UpdateEnvironmentState\<close>), not the sweep over orphans, not another request.
\<close>

theorem requested_deletion_stays:
  assumes "environment_step\<^sup>*\<^sup>* d d'" and "deletion_pending eid d"
  shows "deletion_pending eid d'"
  using assms by (induction rule: rtranclp_induct) (auto dest: deletion_pending_step)

theorem requested_deletion_stays_witness:
  "deletion_pending 1 (snd (ReconcileOrphanedEnvironments 9 (\<lambda>_. False) 5
     (db0\<lparr>db_environments := [environment0\<lparr>en_Status := ''delete_requested''\<rparr>,
        environment0\<lparr>en_ID := 2, en_Name := ''b'', en_Status := ''building''\<rparr>]\<rparr>)))"
proof -
  let ?d = "db0\<lparr>db_environments := [environment0\<lparr>en_Status := ''delete_requested''\<rparr>,
        environment0\<lparr>en_ID := 2, en_Name := ''b'', en_Status := ''building''\<rparr>]\<rparr>"
  have step: "environment_step ?d (snd (ReconcileOrphanedEnvironments 9 (\<lambda>_. False) 5 ?d))"
    by (rule environment_step.sweep [of 9 "\<lambda>_. False" 5 _ "fst (ReconcileOrphanedEnvironments 9 (\<lambda>_. False) 5 ?d)"]) simp
  have "deletion_pending 1 ?d" by code_simp
  from requested_deletion_stays [OF r_into_rtranclp [of environment_step, OF step] this] show ?thesis .
qed

section \<open>Sweeps\<close>

text \<open>
  What a sweep of the reconciler does to one row (\<open>act\<close>), for rows that are unfinished and may be
  viable: an unfinished row that is not viable is finished and its operations are settled; the other
  rows are left alone, and so is their viability.
\<close>

locale orphan_sweep =
  fixes act :: "uuid \<Rightarrow> nat \<times> db \<Rightarrow> nat \<times> db" and unfinished viable settled :: "uuid \<Rightarrow> db \<Rightarrow> bool"
  assumes acts: "unfinished i (snd (act i s)) \<Longrightarrow> viable i (snd (act i s))"
    and settles: "\<not> viable i (snd s) \<Longrightarrow> settled i (snd (act i s))"
    and leaves: "i \<noteq> j \<Longrightarrow> unfinished j (snd (act i s)) \<longleftrightarrow> unfinished j (snd s)"
      "i \<noteq> j \<Longrightarrow> viable j (snd (act i s)) \<longleftrightarrow> viable j (snd s)"
      "i \<noteq> j \<Longrightarrow> settled j (snd (act i s)) \<longleftrightarrow> settled j (snd s)"
    and keeps: "viable i (snd s) \<Longrightarrow> act i s = s"
begin

lemma not_swept:
  assumes "i \<notin> set is"
  shows "unfinished i (snd (fold act is s)) \<longleftrightarrow> unfinished i (snd s)"
    "viable i (snd (fold act is s)) \<longleftrightarrow> viable i (snd s)"
    "settled i (snd (fold act is s)) \<longleftrightarrow> settled i (snd s)"
  using assms by (induction "is" arbitrary: s) (auto simp: leaves)

lemma swept:
  assumes "distinct is" and "i \<in> set is"
  shows "(unfinished i (snd (fold act is s)) \<longrightarrow> viable i (snd (fold act is s)))
    \<and> (\<not> viable i (snd s) \<longrightarrow> settled i (snd (fold act is s)))
    \<and> (viable i (snd s) \<longrightarrow> (unfinished i (snd (fold act is s)) \<longleftrightarrow> unfinished i (snd s)))"
  using assms
proof (induction "is" arbitrary: s)
  case Nil
  then show ?case by simp
next
  case (Cons k ks)
  show ?case
  proof (cases "k = i")
    case True
    with Cons.prems have "i \<notin> set ks" by simp
    from not_swept [OF this, of "act i s"] show ?thesis
      using acts [of i s] settles [of i s] keeps [of i s] True by auto
  next
    case False
    with Cons.prems Cons.IH [of "act k s"] show ?thesis by (simp add: leaves)
  qed
qed

end

definition unfinished_env :: "uuid \<Rightarrow> db \<Rightarrow> bool" where
  "unfinished_env i d \<longleftrightarrow> exists_where (\<lambda>e. en_ID e = i \<and> unfinished_environment e) (db_environments d)"

definition unfinished_co :: "uuid \<Rightarrow> db \<Rightarrow> bool" where
  "unfinished_co i d \<longleftrightarrow> exists_where (\<lambda>c. co_ID c = i \<and> unfinished_checkout c) (db_checkouts d)"

text \<open>No operation for the row is left that has not been leased or is past its lease.\<close>

definition env_settled :: "time \<Rightarrow> uuid \<Rightarrow> db \<Rightarrow> bool" where
  "env_settled now i d \<longleftrightarrow> \<not> exists_where (\<lambda>r. builds i r \<and> no_longer_runnable now r) (db_operations d)"

definition co_settled :: "time \<Rightarrow> uuid \<Rightarrow> db \<Rightarrow> bool" where
  "co_settled now i d \<longleftrightarrow> \<not> exists_where (\<lambda>r. prepares i r \<and> no_longer_runnable now r) (db_operations d)"

lemma cancelled_not_runnable [simp]: "\<not> no_longer_runnable now (cancelled_op now' code msg r)"
  by (simp add: no_longer_runnable_def)

lemma viable_op_machines [simp]:
  "viable_op now fit (d\<lparr>db_operations := ops, db_environments := es\<rparr>) r = viable_op now fit d r"
  "viable_op now fit (d\<lparr>db_operations := ops, db_checkouts := cs\<rparr>) r = viable_op now fit d r"
  by (simp_all add: viable_op_def)

interpretation env_sweep: orphan_sweep "reconcile_environment now" unfinished_env "environment_viable now" "env_settled now"
proof (unfold_locales, goal_cases)
  case (1 i s)
  show ?case
  proof (cases "environment_viable now i (snd s)")
    case True
    then show ?thesis by (simp add: reconcile_environment_def split_beta)
  next
    case False
    then have "\<not> unfinished_env i (snd (reconcile_environment now i s))"
      by (simp add: reconcile_environment_def unfinished_env_def Let_def split_beta)
        (rule exists_where_cleared; simp add: unfinished_environment_def)
    with 1 show ?thesis by simp
  qed
next
  case (2 i s)
  then show ?case
    by (simp add: reconcile_environment_def env_settled_def Let_def split_beta)
      (rule exists_where_cleared; simp)
next
  case (3 i j s)
  then show ?case
    by (simp add: reconcile_environment_def unfinished_env_def Let_def split_beta)
      (intro impI exists_where_update_same; auto)
next
  case (4 i j s)
  then show ?case
    by (simp add: reconcile_environment_def environment_viable_def Let_def split_beta)
      (intro impI exists_where_update_same; auto simp: builds_def)
next
  case (5 i j s)
  then show ?case
    by (simp add: reconcile_environment_def env_settled_def Let_def split_beta)
      (intro impI exists_where_update_same; auto simp: builds_def)
next
  case (6 i s)
  then show ?case by (simp add: reconcile_environment_def split_beta)
qed

interpretation co_sweep: orphan_sweep "reconcile_checkout now" unfinished_co "checkout_viable now" "co_settled now"
proof (unfold_locales, goal_cases)
  case (1 i s)
  show ?case
  proof (cases "checkout_viable now i (snd s)")
    case True
    then show ?thesis by (simp add: reconcile_checkout_def split_beta)
  next
    case False
    then have "\<not> unfinished_co i (snd (reconcile_checkout now i s))"
      by (simp add: reconcile_checkout_def unfinished_co_def Let_def split_beta)
        (rule exists_where_cleared; simp add: unfinished_checkout_def)
    with 1 show ?thesis by simp
  qed
next
  case (2 i s)
  then show ?case
    by (simp add: reconcile_checkout_def co_settled_def Let_def split_beta)
      (rule exists_where_cleared; simp)
next
  case (3 i j s)
  then show ?case
    by (simp add: reconcile_checkout_def unfinished_co_def Let_def split_beta)
      (intro impI exists_where_update_same; auto)
next
  case (4 i j s)
  then show ?case
    by (simp add: reconcile_checkout_def checkout_viable_def Let_def split_beta)
      (intro impI exists_where_update_same; auto simp: prepares_def)
next
  case (5 i j s)
  then show ?case
    by (simp add: reconcile_checkout_def co_settled_def Let_def split_beta)
      (intro impI exists_where_update_same; auto simp: prepares_def)
next
  case (6 i s)
  then show ?case by (simp add: reconcile_checkout_def split_beta)
qed

text \<open>
  The sweeps leave no orphan. Of the environments a run of \<open>ReconcileOrphanedEnvironments\<close>
  selects, one that is still pending or building afterwards has an operation that can finish it;
  one that had none is no longer pending or building, and its operations that were waiting or past
  their lease are cancelled; a viable one is left alone; and an environment that is not selected
  keeps its state. \<open>ReconcileOrphanedCheckouts\<close> does the same for checkouts.
\<close>

theorem sweeps_leave_no_orphan:
  shows "(let ids = unfinished_environment_ids locked (sweep_limit limit) d;
         d' = snd (ReconcileOrphanedEnvironments now locked limit d) in
       distinct (map en_ID (db_environments d)) \<longrightarrow>
       (\<forall>i \<in> set ids. (unfinished_env i d' \<longrightarrow> environment_viable now i d')
          \<and> (\<not> environment_viable now i d \<longrightarrow> env_settled now i d')
          \<and> (environment_viable now i d \<longrightarrow> unfinished_env i d' = unfinished_env i d))
     \<and> (\<forall>i. i \<notin> set ids \<longrightarrow> unfinished_env i d' = unfinished_env i d))
   \<and> (let ids = unfinished_checkout_ids locked (sweep_limit limit) d;
         d' = snd (ReconcileOrphanedCheckouts now locked limit d) in
       distinct (map co_ID (db_checkouts d)) \<longrightarrow>
       (\<forall>i \<in> set ids. (unfinished_co i d' \<longrightarrow> checkout_viable now i d')
          \<and> (\<not> checkout_viable now i d \<longrightarrow> co_settled now i d')
          \<and> (checkout_viable now i d \<longrightarrow> unfinished_co i d' = unfinished_co i d))
     \<and> (\<forall>i. i \<notin> set ids \<longrightarrow> unfinished_co i d' = unfinished_co i d))"
proof -
  have sel: "distinct (map key (take n (sort_key key' (filter P rows))))"
    if "distinct (map key rows)" for key :: "'r \<Rightarrow> uuid" and key' :: "'r \<Rightarrow> int \<times> uuid" and n P rows
  proof -
    have "distinct rows" "inj_on key (set rows)" using that by (simp_all add: distinct_map)
    then have "distinct (map key (sort_key key' (filter P rows)))"
      by (auto simp: distinct_map intro: inj_on_subset)
    then show ?thesis by (simp add: distinct_take flip: take_map)
  qed
  have env: "distinct (map en_ID (db_environments d))
      \<Longrightarrow> distinct (unfinished_environment_ids locked (sweep_limit limit) d)"
    unfolding unfinished_environment_ids_def by (rule sel)
  have co: "distinct (map co_ID (db_checkouts d))
      \<Longrightarrow> distinct (unfinished_checkout_ids locked (sweep_limit limit) d)"
    unfolding unfinished_checkout_ids_def by (rule sel)
  show ?thesis
    unfolding Let_def ReconcileOrphanedEnvironments_def ReconcileOrphanedCheckouts_def
    using env_sweep.swept [OF env, where s = "(0, d)"] env_sweep.not_swept(1) [where s = "(0, d)"]
      co_sweep.swept [OF co, where s = "(0, d)"] co_sweep.not_swept(1) [where s = "(0, d)"]
    by simp
qed

theorem sweeps_leave_no_orphan_witness:
  "env_settled 9 1 (snd (ReconcileOrphanedEnvironments 9 (\<lambda>_. False) 5
     (running_db\<lparr>db_environments := [environment0\<lparr>en_Status := ''building''\<rparr>],
        db_operations := [operation0\<lparr>op_Action := OpSnapshotEnvironment, op_EnvironmentID := Some 1\<rparr>]\<rparr>)))"
proof -
  let ?d = "running_db\<lparr>db_environments := [environment0\<lparr>en_Status := ''building''\<rparr>],
        db_operations := [operation0\<lparr>op_Action := OpSnapshotEnvironment, op_EnvironmentID := Some 1\<rparr>]\<rparr>"
  have "distinct (map en_ID (db_environments ?d))" "\<not> environment_viable 9 1 ?d"
    "1 \<in> set (unfinished_environment_ids (\<lambda>_. False) (sweep_limit 5) ?d)"
    by code_simp+
  with sweeps_leave_no_orphan [of "\<lambda>_. False" 5 ?d 9] show ?thesis unfolding Let_def by blast
qed

end
