(* ===== verification/Go_Text.thy ===== *)
theory Go_Text
  imports Kuayle_Prelude
begin

text \<open>
  What the modelled code uses of Go's \<open>strings\<close>, \<open>unicode/utf8\<close>, \<open>encoding/json\<close>, \<open>strconv\<close> and
  \<open>uuid\<close>. A Go string is a sequence of bytes: a \<open>string\<close> whose characters are bytes. \<open>runes\<close> splits
  it as \<open>range\<close> and \<open>utf8.DecodeRune\<close> do: a byte that starts no valid encoding is a rune
  \<open>0xFFFD\<close> of one byte. The tables of package \<open>unicode\<close> are an argument where they are used.
\<close>

section \<open>Bytes and runes\<close>

abbreviation byte :: "char \<Rightarrow> nat" where
  "byte c \<equiv> of_char c"

definition within :: "nat \<Rightarrow> nat \<Rightarrow> char \<Rightarrow> bool" where
  "within lo hi c \<longleftrightarrow> lo \<le> byte c \<and> byte c \<le> hi"

definition cont :: "char \<Rightarrow> bool" where
  "cont c \<longleftrightarrow> within 128 191 c"

definition low6 :: "char \<Rightarrow> nat" where
  "low6 c = byte c mod 64"

text \<open>\<open>utf8.DecodeRuneInString\<close>: the rune and its size; \<open>(0xFFFD, 1)\<close> for an invalid encoding.\<close>

definition decode_two :: "char \<Rightarrow> string \<Rightarrow> (nat \<times> nat) option" where
  "decode_two c0 cs = (case cs of
     c1 # _ \<Rightarrow> if within 194 223 c0 \<and> cont c1 then Some (byte c0 mod 32 * 64 + low6 c1, 2) else None
   | _ \<Rightarrow> None)"

definition decode_three :: "char \<Rightarrow> string \<Rightarrow> (nat \<times> nat) option" where
  "decode_three c0 cs = (case cs of
     c1 # c2 # _ \<Rightarrow>
       if within 224 239 c0 \<and> cont c1 \<and> cont c2
          \<and> (byte c0 = 224 \<longrightarrow> 160 \<le> byte c1) \<and> (byte c0 = 237 \<longrightarrow> byte c1 \<le> 159)
       then Some ((byte c0 mod 16 * 64 + low6 c1) * 64 + low6 c2, 3) else None
   | _ \<Rightarrow> None)"

definition decode_four :: "char \<Rightarrow> string \<Rightarrow> (nat \<times> nat) option" where
  "decode_four c0 cs = (case cs of
     c1 # c2 # c3 # _ \<Rightarrow>
       if within 240 244 c0 \<and> cont c1 \<and> cont c2 \<and> cont c3
          \<and> (byte c0 = 240 \<longrightarrow> 144 \<le> byte c1) \<and> (byte c0 = 244 \<longrightarrow> byte c1 \<le> 143)
       then Some (((byte c0 mod 8 * 64 + low6 c1) * 64 + low6 c2) * 64 + low6 c3, 4) else None
   | _ \<Rightarrow> None)"

definition decode_rune :: "char \<Rightarrow> string \<Rightarrow> nat \<times> nat" where
  "decode_rune c0 cs =
     (if byte c0 < 128 then (byte c0, 1)
      else case decode_two c0 cs of Some r \<Rightarrow> r | None \<Rightarrow>
           (case decode_three c0 cs of Some r \<Rightarrow> r | None \<Rightarrow>
           (case decode_four c0 cs of Some r \<Rightarrow> r | None \<Rightarrow> (65533, 1))))"

text \<open>The runes of a string with the bytes they come from.\<close>

fun runes :: "string \<Rightarrow> (nat \<times> string) list" where
  "runes [] = []"
| "runes (c # cs) = (let (r, n) = decode_rune c cs in
     (r, c # take (n - 1) cs) # runes (drop (n - 1) cs))"

definition broken :: "nat \<times> string \<Rightarrow> bool" where
  "broken p \<longleftrightarrow> (case snd p of [c] \<Rightarrow> 128 \<le> byte c | _ \<Rightarrow> False)"

definition valid_utf8 :: "string \<Rightarrow> bool" where
  "valid_utf8 s \<longleftrightarrow> \<not> list_ex broken (runes s)"

definition encode_rune :: "nat \<Rightarrow> string" where
  "encode_rune r =
     (if r < 128 then [char_of r]
      else if r < 2048 then [char_of (192 + r div 64), char_of (128 + r mod 64)]
      else if 1114111 < r \<or> 55296 \<le> r \<and> r \<le> 57343 then map char_of [239 :: nat, 191, 189]
      else if r < 65536
      then [char_of (224 + r div 4096), char_of (128 + r div 64 mod 64), char_of (128 + r mod 64)]
      else [char_of (240 + r div 262144), char_of (128 + r div 4096 mod 64),
            char_of (128 + r div 64 mod 64), char_of (128 + r mod 64)])"

lemma runes_bytes: "concat (map snd (runes s)) = s"
proof (induction s rule: runes.induct)
  case (2 c cs)
  then show ?case by (cases "decode_rune c cs") simp
qed simp

section \<open>Package strings\<close>

definition HasPrefix :: "string \<Rightarrow> string \<Rightarrow> bool" where
  "HasPrefix s p \<longleftrightarrow> take (length p) s = p"

text \<open>\<open>strings.ReplaceAll\<close> for a non-empty \<open>old\<close>; \<open>skip\<close> counts the bytes of a match still to drop.\<close>

fun replace_skipping :: "string \<Rightarrow> string \<Rightarrow> nat \<Rightarrow> string \<Rightarrow> string" where
  "replace_skipping old new skip [] = []"
| "replace_skipping old new (Suc k) (c # cs) = replace_skipping old new k cs"
| "replace_skipping old new 0 (c # cs) =
     (if HasPrefix (c # cs) old then new @ replace_skipping old new (length old - 1) cs
      else c # replace_skipping old new 0 cs)"

definition ReplaceAll :: "string \<Rightarrow> string \<Rightarrow> string \<Rightarrow> string" where
  "ReplaceAll s old new = replace_skipping old new 0 s"

text \<open>\<open>strings.IndexByte\<close>, with \<open>None\<close> for \<open>-1\<close>.\<close>

fun IndexByte :: "string \<Rightarrow> char \<Rightarrow> nat option" where
  "IndexByte [] c = None"
| "IndexByte (x # xs) c = (if x = c then Some 0 else map_option Suc (IndexByte xs c))"

text \<open>\<open>strings.SplitN(s, sep, 2)\<close> and \<open>strings.Split\<close> for a separator of one byte.\<close>

definition SplitN2 :: "string \<Rightarrow> char \<Rightarrow> string list" where
  "SplitN2 s c = (case IndexByte s c of None \<Rightarrow> [s] | Some i \<Rightarrow> [take i s, drop (Suc i) s])"

fun Split :: "string \<Rightarrow> char \<Rightarrow> string list" where
  "Split [] c = [[]]"
| "Split (x # xs) c = (case Split xs c of
     [] \<Rightarrow> [[x]]
   | p # ps \<Rightarrow> if x = c then [] # p # ps else (x # p) # ps)"

text \<open>\<open>unicode.IsSpace\<close> and \<open>strings.TrimSpace\<close>.\<close>

definition is_space :: "nat \<Rightarrow> bool" where
  "is_space r \<longleftrightarrow> 9 \<le> r \<and> r \<le> 13 \<or> 8192 \<le> r \<and> r \<le> 8202
     \<or> r \<in> {32, 133, 160, 5760, 8232, 8233, 8239, 8287, 12288}"

definition TrimSpace :: "string \<Rightarrow> string" where
  "TrimSpace s = concat (map snd (rev (dropWhile (is_space \<circ> fst)
     (rev (dropWhile (is_space \<circ> fst) (runes s))))))"

text \<open>\<open>strings.ToLower\<close>: bytes for ASCII text, else rune by rune with \<open>unicode.ToLower\<close>.\<close>

definition ascii_lower :: "char \<Rightarrow> char" where
  "ascii_lower c = (if within 65 90 c then char_of (byte c + 32) else c)"

definition ToLower :: "(nat \<Rightarrow> nat) \<Rightarrow> string \<Rightarrow> string" where
  "ToLower unicode_lower s =
     (if list_all (\<lambda>c. byte c < 128) s then map ascii_lower s
      else concat (map (\<lambda>(r, _). encode_rune (unicode_lower r)) (runes s)))"

section \<open>Hexadecimal and identifiers\<close>

definition hex_digit :: "nat \<Rightarrow> char" where
  "hex_digit n = (if n < 10 then char_of (48 + n) else char_of (87 + n))"

fun hex_digits :: "nat \<Rightarrow> nat \<Rightarrow> string" where
  "hex_digits 0 n = []"
| "hex_digits (Suc k) n = hex_digits k (n div 16) @ [hex_digit (n mod 16)]"

text \<open>\<open>hex.EncodeToString\<close> and \<open>uuid.UUID.String\<close>.\<close>

definition EncodeToString :: "string \<Rightarrow> string" where
  "EncodeToString s = concat (map (\<lambda>c. hex_digits 2 (byte c)) s)"

definition uuid_String :: "uuid \<Rightarrow> string" where
  "uuid_String u = (let h = hex_digits 32 u in
     take 8 h @ ''-'' @ take 4 (drop 8 h) @ ''-'' @ take 4 (drop 12 h) @ ''-''
     @ take 4 (drop 16 h) @ ''-'' @ drop 20 h)"

section \<open>Package encoding/json\<close>

datatype json =
    JNull
  | JBool bool
  | JInt int
  | JNumber string
  | JString string
  | JArray "json list"
  | JObject "(string \<times> json) list"

text \<open>
  \<open>JNumber\<close> is a number by its text. \<open>json.Marshal\<close> writes a string with HTML escaping. A
  map is written with its keys sorted and a struct in field order, so a \<open>JObject\<close> lists its members
  in the order they are written; a nil map or slice is \<open>JNull\<close>.
\<close>

definition bs :: "string \<Rightarrow> string" where
  "bs s = CHR 0x5C # s"

definition escape_rune :: "nat \<times> string \<Rightarrow> string" where
  "escape_rune p = (let r = fst p in
     if broken p then bs ''ufffd''
     else if r = 34 then [CHR 0x5C, CHR 0x22]
     else if r = 92 then [CHR 0x5C, CHR 0x5C]
     else if r = 8 then bs ''b''
     else if r = 12 then bs ''f''
     else if r = 10 then bs ''n''
     else if r = 13 then bs ''r''
     else if r = 9 then bs ''t''
     else if r < 32 \<or> r = 38 \<or> r = 60 \<or> r = 62 then bs ''u00'' @ hex_digits 2 r
     else if r = 8232 \<or> r = 8233 then bs ''u'' @ hex_digits 4 r
     else snd p)"

definition quote :: "string \<Rightarrow> string" where
  "quote s = [CHR 0x22] @ concat (map escape_rune (runes s)) @ [CHR 0x22]"

fun commas :: "string list \<Rightarrow> string" where
  "commas [] = []"
| "commas [x] = x"
| "commas (x # y # ys) = x @ '','' @ commas (y # ys)"

fun Marshal :: "json \<Rightarrow> string" where
  "Marshal JNull = ''null''"
| "Marshal (JBool b) = (if b then ''true'' else ''false'')"
| "Marshal (JInt i) = int_decimal i"
| "Marshal (JNumber s) = s"
| "Marshal (JString s) = quote s"
| "Marshal (JArray xs) = ''['' @ commas (map Marshal xs) @ '']''"
| "Marshal (JObject ms) = ''{'' @ commas (map (\<lambda>(k, v). quote k @ '':'' @ Marshal v) ms) @ ''}''"

section \<open>Package strconv\<close>

definition is_digit :: "char \<Rightarrow> bool" where
  "is_digit c \<longleftrightarrow> within 48 57 c"

text \<open>\<open>strconv.Atoi\<close>: an optional sign and decimal digits within 64 bits.\<close>

definition Atoi :: "string \<Rightarrow> int option" where
  "Atoi s = (let (sign, ds) = (case s of
       c # cs \<Rightarrow> if c = CHR ''-'' then (-1, cs) else if c = CHR ''+'' then (1, cs) else (1, s)
     | [] \<Rightarrow> (1, []));
     v = sign * int (decimal_value ds) in
     if ds = [] \<or> \<not> list_all is_digit ds \<or> v < - (2 ^ 63) \<or> 2 ^ 63 \<le> v then None else Some v)"

end
