(* ===== verification/Go_Json.thy ===== *)
theory Go_Json
  imports Go_Text
begin

text \<open>
  The decoder of Go's \<open>encoding/json\<close>, as far as the modelled code uses it: \<open>json.Valid\<close>,
  \<open>json.Unmarshal\<close> into \<open>[]string\<close> and into a struct of two booleans. A document is scanned as a
  whole before anything is decoded; \<open>decode\<close> does both. It returns \<open>None\<close> for a document that is not
  valid JSON or nests deeper than 10000. A number keeps its text (\<open>JNumber\<close>).

  The parsers return what they read and the rest of the input. Each step of them but the first
  follows at least one character read, and no two calls of \<open>parse_value\<close> follow each other without
  one, so a recursion depth of twice the length of the input is enough.
\<close>

section \<open>Strings\<close>

definition hex_value :: "char \<Rightarrow> nat option" where
  "hex_value c =
     (if within 48 57 c then Some (byte c - 48)
      else if within 97 102 c then Some (byte c - 87)
      else if within 65 70 c then Some (byte c - 55) else None)"

definition hex4 :: "string \<Rightarrow> nat option" where
  "hex4 s = (case map hex_value (take 4 s) of
     [Some a, Some b, Some c, Some d] \<Rightarrow> Some (((a * 16 + b) * 16 + c) * 16 + d)
   | _ \<Rightarrow> None)"

text \<open>The rune of a \<open>\\u\<close> escape followed by \<open>s\<close>, and how many characters of \<open>s\<close> it takes besides.\<close>

definition surrogate_pair :: "nat \<Rightarrow> string \<Rightarrow> nat \<times> nat" where
  "surrogate_pair r s =
     (if 55296 \<le> r \<and> r < 56320 \<and> take 2 s = bs ''u''
      then (case hex4 (drop 2 s) of
          Some r2 \<Rightarrow> if 56320 \<le> r2 \<and> r2 < 57344
            then ((r - 55296) * 1024 + (r2 - 56320) + 65536, 6) else (65533, 0)
        | None \<Rightarrow> (65533, 0))
      else if 55296 \<le> r \<and> r < 57344 then (65533, 0) else (r, 0))"

definition simple_escape :: "char \<Rightarrow> char option" where
  "simple_escape e = (let b = byte e in
     if b = 34 \<or> b = 92 \<or> b = 47 then Some e
     else if b = 98 then Some (char_of (8 :: nat))
     else if b = 102 then Some (char_of (12 :: nat))
     else if b = 110 then Some (char_of (10 :: nat))
     else if b = 114 then Some (char_of (13 :: nat))
     else if b = 116 then Some (char_of (9 :: nat)) else None)"

text \<open>The text of a string literal after its opening quote.\<close>

function unquote :: "string \<Rightarrow> (string \<times> string) option" where
  "unquote [] = None"
| "unquote (c # cs) =
     (if byte c = 34 then Some ([], cs)
      else if byte c = 92 then
        (case cs of
           [] \<Rightarrow> None
         | e # es \<Rightarrow>
           if byte e = 117 then
             (case hex4 es of
                None \<Rightarrow> None
              | Some r \<Rightarrow>
                map_option (apfst (append (encode_rune (fst (surrogate_pair r (drop 4 es))))))
                  (unquote (drop (4 + snd (surrogate_pair r (drop 4 es))) es)))
           else (case simple_escape e of
                None \<Rightarrow> None
              | Some x \<Rightarrow> map_option (apfst (Cons x)) (unquote es)))
      else if byte c < 32 then None
      else map_option (apfst (append (encode_rune (fst (decode_rune c cs)))))
        (unquote (drop (snd (decode_rune c cs) - 1) cs)))"
  by pat_completeness auto
termination by (relation "measure length") auto

section \<open>Values\<close>

definition json_space :: "char \<Rightarrow> bool" where
  "json_space c \<longleftrightarrow> byte c \<in> {9, 10, 13, 32}"

definition spaces :: "string \<Rightarrow> string" where
  "spaces s = dropWhile json_space s"

text \<open>The rest of the input after a number, its fraction and its exponent.\<close>

definition after_digits :: "string \<Rightarrow> string option" where
  "after_digits s = (case s of
     [] \<Rightarrow> None
   | c # cs \<Rightarrow> if is_digit c then Some (dropWhile is_digit cs) else None)"

definition after_integer :: "string \<Rightarrow> string option" where
  "after_integer s = (let t = (if take 1 s = ''-'' then drop 1 s else s) in
     if take 1 t = ''0'' then Some (drop 1 t) else after_digits t)"

definition after_fraction :: "string \<Rightarrow> string option" where
  "after_fraction s = (if take 1 s = ''.'' then after_digits (drop 1 s) else Some s)"

definition after_exponent :: "string \<Rightarrow> string option" where
  "after_exponent s =
     (if take 1 s = ''e'' \<or> take 1 s = ''E''
      then after_digits (let t = drop 1 s in if take 1 t = ''+'' \<or> take 1 t = ''-'' then drop 1 t else t)
      else Some s)"

definition parse_number :: "string \<Rightarrow> (json \<times> string) option" where
  "parse_number s = map_option (\<lambda>rest. (JNumber (take (length s - length rest) s), rest))
     (Option.bind (after_integer s) (\<lambda>t. Option.bind (after_fraction t) after_exponent))"

definition parse_literal :: "string \<Rightarrow> json \<Rightarrow> string \<Rightarrow> (json \<times> string) option" where
  "parse_literal text v s = (if HasPrefix s text then Some (v, drop (length text) s) else None)"

fun parse_value :: "nat \<Rightarrow> nat \<Rightarrow> string \<Rightarrow> (json \<times> string) option"
and parse_elems :: "nat \<Rightarrow> nat \<Rightarrow> string \<Rightarrow> (json list \<times> string) option"
and parse_members :: "nat \<Rightarrow> nat \<Rightarrow> string \<Rightarrow> ((string \<times> json) list \<times> string) option" where
  "parse_value 0 depth s = None"
| "parse_value (Suc f) depth s = (case s of
     [] \<Rightarrow> None
   | c # cs \<Rightarrow>
     if c = CHR 0x22 then map_option (apfst JString) (unquote cs)
     else if c = CHR ''['' then
       (if depth = 0 then None
        else if take 1 (spaces cs) = '']'' then Some (JArray [], drop 1 (spaces cs))
        else map_option (apfst JArray) (parse_elems f (depth - 1) (spaces cs)))
     else if c = CHR ''{'' then
       (if depth = 0 then None
        else if take 1 (spaces cs) = ''}'' then Some (JObject [], drop 1 (spaces cs))
        else map_option (apfst JObject) (parse_members f (depth - 1) (spaces cs)))
     else if c = CHR ''t'' then parse_literal ''true'' (JBool True) s
     else if c = CHR ''f'' then parse_literal ''false'' (JBool False) s
     else if c = CHR ''n'' then parse_literal ''null'' JNull s
     else parse_number s)"
| "parse_elems 0 depth s = None"
| "parse_elems (Suc f) depth s = (case parse_value f depth s of
     None \<Rightarrow> None
   | Some (v, rest) \<Rightarrow> (case spaces rest of
       [] \<Rightarrow> None
     | c # cs \<Rightarrow>
       if c = CHR '','' then map_option (apfst (Cons v)) (parse_elems f depth (spaces cs))
       else if c = CHR '']'' then Some ([v], cs) else None))"
| "parse_members 0 depth s = None"
| "parse_members (Suc f) depth s = (case s of
     [] \<Rightarrow> None
   | q # qs \<Rightarrow> if q \<noteq> CHR 0x22 then None else (case unquote qs of
       None \<Rightarrow> None
     | Some (key, rest) \<Rightarrow> (case spaces rest of
         [] \<Rightarrow> None
       | k # ks \<Rightarrow> if k \<noteq> CHR '':'' then None else (case parse_value f depth (spaces ks) of
           None \<Rightarrow> None
         | Some (v, rest') \<Rightarrow> (case spaces rest' of
             [] \<Rightarrow> None
           | c # cs \<Rightarrow>
             if c = CHR '','' then map_option (apfst (Cons (key, v))) (parse_members f depth (spaces cs))
             else if c = CHR ''}'' then Some ([(key, v)], cs) else None)))))"

definition decode :: "string \<Rightarrow> json option" where
  "decode s = (case parse_value (2 * length s + 2) 10000 (spaces s) of
     Some (v, rest) \<Rightarrow> if spaces rest = [] then Some v else None
   | None \<Rightarrow> None)"

section \<open>Maps\<close>

text \<open>
  A Go map with string keys, as an association list in the order of its keys, which is the order
  \<open>json.Marshal\<close> and \<open>url.Values.Encode\<close> write it in; \<open>put_member\<close> is an assignment to it.
\<close>

fun bytes_less :: "string \<Rightarrow> string \<Rightarrow> bool" where
  "bytes_less s [] = False"
| "bytes_less [] (y # ys) = True"
| "bytes_less (x # xs) (y # ys) = (byte x < byte y \<or> x = y \<and> bytes_less xs ys)"

fun put_member :: "string \<Rightarrow> 'v \<Rightarrow> (string \<times> 'v) list \<Rightarrow> (string \<times> 'v) list" where
  "put_member k v [] = [(k, v)]"
| "put_member k v ((k', v') # ms) =
     (if k = k' then (k, v) # ms
      else if bytes_less k k' then (k, v) # (k', v') # ms
      else (k', v') # put_member k v ms)"

section \<open>Unmarshalling\<close>

text \<open>
  Into a nil \<open>[]string\<close>: the slice and whether the error is nil. \<open>null\<close> leaves the slice nil and an
  element of it empty; an element of another type is an error reported after the rest is decoded.
\<close>

definition string_element :: "json \<Rightarrow> string \<times> bool" where
  "string_element v = (case v of JString s \<Rightarrow> (s, True) | JNull \<Rightarrow> ([], True) | _ \<Rightarrow> ([], False))"

definition Unmarshal_strings :: "string \<Rightarrow> string list \<times> bool" where
  "Unmarshal_strings raw = (case decode raw of
     Some JNull \<Rightarrow> ([], True)
   | Some (JArray vs) \<Rightarrow>
       (map (fst \<circ> string_element) vs, list_all (snd \<circ> string_element) vs)
   | _ \<Rightarrow> ([], False))"

definition Marshal_strings :: "string list \<Rightarrow> string" where
  "Marshal_strings xs = Marshal (JArray (map JString xs))"

section \<open>What is written is read back\<close>

lemma byte_bound [simp]: "byte c < 256"
  by (rule nat_of_char_less_256)

lemma hex_value_digit: "n < 16 \<Longrightarrow> hex_value (hex_digit n) = Some n"
  by (simp add: hex_value_def hex_digit_def within_def)

lemma hex4_chars:
  assumes "hex_value a = Some x" "hex_value b = Some y" "hex_value c = Some z" "hex_value d = Some v"
  shows "hex4 (a # b # c # d # t) = Some (((x * 16 + y) * 16 + z) * 16 + v)"
  using assms by (simp add: hex4_def)

lemma sixteens: "n div 16 * 16 + n mod 16 = (n :: nat)"
  by (rule div_mult_mod_eq)

lemma four: "(4 :: nat) = Suc (Suc (Suc (Suc 0)))" and two: "(2 :: nat) = Suc (Suc 0)"
  by simp_all

lemma hex4_digits:
  assumes "n < 65536"
  shows "hex4 (hex_digits 4 n @ t) = Some n"
proof -
  have "hex_digits 4 n @ t = hex_digit (n div 16 div 16 div 16 mod 16) # hex_digit (n div 16 div 16 mod 16)
      # hex_digit (n div 16 mod 16) # hex_digit (n mod 16) # t"
    by (simp only: four hex_digits.simps append.simps append_assoc)
  moreover have "n div 16 div 16 div 16 mod 16 = n div 16 div 16 div 16" using assms by simp
  moreover have "n div 16 div 16 div 16 < 16" using assms by simp
  ultimately show ?thesis
    by (simp only: hex4_chars [OF hex_value_digit hex_value_digit hex_value_digit hex_value_digit]
        mod_less_divisor sixteens zero_less_numeral)
qed

lemma hex4_byte:
  assumes "n < 256"
  shows "hex4 (''00'' @ hex_digits 2 n @ t) = Some n"
proof -
  have "''00'' @ hex_digits 2 n @ t = CHR ''0'' # CHR ''0''
      # hex_digit (n div 16 mod 16) # hex_digit (n mod 16) # t"
    by (simp only: two hex_digits.simps append.simps append_assoc)
  moreover have "hex_value CHR ''0'' = Some 0" by (simp add: hex_value_def within_def)
  moreover have "n div 16 mod 16 = n div 16" "n div 16 < 16" using assms by simp_all
  ultimately show ?thesis
    by (simp only: hex4_chars [OF _ _ hex_value_digit hex_value_digit]
        mod_less_divisor sixteens zero_less_numeral mult_zero_left add_0)
qed

text \<open>A decoded rune is encoded by the bytes it was decoded from, which decode alike in any context.\<close>

lemma decode_ascii: "byte c < 128 \<Longrightarrow> decode_rune c cs = (byte c, 1)"
  by (simp add: decode_rune_def)

lemma encode_ascii: "byte c < 128 \<Longrightarrow> encode_rune (byte c) = [c]"
  by (simp add: encode_rune_def)

text \<open>The decoders of the three longer encodings, when they succeed.\<close>

lemma marked: "y < 64 \<Longrightarrow> (128 + y) mod 64 = (y :: nat)" "x < 32 \<Longrightarrow> (192 + x) mod 32 = (x :: nat)"
  "x < 16 \<Longrightarrow> (224 + x) mod 16 = (x :: nat)" "x < 8 \<Longrightarrow> (240 + x) mod 8 = (x :: nat)"
  using mod_mult_self3 [of 2 64 y] mod_mult_self3 [of 6 32 x] mod_mult_self3 [of 14 16 x]
    mod_mult_self3 [of 30 8 x] by simp_all

lemma contE:
  assumes "cont c"
  obtains y where "byte c = 128 + y" "y < 64" "low6 c = y" "c = char_of (128 + y)"
proof -
  have b: "128 \<le> byte c" "byte c < 192" using assms by (simp_all add: cont_def within_def)
  then obtain y where y: "byte c = 128 + y" using le_iff_add by blast
  then have "y < 64" "low6 c = y" using b by (simp_all add: low6_def marked)
  moreover have "c = char_of (128 + y)" by (simp flip: y)
  ultimately show thesis using y that by blast
qed

lemma leadE:
  assumes "within (lo + a) (lo + b) c"
  obtains x where "byte c = lo + x" "a \<le> x" "x \<le> b" "c = char_of (lo + x)"
proof -
  have b: "lo + a \<le> byte c" "byte c \<le> lo + b" using assms by (simp_all add: within_def)
  then have x: "byte c = lo + (byte c - lo)" by simp
  moreover have "c = char_of (lo + (byte c - lo))" by (simp flip: x)
  ultimately show thesis using b by (intro that [of "byte c - lo"]) simp_all
qed

lemma sixty_four:
  shows "v < 64 \<Longrightarrow> (a * 64 + v) div 64 = (a :: nat)" and "v < 64 \<Longrightarrow> (a * 64 + v) mod 64 = (v :: nat)"
  by simp_all

lemma div_4096: "n div 4096 = n div 64 div (64 :: nat)"
  using div_mult2_eq [of n 64 64] by simp

lemma div_262144: "n div 262144 = n div 64 div 64 div (64 :: nat)"
  using div_mult2_eq [of n 4096 64] by (simp add: div_4096)

lemma decode_two_SomeD:
  assumes "decode_two c cs = Some (r, n)"
  obtains d t where "cs = d # t" "n = 2" "128 \<le> r" "encode_rune r = [c, d]"
    "\<And>X. decode_two c (d # X) = Some (r, n)" "128 \<le> byte c"
proof -
  from assms obtain d t where cs: "cs = d # t" and ok: "within 194 223 c" "cont d"
    and r: "r = byte c mod 32 * 64 + low6 d" and n: "n = 2"
    by (auto simp: decode_two_def split: list.splits if_splits)
  obtain x where x: "byte c = 192 + x" "2 \<le> x" "x \<le> 31" "c = char_of (192 + x)"
    using ok(1) leadE [of 192 2 31] by auto
  obtain y where y: "byte d = 128 + y" "y < 64" "low6 d = y" "d = char_of (128 + y)"
    using ok(2) by (rule contE)
  have r': "r = x * 64 + y" using x y by (simp add: r marked)
  have "128 \<le> r" "r < 2048" using x y by (simp_all add: r')
  then have "encode_rune r = [c, d]" using x y by (simp add: encode_rune_def r' sixty_four)
  moreover have "decode_two c (d # X) = Some (r, n)" for X using ok by (simp add: decode_two_def r n)
  ultimately show thesis using that cs n x(1) \<open>128 \<le> r\<close> by auto
qed

lemma decode_three_SomeD:
  assumes "decode_three c cs = Some (r, n)"
  obtains d e t where "cs = d # e # t" "n = 3" "128 \<le> r" "encode_rune r = [c, d, e]"
    "\<And>X. decode_three c (d # e # X) = Some (r, n)" "128 \<le> byte c"
proof -
  from assms obtain d e t where cs: "cs = d # e # t" and ok: "within 224 239 c" "cont d" "cont e"
    and low: "byte c = 224 \<longrightarrow> 160 \<le> byte d" and high: "byte c = 237 \<longrightarrow> byte d \<le> 159"
    and r: "r = (byte c mod 16 * 64 + low6 d) * 64 + low6 e" and n: "n = 3"
    by (auto simp: decode_three_def split: list.splits if_splits)
  obtain x where x: "byte c = 224 + x" "x \<le> 15" "c = char_of (224 + x)"
    using ok(1) leadE [of 224 0 15] by auto
  obtain y where y: "byte d = 128 + y" "y < 64" "low6 d = y" "d = char_of (128 + y)"
    using ok(2) by (rule contE)
  obtain z where z: "byte e = 128 + z" "z < 64" "low6 e = z" "e = char_of (128 + z)"
    using ok(3) by (rule contE)
  have r': "r = (x * 64 + y) * 64 + z" using x y z by (simp add: r marked)
  have range: "2048 \<le> r" "r < 65536" "\<not> (55296 \<le> r \<and> r \<le> 57343)"
  proof -
    show "2048 \<le> r" using low x y by (cases "x = 0") (simp_all add: r')
    show "r < 65536" using x y z by (simp add: r')
    have "x \<le> 12 \<or> 14 \<le> x \<or> y \<le> 31" using high x y by (cases "x = 13") auto
    then show "\<not> (55296 \<le> r \<and> r \<le> 57343)" using y z by (cases "x \<le> 12"; cases "14 \<le> x") (auto simp: r')
  qed
  moreover have "r div 4096 = x" "r div 64 mod 64 = y" "r mod 64 = z"
    by (simp_all only: r' div_4096 sixty_four y z)
  ultimately have "encode_rune r = [c, d, e]" using range x y z by (auto simp: encode_rune_def)
  moreover have "decode_three c (d # e # X) = Some (r, n)" for X
    using ok low high by (simp add: decode_three_def r n)
  ultimately show thesis using that cs n x(1) range by auto
qed

lemma decode_four_SomeD:
  assumes "decode_four c cs = Some (r, n)"
  obtains d e f t where "cs = d # e # f # t" "n = 4" "128 \<le> r" "encode_rune r = [c, d, e, f]"
    "\<And>X. decode_four c (d # e # f # X) = Some (r, n)" "128 \<le> byte c"
proof -
  from assms obtain d e f t where cs: "cs = d # e # f # t"
    and ok: "within 240 244 c" "cont d" "cont e" "cont f"
    and low: "byte c = 240 \<longrightarrow> 144 \<le> byte d" and high: "byte c = 244 \<longrightarrow> byte d \<le> 143"
    and r: "r = ((byte c mod 8 * 64 + low6 d) * 64 + low6 e) * 64 + low6 f" and n: "n = 4"
    by (auto simp: decode_four_def split: list.splits if_splits)
  obtain x where x: "byte c = 240 + x" "x \<le> 4" "c = char_of (240 + x)"
    using ok(1) leadE [of 240 0 4] by auto
  obtain y where y: "byte d = 128 + y" "y < 64" "low6 d = y" "d = char_of (128 + y)"
    using ok(2) by (rule contE)
  obtain z where z: "byte e = 128 + z" "z < 64" "low6 e = z" "e = char_of (128 + z)"
    using ok(3) by (rule contE)
  obtain v where v: "byte f = 128 + v" "v < 64" "low6 f = v" "f = char_of (128 + v)"
    using ok(4) by (rule contE)
  have r': "r = ((x * 64 + y) * 64 + z) * 64 + v" using x y z v by (simp add: r marked)
  have range: "65536 \<le> r" "r \<le> 1114111"
  proof -
    show "65536 \<le> r" using low x y by (cases "x = 0") (simp_all add: r')
    show "r \<le> 1114111" using high x y z v by (cases "x = 4") (simp_all add: r')
  qed
  moreover have "r div 262144 = x" "r div 4096 mod 64 = y" "r div 64 mod 64 = z" "r mod 64 = v"
    by (simp_all only: r' div_262144 div_4096 sixty_four y z v)
  ultimately have "encode_rune r = [c, d, e, f]" using x y z v by (simp add: encode_rune_def)
  moreover have "decode_four c (d # e # f # X) = Some (r, n)" for X
    using ok low high by (simp add: decode_four_def r n)
  ultimately show thesis using that cs n x(1) range by auto
qed

lemma decode_rune_valid:
  assumes "decode_rune c cs = (r, n)" and "\<not> broken (r, c # take (n - 1) cs)" and "128 \<le> byte c"
  shows "128 \<le> r" "encode_rune r = c # take (n - 1) cs"
    and "decode_rune c (take (n - 1) cs @ X) = (r, n)" "length (take (n - 1) cs) = n - 1"
proof -
  have "(\<exists>d t. cs = d # t \<and> n = 2 \<and> 128 \<le> r \<and> encode_rune r = [c, d] \<and> decode_rune c (d # X) = (r, n))
      \<or> (\<exists>d e t. cs = d # e # t \<and> n = 3 \<and> 128 \<le> r \<and> encode_rune r = [c, d, e]
           \<and> decode_rune c (d # e # X) = (r, n))
      \<or> (\<exists>d e f t. cs = d # e # f # t \<and> n = 4 \<and> 128 \<le> r \<and> encode_rune r = [c, d, e, f]
           \<and> decode_rune c (d # e # f # X) = (r, n))"
  proof (cases "decode_two c cs")
    case (Some p)
    with assms(1,3) have "decode_two c cs = Some (r, n)" by (simp add: decode_rune_def)
    then show ?thesis by (rule decode_two_SomeD) (auto simp: decode_rune_def)
  next
    case two: None
    show ?thesis
    proof (cases "decode_three c cs")
      case (Some p)
      with two assms(1,3) have three: "decode_three c cs = Some (r, n)" by (simp add: decode_rune_def)
      then obtain d e t where "cs = d # e # t" "n = 3" "128 \<le> r" "encode_rune r = [c, d, e]"
          "decode_three c (d # e # X) = Some (r, n)" by (rule decode_three_SomeD) blast
      moreover from this two have "decode_two c (d # e # X) = None" by (simp add: decode_two_def)
      ultimately show ?thesis using assms(3) by (auto simp: decode_rune_def)
    next
      case three: None
      show ?thesis
      proof (cases "decode_four c cs")
        case (Some p)
        with two three assms(1,3) have four: "decode_four c cs = Some (r, n)" by (simp add: decode_rune_def)
        then obtain d e f t where "cs = d # e # f # t" "n = 4" "128 \<le> r" "encode_rune r = [c, d, e, f]"
            "decode_four c (d # e # f # X) = Some (r, n)" by (rule decode_four_SomeD) blast
        moreover from this two three have "decode_two c (d # e # f # X) = None" "decode_three c (d # e # f # X) = None"
          by (simp_all add: decode_two_def decode_three_def)
        ultimately show ?thesis using assms(3) by (auto simp: decode_rune_def)
      next
        case None
        with two three assms(1,3) have "n = 1" by (simp add: decode_rune_def)
        with assms(2,3) show ?thesis by (simp add: broken_def)
      qed
    qed
  qed
  then show "128 \<le> r" "encode_rune r = c # take (n - 1) cs"
    "decode_rune c (take (n - 1) cs @ X) = (r, n)" "length (take (n - 1) cs) = n - 1"
    by auto
qed

lemma no_surrogate: "r < 55296 \<Longrightarrow> surrogate_pair r s = (r, 0)"
  by (simp add: surrogate_pair_def)

lemma unquote_u:
  assumes "hex4 (h @ t) = Some r" and "length h = 4" and "r < 55296"
  shows "unquote (bs (CHR ''u'' # h) @ t) = map_option (apfst (append (encode_rune r))) (unquote t)"
  using assms by (simp add: bs_def no_surrogate)

lemma unquote_simple:
  assumes "simple_escape e = Some x" and "byte e \<noteq> 117"
  shows "unquote (bs [e] @ t) = map_option (apfst (Cons x)) (unquote t)"
  using assms by (simp add: bs_def)

lemma append_single: "(@) [c] = (#) c"
  by auto

lemma unquote_ascii:
  assumes "byte c < 128"
  shows "unquote (escape_rune (byte c, [c]) @ t) = map_option (apfst (Cons c)) (unquote t)"
proof -
  have c: "c = char_of n" if "byte c = n" for n by (simp flip: that)
  consider "byte c = 34" | "byte c = 92" | "byte c = 8" | "byte c = 12" | "byte c = 10" | "byte c = 13" | "byte c = 9"
    | "byte c \<notin> {34, 92, 8, 12, 10, 13, 9}" "byte c < 32 \<or> byte c = 38 \<or> byte c = 60 \<or> byte c = 62"
    | "byte c \<notin> {34, 92}" "32 \<le> byte c" "byte c \<notin> {38, 60, 62}" by fastforce
  then show ?thesis
  proof cases
    case 1
    moreover have "char_of (34 :: nat) = CHR 0x22" by code_simp
    ultimately have "c = CHR 0x22" using c [of 34] by simp
    then show ?thesis by (simp add: escape_rune_def broken_def bs_def simple_escape_def)
  next
    case 2
    moreover have "char_of (92 :: nat) = CHR 0x5C" by code_simp
    ultimately have "c = CHR 0x5C" using c [of 92] by simp
    then show ?thesis by (simp add: escape_rune_def broken_def bs_def simple_escape_def)
  next
    case 8
    then have "escape_rune (byte c, [c]) = bs (CHR ''u'' # ''00'' @ hex_digits 2 (byte c))"
      using assms by (auto simp: escape_rune_def broken_def bs_def)
    moreover have "length (''00'' @ hex_digits 2 (byte c)) = 4" by (simp add: two)
    ultimately show ?thesis
      using unquote_u [of "''00'' @ hex_digits 2 (byte c)" t "byte c"] hex4_byte [of "byte c" t] assms
      by (simp add: encode_ascii append_single)
  next
    case 9
    then have "escape_rune (byte c, [c]) = [c]" using assms by (simp add: escape_rune_def broken_def)
    then show ?thesis using 9 assms by (simp add: decode_ascii encode_ascii append_single)
  qed (use assms in \<open>simp_all add: escape_rune_def broken_def bs_def simple_escape_def Let_def flip: c\<close>)
qed

lemma unquote_wide:
  assumes "128 \<le> byte c" and "decode_rune c cs = (r, n)" and "\<not> broken (r, c # take (n - 1) cs)"
  shows "unquote (escape_rune (r, c # take (n - 1) cs) @ t)
    = map_option (apfst (append (c # take (n - 1) cs))) (unquote t)"
proof -
  note decode = decode_rune_valid [OF assms(2,3,1)]
  show ?thesis
  proof (cases "r = 8232 \<or> r = 8233")
    case True
    then have "escape_rune (r, c # take (n - 1) cs) = bs (CHR ''u'' # hex_digits 4 r)"
      using assms(3) by (auto simp: escape_rune_def bs_def)
    moreover have "length (hex_digits 4 r) = 4" by (simp add: four)
    ultimately show ?thesis
      using unquote_u [of "hex_digits 4 r" t r] hex4_digits [of r t] True decode(2) by auto
  next
    case False
    then have "escape_rune (r, c # take (n - 1) cs) = c # take (n - 1) cs"
      using assms(3) decode(1) by (simp add: escape_rune_def)
    moreover have "drop (n - 1) (take (n - 1) cs @ t) = t" using decode(4) by simp
    ultimately show ?thesis using assms(1) decode(2) decode(3) [of t] by simp
  qed
qed

text \<open>A quoted string is read back, up to its closing quote.\<close>

lemma unquote_quote:
  "valid_utf8 s \<Longrightarrow> unquote (concat (map escape_rune (runes s)) @ CHR 0x22 # rest) = Some (s, rest)"
proof (induction s rule: runes.induct)
  case 1
  then show ?case by simp
next
  case (2 c cs)
  obtain r n where rn: "decode_rune c cs = (r, n)" by fastforce
  have ok: "\<not> broken (r, c # take (n - 1) cs)" and tail: "valid_utf8 (drop (n - 1) cs)"
    using 2(2) rn by (simp_all add: valid_utf8_def)
  have IH: "unquote (concat (map escape_rune (runes (drop (n - 1) cs))) @ CHR 0x22 # rest)
      = Some (drop (n - 1) cs, rest)"
    using 2(1) [OF rn [symmetric]] tail rn by simp
  show ?case
  proof (cases "byte c < 128")
    case True
    then have "r = byte c" "n = 1" using rn by (simp_all add: decode_ascii)
    then show ?thesis using IH rn unquote_ascii [OF True] by (simp add: apfst_def)
  next
    case False
    then show ?thesis using IH rn unquote_wide [OF _ rn ok] by (simp add: apfst_def)
  qed
qed

lemma parse_quote:
  assumes "valid_utf8 s"
  shows "parse_value (Suc f) depth (quote s @ rest) = Some (JString s, rest)"
  using unquote_quote [OF assms, of rest] by (simp add: quote_def)

lemma parse_strings:
  assumes "\<forall>x \<in> set xs. valid_utf8 x" and "xs \<noteq> []" and "length xs + 1 < f"
  shows "parse_elems f depth (commas (map quote xs) @ CHR '']'' # rest) = Some (map JString xs, rest)"
  using assms
proof (induction xs arbitrary: f)
  case (Cons x xs)
  obtain g where f: "f = Suc (Suc g)" using Cons.prems(3) by (cases f; cases "f - 1") auto
  show ?case
  proof (cases xs)
    case Nil
    then show ?thesis using Cons.prems f
      by (simp add: parse_quote spaces_def json_space_def del: parse_value.simps)
  next
    case (Cons y ys)
    then have "parse_elems (Suc g) depth (commas (map quote xs) @ CHR '']'' # rest) = Some (map JString xs, rest)"
      using Cons.IH [of "Suc g"] Cons.prems f by simp
    moreover have "spaces (commas (map quote xs) @ t) = commas (map quote xs) @ t" for t
      using Cons by (cases ys) (simp_all add: quote_def spaces_def json_space_def)
    ultimately show ?thesis using Cons.prems f Cons
      by (simp add: parse_quote del: parse_value.simps)
        (simp add: spaces_def json_space_def)
  qed
qed simp

lemma length_commas: "length xs \<le> length (commas (map quote xs))"
  by (induction xs rule: commas.induct) (simp_all add: quote_def)

lemma Unmarshal_Marshal_strings:
  assumes "\<forall>x \<in> set xs. valid_utf8 x"
  shows "Unmarshal_strings (Marshal_strings xs) = (xs, True)"
proof -
  have raw: "Marshal_strings xs = CHR ''['' # commas (map quote xs) @ '']''"
    by (simp add: Marshal_strings_def comp_def)
  have "decode (Marshal_strings xs) = Some (JArray (map JString xs))"
  proof (cases "xs = []")
    case True
    then show ?thesis
      unfolding raw by (simp add: decode_def spaces_def json_space_def numeral_2_eq_2)
  next
    case False
    let ?f = "2 * length (Marshal_strings xs) + 1"
    have "spaces (commas (map quote xs) @ t) = commas (map quote xs) @ t"
      and "take 1 (commas (map quote xs) @ t) \<noteq> '']''" for t
      using False by (cases xs rule: commas.cases; simp add: quote_def spaces_def json_space_def)+
    moreover have "parse_elems ?f 9999 (commas (map quote xs) @ CHR '']'' # []) = Some (map JString xs, [])"
      using assms False length_commas [of xs] by (intro parse_strings) (simp_all add: raw)
    ultimately have "parse_value (Suc ?f) 10000 (Marshal_strings xs) = Some (JArray (map JString xs), [])"
      unfolding raw by simp
    moreover have "spaces (Marshal_strings xs) = Marshal_strings xs"
      unfolding raw by (simp add: spaces_def json_space_def)
    ultimately show ?thesis by (simp add: decode_def spaces_def)
  qed
  then show ?thesis by (simp add: Unmarshal_strings_def string_element_def comp_def list_all_iff)
qed

end
