(* ===== verification/Go_Action.thy ===== *)
theory Go_Action
  imports Machine_Store
begin

text \<open>
  Fallible functions that change a state. An action is a function from the state to its result, an error
  or a value, and the new state; \<open>bindA\<close> is the call that returns early with the error. The state is the
  world of the manager and the machine service (\<open>Manager_World\<close>) or that of the issue tracker.
\<close>

section \<open>Errors\<close>

text \<open>
  The sentinel errors of \<open>BE/internal/service/dev_machine.go\<close> and \<open>workspace.go\<close>, whose functions are
  actions too, and their texts.
\<close>

datatype service_error =
    ErrDevMachinesDisabled
  | ErrMachineNotFound
  | ErrAgentRunNotFound
  | ErrEnvironmentNotFound
  | ErrServiceEnvironmentInUse
  | ErrServiceEnvironmentInvalidState
  | ErrEnvironmentCleanupActive
  | ErrTerminalSessionNotFound
  | ErrInvalidOperation
  | ErrServiceMachineQuota
  | ErrProviderNotAllowed
  | ErrRepositoryNotAllowed
  | ErrServiceNotAvailable
  | ErrCheckoutNotEligible
  | ErrCheckoutNotReady
  | ErrCheckoutNotFound
  | ErrTerminalSessionRequired
  | ErrInvalidMachineInput
  | ErrServiceMachineNameConflict
  | ErrMachineAuthentication
  | ErrServiceWorkspaceSlugTaken
  | ErrWorkspaceNotFound
  | ErrNotWorkspaceOwner
  | ErrServiceWorkspaceHasRuntimes
  | ErrServiceWorkspaceCleanupPending

fun service_error_text :: "service_error \<Rightarrow> string" where
  "service_error_text ErrDevMachinesDisabled = ''dev machines are disabled''"
| "service_error_text ErrMachineNotFound = ''dev machine not found''"
| "service_error_text ErrAgentRunNotFound = ''agent run not found''"
| "service_error_text ErrEnvironmentNotFound = ''development environment not found''"
| "service_error_text ErrServiceEnvironmentInUse = ''development environment is in use''"
| "service_error_text ErrServiceEnvironmentInvalidState =
     ''development environment cannot be deleted in its current state''"
| "service_error_text ErrEnvironmentCleanupActive =
     ''development environment cleanup is blocked by active work''"
| "service_error_text ErrTerminalSessionNotFound = ''terminal session not found''"
| "service_error_text ErrInvalidOperation = ''operation is not valid for the current machine state''"
| "service_error_text ErrServiceMachineQuota = ''dev machine quota exceeded''"
| "service_error_text ErrProviderNotAllowed = ''agent provider is not allowed''"
| "service_error_text ErrRepositoryNotAllowed = ''repository is not allowed''"
| "service_error_text ErrServiceNotAvailable = ''machine service is not available''"
| "service_error_text ErrCheckoutNotEligible = ''machine is not eligible for this issue checkout''"
| "service_error_text ErrCheckoutNotReady = ''repository checkout is not ready''"
| "service_error_text ErrCheckoutNotFound = ''repository checkout not found''"
| "service_error_text ErrTerminalSessionRequired =
     ''terminal must be launched through a native session''"
| "service_error_text ErrInvalidMachineInput = ''invalid dev machine request''"
| "service_error_text ErrServiceMachineNameConflict = ''dev machine name is already in use''"
| "service_error_text ErrMachineAuthentication = ''machine authentication failed''"
| "service_error_text ErrServiceWorkspaceSlugTaken = ''workspace slug already taken''"
| "service_error_text ErrWorkspaceNotFound = ''workspace not found''"
| "service_error_text ErrNotWorkspaceOwner = ''only the workspace owner can perform this action''"
| "service_error_text ErrServiceWorkspaceHasRuntimes = ''workspace has non-destroyed dev machine runtimes''"
| "service_error_text ErrServiceWorkspaceCleanupPending = ''workspace environment cleanup is pending''"

text \<open>
  \<open>StoreError\<close> is an error of the store, \<open>Errorf\<close> a text, \<open>DeadlineError\<close> a runtime error that wraps
  \<open>context.DeadlineExceeded\<close>, \<open>Wrapped\<close> the result of \<open>fmt.Errorf("prefix: %w", err)\<close>, \<open>TerminalOp\<close> a \<open>terminalOperationError\<close> of its code and message, and
  \<open>ServiceError\<close> a sentinel with the text appended to its own (\<open>fmt.Errorf("%w: detail", ErrX)\<close>; empty
  for the sentinel itself).
\<close>

datatype go_error =
    StoreError store_error
  | Errorf string
  | DeadlineError string
  | Wrapped string go_error
  | TerminalOp string string
  | ServiceError service_error string

fun error_text :: "(store_error \<Rightarrow> string) \<Rightarrow> go_error \<Rightarrow> string" where
  "error_text driver (StoreError e) = driver e"
| "error_text driver (Errorf s) = s"
| "error_text driver (DeadlineError s) = s"
| "error_text driver (Wrapped s e) = s @ '': '' @ error_text driver e"
| "error_text driver (TerminalOp code message) = code @ '': '' @ message"
| "error_text driver (ServiceError e detail) = service_error_text e @ detail"

text \<open>\<open>errors.Is(err, sql.ErrNoRows)\<close>, \<open>errors.Is(err, context.DeadlineExceeded)\<close> and
  \<open>errors.As(err, &terminalErr)\<close> look through wrapped errors.\<close>

fun is_no_rows :: "go_error \<Rightarrow> bool" where
  "is_no_rows (StoreError e) = (e = ErrNoRows)"
| "is_no_rows (Wrapped s e) = is_no_rows e"
| "is_no_rows _ = False"

fun is_deadline :: "go_error \<Rightarrow> bool" where
  "is_deadline (DeadlineError s) = True"
| "is_deadline (Wrapped s e) = is_deadline e"
| "is_deadline _ = False"

fun is_terminal :: "go_error \<Rightarrow> bool" where
  "is_terminal (TerminalOp code message) = True"
| "is_terminal (Wrapped s e) = is_terminal e"
| "is_terminal _ = False"

section \<open>Actions\<close>

type_synonym ('w, 'a) action = "'w \<Rightarrow> (go_error + 'a) \<times> 'w"

definition returnA :: "'a \<Rightarrow> ('w, 'a) action" where
  "returnA x w = (Inr x, w)"

definition failA :: "go_error \<Rightarrow> ('w, 'a) action" where
  "failA e w = (Inl e, w)"

definition bindA :: "('w, 'a) action \<Rightarrow> ('a \<Rightarrow> ('w, 'b) action) \<Rightarrow> ('w, 'b) action" where
  "bindA a k w = (case a w of (Inl e, w') \<Rightarrow> (Inl e, w') | (Inr x, w') \<Rightarrow> k x w')"

definition thenA :: "('w, 'a) action \<Rightarrow> ('w, 'b) action \<Rightarrow> ('w, 'b) action" where
  "thenA a b = bindA a (\<lambda>_. b)"

text \<open>\<open>attempt a\<close> gives the error of \<open>a\<close> to the code that follows; \<open>ignore a\<close> drops it.\<close>

definition attempt :: "('w, 'a) action \<Rightarrow> ('w, go_error + 'a) action" where
  "attempt a w = (case a w of (r, w') \<Rightarrow> (Inr r, w'))"

definition ignore :: "('w, 'a) action \<Rightarrow> ('w, unit) action" where
  "ignore a w = (case a w of (r, w') \<Rightarrow> (Inr (), w'))"

fun eachA :: "('b \<Rightarrow> ('w, unit) action) \<Rightarrow> 'b list \<Rightarrow> ('w, unit) action" where
  "eachA f [] = returnA ()"
| "eachA f (x # xs) = thenA (f x) (eachA f xs)"

definition whenA :: "bool \<Rightarrow> ('w, unit) action \<Rightarrow> ('w, unit) action" where
  "whenA b a = (if b then a else returnA ())"

definition getA :: "('w \<Rightarrow> 'a) \<Rightarrow> ('w, 'a) action" where
  "getA f w = (Inr (f w), w)"

definition putA :: "('w \<Rightarrow> 'w) \<Rightarrow> ('w, unit) action" where
  "putA f w = (Inr (), f w)"

section \<open>Inversion\<close>

named_theorems inversion \<open>what the success of an action says of its parts\<close>

lemma bindA_Inr [inversion]:
  "bindA a k w = (Inr y, w') \<longleftrightarrow> (\<exists>x v. a w = (Inr x, v) \<and> k x v = (Inr y, w'))"
  by (auto simp: bindA_def split: prod.splits sum.splits)

lemma thenA_Inr [inversion]:
  "thenA a b w = (Inr y, w') \<longleftrightarrow> (\<exists>x v. a w = (Inr x, v) \<and> b v = (Inr y, w'))"
  by (simp add: thenA_def bindA_Inr)

lemma returnA_Inr [inversion]: "returnA x w = (Inr y, w') \<longleftrightarrow> y = x \<and> w' = w"
  by (auto simp: returnA_def)

lemma failA_Inr [inversion]: "failA e w \<noteq> (Inr y, w')"
  by (simp add: failA_def)

lemma attempt_Inr [inversion]: "attempt a w = (Inr r, w') \<longleftrightarrow> a w = (r, w')"
  by (auto simp: attempt_def split: prod.split)

lemma ignore_Inr [inversion]: "ignore a w = (Inr u, w') \<longleftrightarrow> snd (a w) = w'"
  by (auto simp: ignore_def split: prod.split)

end
