(* ===== verification/Manager_World.thy ===== *)
theory Manager_World
  imports Go_Json Go_Action Agent_Runs Machine_Access Machine_Environments
begin

text \<open>
  The world the operation manager (\<open>BE/internal/machine/manager.go\<close>) acts on, and the calls it
  makes. A function of the manager is an action: a function from the world to its result, an error
  or a value, and the new world. Every call of the store takes the next entry of a script that says
  how much time passes before it, what the other processes (API servers, gateways, other managers,
  the lease renewal) do to the database meanwhile, and whether the call fails with a database error
  instead of taking effect; a call that takes effect and still reports an error is an entry whose
  interference does the effect. An exhausted script stands for calls that follow each other without
  interference. A cancelled context is a script whose calls fail.

  The container runtime (\<open>BE/internal/machine/runtime.go\<close>) is an interface the manager gets at
  construction, as are the agent providers (\<open>BE/internal/agent/agent.go\<close>) and the GitHub client: they
  are records of functions here, and the answers of the runtime and of GitHub may depend on how many
  calls were made before. Every call of them is recorded with the database as the manager's last
  statement left it.
\<close>

section \<open>The runtime interface\<close>

record AgentExecution =
  ex_ContainerID :: string
  ex_Stdout :: string
  ex_Stderr :: string
  ex_ExitCode :: int

record ResourceUsage =
  ru_CPUPercent :: float64
  ru_MemoryBytes :: int
  ru_DiskBytes :: int
  ru_Pids :: int
  ru_NetworkRxBytes :: int
  ru_NetworkTxBytes :: int

text \<open>A nil slice is \<open>None\<close>.\<close>

record GitState =
  gs_Branch :: string
  gs_Commits :: "string list option"
  gs_ChangedFiles :: "string list option"

record RuntimeServiceInspection =
  si_ContainerID :: string
  si_Status :: string
  si_HealthStatus :: string
  si_Exists :: bool
  si_Running :: bool
  si_Paused :: bool
  si_OnNetwork :: bool

record RuntimeInspection =
  ri_NetworkName :: string
  ri_VolumeName :: string
  ri_NetworkExists :: bool
  ri_VolumeExists :: bool
  ri_GatewayAttached :: bool
  ri_Services :: "string \<Rightarrow> RuntimeServiceInspection option"

text \<open>
  A map of secrets is the list of its entries, one per name; the maps of service secrets are listed
  under their service keys.
\<close>

type_synonym secrets = "(string \<times> string) list"
type_synonym service_secrets = "(string \<times> secrets) list"

record Runtime =
  rt_Spawn :: "nat \<Rightarrow> DevMachine \<Rightarrow> DevMachineService list \<Rightarrow> service_secrets
     \<Rightarrow> go_error + (string \<times> string \<times> (string \<Rightarrow> string option))"
  rt_Start :: "nat \<Rightarrow> DevMachine \<Rightarrow> DevMachineService list \<Rightarrow> service_secrets \<Rightarrow> go_error + unit"
  rt_Pause :: "nat \<Rightarrow> DevMachine \<Rightarrow> DevMachineService list \<Rightarrow> go_error + unit"
  rt_Stop :: "nat \<Rightarrow> DevMachine \<Rightarrow> DevMachineService list \<Rightarrow> go_error + unit"
  rt_Teardown :: "nat \<Rightarrow> DevMachine \<Rightarrow> DevMachineService list \<Rightarrow> go_error + unit"
  rt_RunAgent :: "nat \<Rightarrow> DevMachine \<Rightarrow> DevMachineAgentRun \<Rightarrow> DevMachineAgentProvider
     \<Rightarrow> DevMachineCheckout option \<Rightarrow> secrets \<Rightarrow> AgentExecution option \<times> go_error option \<times> bool"
  rt_CancelAgent :: "nat \<Rightarrow> DevMachineAgentRun \<Rightarrow> go_error + unit"
  rt_TerminateTerminal :: "nat \<Rightarrow> DevMachine \<Rightarrow> DevMachineService list \<Rightarrow> DevMachineTerminalSession
     \<Rightarrow> go_error + unit"
  rt_Inspect :: "nat \<Rightarrow> DevMachine \<Rightarrow> DevMachineService list \<Rightarrow> go_error + RuntimeInspection"
  rt_Stats :: "nat \<Rightarrow> DevMachine \<Rightarrow> DevMachineService list \<Rightarrow> go_error + ResourceUsage"
  rt_GitState :: "nat \<Rightarrow> DevMachine \<Rightarrow> DevMachineService list \<Rightarrow> DevMachineCheckout option
     \<Rightarrow> go_error + GitState"
  rt_PrepareCheckout :: "nat \<Rightarrow> DevMachine \<Rightarrow> DevMachineService list \<Rightarrow> DevMachineCheckout \<Rightarrow> string
     \<Rightarrow> go_error + unit"
  rt_SnapshotEnvironment :: "nat \<Rightarrow> DevMachine \<Rightarrow> DevMachineService list \<Rightarrow> DevMachineEnvironment
     \<Rightarrow> go_error + string"
  rt_DeleteEnvironmentImage :: "nat \<Rightarrow> DevMachineEnvironment \<Rightarrow> go_error + unit"

datatype outside_call =
    CallSpawn DevMachine "DevMachineService list" service_secrets
  | CallStart DevMachine "DevMachineService list" service_secrets
  | CallPause DevMachine "DevMachineService list"
  | CallStop DevMachine "DevMachineService list"
  | CallTeardown DevMachine "DevMachineService list"
  | CallRunAgent DevMachine DevMachineAgentRun secrets
  | CallCancelAgent DevMachineAgentRun
  | CallTerminateTerminal DevMachine DevMachineTerminalSession
  | CallInspect DevMachine
  | CallStats DevMachine
  | CallGitState DevMachine
  | CallPrepareCheckout DevMachine DevMachineCheckout string
  | CallSnapshotEnvironment DevMachine DevMachineEnvironment
  | CallDeleteEnvironmentImage DevMachineEnvironment
  | CallInstallationToken int string
  | CallCreatePullRequest string string string

section \<open>Agent providers and GitHub\<close>

record Artifact =
  af_Type :: string
  af_Name :: string
  af_Path :: string
  af_ContentType :: string

record RunResult =
  rr_Status :: string
  rr_Summary :: string
  rr_ChangedFiles :: "string list option"
  rr_Commits :: "string list option"
  rr_Branch :: string
  rr_PullRequestURL :: string
  rr_TestsRun :: "string list option"
  rr_TestStatus :: string
  rr_RiskNotes :: "string list option"
  rr_Artifacts :: "Artifact list option"

text \<open>\<open>agent.Event\<close>; an empty payload is absent.\<close>

record AgentEvent =
  ae_Type :: string
  ae_Message :: string
  ae_Payload :: rawjson

text \<open>An agent provider's metadata, the input of a run and the invocation it is turned into.\<close>

record Metadata =
  md_ID :: string
  md_DisplayName :: string
  md_DefaultImage :: string
  md_RequiredSecrets :: "string list option"
  md_SupportedModes :: "string list option"
  md_Custom :: bool

record RunInput =
  rn_Mode :: string
  rn_Prompt :: string
  rn_WorkspacePath :: string
  rn_AcceptanceCriteria :: "string list option"
  rn_TestCommand :: "string list option"
  rn_ExtraArgs :: "string list option"
  rn_Config :: rawjson

record Invocation =
  iv_Image :: string
  iv_Argv :: "string list option"
  iv_WorkingDir :: string
  iv_Interactive :: bool
  iv_SecretNames :: "string list option"

record Provider =
  pv_Metadata :: Metadata
  pv_BuildInvocation :: "RunInput \<Rightarrow> go_error + Invocation"
  pv_ParseEvents :: "string \<Rightarrow> AgentEvent list"
  pv_ParseResult :: "string \<Rightarrow> string \<Rightarrow> int \<Rightarrow> RunResult"

record PullRequest =
  pr_Number :: int
  pr_HTMLURL :: string

text \<open>The arguments of \<open>CreatePullRequest\<close>: token, owner, repository, title, head, base and body.\<close>

record githubAPI =
  gh_GetRepositoryInstallationToken :: "nat \<Rightarrow> int \<Rightarrow> string \<Rightarrow> go_error + (string \<times> time)"
  gh_CreatePullRequest :: "nat \<Rightarrow> string \<Rightarrow> string \<Rightarrow> string \<Rightarrow> string \<Rightarrow> string \<Rightarrow> string \<Rightarrow> string
     \<Rightarrow> go_error + PullRequest"

text \<open>
  A parsed URL as \<open>net/url\<close> gives it, as far as it is read: \<open>ur_User\<close> tells whether there is
  user information, \<open>ur_EscapedPath\<close> is \<open>URL.EscapedPath()\<close> and \<open>ur_Text\<close> is \<open>URL.String()\<close>.
\<close>

record URL =
  ur_Scheme :: string
  ur_Host :: string
  ur_Hostname :: string
  ur_User :: bool
  ur_Port :: string
  ur_RawQuery :: string
  ur_Fragment :: string
  ur_Path :: string
  ur_EscapedPath :: string
  ur_Text :: string

text \<open>
  The fields of \<open>Manager\<close> that do not change, and the outside world's functions: the texts of database errors, the collation of
  the database, Unicode's tables, SHA-256, the cipher (\<open>Encrypt\<close> draws a nonce, so it takes the
  number of calls made before), the parser of URLs, and the order in which a \<open>range\<close> visits a map.
\<close>

record Manager =
  mg_runtime :: Runtime
  mg_agents :: "string \<Rightarrow> Provider option"
  mg_github :: "githubAPI option"
  mg_githubKey :: bool
  mg_owner :: string
  mg_NewClient :: "int \<Rightarrow> string \<Rightarrow> go_error + githubAPI"
  mg_driver :: "store_error \<Rightarrow> string"
  mg_collate :: "string \<Rightarrow> nat"
  mg_unicode_lower :: "nat \<Rightarrow> nat"
  mg_equal_fold :: "string \<Rightarrow> string \<Rightarrow> bool"
  mg_sha256 :: "string \<Rightarrow> string"
  mg_Encrypt :: "nat \<Rightarrow> string \<Rightarrow> go_error + string"
  mg_Decrypt :: "string \<Rightarrow> go_error + string"
  mg_DecryptAppKey :: "string \<Rightarrow> go_error + string"
  mg_url_Parse :: "string \<Rightarrow> URL option"
  mg_range :: "secrets \<Rightarrow> secrets"

section \<open>The world\<close>

type_synonym script = "(duration \<times> (db \<Rightarrow> db) \<times> store_error option) list"

text \<open>
  \<open>w_active\<close> is \<open>activeRuns\<close>: the pairs of a machine and a run for which a cancel function is
  registered; \<open>w_cancelled\<close> are the runs whose cancel function was called. The counters are the
  manager's metrics.
\<close>

record world =
  w_db :: db
  w_now :: time
  w_fresh :: uuid
  w_seq :: int
  w_script :: script
  w_calls :: "(outside_call \<times> db) list"
  w_active :: "(uuid \<times> uuid) list"
  w_cancelled :: "uuid list"
  w_operationsCompleted :: nat
  w_operationsFailed :: nat
  w_agentRunsCompleted :: nat
  w_lastReconcile :: time

type_synonym 'a act = "(world, 'a) action"

section \<open>Calls of the store\<close>

definition before_call :: "world \<Rightarrow> store_error option \<times> world" where
  "before_call w = (let w1 = w\<lparr>w_fresh := w_fresh w + 1, w_seq := w_seq w + 1\<rparr> in
     case w_script w of
       [] \<Rightarrow> (None, w1)
     | (dt, f, fault) # rest \<Rightarrow>
         (fault, w1\<lparr>w_now := w_now w + dt, w_db := f (w_db w), w_script := rest\<rparr>))"

text \<open>The operation gets the time, an unused identifier and the next serial number.\<close>

definition storeA :: "(time \<Rightarrow> uuid \<Rightarrow> int \<Rightarrow> db \<Rightarrow> store_error + ('a \<times> db)) \<Rightarrow> 'a act" where
  "storeA f w = (case before_call w of
       (Some e, w1) \<Rightarrow> (Inl (StoreError e), w1)
     | (None, w1) \<Rightarrow> (case f (w_now w1) (w_fresh w) (w_seq w) (w_db w1) of
           Inl e \<Rightarrow> (Inl (StoreError e), w1)
         | Inr (x, d) \<Rightarrow> (Inr x, w1\<lparr>w_db := d\<rparr>)))"

definition readA :: "(time \<Rightarrow> db \<Rightarrow> 'a) \<Rightarrow> 'a act" where
  "readA f = storeA (\<lambda>now fresh seq d. Inr (f now d, d))"

definition writeA :: "(time \<Rightarrow> db \<Rightarrow> db) \<Rightarrow> unit act" where
  "writeA f = storeA (\<lambda>now fresh seq d. Inr ((), f now d))"

definition tryA :: "(time \<Rightarrow> db \<Rightarrow> store_error + db) \<Rightarrow> unit act" where
  "tryA f = storeA (\<lambda>now fresh seq d. case f now d of Inl e \<Rightarrow> Inl e | Inr d' \<Rightarrow> Inr ((), d'))"

definition countA :: "(time \<Rightarrow> db \<Rightarrow> 'a \<times> db) \<Rightarrow> 'a act" where
  "countA f = storeA (\<lambda>now fresh seq d. Inr (f now d))"

definition freshA :: "uuid act" where
  "freshA w = (Inr (w_fresh w), w\<lparr>w_fresh := w_fresh w + 1\<rparr>)"

section \<open>Calls of the runtime\<close>

definition outsideA :: "outside_call \<Rightarrow> (nat \<Rightarrow> go_error + 'a) \<Rightarrow> 'a act" where
  "outsideA c f w = (f (length (w_calls w)), w\<lparr>w_calls := w_calls w @ [(c, w_db w)]\<rparr>)"

section \<open>Calls without interference\<close>

text \<open>Rules to compute with calls of the store when the script is empty, and to invert actions that have succeeded.\<close>

definition tick :: "world \<Rightarrow> world" where
  "tick w = w\<lparr>w_fresh := w_fresh w + 1, w_seq := w_seq w + 1\<rparr>"

lemma tick_simps [simp]: "w_db (tick w) = w_db w" "w_script (tick w) = w_script w"
  by (simp_all add: tick_def)

text \<open>Without interference a call of the store is its operation on the database.\<close>

lemma storeA_alone:
  "w_script w = [] \<Longrightarrow> storeA f w = (case f (w_now w) (w_fresh w) (w_seq w) (w_db w) of
     Inl e \<Rightarrow> (Inl (StoreError e), tick w) | Inr (x, d) \<Rightarrow> (Inr x, (tick w)\<lparr>w_db := d\<rparr>))"
  by (simp add: storeA_def before_call_def tick_def Let_def split: sum.split prod.split)

lemma alone_simps:
  assumes "w_script w = []"
  shows "readA g w = (Inr (g (w_now w) (w_db w)), tick w)"
    and "writeA h w = (Inr (), (tick w)\<lparr>w_db := h (w_now w) (w_db w)\<rparr>)"
    and "tryA k w = (case k (w_now w) (w_db w) of
       Inl e \<Rightarrow> (Inl (StoreError e), tick w) | Inr d \<Rightarrow> (Inr (), (tick w)\<lparr>w_db := d\<rparr>))"
    and "countA c w = (Inr (fst (c (w_now w) (w_db w))), (tick w)\<lparr>w_db := snd (c (w_now w) (w_db w))\<rparr>)"
  using assms by (auto simp: readA_def writeA_def tryA_def countA_def storeA_alone tick_def split: sum.split prod.split)

section \<open>Inversion\<close>

lemma freshA_Inr [inversion]:
  "freshA w = (Inr i, w') \<longleftrightarrow> i = w_fresh w \<and> w' = w\<lparr>w_fresh := w_fresh w + 1\<rparr>"
  by (auto simp: freshA_def)

lemma storeA_Inr: "storeA f w = (Inr x, w') \<Longrightarrow> \<exists>now fresh seq d d'. f now fresh seq d = Inr (x, d')"
  unfolding storeA_def by (fastforce split: prod.splits option.splits sum.splits)

lemma storeA_Inr_alone:
  "w_script w = [] \<Longrightarrow> storeA f w = (Inr x, w')
    \<longleftrightarrow> (\<exists>d. f (w_now w) (w_fresh w) (w_seq w) (w_db w) = Inr (x, d) \<and> w' = (tick w)\<lparr>w_db := d\<rparr>)"
  by (auto simp: storeA_alone split: sum.splits)

lemma readA_Inr_alone:
  "w_script w = [] \<Longrightarrow> readA f w = (Inr x, w') \<longleftrightarrow> x = f (w_now w) (w_db w) \<and> w' = tick w"
  by (auto simp: alone_simps)

lemmas store_alone = storeA_Inr_alone readA_Inr_alone

end
