(* ===== verification/Manager_Operations.thy ===== *)
theory Manager_Operations
  imports Manager_World
begin

text \<open>
  The operations of the manager (\<open>BE/internal/machine/manager.go\<close>): \<open>processOperation\<close> with one
  definition per action, and the helpers it shares with the agent runs and the reconciler. The
  pointer arguments of the source that are never nil are plain arguments.
\<close>

section \<open>Texts, codes and names\<close>

definition safeError :: "Manager \<Rightarrow> go_error \<Rightarrow> string" where
  "safeError M e = take 2000 (error_text (mg_driver M) e)"

definition errorCode :: "Manager \<Rightarrow> go_error \<Rightarrow> string" where
  "errorCode M e = (let message = error_text (mg_driver M) e in
     case IndexByte message (CHR '':'') of
       Some i \<Rightarrow> if 0 < i \<and> i < 128
                 then ToLower (mg_unicode_lower M) (ReplaceAll (take i message) '' '' ''_'')
                 else ''runtime_error''
     | None \<Rightarrow> ''runtime_error'')"

definition redact :: "Manager \<Rightarrow> string \<Rightarrow> secrets \<Rightarrow> string" where
  "redact M value secrets = fold (\<lambda>(name, secret) v.
     if secret \<noteq> [] then ReplaceAll v secret ''[REDACTED]'' else v) (mg_range M secrets) value"

definition lifecycleFailureAffectsMachine :: "DevMachineOperationAction \<Rightarrow> bool" where
  "lifecycleFailureAffectsMachine action \<longleftrightarrow> action \<in> {OpSpawn, OpStart, OpStop, OpPause, OpTeardown}"

definition checkoutRepositoryFullName :: "DevMachine option \<Rightarrow> DevMachineCheckout option \<Rightarrow> string" where
  "checkoutRepositoryFullName machine checkout = (case checkout of
       Some c \<Rightarrow> co_RepositoryFullName c
     | None \<Rightarrow> (case machine of
         None \<Rightarrow> []
       | Some m \<Rightarrow> if m_RepoOwner m = [] \<or> m_RepoName m = [] then []
                   else m_RepoOwner m @ ''/'' @ m_RepoName m))"

definition splitRepositoryFullName :: "string \<Rightarrow> (string \<times> string) option" where
  "splitRepositoryFullName fullName = (case SplitN2 fullName (CHR ''/'') of
       [a, b] \<Rightarrow> if a = [] \<or> b = [] then None else Some (a, b)
     | _ \<Rightarrow> None)"

definition isImmutableLocalImageID :: "string \<Rightarrow> bool" where
  "isImmutableLocalImageID reference =
     (let r = TrimSpace reference in HasPrefix r ''sha256:'' \<and> length ''sha256:'' < length r)"

definition hex_rune :: "nat \<Rightarrow> bool" where
  "hex_rune r \<longleftrightarrow> 48 \<le> r \<and> r \<le> 57 \<or> 97 \<le> r \<and> r \<le> 102 \<or> 65 \<le> r \<and> r \<le> 70"

definition normalizeImmutableImageID :: "string \<Rightarrow> string" where
  "normalizeImmutableImageID reference = (let r = TrimSpace reference in
     if isImmutableLocalImageID r then r
     else if length r = 64 \<and> list_all (hex_rune \<circ> fst) (runes r) then ''sha256:'' @ r
     else r)"

definition runtimeReady :: "RuntimeInspection \<Rightarrow> DevMachineService list \<Rightarrow> bool" where
  "runtimeReady inspection services \<longleftrightarrow>
     ri_NetworkExists inspection \<and> ri_VolumeExists inspection \<and> ri_GatewayAttached inspection
   \<and> list_all (\<lambda>service. sv_ServiceType service = ''agent''
        \<or> (case ri_Services inspection (sv_ServiceKey service) of
             None \<Rightarrow> False
           | Some actual \<Rightarrow> si_Exists actual \<and> si_Running actual \<and> si_OnNetwork actual
               \<and> si_HealthStatus actual = ''healthy'')) services"

text \<open>\<open>%s\<close> of a status: the constants' values.\<close>

fun status_text :: "DevMachineStatus \<Rightarrow> string" where
  "status_text StatusConfiguring = ''configuring''"
| "status_text StatusQueued = ''queued''"
| "status_text StatusSpawning = ''spawning''"
| "status_text StatusRunning = ''running''"
| "status_text StatusPaused = ''paused''"
| "status_text StatusStopping = ''stopping''"
| "status_text StatusStopped = ''stopped''"
| "status_text StatusTearingDown = ''tearing_down''"
| "status_text StatusDestroyed = ''destroyed''"
| "status_text StatusFailed = ''failed''"
| "status_text StatusExpired = ''expired''"

text \<open>\<open>values[k] = v\<close> on a map listed by its entries.\<close>

definition map_put :: "'k \<Rightarrow> 'v \<Rightarrow> ('k \<times> 'v) list \<Rightarrow> ('k \<times> 'v) list" where
  "map_put k v xs = (if list_ex (\<lambda>p. fst p = k) xs
     then map (\<lambda>p. if fst p = k then (k, v) else p) xs else xs @ [(k, v)])"

section \<open>Shared steps\<close>

definition wrapA :: "string \<Rightarrow> 'a act \<Rightarrow> 'a act" where
  "wrapA s a w = (case a w of (Inl e, w') \<Rightarrow> (Inl (Wrapped s e), w') | (Inr x, w') \<Rightarrow> (Inr x, w'))"

definition setStateA ::
  "uuid \<Rightarrow> int \<Rightarrow> bool \<Rightarrow> DevMachineStatus \<Rightarrow> string option \<Rightarrow> string option \<Rightarrow> string option
     \<Rightarrow> string option \<Rightarrow> bool act" where
  "setStateA i generation allowStale status networkName volumeName code message = countA (\<lambda>now.
     SetMachineStateForOperation now i generation allowStale status networkName volumeName code message)"

definition updateServiceA :: "uuid \<Rightarrow> string \<Rightarrow> string \<Rightarrow> string \<Rightarrow> unit act" where
  "updateServiceA i container status health =
     writeA (\<lambda>now. UpdateServiceRuntime now i container status health None)"

text \<open>The loops that record the state of every service with a container; errors are dropped.\<close>

definition markServices ::
  "(DevMachineService \<Rightarrow> bool) \<Rightarrow> string \<Rightarrow> string \<Rightarrow> DevMachineService list \<Rightarrow> unit act" where
  "markServices P status health services = eachA (\<lambda>service.
     case sv_ContainerID service of
       None \<Rightarrow> returnA ()
     | Some container \<Rightarrow> whenA (P service) (ignore (updateServiceA (sv_ID service) container status health)))
     services"

definition createEvent ::
  "DevMachine \<Rightarrow> uuid option \<Rightarrow> string \<Rightarrow> string \<Rightarrow> json option \<Rightarrow> unit act" where
  "createEvent machine runID source eventType payload = storeA (\<lambda>now fresh seq d.
     case CreateEvent now now seq \<lparr>me_ID = 0, me_WorkspaceID = m_WorkspaceID machine,
         me_MachineID = m_ID machine, me_AgentRunID = runID, me_ActorUserID = None,
         me_Source = source, me_EventType = eventType,
         me_Payload = (case payload of None \<Rightarrow> ''{}'' | Some p \<Rightarrow> Marshal p),
         me_OccurredAt = now, me_CreatedAt = 0\<rparr> d of
       Inl e \<Rightarrow> Inl e | Inr (_, d') \<Rightarrow> Inr ((), d'))"

text \<open>
  A nil \<open>map[string]any\<close> is not a nil interface, so \<open>createEvent\<close> marshals it to \<open>null\<close>. The
  type assertions read string values of the map.
\<close>

definition string_member :: "string \<Rightarrow> (string \<times> json) list option \<Rightarrow> string option" where
  "string_member k payload = (case payload of
       None \<Rightarrow> None
     | Some ms \<Rightarrow> (case map_of ms k of Some (JString s) \<Rightarrow> Some s | _ \<Rightarrow> None))"

definition payload_json :: "(string \<times> json) list option \<Rightarrow> json" where
  "payload_json payload = (case payload of None \<Rightarrow> JNull | Some ms \<Rightarrow> JObject ms)"

definition setStateAndEventForOperation ::
  "DevMachine \<Rightarrow> DevMachineOperation \<Rightarrow> DevMachineStatus \<Rightarrow> string \<Rightarrow> (string \<times> json) list option
     \<Rightarrow> bool \<Rightarrow> unit act" where
  "setStateAndEventForOperation machine operation status eventType payload allowStale =
     bindA (setStateA (m_ID machine) (op_Generation operation) allowStale status
        (string_member ''docker_network_name'' payload) (string_member ''workspace_volume_name'' payload)
        None None)
     (\<lambda>updated. if \<not> updated then returnA ()
        else createEvent machine None ''lifecycle'' eventType (Some (payload_json payload)))"

section \<open>Credentials and secrets\<close>

definition registerRuntimeCredential :: "Manager \<Rightarrow> uuid \<Rightarrow> string \<Rightarrow> time \<Rightarrow> unit act" where
  "registerRuntimeCredential M machineID token expiresAt =
     bindA (getA (\<lambda>w. mg_Encrypt M (length (w_calls w)) token)) (\<lambda>r. case r of
       Inl e \<Rightarrow> failA (Wrapped ''credential_encryption_failed'' e)
     | Inr encrypted \<Rightarrow> bindA freshA (\<lambda>i. storeA (\<lambda>now fresh seq d.
         case UpsertRuntimeCredential now fresh \<lparr>rc_ID = i, rc_MachineID = machineID,
             rc_Scope = ''machine'', rc_CredentialType = ''github_installation_token'',
             rc_FingerprintSHA256 = EncodeToString (mg_sha256 M token),
             rc_EncryptedValue = encrypted, rc_EncryptionKeyVersion = 1,
             rc_ExpiresAt = expiresAt, rc_CreatedAt = 0, rc_UpdatedAt = 0\<rparr> d of
           Inl e \<Rightarrow> Inl e | Inr (_, d') \<Rightarrow> Inr ((), d'))))"

text \<open>The GitHub client: the manager's own, or one made from the workspace's app configuration.\<close>

definition githubClient :: "Manager \<Rightarrow> DevMachine \<Rightarrow> githubAPI act" where
  "githubClient M machine = (case mg_github M of
       Some client \<Rightarrow> returnA client
     | None \<Rightarrow> bindA (readA (\<lambda>now. GetGitHubAppConfig (m_WorkspaceID machine))) (\<lambda>config. case config of
         None \<Rightarrow> failA (StoreError ErrNoRows)
       | Some c \<Rightarrow> if \<not> mg_githubKey M then failA (StoreError ErrNoRows)
         else (case mg_DecryptAppKey M (gc_PrivateKey c) of
             Inl e \<Rightarrow> failA (Wrapped ''github_app_decryption_failed'' e)
           | Inr privateKey \<Rightarrow> (\<lambda>w. (mg_NewClient M (gc_AppID c) privateKey, w)))))"

definition repositoryToken :: "Manager \<Rightarrow> DevMachine \<Rightarrow> string \<Rightarrow> (githubAPI \<times> string) act" where
  "repositoryToken M machine repositoryFullName0 =
     (let repositoryFullName = (if repositoryFullName0 = []
          then checkoutRepositoryFullName (Some machine) None else repositoryFullName0) in
      case splitRepositoryFullName repositoryFullName of
        None \<Rightarrow> failA (StoreError ErrNoRows)
      | Some (repoOwner, repoName) \<Rightarrow>
          bindA (storeA (\<lambda>now fresh seq d.
              case GetGitHubInstallationID (m_WorkspaceID machine) (repoOwner @ ''/'' @ repoName) d of
                None \<Rightarrow> Inl ErrNoRows | Some i \<Rightarrow> Inr (i, d))) (\<lambda>installationID.
          bindA (githubClient M machine) (\<lambda>client.
          bindA (outsideA (CallInstallationToken installationID repoName)
              (\<lambda>n. gh_GetRepositoryInstallationToken client n installationID repoName)) (\<lambda>(token, expiresAt).
          if token = [] then failA (Errorf ''empty GitHub installation token'')
          else thenA (wrapA ''runtime_credential_registration_failed''
              (registerRuntimeCredential M (m_ID machine) token expiresAt))
            (returnA (client, token))))))"

definition decryptAll :: "Manager \<Rightarrow> DevMachineEnvVar list \<Rightarrow> go_error + secrets" where
  "decryptAll M envVars = fold (\<lambda>v r. bindE r (\<lambda>values.
     case mg_Decrypt M (ev_EncryptedValue v) of
       Inl e \<Rightarrow> Inl (Wrapped ''secret_decryption_failed'' e)
     | Inr value \<Rightarrow> Inr (map_put (ev_Name v) value values))) envVars (Inr [])"

fun service_values :: "Manager \<Rightarrow> DevMachine \<Rightarrow> DevMachineService list \<Rightarrow> service_secrets
    \<Rightarrow> service_secrets act" where
  "service_values M machine [] acc = returnA acc"
| "service_values M machine (service # rest) acc =
     (if sv_ServiceType service = ''agent'' then service_values M machine rest acc
      else bindA (readA (\<lambda>now. ListEnvVarsInternal now (mg_collate M) (m_ID machine) None
             (sv_ServiceType service)))
        (\<lambda>envVars. case decryptAll M envVars of
            Inl e \<Rightarrow> failA e
          | Inr values \<Rightarrow> service_values M machine rest (map_put (sv_ServiceKey service) values acc)))"

definition serviceSecrets ::
  "Manager \<Rightarrow> DevMachine \<Rightarrow> DevMachineService list \<Rightarrow> service_secrets act" where
  "serviceSecrets M machine services = bindA (service_values M machine services []) (\<lambda>secrets.
     case map_of secrets ''ide'' of
       None \<Rightarrow> returnA secrets
     | Some ide \<Rightarrow> bindA (attempt (repositoryToken M machine [])) (\<lambda>r. case r of
           Inr (_, token) \<Rightarrow>
             if token \<noteq> [] then returnA (map_put ''ide'' (map_put ''GITHUB_TOKEN'' token ide) secrets)
             else returnA secrets
         | Inl e \<Rightarrow> if is_no_rows e then returnA secrets
                  else failA (Wrapped ''github_token_failed'' e)))"

section \<open>Agent runs in progress\<close>

definition registerActiveRun :: "uuid \<Rightarrow> uuid \<Rightarrow> unit act" where
  "registerActiveRun machineID runID = putA (\<lambda>w. w\<lparr>w_active :=
     (machineID, runID) # filter (\<lambda>p. p \<noteq> (machineID, runID)) (w_active w)\<rparr>)"

definition unregisterActiveRun :: "uuid \<Rightarrow> uuid \<Rightarrow> unit act" where
  "unregisterActiveRun machineID runID =
     putA (\<lambda>w. w\<lparr>w_active := filter (\<lambda>p. p \<noteq> (machineID, runID)) (w_active w)\<rparr>)"

definition cancelRun :: "uuid \<Rightarrow> unit act" where
  "cancelRun runID = thenA
     (ignore (bindA (readA (\<lambda>now. GetAgentRunInternal runID)) (\<lambda>run. case run of
        None \<Rightarrow> returnA ()
      | Some r \<Rightarrow> whenA (\<not> terminalAgentStatus (ar_Status r))
          (tryA (\<lambda>now. CompleteAgentRun now (r\<lparr>ar_Status := RunCancelled\<rparr>))))))
     (putA (\<lambda>w. w\<lparr>w_cancelled := runID # w_cancelled w\<rparr>))"

definition cancelActiveRuns :: "uuid \<Rightarrow> uuid option \<Rightarrow> unit act" where
  "cancelActiveRuns machineID runID = bindA
     (getA (\<lambda>w. map snd (filter (\<lambda>p. fst p = machineID \<and> (runID = None \<or> runID = Some (snd p)))
        (w_active w))))
     (eachA cancelRun)"

definition no_result :: "DevMachineAgentRun \<Rightarrow> DevMachineAgentRun" where
  "no_result r = r\<lparr>ar_ExitCode := Some (-1), ar_ChangedFiles := ''[]'', ar_Commits := ''[]'',
     ar_TestsRun := ''[]'', ar_RiskNotes := ''[]''\<rparr>"

definition endAgentRun :: "(DevMachineAgentRun \<Rightarrow> DevMachineAgentRun) \<Rightarrow> uuid \<Rightarrow> unit act" where
  "endAgentRun f runID = ignore (bindA (readA (\<lambda>now. GetAgentRunInternal runID)) (\<lambda>run. case run of
       None \<Rightarrow> returnA ()
     | Some r \<Rightarrow> whenA (\<not> terminalAgentStatus (ar_Status r)) (tryA (\<lambda>now. CompleteAgentRun now (f r)))))"

definition failAgentRun :: "Manager \<Rightarrow> uuid \<Rightarrow> go_error \<Rightarrow> unit act" where
  "failAgentRun M runID e = endAgentRun (\<lambda>r. no_result (r\<lparr>ar_Status := RunFailed,
     ar_ErrorMessage := Some (safeError M e)\<rparr>)) runID"

definition cancelStaleAgentRun :: "uuid \<Rightarrow> unit act" where
  "cancelStaleAgentRun runID = endAgentRun (\<lambda>r. no_result (r\<lparr>ar_Status := RunCancelled\<rparr>)) runID"

section \<open>Lifecycle operations\<close>

definition not_agent :: "DevMachineService \<Rightarrow> bool" where
  "not_agent service \<longleftrightarrow> sv_ServiceType service \<noteq> ''agent''"

definition spawnA ::
  "Manager \<Rightarrow> DevMachine \<Rightarrow> DevMachineService list \<Rightarrow> service_secrets
     \<Rightarrow> (string \<times> string \<times> (string \<Rightarrow> string option)) act" where
  "spawnA M machine services secrets = outsideA (CallSpawn machine services secrets)
     (\<lambda>n. rt_Spawn (mg_runtime M) n machine services secrets)"

definition teardownA :: "Manager \<Rightarrow> DevMachine \<Rightarrow> DevMachineService list \<Rightarrow> unit act" where
  "teardownA M machine services = outsideA (CallTeardown machine services)
     (\<lambda>n. rt_Teardown (mg_runtime M) n machine services)"

definition pauseA :: "Manager \<Rightarrow> DevMachine \<Rightarrow> DevMachineService list \<Rightarrow> unit act" where
  "pauseA M machine services = outsideA (CallPause machine services)
     (\<lambda>n. rt_Pause (mg_runtime M) n machine services)"

definition stopA :: "Manager \<Rightarrow> DevMachine \<Rightarrow> DevMachineService list \<Rightarrow> unit act" where
  "stopA M machine services = outsideA (CallStop machine services)
     (\<lambda>n. rt_Stop (mg_runtime M) n machine services)"

definition cancelAgentA :: "Manager \<Rightarrow> DevMachineAgentRun \<Rightarrow> unit act" where
  "cancelAgentA M run = outsideA (CallCancelAgent run) (\<lambda>n. rt_CancelAgent (mg_runtime M) n run)"

definition revokeA :: "uuid \<Rightarrow> unit act" where
  "revokeA machineID = writeA (\<lambda>now. RevokeMachineAccess now machineID)"

definition spawn ::
  "Manager \<Rightarrow> DevMachine \<Rightarrow> DevMachineService list \<Rightarrow> DevMachineOperation \<Rightarrow> unit act" where
  "spawn M machine services operation =
     bindA (setStateA (m_ID machine) (op_Generation operation) False StatusSpawning None None None None)
     (\<lambda>updated. if \<not> updated then returnA () else
       (let runtimeServices = filter not_agent services in
        bindA (serviceSecrets M machine runtimeServices) (\<lambda>secrets.
        bindA (spawnA M machine runtimeServices secrets) (\<lambda>(networkName, volumeName, containers).
        thenA (eachA (\<lambda>service. updateServiceA (sv_ID service)
            (case containers (sv_ServiceKey service) of None \<Rightarrow> [] | Some c \<Rightarrow> c) ''running'' ''healthy'')
            runtimeServices)
        (bindA (setStateA (m_ID machine) (op_Generation operation) False StatusRunning
            (Some networkName) (Some volumeName) None None)
        (\<lambda>updated. if \<not> updated then ignore (teardownA M machine runtimeServices)
           else createEvent machine None ''lifecycle'' ''machine.running'' (Some (JObject
             [(''docker_network_name'', JString networkName),
              (''workspace_volume_name'', JString volumeName)]))))))))"

definition started_service :: "DevMachine \<Rightarrow> DevMachineService \<Rightarrow> bool" where
  "started_service machine service \<longleftrightarrow> \<not> (sv_ServiceType service = ''agent''
     \<and> (m_Status machine \<noteq> StatusPaused
        \<or> sv_Status service \<noteq> ''running'' \<and> sv_Status service \<noteq> ''paused''))"

definition processStart ::
  "Manager \<Rightarrow> DevMachine \<Rightarrow> DevMachineService list \<Rightarrow> DevMachineOperation \<Rightarrow> unit act" where
  "processStart M machine services operation =
     (if m_Status machine \<in> {StatusFailed, StatusSpawning, StatusQueued}
      then spawn M machine services operation
      else if m_Status machine \<in> {StatusPaused, StatusStopped}
      then thenA (whenA (m_Status machine = StatusPaused) (revokeA (m_ID machine)))
        (bindA (serviceSecrets M machine services) (\<lambda>secrets.
         thenA (outsideA (CallStart machine services secrets)
            (\<lambda>n. rt_Start (mg_runtime M) n machine services secrets))
        (thenA (markServices (started_service machine) ''running'' ''healthy'' services)
         (setStateAndEventForOperation machine operation StatusRunning ''machine.started'' None False))))
      else returnA ())"

definition processPause ::
  "Manager \<Rightarrow> DevMachine \<Rightarrow> DevMachineService list \<Rightarrow> DevMachineOperation \<Rightarrow> unit act" where
  "processPause M machine services operation =
     (if m_Status machine = StatusPaused then revokeA (m_ID machine)
      else thenA (revokeA (m_ID machine))
       (thenA (pauseA M machine services)
       (thenA (markServices (\<lambda>service. sv_ServiceType service \<noteq> ''agent'' \<or> sv_Status service = ''running'')
          ''paused'' ''paused'' services)
        (setStateAndEventForOperation machine operation StatusPaused ''machine.paused'' None False))))"

definition processStop ::
  "Manager \<Rightarrow> DevMachine \<Rightarrow> DevMachineService list \<Rightarrow> DevMachineOperation \<Rightarrow> unit act" where
  "processStop M machine services operation =
     (if m_Status machine = StatusStopped then returnA ()
      else bindA (setStateA (m_ID machine) (op_Generation operation) False StatusStopping None None None None)
       (\<lambda>updated. if \<not> updated then returnA ()
        else thenA (stopA M machine services)
         (thenA (markServices (\<lambda>_. True) ''stopped'' ''stopped'' services)
         (thenA (ignore (revokeA (m_ID machine)))
          (setStateAndEventForOperation machine operation StatusStopped ''machine.stopped'' None False)))))"

definition processTeardown ::
  "Manager \<Rightarrow> DevMachine \<Rightarrow> DevMachineService list \<Rightarrow> DevMachineOperation \<Rightarrow> unit act" where
  "processTeardown M machine services operation =
     (if m_Status machine = StatusDestroyed then returnA ()
      else bindA (setStateA (m_ID machine) (op_Generation operation) True StatusTearingDown None None None None)
       (\<lambda>updated. if \<not> updated then returnA ()
        else thenA (cancelActiveRuns (m_ID machine) None)
         (thenA (ignore (revokeA (m_ID machine)))
         (thenA (teardownA M machine services)
         (thenA (markServices (\<lambda>_. True) ''destroyed'' ''stopped'' services)
          (setStateAndEventForOperation machine operation StatusDestroyed ''machine.destroyed'' None True))))))"

section \<open>Operations on runs, checkouts, terminals and environments\<close>

definition processCancelAgent ::
  "Manager \<Rightarrow> DevMachine \<Rightarrow> DevMachineService list \<Rightarrow> DevMachineOperation \<Rightarrow> unit act" where
  "processCancelAgent M machine services operation = (case op_AgentRunID operation of
       None \<Rightarrow> failA (Errorf ''invalid_operation: cancel operation has no agent run'')
     | Some runID \<Rightarrow> bindA (readA (\<lambda>now. GetAgentRunInternal runID)) (\<lambda>found. case found of
         None \<Rightarrow> returnA ()
       | Some run \<Rightarrow>
         thenA (cancelActiveRuns (m_ID machine) (Some (ar_ID run)))
        (thenA (cancelAgentA M run)
         (markServices (\<lambda>service. sv_AgentRunID service = Some (ar_ID run)) ''stopped'' ''stopped'' services))))"

definition processCheckout ::
  "Manager \<Rightarrow> DevMachine \<Rightarrow> DevMachineService list \<Rightarrow> DevMachineOperation \<Rightarrow> unit act" where
  "processCheckout M machine services operation = (case op_CheckoutID operation of
       None \<Rightarrow> failA (Errorf ''invalid_operation: checkout operation has no checkout'')
     | Some checkoutID \<Rightarrow> bindA (readA (\<lambda>now. GetCheckoutInternal checkoutID)) (\<lambda>found. case found of
         None \<Rightarrow> returnA ()
       | Some checkout \<Rightarrow>
         if co_Status checkout = ''ready'' then returnA ()
         else thenA (tryA (\<lambda>now. UpdateCheckoutState now (co_ID checkout) ''preparing'' None))
          (bindA (wrapA ''github_token_failed'' (repositoryToken M machine (co_RepositoryFullName checkout)))
          (\<lambda>(_, token).
           thenA (outsideA (CallPrepareCheckout machine checkout token)
              (\<lambda>n. rt_PrepareCheckout (mg_runtime M) n machine services checkout token))
          (thenA (tryA (\<lambda>now. UpdateCheckoutState now (co_ID checkout) ''ready'' None))
           (createEvent machine None ''git'' ''checkout.ready'' (Some (JObject
              [(''branch'', JString (co_WorkingBranch checkout)),
               (''checkout_id'', JString (uuid_String (co_ID checkout))),
               (''issue_id'', JString (uuid_String (co_IssueID checkout)))]))))))))"

definition processTerminateTerminal ::
  "Manager \<Rightarrow> DevMachine \<Rightarrow> DevMachineService list \<Rightarrow> DevMachineOperation \<Rightarrow> unit act" where
  "processTerminateTerminal M machine services operation = (case op_TerminalSessionID operation of
       None \<Rightarrow> failA (Errorf ''invalid_operation: terminal close operation has no session'')
     | Some sessionID \<Rightarrow> bindA (readA (\<lambda>now. GetTerminalSessionInternal sessionID)) (\<lambda>found. case found of
         None \<Rightarrow> returnA ()
       | Some session \<Rightarrow>
         if ts_MachineID session \<noteq> m_ID machine \<or> ts_WorkspaceID session \<noteq> m_WorkspaceID machine
         then failA (TerminalOp ''terminal_session_mismatch''
           ''terminal session does not belong to the operation machine'')
         else if ts_Status session = ''closed'' then returnA ()
         else thenA (wrapA ''terminal_termination_failed''
            (outsideA (CallTerminateTerminal machine session)
              (\<lambda>n. rt_TerminateTerminal (mg_runtime M) n machine services session)))
          (writeA (\<lambda>now. CompleteTerminalSessionClose now (ts_ID session)))))"

definition failSnapshotOperation :: "DevMachineOperation \<Rightarrow> string \<Rightarrow> string \<Rightarrow> unit act" where
  "failSnapshotOperation operation code message = (case op_EnvironmentID operation of
       None \<Rightarrow> failA (TerminalOp code (message @ ''; snapshot environment is missing''))
     | Some environmentID \<Rightarrow>
       bindA (readA (\<lambda>now. GetEnvironment (op_WorkspaceID operation) environmentID)) (\<lambda>found. case found of
         None \<Rightarrow> failA (TerminalOp code (message @ ''; snapshot environment no longer exists''))
       | Some environment \<Rightarrow>
         if en_Status environment = ''ready'' \<or> en_Status environment = ''delete_requested'' then returnA ()
         else thenA (whenA (en_Status environment \<noteq> ''failed'')
            (tryA (\<lambda>now. UpdateEnvironmentState now (en_ID environment) ''failed'' [] None)))
          (failA (TerminalOp code message))))"

definition snapshot_failed :: "DevMachineEnvironment \<Rightarrow> unit act" where
  "snapshot_failed environment =
     ignore (tryA (\<lambda>now. UpdateEnvironmentState now (en_ID environment) ''failed'' [] None))"

definition takeSnapshot ::
  "Manager \<Rightarrow> DevMachine \<Rightarrow> DevMachineService list \<Rightarrow> DevMachineEnvironment \<Rightarrow> unit act" where
  "takeSnapshot M machine services stored =
     thenA (tryA (\<lambda>now. UpdateEnvironmentState now (en_ID stored) ''building'' (en_ImageRef stored) None))
     (let environment = stored\<lparr>en_Status := ''building''\<rparr> in
      bindA (attempt (outsideA (CallSnapshotEnvironment machine environment)
          (\<lambda>n. rt_SnapshotEnvironment (mg_runtime M) n machine services environment))) (\<lambda>r. case r of
        Inl e \<Rightarrow> thenA (snapshot_failed environment) (failA e)
      | Inr digest \<Rightarrow>
        (let image = normalizeImmutableImageID digest in
         if \<not> isImmutableLocalImageID image
         then thenA (snapshot_failed environment)
           (failA (Errorf ''environment_snapshot_invalid_image_id: snapshot did not return an immutable local image ID''))
         else thenA (tryA (\<lambda>now. UpdateEnvironmentState now (en_ID environment) ''ready'' image (Some image)))
           (createEvent machine None ''lifecycle'' ''environment.snapshot_ready'' (Some (JObject
              [(''environment_id'', JString (uuid_String (en_ID environment))),
               (''image_digest'', JString image), (''image_ref'', JString image)]))))))"

definition processSnapshot ::
  "Manager \<Rightarrow> DevMachine \<Rightarrow> DevMachineService list \<Rightarrow> DevMachineOperation \<Rightarrow> unit act" where
  "processSnapshot M machine services operation = (case op_EnvironmentID operation of
       None \<Rightarrow> failA (Errorf ''invalid_operation: snapshot operation has no environment'')
     | Some environmentID \<Rightarrow>
       bindA (readA (\<lambda>now. GetEnvironment (m_WorkspaceID machine) environmentID)) (\<lambda>found. case found of
         None \<Rightarrow> returnA ()
       | Some environment \<Rightarrow>
         if en_Status environment = ''delete_requested'' then returnA ()
         else if en_Status environment = ''ready'' then returnA ()
         else if \<not> (m_Status machine = m_DesiredStatus machine
              \<and> m_Status machine \<in> {StatusPaused, StatusStopped})
         then failSnapshotOperation operation ''environment_snapshot_state_changed''
           (''machine is '' @ status_text (m_Status machine) @ '' with desired state ''
            @ status_text (m_DesiredStatus machine))
         else takeSnapshot M machine services environment))"

section \<open>Git references and pull requests\<close>

text \<open>An empty \<open>refName\<close>, \<open>commit\<close> or \<open>refURL\<close> leaves the column null.\<close>

definition non_empty :: "string \<Rightarrow> string option" where
  "non_empty s = (if s = [] then None else Some s)"

definition persistGitRef ::
  "DevMachine \<Rightarrow> DevMachineCheckout option \<Rightarrow> DevMachineAgentRun \<Rightarrow> string \<Rightarrow> string \<Rightarrow> string
     \<Rightarrow> int option \<Rightarrow> string \<Rightarrow> unit act" where
  "persistGitRef machine checkout run refType refName commit pullRequestNumber refURL =
     storeA (\<lambda>now fresh seq d. case CreateGitRef now fresh \<lparr>gr_ID = 0,
         gr_WorkspaceID = m_WorkspaceID machine, gr_MachineID = m_ID machine,
         gr_AgentRunID = Some (ar_ID run),
         gr_IssueID = (case checkout of Some c \<Rightarrow> Some (co_IssueID c) | None \<Rightarrow> m_IssueID machine),
         gr_RefType = refType,
         gr_RepositoryFullName = checkoutRepositoryFullName (Some machine) checkout,
         gr_RefName = non_empty refName, gr_CommitSHA = non_empty commit,
         gr_PullRequestNumber = pullRequestNumber, gr_URL = non_empty refURL, gr_CreatedAt = 0\<rparr> d of
       Inl e \<Rightarrow> Inl e | Inr (_, d') \<Rightarrow> Inr ((), d'))"

text \<open>\<open>strings.Trim(path, "/")\<close>\<close>

definition trim_slashes :: "string \<Rightarrow> string" where
  "trim_slashes s = rev (dropWhile ((=) (CHR ''/'')) (rev (dropWhile ((=) (CHR ''/'')) s)))"

definition safeGitHubPullRequestURL :: "Manager \<Rightarrow> string \<Rightarrow> string \<Rightarrow> string option" where
  "safeGitHubPullRequestURL M value repositoryFullName =
     (case Split repositoryFullName (CHR ''/'') of
        [owner, name] \<Rightarrow>
          if owner = [] \<or> name = [] then None
          else (case mg_url_Parse M value of
              None \<Rightarrow> None
            | Some parsed \<Rightarrow>
              if ur_Scheme parsed \<noteq> ''https'' \<or> \<not> mg_equal_fold M (ur_Hostname parsed) ''github.com''
                 \<or> ur_User parsed \<or> ur_Port parsed \<noteq> [] \<or> ur_RawQuery parsed \<noteq> [] \<or> ur_Fragment parsed \<noteq> []
              then None
              else (case Split (trim_slashes (ur_Path parsed)) (CHR ''/'') of
                  [p0, p1, p2, p3] \<Rightarrow>
                    if \<not> mg_equal_fold M p0 owner \<or> \<not> mg_equal_fold M p1 name \<or> p2 \<noteq> ''pull'' then None
                    else (case Atoi p3 of
                        None \<Rightarrow> None
                      | Some number \<Rightarrow> if number < 1 then None else Some (ur_Text parsed))
                | _ \<Rightarrow> None))
      | _ \<Rightarrow> None)"

end
