(* ===== verification/Manager_Agent.thy ===== *)
theory Manager_Agent
  imports Manager_Operations
begin

text \<open>
  \<open>runAgent\<close> of \<open>BE/internal/machine/manager.go\<close>, in the stages of its body: the checks before the
  start (\<open>runAgent\<close>), the secrets (\<open>agentSecrets\<close>), the execution (\<open>executeAgent\<close>), and the
  recording of the result (\<open>finishAgent\<close>) with the pull request (\<open>openPullRequest\<close>); then
  \<open>processOperation\<close>, which dispatches every operation.
\<close>

section \<open>Before the start\<close>

definition runCheckout :: "DevMachineAgentRun \<Rightarrow> DevMachineCheckout option act" where
  "runCheckout run = (case ar_CheckoutID run of
       None \<Rightarrow> returnA None
     | Some checkoutID \<Rightarrow> bindA (readA (\<lambda>now. GetCheckoutInternal checkoutID)) (\<lambda>found. case found of
         Some c \<Rightarrow> if co_Status c = ''ready'' then returnA (Some c)
                  else failA (Errorf ''checkout_not_ready: agent checkout is unavailable'')
       | None \<Rightarrow> failA (Errorf ''checkout_not_ready: agent checkout is unavailable'')))"

definition runProvider ::
  "Manager \<Rightarrow> DevMachine \<Rightarrow> DevMachineAgentRun \<Rightarrow> (DevMachineAgentProvider \<times> Provider) act" where
  "runProvider M machine run = bindA (attempt (readA (\<lambda>now.
       GetProvider (m_WorkspaceID machine) (m_ID machine) (ar_ProviderID run)))) (\<lambda>r. case r of
     Inr (Some record) \<Rightarrow> (case mg_agents M (ar_ProviderID run) of
         Some provider \<Rightarrow> returnA (record, provider)
       | None \<Rightarrow> failA (Errorf (''provider_not_found: '' @ ar_ProviderID run)))
   | _ \<Rightarrow> failA (Errorf (''provider_not_found: '' @ ar_ProviderID run)))"

text \<open>\<open>False\<close> where the source returns nil because the run ended meanwhile.\<close>

definition startRun :: "DevMachineAgentRun \<Rightarrow> bool act" where
  "startRun run = bindA (attempt (tryA (\<lambda>now. UpdateAgentRunStarted now (ar_ID run)))) (\<lambda>r. case r of
       Inr _ \<Rightarrow> returnA True
     | Inl e \<Rightarrow> if is_no_rows e
         then bindA (attempt (readA (\<lambda>now. GetAgentRunInternal (ar_ID run)))) (\<lambda>current. case current of
             Inr (Some c) \<Rightarrow> if terminalAgentStatus (ar_Status c) then returnA False else failA e
           | _ \<Rightarrow> failA e)
         else failA e)"

definition agentSecrets ::
  "Manager \<Rightarrow> DevMachine \<Rightarrow> DevMachineAgentRun \<Rightarrow> DevMachineCheckout option \<Rightarrow> secrets act" where
  "agentSecrets M machine run checkout = bindA (readA (\<lambda>now.
       ListEnvVarsInternal now (mg_collate M) (m_ID machine) (Some (ar_ProviderID run)) ''agent''))
     (\<lambda>envVars.
      case decryptAll M (filter (\<lambda>v. ev_Name v \<in> set (fst (Unmarshal_strings (ar_AllowedSecrets run)))) envVars) of
        Inl e \<Rightarrow> failA e
      | Inr secrets \<Rightarrow>
        if ar_PushBranch run \<or> ar_OpenPullRequest run
        then bindA (wrapA ''github_token_failed: repository-scoped GitHub App token is unavailable''
              (bindA (repositoryToken M machine (checkoutRepositoryFullName (Some machine) checkout))
                (\<lambda>(_, token). if token = []
                   then failA (Errorf ''no linked GitHub App installation'') else returnA token)))
            (\<lambda>token. returnA (map_put ''GITHUB_TOKEN'' token secrets))
        else returnA secrets)"

section \<open>The result\<close>

fun run_status_text :: "DevMachineAgentRunStatus \<Rightarrow> string" where
  "run_status_text RunQueued = ''queued''"
| "run_status_text RunStarting = ''starting''"
| "run_status_text RunRunning = ''running''"
| "run_status_text RunWaitingInput = ''waiting_input''"
| "run_status_text RunSucceeded = ''succeeded''"
| "run_status_text RunFailed = ''failed''"
| "run_status_text RunCancelled = ''cancelled''"
| "run_status_text RunTimeout = ''timeout''"

definition strings_json :: "string list option \<Rightarrow> json" where
  "strings_json xs = (case xs of None \<Rightarrow> JNull | Some ss \<Rightarrow> JArray (map JString ss))"

definition omitempty :: "string \<Rightarrow> string \<Rightarrow> (string \<times> json) list" where
  "omitempty k s = (if s = [] then [] else [(k, JString s)])"

definition artifact_json :: "Artifact \<Rightarrow> json" where
  "artifact_json a = JObject ([(''type'', JString (af_Type a)), (''name'', JString (af_Name a)),
     (''path'', JString (af_Path a))] @ omitempty ''content_type'' (af_ContentType a))"

definition result_json :: "RunResult \<Rightarrow> json" where
  "result_json r = JObject ([(''status'', JString (rr_Status r)), (''summary'', JString (rr_Summary r)),
     (''changed_files'', strings_json (rr_ChangedFiles r)), (''commits'', strings_json (rr_Commits r))]
   @ omitempty ''branch'' (rr_Branch r) @ omitempty ''pull_request_url'' (rr_PullRequestURL r)
   @ [(''tests_run'', strings_json (rr_TestsRun r)), (''test_status'', JString (rr_TestStatus r)),
      (''risk_notes'', strings_json (rr_RiskNotes r)),
      (''artifacts'', case rr_Artifacts r of None \<Rightarrow> JNull | Some xs \<Rightarrow> JArray (map artifact_json xs))])"

definition elements :: "string list option \<Rightarrow> string list" where
  "elements xs = (case xs of None \<Rightarrow> [] | Some ss \<Rightarrow> ss)"

definition risk_note :: "string \<Rightarrow> RunResult \<Rightarrow> RunResult" where
  "risk_note s r = r\<lparr>rr_RiskNotes := Some (elements (rr_RiskNotes r) @ [s])\<rparr>"

definition reported_url :: "Manager \<Rightarrow> string \<Rightarrow> RunResult \<Rightarrow> RunResult" where
  "reported_url M repositoryFullName r =
     (if rr_PullRequestURL r = [] then r
      else case safeGitHubPullRequestURL M (rr_PullRequestURL r) repositoryFullName of
          Some url \<Rightarrow> r\<lparr>rr_PullRequestURL := url\<rparr>
        | None \<Rightarrow> risk_note ''Agent-reported pull request URL was ignored because it did not match the selected GitHub repository.''
            (r\<lparr>rr_PullRequestURL := []\<rparr>))"

text \<open>The status of the result and of the run, in the order the source decides.\<close>

definition run_outcome ::
  "(go_error + DevMachineAgentRun option) \<Rightarrow> bool \<Rightarrow> go_error option \<Rightarrow> int \<Rightarrow> string
     \<Rightarrow> string \<times> DevMachineAgentRunStatus" where
  "run_outcome current timedOut executionErr exitCode status =
     (if (case current of Inr (Some c) \<Rightarrow> ar_Status c = RunCancelled | _ \<Rightarrow> False)
      then (''cancelled'', RunCancelled)
      else if timedOut then (''timeout'', RunTimeout)
      else if executionErr \<noteq> None \<or> exitCode \<noteq> 0 \<or> status = ''failed'' then (''failed'', RunFailed)
      else (status, RunSucceeded))"

section \<open>Recording an execution\<close>

definition logStream ::
  "DevMachine \<Rightarrow> DevMachineAgentRun \<Rightarrow> uuid \<Rightarrow> string \<Rightarrow> string \<Rightarrow> unit act" where
  "logStream machine run serviceID stream content = whenA (content \<noteq> []) (ignore (storeA (\<lambda>now fresh seq d.
     case CreateLogChunk now seq \<lparr>lc_ID = 0, lc_WorkspaceID = m_WorkspaceID machine,
         lc_MachineID = m_ID machine, lc_AgentRunID = Some (ar_ID run), lc_ServiceID = Some serviceID,
         lc_Stream = stream, lc_Sequence = 1, lc_Content = content, lc_Truncated = False,
         lc_CreatedAt = 0\<rparr> d of
       Inl e \<Rightarrow> Inl e | Inr (_, d') \<Rightarrow> Inr ((), d'))))"

definition providerEvent :: "DevMachine \<Rightarrow> DevMachineAgentRun \<Rightarrow> AgentEvent \<Rightarrow> unit act" where
  "providerEvent machine run event = ignore (storeA (\<lambda>now fresh seq d.
     case CreateEvent now now seq \<lparr>me_ID = 0, me_WorkspaceID = m_WorkspaceID machine,
         me_MachineID = m_ID machine, me_AgentRunID = Some (ar_ID run), me_ActorUserID = None,
         me_Source = ''agent'', me_EventType = ae_Type event,
         me_Payload = (if ae_Payload event = []
            then Marshal (JObject [(''message'', JString (ae_Message event))]) else ae_Payload event),
         me_OccurredAt = now, me_CreatedAt = 0\<rparr> d of
       Inl e \<Rightarrow> Inl e | Inr (_, d') \<Rightarrow> Inr ((), d')))"

text \<open>Owner, name, base and working branch of the pull request.\<close>

definition pull_request_target ::
  "DevMachine \<Rightarrow> DevMachineCheckout option \<Rightarrow> string \<times> string \<times> string \<times> string" where
  "pull_request_target machine checkout = (case checkout of
       None \<Rightarrow> (m_RepoOwner machine, m_RepoName machine, m_BaseBranch machine, m_WorkingBranch machine)
     | Some c \<Rightarrow> (case SplitN2 (co_RepositoryFullName c) (CHR ''/'') of
           [a, b] \<Rightarrow> (a, b, co_BaseBranch c, co_WorkingBranch c)
         | _ \<Rightarrow> (m_RepoOwner machine, m_RepoName machine, co_BaseBranch c, co_WorkingBranch c)))"

definition openPullRequest ::
  "Manager \<Rightarrow> DevMachine \<Rightarrow> DevMachineAgentRun \<Rightarrow> DevMachineCheckout option \<Rightarrow> RunResult \<Rightarrow> RunResult act" where
  "openPullRequest M machine run checkout result =
     (let repositoryFullName = checkoutRepositoryFullName (Some machine) checkout;
          (repoOwner, repoName, baseBranch, workingBranch) = pull_request_target machine checkout in
      bindA (attempt (bindA (repositoryToken M machine repositoryFullName) (\<lambda>(client, freshToken).
          outsideA (CallCreatePullRequest repoOwner repoName (rr_Branch result))
            (\<lambda>n. gh_CreatePullRequest client n freshToken repoOwner repoName
               (''Kuayle agent run for '' @ workingBranch) (rr_Branch result) baseBranch (rr_Summary result)))))
      (\<lambda>r. case r of
        Inl e \<Rightarrow> returnA (risk_note (''Pull request creation failed: '' @ safeError M e) result)
      | Inr pullRequest \<Rightarrow>
        (case safeGitHubPullRequestURL M (pr_HTMLURL pullRequest) repositoryFullName of
           None \<Rightarrow> returnA (risk_note ''Created pull request URL was ignored because GitHub returned an unexpected repository URL.''
             (result\<lparr>rr_PullRequestURL := []\<rparr>))
         | Some url \<Rightarrow>
           thenA (ignore (persistGitRef machine checkout run ''pull_request'' (rr_Branch result) []
               (Some (pr_Number pullRequest)) url))
             (returnA (result\<lparr>rr_PullRequestURL := url\<rparr>)))))"

text \<open>The columns of the run the result fills.\<close>

definition completed_run ::
  "Manager \<Rightarrow> RunResult \<Rightarrow> int \<Rightarrow> go_error option \<Rightarrow> DevMachineAgentRun \<Rightarrow> DevMachineAgentRun" where
  "completed_run M result exitCode executionErr run = run\<lparr>
     ar_Result := Some (Marshal (result_json result)), ar_Summary := Some (rr_Summary result),
     ar_ChangedFiles := Marshal (strings_json (rr_ChangedFiles result)),
     ar_Commits := Marshal (strings_json (rr_Commits result)),
     ar_TestsRun := Marshal (strings_json (rr_TestsRun result)),
     ar_TestStatus := rr_TestStatus result,
     ar_RiskNotes := Marshal (strings_json (rr_RiskNotes result)),
     ar_ExitCode := Some exitCode,
     ar_Branch := (if rr_Branch result = [] then ar_Branch run else Some (rr_Branch result)),
     ar_PullRequestURL := non_empty (rr_PullRequestURL result),
     ar_ErrorMessage := (case executionErr of None \<Rightarrow> ar_ErrorMessage run | Some e \<Rightarrow> Some (safeError M e))\<rparr>"

definition recordGitRefs ::
  "DevMachine \<Rightarrow> DevMachineAgentRun \<Rightarrow> DevMachineCheckout option \<Rightarrow> RunResult \<Rightarrow> unit act" where
  "recordGitRefs machine run checkout result = thenA
     (whenA (rr_Branch result \<noteq> [])
        (ignore (persistGitRef machine checkout run ''branch'' (rr_Branch result) [] None [])))
     (eachA (\<lambda>commit. ignore (persistGitRef machine checkout run ''commit'' (rr_Branch result) commit None
        (''https://github.com/'' @ checkoutRepositoryFullName (Some machine) checkout @ ''/commit/'' @ commit)))
        (elements (rr_Commits result)))"

definition withGitState :: "(go_error + GitState) \<Rightarrow> RunResult \<Rightarrow> RunResult" where
  "withGitState r result = (case r of
       Inl _ \<Rightarrow> result
     | Inr g \<Rightarrow> result\<lparr>rr_Branch := gs_Branch g, rr_Commits := gs_Commits g,
                   rr_ChangedFiles := gs_ChangedFiles g\<rparr>)"

definition completeRun ::
  "Manager \<Rightarrow> DevMachine \<Rightarrow> DevMachineAgentRun \<Rightarrow> DevMachineCheckout option \<Rightarrow> uuid
     \<Rightarrow> AgentExecution \<Rightarrow> go_error option \<Rightarrow> RunResult \<Rightarrow> unit act" where
  "completeRun M machine run checkout serviceID execution executionErr result =
     thenA (recordGitRefs machine run checkout result)
    (thenA (tryA (\<lambda>now. CompleteAgentRun now
        (completed_run M result (ex_ExitCode execution) executionErr run)))
    (thenA (ignore (updateServiceA serviceID (ex_ContainerID execution) ''stopped'' ''stopped''))
    (thenA (putA (\<lambda>w. w\<lparr>w_agentRunsCompleted := w_agentRunsCompleted w + 1\<rparr>))
     (createEvent machine (Some (ar_ID run)) ''agent'' ''agent_run.completed'' (Some (JObject
        [(''exit_code'', JInt (ex_ExitCode execution)), (''provider_id'', JString (ar_ProviderID run)),
         (''status'', JString (run_status_text (ar_Status run)))]))))))"

definition agentGitState ::
  "Manager \<Rightarrow> DevMachine \<Rightarrow> DevMachineCheckout option \<Rightarrow> RunResult \<Rightarrow> RunResult act" where
  "agentGitState M machine checkout result =
     bindA (attempt (readA (\<lambda>now. ListServices (mg_collate M) (m_WorkspaceID machine) (m_ID machine)))) (\<lambda>listed.
     bindA (attempt (outsideA (CallGitState machine) (\<lambda>n. rt_GitState (mg_runtime M) n machine
         (case listed of Inl _ \<Rightarrow> [] | Inr services \<Rightarrow> services) checkout))) (\<lambda>gitState.
     returnA (withGitState gitState result)))"

definition finishAgent ::
  "Manager \<Rightarrow> DevMachine \<Rightarrow> DevMachineAgentRun \<Rightarrow> DevMachineCheckout option \<Rightarrow> Provider \<Rightarrow> uuid
     \<Rightarrow> secrets \<Rightarrow> AgentExecution \<Rightarrow> go_error option \<Rightarrow> bool \<Rightarrow> unit act" where
  "finishAgent M machine run checkout provider serviceID secrets execution executionErr timedOut =
     (let stdout = redact M (ex_Stdout execution) secrets; stderr = redact M (ex_Stderr execution) secrets;
          result = reported_url M (checkoutRepositoryFullName (Some machine) checkout)
            (pv_ParseResult provider stdout stderr (ex_ExitCode execution)) in
      thenA (logStream machine run serviceID ''stdout'' stdout)
     (thenA (logStream machine run serviceID ''stderr'' stderr)
     (thenA (eachA (providerEvent machine run) (pv_ParseEvents provider stdout))
     (bindA (attempt (readA (\<lambda>now. GetAgentRunInternal (ar_ID run)))) (\<lambda>current.
      (let outcome = run_outcome current timedOut executionErr (ex_ExitCode execution) (rr_Status result);
           ended = run\<lparr>ar_Status := snd outcome\<rparr> in
      bindA (agentGitState M machine checkout (result\<lparr>rr_Status := fst outcome\<rparr>)) (\<lambda>result1.
      bindA (if ar_Status ended = RunSucceeded \<and> ar_OpenPullRequest ended \<and> rr_Branch result1 \<noteq> []
             then openPullRequest M machine ended checkout result1 else returnA result1) (\<lambda>result2.
      completeRun M machine ended checkout serviceID execution executionErr result2))))))))"

section \<open>The execution\<close>

definition agent_service :: "DevMachine \<Rightarrow> DevMachineAgentRun \<Rightarrow> DevMachineAgentProvider \<Rightarrow> uuid
    \<Rightarrow> DevMachineService" where
  "agent_service machine run providerRecord i = \<lparr>sv_ID = i, sv_WorkspaceID = m_WorkspaceID machine,
     sv_MachineID = m_ID machine, sv_AgentRunID = Some (ar_ID run), sv_ServiceType = ''agent'',
     sv_ServiceKey = ''agent-'' @ uuid_String (ar_ID run), sv_ContainerID = None,
     sv_ContainerName = ''kuayle-'' @ m_RoutingKey machine @ ''-agent-'' @ uuid_String (ar_ID run),
     sv_ImageRef = ap_ImageRef providerRecord, sv_InternalHost = ''agent-'' @ uuid_String (ar_ID run),
     sv_InternalPort = 8080, sv_Status = ''pending'', sv_HealthStatus = ''unknown'',
     sv_HealthMessage = None, sv_StartedAt = None, sv_StoppedAt = None, sv_CreatedAt = 0, sv_UpdatedAt = 0\<rparr>"

text \<open>\<open>RunAgent\<close> of the runtime gives an execution, an error, and whether the run's context timed out.\<close>

definition executeAgent ::
  "Manager \<Rightarrow> DevMachine \<Rightarrow> DevMachineAgentRun \<Rightarrow> DevMachineAgentProvider \<Rightarrow> Provider
     \<Rightarrow> DevMachineCheckout option \<Rightarrow> secrets \<Rightarrow> unit act" where
  "executeAgent M machine run providerRecord provider checkout secrets =
     bindA freshA (\<lambda>i.
     bindA (storeA (\<lambda>now fresh seq d. CreateRuntimeService now (agent_service machine run providerRecord i) d)) (\<lambda>service.
     bindA (outsideA (CallRunAgent machine run secrets) (\<lambda>n. Inr (rt_RunAgent (mg_runtime M) n machine run
         providerRecord checkout secrets))) (\<lambda>(execution, executionErr, deadline).
     (let timedOut = (case executionErr of None \<Rightarrow> False | Some e \<Rightarrow> is_deadline e) \<or> deadline in
      thenA (whenA timedOut (wrapA ''agent_timeout_cleanup_failed'' (cancelAgentA M run)))
     (thenA (case execution of None \<Rightarrow> returnA ()
         | Some ex \<Rightarrow> ignore (updateServiceA (sv_ID service) (ex_ContainerID ex) ''running'' ''starting''))
      (if ar_Mode run = ''interactive'' \<and> executionErr = None
       then createEvent machine (Some (ar_ID run)) ''agent'' ''agent_run.interactive_started''
         (Some (JObject [(''provider_id'', JString (ar_ProviderID run))]))
       else finishAgent M machine run checkout provider (sv_ID service) secrets
         (case execution of Some ex \<Rightarrow> ex
          | None \<Rightarrow> \<lparr>ex_ContainerID = [], ex_Stdout = [], ex_Stderr = [], ex_ExitCode = -1\<rparr>)
         executionErr timedOut))))))"

definition stale_machine :: "DevMachineOperation \<Rightarrow> DevMachine option \<Rightarrow> bool" where
  "stale_machine operation current = (case current of
       None \<Rightarrow> True
     | Some m \<Rightarrow> m_Generation m \<noteq> op_Generation operation \<or> m_DesiredStatus m \<noteq> StatusRunning)"

definition runAgent :: "Manager \<Rightarrow> DevMachine \<Rightarrow> DevMachineOperation \<Rightarrow> unit act" where
  "runAgent M machine operation = (case op_AgentRunID operation of
       None \<Rightarrow> failA (Errorf ''invalid_operation: agent operation has no run'')
     | Some runID \<Rightarrow> bindA (readA (\<lambda>now. GetAgentRunInternal runID)) (\<lambda>found. case found of
         None \<Rightarrow> returnA ()
       | Some run \<Rightarrow>
         if terminalAgentStatus (ar_Status run) then returnA ()
         else if m_RepositoryAffinityID machine \<noteq> None \<and> ar_CheckoutID run = None
         then failA (TerminalOp ''checkout_not_ready'' ''repository-linked agent run has no checkout'')
         else bindA (runCheckout run) (\<lambda>checkout.
           bindA (runProvider M machine run) (\<lambda>(providerRecord, provider).
           bindA (readA (\<lambda>now. GetMachineInternal (m_ID machine))) (\<lambda>current.
           if stale_machine operation current then cancelStaleAgentRun (ar_ID run)
           else bindA (startRun run) (\<lambda>started.
             if \<not> started then returnA ()
             else (let running = run\<lparr>ar_Status := RunRunning\<rparr> in
               bindA (agentSecrets M machine running checkout) (\<lambda>secrets.
               executeAgent M machine running providerRecord provider checkout secrets))))))))"

section \<open>One operation\<close>

text \<open>What remains of an operation of an older generation that is not a cleanup.\<close>

definition staleOperation :: "DevMachineOperation \<Rightarrow> unit act" where
  "staleOperation operation = (case op_Action operation of
       OpCheckoutIssue \<Rightarrow> (case op_CheckoutID operation of
           None \<Rightarrow> returnA ()
         | Some i \<Rightarrow> tryA (\<lambda>now. UpdateCheckoutState now i ''failed''
             (Some ''machine state changed before checkout preparation; try again'')))
     | OpRunAgent \<Rightarrow> (case op_AgentRunID operation of
           None \<Rightarrow> returnA () | Some i \<Rightarrow> cancelStaleAgentRun i)
     | _ \<Rightarrow> returnA ())"

definition dispatch ::
  "Manager \<Rightarrow> DevMachine \<Rightarrow> DevMachineService list \<Rightarrow> DevMachineOperation \<Rightarrow> unit act" where
  "dispatch M machine services operation = (case op_Action operation of
       OpSpawn \<Rightarrow> spawn M machine services operation
     | OpStart \<Rightarrow> processStart M machine services operation
     | OpPause \<Rightarrow> processPause M machine services operation
     | OpStop \<Rightarrow> processStop M machine services operation
     | OpTeardown \<Rightarrow> processTeardown M machine services operation
     | OpRunAgent \<Rightarrow> runAgent M machine operation
     | OpCancelAgent \<Rightarrow> processCancelAgent M machine services operation
     | OpCheckoutIssue \<Rightarrow> processCheckout M machine services operation
     | OpTerminateTerminal \<Rightarrow> processTerminateTerminal M machine services operation
     | OpSnapshotEnvironment \<Rightarrow> processSnapshot M machine services operation
     | OpReconcile \<Rightarrow> returnA ())"

definition processOperation :: "Manager \<Rightarrow> DevMachineOperation \<Rightarrow> unit act" where
  "processOperation M operation =
     bindA (readA (\<lambda>now. GetMachineInternal (op_MachineID operation))) (\<lambda>found. case found of
       None \<Rightarrow> failA (Errorf ''machine_not_found: machine does not exist'')
     | Some machine \<Rightarrow>
       if op_Action operation = OpSnapshotEnvironment \<and> op_Generation operation \<noteq> m_Generation machine
       then failSnapshotOperation operation ''environment_snapshot_stale''
         (''machine generation changed from '' @ int_decimal (op_Generation operation) @ '' to ''
          @ int_decimal (m_Generation machine) @ '' before the snapshot completed'')
       else if op_Generation operation < m_Generation machine \<and> \<not> cleanup_action (op_Action operation)
       then staleOperation operation
       else bindA (readA (\<lambda>now. ListServices (mg_collate M) (m_WorkspaceID machine) (m_ID machine)))
         (\<lambda>services. dispatch M machine services operation))"

end
