(* ===== verification/Manager_Loop.thy ===== *)
theory Manager_Loop
  imports Manager_Agent
begin

text \<open>
  The manager's two loops (\<open>BE/internal/machine/manager.go\<close>): leased operations
  (\<open>processBatch\<close>, \<open>processLeasedOperation\<close>) and the periodic reconciliation (\<open>reconcile\<close>), one
  definition per section of its body. The goroutines of a batch run beside each other: each is
  one \<open>processLeasedOperation\<close>, the others are part of its script. The lease renewal is part of the
  script too, its error is the argument \<open>leaseErr\<close>. Logging is left out.
\<close>

section \<open>Leased operations\<close>

definition operationSlots :: nat where
  "operationSlots = 8"

text \<open>The result are the operations given to goroutines; \<open>busy\<close> slots are taken.\<close>

definition processBatch :: "Manager \<Rightarrow> (uuid \<Rightarrow> bool) \<Rightarrow> nat \<Rightarrow> DevMachineOperation list act" where
  "processBatch M locked busy = (let available = operationSlots - busy in
     if available = 0 then returnA []
     else countA (\<lambda>now. LeaseOperations now locked (mg_owner M) available (minutes 2)))"

definition recordFailure :: "Manager \<Rightarrow> DevMachineOperation \<Rightarrow> go_error \<Rightarrow> unit act" where
  "recordFailure M operation e =
     thenA (case op_AgentRunID operation of
         Some i \<Rightarrow> whenA (op_Action operation = OpRunAgent) (failAgentRun M i e)
       | None \<Rightarrow> returnA ())
    (thenA (case op_CheckoutID operation of
         Some i \<Rightarrow> whenA (op_Action operation = OpCheckoutIssue)
           (ignore (tryA (\<lambda>now. UpdateCheckoutState now i ''failed'' (Some (safeError M e)))))
       | None \<Rightarrow> returnA ())
    (thenA (case op_TerminalSessionID operation of
         Some i \<Rightarrow> whenA (op_Action operation = OpTerminateTerminal)
           (ignore (writeA (\<lambda>now. FailTerminalSessionClose i)))
       | None \<Rightarrow> returnA ())
     (whenA (lifecycleFailureAffectsMachine (op_Action operation))
       (ignore (setStateA (op_MachineID operation) (op_Generation operation) False StatusFailed
          None None (Some (errorCode M e)) (Some (safeError M e)))))))"

definition settleFailure :: "Manager \<Rightarrow> DevMachineOperation \<Rightarrow> go_error \<Rightarrow> unit act" where
  "settleFailure M operation e =
     thenA (putA (\<lambda>w. w\<lparr>w_operationsFailed := w_operationsFailed w + 1\<rparr>))
     (bindA (storeA (\<lambda>now fresh seq d. FailOperation now (op_ID operation) (mg_owner M)
         (errorCode M e) (safeError M e) (\<not> is_terminal e) d))
      (\<lambda>willRetry. whenA (\<not> willRetry) (recordFailure M operation e)))"

definition settleSuccess :: "Manager \<Rightarrow> DevMachineOperation \<Rightarrow> unit act" where
  "settleSuccess M operation =
     thenA (tryA (\<lambda>now. CompleteOperation now (op_ID operation) (mg_owner M)))
    (thenA (whenA (op_Action operation = OpTeardown)
       (ignore (bindA (readA (\<lambda>now. GetMachineInternal (op_MachineID operation))) (\<lambda>found. case found of
          None \<Rightarrow> returnA ()
        | Some machine \<Rightarrow>
          whenA (m_DeleteRequestedAt machine \<noteq> None \<and> DevMachineSafelyPurgeable (Some machine))
            (tryA (\<lambda>now. PurgePermanentDeleteRequest now (m_WorkspaceID machine) (m_ID machine)))))))
     (putA (\<lambda>w. w\<lparr>w_operationsCompleted := w_operationsCompleted w + 1\<rparr>)))"

definition registered :: "DevMachineOperation \<Rightarrow> (uuid \<Rightarrow> uuid \<Rightarrow> unit act) \<Rightarrow> unit act" where
  "registered operation f = (case op_AgentRunID operation of
       Some i \<Rightarrow> whenA (op_Action operation = OpRunAgent) (f (op_MachineID operation) i)
     | None \<Rightarrow> returnA ())"

definition processLeasedOperation ::
  "Manager \<Rightarrow> store_error option \<Rightarrow> DevMachineOperation \<Rightarrow> unit act" where
  "processLeasedOperation M leaseErr operation =
     thenA (registered operation registerActiveRun)
     (bindA (attempt (processOperation M operation)) (\<lambda>r.
      thenA (ignore (case (case r of Inl e \<Rightarrow> Some e | Inr _ \<Rightarrow> map_option StoreError leaseErr) of
          Some e \<Rightarrow> settleFailure M operation e
        | None \<Rightarrow> settleSuccess M operation))
       (registered operation unregisterActiveRun)))"

end
