(* ===== verification/Manager_Reconcile.thy ===== *)
theory Manager_Reconcile
  imports Manager_Agent
begin

text \<open>
  \<open>reconcile\<close> of \<open>BE/internal/machine/manager.go\<close>, one definition per section of its body: expired
  credentials and access logs, timed-out runs, orphaned and deleted environments, permanent deletes,
  idle machines, expired machines, and the pages of runtime machines. The page loop takes fuel, and
  tells whether it reached the last page. Logging is left out.
\<close>

section \<open>Runs, environments and deletes\<close>

definition timedOutRun :: "Manager \<Rightarrow> DevMachineAgentRun \<Rightarrow> unit act" where
  "timedOutRun M timedOut = bindA (attempt (cancelAgentA M timedOut)) (\<lambda>r. case r of
       Inl _ \<Rightarrow> returnA ()
     | Inr _ \<Rightarrow>
       (let run1 = timedOut\<lparr>ar_Status := RunTimeout, ar_ExitCode := Some (-1)\<rparr>;
            run = (if ar_ChangedFiles run1 = [] then run1\<lparr>ar_ChangedFiles := ''[]'', ar_Commits := ''[]'',
               ar_TestsRun := ''[]'', ar_RiskNotes := ''[]''\<rparr> else run1) in
        thenA (ignore (tryA (\<lambda>now. CompleteAgentRun now run)))
        (bindA (attempt (readA (\<lambda>now. GetMachineInternal (ar_MachineID run)))) (\<lambda>found. case found of
           Inr (Some machine) \<Rightarrow>
             bindA (attempt (readA (\<lambda>now. ListServices (mg_collate M) (m_WorkspaceID machine) (m_ID machine))))
             (\<lambda>listed. thenA (markServices (\<lambda>service. sv_AgentRunID service = Some (ar_ID run)) ''stopped'' ''stopped''
                (case listed of Inl _ \<Rightarrow> [] | Inr services \<Rightarrow> services))
               (ignore (createEvent machine (Some (ar_ID run)) ''agent'' ''agent_run.timeout''
                 (Some (JObject [(''provider_id'', JString (ar_ProviderID run))])))))
         | _ \<Rightarrow> returnA ()))))"

definition deleteEnvironment :: "Manager \<Rightarrow> DevMachineEnvironment \<Rightarrow> unit act" where
  "deleteEnvironment M environment = bindA (attempt (outsideA (CallDeleteEnvironmentImage environment)
       (\<lambda>n. rt_DeleteEnvironmentImage (mg_runtime M) n environment))) (\<lambda>r. case r of
     Inl _ \<Rightarrow> returnA ()
   | Inr _ \<Rightarrow> ignore (tryA (\<lambda>now. DeleteEnvironment now (en_WorkspaceID environment) (en_ID environment))))"

definition requestDelete :: "DevMachine \<Rightarrow> unit act" where
  "requestDelete machine = ignore (storeA (\<lambda>now fresh seq d.
     RequestPermanentDelete now fresh (m_WorkspaceID machine) (m_ID machine) None d))"

definition permanentDelete :: "DevMachine \<Rightarrow> unit act" where
  "permanentDelete machine =
     (if DevMachineSafelyPurgeable (Some machine)
      then bindA (attempt (tryA (\<lambda>now.
          PurgePermanentDeleteRequest now (m_WorkspaceID machine) (m_ID machine)))) (\<lambda>r. case r of
          Inl e \<Rightarrow> whenA (is_no_rows e) (requestDelete machine)
        | Inr _ \<Rightarrow> returnA ())
      else requestDelete machine)"

section \<open>Idle and expired machines\<close>

definition manager_operation ::
  "uuid \<Rightarrow> DevMachine \<Rightarrow> DevMachineOperationAction \<Rightarrow> string \<Rightarrow> int \<Rightarrow> DevMachineOperation" where
  "manager_operation i machine action key maxAttempts = \<lparr>op_ID = i, op_MachineID = m_ID machine,
     op_AgentRunID = None, op_CheckoutID = None, op_EnvironmentID = None, op_TerminalSessionID = None,
     op_WorkspaceID = m_WorkspaceID machine, op_Action = action, op_Status = OpStatusPending,
     op_Generation = m_Generation machine + 1, op_IdempotencyKey = key, op_RequestedByUserID = None,
     op_LeaseOwner = None, op_LeaseExpiresAt = None, op_Attempts = 0, op_MaxAttempts = maxAttempts,
     op_ErrorCode = None, op_ErrorMessage = None, op_AvailableAt = 0, op_CreatedAt = 0, op_UpdatedAt = 0,
     op_CompletedAt = None\<rparr>"

definition queueDesired ::
  "DevMachine \<Rightarrow> DevMachineStatus \<Rightarrow> DevMachineOperationAction \<Rightarrow> string \<Rightarrow> int \<Rightarrow> unit act" where
  "queueDesired machine desired action key maxAttempts = bindA freshA (\<lambda>i. ignore (storeA (\<lambda>now fresh seq d.
     SetDesiredAndEnqueue now fresh (m_WorkspaceID machine) (m_ID machine) desired
       (manager_operation i machine action key maxAttempts) d)))"

definition pauseIdle :: "DevMachine \<Rightarrow> unit act" where
  "pauseIdle machine = queueDesired machine StatusPaused OpPause
     (''idle-pause:'' @ int_decimal (m_Generation machine + 1)) 5"

definition expireMachine :: "DevMachine \<Rightarrow> unit act" where
  "expireMachine machine =
     bindA (attempt (writeA (\<lambda>now. SetMachineState now (m_ID machine) StatusExpired None None None None)))
     (\<lambda>r. case r of
        Inl _ \<Rightarrow> returnA ()
      | Inr _ \<Rightarrow>
        thenA (queueDesired machine StatusDestroyed OpTeardown
            (''ttl-teardown:'' @ int_decimal (m_Generation machine + 1)) 10)
          (ignore (createEvent machine None ''lifecycle'' ''machine.expired'' None)))"

section \<open>Machines that have not reached their desired status\<close>

definition settleState :: "DevMachine \<Rightarrow> bool \<Rightarrow> DevMachineStatus \<Rightarrow> bool act" where
  "settleState machine allowStale status =
     setStateA (m_ID machine) (m_Generation machine) allowStale status None None None None"

definition convergeDestroyed :: "Manager \<Rightarrow> DevMachine \<Rightarrow> DevMachineService list \<Rightarrow> unit act" where
  "convergeDestroyed M machine services =
     thenA (cancelActiveRuns (m_ID machine) None)
    (thenA (ignore (revokeA (m_ID machine)))
    (thenA (teardownA M machine services)
    (thenA (markServices (\<lambda>_. True) ''destroyed'' ''stopped'' services)
     (bindA (settleState machine True StatusDestroyed) (\<lambda>updated. whenA updated
       (createEvent machine None ''lifecycle'' ''machine.destroyed'' None))))))"

definition convergeStopped :: "Manager \<Rightarrow> DevMachine \<Rightarrow> DevMachineService list \<Rightarrow> unit act" where
  "convergeStopped M machine services =
     thenA (stopA M machine services)
    (thenA (markServices (\<lambda>_. True) ''stopped'' ''stopped'' services)
     (bindA (settleState machine False StatusStopped) (\<lambda>_. returnA ())))"

definition convergePaused :: "Manager \<Rightarrow> DevMachine \<Rightarrow> DevMachineService list \<Rightarrow> unit act" where
  "convergePaused M machine services =
     thenA (revokeA (m_ID machine))
    (thenA (pauseA M machine services)
    (thenA (markServices (\<lambda>_. True) ''paused'' ''paused'' services)
     (bindA (settleState machine False StatusPaused) (\<lambda>_. returnA ()))))"

text \<open>Runtime recovery of a machine that should run and is not ready.\<close>

definition recover :: "Manager \<Rightarrow> DevMachine \<Rightarrow> DevMachineService list \<Rightarrow> unit act" where
  "recover M machine services =
     (let runtimeServices = filter not_agent services in
      bindA (serviceSecrets M machine runtimeServices) (\<lambda>secrets.
      bindA (spawnA M machine runtimeServices secrets) (\<lambda>(networkName, volumeName, containers).
      thenA (eachA (\<lambda>service. case containers (sv_ServiceKey service) of
           None \<Rightarrow> returnA ()
         | Some c \<Rightarrow> whenA (c \<noteq> []) (ignore (updateServiceA (sv_ID service) c ''running'' ''healthy'')))
         runtimeServices)
      (bindA (setStateA (m_ID machine) (m_Generation machine) False StatusRunning
          (Some networkName) (Some volumeName) None None) (\<lambda>updated. whenA updated
         (createEvent machine None ''lifecycle'' ''machine.recovered'' None))))))"

section \<open>Running machines\<close>

definition markInspected :: "RuntimeInspection \<Rightarrow> DevMachineService list \<Rightarrow> unit act" where
  "markInspected inspection services = eachA (\<lambda>service.
     case ri_Services inspection (sv_ServiceKey service) of
       None \<Rightarrow> returnA ()
     | Some actual \<Rightarrow> whenA (si_Exists actual) (ignore (updateServiceA (sv_ID service)
         (si_ContainerID actual) ''running'' (si_HealthStatus actual)))) services"

definition disk_limit :: "DevMachine \<Rightarrow> int" where
  "disk_limit machine = m_DiskGB machine * 1024 * 1024 * 1024"

definition sampleMachine :: "Manager \<Rightarrow> DevMachine \<Rightarrow> DevMachineService list \<Rightarrow> unit act" where
  "sampleMachine M machine services =
     bindA (outsideA (CallStats machine) (\<lambda>n. rt_Stats (mg_runtime M) n machine services)) (\<lambda>usage.
     thenA (ignore (storeA (\<lambda>now fresh seq d. CreateResourceSample now seq \<lparr>rs_ID = 0,
         rs_WorkspaceID = m_WorkspaceID machine, rs_MachineID = m_ID machine,
         rs_CPUPercent = ru_CPUPercent usage, rs_MemoryBytes = ru_MemoryBytes usage,
         rs_DiskBytes = ru_DiskBytes usage, rs_Pids = ru_Pids usage,
         rs_NetworkRxBytes = ru_NetworkRxBytes usage, rs_NetworkTxBytes = ru_NetworkTxBytes usage,
         rs_CreatedAt = 0\<rparr> d)))
    (thenA (ignore (tryA (\<lambda>now. UpdateVolumeUsage (m_ID machine) (ru_DiskBytes usage))))
     (whenA (disk_limit machine \<le> ru_DiskBytes usage)
       (thenA (queueDesired machine StatusStopped OpStop
           (''disk-quota:'' @ int_decimal (m_Generation machine)) 3)
         (ignore (createEvent machine None ''collector'' ''resource.disk_quota_exceeded'' (Some (JObject
           [(''limit_bytes'', JInt (disk_limit machine)), (''used_bytes'', JInt (ru_DiskBytes usage))]))))))))"

definition superviseRunning :: "Manager \<Rightarrow> DevMachine \<Rightarrow> DevMachineService list \<Rightarrow> unit act" where
  "superviseRunning M machine services =
     bindA (outsideA (CallInspect machine) (\<lambda>n. rt_Inspect (mg_runtime M) n machine services)) (\<lambda>inspection.
     if \<not> runtimeReady inspection services then recover M machine services
     else thenA (markInspected inspection services)
       (if m_Status machine = StatusRunning then sampleMachine M machine services
        else bindA (setStateA (m_ID machine) (m_Generation machine) False StatusRunning
            (Some (ri_NetworkName inspection)) (Some (ri_VolumeName inspection)) None None)
          (\<lambda>updated. if \<not> updated then returnA ()
           else thenA (ignore (createEvent machine None ''lifecycle'' ''machine.recovered'' None))
             (sampleMachine M (machine\<lparr>m_Status := StatusRunning\<rparr>) services))))"

definition reconcileMachine :: "Manager \<Rightarrow> DevMachine \<Rightarrow> unit act" where
  "reconcileMachine M machine = ignore
     (bindA (readA (\<lambda>now. ListServices (mg_collate M) (m_WorkspaceID machine) (m_ID machine))) (\<lambda>services.
      if m_Status machine \<noteq> m_DesiredStatus machine \<and> m_DesiredStatus machine = StatusDestroyed
      then convergeDestroyed M machine services
      else if m_Status machine \<noteq> m_DesiredStatus machine \<and> m_DesiredStatus machine = StatusStopped
      then convergeStopped M machine services
      else if m_Status machine \<noteq> m_DesiredStatus machine \<and> m_DesiredStatus machine = StatusPaused
      then convergePaused M machine services
      else if m_DesiredStatus machine = StatusRunning then superviseRunning M machine services
      else if m_Status machine = StatusRunning then sampleMachine M machine services
      else returnA ()))"

definition runtimePageSize :: nat where
  "runtimePageSize = 100"

fun reconcilePages :: "Manager \<Rightarrow> nat \<Rightarrow> nat \<Rightarrow> bool act" where
  "reconcilePages M 0 offset = returnA False"
| "reconcilePages M (Suc fuel) offset =
     bindA (readA (\<lambda>now. ListRuntimeMachines runtimePageSize offset)) (\<lambda>machines.
     thenA (eachA (reconcileMachine M) machines)
       (if length machines < runtimePageSize then returnA True
        else reconcilePages M fuel (offset + runtimePageSize)))"

section \<open>The reconciliation\<close>

definition gatewayAccessLogRetention :: duration where
  "gatewayAccessLogRetention = minutes (90 * 24 * 60)"

definition gatewayAccessLogPurgeBatch :: int where
  "gatewayAccessLogPurgeBatch = 1000"

text \<open>\<open>locked\<close>: the rows other transactions hold, which the sweeps pass over.\<close>

definition reconcile :: "Manager \<Rightarrow> (uuid \<Rightarrow> bool) \<Rightarrow> nat \<Rightarrow> bool act" where
  "reconcile M locked fuel =
     bindA (getA w_now) (\<lambda>now0.
     thenA (putA (\<lambda>w. w\<lparr>w_lastReconcile := now0\<rparr>))
    (thenA (ignore (countA (\<lambda>now. PurgeExpiredRuntimeCredentials now0)))
    (thenA (ignore (countA (\<lambda>now. PurgeAccessLogs (now0 - gatewayAccessLogRetention) gatewayAccessLogPurgeBatch)))
    (bindA (readA (\<lambda>now. ListTimedOutAgentRuns now 100)) (\<lambda>timedOutRuns.
     thenA (eachA (timedOutRun M) timedOutRuns)
    (thenA (countA (\<lambda>now. ReconcileOrphanedEnvironments now locked 100))
    (thenA (countA (\<lambda>now. ReconcileOrphanedCheckouts now locked 100))
    (bindA (readA (\<lambda>now. ListDeleteRequestedEnvironments 100)) (\<lambda>environments.
     thenA (eachA (deleteEnvironment M) environments)
    (bindA (readA (\<lambda>now. ListPermanentDeleteRequests 100)) (\<lambda>deletes.
     thenA (eachA permanentDelete deletes)
    (bindA (readA (\<lambda>now. ListIdleMachines now 100)) (\<lambda>idle.
     thenA (eachA pauseIdle idle)
    (bindA (readA (\<lambda>now. ListExpiredMachines now 100)) (\<lambda>expired.
     thenA (eachA expireMachine expired)
     (reconcilePages M fuel 0))))))))))))))))"

end
