(* ===== verification/Manager_Logic.thy ===== *)
theory Manager_Logic
  imports Manager_Loop Manager_Reconcile
begin

text \<open>
  A logic for the manager's actions. \<open>triple P a Q\<close> of the locale \<open>world_relation\<close> says that from a
  world with \<open>P\<close> the action \<open>a\<close> moves along the relation \<open>R\<close>, however it ends, and that it ends
  without error only with \<open>Q\<close>. \<open>R\<close> is a preorder, such as "the calls made in between are allowed" or
  "the lease is still held". The locale \<open>store_insensitive\<close> adds that \<open>R\<close> ignores the database, so
  that every call of the store moves along it.
\<close>

named_theorems act_defs \<open>the manager's functions\<close>
named_theorems act_rules \<open>triples of the actions\<close>

lemmas [act_defs] = spawn_def processStart_def processPause_def processStop_def processTeardown_def
  processCancelAgent_def processCheckout_def processTerminateTerminal_def processSnapshot_def
  failSnapshotOperation_def takeSnapshot_def snapshot_failed_def

section \<open>Values of actions\<close>

definition gives :: "'a act \<Rightarrow> ('a \<Rightarrow> bool) \<Rightarrow> bool" where
  "gives a P \<longleftrightarrow> (\<forall>w x. fst (a w) = Inr x \<longrightarrow> P x)"

lemma gives_bind: "gives a P \<Longrightarrow> (\<And>x. P x \<Longrightarrow> gives (k x) Q) \<Longrightarrow> gives (bindA a k) Q"
  by (auto simp: gives_def bindA_def split: prod.split sum.split) (metis fst_conv)

lemma gives_any: "gives a (\<lambda>_. True)"
  by (simp add: gives_def)

lemma gives_return: "P x \<Longrightarrow> gives (returnA x) P"
  by (simp add: gives_def returnA_def)

lemma gives_fail: "gives (failA e) P"
  by (simp add: gives_def failA_def)

lemma gives_then: "gives b Q \<Longrightarrow> gives (thenA a b) Q"
  unfolding thenA_def by (rule gives_bind [OF gives_any])

lemma gives_wrap: "gives a P \<Longrightarrow> gives (wrapA s a) P"
  by (auto simp: gives_def wrapA_def split: prod.splits sum.splits) (metis fst_conv)

lemma gives_read: "(\<And>now d. P (f now d)) \<Longrightarrow> gives (readA f) P"
  by (auto simp: gives_def readA_def storeA_def split: prod.splits option.splits)

section \<open>Relations on worlds\<close>

locale world_relation =
  fixes R :: "world \<Rightarrow> world \<Rightarrow> bool"
  assumes refl: "R w w"
    and trans: "R u v \<Longrightarrow> R v w \<Longrightarrow> R u w"
begin

definition triple :: "(world \<Rightarrow> bool) \<Rightarrow> 'a act \<Rightarrow> ('a \<Rightarrow> world \<Rightarrow> bool) \<Rightarrow> bool" where
  "triple P a Q \<longleftrightarrow> (\<forall>w. P w \<longrightarrow> R w (snd (a w))
     \<and> (case fst (a w) of Inl _ \<Rightarrow> True | Inr x \<Rightarrow> Q x (snd (a w))))"

definition keeps :: "'a act \<Rightarrow> bool" where
  "keeps a \<longleftrightarrow> (\<forall>w. R w (snd (a w)))"

lemma keeps_triple: "keeps a \<longleftrightarrow> triple (\<lambda>_. True) a (\<lambda>_ _. True)"
  by (auto simp: keeps_def triple_def split: sum.split)

lemma keepsD: "keeps a \<Longrightarrow> R w (snd (a w))"
  by (simp add: keeps_def)

lemma triple_weaken: "triple P a Q \<Longrightarrow> (\<And>w. P' w \<Longrightarrow> P w) \<Longrightarrow> (\<And>x w. Q x w \<Longrightarrow> Q' x w) \<Longrightarrow> triple P' a Q'"
  by (auto simp: triple_def split: sum.splits)

lemma triple_bind:
  assumes "triple P a Q" and "\<And>x. triple (Q x) (k x) Q'"
  shows "triple P (bindA a k) Q'"
  unfolding triple_def
proof (intro allI impI)
  fix w assume "P w"
  obtain r w' where a: "a w = (r, w')" by (cases "a w")
  have "R w (snd (a w)) \<and> (case fst (a w) of Inl _ \<Rightarrow> True | Inr x \<Rightarrow> Q x (snd (a w)))"
    using assms(1) \<open>P w\<close> by (simp add: triple_def)
  with a have R: "R w w'" and Q: "\<And>x. r = Inr x \<Longrightarrow> Q x w'" by simp_all
  show "R w (snd (bindA a k w))
      \<and> (case fst (bindA a k w) of Inl _ \<Rightarrow> True | Inr x \<Rightarrow> Q' x (snd (bindA a k w)))"
  proof (cases r)
    case (Inl e)
    with a R show ?thesis by (simp add: bindA_def)
  next
    case (Inr x)
    then have "R w' (snd (k x w'))" "case fst (k x w') of Inl _ \<Rightarrow> True | Inr y \<Rightarrow> Q' y (snd (k x w'))"
      using Q assms(2) [of x] by (simp_all add: triple_def)
    moreover from a Inr have step: "bindA a k w = k x w'" by (simp add: bindA_def)
    ultimately show ?thesis using R unfolding step by (blast intro: trans)
  qed
qed

lemma triple_then: "triple P a (\<lambda>_. Q) \<Longrightarrow> triple Q b Q' \<Longrightarrow> triple P (thenA a b) Q'"
  unfolding thenA_def by (rule triple_bind)

lemma keeps_triple_any: "keeps a \<Longrightarrow> triple P a (\<lambda>_ _. True)"
  by (simp add: keeps_def triple_def split: sum.split)

lemma keeps_bind: "keeps a \<Longrightarrow> (\<And>x. keeps (k x)) \<Longrightarrow> keeps (bindA a k)"
  unfolding keeps_triple by (rule triple_bind)

lemma keeps_bind_gives:
  "gives a P \<Longrightarrow> keeps a \<Longrightarrow> (\<And>x. P x \<Longrightarrow> keeps (k x)) \<Longrightarrow> keeps (bindA a k)"
  unfolding keeps_triple
  by (rule triple_bind [where Q = "\<lambda>x _. P x"]) (auto simp: gives_def triple_def split: sum.splits)

lemma keeps_triple_bind: "triple (\<lambda>_. True) a Q \<Longrightarrow> (\<And>x. triple (Q x) (k x) (\<lambda>_ _. True)) \<Longrightarrow> keeps (bindA a k)"
  unfolding keeps_triple by (rule triple_bind)

lemma keeps_then: "keeps a \<Longrightarrow> keeps b \<Longrightarrow> keeps (thenA a b)"
  unfolding thenA_def by (rule keeps_bind)

lemma keeps_return: "keeps (returnA x)"
  by (simp add: keeps_def returnA_def refl)

lemma keeps_fail: "keeps (failA e)"
  by (simp add: keeps_def failA_def refl)

lemma keeps_get: "keeps (getA f)"
  by (simp add: keeps_def getA_def refl)

lemma keeps_attempt: "keeps a \<Longrightarrow> keeps (attempt a)"
  by (simp add: keeps_def attempt_def split_beta)

lemma keeps_ignore: "keeps a \<Longrightarrow> keeps (ignore a)"
  by (simp add: keeps_def ignore_def split_beta)

lemma keeps_wrap: "keeps a \<Longrightarrow> keeps (wrapA s a)"
  by (auto simp: keeps_def wrapA_def split: prod.split sum.split) (metis snd_conv)+

lemma keeps_when: "(b \<Longrightarrow> keeps a) \<Longrightarrow> keeps (whenA b a)"
  by (simp add: whenA_def keeps_return)

lemma keeps_each: "(\<And>x. x \<in> set xs \<Longrightarrow> keeps (f x)) \<Longrightarrow> keeps (eachA f xs)"
  by (induction xs) (auto intro: keeps_return keeps_then)

lemma keeps_if: "(b \<Longrightarrow> keeps x) \<Longrightarrow> (\<not> b \<Longrightarrow> keeps y) \<Longrightarrow> keeps (if b then x else y)"
  by simp

lemma keeps_option: "(v = None \<Longrightarrow> keeps x) \<Longrightarrow> (\<And>y. v = Some y \<Longrightarrow> keeps (f y))
    \<Longrightarrow> keeps (case v of None \<Rightarrow> x | Some y \<Rightarrow> f y)"
  by (cases v) auto

lemma keeps_sum: "(\<And>y. v = Inl y \<Longrightarrow> keeps (f y)) \<Longrightarrow> (\<And>y. v = Inr y \<Longrightarrow> keeps (g y))
    \<Longrightarrow> keeps (case v of Inl y \<Rightarrow> f y | Inr y \<Rightarrow> g y)"
  by (cases v) auto

lemma keeps_prod: "(\<And>y z. v = (y, z) \<Longrightarrow> keeps (f y z)) \<Longrightarrow> keeps (case v of (y, z) \<Rightarrow> f y z)"
  by (cases v) auto

lemmas keeps_rules = keeps_bind keeps_then keeps_return keeps_fail keeps_get keeps_attempt keeps_ignore
  keeps_wrap keeps_when keeps_each keeps_if keeps_option keeps_sum keeps_prod

end

text \<open>A relation on the log of outside calls: \<open>S\<close> tells which calls may be added to it.\<close>

locale call_log = world_relation R for R :: "world \<Rightarrow> world \<Rightarrow> bool" +
  fixes S :: "outside_call \<times> db \<Rightarrow> bool"
  assumes quiet: "w_calls w' = w_calls w \<Longrightarrow> R w w'"
    and allowed: "S (c, w_db w) \<Longrightarrow> R w (w\<lparr>w_calls := w_calls w @ [(c, w_db w)]\<rparr>)"
begin

lemma keeps_store: "keeps (storeA f)"
  by (auto simp: keeps_def storeA_def before_call_def Let_def intro!: quiet
      split: list.splits prod.splits option.splits sum.splits)

lemma keeps_read: "keeps (readA f)" "keeps (writeA g)" "keeps (tryA h)" "keeps (countA k)"
  unfolding readA_def writeA_def tryA_def countA_def by (rule keeps_store)+

lemma keeps_fresh: "keeps freshA"
  by (simp add: keeps_def freshA_def quiet)

lemma keeps_put: "(\<And>w. w_calls (f w) = w_calls w) \<Longrightarrow> keeps (putA f)"
  by (simp add: keeps_def putA_def quiet)

lemma keeps_pure: "keeps (\<lambda>w. (f w, w))"
  by (simp add: keeps_def refl)

lemma keeps_outside: "(\<And>d. S (c, d)) \<Longrightarrow> keeps (outsideA c f)"
  by (simp add: keeps_def outsideA_def allowed)

lemma triple_outside: "(\<And>w. P w \<Longrightarrow> S (c, w_db w)) \<Longrightarrow> triple P (outsideA c f) (\<lambda>_ _. True)"
  by (simp add: triple_def outsideA_def allowed split: sum.split)

lemma triple_store:
  assumes "\<And>now fresh seq d x d'. f now fresh seq d = Inr (x, d') \<Longrightarrow> Q x d'"
  shows "triple P (storeA f) (\<lambda>x w. Q x (w_db w))"
proof -
  have "case fst (storeA f w) of Inl _ \<Rightarrow> True | Inr x \<Rightarrow> Q x (w_db (snd (storeA f w)))" for w
    using assms by (auto simp: storeA_def before_call_def Let_def
        split: list.splits prod.splits option.splits sum.splits)
  then show ?thesis using keeps_store [of f] by (simp add: triple_def keeps_def)
qed

lemmas quiet_rules = keeps_rules keeps_store keeps_read keeps_fresh keeps_put keeps_pure

lemma keeps_state: "keeps (setStateA i g al st nn vn c msg)" "keeps (updateServiceA i k s h)"
    "keeps (revokeA i)"
  unfolding setStateA_def updateServiceA_def revokeA_def by (intro quiet_rules)+

lemma keeps_mark: "keeps (markServices P st h services)"
  unfolding markServices_def by (intro quiet_rules keeps_state)

lemma keeps_event: "keeps (createEvent machine runID source eventType payload)"
  unfolding createEvent_def by (intro quiet_rules)

lemma keeps_state_event: "keeps (setStateAndEventForOperation machine operation status e p al)"
  unfolding setStateAndEventForOperation_def by (intro quiet_rules keeps_state keeps_event)

lemma keeps_cancel: "keeps (cancelRun i)" "keeps (cancelActiveRuns m r)" "keeps (endAgentRun f i)"
    "keeps (cancelStaleAgentRun i)" "keeps (failAgentRun M i e)"
proof -
  show run: "keeps (cancelRun i)" for i unfolding cancelRun_def by (intro quiet_rules) simp
  show "keeps (cancelActiveRuns m r)" unfolding cancelActiveRuns_def by (intro quiet_rules run)
  show e: "keeps (endAgentRun f i)" for f i unfolding endAgentRun_def by (intro quiet_rules)
  show "keeps (cancelStaleAgentRun i)" "keeps (failAgentRun M i e)"
    unfolding cancelStaleAgentRun_def failAgentRun_def by (rule e)+
qed

lemma keeps_ref: "keeps (persistGitRef machine checkout run t n c p u)"
  unfolding persistGitRef_def by (intro quiet_rules)

lemma keeps_stale: "keeps (staleOperation operation)" "keeps (failSnapshotOperation operation c m)"
  unfolding staleOperation_def failSnapshotOperation_def
  by (auto intro!: quiet_rules keeps_cancel split: DevMachineOperationAction.split)

lemmas store_rules = quiet_rules keeps_state keeps_mark keeps_event keeps_state_event keeps_cancel
  keeps_ref keeps_stale

end

section \<open>The log of outside calls\<close>

definition log_extends :: "(outside_call \<times> db \<Rightarrow> bool) \<Rightarrow> world \<Rightarrow> world \<Rightarrow> bool" where
  "log_extends S w w' \<longleftrightarrow> (\<exists>cs. w_calls w' = w_calls w @ cs \<and> list_all S cs)"

lemma log_extends_refl: "w_calls w' = w_calls w \<Longrightarrow> log_extends S w w'"
  by (simp add: log_extends_def)

lemma log_extends_trans: "log_extends S u v \<Longrightarrow> log_extends S v w \<Longrightarrow> log_extends S u w"
  unfolding log_extends_def by (metis append.assoc list_all_append)

interpretation log: call_log "log_extends S" S for S
  by unfold_locales (auto intro: log_extends_refl log_extends_trans, simp add: log_extends_def)

text \<open>Calls of GitHub are allowed.\<close>

locale token_log = call_log +
  assumes token: "S (CallInstallationToken i r, d)"
begin

lemma keeps_credential: "keeps (registerRuntimeCredential M i t e)"
  unfolding registerRuntimeCredential_def by (intro store_rules)

lemma keeps_client: "keeps (githubClient M machine)"
  unfolding githubClient_def by (intro store_rules)

lemma keeps_token: "keeps (repositoryToken M machine name)"
  unfolding repositoryToken_def Let_def
  by (intro store_rules keeps_client keeps_credential keeps_outside token)

lemma keeps_values: "keeps (service_values M machine services acc)"
proof (induction services arbitrary: acc)
  case (Cons service rest)
  then show ?case unfolding service_values.simps by (intro store_rules)
qed (simp add: keeps_return)

lemma keeps_secrets: "keeps (serviceSecrets M machine services)"
  unfolding serviceSecrets_def by (intro store_rules keeps_values keeps_token)

lemma keeps_agent_secrets: "keeps (agentSecrets M machine run checkout)"
  unfolding agentSecrets_def by (intro store_rules keeps_token)

lemma keeps_run_checks: "keeps (runCheckout run)" "keeps (runProvider M machine run)" "keeps (startRun run)"
  unfolding runCheckout_def runProvider_def startRun_def by (intro store_rules)+

end

lemma state_becomes:
  assumes "SetMachineStateForOperation now i g al st nn vn c msg d = (True, d')"
  shows "\<exists>m \<in> set (db_machines d'). m_ID m = i \<and> (al \<or> m_Generation m = g) \<and> m_Status m = st"
proof -
  have "rows_affected (current_for i g al) (db_machines d) = 1"
    and d': "db_machines d' = update_where (current_for i g al) (state_row now st nn vn c msg) (db_machines d)"
    using assms by (auto simp: SetMachineStateForOperation_def)
  then obtain m where "m \<in> set (db_machines d)" "current_for i g al m"
    by (blast dest: rows_affected_1_find)
  then have "state_row now st nn vn c msg m \<in> set (db_machines d')"
    unfolding d' set_update_where by force
  then show ?thesis
    using \<open>current_for i g al m\<close> by (intro bexI) (auto simp: state_row_def current_for_def)
qed

lemma revoked_access:
  "\<not> exists_where (\<lambda>t. at_MachineID t = i \<and> at_Status t = TicketActive) (db_tickets (RevokeMachineAccess now i d))"
  "\<not> exists_where (\<lambda>s. as_MachineID s = i \<and> as_RevokedAt s = None) (db_sessions (RevokeMachineAccess now i d))"
  by (simp_all add: RevokeMachineAccess_def exists_where_cleared)

end
