(* ===== verification/Manager_Calls.thy ===== *)
theory Manager_Calls
  imports Manager_Logic
begin

text \<open>
  What the manager may ask of the runtime. \<open>licensed M op\<close> says which outside calls the processing of
  an operation may make, and in which state of the database; \<open>wanted\<close> says it for the reconciliation.
  The theory proves that all calls are licensed, whatever the other processes do in between and
  whichever calls fail, and that the runs of agents are given only the secrets they may have.
\<close>

section \<open>Licensed calls\<close>

definition access_closed :: "uuid \<Rightarrow> db \<Rightarrow> bool" where
  "access_closed i d \<longleftrightarrow>
     \<not> exists_where (\<lambda>t. at_MachineID t = i \<and> at_Status t = TicketActive) (db_tickets d)
   \<and> \<not> exists_where (\<lambda>s. as_MachineID s = i \<and> as_RevokedAt s = None) (db_sessions d)"

definition current_or_cleanup :: "DevMachineOperation \<Rightarrow> DevMachine \<Rightarrow> bool" where
  "current_or_cleanup operation machine \<longleftrightarrow>
     m_ID machine = op_MachineID operation
   \<and> (m_Generation machine \<le> op_Generation operation \<or> cleanup_action (op_Action operation))"

definition permitted_secrets :: "Manager \<Rightarrow> DevMachineAgentRun \<Rightarrow> secrets \<Rightarrow> bool" where
  "permitted_secrets M run secrets \<longleftrightarrow>
     fst ` set secrets \<subseteq> set (fst (Unmarshal_strings (ar_AllowedSecrets run)))
       \<union> (if ar_PushBranch run \<or> ar_OpenPullRequest run then {''GITHUB_TOKEN''} else {})"

fun licensed :: "Manager \<Rightarrow> DevMachineOperation \<Rightarrow> outside_call \<times> db \<Rightarrow> bool" where
  "licensed M operation (CallSpawn machine services secrets, d) =
     (op_Action operation \<in> {OpSpawn, OpStart} \<and> current_or_cleanup operation machine
      \<and> list_all not_agent services)"
| "licensed M operation (CallStart machine services secrets, d) =
     (op_Action operation = OpStart \<and> current_or_cleanup operation machine
      \<and> m_Status machine \<in> {StatusPaused, StatusStopped})"
| "licensed M operation (CallPause machine services, d) =
     (op_Action operation = OpPause \<and> current_or_cleanup operation machine
      \<and> access_closed (m_ID machine) d)"
| "licensed M operation (CallStop machine services, d) =
     (op_Action operation = OpStop \<and> current_or_cleanup operation machine
      \<and> (\<exists>m \<in> set (db_machines d). m_ID m = m_ID machine \<and> m_Generation m = op_Generation operation
           \<and> m_Status m = StatusStopping))"
| "licensed M operation (CallTeardown machine services, d) =
     (op_Action operation \<in> {OpTeardown, OpSpawn, OpStart} \<and> current_or_cleanup operation machine)"
| "licensed M operation (CallRunAgent machine run secrets, d) =
     (op_Action operation = OpRunAgent \<and> current_or_cleanup operation machine
      \<and> op_AgentRunID operation = Some (ar_ID run) \<and> permitted_secrets M run secrets)"
| "licensed M operation (CallCancelAgent run, d) =
     (op_Action operation \<in> {OpRunAgent, OpCancelAgent} \<and> op_AgentRunID operation = Some (ar_ID run))"
| "licensed M operation (CallTerminateTerminal machine session, d) =
     (op_Action operation = OpTerminateTerminal \<and> ts_MachineID session = m_ID machine
      \<and> ts_WorkspaceID session = m_WorkspaceID machine \<and> op_TerminalSessionID operation = Some (ts_ID session))"
| "licensed M operation (CallPrepareCheckout machine checkout token, d) =
     (op_Action operation = OpCheckoutIssue \<and> current_or_cleanup operation machine
      \<and> op_CheckoutID operation = Some (co_ID checkout) \<and> token \<noteq> [])"
| "licensed M operation (CallSnapshotEnvironment machine environment, d) =
     (op_Action operation = OpSnapshotEnvironment \<and> m_Generation machine = op_Generation operation
      \<and> m_Status machine = m_DesiredStatus machine \<and> m_Status machine \<in> {StatusPaused, StatusStopped}
      \<and> op_EnvironmentID operation = Some (en_ID environment))"
| "licensed M operation (CallGitState machine, d) =
     (op_Action operation = OpRunAgent \<and> current_or_cleanup operation machine)"
| "licensed M operation (CallCreatePullRequest owner name branch, d) =
     (op_Action operation = OpRunAgent \<and> branch \<noteq> [])"
| "licensed M operation (CallInstallationToken i r, d) = True"
| "licensed M operation (CallInspect machine, d) = False"
| "licensed M operation (CallStats machine, d) = False"
| "licensed M operation (CallDeleteEnvironmentImage environment, d) = False"

abbreviation log_keeps :: "(outside_call \<times> db \<Rightarrow> bool) \<Rightarrow> 'a act \<Rightarrow> bool" where
  "log_keeps S \<equiv> world_relation.keeps (log_extends S)"

abbreviation lic_keeps :: "Manager \<Rightarrow> DevMachineOperation \<Rightarrow> 'a act \<Rightarrow> bool" where
  "lic_keeps M operation \<equiv> world_relation.keeps (log_extends (licensed M operation))"

abbreviation lic_triple ::
  "Manager \<Rightarrow> DevMachineOperation \<Rightarrow> (world \<Rightarrow> bool) \<Rightarrow> 'a act \<Rightarrow> ('a \<Rightarrow> world \<Rightarrow> bool) \<Rightarrow> bool" where
  "lic_triple M operation \<equiv> world_relation.triple (log_extends (licensed M operation))"

interpretation lic: token_log "log_extends (licensed M operation)" "licensed M operation"
  for M operation
  by unfold_locales simp

section \<open>Every operation makes licensed calls only\<close>

lemma spawn_licensed:
  assumes "op_Action operation \<in> {OpSpawn, OpStart}" and "current_or_cleanup operation machine"
  shows "lic_keeps M operation (spawn M machine services operation)"
  unfolding spawn_def spawnA_def teardownA_def Let_def
  by (intro log.store_rules lic.keeps_secrets log.keeps_outside)
    (use assms in \<open>simp_all add: list_all_iff\<close>)

lemma processStart_licensed:
  assumes "op_Action operation = OpStart" and "current_or_cleanup operation machine"
  shows "lic_keeps M operation (processStart M machine services operation)"
  unfolding processStart_def
  by (intro log.store_rules lic.keeps_secrets log.keeps_outside spawn_licensed) (use assms in simp_all)

lemma pause_licensed:
  assumes "\<And>d. access_closed (m_ID machine) d \<Longrightarrow> S (CallPause machine services, d)"
  shows "log_keeps S (thenA (revokeA (m_ID machine)) (pauseA M machine services))"
  unfolding thenA_def revokeA_def writeA_def pauseA_def
  by (rule log.keeps_triple_bind [OF log.triple_store [where Q = "\<lambda>x d. access_closed (m_ID machine) d"]])
    (auto simp: access_closed_def revoked_access intro!: log.triple_outside assms)

lemma then_assoc: "thenA a (thenA b c) = thenA (thenA a b) c"
  by (rule ext) (simp add: thenA_def bindA_def split: prod.split sum.split)

lemma processPause_licensed:
  assumes "op_Action operation = OpPause" and "current_or_cleanup operation machine"
  shows "lic_keeps M operation (processPause M machine services operation)"
  unfolding processPause_def then_assoc [of "revokeA _" "pauseA _ _ _"]
  by (intro log.store_rules pause_licensed) (use assms in simp)

lemma processStop_licensed:
  assumes "op_Action operation = OpStop" and "current_or_cleanup operation machine"
  shows "lic_keeps M operation (processStop M machine services operation)"
proof -
  let ?Q = "\<lambda>updated d. updated \<longrightarrow> (\<exists>m \<in> set (db_machines d). m_ID m = m_ID machine
     \<and> m_Generation m = op_Generation operation \<and> m_Status m = StatusStopping)"
  have set: "lic_triple M operation (\<lambda>_. True)
      (setStateA (m_ID machine) (op_Generation operation) False StatusStopping None None None None)
      (\<lambda>x w. ?Q x (w_db w))"
    unfolding setStateA_def countA_def
    by (rule log.triple_store) (auto dest!: state_becomes [where al = False, simplified])
  have stop: "lic_triple M operation (\<lambda>w. ?Q True (w_db w)) (stopA M machine services) (\<lambda>_ _. True)"
    unfolding stopA_def by (rule log.triple_outside) (use assms in simp)
  have rest: "lic_keeps M operation (thenA (markServices (\<lambda>_. True) ''stopped'' ''stopped'' services)
       (thenA (ignore (revokeA (m_ID machine)))
         (setStateAndEventForOperation machine operation StatusStopped ''machine.stopped'' None False)))"
    by (intro log.store_rules)
  let ?body = "thenA (stopA M machine services) (thenA (markServices (\<lambda>_. True) ''stopped'' ''stopped'' services)
       (thenA (ignore (revokeA (m_ID machine)))
         (setStateAndEventForOperation machine operation StatusStopped ''machine.stopped'' None False)))"
  have body: "lic_triple M operation (\<lambda>w. ?Q x (w_db w)) (if \<not> x then returnA () else ?body) (\<lambda>_ _. True)" for x
  proof (cases x)
    case True
    then show ?thesis
      using log.triple_then [OF stop log.keeps_triple_any [OF rest]] by simp
  next
    case False
    then show ?thesis by (simp add: log.keeps_triple_any [OF log.keeps_return])
  qed
  show ?thesis unfolding processStop_def
    by (intro log.keeps_if log.keeps_return log.keeps_triple_bind [OF set] body)
qed

lemma processTeardown_licensed:
  assumes "op_Action operation = OpTeardown" and "current_or_cleanup operation machine"
  shows "lic_keeps M operation (processTeardown M machine services operation)"
  unfolding processTeardown_def teardownA_def
  by (intro log.store_rules log.keeps_outside) (use assms in simp_all)

lemma found_run: "GetAgentRunInternal i d = Some r \<Longrightarrow> ar_ID r = i"
  by (auto simp: GetAgentRunInternal_def dest: find_SomeD)

lemma found_checkout: "GetCheckoutInternal i d = Some c \<Longrightarrow> co_ID c = i"
  by (auto simp: GetCheckoutInternal_def dest: find_SomeD)

lemma found_terminal: "GetTerminalSessionInternal i d = Some t \<Longrightarrow> ts_ID t = i"
  by (auto simp: GetTerminalSessionInternal_def dest: find_SomeD)

lemma found_environment: "GetEnvironment ws i d = Some e \<Longrightarrow> en_ID e = i"
  by (auto simp: GetEnvironment_def is_environment_def dest: find_SomeD)

lemma found_machine: "GetMachineInternal i d = Some m \<Longrightarrow> m_ID m = i"
  by (auto simp: GetMachineInternal_def dest: find_SomeD)

lemma keeps_found:
  assumes "\<And>now d x. f now d = Some x \<Longrightarrow> P x" and "log_keeps S a" and "\<And>x. P x \<Longrightarrow> log_keeps S (k x)"
  shows "log_keeps S (bindA (readA f) (\<lambda>found. case found of None \<Rightarrow> a | Some x \<Rightarrow> k x))"
  by (rule log.keeps_bind_gives [OF gives_read [where P = "\<lambda>r. case r of None \<Rightarrow> True | Some x \<Rightarrow> P x"]])
    (use assms in \<open>auto intro: log.keeps_read split: option.split\<close>)

lemma processCancelAgent_licensed:
  assumes "op_Action operation = OpCancelAgent"
  shows "lic_keeps M operation (processCancelAgent M machine services operation)"
  unfolding processCancelAgent_def cancelAgentA_def
  by (intro log.keeps_option log.keeps_fail
      keeps_found [where P = "\<lambda>run. op_AgentRunID operation = Some (ar_ID run)"]
      log.store_rules log.keeps_outside)
    (use assms in \<open>auto dest: found_run\<close>)

lemma gives_token: "gives (repositoryToken M machine name) (\<lambda>p. snd p \<noteq> [])"
  unfolding repositoryToken_def Let_def
  by (auto simp: gives_fail intro!: gives_bind [OF gives_any] gives_then gives_return split: option.split)

lemma processCheckout_licensed:
  assumes "op_Action operation = OpCheckoutIssue" and "current_or_cleanup operation machine"
  shows "lic_keeps M operation (processCheckout M machine services operation)"
  unfolding processCheckout_def
  by (intro log.keeps_option log.keeps_fail
      keeps_found [where P = "\<lambda>c. op_CheckoutID operation = Some (co_ID c)"]
      log.keeps_if log.keeps_then log.keeps_bind_gives [OF gives_wrap [OF gives_token]]
      log.store_rules log.keeps_outside lic.keeps_token)
    (use assms in \<open>auto dest: found_checkout\<close>)

lemma processTerminateTerminal_licensed:
  assumes "op_Action operation = OpTerminateTerminal"
  shows "lic_keeps M operation (processTerminateTerminal M machine services operation)"
  unfolding processTerminateTerminal_def
  by (intro log.keeps_option log.keeps_fail
      keeps_found [where P = "\<lambda>t. op_TerminalSessionID operation = Some (ts_ID t)"]
      log.store_rules log.keeps_outside)
    (use assms in \<open>auto dest: found_terminal\<close>)

lemma takeSnapshot_licensed:
  assumes "op_Action operation = OpSnapshotEnvironment" and "m_Generation machine = op_Generation operation"
    and "m_Status machine = m_DesiredStatus machine" and "m_Status machine \<in> {StatusPaused, StatusStopped}"
    and "op_EnvironmentID operation = Some (en_ID environment)"
  shows "lic_keeps M operation (takeSnapshot M machine services environment)"
  unfolding takeSnapshot_def snapshot_failed_def Let_def
  by (intro log.store_rules log.keeps_outside) (use assms in simp)

lemma processSnapshot_licensed:
  assumes "op_Action operation = OpSnapshotEnvironment" and "m_Generation machine = op_Generation operation"
  shows "lic_keeps M operation (processSnapshot M machine services operation)"
  unfolding processSnapshot_def
  by (intro log.keeps_option log.keeps_fail
      keeps_found [where P = "\<lambda>e. op_EnvironmentID operation = Some (en_ID e)"]
      log.keeps_if log.keeps_return log.keeps_stale takeSnapshot_licensed)
    (use assms in \<open>auto dest: found_environment\<close>)

section \<open>Agent runs\<close>

lemma map_put_keys: "fst ` set (map_put k v xs) = insert k (fst ` set xs)"
proof -
  have "map fst (map (\<lambda>p. if fst p = k then (k, v) else p) xs) = map fst xs" by (induction xs) auto
  then have "fst ` set (map (\<lambda>p. if fst p = k then (k, v) else p) xs) = fst ` set xs"
    by (metis set_map)
  then show ?thesis by (auto simp: map_put_def list_ex_iff)
qed

lemma decryptAll_keys:
  "decryptAll M envVars = Inr secrets \<Longrightarrow> fst ` set secrets = ev_Name ` set envVars"
proof -
  let ?f = "\<lambda>v r. bindE r (\<lambda>values. case mg_Decrypt M (ev_EncryptedValue v) of
     Inl e \<Rightarrow> Inl (Wrapped ''secret_decryption_failed'' e)
   | Inr value \<Rightarrow> Inr (map_put (ev_Name v) value values))"
  have error: "fold ?f envVars (Inl e) = Inl e" for e
    by (induction envVars) simp_all
  have "fold ?f envVars (Inr acc) = Inr secrets \<Longrightarrow> fst ` set secrets = fst ` set acc \<union> ev_Name ` set envVars" for acc
  proof (induction envVars arbitrary: acc)
    case (Cons v vs)
    have error: "fold ?f vs (Inl e) = Inl e" for e
      by (induction vs) simp_all
    with Cons.prems obtain plain where "mg_Decrypt M (ev_EncryptedValue v) = Inr plain"
      by (cases "mg_Decrypt M (ev_EncryptedValue v)") simp_all
    with Cons show ?case by (auto simp: map_put_keys)
  qed simp
  then show "decryptAll M envVars = Inr secrets \<Longrightarrow> fst ` set secrets = ev_Name ` set envVars"
    by (simp add: decryptAll_def)
qed

lemma gives_agentSecrets: "gives (agentSecrets M machine run checkout) (permitted_secrets M run)"
proof -
  let ?allowed = "set (fst (Unmarshal_strings (ar_AllowedSecrets run)))"
  have keys: "fst ` set secrets \<subseteq> ?allowed"
    if "decryptAll M (filter (\<lambda>v. ev_Name v \<in> ?allowed) envVars) = Inr secrets" for envVars secrets
    using decryptAll_keys [OF that] by auto
  show ?thesis unfolding agentSecrets_def
  proof (rule gives_bind [OF gives_any])
    fix envVars
    show "gives (case decryptAll M (filter (\<lambda>v. ev_Name v \<in> ?allowed) envVars) of
        Inl e \<Rightarrow> failA e
      | Inr secrets \<Rightarrow> if ar_PushBranch run \<or> ar_OpenPullRequest run
          then bindA (wrapA ''github_token_failed: repository-scoped GitHub App token is unavailable''
              (bindA (repositoryToken M machine (checkoutRepositoryFullName (Some machine) checkout))
                (\<lambda>(_, token). if token = []
                   then failA (Errorf ''no linked GitHub App installation'') else returnA token)))
            (\<lambda>token. returnA (map_put ''GITHUB_TOKEN'' token secrets))
          else returnA secrets) (permitted_secrets M run)"
    proof (cases "decryptAll M (filter (\<lambda>v. ev_Name v \<in> ?allowed) envVars)")
      case (Inr secrets)
      then have "fst ` set secrets \<subseteq> ?allowed" by (rule keys)
      then have "permitted_secrets M run (map_put ''GITHUB_TOKEN'' token secrets)"
        if "ar_PushBranch run \<or> ar_OpenPullRequest run" for token
        using that unfolding permitted_secrets_def map_put_keys by auto
      moreover have "permitted_secrets M run secrets"
        using \<open>fst ` set secrets \<subseteq> ?allowed\<close> unfolding permitted_secrets_def by blast
      ultimately show ?thesis using Inr by (simp add: gives_return gives_bind [OF gives_any])
    qed (simp add: gives_fail)
  qed
qed

lemma finishAgent_licensed:
  assumes action: "op_Action operation = OpRunAgent" and current: "current_or_cleanup operation machine"
  shows "lic_keeps M operation
    (finishAgent M machine run checkout provider serviceID secrets execution executionErr timedOut)"
proof -
  have log: "lic_keeps M operation (logStream machine run serviceID st content)" for st content
    unfolding logStream_def by (intro log.store_rules)
  have event: "lic_keeps M operation (providerEvent machine run e)" for e
    unfolding providerEvent_def by (intro log.store_rules)
  have git: "lic_keeps M operation (agentGitState M machine checkout r)" for r
    unfolding agentGitState_def by (intro log.store_rules log.keeps_outside) (use action current in simp)
  have pr: "lic_keeps M operation (openPullRequest M machine e checkout r)" if "rr_Branch r \<noteq> []" for e r
    unfolding openPullRequest_def Let_def split_beta
    by (intro log.store_rules lic.keeps_token log.keeps_outside) (use action that in simp)
  have complete: "lic_keeps M operation (completeRun M machine e checkout serviceID execution executionErr r)" for e r
    unfolding completeRun_def recordGitRefs_def by (intro log.store_rules) simp
  show ?thesis unfolding finishAgent_def Let_def
    by (intro log.store_rules log event git pr complete) simp
qed

lemma executeAgent_licensed:
  assumes "op_Action operation = OpRunAgent" and "current_or_cleanup operation machine"
    and "op_AgentRunID operation = Some (ar_ID run)" and "permitted_secrets M run secrets"
  shows "lic_keeps M operation (executeAgent M machine run providerRecord provider checkout secrets)"
  unfolding executeAgent_def cancelAgentA_def Let_def
  by (intro log.store_rules log.keeps_outside finishAgent_licensed)
    (use assms in simp_all)

lemma runAgent_licensed:
  assumes "op_Action operation = OpRunAgent" and "current_or_cleanup operation machine"
  shows "lic_keeps M operation (runAgent M machine operation)"
  unfolding runAgent_def Let_def
  by (intro log.keeps_option log.keeps_fail
      keeps_found [where P = "\<lambda>run. op_AgentRunID operation = Some (ar_ID run)"]
      log.keeps_if log.keeps_return log.keeps_bind [OF lic.keeps_run_checks(1)]
      log.keeps_bind [OF lic.keeps_run_checks(2)] log.keeps_bind [OF lic.keeps_run_checks(3)]
      log.keeps_prod log.keeps_bind [OF log.keeps_read(1)] log.keeps_cancel
      log.keeps_bind_gives [OF gives_agentSecrets lic.keeps_agent_secrets] executeAgent_licensed)
    (use assms in \<open>auto dest: found_run simp: permitted_secrets_def\<close>)

section \<open>All operations\<close>

lemma dispatch_licensed:
  assumes "current_or_cleanup operation machine"
    and "op_Action operation = OpSnapshotEnvironment \<Longrightarrow> m_Generation machine = op_Generation operation"
  shows "lic_keeps M operation (dispatch M machine services operation)"
  by (cases "op_Action operation")
    (simp_all add: dispatch_def assms log.keeps_return spawn_licensed processStart_licensed
      processPause_licensed processStop_licensed processTeardown_licensed runAgent_licensed
      processCancelAgent_licensed processCheckout_licensed processTerminateTerminal_licensed
      processSnapshot_licensed)

lemma processOperation_licensed: "lic_keeps M operation (processOperation M operation)"
  unfolding processOperation_def
proof (rule keeps_found [where P = "\<lambda>m. m_ID m = op_MachineID operation"])
  fix machine :: DevMachine assume machine: "m_ID machine = op_MachineID operation"
  let ?stale = "op_Generation operation < m_Generation machine \<and> \<not> cleanup_action (op_Action operation)"
  show "lic_keeps M operation
      (if op_Action operation = OpSnapshotEnvironment \<and> op_Generation operation \<noteq> m_Generation machine
       then failSnapshotOperation operation ''environment_snapshot_stale''
         (''machine generation changed from '' @ int_decimal (op_Generation operation) @ '' to ''
          @ int_decimal (m_Generation machine) @ '' before the snapshot completed'')
       else if ?stale then staleOperation operation
       else bindA (readA (\<lambda>now. ListServices (mg_collate M) (m_WorkspaceID machine) (m_ID machine)))
         (\<lambda>services. dispatch M machine services operation))"
    by (intro log.keeps_if log.keeps_stale log.keeps_bind log.keeps_read dispatch_licensed)
      (use machine in \<open>auto simp: current_or_cleanup_def\<close>)
qed (auto dest: found_machine intro: log.keeps_fail)

text \<open>
  (C10) Every call the processing of an operation makes is licensed. Whatever other processes do to
  the database in between, and whichever calls of the store or of the runtime fail: an operation
  acts on its own machine only and, unless it is a cleanup, only if the machine it read is not of a
  newer generation; the runtime is asked to pause a machine only once no ticket and no session of
  the machine is open, and to stop it only while its row says that the machine is stopping in the
  operation's generation; a snapshot is taken only of a machine that has come to rest in the
  operation's generation; an agent gets only secrets its run allows, and the GitHub token only to
  push or to open a pull request; the services given to a spawn are no agents; checkouts, runs,
  terminals and environments are those of the operation.
\<close>

theorem calls_are_licensed:
  "\<exists>calls. w_calls (snd (processOperation M operation w)) = w_calls w @ calls
     \<and> list_all (licensed M operation) calls"
  using processOperation_licensed [of M operation, THEN log.keepsD, of w] by (simp add: log_extends_def)

section \<open>The reconciliation\<close>

text \<open>The calls the reconciliation may make.\<close>

fun wanted :: "outside_call \<times> db \<Rightarrow> bool" where
  "wanted (CallSpawn machine services secrets, d) =
     (m_DesiredStatus machine = StatusRunning \<and> list_all not_agent services)"
| "wanted (CallStart machine services secrets, d) = False"
| "wanted (CallPause machine services, d) =
     (m_DesiredStatus machine = StatusPaused \<and> access_closed (m_ID machine) d)"
| "wanted (CallStop machine services, d) = (m_DesiredStatus machine = StatusStopped)"
| "wanted (CallTeardown machine services, d) = (m_DesiredStatus machine = StatusDestroyed)"
| "wanted (CallRunAgent machine run secrets, d) = False"
| "wanted (CallCancelAgent run, d) = (ar_Status run = RunRunning)"
| "wanted (CallTerminateTerminal machine session, d) = False"
| "wanted (CallPrepareCheckout machine checkout token, d) = False"
| "wanted (CallSnapshotEnvironment machine environment, d) = False"
| "wanted (CallGitState machine, d) = False"
| "wanted (CallCreatePullRequest owner name branch, d) = False"
| "wanted (CallInstallationToken i r, d) = True"
| "wanted (CallInspect machine, d) = (m_DesiredStatus machine = StatusRunning)"
| "wanted (CallStats machine, d) = (m_Status machine = StatusRunning)"
| "wanted (CallDeleteEnvironmentImage environment, d) = (en_Status environment = ''delete_requested'')"

interpretation want: token_log "log_extends wanted" wanted
  by unfold_locales simp

lemma converge_wanted:
  "m_DesiredStatus machine = StatusDestroyed \<Longrightarrow> log_keeps wanted (convergeDestroyed M machine services)"
  "m_DesiredStatus machine = StatusStopped \<Longrightarrow> log_keeps wanted (convergeStopped M machine services)"
  "m_DesiredStatus machine = StatusPaused \<Longrightarrow> log_keeps wanted (convergePaused M machine services)"
  "m_DesiredStatus machine = StatusRunning \<Longrightarrow> log_keeps wanted (recover M machine services)"
  unfolding convergeDestroyed_def convergeStopped_def convergePaused_def recover_def settleState_def
    teardownA_def stopA_def spawnA_def Let_def then_assoc [of "revokeA _" "pauseA _ _ _"]
  by (intro log.store_rules log.keeps_outside pause_licensed want.keeps_secrets; simp add: list_all_iff)+

lemma queue_wanted: "log_keeps S (queueDesired machine desired action key n)"
  unfolding queueDesired_def by (intro log.store_rules)

lemma sampleMachine_wanted: "m_Status machine = StatusRunning \<Longrightarrow> log_keeps wanted (sampleMachine M machine services)"
  unfolding sampleMachine_def by (intro log.store_rules log.keeps_outside queue_wanted) simp

lemma superviseRunning_wanted:
  assumes "m_DesiredStatus machine = StatusRunning"
  shows "log_keeps wanted (superviseRunning M machine services)"
  unfolding superviseRunning_def markInspected_def
  by (intro log.store_rules log.keeps_outside converge_wanted sampleMachine_wanted) (use assms in simp_all)

lemma reconcileMachine_wanted: "log_keeps wanted (reconcileMachine M machine)"
  unfolding reconcileMachine_def
  by (intro log.store_rules converge_wanted superviseRunning_wanted sampleMachine_wanted) simp_all

lemma reconcilePages_wanted: "log_keeps wanted (reconcilePages M fuel offset)"
  by (induction fuel arbitrary: offset) (auto intro!: log.store_rules reconcileMachine_wanted)

lemma timedOutRun_wanted: "ar_Status run = RunRunning \<Longrightarrow> log_keeps wanted (timedOutRun M run)"
  unfolding timedOutRun_def cancelAgentA_def Let_def
  by (intro log.store_rules log.keeps_outside) simp

lemma deleteEnvironment_wanted:
  "en_Status environment = ''delete_requested'' \<Longrightarrow> log_keeps wanted (deleteEnvironment M environment)"
  unfolding deleteEnvironment_def by (intro log.store_rules log.keeps_outside) simp

lemma quiet_sections:
  "log_keeps S (permanentDelete machine)" "log_keeps S (pauseIdle machine)" "log_keeps S (expireMachine machine)"
  unfolding permanentDelete_def requestDelete_def pauseIdle_def expireMachine_def
  by (intro log.store_rules queue_wanted)+

lemma listed_timed_out: "r \<in> set (ListTimedOutAgentRuns now n d) \<Longrightarrow> ar_Status r = RunRunning"
  by (auto simp: ListTimedOutAgentRuns_def dest!: in_set_takeD)

lemma listed_deletions: "e \<in> set (ListDeleteRequestedEnvironments n d) \<Longrightarrow> en_Status e = ''delete_requested''"
  unfolding ListDeleteRequestedEnvironments_def by (drule in_set_takeD) (simp only: set_sort set_filter mem_Collect_eq)

lemma keeps_listed:
  assumes "\<And>now d x. x \<in> set (f now d) \<Longrightarrow> log_keeps S (g x)" and "log_keeps S rest"
  shows "log_keeps S (bindA (readA f) (\<lambda>rows. thenA (eachA g rows) rest))"
  by (rule log.keeps_bind_gives [OF gives_read [where P = "\<lambda>rows. \<forall>x \<in> set rows. log_keeps S (g x)"]])
    (use assms in \<open>auto intro!: log.keeps_read log.keeps_then log.keeps_each\<close>)

lemma reconcile_wanted: "log_keeps wanted (reconcile M locked fuel)"
  unfolding reconcile_def
  by (intro log.keeps_bind [OF log.keeps_get] log.keeps_then log.keeps_put keeps_listed log.keeps_ignore
      log.keeps_read reconcilePages_wanted quiet_sections)
    (auto intro: timedOutRun_wanted deleteEnvironment_wanted dest: listed_timed_out listed_deletions)

text \<open>
  (C11) The reconciliation does what was asked for, and nothing else. Whatever happens in between
  and whichever calls fail: it tears down only machines whose desired status is destroyed, stops and
  pauses only machines that are to be stopped or paused, a pause only once no ticket and no session
  of the machine is open; it spawns (without agents) and inspects only machines that are to run,
  cancels only running agents, deletes only images whose deletion was requested, and starts no
  agent, checkout, snapshot or pull request.
\<close>

theorem reconcile_does_what_is_wanted:
  "\<exists>calls. w_calls (snd (reconcile M locked fuel w)) = w_calls w @ calls \<and> list_all wanted calls"
  using reconcile_wanted [of M locked fuel, THEN log.keepsD, of w] by (simp add: log_extends_def)

end
