(* ===== verification/Manager_Samples.thy ===== *)
theory Manager_Samples
  imports Manager_World Machine_Samples
begin

text \<open>
  A concrete manager and world for the witnesses: a runtime whose calls all succeed, except that
  \<open>Pause\<close> fails, no agent provider, a cipher and a fingerprint that are easy to evaluate, and a
  world around a given database and script.
\<close>

definition usage0 :: ResourceUsage where
  "usage0 = \<lparr>ru_CPUPercent = 0, ru_MemoryBytes = 0, ru_DiskBytes = 0, ru_Pids = 0,
     ru_NetworkRxBytes = 0, ru_NetworkTxBytes = 0\<rparr>"

definition inspection0 :: RuntimeInspection where
  "inspection0 = \<lparr>ri_NetworkName = ''net'', ri_VolumeName = ''vol'', ri_NetworkExists = True,
     ri_VolumeExists = True, ri_GatewayAttached = True, ri_Services = (\<lambda>_. None)\<rparr>"

definition runtime0 :: Runtime where
  "runtime0 = \<lparr>
     rt_Spawn = (\<lambda>n m svs secrets. Inr (''net'', ''vol'', \<lambda>_. Some ''c1'')),
     rt_Start = (\<lambda>n m svs secrets. Inr ()),
     rt_Pause = (\<lambda>n m svs. Inl (Errorf ''docker pause failed: no such container'')),
     rt_Stop = (\<lambda>n m svs. Inr ()),
     rt_Teardown = (\<lambda>n m svs. Inr ()),
     rt_RunAgent = (\<lambda>n m r p c secrets. (None, None, False)),
     rt_CancelAgent = (\<lambda>n r. Inr ()),
     rt_TerminateTerminal = (\<lambda>n m svs t. Inr ()),
     rt_Inspect = (\<lambda>n m svs. Inr inspection0),
     rt_Stats = (\<lambda>n m svs. Inr usage0),
     rt_GitState = (\<lambda>n m svs c. Inl (Errorf ''no repository'')),
     rt_PrepareCheckout = (\<lambda>n m svs c token. Inr ()),
     rt_SnapshotEnvironment = (\<lambda>n m svs e. Inr ''sha256:0a''),
     rt_DeleteEnvironmentImage = (\<lambda>n e. Inr ())\<rparr>"

definition manager0 :: Manager where
  "manager0 = \<lparr>mg_runtime = runtime0, mg_agents = (\<lambda>_. None), mg_github = None, mg_githubKey = False,
     mg_owner = ''worker-1'', mg_NewClient = (\<lambda>_ _. Inl (Errorf ''no client'')),
     mg_driver = (\<lambda>_. ''sql: error''), mg_collate = (\<lambda>_. 0), mg_unicode_lower = (\<lambda>r. r),
     mg_equal_fold = (=), mg_sha256 = (\<lambda>s. s), mg_Encrypt = (\<lambda>n s. Inr s), mg_Decrypt = Inr,
     mg_DecryptAppKey = Inr, mg_url_Parse = (\<lambda>_. None), mg_range = (\<lambda>s. s)\<rparr>"

definition world0 :: "db \<Rightarrow> script \<Rightarrow> world" where
  "world0 d script = \<lparr>w_db = d, w_now = 0, w_fresh = 100, w_seq = 1, w_script = script, w_calls = [],
     w_active = [], w_cancelled = [], w_operationsCompleted = 0, w_operationsFailed = 0,
     w_agentRunsCompleted = 0, w_lastReconcile = 0\<rparr>"

end
