(* ===== verification/Manager_Settlement.thy ===== *)
theory Manager_Settlement
  imports Manager_Logic Manager_Samples
begin

text \<open>
  What becomes of a leased operation: the processing of an operation leaves the queue alone, and the
  settlement that follows gives the lease up, whatever the runtime answered. The locale \<open>op_log\<close>
  collects the triples for relations that only look at the operations and the script.
\<close>

section \<open>Calls that leave the queue alone\<close>

named_theorems queue_frame \<open>store operations that do not change the operations, with a result\<close>
named_theorems queue_frame_eq \<open>store operations that do not change the operations\<close>

lemma frame_SetMachineStateForOperation [queue_frame]:
  "SetMachineStateForOperation now i g al st nn vn c msg d = (x, d') \<Longrightarrow> db_operations d' = db_operations d"
  by (auto simp: SetMachineStateForOperation_def)

lemma frame_UpdateServiceRuntime [queue_frame_eq]: "db_operations (UpdateServiceRuntime now i c s h m d) = db_operations d"
  by (simp add: UpdateServiceRuntime_def)

lemma frame_RevokeMachineAccess [queue_frame_eq]: "db_operations (RevokeMachineAccess now i d) = db_operations d"
  by (simp add: RevokeMachineAccess_def)

lemma frame_CompleteTerminalSessionClose [queue_frame_eq]: "db_operations (CompleteTerminalSessionClose now i d) = db_operations d"
  by (simp add: CompleteTerminalSessionClose_def)

lemma frame_CompleteAgentRun [queue_frame]: "CompleteAgentRun now run d = Inr d' \<Longrightarrow> db_operations d' = db_operations d"
  by (auto simp: CompleteAgentRun_def split: if_splits)

lemma frame_UpdateAgentRunStarted [queue_frame]: "UpdateAgentRunStarted now i d = Inr d' \<Longrightarrow> db_operations d' = db_operations d"
  by (auto simp: UpdateAgentRunStarted_def split: if_splits)

lemma frame_UpdateCheckoutState [queue_frame]: "UpdateCheckoutState now i s e d = Inr d' \<Longrightarrow> db_operations d' = db_operations d"
  by (auto simp: UpdateCheckoutState_def Let_def split: if_splits)

lemma frame_UpdateEnvironmentState [queue_frame]: "UpdateEnvironmentState now i s r g d = Inr d' \<Longrightarrow> db_operations d' = db_operations d"
  by (auto simp: UpdateEnvironmentState_def Let_def split: if_splits)

lemma frame_CreateEvent [queue_frame]: "CreateEvent now clock seq e d = Inr (x, d') \<Longrightarrow> db_operations d' = db_operations d"
  by (auto simp: CreateEvent_def Let_def split: if_splits)

lemma frame_CreateLogChunk [queue_frame]: "CreateLogChunk now seq c d = Inr (x, d') \<Longrightarrow> db_operations d' = db_operations d"
  unfolding CreateLogChunk_def by (auto simp: Let_def split: if_split_asm option.splits)

lemma frame_CreateGitRef [queue_frame]: "CreateGitRef now fresh r d = Inr (x, d') \<Longrightarrow> db_operations d' = db_operations d"
  by (auto simp: CreateGitRef_def Let_def split: if_splits)

lemma frame_CreateRuntimeService [queue_frame]: "CreateRuntimeService now s d = Inr (x, d') \<Longrightarrow> db_operations d' = db_operations d"
  unfolding CreateRuntimeService_def by (auto simp: Let_def split: if_split_asm option.splits)

lemma frame_UpsertRuntimeCredential [queue_frame]: "UpsertRuntimeCredential now fresh c d = Inr (x, d') \<Longrightarrow> db_operations d' = db_operations d"
  unfolding UpsertRuntimeCredential_def by (auto simp: Let_def split: if_split_asm option.splits)

section \<open>Triples for relations on the queue\<close>

locale op_log = world_relation R for R :: "world \<Rightarrow> world \<Rightarrow> bool" +
  assumes still: "w_db w' = w_db w \<Longrightarrow> w_script w' = w_script w \<Longrightarrow> R w w'"
    and step: "db_operations (w_db w') = db_operations (w_db (snd (before_call w)))
       \<Longrightarrow> w_script w' = w_script (snd (before_call w)) \<Longrightarrow> R w w'"
begin

lemma leaves_store:
  assumes "\<And>now fresh seq d x d'. f now fresh seq d = Inr (x, d') \<Longrightarrow> db_operations d' = db_operations d"
  shows "keeps (storeA f)"
  unfolding keeps_def storeA_def
  by (auto simp: split_beta intro!: step dest: assms split: option.split sum.split)

lemma leaves_read: "keeps (readA f)"
  unfolding readA_def by (rule leaves_store) simp

lemma leaves_write: "(\<And>now d. db_operations (f now d) = db_operations d) \<Longrightarrow> keeps (writeA f)"
  unfolding writeA_def by (rule leaves_store) auto

lemma leaves_try:
  "(\<And>now d d'. f now d = Inr d' \<Longrightarrow> db_operations d' = db_operations d) \<Longrightarrow> keeps (tryA f)"
  unfolding tryA_def by (rule leaves_store) (auto split: sum.splits)

lemma leaves_fresh: "keeps freshA"
  by (simp add: keeps_def freshA_def still)

lemma leaves_put: "(\<And>w. w_db (f w) = w_db w \<and> w_script (f w) = w_script w) \<Longrightarrow> keeps (putA f)"
  by (simp add: keeps_def putA_def still)

lemma leaves_pure: "keeps (\<lambda>w. (f w, w))"
  by (simp add: keeps_def refl)

lemma leaves_outside: "keeps (outsideA c f)"
  by (simp add: keeps_def outsideA_def still)

lemmas leaves_rules = keeps_rules leaves_read leaves_fresh leaves_pure leaves_outside

lemma leaves_state: "keeps (setStateA i g al st nn vn c msg)" "keeps (updateServiceA i k s h)"
    "keeps (revokeA i)"
  unfolding setStateA_def countA_def updateServiceA_def revokeA_def
  by (auto intro!: leaves_store leaves_write dest: queue_frame simp: queue_frame_eq)

lemma leaves_mark: "keeps (markServices P st h services)"
  unfolding markServices_def by (intro leaves_rules leaves_state)

lemma leaves_event: "keeps (createEvent machine runID source eventType payload)"
  unfolding createEvent_def by (rule leaves_store) (auto split: sum.splits dest: queue_frame)

lemma leaves_state_event: "keeps (setStateAndEventForOperation machine operation status e p al)"
  unfolding setStateAndEventForOperation_def by (intro leaves_rules leaves_state leaves_event)

lemma leaves_complete_run: "keeps (tryA (\<lambda>now. CompleteAgentRun now r))"
  by (rule leaves_try) (rule queue_frame)

lemma leaves_checkout: "keeps (tryA (\<lambda>now. UpdateCheckoutState now i s e))"
  by (rule leaves_try) (rule queue_frame)

lemma leaves_environment: "keeps (tryA (\<lambda>now. UpdateEnvironmentState now i s r g))"
  by (rule leaves_try) (rule queue_frame)

lemma leaves_cancel: "keeps (cancelRun i)" "keeps (cancelActiveRuns m r)" "keeps (endAgentRun f i)"
    "keeps (cancelStaleAgentRun i)" "keeps (failAgentRun M i e)"
proof -
  show run: "keeps (cancelRun i)" for i
    unfolding cancelRun_def by (intro leaves_rules leaves_complete_run leaves_put) simp
  show "keeps (cancelActiveRuns m r)" unfolding cancelActiveRuns_def by (intro leaves_rules run)
  show e: "keeps (endAgentRun f i)" for f i
    unfolding endAgentRun_def by (intro leaves_rules leaves_complete_run)
  show "keeps (cancelStaleAgentRun i)" "keeps (failAgentRun M i e)"
    unfolding cancelStaleAgentRun_def failAgentRun_def by (rule e)+
qed

lemma leaves_ref: "keeps (persistGitRef machine checkout run t n c p u)"
  unfolding persistGitRef_def by (rule leaves_store) (auto split: sum.splits dest: queue_frame)

lemma leaves_stale: "keeps (staleOperation operation)" "keeps (failSnapshotOperation operation c m)"
  unfolding staleOperation_def failSnapshotOperation_def
  by (auto intro!: leaves_rules leaves_cancel leaves_checkout leaves_environment
      split: DevMachineOperationAction.split)

lemma leaves_credential: "keeps (registerRuntimeCredential M i t e)"
  unfolding registerRuntimeCredential_def
  by (intro leaves_rules leaves_store) (auto split: sum.splits dest: queue_frame)

lemma leaves_token: "keeps (repositoryToken M machine name)"
proof -
  have "keeps (storeA (\<lambda>now fresh seq d. case GetGitHubInstallationID ws n d of None \<Rightarrow> Inl ErrNoRows | Some i \<Rightarrow> Inr (i, d)))"
    for ws n by (rule leaves_store) (auto split: option.splits)
  then show ?thesis unfolding repositoryToken_def githubClient_def Let_def
    by (intro leaves_rules leaves_credential)
qed

lemma leaves_secrets: "keeps (serviceSecrets M machine services)"
proof -
  have "keeps (service_values M machine services acc)" for acc
  proof (induction services arbitrary: acc)
    case (Cons service rest)
    then show ?case unfolding service_values.simps by (intro leaves_rules)
  qed (simp add: keeps_return)
  then show ?thesis unfolding serviceSecrets_def by (intro leaves_rules leaves_token)
qed

lemmas leaves_all = leaves_rules leaves_state leaves_mark leaves_event leaves_state_event leaves_cancel
  leaves_ref leaves_stale leaves_token leaves_secrets leaves_checkout leaves_environment leaves_complete_run

lemma leaves_spawn: "keeps (spawn M machine services operation)"
  unfolding spawn_def spawnA_def teardownA_def Let_def by (intro leaves_all)

lemma leaves_lifecycle:
  "keeps (processStart M machine services operation)" "keeps (processPause M machine services operation)"
  "keeps (processStop M machine services operation)" "keeps (processTeardown M machine services operation)"
  unfolding processStart_def processPause_def processStop_def processTeardown_def pauseA_def stopA_def
    teardownA_def
  by (intro leaves_all leaves_spawn)+

lemma leaves_others:
  "keeps (processCancelAgent M machine services operation)" "keeps (processCheckout M machine services operation)"
  "keeps (processTerminateTerminal M machine services operation)" "keeps (processSnapshot M machine services operation)"
  unfolding processCancelAgent_def cancelAgentA_def processCheckout_def processTerminateTerminal_def
    processSnapshot_def takeSnapshot_def snapshot_failed_def Let_def
  by (intro leaves_all leaves_write; simp add: queue_frame_eq)+

lemma leaves_finish:
  "keeps (finishAgent M machine run checkout provider serviceID secrets execution executionErr timedOut)"
proof -
  have log: "keeps (logStream machine run serviceID st content)" for st content
    unfolding logStream_def
    by (intro leaves_all leaves_store) (auto split: sum.splits dest: queue_frame)
  have event: "keeps (providerEvent machine run e)" for e
    unfolding providerEvent_def
    by (intro leaves_all leaves_store) (auto split: sum.splits dest: queue_frame)
  have git: "keeps (agentGitState M machine checkout r)" for r
    unfolding agentGitState_def by (intro leaves_all)
  have pr: "keeps (openPullRequest M machine e checkout r)" for e r
    unfolding openPullRequest_def Let_def split_beta by (intro leaves_all)
  have complete: "keeps (completeRun M machine e checkout serviceID execution executionErr r)" for e r
    unfolding completeRun_def recordGitRefs_def by (intro leaves_all leaves_put) simp
  show ?thesis unfolding finishAgent_def Let_def by (intro leaves_all log event git pr complete)
qed

lemma leaves_agent: "keeps (runAgent M machine operation)"
proof -
  have "keeps (storeA (\<lambda>now fresh seq d. CreateRuntimeService now (agent_service machine run prow i) d))"
    for run prow i by (rule leaves_store) (rule queue_frame)
  then have execute: "keeps (executeAgent M machine run prow provider checkout secrets)"
    for run prow provider checkout secrets
    unfolding executeAgent_def cancelAgentA_def Let_def by (intro leaves_all leaves_finish)
  have start: "keeps (startRun run)" for run
  proof -
    have "keeps (tryA (\<lambda>now. UpdateAgentRunStarted now i))" for i
      by (rule leaves_try) (rule queue_frame)
    then show ?thesis unfolding startRun_def by (intro leaves_all)
  qed
  show ?thesis
    unfolding runAgent_def runCheckout_def runProvider_def agentSecrets_def Let_def
    by (intro leaves_all start execute)
qed

lemma leaves_operation: "keeps (processOperation M operation)"
proof -
  have "keeps (dispatch M machine services operation)" for machine services
    by (cases "op_Action operation")
      (simp_all add: dispatch_def leaves_spawn leaves_lifecycle leaves_others leaves_agent keeps_return)
  then show ?thesis unfolding processOperation_def by (intro leaves_all)
qed

lemma leaves_failure: "keeps (recordFailure M operation e)"
  unfolding recordFailure_def
  by (intro leaves_all leaves_write) (simp add: FailTerminalSessionClose_def)

end

section \<open>Holding and giving up a lease\<close>

definition lease_held :: "uuid \<Rightarrow> string \<Rightarrow> db \<Rightarrow> bool" where
  "lease_held i owner d \<longleftrightarrow> (\<exists>r. filter (\<lambda>r. op_ID r = i) (db_operations d) = [r]
     \<and> op_Status r = OpStatusLeased \<and> op_LeaseOwner r = Some owner
     \<and> op_Attempts r * op_Attempts r * 5 < 2 ^ 31)"

definition lease_free :: "uuid \<Rightarrow> db \<Rightarrow> bool" where
  "lease_free i d \<longleftrightarrow> (\<forall>r \<in> set (db_operations d). op_ID r = i \<longrightarrow> op_Status r \<noteq> OpStatusLeased)"

text \<open>
  The others respect the lease: no call of the store fails, whoever interferes leaves a held lease
  held (renewing it, say) and does not lease the operation once it is free.
\<close>

definition respected :: "uuid \<Rightarrow> string \<Rightarrow> script \<Rightarrow> bool" where
  "respected i owner script \<longleftrightarrow> (\<forall>(dt, f, fault) \<in> set script. fault = None
     \<and> (\<forall>d. lease_held i owner d \<longrightarrow> lease_held i owner (f d)) \<and> (\<forall>d. lease_free i d \<longrightarrow> lease_free i (f d)))"

definition remains :: "uuid \<Rightarrow> string \<Rightarrow> (db \<Rightarrow> bool) \<Rightarrow> world \<Rightarrow> world \<Rightarrow> bool" where
  "remains i owner P w w' \<longleftrightarrow>
     (respected i owner (w_script w) \<and> P (w_db w) \<longrightarrow> respected i owner (w_script w') \<and> P (w_db w'))"

lemma lease_same_ops:
  assumes "db_operations d' = db_operations d"
  shows "lease_held i owner d' = lease_held i owner d" "lease_free i d' = lease_free i d"
  by (simp_all add: lease_held_def lease_free_def assms)

lemma before_call_respected:
  assumes "respected i owner (w_script w)"
  shows "fst (before_call w) = None" "respected i owner (w_script (snd (before_call w)))"
    "lease_held i owner (w_db w) \<Longrightarrow> lease_held i owner (w_db (snd (before_call w)))"
    "lease_free i (w_db w) \<Longrightarrow> lease_free i (w_db (snd (before_call w)))"
  using assms by (auto simp: before_call_def respected_def Let_def split: list.split)

lemma remains_op_log:
  assumes same: "\<And>d d'. db_operations d' = db_operations d \<Longrightarrow> P d' = P d"
    and before: "\<And>w. respected i owner (w_script w) \<Longrightarrow> P (w_db w) \<Longrightarrow> P (w_db (snd (before_call w)))"
  shows "op_log (remains i owner P)"
proof
  fix u v w w'
  show "remains i owner P w w" by (simp add: remains_def)
  show "remains i owner P u v \<Longrightarrow> remains i owner P v w \<Longrightarrow> remains i owner P u w"
    unfolding remains_def by blast
  show "w_db w' = w_db w \<Longrightarrow> w_script w' = w_script w \<Longrightarrow> remains i owner P w w'"
    by (simp add: remains_def)
  assume "db_operations (w_db w') = db_operations (w_db (snd (before_call w)))"
    and "w_script w' = w_script (snd (before_call w))"
  then show "remains i owner P w w'"
    unfolding remains_def using same before before_call_respected(2) by metis
qed

interpretation held: op_log "remains i owner (lease_held i owner)" for i owner
  by (rule remains_op_log; (erule lease_same_ops(1) | (rule before_call_respected(3); assumption)))

interpretation free: op_log "remains i owner (lease_free i)" for i owner
  by (rule remains_op_log; (erule lease_same_ops(2) | (rule before_call_respected(4); assumption)))

abbreviation held_keeps :: "uuid \<Rightarrow> string \<Rightarrow> 'a act \<Rightarrow> bool" where
  "held_keeps i owner \<equiv> world_relation.keeps (remains i owner (lease_held i owner))"

abbreviation free_keeps :: "uuid \<Rightarrow> string \<Rightarrow> 'a act \<Rightarrow> bool" where
  "free_keeps i owner \<equiv> world_relation.keeps (remains i owner (lease_free i))"

lemma lease_heldE:
  assumes "lease_held i owner d"
  obtains r where "r \<in> set (db_operations d)" "op_ID r = i" "op_Status r = OpStatusLeased"
    "op_LeaseOwner r = Some owner" "op_Attempts r * op_Attempts r * 5 < 2 ^ 31"
    "\<And>s. s \<in> set (db_operations d) \<Longrightarrow> op_ID s = i \<Longrightarrow> s = r"
    "filter (\<lambda>s. op_ID s = i) (db_operations d) = [r]"
proof -
  from assms obtain r where r: "filter (\<lambda>s. op_ID s = i) (db_operations d) = [r]"
    "op_Status r = OpStatusLeased" "op_LeaseOwner r = Some owner" "op_Attempts r * op_Attempts r * 5 < 2 ^ 31"
    unfolding lease_held_def by blast
  have all: "s \<in> set (db_operations d) \<and> op_ID s = i \<longleftrightarrow> s = r" for s
    using arg_cong [OF r(1), of set] by (auto simp: set_eq_iff)
  show thesis by (rule that [of r]) (use all r in blast)+
qed



lemma fail_frees:
  assumes "lease_held i owner d"
  shows "\<exists>x d'. FailOperation now i owner code message retryable d = Inr (x, d') \<and> lease_free i d'"
  using assms
proof (rule lease_heldE)
  fix r assume r: "r \<in> set (db_operations d)" "op_ID r = i" "op_Status r = OpStatusLeased"
    "op_LeaseOwner r = Some owner" "op_Attempts r * op_Attempts r * 5 < 2 ^ 31"
    and only: "\<And>s. s \<in> set (db_operations d) \<Longrightarrow> op_ID s = i \<Longrightarrow> s = r"
  have "owned_by i owner r" using r by (simp add: owned_by_def)
  then obtain s where s: "find (owned_by i owner) (db_operations d) = Some s"
    using r(1) by (cases "find (owned_by i owner) (db_operations d)") (auto simp: find_None_all)
  then have "s \<in> set (db_operations d)" "op_ID s = i" by (auto dest: find_SomeD simp: owned_by_def)
  then have "s = r" by (rule only)
  moreover have "op_Status t \<noteq> OpStatusLeased"
    if "t \<in> set (update_where (owned_by i owner) (failed_row now code message retryable) (db_operations d))"
      "op_ID t = i" for t
    using that(1)
  proof (cases rule: in_update_whereE)
    case 2
    then have "t = r" using only that(2) by blast
    with 2 \<open>owned_by i owner r\<close> show ?thesis by simp
  qed (simp add: failed_row_def Let_def)
  ultimately show ?thesis using s r(5)
    by (simp add: FailOperation_def lease_free_def)
qed

lemma complete_frees:
  assumes "lease_held i owner d"
  shows "\<exists>d'. CompleteOperation now i owner d = Inr d' \<and> lease_free i d'"
  using assms
proof (rule lease_heldE)
  fix r assume r: "op_ID r = i" "op_Status r = OpStatusLeased" "op_LeaseOwner r = Some owner"
    and only: "\<And>s. s \<in> set (db_operations d) \<Longrightarrow> op_ID s = i \<Longrightarrow> s = r"
    and rows: "filter (\<lambda>s. op_ID s = i) (db_operations d) = [r]"
  have mine: "leased_by i owner r" using r by (simp add: leased_by_def)
  have "filter (leased_by i owner) (db_operations d)
      = filter (leased_by i owner) (filter (\<lambda>s. op_ID s = i) (db_operations d))"
    by (simp add: filter_filter leased_by_def conj_ac cong: filter_cong)
  then have one: "rows_affected (leased_by i owner) (db_operations d) = 1"
    using mine by (simp add: rows_affected_def rows)
  let ?f = "\<lambda>r. r\<lparr>op_Status := OpStatusCompleted, op_CompletedAt := Some now, op_LeaseOwner := None,
               op_LeaseExpiresAt := None, op_UpdatedAt := now\<rparr>"
  have "op_Status t \<noteq> OpStatusLeased"
    if "t \<in> set (update_where (leased_by i owner) ?f (db_operations d))" "op_ID t = i" for t
    using that(1)
  proof (cases rule: in_update_whereE)
    case 2
    then have "t = r" using only that(2) by blast
    with 2 mine show ?thesis by simp
  qed simp
  then show ?thesis using one by (simp add: CompleteOperation_def lease_free_def)
qed

lemma completed_frees:
  "lease_held i owner d \<Longrightarrow> \<exists>x d'. (case CompleteOperation now i owner d of Inl e \<Rightarrow> Inl e
     | Inr d' \<Rightarrow> Inr ((), d')) = Inr (x, d') \<and> lease_free i d'"
  using complete_frees [of i owner d now] by auto

lemma purge_free: "PurgePermanentDeleteRequest now ws m d = Inr d' \<Longrightarrow> lease_free i d \<Longrightarrow> lease_free i d'"
  by (auto simp: PurgePermanentDeleteRequest_def Let_def delete_machines_def lease_free_def set_delete_where
      split: if_splits)

lemma remains_store:
  assumes "\<And>now fresh seq d x d'. f now fresh seq d = Inr (x, d') \<Longrightarrow> lease_free i d \<Longrightarrow> lease_free i d'"
  shows "free_keeps i owner (storeA f)"
  unfolding free.keeps_def remains_def storeA_def
  by (auto simp: split_beta before_call_respected dest: assms split: option.split sum.split)

section \<open>Every leased operation is settled\<close>

lemma store_frees:
  assumes "respected i owner (w_script w)" and "lease_held i owner (w_db w)"
    and "\<And>now fresh seq d. lease_held i owner d \<Longrightarrow> \<exists>x d'. f now fresh seq d = Inr (x, d') \<and> lease_free i d'"
  obtains x w' where "storeA f w = (Inr x, w')" "respected i owner (w_script w')" "lease_free i (w_db w')"
proof -
  let ?v = "snd (before_call w)"
  obtain x d' where "f (w_now ?v) (w_fresh w) (w_seq w) (w_db ?v) = Inr (x, d')" "lease_free i d'"
    using assms(3) [OF before_call_respected(3) [OF assms(1,2)]] by blast
  then have "storeA f w = (Inr x, ?v\<lparr>w_db := d'\<rparr>)"
    using before_call_respected(1) [OF assms(1)] by (cases "before_call w") (simp add: storeA_def)
  then show thesis
    by (rule that) (simp_all add: before_call_respected(2) [OF assms(1)] \<open>lease_free i d'\<close>)
qed

lemma free_after:
  "free_keeps i owner a \<Longrightarrow> respected i owner (w_script w) \<Longrightarrow> lease_free i (w_db w)
    \<Longrightarrow> respected i owner (w_script (snd (a w))) \<and> lease_free i (w_db (snd (a w)))"
  unfolding free.keeps_def remains_def by blast

lemma thenA_step: "a w = (Inr x, w') \<Longrightarrow> thenA a b w = b w'"
  by (simp add: thenA_def bindA_def)

lemma settle_frees:
  assumes "respected (op_ID operation) (mg_owner M) (w_script w)"
    and "lease_held (op_ID operation) (mg_owner M) (w_db w)"
  shows "lease_free (op_ID operation) (w_db (snd (settleFailure M operation e w)))"
    and "lease_free (op_ID operation) (w_db (snd (settleSuccess M operation w)))"
proof -
  let ?fail = "storeA (\<lambda>now fresh seq d. FailOperation now (op_ID operation) (mg_owner M)
     (errorCode M e) (safeError M e) (\<not> is_terminal e) d)"
  let ?w = "w\<lparr>w_operationsFailed := w_operationsFailed w + 1\<rparr>"
  obtain x w' where "?fail ?w = (Inr x, w')" and free: "respected (op_ID operation) (mg_owner M) (w_script w')"
    "lease_free (op_ID operation) (w_db w')"
    by (rule store_frees [of "op_ID operation" "mg_owner M" ?w
        "\<lambda>now fresh seq d. FailOperation now (op_ID operation) (mg_owner M)
           (errorCode M e) (safeError M e) (\<not> is_terminal e) d"])
      (use assms fail_frees in simp_all)
  then have "snd (settleFailure M operation e w) = snd (whenA (\<not> x) (recordFailure M operation e) w')"
    by (simp add: settleFailure_def thenA_def bindA_def putA_def)
  then show "lease_free (op_ID operation) (w_db (snd (settleFailure M operation e w)))"
    using free_after [OF free.keeps_when [OF free.leaves_failure] free] by simp
next
  let ?complete = "\<lambda>now (fresh :: uuid) (seq :: int) d.
     case CompleteOperation now (op_ID operation) (mg_owner M) d of Inl e \<Rightarrow> Inl e | Inr d' \<Rightarrow> Inr ((), d')"
  obtain x w' where settled: "storeA ?complete w = (Inr x, w')"
    and free: "respected (op_ID operation) (mg_owner M) (w_script w')" "lease_free (op_ID operation) (w_db w')"
    by (rule store_frees [OF assms, of ?complete]) (erule completed_frees)
  let ?rest = "thenA (whenA (op_Action operation = OpTeardown)
       (ignore (bindA (readA (\<lambda>now. GetMachineInternal (op_MachineID operation))) (\<lambda>found. case found of
          None \<Rightarrow> returnA ()
        | Some machine \<Rightarrow>
          whenA (m_DeleteRequestedAt machine \<noteq> None \<and> DevMachineSafelyPurgeable (Some machine))
            (tryA (\<lambda>now. PurgePermanentDeleteRequest now (m_WorkspaceID machine) (m_ID machine)))))))
     (putA (\<lambda>w. w\<lparr>w_operationsCompleted := w_operationsCompleted w + 1\<rparr>))"
  have purge: "free_keeps (op_ID operation) (mg_owner M) (tryA (\<lambda>now. PurgePermanentDeleteRequest now ws m))" for ws m
    unfolding tryA_def by (rule remains_store) (auto dest: purge_free split: sum.splits)
  have "free_keeps (op_ID operation) (mg_owner M) ?rest"
    by (intro free.leaves_rules free.leaves_put purge) simp
  then have "lease_free (op_ID operation) (w_db (snd (?rest w')))"
    using free_after [OF _ free] by blast
  moreover have "tryA (\<lambda>now. CompleteOperation now (op_ID operation) (mg_owner M)) w = (Inr x, w')"
    using settled by (simp add: tryA_def)
  then have "settleSuccess M operation w = ?rest w'"
    unfolding settleSuccess_def by (rule thenA_step)
  ultimately show "lease_free (op_ID operation) (w_db (snd (settleSuccess M operation w)))"
    by (simp only:)
qed

text \<open>
  (C12) Every leased operation is settled. If the worker holds the operation's lease and no call of
  the store fails, if whoever interferes leaves a held lease held and a free operation unleased, then
  after \<open>processLeasedOperation\<close>, whichever calls of the runtime, of GitHub or of the ciphers failed and
  whether or not the renewal reported an error, the operation is no longer leased.
\<close>

theorem leased_operation_is_settled:
  assumes "lease_held (op_ID operation) (mg_owner M) (w_db w)"
    and "respected (op_ID operation) (mg_owner M) (w_script w)"
  shows "lease_free (op_ID operation) (w_db (snd (processLeasedOperation M leaseErr operation w)))"
proof -
  let ?i = "op_ID operation" and ?o = "mg_owner M"
  let ?before = "bindA (registered operation registerActiveRun) (\<lambda>_. attempt (processOperation M operation))"
  let ?settle = "\<lambda>r. ignore (case (case r of Inl e \<Rightarrow> Some e | Inr _ \<Rightarrow> map_option StoreError leaseErr) of
      Some e \<Rightarrow> settleFailure M operation e | None \<Rightarrow> settleSuccess M operation)"
  have "held_keeps ?i ?o ?before"
    unfolding registered_def registerActiveRun_def
    by (intro held.leaves_rules held.leaves_operation held.leaves_put) simp
  then have held: "respected ?i ?o (w_script (snd (?before w)))" "lease_held ?i ?o (w_db (snd (?before w)))"
    using assms unfolding held.keeps_def remains_def by blast+
  obtain w1 where w1: "registered operation registerActiveRun w = (Inr (), w1)"
    by (cases "op_AgentRunID operation"; cases "op_Action operation = OpRunAgent")
      (auto simp: registered_def whenA_def returnA_def registerActiveRun_def putA_def)
  obtain r v where "processOperation M operation w1 = (r, v)" by (cases "processOperation M operation w1")
  with w1 have v: "?before w = (Inr r, v)" by (simp add: bindA_def attempt_def)
  have "lease_free ?i (w_db (snd (?settle r v)))"
    using settle_frees [of operation M v] held v by (auto simp: ignore_def split_beta split: option.split)
  moreover have "processLeasedOperation M leaseErr operation w
      = thenA (?settle r) (registered operation unregisterActiveRun) v"
    using v by (simp add: processLeasedOperation_def thenA_def bindA_def split: prod.splits sum.splits)
  moreover have "w_db (snd (thenA (?settle r) (registered operation unregisterActiveRun) v)) = w_db (snd (?settle r v))"
    by (simp add: thenA_def bindA_def ignore_def registered_def whenA_def returnA_def unregisterActiveRun_def
        putA_def split_beta split: option.split)
  ultimately show ?thesis by simp
qed

definition leased_pause :: DevMachineOperation where
  "leased_pause = operation0\<lparr>op_Action := OpPause, op_Status := OpStatusLeased,
     op_LeaseOwner := Some ''worker-1'', op_LeaseExpiresAt := Some (seconds 120), op_Attempts := 1\<rparr>"

definition settlement_world :: world where
  "settlement_world = world0 (db0\<lparr>db_machines := [machine0], db_operations := [leased_pause]\<rparr>)
     [(seconds 1, \<lambda>d. d, None)]"

theorem leased_operation_is_settled_witness:
  "lease_free 1 (w_db (snd (processLeasedOperation manager0 None leased_pause settlement_world)))"
proof -
  have "lease_held 1 ''worker-1'' (w_db settlement_world)"
    by (simp add: lease_held_def settlement_world_def world0_def leased_pause_def operation0_def)
  moreover have "respected 1 ''worker-1'' (w_script settlement_world)"
    by (simp add: respected_def settlement_world_def world0_def)
  moreover have "op_ID leased_pause = 1" "mg_owner manager0 = ''worker-1''"
    by (simp_all add: leased_pause_def operation0_def manager0_def)
  ultimately show ?thesis
    using leased_operation_is_settled [of leased_pause manager0 settlement_world None] by simp
qed

section \<open>What a failure leaves behind\<close>













end
