(* ===== verification/Service_Requests.thy ===== *)
theory Service_Requests
  imports Manager_World
begin

text \<open>
  The requests and responses of the machine service (\<open>BE/internal/dto/dev_machine.go\<close>). An absent
  pointer or a nil slice is \<open>None\<close>. The HTTP layer decodes and validates requests before the service
  sees them; nothing here relies on that, the service is modelled for any request.
\<close>

section \<open>Machines\<close>

record DevMachineRepoInput =
  ir_Provider :: string
  ir_Owner :: string
  ir_Name :: string
  ir_URL :: string

record DevMachineServicesInput =
  is_IDE :: bool
  is_Browser :: bool

record DevMachineAgentInput =
  ia_Provider :: string
  ia_Mode :: string
  ia_Config :: "json option"

record DevMachineEnvVarInput =
  ie_Name :: string
  ie_Value :: string
  ie_TargetService :: string
  ie_Provider :: "string option"
  ie_Secret :: "bool option"
  ie_TTLMinutes :: "int option"

record CreateDevMachineRequest =
  cr_Name :: string
  cr_IssueID :: "string option"
  cr_ProjectID :: "string option"
  cr_Repo :: "DevMachineRepoInput option"
  cr_BaseBranch :: string
  cr_WorkingBranch :: string
  cr_Size :: string
  cr_Services :: DevMachineServicesInput
  cr_Agents :: "DevMachineAgentInput list"
  cr_EnvVars :: "DevMachineEnvVarInput list"
  cr_EnvironmentID :: "string option"
  cr_KeepRunning :: bool
  cr_EnvironmentBuilder :: bool

record DevMachineScopeSettingRequest =
  sr_ScopeType :: string
  sr_ScopeID :: "string option"
  sr_GitHubRepoID :: "string option"
  sr_BaseBranch :: "string option"
  sr_EnvironmentID :: "string option"

record BulkDeleteDevMachineResult =
  dr_MachineID :: string
  dr_Status :: string
  dr_ErrorCode :: string

record BulkDeleteDevMachinesResponse =
  bd_Count :: nat
  bd_Requested :: nat
  bd_Results :: "BulkDeleteDevMachineResult list"

record PurgeDevMachinesRequest =
  pu_MachineIDs :: "string list"
  pu_OlderThanDays :: int
  pu_IncludeFailed :: bool
  pu_IncludeExpired :: bool

record CreateDevMachineEnvironmentRequest =
  ce_Name :: string
  ce_SourceMachineID :: string

record DevMachineListParams =
  lp_Page :: int
  lp_PerPage :: int
  lp_Status :: string
  lp_IssueID :: string

record DevMachinePolicyRequest =
  po_Enabled :: bool
  po_MaxConcurrentMachines :: int
  po_MaxMachinesPerUser :: int
  po_MaxDailyAgentRuns :: int
  po_MaxRuntimeMinutes :: int
  po_MaxDiskGB :: int
  po_AllowedProviders :: "string list option"
  po_AllowedRepositories :: "string list option"
  po_AllowCustomProviders :: bool
  po_IdlePauseMinutes :: int

text \<open>\<open>PaginationParams\<close> of \<open>BE/internal/dto/common.go\<close>.\<close>

definition list_Defaults :: "DevMachineListParams \<Rightarrow> DevMachineListParams" where
  "list_Defaults p = p\<lparr>lp_Page := (if lp_Page p = 0 then 1 else lp_Page p),
     lp_PerPage := (if lp_PerPage p = 0 then 50 else lp_PerPage p)\<rparr>"

definition Offset :: "DevMachineListParams \<Rightarrow> int" where
  "Offset p = (lp_Page p - 1) * lp_PerPage p"

section \<open>Operations, terminals and launches\<close>

record DevMachineOperationResponse =
  oo_ID :: string
  oo_Action :: string
  oo_Status :: string
  oo_Generation :: int
  oo_IdempotencyKey :: string
  oo_Attempts :: int
  oo_ErrorCode :: "string option"
  oo_ErrorMessage :: "string option"
  oo_CreatedAt :: time
  oo_CompletedAt :: "time option"

record CreateTerminalSessionRequest =
  ct_Name :: string
  ct_CheckoutID :: "string option"

record TerminalSessionResponse =
  tr_ID :: string
  tr_MachineID :: string
  tr_CheckoutID :: "string option"
  tr_Name :: string
  tr_RuntimeSessionName :: string
  tr_Status :: string
  tr_CreatedAt :: time
  tr_LastActivityAt :: time
  tr_ClosedAt :: "time option"

record TerminalSessionLaunchResponse =
  tl_Status :: string
  tl_Session :: "TerminalSessionResponse option"
  tl_LaunchURL :: string
  tl_WebSocketURL :: string
  tl_Protocol :: string
  tl_ExpiresAt :: time
  tl_Operation :: "DevMachineOperationResponse option"
  tl_RetryAfterSeconds :: int

record LaunchServiceResponse =
  ls_Status :: string
  ls_LaunchURL :: string
  ls_ExpiresAt :: time
  ls_Operation :: "DevMachineOperationResponse option"
  ls_RetryAfterSeconds :: int

section \<open>Agent runs, traces and the collector\<close>

record CreateAgentRunRequest =
  ca_CheckoutID :: "string option"
  ca_UseRootWorkspace :: bool
  ca_Provider :: string
  ca_Mode :: string
  ca_Prompt :: string
  ca_AcceptanceCriteria :: "string list option"
  ca_AllowedCommands :: "string list option"
  ca_ForbiddenPaths :: "string list option"
  ca_TestCommand :: "string list option"
  ca_MaxRuntimeSeconds :: int
  ca_ExtraArgs :: "string list option"
  ca_Config :: "json option"
  ca_AllowedSecrets :: "string list option"
  ca_PushBranch :: "bool option"
  ca_OpenPullRequest :: bool

record AgentProviderResponse =
  av_ID :: string
  av_DisplayName :: string
  av_DefaultImage :: string
  av_RequiredSecrets :: "string list option"
  av_SupportedModes :: "string list option"
  av_Custom :: bool

record CollectorEventInput =
  ic_AgentRunID :: "string option"
  ic_Source :: string
  ic_EventType :: string
  ic_Payload :: "json option"
  ic_OccurredAt :: "time option"

record CollectorLogInput =
  il_AgentRunID :: "string option"
  il_ServiceID :: "string option"
  il_Stream :: string
  il_Sequence :: int
  il_Content :: string
  il_Truncated :: bool

record TraceListParams =
  tp_EventsAfterID :: int
  tp_EventsLimit :: int
  tp_LogsAfterID :: int
  tp_LogsLimit :: int

record AgentRunTraceResponse =
  tt_Run :: DevMachineAgentRun
  tt_Events :: "DevMachineEvent list"
  tt_Logs :: "DevMachineLogChunk list"
  tt_NextEventID :: int
  tt_NextLogID :: int
  tt_HasMoreEvents :: bool
  tt_HasMoreLogs :: bool

definition trace_Defaults :: "TraceListParams \<Rightarrow> TraceListParams" where
  "trace_Defaults p = p\<lparr>
     tp_EventsLimit := (if tp_EventsLimit p \<le> 0 \<or> tp_EventsLimit p > 500 then 200 else tp_EventsLimit p),
     tp_LogsLimit := (if tp_LogsLimit p \<le> 0 \<or> tp_LogsLimit p > 2000 then 500 else tp_LogsLimit p)\<rparr>"

end
