(* ===== verification/Service_Text.thy ===== *)
theory Service_Text
  imports Service_Requests
begin

text \<open>
  The text functions of the machine service (\<open>BE/internal/service/dev_machine.go\<close>): the rules for
  names, branches, paths, repositories and variables, the redaction of secrets, the allow lists of a
  policy, the prompt of an agent run and the URLs of a launch; and what they use of packages
  \<open>strings\<close>, \<open>strconv\<close> and \<open>net/url\<close>.
\<close>

section \<open>Packages strings and strconv\<close>

definition HasSuffix :: "string \<Rightarrow> string \<Rightarrow> bool" where
  "HasSuffix s p \<longleftrightarrow> length p \<le> length s \<and> drop (length s - length p) s = p"

definition TrimSuffix :: "string \<Rightarrow> string \<Rightarrow> string" where
  "TrimSuffix s p = (if HasSuffix s p then take (length s - length p) s else s)"

definition TrimPrefix :: "string \<Rightarrow> string \<Rightarrow> string" where
  "TrimPrefix s p = (if HasPrefix s p then drop (length p) s else s)"

fun Contains :: "string \<Rightarrow> string \<Rightarrow> bool" where
  "Contains [] p \<longleftrightarrow> p = []"
| "Contains (c # cs) p \<longleftrightarrow> HasPrefix (c # cs) p \<or> Contains cs p"

text \<open>\<open>strings.ContainsAny\<close> and \<open>strings.Trim\<close> for cut sets of ASCII characters.\<close>

definition ContainsAny :: "string \<Rightarrow> string \<Rightarrow> bool" where
  "ContainsAny s chars \<longleftrightarrow> list_ex (\<lambda>c. c \<in> set chars) s"

definition Trim :: "string \<Rightarrow> string \<Rightarrow> string" where
  "Trim s chars = (let inner = (\<lambda>c. c \<in> set chars) in rev (dropWhile inner (rev (dropWhile inner s))))"

fun Join :: "string list \<Rightarrow> string \<Rightarrow> string" where
  "Join [] sep = []"
| "Join [x] sep = x"
| "Join (x # y # ys) sep = x @ sep @ Join (y # ys) sep"

text \<open>\<open>strconv.Quote\<close>; \<open>is_print\<close> is \<open>strconv.IsPrint\<close> above ASCII.\<close>

definition quote_rune :: "(nat \<Rightarrow> bool) \<Rightarrow> nat \<times> string \<Rightarrow> string" where
  "quote_rune is_print p = (let r = fst p in
     if broken p then bs ''x'' @ concat (map (\<lambda>c. hex_digits 2 (byte c)) (snd p))
     else if r = 34 \<or> r = 92 then bs (snd p)
     else if 32 \<le> r \<and> r < 127 \<or> 128 \<le> r \<and> is_print r then snd p
     else if r = 7 then bs ''a''
     else if r = 8 then bs ''b''
     else if r = 12 then bs ''f''
     else if r = 10 then bs ''n''
     else if r = 13 then bs ''r''
     else if r = 9 then bs ''t''
     else if r = 11 then bs ''v''
     else if r < 32 \<or> r = 127 then bs ''x'' @ hex_digits 2 r
     else if r < 65536 then bs ''u'' @ hex_digits 4 r
     else bs ''U'' @ hex_digits 8 r)"

definition strconv_Quote :: "(nat \<Rightarrow> bool) \<Rightarrow> string \<Rightarrow> string" where
  "strconv_Quote is_print s = [CHR 0x22] @ concat (map (quote_rune is_print) (runes s)) @ [CHR 0x22]"

section \<open>Names, branches and paths\<close>

text \<open>A loop over the characters of a Go string is a loop over its runes.\<close>

definition every_rune :: "(nat \<Rightarrow> bool) \<Rightarrow> string \<Rightarrow> bool" where
  "every_rune P s \<longleftrightarrow> list_all (P \<circ> fst) (runes s)"

definition lower_letter :: "nat \<Rightarrow> bool" where
  "lower_letter r \<longleftrightarrow> 97 \<le> r \<and> r \<le> 122"

definition letter_or_digit :: "nat \<Rightarrow> bool" where
  "letter_or_digit r \<longleftrightarrow> 65 \<le> r \<and> r \<le> 90 \<or> lower_letter r \<or> 48 \<le> r \<and> r \<le> 57"

definition validGitHubOwner :: "string \<Rightarrow> bool" where
  "validGitHubOwner s \<longleftrightarrow> \<not> (s = [] \<or> length s > 100 \<or> hd s = CHR ''-'' \<or> HasSuffix s ''-'')
     \<and> every_rune (\<lambda>r. letter_or_digit r \<or> r = 45) s"

definition validGitHubRepository :: "string \<Rightarrow> bool" where
  "validGitHubRepository s \<longleftrightarrow>
     \<not> (s = [] \<or> length s > 100 \<or> s = ''.'' \<or> s = ''..'' \<or> HasSuffix s ''.'')
     \<and> every_rune (\<lambda>r. letter_or_digit r \<or> r = 45 \<or> r = 95 \<or> r = 46) s"

definition normalizeMachineName :: "string \<Rightarrow> string" where
  "normalizeMachineName s = TrimSpace s"

definition validMachineName :: "string \<Rightarrow> bool" where
  "validMachineName s \<longleftrightarrow>
     \<not> (length s < 3 \<or> length s > 255 \<or> \<not> lower_letter (byte (hd s)) \<or> last s = CHR ''-'')
     \<and> every_rune (\<lambda>r. lower_letter r \<or> 48 \<le> r \<and> r \<le> 57 \<or> r = 45) s"

definition validMachineStatus :: "string \<Rightarrow> bool" where
  "validMachineStatus s \<longleftrightarrow> s \<in> {''configuring'', ''queued'', ''spawning'', ''running'', ''paused'',
     ''stopping'', ''stopped'', ''tearing_down'', ''destroyed'', ''failed'', ''expired''}"

definition forbidden_in_ref :: "nat \<Rightarrow> bool" where
  "forbidden_in_ref r \<longleftrightarrow> r \<le> 32 \<or> r \<in> set (map byte ''~^:?*['') \<or> r = 92"

definition validGitRef :: "string \<Rightarrow> bool" where
  "validGitRef s \<longleftrightarrow>
     \<not> (s = [] \<or> HasPrefix s ''-'' \<or> HasPrefix s ''.'' \<or> HasSuffix s ''/'' \<or> HasSuffix s ''.''
        \<or> Contains s ''..'' \<or> Contains s (CHR ''@'' # ''{'') \<or> Contains s ''//'')
   \<and> every_rune (\<lambda>r. \<not> forbidden_in_ref r) s
   \<and> list_all (\<lambda>component. \<not> (component = [] \<or> component = ''.'' \<or> component = ''..''
        \<or> HasSuffix component ''.lock'')) (Split s CHR ''/'')"

definition validWorkspacePathSegment :: "string \<Rightarrow> bool" where
  "validWorkspacePathSegment s \<longleftrightarrow>
     \<not> (s = [] \<or> s = ''.'' \<or> s = ''..'' \<or> Contains s ''/'' \<or> Contains s ''..'')
   \<and> every_rune (\<lambda>r. letter_or_digit r \<or> r = 95 \<or> r = 45 \<or> r = 46) s"

definition validEnvName :: "string \<Rightarrow> bool" where
  "validEnvName s \<longleftrightarrow> s \<noteq> []
     \<and> (let b = byte (hd s) in 65 \<le> b \<and> b \<le> 90 \<or> 97 \<le> b \<and> b \<le> 122 \<or> b = 95)
     \<and> every_rune (\<lambda>r. letter_or_digit r \<or> r = 95) (drop 1 s)"

definition reserved_name :: "string \<Rightarrow> bool" where
  "reserved_name s \<longleftrightarrow> s = ''GITHUB_TOKEN'' \<or> HasPrefix s ''KUAYLE_''"

definition readyEnvironmentImageRef :: "DevMachineEnvironment option \<Rightarrow> string" where
  "readyEnvironmentImageRef environment = (case environment of
     None \<Rightarrow> []
   | Some e \<Rightarrow> (case en_ImageDigest e of
       Some digest \<Rightarrow> if HasPrefix (TrimSpace digest) ''sha256:'' then TrimSpace digest else TrimSpace (en_ImageRef e)
     | None \<Rightarrow> TrimSpace (en_ImageRef e)))"

definition service_splitRepositoryFullName :: "string \<Rightarrow> string \<times> string" where
  "service_splitRepositoryFullName fullName = (case SplitN2 fullName CHR ''/'' of
     [owner, name] \<Rightarrow> (owner, name)
   | _ \<Rightarrow> ([], fullName))"

definition defaultWorkingBranch :: "(nat \<Rightarrow> nat) \<Rightarrow> string \<Rightarrow> Issue option \<Rightarrow> string" where
  "defaultWorkingBranch unicode_lower machineName issue = (case issue of
     Some i \<Rightarrow> if iss_Identifier i \<noteq> [] then ''kuayle/'' @ ToLower unicode_lower (iss_Identifier i)
       else ''kuayle/'' @ machineName
   | None \<Rightarrow> ''kuayle/'' @ machineName)"

section \<open>Repositories and origins\<close>

definition validateRepository ::
  "(string \<Rightarrow> URL option) \<Rightarrow> (string \<Rightarrow> string \<Rightarrow> bool) \<Rightarrow> DevMachineRepoInput \<Rightarrow> go_error + unit" where
  "validateRepository url_Parse equal_fold input = (case url_Parse (ir_URL input) of
     None \<Rightarrow> Inl (Errorf ''repository URL must be an HTTPS github.com URL without credentials, query, or fragment'')
   | Some u \<Rightarrow>
     if ur_Scheme u \<noteq> ''https'' \<or> \<not> equal_fold (ur_Hostname u) ''github.com'' \<or> ur_Port u \<noteq> [] \<or> ur_User u
        \<or> ur_RawQuery u \<noteq> [] \<or> ur_Fragment u \<noteq> []
     then Inl (Errorf ''repository URL must be an HTTPS github.com URL without credentials, query, or fragment'')
     else (case Split (TrimPrefix (TrimSuffix (Trim (ur_EscapedPath u) ''/'') ''.git'') ''/'') CHR ''/'' of
         [owner, name] \<Rightarrow>
           if \<not> equal_fold owner (ir_Owner input) \<or> \<not> equal_fold name (ir_Name input)
           then Inl (Errorf ''repository URL must match repo owner and name'')
           else if \<not> validGitHubOwner (ir_Owner input) \<or> \<not> validGitHubRepository (ir_Name input)
           then Inl (Errorf ''invalid GitHub repository owner or name'')
           else Inr ()
       | _ \<Rightarrow> Inl (Errorf ''repository URL must match repo owner and name'')))"

definition normalizeOrigin :: "(string \<Rightarrow> URL option) \<Rightarrow> (nat \<Rightarrow> nat) \<Rightarrow> string \<Rightarrow> string" where
  "normalizeOrigin url_Parse unicode_lower raw = (case url_Parse (TrimSpace raw) of
     None \<Rightarrow> []
   | Some u \<Rightarrow>
     if ur_Scheme u = [] \<or> ur_Host u = [] \<or> ur_User u then []
     else (let scheme = ToLower unicode_lower (ur_Scheme u) in
       if scheme \<noteq> ''http'' \<and> scheme \<noteq> ''https'' then []
       else scheme @ ''://'' @ ToLower unicode_lower (ur_Host u)))"

section \<open>Allow lists\<close>

definition providerAllowed :: "rawjson \<Rightarrow> string \<Rightarrow> bool" where
  "providerAllowed raw provider = (let (allowed, ok) = Unmarshal_strings raw in
     if \<not> ok then False else list_ex (\<lambda>candidate. candidate = provider) allowed)"

definition repositoryAllowed :: "(string \<Rightarrow> string \<Rightarrow> bool) \<Rightarrow> rawjson \<Rightarrow> string \<Rightarrow> bool" where
  "repositoryAllowed equal_fold raw repository = (let (allowed, ok) = Unmarshal_strings raw in
     if \<not> ok \<or> length allowed = 0 then True
     else list_ex (\<lambda>candidate. equal_fold candidate repository) allowed)"

text \<open>\<open>json.Marshal\<close> of a slice that may be nil.\<close>

definition Marshal_slice :: "string list option \<Rightarrow> rawjson" where
  "Marshal_slice xs = (case xs of None \<Rightarrow> Marshal JNull | Some ys \<Rightarrow> Marshal_strings ys)"

section \<open>Redaction\<close>

definition redactText :: "string \<Rightarrow> string list \<Rightarrow> string" where
  "redactText s secrets = foldl (\<lambda>t secret.
     if secret \<noteq> [] then ReplaceAll t secret ''[REDACTED]'' else t) s secrets"

text \<open>\<open>order\<close> is the order in which a \<open>range\<close> visits the members of a map.\<close>

fun redactPayload :: "((string \<times> json) list \<Rightarrow> (string \<times> json) list) \<Rightarrow> string list \<Rightarrow> json \<Rightarrow> json" where
  "redactPayload order secrets (JString s) = JString (redactText s secrets)"
| "redactPayload order secrets (JArray vs) = JArray (map (redactPayload order secrets) vs)"
| "redactPayload order secrets (JObject ms) = JObject (foldl (\<lambda>redacted (k, v). put_member k v redacted) []
     (order (map (\<lambda>(k, v). (redactText k secrets, redactPayload order secrets v)) ms)))"
| "redactPayload order secrets v = v"

section \<open>The prompt of an agent run\<close>

definition newline :: string where
  "newline = [CHR 0x0A]"

definition contract_line :: "string \<Rightarrow> string list option \<Rightarrow> string" where
  "contract_line label items = (case items of
     Some (x # xs) \<Rightarrow> ''- '' @ label @ '': '' @ Join (x # xs) '', '' @ newline
   | _ \<Rightarrow> [])"

definition buildAgentPrompt ::
  "(nat \<Rightarrow> bool) \<Rightarrow> DevMachine \<Rightarrow> DevMachineCheckout option \<Rightarrow> CreateAgentRunRequest \<Rightarrow> string" where
  "buildAgentPrompt is_print machine checkout request =
     (let (workspacePath, repository, baseBranch, workingBranch) = (case checkout of
          None \<Rightarrow> (''/workspace'', m_RepoOwner machine @ ''/'' @ m_RepoName machine,
            m_BaseBranch machine, m_WorkingBranch machine)
        | Some c \<Rightarrow> (co_WorkspacePath c, co_RepositoryFullName c, co_BaseBranch c, co_WorkingBranch c)) in
      ca_Prompt request @ newline @ newline @ ''Kuayle execution contract:'' @ newline
    @ ''- Repository: '' @ repository @ newline @ ''- Base branch: '' @ baseBranch @ newline
    @ ''- Working branch: '' @ workingBranch @ newline
    @ ''- Work only inside '' @ workspacePath @ ''. Never print or persist credentials.'' @ newline
    @ contract_line ''Forbidden paths'' (ca_ForbiddenPaths request)
    @ contract_line ''Allowed commands'' (ca_AllowedCommands request)
    @ (case ca_AcceptanceCriteria request of
        Some (x # xs) \<Rightarrow> ''- Acceptance criteria:'' @ newline
          @ concat (map (\<lambda>criterion. ''  - '' @ criterion @ newline) (x # xs))
      | _ \<Rightarrow> [])
    @ (case ca_TestCommand request of
        Some (x # xs) \<Rightarrow> ''- Run this exact test argv: ['' @ Join (map (strconv_Quote is_print) (x # xs)) '' ''
          @ '']'' @ newline
      | _ \<Rightarrow> [])
    @ (if \<not> ca_UseRootWorkspace request \<and> (ca_PushBranch request = None \<or> ca_PushBranch request = Some True)
       then ''- Commit the completed changes and push the working branch using the provided GitHub App credential.''
         @ newline
       else [])
    @ ''- Finish with a concise summary, changed files, commits, tests, and risks.'' @ newline)"

section \<open>Launch URLs\<close>

definition upper_hex_digit :: "nat \<Rightarrow> char" where
  "upper_hex_digit n = (if n < 10 then char_of (48 + n) else char_of (55 + n))"

definition percent :: "char \<Rightarrow> string" where
  "percent c = [CHR ''%'', upper_hex_digit (byte c div 16), upper_hex_digit (byte c mod 16)]"

definition unreserved :: "char \<Rightarrow> bool" where
  "unreserved c \<longleftrightarrow> letter_or_digit (byte c) \<or> c \<in> set ''-_.~''"

definition QueryEscape :: "string \<Rightarrow> string" where
  "QueryEscape s = concat (map (\<lambda>c. if unreserved c then [c] else if c = CHR '' '' then ''+'' else percent c) s)"

definition escape_host :: "string \<Rightarrow> string" where
  "escape_host s = concat (map (\<lambda>c.
     if unreserved c \<or> c \<in> set ''!$&()*+,;=:[]<>'' \<or> byte c = 34 \<or> byte c = 39 then [c] else percent c) s)"

text \<open>\<open>url.Values.Encode\<close> of values with one string per key, listed in the order of the keys.\<close>

definition encode_values :: "(string \<times> string) list \<Rightarrow> string" where
  "encode_values vs = Join (map (\<lambda>(k, v). QueryEscape k @ ''='' @ QueryEscape v) vs) ''&''"

text \<open>\<open>URL.String\<close> of a scheme, a host, an absolute path without special characters and a query.\<close>

definition url_String :: "string \<Rightarrow> string \<Rightarrow> string \<Rightarrow> string \<Rightarrow> string" where
  "url_String scheme host path query =
     scheme @ ''://'' @ escape_host host @ path @ (if query = [] then [] else ''?'' @ query)"

section \<open>Terminals and runs\<close>

definition terminalWorkingDirectory :: "DevMachine \<Rightarrow> DevMachineCheckout option \<Rightarrow> string" where
  "terminalWorkingDirectory machine checkout =
     (let fallback = (if m_RepoOwner machine \<noteq> [] \<and> m_RepoName machine \<noteq> [] then ''/workspace''
        else ''/workspace/tasks'') in
      case checkout of
        Some c \<Rightarrow> if co_WorkspacePath c \<noteq> [] then co_WorkspacePath c else fallback
      | None \<Rightarrow> fallback)"

definition terminalTicketHash :: "(string \<Rightarrow> string) \<Rightarrow> string \<Rightarrow> string \<Rightarrow> string \<Rightarrow> string \<Rightarrow> string" where
  "terminalTicketHash sha256 rawTicket frontendOrigin runtimeSessionName workingDirectory =
     EncodeToString (sha256 (Join [rawTicket, frontendOrigin, runtimeSessionName, workingDirectory] newline))"

text \<open>The status text of an operation action and status (\<open>string(operation.Action)\<close>).\<close>

definition action_text :: "DevMachineOperationAction \<Rightarrow> string" where
  "action_text action = (case action of
     OpSpawn \<Rightarrow> ''spawn'' | OpStart \<Rightarrow> ''start'' | OpStop \<Rightarrow> ''stop'' | OpPause \<Rightarrow> ''pause''
   | OpTeardown \<Rightarrow> ''teardown'' | OpReconcile \<Rightarrow> ''reconcile'' | OpRunAgent \<Rightarrow> ''run_agent''
   | OpCancelAgent \<Rightarrow> ''cancel_agent'' | OpCheckoutIssue \<Rightarrow> ''checkout_issue''
   | OpSnapshotEnvironment \<Rightarrow> ''snapshot_environment'' | OpTerminateTerminal \<Rightarrow> ''terminate_terminal'')"

definition operation_status_text :: "DevMachineOperationStatus \<Rightarrow> string" where
  "operation_status_text status = (case status of
     OpStatusPending \<Rightarrow> ''pending'' | OpStatusLeased \<Rightarrow> ''leased'' | OpStatusCompleted \<Rightarrow> ''completed''
   | OpStatusFailed \<Rightarrow> ''failed'' | OpStatusCancelled \<Rightarrow> ''cancelled'')"

end
