(* ===== verification/Service_Base.thy ===== *)
theory Service_Base
  imports Service_Text
begin

text \<open>
  The machine service (\<open>BE/internal/service/dev_machine.go\<close>) as actions on the world: its
  configuration, its errors, and the functions its operations share. A function of the service reads
  and writes the database only through the store, one call at a time; the script of the world says
  what happens between two calls.
\<close>

section \<open>The service\<close>

record DevMachineImages =
  im_IDE :: string
  im_Browser :: string
  im_Collector :: string
  im_Egress :: string

text \<open>
  The registry of agent providers (\<open>BE/internal/agent/agent.go\<close>) is a map from identifiers, listed
  here in the order of the identifiers.
\<close>

type_synonym Registry = "(string \<times> Provider) list"

definition NewRegistry :: "Provider list \<Rightarrow> Registry" where
  "NewRegistry providers = foldl (\<lambda>r p. put_member (md_ID (pv_Metadata p)) p r) [] providers"

definition registry_Get :: "Registry \<Rightarrow> string \<Rightarrow> Provider option" where
  "registry_Get r i = map_of r i"

definition registry_List :: "Registry \<Rightarrow> Provider list" where
  "registry_List r = map snd r"

text \<open>
  The fields of \<open>DevMachineService\<close>, with the outside functions the service uses: the texts of
  database errors, the collation and the \<open>jsonb\<close> containment test of the database, the tables of package
  \<open>unicode\<close>, SHA-256, the cipher under the service's key (\<open>BE/pkg/crypto/encrypt.go\<close>; \<open>Encrypt\<close>
  draws a nonce), the parsers of URLs and of UUIDs (the UUID is used even where the error is
  ignored), random bytes, and the order in which a \<open>range\<close> visits a map. Functions that draw
  randomness take the number of draws made before.
\<close>

record MachineService =
  ms_agents :: Registry
  ms_enabled :: bool
  ms_domain :: string
  ms_frontendOrigin :: string
  ms_ticketTTL :: duration
  ms_images :: DevMachineImages
  ms_driver :: "store_error \<Rightarrow> string"
  ms_collate :: "string \<Rightarrow> nat"
  ms_has_scope :: "rawjson \<Rightarrow> string \<Rightarrow> bool"
  ms_unicode_lower :: "nat \<Rightarrow> nat"
  ms_is_print :: "nat \<Rightarrow> bool"
  ms_equal_fold :: "string \<Rightarrow> string \<Rightarrow> bool"
  ms_sha256 :: "string \<Rightarrow> string"
  ms_Encrypt :: "nat \<Rightarrow> string \<Rightarrow> go_error + string"
  ms_Decrypt :: "string \<Rightarrow> go_error + string"
  ms_url_Parse :: "string \<Rightarrow> URL option"
  ms_uuid_Parse :: "string \<Rightarrow> uuid \<times> bool"
  ms_rand :: "nat \<Rightarrow> nat \<Rightarrow> go_error + string"
  ms_order :: "(string \<times> json) list \<Rightarrow> (string \<times> json) list"

definition NewDevMachineService :: "MachineService \<Rightarrow> string \<Rightarrow> string list \<Rightarrow> MachineService" where
  "NewDevMachineService S domain frontendURL = S\<lparr>
     ms_domain := TrimSuffix (ToLower (ms_unicode_lower S) domain) ''.'',
     ms_frontendOrigin := (case frontendURL of
        [] \<Rightarrow> [] | u # _ \<Rightarrow> normalizeOrigin (ms_url_Parse S) (ms_unicode_lower S) u)\<rparr>"

section \<open>Errors\<close>

text \<open>\<open>fmt.Errorf("%w: detail", ErrX)\<close>, the bare sentinel, and \<open>errors.Is\<close>.\<close>

definition refuse :: "service_error \<Rightarrow> string \<Rightarrow> 'a act" where
  "refuse e detail = failA (ServiceError e ('': '' @ detail))"

definition raise :: "service_error \<Rightarrow> 'a act" where
  "raise e = failA (ServiceError e [])"

fun is_service :: "service_error \<Rightarrow> go_error \<Rightarrow> bool" where
  "is_service x (ServiceError e detail) = (e = x)"
| "is_service x (Wrapped s e) = is_service x e"
| "is_service x _ = False"

fun is_store :: "store_error \<Rightarrow> go_error \<Rightarrow> bool" where
  "is_store x (StoreError e) = (e = x)"
| "is_store x (Wrapped s e) = is_store x e"
| "is_store x _ = False"

text \<open>What the caller of a failing call returns instead of its error.\<close>

definition translate :: "(go_error \<Rightarrow> go_error) \<Rightarrow> 'a act \<Rightarrow> 'a act" where
  "translate f a w = (case a w of (Inl e, w') \<Rightarrow> (Inl (f e), w') | (Inr x, w') \<Rightarrow> (Inr x, w'))"

definition as_invalid_operation :: "MachineService \<Rightarrow> go_error \<Rightarrow> go_error" where
  "as_invalid_operation S e = ServiceError ErrInvalidOperation ('': '' @ error_text (ms_driver S) e)"

text \<open>A value that must be there, and a condition that must hold.\<close>

definition present :: "'a act \<Rightarrow> 'a option \<Rightarrow> 'a act" where
  "present missing x = (case x of None \<Rightarrow> missing | Some y \<Rightarrow> returnA y)"

definition unless :: "bool \<Rightarrow> unit act \<Rightarrow> unit act" where
  "unless b a = (if b then returnA () else a)"

section \<open>Time, randomness and identifiers\<close>

definition nowA :: "time act" where
  "nowA = getA w_now"

definition drawA :: "(nat \<Rightarrow> go_error + 'a) \<Rightarrow> 'a act" where
  "drawA f w = (f (w_fresh w), w\<lparr>w_fresh := w_fresh w + 1\<rparr>)"

definition randomHex :: "MachineService \<Rightarrow> nat \<Rightarrow> string act" where
  "randomHex S bytes = bindA (drawA (\<lambda>n. ms_rand S n bytes)) (\<lambda>buffer. returnA (EncodeToString buffer))"

definition encryptA :: "MachineService \<Rightarrow> string \<Rightarrow> string act" where
  "encryptA S s = drawA (\<lambda>n. ms_Encrypt S n s)"

definition parse_id :: "MachineService \<Rightarrow> string \<Rightarrow> string \<Rightarrow> uuid act" where
  "parse_id S raw detail = (let (i, ok) = ms_uuid_Parse S raw in
     if ok then returnA i else refuse ErrInvalidMachineInput detail)"

section \<open>Shared functions\<close>

definition GetForUser :: "uuid \<Rightarrow> uuid \<Rightarrow> uuid \<Rightarrow> DevMachine act" where
  "GetForUser workspaceID machineID userID =
     bindA (readA (\<lambda>now. GetMachineForUser workspaceID machineID userID)) (present (raise ErrMachineNotFound))"

definition enabledPolicy :: "MachineService \<Rightarrow> uuid \<Rightarrow> DevMachineWorkspacePolicy act" where
  "enabledPolicy S workspaceID =
     (if \<not> ms_enabled S then raise ErrDevMachinesDisabled
      else bindA (readA (\<lambda>now. GetPolicy workspaceID)) (\<lambda>policy. case policy of
          None \<Rightarrow> raise ErrDevMachinesDisabled
        | Some p \<Rightarrow> if wp_Enabled p then returnA p else raise ErrDevMachinesDisabled))"

text \<open>The count of a workspace and of one of its users against the policy (in \<open>Create\<close> and \<open>Lifecycle\<close>).\<close>

definition within_quota :: "uuid \<Rightarrow> uuid \<Rightarrow> DevMachineWorkspacePolicy \<Rightarrow> unit act" where
  "within_quota workspaceID userID policy =
     bindA (readA (\<lambda>now. CountActiveMachines workspaceID None)) (\<lambda>workspaceCount.
     bindA (readA (\<lambda>now. CountActiveMachines workspaceID (Some userID))) (\<lambda>userCount.
     if int workspaceCount \<ge> wp_MaxConcurrentMachines policy \<or> int userCount \<ge> wp_MaxMachinesPerUser policy
     then raise ErrServiceMachineQuota else returnA ()))"

text \<open>\<open>emit\<close>: the event is written with the time of the call; its error is ignored.\<close>

definition emit ::
  "DevMachine \<Rightarrow> uuid option \<Rightarrow> uuid option \<Rightarrow> string \<Rightarrow> string \<Rightarrow> json \<Rightarrow> unit act" where
  "emit machine runID actorID source eventType payload =
     bindA nowA (\<lambda>clock. ignore (storeA (\<lambda>now fresh seq d.
       CreateEvent now clock seq \<lparr>me_ID = 0, me_WorkspaceID = m_WorkspaceID machine, me_MachineID = m_ID machine,
         me_AgentRunID = runID, me_ActorUserID = actorID, me_Source = source, me_EventType = eventType,
         me_Payload = Marshal payload, me_OccurredAt = clock, me_CreatedAt = 0\<rparr> d)))"

definition touchActivity :: "uuid \<Rightarrow> unit act" where
  "touchActivity machineID = bindA nowA (\<lambda>clock. writeA (\<lambda>now. TouchMachineActivity now machineID clock))"

definition operationDTO :: "DevMachineOperation option \<Rightarrow> DevMachineOperationResponse option" where
  "operationDTO operation = map_option (\<lambda>r. \<lparr>oo_ID = uuid_String (op_ID r), oo_Action = action_text (op_Action r),
     oo_Status = operation_status_text (op_Status r), oo_Generation = op_Generation r,
     oo_IdempotencyKey = op_IdempotencyKey r, oo_Attempts = op_Attempts r, oo_ErrorCode = op_ErrorCode r,
     oo_ErrorMessage = op_ErrorMessage r, oo_CreatedAt = op_CreatedAt r, oo_CompletedAt = op_CompletedAt r\<rparr>) operation"

text \<open>A new operation as the service fills it; the fields it leaves out are zero.\<close>

definition new_operation :: "uuid \<Rightarrow> uuid \<Rightarrow> uuid \<Rightarrow> uuid \<Rightarrow> DevMachineOperationAction \<Rightarrow> int \<Rightarrow> string \<Rightarrow> int
     \<Rightarrow> DevMachineOperation" where
  "new_operation i machineID workspaceID userID action generation key maxAttempts = \<lparr>
     op_ID = i, op_MachineID = machineID, op_AgentRunID = None, op_CheckoutID = None, op_EnvironmentID = None,
     op_TerminalSessionID = None, op_WorkspaceID = workspaceID, op_Action = action,
     op_Status = OpStatusPending, op_Generation = generation, op_IdempotencyKey = key,
     op_RequestedByUserID = Some userID, op_LeaseOwner = None, op_LeaseExpiresAt = None, op_Attempts = 0,
     op_MaxAttempts = maxAttempts, op_ErrorCode = None, op_ErrorMessage = None, op_AvailableAt = 0,
     op_CreatedAt = 0, op_UpdatedAt = 0, op_CompletedAt = None\<rparr>"

end
