(* ===== verification/Service_Create.thy ===== *)
theory Service_Create
  imports Service_Base
begin

text \<open>
  Creating a machine: \<open>Create\<close> of \<open>BE/internal/service/dev_machine.go\<close> and the functions it calls.
\<close>

section \<open>Issue, project and settings\<close>

definition requested_issue :: "MachineService \<Rightarrow> uuid \<Rightarrow> string option \<Rightarrow> (Issue \<times> uuid) option act" where
  "requested_issue S workspaceID rawIssueID = (case rawIssueID of
     None \<Rightarrow> returnA None
   | Some raw \<Rightarrow> bindA (parse_id S raw ''invalid issue_id'') (\<lambda>parsed.
       bindA (readA (\<lambda>now. GetIssueDevelopmentContext workspaceID parsed)) (\<lambda>loaded. case loaded of
         None \<Rightarrow> refuse ErrInvalidMachineInput ''invalid issue_id for workspace''
       | Some issue \<Rightarrow> returnA (Some (issue, parsed)))))"

definition requested_project :: "MachineService \<Rightarrow> uuid \<Rightarrow> string option \<Rightarrow> (Project \<times> uuid) option act" where
  "requested_project S workspaceID rawProjectID = (case rawProjectID of
     None \<Rightarrow> returnA None
   | Some raw \<Rightarrow> bindA (parse_id S raw ''invalid project_id'') (\<lambda>parsed.
       bindA (readA (\<lambda>now. GetProjectDevelopmentContext workspaceID parsed)) (\<lambda>loaded. case loaded of
         None \<Rightarrow> refuse ErrInvalidMachineInput ''invalid project_id for workspace''
       | Some project \<Rightarrow> returnA (Some (project, parsed)))))"

text \<open>The project of an issue wins over an absent one; two that differ are an error.\<close>

definition project_of_issue :: "Issue option \<Rightarrow> uuid option \<Rightarrow> uuid option act" where
  "project_of_issue issue projectID = (case issue of
     None \<Rightarrow> returnA projectID
   | Some i \<Rightarrow> (case iss_ProjectID i of
       Some p \<Rightarrow>
         if projectID \<noteq> None \<and> projectID \<noteq> Some p
         then refuse ErrInvalidMachineInput ''issue does not belong to project_id''
         else returnA (Some p)
     | None \<Rightarrow>
         if projectID \<noteq> None then refuse ErrInvalidMachineInput ''issue does not belong to project_id''
         else returnA None))"

definition resolveRequestedContext ::
  "MachineService \<Rightarrow> uuid \<Rightarrow> string option \<Rightarrow> string option
     \<Rightarrow> (Issue option \<times> Project option \<times> uuid option \<times> uuid option) act" where
  "resolveRequestedContext S workspaceID rawIssueID rawProjectID =
     bindA (requested_issue S workspaceID rawIssueID) (\<lambda>issue.
     bindA (requested_project S workspaceID rawProjectID) (\<lambda>project.
     bindA (project_of_issue (map_option fst issue) (map_option snd project)) (\<lambda>projectID.
       case (project, projectID) of
         (None, Some p) \<Rightarrow> bindA (readA (\<lambda>now. GetProjectDevelopmentContext workspaceID p)) (\<lambda>loaded.
           case loaded of
             None \<Rightarrow> refuse ErrInvalidMachineInput ''invalid project_id for workspace''
           | Some found \<Rightarrow> returnA (map_option fst issue, Some found, map_option snd issue, projectID))
       | _ \<Rightarrow> returnA (map_option fst issue, map_option fst project, map_option snd issue, projectID))))"

type_synonym scope = "uuid option \<times> uuid option \<times> uuid option"

text \<open>The scopes to search, the nearest first: team, project and issue.\<close>

definition setting_scopes :: "Issue option \<Rightarrow> Project option \<Rightarrow> scope list" where
  "setting_scopes issue project =
     (case issue of
        Some i \<Rightarrow> [(None, None, Some (ow_ID i))]
          @ (case iss_ProjectID i of Some p \<Rightarrow> [(None, Some p, None)] | None \<Rightarrow> [])
          @ [(Some (iss_TeamID i), None, None)]
      | None \<Rightarrow> (case project of
          Some p \<Rightarrow> [(None, Some (ow_ID p), None)]
            @ (case pj_TeamID p of Some t \<Rightarrow> [(Some t, None, None)] | None \<Rightarrow> [])
        | None \<Rightarrow> []))
     @ [(None, None, None)]"

definition empty_setting :: "uuid \<Rightarrow> scope \<Rightarrow> DevMachineScopeSetting" where
  "empty_setting workspaceID scope = (case scope of (team, project, issue) \<Rightarrow>
     \<lparr>ss_ID = uuid_Nil, ss_WorkspaceID = workspaceID, ss_TeamID = team, ss_ProjectID = project,
      ss_IssueID = issue, ss_GitHubRepoID = None, ss_BaseBranch = None, ss_EnvironmentID = None,
      ss_CreatedAt = 0, ss_UpdatedAt = 0\<rparr>)"

definition inherit :: "DevMachineScopeSetting \<Rightarrow> DevMachineScopeSetting \<Rightarrow> DevMachineScopeSetting" where
  "inherit setting resolved =
     (let r1 = (if ss_GitHubRepoID resolved = None \<and> ss_GitHubRepoID setting \<noteq> None
          then resolved\<lparr>ss_GitHubRepoID := ss_GitHubRepoID setting, ss_BaseBranch := ss_BaseBranch setting\<rparr>
          else resolved) in
      if ss_EnvironmentID resolved = None \<and> ss_EnvironmentID setting \<noteq> None
      then r1\<lparr>ss_EnvironmentID := ss_EnvironmentID setting\<rparr> else r1)"

fun resolve_scopes :: "uuid \<Rightarrow> scope list \<Rightarrow> DevMachineScopeSetting \<Rightarrow> DevMachineScopeSetting act" where
  "resolve_scopes workspaceID [] resolved = returnA resolved"
| "resolve_scopes workspaceID ((team, project, issue) # scopes) resolved =
     (if ss_GitHubRepoID resolved \<noteq> None \<and> ss_EnvironmentID resolved \<noteq> None then returnA resolved
      else bindA (readA (\<lambda>now. GetScopeSetting workspaceID team project issue)) (\<lambda>setting. case setting of
          None \<Rightarrow> resolve_scopes workspaceID scopes resolved
        | Some s \<Rightarrow> resolve_scopes workspaceID scopes (inherit s resolved)))"

definition resolveDevelopmentSetting ::
  "uuid \<Rightarrow> Issue option \<Rightarrow> Project option \<Rightarrow> DevMachineScopeSetting act" where
  "resolveDevelopmentSetting workspaceID issue project =
     resolve_scopes workspaceID (setting_scopes issue project) (empty_setting workspaceID (None, None, None))"

section \<open>Environment and repository\<close>

definition validateReadyEnvironment :: "uuid \<Rightarrow> uuid \<Rightarrow> unit act" where
  "validateReadyEnvironment workspaceID environmentID =
     bindA (readA (\<lambda>now. GetEnvironment workspaceID environmentID)) (\<lambda>environment.
       if (case environment of None \<Rightarrow> True | Some e \<Rightarrow> en_Status e \<noteq> ''ready'')
       then refuse ErrInvalidMachineInput ''invalid development environment''
       else if \<not> HasPrefix (readyEnvironmentImageRef environment) ''sha256:''
       then refuse ErrInvalidMachineInput ''invalid development environment''
       else returnA ())"

definition requested_environment ::
  "MachineService \<Rightarrow> uuid \<Rightarrow> CreateDevMachineRequest \<Rightarrow> DevMachineScopeSetting \<Rightarrow> uuid option act" where
  "requested_environment S workspaceID req defaults = (case cr_EnvironmentID req of
     Some raw \<Rightarrow> bindA (parse_id S raw ''invalid environment_id'') (\<lambda>parsed.
       thenA (validateReadyEnvironment workspaceID parsed) (returnA (Some parsed)))
   | None \<Rightarrow>
     if cr_EnvironmentBuilder req then returnA None
     else (case ss_EnvironmentID defaults of
         None \<Rightarrow> returnA None
       | Some e \<Rightarrow> thenA (validateReadyEnvironment workspaceID e) (returnA (Some e))))"

definition requested_repository ::
  "uuid \<Rightarrow> CreateDevMachineRequest \<Rightarrow> DevMachineScopeSetting \<Rightarrow> GitHubRepoModel option act" where
  "requested_repository workspaceID req defaults = (case cr_Repo req of
     Some repo \<Rightarrow> bindA (readA (\<lambda>now. GetLinkedRepositoryByFullName workspaceID (ir_Owner repo @ ''/'' @ ir_Name repo)))
       (\<lambda>found. case found of
          None \<Rightarrow> refuse ErrInvalidMachineInput ''invalid linked repository''
        | Some r \<Rightarrow> returnA (Some r))
   | None \<Rightarrow> (case ss_GitHubRepoID defaults of
       None \<Rightarrow> returnA None
     | Some i \<Rightarrow> bindA (readA (\<lambda>now. GetLinkedRepository workspaceID i)) (\<lambda>found. case found of
          None \<Rightarrow> refuse ErrInvalidMachineInput ''invalid linked repository''
        | Some r \<Rightarrow> returnA (Some r))))"

text \<open>The base and the working branch.\<close>

definition requested_branches ::
  "MachineService \<Rightarrow> DevMachineWorkspacePolicy \<Rightarrow> CreateDevMachineRequest \<Rightarrow> DevMachineScopeSetting \<Rightarrow> string
     \<Rightarrow> Issue option \<Rightarrow> GitHubRepoModel option \<Rightarrow> (string \<times> string) act" where
  "requested_branches S policy req defaults name issue repositoryModel = (case repositoryModel of
     Some r \<Rightarrow>
       if \<not> repositoryAllowed (ms_equal_fold S) (wp_AllowedRepositories policy) (gh_FullName r)
       then refuse ErrRepositoryNotAllowed (gh_FullName r)
       else (let inherited = (case ss_BaseBranch defaults of
                   Some b \<Rightarrow> if cr_Repo req = None then b else gh_DefaultBranch r
                 | None \<Rightarrow> gh_DefaultBranch r);
                 base = (if cr_BaseBranch req \<noteq> [] then cr_BaseBranch req else inherited);
                 working = (if cr_WorkingBranch req = []
                   then defaultWorkingBranch (ms_unicode_lower S) name issue else cr_WorkingBranch req) in
             if \<not> validGitRef base \<or> \<not> validGitRef working
             then refuse ErrInvalidMachineInput ''invalid base or working branch''
             else returnA (base, working))
   | None \<Rightarrow>
       if cr_BaseBranch req \<noteq> [] \<or> cr_WorkingBranch req \<noteq> []
       then refuse ErrInvalidMachineInput ''repository is required when branch is provided''
       else returnA ([], []))"

section \<open>Names\<close>

definition adjectives :: "string list" where
  "adjectives = [''amber'', ''brisk'', ''calm'', ''clear'', ''quiet'', ''rapid'', ''silver'', ''steady'', ''swift'', ''vivid'']"

definition nouns :: "string list" where
  "nouns = [''badger'', ''cedar'', ''comet'', ''falcon'', ''harbor'', ''maple'', ''orchid'', ''otter'', ''summit'', ''willow'']"

definition generated_name :: "string \<Rightarrow> string" where
  "generated_name suffix = adjectives ! (byte (suffix ! 0) mod length adjectives) @ ''-''
     @ nouns ! (byte (suffix ! 1) mod length nouns) @ ''-'' @ suffix"

fun try_names :: "MachineService \<Rightarrow> uuid \<Rightarrow> uuid \<Rightarrow> nat \<Rightarrow> string act" where
  "try_names S workspaceID userID 0 = failA (Errorf ''unable to allocate a unique machine name'')"
| "try_names S workspaceID userID (Suc attempts) = bindA (randomHex S 2) (\<lambda>suffix.
     bindA (readA (\<lambda>now. MachineNameExistsForUser workspaceID userID (generated_name suffix))) (\<lambda>exists.
       if \<not> exists then returnA (generated_name suffix) else try_names S workspaceID userID attempts))"

definition GenerateName :: "MachineService \<Rightarrow> uuid \<Rightarrow> uuid \<Rightarrow> string act" where
  "GenerateName S workspaceID userID = try_names S workspaceID userID 20"

definition NameAvailable :: "uuid \<Rightarrow> uuid \<Rightarrow> string \<Rightarrow> bool act" where
  "NameAvailable workspaceID userID name0 = (let name = normalizeMachineName name0 in
     if \<not> validMachineName name then returnA False
     else bindA (readA (\<lambda>now. MachineNameExistsForUser workspaceID userID name)) (\<lambda>exists. returnA (\<not> exists)))"

definition requested_name :: "MachineService \<Rightarrow> uuid \<Rightarrow> uuid \<Rightarrow> CreateDevMachineRequest \<Rightarrow> string act" where
  "requested_name S workspaceID userID req =
     bindA (if normalizeMachineName (cr_Name req) = [] then GenerateName S workspaceID userID
            else returnA (normalizeMachineName (cr_Name req))) (\<lambda>name.
     if \<not> validMachineName name then refuse ErrInvalidMachineInput ''invalid machine name''
     else bindA (readA (\<lambda>now. MachineNameExistsForUser workspaceID userID name)) (\<lambda>nameExists.
       if nameExists then raise ErrServiceMachineNameConflict else returnA name))"

section \<open>Agent providers\<close>

definition provider_row ::
  "MachineService \<Rightarrow> uuid \<Rightarrow> DevMachineWorkspacePolicy \<Rightarrow> DevMachineAgentInput \<Rightarrow> DevMachineAgentProvider act" where
  "provider_row S machineID policy input = (case registry_Get (ms_agents S) (ia_Provider input) of
     None \<Rightarrow> refuse ErrProviderNotAllowed (ia_Provider input)
   | Some provider \<Rightarrow> (let metadata = pv_Metadata provider in
       if md_Custom metadata \<and> \<not> wp_AllowCustomProviders policy
       then refuse ErrProviderNotAllowed ''custom providers require workspace admin enablement''
       else if \<not> md_Custom metadata \<and> \<not> providerAllowed (wp_AllowedProviders policy) (ia_Provider input)
       then refuse ErrProviderNotAllowed (ia_Provider input)
       else (let config = (case ia_Config input of None \<Rightarrow> ''{}'' | Some c \<Rightarrow> Marshal c) in
         case pv_BuildInvocation provider \<lparr>rn_Mode = ia_Mode input, rn_Prompt = ''configuration validation'',
             rn_WorkspacePath = ''/workspace'', rn_AcceptanceCriteria = None, rn_TestCommand = None,
             rn_ExtraArgs = None, rn_Config = config\<rparr> of
           Inl e \<Rightarrow> refuse ErrInvalidMachineInput (''invalid '' @ ia_Provider input @ '' provider configuration'')
         | Inr invocation \<Rightarrow> bindA freshA (\<lambda>i. returnA \<lparr>ap_ID = i, ap_MachineID = machineID,
             ap_ProviderID = md_ID metadata, ap_DisplayName = md_DisplayName metadata,
             ap_ImageRef = iv_Image invocation, ap_SupportedModes = Marshal_slice (md_SupportedModes metadata),
             ap_RequiredSecrets = Marshal_slice (iv_SecretNames invocation), ap_Config = config,
             ap_Enabled = True, ap_IsCustom = md_Custom metadata, ap_CreatedAt = 0, ap_UpdatedAt = 0\<rparr>))))"

text \<open>\<open>seen\<close> holds the providers of the inputs before.\<close>

fun buildProviders ::
  "MachineService \<Rightarrow> uuid \<Rightarrow> DevMachineWorkspacePolicy \<Rightarrow> string list \<Rightarrow> DevMachineAgentInput list
     \<Rightarrow> DevMachineAgentProvider list act" where
  "buildProviders S machineID policy seen [] = returnA []"
| "buildProviders S machineID policy seen (input # inputs) =
     (if ia_Provider input \<in> set seen then buildProviders S machineID policy seen inputs
      else bindA (provider_row S machineID policy input) (\<lambda>row.
        bindA (buildProviders S machineID policy (ia_Provider input # seen) inputs) (\<lambda>rows. returnA (row # rows))))"

section \<open>Services\<close>

definition newService ::
  "uuid \<Rightarrow> uuid \<Rightarrow> string \<Rightarrow> string \<Rightarrow> string \<Rightarrow> string \<Rightarrow> string \<Rightarrow> int \<Rightarrow> DevMachineService act" where
  "newService workspaceID machineID serviceType key name img host port = bindA freshA (\<lambda>i. returnA
     \<lparr>sv_ID = i, sv_WorkspaceID = workspaceID, sv_MachineID = machineID, sv_AgentRunID = None,
      sv_ServiceType = serviceType, sv_ServiceKey = key, sv_ContainerID = None, sv_ContainerName = name,
      sv_ImageRef = img, sv_InternalHost = host, sv_InternalPort = port, sv_Status = ''pending'',
      sv_HealthStatus = ''unknown'', sv_HealthMessage = None, sv_StartedAt = None, sv_StoppedAt = None,
      sv_CreatedAt = 0, sv_UpdatedAt = 0\<rparr>)"

text \<open>\<open>json.Marshal\<close> of the requested services and \<open>json.Unmarshal\<close> into them.\<close>

definition Marshal_services :: "DevMachineServicesInput \<Rightarrow> rawjson" where
  "Marshal_services s = Marshal (JObject [(''ide'', JBool (is_IDE s)), (''browser'', JBool (is_Browser s))])"

definition member_bool :: "(string \<Rightarrow> string \<Rightarrow> bool) \<Rightarrow> string \<Rightarrow> (string \<times> json) list \<Rightarrow> bool" where
  "member_bool equal_fold name ms = foldl (\<lambda>b (k, v). case v of
     JBool c \<Rightarrow> if k = name \<or> equal_fold k name then c else b | _ \<Rightarrow> b) False ms"

definition Unmarshal_services :: "(string \<Rightarrow> string \<Rightarrow> bool) \<Rightarrow> rawjson \<Rightarrow> DevMachineServicesInput" where
  "Unmarshal_services equal_fold raw = (case decode raw of
     Some (JObject ms) \<Rightarrow> \<lparr>is_IDE = member_bool equal_fold ''ide'' ms, is_Browser = member_bool equal_fold ''browser'' ms\<rparr>
   | _ \<Rightarrow> \<lparr>is_IDE = False, is_Browser = False\<rparr>)"

definition buildServices :: "MachineService \<Rightarrow> DevMachine \<Rightarrow> DevMachineService list act" where
  "buildServices S machine =
     (let base = ''kuayle-'' @ m_RoutingKey machine @ ''-'';
          config = Unmarshal_services (ms_equal_fold S) (m_ServicesConfig machine);
          new = (\<lambda>serviceType key name img host port. newService (m_WorkspaceID machine) (m_ID machine)
             serviceType key (base @ name) img (m_RoutingKey machine @ ''-'' @ host) port) in
      bindA (new ''collector'' ''collector'' ''collector'' (im_Collector (ms_images S)) ''collector'' 8091) (\<lambda>collector.
      bindA (new ''egress'' ''egress'' ''egress'' (im_Egress (ms_images S)) ''egress'' 3128) (\<lambda>egress.
      bindA (if is_IDE config then
          bindA (new ''ide'' ''ide'' ''ide'' (im_IDE (ms_images S)) ''ide'' 8080) (\<lambda>ide.
          bindA (new ''terminal'' ''terminal'' ''ide'' (im_IDE (ms_images S)) ''ide'' 7681) (\<lambda>terminal.
            returnA [ide, terminal]))
        else returnA []) (\<lambda>ides.
      bindA (if is_Browser config then
          bindA (new ''browser'' ''browser'' ''browser'' (im_Browser (ms_images S)) ''browser'' 3000)
            (\<lambda>browser. returnA [browser])
        else returnA []) (\<lambda>browsers.
      returnA ([collector, egress] @ ides @ browsers))))))"

text \<open>
  A machine with an environment runs its image. The error of the lookup is ignored, and with an error
  the store returns an empty row, whose image is the empty string.
\<close>

definition set_image :: "string \<Rightarrow> DevMachineService \<Rightarrow> DevMachineService" where
  "set_image img s = (if sv_ServiceType s = ''ide'' \<or> sv_ServiceType s = ''terminal''
     then s\<lparr>sv_ImageRef := img\<rparr> else s)"

definition use_environment :: "DevMachine \<Rightarrow> DevMachineService list \<Rightarrow> DevMachineService list act" where
  "use_environment machine services = (case m_EnvironmentID machine of
     None \<Rightarrow> returnA services
   | Some e \<Rightarrow> bindA (attempt (readA (\<lambda>now. GetEnvironment (m_WorkspaceID machine) e))) (\<lambda>found. case found of
       Inr None \<Rightarrow> returnA services
     | Inr (Some environment) \<Rightarrow>
         returnA (map (set_image (readyEnvironmentImageRef (Some environment))) services)
     | Inl _ \<Rightarrow> returnA (map (set_image []) services)))"

section \<open>Variables\<close>

definition env_var :: "uuid \<Rightarrow> uuid \<Rightarrow> string option \<Rightarrow> string \<Rightarrow> string \<Rightarrow> string \<Rightarrow> bool \<Rightarrow> time option
     \<Rightarrow> DevMachineEnvVar" where
  "env_var i machineID provider target name encrypted secret expiresAt = \<lparr>ev_ID = i, ev_MachineID = machineID,
     ev_AgentRunID = None, ev_ProviderID = provider, ev_TargetService = target, ev_Name = name,
     ev_EncryptedValue = encrypted, ev_EncryptionKeyVersion = 1, ev_IsSecret = secret,
     ev_ExpiresAt = expiresAt, ev_RevokedAt = None, ev_CreatedAt = 0\<rparr>"

definition requested_var :: "MachineService \<Rightarrow> uuid \<Rightarrow> DevMachineEnvVarInput \<Rightarrow> DevMachineEnvVar act" where
  "requested_var S machineID input =
     (if reserved_name (ie_Name input)
      then refuse ErrInvalidMachineInput (''environment variable '' @ ie_Name input @ '' is reserved'')
      else if \<not> validEnvName (ie_Name input)
      then refuse ErrInvalidMachineInput (''invalid environment variable name '' @ strconv_Quote (ms_is_print S) (ie_Name input))
      else if ie_Provider input \<noteq> None \<and> ie_TargetService input \<noteq> ''agent''
      then refuse ErrInvalidMachineInput ''provider-scoped variables must target agent services''
      else bindA (translate (Wrapped (''encrypt '' @ ie_Name input)) (encryptA S (ie_Value input))) (\<lambda>encrypted.
        bindA nowA (\<lambda>now. bindA freshA (\<lambda>i. returnA (env_var i machineID (ie_Provider input)
          (ie_TargetService input) (ie_Name input) encrypted
          (case ie_Secret input of None \<Rightarrow> True | Some secret \<Rightarrow> secret)
          (map_option (\<lambda>ttl. now + minutes ttl) (ie_TTLMinutes input)))))))"

fun buildEnvVars :: "MachineService \<Rightarrow> uuid \<Rightarrow> DevMachineEnvVarInput list \<Rightarrow> DevMachineEnvVar list act" where
  "buildEnvVars S machineID [] = returnA []"
| "buildEnvVars S machineID (input # inputs) = bindA (requested_var S machineID input) (\<lambda>v.
     bindA (buildEnvVars S machineID inputs) (\<lambda>vs. returnA (v # vs)))"

text \<open>The tokens the collector and the browser get, beside the requested variables.\<close>

definition collector_var :: "MachineService \<Rightarrow> DevMachine \<Rightarrow> string \<Rightarrow> DevMachineEnvVar act" where
  "collector_var S machine token = bindA (encryptA S token) (\<lambda>encrypted. bindA freshA (\<lambda>i.
     returnA (env_var i (m_ID machine) None ''collector'' ''KUAYLE_MACHINE_TOKEN'' encrypted True
       (Some (m_ExpiresAt machine)))))"

definition browser_vars :: "MachineService \<Rightarrow> DevMachine \<Rightarrow> DevMachineEnvVar list act" where
  "browser_vars S machine = bindA (randomHex S 32) (\<lambda>token. bindA (encryptA S token) (\<lambda>encrypted.
     bindA freshA (\<lambda>i. bindA freshA (\<lambda>j. returnA (map (\<lambda>(k, target).
       env_var k (m_ID machine) None target ''KUAYLE_BROWSER_CDP_TOKEN'' encrypted True (Some (m_ExpiresAt machine)))
       [(i, ''browser''), (j, ''collector'')])))))"

section \<open>Create\<close>

definition new_machine ::
  "uuid \<Rightarrow> uuid \<Rightarrow> uuid \<Rightarrow> string \<Rightarrow> string \<Rightarrow> CreateDevMachineRequest \<Rightarrow> int \<times> int \<times> int \<times> int
     \<Rightarrow> uuid option \<times> uuid option \<times> uuid option \<Rightarrow> string \<times> string \<Rightarrow> GitHubRepoModel option \<Rightarrow> time
     \<Rightarrow> DevMachine" where
  "new_machine machineID workspaceID userID routingKey name req sizes ids branches repositoryModel now =
     (case (sizes, ids, branches) of
        ((cpuMillis, memoryMB, diskGB, maxRuntime), (issueID, projectID, environmentID), (base, working)) \<Rightarrow>
      \<lparr>m_ID = machineID, m_WorkspaceID = workspaceID, m_ProjectID = projectID, m_IssueID = issueID,
       m_CreatedByUserID = Some userID, m_RoutingKey = routingKey, m_Name = name, m_Status = StatusQueued,
       m_DesiredStatus = StatusRunning, m_Generation = 1,
       m_RepoURL = (case repositoryModel of None \<Rightarrow> [] | Some r \<Rightarrow> ''https://github.com/'' @ gh_FullName r),
       m_RepoProvider = (case repositoryModel of None \<Rightarrow> [] | Some r \<Rightarrow> ''github''),
       m_RepoOwner = (case repositoryModel of None \<Rightarrow> [] | Some r \<Rightarrow> fst (service_splitRepositoryFullName (gh_FullName r))),
       m_RepoName = (case repositoryModel of None \<Rightarrow> [] | Some r \<Rightarrow> snd (service_splitRepositoryFullName (gh_FullName r))),
       m_BaseBranch = base, m_WorkingBranch = working, m_MachineSize = cr_Size req, m_CPUMillis = cpuMillis,
       m_MemoryMB = memoryMB, m_DiskGB = diskGB, m_PidsLimit = 512, m_MaxRuntimeMinutes = maxRuntime,
       m_EnvironmentID = environmentID, m_RepositoryAffinityID = map_option gh_ID repositoryModel,
       m_KeepRunning = cr_KeepRunning req, m_EnvironmentBuilder = cr_EnvironmentBuilder req,
       m_DeleteRequestedAt = None, m_DockerNetworkName = None, m_WorkspaceVolumeName = None,
       m_ServicesConfig = Marshal_services (cr_Services req), m_Labels = ''{}'', m_LastErrorCode = None,
       m_LastErrorMessage = None, m_LastActivityAt = Some now, m_CreatedAt = 0, m_UpdatedAt = 0,
       m_StartedAt = None, m_StoppedAt = None, m_ExpiresAt = now + minutes maxRuntime, m_TeardownAt = None,
       m_DestroyedAt = None\<rparr>)"

text \<open>What \<open>Create\<close> checks of the request before it reads anything.\<close>

definition check_request :: "MachineService \<Rightarrow> CreateDevMachineRequest \<Rightarrow> unit act" where
  "check_request S req =
     (case (case cr_Repo req of None \<Rightarrow> Inr ()
        | Some repo \<Rightarrow> validateRepository (ms_url_Parse S) (ms_equal_fold S) repo) of
        Inl e \<Rightarrow> refuse ErrInvalidMachineInput (error_text (ms_driver S) e)
      | Inr _ \<Rightarrow>
        if cr_BaseBranch req \<noteq> [] \<and> \<not> validGitRef (cr_BaseBranch req)
           \<or> cr_WorkingBranch req \<noteq> [] \<and> \<not> validGitRef (cr_WorkingBranch req)
        then refuse ErrInvalidMachineInput ''invalid base or working branch''
        else returnA ())"

text \<open>Processor, memory and disk of the size, and the runtime the policy leaves of its runtime.\<close>

definition requested_size ::
  "MachineService \<Rightarrow> DevMachineWorkspacePolicy \<Rightarrow> CreateDevMachineRequest \<Rightarrow> (int \<times> int \<times> int \<times> int) act" where
  "requested_size S policy req = (case DevMachineSize (cr_Size req) of
     (cpuMillis, memoryMB, diskGB, sizeMaxRuntime, ok) \<Rightarrow>
       if \<not> ok then refuse ErrInvalidMachineInput
         (''unsupported machine size '' @ strconv_Quote (ms_is_print S) (cr_Size req))
       else if diskGB > wp_MaxDiskGB policy
       then refuse ErrServiceMachineQuota ''machine disk request exceeds workspace limit''
       else returnA (cpuMillis, memoryMB, diskGB, min sizeMaxRuntime (wp_MaxRuntimeMinutes policy)))"

definition workspace_volume :: "uuid \<Rightarrow> DevMachine \<Rightarrow> DevMachineVolume" where
  "workspace_volume i machine = \<lparr>vo_ID = i, vo_MachineID = m_ID machine, vo_VolumeType = ''workspace'',
     vo_RuntimeName = ''kuayle-workspace-'' @ m_RoutingKey machine, vo_MountPath = ''/workspace'',
     vo_SizeLimitBytes = m_DiskGB machine * 1024 * 1024 * 1024, vo_CurrentSizeBytes = 0, vo_CreatedAt = 0,
     vo_DeletedAt = None\<rparr>"

definition collector_token :: "MachineService \<Rightarrow> uuid \<Rightarrow> DevMachine \<Rightarrow> string \<Rightarrow> DevMachineToken" where
  "collector_token S i machine token = \<lparr>tk_ID = i, tk_MachineID = m_ID machine, tk_AgentRunID = None,
     tk_TokenHash = EncodeToString (ms_sha256 S token),
     tk_Scopes = Marshal_strings [''events:write'', ''logs:write'', ''heartbeat:write''],
     tk_ExpiresAt = m_ExpiresAt machine, tk_LastUsedAt = None, tk_RevokedAt = None, tk_CreatedAt = 0\<rparr>"

fun bundle_error :: "MachineService \<Rightarrow> go_error \<Rightarrow> go_error" where
  "bundle_error S e =
     (if is_store ErrEnvironmentUnavailable e then as_invalid_operation S e
      else if is_store ErrMachineQuota e then ServiceError ErrServiceMachineQuota []
      else if is_store ErrMachineNameConflict e then ServiceError ErrServiceMachineNameConflict []
      else e)"

text \<open>The rows of a new machine, the call of the store and the event.\<close>

definition createMachine ::
  "MachineService \<Rightarrow> uuid \<Rightarrow> CreateDevMachineRequest \<Rightarrow> DevMachineWorkspacePolicy \<Rightarrow> DevMachine
     \<Rightarrow> (DevMachine \<times> DevMachineOperation) act" where
  "createMachine S userID req policy machine =
     bindA (buildProviders S (m_ID machine) policy [] (cr_Agents req)) (\<lambda>providers.
     bindA (bindA (buildServices S machine) (use_environment machine)) (\<lambda>services.
     bindA freshA (\<lambda>volumeID.
     bindA (buildEnvVars S (m_ID machine) (cr_EnvVars req)) (\<lambda>requested.
     bindA (randomHex S 32) (\<lambda>collectorToken.
     bindA (collector_var S machine collectorToken) (\<lambda>collector.
     bindA (if is_Browser (cr_Services req) then browser_vars S machine else returnA []) (\<lambda>browser.
     bindA freshA (\<lambda>tokenID.
     bindA freshA (\<lambda>operationID.
     bindA (translate (bundle_error S) (storeA (\<lambda>now fresh seq d.
        case CreateBundle now fresh machine providers services [workspace_volume volumeID machine]
            (requested @ [collector] @ browser) [collector_token S tokenID machine collectorToken]
            (new_operation operationID (m_ID machine) (m_WorkspaceID machine) userID OpSpawn (m_Generation machine)
              (''spawn:'' @ int_decimal (m_Generation machine)) 5) d of
          Inl e \<Rightarrow> Inl e
        | Inr (operation, d') \<Rightarrow> Inr ((machine\<lparr>m_CreatedAt := now, m_UpdatedAt := now\<rparr>, operation), d'))))
     (\<lambda>(created, operation).
     thenA (emit created None (Some userID) ''lifecycle'' ''machine.queued''
        (JObject [(''operation_id'', JString (uuid_String (op_ID operation)))]))
       (returnA (created, operation))))))))))))"

definition Create ::
  "MachineService \<Rightarrow> uuid \<Rightarrow> uuid \<Rightarrow> CreateDevMachineRequest \<Rightarrow> (DevMachine \<times> DevMachineOperation) act" where
  "Create S workspaceID userID request =
     thenA (check_request S request)
     (let req = request\<lparr>cr_Services := (cr_Services request)\<lparr>is_IDE := True\<rparr>\<rparr> in
      bindA (enabledPolicy S workspaceID) (\<lambda>policy.
      thenA (within_quota workspaceID userID policy)
      (bindA (requested_size S policy req) (\<lambda>(cpuMillis, memoryMB, diskGB, maxRuntime).
      bindA (requested_name S workspaceID userID req) (\<lambda>name.
      bindA (resolveRequestedContext S workspaceID (cr_IssueID req) (cr_ProjectID req))
        (\<lambda>(issue, project, issueID, projectID).
      bindA (resolveDevelopmentSetting workspaceID issue project) (\<lambda>defaults.
      bindA (requested_environment S workspaceID req defaults) (\<lambda>environmentID.
      bindA (requested_repository workspaceID req defaults) (\<lambda>repositoryModel.
      bindA (requested_branches S policy req defaults name issue repositoryModel) (\<lambda>branches.
      bindA (randomHex S 10) (\<lambda>routingKey.
      bindA freshA (\<lambda>machineID.
      bindA nowA (\<lambda>now.
        createMachine S userID req policy (new_machine machineID workspaceID userID routingKey name req
          (cpuMillis, memoryMB, diskGB, maxRuntime) (issueID, projectID, environmentID) branches
          repositoryModel now))))))))))))))"

end
