(* ===== verification/Service_Machines.thy ===== *)
theory Service_Machines
  imports Service_Create
begin

text \<open>
  The operations of \<open>BE/internal/service/dev_machine.go\<close> on existing machines: listing, preferences,
  deletion, the lifecycle, the settings of workspaces, teams, projects and issues, issue checkouts,
  environments and the policy of a workspace.
\<close>

section \<open>Lists and preferences\<close>

text \<open>A negative \<open>LIMIT\<close> or \<open>OFFSET\<close> is an error of the database.\<close>

definition pageA :: "int \<Rightarrow> int \<Rightarrow> (nat \<Rightarrow> nat \<Rightarrow> db \<Rightarrow> 'a) \<Rightarrow> 'a act" where
  "pageA limit offset f = storeA (\<lambda>now fresh seq d.
     if limit < 0 \<or> offset < 0 then Inl ErrDatabase else Inr (f (nat limit) (nat offset) d, d))"

definition List_machines ::
  "MachineService \<Rightarrow> uuid \<Rightarrow> uuid \<Rightarrow> DevMachineListParams \<Rightarrow> (DevMachine list \<times> nat) act" where
  "List_machines S workspaceID userID params0 = (let params = list_Defaults params0 in
     if lp_Status params \<noteq> [] \<and> \<not> validMachineStatus (lp_Status params)
     then refuse ErrInvalidMachineInput ''invalid machine status''
     else bindA (if lp_IssueID params = [] then returnA None
         else bindA (parse_id S (lp_IssueID params) ''invalid issue_id'') (\<lambda>i. returnA (Some i))) (\<lambda>issueID.
       pageA (lp_PerPage params) (Offset params)
         (ListMachinesForUser workspaceID userID (lp_Status params) issueID)))"

definition Update :: "uuid \<Rightarrow> uuid \<Rightarrow> uuid \<Rightarrow> bool option \<Rightarrow> DevMachine act" where
  "Update workspaceID machineID userID keepRunning =
     bindA (translate (\<lambda>e. if is_store ErrMachineStateConflict e
         then ServiceError ErrInvalidOperation '': machine no longer accepts preference updates'' else e)
       (storeA (\<lambda>now fresh seq. UpdateMachinePreferencesForUser now workspaceID machineID userID keepRunning)))
     (present (raise ErrMachineNotFound))"

definition TouchActivity :: "uuid \<Rightarrow> uuid \<Rightarrow> uuid \<Rightarrow> unit act" where
  "TouchActivity workspaceID machineID userID =
     bindA (GetForUser workspaceID machineID userID) (\<lambda>_. touchActivity machineID)"

definition service_ListServices :: "MachineService \<Rightarrow> uuid \<Rightarrow> uuid \<Rightarrow> uuid \<Rightarrow> DevMachineService list act" where
  "service_ListServices S workspaceID machineID userID =
     bindA (GetForUser workspaceID machineID userID)
       (\<lambda>_. readA (\<lambda>now. ListServices (ms_collate S) workspaceID machineID))"

section \<open>Deletion\<close>

definition requestPermanentDelete ::
  "MachineService \<Rightarrow> uuid \<Rightarrow> uuid \<Rightarrow> uuid \<Rightarrow> DevMachineOperation option act" where
  "requestPermanentDelete S workspaceID machineID userID =
     bindA (GetForUser workspaceID machineID userID) (\<lambda>machine.
     bindA (attempt (storeA (\<lambda>now fresh seq.
         RequestPermanentDelete now fresh workspaceID machineID (Some userID)))) (\<lambda>result. case result of
       Inl e \<Rightarrow> if is_no_rows e then returnA None
         else if is_store ErrIdempotencyKeyConflict e then failA (as_invalid_operation S e) else failA e
     | Inr operation \<Rightarrow>
         thenA (emit machine None (Some userID) ''lifecycle'' ''machine.permanent_delete_requested''
           (JObject (case operation of None \<Rightarrow> []
              | Some r \<Rightarrow> [(''operation_id'', JString (uuid_String (op_ID r)))])))
         (returnA operation)))"

definition Delete :: "MachineService \<Rightarrow> uuid \<Rightarrow> uuid \<Rightarrow> uuid \<Rightarrow> DevMachineOperation option act" where
  "Delete S workspaceID machineID userID = requestPermanentDelete S workspaceID machineID userID"

definition PermanentDelete :: "MachineService \<Rightarrow> uuid \<Rightarrow> uuid \<Rightarrow> uuid \<Rightarrow> unit act" where
  "PermanentDelete S workspaceID machineID userID =
     bindA (requestPermanentDelete S workspaceID machineID userID) (\<lambda>_. returnA ())"

text \<open>The identifiers of a bulk request, each once, in the order of the request.\<close>

fun parse_ids :: "MachineService \<Rightarrow> string list \<Rightarrow> uuid list act" where
  "parse_ids S [] = returnA []"
| "parse_ids S (raw # raws) = bindA (parse_id S raw ''invalid machine id'') (\<lambda>i.
     bindA (parse_ids S raws) (\<lambda>is. returnA (i # is)))"

fun first_occurrences :: "uuid list \<Rightarrow> uuid list \<Rightarrow> uuid list" where
  "first_occurrences seen [] = []"
| "first_occurrences seen (i # is) =
     (if i \<in> set seen then first_occurrences seen is else i # first_occurrences (i # seen) is)"

text \<open>\<open>errors.Is\<close> for \<open>context.Canceled\<close> and \<open>context.DeadlineExceeded\<close>.\<close>

definition context_over :: "go_error \<Rightarrow> bool" where
  "context_over e \<longleftrightarrow> is_store ErrContext e \<or> is_deadline e"

definition delete_result :: "uuid \<Rightarrow> go_error \<Rightarrow> BulkDeleteDevMachineResult" where
  "delete_result i e =
     (if is_service ErrMachineNotFound e
      then \<lparr>dr_MachineID = uuid_String i, dr_Status = ''not_found'', dr_ErrorCode = ''NOT_FOUND''\<rparr>
      else if is_service ErrInvalidOperation e
      then \<lparr>dr_MachineID = uuid_String i, dr_Status = ''conflict'', dr_ErrorCode = ''INVALID_OPERATION''\<rparr>
      else \<lparr>dr_MachineID = uuid_String i, dr_Status = ''failed'', dr_ErrorCode = ''INTERNAL_ERROR''\<rparr>)"

fun delete_all ::
  "MachineService \<Rightarrow> uuid \<Rightarrow> uuid \<Rightarrow> BulkDeleteDevMachinesResponse \<Rightarrow> uuid list
     \<Rightarrow> BulkDeleteDevMachinesResponse act" where
  "delete_all S workspaceID userID response [] = returnA response"
| "delete_all S workspaceID userID response (i # is) =
     bindA (attempt (Delete S workspaceID i userID)) (\<lambda>result. case result of
       Inl e \<Rightarrow>
         if \<not> is_service ErrMachineNotFound e \<and> \<not> is_service ErrInvalidOperation e \<and> context_over e then failA e
         else delete_all S workspaceID userID
           (response\<lparr>bd_Results := bd_Results response @ [delete_result i e]\<rparr>) is
     | Inr _ \<Rightarrow> delete_all S workspaceID userID
         (response\<lparr>bd_Count := bd_Count response + 1, bd_Results := bd_Results response
            @ [\<lparr>dr_MachineID = uuid_String i, dr_Status = ''accepted'', dr_ErrorCode = []\<rparr>]\<rparr>) is)"

definition BulkDelete ::
  "MachineService \<Rightarrow> uuid \<Rightarrow> uuid \<Rightarrow> string list \<Rightarrow> BulkDeleteDevMachinesResponse act" where
  "BulkDelete S workspaceID userID raws =
     (if length raws = 0 then refuse ErrInvalidMachineInput ''machine_ids are required''
      else bindA (parse_ids S raws) (\<lambda>parsed. let machineIDs = first_occurrences [] parsed in
        delete_all S workspaceID userID
          \<lparr>bd_Count = 0, bd_Requested = length machineIDs, bd_Results = []\<rparr> machineIDs))"

definition BulkPermanentDelete :: "MachineService \<Rightarrow> uuid \<Rightarrow> PurgeDevMachinesRequest \<Rightarrow> nat act" where
  "BulkPermanentDelete S workspaceID request =
     bindA (parse_ids S (pu_MachineIDs request)) (\<lambda>machineIDs.
     bindA nowA (\<lambda>clock.
       let olderThanDays = (if pu_OlderThanDays request = 0 then 7 else pu_OlderThanDays request) in
       countA (\<lambda>now. BulkPurgeMachines now workspaceID machineIDs (clock - seconds (86400 * olderThanDays))
         (pu_IncludeFailed request) (pu_IncludeExpired request))))"

section \<open>The lifecycle\<close>

definition bad_key :: "string \<Rightarrow> bool" where
  "bad_key key \<longleftrightarrow> length key > 255 \<or> TrimSpace key = [] \<or> ContainsAny key [CHR 0x00, CHR 0x0D, CHR 0x0A]"

text \<open>The operation of the caller's key, if the key was used before.\<close>

definition earlier_operation ::
  "uuid \<Rightarrow> uuid \<Rightarrow> uuid \<Rightarrow> DevMachineOperationAction \<Rightarrow> string \<Rightarrow> DevMachineOperation option act" where
  "earlier_operation workspaceID machineID userID action key =
     (if key = [] then returnA None
      else if bad_key key then refuse ErrInvalidMachineInput ''invalid idempotency key''
      else bindA (readA (\<lambda>now. GetOperationByIdempotency workspaceID machineID key)) (\<lambda>existing. case existing of
          None \<Rightarrow> returnA None
        | Some r \<Rightarrow>
          if op_Action r \<noteq> action \<or> op_RequestedByUserID r \<noteq> Some userID
          then refuse ErrInvalidOperation ''idempotency key was already used for another operation''
          else returnA (Some r)))"

definition desired_after :: "DevMachineOperationAction \<Rightarrow> DevMachineStatus \<Rightarrow> DevMachineStatus" where
  "desired_after action desired = (case action of
     OpStart \<Rightarrow> StatusRunning | OpSpawn \<Rightarrow> StatusRunning | OpPause \<Rightarrow> StatusPaused | OpStop \<Rightarrow> StatusStopped
   | OpTeardown \<Rightarrow> StatusDestroyed | _ \<Rightarrow> desired)"

text \<open>What \<open>Lifecycle\<close> checks of the machine it has read.\<close>

definition check_expiry :: "DevMachine \<Rightarrow> DevMachineOperationAction \<Rightarrow> unit act" where
  "check_expiry machine action = bindA nowA (\<lambda>now.
     unless (\<not> ((action = OpStart \<or> action = OpSpawn) \<and> \<not> now < m_ExpiresAt machine))
       (refuse ErrInvalidOperation ''machine has expired''))"

definition check_status :: "DevMachine \<Rightarrow> DevMachineOperationAction \<Rightarrow> unit act" where
  "check_status machine action = unless (ValidOperationForStatus action (m_Status machine))
     (refuse ErrInvalidOperation (''cannot '' @ action_text action @ '' a '' @ status_text (m_Status machine) @ '' machine''))"

definition check_active_run :: "uuid \<Rightarrow> DevMachineOperationAction \<Rightarrow> unit act" where
  "check_active_run machineID action =
     (if action = OpPause \<or> action = OpStop \<or> action = OpTeardown
      then bindA (readA (\<lambda>now. HasActiveAgentRun machineID)) (\<lambda>activeRun.
        unless (\<not> activeRun) (refuse ErrInvalidOperation (''cancel the active agent run before '' @ action_text action)))
      else returnA ())"

definition check_start_quota ::
  "MachineService \<Rightarrow> uuid \<Rightarrow> uuid \<Rightarrow> DevMachine \<Rightarrow> DevMachineOperationAction \<Rightarrow> unit act" where
  "check_start_quota S workspaceID userID machine action =
     (if action = OpStart \<and> (m_Status machine = StatusStopped \<or> m_Status machine = StatusFailed)
      then bindA (enabledPolicy S workspaceID) (\<lambda>policy. within_quota workspaceID
        (case m_CreatedByUserID machine of None \<Rightarrow> userID | Some creator \<Rightarrow> creator) policy)
      else returnA ())"

fun desired_error :: "MachineService \<Rightarrow> go_error \<Rightarrow> go_error" where
  "desired_error S e =
     (if is_no_rows e then ServiceError ErrInvalidOperation '': machine state changed while queuing operation''
      else if is_store ErrIdempotencyKeyConflict e then as_invalid_operation S e
      else if is_store ErrActiveAgentRun e \<or> is_store ErrMachineStateConflict e \<or> is_store ErrEnvironmentUnavailable e
      then as_invalid_operation S e
      else if is_store ErrMachineQuota e then ServiceError ErrServiceMachineQuota []
      else e)"

definition queueOperation ::
  "MachineService \<Rightarrow> uuid \<Rightarrow> uuid \<Rightarrow> DevMachine \<Rightarrow> DevMachineOperationAction \<Rightarrow> string
     \<Rightarrow> DevMachineOperation act" where
  "queueOperation S workspaceID userID machine action key =
     (let generation = m_Generation machine + 1;
          idempotencyKey = (if key = [] then action_text action @ '':'' @ int_decimal generation else key) in
      bindA freshA (\<lambda>i.
      bindA (translate (desired_error S) (storeA (\<lambda>now fresh seq.
          SetDesiredAndEnqueue now fresh workspaceID (m_ID machine) (desired_after action (m_DesiredStatus machine))
            (new_operation i (m_ID machine) workspaceID userID action generation idempotencyKey 5)))) (\<lambda>operation.
      thenA (emit machine None (Some userID) ''lifecycle'' ''operation.queued''
        (JObject [(''action'', JString (action_text action)), (''operation_id'', JString (uuid_String (op_ID operation)))]))
      (returnA operation))))"

definition Lifecycle ::
  "MachineService \<Rightarrow> uuid \<Rightarrow> uuid \<Rightarrow> uuid \<Rightarrow> DevMachineOperationAction \<Rightarrow> string \<Rightarrow> DevMachineOperation act" where
  "Lifecycle S workspaceID machineID userID action key =
     bindA (GetForUser workspaceID machineID userID) (\<lambda>machine.
     bindA (earlier_operation workspaceID machineID userID action key) (\<lambda>existing. case existing of
       Some r \<Rightarrow> returnA r
     | None \<Rightarrow>
       thenA (check_expiry machine action)
       (thenA (check_status machine action)
       (thenA (check_active_run machineID action)
       (thenA (unless (m_DesiredStatus machine \<noteq> StatusDestroyed \<or> action = OpTeardown)
           (refuse ErrInvalidOperation ''machine teardown is already queued''))
       (thenA (check_start_quota S workspaceID userID machine action)
         (queueOperation S workspaceID userID machine action key)))))))"

section \<open>The policy of a workspace\<close>

definition default_policy :: "uuid \<Rightarrow> DevMachineWorkspacePolicy" where
  "default_policy workspaceID = \<lparr>wp_WorkspaceID = workspaceID, wp_Enabled = False, wp_MaxConcurrentMachines = 5,
     wp_MaxMachinesPerUser = 2, wp_MaxDailyAgentRuns = 25, wp_MaxRuntimeMinutes = 480, wp_MaxDiskGB = 100,
     wp_AllowedProviders = Marshal_strings [''claude-code'', ''opencode'', ''codex''],
     wp_AllowedRepositories = Marshal_strings [], wp_AllowCustomProviders = False, wp_IdlePauseMinutes = 240,
     wp_CreatedAt = 0, wp_UpdatedAt = 0\<rparr>"

definition service_GetPolicy :: "uuid \<Rightarrow> DevMachineWorkspacePolicy act" where
  "service_GetPolicy workspaceID = bindA (readA (\<lambda>now. GetPolicy workspaceID))
     (present (returnA (default_policy workspaceID)))"

definition requested_policy :: "uuid \<Rightarrow> DevMachinePolicyRequest \<Rightarrow> DevMachineWorkspacePolicy" where
  "requested_policy workspaceID req = \<lparr>wp_WorkspaceID = workspaceID, wp_Enabled = po_Enabled req,
     wp_MaxConcurrentMachines = po_MaxConcurrentMachines req, wp_MaxMachinesPerUser = po_MaxMachinesPerUser req,
     wp_MaxDailyAgentRuns = po_MaxDailyAgentRuns req, wp_MaxRuntimeMinutes = po_MaxRuntimeMinutes req,
     wp_MaxDiskGB = po_MaxDiskGB req, wp_AllowedProviders = Marshal_slice (po_AllowedProviders req),
     wp_AllowedRepositories = Marshal_slice (po_AllowedRepositories req),
     wp_AllowCustomProviders = po_AllowCustomProviders req,
     wp_IdlePauseMinutes = (if po_IdlePauseMinutes req = 0 then 240 else po_IdlePauseMinutes req),
     wp_CreatedAt = 0, wp_UpdatedAt = 0\<rparr>"

definition UpdatePolicy :: "uuid \<Rightarrow> DevMachinePolicyRequest \<Rightarrow> DevMachineWorkspacePolicy act" where
  "UpdatePolicy workspaceID req =
     storeA (\<lambda>now fresh seq. UpsertPolicy now (requested_policy workspaceID req))"

section \<open>Settings of a workspace, team, project or issue\<close>

definition scopePointers :: "string \<Rightarrow> uuid option \<Rightarrow> scope act" where
  "scopePointers scopeType scopeID =
     (if scopeType \<noteq> ''workspace'' \<and> scopeID = None then refuse ErrInvalidMachineInput ''scope_id is required''
      else if scopeType = ''workspace''
      then (if scopeID \<noteq> None then refuse ErrInvalidMachineInput ''workspace scope does not accept scope_id''
            else returnA (None, None, None))
      else if scopeType = ''team'' then returnA (scopeID, None, None)
      else if scopeType = ''project'' then returnA (None, scopeID, None)
      else if scopeType = ''issue'' then returnA (None, None, scopeID)
      else refuse ErrInvalidMachineInput ''invalid development setting scope'')"

definition service_GetScopeSetting ::
  "uuid \<Rightarrow> string \<Rightarrow> uuid option \<Rightarrow> DevMachineScopeSetting act" where
  "service_GetScopeSetting workspaceID scopeType scopeID =
     bindA (scopePointers scopeType scopeID) (\<lambda>(teamID, projectID, issueID).
     bindA (readA (\<lambda>now. GetScopeSetting workspaceID teamID projectID issueID))
       (present (returnA (empty_setting workspaceID (teamID, projectID, issueID)))))"

definition service_ListScopeSettings :: "uuid \<Rightarrow> DevMachineScopeSetting list act" where
  "service_ListScopeSettings workspaceID = readA (\<lambda>now. ListScopeSettings workspaceID)"

definition setting_repository ::
  "MachineService \<Rightarrow> uuid \<Rightarrow> DevMachineScopeSettingRequest \<Rightarrow> DevMachineScopeSetting
     \<Rightarrow> DevMachineScopeSetting act" where
  "setting_repository S workspaceID request setting = (case sr_GitHubRepoID request of
     Some raw \<Rightarrow> (let repositoryID = fst (ms_uuid_Parse S raw) in
       bindA (readA (\<lambda>now. GetLinkedRepository workspaceID repositoryID)) (\<lambda>found. case found of
         None \<Rightarrow> refuse ErrInvalidMachineInput ''invalid linked repository''
       | Some repository \<Rightarrow>
         (let baseBranch = (case sr_BaseBranch request of
              None \<Rightarrow> gh_DefaultBranch repository | Some b \<Rightarrow> TrimSpace b) in
          if \<not> validGitRef baseBranch then refuse ErrInvalidMachineInput ''invalid base branch''
          else returnA (setting\<lparr>ss_GitHubRepoID := Some repositoryID, ss_BaseBranch := Some baseBranch\<rparr>))))
   | None \<Rightarrow>
     if sr_BaseBranch request \<noteq> None
     then refuse ErrInvalidMachineInput ''github_repo_id is required when base_branch is provided''
     else returnA setting)"

definition setting_environment ::
  "MachineService \<Rightarrow> uuid \<Rightarrow> DevMachineScopeSettingRequest \<Rightarrow> DevMachineScopeSetting
     \<Rightarrow> DevMachineScopeSetting act" where
  "setting_environment S workspaceID request setting = (case sr_EnvironmentID request of
     None \<Rightarrow> returnA setting
   | Some raw \<Rightarrow> (let environmentID = fst (ms_uuid_Parse S raw) in
       bindA (readA (\<lambda>now. GetEnvironment workspaceID environmentID)) (\<lambda>environment.
         if (case environment of None \<Rightarrow> True | Some e \<Rightarrow> en_Status e \<noteq> ''ready'')
         then refuse ErrInvalidMachineInput ''invalid development environment''
         else returnA (setting\<lparr>ss_EnvironmentID := Some environmentID\<rparr>))))"

definition UpdateScopeSetting ::
  "MachineService \<Rightarrow> uuid \<Rightarrow> DevMachineScopeSettingRequest \<Rightarrow> DevMachineScopeSetting act" where
  "UpdateScopeSetting S workspaceID request =
     (let scopeID = map_option (\<lambda>raw. fst (ms_uuid_Parse S raw)) (sr_ScopeID request) in
      bindA (scopePointers (sr_ScopeType request) scopeID) (\<lambda>scope.
      bindA (readA (\<lambda>now. ScopeResourceExists workspaceID (sr_ScopeType request) scopeID)) (\<lambda>exists.
      if \<not> exists then refuse ErrInvalidMachineInput ''invalid development setting scope''
      else bindA (setting_repository S workspaceID request (empty_setting workspaceID scope)) (\<lambda>s1.
        bindA (setting_environment S workspaceID request s1) (\<lambda>setting.
        translate (\<lambda>e. if is_store ErrEnvironmentUnavailable e then as_invalid_operation S e else e)
          (storeA (\<lambda>now fresh seq. UpsertScopeSetting now fresh setting)))))))"

definition service_DeleteScopeSetting :: "uuid \<Rightarrow> string \<Rightarrow> uuid option \<Rightarrow> unit act" where
  "service_DeleteScopeSetting workspaceID scopeType scopeID =
     bindA (scopePointers scopeType scopeID) (\<lambda>(teamID, projectID, issueID).
     bindA (attempt (writeA (\<lambda>now. DeleteScopeSetting workspaceID teamID projectID issueID))) (\<lambda>result.
       case result of Inl e \<Rightarrow> if is_no_rows e then returnA () else failA e | Inr _ \<Rightarrow> returnA ()))"

section \<open>Environments\<close>

definition service_ListEnvironments :: "uuid \<Rightarrow> DevMachineEnvironment list act" where
  "service_ListEnvironments workspaceID = readA (\<lambda>now. ListEnvironments workspaceID)"

definition service_GetEnvironment :: "uuid \<Rightarrow> uuid \<Rightarrow> DevMachineEnvironment act" where
  "service_GetEnvironment workspaceID environmentID =
     bindA (readA (\<lambda>now. GetEnvironment workspaceID environmentID)) (\<lambda>environment. case environment of
       None \<Rightarrow> raise ErrEnvironmentNotFound
     | Some e \<Rightarrow> if en_Status e = ''delete_requested'' then raise ErrEnvironmentNotFound else returnA e)"

fun environment_error :: "go_error \<Rightarrow> go_error" where
  "environment_error e =
     (if is_store ErrEnvironmentInUse e then ServiceError ErrServiceEnvironmentInUse []
      else if is_store ErrEnvironmentInvalidState e then ServiceError ErrServiceEnvironmentInvalidState []
      else if is_store ErrEnvironmentDeletionConflict e then ServiceError ErrEnvironmentCleanupActive []
      else if is_no_rows e then ServiceError ErrEnvironmentNotFound []
      else e)"

definition service_RequestEnvironmentDeletion :: "uuid \<Rightarrow> uuid \<Rightarrow> unit act" where
  "service_RequestEnvironmentDeletion workspaceID environmentID =
     translate environment_error (tryA (\<lambda>now. RequestEnvironmentDeletion now workspaceID environmentID))"

definition snapshot_stable :: "DevMachine \<Rightarrow> bool" where
  "snapshot_stable m \<longleftrightarrow> m_Status m = m_DesiredStatus m
     \<and> (m_Status m = StatusPaused \<or> m_Status m = StatusStopped)"

definition SnapshotEnvironment ::
  "MachineService \<Rightarrow> uuid \<Rightarrow> uuid \<Rightarrow> CreateDevMachineEnvironmentRequest \<Rightarrow> DevMachineEnvironment act" where
  "SnapshotEnvironment S workspaceID userID request =
     (let machineID = fst (ms_uuid_Parse S (ce_SourceMachineID request)) in
      bindA (GetForUser workspaceID machineID userID) (\<lambda>machine.
      if \<not> snapshot_stable machine
      then refuse ErrInvalidOperation ''machine must be stably paused or stopped before saving an environment''
      else if \<not> m_EnvironmentBuilder machine
      then refuse ErrInvalidOperation ''only an Environment Builder can be saved as a development environment''
      else bindA freshA (\<lambda>environmentID.
        let environment = \<lparr>en_ID = environmentID, en_WorkspaceID = workspaceID, en_Name = TrimSpace (ce_Name request),
              en_ImageRef = ''kuayle/dev-environment-'' @ uuid_String environmentID @ '':snapshot'',
              en_ImageDigest = None, en_Status = ''pending'', en_SourceMachineID = Some machineID,
              en_CreatedByUserID = Some userID, en_DeleteRequestedAt = None, en_CreatedAt = 0, en_UpdatedAt = 0\<rparr> in
        if en_Name environment = [] \<or> ContainsAny (en_Name environment) [CHR 0x00, CHR 0x0D, CHR 0x0A]
        then refuse ErrInvalidMachineInput ''invalid development environment name''
        else bindA freshA (\<lambda>i.
          translate (\<lambda>e. if is_store ErrMachineStateConflict e then as_invalid_operation S e else e)
            (storeA (\<lambda>now fresh seq d.
              case CreateEnvironment now fresh environment
                  ((new_operation i machineID workspaceID userID OpSnapshotEnvironment (m_Generation machine)
                     (''snapshot-environment:'' @ uuid_String environmentID) 2)\<lparr>op_EnvironmentID := Some environmentID\<rparr>) d of
                Inl e \<Rightarrow> Inl e
              | Inr (_, d') \<Rightarrow> Inr (environment\<lparr>en_CreatedAt := now, en_UpdatedAt := now\<rparr>, d')))))))"

section \<open>Issue checkouts\<close>

definition checkout_eligible ::
  "MachineService \<Rightarrow> uuid \<Rightarrow> DevMachine \<Rightarrow> DevMachineScopeSetting \<Rightarrow> GitHubRepoModel act" where
  "checkout_eligible S workspaceID machine setting = (case ss_GitHubRepoID setting of
     None \<Rightarrow> refuse ErrCheckoutNotEligible ''issue has no development repository''
   | Some repositoryID \<Rightarrow>
     if ss_EnvironmentID setting \<noteq> None \<and> m_EnvironmentID machine \<noteq> ss_EnvironmentID setting
     then refuse ErrCheckoutNotEligible ''issue requires a different development environment''
     else bindA (readA (\<lambda>now. GetLinkedRepository workspaceID repositoryID)) (\<lambda>found. case found of
         None \<Rightarrow> raise ErrRepositoryNotAllowed
       | Some linkedRepository \<Rightarrow> bindA (enabledPolicy S workspaceID) (\<lambda>policy.
           if \<not> repositoryAllowed (ms_equal_fold S) (wp_AllowedRepositories policy) (gh_FullName linkedRepository)
           then raise ErrRepositoryNotAllowed
           else if m_RepositoryAffinityID machine \<noteq> None
              \<and> m_RepositoryAffinityID machine \<noteq> Some (gh_ID linkedRepository)
           then refuse ErrCheckoutNotEligible ''machine is assigned to another repository''
           else returnA linkedRepository)))"

definition queueCheckout ::
  "MachineService \<Rightarrow> uuid \<Rightarrow> DevMachine \<Rightarrow> string \<Rightarrow> DevMachineCheckout \<Rightarrow> DevMachineCheckout act" where
  "queueCheckout S userID machine key checkout = bindA freshA (\<lambda>i.
     translate (\<lambda>e. if is_store ErrCheckoutMachineConflict e
         then ServiceError ErrCheckoutNotEligible ('': '' @ error_text (ms_driver S) e) else e)
       (storeA (\<lambda>now fresh seq d.
         case CreateCheckout now fresh checkout
             ((new_operation i (m_ID machine) (co_WorkspaceID checkout) userID OpCheckoutIssue (m_Generation machine) key 5)
                \<lparr>op_CheckoutID := Some (co_ID checkout)\<rparr>) d of
           Inl e \<Rightarrow> Inl e | Inr (c, _, d') \<Rightarrow> Inr (c, d'))))"

text \<open>A failed checkout of the issue is queued again; any other checkout of it is the answer.\<close>

definition retryCheckout ::
  "MachineService \<Rightarrow> uuid \<Rightarrow> DevMachine \<Rightarrow> DevMachineCheckout \<Rightarrow> DevMachineCheckout act" where
  "retryCheckout S userID machine existing =
     (if co_Status existing = ''failed''
      then bindA freshA (\<lambda>n. queueCheckout S userID machine
        (''checkout-issue-retry:'' @ uuid_String (co_IssueID existing) @ '':'' @ uuid_String n)
        (existing\<lparr>co_Status := ''queued'', co_LastError := None\<rparr>))
      else returnA existing)"

definition newCheckout ::
  "MachineService \<Rightarrow> uuid \<Rightarrow> uuid \<Rightarrow> DevMachine \<Rightarrow> Issue \<Rightarrow> uuid \<Rightarrow> DevMachineScopeSetting \<Rightarrow> GitHubRepoModel
     \<Rightarrow> DevMachineCheckout act" where
  "newCheckout S workspaceID userID machine issue issueID setting linkedRepository =
     (let identifier = ToLower (ms_unicode_lower S) (iss_Identifier issue) in
      if \<not> validWorkspacePathSegment identifier
      then failA (Errorf ''invalid issue identifier for checkout path'')
      else bindA freshA (\<lambda>i. queueCheckout S userID machine (''checkout-issue:'' @ uuid_String issueID)
        \<lparr>co_ID = i, co_WorkspaceID = workspaceID, co_MachineID = m_ID machine, co_IssueID = issueID,
         co_GitHubRepoID = gh_ID linkedRepository, co_RepositoryFullName = gh_FullName linkedRepository,
         co_BaseBranch = (case ss_BaseBranch setting of None \<Rightarrow> gh_DefaultBranch linkedRepository | Some b \<Rightarrow> b),
         co_WorkingBranch = ''kuayle/'' @ identifier, co_WorkspacePath = ''/workspace/tasks/'' @ identifier,
         co_Status = ''queued'', co_LastError = None, co_CreatedAt = 0, co_UpdatedAt = 0,
         co_LastActivityAt = None\<rparr>))"

definition CheckoutIssue ::
  "MachineService \<Rightarrow> uuid \<Rightarrow> uuid \<Rightarrow> uuid \<Rightarrow> string \<Rightarrow> DevMachineCheckout act" where
  "CheckoutIssue S workspaceID machineID userID rawIssueID =
     (let issueID = fst (ms_uuid_Parse S rawIssueID) in
      bindA (GetForUser workspaceID machineID userID) (\<lambda>machine.
      bindA (readA (\<lambda>now. GetIssueDevelopmentContext workspaceID issueID)) (\<lambda>found. case found of
        None \<Rightarrow> refuse ErrInvalidMachineInput ''issue does not exist in this workspace''
      | Some issue \<Rightarrow>
        if m_Status machine \<noteq> StatusRunning \<or> m_DesiredStatus machine \<noteq> StatusRunning
        then refuse ErrInvalidOperation ''machine must be running''
        else bindA (case iss_ProjectID issue of
              None \<Rightarrow> returnA None
            | Some p \<Rightarrow> readA (\<lambda>now. GetProjectDevelopmentContext workspaceID p)) (\<lambda>project.
          bindA (resolveDevelopmentSetting workspaceID (Some issue) project) (\<lambda>setting.
          bindA (checkout_eligible S workspaceID machine setting) (\<lambda>linkedRepository.
          bindA (readA (\<lambda>now. ListCheckouts workspaceID machineID)) (\<lambda>existing.
            case find (\<lambda>c. co_IssueID c = issueID) existing of
              Some c \<Rightarrow> retryCheckout S userID machine c
            | None \<Rightarrow> newCheckout S workspaceID userID machine issue issueID setting linkedRepository)))))))"

definition service_ListCheckouts :: "uuid \<Rightarrow> uuid \<Rightarrow> uuid \<Rightarrow> DevMachineCheckout list act" where
  "service_ListCheckouts workspaceID machineID userID =
     bindA (GetForUser workspaceID machineID userID) (\<lambda>_. readA (\<lambda>now. ListCheckouts workspaceID machineID))"

end
