(* ===== verification/Service_Agents.thy ===== *)
theory Service_Agents
  imports Service_Machines
begin

text \<open>
  Agent runs and the collector: the operations of \<open>BE/internal/service/dev_machine.go\<close> that start,
  list, trace and cancel the runs of a machine, and those that take the events and logs its collector
  sends.
\<close>

section \<open>Providers\<close>

text \<open>Without a policy every registered provider is available.\<close>

definition available :: "DevMachineWorkspacePolicy option \<Rightarrow> Metadata \<Rightarrow> bool" where
  "available policy metadata = (case policy of
     None \<Rightarrow> True
   | Some p \<Rightarrow> \<not> (md_Custom metadata \<and> \<not> wp_AllowCustomProviders p)
       \<and> \<not> (\<not> md_Custom metadata \<and> \<not> providerAllowed (wp_AllowedProviders p) (md_ID metadata)))"

definition provider_response :: "Metadata \<Rightarrow> AgentProviderResponse" where
  "provider_response metadata = \<lparr>av_ID = md_ID metadata, av_DisplayName = md_DisplayName metadata,
     av_DefaultImage = md_DefaultImage metadata, av_RequiredSecrets = md_RequiredSecrets metadata,
     av_SupportedModes = Some (case md_SupportedModes metadata of None \<Rightarrow> [] | Some modes \<Rightarrow> modes),
     av_Custom = md_Custom metadata\<rparr>"

definition AvailableProviders :: "MachineService \<Rightarrow> uuid \<Rightarrow> AgentProviderResponse list act" where
  "AvailableProviders S workspaceID = bindA (readA (\<lambda>now. GetPolicy workspaceID)) (\<lambda>policy.
     returnA (map provider_response
       (filter (available policy) (map pv_Metadata (registry_List (ms_agents S))))))"

text \<open>\<open>json.Unmarshal\<close> into a nil slice leaves it nil for \<open>null\<close> and for a document it rejects.\<close>

definition unmarshalled :: "rawjson \<Rightarrow> string list option" where
  "unmarshalled raw = (case decode raw of Some (JArray vs) \<Rightarrow> Some (fst (Unmarshal_strings raw)) | _ \<Rightarrow> None)"

definition ConfiguredProviders ::
  "MachineService \<Rightarrow> uuid \<Rightarrow> uuid \<Rightarrow> uuid \<Rightarrow> AgentProviderResponse list act" where
  "ConfiguredProviders S workspaceID machineID userID =
     bindA (GetForUser workspaceID machineID userID) (\<lambda>_.
     bindA (readA (\<lambda>now. ListProviders (ms_collate S) workspaceID machineID)) (\<lambda>providers.
     returnA (map (\<lambda>p. \<lparr>av_ID = ap_ProviderID p, av_DisplayName = ap_DisplayName p, av_DefaultImage = ap_ImageRef p,
         av_RequiredSecrets = unmarshalled (ap_RequiredSecrets p),
         av_SupportedModes = unmarshalled (ap_SupportedModes p), av_Custom = ap_IsCustom p\<rparr>)
       (filter ap_Enabled providers))))"

section \<open>The checkout of a run\<close>

definition selectReadyAgentCheckout :: "DevMachineCheckout list \<Rightarrow> go_error + DevMachineCheckout" where
  "selectReadyAgentCheckout checkouts =
     (case filter (\<lambda>c. co_Status c = ''ready'') checkouts of
        [c] \<Rightarrow> Inr c
      | _ # _ # _ \<Rightarrow> Inl (ServiceError ErrInvalidOperation
          '': checkout_id is required when multiple ready checkouts are available'')
      | [] \<Rightarrow>
        if list_ex (\<lambda>c. co_Status c = ''queued'' \<or> co_Status c = ''preparing'') checkouts
        then Inl (ServiceError ErrCheckoutNotReady '': checkout preparation is still in progress'')
        else (case find (\<lambda>c. co_Status c = ''failed'') checkouts of
            Some c \<Rightarrow> (case co_LastError c of
                Some e \<Rightarrow> if TrimSpace e \<noteq> []
                  then Inl (ServiceError ErrCheckoutNotReady ('': checkout preparation failed: '' @ TrimSpace e
                    @ ''; retry checkout preparation''))
                  else Inl (ServiceError ErrCheckoutNotReady '': checkout preparation failed; retry checkout preparation'')
              | None \<Rightarrow> Inl (ServiceError ErrCheckoutNotReady '': checkout preparation failed; retry checkout preparation''))
          | None \<Rightarrow> Inl (ServiceError ErrCheckoutNotReady '': prepare an issue checkout before starting an agent'')))"

definition resultA :: "go_error + 'a \<Rightarrow> 'a act" where
  "resultA r = (case r of Inl e \<Rightarrow> failA e | Inr x \<Rightarrow> returnA x)"

text \<open>The checkout the request names.\<close>

definition named_checkout ::
  "MachineService \<Rightarrow> uuid \<Rightarrow> uuid \<Rightarrow> CreateAgentRunRequest \<Rightarrow> DevMachineCheckout option act" where
  "named_checkout S workspaceID machineID req = (case ca_CheckoutID req of
     None \<Rightarrow> returnA None
   | Some raw \<Rightarrow>
     if ca_UseRootWorkspace req
     then refuse ErrInvalidMachineInput ''checkout_id and use_root_workspace cannot be combined''
     else bindA (parse_id S raw ''invalid checkout_id'') (\<lambda>parsed.
       bindA (readA (\<lambda>now. GetCheckout workspaceID machineID parsed)) (\<lambda>found. case found of
         None \<Rightarrow> raise ErrCheckoutNotFound
       | Some c \<Rightarrow> bindA (resultA (selectReadyAgentCheckout [c])) (\<lambda>selected. returnA (Some selected)))))"

text \<open>A repository-linked machine needs a checkout; another machine runs in its root workspace.\<close>

definition selected_checkout ::
  "MachineService \<Rightarrow> uuid \<Rightarrow> DevMachine \<Rightarrow> CreateAgentRunRequest \<Rightarrow> DevMachineCheckout option act" where
  "selected_checkout S workspaceID machine req =
     bindA (named_checkout S workspaceID (m_ID machine) req) (\<lambda>named.
     bindA (if m_RepositoryAffinityID machine \<noteq> None \<and> named = None
        then (if ca_UseRootWorkspace req
          then refuse ErrCheckoutNotReady ''repository-linked machines require a ready checkout''
          else bindA (readA (\<lambda>now. ListCheckouts workspaceID (m_ID machine))) (\<lambda>checkouts.
            bindA (resultA (selectReadyAgentCheckout checkouts)) (\<lambda>c. returnA (Some c))))
        else returnA named) (\<lambda>selected.
     if selected = None \<and> \<not> ca_UseRootWorkspace req
     then refuse ErrInvalidMachineInput ''set use_root_workspace to run without a repository checkout''
     else returnA selected))"

section \<open>The secrets of a run\<close>

fun check_secret_names :: "MachineService \<Rightarrow> string list \<Rightarrow> unit act" where
  "check_secret_names S [] = returnA ()"
| "check_secret_names S (name # names) =
     (if \<not> validEnvName name
      then refuse ErrInvalidMachineInput (''invalid secret name '' @ strconv_Quote (ms_is_print S) name)
      else if reserved_name name
      then refuse ErrInvalidMachineInput (''secret '' @ name @ '' is managed by Kuayle and cannot be selected'')
      else check_secret_names S names)"

fun require_all :: "(string \<Rightarrow> unit act) \<Rightarrow> string list \<Rightarrow> string list \<Rightarrow> unit act" where
  "require_all missing names [] = returnA ()"
| "require_all missing names (required # rest) =
     (if required \<notin> set names then missing required else require_all missing names rest)"

definition items :: "string list option \<Rightarrow> string list" where
  "items xs = (case xs of None \<Rightarrow> [] | Some ys \<Rightarrow> ys)"

definition check_secrets ::
  "MachineService \<Rightarrow> uuid \<Rightarrow> CreateAgentRunRequest \<Rightarrow> DevMachineAgentProvider \<Rightarrow> unit act" where
  "check_secrets S machineID req registered =
     thenA (check_secret_names S (items (ca_AllowedSecrets req)))
     (let requiredSecrets = fst (Unmarshal_strings (ap_RequiredSecrets registered)) in
      thenA (require_all (\<lambda>required. refuse ErrInvalidMachineInput
          (''provider '' @ ca_Provider req @ '' requires secret '' @ required @ '' to be selected''))
        (items (ca_AllowedSecrets req)) requiredSecrets)
      (bindA (readA (\<lambda>now. ListEnvVarsInternal now (ms_collate S) machineID (Some (ca_Provider req)) ''agent''))
        (\<lambda>activeSecrets. require_all (\<lambda>required. refuse ErrInvalidOperation
            (''provider '' @ ca_Provider req @ '' requires an active '' @ required @ '' secret''))
          (map ev_Name activeSecrets) requiredSecrets)))"

section \<open>Starting a run\<close>

definition push_branch :: "CreateAgentRunRequest \<Rightarrow> bool" where
  "push_branch req = (case ca_PushBranch req of None \<Rightarrow> \<not> ca_UseRootWorkspace req | Some p \<Rightarrow> p)"

definition check_push :: "CreateAgentRunRequest \<Rightarrow> unit act" where
  "check_push req =
     (if ca_UseRootWorkspace req \<and> push_branch req
      then refuse ErrInvalidMachineInput ''root workspace runs cannot push a repository branch''
      else if ca_OpenPullRequest req \<and> \<not> push_branch req
      then refuse ErrInvalidMachineInput ''opening a pull request requires pushing the working branch''
      else returnA ())"

definition check_daily_runs :: "uuid \<Rightarrow> DevMachineWorkspacePolicy \<Rightarrow> unit act" where
  "check_daily_runs workspaceID policy = bindA nowA (\<lambda>clock.
     bindA (readA (\<lambda>now. CountAgentRunsSince workspaceID (day_start clock))) (\<lambda>dailyRuns.
     unless (\<not> int dailyRuns \<ge> wp_MaxDailyAgentRuns policy)
       (refuse ErrServiceMachineQuota ''daily agent run limit reached'')))"

text \<open>The provider of the run, which must be registered with the machine and allowed by the policy.\<close>

definition run_provider ::
  "MachineService \<Rightarrow> uuid \<Rightarrow> uuid \<Rightarrow> DevMachineWorkspacePolicy \<Rightarrow> CreateAgentRunRequest
     \<Rightarrow> (DevMachineAgentProvider \<times> Provider) act" where
  "run_provider S workspaceID machineID policy req =
     bindA (readA (\<lambda>now. GetProvider workspaceID machineID (ca_Provider req))) (\<lambda>found. case found of
       None \<Rightarrow> refuse ErrProviderNotAllowed (ca_Provider req)
     | Some registered \<Rightarrow>
       if ap_IsCustom registered \<and> \<not> wp_AllowCustomProviders policy
          \<or> \<not> ap_IsCustom registered \<and> \<not> providerAllowed (wp_AllowedProviders policy) (ca_Provider req)
       then refuse ErrProviderNotAllowed (ca_Provider req)
       else (case registry_Get (ms_agents S) (ca_Provider req) of
           None \<Rightarrow> refuse ErrProviderNotAllowed (ca_Provider req)
         | Some provider \<Rightarrow> returnA (registered, provider)))"

text \<open>The runtime of the run, in seconds: one hour unless requested.\<close>

definition run_timeout :: "CreateAgentRunRequest \<Rightarrow> DevMachine \<Rightarrow> int \<Rightarrow> int act" where
  "run_timeout req machine remainingRuntime =
     (let timeout = (if ca_MaxRuntimeSeconds req = 0 then 3600 else ca_MaxRuntimeSeconds req) in
      if timeout > m_MaxRuntimeMinutes machine * 60
      then refuse ErrInvalidMachineInput ''agent runtime exceeds machine maximum''
      else if timeout > remainingRuntime
      then refuse ErrInvalidMachineInput ''agent runtime exceeds machine lifetime''
      else returnA timeout)"

definition new_run ::
  "uuid \<Rightarrow> DevMachine \<Rightarrow> uuid \<Rightarrow> uuid \<Rightarrow> CreateAgentRunRequest \<Rightarrow> DevMachineCheckout option \<Rightarrow> string
     \<Rightarrow> Invocation \<Rightarrow> int \<Rightarrow> DevMachineAgentRun" where
  "new_run runID machine workspaceID userID req selected prompt invocation timeout = \<lparr>
     ar_ID = runID, ar_MachineID = m_ID machine, ar_WorkspaceID = workspaceID,
     ar_IssueID = (case selected of None \<Rightarrow> m_IssueID machine | Some c \<Rightarrow> Some (co_IssueID c)),
     ar_CheckoutID = map_option co_ID selected, ar_RequestedByUserID = Some userID,
     ar_ProviderID = ca_Provider req, ar_Mode = ca_Mode req, ar_Status = RunQueued, ar_Prompt = prompt,
     ar_AcceptanceCriteria = Marshal_slice (ca_AcceptanceCriteria req),
     ar_AllowedCommands = Marshal_slice (ca_AllowedCommands req),
     ar_ForbiddenPaths = Marshal_slice (ca_ForbiddenPaths req),
     ar_AllowedSecrets = Marshal_slice (ca_AllowedSecrets req),
     ar_TestCommand = Some (Marshal_slice (ca_TestCommand req)),
     ar_CommandArgv = Marshal_slice (iv_Argv invocation), ar_MaxRuntimeSeconds = timeout,
     ar_PushBranch = push_branch req, ar_OpenPullRequest = ca_OpenPullRequest req, ar_Result = None,
     ar_Summary = None, ar_ChangedFiles = [], ar_Commits = [], ar_Branch = None, ar_PullRequestURL = None,
     ar_TestsRun = [], ar_TestStatus = [], ar_RiskNotes = [], ar_ExitCode = None, ar_ErrorMessage = None,
     ar_CreatedAt = 0, ar_StartedAt = None, ar_CompletedAt = None, ar_CancelledAt = None\<rparr>"

definition queueRun ::
  "MachineService \<Rightarrow> uuid \<Rightarrow> uuid \<Rightarrow> DevMachine \<Rightarrow> DevMachineAgentRun \<Rightarrow> DevMachineAgentRun act" where
  "queueRun S workspaceID userID machine run =
     bindA freshA (\<lambda>i. bindA nowA (\<lambda>clock.
     bindA (translate (\<lambda>e. if is_store ErrMachineStateConflict e \<or> is_store ErrActiveAgentRun e
         then as_invalid_operation S e else e)
       (storeA (\<lambda>now fresh seq d.
         case CreateAgentRun now clock fresh run
             ((new_operation i (m_ID machine) workspaceID userID OpRunAgent (m_Generation machine)
                (''run-agent:'' @ uuid_String (ar_ID run)) 3)\<lparr>op_AgentRunID := Some (ar_ID run)\<rparr>) d of
           Inl e \<Rightarrow> Inl e | Inr (_, d') \<Rightarrow> Inr (run\<lparr>ar_CreatedAt := now\<rparr>, d')))) (\<lambda>created.
     thenA (ignore (touchActivity (m_ID machine)))
     (thenA (emit machine (Some (ar_ID run)) (Some userID) ''agent'' ''agent_run.queued''
         (JObject [(''mode'', JString (ar_Mode run)), (''provider_id'', JString (ar_ProviderID run))]))
       (returnA created)))))"

definition service_CreateAgentRun ::
  "MachineService \<Rightarrow> uuid \<Rightarrow> uuid \<Rightarrow> uuid \<Rightarrow> CreateAgentRunRequest \<Rightarrow> DevMachineAgentRun act" where
  "service_CreateAgentRun S workspaceID machineID userID req =
     thenA (check_push req)
     (bindA (enabledPolicy S workspaceID) (\<lambda>policy.
      bindA (GetForUser workspaceID machineID userID) (\<lambda>machine.
      thenA (check_daily_runs workspaceID policy)
      (thenA (unless (m_Status machine = StatusRunning \<and> m_DesiredStatus machine = StatusRunning)
         (refuse ErrInvalidOperation ''machine must be running''))
      (bindA (selected_checkout S workspaceID machine req) (\<lambda>selected.
      bindA (bindA nowA (\<lambda>clock. returnA (whole_seconds (m_ExpiresAt machine - clock)))) (\<lambda>remainingRuntime.
      thenA (unless (\<not> remainingRuntime < 30)
         (refuse ErrInvalidOperation ''machine has expired or has insufficient runtime remaining''))
      (bindA (readA (\<lambda>now. HasActiveAgentRun machineID)) (\<lambda>active.
      thenA (unless (\<not> active) (refuse ErrServiceMachineQuota ''this machine already has an active agent run''))
      (bindA (run_provider S workspaceID machineID policy req) (\<lambda>(registered, provider).
      thenA (check_secrets S machineID req registered)
      (if ca_Config req \<noteq> None
       then refuse ErrInvalidMachineInput ''configure the provider when creating the machine''
       else (let prompt = buildAgentPrompt (ms_is_print S) machine selected req in
         case pv_BuildInvocation provider \<lparr>rn_Mode = ca_Mode req, rn_Prompt = prompt,
             rn_WorkspacePath = (case selected of None \<Rightarrow> ''/workspace'' | Some c \<Rightarrow> co_WorkspacePath c),
             rn_AcceptanceCriteria = ca_AcceptanceCriteria req, rn_TestCommand = ca_TestCommand req,
             rn_ExtraArgs = ca_ExtraArgs req, rn_Config = ap_Config registered\<rparr> of
           Inl e \<Rightarrow> refuse ErrInvalidMachineInput ''provider rejected the agent run configuration''
         | Inr invocation \<Rightarrow>
           bindA freshA (\<lambda>runID. bindA (run_timeout req machine remainingRuntime) (\<lambda>timeout.
             queueRun S workspaceID userID machine
               (new_run runID machine workspaceID userID req selected prompt invocation timeout))))))))))))))))"

section \<open>Reading and cancelling runs\<close>

definition service_ListAgentRuns ::
  "uuid \<Rightarrow> uuid \<Rightarrow> uuid option \<Rightarrow> int \<Rightarrow> int \<Rightarrow> (DevMachineAgentRun list \<times> nat) act" where
  "service_ListAgentRuns workspaceID userID machineID page0 perPage0 =
     (let page = (if page0 < 1 then 1 else page0);
          perPage = (if perPage0 < 1 \<or> perPage0 > 100 then 50 else perPage0) in
      thenA (case machineID of None \<Rightarrow> returnA ()
        | Some i \<Rightarrow> bindA (GetForUser workspaceID i userID) (\<lambda>_. returnA ()))
      (pageA perPage ((page - 1) * perPage) (ListAgentRunsForUser workspaceID userID machineID)))"

definition service_GetAgentRun :: "uuid \<Rightarrow> uuid \<Rightarrow> uuid \<Rightarrow> DevMachineAgentRun act" where
  "service_GetAgentRun workspaceID runID userID =
     bindA (readA (\<lambda>now. GetAgentRunForUser workspaceID runID userID)) (present (raise ErrAgentRunNotFound))"

definition service_CancelAgentRun :: "uuid \<Rightarrow> uuid \<Rightarrow> uuid \<Rightarrow> unit act" where
  "service_CancelAgentRun workspaceID runID userID =
     bindA (service_GetAgentRun workspaceID runID userID) (\<lambda>run.
     bindA (translate (\<lambda>e. if is_service ErrMachineNotFound e then ServiceError ErrAgentRunNotFound [] else e)
       (GetForUser workspaceID (ar_MachineID run) userID)) (\<lambda>machine.
     bindA freshA (\<lambda>i. storeA (\<lambda>now fresh seq d.
       case CancelAgentRun now fresh workspaceID runID
           ((new_operation i (ar_MachineID run) workspaceID userID OpCancelAgent (m_Generation machine)
              (''cancel-agent:'' @ uuid_String runID) 3)\<lparr>op_AgentRunID := Some runID\<rparr>) d of
         Inl e \<Rightarrow> Inl e | Inr d' \<Rightarrow> Inr ((), d')))))"

text \<open>One row more than the page is read to see whether there are more. The steps of a run, which no code
  writes, are read and not modelled.\<close>

definition page_of :: "int \<Rightarrow> 'a list \<Rightarrow> 'a list" where
  "page_of limit rows = (if int (length rows) > limit then take (nat limit) rows else rows)"

definition next_id :: "('a \<Rightarrow> int) \<Rightarrow> int \<Rightarrow> 'a list \<Rightarrow> int" where
  "next_id key after rows = (if length rows > 0 then key (last rows) else after)"

definition GetAgentRunTrace ::
  "uuid \<Rightarrow> uuid \<Rightarrow> uuid \<Rightarrow> TraceListParams \<Rightarrow> AgentRunTraceResponse act" where
  "GetAgentRunTrace workspaceID runID userID params0 =
     bindA (service_GetAgentRun workspaceID runID userID) (\<lambda>run.
     if ar_WorkspaceID run \<noteq> workspaceID then raise ErrAgentRunNotFound
     else (let params = trace_Defaults params0 in
       thenA (readA (\<lambda>now d. ()))
       (bindA (readA (\<lambda>now. ListAgentRunEvents runID (tp_EventsAfterID params) (nat (tp_EventsLimit params + 1))))
         (\<lambda>events.
       bindA (readA (\<lambda>now. ListAgentRunLogs runID (tp_LogsAfterID params) (nat (tp_LogsLimit params + 1))))
         (\<lambda>logs.
       let es = page_of (tp_EventsLimit params) events; ls = page_of (tp_LogsLimit params) logs in
       returnA \<lparr>tt_Run = run, tt_Events = es, tt_Logs = ls,
         tt_NextEventID = next_id me_ID (tp_EventsAfterID params) es,
         tt_NextLogID = next_id lc_ID (tp_LogsAfterID params) ls,
         tt_HasMoreEvents = (int (length events) > tp_EventsLimit params),
         tt_HasMoreLogs = (int (length logs) > tp_LogsLimit params)\<rparr>)))))"

section \<open>Events, logs and samples\<close>

text \<open>The limit of the lists is the caller's (\<open>EventListParams\<close> and \<open>LogListParams\<close> bound it in the handler).\<close>

definition service_ListEvents :: "uuid \<Rightarrow> uuid \<Rightarrow> uuid \<Rightarrow> int \<Rightarrow> int \<Rightarrow> DevMachineEvent list act" where
  "service_ListEvents workspaceID machineID userID afterID limit =
     bindA (GetForUser workspaceID machineID userID)
       (\<lambda>_. pageA limit 0 (\<lambda>n _. ListEvents workspaceID machineID afterID n))"

definition service_ListLogs ::
  "uuid \<Rightarrow> uuid \<Rightarrow> uuid \<Rightarrow> uuid option \<Rightarrow> int \<Rightarrow> int \<Rightarrow> DevMachineLogChunk list act" where
  "service_ListLogs workspaceID machineID userID runID afterID limit =
     bindA (GetForUser workspaceID machineID userID)
       (\<lambda>_. pageA limit 0 (\<lambda>n _. ListLogs workspaceID machineID runID afterID n))"

definition service_ListResourceSamples ::
  "uuid \<Rightarrow> uuid \<Rightarrow> uuid \<Rightarrow> int \<Rightarrow> DevMachineResourceSample list act" where
  "service_ListResourceSamples workspaceID machineID userID limit0 =
     bindA (GetForUser workspaceID machineID userID) (\<lambda>_.
       let limit = (if limit0 \<le> 0 \<or> limit0 > 500 then 120 else limit0) in
       readA (\<lambda>now. ListResourceSamples workspaceID machineID (nat limit)))"

section \<open>The collector\<close>

definition authenticateMachineToken ::
  "MachineService \<Rightarrow> string \<Rightarrow> string \<Rightarrow> (DevMachineToken \<times> DevMachine) act" where
  "authenticateMachineToken S rawToken scope =
     (if length rawToken \<noteq> 64 then raise ErrMachineAuthentication
      else bindA (countA (\<lambda>now. AuthenticateMachineToken (ms_has_scope S) now
          (EncodeToString (ms_sha256 S rawToken)) scope)) (present (raise ErrMachineAuthentication)))"

text \<open>The values of the machine's live variables and runtime credentials that are not empty.\<close>

fun decrypted :: "MachineService \<Rightarrow> string list \<Rightarrow> go_error + string list" where
  "decrypted S [] = Inr []"
| "decrypted S (encrypted # rest) = (case ms_Decrypt S encrypted of
     Inl e \<Rightarrow> Inl e
   | Inr plain \<Rightarrow> (case decrypted S rest of
       Inl e \<Rightarrow> Inl e
     | Inr plains \<Rightarrow> Inr (if plain \<noteq> [] then plain # plains else plains)))"

definition machineSecretValues :: "MachineService \<Rightarrow> uuid \<Rightarrow> string list act" where
  "machineSecretValues S machineID =
     bindA (readA (\<lambda>now. ListEnvVarsInternal now (ms_collate S) machineID None [])) (\<lambda>envVars.
     bindA (readA (\<lambda>now. ListRuntimeCredentials now machineID)) (\<lambda>runtimeCredentials.
     resultA (decrypted S (map ev_EncryptedValue envVars @ map rc_EncryptedValue runtimeCredentials))))"

text \<open>The run an event or a log belongs to, which must be a run of the machine.\<close>

definition reported_run :: "MachineService \<Rightarrow> uuid \<Rightarrow> uuid \<Rightarrow> string option \<Rightarrow> uuid option act" where
  "reported_run S workspaceID machineID rawRunID = (case rawRunID of
     None \<Rightarrow> returnA None
   | Some raw \<Rightarrow> (let parsed = fst (ms_uuid_Parse S raw) in
       bindA (readA (\<lambda>now. GetAgentRun workspaceID parsed)) (\<lambda>found.
         if (case found of None \<Rightarrow> True | Some run \<Rightarrow> ar_MachineID run \<noteq> machineID)
         then raise ErrAgentRunNotFound else returnA (Some parsed))))"

definition reported_service :: "MachineService \<Rightarrow> DevMachine \<Rightarrow> string option \<Rightarrow> uuid option act" where
  "reported_service S machine rawServiceID = (case rawServiceID of
     None \<Rightarrow> returnA None
   | Some raw \<Rightarrow> (let parsed = fst (ms_uuid_Parse S raw) in
       bindA (readA (\<lambda>now. ListServices (ms_collate S) (m_WorkspaceID machine) (m_ID machine))) (\<lambda>services.
         if \<not> list_ex (\<lambda>s. sv_ID s = parsed) services then raise ErrServiceNotAvailable
         else returnA (Some parsed))))"

text \<open>A reported time counts when it is less than a day old and less than five minutes ahead.\<close>

definition occurred_at :: "time \<Rightarrow> time option \<Rightarrow> time" where
  "occurred_at now reported = (case reported of
     None \<Rightarrow> now
   | Some t \<Rightarrow> if t < now + minutes 5 \<and> now - minutes (24 * 60) < t then t else now)"

definition IngestEvent :: "MachineService \<Rightarrow> string \<Rightarrow> CollectorEventInput \<Rightarrow> unit act" where
  "IngestEvent S rawToken input =
     (if \<not> ms_enabled S then raise ErrDevMachinesDisabled
      else bindA (authenticateMachineToken S rawToken ''events:write'') (\<lambda>(token, machine).
      bindA (reported_run S (m_WorkspaceID machine) (tk_MachineID token) (ic_AgentRunID input)) (\<lambda>runID.
      bindA (machineSecretValues S (m_ID machine)) (\<lambda>secrets.
      bindA nowA (\<lambda>clock.
      let payload = (case ic_Payload input of None \<Rightarrow> ''{}''
        | Some p \<Rightarrow> Marshal (redactPayload (ms_order S) secrets p)) in
      storeA (\<lambda>now fresh seq d. case CreateEvent now clock seq
          \<lparr>me_ID = 0, me_WorkspaceID = m_WorkspaceID machine, me_MachineID = m_ID machine, me_AgentRunID = runID,
           me_ActorUserID = None, me_Source = ic_Source input, me_EventType = ic_EventType input,
           me_Payload = payload, me_OccurredAt = occurred_at clock (ic_OccurredAt input), me_CreatedAt = 0\<rparr> d of
        Inl e \<Rightarrow> Inl e | Inr (_, d') \<Rightarrow> Inr ((), d')))))))"

definition IngestLog :: "MachineService \<Rightarrow> string \<Rightarrow> CollectorLogInput \<Rightarrow> unit act" where
  "IngestLog S rawToken input =
     (if \<not> ms_enabled S then raise ErrDevMachinesDisabled
      else bindA (authenticateMachineToken S rawToken ''logs:write'') (\<lambda>(token, machine).
      bindA (reported_run S (m_WorkspaceID machine) (m_ID machine) (il_AgentRunID input)) (\<lambda>runID.
      bindA (reported_service S machine (il_ServiceID input)) (\<lambda>serviceID.
      bindA (machineSecretValues S (m_ID machine)) (\<lambda>secrets.
      storeA (\<lambda>now fresh seq d. case CreateLogChunk now seq
          \<lparr>lc_ID = 0, lc_WorkspaceID = m_WorkspaceID machine, lc_MachineID = m_ID machine, lc_AgentRunID = runID,
           lc_ServiceID = serviceID, lc_Stream = il_Stream input, lc_Sequence = il_Sequence input,
           lc_Content = redactText (il_Content input) secrets, lc_Truncated = il_Truncated input,
           lc_CreatedAt = 0\<rparr> d of
        Inl e \<Rightarrow> Inl e | Inr (_, d') \<Rightarrow> Inr ((), d')))))))"

end
