(* ===== verification/Service_Launch.thy ===== *)
theory Service_Launch
  imports Service_Agents
begin

text \<open>
  Opening a machine to its user: \<open>LaunchService\<close> and the terminal sessions of
  \<open>BE/internal/service/dev_machine.go\<close>. A launch hands out a URL whose ticket is random; the
  database keeps the hash of the ticket, the host it is bound to and its expiry.
\<close>

section \<open>Machines that are not running yet\<close>

definition pending_response :: "string \<Rightarrow> DevMachineOperation option \<Rightarrow> LaunchServiceResponse" where
  "pending_response status operation = \<lparr>ls_Status = status, ls_LaunchURL = [], ls_ExpiresAt = 0,
     ls_Operation = operationDTO operation, ls_RetryAfterSeconds = 2\<rparr>"

text \<open>\<open>None\<close> for a running machine; a paused one is started.\<close>

definition pendingLaunch :: "MachineService \<Rightarrow> uuid \<Rightarrow> DevMachine \<Rightarrow> uuid \<Rightarrow> LaunchServiceResponse option act" where
  "pendingLaunch S workspaceID machine userID =
     (if m_Status machine = StatusRunning \<and> m_DesiredStatus machine = StatusRunning then returnA None
      else if m_Status machine = StatusPaused then
        (if m_DesiredStatus machine = StatusDestroyed
         then refuse ErrInvalidOperation ''machine teardown is already queued''
         else if m_DesiredStatus machine \<noteq> StatusPaused \<and> m_DesiredStatus machine \<noteq> StatusRunning
         then refuse ErrInvalidOperation (''machine is transitioning to '' @ status_text (m_DesiredStatus machine))
         else bindA (if m_DesiredStatus machine \<noteq> StatusRunning
             then bindA (Lifecycle S workspaceID (m_ID machine) userID OpStart
                 (''launch-resume:'' @ uuid_String userID @ '':'' @ int_decimal (m_Generation machine + 1)))
               (\<lambda>operation. returnA (Some operation))
             else returnA None)
           (\<lambda>operation. returnA (Some (pending_response ''resuming'' operation))))
      else if (m_Status machine = StatusQueued \<or> m_Status machine = StatusSpawning)
        \<and> m_DesiredStatus machine = StatusRunning
      then returnA (Some (pending_response ''pending'' None))
      else refuse ErrInvalidOperation ''machine is not running'')"

section \<open>Launching a service\<close>

text \<open>The service to open, and the ready checkout to open it in.\<close>

definition launchable_service ::
  "uuid \<Rightarrow> uuid \<Rightarrow> string \<Rightarrow> DevMachineService act" where
  "launchable_service workspaceID machineID serviceKey =
     bindA (readA (\<lambda>now. GetService workspaceID machineID serviceKey)) (\<lambda>found. case found of
       None \<Rightarrow> raise ErrServiceNotAvailable
     | Some service \<Rightarrow>
       if sv_MachineID service \<noteq> machineID \<or> sv_ServiceKey service \<noteq> serviceKey \<or> sv_Status service \<noteq> ''running''
       then raise ErrServiceNotAvailable
       else if sv_ServiceType service = ''terminal'' then raise ErrTerminalSessionRequired
       else if sv_ServiceType service \<noteq> ''ide'' \<and> sv_ServiceType service \<noteq> ''browser''
       then raise ErrServiceNotAvailable
       else returnA service)"

definition ready_checkout :: "uuid \<Rightarrow> uuid \<Rightarrow> uuid \<Rightarrow> DevMachineCheckout act" where
  "ready_checkout workspaceID machineID checkoutID =
     bindA (readA (\<lambda>now. GetCheckout workspaceID machineID checkoutID)) (\<lambda>found. case found of
       None \<Rightarrow> raise ErrCheckoutNotFound
     | Some c \<Rightarrow> if co_Status c \<noteq> ''ready'' then refuse ErrCheckoutNotReady ''selected checkout must be ready''
         else returnA c)"

definition new_ticket ::
  "MachineService \<Rightarrow> uuid \<Rightarrow> DevMachine \<Rightarrow> uuid \<Rightarrow> uuid \<Rightarrow> uuid \<Rightarrow> uuid option \<Rightarrow> string \<Rightarrow> string \<Rightarrow> time
     \<Rightarrow> DevMachineAccessTicket" where
  "new_ticket S i machine workspaceID serviceID userID sessionID tokenHash host clock =
     \<lparr>at_ID = i, at_WorkspaceID = workspaceID, at_MachineID = m_ID machine, at_ServiceID = serviceID,
      at_TerminalSessionID = sessionID, at_UserID = userID, at_TokenHash = tokenHash, at_Status = TicketActive,
      at_BoundHost = host, at_ExpiresAt = min (clock + ms_ticketTTL S) (m_ExpiresAt machine), at_UsedAt = None,
      at_CreatedAt = 0, at_RevokedAt = None\<rparr>"

definition createTicket :: "DevMachineAccessTicket \<Rightarrow> DevMachineAccessTicket act" where
  "createTicket ticket = translate (\<lambda>e. if is_no_rows e then ServiceError ErrServiceNotAvailable [] else e)
     (storeA (\<lambda>now fresh seq. CreateAccessTicket now ticket))"

definition launch_host :: "MachineService \<Rightarrow> DevMachine \<Rightarrow> DevMachineService \<Rightarrow> string" where
  "launch_host S machine service =
     (if sv_ServiceType service = ''browser'' then m_RoutingKey machine @ ''-browser.'' @ ms_domain S
      else m_RoutingKey machine @ ''.'' @ ms_domain S)"

definition launch_query ::
  "string \<Rightarrow> DevMachineService \<Rightarrow> DevMachineCheckout option \<Rightarrow> (string \<times> string) list" where
  "launch_query raw service checkout =
     (let q0 = [(''ticket'', raw)];
          q1 = (if sv_ServiceType service = ''browser''
            then put_member ''enable_webrtc'' ''false'' (put_member ''resize'' ''remote'' (put_member ''autoconnect'' ''true'' q0))
            else q0) in
      case checkout of
        Some c \<Rightarrow> if sv_ServiceType service = ''ide'' then put_member ''folder'' (co_WorkspacePath c) q1 else q1
      | None \<Rightarrow> q1)"

definition LaunchService ::
  "MachineService \<Rightarrow> uuid \<Rightarrow> uuid \<Rightarrow> uuid \<Rightarrow> string \<Rightarrow> uuid option \<Rightarrow> LaunchServiceResponse act" where
  "LaunchService S workspaceID machineID userID serviceKey checkoutID =
     bindA (enabledPolicy S workspaceID) (\<lambda>_.
     bindA (GetForUser workspaceID machineID userID) (\<lambda>machine.
     if serviceKey = ''terminal'' then raise ErrTerminalSessionRequired
     else if ms_domain S = [] then failA (Errorf ''dev machine domain is not configured'')
     else bindA nowA (\<lambda>clock.
       if \<not> clock < m_ExpiresAt machine then refuse ErrInvalidOperation ''machine has expired''
       else bindA (pendingLaunch S workspaceID machine userID) (\<lambda>pending. case pending of
         Some response \<Rightarrow> returnA response
       | None \<Rightarrow>
         bindA (launchable_service workspaceID machineID serviceKey) (\<lambda>service.
         bindA (case checkoutID of None \<Rightarrow> returnA None
             | Some i \<Rightarrow> bindA (ready_checkout workspaceID machineID i) (\<lambda>c. returnA (Some c))) (\<lambda>checkout.
         bindA (randomHex S 32) (\<lambda>raw.
         bindA nowA (\<lambda>now.
         bindA freshA (\<lambda>i.
         bindA (createTicket (new_ticket S i machine workspaceID (sv_ID service) userID None
             (EncodeToString (ms_sha256 S raw)) (launch_host S machine service) now)) (\<lambda>ticket.
         thenA (ignore (touchActivity (m_ID machine)))
         (thenA (emit machine None (Some userID) ''gateway'' ''service.launch_requested''
             (JObject [(''service'', JString (sv_ServiceType service))]))
           (returnA \<lparr>ls_Status = ''ready'', ls_LaunchURL = url_String ''https'' (launch_host S machine service) ''/''
                (encode_values (launch_query raw service checkout)),
              ls_ExpiresAt = at_ExpiresAt ticket, ls_Operation = None, ls_RetryAfterSeconds = 0\<rparr>))))))))))))"

section \<open>Terminal sessions\<close>

definition terminalSessionResponse :: "DevMachineTerminalSession \<Rightarrow> TerminalSessionResponse" where
  "terminalSessionResponse session = \<lparr>tr_ID = uuid_String (ts_ID session),
     tr_MachineID = uuid_String (ts_MachineID session),
     tr_CheckoutID = map_option uuid_String (ts_CheckoutID session), tr_Name = ts_Name session,
     tr_RuntimeSessionName = ts_RuntimeSessionName session, tr_Status = ts_Status session,
     tr_CreatedAt = ts_CreatedAt session, tr_LastActivityAt = ts_LastActivityAt session,
     tr_ClosedAt = ts_ClosedAt session\<rparr>"

definition terminal_service :: "uuid \<Rightarrow> uuid \<Rightarrow> DevMachineService act" where
  "terminal_service workspaceID machineID =
     bindA (readA (\<lambda>now. GetService workspaceID machineID ''terminal'')) (\<lambda>found. case found of
       None \<Rightarrow> raise ErrServiceNotAvailable
     | Some service \<Rightarrow>
       if sv_MachineID service \<noteq> machineID \<or> sv_ServiceKey service \<noteq> ''terminal''
          \<or> sv_ServiceType service \<noteq> ''terminal'' \<or> sv_Status service \<noteq> ''running''
       then raise ErrServiceNotAvailable else returnA service)"

definition session_name :: "string \<Rightarrow> string act" where
  "session_name requested = (let name = (if TrimSpace requested = [] then ''Terminal'' else TrimSpace requested) in
     if ContainsAny name [CHR 0x00, CHR 0x0D, CHR 0x0A]
     then refuse ErrInvalidMachineInput ''invalid terminal session name'' else returnA name)"

definition openTerminal ::
  "MachineService \<Rightarrow> uuid \<Rightarrow> DevMachine \<Rightarrow> uuid \<Rightarrow> DevMachineService \<Rightarrow> DevMachineCheckout option \<Rightarrow> string
     \<Rightarrow> TerminalSessionLaunchResponse act" where
  "openTerminal S workspaceID machine userID terminalService checkout name =
     bindA freshA (\<lambda>n. bindA freshA (\<lambda>sessionID.
     let runtimeName = ''term-'' @ uuid_String n in
     bindA (storeA (\<lambda>now fresh seq. CreateTerminalSession now
        \<lparr>ts_ID = sessionID, ts_WorkspaceID = workspaceID, ts_MachineID = m_ID machine,
         ts_CheckoutID = map_option co_ID checkout, ts_UserID = userID, ts_Name = name,
         ts_RuntimeSessionName = runtimeName, ts_Status = ''active'', ts_CreatedAt = 0, ts_LastActivityAt = 0,
         ts_ClosedAt = None\<rparr>)) (\<lambda>session.
     bindA (randomHex S 32) (\<lambda>raw.
     bindA nowA (\<lambda>now.
     bindA freshA (\<lambda>i.
     let cwd = terminalWorkingDirectory machine checkout;
         host = m_RoutingKey machine @ ''-terminal.'' @ ms_domain S in
     bindA (createTicket (new_ticket S i machine workspaceID (sv_ID terminalService) userID (Some sessionID)
         (terminalTicketHash (ms_sha256 S) raw (ms_frontendOrigin S) runtimeName cwd) host now)) (\<lambda>ticket.
     thenA (ignore (touchActivity (m_ID machine)))
     (thenA (emit machine None (Some userID) ''gateway'' ''terminal_session.launch_requested''
         (JObject [(''session_id'', JString (uuid_String sessionID))]))
     (let launchURL = url_String ''wss'' host ''/ws''
            (encode_values [(''cwd'', cwd), (''session'', runtimeName), (''ticket'', raw)]) in
      returnA \<lparr>tl_Status = ''ready'', tl_Session = Some (terminalSessionResponse session),
        tl_LaunchURL = launchURL, tl_WebSocketURL = launchURL, tl_Protocol = ''ttyd.v1'',
        tl_ExpiresAt = at_ExpiresAt ticket, tl_Operation = None, tl_RetryAfterSeconds = 0\<rparr>)))))))))"

definition service_CreateTerminalSession ::
  "MachineService \<Rightarrow> uuid \<Rightarrow> uuid \<Rightarrow> uuid \<Rightarrow> CreateTerminalSessionRequest
     \<Rightarrow> TerminalSessionLaunchResponse act" where
  "service_CreateTerminalSession S workspaceID machineID userID req =
     bindA (enabledPolicy S workspaceID) (\<lambda>_.
     bindA (GetForUser workspaceID machineID userID) (\<lambda>machine.
     if ms_domain S = [] then failA (Errorf ''dev machine domain is not configured'')
     else if ms_frontendOrigin S = [] then failA (Errorf ''frontend origin is not configured'')
     else bindA nowA (\<lambda>clock.
       if \<not> clock < m_ExpiresAt machine then refuse ErrInvalidOperation ''machine has expired''
       else bindA (pendingLaunch S workspaceID machine userID) (\<lambda>pending. case pending of
         Some response \<Rightarrow> returnA \<lparr>tl_Status = ls_Status response, tl_Session = None, tl_LaunchURL = [],
           tl_WebSocketURL = [], tl_Protocol = [], tl_ExpiresAt = 0, tl_Operation = ls_Operation response,
           tl_RetryAfterSeconds = ls_RetryAfterSeconds response\<rparr>
       | None \<Rightarrow>
         bindA (case ct_CheckoutID req of None \<Rightarrow> returnA None
             | Some raw \<Rightarrow> bindA (parse_id S raw ''invalid checkout_id'') (\<lambda>parsed.
                 bindA (ready_checkout workspaceID machineID parsed) (\<lambda>c. returnA (Some c)))) (\<lambda>checkout.
         bindA (terminal_service workspaceID machineID) (\<lambda>terminalService.
         bindA (session_name (ct_Name req)) (\<lambda>name.
           openTerminal S workspaceID machine userID terminalService checkout name)))))))"

definition service_ListTerminalSessions ::
  "uuid \<Rightarrow> uuid \<Rightarrow> uuid \<Rightarrow> TerminalSessionResponse list act" where
  "service_ListTerminalSessions workspaceID machineID userID =
     bindA (GetForUser workspaceID machineID userID) (\<lambda>_.
     bindA (readA (\<lambda>now. ListTerminalSessions workspaceID machineID userID)) (\<lambda>sessions.
     returnA (map terminalSessionResponse sessions)))"

definition CloseTerminalSession :: "uuid \<Rightarrow> uuid \<Rightarrow> uuid \<Rightarrow> uuid \<Rightarrow> TerminalSessionResponse act" where
  "CloseTerminalSession workspaceID machineID userID sessionID =
     bindA (GetForUser workspaceID machineID userID) (\<lambda>machine.
     bindA (storeA (\<lambda>now fresh seq. RequestTerminalSessionClose now fresh workspaceID machineID userID sessionID
        (new_operation uuid_Nil machineID workspaceID userID OpTerminateTerminal (m_Generation machine)
          (''terminal-close:'' @ uuid_String sessionID) 5))) (\<lambda>found. case found of
       None \<Rightarrow> raise ErrTerminalSessionNotFound
     | Some session \<Rightarrow> returnA (terminalSessionResponse session)))"

end
