(* ===== verification/Service_Rules.thy ===== *)
theory Service_Rules
  imports Service_Launch
begin

text \<open>
  Inversion of the actions the service is built of, beside those of the manager.
\<close>

lemma refuse_Inr [inversion]: "refuse e detail w \<noteq> (Inr y, w')"
  by (simp add: refuse_def failA_def)

lemma raise_Inr [inversion]: "raise e w \<noteq> (Inr y, w')"
  by (simp add: raise_def failA_def)

lemma present_Inr [inversion]: "present (raise e) x w = (Inr y, w') \<longleftrightarrow> x = Some y \<and> w' = w"
  by (auto simp: present_def raise_Inr returnA_def split: option.split)

lemma unless_Inr [inversion]: "unless b (refuse e s) w = (Inr u, w') \<longleftrightarrow> b \<and> w' = w"
  by (auto simp: unless_def refuse_Inr returnA_def)

lemma translate_Inr [inversion]: "translate f a w = (Inr x, w') \<longleftrightarrow> a w = (Inr x, w')"
  by (auto simp: translate_def split: prod.splits sum.splits)

lemma nowA_Inr [inversion]: "nowA w = (Inr t, w') \<longleftrightarrow> t = w_now w \<and> w' = w"
  by (auto simp: nowA_def getA_def)

lemma resultA_Inr [inversion]: "resultA r w = (Inr x, w') \<longleftrightarrow> r = Inr x \<and> w' = w"
  by (auto simp: resultA_def failA_def returnA_def split: sum.split)

lemma drawA_Inr [inversion]:
  "drawA f w = (Inr x, w') \<longleftrightarrow> f (w_fresh w) = Inr x \<and> w' = w\<lparr>w_fresh := w_fresh w + 1\<rparr>"
  by (auto simp: drawA_def)

lemma randomHex_Inr [inversion]:
  "randomHex S n w = (Inr s, w') \<longleftrightarrow> (\<exists>b. ms_rand S (w_fresh w) n = Inr b \<and> s = EncodeToString b
     \<and> w' = w\<lparr>w_fresh := w_fresh w + 1\<rparr>)"
  by (auto simp: randomHex_def bindA_Inr drawA_Inr returnA_Inr)

lemma parse_id_Inr [inversion]:
  "parse_id S raw s w = (Inr i, w') \<longleftrightarrow> ms_uuid_Parse S raw = (i, True) \<and> w' = w"
  by (auto simp: parse_id_def Let_def refuse_Inr returnA_def split: prod.splits if_splits)

lemma if_Inr: "(if b then x else y) w = (if b then x w else y w)"
  by simp

end
