(* ===== verification/Setting_Properties.thy ===== *)
theory Setting_Properties
  imports Service_Rules Manager_Samples
begin

text \<open>
  What the machine service promises about configuration: a development setting is inherited from the
  nearest scope that has one, and a saved policy allows exactly what its request listed.
\<close>

section \<open>The service of the witnesses\<close>

text \<open>
  A service with one agent provider, whose hash and cipher are easy to evaluate; an identifier's text
  is read as itself, and the \<open>n\<close>-th random string of a length repeats one byte.
\<close>

definition provider0 :: Provider where
  "provider0 = \<lparr>pv_Metadata = \<lparr>md_ID = ''codex'', md_DisplayName = ''Codex'', md_DefaultImage = ''img'',
       md_RequiredSecrets = None, md_SupportedModes = Some [''autonomous''], md_Custom = False\<rparr>,
     pv_BuildInvocation = (\<lambda>input. Inr \<lparr>iv_Image = ''img'', iv_Argv = Some [''codex''], iv_WorkingDir = rn_WorkspacePath input,
       iv_Interactive = False, iv_SecretNames = None\<rparr>),
     pv_ParseEvents = (\<lambda>_. []),
     pv_ParseResult = (\<lambda>_ _ _. \<lparr>rr_Status = [], rr_Summary = [], rr_ChangedFiles = None, rr_Commits = None,
       rr_Branch = [], rr_PullRequestURL = [], rr_TestsRun = None, rr_TestStatus = [], rr_RiskNotes = None,
       rr_Artifacts = None\<rparr>)\<rparr>"

definition machines0 :: MachineService where
  "machines0 = \<lparr>ms_agents = NewRegistry [provider0], ms_enabled = True, ms_domain = ''dev.test'',
     ms_frontendOrigin = ''https://app.test'', ms_ticketTTL = seconds 60,
     ms_images = \<lparr>im_IDE = ''ide:1'', im_Browser = ''browser:1'', im_Collector = ''collector:1'', im_Egress = ''egress:1''\<rparr>,
     ms_driver = (\<lambda>_. ''sql: error''), ms_collate = (\<lambda>_. 0), ms_has_scope = (\<lambda>scopes scope. True),
     ms_unicode_lower = (\<lambda>r. r), ms_is_print = (\<lambda>_. True), ms_equal_fold = (=), ms_sha256 = (\<lambda>s. s),
     ms_Encrypt = (\<lambda>n s. Inr s), ms_Decrypt = Inr, ms_url_Parse = (\<lambda>_. None),
     ms_uuid_Parse = (\<lambda>s. (length s, True)), ms_rand = (\<lambda>n k. Inr (replicate k (char_of (n mod 256)))),
     ms_order = (\<lambda>ms. ms)\<rparr>"

lemmas service_samples = machines0_def provider0_def

section \<open>Inherited settings\<close>

text \<open>
  The reference: of the settings of the scopes, the nearest first, the first that names a repository
  gives repository and base branch, and the first that names an environment gives the environment.
\<close>

definition nearest :: "(DevMachineScopeSetting \<Rightarrow> uuid option) \<Rightarrow> DevMachineScopeSetting list
     \<Rightarrow> DevMachineScopeSetting option" where
  "nearest field settings = find (\<lambda>s. field s \<noteq> None) settings"

definition inherited_setting :: "uuid \<Rightarrow> DevMachineScopeSetting list \<Rightarrow> DevMachineScopeSetting" where
  "inherited_setting workspaceID settings = (empty_setting workspaceID (None, None, None))\<lparr>
     ss_GitHubRepoID := Option.bind (nearest ss_GitHubRepoID settings) ss_GitHubRepoID,
     ss_BaseBranch := Option.bind (nearest ss_GitHubRepoID settings) ss_BaseBranch,
     ss_EnvironmentID := Option.bind (nearest ss_EnvironmentID settings) ss_EnvironmentID\<rparr>"

definition scope_settings :: "uuid \<Rightarrow> scope list \<Rightarrow> db \<Rightarrow> DevMachineScopeSetting list" where
  "scope_settings workspaceID scopes d = concat (map (\<lambda>(team, project, issue).
     case GetScopeSetting workspaceID team project issue d of None \<Rightarrow> [] | Some s \<Rightarrow> [s]) scopes)"

lemma scope_settings_simps [simp]:
  "scope_settings workspaceID [] d = []"
  "scope_settings workspaceID ((team, project, issue) # scopes) d =
     (case GetScopeSetting workspaceID team project issue d of None \<Rightarrow> [] | Some s \<Rightarrow> [s])
       @ scope_settings workspaceID scopes d"
  by (simp_all add: scope_settings_def)

lemma inherit_complete:
  assumes "ss_GitHubRepoID r \<noteq> None" and "ss_EnvironmentID r \<noteq> None"
  shows "foldl (\<lambda>r s. inherit s r) r settings = r"
proof -
  have "inherit s r = r" for s using assms by (auto simp: inherit_def Let_def)
  then show ?thesis by (induction settings) simp_all
qed

text \<open>The loop folds \<open>inherit\<close> over the settings of the scopes; it may stop once nothing can change.\<close>

lemma resolve_scopes_alone:
  "w_script w = [] \<Longrightarrow> \<exists>w'. resolve_scopes workspaceID scopes r w
      = (Inr (foldl (\<lambda>r s. inherit s r) r (scope_settings workspaceID scopes (w_db w))), w')
    \<and> w_db w' = w_db w \<and> w_script w' = []"
proof (induction workspaceID scopes r arbitrary: w rule: resolve_scopes.induct)
  case (1 workspaceID r)
  then show ?case by (simp add: returnA_def)
next
  case (2 workspaceID team project issue scopes r)
  show ?case
  proof (cases "ss_GitHubRepoID r \<noteq> None \<and> ss_EnvironmentID r \<noteq> None")
    case True
    then show ?thesis using 2(3) by (simp add: returnA_def inherit_complete)
  next
    case False
    have tick: "w_script (tick w) = []" "w_db (tick w) = w_db w" using 2(3) by simp_all
    show ?thesis
    proof (cases "GetScopeSetting workspaceID team project issue (w_db w)")
      case None
      then show ?thesis
        using 2(1) [OF False tick(1)] False 2(3) tick
        by (simp only: resolve_scopes.simps if_False bindA_def alone_simps scope_settings_simps option.case
            sum.case prod.case append_Nil)
    next
      case (Some s)
      then show ?thesis
        using 2(2) [OF False tick(1), of s] False 2(3) tick
        by (simp only: resolve_scopes.simps if_False bindA_def alone_simps scope_settings_simps option.case
            sum.case prod.case append_Cons append_Nil foldl_Cons)
    qed
  qed
qed

lemma foldl_inherit:
  "foldl (\<lambda>r s. inherit s r) r settings = r\<lparr>
     ss_GitHubRepoID := (if ss_GitHubRepoID r \<noteq> None then ss_GitHubRepoID r
       else Option.bind (nearest ss_GitHubRepoID settings) ss_GitHubRepoID),
     ss_BaseBranch := (if ss_GitHubRepoID r \<noteq> None \<or> nearest ss_GitHubRepoID settings = None then ss_BaseBranch r
       else Option.bind (nearest ss_GitHubRepoID settings) ss_BaseBranch),
     ss_EnvironmentID := (if ss_EnvironmentID r \<noteq> None then ss_EnvironmentID r
       else Option.bind (nearest ss_EnvironmentID settings) ss_EnvironmentID)\<rparr>"
proof (induction settings arbitrary: r)
  case Nil
  then show ?case by (auto simp: nearest_def)
next
  case (Cons s settings)
  show ?case unfolding foldl_Cons Cons.IH
    by (cases "ss_GitHubRepoID r"; cases "ss_EnvironmentID r"; cases "ss_GitHubRepoID s";
        cases "ss_EnvironmentID s"; simp add: inherit_def nearest_def)
qed

definition nearest_first :: "Issue option \<Rightarrow> Project option \<Rightarrow> scope list" where
  "nearest_first issue project = (case (issue, project) of
     (Some i, _) \<Rightarrow> (case iss_ProjectID i of
         Some p \<Rightarrow> [(None, None, Some (ow_ID i)), (None, Some p, None), (Some (iss_TeamID i), None, None),
           (None, None, None)]
       | None \<Rightarrow> [(None, None, Some (ow_ID i)), (Some (iss_TeamID i), None, None), (None, None, None)])
   | (None, Some p) \<Rightarrow> (case pj_TeamID p of
         Some t \<Rightarrow> [(None, Some (ow_ID p), None), (Some t, None, None), (None, None, None)]
       | None \<Rightarrow> [(None, Some (ow_ID p), None), (None, None, None)])
   | (None, None) \<Rightarrow> [(None, None, None)])"

text \<open>
  (C19) Settings are inherited. For an issue the issue's own setting is looked at first, then its
  project's, its team's and the workspace's; for a project the project's, its team's and the
  workspace's. The first setting with a repository gives the repository together with its base
  branch, the first with an environment gives the environment, whatever the loop skips, and the
  database is only read.
\<close>

theorem settings_are_inherited:
  assumes "w_script w = []"
  shows "\<exists>w'. resolveDevelopmentSetting workspaceID issue project w = (Inr (inherited_setting workspaceID
        (scope_settings workspaceID (nearest_first issue project) (w_db w))), w') \<and> w_db w' = w_db w"
proof -
  have "setting_scopes issue project = nearest_first issue project"
    by (simp add: setting_scopes_def nearest_first_def split: option.split)
  moreover have "foldl (\<lambda>r s. inherit s r) (empty_setting workspaceID (None, None, None)) settings
      = inherited_setting workspaceID settings" for settings
    by (auto simp: foldl_inherit inherited_setting_def empty_setting_def)
  ultimately show ?thesis
    using resolve_scopes_alone [OF assms, of workspaceID "setting_scopes issue project"
        "empty_setting workspaceID (None, None, None)"]
    unfolding resolveDevelopmentSetting_def by metis
qed

definition project0 :: Project where
  "project0 = \<lparr>ow_ID = 3, ow_WorkspaceID = 1, pj_TeamID = None, pj_Name = ''p'', pj_Description = None,
     pj_Status = ''started'', pj_LeadID = None, pj_StartDate = None, pj_TargetDate = None, pj_SortOrder = 0,
     pj_CreatedAt = 0, pj_UpdatedAt = 0\<rparr>"

definition project_setting :: DevMachineScopeSetting where
  "project_setting = (empty_setting 1 (None, Some 3, None))\<lparr>ss_ID := 1, ss_GitHubRepoID := Some 9,
     ss_BaseBranch := Some ''main''\<rparr>"

definition workspace_setting :: DevMachineScopeSetting where
  "workspace_setting = (empty_setting 1 (None, None, None))\<lparr>ss_ID := 2, ss_GitHubRepoID := Some 8,
     ss_BaseBranch := Some ''trunk'', ss_EnvironmentID := Some 5\<rparr>"

theorem settings_are_inherited_witness:
  "\<exists>w'. resolveDevelopmentSetting 1 None (Some project0)
      (world0 (db0\<lparr>db_settings := [workspace_setting, project_setting]\<rparr>) [])
    = (Inr ((empty_setting 1 (None, None, None))\<lparr>ss_GitHubRepoID := Some 9, ss_BaseBranch := Some ''main'',
        ss_EnvironmentID := Some 5\<rparr>), w')"
proof -
  let ?w = "world0 (db0\<lparr>db_settings := [workspace_setting, project_setting]\<rparr>) []"
  have "inherited_setting 1 (scope_settings 1 (nearest_first None (Some project0)) (w_db ?w))
      = (empty_setting 1 (None, None, None))\<lparr>ss_GitHubRepoID := Some 9, ss_BaseBranch := Some ''main'',
        ss_EnvironmentID := Some 5\<rparr>"
    by (simp add: world0_def db0_def workspace_setting_def project_setting_def empty_setting_def nearest_first_def
        project0_def scope_settings_def GetScopeSetting_def has_scope_key_def inherited_setting_def nearest_def)
  moreover have "w_script ?w = []" by (simp add: world0_def)
  ultimately show ?thesis using settings_are_inherited [of ?w 1 None "Some project0"] by metis
qed

section \<open>Policies\<close>

interpretation saved_policy: keyed_update wp_WorkspaceID "upsert_policy_row now policy" for now policy
  by unfold_locales (simp add: upsert_policy_row_def)

lemma UpsertPolicy_saved:
  assumes "UpsertPolicy now policy d = Inr (p, d')"
  shows "GetPolicy (wp_WorkspaceID policy) d' = Some p"
    and "\<exists>created. p = policy\<lparr>wp_CreatedAt := created, wp_UpdatedAt := now\<rparr>"
proof (atomize (full), cases "GetPolicy (wp_WorkspaceID policy) d")
  case None
  with assms show "GetPolicy (wp_WorkspaceID policy) d' = Some p
      \<and> (\<exists>created. p = policy\<lparr>wp_CreatedAt := created, wp_UpdatedAt := now\<rparr>)"
    by (auto simp: UpsertPolicy_def GetPolicy_def find_append Let_def split: if_splits)
next
  case (Some old)
  then have "wp_WorkspaceID old = wp_WorkspaceID policy" by (auto simp: GetPolicy_def dest: find_SomeD)
  with assms Some show "GetPolicy (wp_WorkspaceID policy) d' = Some p
      \<and> (\<exists>created. p = policy\<lparr>wp_CreatedAt := created, wp_UpdatedAt := now\<rparr>)"
    by (auto simp: UpsertPolicy_def GetPolicy_def saved_policy.find_key upsert_policy_row_def split: if_splits)
qed

lemma allowed_lists:
  assumes "\<forall>x \<in> set xs. valid_utf8 x"
  shows "providerAllowed (Marshal_slice (Some xs)) p \<longleftrightarrow> p \<in> set xs"
    and "repositoryAllowed equal_fold (Marshal_slice (Some xs)) r \<longleftrightarrow> xs = [] \<or> (\<exists>x \<in> set xs. equal_fold x r)"
  using assms by (auto simp: providerAllowed_def repositoryAllowed_def Marshal_slice_def
      Unmarshal_Marshal_strings list_ex_iff)

text \<open>
  A policy round trip. After \<open>UpdatePolicy\<close> succeeded, \<open>GetPolicy\<close> returns the limits of the
  request, the idle pause being 240 minutes when the request left it zero; the stored JSON allows
  exactly the providers the request listed, and exactly its repositories (case folded), or every
  repository when it listed none.
\<close>

theorem policy_round_trip:
  assumes "w_script w = []" and "UpdatePolicy workspaceID req w = (Inr p, w')"
    and "po_AllowedProviders req = Some ps" and "\<forall>x \<in> set ps. valid_utf8 x"
    and "po_AllowedRepositories req = Some rs" and "\<forall>x \<in> set rs. valid_utf8 x"
  shows "\<exists>q w''. service_GetPolicy workspaceID w' = (Inr q, w'') \<and> wp_Enabled q = po_Enabled req
    \<and> wp_MaxConcurrentMachines q = po_MaxConcurrentMachines req
    \<and> wp_MaxMachinesPerUser q = po_MaxMachinesPerUser req \<and> wp_MaxDailyAgentRuns q = po_MaxDailyAgentRuns req
    \<and> wp_MaxRuntimeMinutes q = po_MaxRuntimeMinutes req \<and> wp_MaxDiskGB q = po_MaxDiskGB req
    \<and> wp_AllowCustomProviders q = po_AllowCustomProviders req
    \<and> wp_IdlePauseMinutes q = (if po_IdlePauseMinutes req = 0 then 240 else po_IdlePauseMinutes req)
    \<and> (\<forall>x. providerAllowed (wp_AllowedProviders q) x \<longleftrightarrow> x \<in> set ps)
    \<and> (\<forall>x. repositoryAllowed (equal_fold) (wp_AllowedRepositories q) x
          \<longleftrightarrow> rs = [] \<or> (\<exists>r \<in> set rs. equal_fold r x))"
proof -
  let ?policy = "requested_policy workspaceID req"
  from assms(1,2) obtain d where d: "UpsertPolicy (w_now w) ?policy (w_db w) = Inr (p, d)"
    and w': "w' = (tick w)\<lparr>w_db := d\<rparr>"
    by (auto simp: UpdatePolicy_def store_alone)
  have "GetPolicy workspaceID d = Some p"
    using UpsertPolicy_saved(1) [OF d] by (simp add: requested_policy_def)
  then have "service_GetPolicy workspaceID w' = (Inr p, tick w')"
    using w' assms(1) by (simp add: service_GetPolicy_def bindA_def alone_simps present_def returnA_def)
  moreover obtain created where "p = ?policy\<lparr>wp_CreatedAt := created, wp_UpdatedAt := w_now w\<rparr>"
    using UpsertPolicy_saved(2) [OF d] by blast
  moreover have "wp_AllowedProviders ?policy = Marshal_slice (Some ps)"
    "wp_AllowedRepositories ?policy = Marshal_slice (Some rs)"
    using assms(3,5) by (simp_all add: requested_policy_def)
  ultimately show ?thesis
    by (simp add: allowed_lists [OF assms(4)] allowed_lists [OF assms(6)] requested_policy_def)
qed

definition policy_request :: DevMachinePolicyRequest where
  "policy_request = \<lparr>po_Enabled = True, po_MaxConcurrentMachines = 5, po_MaxMachinesPerUser = 2,
     po_MaxDailyAgentRuns = 25, po_MaxRuntimeMinutes = 480, po_MaxDiskGB = 100,
     po_AllowedProviders = Some [''codex''], po_AllowedRepositories = Some [], po_AllowCustomProviders = False,
     po_IdlePauseMinutes = 0\<rparr>"

theorem policy_round_trip_witness:
  "\<exists>p w'. UpdatePolicy 1 policy_request (world0 db0 []) = (Inr p, w')
    \<and> (\<exists>q w''. service_GetPolicy 1 w' = (Inr q, w'') \<and> wp_Enabled q \<and> wp_IdlePauseMinutes q = 240
      \<and> providerAllowed (wp_AllowedProviders q) ''codex'' \<and> \<not> providerAllowed (wp_AllowedProviders q) ''opencode'')"
proof -
  have "w_script (world0 db0 []) = []" by (simp add: world0_def)
  then obtain p w' where update: "UpdatePolicy 1 policy_request (world0 db0 []) = (Inr p, w')"
    by (simp add: UpdatePolicy_def storeA_alone UpsertPolicy_def GetPolicy_def world0_def db0_def
        policy_row_ok_def requested_policy_def policy_request_def Let_def)
  have "\<forall>x \<in> set [''codex'']. valid_utf8 x" by code_simp
  with policy_round_trip [OF \<open>w_script (world0 db0 []) = []\<close> update, of "[''codex'']" "[]" "(=)"]
  obtain q w'' where "service_GetPolicy 1 w' = (Inr q, w'')" "wp_Enabled q" "wp_IdlePauseMinutes q = 240"
      "\<forall>x. providerAllowed (wp_AllowedProviders q) x \<longleftrightarrow> x \<in> set [''codex'']"
    by (auto simp: policy_request_def)
  with update show ?thesis by auto
qed

end
