(* ===== verification/Outsider_Properties.thy ===== *)
theory Outsider_Properties
  imports Service_Rules Manager_Logic Manager_Samples Setting_Properties
begin

text \<open>
  Machines are private to their creators: an operation of the machine service for a user who is not
  the creator fails and writes nothing, whatever the other users of the database do meanwhile.
\<close>

section \<open>Worlds that others write\<close>

text \<open>
  The databases a world passes through when only its script writes; \<open>undisturbed w w'\<close> says that
  \<open>w'\<close> is \<open>w\<close> after some steps of its script.
\<close>

definition passed :: "nat \<Rightarrow> world \<Rightarrow> db" where
  "passed n w = fold (\<lambda>(dt, f, fault) d. f d) (take n (w_script w)) (w_db w)"

definition undisturbed :: "world \<Rightarrow> world \<Rightarrow> bool" where
  "undisturbed w w' \<longleftrightarrow> (\<exists>n \<le> length (w_script w). w_script w' = drop n (w_script w) \<and> w_db w' = passed n w
     \<and> w_calls w' = w_calls w)"

lemma undisturbed_same:
  "w_script w' = w_script w \<Longrightarrow> w_db w' = w_db w \<Longrightarrow> w_calls w' = w_calls w \<Longrightarrow> undisturbed w w'"
  unfolding undisturbed_def passed_def by (rule exI [of _ 0]) simp

lemma passed_later:
  assumes "w_script v = drop n (w_script w)" and "w_db v = passed n w"
  shows "passed m v = passed (n + m) w"
  using assms by (simp add: passed_def take_add)

interpretation watched: world_relation undisturbed
proof
  fix u v w :: world
  show "undisturbed w w" by (simp add: undisturbed_same)
  assume "undisturbed u v" and "undisturbed v w"
  then obtain n m where "n \<le> length (w_script u)" "w_script v = drop n (w_script u)" "w_db v = passed n u"
    "m \<le> length (w_script v)" "w_script w = drop m (w_script v)" "w_db w = passed m v"
    "w_calls v = w_calls u" "w_calls w = w_calls v"
    by (auto simp: undisturbed_def)
  then show "undisturbed u w" unfolding undisturbed_def
    by (intro exI [of _ "n + m"]) (simp add: passed_later add.commute)
qed

text \<open>A call of the store that writes nothing lets at most one step of the script pass.\<close>

lemma before_call_undisturbed: "undisturbed w (snd (before_call w))"
proof (cases "w_script w")
  case Nil
  then show ?thesis by (simp add: before_call_def Let_def undisturbed_same)
next
  case (Cons s rest)
  obtain dt f fault where "s = (dt, f, fault)" by (cases s)
  with Cons show ?thesis unfolding undisturbed_def passed_def before_call_def Let_def
    by (intro exI [of _ 1]) simp
qed

section \<open>Users who do not see a machine\<close>

definition hidden :: "uuid \<Rightarrow> uuid \<Rightarrow> uuid \<Rightarrow> db \<Rightarrow> bool" where
  "hidden workspaceID machineID userID d \<longleftrightarrow> GetMachineForUser workspaceID machineID userID d = None"

definition outsider :: "uuid \<Rightarrow> uuid \<Rightarrow> uuid \<Rightarrow> world \<Rightarrow> bool" where
  "outsider workspaceID machineID userID w \<longleftrightarrow>
     (\<forall>n \<le> length (w_script w). hidden workspaceID machineID userID (passed n w))"

lemma outsider_later: "outsider i j u w \<Longrightarrow> undisturbed w w' \<Longrightarrow> outsider i j u w'"
  by (auto simp: outsider_def undisturbed_def passed_later)

lemma outsider_hidden: "outsider i j u w \<Longrightarrow> hidden i j u (w_db w)"
  unfolding outsider_def passed_def by (drule spec [of _ 0]) simp

text \<open>
  \<open>passes\<close>: an outsider's action that at most reads; \<open>denied\<close>: one that fails besides.
\<close>

definition passes :: "uuid \<Rightarrow> uuid \<Rightarrow> uuid \<Rightarrow> 'a act \<Rightarrow> bool" where
  "passes i j u a \<longleftrightarrow> (\<forall>w. outsider i j u w \<longrightarrow> undisturbed w (snd (a w)))"

definition refused :: "world \<Rightarrow> 'a act \<Rightarrow> bool" where
  "refused w a \<longleftrightarrow> undisturbed w (snd (a w)) \<and> (\<exists>e. fst (a w) = Inl e)"

definition denied :: "uuid \<Rightarrow> uuid \<Rightarrow> uuid \<Rightarrow> 'a act \<Rightarrow> bool" where
  "denied i j u a \<longleftrightarrow> (\<forall>w. outsider i j u w \<longrightarrow> refused w a)"

named_theorems outside \<open>what an outsider's actions do\<close>

lemma denied_passes: "denied i j u a \<Longrightarrow> passes i j u a"
  by (simp add: denied_def refused_def passes_def)

lemma denied_fail [outside]: "denied i j u (raise e)" "denied i j u (refuse e s)" "denied i j u (failA er)"
  by (simp_all add: denied_def refused_def raise_def refuse_def failA_def undisturbed_same)

lemma passes_return [outside]: "passes i j u (returnA x)"
  by (simp add: passes_def returnA_def undisturbed_same)

lemma passes_now [outside]: "passes i j u nowA"
  by (simp add: passes_def nowA_def getA_def undisturbed_same)

lemma denied_bind [outside]: "denied i j u a \<Longrightarrow> denied i j u (bindA a k)"
  unfolding denied_def refused_def bindA_def by (force split: prod.splits sum.splits)

lemma denied_after:
  assumes "passes i j u a" and "\<And>x. denied i j u (k x)"
  shows "denied i j u (bindA a k)"
  unfolding denied_def refused_def
proof (intro allI impI)
  fix w assume w: "outsider i j u w"
  obtain r v where a: "a w = (r, v)" by (cases "a w")
  with assms(1) w have v: "undisturbed w v" by (auto simp: passes_def)
  show "undisturbed w (snd (bindA a k w)) \<and> (\<exists>e. fst (bindA a k w) = Inl e)"
  proof (cases r)
    case (Inl e)
    with a v show ?thesis by (simp add: bindA_def)
  next
    case (Inr x)
    have "undisturbed v (snd (k x v)) \<and> (\<exists>e. fst (k x v) = Inl e)"
      using assms(2) outsider_later [OF w v] by (simp add: denied_def refused_def)
    with a v Inr show ?thesis by (auto simp: bindA_def intro: watched.trans)
  qed
qed

lemma passes_bind:
  assumes "passes i j u a" and "\<And>x. passes i j u (k x)"
  shows "passes i j u (bindA a k)"
  unfolding passes_def
proof (intro allI impI)
  fix w assume w: "outsider i j u w"
  obtain r v where a: "a w = (r, v)" by (cases "a w")
  with assms(1) w have v: "undisturbed w v" by (auto simp: passes_def)
  then show "undisturbed w (snd (bindA a k w))"
    using a assms(2) outsider_later [OF w v] unfolding passes_def bindA_def
    by (auto split: sum.split intro: watched.trans)
qed

lemma passes_store:
  assumes "\<And>now fresh seq d x d'. hidden i j u d \<Longrightarrow> f now fresh seq d = Inr (x, d') \<Longrightarrow> d' = d"
  shows "passes i j u (storeA f)"
  unfolding passes_def
proof (intro allI impI)
  fix w assume w: "outsider i j u w"
  obtain fault v where v: "before_call w = (fault, v)" by (cases "before_call w")
  then have moved: "undisturbed w v" using before_call_undisturbed [of w] by simp
  with w have "hidden i j u (w_db v)" by (blast intro: outsider_hidden outsider_later)
  with assms have "d' = w_db v" if "f (w_now v) (w_fresh w) (w_seq w) (w_db v) = Inr (x, d')" for x d'
    using that by blast
  with moved v show "undisturbed w (snd (storeA f w))"
    by (auto simp: storeA_def split: option.split sum.split)
qed

lemma passes_read [outside]: "passes i j u (readA f)"
  unfolding readA_def by (rule passes_store) simp

text \<open>A call that finds nothing, where nothing is an error.\<close>

lemma denied_missing:
  assumes "\<And>now fresh seq d x d'. hidden i j u d \<Longrightarrow> f now fresh seq d = Inr (x, d') \<Longrightarrow> d' = d \<and> x = None"
  shows "denied i j u (bindA (translate h (storeA f)) (present (raise e)))"
proof -
  have pass: "undisturbed w (snd (storeA f w))" if "outsider i j u w" for w
    using that passes_store [of i j u f] assms unfolding passes_def by blast
  have none: "x = None" if w: "outsider i j u w" and st: "storeA f w = (Inr x, w')" for w x w'
  proof -
    obtain v where v: "before_call w = (None, v)" and f: "\<exists>d'. f (w_now v) (w_fresh w) (w_seq w) (w_db v) = Inr (x, d')"
      using st by (auto simp: storeA_def split: prod.splits option.splits sum.splits)
    have "hidden i j u (w_db v)"
      using v w before_call_undisturbed [of w] by (auto intro: outsider_hidden outsider_later)
    with f assms show "x = None" by blast
  qed
  show ?thesis unfolding denied_def refused_def
  proof (intro allI impI)
    fix w assume w: "outsider i j u w"
    obtain r v where r: "storeA f w = (r, v)" by (cases "storeA f w")
    show "undisturbed w (snd (bindA (translate h (storeA f)) (present (raise e)) w))
        \<and> (\<exists>er. fst (bindA (translate h (storeA f)) (present (raise e)) w) = Inl er)"
      using pass [OF w] none [OF w, of _ v] r
      by (cases r) (simp_all add: bindA_def translate_def present_def raise_def failA_def)
  qed
qed

section \<open>The operations of the service\<close>

lemma translate_id: "translate (\<lambda>e. e) a = a"
  by (auto simp: translate_def fun_eq_iff split: prod.split sum.split)

lemma denied_GetForUser [outside]: "denied i j u (GetForUser i j u)"
proof -
  have "denied i j u (bindA (translate (\<lambda>e. e) (storeA (\<lambda>now fresh seq d. Inr (GetMachineForUser i j u d, d))))
      (present (raise ErrMachineNotFound)))"
    by (rule denied_missing) (auto simp: hidden_def)
  then show ?thesis by (simp add: GetForUser_def readA_def translate_id)
qed

lemma denied_Update: "denied i j u (Update i j u k)"
  unfolding Update_def
proof (rule denied_missing)
  fix now fresh seq d x d'
  assume d: "hidden i j u d" and "UpdateMachinePreferencesForUser now i j u k d = Inr (x, d')"
  moreover have "find (accepts_preferences i j (Some u)) (db_machines d) = None"
    using d by (auto simp: hidden_def GetMachineForUser_def accepts_preferences_def find_None_all)
  ultimately show "d' = d \<and> x = None"
    by (simp add: hidden_def UpdateMachinePreferencesForUser_def updateMachinePreferences_def Let_def)
qed

lemma passes_enabledPolicy [outside]: "passes i j u (enabledPolicy S ws)"
proof -
  have "passes i j u (case p of None \<Rightarrow> raise ErrDevMachinesDisabled
      | Some p \<Rightarrow> if wp_Enabled p then returnA p else raise ErrDevMachinesDisabled)" for p
    by (simp add: outside denied_passes split: option.split)
  then have "passes i j u (bindA (readA (\<lambda>now. GetPolicy ws)) (\<lambda>policy. case policy of
          None \<Rightarrow> raise ErrDevMachinesDisabled
        | Some p \<Rightarrow> if wp_Enabled p then returnA p else raise ErrDevMachinesDisabled))"
    by (rule passes_bind [OF passes_read])
  then show ?thesis unfolding enabledPolicy_def by (simp add: outside denied_passes)
qed

lemma passes_check_push [outside]: "passes i j u (check_push req)"
  by (simp add: check_push_def outside denied_passes)

lemma denied_then [outside]: "denied i j u a \<Longrightarrow> denied i j u (thenA a b)"
  by (simp add: thenA_def outside)

lemma denied_delete [outside]: "denied i j u (requestPermanentDelete S i j u)"
  by (simp add: requestPermanentDelete_def outside)

lemma denied_after_policy [outside]:
  "(\<And>p. denied i j u (k p)) \<Longrightarrow> denied i j u (bindA (enabledPolicy S ws) k)"
  by (rule denied_after) (simp_all add: outside)

lemma denied_run: "denied i j u (service_CreateAgentRun S i j u req)"
  unfolding service_CreateAgentRun_def thenA_def [of "check_push req"]
  by (rule denied_after) (simp_all add: outside)

lemma denied_refused: "denied i j u a \<Longrightarrow> outsider i j u w \<Longrightarrow> refused w a"
  by (simp add: denied_def)

lemma denied_operations:
  "denied i j u (Lifecycle S i j u action key)"
  "denied i j u (Delete S i j u)"
  "denied i j u (PermanentDelete S i j u)"
  "denied i j u (TouchActivity i j u)"
  "denied i j u (service_ListServices S i j u)"
  "denied i j u (ConfiguredProviders S i j u)"
  "denied i j u (CheckoutIssue S i j u raw)"
  "denied i j u (service_ListCheckouts i j u)"
  "fst (ms_uuid_Parse S (ce_SourceMachineID request)) = j \<Longrightarrow> denied i j u (SnapshotEnvironment S i u request)"
  "denied i j u (LaunchService S i j u service checkout)"
  "denied i j u (service_CreateTerminalSession S i j u terminal)"
  "denied i j u (service_ListTerminalSessions i j u)"
  "denied i j u (CloseTerminalSession i j u session)"
  "denied i j u (service_ListEvents i j u after limit)"
  "denied i j u (service_ListLogs i j u run after limit)"
  "denied i j u (service_ListResourceSamples i j u limit)"
  by (simp_all add: Lifecycle_def Delete_def PermanentDelete_def TouchActivity_def service_ListServices_def
      ConfiguredProviders_def CheckoutIssue_def service_ListCheckouts_def SnapshotEnvironment_def LaunchService_def
      service_CreateTerminalSession_def service_ListTerminalSessions_def CloseTerminalSession_def
      service_ListEvents_def service_ListLogs_def service_ListResourceSamples_def Let_def outside)

text \<open>A run belongs to the machine at every step of the interference. Who does not see the machine does not see the run.\<close>

definition run_belongs :: "uuid \<Rightarrow> uuid \<Rightarrow> world \<Rightarrow> bool" where
  "run_belongs runID machineID w \<longleftrightarrow> (\<forall>n \<le> length (w_script w).
     \<forall>r \<in> set (db_runs (passed n w)). ar_ID r = runID \<longrightarrow> ar_MachineID r = machineID)"

lemma hidden_run:
  assumes "hidden i j u d" and "\<And>r. r \<in> set (db_runs d) \<Longrightarrow> ar_ID r = runID \<Longrightarrow> ar_MachineID r = j"
  shows "GetAgentRunForUser i runID u d = None"
  unfolding GetAgentRunForUser_def find_None_all
proof
  fix r assume r: "r \<in> set (db_runs d)"
  have "\<not> exists_where (\<lambda>m. is_machine i j m \<and> m_CreatedByUserID m = Some u) (db_machines d)"
    using assms(1) by (auto simp: hidden_def GetMachineForUser_def find_None_all exists_where_def list_ex_iff)
  then show "\<not> (run_of_user i u d r \<and> ar_ID r = runID)"
    using assms(2) [OF r] by (auto simp: run_of_user_def)
qed

lemma refused_bind: "refused w a \<Longrightarrow> refused w (bindA a k)"
  unfolding refused_def bindA_def by (force split: prod.splits sum.splits)

lemma refused_run:
  assumes "outsider i j u w" and "run_belongs runID j w"
  shows "refused w (service_GetAgentRun i runID u)"
proof -
  obtain fault v where b: "before_call w = (fault, v)" by (cases "before_call w")
  then have v: "undisturbed w v" using before_call_undisturbed [of w] by simp
  then obtain n where "n \<le> length (w_script w)" "w_db v = passed n w" by (auto simp: undisturbed_def)
  with assms have "GetAgentRunForUser i runID u (w_db v) = None"
    by (intro hidden_run [where j = j]) (auto simp: outsider_def run_belongs_def)
  then show ?thesis using b v
    by (auto simp: refused_def service_GetAgentRun_def readA_def storeA_def bindA_def present_def raise_def failA_def
        split: option.split)
qed

lemma refused_runs:
  assumes "outsider i j u w" and "run_belongs runID j w"
  shows "refused w (service_GetAgentRun i runID u)" "refused w (service_CancelAgentRun i runID u)"
    "refused w (GetAgentRunTrace i runID u params)"
  using refused_run [OF assms] by (simp_all add: service_CancelAgentRun_def GetAgentRunTrace_def refused_bind)

text \<open>A deletion in bulk that names only the machine accepts nothing.\<close>

lemma parsed_ids:
  assumes "\<forall>raw \<in> set raws. fst (ms_uuid_Parse S raw) = j"
  shows "case parse_ids S raws w of (Inl e, w') \<Rightarrow> undisturbed w w'
    | (Inr is, w') \<Rightarrow> undisturbed w w' \<and> set is \<subseteq> {j}"
  using assms
proof (induction raws arbitrary: w)
  case Nil
  show ?case by (simp add: returnA_def undisturbed_same)
next
  case (Cons raw raws)
  show ?case
  proof (cases "parse_id S raw ''invalid machine id'' w")
    case (Pair r v)
    then have v: "v = w" and r: "\<And>x. r = Inr x \<Longrightarrow> x = j"
      using Cons.prems by (auto simp: parse_id_def refuse_def failA_def returnA_def split: if_splits prod.splits option.splits)
    have rest: "case parse_ids S raws w of (Inl e, w') \<Rightarrow> undisturbed w w'
        | (Inr is, w') \<Rightarrow> undisturbed w w' \<and> set is \<subseteq> {j}"
      using Cons by simp
    show ?thesis
      using Pair v r rest
      by (auto simp: bindA_def returnA_def undisturbed_same split: prod.splits sum.splits)
  qed
qed

lemma delete_all_denied:
  assumes "outsider i j u w" and "set is \<subseteq> {j}" and "bd_Count response = 0"
  shows "undisturbed w (snd (delete_all S i u response is w))
    \<and> (\<forall>x. fst (delete_all S i u response is w) = Inr x \<longrightarrow> bd_Count x = 0)"
  using assms
proof (induction "is" arbitrary: w response)
  case Nil
  then show ?case by (simp add: returnA_def undisturbed_same)
next
  case (Cons k ks)
  then have k: "k = j" by simp
  have "refused w (Delete S i j u)" using denied_operations(2) Cons.prems(1) by (rule denied_refused)
  then obtain e v where d: "Delete S i j u w = (Inl e, v)" and v: "undisturbed w v"
    unfolding refused_def by (metis prod.collapse snd_conv)
  have rest: "undisturbed v (snd (delete_all S i u r ks v))
      \<and> (\<forall>x. fst (delete_all S i u r ks v) = Inr x \<longrightarrow> bd_Count x = 0)" if "bd_Count r = 0" for r
    using Cons.prems that by (intro Cons.IH outsider_later [OF _ v]) auto
  show ?case
    using rest [of "response\<lparr>bd_Results := bd_Results response @ [delete_result j e]\<rparr>"] Cons.prems(3) d v k
    by (auto simp: bindA_def attempt_def failA_def intro: watched.trans)
qed

lemma bulk_denied:
  assumes "outsider i j u w" and "\<forall>raw \<in> set raws. fst (ms_uuid_Parse S raw) = j"
  shows "undisturbed w (snd (BulkDelete S i u raws w))
    \<and> (\<forall>x. fst (BulkDelete S i u raws w) = Inr x \<longrightarrow> bd_Count x = 0)"
proof (cases "parse_ids S raws w")
  case (Pair r v)
  have once: "set (first_occurrences seen is) \<subseteq> set is" for seen "is"
    by (induction "is" arbitrary: seen) auto
  show ?thesis
  proof (cases "length raws = 0")
    case True
    then show ?thesis by (simp add: BulkDelete_def refuse_def failA_def undisturbed_same)
  next
    case False
    show ?thesis
    proof (cases r)
      case (Inl e)
      then show ?thesis using parsed_ids [OF assms(2), of w] Pair False by (simp add: BulkDelete_def bindA_def)
    next
      case (Inr js)
      with parsed_ids [OF assms(2), of w] Pair have v: "undisturbed w v" and "set js \<subseteq> {j}" by auto
      then have js: "set (first_occurrences [] js) \<subseteq> {j}" using once by blast
      have "undisturbed v (snd (delete_all S i u r' (first_occurrences [] js) v))
          \<and> (\<forall>x. fst (delete_all S i u r' (first_occurrences [] js) v) = Inr x \<longrightarrow> bd_Count x = 0)"
        if "bd_Count r' = 0" for r'
        using outsider_later [OF assms(1) v] js that by (rule delete_all_denied)
      from this [of "\<lparr>bd_Count = 0, bd_Requested = length (first_occurrences [] js), bd_Results = []\<rparr>"]
      have "undisturbed v (snd (delete_all S i u \<lparr>bd_Count = 0,
            bd_Requested = length (first_occurrences [] js), bd_Results = []\<rparr> (first_occurrences [] js) v))"
        and "\<forall>x. fst (delete_all S i u \<lparr>bd_Count = 0,
            bd_Requested = length (first_occurrences [] js), bd_Results = []\<rparr> (first_occurrences [] js) v) = Inr x
              \<longrightarrow> bd_Count x = 0"
        by simp_all
      then show ?thesis using v Inr Pair False
        by (auto simp: BulkDelete_def bindA_def Let_def intro: watched.trans)
    qed
  qed
qed

lemma denied_runs_list: "denied i j u (service_ListAgentRuns i u (Some j) page perPage)"
  by (simp add: service_ListAgentRuns_def Let_def outside)

text \<open>
  (C14) Machines are private. For a user who at no step of the interference is the creator of the
  machine in the workspace, every operation of the service that acts for a user on the machine fails, and the database
  ends as the interference alone leaves it: reading the machine, its services, providers, checkouts, terminals,
  runs, events, logs and samples, lifecycle requests, activity, preferences, deletion, checkouts, environments, agent
  runs, launches and terminals. The same holds of reading, cancelling and tracing a run that belongs to the machine, and
  a deletion in bulk that names the machine alone accepts nothing and changes nothing. \<open>BulkPermanentDelete\<close>, which
  administrators use to purge destroyed machines, and the operations of the workspace (its policy, its settings, its
  environments) take no account of creators and are no part of this statement.
\<close>

theorem outsider_is_denied:
  assumes "outsider workspaceID machineID userID w"
  shows "refused w (GetForUser workspaceID machineID userID)
    \<and> refused w (Lifecycle S workspaceID machineID userID action key)
    \<and> refused w (Delete S workspaceID machineID userID)
    \<and> refused w (PermanentDelete S workspaceID machineID userID)
    \<and> ((\<forall>raw \<in> set raws. fst (ms_uuid_Parse S raw) = machineID) \<longrightarrow>
         undisturbed w (snd (BulkDelete S workspaceID userID raws w))
         \<and> (\<forall>response. fst (BulkDelete S workspaceID userID raws w) = Inr response \<longrightarrow> bd_Count response = 0))
    \<and> refused w (Update workspaceID machineID userID keepRunning)
    \<and> refused w (TouchActivity workspaceID machineID userID)
    \<and> refused w (service_ListServices S workspaceID machineID userID)
    \<and> refused w (ConfiguredProviders S workspaceID machineID userID)
    \<and> refused w (CheckoutIssue S workspaceID machineID userID rawIssueID)
    \<and> refused w (service_ListCheckouts workspaceID machineID userID)
    \<and> (fst (ms_uuid_Parse S (ce_SourceMachineID request)) = machineID \<longrightarrow>
         refused w (SnapshotEnvironment S workspaceID userID request))
    \<and> refused w (service_CreateAgentRun S workspaceID machineID userID runRequest)
    \<and> refused w (service_ListAgentRuns workspaceID userID (Some machineID) page perPage)
    \<and> (run_belongs runID machineID w \<longrightarrow>
         refused w (service_GetAgentRun workspaceID runID userID)
         \<and> refused w (service_CancelAgentRun workspaceID runID userID)
         \<and> refused w (GetAgentRunTrace workspaceID runID userID traceParams))
    \<and> refused w (LaunchService S workspaceID machineID userID serviceKey checkoutID)
    \<and> refused w (service_CreateTerminalSession S workspaceID machineID userID terminalRequest)
    \<and> refused w (service_ListTerminalSessions workspaceID machineID userID)
    \<and> refused w (CloseTerminalSession workspaceID machineID userID sessionID)
    \<and> refused w (service_ListEvents workspaceID machineID userID afterID limit)
    \<and> refused w (service_ListLogs workspaceID machineID userID logRunID afterID limit)
    \<and> refused w (service_ListResourceSamples workspaceID machineID userID limit)"
proof -
  have bulk: "(\<forall>raw \<in> set raws. fst (ms_uuid_Parse S raw) = machineID) \<longrightarrow>
      undisturbed w (snd (BulkDelete S workspaceID userID raws w))
      \<and> (\<forall>response. fst (BulkDelete S workspaceID userID raws w) = Inr response \<longrightarrow> bd_Count response = 0)"
    using bulk_denied [OF assms] by blast
  have runs: "run_belongs runID machineID w \<longrightarrow>
      refused w (service_GetAgentRun workspaceID runID userID)
      \<and> refused w (service_CancelAgentRun workspaceID runID userID)
      \<and> refused w (GetAgentRunTrace workspaceID runID userID traceParams)"
    using refused_runs [OF assms] by blast
  have snapshot: "fst (ms_uuid_Parse S (ce_SourceMachineID request)) = machineID \<longrightarrow>
      refused w (SnapshotEnvironment S workspaceID userID request)"
    by (intro impI denied_refused [OF _ assms] denied_operations)
  note denied = denied_GetForUser denied_Update denied_run denied_runs_list denied_operations
  show ?thesis
    by (intro conjI bulk runs snapshot) (rule denied_refused [OF _ assms], rule denied)+
qed

text \<open>A colleague of the creator, while the creator's machine stops between the calls.\<close>

theorem outsider_is_denied_witness:
  "refused (world0 (db0\<lparr>db_machines := [machine0], db_policies := [policy0]\<rparr>)
      [(seconds 1, \<lambda>d. d\<lparr>db_machines := [machine0\<lparr>m_Status := StatusStopped\<rparr>]\<rparr>, None)])
    (LaunchService machines0 1 1 8 ''ide'' None)"
proof -
  let ?w = "world0 (db0\<lparr>db_machines := [machine0], db_policies := [policy0]\<rparr>)
      [(seconds 1, \<lambda>d. d\<lparr>db_machines := [machine0\<lparr>m_Status := StatusStopped\<rparr>]\<rparr>, None)]"
  have "outsider 1 1 8 ?w"
    by (auto simp: outsider_def hidden_def passed_def GetMachineForUser_def is_machine_def world0_def machine0_def
        db0_def le_Suc_eq)
  from outsider_is_denied [OF this] show ?thesis by blast
qed

end
