(* ===== verification/Text_Rules.thy ===== *)
theory Text_Rules
  imports Service_Text
begin

text \<open>
  Lemmas on the text functions: the runes of ASCII text, substrings, and what \<open>ReplaceAll\<close> leaves of
  the strings it replaces.
\<close>

section \<open>Runes and bytes\<close>

text \<open>A rune below 128 is one byte; every other rune comes from bytes above.\<close>

lemma decode_high:
  assumes "128 \<le> byte c"
  shows "128 \<le> fst (decode_rune c cs)"
proof -
  have two: "128 \<le> fst p" if p: "decode_two c cs = Some p" for p
  proof -
    from p obtain c1 rest where "cs = c1 # rest" "Go_Text.within 194 223 c" "p = (byte c mod 32 * 64 + low6 c1, 2)"
      by (auto simp: decode_two_def split: list.splits if_splits)
    moreover have "2 \<le> byte c mod 32" if "194 \<le> byte c" "byte c \<le> 223"
    proof -
      have "byte c mod 32 = byte c - 192" using that by (simp add: mod_nat_eqI)
      then show ?thesis using that by simp
    qed
    ultimately show ?thesis by (simp add: within_def)
  qed
  have three: "128 \<le> fst p" if p: "decode_three c cs = Some p" for p
  proof -
    from p obtain c1 c2 rest where "Go_Text.within 224 239 c" "cont c1" "byte c = 224 \<longrightarrow> 160 \<le> byte c1"
        "p = ((byte c mod 16 * 64 + low6 c1) * 64 + low6 c2, 3)"
      by (auto simp: decode_three_def split: list.splits if_splits)
    moreover have "2 \<le> byte c mod 16 * 64 + low6 c1"
    proof (cases "byte c = 224")
      case True
      with calculation have "160 \<le> byte c1" "byte c1 \<le> 191" by (auto simp: cont_def within_def)
      then have "byte c1 mod 64 = byte c1 - 128" by (simp add: mod_nat_eqI)
      then show ?thesis using \<open>160 \<le> byte c1\<close> by (simp add: low6_def)
    next
      case False
      with calculation have "225 \<le> byte c" "byte c \<le> 239" by (auto simp: within_def)
      then have "byte c mod 16 = byte c - 224" by (simp add: mod_nat_eqI)
      then show ?thesis using \<open>225 \<le> byte c\<close> by simp
    qed
    ultimately show ?thesis by simp
  qed
  have four: "128 \<le> fst p" if p: "decode_four c cs = Some p" for p
  proof -
    from p obtain c1 c2 c3 rest where "Go_Text.within 240 244 c" "cont c1" "byte c = 240 \<longrightarrow> 144 \<le> byte c1"
        "p = (((byte c mod 8 * 64 + low6 c1) * 64 + low6 c2) * 64 + low6 c3, 4)"
      by (auto simp: decode_four_def split: list.splits if_splits)
    moreover have "1 \<le> byte c mod 8 * 64 + low6 c1"
    proof (cases "byte c = 240")
      case True
      with calculation have "144 \<le> byte c1" "byte c1 \<le> 191" by (auto simp: cont_def within_def)
      then have "byte c1 mod 64 = byte c1 - 128" by (simp add: mod_nat_eqI)
      then show ?thesis using \<open>144 \<le> byte c1\<close> by (simp add: low6_def)
    next
      case False
      with calculation have "241 \<le> byte c" "byte c \<le> 244" by (auto simp: within_def)
      then have "byte c mod 8 = byte c - 240" by (simp add: mod_nat_eqI)
      then show ?thesis using \<open>241 \<le> byte c\<close> by simp
    qed
    ultimately show ?thesis by simp
  qed
  show ?thesis using assms two three four by (auto simp: decode_rune_def split: option.split)
qed

lemma runes_ascii: "list_all (\<lambda>c. byte c < 128) s \<Longrightarrow> runes s = map (\<lambda>c. (byte c, [c])) s"
  by (induction s) (simp_all add: decode_rune_def)

text \<open>A condition that only ASCII runes meet holds of every rune iff it holds of every byte.\<close>

lemma every_rune_bytes:
  assumes "\<And>r. P r \<Longrightarrow> r < 128"
  shows "every_rune P s \<longleftrightarrow> list_all (\<lambda>c. P (byte c)) s"
proof
  assume "every_rune P s"
  then show "list_all (\<lambda>c. P (byte c)) s"
  proof (induction s rule: runes.induct)
    case (2 c cs)
    obtain r n where rn: "decode_rune c cs = (r, n)" by (cases "decode_rune c cs")
    from 2(2) rn have P: "P r" and rest: "every_rune P (drop (n - 1) cs)" by (simp_all add: every_rune_def)
    have "byte c < 128"
    proof (rule ccontr)
      assume "\<not> byte c < 128"
      then have "128 \<le> r" using decode_high [of c cs] rn by simp
      with assms P show False by fastforce
    qed
    then have "r = byte c" "n = 1" using rn by (simp_all add: decode_rune_def)
    with 2(1) [OF rn [symmetric] refl] P rest show ?case by simp
  qed simp
next
  assume P: "list_all (\<lambda>c. P (byte c)) s"
  then have "list_all (\<lambda>c. byte c < 128) s" by (rule list.pred_mono_strong) (rule assms)
  with P show "every_rune P s" by (simp add: every_rune_def runes_ascii list.pred_map comp_def)
qed

section \<open>Substrings\<close>

lemma HasPrefix_iff: "HasPrefix s p \<longleftrightarrow> (\<exists>v. s = p @ v)"
  by (metis HasPrefix_def append_eq_conv_conj append_take_drop_id)

lemma Contains_iff: "Contains s p \<longleftrightarrow> (\<exists>u v. s = u @ p @ v)"
proof (induction s)
  case Nil
  then show ?case by simp
next
  case (Cons c cs)
  have "(\<exists>u v. c # cs = u @ p @ v) \<longleftrightarrow> HasPrefix (c # cs) p \<or> (\<exists>u v. cs = u @ p @ v)"
    unfolding HasPrefix_iff by (metis append_Cons append_Nil list.exhaust list.inject)
  with Cons show ?case by simp
qed

lemma Contains_length: "Contains s p \<Longrightarrow> length p \<le> length s"
  by (auto simp: Contains_iff)

lemma Contains_mono: "Contains s p \<Longrightarrow> Contains (u @ s @ v) p"
  unfolding Contains_iff by (metis append.assoc)

text \<open>A string without the delimiter does not cross it.\<close>

lemma Contains_delimited:
  assumes "Contains (u @ c # v) p" and "c \<notin> set p"
  shows "Contains u p \<or> Contains v p"
proof -
  from assms(1) obtain x y where "u @ c # v = x @ p @ y" by (auto simp: Contains_iff)
  then consider us where "u = x @ us" "us @ c # v = p @ y" | us where "u @ us = x" "c # v = us @ p @ y"
    by (auto simp: append_eq_append_conv2)
  then show ?thesis
  proof cases
    case 1
    then consider ps where "us = p @ ps" | ps where "us @ ps = p" "c # v = ps @ y"
      by (auto simp: append_eq_append_conv2)
    then show ?thesis
    proof cases
      case (1 ps)
      with \<open>u = x @ us\<close> show ?thesis by (auto simp: Contains_iff)
    next
      case (2 ps)
      with assms(2) have "ps = []" by (cases ps) auto
      with 2 \<open>u = x @ us\<close> have "u = x @ p @ []" by simp
      then show ?thesis unfolding Contains_iff by blast
    qed
  next
    case (2 us)
    then show ?thesis
    proof (cases us)
      case Nil
      with 2(2) assms(2) have "p = []" by (cases p) auto
      then have "u = [] @ p @ u" by simp
      then show ?thesis unfolding Contains_iff by blast
    next
      case (Cons b bs)
      with 2(2) show ?thesis by (auto simp: Contains_iff)
    qed
  qed
qed

section \<open>Redaction\<close>

definition marker :: string where
  "marker = ''[REDACTED]''"

text \<open>Secrets that cannot be confused with the marker: no brackets, and no part of the word inside.\<close>

definition plain_secret :: "string \<Rightarrow> bool" where
  "plain_secret s \<longleftrightarrow> CHR ''['' \<notin> set s \<and> CHR '']'' \<notin> set s \<and> \<not> Contains ''REDACTED'' s"

lemma marker_free:
  assumes "plain_secret x" and "Contains (marker @ r) x"
  shows "Contains r x"
proof -
  have "marker @ r = ''[REDACTED'' @ CHR '']'' # r" by (simp add: marker_def)
  with assms consider "Contains ''[REDACTED'' x" | "Contains r x"
    unfolding plain_secret_def by (metis Contains_delimited)
  then show ?thesis
  proof cases
    case 1
    then have "Contains ([] @ CHR ''['' # ''REDACTED'') x" by simp
    with assms(1) have "Contains [] x \<or> Contains ''REDACTED'' x"
      unfolding plain_secret_def by (blast dest: Contains_delimited)
    moreover have "Contains ''REDACTED'' x" if "Contains [] x"
      using Contains_mono [of "[]" x "[]" "''REDACTED''"] that by simp
    ultimately show ?thesis using assms(1) unfolding plain_secret_def by blast
  qed
qed

text \<open>The text before the first marker is the text that was there.\<close>

lemma replaced_prefix:
  "CHR ''['' \<notin> set x \<Longrightarrow> HasPrefix (replace_skipping old marker 0 s) x \<Longrightarrow> HasPrefix s x"
proof (induction s arbitrary: x)
  case (Cons c cs)
  show ?case
  proof (cases x)
    case (Cons d ds)
    show ?thesis
    proof (cases "HasPrefix (c # cs) old")
      case True
      with Cons.prems Cons show ?thesis by (auto simp: HasPrefix_def marker_def)
    next
      case False
      with Cons.prems Cons have "d = c" "HasPrefix (replace_skipping old marker 0 cs) ds" "CHR ''['' \<notin> set ds"
        by (auto simp: HasPrefix_def)
      with Cons.IH Cons show ?thesis by (simp add: HasPrefix_def)
    qed
  qed (simp add: HasPrefix_def)
qed (simp add: HasPrefix_def)

lemma no_new_secret:
  "plain_secret x \<Longrightarrow> Contains (replace_skipping old marker k s) x \<Longrightarrow> Contains s x"
proof (induction old "marker" k s rule: replace_skipping.induct)
  case (3 old c cs)
  show ?case
  proof (cases "HasPrefix (c # cs) old")
    case True
    then have "replace_skipping old marker 0 (c # cs) = marker @ replace_skipping old marker (length old - 1) cs" by simp
    with 3(4) have "Contains (replace_skipping old marker (length old - 1) cs) x"
      using marker_free [OF 3(3)] by metis
    with 3(1) [OF True 3(3)] show ?thesis by simp
  next
    case False
    then have eq: "replace_skipping old marker 0 (c # cs) = c # replace_skipping old marker 0 cs" by simp
    from 3(4) have "HasPrefix (c # replace_skipping old marker 0 cs) x \<or> Contains (replace_skipping old marker 0 cs) x"
      unfolding eq Contains.simps .
    then consider "HasPrefix (replace_skipping old marker 0 (c # cs)) x" | "Contains (replace_skipping old marker 0 cs) x"
      unfolding eq by blast
    then show ?thesis
    proof cases
      case 1
      have "HasPrefix (c # cs) x" by (rule replaced_prefix [OF _ 1]) (use 3(3) in \<open>simp add: plain_secret_def\<close>)
      then show ?thesis by simp
    next
      case 2
      with 3(2) [OF False 3(3)] show ?thesis by simp
    qed
  qed
qed simp_all

lemma replaced_away: "plain_secret old \<Longrightarrow> \<not> Contains (replace_skipping old marker k s) old"
proof (induction old "marker" k s rule: replace_skipping.induct)
  case (1 old skip)
  show ?case
  proof
    assume "Contains (replace_skipping old marker skip []) old"
    then have "old = []" by (auto simp: Contains_iff)
    with 1 show False by (simp add: plain_secret_def)
  qed
next
  case (3 old c cs)
  show ?case
  proof (cases "HasPrefix (c # cs) old")
    case True
    then have "replace_skipping old marker 0 (c # cs) = marker @ replace_skipping old marker (length old - 1) cs" by simp
    then show ?thesis using marker_free [OF 3(3)] 3(1) [OF True 3(3)] by metis
  next
    case False
    have "\<not> HasPrefix (replace_skipping old marker 0 (c # cs)) old"
      using False replaced_prefix [of old old "c # cs"] 3(3) by (auto simp: plain_secret_def)
    with 3(2) [OF False 3(3)] False show ?thesis by simp
  qed
qed simp

lemma not_replaced: "\<not> Contains s old \<Longrightarrow> replace_skipping old new 0 s = s"
  by (induction s) auto

text \<open>A plain secret goes with its own replacement, and no other one brings it back.\<close>

lemma redactText_brings_none:
  "plain_secret x \<Longrightarrow> \<not> Contains s x \<Longrightarrow> \<not> Contains (redactText s secrets) x"
proof (induction secrets arbitrary: s)
  case (Cons old secrets)
  have "\<not> Contains (ReplaceAll s old marker) x"
    using no_new_secret [OF Cons.prems(1)] Cons.prems(2) unfolding ReplaceAll_def by blast
  with Cons show ?case by (simp add: redactText_def marker_def)
qed (simp add: redactText_def)

lemma redactText_hides:
  "x \<in> set secrets \<Longrightarrow> plain_secret x \<Longrightarrow> \<not> Contains (redactText s secrets) x"
proof (induction secrets arbitrary: s)
  case (Cons old secrets)
  have step: "\<exists>t. redactText s (old # secrets) = redactText t secrets \<and> (old = x \<longrightarrow> \<not> Contains t x)"
  proof (cases "old = []")
    case True
    with Cons.prems(2) show ?thesis by (auto simp: redactText_def plain_secret_def)
  next
    case False
    then show ?thesis using replaced_away [OF Cons.prems(2)]
      by (intro exI [of _ "ReplaceAll s old marker"]) (auto simp: redactText_def marker_def ReplaceAll_def)
  qed
  then show ?case using Cons redactText_brings_none [OF Cons.prems(2)] by auto
qed simp

lemma redactText_keeps: "\<forall>x \<in> set secrets. \<not> Contains s x \<Longrightarrow> redactText s secrets = s"
proof (induction secrets)
  case (Cons old secrets)
  then have "ReplaceAll s old ''[REDACTED]'' = s" by (simp add: ReplaceAll_def not_replaced)
  with Cons show ?case by (simp add: redactText_def)
qed (simp add: redactText_def)

end
