(* ===== verification/Launch_Properties.thy ===== *)
theory Launch_Properties
  imports Setting_Properties Text_Rules Lifecycle_Properties
begin

text \<open>
  Requests of the machine service that are repeated, and launches that are followed: a lifecycle
  request sent again under its key gives the operation it gave before, and the ticket of a launch
  opens the machine it was made for until it expires.
\<close>

section \<open>Machines through later calls\<close>

text \<open>What a user may see and open does not depend on the columns that activity and desires change.\<close>

lemma GetMachineForUserD:
  assumes "GetMachineForUser ws i u d = Some m"
  shows "m \<in> set (db_machines d)" "m_ID m = i" "m_WorkspaceID m = ws" "m_CreatedByUserID m = Some u"
  using find_SomeD [OF assms [unfolded GetMachineForUser_def]] by (simp_all add: is_machine_def)

lemma GetForUser_alone:
  "w_script w = [] \<Longrightarrow> GetForUser ws i u w = (Inr m, w') \<longleftrightarrow> GetMachineForUser ws i u (w_db w) = Some m \<and> w' = tick w"
  by (auto simp: GetForUser_def inversion store_alone)

lemma visible_after_update:
  assumes "\<And>m. m_ID (f m) = m_ID m \<and> m_WorkspaceID (f m) = m_WorkspaceID m \<and> m_CreatedByUserID (f m) = m_CreatedByUserID m"
    and "GetMachineForUser ws i u d = Some m" and "db_machines d' = update_where P f (db_machines d)"
  shows "\<exists>m'. GetMachineForUser ws i u d' = Some m'"
proof -
  have "find (\<lambda>m. is_machine ws i m \<and> m_CreatedByUserID m = Some u) (update_where P f rows)
      = map_option (\<lambda>r. if P r then f r else r) (find (\<lambda>m. is_machine ws i m \<and> m_CreatedByUserID m = Some u) rows)" for rows
    using assms(1) by (induction rows) (auto simp: update_where_def is_machine_def)
  with assms(2,3) show ?thesis by (simp add: GetMachineForUser_def)
qed

section \<open>Repeated lifecycle requests\<close>

text \<open>The event of a request is written or not; nothing else changes.\<close>

lemma emit_alone:
  assumes "w_script w = []"
  shows "\<exists>events. emit m run actor source kind payload w = (Inr (), (tick w)\<lparr>w_db := (w_db w)\<lparr>db_events := events\<rparr>\<rparr>)"
proof -
  let ?e = "\<lparr>me_ID = 0, me_WorkspaceID = m_WorkspaceID m, me_MachineID = m_ID m, me_AgentRunID = run,
      me_ActorUserID = actor, me_Source = source, me_EventType = kind, me_Payload = Marshal payload,
      me_OccurredAt = w_now w, me_CreatedAt = 0\<rparr>"
  show ?thesis
  proof (cases "CreateEvent (w_now w) (w_now w) (w_seq w) ?e (w_db w)")
    case (Inl e)
    then have "emit m run actor source kind payload w = (Inr (), (tick w)\<lparr>w_db := (w_db w)\<lparr>db_events := db_events (w_db w)\<rparr>\<rparr>)"
      using assms by (simp add: emit_def bindA_def nowA_def getA_def ignore_def storeA_alone tick_def)
    then show ?thesis ..
  next
    case (Inr p)
    obtain x d where p: "p = (x, d)" by (cases p)
    from Inr p obtain events where "d = (w_db w)\<lparr>db_events := events\<rparr>"
      by (auto simp: CreateEvent_def Let_def split: if_splits)
    with Inr p assms show ?thesis
      by (auto simp: emit_def bindA_def nowA_def getA_def ignore_def storeA_alone)
  qed
qed

lemma emit_Inr_alone:
  "w_script w = [] \<Longrightarrow> emit m run actor source kind payload w = (Inr (), w')
    \<Longrightarrow> \<exists>events. w' = (tick w)\<lparr>w_db := (w_db w)\<lparr>db_events := events\<rparr>\<rparr>"
  using emit_alone [of w m run actor source kind payload] by auto

text \<open>The checks of \<open>Lifecycle\<close> only read.\<close>

lemma checks_alone:
  assumes "w_script w = []"
  shows "check_expiry m action w = (Inr u, w') \<Longrightarrow> w_db w' = w_db w \<and> w_script w' = []"
    and "check_status m action w = (Inr u, w') \<Longrightarrow> w_db w' = w_db w \<and> w_script w' = []"
    and "check_active_run i action w = (Inr u, w') \<Longrightarrow> w_db w' = w_db w \<and> w_script w' = []"
    and "check_start_quota S ws user m action w = (Inr u, w') \<Longrightarrow> w_db w' = w_db w \<and> w_script w' = []"
  using assms
  by (auto simp: check_expiry_def check_status_def check_active_run_def check_start_quota_def within_quota_def
      enabledPolicy_def inversion if_Inr store_alone split: if_splits option.splits)

lemma queued_operation_found:
  assumes "machines_wf d" and "ops_refer d" and "GetMachineForUser ws i u d = Some m"
    and "GetOperationByIdempotency ws i key d = None"
    and "op_IdempotencyKey operation = key" and "op_MachineID operation = i" and "op_WorkspaceID operation = ws"
    and "SetDesiredAndEnqueue now fresh ws i desired operation d = Inr (r, d')"
  shows "\<exists>row. GetOperationByIdempotency ws i key d' = Some row \<and> op_ID row = op_ID r
      \<and> op_Action row = op_Action operation \<and> op_RequestedByUserID row = op_RequestedByUserID operation"
    and "\<exists>m'. GetMachineForUser ws i u d' = Some m'"
proof (atomize (full), use assms(8) in \<open>cases rule: SetDesiredAndEnqueue_cases\<close>)
  case repeated
  with assms(4,5) show "(\<exists>row. GetOperationByIdempotency ws i key d' = Some row \<and> op_ID row = op_ID r
      \<and> op_Action row = op_Action operation \<and> op_RequestedByUserID row = op_RequestedByUserID operation)
    \<and> (\<exists>m'. GetMachineForUser ws i u d' = Some m')" by simp
next
  case (queued n)
  have unused: "\<forall>s \<in> set (db_operations d). \<not> same_key operation s"
    using key_unused [OF assms(1,2) queued(2) assms(4)] assms(5,6) by (simp add: same_key_def)
  from queued(4) show "(\<exists>row. GetOperationByIdempotency ws i key d' = Some row \<and> op_ID row = op_ID r
      \<and> op_Action row = op_Action operation \<and> op_RequestedByUserID row = op_RequestedByUserID operation)
    \<and> (\<exists>m'. GetMachineForUser ws i u d' = Some m')"
  proof (cases rule: enqueueOperation_cases)
    case (existing row)
    then have "row \<in> set (db_operations d)" "same_key operation row"
      by (auto simp: same_key_def dest!: find_SomeD)
    with unused show ?thesis by blast
  next
    case (added row)
    have row: "op_WorkspaceID row = ws" "op_MachineID row = i" "op_IdempotencyKey row = key"
      "op_Action row = op_Action operation" "op_RequestedByUserID row = op_RequestedByUserID operation"
      using assms(5-7) by (simp_all add: added(1) new_operation_row_def default_operation_def Let_def)
    then have "GetOperationByIdempotency ws i key d' = Some row"
      using assms(4) by (simp add: added(4) GetOperationByIdempotency_def find_append)
    moreover have "\<exists>m'. GetMachineForUser ws i u d' = Some m'"
      by (rule visible_after_update [OF _ assms(3), where f = "set_desired now desired (op_Generation operation)"])
        (auto simp: set_desired_def added(4))
    ultimately show ?thesis using row added(5) by (simp add: scan_operation_def)
  qed
qed

lemma queueOperation_alone:
  assumes "w_script w = []" and "queueOperation S ws u m action key w = (Inr r, w')"
  shows "\<exists>operation now fresh d events desired. SetDesiredAndEnqueue now fresh ws (m_ID m) desired operation (w_db w) = Inr (r, d)
    \<and> w_db w' = d\<lparr>db_events := events\<rparr> \<and> w_script w' = []
    \<and> op_MachineID operation = m_ID m \<and> op_WorkspaceID operation = ws \<and> op_Action operation = action
    \<and> op_RequestedByUserID operation = Some u
    \<and> op_IdempotencyKey operation = (if key = [] then action_text action @ '':'' @ int_decimal (m_Generation m + 1) else key)"
proof -
  let ?operation = "new_operation (w_fresh w) (m_ID m) ws u action (m_Generation m + 1)
      (if key = [] then action_text action @ '':'' @ int_decimal (m_Generation m + 1) else key) 5"
  let ?w = "w\<lparr>w_fresh := w_fresh w + 1\<rparr>"
  from assms obtain d where d: "SetDesiredAndEnqueue (w_now ?w) (w_fresh ?w) ws (m_ID m)
        (desired_after action (m_DesiredStatus m)) ?operation (w_db w) = Inr (r, d)"
      and emit: "emit m None (Some u) ''lifecycle'' ''operation.queued''
        (JObject [(''action'', JString (action_text action)), (''operation_id'', JString (uuid_String (op_ID r)))])
        ((tick ?w)\<lparr>w_db := d\<rparr>) = (Inr (), w')"
    by (auto simp: queueOperation_def Let_def inversion store_alone)
  obtain events where "w' = (tick ((tick ?w)\<lparr>w_db := d\<rparr>))\<lparr>w_db := d\<lparr>db_events := events\<rparr>\<rparr>"
    using emit_Inr_alone [OF _ emit] assms(1) by auto
  with assms(1) have "w_db w' = d\<lparr>db_events := events\<rparr>" "w_script w' = []" by simp_all
  moreover have "op_MachineID ?operation = m_ID m" "op_WorkspaceID ?operation = ws" "op_Action ?operation = action"
    "op_RequestedByUserID ?operation = Some u"
    "op_IdempotencyKey ?operation = (if key = [] then action_text action @ '':'' @ int_decimal (m_Generation m + 1) else key)"
    by (simp_all add: new_operation_def)
  ultimately show ?thesis using d by blast
qed

lemma repeated_lifecycle:
  assumes "w_script w = []" and "\<not> bad_key key" and "key \<noteq> []"
    and "GetMachineForUser ws i u (w_db w) = Some m"
    and "GetOperationByIdempotency ws i key (w_db w) = Some row"
    and "op_Action row = action" and "op_RequestedByUserID row = Some u"
  shows "\<exists>w'. Lifecycle S ws i u action key w = (Inr row, w') \<and> w_db w' = w_db w"
  using assms
  by (simp add: Lifecycle_def GetForUser_def earlier_operation_def bindA_def alone_simps present_def returnA_def)

lemma Lifecycle_alone:
  assumes "w_script w = []" and "Lifecycle S ws i u action key w = (Inr r, w')" and "key \<noteq> []"
  obtains (repeated) m where "GetMachineForUser ws i u (w_db w) = Some m" "\<not> bad_key key"
      "GetOperationByIdempotency ws i key (w_db w) = Some r" "op_Action r = action" "op_RequestedByUserID r = Some u"
      "w_db w' = w_db w" "w_script w' = []"
    | (queued) m v where "GetMachineForUser ws i u (w_db w) = Some m" "\<not> bad_key key"
      "GetOperationByIdempotency ws i key (w_db w) = None"
      "w_db v = w_db w" "w_script v = []" "queueOperation S ws u m action key v = (Inr r, w')"
proof -
  let ?w = "tick (tick w)"
  let ?fresh = "\<lambda>m. thenA (check_expiry m action)
       (thenA (check_status m action)
       (thenA (check_active_run i action)
       (thenA (unless (m_DesiredStatus m \<noteq> StatusDestroyed \<or> action = OpTeardown)
           (refuse ErrInvalidOperation ''machine teardown is already queued''))
       (thenA (check_start_quota S ws u m action)
         (queueOperation S ws u m action key)))))"
  from assms(2) obtain m existing v where m: "GetMachineForUser ws i u (w_db w) = Some m"
      and earlier: "earlier_operation ws i u action key (tick w) = (Inr existing, v)"
      and rest: "(case existing of None \<Rightarrow> ?fresh m | Some r \<Rightarrow> returnA r) v = (Inr r, w')"
    unfolding Lifecycle_def bindA_Inr GetForUser_alone [OF assms(1)]
    by (elim exE conjE) (simp split: option.splits)
  from earlier assms(1,3) have key: "\<not> bad_key key" and v: "v = ?w"
      and found: "GetOperationByIdempotency ws i key (w_db w) = existing"
      and row: "\<And>x. existing = Some x \<Longrightarrow> op_Action x = action \<and> op_RequestedByUserID x = Some u"
    by (auto simp: inversion earlier_operation_def if_Inr store_alone split: if_splits option.splits)
  show thesis
  proof (cases existing)
    case (Some x)
    with rest v have "r = x" "w' = ?w" by (auto simp: returnA_Inr)
    then show thesis using m Some key found row assms(1) by (intro repeated) simp_all
  next
    case None
    with rest v obtain v1 v2 v3 v5 where "check_expiry m action ?w = (Inr (), v1)" "check_status m action v1 = (Inr (), v2)"
        "check_active_run i action v2 = (Inr (), v3)" "check_start_quota S ws u m action v3 = (Inr (), v5)"
        and queue: "queueOperation S ws u m action key v5 = (Inr r, w')"
      by (auto simp: thenA_Inr unless_Inr)
    then have "w_db v5 = w_db w \<and> w_script v5 = []"
      using checks_alone assms(1) by (metis tick_simps(1) tick_simps(2))
    with m None key queue found show thesis by (intro queued) simp_all
  qed
qed

text \<open>
  Lifecycle requests may be repeated. When a request with an idempotency key has succeeded, the
  same request of the same user succeeds again, answers with the operation of the first, and changes
  nothing, although the machine's desired status and generation have moved on.
\<close>

theorem lifecycle_retry_is_idempotent:
  assumes "w_script w = []" and "machines_wf (w_db w)" and "ops_refer (w_db w)" and "key \<noteq> []"
    and "Lifecycle S workspaceID machineID userID action key w = (Inr r, w')"
  shows "\<exists>r' w''. Lifecycle S workspaceID machineID userID action key w' = (Inr r', w'')
    \<and> op_ID r' = op_ID r \<and> w_db w'' = w_db w'"
  using assms(1,5,4)
proof (cases rule: Lifecycle_alone)
  case (repeated m)
  then show ?thesis
    using repeated_lifecycle [of w' key workspaceID machineID userID m r action S] assms(4) by auto
next
  case (queued m v)
  note m = GetMachineForUserD [OF queued(1)]
  obtain operation now fresh d events desired where
      d: "SetDesiredAndEnqueue now fresh workspaceID machineID desired operation (w_db w) = Inr (r, d)"
      and w': "w_db w' = d\<lparr>db_events := events\<rparr>" "w_script w' = []"
      and operation: "op_MachineID operation = machineID" "op_WorkspaceID operation = workspaceID"
        "op_Action operation = action" "op_RequestedByUserID operation = Some userID" "op_IdempotencyKey operation = key"
    using queueOperation_alone [OF queued(5,6)] queued(4) m(2) assms(4) by auto
  have "\<exists>row. GetOperationByIdempotency workspaceID machineID key d = Some row \<and> op_ID row = op_ID r
      \<and> op_Action row = op_Action operation \<and> op_RequestedByUserID row = op_RequestedByUserID operation"
    by (rule queued_operation_found(1) [OF assms(2,3) queued(1,3) operation(5,1,2) d])
  then obtain row where row: "GetOperationByIdempotency workspaceID machineID key d = Some row" "op_ID row = op_ID r"
      "op_Action row = action" "op_RequestedByUserID row = Some userID"
    using operation by auto
  obtain n where "GetMachineForUser workspaceID machineID userID d = Some n"
    using queued_operation_found(2) [OF assms(2,3) queued(1,3) operation(5,1,2) d] by blast
  with row(1) have "GetMachineForUser workspaceID machineID userID (w_db w') = Some n"
    and "GetOperationByIdempotency workspaceID machineID key (w_db w') = Some row"
    by (simp_all add: w' GetMachineForUser_def GetOperationByIdempotency_def)
  from repeated_lifecycle [OF w'(2) queued(2) assms(4) this row(3,4)] row(2) show ?thesis by blast
qed

lemma queueOperation_runs:
  assumes "w_script v = []"
    and "SetDesiredAndEnqueue (w_now v) (w_fresh v + 1) ws (m_ID m) (desired_after action (m_DesiredStatus m))
      (new_operation (w_fresh v) (m_ID m) ws u action (m_Generation m + 1)
        (if key = [] then action_text action @ '':'' @ int_decimal (m_Generation m + 1) else key) 5) (w_db v) = Inr (r, d)"
  shows "\<exists>w'. queueOperation S ws u m action key v = (Inr r, w')"
proof -
  let ?v = "(tick (v\<lparr>w_fresh := w_fresh v + 1\<rparr>))\<lparr>w_db := d\<rparr>"
  let ?emit = "emit m None (Some u) ''lifecycle'' ''operation.queued''
      (JObject [(''action'', JString (action_text action)), (''operation_id'', JString (uuid_String (op_ID r)))])"
  have "w_script ?v = []" using assms(1) by simp
  then obtain w' where "?emit ?v = (Inr (), w')" using emit_alone by blast
  moreover have "queueOperation S ws u m action key v = thenA ?emit (returnA r) ?v"
    using assms by (simp add: queueOperation_def Let_def bindA_def freshA_def translate_def storeA_alone)
  ultimately show ?thesis by (auto simp: thenA_def bindA_def returnA_def)
qed

lemma pause_accepted:
  "\<exists>r w'. Lifecycle machines0 1 1 7 OpPause ''pause-1'' (world0 (db0\<lparr>db_machines := [machine0]\<rparr>) []) = (Inr r, w')"
proof -
  let ?w = "world0 (db0\<lparr>db_machines := [machine0]\<rparr>) []"
  let ?v = "tick (tick (tick ?w))"
  let ?o = "new_operation 103 1 1 7 OpPause 2 ''pause-1'' 5"
  have machine: "GetMachineForUser 1 1 7 (w_db ?w) = Some machine0"
    by (simp add: world0_def GetMachineForUser_def is_machine_def machine0_def)
  have script: "w_script ?w = []" and now: "w_now ?v = 0" and fresh: "w_fresh ?v = 103" and db: "w_db ?v = db0\<lparr>db_machines := [machine0]\<rparr>"
    by (simp_all add: world0_def tick_def)
  have "\<not> bad_key ''pause-1''"
    by (simp add: bad_key_def TrimSpace_def decode_rune_def is_space_def ContainsAny_def)
  moreover have "ValidOperationForStatus OpPause (m_Status machine0)" "m_DesiredStatus machine0 = StatusRunning"
    "m_ID machine0 = 1" "m_Generation machine0 = 1"
    by (simp_all add: machine0_def)
  moreover have "GetOperationByIdempotency 1 1 ''pause-1'' (w_db ?w) = None" "\<not> HasActiveAgentRun 1 (w_db ?w)"
    by (simp_all add: world0_def GetOperationByIdempotency_def HasActiveAgentRun_def has_active_run_def exists_where_def db0_def)
  ultimately have "Lifecycle machines0 1 1 7 OpPause ''pause-1'' ?w = queueOperation machines0 1 7 machine0 OpPause ''pause-1'' ?v"
    using script machine
    by (simp add: Lifecycle_def GetForUser_def earlier_operation_def bindA_def thenA_def alone_simps present_def
        returnA_def check_expiry_def check_status_def check_active_run_def check_start_quota_def nowA_def getA_def unless_def)
  moreover obtain r d where d: "SetDesiredAndEnqueue 0 104 1 1 StatusPaused ?o (db0\<lparr>db_machines := [machine0]\<rparr>) = Inr (r, d)"
  proof -
    have "\<not> isl (SetDesiredAndEnqueue 0 104 1 1 StatusPaused ?o (db0\<lparr>db_machines := [machine0]\<rparr>))" by code_simp
    then show thesis using that
      by (cases "SetDesiredAndEnqueue 0 104 1 1 StatusPaused ?o (db0\<lparr>db_machines := [machine0]\<rparr>)") auto
  qed
  moreover have "\<exists>w'. queueOperation machines0 1 7 machine0 OpPause ''pause-1'' ?v = (Inr r, w')"
    by (rule queueOperation_runs [where d = d]) (use d script now fresh db in \<open>simp_all add: desired_after_def machine0_def\<close>)
  ultimately show ?thesis by metis
qed

theorem lifecycle_retry_is_idempotent_witness:
  "\<exists>r w'. Lifecycle machines0 1 1 7 OpPause ''pause-1'' (world0 (db0\<lparr>db_machines := [machine0]\<rparr>) []) = (Inr r, w')
    \<and> (\<exists>r' w''. Lifecycle machines0 1 1 7 OpPause ''pause-1'' w' = (Inr r', w'') \<and> op_ID r' = op_ID r \<and> w_db w'' = w_db w')"
proof -
  let ?w = "world0 (db0\<lparr>db_machines := [machine0]\<rparr>) []"
  obtain r w' where "Lifecycle machines0 1 1 7 OpPause ''pause-1'' ?w = (Inr r, w')"
    using pause_accepted by blast
  moreover have "w_script ?w = []" "machines_wf (w_db ?w)" "ops_refer (w_db ?w)"
    by (simp_all add: world0_def machines_wf_def ops_refer_def db0_def)
  ultimately show ?thesis
    using lifecycle_retry_is_idempotent [of ?w "''pause-1''" machines0 1 1 7 OpPause r w'] by blast
qed

section \<open>Launches\<close>

lemma open_machine_later:
  "open_machine now ws i u m \<Longrightarrow> expiresAt \<le> m_ExpiresAt m \<Longrightarrow> t < expiresAt \<Longrightarrow> open_machine t ws i u m"
  by (auto simp: open_machine_def)

text \<open>A ticket that was granted is accepted until it expires, while machines, services and members stay.\<close>

lemma granted_ticket_accepted:
  assumes "CreateAccessTicket now ticket d = Inr (created, d1)" and "at_Status ticket = TicketActive"
    and "at_TerminalSessionID ticket = None"
    and "\<And>t. t < at_ExpiresAt ticket \<Longrightarrow>
      exists_where (open_machine t (at_WorkspaceID ticket) (at_MachineID ticket) (at_UserID ticket)) (db_machines d1)
      \<Longrightarrow> exists_where (open_machine t (at_WorkspaceID ticket) (at_MachineID ticket) (at_UserID ticket)) (db_machines d2)"
    and "db_services d2 = db_services d1" and "db_members d2 = db_members d1" and "db_tickets d2 = db_tickets d1"
    and "t < at_ExpiresAt ticket"
  shows "\<exists>tk. fst (ConsumeAccessTicket t (at_TokenHash ticket) (at_BoundHost ticket) d2) = Some tk
    \<and> at_UserID tk = at_UserID ticket \<and> at_MachineID tk = at_MachineID ticket \<and> at_ServiceID tk = at_ServiceID ticket"
proof -
  let ?row = "ticket\<lparr>at_UsedAt := None, at_RevokedAt := None, at_CreatedAt := now\<rparr>"
  from assms(1) have open_grant: "grant_open now d (at_WorkspaceID ticket) (at_MachineID ticket) (at_ServiceID ticket)
        (at_UserID ticket) (at_ExpiresAt ticket)"
    and unused: "\<forall>r \<in> set (db_tickets d). at_TokenHash r \<noteq> at_TokenHash ticket"
    and d1: "d1 = d\<lparr>db_tickets := db_tickets d @ [?row]\<rparr>"
    by (auto simp: CreateAccessTicket_def Let_def exists_where_iff split: if_splits)
  from open_grant obtain m where m: "m \<in> set (db_machines d)"
      "open_machine now (at_WorkspaceID ticket) (at_MachineID ticket) (at_UserID ticket) m"
      "at_ExpiresAt ticket \<le> m_ExpiresAt m"
    by (auto simp: grant_open_def exists_where_iff)
  then have "exists_where (open_machine t (at_WorkspaceID ticket) (at_MachineID ticket) (at_UserID ticket)) (db_machines d1)"
    using open_machine_later [OF m(2,3) assms(8)] by (auto simp: d1 exists_where_iff)
  then have "access_open t d2 (at_WorkspaceID ticket) (at_MachineID ticket) (at_ServiceID ticket) (at_UserID ticket)"
    using assms(4) [OF assms(8)] assms(5,6) open_grant by (simp add: access_open_def grant_open_def d1)
  then have "consumable t d2 (at_TokenHash ticket) (at_BoundHost ticket) ?row"
    using assms(2,3,8) by (simp add: consumable_def)
  moreover have "find (consumable t d2 (at_TokenHash ticket) (at_BoundHost ticket)) (db_tickets d) = None"
    using unused by (auto simp: find_None_all consumable_def)
  ultimately have "find (consumable t d2 (at_TokenHash ticket) (at_BoundHost ticket)) (db_tickets d2) = Some ?row"
    using assms(7) by (simp add: d1 find_append)
  then show ?thesis by (simp add: ConsumeAccessTicket_def used_row_def)
qed

lemma touched_machines:
  "exists_where (open_machine t ws i u) (db_machines (TouchMachineActivity now j a d))
    \<longleftrightarrow> exists_where (open_machine t ws i u) (db_machines d)"
  by (simp add: TouchMachineActivity_def exists_where_update_same open_machine_def is_machine_def)

lemma touchActivity_alone:
  "w_script w = [] \<Longrightarrow> snd (touchActivity i w) = (tick w)\<lparr>w_db := TouchMachineActivity (w_now w) i (w_now w) (w_db w)\<rparr>"
  by (simp add: touchActivity_def bindA_def nowA_def getA_def alone_simps)

lemma enabledPolicy_alone:
  "w_script w = [] \<Longrightarrow> enabledPolicy S ws w = (Inr p, w') \<Longrightarrow> w' = tick w"
  by (auto simp: enabledPolicy_def inversion store_alone if_Inr split: if_splits option.splits)

lemma pendingLaunch_Some:
  "pendingLaunch S ws m u w = (Inr (Some r), w') \<Longrightarrow> ls_Status r \<noteq> ''ready''"
  by (auto simp: pendingLaunch_def pending_response_def inversion if_Inr split: if_splits)

lemma pendingLaunch_None: "pendingLaunch S ws m u w = (Inr None, w') \<Longrightarrow> w' = w"
  by (auto simp: pendingLaunch_def inversion if_Inr split: if_splits)

lemma reads_alone:
  assumes "w_script w = []"
  shows "launchable_service ws i key w = (Inr service, w') \<Longrightarrow> w_db w' = w_db w \<and> w_script w' = []
      \<and> sv_ServiceKey service = key \<and> sv_MachineID service = i"
    and "ready_checkout ws i j w = (Inr c, w') \<Longrightarrow> w_db w' = w_db w \<and> w_script w' = []"
  using assms by (auto simp: launchable_service_def ready_checkout_def inversion if_Inr store_alone
      split: option.splits if_splits)

lemma LaunchService_ready:
  assumes "w_script w = []" and "LaunchService S ws i u key co w = (Inr r, w')" and "ls_Status r = ''ready''"
  obtains m service checkout raw j v created d e events where
    "GetMachineForUser ws i u (w_db w) = Some m" "w_db v = w_db w" "sv_ServiceKey service = key" "sv_MachineID service = i"
    "CreateAccessTicket (w_now v) (new_ticket S j m ws (sv_ID service) u None
        (EncodeToString (ms_sha256 S raw)) (launch_host S m service) (w_now (v :: world))) (w_db v) = Inr (created, d)"
    "w_db w' = (TouchMachineActivity e (m_ID m) e d)\<lparr>db_events := events\<rparr>"
    "ls_ExpiresAt r = at_ExpiresAt created"
    "ls_LaunchURL r = url_String ''https'' (launch_host S m service) ''/'' (encode_values (launch_query raw service checkout))"
proof -
  let ?ready = "\<lambda>m service checkout raw ticket. returnA \<lparr>ls_Status = ''ready'',
      ls_LaunchURL = url_String ''https'' (launch_host S m service) ''/'' (encode_values (launch_query raw service checkout)),
      ls_ExpiresAt = at_ExpiresAt ticket, ls_Operation = None, ls_RetryAfterSeconds = 0\<rparr>"
  let ?emit = "\<lambda>m service. emit m None (Some u) ''gateway'' ''service.launch_requested''
      (JObject [(''service'', JString (sv_ServiceType service))])"
  let ?ticket = "\<lambda>m service raw j now. new_ticket S j m ws (sv_ID service) u None
      (EncodeToString (ms_sha256 S raw)) (launch_host S m service) now"
  let ?checkout = "case co of None \<Rightarrow> returnA None
      | Some i' \<Rightarrow> bindA (ready_checkout ws i i') (\<lambda>c. returnA (Some c))"
  let ?launch = "\<lambda>m. bindA (launchable_service ws i key) (\<lambda>service. bindA ?checkout (\<lambda>checkout.
      bindA (randomHex S 32) (\<lambda>raw. bindA nowA (\<lambda>now. bindA freshA (\<lambda>j.
      bindA (createTicket (?ticket m service raw j now)) (\<lambda>ticket. thenA (ignore (touchActivity (m_ID m)))
      (thenA (?emit m service) (?ready m service checkout raw ticket))))))))"
  have two: "w_script (tick w) = []" "w_script (tick (tick w)) = []" using assms(1) by simp_all
  from assms(2) obtain m pending v1 where m: "GetMachineForUser ws i u (w_db w) = Some m"
      and pending: "pendingLaunch S ws m u (tick (tick w)) = (Inr pending, v1)"
      and rest: "(case pending of Some response \<Rightarrow> returnA response | None \<Rightarrow> ?launch m) v1 = (Inr r, w')"
    unfolding LaunchService_def bindA_Inr
    by (elim exE conjE) (auto simp: GetForUser_alone [OF two(1)] inversion if_Inr dest!: enabledPolicy_alone [OF assms(1)] split: if_splits)
  have "pending = None"
    using rest pendingLaunch_Some [of S ws m u "tick (tick w)" _ v1] pending assms(3)
    by (cases pending) (auto simp: returnA_Inr)
  with pending have v1: "v1 = tick (tick w)" by (auto dest: pendingLaunch_None)
  from rest \<open>pending = None\<close> have "?launch m v1 = (Inr r, w')" by simp
  then obtain service checkout v2 v3 where service: "launchable_service ws i key v1 = (Inr service, v2)"
      and checkout: "?checkout v2 = (Inr checkout, v3)"
      and rest: "bindA (randomHex S 32) (\<lambda>raw. bindA nowA (\<lambda>now. bindA freshA (\<lambda>j.
        bindA (createTicket (?ticket m service raw j now)) (\<lambda>ticket. thenA (ignore (touchActivity (m_ID m)))
        (thenA (?emit m service) (?ready m service checkout raw ticket)))))) v3 = (Inr r, w')"
    unfolding bindA_Inr [of "launchable_service ws i key"] bindA_Inr [of ?checkout] by blast
  have v2: "w_script v2 = []" "w_db v2 = w_db w" "sv_ServiceKey service = key" "sv_MachineID service = i"
    using reads_alone(1) [OF _ service] v1 two(2) by simp_all
  have v3: "w_script v3 = []" "w_db v3 = w_db w"
    using checkout v2 reads_alone(2) [of v2 ws i] by (auto simp: inversion split: option.splits)
  from rest obtain b ticket v5 where
      created: "createTicket (?ticket m service (EncodeToString b) (Suc (w_fresh v3)) (w_now v3))
        (v3\<lparr>w_fresh := Suc (Suc (w_fresh v3))\<rparr>) = (Inr ticket, v5)"
      and rest: "thenA (ignore (touchActivity (m_ID m)))
        (thenA (?emit m service) (?ready m service checkout (EncodeToString b) ticket)) v5 = (Inr r, w')"
    by (auto simp: bindA_Inr randomHex_Inr nowA_Inr freshA_Inr)
  define raw j v4 where "raw = EncodeToString b" and "j = Suc (w_fresh v3)"
    and "v4 = v3\<lparr>w_fresh := Suc (Suc (w_fresh v3))\<rparr>"
  have v4: "w_script v4 = []" "w_db v4 = w_db w" and now: "w_now v4 = w_now v3" using v3 by (simp_all add: v4_def)
  note created = created [folded raw_def j_def v4_def now] and rest = rest [folded raw_def]
  from created v4 obtain d where d: "CreateAccessTicket (w_now v4) (?ticket m service raw j (w_now v4)) (w_db v4) = Inr (ticket, d)"
      and v5: "v5 = (tick v4)\<lparr>w_db := d\<rparr>"
    by (auto simp: createTicket_def translate_Inr storeA_Inr_alone)
  have script5: "w_script v5 = []" using v4 v5 by simp
  let ?v6 = "(tick v5)\<lparr>w_db := TouchMachineActivity (w_now v5) (m_ID m) (w_now v5) d\<rparr>"
  from rest have "thenA (?emit m service) (?ready m service checkout raw ticket) ?v6 = (Inr r, w')"
    using script5 v5 by (simp add: thenA_Inr ignore_Inr touchActivity_alone)
  then obtain v7 where emit: "?emit m service ?v6 = (Inr (), v7)" and r: "?ready m service checkout raw ticket v7 = (Inr r, w')"
    by (auto simp: thenA_Inr)
  have "w_script ?v6 = []" using script5 by simp
  from emit_Inr_alone [OF this emit] obtain events
    where "w_db v7 = (w_db ?v6)\<lparr>db_events := events\<rparr>" by auto
  with r have "w_db w' = (TouchMachineActivity (w_now v5) (m_ID m) (w_now v5) d)\<lparr>db_events := events\<rparr>"
    "ls_ExpiresAt r = at_ExpiresAt ticket"
    "ls_LaunchURL r = url_String ''https'' (launch_host S m service) ''/'' (encode_values (launch_query raw service checkout))"
    by (simp_all add: returnA_Inr)
  then show thesis by (rule that [OF m v4(2) v2(3,4) d])
qed

text \<open>
  (C17) A launch opens what it was made for. The URL of a ready launch names a host and carries a ticket;
  at any moment before the expiry it reports, the ticket presented at that host is accepted, for the
  machine, the user and a service with the key that was asked for. The database keeps only the hash.
\<close>

theorem launched_ticket_opens:
  assumes "w_script w = []" and "LaunchService S workspaceID machineID userID serviceKey checkoutID w = (Inr r, w')"
    and "ls_Status r = ''ready''"
  shows "\<exists>raw host query (service :: DevMachineService). ls_LaunchURL r = url_String ''https'' host ''/'' (encode_values query)
    \<and> (''ticket'', raw) \<in> set query \<and> sv_ServiceKey service = serviceKey \<and> sv_MachineID service = machineID
    \<and> (\<forall>t < ls_ExpiresAt r. \<exists>tk. fst (ConsumeAccessTicket t (EncodeToString (ms_sha256 S raw)) host (w_db w')) = Some tk
        \<and> at_UserID tk = userID \<and> at_MachineID tk = machineID \<and> at_ServiceID tk = sv_ID service)"
  using assms
proof (rule LaunchService_ready)
  fix m service checkout raw j created d e events and v :: world
  assume m: "GetMachineForUser workspaceID machineID userID (w_db w) = Some m"
    and service: "sv_ServiceKey service = serviceKey" "sv_MachineID service = machineID"
    and d: "CreateAccessTicket (w_now v) (new_ticket S j m workspaceID (sv_ID service) userID None
        (EncodeToString (ms_sha256 S raw)) (launch_host S m service) (w_now v)) (w_db v) = Inr (created, d)"
    and w': "w_db w' = (TouchMachineActivity e (m_ID m) e d)\<lparr>db_events := events\<rparr>"
    and r: "ls_ExpiresAt r = at_ExpiresAt created"
      "ls_LaunchURL r = url_String ''https'' (launch_host S m service) ''/'' (encode_values (launch_query raw service checkout))"
  let ?ticket = "new_ticket S j m workspaceID (sv_ID service) userID None
        (EncodeToString (ms_sha256 S raw)) (launch_host S m service) (w_now v)"
  have ticket: "at_TokenHash ?ticket = EncodeToString (ms_sha256 S raw)" "at_BoundHost ?ticket = launch_host S m service"
    "at_UserID ?ticket = userID" "at_MachineID ?ticket = machineID" "at_ServiceID ?ticket = sv_ID service"
    "at_Status ?ticket = TicketActive" "at_TerminalSessionID ?ticket = None"
    using GetMachineForUserD(2) [OF m] by (simp_all add: new_ticket_def)
  have "at_ExpiresAt created = at_ExpiresAt ?ticket"
    using d by (auto simp: CreateAccessTicket_def Let_def split: if_splits)
  then have expiry: "ls_ExpiresAt r = at_ExpiresAt ?ticket" using r(1) by simp
  have same: "db_services (w_db w') = db_services d" "db_members (w_db w') = db_members d" "db_tickets (w_db w') = db_tickets d"
    by (simp_all add: w' TouchMachineActivity_def)
  have "\<exists>tk. fst (ConsumeAccessTicket t (EncodeToString (ms_sha256 S raw)) (launch_host S m service) (w_db w')) = Some tk
      \<and> at_UserID tk = userID \<and> at_MachineID tk = machineID \<and> at_ServiceID tk = sv_ID service"
    if "t < ls_ExpiresAt r" for t
    using granted_ticket_accepted [OF d ticket(6,7) _ same, of t] that unfolding expiry ticket
    by (simp add: w' touched_machines)
  moreover have "(''ticket'', raw) \<in> set (launch_query raw service checkout)"
    by (simp add: launch_query_def Let_def split: option.split)
  ultimately show ?thesis using r(2) service by blast
qed

definition launch_db :: db where
  "launch_db = db0\<lparr>db_machines := [machine0], db_policies := [policy0], db_services := [Machine_Samples.service0],
     db_members := [\<lparr>wm_WorkspaceID = 1, wm_UserID = 7, wm_Role = ''member'', wm_CreatedAt = 0\<rparr>]\<rparr>"

lemma launch_finishes:
  assumes "w_script v = []" and "ls_Status x = ''ready''" and "ls_ExpiresAt x = e"
  shows "\<exists>r. ls_Status r = ''ready'' \<and> ls_ExpiresAt r = e \<and> (\<exists>w'. thenA (ignore (touchActivity i))
    (thenA (emit m run actor source kind payload) (returnA x)) v = (Inr r, w'))"
proof -
  let ?v = "(tick v)\<lparr>w_db := TouchMachineActivity (w_now v) i (w_now v) (w_db v)\<rparr>"
  have "w_script ?v = []" using assms(1) by simp
  then obtain w' where "emit m run actor source kind payload ?v = (Inr (), w')" using emit_alone by blast
  then show ?thesis using assms by (auto simp: thenA_Inr ignore_Inr touchActivity_alone returnA_Inr)
qed

text \<open>The ticket of a launch is accepted half a minute later.\<close>

theorem launched_ticket_opens_witness:
  "\<exists>r w' raw host. LaunchService machines0 1 1 7 ''ide'' None (world0 launch_db []) = (Inr r, w')
    \<and> fst (ConsumeAccessTicket (seconds 30) (EncodeToString (ms_sha256 machines0 raw)) host (w_db w')) \<noteq> None"
proof -
  let ?w = "world0 launch_db []"
  have "\<exists>r. ls_Status r = ''ready'' \<and> ls_ExpiresAt r = seconds 60
      \<and> (\<exists>w'. LaunchService machines0 1 1 7 ''ide'' None ?w = (Inr r, w'))"
    by (simp add: LaunchService_def bindA_def alone_simps storeA_alone world0_def launch_db_def sample_defs service_samples
        tick_def enabledPolicy_def GetPolicy_def GetForUser_def GetMachineForUser_def is_machine_def present_def returnA_def
        nowA_def getA_def pendingLaunch_def launchable_service_def GetService_def exists_where_def randomHex_def drawA_def
        freshA_def createTicket_def translate_def new_ticket_def CreateAccessTicket_def grant_open_def access_open_def
        open_machine_def open_service_def writing_member_def Let_def seconds_def)
      (rule launch_finishes; simp add: returnA_def)
  then obtain r w' where r: "ls_Status r = ''ready''" "ls_ExpiresAt r = seconds 60"
    and launch: "LaunchService machines0 1 1 7 ''ide'' None ?w = (Inr r, w')" by blast
  have "w_script ?w = []" by (simp add: world0_def)
  from launched_ticket_opens [OF this launch r(1)] obtain raw host where
    "\<forall>t < ls_ExpiresAt r. \<exists>tk. fst (ConsumeAccessTicket t (EncodeToString (ms_sha256 machines0 raw)) host (w_db w')) = Some tk"
    by blast
  moreover have "seconds 30 < ls_ExpiresAt r" using r(2) by simp
  ultimately obtain tk where "fst (ConsumeAccessTicket (seconds 30) (EncodeToString (ms_sha256 machines0 raw)) host (w_db w')) = Some tk"
    by blast
  with launch show ?thesis by blast
qed

end
