(* ===== verification/Collector_Properties.thy ===== *)
theory Collector_Properties
  imports Setting_Properties Text_Rules
begin

text \<open>
  What the collector may write: the logs and events it reports reach the database without the values
  of the machine's secrets.
\<close>

section \<open>The secrets of a machine\<close>

definition secret_of :: "MachineService \<Rightarrow> time \<Rightarrow> db \<Rightarrow> uuid \<Rightarrow> string \<Rightarrow> bool" where
  "secret_of S now d machineID v \<longleftrightarrow> v \<noteq> []
     \<and> ((\<exists>e \<in> set (db_envvars d). live_envvar now machineID None [] e \<and> ms_Decrypt S (ev_EncryptedValue e) = Inr v)
      \<or> (\<exists>c \<in> set (db_credentials d). rc_MachineID c = machineID \<and> now < rc_ExpiresAt c
           \<and> ms_Decrypt S (rc_EncryptedValue c) = Inr v))"

lemma secret_of_tokens [simp]: "secret_of S now (d\<lparr>db_tokens := ts\<rparr>) i v = secret_of S now d i v"
  by (simp add: secret_of_def)

lemma decrypted_values:
  "decrypted S es = Inr vs \<Longrightarrow> set vs = {v. v \<noteq> [] \<and> (\<exists>e \<in> set es. ms_Decrypt S e = Inr v)}"
proof (induction es arbitrary: vs)
  case (Cons e es)
  from Cons.prems obtain plain plains where e: "ms_Decrypt S e = Inr plain" "decrypted S es = Inr plains"
    and vs: "vs = (if plain \<noteq> [] then plain # plains else plains)"
    by (auto split: sum.splits)
  show ?case using Cons.IH [OF e(2)] e(1) by (auto simp: vs)
qed simp

section \<open>The collector's calls without interference\<close>

definition calm :: "world \<Rightarrow> world \<Rightarrow> bool" where
  "calm w w' \<longleftrightarrow> w_script w' = [] \<and> w_now w' = w_now w \<and> w_db w' = w_db w"

lemma calm_tick: "w_script w = [] \<Longrightarrow> calm w (tick w)"
  by (simp add: calm_def tick_def)

lemma authenticated_alone:
  assumes "w_script w = []" and "authenticateMachineToken S raw scope w = (Inr (token, machine), w')"
  shows "\<exists>ts. calm (w\<lparr>w_db := (w_db w)\<lparr>db_tokens := ts\<rparr>\<rparr>) w'"
proof -
  let ?r = "AuthenticateMachineToken (ms_has_scope S) (w_now w) (EncodeToString (ms_sha256 S raw)) scope (w_db w)"
  from assms have w': "w' = (tick w)\<lparr>w_db := snd ?r\<rparr>"
    by (auto simp: authenticateMachineToken_def inversion alone_simps split: if_splits)
  have "\<exists>ts. snd ?r = (w_db w)\<lparr>db_tokens := ts\<rparr>"
  proof -
    have "\<exists>ts. w_db w = (w_db w)\<lparr>db_tokens := ts\<rparr>" by (rule exI [of _ "db_tokens (w_db w)"]) simp
    then show ?thesis by (auto simp: AuthenticateMachineToken_def Let_def split: option.split)
  qed
  with w' assms(1) show ?thesis by (auto simp: calm_def tick_def)
qed

lemma reported_alone:
  assumes "w_script w = []"
  shows "reported_run S ws i raw w = (Inr r, w') \<Longrightarrow> calm w w'"
    and "reported_service S machine raw w = (Inr s, w') \<Longrightarrow> calm w w'"
  using assms by (auto simp: reported_run_def reported_service_def Let_def inversion if_Inr store_alone calm_def tick_def
      split: option.splits if_splits)

lemma secrets_alone:
  assumes "w_script w = []" and "machineSecretValues S i w = (Inr secrets, w')"
  shows "calm w w'" and "set secrets = {v. secret_of S (w_now w) (w_db w) i v}"
proof -
  let ?es = "ListEnvVarsInternal (w_now w) (ms_collate S) i None [] (w_db w)"
  let ?cs = "ListRuntimeCredentials (w_now w) i (w_db w)"
  have now: "w_now (tick w) = w_now w" by (simp add: tick_def)
  from assms have "decrypted S (map ev_EncryptedValue ?es @ map rc_EncryptedValue ?cs) = Inr secrets"
    and w': "w' = tick (tick w)"
    by (auto simp: machineSecretValues_def inversion store_alone now)
  then have "set secrets = {v. v \<noteq> [] \<and> (\<exists>e \<in> set (map ev_EncryptedValue ?es @ map rc_EncryptedValue ?cs). ms_Decrypt S e = Inr v)}"
    by (intro decrypted_values)
  then show "set secrets = {v. secret_of S (w_now w) (w_db w) i v}"
    by (auto simp: secret_of_def ListEnvVarsInternal_def ListRuntimeCredentials_def)
  show "calm w w'" using assms(1) by (simp add: w' calm_def tick_def)
qed

section \<open>Redacted payloads\<close>

fun json_strings :: "json \<Rightarrow> string set" where
  "json_strings (JString s) = {s}"
| "json_strings (JArray vs) = \<Union> (set (map json_strings vs))"
| "json_strings (JObject ms) = \<Union> (set (map (\<lambda>(k, v). insert k (json_strings v)) ms))"
| "json_strings _ = {}"

lemma put_member_strings:
  "set (put_member k v ms) \<subseteq> insert (k, v) (set ms)"
  by (induction ms) (auto split: if_splits)

lemma put_members_strings:
  "set (foldl (\<lambda>redacted (k, v). put_member k v redacted) acc ms) \<subseteq> set acc \<union> set ms"
proof (induction ms arbitrary: acc)
  case (Cons p ms)
  obtain k v where "p = (k, v)" by (cases p)
  with Cons.IH [of "put_member k v acc"] put_member_strings [of k v acc] show ?case by auto
qed simp

lemma redactPayload_hides:
  assumes "\<And>ms. set (order ms) \<subseteq> set ms"
  shows "\<forall>s \<in> json_strings (redactPayload order secrets j). \<forall>x \<in> set secrets. plain_secret x \<longrightarrow> \<not> Contains s x"
proof (induction j)
  case (JString s)
  then show ?case using redactText_hides by simp
next
  case (JObject ms)
  let ?ms = "map (\<lambda>(k, v). (redactText k secrets, redactPayload order secrets v)) ms"
  let ?rs = "foldl (\<lambda>redacted (k, v). put_member k v redacted) [] (order ?ms)"
  have "set ?rs \<subseteq> set ?ms" using put_members_strings [of "[]" "order ?ms"] assms [of ?ms] by auto
  then have "json_strings (redactPayload order secrets (JObject ms))
      \<subseteq> (\<Union>(k, v) \<in> set ms. insert (redactText k secrets) (json_strings (redactPayload order secrets v)))"
    by fastforce
  moreover have "\<forall>x \<in> set secrets. plain_secret x \<longrightarrow> \<not> Contains s x"
    if "(k, v) \<in> set ms" and "s \<in> insert (redactText k secrets) (json_strings (redactPayload order secrets v))" for k v s
    using that redactText_hides JObject [of "(k, v)" v] by auto
  ultimately show ?case by blast
qed auto

section \<open>Ingestion\<close>



lemma IngestEvent_alone:
  assumes "w_script w = []" and "IngestEvent S raw input w = (Inr u, w')"
  obtains machine :: DevMachine and secrets and v :: world and ts and event :: DevMachineEvent and e d
    where "w_db v = (w_db w)\<lparr>db_tokens := ts\<rparr>"
    "set secrets = {x. secret_of S (w_now w) (w_db w) (m_ID machine) x}" "me_MachineID event = m_ID machine"
    "me_Payload event = (case ic_Payload input of None \<Rightarrow> ''{}'' | Some p \<Rightarrow> Marshal (redactPayload (ms_order S) secrets p))"
    "CreateEvent (w_now v) (w_now v) (w_seq v) event (w_db v) = Inr (e, d)" "w_db w' = d"
proof -
  from assms(2) obtain token machine runID secrets w1 w2 w3 where
      auth: "authenticateMachineToken S raw ''events:write'' w = (Inr (token, machine), w1)"
      and run: "reported_run S (m_WorkspaceID machine) (tk_MachineID token) (ic_AgentRunID input) w1 = (Inr runID, w2)"
      and secrets: "machineSecretValues S (m_ID machine) w2 = (Inr secrets, w3)"
      and store: "storeA (\<lambda>now fresh seq d. case CreateEvent now (w_now w3) seq
          \<lparr>me_ID = 0, me_WorkspaceID = m_WorkspaceID machine, me_MachineID = m_ID machine, me_AgentRunID = runID,
           me_ActorUserID = None, me_Source = ic_Source input, me_EventType = ic_EventType input,
           me_Payload = (case ic_Payload input of None \<Rightarrow> ''{}'' | Some p \<Rightarrow> Marshal (redactPayload (ms_order S) secrets p)),
           me_OccurredAt = occurred_at (w_now w3) (ic_OccurredAt input), me_CreatedAt = 0\<rparr> d of
             Inl e \<Rightarrow> Inl e | Inr (_, d') \<Rightarrow> Inr ((), d')) w3 = (Inr u, w')"
    by (auto simp: IngestEvent_def Let_def inversion split: if_splits)
  obtain ts where "calm (w\<lparr>w_db := (w_db w)\<lparr>db_tokens := ts\<rparr>\<rparr>) w1"
    using authenticated_alone [OF assms(1) auth] by blast
  then have w1: "w_script w1 = []" "w_now w1 = w_now w" "w_db w1 = (w_db w)\<lparr>db_tokens := ts\<rparr>" by (simp_all add: calm_def)
  with reported_alone [OF w1(1)] run have w2: "w_script w2 = []" "w_now w2 = w_now w" "w_db w2 = (w_db w)\<lparr>db_tokens := ts\<rparr>"
    by (simp_all add: calm_def)
  with secrets_alone [OF w2(1) secrets] have w3: "w_script w3 = []" "w_now w3 = w_now w" "w_db w3 = (w_db w)\<lparr>db_tokens := ts\<rparr>"
    and set: "set secrets = {x. secret_of S (w_now w) (w_db w) (m_ID machine) x}"
    by (simp_all add: calm_def)
  from store w3(1) obtain e d where "CreateEvent (w_now w3) (w_now w3) (w_seq w3)
          \<lparr>me_ID = 0, me_WorkspaceID = m_WorkspaceID machine, me_MachineID = m_ID machine, me_AgentRunID = runID,
           me_ActorUserID = None, me_Source = ic_Source input, me_EventType = ic_EventType input,
           me_Payload = (case ic_Payload input of None \<Rightarrow> ''{}'' | Some p \<Rightarrow> Marshal (redactPayload (ms_order S) secrets p)),
           me_OccurredAt = occurred_at (w_now w3) (ic_OccurredAt input), me_CreatedAt = 0\<rparr> (w_db w3) = Inr (e, d)" "w_db w' = d"
    by (auto simp: store_alone split: sum.splits prod.splits)
  then show thesis by (rule that [OF w3(3) set, rotated 2]) simp_all
qed

text \<open>
  Collected events hide secrets. \<open>IngestEvent\<close> adds one event, whose payload is a JSON document
  in which no string and no member name contains a value of a live variable or runtime credential of
  the machine, under the same proviso as for logs; the order in which the members of a map are visited
  does not matter.
\<close>

theorem collected_event_hides_secrets:
  assumes "w_script w = []" and "IngestEvent S raw input w = (Inr u, w')"
    and "\<And>ms. set (ms_order S ms) \<subseteq> set ms"
  shows "\<exists>e j. db_events (w_db w') = db_events (w_db w) @ [e] \<and> me_Payload e = Marshal j
    \<and> (\<forall>s \<in> json_strings j. \<forall>v. secret_of S (w_now w) (w_db w) (me_MachineID e) v \<and> plain_secret v
         \<longrightarrow> \<not> Contains s v)"
  using assms(1,2)
proof (rule IngestEvent_alone)
  fix machine :: DevMachine and secrets and v :: world and ts and event :: DevMachineEvent and e d
  assume db: "w_db v = (w_db w)\<lparr>db_tokens := ts\<rparr>" "w_db w' = d"
    and secrets: "set secrets = {x. secret_of S (w_now w) (w_db w) (m_ID machine) x}"
    and event: "me_MachineID event = m_ID machine"
      "me_Payload event = (case ic_Payload input of None \<Rightarrow> ''{}'' | Some p \<Rightarrow> Marshal (redactPayload (ms_order S) secrets p))"
    and created: "CreateEvent (w_now v) (w_now v) (w_seq v) event (w_db v) = Inr (e, d)"
  have empty: "''{}'' = Marshal (JObject [])" by simp
  define j where "j = (if me_Payload event = [] then JObject [] else case ic_Payload input of
      None \<Rightarrow> JObject [] | Some p \<Rightarrow> redactPayload (ms_order S) secrets p)"
  have e: "db_events d = db_events (w_db v) @ [e]" "me_MachineID e = m_ID machine"
    "me_Payload e = (if me_Payload event = [] then ''{}'' else me_Payload event)"
    using created by (auto simp: CreateEvent_def Let_def event(1) split: if_splits)
  have "me_Payload e = Marshal j"
    unfolding e(3) j_def using event(2) empty by (auto split: option.splits)
  moreover have "\<forall>s \<in> json_strings j. \<forall>x \<in> set secrets. plain_secret x \<longrightarrow> \<not> Contains s x"
    unfolding j_def using redactPayload_hides [of "ms_order S" secrets] assms(3) secrets
    by (auto split: option.splits)
  ultimately show ?thesis using db e(1,2) secrets by auto
qed

section \<open>Witnesses\<close>

definition raw_token :: string where
  "raw_token = replicate 64 CHR ''a''"

definition collector_db :: db where
  "collector_db = db0\<lparr>db_machines := [machine0],
     db_tokens := [\<lparr>tk_ID = 1, tk_MachineID = 1, tk_AgentRunID = None, tk_TokenHash = EncodeToString raw_token,
       tk_Scopes = ''[]'', tk_ExpiresAt = seconds 1000, tk_LastUsedAt = None, tk_RevokedAt = None, tk_CreatedAt = 0\<rparr>],
     db_envvars := [env_var 1 1 None ''agent'' ''API_KEY'' ''supersecret'' True None]\<rparr>"


definition event_input :: CollectorEventInput where
  "event_input = \<lparr>ic_AgentRunID = None, ic_Source = ''agent'', ic_EventType = ''output'',
     ic_Payload = Some (JObject [(''text'', JString ''key=supersecret'')]), ic_OccurredAt = None\<rparr>"


lemma collector_authenticated:
  "\<exists>t w'. authenticateMachineToken machines0 raw_token scope (world0 collector_db []) = (Inr (t, machine0), w')"
  by (simp add: authenticateMachineToken_def bindA_def alone_simps world0_def collector_db_def machine0_def
      AuthenticateMachineToken_def live_token_def service_samples present_def returnA_def raw_token_def)

lemma collector_ready:
  obtains t w1 ts where "authenticateMachineToken machines0 raw_token scope (world0 collector_db []) = (Inr (t, machine0), w1)"
    "w_script w1 = []" "w_now w1 = 0" "w_db w1 = collector_db\<lparr>db_tokens := ts\<rparr>"
    "machineSecretValues machines0 1 w1 = (Inr [''supersecret''], tick (tick w1))"
proof -
  obtain t w1 where t: "authenticateMachineToken machines0 raw_token scope (world0 collector_db []) = (Inr (t, machine0), w1)"
    using collector_authenticated by blast
  have "w_script (world0 collector_db []) = []" by (simp add: world0_def)
  from authenticated_alone [OF this t] obtain ts where
    w1: "w_script w1 = []" "w_now w1 = 0" "w_db w1 = collector_db\<lparr>db_tokens := ts\<rparr>"
    by (auto simp: calm_def world0_def)
  have "machineSecretValues machines0 1 w1 = (Inr [''supersecret''], tick (tick w1))"
    using w1 by (simp add: machineSecretValues_def bindA_def alone_simps ListEnvVarsInternal_def ListRuntimeCredentials_def
        collector_db_def db0_def env_var_def live_envvar_def service_samples resultA_def returnA_def)
  with t w1 show thesis by (rule that)
qed


theorem collected_event_hides_secrets_witness:
  "\<exists>w' e j. IngestEvent machines0 raw_token event_input (world0 collector_db []) = (Inr (), w')
    \<and> db_events (w_db w') = [e] \<and> me_Payload e = Marshal j
    \<and> {(s, v). s \<in> json_strings j \<and> secret_of machines0 0 collector_db (me_MachineID e) v \<and> plain_secret v \<and> Contains s v} = {}"
proof -
  let ?w = "world0 collector_db []"
  obtain t w1 ts where w1: "authenticateMachineToken machines0 raw_token ''events:write'' ?w = (Inr (t, machine0), w1)"
    "w_script w1 = []" "w_now w1 = 0" "w_db w1 = collector_db\<lparr>db_tokens := ts\<rparr>"
    "machineSecretValues machines0 1 w1 = (Inr [''supersecret''], tick (tick w1))" by (rule collector_ready)
  have id: "m_ID machine0 = 1" "m_WorkspaceID machine0 = 1" by (simp_all add: machine0_def)
  obtain w' where run: "IngestEvent machines0 raw_token event_input ?w = (Inr (), w')"
    using w1 id
    by (simp add: storeA_alone IngestEvent_def bindA_def event_input_def reported_run_def returnA_def nowA_def getA_def
        CreateEvent_def collector_db_def db0_def machine_exists_def run_of_machine_def references_def
        exists_where_def is_machine_def service_samples Let_def)
  have "set (ms_order machines0 ms) \<subseteq> set ms" for ms by (simp add: service_samples)
  moreover have "w_script ?w = []" "w_db ?w = collector_db" "w_now ?w = 0" by (simp_all add: world0_def)
  ultimately obtain e j where "db_events (w_db w') = db_events collector_db @ [e]" "me_Payload e = Marshal j"
    "\<forall>s \<in> json_strings j. \<forall>v. secret_of machines0 0 collector_db (me_MachineID e) v \<and> plain_secret v \<longrightarrow> \<not> Contains s v"
    using collected_event_hides_secrets [OF _ run] by auto
  then show ?thesis using run
    by (intro exI [of _ w'] exI [of _ e] exI [of _ j]) (auto simp: collector_db_def db0_def)
qed

end
