(* ===== verification/Creation_Properties.thy ===== *)
theory Creation_Properties
  imports Launch_Properties Manager_Logic
begin

text \<open>
  What a machine that \<open>Create\<close> has made looks like, and what its request was allowed to ask for,
  whatever happens to the database between the reads.
\<close>

section \<open>Well-formed machines\<close>

text \<open>Names, as the bytes of the text.\<close>

definition name_byte :: "nat \<Rightarrow> bool" where
  "name_byte b \<longleftrightarrow> lower_letter b \<or> 48 \<le> b \<and> b \<le> 57 \<or> b = 45"

lemma validMachineName_bytes:
  assumes "validMachineName s"
  shows "3 \<le> length s \<and> length s \<le> 255 \<and> lower_letter (byte (hd s)) \<and> last s \<noteq> CHR ''-''
    \<and> list_all (\<lambda>c. name_byte (byte c)) s"
proof -
  have "every_rune name_byte s" using assms unfolding validMachineName_def name_byte_def by blast
  then have "list_all (\<lambda>c. name_byte (byte c)) s"
    by (subst (asm) every_rune_bytes) (auto simp: name_byte_def lower_letter_def)
  with assms show ?thesis by (simp add: validMachineName_def not_less)
qed

definition machine_well_formed :: "DevMachine \<Rightarrow> bool" where
  "machine_well_formed m \<longleftrightarrow>
     (3 \<le> length (m_Name m) \<and> length (m_Name m) \<le> 255 \<and> lower_letter (byte (hd (m_Name m)))
       \<and> last (m_Name m) \<noteq> CHR ''-'' \<and> list_all (\<lambda>c. name_byte (byte c)) (m_Name m))
   \<and> (if m_RepositoryAffinityID m = None then m_BaseBranch m = [] \<and> m_WorkingBranch m = []
      else validGitRef (m_BaseBranch m) \<and> validGitRef (m_WorkingBranch m))
   \<and> (\<exists>sizeRuntime. DevMachineSize (m_MachineSize m) = (m_CPUMillis m, m_MemoryMB m, m_DiskGB m, sizeRuntime, True)
        \<and> m_MaxRuntimeMinutes m \<le> sizeRuntime)
   \<and> length (m_RoutingKey m) = 20 \<and> list_all hex_char (m_RoutingKey m)
   \<and> m_Status m = StatusQueued \<and> m_DesiredStatus m = StatusRunning \<and> m_Generation m = 1"

section \<open>The parts of a creation\<close>

lemma enabledPolicy_Inr: "enabledPolicy S ws w = (Inr p, w') \<Longrightarrow> wp_Enabled p"
  by (auto simp: enabledPolicy_def inversion if_Inr split: if_splits option.splits)

lemma requested_size_Inr:
  "requested_size S policy req w = (Inr (cpu, mem, disk, runtime), w') \<Longrightarrow>
     (\<exists>sizeRuntime. DevMachineSize (cr_Size req) = (cpu, mem, disk, sizeRuntime, True)
        \<and> runtime = min sizeRuntime (wp_MaxRuntimeMinutes policy)) \<and> disk \<le> wp_MaxDiskGB policy"
  by (auto simp: requested_size_def inversion split: prod.splits if_splits)

lemma requested_name_Inr: "requested_name S ws u req w = (Inr name, w') \<Longrightarrow> validMachineName name"
  by (auto simp: requested_name_def inversion if_Inr split: if_splits)

lemma requested_branches_Inr:
  "requested_branches S policy req defaults name issue repo w = (Inr (base, working), w') \<Longrightarrow>
     (case repo of None \<Rightarrow> base = [] \<and> working = []
      | Some r \<Rightarrow> validGitRef base \<and> validGitRef working
          \<and> repositoryAllowed (ms_equal_fold S) (wp_AllowedRepositories policy) (gh_FullName r))"
  by (auto simp: requested_branches_def Let_def inversion split: option.splits if_splits)

text \<open>A variable of the request as a row of the machine, and the tokens of the control plane for its own services.\<close>

definition requested_row :: "DevMachineEnvVarInput list \<Rightarrow> DevMachineEnvVar \<Rightarrow> bool" where
  "requested_row inputs v \<longleftrightarrow> (\<exists>input \<in> set inputs. ev_Name v = ie_Name input \<and> ev_ProviderID v = ie_Provider input
       \<and> ev_TargetService v = ie_TargetService input)
   \<and> validEnvName (ev_Name v) \<and> \<not> reserved_name (ev_Name v)
   \<and> (ev_ProviderID v \<noteq> None \<longrightarrow> ev_TargetService v = ''agent'')"

definition token_row :: "DevMachineEnvVar \<Rightarrow> bool" where
  "token_row v \<longleftrightarrow> (ev_Name v, ev_TargetService v) \<in> {(''KUAYLE_MACHINE_TOKEN'', ''collector''),
       (''KUAYLE_BROWSER_CDP_TOKEN'', ''browser''), (''KUAYLE_BROWSER_CDP_TOKEN'', ''collector'')}
   \<and> ev_ProviderID v = None \<and> ev_IsSecret v"

definition var_permitted :: "CreateDevMachineRequest \<Rightarrow> uuid \<Rightarrow> DevMachineEnvVar \<Rightarrow> bool" where
  "var_permitted request machineID v \<longleftrightarrow>
     ev_MachineID v = machineID \<and> (requested_row (cr_EnvVars request) v \<or> token_row v)"

lemma requested_var_Inr:
  "requested_var S i input w = (Inr v, w') \<Longrightarrow> validEnvName (ie_Name input) \<and> \<not> reserved_name (ie_Name input)
     \<and> (ie_Provider input \<noteq> None \<longrightarrow> ie_TargetService input = ''agent'') \<and> ev_MachineID v = i
     \<and> requested_row [input] v"
  by (auto simp: requested_var_def requested_row_def inversion env_var_def split: if_splits)

lemma requested_row_more: "requested_row inputs v \<Longrightarrow> set inputs \<subseteq> set inputs' \<Longrightarrow> requested_row inputs' v"
  unfolding requested_row_def by blast

lemma buildEnvVars_Inr:
  "buildEnvVars S i inputs w = (Inr vs, w') \<Longrightarrow> (\<forall>input \<in> set inputs. validEnvName (ie_Name input)
     \<and> \<not> reserved_name (ie_Name input) \<and> (ie_Provider input \<noteq> None \<longrightarrow> ie_TargetService input = ''agent''))
   \<and> (\<forall>v \<in> set vs. ev_MachineID v = i \<and> requested_row inputs v)"
proof (induction inputs arbitrary: w vs w')
  case (Cons input inputs)
  then obtain v u vs' u' where "requested_var S i input w = (Inr v, u)" "buildEnvVars S i inputs u = (Inr vs', u')"
    "vs = v # vs'" by (auto simp: inversion)
  with requested_var_Inr Cons.IH show ?case
    by (auto intro: requested_row_more [of "[input]"] requested_row_more [of inputs])
qed (simp add: inversion)

definition provider_permitted :: "MachineService \<Rightarrow> DevMachineWorkspacePolicy \<Rightarrow> string \<Rightarrow> bool" where
  "provider_permitted S policy i \<longleftrightarrow> (\<exists>p. registry_Get (ms_agents S) i = Some p
     \<and> (if md_Custom (pv_Metadata p) then wp_AllowCustomProviders policy else providerAllowed (wp_AllowedProviders policy) i))"

definition provider_row_permitted ::
  "MachineService \<Rightarrow> DevMachineWorkspacePolicy \<Rightarrow> DevMachineAgentInput list \<Rightarrow> uuid \<Rightarrow> DevMachineAgentProvider \<Rightarrow> bool" where
  "provider_row_permitted S policy inputs machineID row \<longleftrightarrow> ap_MachineID row = machineID
   \<and> (\<exists>input \<in> set inputs. provider_permitted S policy (ia_Provider input)
        \<and> (\<exists>p. registry_Get (ms_agents S) (ia_Provider input) = Some p \<and> ap_ProviderID row = md_ID (pv_Metadata p)
             \<and> ap_IsCustom row = md_Custom (pv_Metadata p)))"

lemma provider_row_Inr:
  "provider_row S i policy input w = (Inr row, w') \<Longrightarrow> provider_permitted S policy (ia_Provider input)
     \<and> provider_row_permitted S policy [input] i row"
  by (auto simp: provider_row_def provider_permitted_def provider_row_permitted_def Let_def refuse_Inr bindA_Inr
      returnA_Inr split: option.splits if_splits sum.splits)

lemma provider_row_more:
  "provider_row_permitted S policy inputs i row \<Longrightarrow> set inputs \<subseteq> set inputs' \<Longrightarrow> provider_row_permitted S policy inputs' i row"
  unfolding provider_row_permitted_def by blast

lemma buildProviders_Inr:
  "buildProviders S i policy seen inputs w = (Inr rows, w') \<Longrightarrow>
     (\<forall>input \<in> set inputs. ia_Provider input \<in> set seen \<or> provider_permitted S policy (ia_Provider input))
   \<and> (\<forall>row \<in> set rows. provider_row_permitted S policy inputs i row)"
proof (induction inputs arbitrary: seen w rows w')
  case (Cons input inputs)
  show ?case
  proof (cases "ia_Provider input \<in> set seen")
    case True
    with Cons have "buildProviders S i policy seen inputs w = (Inr rows, w')" by simp
    from Cons.IH [OF this] True show ?thesis by (auto intro: provider_row_more [of S policy inputs])
  next
    case False
    with Cons.prems obtain row v rows' v' where row: "provider_row S i policy input w = (Inr row, v)"
      and rest: "buildProviders S i policy (ia_Provider input # seen) inputs v = (Inr rows', v')" and rows: "rows = row # rows'"
      by (auto simp: inversion)
    show ?thesis
      using provider_row_Inr [OF row] Cons.IH [OF rest] rows
      by (auto intro: provider_row_more [of S policy inputs] provider_row_more [of S policy "[input]"])
  qed
qed (simp add: inversion)

lemma stamped_machine:
  assumes "storeA (\<lambda>now fresh seq d. case f now fresh seq d of Inl e \<Rightarrow> Inl e
      | Inr (x, d') \<Rightarrow> Inr ((machine\<lparr>m_CreatedAt := now, m_UpdatedAt := now\<rparr>, x), d')) v = (Inr (m, x), v')"
  shows "\<exists>now. m = machine\<lparr>m_CreatedAt := now, m_UpdatedAt := now\<rparr>"
proof -
  from storeA_Inr [OF assms] obtain now fresh seq d d' where "(case f now fresh seq d of Inl e \<Rightarrow> Inl e
      | Inr (x, d') \<Rightarrow> Inr ((machine\<lparr>m_CreatedAt := now, m_UpdatedAt := now\<rparr>, x), d')) = Inr ((m, x), d')"
    by blast
  then show ?thesis by (cases "f now fresh seq d") auto
qed

lemma createMachine_Inr:
  assumes "createMachine S u req policy machine w = (Inr (m, operation), w')"
  shows "\<exists>now. m = machine\<lparr>m_CreatedAt := now, m_UpdatedAt := now\<rparr>"
    and "\<forall>input \<in> set (cr_Agents req). provider_permitted S policy (ia_Provider input)"
    and "\<forall>input \<in> set (cr_EnvVars req). validEnvName (ie_Name input) \<and> \<not> reserved_name (ie_Name input)
      \<and> (ie_Provider input \<noteq> None \<longrightarrow> ie_TargetService input = ''agent'')"
proof -
  from assms obtain providers v1 requested v3 v4 where
    "buildProviders S (m_ID machine) policy [] (cr_Agents req) w = (Inr providers, v1)"
    "buildEnvVars S (m_ID machine) (cr_EnvVars req) v3 = (Inr requested, v4)"
    by (auto simp: createMachine_def bindA_Inr)
  then show "\<forall>input \<in> set (cr_Agents req). provider_permitted S policy (ia_Provider input)"
    "\<forall>input \<in> set (cr_EnvVars req). validEnvName (ie_Name input) \<and> \<not> reserved_name (ie_Name input)
      \<and> (ie_Provider input \<noteq> None \<longrightarrow> ie_TargetService input = ''agent'')"
    using buildProviders_Inr [of S "m_ID machine" policy "[]"] buildEnvVars_Inr [of S "m_ID machine" "cr_EnvVars req"] by fastforce+
  show "\<exists>now. m = machine\<lparr>m_CreatedAt := now, m_UpdatedAt := now\<rparr>"
    using assms by (auto simp: createMachine_def bindA_Inr translate_Inr thenA_Inr returnA_Inr dest: stamped_machine)
qed


section \<open>Steps that write nothing\<close>

text \<open>Without interference, the calls of a creation before its rows are made leave the database alone.\<close>

interpretation silent: world_relation "\<lambda>w w'. w_script w = [] \<longrightarrow> w_script w' = [] \<and> w_db w' = w_db w"
  by unfold_locales auto

lemma silentD: "silent.keeps a \<Longrightarrow> a w = (r, v) \<Longrightarrow> w_script w = [] \<Longrightarrow> w_script v = [] \<and> w_db v = w_db w"
  using silent.keepsD [of a w] by simp

lemma silent_base:
  "silent.keeps (readA f)" "silent.keeps freshA" "silent.keeps (drawA g)"
  "silent.keeps (refuse e s)" "silent.keeps (raise e)" "silent.keeps nowA"
  by (simp_all add: silent.keeps_def readA_def storeA_alone freshA_def drawA_def refuse_def raise_def failA_def
      nowA_def getA_def)

lemma silent_translate: "silent.keeps a \<Longrightarrow> silent.keeps (translate f a)"
  by (simp add: silent.keeps_def translate_def split: prod.split sum.split) (metis snd_conv)

lemmas silent_core = silent.keeps_rules silent_base silent_translate

lemma silent_hex: "silent.keeps (randomHex S n)" "silent.keeps (encryptA S s)" "silent.keeps (parse_id S raw s)"
  unfolding randomHex_def encryptA_def parse_id_def Let_def by (intro silent_core)+

lemmas silent_rules = silent_core silent_hex

lemma silent_scopes: "silent.keeps (resolve_scopes ws scopes resolved)"
  by (induction ws scopes resolved rule: resolve_scopes.induct) (auto intro!: silent_rules)

lemma silent_names: "silent.keeps (try_names S ws u n)"
  by (induction n) (auto intro!: silent_rules)

lemma silent_request:
  "silent.keeps (check_request S req)" "silent.keeps (enabledPolicy S ws)" "silent.keeps (within_quota ws u policy)"
  "silent.keeps (requested_size S policy req)" "silent.keeps (requested_name S ws u req)"
  "silent.keeps (resolveDevelopmentSetting ws issue project)"
  "silent.keeps (requested_environment S ws req defaults)" "silent.keeps (requested_repository ws req defaults)"
  "silent.keeps (requested_branches S policy req defaults name issue repo)"
  unfolding check_request_def enabledPolicy_def within_quota_def requested_size_def requested_name_def GenerateName_def
    resolveDevelopmentSetting_def requested_environment_def validateReadyEnvironment_def requested_repository_def
    requested_branches_def Let_def
  by (intro silent_rules silent_scopes silent_names)+

lemma silent_context: "silent.keeps (resolveRequestedContext S ws rawIssueID rawProjectID)"
  unfolding resolveRequestedContext_def requested_issue_def requested_project_def project_of_issue_def
  by (intro silent_rules)

lemma silent_providers: "silent.keeps (buildProviders S i policy seen inputs)"
  by (induction S i policy seen inputs rule: buildProviders.induct)
    (auto simp: provider_row_def Let_def intro!: silent_rules)

lemma silent_vars: "silent.keeps (buildEnvVars S i inputs)"
  by (induction S i inputs rule: buildEnvVars.induct) (auto simp: requested_var_def intro!: silent_rules)

lemma silent_services: "silent.keeps (bindA (buildServices S machine) (use_environment machine))"
  unfolding buildServices_def newService_def use_environment_def Let_def by (intro silent_rules)

lemma silent_tokens: "silent.keeps (collector_var S machine token)"
  "silent.keeps (if b then browser_vars S machine else returnA [])"
  unfolding collector_var_def browser_vars_def by (intro silent_rules)+

section \<open>The rows of a creation\<close>

lemma CreateBundle_rows:
  assumes "CreateBundle now fresh machine providers services volumes envVars tokens operation d = Inr (r, d')"
  shows "db_machines d' = db_machines d @ [new_machine_row now machine]
    \<and> db_providers d' = db_providers d @ map (new_provider_row now) providers
    \<and> db_envvars d' = db_envvars d @ map (new_envvar_row now) envVars"
proof -
  have "\<exists>ss vs ts. enqueueOperation now fresh operation (d\<lparr>db_machines := db_machines d @ [new_machine_row now machine],
      db_providers := db_providers d @ map (new_provider_row now) providers, db_services := ss, db_volumes := vs,
      db_envvars := db_envvars d @ map (new_envvar_row now) envVars, db_tokens := ts\<rparr>) = Inr (r, d')"
    using assms by (auto simp: CreateBundle_def Let_def bindE_def split: if_splits sum.splits)
  then show ?thesis by (auto dest!: enqueueOperation_frame)
qed

text \<open>The rows of the tables of variables and providers that are new, and the new machine.\<close>

definition created_rows ::
  "MachineService \<Rightarrow> DevMachineWorkspacePolicy \<Rightarrow> CreateDevMachineRequest \<Rightarrow> DevMachine \<Rightarrow> db \<Rightarrow> db \<Rightarrow> bool" where
  "created_rows S policy request m d d' \<longleftrightarrow> (\<exists>now providers vars.
     db_machines d' = db_machines d @ [new_machine_row now m]
   \<and> db_providers d' = db_providers d @ providers
   \<and> db_envvars d' = db_envvars d @ vars
   \<and> (\<forall>row \<in> set providers. provider_row_permitted S policy (cr_Agents request) (m_ID m) row)
   \<and> (\<forall>v \<in> set vars. var_permitted request (m_ID m) v))"

lemma collector_var_Inr: "collector_var S machine token w = (Inr v, w') \<Longrightarrow> ev_MachineID v = m_ID machine \<and> token_row v"
  by (auto simp: collector_var_def token_row_def env_var_def inversion)

lemma browser_vars_Inr:
  "(if b then browser_vars S machine else returnA []) w = (Inr vs, w') \<Longrightarrow>
     \<forall>v \<in> set vs. ev_MachineID v = m_ID machine \<and> token_row v"
  by (auto simp: browser_vars_def token_row_def env_var_def inversion split: if_splits)

lemma new_rows_permitted:
  "provider_row_permitted S policy inputs i row \<Longrightarrow> provider_row_permitted S policy inputs i (new_provider_row now row)"
  "ev_MachineID v = i \<Longrightarrow> requested_row (cr_EnvVars request) v \<or> token_row v \<Longrightarrow> var_permitted request i (new_envvar_row now v)"
  by (simp_all add: provider_row_permitted_def new_provider_row_def var_permitted_def requested_row_def token_row_def
      new_envvar_row_def)

lemma new_machine_row_stamped: "new_machine_row now (machine\<lparr>m_CreatedAt := t, m_UpdatedAt := t'\<rparr>) = new_machine_row now machine"
  by (simp add: new_machine_row_def)

lemma stored_alone:
  assumes "w_script v = []" and "storeA (\<lambda>now fresh seq d. case f now fresh seq d of Inl e \<Rightarrow> Inl e
      | Inr (x, d') \<Rightarrow> Inr ((machine\<lparr>m_CreatedAt := now, m_UpdatedAt := now\<rparr>, x), d')) v = (Inr (m, x), v')"
  shows "\<exists>d'. f (w_now v) (w_fresh v) (w_seq v) (w_db v) = Inr (x, d')
    \<and> m = machine\<lparr>m_CreatedAt := w_now v, m_UpdatedAt := w_now v\<rparr> \<and> w_script v' = [] \<and> w_db v' = d'"
  using assms by (cases "f (w_now v) (w_fresh v) (w_seq v) (w_db v)") (auto simp: storeA_alone)

lemma createMachine_rows:
  assumes "createMachine S u req policy machine w = (Inr (m, operation), w')" and "w_script w = []"
  shows "created_rows S policy req m (w_db w) (w_db w')"
proof -
  from assms(1) obtain providers v1 services v2 i v3 requested v4 token v5 collector v6 browser v7 j v8 k v9 f v10 where
    providers: "buildProviders S (m_ID machine) policy [] (cr_Agents req) w = (Inr providers, v1)" and
    services: "bindA (buildServices S machine) (use_environment machine) v1 = (Inr services, v2)" and
    i: "freshA v2 = (Inr i, v3)" and
    requested: "buildEnvVars S (m_ID machine) (cr_EnvVars req) v3 = (Inr requested, v4)" and
    token: "randomHex S 32 v4 = (Inr token, v5)" and
    collector: "collector_var S machine token v5 = (Inr collector, v6)" and
    browser: "(if is_Browser (cr_Services req) then browser_vars S machine else returnA []) v6 = (Inr browser, v7)" and
    j: "freshA v7 = (Inr j, v8)" and k: "freshA v8 = (Inr k, v9)" and
    stored: "storeA (\<lambda>now fresh seq d.
        case CreateBundle now fresh machine providers services [workspace_volume i machine]
            (requested @ [collector] @ browser) [collector_token S j machine token]
            (new_operation k (m_ID machine) (m_WorkspaceID machine) u OpSpawn (m_Generation machine)
              (''spawn:'' @ int_decimal (m_Generation machine)) 5) d of
          Inl e \<Rightarrow> Inl e
        | Inr (operation, d') \<Rightarrow> Inr ((machine\<lparr>m_CreatedAt := now, m_UpdatedAt := now\<rparr>, operation), d')) v9
      = (Inr (m, operation), v10)" and
    sent: "f v10 = (Inr (), w')" and
    f: "f = emit m None (Some u) ''lifecycle'' ''machine.queued''
        (JObject [(''operation_id'', JString (uuid_String (op_ID operation)))])"
    unfolding createMachine_def bindA_Inr translate_Inr thenA_Inr
    by (auto simp: case_prod_beta bindA_Inr thenA_Inr returnA_Inr)
  have v9: "w_script v9 = []" "w_db v9 = w_db w"
    using assms(2) silentD [OF silent_providers providers] silentD [OF silent_services services]
      silentD [OF silent_base(2) i] silentD [OF silent_vars requested] silentD [OF silent_hex(1) token]
      silentD [OF silent_tokens(1) collector] silentD [OF silent_tokens(2) browser] silentD [OF silent_base(2) j]
      silentD [OF silent_base(2) k] by simp_all
  from stored_alone [OF v9(1) stored] obtain d' where
    made: "CreateBundle (w_now v9) (w_fresh v9) machine providers services [workspace_volume i machine]
            (requested @ [collector] @ browser) [collector_token S j machine token]
            (new_operation k (m_ID machine) (m_WorkspaceID machine) u OpSpawn (m_Generation machine)
              (''spawn:'' @ int_decimal (m_Generation machine)) 5) (w_db v9) = Inr (operation, d')"
    and m: "m = machine\<lparr>m_CreatedAt := w_now v9, m_UpdatedAt := w_now v9\<rparr>" and v10: "w_script v10 = []" "w_db v10 = d'"
    by blast
  note made = made [unfolded v9(2)]
  obtain events where w': "w_db w' = d'\<lparr>db_events := events\<rparr>"
    using emit_alone [OF v10(1), of m None "Some u" "''lifecycle''" "''machine.queued''"
        "JObject [(''operation_id'', JString (uuid_String (op_ID operation)))]"] sent v10(2) unfolding f by auto
  show ?thesis
    unfolding created_rows_def
  proof (intro exI conjI ballI)
    show "db_machines (w_db w') = db_machines (w_db w) @ [new_machine_row (w_now v9) m]"
      using CreateBundle_rows [OF made] by (simp add: w' m new_machine_row_stamped)
    show "db_providers (w_db w') = db_providers (w_db w) @ map (new_provider_row (w_now v9)) providers"
      and "db_envvars (w_db w') = db_envvars (w_db w) @ map (new_envvar_row (w_now v9)) (requested @ [collector] @ browser)"
      using CreateBundle_rows [OF made] by (simp_all add: w')
    show "provider_row_permitted S policy (cr_Agents req) (m_ID m) row" if "row \<in> set (map (new_provider_row (w_now v9)) providers)" for row
      using that buildProviders_Inr [OF providers] by (auto simp: m intro: new_rows_permitted)
    show "var_permitted req (m_ID m) v" if "v \<in> set (map (new_envvar_row (w_now v9)) (requested @ [collector] @ browser))" for v
      using that buildEnvVars_Inr [OF requested] collector_var_Inr [OF collector] browser_vars_Inr [OF browser]
      by (auto simp: m intro!: new_rows_permitted(2))
  qed
qed

section \<open>Hexadecimal texts\<close>

lemma hex_digit_char: "n < 16 \<Longrightarrow> hex_char (hex_digit n)"
  by (simp add: hex_char_def hex_digit_def Let_def)

lemma hex_digits_chars: "list_all hex_char (hex_digits k n) \<and> length (hex_digits k n) = k"
  by (induction k n rule: hex_digits.induct) (simp_all add: hex_digit_char)

lemma EncodeToString_chars:
  "list_all hex_char (EncodeToString s) \<and> length (EncodeToString s) = 2 * length s"
  using hex_digits_chars by (induction s) (simp_all add: EncodeToString_def)

section \<open>The properties\<close>

text \<open>What a successful \<open>Create\<close> has gone through.\<close>

definition with_ide :: "CreateDevMachineRequest \<Rightarrow> CreateDevMachineRequest" where
  "with_ide request = request\<lparr>cr_Services := (cr_Services request)\<lparr>is_IDE := True\<rparr>\<rparr>"

lemma with_ide_simps [simp]: "cr_Size (with_ide request) = cr_Size request"
  "cr_Agents (with_ide request) = cr_Agents request" "cr_EnvVars (with_ide request) = cr_EnvVars request"
  by (simp_all add: with_ide_def)

lemma Create_parts:
  assumes "Create S ws u request w = (Inr (m, operation), w')"
  obtains policy v1 v2 sizes v3 name v4 v5 defaults issue repo branches v6 v7 n b i ids t v8 v9 where
    "enabledPolicy S ws w = (Inr policy, v1)" "within_quota ws u policy v1 = (Inr (), v2)"
    "requested_size S policy (with_ide request) v2 = (Inr sizes, v3)"
    "requested_name S ws u (with_ide request) v3 = (Inr name, v4)"
    "requested_branches S policy (with_ide request) defaults name issue repo v5 = (Inr branches, v6)"
    "ms_rand S n 10 = Inr b"
    "createMachine S u (with_ide request) policy
       (new_machine i ws u (EncodeToString b) name (with_ide request) sizes ids branches repo t) v8
       = (Inr (m, operation), v9)"
proof -
  have check: "check_request S request w = (Inr x, v) \<Longrightarrow> v = w" for x v
    by (auto simp: check_request_def inversion split: sum.splits option.splits if_splits)
  from assms show ?thesis
    unfolding Create_def with_ide_def [symmetric] Let_def bindA_Inr thenA_Inr randomHex_Inr
    by (auto simp: case_prod_beta bindA_Inr randomHex_Inr dest!: check intro: that)
qed


lemmas new_machine_parts = new_machine_def Let_def case_prod_beta

text \<open>(C16) A machine that \<open>Create\<close> returns is well-formed, whatever happens to the database in between: its
  name is between 3 and 255 bytes of lower-case letters, digits and dashes, starts with a letter and does
  not end in a dash; it has a base and a working branch that are valid git references exactly when it has
  a repository; processor, memory and disk are those of its size and it runs no longer than the size
  allows; its routing key is 20 hexadecimal digits; it is queued and is to run.\<close>

theorem created_machine_is_well_formed:
  assumes "Create S ws u request w = (Inr (m, operation), w')"
    and "\<And>n k b. ms_rand S n k = Inr b \<Longrightarrow> length b = k"
  shows "machine_well_formed m \<and> m_WorkspaceID m = ws \<and> m_CreatedByUserID m = Some u"
proof -
  from assms(1) obtain policy v2 sizes v3 name v4 defaults issue repo branches v5 v6 n b i ids t v8 v9 where
    size: "requested_size S policy (with_ide request) v2 = (Inr sizes, v3)" and
    name: "requested_name S ws u (with_ide request) v3 = (Inr name, v4)" and
    branches: "requested_branches S policy (with_ide request) defaults name issue repo v5 = (Inr branches, v6)" and
    key: "ms_rand S n 10 = Inr b" and
    made: "createMachine S u (with_ide request) policy
       (new_machine i ws u (EncodeToString b) name (with_ide request) sizes ids branches repo t) v8
       = (Inr (m, operation), v9)"
    by (elim Create_parts)
  obtain cpu mem disk runtime base working where parts: "sizes = (cpu, mem, disk, runtime)" "branches = (base, working)"
    by (metis surj_pair)
  show ?thesis
    using createMachine_Inr(1) [OF made] validMachineName_bytes [OF requested_name_Inr [OF name]]
      requested_size_Inr [OF size [unfolded parts]] requested_branches_Inr [OF branches [unfolded parts]]
      EncodeToString_chars [of b] assms(2) [OF key]
    by (auto simp: machine_well_formed_def new_machine_parts parts split: option.splits)
qed

text \<open>What a successful \<open>Create\<close> without interference has done before its rows are made leaves the database alone.\<close>

lemma Create_quiet:
  assumes "w_script w = []" and "Create S ws u request w = (Inr (m, operation), w')"
  obtains policy v1 v2 sizes v3 name defaults issue repo branches v5 v6 i key ids t v8 where
    "enabledPolicy S ws w = (Inr policy, v1)" "within_quota ws u policy v1 = (Inr (), v2)"
    "requested_size S policy (with_ide request) v2 = (Inr sizes, v3)"
    "requested_branches S policy (with_ide request) defaults name issue repo v5 = (Inr branches, v6)"
    "createMachine S u (with_ide request) policy
       (new_machine i ws u key name (with_ide request) sizes ids branches repo t) v8 = (Inr (m, operation), w')"
    "w_script v8 = []" "w_db v8 = w_db w"
proof -
  from assms(2) obtain policy v0 v1 v2 sizes v3 name v4 issue project issueID projectID v5 defaults v6 environmentID v7
      repo v8 branches v9 key v10 i v11 t v12 where
    check: "check_request S request w = (Inr (), v0)" and
    policy: "enabledPolicy S ws v0 = (Inr policy, v1)" and
    quota: "within_quota ws u policy v1 = (Inr (), v2)" and
    sizes: "requested_size S policy (with_ide request) v2 = (Inr sizes, v3)" and
    name: "requested_name S ws u (with_ide request) v3 = (Inr name, v4)" and
    loaded: "resolveRequestedContext S ws (cr_IssueID (with_ide request)) (cr_ProjectID (with_ide request)) v4
      = (Inr (issue, project, issueID, projectID), v5)" and
    defaults: "resolveDevelopmentSetting ws issue project v5 = (Inr defaults, v6)" and
    environment: "requested_environment S ws (with_ide request) defaults v6 = (Inr environmentID, v7)" and
    repo: "requested_repository ws (with_ide request) defaults v7 = (Inr repo, v8)" and
    branches: "requested_branches S policy (with_ide request) defaults name issue repo v8 = (Inr branches, v9)" and
    key: "randomHex S 10 v9 = (Inr key, v10)" and i: "freshA v10 = (Inr i, v11)" and t: "nowA v11 = (Inr t, v12)" and
    created: "createMachine S u (with_ide request) policy
       (new_machine i ws u key name (with_ide request) sizes (issueID, projectID, environmentID) branches repo t) v12
       = (Inr (m, operation), w')"
    unfolding Create_def with_ide_def [symmetric] Let_def bindA_Inr thenA_Inr
    by (auto simp: case_prod_beta bindA_Inr thenA_Inr)
  have v0: "v0 = w" using check by (auto simp: check_request_def inversion split: sum.splits option.splits if_splits)
  have "w_script v12 = [] \<and> w_db v12 = w_db w"
    using assms(1) silentD [OF silent_request(1) check] silentD [OF silent_request(2) policy]
      silentD [OF silent_request(3) quota] silentD [OF silent_request(4) sizes] silentD [OF silent_request(5) name]
      silentD [OF silent_context loaded] silentD [OF silent_request(6) defaults]
      silentD [OF silent_request(7) environment] silentD [OF silent_request(8) repo]
      silentD [OF silent_request(9) branches] silentD [OF silent_hex(1) key] silentD [OF silent_base(2) i]
      silentD [OF silent_base(6) t] by simp
  then show thesis using that policy quota sizes branches created unfolding v0 by blast
qed

text \<open>(C15) When \<open>Create\<close> returns a machine and nothing interferes, the development machines of the workspace
  were enabled by its policy and neither the workspace nor the user had reached its number of machines;
  the disk and the runtime of the machine keep to the policy, its repository is one the policy allows, each
  agent provider of the request is registered and allowed, and each environment variable of the request has a valid name
  that is not reserved and goes to an agent when it is meant for a provider. The database gets the row of this machine;
  each row that the table of agent providers gets belongs to it and is of such a provider; each row that the table of
  environment variables gets belongs to it and is either a variable of the request, with its name, provider and target, or
  one of the tokens of the control plane for the collector and the browser.\<close>

theorem created_machine_is_permitted:
  assumes "w_script w = []" and "Create S ws u request w = (Inr (m, operation), w')"
  shows "\<exists>policy. GetPolicy ws (w_db w) = Some policy \<and> wp_Enabled policy
    \<and> int (CountActiveMachines ws None (w_db w)) < wp_MaxConcurrentMachines policy
    \<and> int (CountActiveMachines ws (Some u) (w_db w)) < wp_MaxMachinesPerUser policy
    \<and> m_DiskGB m \<le> wp_MaxDiskGB policy \<and> m_MaxRuntimeMinutes m \<le> wp_MaxRuntimeMinutes policy
    \<and> (m_RepositoryAffinityID m \<noteq> None \<longrightarrow> (\<exists>full. m_RepoURL m = ''https://github.com/'' @ full
         \<and> repositoryAllowed (ms_equal_fold S) (wp_AllowedRepositories policy) full))
    \<and> (\<forall>input \<in> set (cr_Agents request). provider_permitted S policy (ia_Provider input))
    \<and> (\<forall>input \<in> set (cr_EnvVars request). validEnvName (ie_Name input) \<and> \<not> reserved_name (ie_Name input)
         \<and> (ie_Provider input \<noteq> None \<longrightarrow> ie_TargetService input = ''agent''))
    \<and> created_rows S policy request m (w_db w) (w_db w')"
proof -
  obtain policy v1 v2 sizes v3 name defaults issue repo branches v5 v6 i key ids t v8 where
    enabled: "enabledPolicy S ws w = (Inr policy, v1)" and quota: "within_quota ws u policy v1 = (Inr (), v2)" and
    size: "requested_size S policy (with_ide request) v2 = (Inr sizes, v3)" and
    branches: "requested_branches S policy (with_ide request) defaults name issue repo v5 = (Inr branches, v6)" and
    made: "createMachine S u (with_ide request) policy
       (new_machine i ws u key name (with_ide request) sizes ids branches repo t) v8 = (Inr (m, operation), w')" and
    v8: "w_script v8 = []" "w_db v8 = w_db w"
    by (rule Create_quiet [OF assms])
  from enabled assms(1) have policy: "GetPolicy ws (w_db w) = Some policy" "wp_Enabled policy" "v1 = tick w"
    by (auto simp: enabledPolicy_def inversion store_alone if_Inr split: if_splits option.splits)
  have counts: "int (CountActiveMachines ws None (w_db w)) < wp_MaxConcurrentMachines policy"
    "int (CountActiveMachines ws (Some u) (w_db w)) < wp_MaxMachinesPerUser policy"
    using quota assms(1) by (auto simp: within_quota_def inversion store_alone if_Inr policy(3) split: if_splits)
  obtain cpu mem disk runtime base working where parts: "sizes = (cpu, mem, disk, runtime)" "branches = (base, working)"
    by (metis surj_pair)
  have limits: "m_DiskGB m \<le> wp_MaxDiskGB policy" "m_MaxRuntimeMinutes m \<le> wp_MaxRuntimeMinutes policy"
    using createMachine_Inr(1) [OF made] requested_size_Inr [OF size [unfolded parts]]
    by (auto simp: new_machine_parts parts)
  have repository: "m_RepositoryAffinityID m \<noteq> None \<longrightarrow> (\<exists>full. m_RepoURL m = ''https://github.com/'' @ full
      \<and> repositoryAllowed (ms_equal_fold S) (wp_AllowedRepositories policy) full)"
    using createMachine_Inr(1) [OF made] requested_branches_Inr [OF branches [unfolded parts]]
    by (auto simp: new_machine_parts parts split: option.splits)
  have rows: "created_rows S policy request m (w_db w) (w_db w')"
    using createMachine_rows [OF made v8(1)] by (simp add: created_rows_def var_permitted_def v8(2))
  show ?thesis
    using policy(1,2) counts limits repository rows createMachine_Inr(2,3) [OF made]
    by (intro exI [of _ policy] conjI) simp_all
qed


section \<open>Witnesses\<close>

definition creation_db :: db where
  "creation_db = db0\<lparr>db_policies := [policy0], db_members := [\<lparr>wm_WorkspaceID = 1, wm_UserID = 7, wm_Role = ''member'', wm_CreatedAt = 0\<rparr>]\<rparr>"

definition creation_request :: CreateDevMachineRequest where
  "creation_request = \<lparr>cr_Name = ''devbox'', cr_IssueID = None, cr_ProjectID = None, cr_Repo = None,
     cr_BaseBranch = [], cr_WorkingBranch = [], cr_Size = ''small'',
     cr_Services = \<lparr>is_IDE = False, is_Browser = False\<rparr>, cr_Agents = [], cr_EnvVars = [],
     cr_EnvironmentID = None, cr_KeepRunning = False, cr_EnvironmentBuilder = False\<rparr>"

lemma Unmarshal_ide: "Unmarshal_services (=) (Marshal_services \<lparr>is_IDE = True, is_Browser = False\<rparr>)
    = \<lparr>is_IDE = True, is_Browser = False\<rparr>"
  by code_simp

lemma name_devbox: "normalizeMachineName ''devbox'' = ''devbox''" "validMachineName ''devbox''"
  by (simp add: normalizeMachineName_def TrimSpace_def decode_rune_def is_space_def) code_simp

lemma emit_finishes:
  assumes "w_script v = []"
  shows "\<exists>m operation w'. thenA (emit c run actor source kind payload) (returnA (a, b)) v = (Inr (m, operation), w')"
proof -
  obtain w' where "emit c run actor source kind payload v = (Inr (), w')" using emit_alone [OF assms] by blast
  then show ?thesis by (simp add: thenA_def bindA_def returnA_def)
qed

text \<open>The steps of the creation before its rows are made, in any world with this database and no interference.\<close>

lemma bindA_run: "a w = (Inr x, v) \<Longrightarrow> bindA a k w = k x v"
  by (simp add: bindA_def)

lemma thenA_run: "a w = (Inr x, v) \<Longrightarrow> thenA a b w = b v"
  by (simp add: thenA_def bindA_def)

lemma creation_steps:
  assumes "w_script w = []" and "w_db w = creation_db"
  shows "check_request machines0 creation_request w = (Inr (), w)"
    and "enabledPolicy machines0 1 w = (Inr policy0, tick w)"
    and "within_quota 1 7 policy0 w = (Inr (), tick (tick w))"
    and "requested_size machines0 policy0 (with_ide creation_request) w = (Inr (2000, 4096, 20, 120), w)"
    and "requested_name machines0 1 7 (with_ide creation_request) w = (Inr ''devbox'', tick w)"
    and "resolveRequestedContext machines0 1 None None w = (Inr (None, None, None, None), w)"
    and "resolveDevelopmentSetting 1 None None w = (Inr (empty_setting 1 (None, None, None)), tick w)"
    and "requested_environment machines0 1 (with_ide creation_request) (empty_setting 1 (None, None, None)) w = (Inr None, w)"
    and "requested_repository 1 (with_ide creation_request) (empty_setting 1 (None, None, None)) w = (Inr None, w)"
    and "requested_branches machines0 policy0 (with_ide creation_request) defaults name issue None w = (Inr ([], []), w)"
proof -
  note s = assms bindA_def returnA_def alone_simps creation_request_def with_ide_def
  show "check_request machines0 creation_request w = (Inr (), w)"
    by (simp add: s check_request_def)
  show "enabledPolicy machines0 1 w = (Inr policy0, tick w)"
    by (simp add: s enabledPolicy_def creation_db_def GetPolicy_def sample_defs service_samples)
  show "within_quota 1 7 policy0 w = (Inr (), tick (tick w))"
    by (simp add: s within_quota_def creation_db_def sample_defs CountActiveMachines_def rows_affected_def)
  show "requested_size machines0 policy0 (with_ide creation_request) w = (Inr (2000, 4096, 20, 120), w)"
    by (simp add: s requested_size_def sample_defs DevMachineSize_def)
  show "requested_name machines0 1 7 (with_ide creation_request) w = (Inr ''devbox'', tick w)"
    by (simp add: s requested_name_def name_devbox MachineNameExistsForUser_def creation_db_def sample_defs exists_where_def)
  show "resolveRequestedContext machines0 1 None None w = (Inr (None, None, None, None), w)"
    by (simp add: s resolveRequestedContext_def requested_issue_def requested_project_def project_of_issue_def)
  show "resolveDevelopmentSetting 1 None None w = (Inr (empty_setting 1 (None, None, None)), tick w)"
    by (simp add: s resolveDevelopmentSetting_def setting_scopes_def empty_setting_def GetScopeSetting_def creation_db_def sample_defs)
  show "requested_environment machines0 1 (with_ide creation_request) (empty_setting 1 (None, None, None)) w = (Inr None, w)"
    by (simp add: s requested_environment_def empty_setting_def)
  show "requested_repository 1 (with_ide creation_request) (empty_setting 1 (None, None, None)) w = (Inr None, w)"
    by (simp add: s requested_repository_def empty_setting_def)
  show "requested_branches machines0 policy0 (with_ide creation_request) defaults name issue None w = (Inr ([], []), w)"
    by (simp add: s requested_branches_def)
qed

lemma service_parts:
  "ms_agents machines0 = NewRegistry [provider0]" "ms_images machines0 = \<lparr>im_IDE = ''ide:1'', im_Browser = ''browser:1'',
     im_Collector = ''collector:1'', im_Egress = ''egress:1''\<rparr>" "ms_equal_fold machines0 = (=)"
  "ms_sha256 machines0 s = s" "ms_Encrypt machines0 n s = Inr s" "ms_rand machines0 n k = Inr (replicate k (char_of (n mod 256)))"
  by (simp_all add: machines0_def)

lemma creation_succeeds: "\<exists>m operation w'. Create machines0 1 7 creation_request (world0 creation_db [])
    = (Inr (m, operation), w')"
proof -
  have request: "cr_IssueID (with_ide creation_request) = None" "cr_ProjectID (with_ide creation_request) = None"
    by (simp_all add: with_ide_def creation_request_def)
  have w: "w_script (world0 creation_db []) = []" "w_db (world0 creation_db []) = creation_db"
    by (simp_all add: world0_def)
  show ?thesis
    apply (simp add: Create_def with_ide_def [symmetric] Let_def thenA_run [OF creation_steps(1)] w request
      bindA_run [OF creation_steps(2)] thenA_run [OF creation_steps(3)] bindA_run [OF creation_steps(4)]
      bindA_run [OF creation_steps(5)] bindA_run [OF creation_steps(6)] bindA_run [OF creation_steps(7)]
      bindA_run [OF creation_steps(8)] bindA_run [OF creation_steps(9)] bindA_run [OF creation_steps(10)] del: One_nat_def)
    apply (simp add: bindA_def randomHex_def drawA_def freshA_def nowA_def getA_def returnA_def service_parts
      createMachine_def buildServices_def newService_def new_machine_def Unmarshal_ide with_ide_def creation_request_def
      use_environment_def collector_var_def encryptA_def env_var_def translate_def tick_def world0_def storeA_alone
      CreateBundle_def environment_ready_def check_quota_def bindE_def creation_db_def sample_defs
      CountActiveMachines_def user_count_def rows_affected_def machine_name_taken_def exists_where_def
      bundle_ok_def bundle_references_def new_service_row_def new_volume_row_def new_envvar_row_def new_token_row_def
      new_machine_row_def workspace_volume_def collector_token_def is_machine_def references_def enqueueOperation_def
      new_operation_def Let_def default_operation_def new_operation_row_def operation_references_def
      del: One_nat_def)
    by (rule emit_finishes) simp
qed

theorem created_machine_is_well_formed_witness:
  "\<exists>m operation w'. Create machines0 1 7 creation_request (world0 creation_db []) = (Inr (m, operation), w')
    \<and> machine_well_formed m"
proof -
  obtain m operation w' where created: "Create machines0 1 7 creation_request (world0 creation_db []) = (Inr (m, operation), w')"
    using creation_succeeds by blast
  have "machine_well_formed m \<and> m_WorkspaceID m = 1 \<and> m_CreatedByUserID m = Some 7"
    by (rule created_machine_is_well_formed [OF created]) (auto simp: machines0_def)
  with created show ?thesis by blast
qed

theorem created_machine_is_permitted_witness:
  "\<exists>m operation w' policy. Create machines0 1 7 creation_request (world0 creation_db []) = (Inr (m, operation), w')
    \<and> GetPolicy 1 creation_db = Some policy \<and> m_MaxRuntimeMinutes m \<le> wp_MaxRuntimeMinutes policy"
proof -
  obtain m operation w' where created: "Create machines0 1 7 creation_request (world0 creation_db []) = (Inr (m, operation), w')"
    using creation_succeeds by blast
  have w: "w_script (world0 creation_db []) = []" "w_db (world0 creation_db []) = creation_db"
    by (simp_all add: world0_def)
  from created_machine_is_permitted [OF w(1) created] created w(2) show ?thesis by auto
qed

end
