(* ===== verification/Realtime_Hub.thy ===== *)
theory Realtime_Hub
  imports Go_Json
begin

text \<open>
  The real-time hub, \<open>BE/internal/realtime/hub.go\<close>, and the handler of its connections,
  \<open>BE/internal/handler/ws.go\<close>: who is connected to which workspace, the messages each connection still
  has to send, and who is looking at which issue.

  Clients and the inner maps of \<open>Hub.clients\<close> are objects with an address. An operation is a function of
  the hub; its second result says whether it panicked. A map is ranged over in an order the language leaves
  open: \<open>hx_order\<close> chooses it.
\<close>

section \<open>State\<close>

type_synonym address = nat

record Client =
  cl_workspaceID :: uuid
  cl_userID :: uuid
  cl_send :: "string list"
  cl_closed :: bool
  cl_viewingIssue :: string

text \<open>The channel \<open>send\<close> is its buffer, of at most 256 messages, and whether it is closed.\<close>

record Hub =
  hb_clients :: "uuid \<Rightarrow> address option"
  hb_rooms :: "address \<Rightarrow> address list"
  hb_objects :: "address \<Rightarrow> Client option"
  hb_next :: address

definition NewHub :: Hub where
  "NewHub = \<lparr>hb_clients = (\<lambda>_. None), hb_rooms = (\<lambda>_. []), hb_objects = (\<lambda>_. None), hb_next = 0\<rparr>"

record Event =
  he_Type :: string
  he_Timestamp :: time
  he_Payload :: json

text \<open>
  What the hub uses of the library: the text of a time, the text of the \<open>float64\<close> that a number reads as
  (none when it is out of range), \<open>strings.EqualFold\<close> and the order of a map's members.
\<close>

record HubContext =
  hx_time :: "time \<Rightarrow> string"
  hx_float :: "string \<Rightarrow> string option"
  hx_equal_fold :: "string \<Rightarrow> string \<Rightarrow> bool"
  hx_order :: "address list \<Rightarrow> address list"

type_synonym hub_act = "Hub \<Rightarrow> Hub \<times> bool"

definition andThen :: "hub_act \<Rightarrow> hub_act \<Rightarrow> hub_act" where
  "andThen f g h = (case f h of (h', panicked) \<Rightarrow> if panicked then (h', True) else g h')"

text \<open>A deferred call runs after the body, also when the body has panicked.\<close>

definition deferred :: "hub_act \<Rightarrow> hub_act \<Rightarrow> hub_act" where
  "deferred f g h = (case f h of (h', panicked) \<Rightarrow> (case g h' of (h'', again) \<Rightarrow> (h'', panicked \<or> again)))"

definition nothing :: hub_act where
  "nothing h = (h, False)"

definition set_client :: "address \<Rightarrow> Client \<Rightarrow> Hub \<Rightarrow> Hub" where
  "set_client c client h = h\<lparr>hb_objects := (hb_objects h)(c \<mapsto> client)\<rparr>"

section \<open>Connections\<close>

definition Register :: "uuid \<Rightarrow> uuid \<Rightarrow> Hub \<Rightarrow> address \<times> Hub" where
  "Register workspaceID userID h =
     (let c = hb_next h; room = (case hb_clients h workspaceID of None \<Rightarrow> hb_next h + 1 | Some r \<Rightarrow> r);
          members = (if hb_clients h workspaceID = None then [] else hb_rooms h room) in
      (c, h\<lparr>hb_objects := (hb_objects h)(c \<mapsto> \<lparr>cl_workspaceID = workspaceID, cl_userID = userID, cl_send = [],
            cl_closed = False, cl_viewingIssue = []\<rparr>),
          hb_clients := (hb_clients h)(workspaceID \<mapsto> room),
          hb_rooms := (hb_rooms h)(room := members @ [c]),
          hb_next := hb_next h + 2\<rparr>))"

text \<open>The part under the lock, and the close of the channel, which panics when it is closed.\<close>

definition leave_room :: "address \<Rightarrow> Client \<Rightarrow> Hub \<Rightarrow> Hub" where
  "leave_room c client h = (case hb_clients h (cl_workspaceID client) of
     None \<Rightarrow> h
   | Some room \<Rightarrow> (let members = remove1 c (hb_rooms h room) in
       h\<lparr>hb_rooms := (hb_rooms h)(room := members),
         hb_clients := (if members = [] then (hb_clients h)(cl_workspaceID client := None) else hb_clients h)\<rparr>))"

definition close_send :: "address \<Rightarrow> hub_act" where
  "close_send c h = (case hb_objects h c of
     None \<Rightarrow> (h, True)
   | Some client \<Rightarrow>
       if cl_closed client then (h, True) else (set_client c (client\<lparr>cl_closed := True\<rparr>) h, False))"

definition Unregister :: "address \<Rightarrow> hub_act" where
  "Unregister c h = (case hb_objects h c of
     None \<Rightarrow> (h, True)
   | Some client \<Rightarrow> close_send c (leave_room c client h))"

section \<open>Sending\<close>

text \<open>\<open>select\<close> with a default: the message is dropped when the buffer is full. A closed channel panics.\<close>

definition sendBuffer :: nat where
  "sendBuffer = 256"

definition offer :: "string \<Rightarrow> Client \<Rightarrow> Client" where
  "offer data client = (if length (cl_send client) < sendBuffer
     then client\<lparr>cl_send := cl_send client @ [data]\<rparr> else client)"

definition send :: "string \<Rightarrow> address \<Rightarrow> hub_act" where
  "send data c h = (case hb_objects h c of
     None \<Rightarrow> (h, True)
   | Some client \<Rightarrow> if cl_closed client then (h, True) else (set_client c (offer data client) h, False))"

fun send_each :: "string \<Rightarrow> address list \<Rightarrow> hub_act" where
  "send_each data [] = nothing"
| "send_each data (c # cs) = andThen (send data c) (send_each data cs)"

definition event_data :: "HubContext \<Rightarrow> time \<Rightarrow> Event \<Rightarrow> string" where
  "event_data X now event = (let stamped = event\<lparr>he_Timestamp := now\<rparr> in
     Marshal (JObject [(''type'', JString (he_Type stamped)),
       (''timestamp'', JString (hx_time X (he_Timestamp stamped))), (''payload'', he_Payload stamped)]))"

text \<open>The members of a workspace's map; a missing map has none.\<close>

definition members :: "HubContext \<Rightarrow> uuid \<Rightarrow> Hub \<Rightarrow> address list" where
  "members X workspaceID h = (case hb_clients h workspaceID of
     None \<Rightarrow> [] | Some room \<Rightarrow> hx_order X (hb_rooms h room))"

definition has_user :: "uuid \<Rightarrow> Hub \<Rightarrow> address \<Rightarrow> bool" where
  "has_user userID h c \<longleftrightarrow> (case hb_objects h c of None \<Rightarrow> False | Some client \<Rightarrow> cl_userID client = userID)"

definition Broadcast :: "HubContext \<Rightarrow> time \<Rightarrow> uuid \<Rightarrow> Event \<Rightarrow> hub_act" where
  "Broadcast X now workspaceID event h =
     send_each (event_data X now event) (members X workspaceID h) h"

definition BroadcastToUser :: "HubContext \<Rightarrow> time \<Rightarrow> uuid \<Rightarrow> uuid \<Rightarrow> Event \<Rightarrow> hub_act" where
  "BroadcastToUser X now workspaceID userID event h =
     send_each (event_data X now event) (filter (has_user userID h) (members X workspaceID h)) h"

definition BroadcastExcluding :: "HubContext \<Rightarrow> time \<Rightarrow> uuid \<Rightarrow> address \<Rightarrow> Event \<Rightarrow> hub_act" where
  "BroadcastExcluding X now workspaceID exclude event h =
     send_each (event_data X now event) (filter (\<lambda>c. c \<noteq> exclude) (members X workspaceID h)) h"

definition sendToClient :: "HubContext \<Rightarrow> time \<Rightarrow> address \<Rightarrow> Event \<Rightarrow> hub_act" where
  "sendToClient X now c event = send (event_data X now event) c"

text \<open>\<open>WritePump\<close> takes one message off the channel; \<open>None\<close> when it is closed and empty, where the pump returns.\<close>

definition take_message :: "address \<Rightarrow> Hub \<Rightarrow> string option \<times> Hub" where
  "take_message c h = (case hb_objects h c of
     None \<Rightarrow> (None, h)
   | Some client \<Rightarrow> (case cl_send client of
       [] \<Rightarrow> (None, h) | m # ms \<Rightarrow> (Some m, set_client c (client\<lparr>cl_send := ms\<rparr>) h)))"

section \<open>Presence\<close>

definition GetIssueViewers :: "HubContext \<Rightarrow> uuid \<Rightarrow> string \<Rightarrow> address \<Rightarrow> Hub \<Rightarrow> uuid list" where
  "GetIssueViewers X workspaceID issueID exclude h =
     concat (map (\<lambda>c. case hb_objects h c of None \<Rightarrow> []
       | Some client \<Rightarrow> if cl_viewingIssue client = issueID \<and> c \<noteq> exclude then [cl_userID client] else [])
       (members X workspaceID h))"

definition presence_event :: "string \<Rightarrow> string \<Rightarrow> uuid \<Rightarrow> Event" where
  "presence_event kind issueID userID = \<lparr>he_Type = kind, he_Timestamp = 0,
     he_Payload = JObject [(''issue_id'', JString issueID), (''user_id'', JString (uuid_String userID))]\<rparr>"

definition sync_event :: "string \<Rightarrow> uuid list \<Rightarrow> Event" where
  "sync_event issueID viewers = \<lparr>he_Type = ''presence.sync'', he_Timestamp = 0,
     he_Payload = JObject [(''issue_id'', JString issueID),
       (''users'', JArray (map (\<lambda>u. JString (uuid_String u)) viewers))]\<rparr>"

definition set_viewing :: "address \<Rightarrow> string \<Rightarrow> Hub \<Rightarrow> Hub" where
  "set_viewing c issueID h = (case hb_objects h c of
     None \<Rightarrow> h | Some client \<Rightarrow> set_client c (client\<lparr>cl_viewingIssue := issueID\<rparr>) h)"

definition handlePresenceLeave :: "HubContext \<Rightarrow> time \<Rightarrow> address \<Rightarrow> hub_act" where
  "handlePresenceLeave X now c h = (case hb_objects h c of
     None \<Rightarrow> (h, True)
   | Some client \<Rightarrow>
       if cl_viewingIssue client = [] then (h, False)
       else BroadcastExcluding X now (cl_workspaceID client) c
         (presence_event ''presence.leave'' (cl_viewingIssue client) (cl_userID client)) (set_viewing c [] h))"

definition handlePresenceJoin :: "HubContext \<Rightarrow> time \<Rightarrow> address \<Rightarrow> string \<Rightarrow> hub_act" where
  "handlePresenceJoin X now c issueID h = (case hb_objects h c of
     None \<Rightarrow> (h, True)
   | Some client \<Rightarrow>
       andThen (if cl_viewingIssue client \<noteq> [] \<and> cl_viewingIssue client \<noteq> issueID
         then handlePresenceLeave X now c else nothing)
       (\<lambda>h1. andThen (BroadcastExcluding X now (cl_workspaceID client) c
           (presence_event ''presence.join'' issueID (cl_userID client)))
         (\<lambda>h2. sendToClient X now c
           (sync_event issueID (GetIssueViewers X (cl_workspaceID client) issueID c h2)) h2)
         (set_viewing c issueID h1)) h)"

section \<open>Messages of a client\<close>

text \<open>
  \<open>json.Unmarshal\<close> into a field of a struct: members match by name or up to case, the last one counts;
  \<open>null\<close> leaves the field as it is, and a value of another type is an error reported at the end.
\<close>

definition field_matches :: "HubContext \<Rightarrow> string \<Rightarrow> string \<Rightarrow> bool" where
  "field_matches X name key \<longleftrightarrow> key = name \<or> hx_equal_fold X key name"

definition string_field :: "HubContext \<Rightarrow> string \<Rightarrow> (string \<times> json) list \<Rightarrow> string \<times> bool" where
  "string_field X name ms = foldl (\<lambda>(s, ok) (k, v). if \<not> field_matches X name k then (s, ok)
     else (case v of JString t \<Rightarrow> (t, ok) | JNull \<Rightarrow> (s, ok) | _ \<Rightarrow> (s, False))) ([], True) ms"

definition float_field :: "HubContext \<Rightarrow> string \<Rightarrow> (string \<times> json) list \<Rightarrow> string \<times> bool" where
  "float_field X name ms = foldl (\<lambda>(s, ok) (k, v). if \<not> field_matches X name k then (s, ok)
     else (case v of JNumber t \<Rightarrow> (case hx_float X t of Some x \<Rightarrow> (x, ok) | None \<Rightarrow> (s, False))
       | JNull \<Rightarrow> (s, ok) | _ \<Rightarrow> (s, False))) (''0'', True) ms"

definition raw_field :: "HubContext \<Rightarrow> string \<Rightarrow> (string \<times> json) list \<Rightarrow> json option" where
  "raw_field X name ms = foldl (\<lambda>r (k, v). if field_matches X name k then Some v else r) None ms"

text \<open>A value decoded into \<open>any\<close>: numbers become floats, of equal keys the last one counts.\<close>

fun any_value :: "HubContext \<Rightarrow> json \<Rightarrow> json option" where
  "any_value X (JNumber s) = map_option JNumber (hx_float X s)"
| "any_value X (JArray vs) = map_option JArray (those (map (any_value X) vs))"
| "any_value X (JObject ms) = map_option (\<lambda>vs. JObject (foldl (\<lambda>r (k, v). put_member k v r) [] (zip (map fst ms) vs)))
     (those (map (\<lambda>(k, v). any_value X v) ms))"
| "any_value X v = Some v"

text \<open>The members of a payload decoded into a struct; the zero value for \<open>null\<close>.\<close>

definition payload_members :: "json option \<Rightarrow> (string \<times> json) list option" where
  "payload_members payload = (case payload of
     Some (JObject ms) \<Rightarrow> Some ms | Some JNull \<Rightarrow> Some [] | _ \<Rightarrow> None)"

definition presence_issue :: "HubContext \<Rightarrow> json option \<Rightarrow> string option" where
  "presence_issue X payload = Option.bind (payload_members payload) (\<lambda>ms.
     case string_field X ''issue_id'' ms of (s, ok) \<Rightarrow> if ok \<and> s \<noteq> [] then Some s else None)"

definition cursor_event :: "HubContext \<Rightarrow> Client \<Rightarrow> json option \<Rightarrow> Event option" where
  "cursor_event X client payload = Option.bind (payload_members payload) (\<lambda>ms.
     case (string_field X ''issue_id'' ms, float_field X ''x'' ms, float_field X ''y'' ms) of
       ((s, ok1), (x, ok2), (y, ok3)) \<Rightarrow>
         if ok1 \<and> ok2 \<and> ok3 \<and> s \<noteq> []
         then Some \<lparr>he_Type = ''cursor.move'', he_Timestamp = 0, he_Payload = JObject [(''issue_id'', JString s),
           (''user_id'', JString (uuid_String (cl_userID client))), (''x'', JNumber x), (''y'', JNumber y)]\<rparr>
         else None)"

text \<open>A focus event is relayed with the user's identifier. \<open>null\<close> is a nil map, an assignment to which panics.\<close>

definition relayFocus :: "HubContext \<Rightarrow> time \<Rightarrow> string \<Rightarrow> address \<Rightarrow> Client \<Rightarrow> json option \<Rightarrow> hub_act" where
  "relayFocus X now kind c client payload h = (case payload of
     Some JNull \<Rightarrow> (h, True)
   | Some (JObject ms) \<Rightarrow> (case any_value X (JObject ms) of
       Some (JObject raw) \<Rightarrow> BroadcastExcluding X now (cl_workspaceID client) c
         \<lparr>he_Type = kind, he_Timestamp = 0,
          he_Payload = JObject (put_member ''user_id'' (JString (uuid_String (cl_userID client))) raw)\<rparr> h
     | _ \<Rightarrow> (h, False))
   | _ \<Rightarrow> (h, False))"

text \<open>One pass of the loop of \<open>ReadPump\<close>.\<close>

definition incoming :: "HubContext \<Rightarrow> string \<Rightarrow> (string \<times> json option) option" where
  "incoming X data = Option.bind (Option.bind (decode data) (\<lambda>v. payload_members (Some v))) (\<lambda>ms.
     case string_field X ''type'' ms of (kind, ok) \<Rightarrow>
       if ok then Some (kind, raw_field X ''payload'' ms) else None)"

definition handle_message :: "HubContext \<Rightarrow> time \<Rightarrow> address \<Rightarrow> string \<Rightarrow> hub_act" where
  "handle_message X now c data h = (case hb_objects h c of
     None \<Rightarrow> (h, True)
   | Some client \<Rightarrow> (case incoming X data of
       None \<Rightarrow> (h, False)
     | Some (kind, payload) \<Rightarrow>
         if kind = ''presence.join'' then (case presence_issue X payload of
             None \<Rightarrow> (h, False) | Some issueID \<Rightarrow> handlePresenceJoin X now c issueID h)
         else if kind = ''presence.leave'' then handlePresenceLeave X now c h
         else if kind = ''cursor.move'' then (case cursor_event X client payload of
             None \<Rightarrow> (h, False) | Some event \<Rightarrow> BroadcastExcluding X now (cl_workspaceID client) c event h)
         else if kind = ''focus.update'' \<or> kind = ''focus.leave''
         then relayFocus X now kind c client payload h
         else (h, False)))"

text \<open>
  The end of a connection: the deferred calls of \<open>ReadPump\<close> and of the handler. A panic of a message ends
  the connection like a read error; the server's middleware recovers from it.
\<close>

definition disconnect :: "HubContext \<Rightarrow> time \<Rightarrow> address \<Rightarrow> hub_act" where
  "disconnect X now c = deferred (handlePresenceLeave X now c) (Unregister c)"

text \<open>\<open>ReadPump\<close> and the handler around it, on the messages read before the connection ends.\<close>

fun ReadPump :: "HubContext \<Rightarrow> time \<Rightarrow> address \<Rightarrow> string list \<Rightarrow> hub_act" where
  "ReadPump X now c [] = nothing"
| "ReadPump X now c (data # rest) = andThen (handle_message X now c data) (ReadPump X now c rest)"

definition Handle :: "HubContext \<Rightarrow> time \<Rightarrow> uuid \<Rightarrow> uuid \<Rightarrow> string list \<Rightarrow> hub_act" where
  "Handle X now workspaceID userID messages h = (case Register workspaceID userID h of
     (c, h1) \<Rightarrow> deferred (ReadPump X now c messages) (disconnect X now c) h1)"

end
