(* ===== verification/Hub_Properties.thy ===== *)
theory Hub_Properties
  imports "HOL-Library.Multiset" Realtime_Hub
begin

text \<open>
  The hub against its specification, a set of open connections: the two-level map, the addresses and the
  closed channels of \<open>Realtime_Hub\<close> implement it, as long as an operation is not interrupted. The last
  section interrupts one.
\<close>

section \<open>Specification\<close>

type_synonym connections = "address \<Rightarrow> Client option"

definition deliver :: "(address \<Rightarrow> Client \<Rightarrow> bool) \<Rightarrow> string \<Rightarrow> connections \<Rightarrow> connections" where
  "deliver P data m = (\<lambda>c. map_option (\<lambda>cl. if P c cl then offer data cl else cl) (m c))"

definition new_client :: "uuid \<Rightarrow> uuid \<Rightarrow> Client" where
  "new_client ws u = \<lparr>cl_workspaceID = ws, cl_userID = u, cl_send = [], cl_closed = False, cl_viewingIssue = []\<rparr>"

definition others :: "address \<Rightarrow> uuid \<Rightarrow> address \<Rightarrow> Client \<Rightarrow> bool" where
  "others c ws = (\<lambda>c' cl. c' \<noteq> c \<and> cl_workspaceID cl = ws)"

definition spec_leave :: "HubContext \<Rightarrow> time \<Rightarrow> address \<Rightarrow> Client \<Rightarrow> connections \<Rightarrow> connections" where
  "spec_leave X now c cl m = (if cl_viewingIssue cl = [] then m
     else deliver (others c (cl_workspaceID cl))
       (event_data X now (presence_event ''presence.leave'' (cl_viewingIssue cl) (cl_userID cl)))
       (m(c \<mapsto> cl\<lparr>cl_viewingIssue := []\<rparr>)))"

text \<open>Who else looks at the issue, in some order.\<close>

definition viewers_listed :: "connections \<Rightarrow> uuid \<Rightarrow> string \<Rightarrow> address \<Rightarrow> uuid list \<Rightarrow> bool" where
  "viewers_listed m ws issueID c users \<longleftrightarrow> (\<exists>cs. distinct cs
     \<and> set cs = {c'. \<exists>cl. m c' = Some cl \<and> others c ws c' cl \<and> cl_viewingIssue cl = issueID}
     \<and> users = map (\<lambda>c'. cl_userID (the (m c'))) cs)"

definition spec_enter :: "HubContext \<Rightarrow> time \<Rightarrow> address \<Rightarrow> Client \<Rightarrow> string \<Rightarrow> connections \<Rightarrow> connections" where
  "spec_enter X now c cl issueID m =
     deliver (others c (cl_workspaceID cl)) (event_data X now (presence_event ''presence.join'' issueID (cl_userID cl)))
       (m(c \<mapsto> cl\<lparr>cl_viewingIssue := issueID\<rparr>))"

text \<open>What a message asks for, and the operations from outside.\<close>

datatype request = Join string | Leave | Relay Event | Ignore | Fault

definition request_of :: "HubContext \<Rightarrow> Client \<Rightarrow> string \<Rightarrow> request" where
  "request_of X client data = (case incoming X data of None \<Rightarrow> Ignore
     | Some (kind, payload) \<Rightarrow>
         if kind = ''presence.join'' then (case presence_issue X payload of None \<Rightarrow> Ignore | Some i \<Rightarrow> Join i)
         else if kind = ''presence.leave'' then Leave
         else if kind = ''cursor.move'' then (case cursor_event X client payload of None \<Rightarrow> Ignore | Some e \<Rightarrow> Relay e)
         else if kind = ''focus.update'' \<or> kind = ''focus.leave'' then (case payload of
             Some JNull \<Rightarrow> Fault
           | Some (JObject ms) \<Rightarrow> (case any_value X (JObject ms) of
               Some (JObject raw) \<Rightarrow> Relay \<lparr>he_Type = kind, he_Timestamp = 0,
                 he_Payload = JObject (put_member ''user_id'' (JString (uuid_String (cl_userID client))) raw)\<rparr>
             | _ \<Rightarrow> Ignore)
           | _ \<Rightarrow> Ignore)
         else Ignore)"

datatype hub_op = Connect uuid uuid | Say address string | Hangup address | Publish uuid Event
  | PublishTo uuid uuid Event | WriteOut address

definition say :: "HubContext \<Rightarrow> time \<Rightarrow> address \<Rightarrow> string \<Rightarrow> hub_act" where
  "say X now c data h = (case handle_message X now c data h of
     (h', panicked) \<Rightarrow> if panicked then (fst (disconnect X now c h'), True) else (h', False))"

fun hub_run :: "HubContext \<Rightarrow> time \<Rightarrow> hub_op \<Rightarrow> hub_act" where
  "hub_run X now (Connect ws u) h = (snd (Register ws u h), False)"
| "hub_run X now (Say c data) h = say X now c data h"
| "hub_run X now (Hangup c) h = disconnect X now c h"
| "hub_run X now (Publish ws event) h = Broadcast X now ws event h"
| "hub_run X now (PublishTo ws u event) h = BroadcastToUser X now ws u event h"
| "hub_run X now (WriteOut c) h = (snd (take_message c h), False)"

text \<open>A message or the end of a connection comes from one that is open; a faulty message ends it.\<close>

inductive spec_step :: "HubContext \<Rightarrow> time \<Rightarrow> hub_op \<Rightarrow> connections \<Rightarrow> bool \<Rightarrow> connections \<Rightarrow> bool"
  for X now where
  connect: "m c = None \<Longrightarrow> spec_step X now (Connect ws u) m False (m(c \<mapsto> new_client ws u))"
| hangup: "m c = Some cl \<Longrightarrow> spec_step X now (Hangup c) m False ((spec_leave X now c cl m)(c := None))"
| publish: "spec_step X now (Publish ws e) m False (deliver (\<lambda>_ cl. cl_workspaceID cl = ws) (event_data X now e) m)"
| publish_to: "spec_step X now (PublishTo ws u e) m False
    (deliver (\<lambda>_ cl. cl_workspaceID cl = ws \<and> cl_userID cl = u) (event_data X now e) m)"
| write_out: "m c = Some cl \<Longrightarrow> spec_step X now (WriteOut c) m False (m(c \<mapsto> cl\<lparr>cl_send := tl (cl_send cl)\<rparr>))"
| leave: "m c = Some cl \<Longrightarrow> request_of X cl data = Leave \<Longrightarrow>
    spec_step X now (Say c data) m False (spec_leave X now c cl m)"
| join: "m c = Some cl \<Longrightarrow> request_of X cl data = Join i \<Longrightarrow>
    m1 = (if cl_viewingIssue cl \<noteq> i then spec_leave X now c cl m else m) \<Longrightarrow> m1 c = Some cl1 \<Longrightarrow>
    m2 = spec_enter X now c cl1 i m1 \<Longrightarrow> viewers_listed m2 (cl_workspaceID cl) i c users \<Longrightarrow>
    spec_step X now (Say c data) m False
      (deliver (\<lambda>c' _. c' = c) (event_data X now (sync_event i users)) m2)"
| relay: "m c = Some cl \<Longrightarrow> request_of X cl data = Relay e \<Longrightarrow>
    spec_step X now (Say c data) m False (deliver (others c (cl_workspaceID cl)) (event_data X now e) m)"
| ignored: "m c = Some cl \<Longrightarrow> request_of X cl data = Ignore \<Longrightarrow> spec_step X now (Say c data) m False m"
| fault: "m c = Some cl \<Longrightarrow> request_of X cl data = Fault \<Longrightarrow>
    spec_step X now (Say c data) m True ((spec_leave X now c cl m)(c := None))"

section \<open>Abstraction and invariant\<close>

definition open_connections :: "Hub \<Rightarrow> connections" where
  "open_connections h = (\<lambda>c. case hb_objects h c of None \<Rightarrow> None
     | Some client \<Rightarrow> if cl_closed client then None else Some client)"

definition connected_to :: "Hub \<Rightarrow> uuid \<Rightarrow> address set" where
  "connected_to h ws = {c. \<exists>cl. open_connections h c = Some cl \<and> cl_workspaceID cl = ws}"

text \<open>The rooms hold the open connections, each in the room of its workspace; no room is shared or empty.\<close>

definition hub_ok :: "Hub \<Rightarrow> bool" where
  "hub_ok h \<longleftrightarrow>
     (\<forall>ws room. hb_clients h ws = Some room \<longrightarrow> room < hb_next h \<and> distinct (hb_rooms h room) \<and> hb_rooms h room \<noteq> []
        \<and> set (hb_rooms h room) = connected_to h ws)
   \<and> (\<forall>ws. hb_clients h ws = None \<longrightarrow> connected_to h ws = {})
   \<and> (\<forall>ws ws' room. hb_clients h ws = Some room \<longrightarrow> hb_clients h ws' = Some room \<longrightarrow> ws = ws')
   \<and> (\<forall>c. hb_objects h c \<noteq> None \<longrightarrow> c < hb_next h)
   \<and> (\<forall>c cl. open_connections h c = Some cl \<longrightarrow> length (cl_send cl) \<le> sendBuffer)"


text \<open>Changes of clients that leave the map alone.\<close>

definition same_rooms :: "Hub \<Rightarrow> Hub \<Rightarrow> bool" where
  "same_rooms h h' \<longleftrightarrow> hb_clients h' = hb_clients h \<and> hb_rooms h' = hb_rooms h \<and> hb_next h' = hb_next h
     \<and> (\<forall>c. hb_objects h' c = None \<longleftrightarrow> hb_objects h c = None)"

lemma same_rooms_refl [simp]: "same_rooms h h"
  by (simp add: same_rooms_def)

lemma same_rooms_trans: "same_rooms h h' \<Longrightarrow> same_rooms h' h'' \<Longrightarrow> same_rooms h h''"
  by (simp add: same_rooms_def)

lemma open_simps:
  "open_connections h c = Some cl \<longleftrightarrow> hb_objects h c = Some cl \<and> \<not> cl_closed cl"
  by (auto simp: open_connections_def split: option.split if_splits)

lemma open_set_client:
  "\<not> cl_closed cl \<Longrightarrow> open_connections (set_client c cl h) = (open_connections h)(c \<mapsto> cl)"
  by (auto simp: open_connections_def set_client_def)

lemma same_rooms_set_client: "hb_objects h c \<noteq> None \<Longrightarrow> same_rooms h (set_client c cl h)"
  by (simp add: same_rooms_def set_client_def)

lemma ok_same_rooms:
  assumes "hub_ok h" and "same_rooms h h'"
    and "\<And>c. map_option cl_workspaceID (open_connections h' c) = map_option cl_workspaceID (open_connections h c)"
    and "\<And>c cl. open_connections h' c = Some cl \<Longrightarrow> length (cl_send cl) \<le> sendBuffer"
  shows "hub_ok h'"
proof -
  have "(\<exists>cl. open_connections h' c = Some cl \<and> cl_workspaceID cl = ws)
      \<longleftrightarrow> (\<exists>cl. open_connections h c = Some cl \<and> cl_workspaceID cl = ws)" for c ws
    using assms(3) [of c] by (cases "open_connections h' c"; cases "open_connections h c") auto
  then have "connected_to h' = connected_to h" by (simp add: connected_to_def fun_eq_iff)
  with assms(1,2) have "hub_ok h' \<longleftrightarrow> (\<forall>c cl. open_connections h' c = Some cl \<longrightarrow> length (cl_send cl) \<le> sendBuffer)"
    unfolding hub_ok_def same_rooms_def by simp
  with assms(4) show ?thesis by blast
qed

lemma offer_simps [simp]: "cl_workspaceID (offer data cl) = cl_workspaceID cl" "cl_userID (offer data cl) = cl_userID cl"
  "cl_closed (offer data cl) = cl_closed cl" "cl_viewingIssue (offer data cl) = cl_viewingIssue cl"
  "length (cl_send cl) \<le> sendBuffer \<Longrightarrow> length (cl_send (offer data cl)) \<le> sendBuffer"
  by (simp_all add: offer_def)

lemma deliver_Some: "deliver P data m c = Some cl' \<longleftrightarrow> (\<exists>cl. m c = Some cl \<and> cl' = (if P c cl then offer data cl else cl))"
  unfolding deliver_def map_option_eq_Some by (simp only: eq_commute)

lemma send_each_delivers:
  "distinct cs \<Longrightarrow> \<forall>c \<in> set cs. open_connections h c \<noteq> None \<Longrightarrow>
    \<exists>h'. send_each data cs h = (h', False) \<and> same_rooms h h'
      \<and> open_connections h' = deliver (\<lambda>c _. c \<in> set cs) data (open_connections h)"
proof (induction cs arbitrary: h)
  case Nil
  show ?case by (simp add: nothing_def deliver_def map_option.id [unfolded id_def])
next
  case (Cons c cs)
  from Cons.prems(2) obtain cl where cl: "hb_objects h c = Some cl" "\<not> cl_closed cl" by (auto simp: open_simps)
  let ?h = "set_client c (offer data cl) h"
  have abs: "open_connections ?h = (open_connections h)(c \<mapsto> offer data cl)" using cl(2) by (simp add: open_set_client)
  have "\<forall>c \<in> set cs. open_connections ?h c \<noteq> None" using Cons.prems(2) by (simp add: abs)
  with Cons.IH [OF _ this] Cons.prems(1) obtain h' where h': "send_each data cs ?h = (h', False)" "same_rooms ?h h'"
    "open_connections h' = deliver (\<lambda>c _. c \<in> set cs) data (open_connections ?h)"
    by auto
  have "send_each data (c # cs) h = (h', False)" using h'(1) cl by (simp add: andThen_def send_def)
  moreover have "same_rooms h h'" using same_rooms_trans [OF same_rooms_set_client h'(2)] cl(1) by simp
  moreover have "open_connections h' = deliver (\<lambda>c' _. c' \<in> set (c # cs)) data (open_connections h)"
    using Cons.prems(1) cl open_simps [of h c cl] by (auto simp: fun_eq_iff h'(3) abs deliver_def)
  ultimately show ?case by blast
qed

lemma ok_room:
  assumes "hub_ok h" and "\<And>xs. mset (hx_order X xs) = mset xs"
  shows "distinct (members X ws h)"
    and "set (members X ws h) = connected_to h ws"
proof -
  have order: "set (hx_order X xs) = set xs" "distinct (hx_order X xs) = distinct xs" for xs
    using assms(2) [of xs] by (metis set_mset_mset, metis mset_eq_imp_distinct_iff)
  show "distinct (members X ws h)"
    and "set (members X ws h) = connected_to h ws"
    using assms(1) by (cases "hb_clients h ws"; simp add: members_def order hub_ok_def)+
qed

text \<open>Sending to the members of a room that satisfy a condition is a delivery, and keeps the hub in order.\<close>

lemma send_room:
  assumes "hub_ok h" and "\<And>xs. mset (hx_order X xs) = mset xs"
    and "\<And>c cl. open_connections h c = Some cl \<Longrightarrow> cl_workspaceID cl = ws \<Longrightarrow> Q c = P c cl"
  obtains h' where "send_each data (filter Q (members X ws h)) h = (h', False)"
    and "open_connections h' = deliver (\<lambda>c cl. cl_workspaceID cl = ws \<and> P c cl) data (open_connections h)"
    and "same_rooms h h'" and "hub_ok h'"
proof -
  note room = ok_room [of h X ws, OF assms(1,2)]
  obtain h' where h': "send_each data (filter Q (members X ws h)) h = (h', False)" "same_rooms h h'"
    "open_connections h' = deliver (\<lambda>c _. c \<in> set (filter Q (members X ws h))) data (open_connections h)"
    using send_each_delivers [of "filter Q (members X ws h)" h data] room by (auto simp: connected_to_def)
  have abs: "open_connections h' = deliver (\<lambda>c cl. cl_workspaceID cl = ws \<and> P c cl) data (open_connections h)"
  proof
    fix c
    show "open_connections h' c = deliver (\<lambda>c cl. cl_workspaceID cl = ws \<and> P c cl) data (open_connections h) c"
      using assms(3) [of c] by (cases "open_connections h c") (auto simp: h'(3) deliver_def room(2) connected_to_def)
  qed
  have "hub_ok h'"
  proof (rule ok_same_rooms [OF assms(1) h'(2)])
    show "map_option cl_workspaceID (open_connections h' c) = map_option cl_workspaceID (open_connections h c)" for c
      by (cases "open_connections h c") (simp_all add: abs deliver_def)
    show "length (cl_send cl) \<le> sendBuffer" if "open_connections h' c = Some cl" for c cl
      using that assms(1) by (auto simp: abs deliver_Some hub_ok_def)
  qed
  with that h' abs show ?thesis by blast
qed


section \<open>The operations\<close>

lemma ok_update:
  assumes "hub_ok h" and "open_connections h c = Some cl" and "\<not> cl_closed cl'"
    and "cl_workspaceID cl' = cl_workspaceID cl" and "length (cl_send cl') \<le> sendBuffer"
  shows "hub_ok (set_client c cl' h)" and "open_connections (set_client c cl' h) = (open_connections h)(c \<mapsto> cl')"
proof -
  show abs: "open_connections (set_client c cl' h) = (open_connections h)(c \<mapsto> cl')"
    using assms(3) by (rule open_set_client)
  have object: "hb_objects h c \<noteq> None" using assms(2) by (simp add: open_simps)
  show "hub_ok (set_client c cl' h)"
  proof (rule ok_same_rooms [OF assms(1) same_rooms_set_client])
    show "hb_objects h c \<noteq> None" by (rule object)
    show "map_option cl_workspaceID (open_connections (set_client c cl' h) a)
        = map_option cl_workspaceID (open_connections h a)" for a
      using assms(2,4) by (simp add: abs)
    show "length (cl_send x) \<le> sendBuffer" if "open_connections (set_client c cl' h) a = Some x" for a x
      using that assms(1,5) unfolding abs hub_ok_def by (cases "a = c") auto
  qed
qed

lemma Broadcast_delivers:
  assumes "hub_ok h" and "\<And>xs. mset (hx_order X xs) = mset xs"
  shows "\<exists>h'. Broadcast X now ws e h = (h', False) \<and> hub_ok h'
      \<and> open_connections h' = deliver (\<lambda>_ cl. cl_workspaceID cl = ws) (event_data X now e) (open_connections h)"
    and "\<exists>h'. BroadcastToUser X now ws u e h = (h', False) \<and> hub_ok h'
      \<and> open_connections h' = deliver (\<lambda>_ cl. cl_workspaceID cl = ws \<and> cl_userID cl = u) (event_data X now e) (open_connections h)"
    and "\<exists>h'. BroadcastExcluding X now ws c e h = (h', False) \<and> hub_ok h' \<and> same_rooms h h'
      \<and> open_connections h' = deliver (others c ws) (event_data X now e) (open_connections h)"
proof -
  have order: "mset (hx_order X xs) = mset xs" for xs by (rule assms(2))
  obtain h' where "send_each (event_data X now e) (filter (\<lambda>_. True) (members X ws h)) h = (h', False)" "hub_ok h'"
    "open_connections h' = deliver (\<lambda>c cl. cl_workspaceID cl = ws \<and> True) (event_data X now e) (open_connections h)"
    by (rule send_room [of h X ws "\<lambda>_. True" "\<lambda>_ _. True", OF assms(1) order]) simp_all
  then show "\<exists>h'. Broadcast X now ws e h = (h', False) \<and> hub_ok h'
      \<and> open_connections h' = deliver (\<lambda>_ cl. cl_workspaceID cl = ws) (event_data X now e) (open_connections h)"
    by (simp add: Broadcast_def)
  obtain h' where "send_each (event_data X now e) (filter (has_user u h) (members X ws h)) h = (h', False)" "hub_ok h'"
    "open_connections h' = deliver (\<lambda>c cl. cl_workspaceID cl = ws \<and> cl_userID cl = u) (event_data X now e) (open_connections h)"
    by (rule send_room [of h X ws "has_user u h" "\<lambda>_ cl. cl_userID cl = u", OF assms(1) order])
      (simp_all add: has_user_def open_simps)
  then show "\<exists>h'. BroadcastToUser X now ws u e h = (h', False) \<and> hub_ok h'
      \<and> open_connections h' = deliver (\<lambda>_ cl. cl_workspaceID cl = ws \<and> cl_userID cl = u) (event_data X now e) (open_connections h)"
    by (simp add: BroadcastToUser_def)
  obtain h' where "send_each (event_data X now e) (filter (\<lambda>c'. c' \<noteq> c) (members X ws h)) h = (h', False)" "hub_ok h'"
    "same_rooms h h'"
    "open_connections h' = deliver (\<lambda>c' cl. cl_workspaceID cl = ws \<and> c' \<noteq> c) (event_data X now e) (open_connections h)"
    by (rule send_room [of h X ws "\<lambda>c'. c' \<noteq> c" "\<lambda>c' _. c' \<noteq> c", OF assms(1) order]) simp_all
  then show "\<exists>h'. BroadcastExcluding X now ws c e h = (h', False) \<and> hub_ok h' \<and> same_rooms h h'
      \<and> open_connections h' = deliver (others c ws) (event_data X now e) (open_connections h)"
    by (simp add: BroadcastExcluding_def others_def conj_commute)
qed

lemma set_viewing_update:
  assumes "hub_ok h" and "open_connections h c = Some cl"
  shows "hub_ok (set_viewing c i h)"
    and "open_connections (set_viewing c i h) = (open_connections h)(c \<mapsto> cl\<lparr>cl_viewingIssue := i\<rparr>)"
proof -
  have "set_viewing c i h = set_client c (cl\<lparr>cl_viewingIssue := i\<rparr>) h"
    using assms(2) by (simp add: set_viewing_def open_simps)
  moreover have "\<not> cl_closed cl" "length (cl_send cl) \<le> sendBuffer"
    using assms unfolding hub_ok_def open_simps by blast+
  ultimately show "hub_ok (set_viewing c i h)"
    and "open_connections (set_viewing c i h) = (open_connections h)(c \<mapsto> cl\<lparr>cl_viewingIssue := i\<rparr>)"
    using ok_update [OF assms, of "cl\<lparr>cl_viewingIssue := i\<rparr>"] by simp_all
qed

lemma Leave_delivers:
  assumes "hub_ok h" and "\<And>xs. mset (hx_order X xs) = mset xs" and "open_connections h c = Some cl"
  shows "\<exists>h'. handlePresenceLeave X now c h = (h', False) \<and> hub_ok h'
    \<and> open_connections h' = spec_leave X now c cl (open_connections h)"
proof -
  have order: "mset (hx_order X xs) = mset xs" for xs by (rule assms(2))
  let ?e = "presence_event ''presence.leave'' (cl_viewingIssue cl) (cl_userID cl)"
  note viewing = set_viewing_update [OF assms(1,3), of "[]"]
  obtain h' where "BroadcastExcluding X now (cl_workspaceID cl) c ?e (set_viewing c [] h) = (h', False)" "hub_ok h'"
    "open_connections h' = deliver (others c (cl_workspaceID cl)) (event_data X now ?e)
      ((open_connections h)(c \<mapsto> cl\<lparr>cl_viewingIssue := []\<rparr>))"
    using Broadcast_delivers(3) [of "set_viewing c [] h" X, OF viewing(1) order] viewing(2) by force
  then show ?thesis
    using assms(1,3) by (cases "cl_viewingIssue cl = []") (simp_all add: handlePresenceLeave_def open_simps spec_leave_def)
qed

lemma Unregister_removes:
  assumes "hub_ok h" and "open_connections h c = Some cl"
  shows "\<exists>h'. Unregister c h = (h', False) \<and> hub_ok h' \<and> open_connections h' = (open_connections h)(c := None)"
proof -
  have cl: "hb_objects h c = Some cl" "\<not> cl_closed cl" using assms(2) by (simp_all add: open_simps)
  let ?ws = "cl_workspaceID cl"
  have member: "c \<in> connected_to h ?ws" using assms(2) by (auto simp: connected_to_def)
  then obtain room where room: "hb_clients h ?ws = Some room" "distinct (hb_rooms h room)"
    "set (hb_rooms h room) = connected_to h ?ws"
    using assms(1) unfolding hub_ok_def by (metis empty_iff not_None_eq)
  let ?h1 = "leave_room c cl h"
  let ?h = "set_client c (cl\<lparr>cl_closed := True\<rparr>) ?h1"
  have h1: "hb_objects ?h1 = hb_objects h" "hb_next ?h1 = hb_next h" by (simp_all add: leave_room_def room Let_def)
  have run: "Unregister c h = (?h, False)" using cl by (simp add: Unregister_def close_send_def h1)
  have abs: "open_connections ?h = (open_connections h)(c := None)"
    by (auto simp: open_connections_def set_client_def h1)
  have left: "connected_to ?h ws = connected_to h ws - {c}" for ws
    by (auto simp: connected_to_def abs split: if_splits)
  have stays: "connected_to h ws - {c} = connected_to h ws" if "ws \<noteq> ?ws" for ws
    using that assms(2) by (auto simp: connected_to_def)
  let ?members = "remove1 c (hb_rooms h room)"
  have members: "set ?members = connected_to h ?ws - {c}" "distinct ?members" using room(2,3) by simp_all
  have clients: "hb_clients ?h = (if ?members = [] then (hb_clients h)(?ws := None) else hb_clients h)"
    and rooms: "hb_rooms ?h = (hb_rooms h)(room := ?members)"
    and next_room: "hb_next ?h = hb_next h"
    by (simp_all add: set_client_def leave_room_def room Let_def)
  have alone: "r \<noteq> room" if "hb_clients h ws = Some r" "ws \<noteq> ?ws" for ws r
    using that room(1) assms(1) unfolding hub_ok_def by blast
  have "\<forall>ws r. hb_clients ?h ws = Some r \<longrightarrow> r < hb_next ?h \<and> distinct (hb_rooms ?h r) \<and> hb_rooms ?h r \<noteq> []
      \<and> set (hb_rooms ?h r) = connected_to ?h ws"
  proof (intro allI impI)
    fix ws r assume r: "hb_clients ?h ws = Some r"
    then have old: "hb_clients h ws = Some r" by (auto simp: clients split: if_splits)
    then have ok: "r < hb_next h" "distinct (hb_rooms h r)" "hb_rooms h r \<noteq> []" "set (hb_rooms h r) = connected_to h ws"
      using assms(1) unfolding hub_ok_def by blast+
    show "r < hb_next ?h \<and> distinct (hb_rooms ?h r) \<and> hb_rooms ?h r \<noteq> [] \<and> set (hb_rooms ?h r) = connected_to ?h ws"
    proof (cases "ws = ?ws")
      case True
      then have "r = room" "?members \<noteq> []" using r room(1) by (auto simp: clients split: if_splits)
      then show ?thesis using True ok members by (simp add: rooms left next_room)
    next
      case False
      then show ?thesis using alone [OF old False] ok stays [OF False] by (simp add: rooms left next_room)
    qed
  qed
  moreover have "\<forall>ws. hb_clients ?h ws = None \<longrightarrow> connected_to ?h ws = {}"
  proof (intro allI impI)
    fix ws assume gone: "hb_clients ?h ws = None"
    show "connected_to ?h ws = {}"
    proof (cases "ws = ?ws")
      case True
      then have "?members = []" using gone room(1) by (auto simp: clients split: if_splits)
      then show ?thesis using True members(1) by (simp add: left)
    next
      case False
      then have "hb_clients h ws = None" using gone by (auto simp: clients split: if_splits)
      then show ?thesis using assms(1) unfolding left hub_ok_def by blast
    qed
  qed
  moreover have "\<forall>ws ws' r. hb_clients ?h ws = Some r \<longrightarrow> hb_clients ?h ws' = Some r \<longrightarrow> ws = ws'"
    using assms(1) unfolding clients hub_ok_def by (auto split: if_splits)
  moreover have "\<forall>c'. hb_objects ?h c' \<noteq> None \<longrightarrow> c' < hb_next ?h"
    using assms(1) cl(1) by (auto simp: set_client_def h1 hub_ok_def)
  moreover have "\<forall>c' cl'. open_connections ?h c' = Some cl' \<longrightarrow> length (cl_send cl') \<le> sendBuffer"
    using assms(1) by (auto simp: abs hub_ok_def)
  ultimately have "hub_ok ?h" unfolding hub_ok_def by blast
  with run abs show ?thesis by blast
qed


lemma Register_adds:
  assumes "hub_ok h"
  shows "hub_ok (snd (Register ws u h))" and "open_connections h (hb_next h) = None"
    and "open_connections (snd (Register ws u h)) = (open_connections h)(hb_next h \<mapsto> new_client ws u)"
proof -
  let ?c = "hb_next h" and ?h = "snd (Register ws u h)"
  let ?room = "case hb_clients h ws of None \<Rightarrow> hb_next h + 1 | Some r \<Rightarrow> r"
  let ?members = "if hb_clients h ws = None then [] else hb_rooms h ?room"
  have fresh: "hb_objects h ?c = None" using assms unfolding hub_ok_def by blast
  then show "open_connections h ?c = None" by (simp add: open_connections_def)
  show abs: "open_connections ?h = (open_connections h)(?c \<mapsto> new_client ws u)"
    by (auto simp: open_connections_def Register_def Let_def new_client_def)
  have clients: "hb_clients ?h = (hb_clients h)(ws \<mapsto> ?room)" and rooms: "hb_rooms ?h = (hb_rooms h)(?room := ?members @ [?c])"
    and next_address: "hb_next ?h = hb_next h + 2" by (simp_all add: Register_def Let_def)
  have connected: "connected_to ?h ws' = (if ws' = ws then insert ?c (connected_to h ws') else connected_to h ws')" for ws'
    using fresh by (auto simp: connected_to_def abs new_client_def open_simps)
  have below: "r < hb_next h" if "hb_clients h ws' = Some r" for ws' r
    using that assms unfolding hub_ok_def by blast
  have before: "distinct ?members \<and> set ?members = connected_to h ws"
    using assms by (auto simp: hub_ok_def split: option.split)
  have room: "?room < hb_next h + 2" using below [of ws] by (cases "hb_clients h ws") fastforce+
  have new: "?c \<notin> connected_to h ws'" for ws' using fresh by (simp add: connected_to_def open_simps)
  have other: "r \<noteq> ?room" if "hb_clients h ws' = Some r" "ws' \<noteq> ws" for ws' r
  proof (cases "hb_clients h ws")
    case None
    then show ?thesis using below [OF that(1)] by simp
  next
    case (Some r')
    then have "r \<noteq> r'" using that assms unfolding hub_ok_def by blast
    with Some show ?thesis by simp
  qed
  have "\<forall>ws' r. hb_clients ?h ws' = Some r \<longrightarrow> r < hb_next ?h \<and> distinct (hb_rooms ?h r) \<and> hb_rooms ?h r \<noteq> []
      \<and> set (hb_rooms ?h r) = connected_to ?h ws'"
  proof (intro allI impI)
    fix ws' r assume r: "hb_clients ?h ws' = Some r"
    show "r < hb_next ?h \<and> distinct (hb_rooms ?h r) \<and> hb_rooms ?h r \<noteq> [] \<and> set (hb_rooms ?h r) = connected_to ?h ws'"
    proof (cases "ws' = ws")
      case True
      then have "r = ?room" using r by (simp add: clients)
      then show ?thesis using True before room new by (simp add: rooms next_address connected)
    next
      case False
      then have old: "hb_clients h ws' = Some r" using r by (simp add: clients)
      with assms have "r < hb_next h \<and> distinct (hb_rooms h r) \<and> hb_rooms h r \<noteq> [] \<and> set (hb_rooms h r) = connected_to h ws'"
        unfolding hub_ok_def by blast
      then show ?thesis using other [OF old False] False by (simp add: rooms next_address connected)
    qed
  qed
  moreover have "\<forall>ws'. hb_clients ?h ws' = None \<longrightarrow> connected_to ?h ws' = {}"
    using assms unfolding hub_ok_def by (simp add: clients connected)
  moreover have "\<forall>ws1 ws2 r. hb_clients ?h ws1 = Some r \<longrightarrow> hb_clients ?h ws2 = Some r \<longrightarrow> ws1 = ws2"
    using assms other unfolding hub_ok_def clients by (metis fun_upd_apply option.inject)
  moreover have "\<forall>c'. hb_objects ?h c' \<noteq> None \<longrightarrow> c' < hb_next ?h"
    using assms by (auto simp: Register_def Let_def hub_ok_def less_Suc_eq)
  moreover have "\<forall>c' cl'. open_connections ?h c' = Some cl' \<longrightarrow> length (cl_send cl') \<le> sendBuffer"
    using assms by (auto simp: abs hub_ok_def new_client_def)
  ultimately show "hub_ok ?h" unfolding hub_ok_def by blast
qed

lemma disconnect_removes:
  assumes "hub_ok h" and "\<And>xs. mset (hx_order X xs) = mset xs" and "open_connections h c = Some cl"
  shows "\<exists>h'. disconnect X now c h = (h', False) \<and> hub_ok h'
    \<and> open_connections h' = (spec_leave X now c cl (open_connections h))(c := None)"
proof -
  have order: "mset (hx_order X xs) = mset xs" for xs by (rule assms(2))
  obtain h1 where left: "handlePresenceLeave X now c h = (h1, False)" "hub_ok h1"
    "open_connections h1 = spec_leave X now c cl (open_connections h)"
    using Leave_delivers [OF assms(1) order assms(3)] by blast
  have "open_connections h1 c \<noteq> None" using assms(3) by (simp add: left(3) spec_leave_def deliver_def)
  then obtain h2 where "Unregister c h1 = (h2, False)" "hub_ok h2" "open_connections h2 = (open_connections h1)(c := None)"
    using Unregister_removes [OF left(2)] by auto
  with left show ?thesis by (simp add: disconnect_def deferred_def)
qed

lemma take_message_shortens:
  assumes "hub_ok h" and "open_connections h c = Some cl"
  shows "hub_ok (snd (take_message c h))"
    and "open_connections (snd (take_message c h)) = (open_connections h)(c \<mapsto> cl\<lparr>cl_send := tl (cl_send cl)\<rparr>)"
proof -
  have cl: "hb_objects h c = Some cl" "\<not> cl_closed cl" "length (cl_send cl) \<le> sendBuffer"
    using assms unfolding hub_ok_def open_simps by blast+
  have "hub_ok (snd (take_message c h))
    \<and> open_connections (snd (take_message c h)) = (open_connections h)(c \<mapsto> cl\<lparr>cl_send := tl (cl_send cl)\<rparr>)"
  proof (cases "cl_send cl")
    case Nil
    then have "cl\<lparr>cl_send := tl (cl_send cl)\<rparr> = cl" by simp
    then show ?thesis using assms cl Nil by (simp add: take_message_def fun_upd_idem)
  next
    case (Cons m ms)
    then show ?thesis using ok_update [OF assms, of "cl\<lparr>cl_send := ms\<rparr>"] cl by (simp add: take_message_def)
  qed
  then show "hub_ok (snd (take_message c h))"
    and "open_connections (snd (take_message c h)) = (open_connections h)(c \<mapsto> cl\<lparr>cl_send := tl (cl_send cl)\<rparr>)"
    by simp_all
qed


lemma handle_message_request:
  assumes "hb_objects h c = Some cl"
  shows "handle_message X now c data h = (case request_of X cl data of
      Join i \<Rightarrow> handlePresenceJoin X now c i h
    | Leave \<Rightarrow> handlePresenceLeave X now c h
    | Relay e \<Rightarrow> BroadcastExcluding X now (cl_workspaceID cl) c e h
    | Ignore \<Rightarrow> (h, False) | Fault \<Rightarrow> (h, True))"
  using assms by (auto simp: handle_message_def request_of_def relayFocus_def split: option.splits json.splits if_splits)

lemma viewers_found:
  assumes "hub_ok h" and "\<And>xs. mset (hx_order X xs) = mset xs"
  shows "viewers_listed (open_connections h) ws i c (GetIssueViewers X ws i c h)"
proof -
  have order: "mset (hx_order X xs) = mset xs" for xs by (rule assms(2))
  note room = ok_room [of h X, OF assms(1) order]
  let ?viewing = "\<lambda>c'. c' \<noteq> c \<and> (case hb_objects h c' of None \<Rightarrow> False | Some cl \<Rightarrow> cl_viewingIssue cl = i)"
  let ?cs = "filter ?viewing (members X ws h)"
  have "GetIssueViewers X ws i c h = map (\<lambda>c'. cl_userID (the (open_connections h c'))) ?cs"
  proof -
    have "concat (map (\<lambda>c'. case hb_objects h c' of None \<Rightarrow> []
        | Some client \<Rightarrow> if cl_viewingIssue client = i \<and> c' \<noteq> c then [cl_userID client] else []) cs)
      = map (\<lambda>c'. cl_userID (the (open_connections h c'))) (filter ?viewing cs)"
      if "set cs \<subseteq> connected_to h ws" for cs
      using that
    proof (induction cs)
      case (Cons a cs)
      then obtain cl' where "open_connections h a = Some cl'" by (auto simp: connected_to_def)
      moreover from this have "hb_objects h a = Some cl'" by (simp add: open_simps)
      ultimately show ?case using Cons by simp
    qed simp
    then show ?thesis using room(2) by (simp add: GetIssueViewers_def)
  qed
  moreover have "set ?cs = {c'. \<exists>cl. open_connections h c' = Some cl \<and> others c ws c' cl \<and> cl_viewingIssue cl = i}"
    by (auto simp: room(2) connected_to_def others_def open_simps)
  ultimately show ?thesis using room(1) unfolding viewers_listed_def by (metis distinct_filter)
qed

lemma Join_delivers:
  assumes "hub_ok h" and "\<And>xs. mset (hx_order X xs) = mset xs" and "open_connections h c = Some cl"
  shows "\<exists>h' m1 cl1 users. handlePresenceJoin X now c i h = (h', False) \<and> hub_ok h'
    \<and> m1 = (if cl_viewingIssue cl \<noteq> i then spec_leave X now c cl (open_connections h) else open_connections h)
    \<and> m1 c = Some cl1 \<and> viewers_listed (spec_enter X now c cl1 i m1) (cl_workspaceID cl) i c users
    \<and> open_connections h' = deliver (\<lambda>c' _. c' = c) (event_data X now (sync_event i users)) (spec_enter X now c cl1 i m1)"
proof -
  have order: "mset (hx_order X xs) = mset xs" for xs by (rule assms(2))
  let ?ws = "cl_workspaceID cl" and ?leave = "cl_viewingIssue cl \<noteq> [] \<and> cl_viewingIssue cl \<noteq> i"
  define m1 where "m1 = (if cl_viewingIssue cl \<noteq> i then spec_leave X now c cl (open_connections h) else open_connections h)"
  obtain h1 where h1: "(if ?leave then handlePresenceLeave X now c else nothing) h = (h1, False)" "hub_ok h1"
    "open_connections h1 = m1"
    using Leave_delivers [OF assms(1) order assms(3)] assms(1)
    by (cases ?leave) (auto simp: m1_def nothing_def spec_leave_def)
  obtain cl1 where cl1: "m1 c = Some cl1" "cl_workspaceID cl1 = ?ws" "cl_userID cl1 = cl_userID cl"
    using assms(3) unfolding m1_def spec_leave_def deliver_def others_def
    by (cases "cl_viewingIssue cl = i"; cases "cl_viewingIssue cl = []"; fastforce)
  let ?join = "presence_event ''presence.join'' i (cl_userID cl)"
  note viewing = set_viewing_update [OF h1(2), of c cl1 i, unfolded h1(3), OF cl1(1)]
  obtain h2 where h2: "BroadcastExcluding X now ?ws c ?join (set_viewing c i h1) = (h2, False)" "hub_ok h2"
    "open_connections h2 = spec_enter X now c cl1 i m1"
    using Broadcast_delivers(3) [of "set_viewing c i h1" X, OF viewing(1) order] viewing(2) cl1(2,3)
    unfolding spec_enter_def by metis
  let ?users = "GetIssueViewers X ?ws i c h2"
  let ?data = "event_data X now (sync_event i ?users)"
  obtain cl2 where cl2: "open_connections h2 c = Some cl2"
    using h2(3) by (auto simp: spec_enter_def deliver_def)
  have bounded: "\<not> cl_closed cl2" "length (cl_send cl2) \<le> sendBuffer"
    using h2(2) cl2 unfolding hub_ok_def open_simps by blast+
  have sent: "sendToClient X now c (sync_event i ?users) h2 = (set_client c (offer ?data cl2) h2, False)"
    using cl2 by (simp add: sendToClient_def send_def open_simps)
  have ok: "hub_ok (set_client c (offer ?data cl2) h2)"
    "open_connections (set_client c (offer ?data cl2) h2) = (open_connections h2)(c \<mapsto> offer ?data cl2)"
    using ok_update [OF h2(2) cl2, of "offer ?data cl2"] bounded by simp_all
  have "handlePresenceJoin X now c i h = (set_client c (offer ?data cl2) h2, False)"
    using assms(3) h1(1) h2(1) sent by (simp add: handlePresenceJoin_def open_simps andThen_def)
  moreover have "open_connections (set_client c (offer ?data cl2) h2)
      = deliver (\<lambda>c' _. c' = c) ?data (spec_enter X now c cl1 i m1)"
    using cl2 by (auto simp: fun_eq_iff ok(2) deliver_def h2(3) [symmetric] option.map_ident)
  moreover have "viewers_listed (spec_enter X now c cl1 i m1) ?ws i c ?users"
    using viewers_found [of h2 X, OF h2(2) order] by (simp add: h2(3))
  ultimately show ?thesis using ok(1) cl1(1) m1_def by blast
qed


section \<open>Refinement\<close>

text \<open>An operation on a connection needs it to be open.\<close>

fun admissible :: "hub_op \<Rightarrow> Hub \<Rightarrow> bool" where
  "admissible (Say c data) h = (open_connections h c \<noteq> None)"
| "admissible (Hangup c) h = (open_connections h c \<noteq> None)"
| "admissible (WriteOut c) h = (open_connections h c \<noteq> None)"
| "admissible _ h = True"

lemma Say_refines:
  assumes "hub_ok h" and "\<And>xs. mset (hx_order X xs) = mset xs" and cl: "open_connections h c = Some cl"
    and run: "hub_run X now (Say c data) h = (h', p)"
  shows "hub_ok h' \<and> spec_step X now (Say c data) (open_connections h) p (open_connections h')"
proof -
  have order: "mset (hx_order X xs) = mset xs" for xs by (rule assms(2))
  have object: "hb_objects h c = Some cl" using cl by (simp add: open_simps)
  show ?thesis
  proof (cases "request_of X cl data")
    case (Join i)
    then obtain h2 m1 cl1 users where "handlePresenceJoin X now c i h = (h2, False)" "hub_ok h2"
      and m1: "m1 = (if cl_viewingIssue cl \<noteq> i then spec_leave X now c cl (open_connections h) else open_connections h)"
        "m1 c = Some cl1"
      and users: "viewers_listed (spec_enter X now c cl1 i m1) (cl_workspaceID cl) i c users"
      and h2: "open_connections h2 = deliver (\<lambda>c' _. c' = c) (event_data X now (sync_event i users)) (spec_enter X now c cl1 i m1)"
      using Join_delivers [OF assms(1) order cl, of now i] by blast
    moreover have "h' = h2 \<and> p = False"
      using calculation(1) run by (simp add: say_def handle_message_request [OF object] Join)
    ultimately show ?thesis
      using spec_step.join [where m = "open_connections h" and c = c, OF cl Join m1 refl users] by simp
  next
    case Leave
    then show ?thesis
      using Leave_delivers [OF assms(1) order cl, of now] run
      by (auto simp: say_def handle_message_request [OF object] intro!: spec_step.leave [where m = "open_connections h" and c = c, OF cl Leave])
  next
    case (Relay e)
    then show ?thesis
      using Broadcast_delivers(3) [where X = X and now = now and ws = "cl_workspaceID cl" and c = c and e = e, OF assms(1) order] run
      by (auto simp: say_def handle_message_request [OF object] intro!: spec_step.relay [where m = "open_connections h" and c = c, OF cl Relay])
  next
    case Ignore
    then show ?thesis
      using run assms(1) spec_step.ignored [where m = "open_connections h" and c = c, OF cl Ignore]
      by (auto simp: say_def handle_message_request [OF object])
  next
    case Fault
    then show ?thesis
      using disconnect_removes [OF assms(1) order cl, of now] run
      by (auto simp: say_def handle_message_request [OF object] intro!: spec_step.fault [where m = "open_connections h" and c = c, OF cl Fault])
  qed
qed

text \<open>
  (C27) The hub refines its specification. While the operations of \<open>hub.go\<close> do not interrupt each other, the
  two-level map of rooms behaves as one set of open connections with their undelivered messages: a new
  connection appears with an empty buffer, a broadcast offers its event to exactly the connections of the
  workspace (of the user, other than the sender), joining and leaving an issue is announced to the others,
  the joining client gets the viewers, a connection that ends disappears after it has left its issue. The
  map never keeps an empty room or a closed channel, no buffer holds more than 256 messages, and nothing
  panics but a focus event whose payload is \<open>null\<close>, which ends its connection.
\<close>

theorem hub_refines_connections:
  assumes "hub_ok h" and "\<And>xs. mset (hx_order X xs) = mset xs" and "admissible op h"
    and "hub_run X now op h = (h', panicked)"
  shows "hub_ok h' \<and> spec_step X now op (open_connections h) panicked (open_connections h')"
proof -
  have order: "mset (hx_order X xs) = mset xs" for xs by (rule assms(2))
  show ?thesis
  proof (cases op)
    case (Connect ws u)
    then show ?thesis
      using assms(4) Register_adds(1,3) [OF assms(1), of ws u] Register_adds(2) [OF assms(1)] by (auto intro: spec_step.connect)
  next
    case (Say c data)
    then show ?thesis using Say_refines [where X = X and c = c, OF assms(1) order] assms(3,4) by auto
  next
    case (Hangup c)
    then obtain cl where cl: "open_connections h c = Some cl" using assms(3) by auto
    then show ?thesis
      using assms(4) Hangup disconnect_removes [OF assms(1) order cl, of now] by (auto intro: spec_step.hangup [where m = "open_connections h" and c = c, OF cl])
  next
    case (Publish ws e)
    then show ?thesis
      using assms(4) Broadcast_delivers(1) [where X = X and now = now and ws = ws and e = e, OF assms(1) order] by (auto intro: spec_step.publish)
  next
    case (PublishTo ws u e)
    then show ?thesis
      using assms(4) Broadcast_delivers(2) [where X = X and now = now and ws = ws and u = u and e = e, OF assms(1) order] by (auto intro: spec_step.publish_to)
  next
    case (WriteOut c)
    then obtain cl where cl: "open_connections h c = Some cl" using assms(3) by auto
    then show ?thesis
      using assms(4) WriteOut take_message_shortens [OF assms(1) cl] by (auto intro: spec_step.write_out [where m = "open_connections h" and c = c, OF cl])
  qed
qed


definition hub_context0 :: HubContext where
  "hub_context0 = \<lparr>hx_time = (\<lambda>_. ''0''), hx_float = Some, hx_equal_fold = (=), hx_order = (\<lambda>cs. cs)\<rparr>"

lemma ok_NewHub: "hub_ok NewHub"
  by (simp add: hub_ok_def NewHub_def connected_to_def open_connections_def)

definition null_focus :: string where
  "null_focus = (let q = (\<lambda>s. CHR 0x22 # s @ [CHR 0x22]) in
     ''{'' @ q ''type'' @ '':'' @ q ''focus.update'' @ '','' @ q ''payload'' @ '':null}'')"

text \<open>A focus event without a payload ends its connection by a panic, and the hub is in order after it.\<close>

lemma null_focus_faults: "request_of hub_context0 cl null_focus = Fault"
proof -
  have "decode null_focus = Some (JObject [(''type'', JString ''focus.update''), (''payload'', JNull)])"
    by code_simp
  then have "incoming hub_context0 null_focus = Some (''focus.update'', Some JNull)"
    by (simp add: incoming_def payload_members_def string_field_def raw_field_def field_matches_def hub_context0_def)
  then show ?thesis by (simp add: request_of_def)
qed

theorem hub_refines_connections_witness:
  "\<exists>h'. hub_run hub_context0 0 (Say 0 null_focus) (snd (Register 1 7 NewHub)) = (h', True) \<and> hub_ok h'
    \<and> spec_step hub_context0 0 (Say 0 null_focus) (Map.empty(0 \<mapsto> new_client 1 7)) True (open_connections h')"
proof -
  let ?h = "snd (Register 1 7 NewHub)"
  have "open_connections NewHub = Map.empty" by (simp add: open_connections_def NewHub_def fun_eq_iff)
  then have abs: "open_connections ?h = Map.empty(0 \<mapsto> new_client 1 7)"
    using Register_adds(3) [OF ok_NewHub, of 1 7] by (simp add: NewHub_def)
  obtain h' p where run: "hub_run hub_context0 0 (Say 0 null_focus) ?h = (h', p)" by (metis surj_pair)
  have open_it: "admissible (Say 0 null_focus) ?h" by (simp add: abs del: One_nat_def)
  have "mset (hx_order hub_context0 xs) = mset xs" for xs by (simp add: hub_context0_def)
  from hub_refines_connections [where X = hub_context0, OF Register_adds(1) [OF ok_NewHub] this open_it run]
  have "hub_ok h'" "spec_step hub_context0 0 (Say 0 null_focus) (open_connections ?h) p (open_connections h')" by simp_all
  moreover from this(2) have p by cases (simp_all add: null_focus_faults)
  ultimately show ?thesis using run by (simp add: abs del: One_nat_def)
qed

section \<open>Interrupted operations\<close>

text \<open>
  \<open>Broadcast\<close> holds the lock while it looks up the room and not while it ranges over it, and \<open>Unregister\<close>
  closes the channel after it has given the lock back. A broadcast under way holds the room and the
  connections it has visited; the range may yield a connection, which is sent to in a later step.
\<close>

datatype task = Ranging string address "address list" | Sending string address address "address list" | Closing address

type_synonym running_hub = "Hub \<times> task list \<times> bool"

inductive interleaved :: "HubContext \<Rightarrow> running_hub \<Rightarrow> running_hub \<Rightarrow> bool" for X where
  registers: "interleaved X (h, ts, False) (snd (Register ws u h), ts, False)"
| looks_up: "hb_clients h ws = Some room \<Longrightarrow>
    interleaved X (h, ts, False) (h, Ranging (event_data X now e) room [] # ts, False)"
| yields: "c \<in> set (hb_rooms h room) \<Longrightarrow> c \<notin> set visited \<Longrightarrow>
    interleaved X (h, ts @ Ranging data room visited # us, False) (h, ts @ Sending data c room visited # us, False)"
| sends: "send data c h = (h', p) \<Longrightarrow>
    interleaved X (h, ts @ Sending data c room visited # us, False) (h', ts @ Ranging data room (c # visited) # us, p)"
| is_done: "set (hb_rooms h room) \<subseteq> set visited \<Longrightarrow>
    interleaved X (h, ts @ Ranging data room visited # us, False) (h, ts @ us, False)"
| removes: "hb_objects h c = Some cl \<Longrightarrow> Closing c \<notin> set ts \<Longrightarrow> \<not> cl_closed cl \<Longrightarrow>
    interleaved X (h, ts, False) (leave_room c cl h, Closing c # ts, False)"
| closes: "close_send c h = (h', p) \<Longrightarrow>
    interleaved X (h, ts @ Closing c # us, False) (h', ts @ us, p)"

text \<open>
  A broadcast can panic. From the empty hub there is an interleaving of one connection that comes and
  goes and one broadcast to its workspace in which the broadcast sends on the closed channel of the
  connection: its range has yielded the connection before \<open>Unregister\<close> removes and closes it. (The same
  interleaving reads and writes the map of the room without synchronisation.)
\<close>

theorem broadcast_can_panic:
  "\<exists>h ts. (interleaved X)\<^sup>*\<^sup>* (NewHub, [], False) (h, ts, True)"
proof -
  let ?data = "event_data X 0 \<lparr>he_Type = ''issue.updated'', he_Timestamp = 0, he_Payload = JNull\<rparr>"
  define h1 where "h1 = snd (Register 1 7 NewHub)"
  have h1: "hb_clients h1 1 = Some 1" "hb_rooms h1 1 = [0]" "hb_objects h1 0 = Some (new_client 1 7)"
    by (simp_all add: h1_def Register_def NewHub_def Let_def new_client_def)
  define h2 where "h2 = leave_room 0 (new_client 1 7) h1"
  define h3 where "h3 = set_client 0 ((new_client 1 7)\<lparr>cl_closed := True\<rparr>) h2"
  have h2: "hb_objects h2 0 = Some (new_client 1 7)"
    by (simp add: h2_def leave_room_def h1 Let_def split: option.split)
  then have closed: "close_send 0 h2 = (h3, False)" "send ?data 0 h3 = (h3, True)"
    by (simp_all add: close_send_def send_def h3_def set_client_def new_client_def)
  have steps: "interleaved X (NewHub, [], False) (h1, [], False)"
    "interleaved X (h1, [], False) (h1, [Ranging ?data 1 []], False)"
    unfolding h1_def [symmetric] by (simp add: h1_def interleaved.registers) (rule interleaved.looks_up [OF h1(1)])
  have "interleaved X (h1, [Ranging ?data 1 []], False) (h1, [Sending ?data 0 1 []], False)"
    using interleaved.yields [of 0 h1 1 "[]" X "[]" ?data "[]"] h1(2) by simp
  moreover have "interleaved X (h1, [Sending ?data 0 1 []], False) (h2, [Closing 0, Sending ?data 0 1 []], False)"
    using interleaved.removes [of h1 0 "new_client 1 7" "[Sending ?data 0 1 []]"] h1(3)
    by (simp add: h2_def new_client_def)
  moreover have "interleaved X (h2, [Closing 0, Sending ?data 0 1 []], False) (h3, [Sending ?data 0 1 []], False)"
    using interleaved.closes [OF closed(1), of X "[]" "[Sending ?data 0 1 []]"] by simp
  moreover have "interleaved X (h3, [Sending ?data 0 1 []], False) (h3, [Ranging ?data 1 [0]], True)"
    using interleaved.sends [OF closed(2), of X "[]" 1 "[]" "[]"] by simp
  ultimately have "(interleaved X)\<^sup>*\<^sup>* (NewHub, [], False) (h3, [Ranging ?data 1 [0]], True)"
    using steps by (meson converse_rtranclp_into_rtranclp rtranclp.rtrancl_refl)
  then show ?thesis by blast
qed

end
