(* ===== verification/Gateway_Guard.thy ===== *)
theory Gateway_Guard
  imports Kuayle_Prelude
begin

text \<open>
  The abuse guard of the machine gateway, \<open>BE/internal/machine/gateway_guard.go\<close>: fixed windows for route
  lookups, a cache of routes that do not exist, and a limit on audit entries of unknown routes. Each
  operation runs under the guard's lock. Maps are association lists with distinct keys; where the code
  deletes whatever key a \<open>range\<close> yields first, the argument \<open>pick\<close> chooses it.
\<close>

definition gatewayRouteWindow :: duration where "gatewayRouteWindow = seconds 1"
definition gatewayRoutesPerSource :: int where "gatewayRoutesPerSource = 60"
definition gatewayRoutesGlobal :: int where "gatewayRoutesGlobal = 500"
definition gatewayMaxTrackedSources :: nat where "gatewayMaxTrackedSources = 4096"
definition gatewayNegativeRouteTTL :: duration where "gatewayNegativeRouteTTL = seconds 30"
definition gatewayMaxNegativeRoutes :: nat where "gatewayMaxNegativeRoutes = 8192"
definition gatewayUnknownAuditInterval :: duration where "gatewayUnknownAuditInterval = minutes 5"
definition gatewayUnknownAuditsGlobal :: int where "gatewayUnknownAuditsGlobal = 10"
definition gatewayUnknownAuditWindow :: duration where "gatewayUnknownAuditWindow = minutes 1"
definition gatewayOverflowSource :: string where "gatewayOverflowSource = ''__overflow__''"

section \<open>State\<close>

text \<open>The zero time, which \<open>IsZero\<close> tests, is \<open>0\<close>.\<close>

record gatewayRequestWindow =
  rw_started :: time
  rw_count :: int

record gatewayAbuseGuard =
  gg_routeSources :: "(string \<times> gatewayRequestWindow) list"
  gg_routeGlobal :: gatewayRequestWindow
  gg_negativeUntil :: "(string \<times> time) list"
  gg_auditAfter :: "(string \<times> time) list"
  gg_auditGlobal :: gatewayRequestWindow

definition no_window :: gatewayRequestWindow where
  "no_window = \<lparr>rw_started = 0, rw_count = 0\<rparr>"

definition newGatewayAbuseGuard :: gatewayAbuseGuard where
  "newGatewayAbuseGuard = \<lparr>gg_routeSources = [], gg_routeGlobal = no_window, gg_negativeUntil = [],
     gg_auditAfter = [], gg_auditGlobal = no_window\<rparr>"

section \<open>Maps\<close>

fun put_key :: "'k \<Rightarrow> 'v \<Rightarrow> ('k \<times> 'v) list \<Rightarrow> ('k \<times> 'v) list" where
  "put_key k v [] = [(k, v)]"
| "put_key k v ((k', v') # kvs) = (if k = k' then (k, v) # kvs else (k', v') # put_key k v kvs)"

definition delete_key :: "'k \<Rightarrow> ('k \<times> 'v) list \<Rightarrow> ('k \<times> 'v) list" where
  "delete_key k kvs = filter (\<lambda>(k', v). k' \<noteq> k) kvs"

text \<open>\<open>for key := range m { delete(m, key); break }\<close>\<close>

definition delete_some :: "nat \<Rightarrow> ('k \<times> 'v) list \<Rightarrow> ('k \<times> 'v) list" where
  "delete_some pick kvs = (if kvs = [] then [] else delete_key (fst (kvs ! (pick mod length kvs))) kvs)"

section \<open>Operations\<close>

definition advanceGatewayWindow ::
  "gatewayRequestWindow \<Rightarrow> time \<Rightarrow> duration \<Rightarrow> int \<Rightarrow> gatewayRequestWindow \<times> bool" where
  "advanceGatewayWindow window0 now d limit =
     (let window = (if rw_started window0 = 0 \<or> now - rw_started window0 \<ge> d
        then \<lparr>rw_started = now, rw_count = 0\<rparr> else window0) in
      if rw_count window \<ge> limit then (window, False)
      else (window\<lparr>rw_count := rw_count window + 1\<rparr>, True))"

text \<open>Also \<open>boundedGatewayAuditSource\<close>, which is the same function for the other map.\<close>

definition boundedGatewaySource ::
  "nat \<Rightarrow> (string \<times> 'v) list \<Rightarrow> string \<Rightarrow> nat \<Rightarrow> string \<times> (string \<times> 'v) list" where
  "boundedGatewaySource pick entries source0 limit =
     (let source = (if source0 = [] then ''unknown'' else source0) in
      if map_of entries source \<noteq> None \<or> length entries < limit then (source, entries)
      else if map_of entries gatewayOverflowSource = None then (gatewayOverflowSource, delete_some pick entries)
      else (gatewayOverflowSource, entries))"

definition allowRouteLookup ::
  "nat \<Rightarrow> string \<Rightarrow> time \<Rightarrow> gatewayAbuseGuard \<Rightarrow> bool \<times> gatewayAbuseGuard" where
  "allowRouteLookup pick source0 now g =
     (case boundedGatewaySource pick (gg_routeSources g) source0 gatewayMaxTrackedSources of
        (source, entries) \<Rightarrow>
      let g1 = g\<lparr>gg_routeSources := entries\<rparr> in
      case advanceGatewayWindow (gg_routeGlobal g1) now gatewayRouteWindow gatewayRoutesGlobal of
        (global, allowed) \<Rightarrow>
      if \<not> allowed then (False, g1\<lparr>gg_routeGlobal := global\<rparr>)
      else (case advanceGatewayWindow (case map_of entries source of None \<Rightarrow> no_window | Some r \<Rightarrow> r)
          now gatewayRouteWindow gatewayRoutesPerSource of (perSource, allowed') \<Rightarrow>
        if \<not> allowed' then (False, g1)
        else (True, g1\<lparr>gg_routeGlobal := global, gg_routeSources := put_key source perSource entries\<rparr>)))"

definition negativeRoute :: "string \<Rightarrow> time \<Rightarrow> gatewayAbuseGuard \<Rightarrow> bool \<times> gatewayAbuseGuard" where
  "negativeRoute key now g = (case map_of (gg_negativeUntil g) key of
     Some until \<Rightarrow> if now < until then (True, g)
       else (False, g\<lparr>gg_negativeUntil := delete_key key (gg_negativeUntil g)\<rparr>)
   | None \<Rightarrow> (False, g\<lparr>gg_negativeUntil := delete_key key (gg_negativeUntil g)\<rparr>))"

definition rememberNegativeRoute :: "nat \<Rightarrow> string \<Rightarrow> time \<Rightarrow> gatewayAbuseGuard \<Rightarrow> gatewayAbuseGuard" where
  "rememberNegativeRoute pick key now g =
     (let entries = (if length (gg_negativeUntil g) \<ge> gatewayMaxNegativeRoutes
        then delete_some pick (gg_negativeUntil g) else gg_negativeUntil g) in
      g\<lparr>gg_negativeUntil := put_key key (now + gatewayNegativeRouteTTL) entries\<rparr>)"

definition allowUnknownAudit ::
  "nat \<Rightarrow> string \<Rightarrow> time \<Rightarrow> gatewayAbuseGuard \<Rightarrow> bool \<times> gatewayAbuseGuard" where
  "allowUnknownAudit pick source0 now g =
     (case boundedGatewaySource pick (gg_auditAfter g) source0 gatewayMaxTrackedSources of
        (source, entries) \<Rightarrow>
      let g1 = g\<lparr>gg_auditAfter := entries\<rparr> in
      if now < (case map_of entries source of None \<Rightarrow> 0 | Some after \<Rightarrow> after) then (False, g1)
      else (case advanceGatewayWindow (gg_auditGlobal g1) now gatewayUnknownAuditWindow gatewayUnknownAuditsGlobal of
          (global, allowed) \<Rightarrow>
        let g2 = g1\<lparr>gg_auditAfter := put_key source (now + gatewayUnknownAuditInterval) entries\<rparr> in
        if \<not> allowed then (False, g2) else (True, g2\<lparr>gg_auditGlobal := global\<rparr>)))"

section \<open>Bounds\<close>

text \<open>The operations, in any order and at any times.\<close>

datatype guard_call = Lookup nat string time | Known string time | Remember nat string time | Audit nat string time

fun guard_step :: "guard_call \<Rightarrow> gatewayAbuseGuard \<Rightarrow> gatewayAbuseGuard" where
  "guard_step (Lookup pick source now) g = snd (allowRouteLookup pick source now g)"
| "guard_step (Known key now) g = snd (negativeRoute key now g)"
| "guard_step (Remember pick key now) g = rememberNegativeRoute pick key now g"
| "guard_step (Audit pick source now) g = snd (allowUnknownAudit pick source now g)"

definition guard_bounded :: "gatewayAbuseGuard \<Rightarrow> bool" where
  "guard_bounded g \<longleftrightarrow> length (gg_routeSources g) \<le> gatewayMaxTrackedSources
     \<and> length (gg_negativeUntil g) \<le> gatewayMaxNegativeRoutes
     \<and> length (gg_auditAfter g) \<le> gatewayMaxTrackedSources
     \<and> rw_count (gg_routeGlobal g) \<le> gatewayRoutesGlobal \<and> rw_count (gg_auditGlobal g) \<le> gatewayUnknownAuditsGlobal"

lemma length_put_key: "length (put_key k v kvs) = (if map_of kvs k = None then length kvs + 1 else length kvs)"
  by (induction kvs) auto

lemma length_delete_some: "kvs \<noteq> [] \<Longrightarrow> length (delete_some pick kvs) < length kvs"
  by (auto simp: delete_some_def delete_key_def intro!: length_filter_less [of "kvs ! (pick mod length kvs)"])

lemma advance_count:
  "advanceGatewayWindow r now d limit = (r', ok) \<Longrightarrow> rw_count r \<le> limit \<Longrightarrow> 0 \<le> limit \<Longrightarrow> rw_count r' \<le> limit"
  by (auto simp: advanceGatewayWindow_def Let_def split: if_splits)

lemma advance_fields:
  assumes "advanceGatewayWindow r now d limit = (r', ok)" and "0 < limit"
  shows "if rw_started r = 0 \<or> now - rw_started r \<ge> d then ok \<and> rw_started r' = now \<and> rw_count r' = 1
    else rw_started r' = rw_started r \<and> ok = (rw_count r < limit) \<and> rw_count r' = rw_count r + (if ok then 1 else 0)"
  using assms by (auto simp: advanceGatewayWindow_def Let_def split: if_splits)

lemma bounded_source:
  assumes "boundedGatewaySource pick entries source0 limit = (source, entries')" and "length entries \<le> limit" and "0 < limit"
  shows "length entries' \<le> limit" and "length (put_key source v entries') \<le> limit"
  using assms length_delete_some [of entries pick]
  by (auto simp: boundedGatewaySource_def Let_def length_put_key split: if_splits)


lemma guard_step_bounded:
  assumes "guard_bounded g"
  shows "guard_bounded (guard_step c g)"
proof (cases c)
  case (Lookup pick source now)
  obtain s entries where s: "boundedGatewaySource pick (gg_routeSources g) source gatewayMaxTrackedSources = (s, entries)"
    by (metis surj_pair)
  obtain global ok where global: "advanceGatewayWindow (gg_routeGlobal g) now gatewayRouteWindow gatewayRoutesGlobal = (global, ok)"
    by (metis surj_pair)
  have "rw_count global \<le> gatewayRoutesGlobal"
    using advance_count [OF global] assms by (simp add: guard_bounded_def gatewayRoutesGlobal_def)
  moreover have "0 < gatewayMaxTrackedSources" by (simp add: gatewayMaxTrackedSources_def)
  ultimately show ?thesis
    using bounded_source [OF s] assms
    by (auto simp: Lookup allowRouteLookup_def s global guard_bounded_def Let_def split: prod.split)
next
  case (Known key now)
  have "length (delete_key key kvs) \<le> length kvs" for kvs :: "(string \<times> time) list"
    by (simp add: delete_key_def)
  with assms show ?thesis
    by (auto simp: Known negativeRoute_def guard_bounded_def split: option.split intro: order_trans)
next
  case (Remember pick key now)
  then show ?thesis
    using assms length_delete_some [of "gg_negativeUntil g" pick]
    by (cases "gg_negativeUntil g = []")
      (auto simp: rememberNegativeRoute_def guard_bounded_def length_put_key gatewayMaxNegativeRoutes_def Let_def)
next
  case (Audit pick source now)
  obtain s entries where s: "boundedGatewaySource pick (gg_auditAfter g) source gatewayMaxTrackedSources = (s, entries)"
    by (metis surj_pair)
  obtain global ok where global: "advanceGatewayWindow (gg_auditGlobal g) now gatewayUnknownAuditWindow gatewayUnknownAuditsGlobal = (global, ok)"
    by (metis surj_pair)
  have "rw_count global \<le> gatewayUnknownAuditsGlobal"
    using advance_count [OF global] assms by (simp add: guard_bounded_def gatewayUnknownAuditsGlobal_def)
  moreover have "0 < gatewayMaxTrackedSources" by (simp add: gatewayMaxTrackedSources_def)
  ultimately show ?thesis
    using bounded_source [OF s] assms
    by (auto simp: Audit allowUnknownAudit_def s global guard_bounded_def Let_def)
qed

text \<open>The lookups are asked for in the order of their times, the first not before \<open>last\<close>.\<close>

fun in_order :: "time \<Rightarrow> guard_call list \<Rightarrow> bool" where
  "in_order earliest [] = True"
| "in_order earliest (Lookup pick source now # calls) = (earliest \<le> now \<and> in_order now calls)"
| "in_order earliest (call # calls) = in_order earliest calls"

text \<open>The number of lookups allowed at times of the second that begins at \<open>t\<close>.\<close>

fun allowed_at :: "time \<Rightarrow> guard_call \<Rightarrow> gatewayAbuseGuard \<Rightarrow> int" where
  "allowed_at t (Lookup pick source now) g =
     (if fst (allowRouteLookup pick source now g) \<and> t \<le> now \<and> now < t + seconds 1 then 1 else 0)"
| "allowed_at t call g = 0"

fun allowed_lookups :: "time \<Rightarrow> guard_call list \<Rightarrow> gatewayAbuseGuard \<Rightarrow> int" where
  "allowed_lookups t [] g = 0"
| "allowed_lookups t (call # calls) g = allowed_at t call g + allowed_lookups t calls (guard_step call g)"

lemma lookup_cases:
  assumes "allowRouteLookup pick source now g = (ok, g')"
  obtains "\<not> ok" and "gg_routeGlobal g' = gg_routeGlobal g"
  | global where "advanceGatewayWindow (gg_routeGlobal g) now gatewayRouteWindow gatewayRoutesGlobal = (global, ok)"
      and "gg_routeGlobal g' = global"
  using assms unfolding allowRouteLookup_def
  by (auto simp: Let_def split: prod.splits if_splits)

definition room_left :: "time \<Rightarrow> gatewayRequestWindow \<Rightarrow> int" where
  "room_left t r = gatewayRoutesGlobal - rw_count r + (if rw_started r < t then gatewayRoutesGlobal else 0)"

definition most_allowed :: "time \<Rightarrow> time \<Rightarrow> gatewayRequestWindow \<Rightarrow> int" where
  "most_allowed t earliest r = (if earliest < t then 2 * gatewayRoutesGlobal
     else if earliest < t + seconds 1 then room_left t r else 0)"

lemma lookups_in_second:
  assumes "in_order earliest calls" and "rw_started (gg_routeGlobal g) \<le> earliest" and "0 < t"
    and "0 \<le> rw_count (gg_routeGlobal g)" "rw_count (gg_routeGlobal g) \<le> gatewayRoutesGlobal"
  shows "allowed_lookups t calls g \<le> most_allowed t earliest (gg_routeGlobal g)"
  using assms
proof (induction calls arbitrary: g earliest)
  case Nil
  then show ?case by (simp add: most_allowed_def room_left_def gatewayRoutesGlobal_def)
next
  case (Cons call calls)
  show ?case
  proof (cases call)
    case (Lookup pick source now)
    obtain ok g' where g': "allowRouteLookup pick source now g = (ok, g')" by (metis surj_pair)
    let ?r = "gg_routeGlobal g" and ?r' = "gg_routeGlobal g'"
    have now: "rw_started ?r \<le> now" "earliest \<le> now" "in_order now calls" using Cons.prems(1,2) by (simp_all add: Lookup)
    have fields: "if rw_started ?r = 0 \<or> now - rw_started ?r \<ge> seconds 1
        then ok \<and> rw_started ?r' = now \<and> rw_count ?r' = 1 \<or> \<not> ok \<and> ?r' = ?r
        else rw_started ?r' = rw_started ?r \<and> rw_count ?r' = rw_count ?r + (if ok then 1 else 0) \<and> rw_count ?r' \<le> 500"
      using g'
    proof (cases rule: lookup_cases)
      case 1
      then show ?thesis using Cons.prems(5) by (simp add: gatewayRoutesGlobal_def)
    next
      case (2 global)
      then show ?thesis
        using advance_fields [OF 2(1)] Cons.prems(5) by (auto simp: gatewayRoutesGlobal_def gatewayRouteWindow_def split: if_splits)
    qed
    have window: "rw_started ?r' \<le> now" "0 \<le> rw_count ?r'" "rw_count ?r' \<le> gatewayRoutesGlobal"
      using fields now(1) Cons.prems(4,5) by (auto simp: gatewayRoutesGlobal_def split: if_splits)
    have "allowed_lookups t calls g' \<le> most_allowed t now ?r'"
      using Cons.IH [OF now(3) window(1) Cons.prems(3) window(2,3)] .
    then show ?thesis
      using fields window now(1,2) Cons.prems(3-5)
      by (cases "rw_started ?r = 0 \<or> now - rw_started ?r \<ge> seconds 1"; cases "rw_started ?r < t")
        (auto simp: Lookup g' most_allowed_def room_left_def gatewayRoutesGlobal_def seconds_def split: if_splits)
  next
    case (Known key now)
    then have "gg_routeGlobal (guard_step call g) = gg_routeGlobal g" by (simp add: negativeRoute_def split: option.split)
    then show ?thesis using Cons.IH [of earliest "guard_step call g"] Cons.prems by (simp add: Known del: guard_step.simps)
  next
    case (Remember pick key now)
    then have "gg_routeGlobal (guard_step call g) = gg_routeGlobal g" by (simp add: rememberNegativeRoute_def Let_def)
    then show ?thesis using Cons.IH [of earliest "guard_step call g"] Cons.prems by (simp add: Remember del: guard_step.simps)
  next
    case (Audit pick source now)
    then have "gg_routeGlobal (guard_step call g) = gg_routeGlobal g" by (simp add: allowUnknownAudit_def Let_def split: prod.split)
    then show ?thesis using Cons.IH [of earliest "guard_step call g"] Cons.prems by (simp add: Audit del: guard_step.simps)
  qed
qed

text \<open>
  (C28) The guard bounds the load of unknown hosts. Whatever is asked of it, the guard tracks at most 4096
  sources of lookups, 4096 of audits and 8192 missing routes; and of lookups asked for in the order of
  their times, however they are spread over sources, at most 1000 are allowed in any one second, twice the
  500 of a window because a second may reach into two of them.
\<close>

theorem gateway_load_is_bounded:
  assumes "in_order 0 calls" and "0 < t"
  shows "guard_bounded (fold guard_step calls newGatewayAbuseGuard)
    \<and> allowed_lookups t calls newGatewayAbuseGuard \<le> 2 * gatewayRoutesGlobal"
proof
  have "guard_bounded (fold guard_step calls g)" if "guard_bounded g" for g
    using that by (induction calls arbitrary: g) (simp_all add: guard_step_bounded)
  moreover have "guard_bounded newGatewayAbuseGuard"
    by (simp add: guard_bounded_def newGatewayAbuseGuard_def no_window_def gatewayRoutesGlobal_def gatewayUnknownAuditsGlobal_def)
  ultimately show "guard_bounded (fold guard_step calls newGatewayAbuseGuard)" by blast
  show "allowed_lookups t calls newGatewayAbuseGuard \<le> 2 * gatewayRoutesGlobal"
    using lookups_in_second [OF assms(1) _ assms(2), of newGatewayAbuseGuard] assms(2)
    by (simp add: newGatewayAbuseGuard_def no_window_def most_allowed_def gatewayRoutesGlobal_def)
qed

theorem gateway_load_is_bounded_witness:
  "allowed_lookups 5 [Lookup 0 ''a'' 5, Lookup 0 ''b'' 6, Audit 0 ''a'' 6, Lookup 0 [] 7] newGatewayAbuseGuard
     \<le> 2 * gatewayRoutesGlobal"
  using gateway_load_is_bounded [of "[Lookup 0 ''a'' 5, Lookup 0 ''b'' 6, Audit 0 ''a'' 6, Lookup 0 [] 7]" 5] by simp

end
