(* ===== verification/Machine_Gateway.thy ===== *)
theory Machine_Gateway
  imports Service_Base Gateway_Guard
begin

text \<open>
  The machine gateway, \<open>BE/internal/machine/gateway.go\<close>: the HTTP server in front of the services of the
  machines. It finds the machine by the host of a request, exchanges tickets for session cookies, checks
  sessions, and forwards requests without the credentials they came with.

  \<open>ServeHTTP\<close> is an action on the world of the manager and the service, so other requests may change the
  database before each call of the store; the state of the abuse guard is passed through. What a reply
  makes the client or the upstream server do is its value.
\<close>

section \<open>Requests and replies\<close>

text \<open>Headers are in canonical form, one entry per value. \<open>rq_Query\<close> is \<open>URL.Query\<close>, ordered by key.\<close>

type_synonym header = "(string \<times> string) list"

record Request =
  rq_Method :: string
  rq_Host :: string
  rq_Path :: string
  rq_RawQuery :: string
  rq_Query :: "(string \<times> string list) list"
  rq_Header :: header
  rq_Cookie :: "string \<Rightarrow> string option"
  rq_TLS :: bool
  rq_RemoteAddr :: string

definition header_Get :: "string \<Rightarrow> header \<Rightarrow> string" where
  "header_Get name h = (case map_of h name of None \<Rightarrow> [] | Some v \<Rightarrow> v)"

definition header_Del :: "string \<Rightarrow> header \<Rightarrow> header" where
  "header_Del name h = filter (\<lambda>(k, v). k \<noteq> name) h"

definition header_Set :: "string \<Rightarrow> string \<Rightarrow> header \<Rightarrow> header" where
  "header_Set name v h = header_Del name h @ [(name, v)]"

definition query_Get :: "string \<Rightarrow> (string \<times> string list) list \<Rightarrow> string" where
  "query_Get name q = (case map_of q name of Some (v # vs) \<Rightarrow> v | _ \<Rightarrow> [])"

definition query_Encode :: "(string \<times> string list) list \<Rightarrow> string" where
  "query_Encode q = encode_values (concat (map (\<lambda>(k, vs). map (Pair k) vs) q))"

record SessionCookie =
  sc_Value :: string
  sc_Expires :: time
  sc_MaxAge :: int

text \<open>The request that goes upstream, after the director of the proxy.\<close>

record ProxyRequest =
  px_Upstream :: string
  px_Path :: string
  px_RawQuery :: string
  px_Host :: string
  px_Header :: header

datatype Reply =
    Failure int string bool
  | SeeOther string SessionCookie
  | Proxied uuid ProxyRequest

text \<open>The third part of a failure is whether it has \<open>Retry-After\<close>; a proxied request names its user.\<close>

section \<open>The gateway\<close>

text \<open>
  Beside the fields of \<open>Gateway\<close>: \<open>url.Parse\<close>, \<open>net.SplitHostPort\<close>, \<open>net.ParseIP\<close>, \<open>http.ParseSetCookie\<close> with
  \<open>Cookie.String\<close>, the Unicode table, \<open>strings.EqualFold\<close>, SHA-256, the random source, the key a \<open>range\<close> of
  the guard yields, and how many route lookups of other requests are under way.
\<close>

record Gateway =
  gw_domain :: string
  gw_frontendOrigin :: string
  gw_sessionTTL :: duration
  gw_demoMode :: bool
  gw_isSysAdmin :: "uuid \<Rightarrow> bool"
  gw_url_Parse :: "string \<Rightarrow> URL option"
  gw_SplitHostPort :: "string \<Rightarrow> string option"
  gw_ParseIP :: "string \<Rightarrow> bool"
  gw_ParseSetCookie :: "string \<Rightarrow> (string \<times> string \<times> string) option"
  gw_unicode_lower :: "nat \<Rightarrow> nat"
  gw_equal_fold :: "string \<Rightarrow> string \<Rightarrow> bool"
  gw_sha256 :: "string \<Rightarrow> string"
  gw_rand :: "nat \<Rightarrow> nat \<Rightarrow> go_error + string"
  gw_pick :: nat
  gw_lookups :: nat

definition machineSessionCookie :: string where
  "machineSessionCookie = ''__Host-kuayle-machine''"

definition routeSlots :: nat where
  "routeSlots = 32"

definition gateway_letter :: "nat \<Rightarrow> bool" where
  "gateway_letter r \<longleftrightarrow> lower_letter r \<or> 48 \<le> r \<and> r \<le> 57"

text \<open>\<open>^[a-z0-9]{12,32}$\<close>\<close>

definition routingKeyPattern :: "string \<Rightarrow> bool" where
  "routingKeyPattern s \<longleftrightarrow> 12 \<le> length s \<and> length s \<le> 32 \<and> list_all (\<lambda>c. gateway_letter (byte c)) s"

definition validMachineDomain :: "string \<Rightarrow> bool" where
  "validMachineDomain s \<longleftrightarrow>
     \<not> (s = [] \<or> length s > 253 \<or> ContainsAny s (''/:@ '' @ [CHR 0x00, CHR 0x0D, CHR 0x0A, CHR 0x09]))
   \<and> list_all (\<lambda>label. \<not> (label = [] \<or> length label > 63 \<or> hd label = CHR ''-'' \<or> last label = CHR ''-'')
        \<and> every_rune (\<lambda>r. gateway_letter r \<or> r = 45) label) (Split s CHR ''.'')"

text \<open>\<open>normalizeConfiguredOrigin\<close> is \<open>normalizeOrigin\<close> of the service with an error for the empty result.\<close>

definition normalizeConfiguredOrigin :: "(string \<Rightarrow> URL option) \<Rightarrow> (nat \<Rightarrow> nat) \<Rightarrow> string \<Rightarrow> go_error + string" where
  "normalizeConfiguredOrigin url_Parse unicode_lower raw = (case url_Parse (TrimSpace raw) of
     None \<Rightarrow> Inl (Errorf ''invalid frontend origin'')
   | Some u \<Rightarrow>
     if ur_Scheme u = [] \<or> ur_Host u = [] \<or> ur_User u then Inl (Errorf ''invalid frontend origin'')
     else (let scheme = ToLower unicode_lower (ur_Scheme u) in
       if scheme \<noteq> ''http'' \<and> scheme \<noteq> ''https'' then Inl (Errorf ''invalid frontend origin'')
       else Inr (scheme @ ''://'' @ ToLower unicode_lower (ur_Host u))))"

text \<open>\<open>NewGateway\<close> on the fields it is given; \<open>isSysAdmin\<close> is set with the demo mode.\<close>

definition NewGateway :: "Gateway \<Rightarrow> string \<Rightarrow> string option \<Rightarrow> go_error + Gateway" where
  "NewGateway G machineDomain frontendURL =
     (let d = Trim (ToLower (gw_unicode_lower G) machineDomain) ''.'' in
      if \<not> validMachineDomain d then Inl (Errorf ''invalid machine domain'')
      else (case (case frontendURL of None \<Rightarrow> Inr []
          | Some raw \<Rightarrow> normalizeConfiguredOrigin (gw_url_Parse G) (gw_unicode_lower G) raw) of
        Inl e \<Rightarrow> Inl e
      | Inr origin \<Rightarrow> Inr (G\<lparr>gw_domain := d, gw_frontendOrigin := origin, gw_demoMode := False,
          gw_isSysAdmin := (\<lambda>_. True)\<rparr>)))"

definition SetDemoRestriction :: "bool \<Rightarrow> (uuid \<Rightarrow> bool) option \<Rightarrow> Gateway \<Rightarrow> Gateway" where
  "SetDemoRestriction demoMode isSysAdmin G = G\<lparr>gw_demoMode := demoMode,
     gw_isSysAdmin := (case isSysAdmin of None \<Rightarrow> (\<lambda>_. False) | Some f \<Rightarrow> f)\<rparr>"

section \<open>Hosts, origins and paths\<close>

definition normalizedHost :: "Gateway \<Rightarrow> string \<Rightarrow> string" where
  "normalizedHost G host = Trim (ToLower (gw_unicode_lower G)
     (case gw_SplitHostPort G host of Some h \<Rightarrow> h | None \<Rightarrow> host)) ''.''"

definition parseHost :: "Gateway \<Rightarrow> string \<Rightarrow> string \<times> string \<times> bool" where
  "parseHost G host =
     (let suffix = ''.'' @ gw_domain G in
      if \<not> HasSuffix host suffix then ([], [], False)
      else (let label = TrimSuffix host suffix in
        if HasSuffix label ''-browser'' then (let l = TrimSuffix label ''-browser'' in (l, ''browser'', routingKeyPattern l))
        else if HasSuffix label ''-terminal'' then (let l = TrimSuffix label ''-terminal'' in (l, ''terminal'', routingKeyPattern l))
        else (label, ''ide'', routingKeyPattern label)))"

definition isWebSocketRequest :: "Gateway \<Rightarrow> Request \<Rightarrow> bool" where
  "isWebSocketRequest G rq = gw_equal_fold G (header_Get ''Upgrade'' (rq_Header rq)) ''websocket''"

definition requestOrigin :: "Gateway \<Rightarrow> Request \<Rightarrow> string" where
  "requestOrigin G rq = (case gw_url_Parse G (TrimSpace (header_Get ''Origin'' (rq_Header rq))) of
     None \<Rightarrow> []
   | Some u \<Rightarrow>
     if ur_Scheme u = [] \<or> ur_Host u = [] \<or> ur_User u \<or> (ur_Path u \<noteq> [] \<and> ur_Path u \<noteq> ''/'') \<or> ur_RawQuery u \<noteq> []
        \<or> ur_Fragment u \<noteq> [] then []
     else (let scheme = ToLower (gw_unicode_lower G) (ur_Scheme u) in
       if scheme \<noteq> ''http'' \<and> scheme \<noteq> ''https'' then []
       else scheme @ ''://'' @ ToLower (gw_unicode_lower G) (ur_Host u)))"

definition forwardedProto :: "Request \<Rightarrow> string" where
  "forwardedProto rq = (if header_Get ''X-Forwarded-Proto'' (rq_Header rq) = ''https'' \<or> rq_TLS rq
     then ''https'' else ''http'')"

definition validMachineOrigin :: "Gateway \<Rightarrow> Request \<Rightarrow> string \<Rightarrow> bool" where
  "validMachineOrigin G rq host =
     (if (rq_Method rq = ''GET'' \<or> rq_Method rq = ''HEAD'' \<or> rq_Method rq = ''OPTIONS'') \<and> \<not> isWebSocketRequest G rq
      then True
      else (let rawOrigin = TrimSpace (header_Get ''Origin'' (rq_Header rq)) in
        if rawOrigin = [] then False
        else (case gw_url_Parse G rawOrigin of
          None \<Rightarrow> False
        | Some u \<Rightarrow>
          if ur_User u \<or> ur_Hostname u = [] \<or> (ur_Path u \<noteq> [] \<and> ur_Path u \<noteq> ''/'') \<or> ur_RawQuery u \<noteq> []
             \<or> ur_Fragment u \<noteq> [] then False
          else normalizedHost G (ur_Host u) = host \<and> gw_equal_fold G (ur_Scheme u) (forwardedProto rq))))"

definition requestRemoteIP :: "Gateway \<Rightarrow> Request \<Rightarrow> string" where
  "requestRemoteIP G rq =
     (let forwarded = TrimSpace (hd (Split (header_Get ''X-Forwarded-For'' (rq_Header rq)) CHR '','')) in
      if gw_ParseIP G forwarded then forwarded
      else (let host = (case gw_SplitHostPort G (rq_RemoteAddr rq) of Some h \<Rightarrow> h | None \<Rightarrow> []) in
        if gw_ParseIP G host then host else []))"

definition terminal_rune :: "nat \<Rightarrow> bool" where
  "terminal_rune r \<longleftrightarrow> letter_or_digit r \<or> r = 95 \<or> r = 45"

definition validTerminalSessionName :: "string \<Rightarrow> bool" where
  "validTerminalSessionName s \<longleftrightarrow> \<not> (s = [] \<or> length s > 128) \<and> every_rune terminal_rune s"

definition validTerminalWorkingDirectory :: "string \<Rightarrow> bool" where
  "validTerminalWorkingDirectory s \<longleftrightarrow>
     s = ''/workspace'' \<or> s = ''/workspace/tasks''
   \<or> (\<not> (\<not> HasPrefix s ''/workspace/tasks/'' \<or> Contains s ''..'' \<or> Contains s ''//'')
      \<and> (let name = TrimPrefix s ''/workspace/tasks/'' in
          \<not> (name = [] \<or> Contains name ''/'' \<or> name = ''.'' \<or> name = ''..'')
        \<and> every_rune (\<lambda>r. terminal_rune r \<or> r = 46) name))"

section \<open>Credentials\<close>

definition hashToken :: "Gateway \<Rightarrow> string \<Rightarrow> string" where
  "hashToken G s = EncodeToString (gw_sha256 G s)"

definition stripCredentials :: "Gateway \<Rightarrow> header \<Rightarrow> header" where
  "stripCredentials G h = filter (\<lambda>(k, v). \<not> HasPrefix (ToLower (gw_unicode_lower G) k) ''x-kuayle-'')
     (header_Del ''Proxy-Authorization'' (header_Del ''Authorization'' (header_Del ''Cookie'' h)))"

text \<open>A cookie as its name, its domain and the text that \<open>Cookie.String\<close> writes.\<close>

definition sanitizeUpstreamCookies :: "Gateway \<Rightarrow> header \<Rightarrow> header" where
  "sanitizeUpstreamCookies G h = header_Del ''Set-Cookie'' h
     @ concat (map (\<lambda>(k, v). if k \<noteq> ''Set-Cookie'' then [] else (case gw_ParseSetCookie G v of
         None \<Rightarrow> []
       | Some (name, d, txt) \<Rightarrow> if name = machineSessionCookie \<or> d \<noteq> [] then [] else [(''Set-Cookie'', txt)])) h)"

definition routeMatchesHost :: "DevMachine \<Rightarrow> DevMachineService \<Rightarrow> string \<Rightarrow> string \<Rightarrow> bool" where
  "routeMatchesHost machine service routingKey serviceType \<longleftrightarrow>
     m_ID machine \<noteq> uuid_Nil \<and> m_WorkspaceID machine \<noteq> uuid_Nil
   \<and> m_CreatedByUserID machine \<noteq> None \<and> m_CreatedByUserID machine \<noteq> Some uuid_Nil
   \<and> m_RoutingKey machine = routingKey \<and> sv_ID service \<noteq> uuid_Nil \<and> sv_MachineID service = m_ID machine
   \<and> sv_ServiceType service = serviceType \<and> sv_Status service = ''running''"

definition routeMatchesAccess ::
  "time \<Rightarrow> DevMachine \<Rightarrow> DevMachineService \<Rightarrow> uuid \<Rightarrow> uuid \<Rightarrow> uuid \<Rightarrow> uuid \<Rightarrow> string \<Rightarrow> time \<Rightarrow> string \<Rightarrow> bool" where
  "routeMatchesAccess now machine service workspaceID machineID serviceID userID boundHost expiresAt host \<longleftrightarrow>
     routeMatchesHost machine service (m_RoutingKey machine) (sv_ServiceType service) \<and> now < expiresAt
   \<and> workspaceID = m_WorkspaceID machine \<and> machineID = m_ID machine \<and> serviceID = sv_ID service
   \<and> Some userID = m_CreatedByUserID machine \<and> boundHost = host"

definition accessTicketMatchesRoute ::
  "time \<Rightarrow> DevMachineAccessTicket option \<Rightarrow> string \<Rightarrow> DevMachine \<Rightarrow> DevMachineService \<Rightarrow> bool" where
  "accessTicketMatchesRoute now ticket host machine service = (case ticket of
     None \<Rightarrow> False
   | Some t \<Rightarrow> routeMatchesAccess now machine service (at_WorkspaceID t) (at_MachineID t) (at_ServiceID t) (at_UserID t)
       (at_BoundHost t) (at_ExpiresAt t) host \<and> at_Status t = TicketUsed)"

definition accessSessionMatchesRoute ::
  "time \<Rightarrow> DevMachineAccessSession \<Rightarrow> string \<Rightarrow> DevMachine \<Rightarrow> DevMachineService \<Rightarrow> bool" where
  "accessSessionMatchesRoute now s host machine service \<longleftrightarrow> as_RevokedAt s = None
     \<and> routeMatchesAccess now machine service (as_WorkspaceID s) (as_MachineID s) (as_ServiceID s) (as_UserID s)
         (as_BoundHost s) (as_ExpiresAt s) host"


section \<open>Audit\<close>

text \<open>The error of the log entry is only logged.\<close>

definition audit ::
  "Gateway \<Rightarrow> Request \<Rightarrow> DevMachine option \<Rightarrow> DevMachineService option \<Rightarrow> uuid option \<Rightarrow> string \<Rightarrow> string \<Rightarrow> int
     \<Rightarrow> unit act" where
  "audit G rq machine service userID decision reason status =
     (let userAgent = header_Get ''User-Agent'' (rq_Header rq); remoteIP = requestRemoteIP G rq;
          entry = \<lparr>al_ID = 0, al_WorkspaceID = map_option m_WorkspaceID machine, al_MachineID = map_option m_ID machine,
            al_ServiceID = map_option sv_ID service, al_UserID = userID, al_Decision = decision,
            al_Reason = (if reason = [] then None else Some reason), al_Method = rq_Method rq, al_Path = rq_Path rq,
            al_ResponseStatus = Some status, al_RemoteIP = (if remoteIP = [] then None else Some remoteIP),
            al_UserAgent = (if userAgent = [] then None else Some userAgent), al_CreatedAt = 0\<rparr> in
      ignore (storeA (\<lambda>now fresh seq d. CreateAccessLog now seq entry d)))"

text \<open>A denied request of a known machine: its audit entry and its reply.\<close>

definition deny ::
  "Gateway \<Rightarrow> Request \<Rightarrow> DevMachine \<Rightarrow> DevMachineService \<Rightarrow> uuid option \<Rightarrow> string \<Rightarrow> int \<Rightarrow> string \<Rightarrow> Reply act" where
  "deny G rq machine service userID reason status message =
     thenA (audit G rq (Some machine) (Some service) userID ''denied'' reason status)
       (returnA (Failure status message False))"

section \<open>Proxying\<close>

text \<open>\<open>httputil.NewSingleHostReverseProxy\<close> of a URL without a path, and the directors of the two proxies.\<close>

definition upstream_url :: "DevMachineService \<Rightarrow> string" where
  "upstream_url service = ''http://'' @ sv_InternalHost service @ '':'' @ int_decimal (sv_InternalPort service)"

definition forwarded_header :: "Gateway \<Rightarrow> Request \<Rightarrow> header" where
  "forwarded_header G rq = header_Set ''X-Forwarded-Proto'' (forwardedProto rq)
     (header_Set ''X-Forwarded-Host'' (rq_Host rq) (stripCredentials G (rq_Header rq)))"

definition proxy_request :: "Gateway \<Rightarrow> Request \<Rightarrow> DevMachineService \<Rightarrow> ProxyRequest" where
  "proxy_request G rq service = \<lparr>px_Upstream = upstream_url service,
     px_Path = (if HasPrefix (rq_Path rq) ''/'' then rq_Path rq else ''/'' @ rq_Path rq),
     px_RawQuery = rq_RawQuery rq, px_Host = rq_Host rq, px_Header = forwarded_header G rq\<rparr>"

definition terminal_proxy_request ::
  "Gateway \<Rightarrow> Request \<Rightarrow> DevMachineService \<Rightarrow> string \<Rightarrow> string \<Rightarrow> ProxyRequest" where
  "terminal_proxy_request G rq service sessionName workingDirectory =
     (proxy_request G rq service)\<lparr>px_Path := ''/ws'',
        px_RawQuery := encode_values [(''arg'', sessionName), (''arg'', workingDirectory)]\<rparr>"

text \<open>
  The machine is touched once, and once a minute while the connection lasts. The status of the
  audit entry is that of the upstream's reply; \<open>status\<close> is the writer's initial one.
\<close>

definition proxied ::
  "Gateway \<Rightarrow> Request \<Rightarrow> DevMachine \<Rightarrow> DevMachineService \<Rightarrow> uuid \<Rightarrow> string \<Rightarrow> int \<Rightarrow> ProxyRequest \<Rightarrow> Reply act" where
  "proxied G rq machine service userID reason status upstream =
     thenA (ignore (bindA nowA (\<lambda>clock. writeA (\<lambda>now. TouchMachineActivity now (m_ID machine) clock))))
     (thenA (audit G rq (Some machine) (Some service) (Some userID) ''allowed'' reason status)
       (returnA (Proxied userID upstream)))"

section \<open>Tickets and sessions\<close>

definition consumeTicket ::
  "Gateway \<Rightarrow> Request \<Rightarrow> string \<Rightarrow> DevMachine \<Rightarrow> DevMachineService \<Rightarrow> string \<Rightarrow> (DevMachineAccessTicket \<Rightarrow> Reply act)
     \<Rightarrow> Reply act" where
  "consumeTicket G rq host machine service tokenHash admit =
     bindA (attempt (countA (\<lambda>now. ConsumeAccessTicket now tokenHash host))) (\<lambda>consumed.
     bindA nowA (\<lambda>clock.
     let ticket = (case consumed of Inl e \<Rightarrow> None | Inr t \<Rightarrow> t) in
     if \<not> accessTicketMatchesRoute clock ticket host machine service
     then deny G rq machine service None ''invalid_ticket'' 401 ''invalid or expired ticket''
     else (case ticket of
         None \<Rightarrow> deny G rq machine service None ''invalid_ticket'' 401 ''invalid or expired ticket''
       | Some t \<Rightarrow>
         if gw_demoMode G \<and> \<not> gw_isSysAdmin G (at_UserID t)
         then deny G rq machine service (Some (at_UserID t)) ''demo_user_forbidden'' 403 ''forbidden''
         else admit t)))"

definition new_session ::
  "Gateway \<Rightarrow> uuid \<Rightarrow> DevMachineAccessTicket \<Rightarrow> DevMachine \<Rightarrow> string \<Rightarrow> string \<Rightarrow> time \<Rightarrow> DevMachineAccessSession" where
  "new_session G i ticket machine rawSession host clock = \<lparr>as_ID = i, as_WorkspaceID = at_WorkspaceID ticket,
     as_MachineID = at_MachineID ticket, as_ServiceID = at_ServiceID ticket, as_UserID = at_UserID ticket,
     as_TokenHash = hashToken G rawSession, as_BoundHost = host,
     as_ExpiresAt = min (clock + gw_sessionTTL G) (m_ExpiresAt machine), as_LastSeenAt = 0, as_CreatedAt = 0,
     as_RevokedAt = None\<rparr>"

text \<open>The request's path and its query without the ticket, as \<open>http.Redirect\<close> gets them.\<close>

definition clean_url :: "Request \<Rightarrow> string" where
  "clean_url rq = (let encoded = query_Encode (filter (\<lambda>(k, vs). k \<noteq> ''ticket'') (rq_Query rq)) in
     rq_Path rq @ (if encoded \<noteq> [] then ''?'' @ encoded else []))"

text \<open>Whole seconds, towards zero.\<close>

definition whole_seconds :: "duration \<Rightarrow> int" where
  "whole_seconds d = (if 0 \<le> d then d div seconds 1 else - ((- d) div seconds 1))"

definition openSession ::
  "Gateway \<Rightarrow> Request \<Rightarrow> string \<Rightarrow> DevMachine \<Rightarrow> DevMachineService \<Rightarrow> DevMachineAccessTicket \<Rightarrow> Reply act" where
  "openSession G rq host machine service ticket =
     bindA (attempt (drawA (\<lambda>n. gw_rand G n 32))) (\<lambda>drawn. case drawn of
       Inl e \<Rightarrow> returnA (Failure 503 ''gateway unavailable'' False)
     | Inr buffer \<Rightarrow>
       bindA nowA (\<lambda>clock.
       bindA freshA (\<lambda>i.
       let rawSession = EncodeToString buffer; session = new_session G i ticket machine rawSession host clock in
       bindA (attempt (storeA (\<lambda>now fresh seq. CreateAccessSession now session))) (\<lambda>created. case created of
         Inl e \<Rightarrow> if is_no_rows e
           then deny G rq machine service (Some (at_UserID ticket)) ''invalid_ticket'' 401 ''invalid or expired ticket''
           else returnA (Failure 503 ''gateway unavailable'' False)
       | Inr s \<Rightarrow> bindA nowA (\<lambda>later.
         thenA (audit G rq (Some machine) (Some service) (Some (at_UserID ticket)) ''allowed'' ''ticket_exchanged'' 303)
         (returnA (SeeOther (clean_url rq) \<lparr>sc_Value = rawSession, sc_Expires = as_ExpiresAt s,
            sc_MaxAge = whole_seconds (as_ExpiresAt s - later)\<rparr>)))))))"

definition exchangeTicket ::
  "Gateway \<Rightarrow> Request \<Rightarrow> string \<Rightarrow> DevMachine \<Rightarrow> DevMachineService \<Rightarrow> string \<Rightarrow> Reply act" where
  "exchangeTicket G rq host machine service rawTicket =
     (if length rawTicket \<noteq> 64 then deny G rq machine service None ''invalid_ticket'' 401 ''invalid ticket''
      else consumeTicket G rq host machine service (hashToken G rawTicket) (openSession G rq host machine service))"

definition proxyTerminalTicket ::
  "Gateway \<Rightarrow> Request \<Rightarrow> string \<Rightarrow> DevMachine \<Rightarrow> DevMachineService \<Rightarrow> string \<Rightarrow> Reply act" where
  "proxyTerminalTicket G rq host machine service rawTicket =
     (if gw_frontendOrigin G = []
      then deny G rq machine service None ''terminal_origin_unconfigured'' 403 ''terminal origin is not configured''
      else (let origin = requestOrigin G rq in
        if origin \<noteq> gw_frontendOrigin G then deny G rq machine service None ''invalid_origin'' 403 ''forbidden origin''
        else (let sessionName = query_Get ''session'' (rq_Query rq); workingDirectory = query_Get ''cwd'' (rq_Query rq) in
          if length rawTicket \<noteq> 64 \<or> \<not> validTerminalSessionName sessionName
             \<or> \<not> validTerminalWorkingDirectory workingDirectory \<or> rq_Path rq \<noteq> ''/ws''
          then deny G rq machine service None ''invalid_terminal_ticket'' 401 ''invalid terminal ticket''
          else consumeTicket G rq host machine service
            (terminalTicketHash (gw_sha256 G) rawTicket origin sessionName workingDirectory) (\<lambda>ticket.
              proxied G rq machine service (at_UserID ticket) ''terminal_ticket_exchanged'' 101
                (terminal_proxy_request G rq service sessionName workingDirectory)))))"

definition authorize ::
  "Gateway \<Rightarrow> Request \<Rightarrow> string \<Rightarrow> DevMachine \<Rightarrow> DevMachineService \<Rightarrow> DevMachineAccessSession option act" where
  "authorize G rq host machine service = (case rq_Cookie rq machineSessionCookie of
     None \<Rightarrow> returnA None
   | Some cookie \<Rightarrow>
     if length cookie \<noteq> 64 then returnA None
     else bindA (attempt (countA (\<lambda>now. GetAccessSession now (hashToken G cookie) host))) (\<lambda>found.
       bindA nowA (\<lambda>clock. case found of
         Inr (Some s) \<Rightarrow> returnA (if accessSessionMatchesRoute clock s host machine service then Some s else None)
       | _ \<Rightarrow> returnA None)))"

definition forwardSession ::
  "Gateway \<Rightarrow> Request \<Rightarrow> string \<Rightarrow> DevMachine \<Rightarrow> DevMachineService \<Rightarrow> Reply act" where
  "forwardSession G rq host machine service =
     bindA (authorize G rq host machine service) (\<lambda>found. case found of
       None \<Rightarrow> deny G rq machine service None ''invalid_session'' 401 ''unauthorized''
     | Some s \<Rightarrow>
       if gw_demoMode G \<and> \<not> gw_isSysAdmin G (as_UserID s)
       then deny G rq machine service (Some (as_UserID s)) ''demo_user_forbidden'' 403 ''forbidden''
       else if \<not> validMachineOrigin G rq host
       then deny G rq machine service (Some (as_UserID s)) ''invalid_origin'' 403 ''forbidden origin''
       else proxied G rq machine service (as_UserID s) [] 200 (proxy_request G rq service))"

section \<open>ServeHTTP\<close>

text \<open>A request to a machine that was found.\<close>

definition serveRoute ::
  "Gateway \<Rightarrow> Request \<Rightarrow> string \<Rightarrow> DevMachine \<Rightarrow> DevMachineService \<Rightarrow> string \<Rightarrow> string \<Rightarrow> Reply act" where
  "serveRoute G rq host machine service routingKey serviceType =
     (if \<not> routeMatchesHost machine service routingKey serviceType
      then deny G rq machine service None ''route_mismatch'' 404 ''not found''
      else bindA nowA (\<lambda>clock.
        if m_Status machine \<noteq> StatusRunning \<or> m_DesiredStatus machine \<noteq> StatusRunning \<or> \<not> clock < m_ExpiresAt machine
        then deny G rq machine service None ''machine_not_running'' 503 ''machine is not running''
        else (let ticket = query_Get ''ticket'' (rq_Query rq) in
          if ticket \<noteq> [] then
            (if rq_Method rq \<noteq> ''GET'' then deny G rq machine service None ''ticket_method'' 405 ''method not allowed''
             else if sv_ServiceType service = ''terminal'' \<and> isWebSocketRequest G rq
             then proxyTerminalTicket G rq host machine service ticket
             else exchangeTicket G rq host machine service ticket)
          else forwardSession G rq host machine service)))"

text \<open>A request to a host without a machine: an audit entry as far as the guard allows one.\<close>

definition refuseUnknown ::
  "Gateway \<Rightarrow> Request \<Rightarrow> string \<Rightarrow> int \<Rightarrow> string \<Rightarrow> bool \<Rightarrow> time \<Rightarrow> gatewayAbuseGuard \<Rightarrow> (Reply \<times> gatewayAbuseGuard) act" where
  "refuseUnknown G rq reason status message retryAfter now guard =
     (case allowUnknownAudit (gw_pick G) (requestRemoteIP G rq) now guard of (ok, guard') \<Rightarrow>
      thenA (whenA ok (audit G rq None None None ''denied'' reason status))
        (returnA (Failure status message retryAfter, guard')))"

definition ServeHTTP :: "Gateway \<Rightarrow> Request \<Rightarrow> gatewayAbuseGuard \<Rightarrow> (Reply \<times> gatewayAbuseGuard) act" where
  "ServeHTTP G rq guard =
     (let host = normalizedHost G (rq_Host rq) in
      case parseHost G host of (routingKey, serviceType, ok) \<Rightarrow>
      if \<not> ok then returnA (Failure 404 ''not found'' False, guard)
      else bindA nowA (\<lambda>now. let routeKey = routingKey @ '':'' @ serviceType in
        case allowRouteLookup (gw_pick G) (requestRemoteIP G rq) now guard of (allowed, g1) \<Rightarrow>
        if \<not> allowed then refuseUnknown G rq ''route_rate_limited'' 429 ''too many requests'' True now g1
        else (case negativeRoute routeKey now g1 of (known, g2) \<Rightarrow>
        if known then refuseUnknown G rq ''route_not_found'' 404 ''not found'' False now g2
        else if gw_lookups G \<ge> routeSlots
        then refuseUnknown G rq ''route_capacity_exceeded'' 429 ''too many requests'' True now g2
        else bindA (attempt (readA (\<lambda>now. GetRoute routingKey serviceType))) (\<lambda>found. case found of
            Inl e \<Rightarrow> returnA (Failure 503 ''gateway unavailable'' False, g2)
          | Inr (Some machine, Some service) \<Rightarrow>
              bindA (serveRoute G rq host machine service routingKey serviceType) (\<lambda>reply. returnA (reply, g2))
          | Inr _ \<Rightarrow> refuseUnknown G rq ''route_not_found'' 404 ''not found'' False now
              (rememberNegativeRoute (gw_pick G) routeKey now g2)))))"

end
