(* ===== verification/Gateway_Properties.thy ===== *)
theory Gateway_Properties
  imports Machine_Gateway Service_Rules Setting_Properties
begin

text \<open>
  Who gets through the machine gateway, and with what.
\<close>

section \<open>Steps that change no access\<close>

text \<open>Audit entries and touches leave everything but logs and activity times as it is.\<close>

definition same_access :: "world \<Rightarrow> world \<Rightarrow> bool" where
  "same_access w w' \<longleftrightarrow> w_script w' = [] \<and> w_now w' = w_now w
     \<and> db_tickets (w_db w') = db_tickets (w_db w) \<and> db_sessions (w_db w') = db_sessions (w_db w)
     \<and> db_services (w_db w') = db_services (w_db w) \<and> db_members (w_db w') = db_members (w_db w)
     \<and> db_policies (w_db w') = db_policies (w_db w) \<and> db_terminals (w_db w') = db_terminals (w_db w)"

lemma same_access_trans: "same_access w w' \<Longrightarrow> same_access w' w'' \<Longrightarrow> same_access w w''"
  by (simp add: same_access_def)

lemma audit_alone:
  assumes "w_script w = []"
  obtains w' where "audit G rq m s u decision reason status w = (Inr (), w')" and "same_access w w'"
    and "db_machines (w_db w') = db_machines (w_db w)"
proof -
  have "same_access w (snd (audit G rq m s u decision reason status w))
    \<and> db_machines (w_db (snd (audit G rq m s u decision reason status w))) = db_machines (w_db w)
    \<and> fst (audit G rq m s u decision reason status w) = Inr ()"
    using assms by (auto simp: audit_def ignore_def Let_def storeA_alone same_access_def tick_def CreateAccessLog_def
        split: sum.split prod.split)
  with that show ?thesis by (metis surj_pair fst_conv snd_conv)
qed

lemma deny_Inr: "deny G rq m s u reason status message w = (Inr reply, w') \<Longrightarrow> reply = Failure status message False"
  by (auto simp: deny_def inversion)

lemma refuseUnknown_Inr:
  "refuseUnknown G rq reason status message retry now guard w = (Inr (reply, guard'), w') \<Longrightarrow>
     reply = Failure status message retry"
  by (auto simp: refuseUnknown_def inversion split: prod.splits)

section \<open>Admission\<close>

text \<open>The creator of the machine, a writing member, reaches his running service.\<close>

definition admitted :: "time \<Rightarrow> db \<Rightarrow> Gateway \<Rightarrow> DevMachine \<Rightarrow> DevMachineService \<Rightarrow> uuid \<Rightarrow> bool" where
  "admitted now d G machine service userID \<longleftrightarrow>
     access_open now d (m_WorkspaceID machine) (m_ID machine) (sv_ID service) userID
   \<and> m_CreatedByUserID machine = Some userID \<and> (gw_demoMode G \<longrightarrow> gw_isSysAdmin G userID)"

lemma consumeTicket_alone:
  assumes "w_script w = []" and "consumeTicket G rq host machine service h admit w = (Inr reply, w')"
    and "\<nexists>status message retry. reply = Failure status message retry"
  obtains t v where "admit t v = (Inr reply, w')" and "admitted (w_now w) (w_db w) G machine service (at_UserID t)"
    and "routeMatchesAccess (w_now w) machine service (at_WorkspaceID t) (at_MachineID t) (at_ServiceID t) (at_UserID t)
      (at_BoundHost t) (at_ExpiresAt t) host"
    and "\<exists>tk \<in> set (db_tickets (w_db w)). consumable (w_now w) (w_db w) h host tk \<and> at_UserID tk = at_UserID t"
    and "w_script v = []" "w_now v = w_now w" "db_machines (w_db v) = db_machines (w_db w)"
      "db_sessions (w_db v) = db_sessions (w_db w)" "db_services (w_db v) = db_services (w_db w)"
      "db_members (w_db v) = db_members (w_db w)"
proof -
  let ?d = "w_db w" and ?t = "find (consumable (w_now w) (w_db w) h host) (db_tickets (w_db w))"
  obtain t where t: "?t = Some t"
  proof (cases ?t)
    case None
    with assms have False
      by (auto simp: consumeTicket_def inversion alone_simps ConsumeAccessTicket_def accessTicketMatchesRoute_def Let_def if_Inr
          split: if_splits dest!: deny_Inr)
    then show ?thesis ..
  qed
  let ?u = "used_row (w_now w) t"
  have used: "at_WorkspaceID ?u = at_WorkspaceID t" "at_MachineID ?u = at_MachineID t" "at_ServiceID ?u = at_ServiceID t"
    "at_UserID ?u = at_UserID t" by (simp_all add: used_row_def)
  from assms t obtain v where v: "admit ?u v = (Inr reply, w')" "gw_demoMode G \<longrightarrow> gw_isSysAdmin G (at_UserID t)"
    "accessTicketMatchesRoute (w_now w) (Some ?u) host machine service"
    "v = (tick w)\<lparr>w_db := snd (ConsumeAccessTicket (w_now w) h host ?d)\<rparr>"
    by (auto simp: consumeTicket_def inversion alone_simps ConsumeAccessTicket_def used tick_def Let_def if_Inr
        split: if_splits option.splits dest!: deny_Inr)
  have "access_open (w_now w) ?d (at_WorkspaceID t) (at_MachineID t) (at_ServiceID t) (at_UserID t)"
    using find_SomeD [OF t] by (simp add: consumable_def)
  with v(2,3) have "admitted (w_now w) ?d G machine service (at_UserID ?u)"
    by (auto simp: admitted_def accessTicketMatchesRoute_def routeMatchesAccess_def used)
  moreover have "\<exists>tk \<in> set (db_tickets ?d). consumable (w_now w) ?d h host tk \<and> at_UserID tk = at_UserID ?u"
    by (rule bexI [of _ t]) (use find_SomeD [OF t] used(4) in auto)
  ultimately show ?thesis using that [OF v(1)] v(3) assms(1)
    by (simp add: v(4) tick_def accessTicketMatchesRoute_def ConsumeAccessTicket_def)
qed

lemma audit_Inr_alone:
  assumes "audit G rq m s u decision reason status w = (Inr x, w')" and "w_script w = []"
  shows "same_access w w'" and "db_machines (w_db w') = db_machines (w_db w)"
  using audit_alone [OF assms(2), of G rq m s u decision reason status] assms(1) by (metis prod.inject)+

lemma draw_alone:
  "attempt (drawA f) w = (Inr r, w') \<Longrightarrow> w' = w\<lparr>w_fresh := w_fresh w + 1\<rparr> \<or> (\<exists>e. r = Inl e)"
  by (auto simp: attempt_Inr drawA_def split: sum.splits)

lemma create_session_alone:
  "w_script w = [] \<Longrightarrow> attempt (storeA (\<lambda>now fresh seq. CreateAccessSession now s)) w = (Inr (Inr r), w') \<Longrightarrow>
     r = s\<lparr>as_CreatedAt := w_now w, as_LastSeenAt := w_now w\<rparr> \<and> w_script w' = [] \<and> w_now w' = w_now w
     \<and> db_sessions (w_db w') = db_sessions (w_db w) @ [s\<lparr>as_CreatedAt := w_now w, as_LastSeenAt := w_now w, as_RevokedAt := None\<rparr>]"
  by (auto simp: attempt_Inr storeA_alone CreateAccessSession_def tick_def split: sum.splits if_splits)

lemma openSession_alone:
  assumes "w_script v = []" and "openSession G rq host machine service t v = (Inr reply, w')"
    and "\<nexists>status message retry. reply = Failure status message retry"
  obtains raw row i where "reply = SeeOther (clean_url rq) \<lparr>sc_Value = raw, sc_Expires = as_ExpiresAt row,
          sc_MaxAge = whole_seconds (as_ExpiresAt row - w_now v)\<rparr>"
    and "db_sessions (w_db w') = db_sessions (w_db v) @ [row]"
    and "row = (new_session G i t machine raw host (w_now v))\<lparr>as_CreatedAt := w_now v, as_LastSeenAt := w_now v\<rparr>"
proof -
  let ?open = "\<lambda>b clock i. new_session G i t machine (EncodeToString b) host clock"
  let ?rest = "\<lambda>b. case_sum
      (\<lambda>e. if is_no_rows e then deny G rq machine service (Some (at_UserID t)) ''invalid_ticket'' 401 ''invalid or expired ticket''
            else returnA (Failure 503 ''gateway unavailable'' False))
      (\<lambda>s. bindA nowA (\<lambda>later.
         thenA (audit G rq (Some machine) (Some service) (Some (at_UserID t)) ''allowed'' ''ticket_exchanged'' 303)
         (returnA (SeeOther (clean_url rq) \<lparr>sc_Value = EncodeToString b, sc_Expires = as_ExpiresAt s,
            sc_MaxAge = whole_seconds (as_ExpiresAt s - later)\<rparr>))))"
  obtain drawn v1 where drawn: "attempt (drawA (\<lambda>n. gw_rand G n 32)) v = (Inr drawn, v1)"
    and more: "case_sum (\<lambda>e. returnA (Failure 503 ''gateway unavailable'' False))
      (\<lambda>b. bindA nowA (\<lambda>clock. bindA freshA (\<lambda>i.
         bindA (attempt (storeA (\<lambda>now fresh seq. CreateAccessSession now (?open b clock i)))) (?rest b)))) drawn v1 = (Inr reply, w')"
    using assms(2) unfolding openSession_def Let_def bindA_Inr by blast
  from more assms(3) obtain b where b: "drawn = Inr b" by (cases drawn) (auto simp: returnA_Inr)
  then have v1: "v1 = v\<lparr>w_fresh := w_fresh v + 1\<rparr>" using draw_alone [OF drawn] by blast
  let ?s = "?open b (w_now v) (w_fresh v1)"
  let ?v2 = "v1\<lparr>w_fresh := w_fresh v1 + 1\<rparr>"
  obtain created v3 where created: "attempt (storeA (\<lambda>now fresh seq. CreateAccessSession now ?s)) ?v2 = (Inr created, v3)"
    and rest: "?rest b created v3 = (Inr reply, w')"
    using more unfolding b by (auto simp: bindA_Inr nowA_Inr freshA_Inr v1)
  from rest assms(3) obtain s where s: "created = Inr s"
    by (cases created) (auto simp: returnA_Inr if_Inr dest!: deny_Inr split: if_splits)
  note rest = rest [unfolded s, simplified]
  have "w_script ?v2 = []" using assms(1) v1 by simp
  from create_session_alone [OF this created [unfolded s]] have s_row: "s = ?s\<lparr>as_CreatedAt := w_now v, as_LastSeenAt := w_now v\<rparr>"
    and v3: "w_script v3 = []" "w_now v3 = w_now v"
      "db_sessions (w_db v3) = db_sessions (w_db v) @ [?s\<lparr>as_CreatedAt := w_now v, as_LastSeenAt := w_now v, as_RevokedAt := None\<rparr>]"
    by (simp_all add: v1)
  from rest have "db_sessions (w_db w') = db_sessions (w_db v3)"
    using audit_Inr_alone(1) [OF _ v3(1)] by (auto simp: inversion same_access_def)
  moreover have "?s\<lparr>as_CreatedAt := w_now v, as_LastSeenAt := w_now v, as_RevokedAt := None\<rparr> = s"
    by (simp add: s_row new_session_def)
  ultimately have "db_sessions (w_db w') = db_sessions (w_db v) @ [s]" using v3(3) by simp
  moreover have "reply = SeeOther (clean_url rq) \<lparr>sc_Value = EncodeToString b, sc_Expires = as_ExpiresAt s,
          sc_MaxAge = whole_seconds (as_ExpiresAt s - w_now v)\<rparr>"
    using rest v3(2) by (auto simp: inversion)
  ultimately show ?thesis using that s_row by blast
qed

lemma proxied_Inr: "proxied G rq m s u reason status px w = (Inr reply, w') \<Longrightarrow> reply = Proxied u px"
  by (auto simp: proxied_def inversion)

lemma find_live:
  assumes "find (live_session now d h host) ss = Some s"
  shows "s \<in> set ss" and "live_session now d h host s"
  using find_SomeD [OF assms] by auto

lemma authorize_alone:
  assumes "w_script w = []" and "authorize G rq host machine service w = (Inr (Some s), v)"
  obtains c r where "rq_Cookie rq machineSessionCookie = Some c" and "r \<in> set (db_sessions (w_db w))"
    and "live_session (w_now w) (w_db w) (hashToken G c) host r" and "s = seen_row (w_now w) r"
    and "routeMatchesAccess (w_now w) machine service (as_WorkspaceID r) (as_MachineID r) (as_ServiceID r) (as_UserID r)
      (as_BoundHost r) (as_ExpiresAt r) host"
proof -
  from assms obtain c where c: "rq_Cookie rq machineSessionCookie = Some c"
    by (auto simp: authorize_def returnA_Inr split: option.splits)
  let ?f = "find (live_session (w_now w) (w_db w) (hashToken G c) host) (db_sessions (w_db w))"
  from assms c obtain r where r: "?f = Some r" and s: "s = seen_row (w_now w) r"
      "accessSessionMatchesRoute (w_now w) s host machine service"
    by (cases ?f) (auto simp: authorize_def inversion alone_simps GetAccessSession_def tick_def if_Inr split: if_splits)
  from that [OF c find_live [OF r] s(1)] s show ?thesis
    by (simp add: accessSessionMatchesRoute_def seen_row_def)
qed

section \<open>What a reply gives\<close>

text \<open>The machine and the service a host names, while the machine runs.\<close>

definition served :: "time \<Rightarrow> db \<Rightarrow> Gateway \<Rightarrow> string \<Rightarrow> DevMachine \<Rightarrow> DevMachineService \<Rightarrow> bool" where
  "served now d G host machine service \<longleftrightarrow> (\<exists>key kind. parseHost G host = (key, kind, True)
     \<and> GetRoute key kind d = (Some machine, Some service)
     \<and> m_Status machine = StatusRunning \<and> m_DesiredStatus machine = StatusRunning \<and> now < m_ExpiresAt machine)"

text \<open>
  The credential of a user: an active ticket for the host, exchanged in the address or by a terminal of
  the frontend, or a live session for the host, with an origin that is the host's own.
\<close>

definition ticket_for :: "time \<Rightarrow> db \<Rightarrow> string \<Rightarrow> string \<Rightarrow> uuid \<Rightarrow> bool" where
  "ticket_for now d h host u \<longleftrightarrow> (\<exists>t \<in> set (db_tickets d). consumable now d h host t \<and> at_UserID t = u)"

definition session_for :: "time \<Rightarrow> db \<Rightarrow> string \<Rightarrow> string \<Rightarrow> uuid \<Rightarrow> bool" where
  "session_for now d h host u \<longleftrightarrow> (\<exists>s \<in> set (db_sessions d). live_session now d h host s \<and> as_UserID s = u)"

definition proven :: "time \<Rightarrow> db \<Rightarrow> Gateway \<Rightarrow> Request \<Rightarrow> string \<Rightarrow> uuid \<Rightarrow> bool" where
  "proven now d G rq host u \<longleftrightarrow> (let ticket = query_Get ''ticket'' (rq_Query rq) in
     if ticket = [] then (\<exists>c. rq_Cookie rq machineSessionCookie = Some c \<and> session_for now d (hashToken G c) host u)
       \<and> validMachineOrigin G rq host
     else requestOrigin G rq = gw_frontendOrigin G \<and> gw_frontendOrigin G \<noteq> []
       \<and> ticket_for now d (terminalTicketHash (gw_sha256 G) ticket (gw_frontendOrigin G)
           (query_Get ''session'' (rq_Query rq)) (query_Get ''cwd'' (rq_Query rq))) host u)"

definition private_header :: "Gateway \<Rightarrow> string \<Rightarrow> bool" where
  "private_header G name \<longleftrightarrow> name \<in> {''Cookie'', ''Authorization'', ''Proxy-Authorization''}
     \<or> HasPrefix (ToLower (gw_unicode_lower G) name) ''x-kuayle-''"

lemma forwarded_names:
  "HasPrefix (ToLower f ''X-Forwarded-Proto'') ''x-kuayle-'' = False"
  "HasPrefix (ToLower f ''X-Forwarded-Host'') ''x-kuayle-'' = False"
  by (simp_all add: ToLower_def HasPrefix_def ascii_lower_def)

lemma forwarded_header_private: "(name, v) \<in> set (forwarded_header G rq) \<Longrightarrow> \<not> private_header G name"
  by (auto simp: forwarded_header_def header_Set_def header_Del_def stripCredentials_def private_header_def forwarded_names)

text \<open>The row of a session that a ticket of \<open>u\<close> opens.\<close>

definition session_row ::
  "time \<Rightarrow> Gateway \<Rightarrow> DevMachine \<Rightarrow> DevMachineService \<Rightarrow> string \<Rightarrow> uuid \<Rightarrow> string \<Rightarrow> DevMachineAccessSession \<Rightarrow> bool" where
  "session_row now G machine service host u raw row \<longleftrightarrow> as_TokenHash row = hashToken G raw \<and> as_UserID row = u
     \<and> as_BoundHost row = host \<and> as_MachineID row = m_ID machine \<and> as_ServiceID row = sv_ID service
     \<and> as_ExpiresAt row \<le> m_ExpiresAt machine \<and> as_ExpiresAt row \<le> now + gw_sessionTTL G"

definition given :: "world \<Rightarrow> world \<Rightarrow> Gateway \<Rightarrow> Request \<Rightarrow> string \<Rightarrow> DevMachine \<Rightarrow> DevMachineService \<Rightarrow> Reply \<Rightarrow> bool" where
  "given w w' G rq host machine service reply \<longleftrightarrow> (case reply of
     Failure status message retry \<Rightarrow> True
   | SeeOther location cookie \<Rightarrow> \<exists>u row. admitted (w_now w) (w_db w) G machine service u
       \<and> ticket_for (w_now w) (w_db w) (hashToken G (query_Get ''ticket'' (rq_Query rq))) host u
       \<and> session_row (w_now w) G machine service host u (sc_Value cookie) row \<and> sc_Expires cookie = as_ExpiresAt row
       \<and> db_sessions (w_db w') = db_sessions (w_db w) @ [row]
   | Proxied u upstream \<Rightarrow> admitted (w_now w) (w_db w) G machine service u \<and> proven (w_now w) (w_db w) G rq host u
       \<and> px_Upstream upstream = upstream_url service
       \<and> (\<forall>(name, v) \<in> set (px_Header upstream). \<not> private_header G name))"

lemma given_denied: "deny G rq m s u reason status message v = (Inr reply, w') \<Longrightarrow> given w w'' G rq' host machine service reply"
  by (drule deny_Inr) (simp add: given_def)

lemma forwardSession_given:
  assumes "w_script w = []" and "forwardSession G rq host machine service w = (Inr reply, w')"
    and "query_Get ''ticket'' (rq_Query rq) = []"
  shows "given w w' G rq host machine service reply"
proof -
  from assms(2) obtain found v where v: "authorize G rq host machine service w = (Inr found, v)"
    and rest: "(case found of
       None \<Rightarrow> deny G rq machine service None ''invalid_session'' 401 ''unauthorized''
     | Some s \<Rightarrow>
       if gw_demoMode G \<and> \<not> gw_isSysAdmin G (as_UserID s)
       then deny G rq machine service (Some (as_UserID s)) ''demo_user_forbidden'' 403 ''forbidden''
       else if \<not> validMachineOrigin G rq host
       then deny G rq machine service (Some (as_UserID s)) ''invalid_origin'' 403 ''forbidden origin''
       else proxied G rq machine service (as_UserID s) [] 200 (proxy_request G rq service)) v = (Inr reply, w')"
    unfolding forwardSession_def bindA_Inr by blast
  show ?thesis
  proof (cases found)
    case None
    with rest show ?thesis by (auto intro: given_denied)
  next
    case (Some s)
    show ?thesis
    proof (cases "gw_demoMode G \<and> \<not> gw_isSysAdmin G (as_UserID s) \<or> \<not> validMachineOrigin G rq host")
      case True
      with rest Some show ?thesis by (auto intro: given_denied split: if_splits)
    next
      case False
      with rest Some have reply: "reply = Proxied (as_UserID s) (proxy_request G rq service)"
        by (auto dest: proxied_Inr split: if_splits)
      from assms(1) v [unfolded Some] obtain c r where c: "rq_Cookie rq machineSessionCookie = Some c"
          "r \<in> set (db_sessions (w_db w))" "live_session (w_now w) (w_db w) (hashToken G c) host r"
          "s = seen_row (w_now w) r"
          "routeMatchesAccess (w_now w) machine service (as_WorkspaceID r) (as_MachineID r) (as_ServiceID r) (as_UserID r)
            (as_BoundHost r) (as_ExpiresAt r) host"
        by (rule authorize_alone)
      then have "as_UserID s = as_UserID r" by (simp add: seen_row_def)
      with c False assms(3) show ?thesis
        by (auto simp: given_def reply admitted_def proven_def session_for_def routeMatchesAccess_def live_session_def
            proxy_request_def forwarded_header_private)
    qed
  qed
qed

lemma exchangeTicket_given:
  assumes "w_script w = []" and "exchangeTicket G rq host machine service (query_Get ''ticket'' (rq_Query rq)) w = (Inr reply, w')"
  shows "given w w' G rq host machine service reply"
proof (cases "\<exists>status message retry. reply = Failure status message retry")
  case True
  then show ?thesis by (auto simp: given_def)
next
  case False
  let ?raw = "query_Get ''ticket'' (rq_Query rq)"
  from assms(2) False have "consumeTicket G rq host machine service (hashToken G ?raw)
      (openSession G rq host machine service) w = (Inr reply, w')"
    by (auto simp: exchangeTicket_def if_Inr dest!: deny_Inr split: if_splits)
  then show ?thesis
  proof (rule consumeTicket_alone [OF assms(1) _ False])
    fix t v
    assume run: "openSession G rq host machine service t v = (Inr reply, w')" and v: "w_script v = []" "w_now v = w_now w"
        "db_sessions (w_db v) = db_sessions (w_db w)"
      and t: "admitted (w_now w) (w_db w) G machine service (at_UserID t)"
        "routeMatchesAccess (w_now w) machine service (at_WorkspaceID t) (at_MachineID t) (at_ServiceID t) (at_UserID t)
          (at_BoundHost t) (at_ExpiresAt t) host"
        "\<exists>tk \<in> set (db_tickets (w_db w)). consumable (w_now w) (w_db w) (hashToken G ?raw) host tk \<and> at_UserID tk = at_UserID t"
    from v(1) run False show ?thesis
    proof (rule openSession_alone)
      fix raw row i
      assume reply: "reply = SeeOther (clean_url rq) \<lparr>sc_Value = raw, sc_Expires = as_ExpiresAt row,
            sc_MaxAge = whole_seconds (as_ExpiresAt row - w_now v)\<rparr>"
        and rows: "db_sessions (w_db w') = db_sessions (w_db v) @ [row]"
        and row: "row = (new_session G i t machine raw host (w_now v))\<lparr>as_CreatedAt := w_now v, as_LastSeenAt := w_now v\<rparr>"
      have "session_row (w_now w) G machine service host (at_UserID t) raw row"
        using t(2) v(2) by (simp add: session_row_def row new_session_def routeMatchesAccess_def)
      then show ?thesis using t(1,3) rows v(3) by (auto simp: given_def reply ticket_for_def)
    qed
  qed
qed

lemma proxyTerminalTicket_given:
  assumes "w_script w = []" and "query_Get ''ticket'' (rq_Query rq) \<noteq> []"
    and "proxyTerminalTicket G rq host machine service (query_Get ''ticket'' (rq_Query rq)) w = (Inr reply, w')"
  shows "given w w' G rq host machine service reply"
proof (cases "\<exists>status message retry. reply = Failure status message retry")
  case True
  then show ?thesis by (auto simp: given_def)
next
  case False
  let ?raw = "query_Get ''ticket'' (rq_Query rq)" and ?o = "gw_frontendOrigin G"
  let ?h = "terminalTicketHash (gw_sha256 G) ?raw ?o (query_Get ''session'' (rq_Query rq)) (query_Get ''cwd'' (rq_Query rq))"
  let ?admit = "\<lambda>t. proxied G rq machine service (at_UserID t) ''terminal_ticket_exchanged'' 101
      (terminal_proxy_request G rq service (query_Get ''session'' (rq_Query rq)) (query_Get ''cwd'' (rq_Query rq)))"
  from assms(3) False have origin: "?o \<noteq> []" "requestOrigin G rq = ?o"
    by (auto simp: proxyTerminalTicket_def Let_def if_Inr dest!: deny_Inr split: if_splits)
  from assms(3) False have "consumeTicket G rq host machine service ?h ?admit w = (Inr reply, w')"
    by (auto simp: proxyTerminalTicket_def Let_def if_Inr origin dest!: deny_Inr split: if_splits)
  then show ?thesis
  proof (rule consumeTicket_alone [OF assms(1) _ False])
    fix t v
    assume run: "?admit t v = (Inr reply, w')" and t: "admitted (w_now w) (w_db w) G machine service (at_UserID t)"
        "\<exists>tk \<in> set (db_tickets (w_db w)). consumable (w_now w) (w_db w) ?h host tk \<and> at_UserID tk = at_UserID t"
    from t origin assms(2) show ?thesis
      by (auto simp: given_def proxied_Inr [OF run] proven_def ticket_for_def terminal_proxy_request_def
          proxy_request_def forwarded_header_private)
  qed
qed

lemma serveRoute_given:
  assumes "w_script w = []" and "serveRoute G rq host machine service key kind w = (Inr reply, w')"
  shows "given w w' G rq host machine service reply"
    and "(\<exists>status message retry. reply = Failure status message retry)
      \<or> m_Status machine = StatusRunning \<and> m_DesiredStatus machine = StatusRunning \<and> w_now w < m_ExpiresAt machine"
  using assms by (auto simp: serveRoute_def Let_def if_Inr bindA_Inr nowA_Inr dest: deny_Inr
      intro: given_denied exchangeTicket_given proxyTerminalTicket_given forwardSession_given split: if_split_asm)

lemma given_tick: "given (tick w) w' G rq host machine service reply = given w w' G rq host machine service reply"
  by (simp add: given_def proven_def tick_def cong: Reply.case_cong)

section \<open>The theorem\<close>

text \<open>
  (C29) Only the creator of a running machine gets through its gateway, and only as far as he has proved.
  Whatever the request, a reply that is not a refusal belongs to a machine and a service that the host
  names. A request is forwarded to that service for the user whose session or terminal ticket it presents,
  who created the machine, is a writing member and, in demo mode, an administrator; a session needs an origin
  of its own, a terminal that of the frontend; what is forwarded has no cookie, no authorization and no
  header of the application. A cookie is set only for an active ticket, of the user, the host, the machine and
  the service of that ticket; it is stored as its hash and ends no later than the machine.
\<close>

theorem gateway_admits_only_creator:
  assumes "w_script w = []" and "ServeHTTP G rq guard w = (Inr (reply, guard'), w')"
  shows "(\<exists>status message retry. reply = Failure status message retry)
    \<or> (\<exists>machine service. served (w_now w) (w_db w) G (normalizedHost G (rq_Host rq)) machine service
        \<and> given w w' G rq (normalizedHost G (rq_Host rq)) machine service reply)"
proof (cases "\<exists>status message retry. reply = Failure status message retry")
  case True
  then show ?thesis ..
next
  case False
  let ?host = "normalizedHost G (rq_Host rq)"
  obtain key kind ok where host: "parseHost G ?host = (key, kind, ok)" by (metis prod_cases3)
  obtain allowed g1 where g1: "allowRouteLookup (gw_pick G) (requestRemoteIP G rq) (w_now w) guard = (allowed, g1)"
    by (metis surj_pair)
  obtain known g2 where g2: "negativeRoute (key @ '':'' @ kind) (w_now w) g1 = (known, g2)" by (metis surj_pair)
  obtain found machine service where route: "GetRoute key kind (w_db w) = (machine, service)" by (metis surj_pair)
  note run = assms(2) [unfolded ServeHTTP_def Let_def host g1 g2 prod.case]
  from run False have ok: ok by (cases ok) (auto simp: if_Inr returnA_Inr)
  from run ok False have limits: allowed "\<not> known" "\<not> gw_lookups G \<ge> routeSlots"
    by (auto simp: if_Inr bindA_Inr nowA_Inr g1 g2 [simplified] dest!: refuseUnknown_Inr split: if_split_asm)
  have look: "attempt (readA (\<lambda>now. GetRoute key kind)) w = (Inr (Inr (machine, service)), tick w)"
    using assms(1) by (simp add: attempt_Inr readA_Inr_alone route)
  let ?serve = "\<lambda>p. case p of
        (Some machine, Some service) \<Rightarrow>
          bindA (serveRoute G rq ?host machine service key kind) (\<lambda>reply. returnA (reply, g2))
      | _ \<Rightarrow> refuseUnknown G rq ''route_not_found'' 404 ''not found'' False (w_now w)
          (rememberNegativeRoute (gw_pick G) (key @ '':'' @ kind) (w_now w) g2)"
  have "bindA (attempt (readA (\<lambda>now. GetRoute key kind)))
      (case_sum (\<lambda>e. returnA (Failure 503 ''gateway unavailable'' False, g2)) ?serve) w = (Inr (reply, guard'), w')"
    using run ok limits by (simp add: bindA_Inr nowA_Inr g1 g2 [simplified])
  then have "?serve (machine, service) (tick w) = (Inr (reply, guard'), w')"
    unfolding bindA_Inr look by auto
  with False obtain m s where ms: "machine = Some m" "service = Some s"
    and serve: "serveRoute G rq ?host m s key kind (tick w) = (Inr reply, w')"
    by (auto simp: bindA_Inr returnA_Inr dest!: refuseUnknown_Inr split: option.splits)
  have "w_script (tick w) = []" using assms(1) by simp
  from serveRoute_given [OF this serve] False
  have "given w w' G rq ?host m s reply"
    and "m_Status m = StatusRunning \<and> m_DesiredStatus m = StatusRunning \<and> w_now w < m_ExpiresAt m"
    by (auto simp: given_tick) (auto simp: tick_def)
  moreover from host ok route ms have "parseHost G ?host = (key, kind, True)" "GetRoute key kind (w_db w) = (Some m, Some s)"
    by simp_all
  ultimately show ?thesis unfolding served_def by fast
qed

definition gateway0 :: Gateway where
  "gateway0 = \<lparr>gw_domain = ''dev.test'', gw_frontendOrigin = ''https://app.test'', gw_sessionTTL = seconds 3600,
     gw_demoMode = False, gw_isSysAdmin = (\<lambda>_. True), gw_url_Parse = (\<lambda>_. None), gw_SplitHostPort = (\<lambda>_. None),
     gw_ParseIP = (\<lambda>_. False), gw_ParseSetCookie = (\<lambda>_. None), gw_unicode_lower = (\<lambda>r. r), gw_equal_fold = (=),
     gw_sha256 = take 1, gw_rand = (\<lambda>n k. Inr (replicate k (char_of (n mod 256)))), gw_pick = 0, gw_lookups = 0\<rparr>"

definition request0 :: Request where
  "request0 = \<lparr>rq_Method = ''GET'', rq_Host = ''abcdefghijkl.dev.test'', rq_Path = ''/'', rq_RawQuery = [], rq_Query = [],
     rq_Header = [(''Cookie'', ''secret''), (''Accept'', ''*'')], rq_Cookie = (\<lambda>_. Some (replicate 64 CHR ''a'')), rq_TLS = True,
     rq_RemoteAddr = []\<rparr>"

definition gateway_db :: db where
  "gateway_db = db0\<lparr>db_machines := [machine0], db_policies := [policy0], db_services := [Machine_Samples.service0],
     db_members := [\<lparr>wm_WorkspaceID = 1, wm_UserID = 7, wm_Role = ''member'', wm_CreatedAt = 0\<rparr>],
     db_sessions := [\<lparr>as_ID = 1, as_WorkspaceID = 1, as_MachineID = 1, as_ServiceID = 1, as_UserID = 7,
       as_TokenHash = ''61'', as_BoundHost = ''abcdefghijkl.dev.test'', as_ExpiresAt = seconds 60, as_LastSeenAt = 0,
       as_CreatedAt = 0, as_RevokedAt = None\<rparr>]\<rparr>"

lemma request0_host: "normalizedHost gateway0 (rq_Host request0) = ''abcdefghijkl.dev.test''"
  "parseHost gateway0 ''abcdefghijkl.dev.test'' = (''abcdefghijkl'', ''ide'', True)"
  by code_simp+

lemma request0_limits:
  obtains g where "allowRouteLookup (gw_pick gateway0) (requestRemoteIP gateway0 request0) 0 newGatewayAbuseGuard = (True, g)"
    and "negativeRoute (''abcdefghijkl'' @ '':'' @ ''ide'') 0 g = (False, g)"
proof -
  let ?look = "allowRouteLookup (gw_pick gateway0) (requestRemoteIP gateway0 request0) 0 newGatewayAbuseGuard"
  have "fst ?look" and "negativeRoute (''abcdefghijkl'' @ '':'' @ ''ide'') 0 (snd ?look) = (False, snd ?look)"
    by code_simp+
  with that [of "snd ?look"] show ?thesis by (metis (full_types) prod.collapse)
qed

lemma proxied_done:
  assumes "w_script w = []"
  shows "\<exists>w'. proxied G rq m s u reason status px w = (Inr (Proxied u px), w')"
proof -
  let ?v = "snd (ignore (bindA nowA (\<lambda>clock. writeA (\<lambda>now. TouchMachineActivity now (m_ID m) clock))) w)"
  have touch: "ignore (bindA nowA (\<lambda>clock. writeA (\<lambda>now. TouchMachineActivity now (m_ID m) clock))) w = (Inr (), ?v)"
    by (simp add: ignore_def split: prod.split)
  have "w_script ?v = []"
    using assms by (simp add: ignore_def bindA_def nowA_def getA_def alone_simps split: prod.split)
  then obtain w' where "audit G rq (Some m) (Some s) (Some u) ''allowed'' reason status ?v = (Inr (), w')"
    using audit_alone by blast
  with touch show ?thesis unfolding proxied_def thenA_Inr returnA_Inr by blast
qed

lemma authorize_request0:
  "\<exists>s v. authorize gateway0 request0 ''abcdefghijkl.dev.test'' machine0 Machine_Samples.service0 (tick (world0 gateway_db []))
     = (Inr (Some s), v) \<and> as_UserID s = 7 \<and> w_script v = []"
proof -
  have hash: "hashToken gateway0 (replicate 64 CHR ''a'') = ''61''" by code_simp
  show ?thesis
    by (simp add: authorize_def request0_def hash bindA_def attempt_def alone_simps world0_def GetAccessSession_def gateway_db_def
        live_session_def access_open_def exists_where_def open_machine_def is_machine_def open_service_def writing_member_def
        sample_defs seconds_def nowA_def getA_def accessSessionMatchesRoute_def routeMatchesAccess_def routeMatchesHost_def
        seen_row_def returnA_def tick_def machineSessionCookie_def del: One_nat_def)
qed

lemma request0_served:
  "\<exists>guard' w'. ServeHTTP gateway0 request0 newGatewayAbuseGuard (world0 gateway_db [])
     = (Inr (Proxied 7 (proxy_request gateway0 request0 Machine_Samples.service0), guard'), w')"
proof -
  let ?w = "world0 gateway_db []" and ?host = "''abcdefghijkl.dev.test''"
  let ?m = machine0 and ?s = Machine_Samples.service0
  have w: "w_script ?w = []" "w_now ?w = 0" by (simp_all add: world0_def)
  obtain g where g: "allowRouteLookup (gw_pick gateway0) (requestRemoteIP gateway0 request0) 0 newGatewayAbuseGuard = (True, g)"
      "negativeRoute (''abcdefghijkl'' @ '':'' @ ''ide'') 0 g = (False, g)"
    by (rule request0_limits)
  have route: "GetRoute ''abcdefghijkl'' ''ide'' (w_db ?w) = (Some ?m, Some ?s)"
    by code_simp
  obtain s v where s: "authorize gateway0 request0 ?host ?m ?s (tick ?w) = (Inr (Some s), v)" "as_UserID s = 7" "w_script v = []"
    using authorize_request0 by blast
  obtain w' where through: "proxied gateway0 request0 ?m ?s 7 [] 200 (proxy_request gateway0 request0 ?s) v =
      (Inr (Proxied 7 (proxy_request gateway0 request0 ?s)), w')"
    using proxied_done [OF s(3)] by blast
  have "\<not> gw_demoMode gateway0" "validMachineOrigin gateway0 request0 ?host" by code_simp+
  with s(1,2) through have forward: "forwardSession gateway0 request0 ?host ?m ?s (tick ?w) =
      (Inr (Proxied 7 (proxy_request gateway0 request0 ?s)), w')"
    by (auto simp: forwardSession_def bindA_Inr)
  have fit: "routeMatchesHost ?m ?s ''abcdefghijkl'' ''ide''" "query_Get ''ticket'' (rq_Query request0) = []"
      "m_Status ?m = StatusRunning" "m_DesiredStatus ?m = StatusRunning" "0 < m_ExpiresAt ?m" "\<not> gw_lookups gateway0 \<ge> routeSlots"
    by code_simp+
  have serve: "serveRoute gateway0 request0 ?host ?m ?s ''abcdefghijkl'' ''ide'' (tick ?w) =
      (Inr (Proxied 7 (proxy_request gateway0 request0 ?s)), w')"
    using forward by (simp add: serveRoute_def fit bindA_Inr nowA_Inr w(2) tick_def)
  have look: "attempt (readA (\<lambda>now. GetRoute ''abcdefghijkl'' ''ide'')) ?w = (Inr (Inr (Some ?m, Some ?s)), tick ?w)"
    using w(1) by (simp add: attempt_Inr readA_Inr_alone route)
  show ?thesis
    using g fit(6) look serve
    by (auto simp: ServeHTTP_def Let_def request0_host bindA_Inr nowA_Inr w(2) returnA_Inr)
qed

text \<open>The request of the creator reaches the service, without its cookie.\<close>

theorem gateway_admits_only_creator_witness:
  "\<exists>guard' w' machine service. ServeHTTP gateway0 request0 newGatewayAbuseGuard (world0 gateway_db [])
       = (Inr (Proxied 7 (proxy_request gateway0 request0 Machine_Samples.service0), guard'), w')
   \<and> served 0 gateway_db gateway0 ''abcdefghijkl.dev.test'' machine service
   \<and> given (world0 gateway_db []) w' gateway0 request0 ''abcdefghijkl.dev.test'' machine service
       (Proxied 7 (proxy_request gateway0 request0 Machine_Samples.service0))"
proof -
  obtain guard' w' where run: "ServeHTTP gateway0 request0 newGatewayAbuseGuard (world0 gateway_db [])
       = (Inr (Proxied 7 (proxy_request gateway0 request0 Machine_Samples.service0), guard'), w')"
    using request0_served by blast
  have "w_script (world0 gateway_db []) = []" by (simp add: world0_def)
  from gateway_admits_only_creator [OF this run] run show ?thesis
    unfolding request0_host by (auto simp: world0_def)
qed

end
