(* ===== verification/Tracker_Store.thy ===== *)
theory Tracker_Store
  imports Go_Action Go_Text
begin

text \<open>
  The tables of the issue tracker and the operations of \<open>BE/internal/repository/issue.go\<close>,
  \<open>issue_history.go\<close>, \<open>issue_relation.go\<close>, \<open>team_status.go\<close>, \<open>notification.go\<close> and of the lookups in
  \<open>team.go\<close> and \<open>project.go\<close> that the issue services use. The tables are separate from those of the
  development machines; an operation is a function of them, as there. The triggers of the migrations
  \<open>000024\<close> and \<open>000032\<close> run with every \<open>INSERT\<close> and \<open>UPDATE\<close> of \<open>issues\<close>.

  Texts are valid UTF-8. Among rows that \<open>ORDER BY\<close> does not distinguish the earlier one comes first.
  Of \<open>users\<close> and \<open>workspaces\<close> only the keys matter, of \<open>cycles\<close> also the status.
\<close>

section \<open>Rows\<close>

record Team = owned_row +
  te_Name :: string
  te_Key :: string
  te_Description :: "string option"
  te_TriageEnabled :: bool
  te_ParentAutoCloseEnabled :: bool
  te_SubIssueAutoCloseEnabled :: bool

datatype StatusCategory = Backlog | Unstarted | Started | Completed | Cancelled

record TeamStatus =
  st_ID :: uuid
  st_TeamID :: uuid
  st_Name :: string
  st_Slug :: string
  st_Category :: StatusCategory
  st_Color :: "string option"
  st_Position :: int

record Label =
  la_ID :: uuid
  la_WorkspaceID :: uuid
  la_Name :: string
  la_Color :: string
  la_Description :: "string option"
  la_ParentID :: "uuid option"
  la_DeletedAt :: "time option"
  la_CreatedAt :: time
  la_UpdatedAt :: time

record IssueHistory =
  ih_ID :: uuid
  ih_IssueID :: uuid
  ih_UserID :: uuid
  ih_Field :: string
  ih_OldValue :: "string option"
  ih_NewValue :: "string option"
  ih_CreatedAt :: time

record Notification =
  no_ID :: uuid
  no_UserID :: uuid
  no_WorkspaceID :: uuid
  no_IssueID :: "uuid option"
  no_Type :: string
  no_Title :: string
  no_ReadAt :: "time option"
  no_SnoozedUntil :: "time option"
  no_ArchivedAt :: "time option"
  no_CreatedAt :: time

datatype IssueRelationType = RelationRelated | RelationBlockedBy | RelationBlocking | RelationDuplicate

record IssueRelation =
  rel_ID :: uuid
  rel_IssueID :: uuid
  rel_RelatedIssueID :: uuid
  rel_Type :: IssueRelationType
  rel_RelatedIssue :: "Issue option"
  rel_CreatedAt :: time

record issue_assignee =
  ia_IssueID :: uuid
  ia_UserID :: uuid
  ia_CreatedAt :: time

text \<open>The rows the trigger of migration \<open>000032\<close> appends.\<close>

record lifecycle_event =
  le_WorkspaceID :: uuid
  le_IssueID :: "uuid option"
  le_FromStatusID :: "uuid option"
  le_ToStatusID :: "uuid option"
  le_EventType :: string
  le_FromCategory :: "StatusCategory option"
  le_ToCategory :: StatusCategory
  le_CreatedAt :: time

record tracker =
  tr_workspaces :: "uuid list"
  tr_users :: "uuid list"
  tr_teams :: "Team list"
  tr_statuses :: "TeamStatus list"
  tr_projects :: "Project list"
  tr_cycles :: "(uuid \<times> string) list"
  tr_labels :: "Label list"
  tr_issues :: "Issue list"
  tr_issue_labels :: "(uuid \<times> uuid) list"
  tr_assignees :: "issue_assignee list"
  tr_subscribers :: "(uuid \<times> uuid) list"
  tr_history :: "IssueHistory list"
  tr_relations :: "IssueRelation list"
  tr_notifications :: "Notification list"
  tr_lifecycle :: "lifecycle_event list"

section \<open>Status categories\<close>

text \<open>\<open>legacyStatusCategoryExpr\<close> and the \<open>CASE\<close> of the triggers.\<close>

definition legacyStatusCategoryExpr :: "string \<Rightarrow> StatusCategory" where
  "legacyStatusCategoryExpr s =
     (if s = ''done'' \<or> s = ''completed'' then Completed
      else if s = ''cancelled'' then Cancelled
      else if s = ''started'' \<or> s = ''in_progress'' \<or> s = ''in_review'' then Started
      else if s = ''unstarted'' \<or> s = ''todo'' then Unstarted
      else Backlog)"

definition status_row :: "tracker \<Rightarrow> uuid option \<Rightarrow> TeamStatus option" where
  "status_row d statusID = find (\<lambda>s. Some (st_ID s) = statusID) (tr_statuses d)"

text \<open>\<open>COALESCE(ts.category, ...)\<close>\<close>

definition issueStatusCategoryExpr :: "tracker \<Rightarrow> Issue \<Rightarrow> StatusCategory" where
  "issueStatusCategoryExpr d i = (case status_row d (iss_StatusID i) of
     Some s \<Rightarrow> st_Category s | None \<Rightarrow> legacyStatusCategoryExpr (iss_Status i))"

section \<open>Triggers and constraints of issues\<close>

text \<open>\<open>issue_lifecycle_timestamps\<close> on \<open>INSERT\<close>.\<close>

definition inserted_stamps :: "time \<Rightarrow> tracker \<Rightarrow> Issue \<Rightarrow> Issue" where
  "inserted_stamps now d i =
     (let category = issueStatusCategoryExpr d i; stamp = (\<lambda>b t. if b \<and> t = None then Some now else t) in
      i\<lparr>iss_StartedAt := stamp (category = Started \<or> category = Completed) (iss_StartedAt i),
        iss_CompletedAt := stamp (category = Completed) (iss_CompletedAt i),
        iss_CancelledAt := stamp (category = Cancelled) (iss_CancelledAt i),
        iss_TriagedAt := stamp (iss_Triaged i) (iss_TriagedAt i)\<rparr>)"

text \<open>The same on \<open>UPDATE\<close>: \<open>old\<close> is the row before, \<open>i\<close> after.\<close>

definition status_changed :: "Issue \<Rightarrow> Issue \<Rightarrow> bool" where
  "status_changed old i \<longleftrightarrow> iss_StatusID old \<noteq> iss_StatusID i \<or> iss_Status old \<noteq> iss_Status i"

definition reached_stamp :: "time \<Rightarrow> bool \<Rightarrow> bool \<Rightarrow> time option \<Rightarrow> time option" where
  "reached_stamp now earlier later t = (if t = None \<and> later then Some now else if earlier \<and> \<not> later then None else t)"

definition updated_stamps :: "time \<Rightarrow> tracker \<Rightarrow> Issue \<Rightarrow> Issue \<Rightarrow> Issue" where
  "updated_stamps now d old i =
     (let earlier = issueStatusCategoryExpr d old; later = issueStatusCategoryExpr d i;
        i1 = (if \<not> status_changed old i then i
          else i\<lparr>iss_StartedAt := (if iss_StartedAt i = None \<and> (later = Started \<or> later = Completed) then Some now
                else iss_StartedAt i),
              iss_CompletedAt := reached_stamp now (earlier = Completed) (later = Completed) (iss_CompletedAt i),
              iss_CancelledAt := reached_stamp now (earlier = Cancelled) (later = Cancelled) (iss_CancelledAt i)\<rparr>) in
      if \<not> iss_Triaged old \<and> iss_Triaged i \<and> iss_TriagedAt i = None then i1\<lparr>iss_TriagedAt := Some now\<rparr> else i1)"

text \<open>\<open>issue_lifecycle_log_event\<close>\<close>

definition inserted_event :: "time \<Rightarrow> tracker \<Rightarrow> Issue \<Rightarrow> lifecycle_event" where
  "inserted_event now d i = \<lparr>le_WorkspaceID = ow_WorkspaceID i, le_IssueID = Some (ow_ID i),
     le_FromStatusID = None, le_ToStatusID = iss_StatusID i,
     le_EventType = ''created'', le_FromCategory = None, le_ToCategory = issueStatusCategoryExpr d i, le_CreatedAt = now\<rparr>"

definition updated_events :: "time \<Rightarrow> tracker \<Rightarrow> Issue \<Rightarrow> Issue \<Rightarrow> lifecycle_event list" where
  "updated_events now d old i =
     (if status_changed old i
      then [\<lparr>le_WorkspaceID = ow_WorkspaceID i, le_IssueID = Some (ow_ID i), le_FromStatusID = iss_StatusID old,
        le_ToStatusID = iss_StatusID i,
        le_EventType = ''status_changed'', le_FromCategory = Some (issueStatusCategoryExpr d old),
        le_ToCategory = issueStatusCategoryExpr d i, le_CreatedAt = now\<rparr>] else [])"

text \<open>
  The recursive query of \<open>prevent_issue_parent_cycle\<close>, from a parent upwards. A query that meets a cycle
  goes on for ever, which is \<open>None\<close>; more steps than there are rows mean that it has met one.
\<close>

fun ancestors :: "nat \<Rightarrow> Issue list \<Rightarrow> uuid option \<Rightarrow> uuid list option" where
  "ancestors 0 rows p = None"
| "ancestors (Suc n) rows None = Some []"
| "ancestors (Suc n) rows (Some p) = (case find (\<lambda>i. ow_ID i = p) rows of
     None \<Rightarrow> Some []
   | Some i \<Rightarrow> map_option (Cons p) (ancestors n rows (iss_ParentID i)))"

definition prevent_issue_parent_cycle :: "tracker \<Rightarrow> Issue \<Rightarrow> store_error option" where
  "prevent_issue_parent_cycle d i = (case iss_ParentID i of
     None \<Rightarrow> None
   | Some p \<Rightarrow>
     if p = ow_ID i then Some ErrDatabase
     else if exists_where (\<lambda>r. ow_ID r = p \<and> ow_WorkspaceID r \<noteq> ow_WorkspaceID i) (tr_issues d) then Some ErrDatabase
     else (case ancestors (Suc (length (tr_issues d))) (tr_issues d) (Some p) of
         None \<Rightarrow> Some ErrDatabase
       | Some ups \<Rightarrow> if ow_ID i \<in> set ups then Some ErrDatabase else None))"

text \<open>Lengths, \<open>NOT NULL\<close>, checks and references of a row of \<open>issues\<close>.\<close>

definition too_long :: "nat \<Rightarrow> string \<Rightarrow> bool" where
  "too_long n s \<longleftrightarrow> n < length (runes s)"

definition keyed :: "'a list \<Rightarrow> 'a option \<Rightarrow> bool" where
  "keyed keys k \<longleftrightarrow> (case k of None \<Rightarrow> True | Some x \<Rightarrow> x \<in> set keys)"

definition issue_row_error :: "tracker \<Rightarrow> Issue \<Rightarrow> store_error option" where
  "issue_row_error d i =
     (if too_long 500 (iss_Title i) \<or> too_long 100 (iss_Status i) \<or> too_long 50 (iss_Identifier i) then Some ErrDatabase
      else if iss_StatusID i = None \<or> iss_Priority i < 0 \<or> iss_Priority i > 4 \<or> iss_ParentID i = Some (ow_ID i)
      then Some ErrCheckViolation
      else if \<not> (ow_WorkspaceID i \<in> set (tr_workspaces d) \<and> iss_TeamID i \<in> set (map ow_ID (tr_teams d))
        \<and> keyed (map ow_ID (tr_projects d)) (iss_ProjectID i) \<and> keyed (map fst (tr_cycles d)) (iss_CycleID i)
        \<and> iss_CreatorID i \<in> set (tr_users d) \<and> keyed (tr_users d) (iss_AssigneeID i)
        \<and> keyed (map ow_ID (tr_issues d)) (iss_ParentID i) \<and> keyed (map st_ID (tr_statuses d)) (iss_StatusID i))
      then Some ErrForeignKey else None)"

section \<open>Issues\<close>

definition NextNumber :: "uuid \<Rightarrow> tracker \<Rightarrow> int" where
  "NextNumber teamID d = (case map iss_Number (filter (\<lambda>i. iss_TeamID i = teamID) (tr_issues d)) of
     [] \<Rightarrow> 1 | n # ns \<Rightarrow> fold max ns n + 1)"

text \<open>
  \<open>Create\<close> within its transaction. The caller's struct gets \<open>created_at\<close> and \<open>updated_at\<close> only; the columns
  the \<open>INSERT\<close> does not list are set by the triggers.
\<close>

definition issue_Create :: "time \<Rightarrow> Issue \<Rightarrow> tracker \<Rightarrow> store_error + (Issue \<times> tracker)" where
  "issue_Create now issue d =
     (let i0 = issue\<lparr>iss_CreatedAt := now, iss_UpdatedAt := now, iss_StartedAt := None, iss_CompletedAt := None,
            iss_CancelledAt := None, iss_TriagedAt := None\<rparr>; i = inserted_stamps now d i0 in
      case prevent_issue_parent_cycle d i of Some e \<Rightarrow> Inl e | None \<Rightarrow>
      (case issue_row_error d i of Some e \<Rightarrow> Inl e | None \<Rightarrow>
       if exists_where (\<lambda>r. ow_ID r = ow_ID i \<or> ow_WorkspaceID r = ow_WorkspaceID i \<and> iss_Identifier r = iss_Identifier i
            \<or> iss_TeamID r = iss_TeamID i \<and> iss_Number r = iss_Number i) (tr_issues d) then Inl ErrUniqueViolation
       else Inr (issue\<lparr>iss_CreatedAt := now, iss_UpdatedAt := now\<rparr>,
         d\<lparr>tr_issues := tr_issues d @ [i], tr_lifecycle := tr_lifecycle d @ [inserted_event now d i]\<rparr>)))"

definition issue_GetByID :: "uuid \<Rightarrow> tracker \<Rightarrow> Issue option" where
  "issue_GetByID i d = find (\<lambda>r. ow_ID r = i) (tr_issues d)"

definition GetByIdentifier :: "uuid \<Rightarrow> string \<Rightarrow> tracker \<Rightarrow> Issue option" where
  "GetByIdentifier workspaceID identifier d =
     find (\<lambda>r. ow_WorkspaceID r = workspaceID \<and> iss_Identifier r = identifier) (tr_issues d)"

text \<open>The row an \<open>UPDATE\<close> of the listed columns makes of \<open>old\<close>, before and after the trigger.\<close>

definition assigned_row :: "time \<Rightarrow> Issue \<Rightarrow> Issue \<Rightarrow> Issue" where
  "assigned_row now issue old = old\<lparr>iss_Title := iss_Title issue, iss_Description := iss_Description issue,
     iss_Status := iss_Status issue, iss_Priority := iss_Priority issue, iss_AssigneeID := iss_AssigneeID issue,
     iss_ProjectID := iss_ProjectID issue, iss_CycleID := iss_CycleID issue, iss_ParentID := iss_ParentID issue,
     iss_DueDate := iss_DueDate issue, iss_SortOrder := iss_SortOrder issue, iss_Triaged := iss_Triaged issue,
     iss_StatusID := iss_StatusID issue, iss_UpdatedAt := now\<rparr>"

text \<open>An \<open>UPDATE\<close> of the rows that satisfy \<open>P\<close> by \<open>f\<close>, with the triggers.\<close>

definition update_issues ::
  "time \<Rightarrow> (Issue \<Rightarrow> bool) \<Rightarrow> (Issue \<Rightarrow> Issue) \<Rightarrow> tracker \<Rightarrow> store_error + tracker" where
  "update_issues now P f d =
     (let written = (\<lambda>r. updated_stamps now d r (f r)); hit = filter P (tr_issues d) in
      case List.map_filter (issue_row_error d) (map written hit) of
        e # _ \<Rightarrow> Inl e
      | [] \<Rightarrow> Inr (d\<lparr>tr_issues := update_where P written (tr_issues d),
          tr_lifecycle := tr_lifecycle d @ concat (map (\<lambda>r. updated_events now d r (f r)) hit)\<rparr>))"

definition issue_Update :: "time \<Rightarrow> Issue \<Rightarrow> tracker \<Rightarrow> store_error + (Issue \<times> tracker)" where
  "issue_Update now issue d = (case issue_GetByID (ow_ID issue) d of
     None \<Rightarrow> Inl ErrNoRows
   | Some old \<Rightarrow>
     (case prevent_issue_parent_cycle d (assigned_row now issue old) of Some e \<Rightarrow> Inl e | None \<Rightarrow>
     (case update_issues now (\<lambda>r. ow_ID r = ow_ID issue) (assigned_row now issue) d of
        Inl e \<Rightarrow> Inl e | Inr d' \<Rightarrow> Inr (issue\<lparr>iss_UpdatedAt := now\<rparr>, d'))))"

text \<open>\<open>DELETE FROM issues\<close> with its cascades; the rows whose parent is deleted lose it.\<close>

definition orphaned :: "(uuid \<Rightarrow> bool) \<Rightarrow> Issue \<Rightarrow> Issue" where
  "orphaned gone i = (case iss_ParentID i of
     None \<Rightarrow> i | Some p \<Rightarrow> if gone p then i\<lparr>iss_ParentID := None\<rparr> else i)"

definition delete_issues :: "(Issue \<Rightarrow> bool) \<Rightarrow> tracker \<Rightarrow> tracker" where
  "delete_issues P d =
     (let gone = (\<lambda>k. k \<in> set (map ow_ID (filter P (tr_issues d)))) in d\<lparr>
        tr_issues := map (orphaned gone) (delete_where P (tr_issues d)),
        tr_issue_labels := delete_where (\<lambda>(i, l). gone i) (tr_issue_labels d),
        tr_assignees := delete_where (\<lambda>a. gone (ia_IssueID a)) (tr_assignees d),
        tr_subscribers := delete_where (\<lambda>(i, u). gone i) (tr_subscribers d),
        tr_history := delete_where (\<lambda>h. gone (ih_IssueID h)) (tr_history d),
        tr_relations := delete_where (\<lambda>r. gone (rel_IssueID r) \<or> gone (rel_RelatedIssueID r)) (tr_relations d),
        tr_notifications := delete_where (\<lambda>n. case no_IssueID n of None \<Rightarrow> False | Some i \<Rightarrow> gone i) (tr_notifications d),
        tr_lifecycle := update_where (\<lambda>e. case le_IssueID e of None \<Rightarrow> False | Some i \<Rightarrow> gone i)
          (\<lambda>e. e\<lparr>le_IssueID := None\<rparr>) (tr_lifecycle d)\<rparr>)"

definition issue_Delete :: "uuid \<Rightarrow> tracker \<Rightarrow> tracker" where
  "issue_Delete i d = delete_issues (\<lambda>r. ow_ID r = i) d"

section \<open>Labels, assignees and subscribers\<close>

text \<open>A transaction that replaces the pairs of an issue; a repeated or dangling pair undoes it.\<close>

definition SetLabels :: "uuid \<Rightarrow> uuid list \<Rightarrow> tracker \<Rightarrow> store_error + tracker" where
  "SetLabels issueID labelIDs d =
     (if \<not> distinct labelIDs then Inl ErrUniqueViolation
      else if labelIDs \<noteq> [] \<and> (issueID \<notin> set (map ow_ID (tr_issues d)) \<or> \<not> set labelIDs \<subseteq> set (map la_ID (tr_labels d)))
      then Inl ErrForeignKey
      else Inr (d\<lparr>tr_issue_labels := delete_where (\<lambda>(i, l). i = issueID) (tr_issue_labels d) @ map (Pair issueID) labelIDs\<rparr>))"

definition labels_of :: "uuid \<Rightarrow> tracker \<Rightarrow> Label list" where
  "labels_of issueID d = concat (map (\<lambda>(i, l). if i = issueID then filter (\<lambda>r. la_ID r = l) (tr_labels d) else [])
     (tr_issue_labels d))"

definition GetLabels :: "(string \<Rightarrow> nat) \<Rightarrow> uuid \<Rightarrow> tracker \<Rightarrow> Label list" where
  "GetLabels collate issueID d = sort_key (\<lambda>l. collate (la_Name l)) (labels_of issueID d)"

text \<open>A map from identifiers is a function; an absent key is the zero value.\<close>

definition GetLabelsForIssues :: "(string \<Rightarrow> nat) \<Rightarrow> uuid list \<Rightarrow> tracker \<Rightarrow> uuid \<Rightarrow> Label list" where
  "GetLabelsForIssues collate issueIDs d i =
     (if i \<in> set issueIDs then filter (\<lambda>l. la_DeletedAt l = None) (GetLabels collate i d) else [])"

definition SetAssignees :: "time \<Rightarrow> uuid \<Rightarrow> uuid list \<Rightarrow> tracker \<Rightarrow> store_error + tracker" where
  "SetAssignees now issueID userIDs d =
     (if \<not> distinct userIDs then Inl ErrUniqueViolation
      else if userIDs \<noteq> [] \<and> (issueID \<notin> set (map ow_ID (tr_issues d)) \<or> \<not> set userIDs \<subseteq> set (tr_users d))
      then Inl ErrForeignKey
      else update_issues now (\<lambda>i. ow_ID i = issueID)
        (\<lambda>i. i\<lparr>iss_AssigneeID := (case userIDs of [] \<Rightarrow> None | u # us \<Rightarrow> Some u), iss_UpdatedAt := now\<rparr>)
        (d\<lparr>tr_assignees := delete_where (\<lambda>a. ia_IssueID a = issueID) (tr_assignees d)
          @ map (\<lambda>u. \<lparr>ia_IssueID = issueID, ia_UserID = u, ia_CreatedAt = now\<rparr>) userIDs\<rparr>))"

definition GetAssignees :: "uuid \<Rightarrow> tracker \<Rightarrow> uuid list" where
  "GetAssignees issueID d =
     map ia_UserID (sort_key ia_CreatedAt (filter (\<lambda>a. ia_IssueID a = issueID) (tr_assignees d)))"

definition GetAssigneesForIssues :: "uuid list \<Rightarrow> tracker \<Rightarrow> uuid \<Rightarrow> uuid list" where
  "GetAssigneesForIssues issueIDs d i = (if i \<in> set issueIDs then GetAssignees i d else [])"

definition Subscribe :: "uuid \<Rightarrow> uuid \<Rightarrow> tracker \<Rightarrow> store_error + tracker" where
  "Subscribe issueID userID d =
     (if issueID \<notin> set (map ow_ID (tr_issues d)) \<or> userID \<notin> set (tr_users d) then Inl ErrForeignKey
      else if (issueID, userID) \<in> set (tr_subscribers d) then Inr d
      else Inr (d\<lparr>tr_subscribers := tr_subscribers d @ [(issueID, userID)]\<rparr>))"

definition Unsubscribe :: "uuid \<Rightarrow> uuid \<Rightarrow> tracker \<Rightarrow> tracker" where
  "Unsubscribe issueID userID d = d\<lparr>tr_subscribers := delete_where (\<lambda>p. p = (issueID, userID)) (tr_subscribers d)\<rparr>"

definition IsSubscribed :: "uuid \<Rightarrow> uuid \<Rightarrow> tracker \<Rightarrow> bool" where
  "IsSubscribed issueID userID d \<longleftrightarrow> (issueID, userID) \<in> set (tr_subscribers d)"

definition GetSubscribers :: "uuid \<Rightarrow> tracker \<Rightarrow> uuid list" where
  "GetSubscribers issueID d = map snd (filter (\<lambda>(i, u). i = issueID) (tr_subscribers d))"

definition GetSubscribedIssueIDs :: "uuid list \<Rightarrow> uuid \<Rightarrow> tracker \<Rightarrow> uuid \<Rightarrow> bool" where
  "GetSubscribedIssueIDs issueIDs userID d i \<longleftrightarrow> i \<in> set issueIDs \<and> (i, userID) \<in> set (tr_subscribers d)"

section \<open>Sub-issues\<close>

definition sub_issues :: "uuid \<Rightarrow> tracker \<Rightarrow> Issue list" where
  "sub_issues parentID d = filter (\<lambda>i. iss_ParentID i = Some parentID) (tr_issues d)"

definition ListSubIssues :: "uuid \<Rightarrow> tracker \<Rightarrow> Issue list" where
  "ListSubIssues parentID d = sort_key (\<lambda>i. (iss_SortOrder i, iss_CreatedAt i)) (sub_issues parentID d)"

definition terminal_category :: "StatusCategory \<Rightarrow> bool" where
  "terminal_category c \<longleftrightarrow> c = Completed \<or> c = Cancelled"

definition CountSubIssues :: "uuid \<Rightarrow> tracker \<Rightarrow> nat \<times> nat" where
  "CountSubIssues parentID d = (length (sub_issues parentID d),
     length (filter (\<lambda>i. terminal_category (issueStatusCategoryExpr d i)) (sub_issues parentID d)))"

text \<open>Only parents with sub-issues have an entry.\<close>

definition CountSubIssuesForIssues :: "uuid list \<Rightarrow> tracker \<Rightarrow> uuid \<Rightarrow> (nat \<times> nat) option" where
  "CountSubIssuesForIssues issueIDs d i =
     (if i \<in> set issueIDs \<and> sub_issues i d \<noteq> [] then Some (CountSubIssues i d) else None)"

text \<open>The recursive query of \<open>WouldCreateCycle\<close>, from an issue downwards, level by level.\<close>

fun descendants :: "nat \<Rightarrow> Issue list \<Rightarrow> uuid list \<Rightarrow> uuid list option" where
  "descendants 0 rows level = None"
| "descendants (Suc n) rows level =
     (let below = map ow_ID (filter (\<lambda>i. case iss_ParentID i of None \<Rightarrow> False | Some p \<Rightarrow> p \<in> set level) rows) in
      if below = [] then Some [] else map_option (\<lambda>more. below @ more) (descendants n rows below))"

definition WouldCreateCycle :: "uuid \<Rightarrow> uuid \<Rightarrow> tracker \<Rightarrow> store_error + bool" where
  "WouldCreateCycle issueID parentID d =
     (if issueID = parentID then Inr True
      else (case descendants (Suc (length (tr_issues d))) (tr_issues d) [issueID] of
         None \<Rightarrow> Inl ErrDatabase | Some below \<Rightarrow> Inr (parentID \<in> set below)))"

definition CycleIsActive :: "uuid \<Rightarrow> tracker \<Rightarrow> bool" where
  "CycleIsActive cycleID d = (map_of (tr_cycles d) cycleID = Some ''active'')"

section \<open>Bulk operations\<close>

text \<open>The assignments that \<open>BulkUpdate\<close> puts into its statement; \<open>cycle\<close> is \<open>None\<close> when the column is not set.\<close>

record bulk_assignment =
  bu_Status :: "string option"
  bu_Priority :: "int option"
  bu_AssigneeID :: "uuid option"
  bu_StatusID :: "uuid option"
  bu_Cycle :: "uuid option option"

definition bulk_row :: "time \<Rightarrow> bulk_assignment \<Rightarrow> Issue \<Rightarrow> Issue" where
  "bulk_row now b i = i\<lparr>iss_UpdatedAt := now,
     iss_Status := (case bu_Status b of None \<Rightarrow> iss_Status i | Some s \<Rightarrow> s),
     iss_Priority := (case bu_Priority b of None \<Rightarrow> iss_Priority i | Some p \<Rightarrow> p),
     iss_AssigneeID := (case bu_AssigneeID b of None \<Rightarrow> iss_AssigneeID i | Some u \<Rightarrow> Some u),
     iss_StatusID := (case bu_StatusID b of None \<Rightarrow> iss_StatusID i | Some s \<Rightarrow> Some s),
     iss_CycleID := (case bu_Cycle b of None \<Rightarrow> iss_CycleID i | Some c \<Rightarrow> c)\<rparr>"

definition listed :: "uuid \<Rightarrow> uuid list \<Rightarrow> Issue \<Rightarrow> bool" where
  "listed workspaceID issueIDs i \<longleftrightarrow> ow_WorkspaceID i = workspaceID \<and> ow_ID i \<in> set issueIDs"

text \<open>\<open>IN ()\<close> is a syntax error.\<close>

definition issue_BulkUpdate ::
  "time \<Rightarrow> uuid \<Rightarrow> uuid list \<Rightarrow> bulk_assignment \<Rightarrow> tracker \<Rightarrow> store_error + (nat \<times> tracker)" where
  "issue_BulkUpdate now workspaceID issueIDs b d =
     (if b = \<lparr>bu_Status = None, bu_Priority = None, bu_AssigneeID = None, bu_StatusID = None, bu_Cycle = None\<rparr>
      then Inr (0, d)
      else if issueIDs = [] then Inl ErrDatabase
      else (case update_issues now (listed workspaceID issueIDs) (bulk_row now b) d of
          Inl e \<Rightarrow> Inl e
        | Inr d' \<Rightarrow> Inr (rows_affected (listed workspaceID issueIDs) (tr_issues d), d')))"

definition issue_BulkDelete :: "uuid \<Rightarrow> uuid list \<Rightarrow> tracker \<Rightarrow> nat \<times> tracker" where
  "issue_BulkDelete workspaceID issueIDs d =
     (if issueIDs = [] then (0, d)
      else (rows_affected (listed workspaceID issueIDs) (tr_issues d), delete_issues (listed workspaceID issueIDs) d))"

section \<open>Teams, statuses, projects and history\<close>

definition team_GetByID :: "uuid \<Rightarrow> tracker \<Rightarrow> Team option" where
  "team_GetByID i d = find (\<lambda>t. ow_ID t = i) (tr_teams d)"

definition status_GetByID :: "uuid \<Rightarrow> tracker \<Rightarrow> TeamStatus option" where
  "status_GetByID i d = find (\<lambda>s. st_ID s = i) (tr_statuses d)"

definition GetByTeamAndSlug :: "uuid \<Rightarrow> string \<Rightarrow> tracker \<Rightarrow> TeamStatus option" where
  "GetByTeamAndSlug teamID slug d = find (\<lambda>s. st_TeamID s = teamID \<and> st_Slug s = slug) (tr_statuses d)"

definition status_ListByTeam :: "uuid \<Rightarrow> tracker \<Rightarrow> TeamStatus list" where
  "status_ListByTeam teamID d = sort_key st_Position (filter (\<lambda>s. st_TeamID s = teamID) (tr_statuses d))"

definition project_Create :: "time \<Rightarrow> Project \<Rightarrow> tracker \<Rightarrow> store_error + (Project \<times> tracker)" where
  "project_Create now project d =
     (if too_long 200 (pj_Name project) then Inl ErrDatabase
      else if pj_Status project \<notin> {''planned'', ''in_progress'', ''completed'', ''cancelled''} then Inl ErrCheckViolation
      else if \<not> (ow_WorkspaceID project \<in> set (tr_workspaces d) \<and> keyed (map ow_ID (tr_teams d)) (pj_TeamID project)
        \<and> keyed (tr_users d) (pj_LeadID project)) then Inl ErrForeignKey
      else if exists_where (\<lambda>p. ow_ID p = ow_ID project) (tr_projects d) then Inl ErrUniqueViolation
      else (let p = project\<lparr>pj_CreatedAt := now, pj_UpdatedAt := now\<rparr> in Inr (p, d\<lparr>tr_projects := tr_projects d @ [p]\<rparr>)))"

definition history_Create ::
  "time \<Rightarrow> uuid \<Rightarrow> uuid \<Rightarrow> uuid \<Rightarrow> string \<Rightarrow> string option \<Rightarrow> string option \<Rightarrow> tracker \<Rightarrow> store_error + tracker" where
  "history_Create now fresh issueID userID field oldValue newValue d =
     (if too_long 50 field then Inl ErrDatabase
      else if issueID \<notin> set (map ow_ID (tr_issues d)) \<or> userID \<notin> set (tr_users d) then Inl ErrForeignKey
      else Inr (d\<lparr>tr_history := tr_history d @ [\<lparr>ih_ID = fresh, ih_IssueID = issueID, ih_UserID = userID, ih_Field = field,
        ih_OldValue = oldValue, ih_NewValue = newValue, ih_CreatedAt = now\<rparr>]\<rparr>))"

definition history_ListByIssue :: "uuid \<Rightarrow> tracker \<Rightarrow> IssueHistory list" where
  "history_ListByIssue issueID d = sort_key (\<lambda>h. - ih_CreatedAt h) (filter (\<lambda>h. ih_IssueID h = issueID) (tr_history d))"

section \<open>Relations\<close>

definition relation_Create :: "time \<Rightarrow> IssueRelation \<Rightarrow> tracker \<Rightarrow> store_error + (IssueRelation \<times> tracker)" where
  "relation_Create now rel d =
     (if \<not> {rel_IssueID rel, rel_RelatedIssueID rel} \<subseteq> set (map ow_ID (tr_issues d)) then Inl ErrForeignKey
      else if exists_where (\<lambda>r. rel_ID r = rel_ID rel \<or> rel_IssueID r = rel_IssueID rel
        \<and> rel_RelatedIssueID r = rel_RelatedIssueID rel \<and> rel_Type r = rel_Type rel) (tr_relations d) then Inl ErrUniqueViolation
      else (let r = rel\<lparr>rel_CreatedAt := now\<rparr> in Inr (r, d\<lparr>tr_relations := tr_relations d @ [r\<lparr>rel_RelatedIssue := None\<rparr>]\<rparr>)))"

definition relation_ListByIssues :: "uuid list \<Rightarrow> tracker \<Rightarrow> IssueRelation list" where
  "relation_ListByIssues issueIDs d = sort_key (\<lambda>r. - rel_CreatedAt r)
     (filter (\<lambda>r. rel_IssueID r \<in> set issueIDs \<or> rel_RelatedIssueID r \<in> set issueIDs) (tr_relations d))"

definition relation_Delete :: "uuid \<Rightarrow> tracker \<Rightarrow> tracker" where
  "relation_Delete i d = d\<lparr>tr_relations := delete_where (\<lambda>r. rel_ID r = i) (tr_relations d)\<rparr>"

definition relation_GetByID :: "uuid \<Rightarrow> tracker \<Rightarrow> store_error + IssueRelation" where
  "relation_GetByID i d = (case find (\<lambda>r. rel_ID r = i) (tr_relations d) of None \<Rightarrow> Inl ErrNoRows | Some r \<Rightarrow> Inr r)"

definition DeleteByIssues :: "uuid \<Rightarrow> uuid \<Rightarrow> IssueRelationType \<Rightarrow> tracker \<Rightarrow> tracker" where
  "DeleteByIssues issueID relatedIssueID relType d = d\<lparr>tr_relations := delete_where (\<lambda>r. rel_IssueID r = issueID
     \<and> rel_RelatedIssueID r = relatedIssueID \<and> rel_Type r = relType) (tr_relations d)\<rparr>"

section \<open>Notifications\<close>

definition notification_Create :: "time \<Rightarrow> Notification \<Rightarrow> tracker \<Rightarrow> store_error + tracker" where
  "notification_Create now n d =
     (if too_long 50 (no_Type n) then Inl ErrDatabase
      else if \<not> (no_UserID n \<in> set (tr_users d) \<and> no_WorkspaceID n \<in> set (tr_workspaces d)
        \<and> keyed (map ow_ID (tr_issues d)) (no_IssueID n)) then Inl ErrForeignKey
      else Inr (d\<lparr>tr_notifications := tr_notifications d @ [n\<lparr>no_ReadAt := None, no_SnoozedUntil := None,
        no_ArchivedAt := None, no_CreatedAt := now\<rparr>]\<rparr>))"

text \<open>The statement of \<open>CreateOrRefresh\<close>: the latest notification of its kind within the window, if any, is renewed.\<close>

definition refreshable :: "time \<Rightarrow> Notification \<Rightarrow> duration \<Rightarrow> Notification \<Rightarrow> bool" where
  "refreshable now n window r \<longleftrightarrow> no_UserID r = no_UserID n \<and> no_WorkspaceID r = no_WorkspaceID n
     \<and> no_IssueID r = no_IssueID n \<and> no_Type r = no_Type n \<and> no_ArchivedAt r = None \<and> now - window \<le> no_CreatedAt r"

definition refresh_notification :: "time \<Rightarrow> Notification \<Rightarrow> duration \<Rightarrow> tracker \<Rightarrow> store_error + tracker" where
  "refresh_notification now n window d =
     (case sort_key (\<lambda>r. - no_CreatedAt r) (filter (refreshable now n window) (tr_notifications d)) of
        [] \<Rightarrow> Inl ErrNoRows
      | latest # _ \<Rightarrow> Inr (d\<lparr>tr_notifications := update_where (\<lambda>r. no_ID r = no_ID latest)
          (\<lambda>r. r\<lparr>no_Title := no_Title n, no_ReadAt := None, no_CreatedAt := now\<rparr>) (tr_notifications d)\<rparr>))"

definition visible_notification :: "time \<Rightarrow> uuid \<Rightarrow> Notification \<Rightarrow> bool" where
  "visible_notification now userID n \<longleftrightarrow> no_UserID n = userID \<and> no_ArchivedAt n = None
     \<and> (case no_SnoozedUntil n of None \<Rightarrow> True | Some t \<Rightarrow> t \<le> now)"

definition notification_ListByUser :: "time \<Rightarrow> uuid \<Rightarrow> nat \<Rightarrow> nat \<Rightarrow> tracker \<Rightarrow> Notification list" where
  "notification_ListByUser now userID limit offset d =
     take limit (drop offset (sort_key (\<lambda>n. - no_CreatedAt n) (filter (visible_notification now userID) (tr_notifications d))))"

end
