(* ===== verification/Tracker_World.thy ===== *)
theory Tracker_World
  imports Tracker_Store
begin

text \<open>
  What the services of the issue tracker act on. As for the manager and the machine service, every call of
  the store takes the next entry of a script: how much time passes before it, what other requests do to
  the tables, and whether the call fails. The hub (\<open>Realtime_Hub\<close>) is reached through the events that are
  sent to it, which are recorded in their order.
\<close>

section \<open>The desk\<close>

datatype live_payload =
    OfIssue Issue
  | OfIdentifier string
  | OfCount nat
  | OfKind string

text \<open>\<open>ToWorkspace\<close> is \<open>Broadcast\<close>, \<open>ToUser\<close> is \<open>BroadcastToUser\<close>.\<close>

datatype live_event =
    ToWorkspace uuid string live_payload
  | ToUser uuid uuid string live_payload

record desk =
  dk_db :: tracker
  dk_now :: time
  dk_fresh :: uuid
  dk_script :: "(duration \<times> (tracker \<Rightarrow> tracker) \<times> store_error option) list"
  dk_sent :: "live_event list"

type_synonym 'a tact = "(desk, 'a) action"

definition storeT :: "(time \<Rightarrow> tracker \<Rightarrow> store_error + ('a \<times> tracker)) \<Rightarrow> 'a tact" where
  "storeT f k = (case dk_script k of
     [] \<Rightarrow> (case f (dk_now k) (dk_db k) of
        Inl e \<Rightarrow> (Inl (StoreError e), k) | Inr (x, d) \<Rightarrow> (Inr x, k\<lparr>dk_db := d\<rparr>))
   | (dt, g, fault) # rest \<Rightarrow>
       (let k1 = k\<lparr>dk_now := dk_now k + dt, dk_db := g (dk_db k), dk_script := rest\<rparr> in
        case fault of Some e \<Rightarrow> (Inl (StoreError e), k1)
        | None \<Rightarrow> (case f (dk_now k1) (dk_db k1) of
            Inl e \<Rightarrow> (Inl (StoreError e), k1) | Inr (x, d) \<Rightarrow> (Inr x, k1\<lparr>dk_db := d\<rparr>))))"

definition readT :: "(tracker \<Rightarrow> 'a) \<Rightarrow> 'a tact" where
  "readT f = storeT (\<lambda>now d. Inr (f d, d))"

definition queryT :: "(tracker \<Rightarrow> store_error + 'a) \<Rightarrow> 'a tact" where
  "queryT f = storeT (\<lambda>now d. case f d of Inl e \<Rightarrow> Inl e | Inr x \<Rightarrow> Inr (x, d))"

definition writeT :: "(time \<Rightarrow> tracker \<Rightarrow> store_error + tracker) \<Rightarrow> unit tact" where
  "writeT f = storeT (\<lambda>now d. case f now d of Inl e \<Rightarrow> Inl e | Inr d' \<Rightarrow> Inr ((), d'))"

text \<open>\<open>uuid.New()\<close>, and an event for the hub.\<close>

definition freshT :: "uuid tact" where
  "freshT k = (Inr (dk_fresh k), k\<lparr>dk_fresh := dk_fresh k + 1\<rparr>)"

definition broadcast :: "live_event \<Rightarrow> unit tact" where
  "broadcast e k = (Inr (), k\<lparr>dk_sent := dk_sent k @ [e]\<rparr>)"

text \<open>\<open>fmt.Errorf\<close> without an error to wrap.\<close>

definition failT :: "string \<Rightarrow> 'a tact" where
  "failT s = failA (Errorf s)"

text \<open>
  \<open>x, err := ...; if err != nil || x == nil\<close>; a lookup whose error is dropped, which then gives the zero
  row; and one that is \<open>nil\<close> after an error.
\<close>

definition foundT :: "string \<Rightarrow> 'a option tact \<Rightarrow> 'a tact" where
  "foundT message a = bindA (attempt a) (\<lambda>r. case r of Inr (Some x) \<Rightarrow> returnA x | _ \<Rightarrow> failT message)"

definition despite :: "'a \<Rightarrow> 'a option tact \<Rightarrow> 'a option tact" where
  "despite zero a = bindA (attempt a) (\<lambda>r. returnA (case r of Inl e \<Rightarrow> Some zero | Inr x \<Rightarrow> x))"

definition at_best :: "'a \<Rightarrow> 'a tact \<Rightarrow> 'a tact" where
  "at_best otherwise a = bindA (attempt a) (\<lambda>r. returnA (case r of Inl e \<Rightarrow> otherwise | Inr x \<Rightarrow> x))"

text \<open>A loop that returns at the first error.\<close>

fun mapT :: "('a \<Rightarrow> 'b tact) \<Rightarrow> 'a list \<Rightarrow> 'b list tact" where
  "mapT f [] = returnA []"
| "mapT f (x # xs) = bindA (f x) (\<lambda>y. bindA (mapT f xs) (\<lambda>ys. returnA (y # ys)))"

section \<open>The service\<close>

text \<open>
  What \<open>IssueService\<close> needs beside its repositories: whether it has a project repository, the sanitizers of
  \<open>BE/pkg/sanitize/html.go\<close>, which wrap a third-party library, the pattern that finds mentions
  (\<open>comment.go\<close>), \<open>uuid.Parse\<close> (with the value and whether there was no error), \<open>time.Parse\<close> and
  \<open>time.Format\<close> for dates, the collation of the database, and the order in which \<open>range\<close> yields the keys
  of a map.
\<close>

record IssueService =
  is_projectRepo :: bool
  is_PlainText :: "string \<Rightarrow> string"
  is_SanitizeEditorContent :: "string \<Rightarrow> string"
  is_StripHTML :: "string \<Rightarrow> string"
  is_mentioned :: "string \<Rightarrow> uuid list"
  is_uuid_Parse :: "string \<Rightarrow> uuid \<times> bool"
  is_ParseDate :: "string \<Rightarrow> time option"
  is_FormatDate :: "time \<Rightarrow> string"
  is_collate :: "string \<Rightarrow> nat"
  is_range :: "uuid list \<Rightarrow> uuid list"

end
