(* ===== verification/Issue_Service.thy ===== *)
theory Issue_Service
  imports Tracker_World "HOL-Library.List_Lexorder" "HOL-Library.Char_ord"
begin

text \<open>
  \<open>BE/internal/service/issue.go\<close>, first part: requests, the parts that several operations share (history,
  notifications, recipients, parents), the automation that closes parents and sub-issues, and the
  creation of issues. \<open>Issue_Changes\<close> holds the operations that change and delete them.

  A transaction of \<open>Create\<close> is its calls of the store one after the other; the \<open>INSERT\<close> and the commit
  are one call. The order of the calls of the store, of the events sent and of the identifiers drawn is
  that of the code.
\<close>

section \<open>Requests\<close>

text \<open>Requests (\<open>BE/internal/dto/issue.go\<close>). A slice is a list option where the code asks for \<open>nil\<close>.\<close>

record CreateIssueRequest =
  cr_Title :: string
  cr_Description :: "string option"
  cr_Status :: string
  cr_StatusID :: "string option"
  cr_Priority :: "int option"
  cr_TeamID :: string
  cr_ProjectID :: "string option"
  cr_AssigneeID :: "string option"
  cr_AssigneeIDs :: "string list"
  cr_LabelIDs :: "string list"
  cr_ParentID :: "string option"
  cr_DueDate :: "string option"
  cr_CycleID :: "string option"

record CreateSubIssueRequest =
  sr_Title :: string
  sr_Description :: "string option"
  sr_Status :: string
  sr_StatusID :: "string option"
  sr_Priority :: "int option"
  sr_ProjectID :: "string option"
  sr_AssigneeID :: "string option"
  sr_AssigneeIDs :: "string list"
  sr_LabelIDs :: "string list"
  sr_DueDate :: "string option"
  sr_CycleID :: "string option"

record UpdateIssueRequest =
  ur_Title :: "string option"
  ur_Description :: "string option"
  ur_Status :: "string option"
  ur_StatusID :: "string option"
  ur_Priority :: "int option"
  ur_AssigneeID :: "string option"
  ur_AssigneeIDs :: "string list option"
  ur_ProjectID :: "string option"
  ur_CycleID :: "string option"
  ur_LabelIDs :: "string list option"
  ur_ParentID :: "string option"
  ur_DueDate :: "string option"
  ur_SortOrder :: "float64 option"

record BulkUpdateIssueRequest =
  br_IssueIDs :: "string list"
  br_Status :: "string option"
  br_StatusID :: "string option"
  br_Priority :: "int option"
  br_AssigneeID :: "string option"
  br_LabelIDs :: "string list option"
  br_CycleID :: "string option"
  br_ParentID :: "string option"

definition parsed :: "IssueService \<Rightarrow> string \<Rightarrow> uuid" where
  "parsed S s = fst (is_uuid_Parse S s)"

section \<open>History and notifications\<close>

definition recordHistory :: "uuid \<Rightarrow> uuid \<Rightarrow> string \<Rightarrow> string \<Rightarrow> string \<Rightarrow> unit tact" where
  "recordHistory issueID userID field oldValue newValue =
     ignore (bindA freshT (\<lambda>i. writeT (\<lambda>now. history_Create now i issueID userID field (Some oldValue) (Some newValue))))"

definition issueUpdateNotificationWindow :: duration where
  "issueUpdateNotificationWindow = minutes 5"

definition new_notification :: "uuid \<Rightarrow> uuid \<Rightarrow> uuid \<Rightarrow> uuid option \<Rightarrow> string \<Rightarrow> string \<Rightarrow> Notification" where
  "new_notification i userID workspaceID issueID notifType title = \<lparr>no_ID = i, no_UserID = userID,
     no_WorkspaceID = workspaceID, no_IssueID = issueID, no_Type = notifType, no_Title = title, no_ReadAt = None,
     no_SnoozedUntil = None, no_ArchivedAt = None, no_CreatedAt = 0\<rparr>"

definition createNotification :: "uuid \<Rightarrow> uuid \<Rightarrow> uuid option \<Rightarrow> string \<Rightarrow> string \<Rightarrow> unit tact" where
  "createNotification userID workspaceID issueID notifType title = bindA freshT (\<lambda>i.
     writeT (\<lambda>now. notification_Create now (new_notification i userID workspaceID issueID notifType title)))"

definition createOrRefresh :: "uuid \<Rightarrow> uuid \<Rightarrow> uuid option \<Rightarrow> string \<Rightarrow> string \<Rightarrow> duration \<Rightarrow> unit tact" where
  "createOrRefresh userID workspaceID issueID notifType title window = bindA freshT (\<lambda>i.
     let n = new_notification i userID workspaceID issueID notifType title in
     bindA (attempt (writeT (\<lambda>now. refresh_notification now n window))) (\<lambda>r. case r of
       Inr u \<Rightarrow> returnA u
     | Inl e \<Rightarrow> if e \<noteq> StoreError ErrNoRows then failA e else writeT (\<lambda>now. notification_Create now n)))"

definition announce :: "uuid \<Rightarrow> uuid \<Rightarrow> string \<Rightarrow> unit tact \<Rightarrow> unit tact" where
  "announce workspaceID userID notifType a = bindA (attempt a) (\<lambda>r. case r of
     Inl e \<Rightarrow> returnA ()
   | Inr u \<Rightarrow> broadcast (ToUser workspaceID userID ''notification.created'' (OfKind notifType)))"

definition notifyIssue :: "uuid \<Rightarrow> Issue \<Rightarrow> string \<Rightarrow> string \<Rightarrow> bool \<Rightarrow> unit tact" where
  "notifyIssue userID issue notifType title linkIssue =
     (let issueID = (if linkIssue then Some (ow_ID issue) else None) in
      announce (ow_WorkspaceID issue) userID notifType
        (if notifType = ''issue_updated''
         then createOrRefresh userID (ow_WorkspaceID issue) issueID notifType title issueUpdateNotificationWindow
         else createNotification userID (ow_WorkspaceID issue) issueID notifType title))"

definition notify :: "uuid \<Rightarrow> Issue \<Rightarrow> string \<Rightarrow> string \<Rightarrow> unit tact" where
  "notify userID issue notifType title = notifyIssue userID issue notifType title True"

definition notifyWorkspace :: "uuid \<Rightarrow> uuid \<Rightarrow> string \<Rightarrow> string \<Rightarrow> bool \<Rightarrow> unit tact" where
  "notifyWorkspace workspaceID userID notifType title dedupe = announce workspaceID userID notifType
     (if dedupe then createOrRefresh userID workspaceID None notifType title issueUpdateNotificationWindow
      else createNotification userID workspaceID None notifType title)"

definition assigned_title :: "Issue \<Rightarrow> string" where
  "assigned_title issue = ''You were assigned to '' @ iss_Identifier issue @ '': '' @ iss_Title issue"

definition notifyAssignees :: "Issue \<Rightarrow> uuid \<Rightarrow> unit tact" where
  "notifyAssignees issue actorID =
     (let single = (case iss_AssigneeID issue of Some u \<Rightarrow> if u \<noteq> actorID then [u] else [] | None \<Rightarrow> []) in
      thenA (eachA (\<lambda>u. notify u issue ''assigned'' (assigned_title issue)) single)
      (bindA (at_best [] (readT (GetAssignees (ow_ID issue)))) (\<lambda>assignees.
        eachA (\<lambda>u. whenA (u \<noteq> actorID \<and> u \<notin> set single) (notify u issue ''assigned'' (assigned_title issue))) assignees)))"

text \<open>The two closures of \<open>issueNotificationRecipients\<close>; the list is also the set of those seen.\<close>

definition add_recipient :: "uuid \<Rightarrow> uuid list \<Rightarrow> uuid \<Rightarrow> uuid list" where
  "add_recipient actorID recipients u =
     (if u = uuid_Nil \<or> u = actorID \<or> u \<in> set recipients then recipients else recipients @ [u])"

definition add_subscriber :: "uuid list \<Rightarrow> uuid \<Rightarrow> uuid list" where
  "add_subscriber recipients u = (if u = uuid_Nil \<or> u \<in> set recipients then recipients else recipients @ [u])"

definition issueNotificationRecipients :: "Issue \<Rightarrow> uuid \<Rightarrow> bool \<Rightarrow> uuid list tact" where
  "issueNotificationRecipients issue actorID includeCreator =
     bindA (at_best [] (readT (GetAssignees (ow_ID issue)))) (\<lambda>assignees.
     bindA (at_best [] (readT (GetSubscribers (ow_ID issue)))) (\<lambda>subscribers.
       returnA (foldl add_subscriber
         (foldl (add_recipient actorID) []
           ((if includeCreator then [iss_CreatorID issue] else []) @ assignees
            @ (case iss_AssigneeID issue of None \<Rightarrow> [] | Some u \<Rightarrow> [u]))) subscribers)))"

section \<open>Parents\<close>

definition validateParentID :: "IssueService \<Rightarrow> uuid \<Rightarrow> uuid \<Rightarrow> string \<Rightarrow> uuid option tact" where
  "validateParentID S workspaceID issueID rawParentID =
     (if rawParentID = [] then returnA None
      else (case is_uuid_Parse S rawParentID of (parentID, ok) \<Rightarrow>
        if \<not> ok then failT ''invalid parent_id''
        else if issueID \<noteq> uuid_Nil \<and> parentID = issueID then failT ''issue cannot be its own parent''
        else bindA (foundT ''parent issue not found'' (readT (issue_GetByID parentID))) (\<lambda>parent.
          if ow_WorkspaceID parent \<noteq> workspaceID then failT ''parent issue must belong to the same workspace''
          else if issueID = uuid_Nil then returnA (Some parentID)
          else bindA (queryT (WouldCreateCycle issueID parentID)) (\<lambda>closes.
            if closes then failT ''parent would create a sub-issue cycle'' else returnA (Some parentID)))))"

section \<open>Automation\<close>

text \<open>The switch of \<open>issueStatusCategory\<close>, which is not that of the store.\<close>

definition default_category :: "string \<Rightarrow> StatusCategory" where
  "default_category s = (if s = ''done'' then Completed else if s = ''cancelled'' then Cancelled
     else if s = ''in_progress'' \<or> s = ''in_review'' then Started else if s = ''todo'' then Unstarted else Backlog)"

definition issueStatusCategory :: "Issue \<Rightarrow> StatusCategory tact" where
  "issueStatusCategory issue = (case iss_StatusID issue of
     None \<Rightarrow> returnA (default_category (iss_Status issue))
   | Some i \<Rightarrow> bindA (at_best None (readT (status_GetByID i))) (\<lambda>r.
       returnA (case r of Some s \<Rightarrow> st_Category s | None \<Rightarrow> default_category (iss_Status issue))))"

definition isTerminalStatus :: "Issue \<Rightarrow> bool tact" where
  "isTerminalStatus issue = bindA (issueStatusCategory issue) (\<lambda>c. returnA (c = Completed \<or> c = Cancelled))"

text \<open>The error of the second query makes the caller give up, as a missing status does.\<close>

definition completedStatusForTeam :: "uuid \<Rightarrow> TeamStatus option tact" where
  "completedStatusForTeam teamID = bindA (at_best None (readT (GetByTeamAndSlug teamID ''done''))) (\<lambda>found.
     case found of
       Some s \<Rightarrow> returnA (Some s)
     | None \<Rightarrow> bindA (readT (status_ListByTeam teamID)) (\<lambda>ss. returnA (find (\<lambda>s. st_Category s = Completed) ss)))"

definition completed_issue :: "TeamStatus \<Rightarrow> Issue \<Rightarrow> Issue" where
  "completed_issue s issue = issue\<lparr>iss_Status := st_Slug s, iss_StatusID := Some (st_ID s)\<rparr>"

text \<open>
  \<open>again\<close> is \<open>applyStatusAutomation\<close>, which the functions below call and are called by. The map of visited
  issues is shared by reference, so it is passed through.
\<close>

definition moveIssueToCompleted ::
  "(Issue \<Rightarrow> uuid list \<Rightarrow> uuid list tact) \<Rightarrow> uuid \<Rightarrow> uuid \<Rightarrow> Issue \<Rightarrow> uuid list \<Rightarrow> uuid list tact" where
  "moveIssueToCompleted again workspaceID actorID issue visited =
     bindA (isTerminalStatus issue) (\<lambda>ended. if ended then returnA visited else
     bindA (at_best None (completedStatusForTeam (iss_TeamID issue))) (\<lambda>found. case found of
       None \<Rightarrow> returnA visited
     | Some s \<Rightarrow>
       bindA (attempt (storeT (\<lambda>now. issue_Update now (completed_issue s issue)))) (\<lambda>r. case r of
         Inl e \<Rightarrow> returnA visited
       | Inr moved \<Rightarrow>
         thenA (recordHistory (ow_ID issue) actorID ''status'' (iss_Status issue) (st_Slug s))
         (thenA (broadcast (ToWorkspace workspaceID ''issue.updated'' (OfIssue moved)))
         (again moved visited)))))"

definition autoCloseSubIssue ::
  "(Issue \<Rightarrow> uuid list \<Rightarrow> uuid list tact) \<Rightarrow> uuid \<Rightarrow> uuid \<Rightarrow> Issue \<Rightarrow> uuid list \<Rightarrow> uuid list tact" where
  "autoCloseSubIssue again workspaceID actorID sub visited =
     (if ow_WorkspaceID sub \<noteq> workspaceID then returnA visited
      else bindA (isTerminalStatus sub) (\<lambda>ended. if ended then returnA visited
        else moveIssueToCompleted again workspaceID actorID sub visited))"

fun autoCloseEach :: "(Issue \<Rightarrow> uuid list \<Rightarrow> uuid list tact) \<Rightarrow> Issue list \<Rightarrow> uuid list \<Rightarrow> uuid list tact" where
  "autoCloseEach close [] visited = returnA visited"
| "autoCloseEach close (sub # subs) visited = bindA (close sub visited) (\<lambda>visited'. autoCloseEach close subs visited')"

definition autoCloseSubIssues ::
  "(Issue \<Rightarrow> uuid list \<Rightarrow> uuid list tact) \<Rightarrow> uuid \<Rightarrow> uuid \<Rightarrow> uuid \<Rightarrow> uuid list \<Rightarrow> uuid list tact" where
  "autoCloseSubIssues again workspaceID actorID parentID visited =
     bindA (at_best [] (readT (ListSubIssues parentID))) (\<lambda>subs.
       autoCloseEach (autoCloseSubIssue again workspaceID actorID) subs visited)"

definition maybeAutoCloseParent ::
  "(Issue \<Rightarrow> uuid list \<Rightarrow> uuid list tact) \<Rightarrow> uuid \<Rightarrow> uuid \<Rightarrow> uuid \<Rightarrow> uuid list \<Rightarrow> uuid list tact" where
  "maybeAutoCloseParent again workspaceID actorID parentID visited =
     bindA (at_best None (readT (issue_GetByID parentID))) (\<lambda>found. case found of
       None \<Rightarrow> returnA visited
     | Some parent \<Rightarrow> if ow_WorkspaceID parent \<noteq> workspaceID \<or> ow_ID parent \<in> set visited then returnA visited else
       bindA (at_best None (readT (team_GetByID (iss_TeamID parent)))) (\<lambda>team. case team of
         None \<Rightarrow> returnA visited
       | Some t \<Rightarrow> if \<not> te_ParentAutoCloseEnabled t then returnA visited else
         bindA (at_best (0, 0) (readT (CountSubIssues (ow_ID parent)))) (\<lambda>(total, closed).
           if total = 0 \<or> total \<noteq> closed then returnA visited
           else moveIssueToCompleted again workspaceID actorID parent visited)))"

text \<open>The fuel bounds the depth of the recursion.\<close>

fun applyStatusAutomation :: "nat \<Rightarrow> uuid \<Rightarrow> uuid \<Rightarrow> Issue \<Rightarrow> uuid list \<Rightarrow> uuid list tact" where
  "applyStatusAutomation 0 workspaceID actorID issue visited = failT ''out of fuel''"
| "applyStatusAutomation (Suc n) workspaceID actorID issue visited0 =
     (if ow_ID issue \<in> set visited0 then returnA visited0
      else (let visited = ow_ID issue # visited0; again = applyStatusAutomation n workspaceID actorID in
        bindA (issueStatusCategory issue) (\<lambda>category.
        bindA (if category \<noteq> Completed then returnA visited
          else bindA (at_best None (readT (team_GetByID (iss_TeamID issue)))) (\<lambda>team. case team of
              None \<Rightarrow> returnA visited
            | Some t \<Rightarrow> if te_SubIssueAutoCloseEnabled t
                then autoCloseSubIssues again workspaceID actorID (ow_ID issue) visited else returnA visited)) (\<lambda>visited'.
        case iss_ParentID issue of
          None \<Rightarrow> returnA visited'
        | Some p \<Rightarrow> maybeAutoCloseParent again workspaceID actorID p visited'))))"

text \<open>Every level visits an issue, so one more than there are issues is enough when no other request adds any.\<close>

definition runStatusAutomation :: "uuid \<Rightarrow> uuid \<Rightarrow> Issue \<Rightarrow> unit tact" where
  "runStatusAutomation workspaceID actorID issue = bindA (getA (\<lambda>k. length (tr_issues (dk_db k)))) (\<lambda>n.
     ignore (applyStatusAutomation (n + 2) workspaceID actorID issue []))"

section \<open>Creating issues\<close>

definition zero_status :: TeamStatus where
  "zero_status = \<lparr>st_ID = uuid_Nil, st_TeamID = uuid_Nil, st_Name = [], st_Slug = [], st_Category = Backlog, st_Color = None,
     st_Position = 0\<rparr>"

text \<open>The struct literal of \<open>Create\<close>, and the optional fields that follow it.\<close>

definition new_issue ::
  "IssueService \<Rightarrow> uuid \<Rightarrow> uuid \<Rightarrow> uuid \<Rightarrow> Team \<Rightarrow> int \<Rightarrow> CreateIssueRequest \<Rightarrow> Issue" where
  "new_issue S i workspaceID creatorID team number req = \<lparr>ow_ID = i, ow_WorkspaceID = workspaceID, iss_TeamID = ow_ID team,
     iss_ProjectID = map_option (parsed S) (cr_ProjectID req), iss_CycleID = map_option (parsed S) (cr_CycleID req),
     iss_Number = number, iss_Identifier = te_Key team @ ''-'' @ int_decimal number, iss_Title = is_PlainText S (cr_Title req),
     iss_Description = map_option (is_SanitizeEditorContent S) (cr_Description req),
     iss_Status = (if cr_Status req \<noteq> [] then cr_Status req else ''backlog''),
     iss_Priority = (case cr_Priority req of None \<Rightarrow> 0 | Some p \<Rightarrow> p), iss_CreatorID = creatorID,
     iss_AssigneeID = map_option (parsed S) (cr_AssigneeID req), iss_ParentID = None, iss_DueDate = None,
     iss_SortOrder = - (of_int number) * 1000, iss_StatusID = None, iss_Triaged = \<not> te_TriageEnabled team,
     iss_StartedAt = None, iss_CompletedAt = None, iss_CancelledAt = None, iss_TriagedAt = None, iss_CreatedAt = 0,
     iss_UpdatedAt = 0\<rparr>"

definition new_due_date :: "IssueService \<Rightarrow> string option \<Rightarrow> Issue \<Rightarrow> Issue" where
  "new_due_date S raw issue = (case raw of
     None \<Rightarrow> issue
   | Some s \<Rightarrow> if s = [] then issue else (case is_ParseDate S s of
       None \<Rightarrow> issue | Some t \<Rightarrow> issue\<lparr>iss_DueDate := Some t\<rparr>))"

definition new_parent :: "IssueService \<Rightarrow> uuid \<Rightarrow> string option \<Rightarrow> Issue \<Rightarrow> Issue tact" where
  "new_parent S workspaceID raw issue = (case raw of
     None \<Rightarrow> returnA issue
   | Some s \<Rightarrow> bindA (validateParentID S workspaceID uuid_Nil s) (\<lambda>p. returnA (issue\<lparr>iss_ParentID := p\<rparr>)))"

definition requested_status :: "IssueService \<Rightarrow> string option \<Rightarrow> Issue \<Rightarrow> Issue tact" where
  "requested_status S raw issue = (case raw of
     None \<Rightarrow> returnA issue
   | Some s \<Rightarrow> (case is_uuid_Parse S s of (sid, ok) \<Rightarrow> if \<not> ok then returnA issue
     else bindA (despite zero_status (readT (status_GetByID sid))) (\<lambda>found. returnA (case found of
         None \<Rightarrow> issue
       | Some ts \<Rightarrow> if st_TeamID ts = iss_TeamID issue then issue\<lparr>iss_StatusID := Some sid, iss_Status := st_Slug ts\<rparr>
           else issue))))"

definition default_status :: "string \<Rightarrow> Issue \<Rightarrow> Issue tact" where
  "default_status status issue = (if iss_StatusID issue \<noteq> None then returnA issue
     else bindA (at_best None (readT (GetByTeamAndSlug (iss_TeamID issue) status))) (\<lambda>found. returnA (case found of
         None \<Rightarrow> issue | Some ts \<Rightarrow> issue\<lparr>iss_StatusID := Some (st_ID ts)\<rparr>)))"

definition set_new_pairs :: "IssueService \<Rightarrow> CreateIssueRequest \<Rightarrow> Issue \<Rightarrow> unit tact" where
  "set_new_pairs S req issue =
     thenA (whenA (cr_LabelIDs req \<noteq> [])
       (ignore (writeT (\<lambda>now. SetLabels (ow_ID issue) (map (parsed S) (cr_LabelIDs req))))))
     (if cr_AssigneeIDs req \<noteq> []
      then ignore (writeT (\<lambda>now. SetAssignees now (ow_ID issue) (map (parsed S) (cr_AssigneeIDs req))))
      else (case iss_AssigneeID issue of
          None \<Rightarrow> returnA ()
        | Some u \<Rightarrow> ignore (writeT (\<lambda>now. SetAssignees now (ow_ID issue) [u]))))"

definition createIssue :: "IssueService \<Rightarrow> uuid \<Rightarrow> uuid \<Rightarrow> CreateIssueRequest \<Rightarrow> Issue tact" where
  "createIssue S workspaceID creatorID req = (case is_uuid_Parse S (cr_TeamID req) of (teamID, ok) \<Rightarrow>
     if \<not> ok then failT ''invalid team_id'' else
     bindA (foundT ''team not found'' (readT (team_GetByID teamID))) (\<lambda>team.
     thenA (readT (\<lambda>d. ()))
     (bindA (readT (NextNumber teamID)) (\<lambda>number.
      bindA freshT (\<lambda>i.
      let fresh_issue = new_issue S i workspaceID creatorID team number req in
      bindA (new_parent S workspaceID (cr_ParentID req) fresh_issue) (\<lambda>child.
      bindA (requested_status S (cr_StatusID req) (new_due_date S (cr_DueDate req) child)) (\<lambda>filed.
      bindA (default_status (iss_Status fresh_issue) filed) (\<lambda>complete.
      bindA (storeT (\<lambda>now. issue_Create now complete)) (\<lambda>issue.
      thenA (set_new_pairs S req issue)
      (thenA (broadcast (ToWorkspace workspaceID ''issue.created'' (OfIssue issue)))
      (thenA (notifyAssignees issue creatorID)
       (returnA issue))))))))))))"

text \<open>The request a sub-issue stands for.\<close>

definition inheritSubIssueAssignees :: "Issue \<Rightarrow> uuid \<Rightarrow> string list tact" where
  "inheritSubIssueAssignees parent creatorID =
     bindA (at_best [] (readT (GetAssignees (ow_ID parent)))) (\<lambda>assigned.
     let parentAssignees = (case iss_AssigneeID parent of Some u \<Rightarrow> if assigned = [] then [u] else assigned | None \<Rightarrow> assigned) in
     if parentAssignees = [] then returnA []
     else if creatorID \<in> set parentAssignees then returnA [uuid_String creatorID]
     else if length parentAssignees \<noteq> 1 then returnA []
     else bindA (attempt (readT (ListSubIssues (ow_ID parent)))) (\<lambda>r. returnA (case r of
         Inl e \<Rightarrow> []
       | Inr subs \<Rightarrow> if list_all (\<lambda>s. iss_AssigneeID s = Some (hd parentAssignees)) subs
           then [uuid_String (hd parentAssignees)] else [])))"

definition inherited_cycle :: "Issue \<Rightarrow> string option \<Rightarrow> string option tact" where
  "inherited_cycle parent cycle = (case (cycle, iss_CycleID parent) of
     (None, Some c) \<Rightarrow> bindA (at_best False (readT (CycleIsActive c))) (\<lambda>active.
       returnA (if active then Some (uuid_String c) else None))
   | _ \<Rightarrow> returnA cycle)"

definition sub_issue_request :: "Issue \<Rightarrow> CreateSubIssueRequest \<Rightarrow> string option \<Rightarrow> string list \<Rightarrow> CreateIssueRequest" where
  "sub_issue_request parent req cycle assignees = \<lparr>cr_Title = sr_Title req, cr_Description = sr_Description req,
     cr_Status = sr_Status req, cr_StatusID = sr_StatusID req,
     cr_Priority = Some (case sr_Priority req of None \<Rightarrow> iss_Priority parent | Some p \<Rightarrow> p),
     cr_TeamID = uuid_String (iss_TeamID parent),
     cr_ProjectID = (case sr_ProjectID req of None \<Rightarrow> map_option uuid_String (iss_ProjectID parent) | Some p \<Rightarrow> Some p),
     cr_AssigneeID = sr_AssigneeID req, cr_AssigneeIDs = assignees, cr_LabelIDs = sr_LabelIDs req,
     cr_ParentID = Some (uuid_String (ow_ID parent)), cr_DueDate = sr_DueDate req, cr_CycleID = cycle\<rparr>"

definition createSubIssue :: "IssueService \<Rightarrow> uuid \<Rightarrow> uuid \<Rightarrow> string \<Rightarrow> CreateSubIssueRequest \<Rightarrow> Issue tact" where
  "createSubIssue S workspaceID creatorID parentIdentifier req =
     bindA (foundT ''parent issue not found'' (readT (GetByIdentifier workspaceID parentIdentifier))) (\<lambda>parent.
     bindA (inherited_cycle parent (sr_CycleID req)) (\<lambda>cycle.
     bindA (if sr_AssigneeIDs req = [] \<and> sr_AssigneeID req = None then inheritSubIssueAssignees parent creatorID
       else returnA (sr_AssigneeIDs req)) (\<lambda>assignees.
       createIssue S workspaceID creatorID (sub_issue_request parent req cycle assignees))))"

definition bulkCreateSubIssues :: "IssueService \<Rightarrow> uuid \<Rightarrow> uuid \<Rightarrow> string \<Rightarrow> CreateSubIssueRequest list \<Rightarrow> Issue list tact" where
  "bulkCreateSubIssues S workspaceID creatorID parentIdentifier reqs =
     mapT (createSubIssue S workspaceID creatorID parentIdentifier) reqs"

end
