(* ===== verification/Issue_Changes.thy ===== *)
theory Issue_Changes
  imports Issue_Service
begin

text \<open>
  \<open>BE/internal/service/issue.go\<close>, second part: the operations that duplicate, convert, update, triage and
  delete issues, one by one and in bulk. The sections of \<open>Update\<close> are actions on what it has in its
  variables: the issue, the changes to announce, the assignees loaded so far and whether the status changed.
\<close>

section \<open>Duplicates and projects\<close>

definition duplicate_request ::
  "IssueService \<Rightarrow> Issue \<Rightarrow> Label list \<Rightarrow> uuid list \<Rightarrow> uuid option \<Rightarrow> bool \<Rightarrow> CreateIssueRequest" where
  "duplicate_request S original labels assignees parentID appendCopy = \<lparr>
     cr_Title = iss_Title original @ (if appendCopy then '' (copy)'' else []), cr_Description = iss_Description original,
     cr_Status = iss_Status original, cr_StatusID = map_option uuid_String (iss_StatusID original),
     cr_Priority = Some (iss_Priority original), cr_TeamID = uuid_String (iss_TeamID original),
     cr_ProjectID = map_option uuid_String (iss_ProjectID original), cr_AssigneeID = None,
     cr_AssigneeIDs = map uuid_String (case iss_AssigneeID original of
        Some u \<Rightarrow> if assignees = [] then [u] else assignees | None \<Rightarrow> assignees),
     cr_LabelIDs = map (\<lambda>l. uuid_String (la_ID l)) labels, cr_ParentID = map_option uuid_String parentID,
     cr_DueDate = map_option (is_FormatDate S) (iss_DueDate original),
     cr_CycleID = map_option uuid_String (iss_CycleID original)\<rparr>"

definition duplicateIssue :: "IssueService \<Rightarrow> uuid \<Rightarrow> uuid \<Rightarrow> Issue \<Rightarrow> uuid option \<Rightarrow> bool \<Rightarrow> Issue tact" where
  "duplicateIssue S workspaceID creatorID original parentID appendCopy =
     bindA (at_best [] (readT (GetLabels (is_collate S) (ow_ID original)))) (\<lambda>labels.
     bindA (at_best [] (readT (GetAssignees (ow_ID original)))) (\<lambda>assignees.
       createIssue S workspaceID creatorID (duplicate_request S original labels assignees parentID appendCopy)))"

definition Duplicate :: "IssueService \<Rightarrow> uuid \<Rightarrow> uuid \<Rightarrow> string \<Rightarrow> bool \<Rightarrow> Issue tact" where
  "Duplicate S workspaceID creatorID identifier includeSubIssues =
     bindA (foundT ''issue not found'' (readT (GetByIdentifier workspaceID identifier))) (\<lambda>original.
     bindA (duplicateIssue S workspaceID creatorID original None True) (\<lambda>duplicated.
     thenA (if \<not> includeSubIssues then returnA ()
       else bindA (readT (ListSubIssues (ow_ID original))) (\<lambda>subs.
         eachA (\<lambda>sub. bindA (duplicateIssue S workspaceID creatorID sub (Some (ow_ID duplicated)) False)
           (\<lambda>_. returnA ())) subs))
       (returnA duplicated)))"

definition optional_text :: "uuid option \<Rightarrow> string" where
  "optional_text i = (case i of None \<Rightarrow> [] | Some x \<Rightarrow> uuid_String x)"

definition moveToProject :: "uuid \<Rightarrow> uuid \<Rightarrow> uuid \<Rightarrow> Issue \<Rightarrow> unit tact" where
  "moveToProject workspaceID userID projectID item =
     bindA (storeT (\<lambda>now. issue_Update now (item\<lparr>iss_ProjectID := Some projectID, iss_ParentID := None\<rparr>))) (\<lambda>moved.
     thenA (whenA (optional_text (iss_ProjectID item) \<noteq> uuid_String projectID)
       (recordHistory (ow_ID item) userID ''project'' (optional_text (iss_ProjectID item)) (uuid_String projectID)))
     (thenA (whenA (optional_text (iss_ParentID item) \<noteq> [])
       (recordHistory (ow_ID item) userID ''parent'' (optional_text (iss_ParentID item)) []))
      (broadcast (ToWorkspace workspaceID ''issue.updated'' (OfIssue moved)))))"

definition converted_project :: "IssueService \<Rightarrow> uuid \<Rightarrow> uuid \<Rightarrow> Issue \<Rightarrow> Project" where
  "converted_project S i workspaceID issue = \<lparr>ow_ID = i, ow_WorkspaceID = workspaceID, pj_TeamID = Some (iss_TeamID issue),
     pj_Name = is_PlainText S (is_StripHTML S (iss_Title issue)), pj_Description = iss_Description issue,
     pj_Status = ''planned'', pj_LeadID = None, pj_StartDate = None, pj_TargetDate = None,
     pj_SortOrder = iss_SortOrder issue, pj_CreatedAt = 0, pj_UpdatedAt = 0\<rparr>"

definition ConvertToProject :: "IssueService \<Rightarrow> uuid \<Rightarrow> uuid \<Rightarrow> string \<Rightarrow> Project tact" where
  "ConvertToProject S workspaceID userID identifier =
     (if \<not> is_projectRepo S then failT ''project repository unavailable'' else
      bindA (foundT ''issue not found'' (readT (GetByIdentifier workspaceID identifier))) (\<lambda>issue.
      bindA freshT (\<lambda>i.
      bindA (storeT (\<lambda>now. project_Create now (converted_project S i workspaceID issue))) (\<lambda>project.
      bindA (readT (ListSubIssues (ow_ID issue))) (\<lambda>subs.
      thenA (eachA (moveToProject workspaceID userID (ow_ID project)) (issue # subs))
      (bindA (issueNotificationRecipients issue userID True) (\<lambda>recipients.
       thenA (eachA (\<lambda>u. notify u issue ''issue_converted_to_project''
           (iss_Identifier issue @ '' was converted to a project'')) recipients)
       (returnA project))))))))"

section \<open>Updates\<close>

record issueChangeSet =
  cs_fields :: "string list"
  cs_newAssignees :: "uuid list"
  cs_newMentions :: "uuid list"

definition addField :: "string \<Rightarrow> issueChangeSet \<Rightarrow> issueChangeSet" where
  "addField f c = (if f \<in> set (cs_fields c) then c else c\<lparr>cs_fields := cs_fields c @ [f]\<rparr>)"

record update_state =
  up_issue :: Issue
  up_changes :: issueChangeSet
  up_old :: "uuid list option"
  up_statusChanged :: bool

type_synonym update_step = "update_state \<Rightarrow> update_state tact"

text \<open>A field that has got a new value: its history and its mention among the changes.\<close>

definition changed :: "uuid \<Rightarrow> string \<Rightarrow> string \<Rightarrow> string \<Rightarrow> string \<Rightarrow> update_step" where
  "changed userID field name oldValue newValue u =
     thenA (recordHistory (ow_ID (up_issue u)) userID field oldValue newValue)
       (returnA (u\<lparr>up_changes := addField name (up_changes u)\<rparr>))"

definition text_or_empty :: "string option \<Rightarrow> string" where
  "text_or_empty s = (case s of None \<Rightarrow> [] | Some x \<Rightarrow> x)"

definition newMentionedUserIDs :: "IssueService \<Rightarrow> string \<Rightarrow> string \<Rightarrow> uuid list" where
  "newMentionedUserIDs S oldDescription newDescription =
     filter (\<lambda>u. u \<notin> set (is_mentioned S oldDescription)) (is_mentioned S newDescription)"

definition updateTitle :: "uuid \<Rightarrow> string option \<Rightarrow> update_step" where
  "updateTitle userID title u = (case title of
     None \<Rightarrow> returnA u
   | Some t \<Rightarrow> if t = iss_Title (up_issue u) then returnA u
     else changed userID ''title'' ''title'' (iss_Title (up_issue u)) t (u\<lparr>up_issue := (up_issue u)\<lparr>iss_Title := t\<rparr>\<rparr>))"

definition updateDescription :: "IssueService \<Rightarrow> uuid \<Rightarrow> string option \<Rightarrow> update_step" where
  "updateDescription S userID description u = (let old = text_or_empty (iss_Description (up_issue u)) in case description of
     None \<Rightarrow> returnA u
   | Some t \<Rightarrow> if t = old then returnA u
     else bindA (changed userID ''description'' ''description'' old t
         (u\<lparr>up_issue := (up_issue u)\<lparr>iss_Description := Some t\<rparr>\<rparr>)) (\<lambda>u.
       returnA (u\<lparr>up_changes := (up_changes u)\<lparr>cs_newMentions := newMentionedUserIDs S old t\<rparr>\<rparr>)))"

definition updateStatusID :: "IssueService \<Rightarrow> uuid \<Rightarrow> string \<Rightarrow> update_step" where
  "updateStatusID S userID raw u = (case is_uuid_Parse S raw of (sid, ok) \<Rightarrow>
     if \<not> ok \<or> iss_StatusID (up_issue u) = Some sid then returnA u
     else bindA (case iss_StatusID (up_issue u) of
         None \<Rightarrow> returnA []
       | Some old \<Rightarrow> bindA (despite zero_status (readT (status_GetByID old))) (\<lambda>r.
           returnA (case r of None \<Rightarrow> [] | Some s \<Rightarrow> st_Name s))) (\<lambda>oldName.
       bindA (despite zero_status (readT (status_GetByID sid))) (\<lambda>r. case r of
         None \<Rightarrow> returnA u
       | Some s \<Rightarrow> if st_TeamID s \<noteq> iss_TeamID (up_issue u) then returnA u
         else changed userID ''status'' ''status'' oldName (st_Name s)
           (u\<lparr>up_issue := (up_issue u)\<lparr>iss_StatusID := Some sid, iss_Status := st_Slug s\<rparr>, up_statusChanged := True\<rparr>))))"

definition updateLegacyStatus :: "uuid \<Rightarrow> string \<Rightarrow> update_step" where
  "updateLegacyStatus userID status u = (if status = iss_Status (up_issue u) then returnA u
     else bindA (changed userID ''status'' ''status'' (iss_Status (up_issue u)) status
         (u\<lparr>up_issue := (up_issue u)\<lparr>iss_Status := status\<rparr>, up_statusChanged := True\<rparr>)) (\<lambda>u.
       bindA (at_best None (readT (GetByTeamAndSlug (iss_TeamID (up_issue u)) status))) (\<lambda>r. returnA (case r of
         None \<Rightarrow> u | Some s \<Rightarrow> u\<lparr>up_issue := (up_issue u)\<lparr>iss_StatusID := Some (st_ID s)\<rparr>\<rparr>))))"

definition updateStatus :: "IssueService \<Rightarrow> uuid \<Rightarrow> UpdateIssueRequest \<Rightarrow> update_step" where
  "updateStatus S userID req u = (case ur_StatusID req of
     Some raw \<Rightarrow> updateStatusID S userID raw u
   | None \<Rightarrow> (case ur_Status req of None \<Rightarrow> returnA u | Some s \<Rightarrow> updateLegacyStatus userID s u))"

definition updatePriority :: "uuid \<Rightarrow> int option \<Rightarrow> update_step" where
  "updatePriority userID priority u = (case priority of
     None \<Rightarrow> returnA u
   | Some p \<Rightarrow> if p = iss_Priority (up_issue u) then returnA u
     else changed userID ''priority'' ''priority'' (int_decimal (iss_Priority (up_issue u))) (int_decimal p)
       (u\<lparr>up_issue := (up_issue u)\<lparr>iss_Priority := p\<rparr>\<rparr>))"

text \<open>\<open>loadOldAssigneeSet\<close>: the assignees before the update with the single one, read once.\<close>

definition loadOldAssigneeSet :: "uuid option \<Rightarrow> update_state \<Rightarrow> (uuid list \<times> update_state) tact" where
  "loadOldAssigneeSet oldSingle u = (case up_old u of
     Some s \<Rightarrow> returnA (s, u)
   | None \<Rightarrow> bindA (at_best [] (readT (GetAssignees (ow_ID (up_issue u))))) (\<lambda>assignees.
       let s = remdups (assignees @ (case oldSingle of None \<Rightarrow> [] | Some a \<Rightarrow> [a])) in
       returnA (s, u\<lparr>up_old := Some s\<rparr>)))"

definition updateAssignee :: "IssueService \<Rightarrow> uuid \<Rightarrow> string option \<Rightarrow> update_step" where
  "updateAssignee S userID raw u = (case raw of
     None \<Rightarrow> returnA u
   | Some s \<Rightarrow> let old = optional_text (iss_AssigneeID (up_issue u)); aid = parsed S s in
     if old = uuid_String aid then returnA u
     else bindA (loadOldAssigneeSet (iss_AssigneeID (up_issue u)) u) (\<lambda>(oldSet, u).
       bindA (changed userID ''assignee_id'' ''assignee'' old s
           (u\<lparr>up_issue := (up_issue u)\<lparr>iss_AssigneeID := Some aid\<rparr>\<rparr>)) (\<lambda>u.
         returnA (if aid \<in> set oldSet then u
           else u\<lparr>up_changes := (up_changes u)\<lparr>cs_newAssignees := cs_newAssignees (up_changes u) @ [aid]\<rparr>\<rparr>))))"

text \<open>A reference that is stored, and announced when its text has changed.\<close>

definition changed_reference ::
  "uuid \<Rightarrow> string \<Rightarrow> (Issue \<Rightarrow> uuid option) \<Rightarrow> Issue \<Rightarrow> update_step" where
  "changed_reference userID name field issue u =
     (let old = optional_text (field (up_issue u)); u' = u\<lparr>up_issue := issue\<rparr> in
      if old = optional_text (field issue) then returnA u'
      else changed userID name name old (optional_text (field issue)) u')"

definition given_reference :: "IssueService \<Rightarrow> string \<Rightarrow> uuid option" where
  "given_reference S s = (if s = [] then None else Some (parsed S s))"

definition updateProject :: "IssueService \<Rightarrow> uuid \<Rightarrow> string option \<Rightarrow> update_step" where
  "updateProject S userID raw u = (case raw of
     None \<Rightarrow> returnA u
   | Some s \<Rightarrow> changed_reference userID ''project'' iss_ProjectID ((up_issue u)\<lparr>iss_ProjectID := given_reference S s\<rparr>) u)"

definition updateCycle :: "IssueService \<Rightarrow> uuid \<Rightarrow> string option \<Rightarrow> update_step" where
  "updateCycle S userID raw u = (case raw of
     None \<Rightarrow> returnA u
   | Some s \<Rightarrow> changed_reference userID ''cycle'' iss_CycleID ((up_issue u)\<lparr>iss_CycleID := given_reference S s\<rparr>) u)"

definition updateParent :: "IssueService \<Rightarrow> uuid \<Rightarrow> uuid \<Rightarrow> string option \<Rightarrow> update_step" where
  "updateParent S workspaceID userID raw u = (case raw of
     None \<Rightarrow> returnA u
   | Some s \<Rightarrow> bindA (validateParentID S workspaceID (ow_ID (up_issue u)) s) (\<lambda>p.
       changed_reference userID ''parent'' iss_ParentID ((up_issue u)\<lparr>iss_ParentID := p\<rparr>) u))"

definition updateDueDate :: "IssueService \<Rightarrow> uuid \<Rightarrow> string option \<Rightarrow> update_step" where
  "updateDueDate S userID raw u = (case raw of
     None \<Rightarrow> returnA u
   | Some s \<Rightarrow>
     let old = (case iss_DueDate (up_issue u) of None \<Rightarrow> [] | Some t \<Rightarrow> is_FormatDate S t);
         due = (if s = [] then None else (case is_ParseDate S s of None \<Rightarrow> iss_DueDate (up_issue u) | Some t \<Rightarrow> Some t));
         u' = u\<lparr>up_issue := (up_issue u)\<lparr>iss_DueDate := due\<rparr>\<rparr> in
     if old = s then returnA u' else changed userID ''due_date'' ''due date'' old s u')"

definition updateSortOrder :: "float64 option \<Rightarrow> update_step" where
  "updateSortOrder raw u = returnA (case raw of
     None \<Rightarrow> u | Some x \<Rightarrow> u\<lparr>up_issue := (up_issue u)\<lparr>iss_SortOrder := x\<rparr>\<rparr>)"

text \<open>The part of \<open>Update\<close> before its statement.\<close>

definition updated_fields :: "IssueService \<Rightarrow> uuid \<Rightarrow> uuid \<Rightarrow> UpdateIssueRequest \<Rightarrow> update_step" where
  "updated_fields S workspaceID userID req u =
     bindA (updateTitle userID (map_option (is_PlainText S) (ur_Title req)) u) (\<lambda>u.
     bindA (updateDescription S userID (map_option (is_SanitizeEditorContent S) (ur_Description req)) u) (\<lambda>u.
     bindA (updateStatus S userID req u) (\<lambda>u.
     bindA (updatePriority userID (ur_Priority req) u) (\<lambda>u.
     bindA (updateAssignee S userID (ur_AssigneeID req) u) (\<lambda>u.
     bindA (updateProject S userID (ur_ProjectID req) u) (\<lambda>u.
     bindA (updateCycle S userID (ur_CycleID req) u) (\<lambda>u.
     bindA (updateParent S workspaceID userID (ur_ParentID req) u) (\<lambda>u.
     bindA (updateDueDate S userID (ur_DueDate req) u) (\<lambda>u.
       updateSortOrder (ur_SortOrder req) u)))))))))"

section \<open>Labels and assignees of an update\<close>

fun join_with :: "string \<Rightarrow> string list \<Rightarrow> string" where
  "join_with sep [] = []"
| "join_with sep [x] = x"
| "join_with sep (x # y # zs) = x @ sep @ join_with sep (y # zs)"

definition uuidListString :: "uuid list \<Rightarrow> string" where
  "uuidListString ids = join_with '', '' (sort (remdups (map uuid_String ids)))"

definition sameUUIDSet :: "uuid list \<Rightarrow> uuid list \<Rightarrow> bool" where
  "sameUUIDSet a b \<longleftrightarrow> length a = length b \<and> set b \<subseteq> set a"

definition updateLabels :: "IssueService \<Rightarrow> uuid \<Rightarrow> string list option \<Rightarrow> update_step" where
  "updateLabels S userID raw u = (let i = ow_ID (up_issue u); names = (\<lambda>ls. join_with '', '' (map la_Name ls)) in case raw of
     None \<Rightarrow> returnA u
   | Some ids \<Rightarrow>
     bindA (at_best [] (readT (GetLabels (is_collate S) i))) (\<lambda>old.
     thenA (ignore (writeT (\<lambda>now. SetLabels i (map (parsed S) ids))))
     (bindA (at_best [] (readT (GetLabels (is_collate S) i))) (\<lambda>new.
       if names old = names new then returnA u else changed userID ''labels'' ''labels'' (names old) (names new) u))))"

definition updateAssignees :: "IssueService \<Rightarrow> uuid \<Rightarrow> uuid option \<Rightarrow> string list option \<Rightarrow> update_step" where
  "updateAssignees S userID oldSingle raw u = (case raw of
     None \<Rightarrow> returnA u
   | Some ids \<Rightarrow> let uids = map (parsed S) ids in
     bindA (loadOldAssigneeSet oldSingle u) (\<lambda>(oldSet, u).
     thenA (ignore (writeT (\<lambda>now. SetAssignees now (ow_ID (up_issue u)) uids)))
     (let u = u\<lparr>up_issue := (up_issue u)\<lparr>iss_AssigneeID := (case uids of [] \<Rightarrow> None | a # as \<Rightarrow> Some a)\<rparr>\<rparr>;
          old = is_range S oldSet in
      if sameUUIDSet old uids then returnA u
      else bindA (changed userID ''assignees'' ''assignees'' (uuidListString old) (uuidListString uids) u) (\<lambda>u.
        returnA (u\<lparr>up_changes := (up_changes u)\<lparr>cs_newAssignees := cs_newAssignees (up_changes u)
          @ filter (\<lambda>a. a \<notin> set oldSet) uids\<rparr>\<rparr>)))))"

section \<open>What an update announces\<close>

definition notify_each :: "uuid \<Rightarrow> uuid list \<Rightarrow> Issue \<Rightarrow> string \<Rightarrow> string \<Rightarrow> unit tact" where
  "notify_each actorID us issue notifType title =
     eachA (\<lambda>u. notify u issue notifType title) (rev (remdups (rev (filter (\<lambda>u. u \<noteq> actorID) us))))"

definition sendUpdateNotifications :: "Issue \<Rightarrow> uuid \<Rightarrow> issueChangeSet \<Rightarrow> unit tact" where
  "sendUpdateNotifications issue actorID changes =
     thenA (whenA (cs_fields changes \<noteq> [])
       (bindA (issueNotificationRecipients issue actorID True) (\<lambda>recipients.
         eachA (\<lambda>u. notify u issue ''issue_updated''
           (iss_Identifier issue @ '' updated: '' @ join_with '', '' (cs_fields changes))) recipients)))
     (thenA (notify_each actorID (cs_newAssignees changes) issue ''assigned'' (assigned_title issue))
      (notify_each actorID (cs_newMentions changes) issue ''mentioned''
        (''You were mentioned in '' @ iss_Identifier issue @ '': '' @ iss_Title issue)))"

definition updateIssue :: "IssueService \<Rightarrow> uuid \<Rightarrow> uuid \<Rightarrow> string \<Rightarrow> UpdateIssueRequest \<Rightarrow> Issue tact" where
  "updateIssue S workspaceID userID identifier req =
     bindA (foundT ''issue not found'' (readT (GetByIdentifier workspaceID identifier))) (\<lambda>issue.
     bindA (updated_fields S workspaceID userID req \<lparr>up_issue = issue,
       up_changes = \<lparr>cs_fields = [], cs_newAssignees = [], cs_newMentions = []\<rparr>, up_old = None, up_statusChanged = False\<rparr>) (\<lambda>u.
     bindA (storeT (\<lambda>now. issue_Update now (up_issue u))) (\<lambda>stored.
     bindA (updateLabels S userID (ur_LabelIDs req) (u\<lparr>up_issue := stored\<rparr>)) (\<lambda>u.
     bindA (updateAssignees S userID (iss_AssigneeID issue) (ur_AssigneeIDs req) u) (\<lambda>u.
     thenA (broadcast (ToWorkspace workspaceID ''issue.updated'' (OfIssue (up_issue u))))
     (thenA (whenA (up_statusChanged u) (runStatusAutomation workspaceID userID (up_issue u)))
     (thenA (sendUpdateNotifications (up_issue u) userID (up_changes u))
      (returnA (up_issue u)))))))))"

section \<open>Deletion and triage\<close>

definition zero_issue :: Issue where
  "zero_issue = \<lparr>ow_ID = uuid_Nil, ow_WorkspaceID = uuid_Nil, iss_TeamID = uuid_Nil, iss_ProjectID = None, iss_CycleID = None,
     iss_Number = 0, iss_Identifier = [], iss_Title = [], iss_Description = None, iss_Status = [], iss_Priority = 0,
     iss_CreatorID = uuid_Nil, iss_AssigneeID = None, iss_ParentID = None, iss_DueDate = None, iss_SortOrder = 0,
     iss_StatusID = None, iss_Triaged = False, iss_StartedAt = None, iss_CompletedAt = None, iss_CancelledAt = None,
     iss_TriagedAt = None, iss_CreatedAt = 0, iss_UpdatedAt = 0\<rparr>"

definition deleteIssue :: "uuid \<Rightarrow> uuid \<Rightarrow> string \<Rightarrow> unit tact" where
  "deleteIssue workspaceID actorID identifier =
     bindA (foundT ''issue not found'' (readT (GetByIdentifier workspaceID identifier))) (\<lambda>issue.
     bindA (issueNotificationRecipients issue actorID True) (\<lambda>recipients.
     thenA (writeT (\<lambda>now d. Inr (issue_Delete (ow_ID issue) d)))
     (thenA (case iss_ParentID issue of
         None \<Rightarrow> returnA ()
       | Some p \<Rightarrow> bindA (despite zero_issue (readT (issue_GetByID p))) (\<lambda>r. case r of
           None \<Rightarrow> returnA ()
         | Some parent \<Rightarrow> broadcast (ToWorkspace workspaceID ''issue.updated'' (OfIssue parent))))
     (thenA (broadcast (ToWorkspace workspaceID ''issue.deleted'' (OfIdentifier identifier)))
      (eachA (\<lambda>u. notifyIssue u issue ''issue_deleted''
         (iss_Identifier issue @ '' was deleted: '' @ iss_Title issue) False) recipients)))))"

text \<open>A declined issue is cancelled; an error of the lookup of the status leaves it the zero status.\<close>

definition decline :: "uuid \<Rightarrow> Issue \<Rightarrow> Issue tact" where
  "decline userID issue =
     thenA (recordHistory (ow_ID issue) userID ''status'' (iss_Status issue) ''cancelled'')
     (bindA (despite zero_status (readT (GetByTeamAndSlug (iss_TeamID issue) ''cancelled''))) (\<lambda>r.
       let cancelled = issue\<lparr>iss_Status := ''cancelled''\<rparr> in
       returnA (case r of None \<Rightarrow> cancelled | Some s \<Rightarrow> cancelled\<lparr>iss_StatusID := Some (st_ID s)\<rparr>)))"

definition Triage :: "uuid \<Rightarrow> uuid \<Rightarrow> string \<Rightarrow> bool \<Rightarrow> Issue tact" where
  "Triage workspaceID userID identifier accept =
     bindA (foundT ''issue not found'' (readT (GetByIdentifier workspaceID identifier))) (\<lambda>found.
     if iss_Triaged found then failT ''issue is already triaged'' else
     let triaged = found\<lparr>iss_Triaged := True\<rparr> in
     bindA (if accept then returnA triaged else decline userID triaged) (\<lambda>issue.
     bindA (storeT (\<lambda>now. issue_Update now issue)) (\<lambda>issue.
     thenA (whenA (\<not> accept) (runStatusAutomation workspaceID userID issue))
     (thenA (broadcast (ToWorkspace workspaceID ''issue.triaged'' (OfIssue issue)))
     (bindA (issueNotificationRecipients issue userID True) (\<lambda>recipients.
      thenA (eachA (\<lambda>u. notify u issue ''issue_triaged''
          (iss_Identifier issue @ '' was triaged: '' @ (if accept then ''accepted'' else ''declined''))) recipients)
      (returnA issue)))))))"

definition subscribeIssue :: "uuid \<Rightarrow> uuid \<Rightarrow> string \<Rightarrow> unit tact" where
  "subscribeIssue workspaceID userID identifier =
     bindA (foundT ''issue not found'' (readT (GetByIdentifier workspaceID identifier))) (\<lambda>issue.
       writeT (\<lambda>now. Subscribe (ow_ID issue) userID))"

definition unsubscribeIssue :: "uuid \<Rightarrow> uuid \<Rightarrow> string \<Rightarrow> unit tact" where
  "unsubscribeIssue workspaceID userID identifier =
     bindA (foundT ''issue not found'' (readT (GetByIdentifier workspaceID identifier))) (\<lambda>issue.
       writeT (\<lambda>now d. Inr (Unsubscribe (ow_ID issue) userID d)))"

section \<open>Bulk operations\<close>

definition parse_or_fail :: "IssueService \<Rightarrow> string \<Rightarrow> string \<Rightarrow> uuid tact" where
  "parse_or_fail S message s = (case is_uuid_Parse S s of (i, ok) \<Rightarrow> if ok then returnA i else failT message)"

definition parse_issue_ids :: "IssueService \<Rightarrow> string list \<Rightarrow> uuid list tact" where
  "parse_issue_ids S ids = mapT (\<lambda>s. parse_or_fail S (''invalid issue_id: '' @ s) s) ids"

definition parse_optional :: "IssueService \<Rightarrow> string \<Rightarrow> string option \<Rightarrow> uuid option tact" where
  "parse_optional S message raw = (case raw of
     None \<Rightarrow> returnA None | Some s \<Rightarrow> bindA (parse_or_fail S message s) (\<lambda>i. returnA (Some i)))"

text \<open>The checks of \<open>bulkUpdateParent\<close> for one issue, and its update.\<close>

definition reparentable :: "uuid \<Rightarrow> uuid option \<Rightarrow> uuid \<Rightarrow> Issue tact" where
  "reparentable workspaceID parentID i =
     bindA (foundT ''issue not found'' (readT (issue_GetByID i))) (\<lambda>issue.
     if ow_WorkspaceID issue \<noteq> workspaceID then failT ''issue not found''
     else (case parentID of
       None \<Rightarrow> returnA issue
     | Some p \<Rightarrow> if p = ow_ID issue then failT ''issue cannot be its own parent''
         else bindA (queryT (WouldCreateCycle (ow_ID issue) p)) (\<lambda>closes.
           if closes then failT ''parent would create a sub-issue cycle'' else returnA issue)))"

definition reparent :: "uuid \<Rightarrow> uuid \<Rightarrow> uuid option \<Rightarrow> Issue \<Rightarrow> unit tact" where
  "reparent workspaceID userID parentID issue =
     bindA (storeT (\<lambda>now. issue_Update now (issue\<lparr>iss_ParentID := parentID\<rparr>))) (\<lambda>moved.
     thenA (recordHistory (ow_ID issue) userID ''parent'' (optional_text (iss_ParentID issue)) (optional_text parentID))
       (broadcast (ToWorkspace workspaceID ''issue.updated'' (OfIssue moved))))"

definition bulkUpdateParent :: "IssueService \<Rightarrow> uuid \<Rightarrow> uuid \<Rightarrow> uuid list \<Rightarrow> string \<Rightarrow> nat tact" where
  "bulkUpdateParent S workspaceID userID issueIDs rawParentID =
     bindA (validateParentID S workspaceID uuid_Nil rawParentID) (\<lambda>parentID.
     bindA (mapT (reparentable workspaceID parentID) issueIDs) (\<lambda>issues.
     let moving = filter (\<lambda>i. optional_text (iss_ParentID i) \<noteq> optional_text parentID) issues in
     thenA (eachA (reparent workspaceID userID parentID) moving) (returnA (length moving))))"

definition bulkUpdateFields :: "BulkUpdateIssueRequest \<Rightarrow> string list" where
  "bulkUpdateFields req = (if br_Status req \<noteq> None \<or> br_StatusID req \<noteq> None then [''status''] else [])
     @ (if br_Priority req \<noteq> None then [''priority''] else [])
     @ (if br_AssigneeID req \<noteq> None then [''assignee''] else [])
     @ (if br_CycleID req \<noteq> None then [''cycle''] else [])
     @ (if br_LabelIDs req \<noteq> None then [''labels''] else [])"

text \<open>An issue after a bulk update: its automation, and whom to tell.\<close>

definition follow_up :: "uuid \<Rightarrow> uuid \<Rightarrow> bool \<Rightarrow> uuid \<Rightarrow> uuid list tact" where
  "follow_up workspaceID userID automate i =
     bindA (at_best None (readT (issue_GetByID i))) (\<lambda>r. case r of
       None \<Rightarrow> returnA []
     | Some issue \<Rightarrow> if ow_WorkspaceID issue \<noteq> workspaceID then returnA []
         else thenA (whenA automate (runStatusAutomation workspaceID userID issue))
           (issueNotificationRecipients issue userID True))"

definition times :: "uuid list \<Rightarrow> uuid \<Rightarrow> nat" where
  "times us u = length (filter ((=) u) us)"

definition bulkUpdate :: "IssueService \<Rightarrow> uuid \<Rightarrow> uuid \<Rightarrow> BulkUpdateIssueRequest \<Rightarrow> nat tact" where
  "bulkUpdate S workspaceID userID req =
     bindA (parse_issue_ids S (br_IssueIDs req)) (\<lambda>issueIDs.
     bindA (parse_optional S ''invalid assignee_id'' (br_AssigneeID req)) (\<lambda>assigneeID.
     bindA (parse_optional S ''invalid status_id'' (br_StatusID req)) (\<lambda>statusID.
     bindA (case br_CycleID req of
         None \<Rightarrow> returnA None
       | Some s \<Rightarrow> if s = [] then returnA (Some None)
           else bindA (parse_or_fail S ''invalid cycle_id'' s) (\<lambda>c. returnA (Some (Some c)))) (\<lambda>cycle.
     case br_ParentID req of
       Some raw \<Rightarrow> bulkUpdateParent S workspaceID userID issueIDs raw
     | None \<Rightarrow>
       bindA (storeT (\<lambda>now. issue_BulkUpdate now workspaceID issueIDs \<lparr>bu_Status = br_Status req,
         bu_Priority = br_Priority req, bu_AssigneeID = assigneeID, bu_StatusID = statusID, bu_Cycle = cycle\<rparr>)) (\<lambda>n.
       bindA (mapT (follow_up workspaceID userID (br_Status req \<noteq> None \<or> br_StatusID req \<noteq> None)) issueIDs) (\<lambda>told.
       thenA (broadcast (ToWorkspace workspaceID ''issues.bulk_updated'' (OfCount n)))
       (thenA (whenA (n > 0 \<and> bulkUpdateFields req \<noteq> [])
         (eachA (\<lambda>u. notifyWorkspace workspaceID u ''issues_updated'' (nat_decimal (times (concat told) u)
             @ '' issues updated: '' @ join_with '', '' (bulkUpdateFields req)) True) (is_range S (remdups (concat told)))))
        (returnA n))))))))"

definition deletable :: "uuid \<Rightarrow> uuid \<Rightarrow> bool \<Rightarrow> uuid \<Rightarrow> uuid list tact" where
  "deletable workspaceID userID canDeleteAny i =
     bindA (foundT ''issue not found'' (readT (issue_GetByID i))) (\<lambda>issue.
     if ow_WorkspaceID issue \<noteq> workspaceID then failT ''issue not found''
     else if \<not> canDeleteAny \<and> iss_CreatorID issue \<noteq> userID then failT ''forbidden''
     else issueNotificationRecipients issue userID True)"

definition bulkDelete :: "IssueService \<Rightarrow> uuid \<Rightarrow> uuid \<Rightarrow> bool \<Rightarrow> string list \<Rightarrow> nat tact" where
  "bulkDelete S workspaceID userID canDeleteAny ids =
     bindA (parse_issue_ids S ids) (\<lambda>issueIDs.
     bindA (mapT (deletable workspaceID userID canDeleteAny) issueIDs) (\<lambda>told.
     bindA (storeT (\<lambda>now d. Inr (issue_BulkDelete workspaceID issueIDs d))) (\<lambda>n.
     thenA (broadcast (ToWorkspace workspaceID ''issues.bulk_deleted'' (OfCount n)))
     (thenA (whenA (n > 0) (eachA (\<lambda>u. notifyWorkspace workspaceID u ''issues_deleted''
         (nat_decimal (times (concat told) u) @ '' issues deleted'') False) (is_range S (remdups (concat told)))))
      (returnA n)))))"

end
