(* ===== verification/Issue_Relations.thy ===== *)
theory Issue_Relations
  imports Tracker_World
begin

text \<open>
  \<open>BE/internal/service/issue_relation.go\<close> with the types of \<open>BE/internal/domain/issue_relation.go\<close>: relations
  between issues. A relation is stored once for each direction where the direction matters, and lists
  turn every row so that it starts at the issue asked for.
\<close>

section \<open>Types\<close>

text \<open>The type of a request is a string; any other string fails the check of the table.\<close>

definition relation_type :: "string \<Rightarrow> IssueRelationType option" where
  "relation_type s = (if s = ''related'' then Some RelationRelated else if s = ''blocked_by'' then Some RelationBlockedBy
     else if s = ''blocking'' then Some RelationBlocking else if s = ''duplicate'' then Some RelationDuplicate else None)"

fun Inverse :: "IssueRelationType \<Rightarrow> IssueRelationType" where
  "Inverse RelationBlocking = RelationBlockedBy"
| "Inverse RelationBlockedBy = RelationBlocking"
| "Inverse RelationRelated = RelationRelated"
| "Inverse RelationDuplicate = RelationDuplicate"

lemma Inverse_Inverse [simp]: "Inverse (Inverse t) = t"
  by (cases t) simp_all

section \<open>Creating and deleting\<close>

definition new_relation :: "uuid \<Rightarrow> uuid \<Rightarrow> uuid \<Rightarrow> IssueRelationType \<Rightarrow> IssueRelation" where
  "new_relation i issueID relatedIssueID relType = \<lparr>rel_ID = i, rel_IssueID = issueID, rel_RelatedIssueID = relatedIssueID,
     rel_Type = relType, rel_RelatedIssue = None, rel_CreatedAt = 0\<rparr>"

definition createRelation :: "uuid \<Rightarrow> string \<Rightarrow> string \<Rightarrow> string \<Rightarrow> IssueRelation tact" where
  "createRelation workspaceID issueIdentifier relatedIdentifier rawType =
     bindA (foundT ''issue not found'' (readT (GetByIdentifier workspaceID issueIdentifier))) (\<lambda>issue.
     bindA (foundT ''related issue not found'' (readT (GetByIdentifier workspaceID relatedIdentifier))) (\<lambda>related.
     if ow_ID issue = ow_ID related then failT ''cannot relate an issue to itself'' else
     bindA freshT (\<lambda>i. case relation_type rawType of
       None \<Rightarrow> queryT (\<lambda>d. Inl ErrCheckViolation)
     | Some t \<Rightarrow>
       bindA (storeT (\<lambda>now. relation_Create now (new_relation i (ow_ID issue) (ow_ID related) t))) (\<lambda>rel.
       thenA (if Inverse t = t then returnA ()
         else ignore (bindA freshT (\<lambda>j.
           storeT (\<lambda>now. relation_Create now (new_relation j (ow_ID related) (ow_ID issue) (Inverse t))))))
        (returnA rel)))))"

definition deleteRelation :: "uuid \<Rightarrow> unit tact" where
  "deleteRelation i =
     bindA (attempt (queryT (relation_GetByID i))) (\<lambda>r. case r of
       Inl e \<Rightarrow> failT ''relation not found''
     | Inr rel \<Rightarrow>
       thenA (if Inverse (rel_Type rel) = rel_Type rel then returnA ()
         else ignore (writeT (\<lambda>now d.
           Inr (DeleteByIssues (rel_RelatedIssueID rel) (rel_IssueID rel) (Inverse (rel_Type rel)) d))))
       (writeT (\<lambda>now d. Inr (relation_Delete i d))))"

section \<open>Lists\<close>

definition normalizeRelationForIssue :: "IssueRelation \<Rightarrow> uuid \<Rightarrow> IssueRelation option" where
  "normalizeRelationForIssue rel issueID =
     (if rel_IssueID rel = issueID then Some rel
      else if rel_RelatedIssueID rel \<noteq> issueID then None
      else Some (rel\<lparr>rel_IssueID := issueID, rel_RelatedIssueID := rel_IssueID rel, rel_Type := Inverse (rel_Type rel)\<rparr>))"

text \<open>The rows from the issue's point of view, the first of each related issue and type.\<close>

fun normalized :: "uuid \<Rightarrow> (uuid \<times> IssueRelationType) list \<Rightarrow> IssueRelation list \<Rightarrow> IssueRelation list" where
  "normalized issueID seen [] = []"
| "normalized issueID seen (rel # rels) = (case normalizeRelationForIssue rel issueID of
     None \<Rightarrow> normalized issueID seen rels
   | Some r \<Rightarrow> let key = (rel_RelatedIssueID r, rel_Type r) in
     if key \<in> set seen then normalized issueID seen rels else r # normalized issueID (key # seen) rels)"

definition with_related :: "uuid \<Rightarrow> IssueRelation \<Rightarrow> IssueRelation tact" where
  "with_related workspaceID r = bindA (at_best None (readT (issue_GetByID (rel_RelatedIssueID r)))) (\<lambda>found.
     returnA (case found of
       None \<Rightarrow> r
     | Some issue \<Rightarrow> if ow_WorkspaceID issue = workspaceID then r\<lparr>rel_RelatedIssue := Some issue\<rparr> else r))"

definition listRelations :: "uuid \<Rightarrow> string \<Rightarrow> IssueRelation list tact" where
  "listRelations workspaceID identifier =
     bindA (foundT ''issue not found'' (readT (GetByIdentifier workspaceID identifier))) (\<lambda>issue.
     bindA (readT (relation_ListByIssues [ow_ID issue])) (\<lambda>raw.
       mapT (with_related workspaceID) (normalized (ow_ID issue) [] raw)))"

section \<open>Summaries\<close>

text \<open>
  \<open>IssueRelationSummary\<close> of an issue: for each type how many relations there are and the related issues
  that were found. The map from issues to summaries is a function; issues are looked up once.
\<close>

record relation_summary =
  rs_Count :: "IssueRelationType \<Rightarrow> nat"
  rs_Issues :: "IssueRelationType \<Rightarrow> Issue list"

definition empty_summary :: relation_summary where
  "empty_summary = \<lparr>rs_Count = (\<lambda>t. 0), rs_Issues = (\<lambda>t. [])\<rparr>"

record summary_state =
  ss_summaries :: "uuid \<Rightarrow> relation_summary"
  ss_seen :: "(uuid \<times> uuid \<times> IssueRelationType) list"
  ss_cache :: "(uuid \<times> Issue option) list"

definition relationIssue :: "uuid \<Rightarrow> summary_state \<Rightarrow> (Issue option \<times> summary_state) tact" where
  "relationIssue issueID s = (case map_of (ss_cache s) issueID of
     Some found \<Rightarrow> returnA (found, s)
   | None \<Rightarrow> bindA (at_best None (readT (issue_GetByID issueID))) (\<lambda>found.
       returnA (found, s\<lparr>ss_cache := (issueID, found) # ss_cache s\<rparr>)))"

definition add_relation :: "IssueRelationType \<Rightarrow> Issue option \<Rightarrow> relation_summary \<Rightarrow> relation_summary" where
  "add_relation t found m = \<lparr>rs_Count = (rs_Count m)(t := rs_Count m t + 1),
     rs_Issues = (rs_Issues m)(t := rs_Issues m t @ (case found of None \<Rightarrow> [] | Some i \<Rightarrow> [i]))\<rparr>"

definition addRelationSummary :: "uuid \<Rightarrow> IssueRelation \<Rightarrow> summary_state \<Rightarrow> summary_state tact" where
  "addRelationSummary issueID rel s = (case normalizeRelationForIssue rel issueID of
     None \<Rightarrow> returnA s
   | Some r \<Rightarrow> let key = (issueID, rel_RelatedIssueID r, rel_Type r) in
     if key \<in> set (ss_seen s) then returnA s
     else bindA (relationIssue (rel_RelatedIssueID r) (s\<lparr>ss_seen := key # ss_seen s\<rparr>)) (\<lambda>(found, s).
       returnA (s\<lparr>ss_summaries := (ss_summaries s)(issueID :=
         add_relation (rel_Type r) found (ss_summaries s issueID))\<rparr>)))"

fun summarize :: "uuid list \<Rightarrow> IssueRelation list \<Rightarrow> summary_state \<Rightarrow> summary_state tact" where
  "summarize targets [] s = returnA s"
| "summarize targets (rel # rels) s =
     bindA (if rel_IssueID rel \<in> set targets then addRelationSummary (rel_IssueID rel) rel s else returnA s) (\<lambda>s.
     bindA (if rel_RelatedIssueID rel \<in> set targets then addRelationSummary (rel_RelatedIssueID rel) rel s else returnA s)
       (summarize targets rels))"

definition SummariesByIssues :: "uuid list \<Rightarrow> (uuid \<Rightarrow> relation_summary) tact" where
  "SummariesByIssues issueIDs = (if issueIDs = [] then returnA (\<lambda>i. empty_summary)
     else bindA (readT (relation_ListByIssues issueIDs)) (\<lambda>rels.
       bindA (summarize issueIDs rels \<lparr>ss_summaries = (\<lambda>i. empty_summary), ss_seen = [], ss_cache = []\<rparr>) (\<lambda>s.
         returnA (ss_summaries s))))"

definition CountByIssues :: "uuid list \<Rightarrow> (uuid \<Rightarrow> IssueRelationType \<Rightarrow> nat) tact" where
  "CountByIssues issueIDs = bindA (SummariesByIssues issueIDs) (\<lambda>m. returnA (\<lambda>i. rs_Count (m i)))"

end
