(* ===== verification/Tracker_Invariants.thy ===== *)
theory Tracker_Invariants
  imports Issue_Changes Issue_Relations
begin

text \<open>
  Invariants of the tables of the tracker. The locale states what an invariant of \<open>issues\<close> has to stand:
  the creation, the update and the deletion of issues, updates of other columns, and changes of other
  tables. Then every operation of the services keeps it, whatever keeps it runs between its calls of the store.
\<close>

section \<open>Actions that keep an invariant\<close>

text \<open>Other requests keep the invariant.\<close>

definition rely :: "(tracker \<Rightarrow> bool) \<Rightarrow> desk \<Rightarrow> bool" where
  "rely I k \<longleftrightarrow> (\<forall>(dt, g, fault) \<in> set (dk_script k). \<forall>d. I d \<longrightarrow> I (g d))"

definition kept :: "(tracker \<Rightarrow> bool) \<Rightarrow> 'a tact \<Rightarrow> bool" where
  "kept I a \<longleftrightarrow> (\<forall>k. rely I k \<longrightarrow> I (dk_db k) \<longrightarrow> rely I (snd (a k)) \<and> I (dk_db (snd (a k))))"

named_theorems keeping \<open>actions that keep an invariant\<close>

lemma kept_return [keeping]: "kept I (returnA x)"
  by (simp add: kept_def returnA_def)

lemma kept_fail [keeping]: "kept I (failA e)" "kept I (failT s)"
  by (simp_all add: kept_def failT_def failA_def)

lemma kept_bind [keeping]: "kept I a \<Longrightarrow> (\<And>x. kept I (f x)) \<Longrightarrow> kept I (bindA a f)"
  by (auto simp: kept_def bindA_def split: prod.split sum.split)

lemma kept_then [keeping]: "kept I a \<Longrightarrow> kept I b \<Longrightarrow> kept I (thenA a b)"
  by (simp add: thenA_def kept_bind)

lemma kept_attempt [keeping]: "kept I a \<Longrightarrow> kept I (attempt a)" "kept I a \<Longrightarrow> kept I (ignore a)"
  by (auto simp: kept_def attempt_def ignore_def split: prod.split)

lemma kept_state [keeping]: "kept I freshT" "kept I (broadcast e)" "kept I (getA f)"
  by (simp_all add: kept_def rely_def freshT_def broadcast_def getA_def)

lemma kept_when [keeping]: "kept I a \<Longrightarrow> kept I (whenA b a)"
  by (simp add: whenA_def kept_return)

lemma kept_each [keeping]: "(\<And>x. kept I (f x)) \<Longrightarrow> kept I (eachA f xs)"
  by (induction xs) (simp_all add: kept_return kept_then)

lemma kept_map [keeping]: "(\<And>x. kept I (f x)) \<Longrightarrow> kept I (mapT f xs)"
  by (induction xs) (simp_all add: kept_return kept_bind)

lemma kept_store:
  assumes "\<And>now d x d'. I d \<Longrightarrow> f now d = Inr (x, d') \<Longrightarrow> I d'"
  shows "kept I (storeT f)"
  using assms by (auto simp: kept_def storeT_def rely_def Let_def split: list.split prod.split option.split sum.split)

lemma kept_read [keeping]: "kept I (readT f)" "kept I (queryT g)"
  by (auto simp: readT_def queryT_def intro!: kept_store split: sum.splits)

lemma kept_write: "(\<And>now d d'. I d \<Longrightarrow> f now d = Inr d' \<Longrightarrow> I d') \<Longrightarrow> kept I (writeT f)"
  unfolding writeT_def by (rule kept_store) (auto split: sum.splits)

lemma kept_found [keeping]:
  "kept I a \<Longrightarrow> kept I (foundT s a)" "kept I a \<Longrightarrow> kept I (despite z a)" "kept I b \<Longrightarrow> kept I (at_best y b)"
  by (auto simp: foundT_def despite_def at_best_def intro!: keeping split: sum.split option.split)

section \<open>Invariants of issues\<close>

text \<open>Nothing changes but rows that no invariant of issues looks at.\<close>

definition same_issues :: "tracker \<Rightarrow> tracker \<Rightarrow> bool" where
  "same_issues d d' \<longleftrightarrow> tr_issues d' = tr_issues d \<and> tr_statuses d' = tr_statuses d"

text \<open>The columns that name an issue and place it in the hierarchy.\<close>

definition same_place :: "Issue \<Rightarrow> Issue \<Rightarrow> bool" where
  "same_place i j \<longleftrightarrow> ow_ID j = ow_ID i \<and> ow_WorkspaceID j = ow_WorkspaceID i \<and> iss_TeamID j = iss_TeamID i
     \<and> iss_Number j = iss_Number i \<and> iss_Identifier j = iss_Identifier i \<and> iss_ParentID j = iss_ParentID i"

definition untouched_stamps :: "Issue \<Rightarrow> Issue \<Rightarrow> bool" where
  "untouched_stamps i j \<longleftrightarrow> iss_StartedAt j = iss_StartedAt i \<and> iss_CompletedAt j = iss_CompletedAt i
     \<and> iss_CancelledAt j = iss_CancelledAt i \<and> iss_TriagedAt j = iss_TriagedAt i"

locale issue_frame =
  fixes I :: "tracker \<Rightarrow> bool"
  assumes touch: "I d \<Longrightarrow> (\<And>i. same_place i (f i) \<and> untouched_stamps i (f i)) \<Longrightarrow> update_issues now P f d = Inr d' \<Longrightarrow> I d'"
    and frame: "I d \<Longrightarrow> same_issues d d' \<Longrightarrow> I d'"
begin

lemma kept_frame_write:
  assumes "\<And>now d d'. f now d = Inr d' \<Longrightarrow> same_issues d d'"
  shows "kept I (writeT f)"
  by (rule kept_write) (use assms frame in blast)

lemma kept_frame_store:
  assumes "\<And>now d x d'. f now d = Inr (x, d') \<Longrightarrow> same_issues d d'"
  shows "kept I (storeT f)"
  by (rule kept_store) (use assms frame in blast)

lemma kept_history [keeping]: "kept I (recordHistory i u field old new)"
  unfolding recordHistory_def
  by (intro keeping kept_frame_write) (auto simp: history_Create_def same_issues_def split: if_splits)

lemma kept_notification [keeping]:
  "kept I (createNotification u w i t s)" "kept I (createOrRefresh u w i t s window)"
  unfolding createNotification_def createOrRefresh_def Let_def
  by (auto intro!: keeping kept_frame_write split: sum.split if_split
      simp: notification_Create_def refresh_notification_def same_issues_def split: if_splits list.splits)

lemma kept_announce [keeping]: "kept I a \<Longrightarrow> kept I (announce w u t a)"
  unfolding announce_def by (auto intro!: keeping split: sum.split)

lemma kept_notify [keeping]:
  "kept I (notifyIssue u i t s link)" "kept I (notify u i t s)" "kept I (notifyWorkspace w u t s dedupe)"
  by (auto simp: notifyIssue_def notify_def notifyWorkspace_def Let_def intro!: keeping split: if_split)

lemma kept_recipients [keeping]: "kept I (issueNotificationRecipients i u c)" "kept I (notifyAssignees i u)"
  by (auto simp: issueNotificationRecipients_def notifyAssignees_def Let_def intro!: keeping)

lemma kept_pairs [keeping]:
  "kept I (writeT (\<lambda>now. SetLabels i ls))" "kept I (writeT (\<lambda>now. Subscribe i u))"
  "kept I (writeT (\<lambda>now d. Inr (Unsubscribe i u d)))"
  by (rule kept_frame_write;
      auto simp: SetLabels_def Subscribe_def Unsubscribe_def same_issues_def split: if_splits)+

lemma kept_assignees [keeping]: "kept I (writeT (\<lambda>now. SetAssignees now i us))"
proof (rule kept_write)
  fix now d d'
  assume d: "I d" and set: "SetAssignees now i us d = Inr d'"
  let ?d = "d\<lparr>tr_assignees := delete_where (\<lambda>a. ia_IssueID a = i) (tr_assignees d)
    @ map (\<lambda>u. \<lparr>ia_IssueID = i, ia_UserID = u, ia_CreatedAt = now\<rparr>) us\<rparr>"
  have I: "I ?d" using d by (rule frame) (simp add: same_issues_def)
  have upd: "update_issues now (\<lambda>r. ow_ID r = i)
      (\<lambda>r. r\<lparr>iss_AssigneeID := (case us of [] \<Rightarrow> None | u # us \<Rightarrow> Some u), iss_UpdatedAt := now\<rparr>) ?d = Inr d'"
    using set by (simp add: SetAssignees_def split: if_splits)
  show "I d'" by (rule touch [OF I _ upd]) (simp_all add: same_place_def untouched_stamps_def)
qed

lemma kept_bulk [keeping]: "kept I (storeT (\<lambda>now. issue_BulkUpdate now w is b))"
proof (rule kept_store)
  fix now d n d'
  assume d: "I d" and bulk: "issue_BulkUpdate now w is b d = Inr (n, d')"
  show "I d'"
  proof (cases "d' = d")
    case False
    with bulk have upd: "update_issues now (listed w is) (bulk_row now b) d = Inr d'"
      by (auto simp: issue_BulkUpdate_def split: if_splits sum.splits)
    show ?thesis by (rule touch [OF d _ upd]) (simp_all add: same_place_def untouched_stamps_def bulk_row_def)
  qed (use d in simp)
qed

lemma kept_tables [keeping]:
  "kept I (storeT (\<lambda>now. project_Create now p))" "kept I (storeT (\<lambda>now. relation_Create now r))"
  "kept I (writeT (\<lambda>now d. Inr (DeleteByIssues i j t d)))" "kept I (writeT (\<lambda>now d. Inr (relation_Delete i d)))"
  by (auto simp: project_Create_def relation_Create_def DeleteByIssues_def relation_Delete_def same_issues_def Let_def
      intro!: kept_frame_write kept_frame_store split: if_splits)

end

locale issue_invariant = issue_frame +
  assumes create: "I d \<Longrightarrow> issue_Create now i d = Inr (x, d') \<Longrightarrow> I d'"
    and update: "I d \<Longrightarrow> issue_Update now i d = Inr (x, d') \<Longrightarrow> I d'"
    and delete: "I d \<Longrightarrow> I (delete_issues P d)"

section \<open>The operations of the services\<close>

text \<open>A request to the tracker, with the workspace and the user it comes from, and its handling without the result.\<close>

datatype tracker_request =
    CreateIssue uuid uuid CreateIssueRequest
  | CreateSubIssues uuid uuid string "CreateSubIssueRequest list"
  | DuplicateIssue uuid uuid string bool
  | ConvertIssue uuid uuid string
  | UpdateIssue uuid uuid string UpdateIssueRequest
  | DeleteIssue uuid uuid string
  | TriageIssue uuid uuid string bool
  | SubscribeTo uuid uuid string bool
  | UpdateIssues uuid uuid BulkUpdateIssueRequest
  | DeleteIssues uuid uuid bool "string list"
  | Relate uuid string string string
  | Unrelate uuid

definition forget :: "'a tact \<Rightarrow> unit tact" where
  "forget a = bindA a (\<lambda>_. returnA ())"

fun serve :: "IssueService \<Rightarrow> tracker_request \<Rightarrow> unit tact" where
  "serve S (CreateIssue w u req) = forget (createIssue S w u req)"
| "serve S (CreateSubIssues w u parent reqs) = forget (bulkCreateSubIssues S w u parent reqs)"
| "serve S (DuplicateIssue w u identifier subs) = forget (Duplicate S w u identifier subs)"
| "serve S (ConvertIssue w u identifier) = forget (ConvertToProject S w u identifier)"
| "serve S (UpdateIssue w u identifier req) = forget (updateIssue S w u identifier req)"
| "serve S (DeleteIssue w u identifier) = deleteIssue w u identifier"
| "serve S (TriageIssue w u identifier accept) = forget (Triage w u identifier accept)"
| "serve S (SubscribeTo w u identifier b) = (if b then subscribeIssue w u identifier else unsubscribeIssue w u identifier)"
| "serve S (UpdateIssues w u req) = forget (bulkUpdate S w u req)"
| "serve S (DeleteIssues w u b ids) = forget (bulkDelete S w u b ids)"
| "serve S (Relate w i j t) = forget (createRelation w i j t)"
| "serve S (Unrelate r) = deleteRelation r"

lemma kept_forget [keeping]: "kept I a \<Longrightarrow> kept I (forget a)"
  unfolding forget_def by (intro keeping)

text \<open>Requests one after the other, with what others do between their calls; each goes on after the errors of the last.\<close>

definition serve_all :: "IssueService \<Rightarrow> tracker_request list \<Rightarrow> unit tact" where
  "serve_all S reqs = eachA (\<lambda>r. ignore (serve S r)) reqs"

context issue_invariant
begin

lemma kept_update [keeping]: "kept I (storeT (\<lambda>now. issue_Update now i))"
  by (rule kept_store) (rule update)

lemma kept_create [keeping]: "kept I (storeT (\<lambda>now. issue_Create now i))"
  by (rule kept_store) (rule create)

lemma kept_deletes [keeping]:
  "kept I (writeT (\<lambda>now d. Inr (issue_Delete i d)))" "kept I (storeT (\<lambda>now d. Inr (issue_BulkDelete w is d)))"
  by (auto simp: issue_Delete_def issue_BulkDelete_def intro!: kept_write kept_store delete split: if_splits)

lemma kept_status [keeping]: "kept I (issueStatusCategory i)" "kept I (isTerminalStatus i)" "kept I (completedStatusForTeam t)"
  by (auto simp: issueStatusCategory_def isTerminalStatus_def completedStatusForTeam_def intro!: keeping split: option.split)

lemma kept_move [keeping]:
  assumes "\<And>i v. kept I (again i v)"
  shows "kept I (moveIssueToCompleted again w u issue v)"
  using assms unfolding moveIssueToCompleted_def by (auto intro!: keeping split: if_split option.split sum.split)

lemma kept_close [keeping]:
  assumes "\<And>i v. kept I (close i v)"
  shows "kept I (autoCloseEach close subs v)"
  using assms by (induction subs arbitrary: v) (auto intro!: keeping)

lemma kept_automation [keeping]: "kept I (applyStatusAutomation n w u issue v)"
proof (induction n arbitrary: issue v)
  case 0
  then show ?case by (simp add: keeping)
next
  case (Suc n)
  then show ?case
    by (auto simp: Let_def autoCloseSubIssues_def autoCloseSubIssue_def maybeAutoCloseParent_def intro!: keeping
        split: if_split option.split)
qed

lemma kept_run [keeping]: "kept I (runStatusAutomation w u issue)"
  unfolding runStatusAutomation_def by (intro keeping)

lemma kept_validate [keeping]: "kept I (validateParentID S w i raw)"
  by (auto simp: validateParentID_def intro!: keeping split: if_split prod.split)

lemma kept_createIssue [keeping]: "kept I (createIssue S w c req)"
  by (auto simp: createIssue_def new_parent_def requested_status_def default_status_def set_new_pairs_def Let_def
      intro!: keeping split: if_split prod.split option.split)

lemma kept_createSubIssue [keeping]: "kept I (createSubIssue S w c parent req)"
  by (auto simp: createSubIssue_def inherited_cycle_def inheritSubIssueAssignees_def Let_def
      intro!: keeping split: if_split option.split sum.split)

lemma kept_duplicate [keeping]: "kept I (duplicateIssue S w c original p b)" "kept I (Duplicate S w c identifier subs)"
  by (auto simp: duplicateIssue_def Duplicate_def intro!: keeping split: if_split)

lemma kept_convert [keeping]: "kept I (ConvertToProject S w u identifier)"
  by (auto simp: ConvertToProject_def moveToProject_def intro!: keeping split: if_split)

lemma kept_changed [keeping]:
  "kept I (changed u field name old new s)" "kept I (changed_reference u name f issue s)" "kept I (loadOldAssigneeSet a s)"
  by (auto simp: changed_def changed_reference_def loadOldAssigneeSet_def Let_def intro!: keeping split: if_split option.split)

lemma kept_fields [keeping]:
  "kept I (updateTitle u t s)" "kept I (updateDescription S u t s)" "kept I (updateStatus S u req s)"
  "kept I (updatePriority u p s)" "kept I (updateAssignee S u t s)" "kept I (updateProject S u t s)"
  "kept I (updateCycle S u t s)" "kept I (updateParent S w u t s)" "kept I (updateDueDate S u t s)" "kept I (updateSortOrder x s)"
  by (auto simp: updateTitle_def updateDescription_def updateStatus_def updateStatusID_def updateLegacyStatus_def
      updatePriority_def updateAssignee_def updateProject_def updateCycle_def updateParent_def updateDueDate_def
      updateSortOrder_def Let_def intro!: keeping split: if_split option.split prod.split)

lemma kept_updated_fields [keeping]: "kept I (updated_fields S w u req s)"
  unfolding updated_fields_def by (intro keeping)

lemma kept_lists [keeping]: "kept I (updateLabels S u ls s)" "kept I (updateAssignees S u a us s)"
  by (auto simp: updateLabels_def updateAssignees_def Let_def intro!: keeping split: if_split option.split prod.split)

lemma kept_sent [keeping]: "kept I (sendUpdateNotifications issue u c)"
  by (auto simp: sendUpdateNotifications_def notify_each_def intro!: keeping)

lemma kept_updateIssue [keeping]: "kept I (updateIssue S w u identifier req)"
  unfolding updateIssue_def by (intro keeping)

lemma kept_deleteIssue [keeping]: "kept I (deleteIssue w u identifier)"
  by (auto simp: deleteIssue_def intro!: keeping split: option.split)

lemma kept_triage [keeping]: "kept I (Triage w u identifier accept)"
  by (auto simp: Triage_def decline_def Let_def intro!: keeping split: if_split)

lemma kept_subscriptions [keeping]: "kept I (subscribeIssue w u identifier)" "kept I (unsubscribeIssue w u identifier)"
  unfolding subscribeIssue_def unsubscribeIssue_def by (intro keeping)+

lemma kept_parse [keeping]: "kept I (parse_or_fail S s t)" "kept I (parse_issue_ids S ids)" "kept I (parse_optional S s t')"
  by (auto simp: parse_or_fail_def parse_issue_ids_def parse_optional_def intro!: keeping split: if_split prod.split option.split)

lemma kept_bulkUpdate [keeping]: "kept I (bulkUpdate S w u req)"
  by (auto simp: bulkUpdate_def bulkUpdateParent_def reparentable_def reparent_def follow_up_def Let_def
      intro!: keeping split: if_split option.split)

lemma kept_bulkDelete [keeping]: "kept I (bulkDelete S w u b ids)"
  by (auto simp: bulkDelete_def deletable_def intro!: keeping split: if_split)

lemma kept_relations [keeping]: "kept I (createRelation w i j t)" "kept I (deleteRelation r)"
  by (auto simp: createRelation_def deleteRelation_def intro!: keeping split: if_split option.split sum.split)

lemma kept_serve [keeping]: "kept I (serve S r)"
  by (cases r) (auto simp: bulkCreateSubIssues_def intro!: keeping)

lemma kept_serve_all: "kept I (serve_all S reqs)"
  unfolding serve_all_def by (intro keeping)

end

end
