(* ===== verification/Issue_Properties.thy ===== *)
theory Issue_Properties
  imports Tracker_Invariants
begin

text \<open>
  What the tracker keeps true of its issues: the hierarchy is a forest within each workspace, numbers and
  identifiers are unique, and the timestamps follow the category of the status.
\<close>

section \<open>The hierarchy\<close>

definition parent_of :: "Issue list \<Rightarrow> (uuid \<times> uuid) set" where
  "parent_of rows = {(ow_ID i, p) |i p. i \<in> set rows \<and> iss_ParentID i = Some p}"

definition forest :: "tracker \<Rightarrow> bool" where
  "forest d \<longleftrightarrow> distinct (map ow_ID (tr_issues d)) \<and> acyclic (parent_of (tr_issues d))
     \<and> (\<forall>i \<in> set (tr_issues d). \<forall>p. iss_ParentID i = Some p \<longrightarrow>
         (\<exists>j \<in> set (tr_issues d). ow_ID j = p \<and> ow_WorkspaceID j = ow_WorkspaceID i))"

text \<open>The recursive query of the trigger finds every ancestor.\<close>

lemma ancestors_complete:
  assumes "distinct (map ow_ID rows)" and "(p, q) \<in> (parent_of rows)\<^sup>*" and "q \<in> ow_ID ` set rows"
    and "ancestors n rows (Some p) = Some us"
  shows "q \<in> set us"
  using assms(2,4)
proof (induction arbitrary: n us rule: converse_rtrancl_induct)
  case base
  from assms(3) obtain i where "find (\<lambda>i. ow_ID i = q) rows = Some i" by (fastforce simp: find_None_iff)
  with base show ?case by (cases n) auto
next
  case (step y z)
  from step.hyps(1) obtain i where i: "i \<in> set rows" "ow_ID i = y" "iss_ParentID i = Some z"
    by (auto simp: parent_of_def)
  then have "find (\<lambda>i. ow_ID i = y) rows = Some i" using find_Some_iff_distinct [OF assms(1)] by blast
  with step.prems i(3) obtain m vs where "n = Suc m" "ancestors m rows (Some z) = Some vs" "us = y # vs"
    by (cases n) auto
  then show ?case using step.IH by auto
qed

lemma prevented:
  assumes "prevent_issue_parent_cycle d i = None" and "distinct (map ow_ID (tr_issues d))" and "iss_ParentID i = Some p"
    and "ow_ID i \<in> ow_ID ` set (tr_issues d)"
  shows "(p, ow_ID i) \<notin> (parent_of (tr_issues d))\<^sup>*"
proof
  assume reach: "(p, ow_ID i) \<in> (parent_of (tr_issues d))\<^sup>*"
  from assms(1,3) obtain us where us: "ancestors (Suc (length (tr_issues d))) (tr_issues d) (Some p) = Some us"
      "ow_ID i \<notin> set us"
    by (auto simp: prevent_issue_parent_cycle_def simp del: ancestors.simps split: option.split_asm if_split_asm)
  from ancestors_complete [OF assms(2) reach assms(4) us(1)] us(2) show False by blast
qed

lemma prevented_workspace:
  "prevent_issue_parent_cycle d i = None \<Longrightarrow> iss_ParentID i = Some p \<Longrightarrow> j \<in> set (tr_issues d) \<Longrightarrow> ow_ID j = p
    \<Longrightarrow> ow_WorkspaceID j = ow_WorkspaceID i"
  by (auto simp: prevent_issue_parent_cycle_def exists_where_iff split: if_splits)

lemma row_parent: "issue_row_error d i = None \<Longrightarrow> iss_ParentID i = Some p \<Longrightarrow> p \<in> ow_ID ` set (tr_issues d)"
  by (auto simp: issue_row_error_def keyed_def split: if_splits)

text \<open>The trigger of the timestamps leaves everything else as it is.\<close>

lemma stamps_place [simp]:
  "ow_ID (updated_stamps now d old i) = ow_ID i" "ow_WorkspaceID (updated_stamps now d old i) = ow_WorkspaceID i"
  "iss_ParentID (updated_stamps now d old i) = iss_ParentID i" "iss_TeamID (updated_stamps now d old i) = iss_TeamID i"
  "iss_Number (updated_stamps now d old i) = iss_Number i" "iss_Identifier (updated_stamps now d old i) = iss_Identifier i"
  "iss_StatusID (updated_stamps now d old i) = iss_StatusID i" "iss_Status (updated_stamps now d old i) = iss_Status i"
  by (simp_all add: updated_stamps_def Let_def)

lemma inserted_place [simp]:
  "ow_ID (inserted_stamps now d i) = ow_ID i" "ow_WorkspaceID (inserted_stamps now d i) = ow_WorkspaceID i"
  "iss_ParentID (inserted_stamps now d i) = iss_ParentID i" "iss_TeamID (inserted_stamps now d i) = iss_TeamID i"
  "iss_Number (inserted_stamps now d i) = iss_Number i" "iss_Identifier (inserted_stamps now d i) = iss_Identifier i"
  "iss_StatusID (inserted_stamps now d i) = iss_StatusID i" "iss_Status (inserted_stamps now d i) = iss_Status i"
  by (simp_all add: inserted_stamps_def Let_def)

lemma assigned_place [simp]:
  "ow_ID (assigned_row now i old) = ow_ID old" "ow_WorkspaceID (assigned_row now i old) = ow_WorkspaceID old"
  "iss_ParentID (assigned_row now i old) = iss_ParentID i" "iss_TeamID (assigned_row now i old) = iss_TeamID old"
  "iss_Number (assigned_row now i old) = iss_Number old" "iss_Identifier (assigned_row now i old) = iss_Identifier old"
  by (simp_all add: assigned_row_def)

lemma map_filter_None: "List.map_filter f xs = [] \<longleftrightarrow> (\<forall>x \<in> set xs. f x = None)"
  by (induction xs) (auto simp: map_filter_simps split: option.split)

lemma update_issues_Inr:
  "update_issues now P f d = Inr d' \<longleftrightarrow>
     (\<forall>r \<in> set (tr_issues d). P r \<longrightarrow> issue_row_error d (updated_stamps now d r (f r)) = None)
   \<and> d' = d\<lparr>tr_issues := update_where P (\<lambda>r. updated_stamps now d r (f r)) (tr_issues d),
       tr_lifecycle := tr_lifecycle d @ concat (map (\<lambda>r. updated_events now d r (f r)) (filter P (tr_issues d)))\<rparr>"
proof (cases "List.map_filter (issue_row_error d) (map (\<lambda>r. updated_stamps now d r (f r)) (filter P (tr_issues d)))")
  case Nil
  then have "\<forall>r \<in> set (tr_issues d). P r \<longrightarrow> issue_row_error d (updated_stamps now d r (f r)) = None"
    by (auto simp: map_filter_None)
  with Nil show ?thesis unfolding update_issues_def Let_def Nil by auto
next
  case (Cons e es)
  then have "\<not> (\<forall>r \<in> set (tr_issues d). P r \<longrightarrow> issue_row_error d (updated_stamps now d r (f r)) = None)"
    using map_filter_None [of "issue_row_error d" "map (\<lambda>r. updated_stamps now d r (f r)) (filter P (tr_issues d))"] by auto
  with Cons show ?thesis by (simp add: update_issues_def)
qed

lemma parent_of_map: "parent_of rows = {(a, p). (a, Some p) \<in> set (map (\<lambda>i. (ow_ID i, iss_ParentID i)) rows)}"
  by (auto simp: parent_of_def)

lemma updated_rows_place:
  assumes "\<And>i. P i \<Longrightarrow> same_place i (f i)"
  shows "map ow_ID (update_where P (\<lambda>r. updated_stamps now d r (f r)) rows) = map ow_ID rows"
    and "parent_of (update_where P (\<lambda>r. updated_stamps now d r (f r)) rows) = parent_of rows"
proof -
  have "map (\<lambda>i. (ow_ID i, iss_ParentID i)) (update_where P (\<lambda>r. updated_stamps now d r (f r)) rows)
      = map (\<lambda>i. (ow_ID i, iss_ParentID i)) rows"
    using assms by (auto simp: update_where_def same_place_def)
  then show "parent_of (update_where P (\<lambda>r. updated_stamps now d r (f r)) rows) = parent_of rows"
    unfolding parent_of_map by (rule arg_cong)
qed (use assms in \<open>auto simp: update_where_def same_place_def\<close>)

text \<open>The row a creation appends.\<close>

lemma issue_CreateE:
  assumes "issue_Create now i d = Inr (x, d')"
  obtains r where "r = inserted_stamps now d (i\<lparr>iss_CreatedAt := now, iss_UpdatedAt := now, iss_StartedAt := None,
      iss_CompletedAt := None, iss_CancelledAt := None, iss_TriagedAt := None\<rparr>)"
    and "tr_issues d' = tr_issues d @ [r]" and "tr_statuses d' = tr_statuses d"
    and "prevent_issue_parent_cycle d r = None" and "issue_row_error d r = None"
    and "\<forall>s \<in> set (tr_issues d). ow_ID s \<noteq> ow_ID r
      \<and> \<not> (ow_WorkspaceID s = ow_WorkspaceID r \<and> iss_Identifier s = iss_Identifier r)
      \<and> \<not> (iss_TeamID s = iss_TeamID r \<and> iss_Number s = iss_Number r)"
proof -
  let ?r = "inserted_stamps now d (i\<lparr>iss_CreatedAt := now, iss_UpdatedAt := now, iss_StartedAt := None,
      iss_CompletedAt := None, iss_CancelledAt := None, iss_TriagedAt := None\<rparr>)"
  from assms show ?thesis
    by (intro that [of ?r])
      (auto simp: issue_Create_def Let_def exists_where_iff split: option.split_asm if_split_asm)
qed

lemma forest_iff: "forest d \<longleftrightarrow> distinct (map ow_ID (tr_issues d)) \<and> acyclic (parent_of (tr_issues d))
    \<and> (\<forall>i \<in> set (tr_issues d). \<forall>p. iss_ParentID i = Some p \<longrightarrow> (p, ow_WorkspaceID i) \<in> set (map (\<lambda>j. (ow_ID j, ow_WorkspaceID j)) (tr_issues d)))"
  unfolding forest_def by (auto simp: image_iff) metis+

lemma forest_touch:
  assumes "forest d" and "\<And>i. same_place i (f i) \<and> untouched_stamps i (f i)" and "update_issues now P f d = Inr d'"
  shows "forest d'"
proof -
  have d': "tr_issues d' = update_where P (\<lambda>r. updated_stamps now d r (f r)) (tr_issues d)"
    using assms(3) by (auto simp: update_issues_Inr)
  have f: "ow_ID (f i) = ow_ID i" "ow_WorkspaceID (f i) = ow_WorkspaceID i" "iss_ParentID (f i) = iss_ParentID i" for i
    using assms(2) [of i] by (simp_all add: same_place_def)
  have rows: "map ow_ID (tr_issues d') = map ow_ID (tr_issues d)" "parent_of (tr_issues d') = parent_of (tr_issues d)"
    unfolding d' by (rule updated_rows_place; use assms(2) in blast)+
  have places: "map (\<lambda>j. (ow_ID j, ow_WorkspaceID j)) (tr_issues d') = map (\<lambda>j. (ow_ID j, ow_WorkspaceID j)) (tr_issues d)"
    unfolding d' by (simp add: update_where_def f)
  have "(p, ow_WorkspaceID i) \<in> set (map (\<lambda>j. (ow_ID j, ow_WorkspaceID j)) (tr_issues d))"
    if i: "i \<in> set (tr_issues d')" "iss_ParentID i = Some p" for i p
  proof -
    obtain r where "r \<in> set (tr_issues d)" "iss_ParentID r = Some p" "ow_WorkspaceID i = ow_WorkspaceID r"
      using i unfolding d' update_where_def by (auto simp: f split: if_split_asm)
    with assms(1) show ?thesis unfolding forest_iff by (simp only:)
  qed
  moreover have "distinct (map ow_ID (tr_issues d)) \<and> acyclic (parent_of (tr_issues d))" using assms(1) by (simp add: forest_def)
  ultimately show ?thesis unfolding forest_iff rows places by blast
qed

lemma parent_of_orphans: "parent_of (map (orphaned gone) (delete_where P rows)) \<subseteq> parent_of rows"
  by (auto simp: parent_of_def orphaned_def delete_where_def split: option.splits if_splits)

lemma orphaned_place [simp]:
  "ow_ID (orphaned gone i) = ow_ID i" "ow_WorkspaceID (orphaned gone i) = ow_WorkspaceID i"
  "iss_TeamID (orphaned gone i) = iss_TeamID i" "iss_Number (orphaned gone i) = iss_Number i"
  "iss_Identifier (orphaned gone i) = iss_Identifier i"
  by (simp_all add: orphaned_def split: option.split)

lemma map_orphaned:
  "map ow_ID (map (orphaned gone) rows) = map ow_ID rows"
  "map (\<lambda>i. (iss_TeamID i, iss_Number i)) (map (orphaned gone) rows) = map (\<lambda>i. (iss_TeamID i, iss_Number i)) rows"
  "map (\<lambda>i. (ow_WorkspaceID i, iss_Identifier i)) (map (orphaned gone) rows)
     = map (\<lambda>i. (ow_WorkspaceID i, iss_Identifier i)) rows"
  by simp_all

lemma forest_delete:
  assumes "forest d"
  shows "forest (delete_issues P d)"
proof -
  let ?gone = "\<lambda>k. k \<in> set (map ow_ID (filter P (tr_issues d)))"
  let ?rows = "map (orphaned ?gone) (delete_where P (tr_issues d))"
  have rows: "tr_issues (delete_issues P d) = ?rows" by (simp add: delete_issues_def Let_def)
  have "acyclic (parent_of ?rows)"
    by (rule acyclic_subset [OF _ parent_of_orphans]) (use assms in \<open>simp add: forest_def\<close>)
  moreover have "distinct (map ow_ID (tr_issues d))" using assms by (simp add: forest_def)
  then have "distinct (map ow_ID ?rows)" unfolding map_orphaned(1) delete_where_def by (rule distinct_map_filter)
  moreover have "\<exists>j \<in> set ?rows. ow_ID j = p \<and> ow_WorkspaceID j = ow_WorkspaceID i"
    if i: "i \<in> set ?rows" "iss_ParentID i = Some p" for i p
  proof -
    from i(1) obtain r where r: "r \<in> set (tr_issues d)" "i = orphaned ?gone r" unfolding delete_where_def by auto
    have p: "iss_ParentID r = Some p" "\<not> ?gone p"
      using i(2) unfolding r(2) orphaned_def by (cases "iss_ParentID r"; simp split: if_split_asm)+
    with assms r(1) obtain j where j: "j \<in> set (tr_issues d)" "ow_ID j = p" "ow_WorkspaceID j = ow_WorkspaceID r"
      unfolding forest_def by blast
    with p(2) have "j \<in> set (delete_where P (tr_issues d))" unfolding delete_where_def by auto
    then have "orphaned ?gone j \<in> set ?rows" unfolding set_map by (rule imageI)
    with j show ?thesis unfolding r(2) by (metis orphaned_place(1,2))
  qed
  ultimately show ?thesis by (simp add: forest_def rows)
qed

lemma forest_create:
  assumes "forest d" and "issue_Create now i d = Inr (x, d')"
  shows "forest d'"
proof -
  obtain r where d': "tr_issues d' = tr_issues d @ [r]" and r: "prevent_issue_parent_cycle d r = None"
      "issue_row_error d r = None" "ow_ID r \<notin> ow_ID ` set (tr_issues d)"
    using assms(2) by (rule issue_CreateE) (metis imageE that)
  let ?R = "parent_of (tr_issues d)"
  have new: "(q, ow_ID r) \<notin> ?R" for q
  proof
    assume "(q, ow_ID r) \<in> ?R"
    then obtain i where "i \<in> set (tr_issues d)" "iss_ParentID i = Some (ow_ID r)" by (auto simp: parent_of_def)
    with assms(1) have "\<exists>j \<in> set (tr_issues d). ow_ID j = ow_ID r" unfolding forest_def by blast
    with r(3) show False by (metis imageI)
  qed
  have "acyclic (parent_of (tr_issues d @ [r]))"
  proof (cases "iss_ParentID r")
    case None
    then have "parent_of (tr_issues d @ [r]) = ?R" by (auto simp: parent_of_def)
    then show ?thesis using assms(1) by (simp add: forest_def)
  next
    case (Some p)
    then have "parent_of (tr_issues d @ [r]) = insert (ow_ID r, p) ?R" by (auto simp: parent_of_def)
    moreover have "p \<noteq> ow_ID r" using r(1) Some by (auto simp: prevent_issue_parent_cycle_def)
    then have "(p, ow_ID r) \<notin> ?R\<^sup>*" using new by (metis rtranclE)
    ultimately show ?thesis using assms(1) by (simp add: forest_def)
  qed
  moreover have "\<exists>j \<in> set (tr_issues d). ow_ID j = p \<and> ow_WorkspaceID j = ow_WorkspaceID r" if "iss_ParentID r = Some p" for p
    using row_parent [OF r(2) that] prevented_workspace [OF r(1) that] by blast
  ultimately show ?thesis using assms(1) r(3) unfolding forest_def d' by fastforce
qed

lemma forest_update:
  assumes "forest d" and "issue_Update now i d = Inr (x, d')"
  shows "forest d'"
proof -
  let ?f = "\<lambda>r. updated_stamps now d r (assigned_row now i r)"
  obtain old where old: "issue_GetByID (ow_ID i) d = Some old"
      and none: "prevent_issue_parent_cycle d (assigned_row now i old) = None"
      and upd: "update_issues now (\<lambda>r. ow_ID r = ow_ID i) (assigned_row now i) d = Inr d'"
    using assms(2) by (auto simp: issue_Update_def split: option.split_asm sum.split_asm)
  have d': "tr_issues d' = update_where (\<lambda>r. ow_ID r = ow_ID i) ?f (tr_issues d)"
    and rows: "\<forall>r \<in> set (tr_issues d). ow_ID r = ow_ID i \<longrightarrow> issue_row_error d (?f r) = None"
    using upd by (auto simp: update_issues_Inr)
  have dist: "distinct (map ow_ID (tr_issues d))" and acyclic: "acyclic (parent_of (tr_issues d))"
    using assms(1) by (simp_all add: forest_def)
  have oldI: "old \<in> set (tr_issues d)" "ow_ID old = ow_ID i"
    using old by (auto simp: issue_GetByID_def find_Some_iff)
  have only: "r = old" if "r \<in> set (tr_issues d)" "ow_ID r = ow_ID i" for r
    using that oldI dist by (metis distinct_map inj_onD)
  have places: "map (\<lambda>j. (ow_ID j, ow_WorkspaceID j)) (tr_issues d') = map (\<lambda>j. (ow_ID j, ow_WorkspaceID j)) (tr_issues d)"
    and ids: "map ow_ID (tr_issues d') = map ow_ID (tr_issues d)"
    unfolding d' by (simp_all add: update_where_def)
  have split: "(\<exists>r \<in> set (tr_issues d). k = r) \<or> k = ?f old" if "k \<in> set (tr_issues d')" for k
    using that only unfolding d' update_where_def by auto
  have sub: "parent_of (tr_issues d') \<subseteq> parent_of (tr_issues d) \<union> {(ow_ID i, p) |p. iss_ParentID i = Some p}"
    using split oldI by (fastforce simp: parent_of_def)
  have "acyclic (parent_of (tr_issues d'))"
  proof (cases "iss_ParentID i")
    case None
    with sub have "parent_of (tr_issues d') \<subseteq> parent_of (tr_issues d)" by simp
    then show ?thesis using acyclic by (rule acyclic_subset [rotated])
  next
    case (Some p)
    have "ow_ID old \<in> ow_ID ` set (tr_issues d)" using oldI(1) by (rule imageI)
    then have "(p, ow_ID old) \<notin> (parent_of (tr_issues d))\<^sup>*"
      using prevented [OF none dist, of p] Some by simp
    then have "acyclic (insert (ow_ID i, p) (parent_of (tr_issues d)))" using acyclic oldI by simp
    then show ?thesis using sub Some by (elim acyclic_subset) auto
  qed
  moreover have "(p, ow_WorkspaceID k) \<in> set (map (\<lambda>j. (ow_ID j, ow_WorkspaceID j)) (tr_issues d))"
    if k: "k \<in> set (tr_issues d')" "iss_ParentID k = Some p" for k p
  proof (cases "k = ?f old")
    case True
    with k(2) have p: "iss_ParentID i = Some p" by simp
    have "issue_row_error d (?f old) = None" using rows oldI by blast
    with p have "p \<in> ow_ID ` set (tr_issues d)" by (auto dest: row_parent)
    then obtain j where j: "j \<in> set (tr_issues d)" "ow_ID j = p" by blast
    with prevented_workspace [OF none _ j] p have "ow_WorkspaceID j = ow_WorkspaceID old" by simp
    with j show ?thesis unfolding True by force
  next
    case False
    with split k(1) have "k \<in> set (tr_issues d)" by blast
    with k(2) assms(1) show ?thesis unfolding forest_iff by blast
  qed
  ultimately show ?thesis using dist unfolding forest_iff places ids by blast
qed

interpretation hierarchy: issue_invariant forest
proof unfold_locales
  show "forest d'" if "forest d" "same_issues d d'" for d d' using that by (simp add: forest_def same_issues_def)
qed (fact forest_create forest_update forest_delete forest_touch)+

section \<open>Numbers and identifiers\<close>

definition numbered :: "tracker \<Rightarrow> bool" where
  "numbered d \<longleftrightarrow> distinct (map ow_ID (tr_issues d)) \<and> distinct (map (\<lambda>i. (iss_TeamID i, iss_Number i)) (tr_issues d))
     \<and> distinct (map (\<lambda>i. (ow_WorkspaceID i, iss_Identifier i)) (tr_issues d))"

lemma numbered_map:
  "map (\<lambda>i. (ow_ID i, (iss_TeamID i, iss_Number i), (ow_WorkspaceID i, iss_Identifier i))) (tr_issues d')
     = map (\<lambda>i. (ow_ID i, (iss_TeamID i, iss_Number i), (ow_WorkspaceID i, iss_Identifier i))) (tr_issues d)
   \<Longrightarrow> numbered d \<Longrightarrow> numbered d'"
proof -
  assume eq: "map (\<lambda>i. (ow_ID i, (iss_TeamID i, iss_Number i), (ow_WorkspaceID i, iss_Identifier i))) (tr_issues d')
     = map (\<lambda>i. (ow_ID i, (iss_TeamID i, iss_Number i), (ow_WorkspaceID i, iss_Identifier i))) (tr_issues d)"
  show "numbered d \<Longrightarrow> numbered d'"
    using arg_cong [OF eq, of "map fst"] arg_cong [OF eq, of "map (fst \<circ> snd)"] arg_cong [OF eq, of "map (snd \<circ> snd)"]
    by (simp add: numbered_def comp_def)
qed

lemma numbered_create:
  assumes "numbered d" and "issue_Create now i d = Inr (x, d')"
  shows "numbered d'"
  using assms(2) by (rule issue_CreateE) (use assms(1) in \<open>auto simp: numbered_def\<close>)

lemma numbered_delete: "numbered d \<Longrightarrow> numbered (delete_issues P d)"
  by (auto simp: numbered_def delete_issues_def Let_def delete_where_def comp_def intro: distinct_map_filter)

lemma numbered_touch:
  assumes "numbered d" and "\<And>i. P i \<Longrightarrow> ow_ID (f i) = ow_ID i \<and> ow_WorkspaceID (f i) = ow_WorkspaceID i
      \<and> iss_TeamID (f i) = iss_TeamID i \<and> iss_Number (f i) = iss_Number i \<and> iss_Identifier (f i) = iss_Identifier i"
    and "update_issues now P f d = Inr d'"
  shows "numbered d'"
proof (rule numbered_map [OF _ assms(1)])
  have "tr_issues d' = update_where P (\<lambda>r. updated_stamps now d r (f r)) (tr_issues d)"
    using assms(3) by (auto simp: update_issues_Inr)
  then show "map (\<lambda>i. (ow_ID i, (iss_TeamID i, iss_Number i), (ow_WorkspaceID i, iss_Identifier i))) (tr_issues d')
     = map (\<lambda>i. (ow_ID i, (iss_TeamID i, iss_Number i), (ow_WorkspaceID i, iss_Identifier i))) (tr_issues d)"
    using assms(2) by (simp add: update_where_def)
qed

lemma numbered_update:
  assumes "numbered d" and "issue_Update now i d = Inr (x, d')"
  shows "numbered d'"
proof -
  have "update_issues now (\<lambda>r. ow_ID r = ow_ID i) (assigned_row now i) d = Inr d'"
    using assms(2) by (auto simp: issue_Update_def split: option.split_asm sum.split_asm)
  then show ?thesis by (rule numbered_touch [OF assms(1), rotated]) simp
qed

interpretation numbering: issue_invariant numbered
proof unfold_locales
  show "numbered d'" if "numbered d" "same_issues d d'" for d d' using that by (simp add: numbered_def same_issues_def)
  show "numbered d'" if "numbered d" "\<And>i. same_place i (f i) \<and> untouched_stamps i (f i)"
      "update_issues now P f d = Inr d'" for d now P f d'
    using that(1) _ that(3) by (rule numbered_touch) (use that(2) in \<open>simp add: same_place_def\<close>)
qed (fact numbered_create numbered_update numbered_delete)+

section \<open>Timestamps and categories\<close>

definition stamps_right :: "tracker \<Rightarrow> Issue \<Rightarrow> bool" where
  "stamps_right d i \<longleftrightarrow> (iss_CompletedAt i \<noteq> None \<longleftrightarrow> issueStatusCategoryExpr d i = Completed)
     \<and> (iss_CancelledAt i \<noteq> None \<longleftrightarrow> issueStatusCategoryExpr d i = Cancelled)
     \<and> (issueStatusCategoryExpr d i \<in> {Started, Completed} \<longrightarrow> iss_StartedAt i \<noteq> None)"

definition stamped :: "tracker \<Rightarrow> bool" where
  "stamped d \<longleftrightarrow> (\<forall>i \<in> set (tr_issues d). stamps_right d i)"

lemma category_cong:
  "tr_statuses d' = tr_statuses d \<Longrightarrow> iss_StatusID j = iss_StatusID i \<Longrightarrow> iss_Status j = iss_Status i
    \<Longrightarrow> issueStatusCategoryExpr d' j = issueStatusCategoryExpr d i"
  by (simp add: issueStatusCategoryExpr_def status_row_def cong: option.case_cong)

lemma stamps_right_cong:
  "tr_statuses d' = tr_statuses d \<Longrightarrow> iss_StatusID j = iss_StatusID i \<Longrightarrow> iss_Status j = iss_Status i
    \<Longrightarrow> untouched_stamps i j \<Longrightarrow> stamps_right d' j = stamps_right d i"
  using category_cong [of d' d j i] by (simp add: stamps_right_def untouched_stamps_def)

lemma stamps_right_inserted:
  assumes "iss_CompletedAt i = None" and "iss_CancelledAt i = None"
  shows "stamps_right d (inserted_stamps now d i)"
  using assms category_cong [of d d "inserted_stamps now d i" i]
  by (auto simp: stamps_right_def inserted_stamps_def Let_def)

lemma stamps_right_updated:
  assumes "stamps_right d old" and "untouched_stamps old i"
  shows "stamps_right d (updated_stamps now d old i)"
proof -
  have cat: "issueStatusCategoryExpr d (updated_stamps now d old i) = issueStatusCategoryExpr d i"
    by (rule category_cong) simp_all
  show ?thesis
  proof (cases "status_changed old i")
    case True
    then show ?thesis using assms unfolding stamps_right_def cat untouched_stamps_def
      by (cases "issueStatusCategoryExpr d i"; cases "issueStatusCategoryExpr d old")
        (auto simp: updated_stamps_def Let_def reached_stamp_def)
  next
    case False
    then have "issueStatusCategoryExpr d i = issueStatusCategoryExpr d old"
      by (intro category_cong) (simp_all add: status_changed_def)
    with False show ?thesis using assms unfolding stamps_right_def cat untouched_stamps_def
      by (simp add: updated_stamps_def Let_def)
  qed
qed

lemma stamped_create:
  assumes "stamped d" and "issue_Create now i d = Inr (x, d')"
  shows "stamped d'"
  using assms(2)
proof (rule issue_CreateE)
  fix r
  assume r: "r = inserted_stamps now d (i\<lparr>iss_CreatedAt := now, iss_UpdatedAt := now, iss_StartedAt := None,
      iss_CompletedAt := None, iss_CancelledAt := None, iss_TriagedAt := None\<rparr>)"
    and d': "tr_issues d' = tr_issues d @ [r]" "tr_statuses d' = tr_statuses d"
  have "stamps_right d r" unfolding r by (rule stamps_right_inserted) simp_all
  then have "\<forall>k \<in> set (tr_issues d'). stamps_right d k" using assms(1) d'(1) by (simp add: stamped_def)
  then show "stamped d'" unfolding stamped_def
    using stamps_right_cong [OF d'(2)] by (simp add: untouched_stamps_def)
qed

lemma stamped_touch:
  assumes "stamped d" and "\<And>i. P i \<Longrightarrow> untouched_stamps i (f i)" and "update_issues now P f d = Inr d'"
  shows "stamped d'"
proof -
  have d': "tr_issues d' = update_where P (\<lambda>r. updated_stamps now d r (f r)) (tr_issues d)" "tr_statuses d' = tr_statuses d"
    using assms(3) by (auto simp: update_issues_Inr)
  have "stamps_right d k" if "k \<in> set (tr_issues d')" for k
  proof -
    from that obtain r where "r \<in> set (tr_issues d)" "k = (if P r then updated_stamps now d r (f r) else r)"
      unfolding d' update_where_def by auto
    then show ?thesis using assms(1,2) by (simp add: stamped_def stamps_right_updated)
  qed
  then show ?thesis unfolding stamped_def using stamps_right_cong [OF d'(2)] by (simp add: untouched_stamps_def)
qed

lemma stamped_update:
  assumes "stamped d" and "issue_Update now i d = Inr (x, d')"
  shows "stamped d'"
proof -
  have "update_issues now (\<lambda>r. ow_ID r = ow_ID i) (assigned_row now i) d = Inr d'"
    using assms(2) by (auto simp: issue_Update_def split: option.split_asm sum.split_asm)
  then show ?thesis
    by (rule stamped_touch [OF assms(1), rotated]) (simp add: untouched_stamps_def assigned_row_def)
qed

lemma stamped_delete: "stamped d \<Longrightarrow> stamped (delete_issues P d)"
proof -
  assume d: "stamped d"
  have "stamps_right (delete_issues P d) (orphaned gone r) = stamps_right d r" for gone r
    by (rule stamps_right_cong) (simp_all add: delete_issues_def Let_def orphaned_def untouched_stamps_def split: option.split)
  with d show "stamped (delete_issues P d)"
    by (auto simp: stamped_def delete_issues_def Let_def delete_where_def)
qed

interpretation completion: issue_invariant stamped
proof unfold_locales
  show "stamped d'" if "stamped d" "same_issues d d'" for d d'
    using that stamps_right_cong [of d' d] by (simp add: stamped_def same_issues_def untouched_stamps_def)
  show "stamped d'" if "stamped d" "\<And>i. same_place i (f i) \<and> untouched_stamps i (f i)"
      "update_issues now P f d = Inr d'" for d now P f d'
    using that(1) _ that(3) by (rule stamped_touch) (use that(2) in simp)
qed (fact stamped_create stamped_update stamped_delete)+

end
