(* ===== verification/Tracker_Rules.thy ===== *)
theory Tracker_Rules
  imports Issue_Changes Issue_Relations
begin

text \<open>
  Rules for the actions of the tracker: what they do when no other request runs between the calls of the
  store and no call fails, and what they are sure to do whatever happens.
\<close>

section \<open>Alone\<close>

named_theorems alone \<open>actions without interference\<close>

lemma same_db [simp]: "k\<lparr>dk_db := dk_db k\<rparr> = k"
  by simp

lemma storeT_alone [alone]: "dk_script k = [] \<Longrightarrow> storeT f k = (case f (dk_now k) (dk_db k) of
    Inl e \<Rightarrow> (Inl (StoreError e), k) | Inr (x, d) \<Rightarrow> (Inr x, k\<lparr>dk_db := d\<rparr>))"
  by (simp add: storeT_def)

lemma readT_alone [alone]: "dk_script k = [] \<Longrightarrow> readT f k = (Inr (f (dk_db k)), k)"
  by (simp add: readT_def storeT_alone)

lemma queryT_alone [alone]: "dk_script k = [] \<Longrightarrow> queryT f k = (case f (dk_db k) of
    Inl e \<Rightarrow> (Inl (StoreError e), k) | Inr x \<Rightarrow> (Inr x, k))"
  by (simp add: queryT_def storeT_alone split: sum.split)

lemma writeT_alone [alone]: "dk_script k = [] \<Longrightarrow> writeT f k = (case f (dk_now k) (dk_db k) of
    Inl e \<Rightarrow> (Inl (StoreError e), k) | Inr d \<Rightarrow> (Inr (), k\<lparr>dk_db := d\<rparr>))"
  by (simp add: writeT_def storeT_alone split: sum.split)

lemma foundT_alone [alone]: "dk_script k = [] \<Longrightarrow> foundT s (readT f) k =
    (case f (dk_db k) of None \<Rightarrow> (Inl (Errorf s), k) | Some x \<Rightarrow> (Inr x, k))"
  by (simp add: foundT_def bindA_def attempt_def readT_alone returnA_def failT_def failA_def split: option.split)

lemma at_best_alone [alone]: "dk_script k = [] \<Longrightarrow> at_best z (readT f) k = (Inr (f (dk_db k)), k)"
  by (simp add: at_best_def bindA_def attempt_def readT_alone returnA_def)

lemma bind_alone [alone]: "bindA a f k = (case a k of (Inl e, k') \<Rightarrow> (Inl e, k') | (Inr x, k') \<Rightarrow> f x k')"
  by (simp add: bindA_def split: prod.split sum.split)

lemma basic_alone [alone]:
  "returnA x k = (Inr x, k)" "failT s k = (Inl (Errorf s), k)" "thenA a b = bindA a (\<lambda>_. b)"
  "freshT k = (Inr (dk_fresh k), k\<lparr>dk_fresh := dk_fresh k + 1\<rparr>)"
  by (simp_all add: returnA_def failT_def failA_def thenA_def freshT_def)

lemma ignore_alone [alone]: "ignore a k = (Inr (), snd (a k))" "attempt a k = (Inr (fst (a k)), snd (a k))"
  by (simp_all add: ignore_def attempt_def split_beta)

section \<open>Samples\<close>

text \<open>
  A small tracker for the witnesses of the properties: workspace 1 with the users 7 and 8, team 2 that closes parents
  and sub-issues, its statuses, issue 11 and its sub-issue 12; and what the service needs from outside.
\<close>

definition team2 :: Team where
  "team2 = \<lparr>ow_ID = 2, ow_WorkspaceID = 1, te_Name = ''Core'', te_Key = ''CO'', te_Description = None, te_TriageEnabled = False,
     te_ParentAutoCloseEnabled = True, te_SubIssueAutoCloseEnabled = True\<rparr>"

definition todo :: TeamStatus where
  "todo = \<lparr>st_ID = 31, st_TeamID = 2, st_Name = ''Todo'', st_Slug = ''todo'', st_Category = Unstarted,
     st_Color = None, st_Position = 1\<rparr>"

definition finished :: TeamStatus where
  "finished = \<lparr>st_ID = 32, st_TeamID = 2, st_Name = ''Done'', st_Slug = ''done'', st_Category = Completed,
     st_Color = None, st_Position = 2\<rparr>"

definition sample_issue :: "uuid \<Rightarrow> int \<Rightarrow> string \<Rightarrow> uuid option \<Rightarrow> Issue" where
  "sample_issue i n name parent = \<lparr>ow_ID = i, ow_WorkspaceID = 1, iss_TeamID = 2, iss_ProjectID = None, iss_CycleID = None,
     iss_Number = n, iss_Identifier = name, iss_Title = ''A'', iss_Description = None, iss_Status = ''todo'',
     iss_Priority = 0, iss_CreatorID = 7, iss_AssigneeID = None, iss_ParentID = parent, iss_DueDate = None,
     iss_SortOrder = 0, iss_StatusID = Some 31, iss_Triaged = True, iss_StartedAt = None, iss_CompletedAt = None,
     iss_CancelledAt = None, iss_TriagedAt = Some 0, iss_CreatedAt = 0, iss_UpdatedAt = 0\<rparr>"

definition tracker0 :: tracker where
  "tracker0 = \<lparr>tr_workspaces = [1], tr_users = [7, 8], tr_teams = [team2], tr_statuses = [todo, finished],
     tr_projects = [], tr_cycles = [], tr_labels = [],
     tr_issues = [sample_issue 11 1 ''CO-1'' None, sample_issue 12 2 ''CO-2'' (Some 11)], tr_issue_labels = [],
     tr_assignees = [], tr_subscribers = [], tr_history = [], tr_relations = [], tr_notifications = [], tr_lifecycle = []\<rparr>"

definition desk0 :: desk where
  "desk0 = \<lparr>dk_db = tracker0, dk_now = 5, dk_fresh = 100, dk_script = [], dk_sent = []\<rparr>"

definition tracker_service0 :: IssueService where
  "tracker_service0 = \<lparr>is_projectRepo = True, is_PlainText = (\<lambda>s. s), is_SanitizeEditorContent = (\<lambda>s. s),
     is_StripHTML = (\<lambda>s. s), is_mentioned = (\<lambda>s. []),
     is_uuid_Parse = (\<lambda>s. case map_of [(''t2'', 2), (''u8'', 8), (''i11'', 11), (''i12'', 12), (''s31'', 31), (''s32'', 32)] s of
       Some u \<Rightarrow> (u, True) | None \<Rightarrow> (0, False)),
     is_ParseDate = (\<lambda>s. None), is_FormatDate = (\<lambda>t. []), is_collate = length, is_range = (\<lambda>us. us)\<rparr>"

text \<open>A request that changes nothing, to build others from.\<close>

definition no_update :: UpdateIssueRequest where
  "no_update = \<lparr>ur_Title = None, ur_Description = None, ur_Status = None, ur_StatusID = None, ur_Priority = None,
     ur_AssigneeID = None, ur_AssigneeIDs = None, ur_ProjectID = None, ur_CycleID = None, ur_LabelIDs = None,
     ur_ParentID = None, ur_DueDate = None, ur_SortOrder = None\<rparr>"

definition create0 :: CreateIssueRequest where
  "create0 = \<lparr>cr_Title = ''B'', cr_Description = None, cr_Status = ''todo'', cr_StatusID = None, cr_Priority = None,
     cr_TeamID = ''t2'', cr_ProjectID = None, cr_AssigneeID = Some ''u8'', cr_AssigneeIDs = [],
     cr_LabelIDs = [], cr_ParentID = Some ''i12'', cr_DueDate = None, cr_CycleID = None\<rparr>"

end
