(* ===== verification/Tracker_Properties.thy ===== *)
theory Tracker_Properties
  imports Issue_Properties Tracker_Rules
begin

text \<open>
  Properties of the issue services: what every sequence of requests keeps true of the issues.
\<close>

section \<open>Invariants under every sequence of requests\<close>

text \<open>
  (C30) The hierarchy of issues stays a forest. Take a tracker whose issues have distinct identifiers, whose
  parents exist and lie in the workspace of their children, and in which no issue is its own ancestor. Then
  this still holds after any sequence of requests to the issue services (creations, sub-issues, copies,
  updates of one or many issues, conversions, triage, deletions, relations), with whatever calls of the
  store fail and whatever other requests do between those calls as long as they keep it, too. The service's
  own check (\<open>WouldCreateCycle\<close>) is made before the update and may be out of date by then; the trigger
  decides. Statements are taken one after the other here. Two updates that run at the same time, each of
  which makes one issue the parent of the other, do not see each other in the trigger, which takes no lock: this race
  is outside the statement.
\<close>

theorem hierarchy_stays_a_forest:
  assumes "forest (dk_db k)" and "\<forall>(dt, g, fault) \<in> set (dk_script k). \<forall>d. forest d \<longrightarrow> forest (g d)"
  shows "forest (dk_db (snd (serve_all S reqs k)))"
  using hierarchy.kept_serve_all [of S reqs] assms by (simp add: kept_def rely_def)

lemma forest_tracker0: "forest tracker0"
proof -
  have "parent_of (tr_issues tracker0) = {(12, 11)}" unfolding parent_of_map by (auto simp: tracker0_def sample_issue_def)
  then have "acyclic (parent_of (tr_issues tracker0))" by (simp add: acyclic_def [of "{}"])
  then show ?thesis by (simp add: forest_def tracker0_def sample_issue_def)
qed

theorem hierarchy_stays_a_forest_witness:
  "forest (dk_db (snd (serve_all tracker_service0
     [UpdateIssue 1 8 ''CO-1'' (no_update\<lparr>ur_ParentID := Some ''i12''\<rparr>), CreateIssue 1 7 create0, DeleteIssue 1 7 ''CO-1'']
     (desk0\<lparr>dk_script := [(3, delete_issues (\<lambda>i. iss_Title i = ''C''), None), (1, id, Some ErrDatabase)]\<rparr>))))"
  by (rule hierarchy_stays_a_forest) (simp_all add: desk0_def forest_tracker0 forest_delete)

text \<open>
  (C31) Numbers, identifiers and timestamps. In the same setting, if identifiers are unique within their
  workspace and numbers within their team, and an issue has a completion (cancellation) time exactly when
  its status is of the category completed (cancelled) and a start time when it is started or completed,
  then so it is after any sequence of requests, automation and bulk updates included.
\<close>

theorem issues_keep_numbers_and_stamps:
  assumes "numbered (dk_db k)" and "stamped (dk_db k)"
    and "\<forall>(dt, g, fault) \<in> set (dk_script k). \<forall>d. (numbered d \<longrightarrow> numbered (g d)) \<and> (stamped d \<longrightarrow> stamped (g d))"
  shows "numbered (dk_db (snd (serve_all S reqs k))) \<and> stamped (dk_db (snd (serve_all S reqs k)))"
  using numbering.kept_serve_all [of S reqs] completion.kept_serve_all [of S reqs] assms
  by (simp_all add: kept_def rely_def split_beta)

lemma consistent_tracker0: "numbered tracker0" "stamped tracker0"
  by (simp_all add: numbered_def stamped_def stamps_right_def tracker0_def sample_issue_def issueStatusCategoryExpr_def
      status_row_def todo_def)

theorem issues_keep_numbers_and_stamps_witness:
  "numbered (dk_db (snd (serve_all tracker_service0 [CreateIssue 1 7 create0,
     UpdateIssue 1 8 ''CO-1'' (no_update\<lparr>ur_StatusID := Some ''s32''\<rparr>)] desk0)))
   \<and> stamped (dk_db (snd (serve_all tracker_service0 [CreateIssue 1 7 create0,
     UpdateIssue 1 8 ''CO-1'' (no_update\<lparr>ur_StatusID := Some ''s32''\<rparr>)] desk0)))"
  using issues_keep_numbers_and_stamps [of desk0 tracker_service0 "[CreateIssue 1 7 create0,
     UpdateIssue 1 8 ''CO-1'' (no_update\<lparr>ur_StatusID := Some ''s32''\<rparr>)]"] consistent_tracker0
  by (simp add: desk0_def)

end
