(* ===== verification/Automation_Properties.thy ===== *)
theory Automation_Properties
  imports Issue_Properties Tracker_Rules
begin

text \<open>
  The automation that closes sub-issues and parents (\<open>applyStatusAutomation\<close>): it ends, whatever the hierarchy
  and whatever fails, and it changes nothing but the status of open issues.
\<close>

section \<open>What actions are sure to do\<close>

text \<open>Other requests keep \<open>I\<close>; calls of the store fail only if \<open>F\<close>.\<close>

definition amid :: "bool \<Rightarrow> (tracker \<Rightarrow> bool) \<Rightarrow> desk \<Rightarrow> bool" where
  "amid F I k \<longleftrightarrow> rely I k \<and> I (dk_db k) \<and> (F \<or> (\<forall>(dt, g, fault) \<in> set (dk_script k). fault = None))"

definition yields :: "bool \<Rightarrow> (tracker \<Rightarrow> bool) \<Rightarrow> 'a tact \<Rightarrow> (go_error + 'a \<Rightarrow> bool) \<Rightarrow> bool" where
  "yields F I a Q \<longleftrightarrow> (\<forall>k. amid F I k \<longrightarrow> amid F I (snd (a k)) \<and> Q (fst (a k)))"

abbreviation sure :: "bool \<Rightarrow> (tracker \<Rightarrow> bool) \<Rightarrow> 'a tact \<Rightarrow> ('a \<Rightarrow> bool) \<Rightarrow> bool" where
  "sure F I a Q \<equiv> yields F I a (\<lambda>r. \<exists>x. r = Inr x \<and> Q x)"

lemma yields_return: "Q (Inr x) \<Longrightarrow> yields F I (returnA x) Q"
  by (simp add: yields_def returnA_def)

lemma yields_bind:
  "yields F I a P \<Longrightarrow> (\<And>x. P (Inr x) \<Longrightarrow> yields F I (f x) Q) \<Longrightarrow> (\<And>e. P (Inl e) \<Longrightarrow> Q (Inl e)) \<Longrightarrow> yields F I (bindA a f) Q"
  by (fastforce simp: yields_def bindA_def split: prod.split sum.split)

lemma sure_bind: "sure F I a P \<Longrightarrow> (\<And>x. P x \<Longrightarrow> yields F I (f x) Q) \<Longrightarrow> yields F I (bindA a f) Q"
  by (rule yields_bind [where P = "\<lambda>r. \<exists>x. r = Inr x \<and> P x"]) auto

lemma yields_inhabited: "(\<And>d. I d \<Longrightarrow> yields F I a Q) \<Longrightarrow> yields F I a Q"
  unfolding yields_def amid_def by blast

lemma yields_attempt: "yields F I a P \<Longrightarrow> (\<And>r. P r \<Longrightarrow> Q (Inr r)) \<Longrightarrow> yields F I (attempt a) Q"
  by (auto simp: yields_def attempt_def split: prod.split)

lemma yields_ignore: "yields F I a P \<Longrightarrow> Q (Inr ()) \<Longrightarrow> yields F I (ignore a) Q"
  by (auto simp: yields_def ignore_def split: prod.split)

lemma yields_basic: "Q (Inr ()) \<Longrightarrow> yields F I (broadcast e) Q" "(\<And>i. Q' (Inr i)) \<Longrightarrow> yields F I freshT Q'"
  by (simp_all add: yields_def broadcast_def freshT_def amid_def rely_def)

lemma yields_store:
  assumes "\<And>e. F \<Longrightarrow> Q (Inl e)" and "\<And>now d e. I d \<Longrightarrow> f now d = Inl e \<Longrightarrow> Q (Inl (StoreError e))"
    and "\<And>now d x d'. I d \<Longrightarrow> f now d = Inr (x, d') \<Longrightarrow> I d' \<and> Q (Inr x)"
  shows "yields F I (storeT f) Q"
proof -
  have "amid F I (snd (storeT f k)) \<and> Q (fst (storeT f k))" if k: "amid F I k" for k
  proof (cases "dk_script k")
    case Nil
    then show ?thesis using k assms(2,3) by (auto simp: amid_def rely_def storeT_def split: sum.split)
  next
    case (Cons step rest)
    obtain dt g fault where step: "step = (dt, g, fault)" by (cases step)
    have "I (g (dk_db k))" "F \<or> fault = None" using k by (auto simp: amid_def rely_def Cons step)
    moreover have "amid F I k'" if "I (dk_db k')" "dk_script k' = rest" for k'
      using k that by (auto simp: amid_def rely_def Cons)
    ultimately show ?thesis using assms
      by (cases fault) (auto simp: storeT_def Cons step Let_def split: sum.split)
  qed
  then show ?thesis by (simp add: yields_def)
qed

lemma yields_read: "(\<And>e. F \<Longrightarrow> Q (Inl e)) \<Longrightarrow> (\<And>d. I d \<Longrightarrow> Q (Inr (f d))) \<Longrightarrow> yields F I (readT f) Q"
  unfolding readT_def by (rule yields_store) auto

lemma yields_best:
  "yields F I a P \<Longrightarrow> (\<And>e. P (Inl e) \<Longrightarrow> Q (Inr z)) \<Longrightarrow> (\<And>x. P (Inr x) \<Longrightarrow> Q (Inr x)) \<Longrightarrow> yields F I (at_best z a) Q"
  unfolding at_best_def
  by (rule yields_bind [OF yields_attempt [where Q = "\<lambda>r. \<exists>x. r = Inr x \<and> P x"]])
    (auto intro!: yields_return split: sum.split)

lemma sure_read: "(F \<Longrightarrow> Q z) \<Longrightarrow> (\<And>d. I d \<Longrightarrow> Q (f d)) \<Longrightarrow> sure F I (at_best z (readT f)) Q"
  by (rule yields_best [where P = "\<lambda>r. case r of Inl e \<Rightarrow> F | Inr x \<Rightarrow> Q x"]) (auto intro: yields_read)

lemma sure_write:
  assumes "\<And>now d d'. I d \<Longrightarrow> f now d = Inr d' \<Longrightarrow> I d'"
  shows "yields F I (writeT f) (\<lambda>r. True)"
  unfolding writeT_def by (rule yields_store) (use assms in \<open>auto split: sum.splits\<close>)

section \<open>Invariants of the automation\<close>

definition category_in :: "tracker \<Rightarrow> Issue \<Rightarrow> StatusCategory" where
  "category_in d i = (case iss_StatusID i of
     None \<Rightarrow> default_category (iss_Status i)
   | Some s \<Rightarrow> (case status_GetByID s d of Some t \<Rightarrow> st_Category t | None \<Rightarrow> default_category (iss_Status i)))"

definition finishing_in :: "tracker \<Rightarrow> uuid \<Rightarrow> TeamStatus \<Rightarrow> bool" where
  "finishing_in d team s \<longleftrightarrow> GetByTeamAndSlug team ''done'' d = Some s
     \<or> find (\<lambda>t. st_Category t = Completed) (status_ListByTeam team d) = Some s"

text \<open>
  What an invariant has to stand: that an issue that has been read from the store is completed. \<open>ok\<close> is what
  is known of such issues, \<open>ids\<close> the identifiers they may have.
\<close>

locale automation_invariant =
  fixes F :: bool and I :: "tracker \<Rightarrow> bool" and ok :: "Issue \<Rightarrow> bool" and ids :: "uuid list"
  assumes stored: "I d \<Longrightarrow> r \<in> set (tr_issues d) \<Longrightarrow> ok r"
    and known: "ok r \<Longrightarrow> ow_ID r \<in> set ids"
    and frame: "I d \<Longrightarrow> same_issues d d' \<Longrightarrow> I d'"
    and close: "I d \<Longrightarrow> ok i \<Longrightarrow> F \<or> (\<exists>e. I e \<and> \<not> terminal_category (category_in e i)) \<Longrightarrow> (\<exists>e. I e \<and> finishing_in e (iss_TeamID i) s)
      \<Longrightarrow> issue_Update now (completed_issue s i) d = Inr (x, d') \<Longrightarrow> I d'"
begin

lemma sure_category: "sure F I (issueStatusCategory i) (\<lambda>c. F \<or> (\<exists>d. I d \<and> c = category_in d i))"
proof (cases "iss_StatusID i")
  case None
  show ?thesis unfolding issueStatusCategory_def None option.case
    by (rule yields_inhabited) (auto intro!: yields_return simp: category_in_def None)
next
  case (Some s)
  have "sure F I (at_best None (readT (status_GetByID s))) (\<lambda>r. F \<or> (\<exists>d. I d \<and> r = status_GetByID s d))"
    by (rule sure_read) auto
  then show ?thesis unfolding issueStatusCategory_def Some option.case
    by (rule sure_bind) (rule yields_return, auto simp: category_in_def Some)
qed

lemma sure_terminal: "sure F I (isTerminalStatus i) (\<lambda>b. b \<or> F \<or> (\<exists>d. I d \<and> \<not> terminal_category (category_in d i)))"
  unfolding isTerminalStatus_def
  by (rule sure_bind [OF sure_category]) (auto intro!: yields_return simp: terminal_category_def)

lemma sure_status: "sure F I (at_best None (completedStatusForTeam t)) (\<lambda>r. r = None \<or> (\<exists>d. I d \<and> finishing_in d t (the r)))"
proof -
  let ?P = "\<lambda>r. r = None \<or> (\<exists>d. I d \<and> finishing_in d t (the r))"
  have "sure F I (at_best None (readT (GetByTeamAndSlug t ''done''))) ?P"
    by (rule sure_read) (auto simp: finishing_in_def)
  moreover have "yields F I (readT (status_ListByTeam t)) (\<lambda>r. \<forall>ss. r = Inr ss \<longrightarrow> (\<exists>d. I d \<and> ss = status_ListByTeam t d))"
    by (rule yields_read) auto
  then have "yields F I (bindA (readT (status_ListByTeam t)) (\<lambda>ss. returnA (find (\<lambda>s. st_Category s = Completed) ss)))
      (\<lambda>r. \<forall>x. r = Inr x \<longrightarrow> ?P x)"
    by (rule yields_bind) (auto intro!: yields_return simp: finishing_in_def)
  ultimately have "yields F I (completedStatusForTeam t) (\<lambda>r. \<forall>x. r = Inr x \<longrightarrow> ?P x)"
    unfolding completedStatusForTeam_def by (elim sure_bind) (auto intro!: yields_return split: option.split)
  then show ?thesis by (rule yields_best) auto
qed

lemma sure_frame_write:
  assumes "\<And>now d d'. f now d = Inr d' \<Longrightarrow> same_issues d d'"
  shows "yields F I (writeT f) (\<lambda>r. True)"
  by (rule sure_write) (use assms frame in blast)

lemma sure_history: "sure F I (recordHistory i u field old new) (\<lambda>x. True)"
proof -
  have "yields F I (bindA freshT (\<lambda>i'. writeT (\<lambda>now. history_Create now i' i u field (Some old) (Some new)))) (\<lambda>r. True)"
    by (rule yields_bind [OF yields_basic(2)], rule TrueI, rule sure_frame_write)
      (auto simp: history_Create_def same_issues_def split: if_splits)
  then show ?thesis unfolding recordHistory_def by (rule yields_ignore) simp
qed

lemma sure_close:
  assumes "ok i" and "F \<or> (\<exists>e. I e \<and> \<not> terminal_category (category_in e i))" and "\<exists>e. I e \<and> finishing_in e (iss_TeamID i) s"
  shows "sure F I (attempt (storeT (\<lambda>now. issue_Update now (completed_issue s i)))) (\<lambda>r. \<forall>x. r = Inr x \<longrightarrow> ow_ID x = ow_ID i)"
proof -
  have "yields F I (storeT (\<lambda>now. issue_Update now (completed_issue s i))) (\<lambda>r. \<forall>x. r = Inr x \<longrightarrow> ow_ID x = ow_ID i)"
  proof (rule yields_store; clarsimp)
    fix now d x d'
    assume d: "I d" and upd: "issue_Update now (completed_issue s i) d = Inr (x, d')"
    from upd have "x = (completed_issue s i)\<lparr>iss_UpdatedAt := now\<rparr>"
      by (auto simp: issue_Update_def split: option.split_asm sum.split_asm)
    then show "I d' \<and> ow_ID x = ow_ID i" using close [OF d assms upd] by (simp add: completed_issue_def)
  qed
  then show ?thesis by (rule yields_attempt) (rule exI, rule conjI, rule refl)
qed

text \<open>The parts of the automation, for whatever \<open>again\<close> does with at least the issues visited so far.\<close>

definition grows :: "(Issue \<Rightarrow> uuid list \<Rightarrow> uuid list tact) \<Rightarrow> uuid list \<Rightarrow> bool" where
  "grows again v \<longleftrightarrow> (\<forall>i v'. ow_ID i \<in> set ids \<longrightarrow> set v \<subseteq> set v' \<longrightarrow> sure F I (again i v') (\<lambda>v''. set v' \<subseteq> set v''))"

lemma sure_stay: "sure F I (returnA v) (\<lambda>v'. set v \<subseteq> set v')"
  by (simp add: yields_return)

lemma sure_move:
  assumes again: "grows again v" and i: "ok i" and v: "set v \<subseteq> set v'"
  shows "sure F I (moveIssueToCompleted again w u i v') (\<lambda>v''. set v' \<subseteq> set v'')"
  unfolding moveIssueToCompleted_def
proof (rule sure_bind [OF sure_terminal], goal_cases)
  case (1 ended)
  show ?case
  proof (cases ended)
    case False
    with 1 have unended: "F \<or> (\<exists>d. I d \<and> \<not> terminal_category (category_in d i))" by blast
    show ?thesis unfolding if_not_P [OF False]
    proof (rule sure_bind [OF sure_status], goal_cases)
      case (1 found)
      show ?case
      proof (cases found)
        case (Some s)
        with 1 have "\<exists>d. I d \<and> finishing_in d (iss_TeamID i) s" by simp
        note moved = sure_close [OF i unended this]
        have rest: "sure F I (thenA (recordHistory (ow_ID i) u ''status'' (iss_Status i) (st_Slug s))
            (thenA (broadcast e) (again x v'))) (\<lambda>v''. set v' \<subseteq> set v'')" if "ow_ID x = ow_ID i" for x e
          unfolding thenA_def
          by (rule sure_bind [OF sure_history], rule sure_bind [OF yields_basic(1) [of "\<lambda>r. \<exists>x. r = Inr x \<and> True"]])
            (use again v that known [OF i] in \<open>auto simp: grows_def\<close>)
        show ?thesis unfolding Some option.case
        proof (rule sure_bind [OF moved], goal_cases)
          case (1 r)
          then show ?case by (cases r) (simp_all only: sum.case sure_stay rest)
        qed
      qed (simp add: sure_stay)
    qed
  qed (simp add: sure_stay)
qed

lemma sure_each:
  assumes "\<And>i v'. i \<in> set subs \<Longrightarrow> set v \<subseteq> set v' \<Longrightarrow> sure F I (close i v') (\<lambda>v''. set v' \<subseteq> set v'')"
  shows "set v \<subseteq> set v' \<Longrightarrow> sure F I (autoCloseEach close subs v') (\<lambda>v''. set v' \<subseteq> set v'')"
  using assms
proof (induction subs arbitrary: v')
  case (Cons i subs)
  then have "sure F I (close i v') (\<lambda>v''. set v' \<subseteq> set v'')" by simp
  then show ?case unfolding autoCloseEach.simps
  proof (rule sure_bind)
    fix v''
    assume "set v' \<subseteq> set v''"
    with Cons have "sure F I (autoCloseEach close subs v'') (\<lambda>w. set v'' \<subseteq> set w)" by auto
    with \<open>set v' \<subseteq> set v''\<close> show "sure F I (autoCloseEach close subs v'') (\<lambda>w. set v' \<subseteq> set w)"
      unfolding yields_def by blast
  qed
qed (simp add: sure_stay)

lemma sure_subs:
  assumes "grows again v" and "set v \<subseteq> set v'"
  shows "sure F I (autoCloseSubIssues again w u p v') (\<lambda>v''. set v' \<subseteq> set v'')"
  unfolding autoCloseSubIssues_def
proof (rule sure_bind)
  show "sure F I (at_best [] (readT (ListSubIssues p))) (\<lambda>subs. \<forall>i \<in> set subs. ok i)"
    by (rule sure_read) (auto simp: ListSubIssues_def sub_issues_def intro: stored)
next
  fix subs
  assume subs: "\<forall>i \<in> set subs. ok i"
  have "sure F I (autoCloseSubIssue again w u i v') (\<lambda>v''. set v' \<subseteq> set v'')" if "i \<in> set subs" "set v \<subseteq> set v'" for i v'
  proof -
    have "sure F I (if ended then returnA v' else moveIssueToCompleted again w u i v') (\<lambda>v''. set v' \<subseteq> set v'')" for ended
      using sure_stay sure_move [OF assms(1) _ that(2)] subs that(1) by (cases ended) simp_all
    then show ?thesis unfolding autoCloseSubIssue_def by (simp add: sure_stay sure_bind [OF sure_terminal])
  qed
  then show "sure F I (autoCloseEach (autoCloseSubIssue again w u) subs v') (\<lambda>v''. set v' \<subseteq> set v'')"
    using assms(2) by (rule sure_each)
qed

lemma sure_parent:
  assumes "grows again v" and "set v \<subseteq> set v'"
  shows "sure F I (maybeAutoCloseParent again w u p v') (\<lambda>v''. set v' \<subseteq> set v'')"
  unfolding maybeAutoCloseParent_def
proof (rule sure_bind)
  show "sure F I (at_best None (readT (issue_GetByID p))) (\<lambda>r. \<forall>i. r = Some i \<longrightarrow> ok i)"
    by (rule sure_read) (auto simp: issue_GetByID_def find_Some_iff intro!: stored)
next
  have known: "sure F I (at_best z (readT f)) (\<lambda>r. True)" for z :: 'b and f by (rule sure_read) simp_all
  fix r
  assume "\<forall>i. r = Some i \<longrightarrow> ok i"
  then show "sure F I (case r of None \<Rightarrow> returnA v'
     | Some parent \<Rightarrow> if ow_WorkspaceID parent \<noteq> w \<or> ow_ID parent \<in> set v' then returnA v' else
       bindA (at_best None (readT (team_GetByID (iss_TeamID parent)))) (\<lambda>team. case team of
         None \<Rightarrow> returnA v'
       | Some t \<Rightarrow> if \<not> te_ParentAutoCloseEnabled t then returnA v' else
         bindA (at_best (0, 0) (readT (CountSubIssues (ow_ID parent)))) (\<lambda>(total, closed).
           if total = 0 \<or> total \<noteq> closed then returnA v'
           else moveIssueToCompleted again w u parent v'))) (\<lambda>v''. set v' \<subseteq> set v'')"
    by (auto intro!: sure_stay sure_bind [OF known] sure_move [OF assms(1)] assms(2) split: option.split)
qed

lemma sure_automation:
  assumes "card (set ids - set v) < n" and "ow_ID i \<in> set ids"
  shows "sure F I (applyStatusAutomation n w u i v) (\<lambda>v'. set v \<subseteq> set v')"
  using assms
proof (induction n arbitrary: i v)
  case (Suc n)
  let ?again = "applyStatusAutomation n w u" and ?v = "ow_ID i # v"
  show ?case
  proof (cases "ow_ID i \<in> set v")
    case False
    have "card (set ids - set v') < n" if "set ?v \<subseteq> set v'" for v'
    proof -
      have "set ids - set v' \<subset> set ids - set v" using that False Suc.prems(2) by auto
      then have "card (set ids - set v') < card (set ids - set v)" by (simp add: psubset_card_mono)
      with Suc.prems(1) show ?thesis by simp
    qed
    then have grows: "grows ?again ?v" unfolding grows_def using Suc.IH by simp
    have sub: "set v \<subseteq> set ?v" by auto
    have weaker: "sure F I a (\<lambda>v'. set v \<subseteq> set v')" if "set ?v \<subseteq> set v'" "sure F I a (\<lambda>v''. set v' \<subseteq> set v'')" for a v'
      using that sub unfolding yields_def by (meson subset_trans)
    have team: "sure F I (at_best None (readT f)) (\<lambda>r. True)" for f :: "tracker \<Rightarrow> Team option" by (rule sure_read) simp_all
    have subs: "sure F I (case team of None \<Rightarrow> returnA ?v | Some t \<Rightarrow> if te_SubIssueAutoCloseEnabled t
        then autoCloseSubIssues ?again w u (ow_ID i) ?v else returnA ?v) (\<lambda>v'. set ?v \<subseteq> set v')" for team
      using sure_subs [OF grows subset_refl] sure_stay [of ?v] by (simp split: option.split)
    have down: "sure F I (if c \<noteq> Completed then returnA ?v else bindA (at_best None (readT (team_GetByID (iss_TeamID i)))) (\<lambda>team.
        case team of None \<Rightarrow> returnA ?v | Some t \<Rightarrow> if te_SubIssueAutoCloseEnabled t
        then autoCloseSubIssues ?again w u (ow_ID i) ?v else returnA ?v)) (\<lambda>v'. set ?v \<subseteq> set v')" for c
      using sure_bind [OF team subs, of "team_GetByID (iss_TeamID i)"] sure_stay [of ?v] by (cases "c = Completed") (simp_all only: if_not_P if_P not_not simp_thms)
    have up: "sure F I (case iss_ParentID i of None \<Rightarrow> returnA v' | Some p \<Rightarrow> maybeAutoCloseParent ?again w u p v')
        (\<lambda>v''. set v \<subseteq> set v'')" if "set ?v \<subseteq> set v'" for v'
      using weaker [OF that sure_stay] weaker [OF that sure_parent [OF grows that]] by (simp split: option.split)
    show ?thesis using False
      by (simp only: applyStatusAutomation.simps Let_def if_False)
        (rule sure_bind [OF sure_category], rule sure_bind [OF down], erule up)
  qed (simp add: sure_stay)
qed simp

end

section \<open>It ends\<close>

lemma issue_Update_ids:
  "issue_Update now i d = Inr (x, d') \<Longrightarrow> map ow_ID (tr_issues d') = map ow_ID (tr_issues d)"
  by (auto simp: issue_Update_def update_issues_def Let_def update_where_def updated_stamps_def assigned_row_def
      split: option.split_asm sum.split_asm list.split_asm)

interpretation ending: automation_invariant True "\<lambda>d. set (map ow_ID (tr_issues d)) \<subseteq> set ids" "\<lambda>i. ow_ID i \<in> set ids" ids
  for ids
proof unfold_locales
  fix d d' :: tracker and i x :: Issue and now s
  assume "set (map ow_ID (tr_issues d)) \<subseteq> set ids"
  then show "issue_Update now (completed_issue s i) d = Inr (x, d') \<Longrightarrow> set (map ow_ID (tr_issues d')) \<subseteq> set ids"
    using issue_Update_ids by metis
qed (auto simp: same_issues_def)

text \<open>
  (C32) The automation ends. From any hierarchy, even a cyclic one, and for any issue, with calls of the
  store failing at any point and other requests doing anything but creating issues, the recursion over
  sub-issues and parents gives a result with the fuel \<open>runStatusAutomation\<close> has, two more than there are issues:
  every level of the recursion visits another issue, and what has been visited is not left again.
\<close>

theorem automation_terminates:
  assumes "\<forall>(dt, g, fault) \<in> set (dk_script k). \<forall>d. set (map ow_ID (tr_issues (g d))) \<subseteq> set (map ow_ID (tr_issues d))"
  shows "\<exists>visited. fst (applyStatusAutomation (length (tr_issues (dk_db k)) + 2) w u i [] k) = Inr visited"
proof -
  let ?ids = "ow_ID i # map ow_ID (tr_issues (dk_db k))"
  have "card (set ?ids) < length (tr_issues (dk_db k)) + 2"
    using card_length [of ?ids] by simp
  moreover have "rely (\<lambda>d. set (map ow_ID (tr_issues d)) \<subseteq> set ?ids) k" unfolding rely_def
  proof clarify
    fix dt g fault d x
    assume step: "(dt, g, fault) \<in> set (dk_script k)" and sub: "set (map ow_ID (tr_issues d)) \<subseteq> set ?ids"
      and x: "x \<in> set (map ow_ID (tr_issues (g d)))"
    have "set (map ow_ID (tr_issues (g d))) \<subseteq> set (map ow_ID (tr_issues d))" using bspec [OF assms step] by blast
    with sub x show "x \<in> set ?ids" by blast
  qed
  then have "amid True (\<lambda>d. set (map ow_ID (tr_issues d)) \<subseteq> set ?ids) k" by (auto simp: amid_def)
  moreover have "sure True (\<lambda>d. set (map ow_ID (tr_issues d)) \<subseteq> set ?ids)
      (applyStatusAutomation (length (tr_issues (dk_db k)) + 2) w u i []) (\<lambda>v. set [] \<subseteq> set v)"
    by (rule ending.sure_automation) (use calculation(1) in simp_all)
  ultimately show ?thesis unfolding yields_def by blast
qed

lemma delete_issues_ids: "set (map ow_ID (tr_issues (delete_issues P d))) \<subseteq> set (map ow_ID (tr_issues d))"
  by (auto simp: delete_issues_def Let_def delete_where_def)

theorem automation_terminates_witness:
  "\<exists>visited. fst (applyStatusAutomation 4 1 7 (completed_issue finished (sample_issue 11 1 ''CO-1'' (Some 12))) []
     (desk0\<lparr>dk_script := [(1, delete_issues (\<lambda>i. ow_ID i = 12), None), (0, id, Some ErrDatabase)]\<rparr>)) = Inr visited"
proof -
  let ?k = "desk0\<lparr>dk_script := [(1, delete_issues (\<lambda>i. ow_ID i = 12), None), (0, id, Some ErrDatabase)]\<rparr>"
  have "length (tr_issues (dk_db ?k)) + 2 = 4" by (simp add: desk0_def tracker0_def)
  then show ?thesis
    using automation_terminates [of ?k 1 7 "completed_issue finished (sample_issue 11 1 ''CO-1'' (Some 12))"] delete_issues_ids
    by (simp only: desk0_def desk.simps) auto
qed

section \<open>It only completes open issues\<close>

text \<open>An issue without the columns of its status and the times the store sets with it.\<close>

definition apart_from_status :: "Issue \<Rightarrow> Issue" where
  "apart_from_status i = i\<lparr>iss_Status := [], iss_StatusID := None, iss_StartedAt := None, iss_CompletedAt := None,
     iss_CancelledAt := None, iss_UpdatedAt := 0\<rparr>"

text \<open>\<open>r\<close> is the row \<open>r0\<close>, or \<open>r0\<close> was open and \<open>r\<close> has the final status of its team, the rest being the same.\<close>

definition advanced :: "tracker \<Rightarrow> Issue \<Rightarrow> Issue \<Rightarrow> bool" where
  "advanced d r0 r \<longleftrightarrow> r = r0 \<or> \<not> terminal_category (category_in d r0) \<and> apart_from_status r = apart_from_status r0
     \<and> (\<exists>s. finishing_in d (iss_TeamID r0) s \<and> iss_Status r = st_Slug s \<and> iss_StatusID r = Some (st_ID s))"

lemma in_cong:
  assumes "tr_statuses d' = tr_statuses d"
  shows "category_in d' = category_in d" and "finishing_in d' = finishing_in d"
proof -
  have "status_GetByID s d' = status_GetByID s d" "GetByTeamAndSlug t slug d' = GetByTeamAndSlug t slug d"
    "status_ListByTeam t d' = status_ListByTeam t d" for s t slug
    using assms by (simp_all add: status_GetByID_def GetByTeamAndSlug_def status_ListByTeam_def)
  then show "category_in d' = category_in d" "finishing_in d' = finishing_in d"
    by (intro ext; simp add: category_in_def finishing_in_def cong: option.case_cong)+
qed

lemma apart_place:
  assumes "apart_from_status r = apart_from_status r0"
  shows "ow_ID r = ow_ID r0" and "iss_TeamID r = iss_TeamID r0" and "iss_Triaged r = iss_Triaged r0"
  using assms by (cases r; cases r0; simp add: apart_from_status_def)+

lemma apart_stamps:
  "iss_Triaged i = iss_Triaged old \<Longrightarrow> apart_from_status (updated_stamps now d old i) = apart_from_status i"
  by (cases i) (simp add: updated_stamps_def Let_def apart_from_status_def)

lemma apart_assigned:
  "apart_from_status i = apart_from_status old \<Longrightarrow> apart_from_status (assigned_row now i old) = apart_from_status old"
  by (cases i; cases old) (simp add: assigned_row_def apart_from_status_def)

lemma advanced_place: "advanced d r0 r \<Longrightarrow> apart_from_status r = apart_from_status r0"
  by (auto simp: advanced_def)

lemma advanced_complete:
  assumes "advanced d r0 i" and "advanced d r0 r" and "\<not> terminal_category (category_in d i)" and "finishing_in d (iss_TeamID i) s"
  shows "advanced d r0 (updated_stamps now d' r (assigned_row now (completed_issue s i) r))"
proof -
  have unended: "\<not> terminal_category (category_in d r0)" using assms(1,3) by (auto simp: advanced_def)
  have i: "apart_from_status i = apart_from_status r0" "apart_from_status r = apart_from_status r0"
    using assms(1,2) by (simp_all add: advanced_place)
  moreover have "finishing_in d (iss_TeamID r0) s" using assms(4) apart_place(2) [OF i(1)] by simp
  moreover have "apart_from_status (completed_issue s i) = apart_from_status i"
    by (simp add: apart_from_status_def completed_issue_def)
  then have "apart_from_status (assigned_row now (completed_issue s i) r) = apart_from_status r"
    using i by (intro apart_assigned) simp
  then have "apart_from_status (updated_stamps now d' r (assigned_row now (completed_issue s i) r)) = apart_from_status r0"
    using i apart_place(3) [OF i(1)] apart_place(3) [OF i(2)]
    by (subst apart_stamps) (simp_all add: assigned_row_def completed_issue_def)
  ultimately show ?thesis using unended unfolding advanced_def by (auto simp: assigned_row_def completed_issue_def)
qed

text \<open>The rows of \<open>d\<close> are those of \<open>d0\<close>, some of them advanced.\<close>

definition advanced_rows :: "tracker \<Rightarrow> tracker \<Rightarrow> bool" where
  "advanced_rows d0 d \<longleftrightarrow> distinct (map ow_ID (tr_issues d0)) \<and> tr_statuses d = tr_statuses d0
     \<and> list_all2 (advanced d0) (tr_issues d0) (tr_issues d)"

definition advanced_issue :: "tracker \<Rightarrow> Issue \<Rightarrow> bool" where
  "advanced_issue d0 i \<longleftrightarrow> (\<exists>r0 \<in> set (tr_issues d0). advanced d0 r0 i)"

lemma advanced_rows_close:
  assumes d: "advanced_rows d0 d" and r0: "r0 \<in> set (tr_issues d0)" "advanced d0 r0 i"
    and unended: "\<not> terminal_category (category_in d0 i)" and s: "finishing_in d0 (iss_TeamID i) s"
    and upd: "issue_Update now (completed_issue s i) d = Inr (x, d')"
  shows "advanced_rows d0 d'"
proof -
  let ?f = "\<lambda>r. if ow_ID r = ow_ID i then updated_stamps now d r (assigned_row now (completed_issue s i) r) else r"
  have d': "tr_issues d' = map ?f (tr_issues d)" "tr_statuses d' = tr_statuses d"
    using upd by (auto simp: issue_Update_def update_issues_Inr update_where_def completed_issue_def
        split: option.split_asm sum.split_asm)
  have "advanced d0 q (?f r)" if q: "q \<in> set (tr_issues d0)" "advanced d0 q r" for q r
  proof (cases "ow_ID r = ow_ID i")
    case True
    then have "ow_ID q = ow_ID r0"
      using apart_place(1) [OF advanced_place [OF q(2)]] apart_place(1) [OF advanced_place [OF r0(2)]] by simp
    then have "q = r0" using d q(1) r0(1) unfolding advanced_rows_def by (metis distinct_map inj_onD)
    then show ?thesis using True advanced_complete [OF r0(2) _ unended s] q(2) by simp
  qed (use q in simp)
  then have "list_all2 (\<lambda>q r. advanced d0 q (?f r)) (tr_issues d0) (tr_issues d)"
    using d unfolding advanced_rows_def by (metis (no_types, lifting) list.rel_mono_strong)
  then show ?thesis using d unfolding advanced_rows_def d' by (simp add: list_all2_map2)
qed

lemma list_all2_origin: "list_all2 P xs ys \<Longrightarrow> y \<in> set ys \<Longrightarrow> \<exists>x \<in> set xs. P x y"
  by (induction rule: list_all2_induct) auto

interpretation advancing: automation_invariant False "advanced_rows d0" "advanced_issue d0" "a # map ow_ID (tr_issues d0)"
  for d0 a
proof unfold_locales
  show "advanced_issue d0 r" if "advanced_rows d0 d" "r \<in> set (tr_issues d)" for d r
    using list_all2_origin that unfolding advanced_rows_def advanced_issue_def by fast
  show "ow_ID r \<in> set (a # map ow_ID (tr_issues d0))" if "advanced_issue d0 r" for r
    using that apart_place(1) [OF advanced_place] by (fastforce simp: advanced_issue_def)
  show "advanced_rows d0 d'" if "advanced_rows d0 d" "same_issues d d'" for d d'
    using that by (simp add: advanced_rows_def same_issues_def)
  show "advanced_rows d0 d'" if "advanced_rows d0 d" "advanced_issue d0 i"
      "False \<or> (\<exists>e. advanced_rows d0 e \<and> \<not> terminal_category (category_in e i))"
      "\<exists>e. advanced_rows d0 e \<and> finishing_in e (iss_TeamID i) s"
      "issue_Update now (completed_issue s i) d = Inr (x, d')" for d i s now x d'
  proof -
    from that(3,4) have "\<not> terminal_category (category_in d0 i)" "finishing_in d0 (iss_TeamID i) s"
      using in_cong unfolding advanced_rows_def by metis+
    with that(1,2,5) show ?thesis unfolding advanced_issue_def by (blast intro: advanced_rows_close)
  qed
qed

text \<open>
  (C33) The automation only completes open issues. When other requests leave issues and statuses alone and no
  call of the store fails, each row after the automation is the row before it, or the row before was open
  (its category neither completed nor cancelled) and has been moved to the final status of its team: the one
  called \<open>done\<close>, or the first that is completed. Titles, assignees, parents and every other column are those of
  before, and no finished or cancelled issue is touched.
\<close>

theorem automation_only_completes:
  assumes "\<forall>(dt, g, fault) \<in> set (dk_script k). fault = None \<and> (\<forall>d. same_issues d (g d))"
    and "distinct (map ow_ID (tr_issues (dk_db k)))"
  shows "list_all2 (advanced (dk_db k)) (tr_issues (dk_db k)) (tr_issues (dk_db (snd (runStatusAutomation w u i k))))"
proof -
  let ?n = "length (tr_issues (dk_db k)) + 2" and ?ids = "ow_ID i # map ow_ID (tr_issues (dk_db k))"
  have "advanced_rows (dk_db k) (dk_db k)"
    using assms(2) by (simp add: advanced_rows_def list_all2_refl advanced_def)
  moreover have "rely (advanced_rows (dk_db k)) k"
    unfolding rely_def using assms(1) advancing.frame by fast
  ultimately have "amid False (advanced_rows (dk_db k)) k" using assms(1) by (auto simp: amid_def)
  moreover have "card (set ?ids) < ?n" using card_length [of ?ids] by simp
  then have "sure False (advanced_rows (dk_db k)) (applyStatusAutomation ?n w u i []) (\<lambda>v. set [] \<subseteq> set v)"
    using advancing.sure_automation [of "ow_ID i" "dk_db k" "[]" ?n i w u] by simp
  ultimately have "advanced_rows (dk_db k) (dk_db (snd (applyStatusAutomation ?n w u i [] k)))"
    unfolding yields_def amid_def by blast
  then show ?thesis
    by (simp add: advanced_rows_def runStatusAutomation_def bindA_def getA_def ignore_def split_beta)
qed

theorem automation_only_completes_witness:
  "list_all2 (advanced tracker0) (tr_issues tracker0)
     (tr_issues (dk_db (snd (runStatusAutomation 1 7 (completed_issue finished (sample_issue 11 1 ''CO-1'' None)) desk0))))"
  using automation_only_completes [of desk0 1 7 "completed_issue finished (sample_issue 11 1 ''CO-1'' None)"]
  by (simp add: desk0_def tracker0_def sample_issue_def)

end
