(* ===== verification/Update_Properties.thy ===== *)
theory Update_Properties
  imports Automation_Properties
begin

text \<open>
  Updates that fail, issues that are created and the people who are told.
\<close>

section \<open>Actions that only write history\<close>

text \<open>Alone, the action sends nothing and changes no table but the history, which it extends.\<close>

definition quiet :: "'a tact \<Rightarrow> bool" where
  "quiet a \<longleftrightarrow> (\<forall>k. dk_script k = [] \<longrightarrow> dk_script (snd (a k)) = [] \<and> dk_sent (snd (a k)) = dk_sent k
     \<and> (\<exists>h. dk_db (snd (a k)) = (dk_db k)\<lparr>tr_history := tr_history (dk_db k) @ h\<rparr>))"

named_theorems quieting \<open>actions that only write history\<close>

lemma same_history [simp]: "d\<lparr>tr_history := tr_history d\<rparr> = d"
  by simp

lemma quietI:
  "(\<And>k. dk_script k = [] \<Longrightarrow> dk_script (snd (a k)) = [] \<and> dk_sent (snd (a k)) = dk_sent k \<and> dk_db (snd (a k)) = dk_db k) \<Longrightarrow> quiet a"
  unfolding quiet_def by (metis append_Nil2 same_history)

lemma quiet_basic [quieting]:
  "quiet (returnA x)" "quiet (failA e)" "quiet (failT s)" "quiet freshT" "quiet (readT f)" "quiet (queryT g)"
  by (rule quietI; simp add: failA_def alone split: sum.split)+

lemma quiet_bind [quieting]:
  assumes "quiet a" and "\<And>x. quiet (f x)"
  shows "quiet (bindA a f)"
  unfolding quiet_def
proof (intro allI impI)
  fix k :: desk
  assume k: "dk_script k = []"
  obtain h where a: "dk_script (snd (a k)) = []" "dk_sent (snd (a k)) = dk_sent k"
      "dk_db (snd (a k)) = (dk_db k)\<lparr>tr_history := tr_history (dk_db k) @ h\<rparr>"
    using assms(1) k unfolding quiet_def by blast
  show "dk_script (snd (bindA a f k)) = [] \<and> dk_sent (snd (bindA a f k)) = dk_sent k
      \<and> (\<exists>h. dk_db (snd (bindA a f k)) = (dk_db k)\<lparr>tr_history := tr_history (dk_db k) @ h\<rparr>)"
  proof (cases "fst (a k)")
    case (Inl e)
    then have "bindA a f k = (Inl e, snd (a k))" by (simp add: alone split_beta split: prod.split)
    with a show ?thesis by auto
  next
    case (Inr x)
    then have run: "bindA a f k = f x (snd (a k))" by (simp add: bindA_def split_beta)
    obtain h' where "dk_script (snd (f x (snd (a k)))) = []" "dk_sent (snd (f x (snd (a k)))) = dk_sent k"
        "dk_db (snd (f x (snd (a k)))) = (dk_db (snd (a k)))\<lparr>tr_history := tr_history (dk_db (snd (a k))) @ h'\<rparr>"
      using assms(2) [of x] a(1,2) unfolding quiet_def by metis
    with a(3) show ?thesis unfolding run by (intro conjI exI [of _ "h @ h'"]) simp_all
  qed
qed

lemma quiet_attempt [quieting]: "quiet a \<Longrightarrow> quiet (attempt a)" "quiet a \<Longrightarrow> quiet (ignore a)"
  by (simp_all add: quiet_def alone)

lemma quiet_found [quieting]:
  "quiet a \<Longrightarrow> quiet (foundT s a)" "quiet a \<Longrightarrow> quiet (despite z a)" "quiet b \<Longrightarrow> quiet (at_best y b)"
  by (auto simp: foundT_def despite_def at_best_def intro!: quieting split: sum.split option.split)

lemma quiet_then [quieting]: "quiet a \<Longrightarrow> quiet b \<Longrightarrow> quiet (thenA a b)"
  by (simp add: thenA_def quieting)

lemma quiet_history [quieting]: "quiet (recordHistory i u field old new)"
proof -
  have "quiet (writeT (\<lambda>now. history_Create now j i u field (Some old) (Some new)))" for j
    unfolding quiet_def
  proof (intro allI impI)
    fix k :: desk
    assume k: "dk_script k = []"
    show "dk_script (snd (writeT (\<lambda>now. history_Create now j i u field (Some old) (Some new)) k)) = []
        \<and> dk_sent (snd (writeT (\<lambda>now. history_Create now j i u field (Some old) (Some new)) k)) = dk_sent k
        \<and> (\<exists>h. dk_db (snd (writeT (\<lambda>now. history_Create now j i u field (Some old) (Some new)) k))
          = (dk_db k)\<lparr>tr_history := tr_history (dk_db k) @ h\<rparr>)"
      using k by (cases "history_Create (dk_now k) j i u field (Some old) (Some new) (dk_db k)")
        (auto simp: alone history_Create_def split: if_splits intro: exI [of _ "[]"])
  qed
  then show ?thesis unfolding recordHistory_def by (intro quieting)
qed

lemma quiet_step [quieting]: "quiet (changed u field name old new s)"
  unfolding changed_def by (intro quieting)

lemma quiet_reference [quieting]: "quiet (changed_reference u name field i s)"
  by (auto simp: changed_reference_def Let_def intro!: quieting split: if_split)

lemma quiet_validate [quieting]: "quiet (validateParentID S w i raw)"
  by (auto simp: validateParentID_def intro!: quieting split: if_split prod.split)

lemma quiet_fields: "quiet (updated_fields S w u req s)"
  by (auto simp: updated_fields_def updateTitle_def updateDescription_def updateStatus_def updateStatusID_def
      updateLegacyStatus_def updatePriority_def updateAssignee_def loadOldAssigneeSet_def updateProject_def
      updateCycle_def updateParent_def updateDueDate_def updateSortOrder_def Let_def
      intro!: quieting split: option.split prod.split if_split)

section \<open>Refused updates\<close>

definition succeeds :: "'a tact \<Rightarrow> bool" where
  "succeeds a \<longleftrightarrow> (\<forall>k. \<exists>x. fst (a k) = Inr x)"

named_theorems succeeding \<open>actions that return no error\<close>

lemma succeeds_basic [succeeding]:
  "succeeds (returnA x)" "succeeds freshT" "succeeds (broadcast e)" "succeeds (attempt a)" "succeeds (ignore a)"
  by (simp_all add: succeeds_def alone broadcast_def)

lemma succeeds_bind [succeeding]: "succeeds a \<Longrightarrow> (\<And>x. succeeds (f x)) \<Longrightarrow> succeeds (bindA a f)"
  unfolding succeeds_def by (metis (no_types, lifting) bindA_def case_prod_conv old.sum.simps(6) prod.collapse)

lemma succeeds_then [succeeding]: "succeeds a \<Longrightarrow> succeeds b \<Longrightarrow> succeeds (thenA a b)"
  by (simp add: thenA_def succeeding)

lemma succeeds_when [succeeding]: "succeeds a \<Longrightarrow> succeeds (whenA b a)"
  by (simp add: whenA_def succeeding)

lemma succeeds_each [succeeding]: "(\<And>x. succeeds (f x)) \<Longrightarrow> succeeds (eachA f xs)"
  by (induction xs) (simp_all add: succeeding)

lemma succeeds_best [succeeding]: "succeeds (at_best z a)" "succeeds (despite y b)"
  by (simp_all add: at_best_def despite_def succeeding)

lemma succeeds_notify [succeeding]: "succeeds (notifyIssue u i t s link)" "succeeds (notify u i t s)" "succeeds (recordHistory j u f old new)"
  by (auto simp: notifyIssue_def notify_def announce_def recordHistory_def Let_def intro!: succeeding split: sum.split if_split)

lemma succeeds_recipients [succeeding]: "succeeds (issueNotificationRecipients i u b)" "succeeds (runStatusAutomation w u i)"
proof -
  have "succeeds (getA f)" for f :: "desk \<Rightarrow> 'b" by (simp add: succeeds_def getA_def)
  then show "succeeds (issueNotificationRecipients i u b)" "succeeds (runStatusAutomation w u i)"
    unfolding issueNotificationRecipients_def runStatusAutomation_def by (intro succeeding)+
qed

lemma succeeds_pairs [succeeding]: "succeeds (updateLabels S u raw s)" "succeeds (updateAssignees S u old raw s)"
  by (auto simp: updateLabels_def updateAssignees_def changed_def loadOldAssigneeSet_def Let_def intro!: succeeding
      split: option.split if_split prod.split)

lemma succeeds_send [succeeding]: "succeeds (sendUpdateNotifications i u c)"
  by (auto simp: sendUpdateNotifications_def notify_each_def intro!: succeeding)

text \<open>An action whose errors leave everything but the history as it is.\<close>

definition harmless :: "'a tact \<Rightarrow> bool" where
  "harmless a \<longleftrightarrow> (\<forall>k e. dk_script k = [] \<longrightarrow> fst (a k) = Inl e \<longrightarrow> dk_sent (snd (a k)) = dk_sent k
     \<and> (\<exists>h. dk_db (snd (a k)) = (dk_db k)\<lparr>tr_history := tr_history (dk_db k) @ h\<rparr>))"

lemma harmless_bind:
  assumes "quiet a" and "\<And>x. harmless (f x)"
  shows "harmless (bindA a f)"
  unfolding harmless_def
proof (intro allI impI)
  fix k :: desk and e
  assume k: "dk_script k = []" and fails: "fst (bindA a f k) = Inl e"
  obtain h where a: "dk_script (snd (a k)) = []" "dk_sent (snd (a k)) = dk_sent k"
      "dk_db (snd (a k)) = (dk_db k)\<lparr>tr_history := tr_history (dk_db k) @ h\<rparr>"
    using assms(1) k unfolding quiet_def by blast
  show "dk_sent (snd (bindA a f k)) = dk_sent k
      \<and> (\<exists>h. dk_db (snd (bindA a f k)) = (dk_db k)\<lparr>tr_history := tr_history (dk_db k) @ h\<rparr>)"
  proof (cases "fst (a k)")
    case (Inl e')
    then have "bindA a f k = (Inl e', snd (a k))" by (simp add: alone split_beta split: prod.split)
    with a show ?thesis by auto
  next
    case (Inr x)
    then have run: "bindA a f k = f x (snd (a k))" by (simp add: bindA_def split_beta)
    obtain h' where "dk_sent (snd (f x (snd (a k)))) = dk_sent k"
        "dk_db (snd (f x (snd (a k)))) = (dk_db (snd (a k)))\<lparr>tr_history := tr_history (dk_db (snd (a k))) @ h'\<rparr>"
      using assms(2) [of x] a(1,2) fails unfolding harmless_def run by metis
    with a(3) show ?thesis unfolding run by (intro conjI exI [of _ "h @ h'"]) simp_all
  qed
qed

lemma harmless_store:
  assumes "\<And>x. succeeds (f x)"
  shows "harmless (bindA (storeT g) f)"
  unfolding harmless_def
proof (intro allI impI)
  fix k :: desk and e
  assume k: "dk_script k = []" and fails: "fst (bindA (storeT g) f k) = Inl e"
  show "dk_sent (snd (bindA (storeT g) f k)) = dk_sent k
      \<and> (\<exists>h. dk_db (snd (bindA (storeT g) f k)) = (dk_db k)\<lparr>tr_history := tr_history (dk_db k) @ h\<rparr>)"
  proof (cases "g (dk_now k) (dk_db k)")
    case (Inl e')
    then show ?thesis using k by (auto simp: alone intro: exI [of _ "[]"])
  next
    case (Inr p)
    obtain x d where "p = (x, d)" by (cases p)
    with Inr k have "bindA (storeT g) f k = f x (k\<lparr>dk_db := d\<rparr>)" by (simp add: alone)
    with fails assms [of x] show ?thesis by (simp add: succeeds_def) (metis Inl_Inr_False)
  qed
qed

text \<open>
  (C35) A refused update changes no issue. When \<open>Update\<close> of an issue returns an error (the issue or the parent is
  not found, the parent closes a cycle, or the statement fails), and no other request has run meanwhile,
  no event has been sent and every table is as before, with one exception that the code does not intend: the
  history may have got entries for the changes that were not made, because each field is recorded before the
  later fields are checked and before the issue is stored.
\<close>

theorem refused_update_changes_no_issue:
  assumes "dk_script k = []" and "fst (updateIssue S w u identifier req k) = Inl e"
  shows "dk_sent (snd (updateIssue S w u identifier req k)) = dk_sent k
    \<and> (\<exists>h. dk_db (snd (updateIssue S w u identifier req k)) = (dk_db k)\<lparr>tr_history := tr_history (dk_db k) @ h\<rparr>)"
proof -
  have "harmless (updateIssue S w u identifier req)"
    unfolding updateIssue_def
    by (intro harmless_bind quieting quiet_fields harmless_store succeeding)
  with assms show ?thesis unfolding harmless_def by blast
qed

theorem refused_update_changes_no_issue_witness:
  "dk_sent (snd (updateIssue tracker_service0 1 8 ''CO-1'' (no_update\<lparr>ur_Title := Some ''Z'', ur_ParentID := Some ''i12''\<rparr>) desk0)) = []
    \<and> (\<exists>h. dk_db (snd (updateIssue tracker_service0 1 8 ''CO-1''
      (no_update\<lparr>ur_Title := Some ''Z'', ur_ParentID := Some ''i12''\<rparr>) desk0)) = tracker0\<lparr>tr_history := h\<rparr>)"
proof -
  let ?req = "no_update\<lparr>ur_Title := Some ''Z'', ur_ParentID := Some ''i12''\<rparr>"
  have "fst (updateIssue tracker_service0 1 8 ''CO-1'' ?req desk0) = Inl (Errorf ''parent would create a sub-issue cycle'')"
    by code_simp
  then show ?thesis
    using refused_update_changes_no_issue [of desk0 tracker_service0 1 8 "''CO-1''" ?req]
    by (simp add: desk0_def tracker0_def)
qed

text \<open>The entry that remains.\<close>

lemma refused_update_leaves_history:
  "map ih_Field (tr_history (dk_db (snd (updateIssue tracker_service0 1 8 ''CO-1''
    (no_update\<lparr>ur_Title := Some ''Z'', ur_ParentID := Some ''i12''\<rparr>) desk0)))) = [''title'']"
  by code_simp

section \<open>Created issues\<close>

lemma bind_Inr: "bindA a f k = (Inr y, k') \<longleftrightarrow> (\<exists>x k1. a k = (Inr x, k1) \<and> f x k1 = (Inr y, k'))"
  by (auto simp: bindA_def split: prod.split sum.split)

lemma found_Inr:
  "dk_script k = [] \<Longrightarrow> foundT s (readT f) k = (Inr x, k') \<longleftrightarrow> f (dk_db k) = Some x \<and> k' = k"
  by (auto simp: alone split: option.split)

lemma read_Inr: "dk_script k = [] \<Longrightarrow> readT f k = (Inr x, k') \<longleftrightarrow> x = f (dk_db k) \<and> k' = k"
  by (auto simp: alone)

lemma best_Inr: "dk_script k = [] \<Longrightarrow> at_best z (readT f) k = (Inr x, k') \<longleftrightarrow> x = f (dk_db k) \<and> k' = k"
  by (auto simp: alone)

lemma despite_Inr: "dk_script k = [] \<Longrightarrow> despite z (readT f) k = (Inr x, k') \<longleftrightarrow> x = f (dk_db k) \<and> k' = k"
  by (auto simp: despite_def alone)

lemma then_read: "dk_script k = [] \<Longrightarrow> thenA (readT f) b k = b k"
  by (simp add: alone)

lemma validated_parent:
  assumes "dk_script k = []" and "validateParentID S w uuid_Nil raw k = (Inr p, k')"
  shows "k' = k \<and> (\<forall>q. p = Some q \<longrightarrow> (\<exists>j \<in> set (tr_issues (dk_db k)). ow_ID j = q \<and> ow_WorkspaceID j = w))"
  using assms by (auto simp: validateParentID_def bind_Inr found_Inr basic_alone issue_GetByID_def find_Some_iff
      split: if_splits prod.splits)

text \<open>The columns a new issue keeps while its parent and its status are found.\<close>

definition filed_like :: "Issue \<Rightarrow> Issue \<Rightarrow> bool" where
  "filed_like i j \<longleftrightarrow> ow_ID j = ow_ID i \<and> ow_WorkspaceID j = ow_WorkspaceID i \<and> iss_TeamID j = iss_TeamID i
     \<and> iss_Number j = iss_Number i \<and> iss_Identifier j = iss_Identifier i \<and> iss_Triaged j = iss_Triaged i"

lemma new_parent_files:
  assumes "dk_script k = []" and "new_parent S w raw i k = (Inr j, k')" and "iss_ParentID i = None"
  shows "k' = k \<and> filed_like i j \<and> iss_StatusID j = iss_StatusID i
    \<and> (\<forall>q. iss_ParentID j = Some q \<longrightarrow> (\<exists>r \<in> set (tr_issues (dk_db k)). ow_ID r = q \<and> ow_WorkspaceID r = w))"
proof (cases raw)
  case None
  then show ?thesis using assms by (auto simp: new_parent_def basic_alone filed_like_def)
next
  case (Some s)
  with assms obtain p k1 where "validateParentID S w uuid_Nil s k = (Inr p, k1)" "returnA (i\<lparr>iss_ParentID := p\<rparr>) k1 = (Inr j, k')"
    by (auto simp: new_parent_def bind_Inr)
  with validated_parent [OF assms(1)] show ?thesis by (auto simp: basic_alone filed_like_def)
qed

text \<open>A status the team does not have is not taken.\<close>

definition team_status :: "tracker \<Rightarrow> Issue \<Rightarrow> bool" where
  "team_status d i \<longleftrightarrow> (\<forall>s. iss_StatusID i = Some s \<longrightarrow> (\<exists>t \<in> set (tr_statuses d). st_ID t = s \<and> st_TeamID t = iss_TeamID i))"

lemma requested_status_files:
  assumes "dk_script k = []" and "requested_status S raw i k = (Inr j, k')" and "iss_StatusID i = None"
  shows "k' = k \<and> filed_like i j \<and> iss_ParentID j = iss_ParentID i \<and> team_status (dk_db k) j"
proof (cases raw)
  case None
  then show ?thesis using assms by (auto simp: requested_status_def basic_alone filed_like_def team_status_def)
next
  case (Some s)
  then show ?thesis using assms
    by (auto simp: requested_status_def bind_Inr despite_Inr basic_alone filed_like_def team_status_def status_GetByID_def
        find_Some_iff split: prod.splits if_splits option.splits)
qed

lemma default_status_files:
  assumes "dk_script k = []" and "default_status s i k = (Inr j, k')" and "team_status (dk_db k) i"
  shows "k' = k \<and> filed_like i j \<and> iss_ParentID j = iss_ParentID i \<and> team_status (dk_db k) j"
  using assms
  by (auto simp: default_status_def bind_Inr best_Inr basic_alone filed_like_def team_status_def GetByTeamAndSlug_def
      find_Some_iff split: if_splits option.splits)

interpretation staying: issue_frame "\<lambda>d. map ow_ID (tr_issues d) = ids" for ids
proof unfold_locales
  show "map ow_ID (tr_issues d') = ids" if "map ow_ID (tr_issues d) = ids" "\<And>i. same_place i (f i) \<and> untouched_stamps i (f i)"
      "update_issues now P f d = Inr d'" for d d' now P f
    using that(1,3) updated_rows_place(1) [of P f now d "tr_issues d"] that(2) by (auto simp: update_issues_Inr)
qed (simp add: same_issues_def)

lemma stored_issue:
  assumes "issue_Create now i d = Inr (x, d')"
  shows "x = i\<lparr>iss_CreatedAt := now, iss_UpdatedAt := now\<rparr> \<and> iss_StatusID i \<noteq> None
    \<and> map ow_ID (tr_issues d') = map ow_ID (tr_issues d) @ [ow_ID i]"
proof -
  obtain r where r: "r = inserted_stamps now d (i\<lparr>iss_CreatedAt := now, iss_UpdatedAt := now, iss_StartedAt := None,
      iss_CompletedAt := None, iss_CancelledAt := None, iss_TriagedAt := None\<rparr>)"
    "tr_issues d' = tr_issues d @ [r]" "issue_row_error d r = None" using assms by (rule issue_CreateE)
  have "x = i\<lparr>iss_CreatedAt := now, iss_UpdatedAt := now\<rparr>"
    using assms by (auto simp: issue_Create_def Let_def split: option.split_asm if_split_asm)
  with r show ?thesis by (auto simp: issue_row_error_def split: if_split_asm)
qed

lemma kept_alone: "kept I a \<Longrightarrow> a k = (r, k') \<Longrightarrow> dk_script k = [] \<Longrightarrow> I (dk_db k) \<Longrightarrow> I (dk_db k')"
  unfolding kept_def rely_def by (metis empty_iff list.set(1) snd_conv)

text \<open>What follows the creation leaves the list of issues as it is.\<close>

lemma kept_ids_created:
  "kept (\<lambda>d. map ow_ID (tr_issues d) = ids) (thenA (set_new_pairs S req i)
    (thenA (broadcast e) (thenA (notifyAssignees i u) (returnA j))))"
  by (auto simp: set_new_pairs_def intro!: keeping staying.kept_pairs staying.kept_assignees staying.kept_recipients
      split: option.split if_split)

text \<open>
  (C34) A created issue is filed where it belongs. When \<open>Create\<close> succeeds and no other request runs meanwhile, the issue
  has the next number of its team and the identifier made of it, its status is one of the statuses of that
  team, its parent, if it has one, is an issue of the same workspace, it waits for triage exactly when the
  team has triage enabled, and it is the only issue that has been added. (The team itself is not
  compared with the workspace.)
\<close>

theorem created_issue_is_filed:
  assumes "dk_script k = []" and "createIssue S w c req k = (Inr i, k')"
  shows "\<exists>team. team_GetByID (parsed S (cr_TeamID req)) (dk_db k) = Some team \<and> iss_TeamID i = ow_ID team
    \<and> iss_Number i = NextNumber (ow_ID team) (dk_db k) \<and> iss_Identifier i = te_Key team @ ''-'' @ int_decimal (iss_Number i)
    \<and> ow_WorkspaceID i = w \<and> iss_Triaged i = (\<not> te_TriageEnabled team)
    \<and> (\<exists>t \<in> set (tr_statuses (dk_db k)). iss_StatusID i = Some (st_ID t) \<and> st_TeamID t = ow_ID team)
    \<and> (\<forall>p. iss_ParentID i = Some p \<longrightarrow> (\<exists>j \<in> set (tr_issues (dk_db k)). ow_ID j = p \<and> ow_WorkspaceID j = w))
    \<and> map ow_ID (tr_issues (dk_db k')) = map ow_ID (tr_issues (dk_db k)) @ [ow_ID i]"
proof -
  let ?d = "dk_db k" and ?k = "k\<lparr>dk_fresh := dk_fresh k + 1\<rparr>"
  obtain teamID where teamID: "is_uuid_Parse S (cr_TeamID req) = (teamID, True)" "parsed S (cr_TeamID req) = teamID"
    using assms(2) by (cases "is_uuid_Parse S (cr_TeamID req)") (auto simp: createIssue_def basic_alone parsed_def split: if_splits)
  obtain team child k1 filed k2 complete k3 issue k4 where team: "team_GetByID teamID ?d = Some team"
    and child: "new_parent S w (cr_ParentID req) (new_issue S (dk_fresh k) w c team (NextNumber teamID ?d) req) ?k = (Inr child, k1)"
    and filed: "requested_status S (cr_StatusID req) (new_due_date S (cr_DueDate req) child) k1 = (Inr filed, k2)"
    and complete: "default_status (iss_Status (new_issue S (dk_fresh k) w c team (NextNumber teamID ?d) req)) filed k2 = (Inr complete, k3)"
    and create: "storeT (\<lambda>now. issue_Create now complete) k3 = (Inr issue, k4)"
    and last: "thenA (set_new_pairs S req issue) (thenA (broadcast (ToWorkspace w ''issue.created'' (OfIssue issue)))
      (thenA (notifyAssignees issue c) (returnA issue))) k4 = (Inr i, k')"
    using assms
    by (auto simp: createIssue_def teamID(1) bind_Inr found_Inr read_Inr then_read basic_alone(4) Let_def)
  let ?new = "new_issue S (dk_fresh k) w c team (NextNumber teamID ?d) req"
  have teamI: "ow_ID team = teamID" using team by (auto simp: team_GetByID_def find_Some_iff)
  have k: "dk_script ?k = []" using assms(1) by simp
  have none: "iss_ParentID ?new = None" "iss_StatusID ?new = None" by (simp_all add: new_issue_def)
  have due: "filed_like j (new_due_date S raw j) \<and> iss_StatusID (new_due_date S raw j) = iss_StatusID j
      \<and> iss_ParentID (new_due_date S raw j) = iss_ParentID j" for raw j
    by (simp add: new_due_date_def filed_like_def split: option.split)
  note child' = new_parent_files [OF k child none(1)]
  have k1: "k1 = ?k" using child' by blast
  note filed' = requested_status_files [OF k filed [unfolded k1]]
  have "iss_StatusID child = None" using child' none by simp
  then have filed': "k2 = ?k" "filed_like (new_due_date S (cr_DueDate req) child) filed"
      "iss_ParentID filed = iss_ParentID child" "team_status ?d filed"
    using requested_status_files [OF k filed [unfolded k1]] due by simp_all
  then have complete': "k3 = ?k" "filed_like filed complete" "iss_ParentID complete = iss_ParentID child" "team_status ?d complete"
    using default_status_files [OF k complete [unfolded filed'(1)]] by simp_all
  have like: "filed_like ?new complete"
    using child' filed'(2) complete'(2) due [of child "cr_DueDate req"] by (simp add: filed_like_def)
  obtain d' where created: "issue_Create (dk_now k) complete ?d = Inr (issue, d')" and k4: "k4 = ?k\<lparr>dk_db := d'\<rparr>"
    using create assms(1) by (auto simp: complete'(1) alone split: sum.splits)
  note stored = stored_issue [OF created]
  have i: "i = issue" using last by (auto simp: bind_Inr basic_alone(1,3))
  have "kept (\<lambda>d. map ow_ID (tr_issues d) = map ow_ID (tr_issues d')) (thenA (set_new_pairs S req issue)
      (thenA (broadcast (ToWorkspace w ''issue.created'' (OfIssue issue))) (thenA (notifyAssignees issue c) (returnA issue))))"
    by (rule kept_ids_created)
  from kept_alone [OF this, of k4 "Inr i" k'] last
  have "map ow_ID (tr_issues (dk_db k')) = map ow_ID (tr_issues d')" by (simp add: k4 assms(1))
  moreover obtain sid where "iss_StatusID complete = Some sid" using stored by blast
  ultimately show ?thesis
    using team teamI like complete'(3,4) child' stored
    by (auto simp: teamID(2) i filed_like_def team_status_def new_issue_def)
qed

theorem created_issue_is_filed_witness:
  "\<exists>i k'. createIssue tracker_service0 1 7 create0 desk0 = (Inr i, k') \<and> iss_TeamID i = 2
    \<and> iss_Identifier i = ''CO'' @ ''-'' @ int_decimal (NextNumber 2 tracker0)
    \<and> map ow_ID (tr_issues (dk_db k')) = map ow_ID (tr_issues tracker0) @ [ow_ID i]"
proof -
  have "case fst (createIssue tracker_service0 1 7 create0 desk0) of Inr i \<Rightarrow> True | Inl e \<Rightarrow> False" by code_simp
  then obtain i k' where run: "createIssue tracker_service0 1 7 create0 desk0 = (Inr i, k')"
    by (cases "createIssue tracker_service0 1 7 create0 desk0") (auto split: sum.splits)
  have "team_GetByID (parsed tracker_service0 (cr_TeamID create0)) (dk_db desk0) = Some team2" by code_simp
  moreover have "ow_ID team2 = 2" "te_Key team2 = ''CO''" by (simp_all add: team2_def)
  ultimately show ?thesis
    using created_issue_is_filed [OF _ run] run by (auto simp: desk0_def)
qed

section \<open>Who is told\<close>

lemma add_recipients:
  "distinct us \<Longrightarrow> distinct (foldl (add_recipient actor) us xs)
    \<and> set (foldl (add_recipient actor) us xs) = set us \<union> {u \<in> set xs. u \<noteq> uuid_Nil \<and> u \<noteq> actor}"
proof (induction xs arbitrary: us)
  case (Cons x xs)
  have "distinct (add_recipient actor us x)" "set (add_recipient actor us x) = set us \<union> {u. u = x \<and> u \<noteq> uuid_Nil \<and> u \<noteq> actor}"
    using Cons.prems by (auto simp: add_recipient_def)
  with Cons.IH [of "add_recipient actor us x"] show ?case by auto
qed simp

lemma add_subscribers:
  "distinct us \<Longrightarrow> distinct (foldl add_subscriber us xs)
    \<and> set (foldl add_subscriber us xs) = set us \<union> {u \<in> set xs. u \<noteq> uuid_Nil}"
proof (induction xs arbitrary: us)
  case (Cons x xs)
  have "distinct (add_subscriber us x)" "set (add_subscriber us x) = set us \<union> {u. u = x \<and> u \<noteq> uuid_Nil}"
    using Cons.prems by (auto simp: add_subscriber_def)
  with Cons.IH [of "add_subscriber us x"] show ?case by auto
qed simp

text \<open>
  Who is told of a change. The recipients of a notification about an issue are its creator, its assignees and
  its subscribers, each once; whoever made the change is among them only as a subscriber, and the zero
  identifier never is.
\<close>

theorem recipients_are_told_once:
  assumes "dk_script k = []"
  shows "\<exists>us. issueNotificationRecipients i actor True k = (Inr us, k) \<and> distinct us
    \<and> (\<forall>u. u \<in> set us \<longleftrightarrow> u \<noteq> uuid_Nil \<and> (IsSubscribed (ow_ID i) u (dk_db k)
      \<or> u \<noteq> actor \<and> (u = iss_CreatorID i \<or> u \<in> set (GetAssignees (ow_ID i) (dk_db k)) \<or> iss_AssigneeID i = Some u)))"
proof -
  let ?first = "foldl (add_recipient actor) [] (iss_CreatorID i # GetAssignees (ow_ID i) (dk_db k)
    @ (case iss_AssigneeID i of None \<Rightarrow> [] | Some u \<Rightarrow> [u]))"
  let ?us = "foldl add_subscriber ?first (GetSubscribers (ow_ID i) (dk_db k))"
  have run: "issueNotificationRecipients i actor True k = (Inr ?us, k)"
    using assms by (simp add: issueNotificationRecipients_def alone)
  have first: "distinct ?first \<and> set ?first = {u \<in> set (iss_CreatorID i # GetAssignees (ow_ID i) (dk_db k)
      @ (case iss_AssigneeID i of None \<Rightarrow> [] | Some u \<Rightarrow> [u])). u \<noteq> uuid_Nil \<and> u \<noteq> actor}"
    using add_recipients [of "[]" actor] by (simp only: distinct.simps list.set(1) Un_empty_left simp_thms)
  have "distinct ?us \<and> set ?us = set ?first \<union> {u \<in> set (GetSubscribers (ow_ID i) (dk_db k)). u \<noteq> uuid_Nil}"
    using add_subscribers first by blast
  moreover have "u \<in> set (GetSubscribers (ow_ID i) (dk_db k)) \<longleftrightarrow> IsSubscribed (ow_ID i) u (dk_db k)" for u
    by (force simp: GetSubscribers_def IsSubscribed_def)
  ultimately show ?thesis unfolding run using first by (auto split: option.splits)
qed

theorem recipients_are_told_once_witness:
  "\<exists>us. issueNotificationRecipients (sample_issue 11 1 ''CO-1'' None) 8 True
      (desk0\<lparr>dk_db := tracker0\<lparr>tr_subscribers := [(11, 8)]\<rparr>\<rparr>) = (Inr us, desk0\<lparr>dk_db := tracker0\<lparr>tr_subscribers := [(11, 8)]\<rparr>\<rparr>)
    \<and> distinct us \<and> 7 \<in> set us \<and> 8 \<in> set us"
  using recipients_are_told_once [of "desk0\<lparr>dk_db := tracker0\<lparr>tr_subscribers := [(11, 8)]\<rparr>\<rparr>" "sample_issue 11 1 ''CO-1'' None" 8]
  by (auto simp: desk0_def tracker0_def sample_issue_def IsSubscribed_def)

end
