(* ===== verification/Relation_Properties.thy ===== *)
theory Relation_Properties
  imports Tracker_Rules
begin

text \<open>
  Relations between issues: what the lists of two issues say of each other, and what a deletion leaves.
\<close>

section \<open>What a list shows\<close>

definition triple :: "IssueRelation \<Rightarrow> uuid \<times> uuid \<times> IssueRelationType" where
  "triple r = (rel_IssueID r, rel_RelatedIssueID r, rel_Type r)"

text \<open>\<open>a\<close> stands in the relation \<open>t\<close> to \<open>b\<close>, by a row of its own or of the other issue.\<close>

definition relates :: "tracker \<Rightarrow> uuid \<Rightarrow> uuid \<Rightarrow> IssueRelationType \<Rightarrow> bool" where
  "relates d a b t \<longleftrightarrow> (a, b, t) \<in> triple ` set (tr_relations d) \<or> (b, a, Inverse t) \<in> triple ` set (tr_relations d)"

definition shown :: "IssueRelation \<Rightarrow> uuid \<times> IssueRelationType" where
  "shown r = (rel_RelatedIssueID r, rel_Type r)"

lemma normalized_shown:
  "shown ` set (normalized i seen rels) = shown ` {r. \<exists>rel \<in> set rels. normalizeRelationForIssue rel i = Some r} - set seen"
  by (induction rels arbitrary: seen) (auto simp: shown_def Let_def split: option.splits)

lemma normalized_distinct: "distinct (map shown (normalized i seen rels))"
proof (induction rels arbitrary: seen)
  case (Cons rel rels)
  have "shown r \<notin> set (map shown (normalized i (shown r # seen) rels))" for r
    using normalized_shown [of i "shown r # seen" rels] by auto
  then show ?case using Cons by (auto simp: shown_def [abs_def] Let_def split: option.split)
qed simp

lemma normalized_relates:
  assumes "a \<noteq> b"
  shows "(b, t) \<in> shown ` {r. \<exists>rel \<in> set (tr_relations d). normalizeRelationForIssue rel a = Some r} \<longleftrightarrow> relates d a b t"
proof -
  have key: "(\<exists>r. normalizeRelationForIssue rel a = Some r \<and> shown r = (b, t))
      \<longleftrightarrow> (a, b, t) = triple rel \<or> (b, a, Inverse t) = triple rel" for rel
    using assms by (cases t; cases "rel_Type rel") (auto simp: normalizeRelationForIssue_def shown_def triple_def)
  have "(b, t) \<in> shown ` {r. \<exists>rel \<in> set (tr_relations d). normalizeRelationForIssue rel a = Some r}
      \<longleftrightarrow> (\<exists>rel \<in> set (tr_relations d). \<exists>r. normalizeRelationForIssue rel a = Some r \<and> shown r = (b, t))"
    by (auto simp: image_iff) (metis+)?
  also have "\<dots> \<longleftrightarrow> relates d a b t" unfolding key relates_def image_iff by blast
  finally show ?thesis .
qed

lemma mapT_alone:
  assumes "\<And>x. x \<in> set xs \<Longrightarrow> f x k = (Inr (g x), k)"
  shows "mapT f xs k = (Inr (map g xs), k)"
  using assms by (induction xs) (simp_all add: alone)

definition found_related :: "uuid \<Rightarrow> tracker \<Rightarrow> IssueRelation \<Rightarrow> IssueRelation" where
  "found_related w d r = (case issue_GetByID (rel_RelatedIssueID r) d of
     None \<Rightarrow> r | Some issue \<Rightarrow> if ow_WorkspaceID issue = w then r\<lparr>rel_RelatedIssue := Some issue\<rparr> else r)"

lemma shown_found [simp]: "shown (found_related w d r) = shown r"
  by (simp add: found_related_def shown_def split: option.split)

lemma listRelations_alone:
  assumes "dk_script k = []" and "GetByIdentifier w s (dk_db k) = Some i"
  shows "listRelations w s k = (Inr (map (found_related w (dk_db k))
    (normalized (ow_ID i) [] (relation_ListByIssues [ow_ID i] (dk_db k)))), k)"
proof -
  have "mapT (with_related w) rels k = (Inr (map (found_related w (dk_db k)) rels), k)" for rels
    by (rule mapT_alone) (simp add: with_related_def alone assms(1) found_related_def)
  then show ?thesis using assms by (simp add: listRelations_def alone)
qed

lemma listed_relations:
  "{r. \<exists>rel \<in> set (relation_ListByIssues [i] d). normalizeRelationForIssue rel i = Some r}
     = {r. \<exists>rel \<in> set (tr_relations d). normalizeRelationForIssue rel i = Some r}"
  by (auto simp: relation_ListByIssues_def normalizeRelationForIssue_def split: if_splits)

lemma list_shows:
  assumes "dk_script k = []" and "GetByIdentifier w s (dk_db k) = Some i" and "ow_ID i \<noteq> b"
  obtains rs where "listRelations w s k = (Inr rs, k)" and "distinct (map shown rs)"
    and "\<And>t. (b, t) \<in> shown ` set rs \<longleftrightarrow> relates (dk_db k) (ow_ID i) b t"
proof (rule that [OF listRelations_alone [OF assms(1,2)]])
  let ?rels = "normalized (ow_ID i) [] (relation_ListByIssues [ow_ID i] (dk_db k))"
  have same: "map shown (map (found_related w (dk_db k)) ?rels) = map shown ?rels" by simp
  show "distinct (map shown (map (found_related w (dk_db k)) ?rels))" unfolding same by (rule normalized_distinct)
  show "(b, t) \<in> shown ` set (map (found_related w (dk_db k)) ?rels) \<longleftrightarrow> relates (dk_db k) (ow_ID i) b t" for t
    using normalized_relates [OF assms(3), of t "dk_db k"]
    unfolding listed_relations [symmetric] by (simp add: image_image normalized_shown)
qed

text \<open>
  (C36) Two issues see their relations from both sides. The list of the issue called \<open>s\<close> contains the other one as
  \<open>t\<close> exactly when the list of the other contains the first as the inverse of \<open>t\<close> (what one blocks is blocked by
  it), however the rows were stored, in one direction or both; and no list names an issue twice with the
  same type.
\<close>

theorem relations_seen_from_both_sides:
  assumes "dk_script k = []" and "GetByIdentifier w s (dk_db k) = Some i" and "GetByIdentifier w s' (dk_db k) = Some j"
    and "ow_ID i \<noteq> ow_ID j"
  shows "\<exists>rs rs'. listRelations w s k = (Inr rs, k) \<and> listRelations w s' k = (Inr rs', k)
    \<and> distinct (map shown rs) \<and> (\<forall>t. (ow_ID j, t) \<in> shown ` set rs \<longleftrightarrow> (ow_ID i, Inverse t) \<in> shown ` set rs')"
proof -
  obtain rs where "listRelations w s k = (Inr rs, k)" "distinct (map shown rs)"
      "\<And>t. (ow_ID j, t) \<in> shown ` set rs \<longleftrightarrow> relates (dk_db k) (ow_ID i) (ow_ID j) t"
    using list_shows [OF assms(1,2,4)] by metis
  moreover obtain rs' where "listRelations w s' k = (Inr rs', k)"
      "\<And>t. (ow_ID i, t) \<in> shown ` set rs' \<longleftrightarrow> relates (dk_db k) (ow_ID j) (ow_ID i) t"
    using list_shows [OF assms(1,3)] assms(4) by metis
  ultimately show ?thesis by (auto simp: relates_def)
qed

definition relation0 :: IssueRelation where
  "relation0 = (new_relation 50 11 12 RelationBlocking)\<lparr>rel_CreatedAt := 3\<rparr>"

definition related_desk :: desk where
  "related_desk = desk0\<lparr>dk_db := tracker0\<lparr>tr_relations := [relation0]\<rparr>\<rparr>"

lemma related_found:
  "dk_script related_desk = []" "GetByIdentifier 1 ''CO-1'' (dk_db related_desk) = Some (sample_issue 11 1 ''CO-1'' None)"
  "GetByIdentifier 1 ''CO-2'' (dk_db related_desk) = Some (sample_issue 12 2 ''CO-2'' (Some 11))"
  by (simp_all add: related_desk_def desk0_def tracker0_def GetByIdentifier_def sample_issue_def)

theorem relations_seen_from_both_sides_witness:
  "\<exists>rs rs'. listRelations 1 ''CO-1'' related_desk = (Inr rs, related_desk) \<and> listRelations 1 ''CO-2'' related_desk = (Inr rs', related_desk)
    \<and> distinct (map shown rs) \<and> (\<forall>t. (12, t) \<in> shown ` set rs \<longleftrightarrow> (11, Inverse t) \<in> shown ` set rs')"
  using relations_seen_from_both_sides [OF related_found] by (simp add: sample_issue_def)

section \<open>What a deletion leaves\<close>

lemma delete_where_triple:
  "triple ` set (delete_where (\<lambda>r. rel_IssueID r = a \<and> rel_RelatedIssueID r = b \<and> rel_Type r = t) rows)
     = triple ` set rows - {(a, b, t)}"
  by (auto simp: delete_where_def triple_def)

lemma delete_where_unique:
  assumes "distinct (map rel_ID rows)" and "distinct (map triple rows)" and "r \<in> set rows"
  shows "triple ` set (delete_where (\<lambda>q. rel_ID q = rel_ID r) rows) = triple ` set rows - {triple r}"
proof -
  have "rel_ID q = rel_ID r \<longleftrightarrow> triple q = triple r" if "q \<in> set rows" for q
    using assms that by (metis distinct_map inj_onD)
  then show ?thesis using assms(3) by (auto simp: delete_where_def)
qed

text \<open>
  Deleting a relation. When no other request runs in between, \<open>deleteRelation\<close> of a stored relation succeeds, and
  afterwards neither issue stands in it any more, while every other relation of the two is as before. There
  is one exception: a relation that is its own inverse (related, duplicate) and was also entered from the
  other issue survives, because only the rows of other types are mirrored by the deletion.
\<close>

theorem deleted_relation_is_gone:
  assumes "dk_script k = []" and "r \<in> set (tr_relations (dk_db k))" and "rel_IssueID r = a" and "rel_RelatedIssueID r = b"
    and "a \<noteq> b" and "distinct (map rel_ID (tr_relations (dk_db k)))" and "distinct (map triple (tr_relations (dk_db k)))"
  shows "\<exists>d. deleteRelation (rel_ID r) k = (Inr (), k\<lparr>dk_db := d\<rparr>) \<and>
    (\<forall>t. relates d a b t \<longleftrightarrow> relates (dk_db k) a b t
      \<and> (t = rel_Type r \<longrightarrow> Inverse t = t \<and> (b, a, t) \<in> triple ` set (tr_relations (dk_db k))))"
proof -
  let ?rows = "tr_relations (dk_db k)"
  let ?mirrored = "if Inverse (rel_Type r) = rel_Type r then ?rows
    else delete_where (\<lambda>q. rel_IssueID q = b \<and> rel_RelatedIssueID q = a \<and> rel_Type q = Inverse (rel_Type r)) ?rows"
  let ?d = "(dk_db k)\<lparr>tr_relations := delete_where (\<lambda>q. rel_ID q = rel_ID r) ?mirrored\<rparr>"
  have "find (\<lambda>q. rel_ID q = rel_ID r) ?rows = Some r" using find_Some_iff_distinct [OF assms(6)] assms(2) by blast
  then have found: "relation_GetByID (rel_ID r) (dk_db k) = Inr r" by (simp add: relation_GetByID_def)
  have run: "deleteRelation (rel_ID r) k = (Inr (), k\<lparr>dk_db := ?d\<rparr>)"
    using assms(1,3,4) by (simp add: deleteRelation_def alone found DeleteByIssues_def relation_Delete_def)
  have r: "r \<in> set ?mirrored" "triple r = (a, b, rel_Type r)"
    using assms(2-5) by (auto simp: triple_def delete_where_def)
  have dist: "distinct (map rel_ID ?mirrored)" "distinct (map triple ?mirrored)"
    using assms(6,7) by (simp_all add: delete_where_def distinct_map_filter)
  have rows: "triple ` set (tr_relations ?d) = triple ` set ?rows - {(a, b, rel_Type r)}
      - (if Inverse (rel_Type r) = rel_Type r then {} else {(b, a, Inverse (rel_Type r))})"
    using delete_where_unique [OF dist r(1)] by (auto simp: r(2) delete_where_triple)
  have "(a, b, rel_Type r) \<in> triple ` set ?rows" using assms(2) r(2) by force
  moreover have "Inverse t = Inverse t' \<longleftrightarrow> t = t'" for t t' by (cases t; cases t'; simp)
  ultimately have "relates ?d a b t \<longleftrightarrow> relates (dk_db k) a b t
      \<and> (t = rel_Type r \<longrightarrow> Inverse t = t \<and> (b, a, t) \<in> triple ` set ?rows)" for t
    unfolding relates_def rows using assms(5) by (cases "Inverse (rel_Type r) = rel_Type r") auto
  with run show ?thesis by blast
qed

theorem deleted_relation_is_gone_witness:
  "\<exists>d. deleteRelation 50 related_desk = (Inr (), related_desk\<lparr>dk_db := d\<rparr>) \<and>
    (\<forall>t. relates d 11 12 t \<longleftrightarrow> relates (dk_db related_desk) 11 12 t
      \<and> (t \<noteq> RelationBlocking \<or> Inverse t = t \<and> (12, 11, t) \<in> triple ` set (tr_relations (dk_db related_desk))))"
  using deleted_relation_is_gone [of related_desk relation0 11 12]
  by (simp add: related_desk_def relation0_def new_relation_def desk0_def imp_conv_disj)

end
