(* ===== verification/Docker_World.thy ===== *)
theory Docker_World
  imports Manager_Operations "HOL-Library.Signed_Division"
begin

text \<open>
  What \<open>DockerRuntime\<close> (\<open>BE/internal/machine/docker.go\<close>) acts on: the daemon of the container engine, which is
  reached through a third-party client. A method is an action on the log of the calls made so far; the
  answer of the daemon to a call is any function of that log, so that nothing is assumed of the daemon, and
  what other clients do to it meanwhile is part of its answers. An ended context is an answer, too.
\<close>

section \<open>The client\<close>

text \<open>The errors that \<open>errdefs\<close> tells apart.\<close>

datatype docker_error =
    NotFound string
  | Conflict string
  | Failed go_error

fun docker_go :: "docker_error \<Rightarrow> go_error" where
  "docker_go (NotFound s) = Errorf s"
| "docker_go (Conflict s) = Errorf s"
| "docker_go (Failed e) = e"

fun IsNotFound :: "docker_error \<Rightarrow> bool" where
  "IsNotFound (NotFound s) = True"
| "IsNotFound _ = False"

fun IsConflict :: "docker_error \<Rightarrow> bool" where
  "IsConflict (Conflict s) = True"
| "IsConflict _ = False"

text \<open>A map of strings is the list of its entries, one per key; reading an absent key gives the empty string.\<close>

type_synonym labels = "(string \<times> string) list"

definition label :: "labels \<Rightarrow> string \<Rightarrow> string" where
  "label m k = (case map_of m k of None \<Rightarrow> [] | Some v \<Rightarrow> v)"

record container_state =
  cs_ID :: string
  cs_Image :: string
  cs_Labels :: labels
  cs_Status :: string
  cs_Running :: bool
  cs_Paused :: bool
  cs_ExitCode :: int
  cs_Error :: string
  cs_Health :: "string option"
  cs_Networks :: "string list"

record container_item =
  ci_ID :: string
  ci_Labels :: labels

record network_state =
  nw_Internal :: bool
  nw_Labels :: labels
  nw_Containers :: "string list"

record volume_state =
  vs_Driver :: string
  vs_Labels :: labels
  vs_Options :: labels

record image_config =
  ic_Cmd :: "string list"
  ic_Env :: "string list"
  ic_Labels :: labels
  ic_Volumes :: "string list"

record container_stats =
  cp_CPUTotal :: int
  cp_PreCPUTotal :: int
  cp_System :: int
  cp_PreSystem :: int
  cp_OnlineCPUs :: int
  cp_Memory :: int
  cp_Pids :: int
  cp_Networks :: "(int \<times> int) list"

text \<open>The options of a creation: the fields the code sets. A mount is of a volume, without a copy of the image's files.\<close>

record mount_spec =
  mt_Source :: string
  mt_Target :: string
  mt_ReadOnly :: bool

record host_config =
  hc_NetworkMode :: string
  hc_ReadonlyRootfs :: bool
  hc_Privileged :: bool
  hc_CapDrop :: "string list"
  hc_CapAdd :: "string list"
  hc_SecurityOpt :: "string list"
  hc_LogConfig :: "string \<times> labels"
  hc_Tmpfs :: labels
  hc_Mounts :: "mount_spec list"
  hc_NanoCPUs :: int
  hc_Memory :: int
  hc_MemorySwap :: int
  hc_PidsLimit :: int
  hc_ShmSize :: int

record health_config =
  he_Test :: "string list"
  he_Interval :: duration
  he_Timeout :: duration
  he_StartPeriod :: duration
  he_Retries :: nat

record container_config =
  cc_Image :: string
  cc_User :: string
  cc_WorkingDir :: string
  cc_Entrypoint :: "string list"
  cc_Cmd :: "string list"
  cc_Env :: "string list"
  cc_Labels :: labels
  cc_Healthcheck :: "health_config option"
  cc_AttachOutput :: bool
  cc_Interactive :: bool

record container_spec =
  sp_Config :: container_config
  sp_Host :: host_config
  sp_Networks :: "(string \<times> string list) list"
  sp_Name :: string

record volume_options =
  vp_Name :: string
  vp_Driver :: string
  vp_DriverOpts :: labels
  vp_Labels :: labels

record commit_options =
  cm_Reference :: string
  cm_Comment :: string
  cm_Author :: string
  cm_Changes :: "string list"

record exec_options =
  xo_User :: string
  xo_Cmd :: "string list"
  xo_Stdin :: bool
  xo_Output :: bool

datatype docker_call =
    DockerPing
  | ContainerInspect string
  | ContainerCreate container_spec
  | ContainerStart string
  | ContainerStop string "nat option"
  | ContainerPause string
  | ContainerUnpause string
  | ContainerRemove string
  | ContainerWait string
  | ContainerList "string option"
  | ContainerLogs string
  | ContainerStats string
  | ContainerCommit string commit_options
  | ExecCreate string exec_options
  | ExecAttach string
  | ExecWrite string string
  | ExecCloseWrite string
  | StreamRead string
  | ExecInspect string
  | ImageInspect string
  | ImagePull string
  | ImageRemove string
  | NetworkInspect string
  | NetworkCreate string bool labels
  | NetworkConnect string string "string list"
  | NetworkDisconnect string string
  | NetworkRemove string
  | VolumeInspect string
  | VolumeCreate volume_options
  | VolumeRemove string
  | PollSelect

text \<open>What the \<open>select\<close> of \<open>requireRunning\<close> chooses.\<close>

datatype poll_event = Ticked | TimedOut | Cancelled_by go_error

text \<open>And what a \<open>select\<close> on the end of a container chooses: its result, the error of waiting, or the context.\<close>

datatype wait_event = Exited int | WaitFailed docker_error | ContextDone go_error

text \<open>
  The answers, by their type, as functions of the log whose last entry is the call. \<open>dc_output\<close> is what a
  stream carries on its two channels, whether copying it ends in \<open>io.EOF\<close> or another error or well.
\<close>

record docker_client =
  dc_unit :: "docker_call list \<Rightarrow> docker_error + unit"
  dc_container :: "docker_call list \<Rightarrow> docker_error + container_state"
  dc_id :: "docker_call list \<Rightarrow> docker_error + string"
  dc_items :: "docker_call list \<Rightarrow> docker_error + container_item list"
  dc_code :: "docker_call list \<Rightarrow> docker_error + int"
  dc_output :: "docker_call list \<Rightarrow> string \<times> string \<times> go_error option"
  dc_stats :: "docker_call list \<Rightarrow> docker_error + (go_error + container_stats)"
  dc_image :: "docker_call list \<Rightarrow> docker_error + image_config option"
  dc_network :: "docker_call list \<Rightarrow> docker_error + network_state"
  dc_volume :: "docker_call list \<Rightarrow> docker_error + volume_state"
  dc_select :: "docker_call list \<Rightarrow> poll_event"
  dc_wait :: "docker_call list \<Rightarrow> wait_event"

section \<open>The runtime\<close>

record DockerConfig =
  dg_GatewayContainerName :: string
  dg_SeccompProfile :: string
  dg_AppArmorProfile :: string
  dg_PullImages :: bool
  dg_IngestURL :: string
  dg_EgressAllowlist :: string
  dg_EgressDenylist :: string

text \<open>
  Beside the client: \<open>%q\<close>, the order in which \<open>range\<close> yields the keys of a map, the random identifier of
  the probe, whether an error is \<open>io.EOF\<close>, and the turn of the loop of \<open>requireRunning\<close> in which, at the
  latest, the case of its timer is chosen: any number.
\<close>

record DockerRuntime =
  dr_client :: docker_client
  dr_config :: DockerConfig
  dr_Quote :: "string \<Rightarrow> string"
  dr_range :: "string list \<Rightarrow> string list"
  dr_NewString :: string
  dr_isEOF :: "go_error \<Rightarrow> bool"
  dr_polls :: nat

record docker_state =
  dk_log :: "docker_call list"
  dk_quotaReady :: bool

type_synonym 'a dact = "(docker_state, 'a) action"

text \<open>A call whose error the code looks at, and one whose error it returns.\<close>

definition ask :: "(docker_call list \<Rightarrow> 'a) \<Rightarrow> docker_call \<Rightarrow> 'a dact" where
  "ask answer c k = (let log = dk_log k @ [c] in (Inr (answer log), k\<lparr>dk_log := log\<rparr>))"

definition given :: "docker_error + 'a \<Rightarrow> 'a dact" where
  "given r = (case r of Inl e \<Rightarrow> failA (docker_go e) | Inr x \<Rightarrow> returnA x)"

definition demand :: "(docker_call list \<Rightarrow> docker_error + 'a) \<Rightarrow> docker_call \<Rightarrow> 'a dact" where
  "demand answer c = bindA (ask answer c) given"

definition failD :: "string \<Rightarrow> 'a dact" where
  "failD s = failA (Errorf s)"

definition wrapping :: "string \<Rightarrow> 'a dact \<Rightarrow> 'a dact" where
  "wrapping s a = bindA (attempt a) (\<lambda>r. case r of Inl e \<Rightarrow> failA (Wrapped s e) | Inr x \<Rightarrow> returnA x)"

text \<open>\<open>err != nil && !errdefs.IsNotFound(err)\<close>, and the same with conflicts.\<close>

definition unless_gone :: "(docker_call list \<Rightarrow> docker_error + unit) \<Rightarrow> docker_call \<Rightarrow> unit dact" where
  "unless_gone answer c = bindA (ask answer c) (\<lambda>r. case r of
     Inl e \<Rightarrow> if IsNotFound e then returnA () else failA (docker_go e) | Inr u \<Rightarrow> returnA u)"

definition unless_idle :: "(docker_call list \<Rightarrow> docker_error + unit) \<Rightarrow> docker_call \<Rightarrow> unit dact" where
  "unless_idle answer c = bindA (ask answer c) (\<lambda>r. case r of
     Inl e \<Rightarrow> if IsNotFound e \<or> IsConflict e then returnA () else failA (docker_go e) | Inr u \<Rightarrow> returnA u)"

text \<open>\<open>defer\<close>: \<open>b\<close> runs after \<open>a\<close> when \<open>a\<close> has returned, with its result.\<close>

definition deferA :: "'a dact \<Rightarrow> (go_error + 'a \<Rightarrow> unit dact) \<Rightarrow> 'a dact" where
  "deferA a b = bindA (attempt a) (\<lambda>r. thenA (ignore (b r)) (case r of Inl e \<Rightarrow> failA e | Inr x \<Rightarrow> returnA x))"

end
