(* ===== verification/Docker_Config.thy ===== *)
theory Docker_Config
  imports Docker_World
begin

text \<open>
  The pure functions of \<open>BE/internal/machine/docker.go\<close> and \<open>image_ref.go\<close>: labels and ownership, the
  options of volumes and containers, the environment of a container, the plan of a start, the capped
  buffers, and the script that starts a custom agent. An \<open>int\<close> and an \<open>int64\<close> have 64 bits and wrap.
\<close>

definition int64 :: "int \<Rightarrow> int" where
  "int64 x = (x + 2 ^ 63) mod 2 ^ 64 - 2 ^ 63"

section \<open>Labels\<close>

definition machineLabels :: "DevMachine \<Rightarrow> labels" where
  "machineLabels machine =
     [(''com.kuayle.managed'', ''true''),
      (''com.kuayle.machine-id'', uuid_String (m_ID machine)),
      (''com.kuayle.workspace-id'', uuid_String (m_WorkspaceID machine)),
      (''com.kuayle.routing-key'', m_RoutingKey machine)]"

definition ownedByMachine :: "labels \<Rightarrow> uuid \<Rightarrow> bool" where
  "ownedByMachine labels machineID \<longleftrightarrow> label labels ''com.kuayle.managed'' = ''true''
   \<and> label labels ''com.kuayle.machine-id'' = uuid_String machineID"

definition networkNameOf :: "DevMachine \<Rightarrow> string" where
  "networkNameOf machine = (case m_DockerNetworkName machine of
       Some name \<Rightarrow> if name \<noteq> [] then name else ''kuayle-machine-'' @ m_RoutingKey machine
     | None \<Rightarrow> ''kuayle-machine-'' @ m_RoutingKey machine)"

definition volumeNameOf :: "DevMachine \<Rightarrow> string" where
  "volumeNameOf machine = (case m_WorkspaceVolumeName machine of
       Some name \<Rightarrow> if name \<noteq> [] then name else ''kuayle-workspace-'' @ m_RoutingKey machine
     | None \<Rightarrow> ''kuayle-workspace-'' @ m_RoutingKey machine)"

section \<open>Images\<close>

definition missingImageError :: "string \<Rightarrow> bool \<Rightarrow> go_error option" where
  "missingImageError reference pullImages =
     (if isImmutableLocalImageID reference
      then Some (Errorf (''local development environment image is missing: '' @ reference))
      else if \<not> pullImages
      then Some (Errorf (''image '' @ reference @ '' is not present and pulling is disabled''))
      else None)"

definition environmentImmutableImageID :: "DevMachineEnvironment option \<Rightarrow> string" where
  "environmentImmutableImageID environment = (case environment of
       None \<Rightarrow> []
     | Some e \<Rightarrow> (let reference = (if isImmutableLocalImageID (en_ImageRef e) then TrimSpace (en_ImageRef e) else []) in
         case en_ImageDigest e of
           Some digest \<Rightarrow> if isImmutableLocalImageID digest then TrimSpace digest else reference
         | None \<Rightarrow> reference))"

definition environmentImageCleanupReference :: "DevMachineEnvironment option \<Rightarrow> string" where
  "environmentImageCleanupReference environment =
     (let reference = environmentImmutableImageID environment in
      if reference \<noteq> [] then reference
      else (case environment of None \<Rightarrow> [] | Some e \<Rightarrow> TrimSpace (en_ImageRef e)))"

text \<open>Its callers pass a map that is not nil.\<close>

definition validateEnvironmentImageLabels :: "labels \<Rightarrow> uuid \<Rightarrow> uuid \<Rightarrow> go_error option" where
  "validateEnvironmentImageLabels labels workspaceID environmentID =
     (if label labels ''com.kuayle.managed'' \<noteq> ''true'' then Some (Errorf ''missing Kuayle management label'')
      else if label labels ''com.kuayle.kind'' \<noteq> ''dev-machine-environment''
      then Some (Errorf ''not a Kuayle development environment image'')
      else if label labels ''com.kuayle.environment-id'' \<noteq> uuid_String environmentID
      then Some (Errorf ''environment label mismatch'')
      else if label labels ''com.kuayle.workspace-id'' \<noteq> uuid_String workspaceID
      then Some (Errorf ''workspace label mismatch'')
      else None)"

definition image_labels :: "image_config option \<Rightarrow> labels" where
  "image_labels config = (case config of None \<Rightarrow> [] | Some c \<Rightarrow> ic_Labels c)"

section \<open>Volumes\<close>

definition workspaceQuotaLabel :: string where
  "workspaceQuotaLabel = ''com.kuayle.workspace-quota-bytes''"

definition workspaceVolumeCreateOptions :: "string \<Rightarrow> labels \<Rightarrow> int \<Rightarrow> go_error + volume_options" where
  "workspaceVolumeCreateOptions name labels diskGB =
     (if diskGB \<le> 0 then Inl (Errorf ''workspace disk quota must be positive'')
      else (let quotaBytes = int_decimal (int64 (diskGB * 1024 * 1024 * 1024)) in
        Inr \<lparr>vp_Name = name, vp_Driver = ''local'', vp_DriverOpts = [(''size'', quotaBytes)],
             vp_Labels = map_put workspaceQuotaLabel quotaBytes labels\<rparr>))"

text \<open>Which label the error names depends on the order in which the map yields its keys.\<close>

definition validateWorkspaceVolume :: "DockerRuntime \<Rightarrow> volume_state \<Rightarrow> volume_options \<Rightarrow> go_error option" where
  "validateWorkspaceVolume R existing expected =
     (if vs_Driver existing \<noteq> vp_Driver expected
      then Some (Errorf (''uses driver '' @ dr_Quote R (vs_Driver existing) @ '' instead of '' @ dr_Quote R (vp_Driver expected)))
      else (case find (\<lambda>key. label (vs_Labels existing) key \<noteq> label (vp_Labels expected) key)
                      (dr_range R (map fst (vp_Labels expected))) of
        Some key \<Rightarrow> Some (Errorf (''has incompatible label '' @ key))
      | None \<Rightarrow>
          if label (vs_Options existing) ''size'' \<noteq> label (vp_DriverOpts expected) ''size''
          then Some (Errorf (''hard quota is '' @ dr_Quote R (label (vs_Options existing) ''size'')
                             @ '' instead of '' @ dr_Quote R (label (vp_DriverOpts expected) ''size'')))
          else None))"

section \<open>Containers\<close>

definition boundedLogConfig :: "string \<times> labels" where
  "boundedLogConfig = (''json-file'', [(''max-size'', ''10m''), (''max-file'', ''3'')])"

definition fraction_of :: "string \<Rightarrow> int" where
  "fraction_of serviceType = (if serviceType = ''ide'' \<or> serviceType = ''browser'' then 25
     else if serviceType = ''agent'' then 35 else 5)"

text \<open>The three sizes, by the fraction of the machine's own that the service gets; \<open>/\<close> truncates.\<close>

definition memory_of :: "DevMachine \<Rightarrow> string \<Rightarrow> int" where
  "memory_of machine serviceType =
     (let memory = int64 (m_MemoryMB machine * 1024 * 1024 * fraction_of serviceType) sdiv 100 in
      if memory < 128 * 1024 * 1024 then 128 * 1024 * 1024 else memory)"

definition pids_of :: "DevMachine \<Rightarrow> string \<Rightarrow> int" where
  "pids_of machine serviceType =
     (let pids = int64 (m_PidsLimit machine * fraction_of serviceType) sdiv 100 in
      if serviceType = ''browser'' \<and> pids < 256 then 256 else if pids < 32 then 32 else pids)"

definition cpus_of :: "DevMachine \<Rightarrow> string \<Rightarrow> int" where
  "cpus_of machine serviceType = int64 (m_CPUMillis machine * 1000000 * fraction_of serviceType) sdiv 100"

definition security_options :: "DockerConfig \<Rightarrow> string list" where
  "security_options config = [''no-new-privileges=true'']
     @ (if dg_SeccompProfile config \<noteq> [] \<and> dg_SeccompProfile config \<noteq> ''default''
        then [''seccomp='' @ dg_SeccompProfile config] else [])
     @ (if dg_AppArmorProfile config \<noteq> [] \<and> dg_AppArmorProfile config \<noteq> ''default''
        then [''apparmor='' @ dg_AppArmorProfile config] else [])"

definition secureHostConfig :: "DockerRuntime \<Rightarrow> DevMachine \<Rightarrow> string \<Rightarrow> string \<Rightarrow> string \<Rightarrow> host_config" where
  "secureHostConfig R machine serviceType networkName volumeName =
     (let memory = memory_of machine serviceType;
          securityOptions = security_options (dr_config R);
          workspaceReadOnly = (serviceType = ''collector'' \<or> serviceType = ''browser'' \<or> serviceType = ''egress'');
          mounts = (if serviceType \<noteq> ''browser'' \<and> serviceType \<noteq> ''egress''
                    then [\<lparr>mt_Source = volumeName, mt_Target = ''/workspace'', mt_ReadOnly = workspaceReadOnly\<rparr>] else []);
          tmpOptions = (if serviceType = ''agent'' \<or> serviceType = ''ide''
                        then ''rw,exec,nosuid,uid=1000,gid=1000,size=256m''
                        else ''rw,noexec,nosuid,uid=1000,gid=1000,size=256m'');
          hostConfig = \<lparr>hc_NetworkMode = networkName, hc_ReadonlyRootfs = True, hc_Privileged = False,
             hc_CapDrop = [''ALL''], hc_CapAdd = [], hc_SecurityOpt = securityOptions, hc_LogConfig = boundedLogConfig,
             hc_Tmpfs = [(''/tmp'', tmpOptions),
               (''/run/kuayle-secrets'', ''rw,noexec,nosuid,uid=1000,gid=1000,mode=0700,size=8m''),
               (''/home/kuayle'', ''rw,nosuid,uid=1000,gid=1000,size=512m'')],
             hc_Mounts = mounts, hc_NanoCPUs = cpus_of machine serviceType, hc_Memory = memory,
             hc_MemorySwap = memory, hc_PidsLimit = pids_of machine serviceType, hc_ShmSize = 64 * 1024 * 1024\<rparr>;
          built = (if m_EnvironmentBuilder machine \<and> serviceType = ''ide''
                   then hostConfig\<lparr>hc_ReadonlyRootfs := False, hc_CapDrop := [], hc_SecurityOpt := tl securityOptions\<rparr>
                   else hostConfig) in
      if serviceType = ''browser'' then built\<lparr>hc_ShmSize := 512 * 1024 * 1024\<rparr> else built)"

text \<open>The name of a variable is what precedes an equals sign that is not the first byte.\<close>

definition variable_of :: "string \<Rightarrow> string option" where
  "variable_of item = (case IndexByte item (CHR ''='') of
     Some i \<Rightarrow> if 0 < i then Some (take i item) else None | None \<Rightarrow> None)"

definition mergeEnvironment :: "string list \<Rightarrow> string list \<Rightarrow> string list" where
  "mergeEnvironment base overrides = (let overridden = List.map_filter variable_of overrides in
     filter (\<lambda>item. case variable_of item of Some name \<Rightarrow> name \<notin> set overridden | None \<Rightarrow> True) base @ overrides)"

definition validSecretName :: "string \<Rightarrow> bool" where
  "validSecretName name \<longleftrightarrow> name = ''.ready'' \<or> name \<noteq> []
   \<and> list_all (\<lambda>c. 65 \<le> c \<and> c \<le> 90 \<or> 97 \<le> c \<and> c \<le> 122 \<or> 48 \<le> c \<and> c \<le> 57 \<or> c = 95) (map fst (runes name))"


section \<open>The plan of a start\<close>

definition container_of :: "DevMachineService \<Rightarrow> string" where
  "container_of service = (case sv_ContainerID service of None \<Rightarrow> [] | Some i \<Rightarrow> i)"

definition startIncludesService :: "DevMachineStatus \<Rightarrow> DevMachineService \<Rightarrow> bool" where
  "startIncludesService machineStatus service = (if sv_ServiceType service \<noteq> ''agent'' then True
     else machineStatus = StatusPaused \<and> (sv_Status service = ''running'' \<or> sv_Status service = ''paused''))"

definition preferStartService :: "DevMachineService \<Rightarrow> DevMachineService \<Rightarrow> bool" where
  "preferStartService candidate current \<longleftrightarrow> sv_ServiceType current = ''terminal'' \<and> sv_ServiceType candidate = ''ide''"

text \<open>The two variables of the loop: the plan and the index of each container in it.\<close>

definition plan_step ::
  "DevMachineStatus \<Rightarrow> DevMachineService \<Rightarrow> DevMachineService list \<times> (string \<rightharpoonup> nat)
     \<Rightarrow> DevMachineService list \<times> (string \<rightharpoonup> nat)" where
  "plan_step machineStatus service state = (case state of (planned, indexByContainer) \<Rightarrow>
     if \<not> startIncludesService machineStatus service then (planned, indexByContainer)
     else if container_of service = [] then (planned @ [service], indexByContainer)
     else (case indexByContainer (container_of service) of
        Some i \<Rightarrow> (if preferStartService service (planned ! i) then planned[i := service] else planned, indexByContainer)
      | None \<Rightarrow> (planned @ [service], indexByContainer(container_of service \<mapsto> length planned))))"

definition plannedStartServices :: "DevMachineStatus \<Rightarrow> DevMachineService list \<Rightarrow> DevMachineService list" where
  "plannedStartServices machineStatus services = fst (fold (plan_step machineStatus) services ([], Map.empty))"

datatype containerStartAction =
  containerStartNone | containerStartUnpause | containerStartStart | containerStartRestart

definition serviceStartAction :: "DevMachineStatus \<Rightarrow> bool \<Rightarrow> bool \<Rightarrow> containerStartAction" where
  "serviceStartAction machineStatus running paused =
     (if machineStatus = StatusPaused then containerStartRestart
      else if paused then containerStartUnpause
      else if \<not> running then containerStartStart
      else containerStartNone)"

definition developerContainerID :: "DevMachineService list \<Rightarrow> string" where
  "developerContainerID services =
     (case find (\<lambda>s. sv_ServiceType s = ''ide'' \<and> sv_ContainerID s \<noteq> None) services of
        None \<Rightarrow> [] | Some s \<Rightarrow> container_of s)"

text \<open>The first occurrence of each, in order: a \<open>seen\<close> map consulted by a loop.\<close>

fun first_seen :: "string list \<Rightarrow> string list \<Rightarrow> string list" where
  "first_seen seen [] = []"
| "first_seen seen (x # xs) = (if x \<in> set seen then first_seen seen xs else x # first_seen (x # seen) xs)"

definition uniqueContainerIDs :: "DevMachineService list \<Rightarrow> string list" where
  "uniqueContainerIDs services = first_seen [] (filter (\<lambda>i. i \<noteq> []) (map container_of services))"

section \<open>Captured output\<close>

definition maxCapturedLogBytes :: nat where
  "maxCapturedLogBytes = 4 * 1024 * 1024"

record cappedBuffer =
  cb_Buffer :: string
  cb_remaining :: nat

definition newCappedBuffer :: "nat \<Rightarrow> cappedBuffer" where
  "newCappedBuffer limit = \<lparr>cb_Buffer = [], cb_remaining = limit\<rparr>"

text \<open>The first result of \<open>Write\<close> is the length that was given, so that a copy goes on to its end.\<close>

definition cappedWrite :: "cappedBuffer \<Rightarrow> string \<Rightarrow> nat \<times> cappedBuffer" where
  "cappedWrite b value = (let kept = (if cb_remaining b < length value then take (cb_remaining b) value else value) in
     (length value,
      if 0 < length kept then \<lparr>cb_Buffer = cb_Buffer b @ kept, cb_remaining = cb_remaining b - length kept\<rparr> else b))"

definition captured :: "string \<Rightarrow> string" where
  "captured s = cb_Buffer (snd (cappedWrite (newCappedBuffer maxCapturedLogBytes) s))"

definition nonEmptyLines :: "string \<Rightarrow> string list" where
  "nonEmptyLines value = filter (\<lambda>l. l \<noteq> []) (map TrimSpace (Split value (CHR 0x0A)))"

section \<open>The cleanup of a failed spawn\<close>

text \<open>The maps from keys to containers are lists of entries, one per key.\<close>

record spawnFailureCleanup =
  fc_Containers :: labels
  fc_NetworkConnections :: labels
  fc_RemoveNetwork :: bool
  fc_RemoveVolume :: bool

definition planSpawnFailureCleanup :: "labels \<Rightarrow> labels \<Rightarrow> bool \<Rightarrow> bool \<Rightarrow> spawnFailureCleanup" where
  "planSpawnFailureCleanup createdContainers createdNetworkConnections networkCreated volumeCreated =
     \<lparr>fc_Containers = filter (\<lambda>(key, containerID). containerID \<noteq> []) createdContainers,
      fc_NetworkConnections = filter (\<lambda>(key, containerID). containerID \<noteq> []) createdNetworkConnections,
      fc_RemoveNetwork = networkCreated, fc_RemoveVolume = volumeCreated\<rparr>"

definition recordSpawnServiceContainer ::
  "labels \<times> labels \<Rightarrow> string \<Rightarrow> string \<Rightarrow> bool \<Rightarrow> labels \<times> labels" where
  "recordSpawnServiceContainer maps serviceKey containerID created = (case maps of (containers, createdContainers) \<Rightarrow>
     if containerID = [] then (containers, createdContainers)
     else (map_put serviceKey containerID containers,
           if created then map_put serviceKey containerID createdContainers else createdContainers))"

definition ranged :: "DockerRuntime \<Rightarrow> labels \<Rightarrow> string list" where
  "ranged R m = map (label m) (dr_range R (map fst m))"


section \<open>Scripts\<close>

text \<open>
  The script that waits for the secrets of a custom agent, exports them and starts it, and the script that
  copies the home of the developer container into its file system before it is committed. \<open>sq\<close> is a
  single quote.
\<close>

definition sq :: string where
  "sq = [CHR 0x27]"

fun script_lines :: "string list \<Rightarrow> string" where
  "script_lines [] = []"
| "script_lines [l] = l"
| "script_lines (l # m # ls) = l @ [CHR 0x0A] @ script_lines (m # ls)"

definition customAgentBootstrap :: string where
  \<open>customAgentBootstrap = script_lines [
     ''set -eu'',
     ''attempt=0'',
     ''while [ ! -f /run/kuayle-secrets/.ready ]; do'',
     ''  attempt=$((attempt + 1))'',
     ''  [ "$attempt" -lt 300 ] || exit 1'',
     ''  sleep 0.1'',
     ''done'',
     ''old_ifs=$IFS'',
     ''IFS=,'',
     ''for secret_name in ${KUAYLE_SECRET_NAMES:-}; do'',
     ''  case "$secret_name" in '' @ sq @ sq @ ''|*[!A-Za-z0-9_]*) exit 1 ;; esac'',
     ''  secret_file="/run/kuayle-secrets/$secret_name"'',
     ''  if [ -f "$secret_file" ]; then'',
     ''    secret_value=$(cat "$secret_file"; printf x)'',
     ''    secret_value=${secret_value%x}'',
     ''    export "$secret_name=$secret_value"'',
     ''    rm -f "$secret_file"'',
     ''  fi'',
     ''done'',
     ''IFS=$old_ifs'',
     ''rm -f /run/kuayle-secrets/.ready'',
     ''home_dir=${HOME:-/home/kuayle}'',
     ''credential_helper=${KUAYLE_GIT_CREDENTIAL_HELPER:-$home_dir/.kuayle-git-credential}'',
     ''case "$credential_helper" in /*) ;; *) exit 1 ;; esac'',
     ''helper_dir=${credential_helper%/*}'',
     ''[ "$helper_dir" != "$credential_helper" ] || helper_dir=.'',
     ''mkdir -p "$helper_dir"'',
     ''old_umask=$(umask)'',
     ''umask 077'',
     ''cat > "$credential_helper" <<'' @ sq @ ''SCRIPT'' @ sq,
     ''#!/bin/sh'',
     ''case "${1:-get}" in'',
     ''  get ) ;;'',
     ''  store|erase ) exit 0 ;;'',
     ''  * ) exit 0 ;;'',
     ''esac'',
     ''if [ -z "${GITHUB_TOKEN:-}" ]; then'',
     ''  echo "missing active GitHub token" >&2'',
     ''  exit 1'',
     ''fi'',
     ''printf '' @ sq @ ''%s'' @ bs [] @ ''n'' @ sq @ '' username=x-access-token'',
     ''printf '' @ sq @ ''%s'' @ bs [] @ ''n'' @ sq @ '' "password=$GITHUB_TOKEN"'',
     ''SCRIPT'',
     ''chmod 0700 "$credential_helper"'',
     ''umask "$old_umask"'',
     ''if command -v git >/dev/null 2>&1; then'',
     ''  git config --global --unset-all core.askPass >/dev/null 2>&1 || true'',
     ''  git config --global --unset-all credential.helper >/dev/null 2>&1 || true'',
     ''  git config --global credential.helper "$credential_helper"'',
     ''  export GIT_TERMINAL_PROMPT=0'',
     ''fi'',
     ''exec "$@"'']\<close>

definition homeTemplateScript :: string where
  \<open>homeTemplateScript = script_lines [
     ''set -eu'',
     ''rm -rf /opt/kuayle-home-template'',
     ''mkdir -p /opt/kuayle-home-template/.config /opt/kuayle-home-template/.local/share/code-server'',
     ''for file in .bashrc .profile; do [ ! -f "/home/kuayle/$file" ] || cp -a "/home/kuayle/$file" "/opt/kuayle-home-template/$file"; done'',
     ''[ ! -d /home/kuayle/.config/code-server ] || cp -a /home/kuayle/.config/code-server /opt/kuayle-home-template/.config/'',
     ''[ ! -d /home/kuayle/.local/share/code-server/extensions ] || cp -a /home/kuayle/.local/share/code-server/extensions /opt/kuayle-home-template/.local/share/code-server/'',
     ''find /opt/kuayle-home-template -type f '' @ bs [] @ ''( -name '' @ sq @ ''*history*'' @ sq @ '' -o -name '' @ sq @ ''*token*'' @ sq @ '' -o -name '' @ sq @ ''*credential*'' @ sq @ '' '' @ bs [] @ '') -delete'',
     ''chown -R 1000:1000 /opt/kuayle-home-template'']\<close>

end
