(* ===== verification/Docker_Exec.thy ===== *)
theory Docker_Exec
  imports Docker_Config "HOL-Library.List_Lexorder" "HOL-Library.Char_ord"
begin

text \<open>
  The helpers of \<open>DockerRuntime\<close>: commands run in a container, the files of the secrets, logs, images,
  networks, volumes, and the wait until a container runs. Closing a stream has no answer the code looks at.
\<close>

section \<open>Commands in a container\<close>

definition answer_of :: "DockerRuntime \<Rightarrow> (docker_client \<Rightarrow> docker_call list \<Rightarrow> docker_error + 'a) \<Rightarrow> docker_call \<Rightarrow> 'a dact" where
  "answer_of R f c = demand (f (dr_client R)) c"

definition asked :: "DockerRuntime \<Rightarrow> (docker_client \<Rightarrow> docker_call list \<Rightarrow> 'a) \<Rightarrow> docker_call \<Rightarrow> 'a dact" where
  "asked R f c = ask (f (dr_client R)) c"

definition dropped :: "DockerRuntime \<Rightarrow> docker_call \<Rightarrow> unit dact" where
  "dropped R c = ignore (asked R dc_unit c)"

text \<open>Both channels of a stream, each through a capped buffer.\<close>

definition stdCopy :: "DockerRuntime \<Rightarrow> string \<Rightarrow> (string \<times> string \<times> go_error option) dact" where
  "stdCopy R stream = bindA (asked R dc_output (StreamRead stream)) (\<lambda>(out, err, e).
     returnA (captured out, captured err, e))"

definition copied :: "DockerRuntime \<Rightarrow> string \<Rightarrow> (string \<times> string) dact" where
  "copied R stream = bindA (stdCopy R stream) (\<lambda>(out, err, e). case e of Some x \<Rightarrow> failA x | None \<Rightarrow> returnA (out, err))"

definition discarded :: "DockerRuntime \<Rightarrow> string \<Rightarrow> unit dact" where
  "discarded R stream = bindA (asked R dc_output (StreamRead stream)) (\<lambda>(out, err, e).
     case e of Some x \<Rightarrow> failA x | None \<Rightarrow> returnA ())"

definition containerLogs :: "DockerRuntime \<Rightarrow> string \<Rightarrow> (string \<times> string) dact" where
  "containerLogs R containerID =
     thenA (answer_of R dc_unit (ContainerLogs containerID)) (copied R containerID)"

definition execOutputAs :: "DockerRuntime \<Rightarrow> string \<Rightarrow> string list \<Rightarrow> string \<Rightarrow> string dact" where
  "execOutputAs R containerID command user =
     bindA (answer_of R dc_id (ExecCreate containerID
              \<lparr>xo_User = user, xo_Cmd = command, xo_Stdin = False, xo_Output = True\<rparr>)) (\<lambda>created.
     thenA (answer_of R dc_unit (ExecAttach created))
    (bindA (copied R created) (\<lambda>(stdout, stderr).
     bindA (answer_of R dc_code (ExecInspect created)) (\<lambda>exitCode.
       if exitCode \<noteq> 0 then failD (''exec failed: '' @ TrimSpace stderr) else returnA stdout))))"

definition execOutput :: "DockerRuntime \<Rightarrow> string \<Rightarrow> string list \<Rightarrow> string dact" where
  "execOutput R containerID command = execOutputAs R containerID command ''1000:1000''"

definition execWithInput :: "DockerRuntime \<Rightarrow> string \<Rightarrow> string list \<Rightarrow> string \<Rightarrow> unit dact" where
  "execWithInput R containerID command input =
     bindA (answer_of R dc_id (ExecCreate containerID
              \<lparr>xo_User = ''1000:1000'', xo_Cmd = command, xo_Stdin = True, xo_Output = True\<rparr>)) (\<lambda>created.
     thenA (answer_of R dc_unit (ExecAttach created))
    (thenA (answer_of R dc_unit (ExecWrite created input))
    (thenA (answer_of R dc_unit (ExecCloseWrite created))
    (bindA (stdCopy R created) (\<lambda>(stdout, stderr, e).
       if (case e of None \<Rightarrow> False | Some x \<Rightarrow> \<not> dr_isEOF R x) then failA (the e)
       else bindA (answer_of R dc_code (ExecInspect created)) (\<lambda>exitCode.
         if exitCode \<noteq> 0
         then failD (''checkout command failed with exit code '' @ int_decimal exitCode @ '': '' @ TrimSpace stderr)
         else returnA ()))))))"

text \<open>\<open>strings.Fields\<close>.\<close>

fun fields_from :: "string \<Rightarrow> (nat \<times> string) list \<Rightarrow> string list" where
  "fields_from field [] = (if field = [] then [] else [field])"
| "fields_from field ((r, b) # rs) =
     (if is_space r then (if field = [] then fields_from [] rs else field # fields_from [] rs)
      else fields_from (field @ b) rs)"

definition Fields :: "string \<Rightarrow> string list" where
  "Fields s = fields_from [] (runes s)"

text \<open>\<open>strconv.ParseInt\<close> in base ten; its error is only compared with nil.\<close>

definition workspaceSize :: "DockerRuntime \<Rightarrow> string \<Rightarrow> int dact" where
  "workspaceSize R collectorID =
     bindA (execOutput R collectorID [''du'', ''-sb'', ''/workspace'']) (\<lambda>output.
     case Fields output of
       [] \<Rightarrow> failD ''workspace size unavailable''
     | field # _ \<Rightarrow> (case Atoi field of
           Some disk \<Rightarrow> returnA disk
         | None \<Rightarrow> failD (''strconv.ParseInt: parsing '' @ dr_Quote R field @ '': invalid syntax'')))"

section \<open>Secrets\<close>

definition clearSecretFiles :: "DockerRuntime \<Rightarrow> string \<Rightarrow> unit dact" where
  "clearSecretFiles R containerID = wrapping ''clear scoped secrets'' (bindA
     (execOutput R containerID [''/bin/sh'', ''-c'',
        ''rm -rf /run/kuayle-secrets/* /run/kuayle-secrets/.[!.]* /run/kuayle-secrets/..?*'']) (\<lambda>_. returnA ()))"

definition writeSecretFile :: "DockerRuntime \<Rightarrow> string \<Rightarrow> string \<Rightarrow> string \<Rightarrow> unit dact" where
  "writeSecretFile R containerID name value =
     bindA (answer_of R dc_id (ExecCreate containerID \<lparr>xo_User = ''1000:1000'',
              xo_Cmd = [''/bin/sh'', ''-c'', ''umask 077; cat > /run/kuayle-secrets/'' @ name],
              xo_Stdin = True, xo_Output = False\<rparr>)) (\<lambda>created.
     thenA (answer_of R dc_unit (ExecAttach created))
    (thenA (answer_of R dc_unit (ExecWrite created value))
    (thenA (answer_of R dc_unit (ExecCloseWrite created))
    (thenA (discarded R created)
    (bindA (answer_of R dc_code (ExecInspect created)) (\<lambda>exitCode.
       if exitCode \<noteq> 0 then failD (''write scoped secret: exec exited '' @ int_decimal exitCode) else returnA ()))))))"

definition installSecrets ::
  "string \<Rightarrow> secrets \<Rightarrow> (string \<Rightarrow> unit dact) \<Rightarrow> (string \<Rightarrow> string \<Rightarrow> string \<Rightarrow> unit dact) \<Rightarrow> unit dact" where
  "installSecrets containerID secrets clear write =
     (if list_ex (\<lambda>name. name = ''.ready'' \<or> \<not> validSecretName name) (map fst secrets)
      then failD ''invalid secret name''
      else thenA (clear containerID)
          (thenA (eachA (\<lambda>name. write containerID name (label secrets name)) (sort (map fst secrets)))
                 (write containerID ''.ready'' [])))"

definition copySecrets :: "DockerRuntime \<Rightarrow> string \<Rightarrow> secrets \<Rightarrow> unit dact" where
  "copySecrets R containerID secrets =
     installSecrets containerID secrets (clearSecretFiles R) (writeSecretFile R)"


section \<open>Images\<close>

definition ensureImage :: "DockerRuntime \<Rightarrow> string \<Rightarrow> unit dact" where
  "ensureImage R reference =
     (if reference = [] then failD ''container image is not configured''
      else bindA (asked R dc_image (ImageInspect reference)) (\<lambda>r. case r of
        Inr _ \<Rightarrow> returnA ()
      | Inl e \<Rightarrow>
          if \<not> IsNotFound e then failA (docker_go e)
          else (case missingImageError reference (dg_PullImages (dr_config R)) of
            Some err \<Rightarrow> failA err
          | None \<Rightarrow> thenA (answer_of R dc_unit (ImagePull reference)) (discarded R reference))))"

definition ensureEnvironmentImage :: "DockerRuntime \<Rightarrow> string \<Rightarrow> uuid \<Rightarrow> uuid \<Rightarrow> unit dact" where
  "ensureEnvironmentImage R reference workspaceID environmentID =
     (if \<not> isImmutableLocalImageID reference
      then failD (''local development environment image is missing: environment image reference ''
                  @ dr_Quote R reference @ '' is not an immutable local image ID'')
      else thenA (ensureImage R reference)
          (bindA (answer_of R dc_image (ImageInspect reference)) (\<lambda>config.
           case validateEnvironmentImageLabels (image_labels config) workspaceID environmentID of
             Some err \<Rightarrow> failA (Wrapped (''environment image '' @ reference @ '' is not valid for this machine'') err)
           | None \<Rightarrow> returnA ())))"

definition imageConfig :: "DockerRuntime \<Rightarrow> string \<Rightarrow> (string list \<times> string list) dact" where
  "imageConfig R reference =
     bindA (answer_of R dc_image (ImageInspect reference)) (\<lambda>config. case config of
       None \<Rightarrow> failD (''image '' @ reference @ '' has no configuration'')
     | Some c \<Rightarrow>
         if ic_Volumes c \<noteq> [] then failD (''image '' @ reference @ '' declares unmanaged volumes'')
         else returnA (ic_Cmd c, ic_Env c))"

definition deleteEnvironmentImage :: "DockerRuntime \<Rightarrow> DevMachineEnvironment \<Rightarrow> unit dact" where
  "deleteEnvironmentImage R environment = (let reference = environmentImageCleanupReference (Some environment) in
     if reference = [] then returnA ()
     else bindA (asked R dc_image (ImageInspect reference)) (\<lambda>r. case r of
       Inl e \<Rightarrow> if IsNotFound e then returnA () else failA (docker_go e)
     | Inr config \<Rightarrow>
         (case validateEnvironmentImageLabels (image_labels config) (en_WorkspaceID environment) (en_ID environment) of
            Some err \<Rightarrow> failA (Wrapped (''environment image '' @ reference @ '' is not owned by Kuayle'') err)
          | None \<Rightarrow> unless_gone (dc_unit (dr_client R)) (ImageRemove reference))))"

section \<open>Networks\<close>

definition containerOnNetwork :: "DockerRuntime \<Rightarrow> string \<Rightarrow> string \<Rightarrow> bool dact" where
  "containerOnNetwork R networkName containerID =
     bindA (asked R dc_container (ContainerInspect containerID)) (\<lambda>c.
     bindA (asked R dc_network (NetworkInspect networkName)) (\<lambda>n.
       returnA (case (c, n) of
           (Inr container, Inr network) \<Rightarrow> cs_ID container \<in> set (nw_Containers network)
         | _ \<Rightarrow> False)))"

definition connectNetwork :: "DockerRuntime \<Rightarrow> string \<Rightarrow> string \<Rightarrow> string list \<Rightarrow> bool dact" where
  "connectNetwork R networkName containerID aliases =
     bindA (containerOnNetwork R networkName containerID) (\<lambda>on.
     if on then returnA False
     else bindA (asked R dc_unit (NetworkConnect networkName containerID aliases)) (\<lambda>r. case r of
       Inr _ \<Rightarrow> returnA True
     | Inl e \<Rightarrow>
         if IsConflict e then returnA False
         else bindA (containerOnNetwork R networkName containerID) (\<lambda>on.
           if on then returnA False else failA (docker_go e))))"

definition ensureNetwork :: "DockerRuntime \<Rightarrow> string \<Rightarrow> bool \<Rightarrow> labels \<Rightarrow> bool dact" where
  "ensureNetwork R name internal labels =
     bindA (asked R dc_network (NetworkInspect name)) (\<lambda>r. case r of
       Inr network \<Rightarrow>
         if nw_Internal network \<noteq> internal
         then failD (''existing network '' @ name @ '' has incompatible isolation'')
         else if list_ex (\<lambda>(key, v). label (nw_Labels network) key \<noteq> v) labels
         then failD (''existing network '' @ name @ '' is not managed by Kuayle'')
         else returnA False
     | Inl e \<Rightarrow>
         if \<not> IsNotFound e then failA (docker_go e)
         else thenA (answer_of R dc_unit (NetworkCreate name internal labels)) (returnA True))"

section \<open>Volumes\<close>

definition inspectWorkspaceVolumeWithOptions :: "DockerRuntime \<Rightarrow> volume_options \<Rightarrow> bool dact" where
  "inspectWorkspaceVolumeWithOptions R expected =
     bindA (asked R dc_volume (VolumeInspect (vp_Name expected))) (\<lambda>r. case r of
       Inl e \<Rightarrow> if IsNotFound e then returnA False else failA (docker_go e)
     | Inr volume \<Rightarrow>
         (case validateWorkspaceVolume R volume expected of
            Some err \<Rightarrow> failA (Wrapped (''workspace volume '' @ vp_Name expected) err)
          | None \<Rightarrow> returnA True))"

definition inspectWorkspaceVolume :: "DockerRuntime \<Rightarrow> string \<Rightarrow> labels \<Rightarrow> int \<Rightarrow> bool dact" where
  "inspectWorkspaceVolume R name labels diskGB = (case workspaceVolumeCreateOptions name labels diskGB of
     Inl err \<Rightarrow> failA err | Inr expected \<Rightarrow> inspectWorkspaceVolumeWithOptions R expected)"

definition ensureVolume :: "DockerRuntime \<Rightarrow> string \<Rightarrow> labels \<Rightarrow> int \<Rightarrow> bool dact" where
  "ensureVolume R name labels diskGB = (case workspaceVolumeCreateOptions name labels diskGB of
     Inl err \<Rightarrow> failA err
   | Inr expected \<Rightarrow>
       bindA (inspectWorkspaceVolumeWithOptions R expected) (\<lambda>exists.
       if exists then returnA False
       else bindA (wrapping ''create hard-quota workspace volume'' (answer_of R dc_volume (VolumeCreate expected))) (\<lambda>created.
         case validateWorkspaceVolume R created expected of
           Some err \<Rightarrow> thenA (dropped R (VolumeRemove name))
             (failA (Wrapped ''created workspace volume did not retain its hard quota'' err))
         | None \<Rightarrow> returnA True)))"

definition ensureWorkspaceQuotaSupport :: "DockerRuntime \<Rightarrow> unit dact" where
  "ensureWorkspaceQuotaSupport R =
     bindA (getA dk_quotaReady) (\<lambda>quotaReady.
     if quotaReady then returnA ()
     else (let name = ''kuayle-workspace-quota-probe-'' @ dr_NewString R in
       bindA (wrapping (''workspace hard quotas are unavailable; Docker'' @ sq
                @ ''s local volume driver requires an XFS data root mounted with project quotas'')
              (ensureVolume R name [(''com.kuayle.managed'', ''true''), (''com.kuayle.kind'', ''workspace-quota-probe'')] 1)) (\<lambda>created.
       if \<not> created then failD ''workspace quota probe volume already exists''
       else thenA (wrapping ''remove workspace quota probe'' (answer_of R dc_unit (VolumeRemove name)))
                  (putA (\<lambda>k. k\<lparr>dk_quotaReady := True\<rparr>)))))"

definition runtimePing :: "DockerRuntime \<Rightarrow> unit dact" where
  "runtimePing R = thenA (answer_of R dc_unit DockerPing) (ensureWorkspaceQuotaSupport R)"

section \<open>Waiting for a container\<close>

text \<open>
  The turns of the loop of \<open>requireRunning\<close>, of which there are at most \<open>dr_polls\<close>; in a turn the
  container is ready, or is asked for again, or has ended.
\<close>

definition ready_state :: "container_state \<Rightarrow> bool" where
  "ready_state c \<longleftrightarrow> cs_Running c \<and> (cs_Health c = None \<or> cs_Health c = Some ''healthy'')"

fun requireRunning_turns :: "DockerRuntime \<Rightarrow> string \<Rightarrow> nat \<Rightarrow> unit dact" where
  "requireRunning_turns R containerID 0 = failD ''container readiness timed out''"
| "requireRunning_turns R containerID (Suc turns) =
     bindA (asked R dc_select PollSelect) (\<lambda>event. case event of
       Cancelled_by e \<Rightarrow> failA e
     | TimedOut \<Rightarrow> failD ''container readiness timed out''
     | Ticked \<Rightarrow>
         bindA (answer_of R dc_container (ContainerInspect containerID)) (\<lambda>c.
         if ready_state c then returnA ()
         else if cs_Running c then requireRunning_turns R containerID turns
         else bindA (attempt (containerLogs R containerID)) (\<lambda>logs.
           let stderr = (case logs of Inl _ \<Rightarrow> cs_Error c | Inr (_, err) \<Rightarrow> err) in
           failD (''container exited with code '' @ int_decimal (cs_ExitCode c) @ '': '' @ TrimSpace stderr))))"

definition requireRunning :: "DockerRuntime \<Rightarrow> string \<Rightarrow> unit dact" where
  "requireRunning R containerID = requireRunning_turns R containerID (dr_polls R)"

end
