(* ===== verification/Docker_Services.thy ===== *)
theory Docker_Services
  imports Docker_Exec
begin

text \<open>
  Creating and starting the containers of a machine: \<open>ensureService\<close>, \<open>prepareWorkspaceVolume\<close> and
  \<open>Spawn\<close> with the cleanup it defers.
\<close>

section \<open>Starting a container\<close>

definition startContainerWithSecrets :: "DockerRuntime \<Rightarrow> string \<Rightarrow> secrets \<Rightarrow> unit dact" where
  "startContainerWithSecrets R containerID secrets =
     thenA (answer_of R dc_unit (ContainerStart containerID)) (copySecrets R containerID secrets)"

definition restartContainerWithSecrets :: "DockerRuntime \<Rightarrow> string \<Rightarrow> bool \<Rightarrow> bool \<Rightarrow> secrets \<Rightarrow> unit dact" where
  "restartContainerWithSecrets R containerID running paused secrets =
     thenA (whenA paused (answer_of R dc_unit (ContainerUnpause containerID)))
    (thenA (whenA (running \<or> paused)
        (thenA (clearSecretFiles R containerID)
               (unless_idle (dc_unit (dr_client R)) (ContainerStop containerID (Some 15)))))
     (startContainerWithSecrets R containerID secrets))"

definition ensureContainerStarted ::
  "DockerRuntime \<Rightarrow> string \<Rightarrow> DevMachineStatus \<Rightarrow> bool \<Rightarrow> bool \<Rightarrow> secrets \<Rightarrow> unit dact" where
  "ensureContainerStarted R containerID machineStatus running paused secrets =
     (case serviceStartAction machineStatus running paused of
        containerStartRestart \<Rightarrow> restartContainerWithSecrets R containerID running paused secrets
      | containerStartUnpause \<Rightarrow> answer_of R dc_unit (ContainerUnpause containerID)
      | containerStartStart \<Rightarrow> startContainerWithSecrets R containerID secrets
      | containerStartNone \<Rightarrow> returnA ())"

definition secrets_for :: "service_secrets \<Rightarrow> string \<Rightarrow> secrets" where
  "secrets_for secrets key = (case map_of secrets key of None \<Rightarrow> [] | Some s \<Rightarrow> s)"

section \<open>The container of a service\<close>

definition proxy_environment :: "DevMachine \<Rightarrow> string list" where
  "proxy_environment machine = (let key = m_RoutingKey machine in
     [''HTTP_PROXY=http://'' @ key @ ''-egress:3128'', ''HTTPS_PROXY=http://'' @ key @ ''-egress:3128'',
      ''NO_PROXY=localhost,127.0.0.1,'' @ key @ ''-collector,'' @ key @ ''-ide,'' @ key @ ''-browser'',
      ''KUAYLE_COLLECTOR_URL=http://'' @ key @ ''-collector:8091''])"

definition service_environment :: "DockerRuntime \<Rightarrow> DevMachine \<Rightarrow> DevMachineService \<Rightarrow> secrets \<Rightarrow> string list" where
  "service_environment R machine service secrets =
     [''KUAYLE_MACHINE_ID='' @ uuid_String (m_ID machine),
      ''KUAYLE_SECRET_NAMES='' @ commas (dr_range R (map fst secrets))]
   @ (if sv_ServiceType service \<noteq> ''egress'' then proxy_environment machine else [])
   @ (if sv_ServiceType service = ''ide''
      then [''KUAYLE_REPO_URL='' @ m_RepoURL machine, ''KUAYLE_BASE_BRANCH='' @ m_BaseBranch machine,
            ''KUAYLE_WORKING_BRANCH='' @ m_WorkingBranch machine, ''SHELL=/usr/local/bin/kuayle-shell''] else [])
   @ (if sv_ServiceType service = ''collector''
      then [''KUAYLE_INGEST_URL='' @ dg_IngestURL (dr_config R)]
        @ (if map_of secrets ''KUAYLE_BROWSER_CDP_TOKEN'' \<noteq> None
           then [''KUAYLE_BROWSER_CDP_URL=http://'' @ m_RoutingKey machine @ ''-browser:9222''] else []) else [])
   @ (if sv_ServiceType service = ''egress''
      then [''KUAYLE_EGRESS_ALLOWLIST='' @ dg_EgressAllowlist (dr_config R),
            ''KUAYLE_EGRESS_DENYLIST='' @ dg_EgressDenylist (dr_config R)] else [])"

definition service_health :: "string \<Rightarrow> health_config option" where
  "service_health serviceType =
     (if serviceType = ''ide''
      then Some \<lparr>he_Test = [''CMD'', ''test'', ''-f'', ''/workspace/.kuayle-ready''], he_Interval = seconds 1,
                 he_Timeout = seconds 1, he_StartPeriod = 0, he_Retries = 300\<rparr>
      else if serviceType = ''browser''
      then Some \<lparr>he_Test = [''CMD'', ''/usr/local/bin/kuayle-browser-healthcheck''], he_Interval = seconds 10,
                 he_Timeout = seconds 2, he_StartPeriod = seconds 10, he_Retries = 6\<rparr>
      else None)"

definition service_spec ::
  "DockerRuntime \<Rightarrow> DevMachine \<Rightarrow> DevMachineService \<Rightarrow> string \<Rightarrow> string \<Rightarrow> secrets \<Rightarrow> string list \<Rightarrow> string list
     \<Rightarrow> container_spec" where
  "service_spec R machine service networkName volumeName secrets command imageEnvironment =
     \<lparr>sp_Config = \<lparr>cc_Image = sv_ImageRef service, cc_User = ''1000:1000'', cc_WorkingDir = ''/workspace'',
        cc_Entrypoint = [''/usr/local/bin/kuayle-service-entrypoint''], cc_Cmd = command,
        cc_Env = imageEnvironment @ service_environment R machine service secrets,
        cc_Labels = map_put ''com.kuayle.service'' (sv_ServiceType service) (machineLabels machine),
        cc_Healthcheck = service_health (sv_ServiceType service), cc_AttachOutput = False, cc_Interactive = False\<rparr>,
      sp_Host = secureHostConfig R machine (sv_ServiceType service) networkName volumeName,
      sp_Networks = [(networkName, [sv_InternalHost service])],
      sp_Name = sv_ContainerName service\<rparr>"

text \<open>The branch of \<open>ensureService\<close> in which there is no such container; until it runs, a failure removes it.\<close>

definition createService ::
  "DockerRuntime \<Rightarrow> DevMachine \<Rightarrow> DevMachineService \<Rightarrow> string \<Rightarrow> string \<Rightarrow> secrets \<Rightarrow> string dact" where
  "createService R machine service networkName volumeName secrets =
     thenA (case (if sv_ServiceType service = ''ide'' then m_EnvironmentID machine else None) of
         Some environmentID \<Rightarrow> ensureEnvironmentImage R (sv_ImageRef service) (m_WorkspaceID machine) environmentID
       | None \<Rightarrow> ensureImage R (sv_ImageRef service))
    (bindA (imageConfig R (sv_ImageRef service)) (\<lambda>(command, imageEnvironment).
     if command = [] then failD (''image '' @ sv_ImageRef service @ '' has no default command'')
     else bindA (answer_of R dc_id (ContainerCreate
            (service_spec R machine service networkName volumeName secrets command imageEnvironment))) (\<lambda>containerID.
       deferA (thenA (answer_of R dc_unit (ContainerStart containerID))
              (thenA (copySecrets R containerID secrets)
              (thenA (requireRunning R containerID) (returnA containerID))))
         (\<lambda>r. case r of Inl _ \<Rightarrow> dropped R (ContainerRemove containerID) | Inr _ \<Rightarrow> returnA ()))))"

definition error_in :: "go_error + 'a \<Rightarrow> go_error option" where
  "error_in r = (case r of Inl e \<Rightarrow> Some e | Inr _ \<Rightarrow> None)"

text \<open>All four results: the container, whether it was created, whether the network was attached, the error.\<close>

definition ensureService ::
  "DockerRuntime \<Rightarrow> DevMachine \<Rightarrow> DevMachineService \<Rightarrow> string \<Rightarrow> string \<Rightarrow> secrets
     \<Rightarrow> (string \<times> bool \<times> bool \<times> go_error option) dact" where
  "ensureService R machine service networkName volumeName secrets =
     bindA (asked R dc_container (ContainerInspect (sv_ContainerName service))) (\<lambda>r. case r of
       Inr c \<Rightarrow>
         if cs_Image c \<noteq> sv_ImageRef service
            \<or> label (cs_Labels c) ''com.kuayle.machine-id'' \<noteq> uuid_String (m_ID machine)
            \<or> label (cs_Labels c) ''com.kuayle.service'' \<noteq> sv_ServiceType service
         then returnA ([], False, False, Some (Errorf ''existing container does not match service''))
         else bindA (attempt (connectNetwork R networkName (cs_ID c) [sv_InternalHost service])) (\<lambda>connected.
           case connected of
             Inl e \<Rightarrow> returnA (cs_ID c, False, False, Some e)
           | Inr attached \<Rightarrow>
               bindA (attempt (thenA
                   (ensureContainerStarted R (cs_ID c) (m_Status machine) (cs_Running c) (cs_Paused c) secrets)
                   (requireRunning R (cs_ID c)))) (\<lambda>started.
                 returnA (cs_ID c, False, attached, error_in started)))
     | Inl e \<Rightarrow>
         if \<not> IsNotFound e then returnA ([], False, False, Some (docker_go e))
         else bindA (attempt (createService R machine service networkName volumeName secrets)) (\<lambda>created.
           case created of
             Inl e \<Rightarrow> returnA ([], False, False, Some e)
           | Inr containerID \<Rightarrow> returnA (containerID, True, False, None)))"


section \<open>The volume initializer\<close>

definition initializer_spec :: "DevMachine \<Rightarrow> string \<Rightarrow> string \<Rightarrow> container_spec" where
  "initializer_spec machine volumeName imageRef =
     \<lparr>sp_Config = \<lparr>cc_Image = imageRef, cc_User = ''0:0'', cc_WorkingDir = [], cc_Entrypoint = [''/bin/sh''],
        cc_Cmd = [''-c'', ''chown 1000:1000 /workspace''], cc_Env = [],
        cc_Labels = map_put ''com.kuayle.service'' ''volume-init'' (machineLabels machine),
        cc_Healthcheck = None, cc_AttachOutput = False, cc_Interactive = False\<rparr>,
      sp_Host = \<lparr>hc_NetworkMode = ''none'', hc_ReadonlyRootfs = True, hc_Privileged = False, hc_CapDrop = [''ALL''],
        hc_CapAdd = [''CHOWN''], hc_SecurityOpt = [''no-new-privileges=true''], hc_LogConfig = boundedLogConfig,
        hc_Tmpfs = [], hc_Mounts = [\<lparr>mt_Source = volumeName, mt_Target = ''/workspace'', mt_ReadOnly = False\<rparr>],
        hc_NanoCPUs = 100000000, hc_Memory = 64 * 1024 * 1024, hc_MemorySwap = 64 * 1024 * 1024,
        hc_PidsLimit = 16, hc_ShmSize = 0\<rparr>,
      sp_Networks = [], sp_Name = ''kuayle-'' @ m_RoutingKey machine @ ''-volume-init''\<rparr>"

definition removeInitializer :: "DockerRuntime \<Rightarrow> DevMachine \<Rightarrow> unit dact" where
  "removeInitializer R machine =
     bindA (asked R dc_container (ContainerInspect (''kuayle-'' @ m_RoutingKey machine @ ''-volume-init''))) (\<lambda>r. case r of
       Inr c \<Rightarrow>
         if label (cs_Labels c) ''com.kuayle.machine-id'' \<noteq> uuid_String (m_ID machine)
         then failD ''existing volume initializer is not managed by Kuayle''
         else answer_of R dc_unit (ContainerRemove (cs_ID c))
     | Inl e \<Rightarrow> if IsNotFound e then returnA () else failA (docker_go e))"

definition runInitializer :: "DockerRuntime \<Rightarrow> string \<Rightarrow> unit dact" where
  "runInitializer R containerID =
     thenA (answer_of R dc_unit (ContainerStart containerID))
    (bindA (asked R dc_wait (ContainerWait containerID)) (\<lambda>ended. case ended of
       Exited statusCode \<Rightarrow>
         if statusCode \<noteq> 0
         then bindA (attempt (containerLogs R containerID)) (\<lambda>logs.
           let stderr = (case logs of Inl _ \<Rightarrow> [] | Inr (_, err) \<Rightarrow> err) in
           failD (''volume initializer exited '' @ int_decimal statusCode @ '': '' @ TrimSpace stderr))
         else returnA ()
     | WaitFailed e \<Rightarrow> failA (docker_go e)
     | ContextDone e \<Rightarrow> failA e))"

definition prepareWorkspaceVolume :: "DockerRuntime \<Rightarrow> DevMachine \<Rightarrow> string \<Rightarrow> string \<Rightarrow> unit dact" where
  "prepareWorkspaceVolume R machine volumeName imageRef =
     thenA (ensureImage R imageRef)
    (thenA (removeInitializer R machine)
    (bindA (answer_of R dc_id (ContainerCreate (initializer_spec machine volumeName imageRef))) (\<lambda>containerID.
       deferA (runInitializer R containerID) (\<lambda>_. dropped R (ContainerRemove containerID)))))"

section \<open>Spawn\<close>

text \<open>The variables of \<open>Spawn\<close> that its deferred function reads.\<close>

record spawn_book =
  bk_containers :: labels
  bk_createdContainers :: labels
  bk_machineConnections :: labels
  bk_egressConnections :: labels
  bk_networkCreated :: bool
  bk_volumeCreated :: bool

type_synonym 'a spawn_act = "(docker_state \<times> spawn_book, 'a) action"

definition empty_book :: spawn_book where
  "empty_book = \<lparr>bk_containers = [], bk_createdContainers = [], bk_machineConnections = [], bk_egressConnections = [],
     bk_networkCreated = False, bk_volumeCreated = False\<rparr>"

definition inside :: "'a dact \<Rightarrow> 'a spawn_act" where
  "inside a w = (case a (fst w) of (r, k) \<Rightarrow> (r, (k, snd w)))"

definition noted :: "(spawn_book \<Rightarrow> spawn_book) \<Rightarrow> unit spawn_act" where
  "noted f = putA (\<lambda>(k, b). (k, f b))"

definition egressNetworkName :: string where
  "egressNetworkName = ''kuayle-machine-egress''"

definition record_service :: "DevMachineService \<Rightarrow> string \<Rightarrow> bool \<Rightarrow> unit spawn_act" where
  "record_service service containerID created = noted (\<lambda>b.
     let maps = recordSpawnServiceContainer (bk_containers b, bk_createdContainers b) (sv_ServiceKey service) containerID created in
     b\<lparr>bk_containers := fst maps, bk_createdContainers := snd maps\<rparr>)"

definition spawn_service ::
  "DockerRuntime \<Rightarrow> DevMachine \<Rightarrow> string \<Rightarrow> string \<Rightarrow> service_secrets \<Rightarrow> DevMachineService \<Rightarrow> unit spawn_act" where
  "spawn_service R machine networkName volumeName secrets service = (let key = sv_ServiceKey service in
     bindA (inside (ensureService R machine service networkName volumeName (secrets_for secrets key)))
       (\<lambda>(containerID, containerCreated, networkAttached, err).
     thenA (whenA networkAttached (noted (\<lambda>b. b\<lparr>bk_machineConnections := map_put key containerID (bk_machineConnections b)\<rparr>)))
     (case err of
        Some e \<Rightarrow> failA (Wrapped (''start '' @ key) e)
      | None \<Rightarrow>
          thenA (record_service service containerID containerCreated)
          (whenA (sv_ServiceType service = ''egress'')
            (bindA (inside (wrapping ''attach egress service'' (connectNetwork R egressNetworkName containerID []))) (\<lambda>connected.
             whenA (connected \<and> \<not> containerCreated)
               (noted (\<lambda>b. b\<lparr>bk_egressConnections := map_put key containerID (bk_egressConnections b)\<rparr>))))))))"

definition spawn_terminal :: "DevMachineService \<Rightarrow> unit spawn_act" where
  "spawn_terminal service =
     bindA (getA (\<lambda>(k, b). label (bk_containers b) ''ide'')) (\<lambda>containerID.
     if containerID = [] then failA (Errorf ''start terminal: developer container is unavailable'')
     else record_service service containerID False)"

text \<open>From the volume's preparation on; the deferred function is told of every container and connection.\<close>

definition spawn_containers ::
  "DockerRuntime \<Rightarrow> DevMachine \<Rightarrow> DevMachineService list \<Rightarrow> service_secrets \<Rightarrow> string \<Rightarrow> string
     \<Rightarrow> (string \<times> string \<times> labels) spawn_act" where
  "spawn_containers R machine services secrets networkName volumeName =
     thenA (inside (wrapping ''prepare workspace volume'' (prepareWorkspaceVolume R machine volumeName
             (case find (\<lambda>s. sv_ServiceType s = ''collector'') services of None \<Rightarrow> [] | Some s \<Rightarrow> sv_ImageRef s))))
    (if dg_GatewayContainerName (dr_config R) = []
     then failA (Errorf ''gateway container name is required'')
     else bindA (inside (wrapping ''attach gateway to machine network''
             (connectNetwork R networkName (dg_GatewayContainerName (dr_config R)) [''kuayle-gateway'']))) (\<lambda>connected.
       thenA (whenA connected (noted (\<lambda>b. b\<lparr>bk_machineConnections :=
                map_put ''gateway'' (dg_GatewayContainerName (dr_config R)) (bk_machineConnections b)\<rparr>)))
      (thenA (eachA (spawn_service R machine networkName volumeName secrets)
                (filter (\<lambda>s. sv_ServiceType s \<noteq> ''terminal'') services))
      (thenA (eachA spawn_terminal (filter (\<lambda>s. sv_ServiceType s = ''terminal'') services))
       (getA (\<lambda>(k, b). (networkName, volumeName, bk_containers b)))))))"

definition spawn_body ::
  "DockerRuntime \<Rightarrow> DevMachine \<Rightarrow> DevMachineService list \<Rightarrow> service_secrets \<Rightarrow> string \<Rightarrow> string
     \<Rightarrow> (string \<times> string \<times> labels) spawn_act" where
  "spawn_body R machine services secrets networkName volumeName =
     bindA (inside (wrapping ''create private network'' (ensureNetwork R networkName True (machineLabels machine)))) (\<lambda>networkCreated.
     thenA (noted (\<lambda>b. b\<lparr>bk_networkCreated := networkCreated\<rparr>))
    (thenA (inside (wrapping ''create egress network''
             (ensureNetwork R egressNetworkName False [(''com.kuayle.kind'', ''machine-egress'')])))
    (bindA (inside (wrapping ''create workspace volume''
             (ensureVolume R volumeName (machineLabels machine) (m_DiskGB machine)))) (\<lambda>volumeCreated.
     thenA (noted (\<lambda>b. b\<lparr>bk_volumeCreated := volumeCreated\<rparr>))
           (spawn_containers R machine services secrets networkName volumeName)))))"

text \<open>The deferred function; its calls are outside the context of the operation, and their errors are dropped.\<close>

definition removeContainers :: "DockerRuntime \<Rightarrow> labels \<Rightarrow> unit dact" where
  "removeContainers R containers =
     eachA (\<lambda>i. dropped R (ContainerRemove i)) (first_seen [] (filter (\<lambda>i. i \<noteq> []) (ranged R containers)))"

definition spawn_cleanup :: "DockerRuntime \<Rightarrow> string \<Rightarrow> string \<Rightarrow> spawn_book \<Rightarrow> unit dact" where
  "spawn_cleanup R networkName volumeName b =
     (let cleanup = planSpawnFailureCleanup (bk_createdContainers b) (bk_machineConnections b)
                      (bk_networkCreated b) (bk_volumeCreated b) in
      thenA (removeContainers R (fc_Containers cleanup))
     (thenA (eachA (\<lambda>i. dropped R (NetworkDisconnect egressNetworkName i)) (ranged R (bk_egressConnections b)))
     (thenA (eachA (\<lambda>i. dropped R (NetworkDisconnect networkName i)) (ranged R (fc_NetworkConnections cleanup)))
     (thenA (whenA (fc_RemoveNetwork cleanup) (dropped R (NetworkRemove networkName)))
      (whenA (fc_RemoveVolume cleanup) (dropped R (VolumeRemove volumeName)))))))"

definition runtimeSpawn ::
  "DockerRuntime \<Rightarrow> DevMachine \<Rightarrow> DevMachineService list \<Rightarrow> service_secrets \<Rightarrow> (string \<times> string \<times> labels) dact" where
  "runtimeSpawn R machine services secrets k =
     (let networkName = ''kuayle-machine-'' @ m_RoutingKey machine;
          volumeName = ''kuayle-workspace-'' @ m_RoutingKey machine in
      case spawn_body R machine services secrets networkName volumeName (k, empty_book) of
        (Inr x, (k', b)) \<Rightarrow> (Inr x, k')
      | (Inl e, (k', b)) \<Rightarrow> (Inl e, snd (spawn_cleanup R networkName volumeName b k')))"

end
