(* ===== verification/Docker_Runtime.thy ===== *)
theory Docker_Runtime
  imports Docker_Services
begin

text \<open>
  The other methods of \<open>DockerRuntime\<close>, which the manager calls through the interface \<open>Runtime\<close>: the
  lifecycle of a machine's containers, its teardown, and what is read from them.
\<close>

section \<open>Start, pause and stop\<close>

definition start_service :: "DockerRuntime \<Rightarrow> DevMachine \<Rightarrow> service_secrets \<Rightarrow> DevMachineService \<Rightarrow> unit dact" where
  "start_service R machine secrets service = (let containerID = container_of service in
     if containerID = [] then failD (''service '' @ sv_ServiceKey service @ '' has no container'')
     else bindA (answer_of R dc_container (ContainerInspect containerID)) (\<lambda>c.
       thenA (ensureContainerStarted R containerID (m_Status machine) (cs_Running c) (cs_Paused c)
                (secrets_for secrets (sv_ServiceKey service)))
             (wrapping (''start '' @ sv_ServiceKey service) (requireRunning R containerID))))"

definition runtimeStart :: "DockerRuntime \<Rightarrow> DevMachine \<Rightarrow> DevMachineService list \<Rightarrow> service_secrets \<Rightarrow> unit dact" where
  "runtimeStart R machine services secrets = (case m_WorkspaceVolumeName machine of
     None \<Rightarrow> failD ''machine workspace volume is unavailable''
   | Some volumeName \<Rightarrow>
       if volumeName = [] then failD ''machine workspace volume is unavailable''
       else bindA (inspectWorkspaceVolume R volumeName (machineLabels machine) (m_DiskGB machine)) (\<lambda>volumeExists.
         if \<not> volumeExists then failD ''machine workspace volume does not exist''
         else eachA (start_service R machine secrets) (plannedStartServices (m_Status machine) services)))"

definition runtimePause :: "DockerRuntime \<Rightarrow> DevMachineService list \<Rightarrow> unit dact" where
  "runtimePause R services =
     eachA (\<lambda>i. unless_idle (dc_unit (dr_client R)) (ContainerPause i)) (uniqueContainerIDs services)"

definition runtimeStop :: "DockerRuntime \<Rightarrow> DevMachineService list \<Rightarrow> unit dact" where
  "runtimeStop R services =
     eachA (\<lambda>i. unless_idle (dc_unit (dr_client R)) (ContainerStop i (Some 15))) (uniqueContainerIDs services)"

section \<open>Teardown\<close>

definition removeManagedContainer :: "DockerRuntime \<Rightarrow> uuid \<Rightarrow> string \<Rightarrow> unit dact" where
  "removeManagedContainer R machineID containerID =
     bindA (asked R dc_container (ContainerInspect containerID)) (\<lambda>r. case r of
       Inl e \<Rightarrow> if IsNotFound e then returnA () else failA (docker_go e)
     | Inr c \<Rightarrow>
         if \<not> ownedByMachine (cs_Labels c) machineID
         then failD (''container '' @ containerID @ '' is not owned by machine'')
         else unless_gone (dc_unit (dr_client R)) (ContainerRemove containerID))"

definition removeManagedNetwork :: "DockerRuntime \<Rightarrow> uuid \<Rightarrow> string \<Rightarrow> unit dact" where
  "removeManagedNetwork R machineID networkName =
     bindA (asked R dc_network (NetworkInspect networkName)) (\<lambda>r. case r of
       Inl e \<Rightarrow> if IsNotFound e then returnA () else failA (docker_go e)
     | Inr n \<Rightarrow>
         if \<not> ownedByMachine (nw_Labels n) machineID
         then failD (''network '' @ networkName @ '' is not owned by machine'')
         else unless_gone (dc_unit (dr_client R)) (NetworkRemove networkName))"

definition removeManagedVolume :: "DockerRuntime \<Rightarrow> uuid \<Rightarrow> string \<Rightarrow> unit dact" where
  "removeManagedVolume R machineID volumeName =
     bindA (asked R dc_volume (VolumeInspect volumeName)) (\<lambda>r. case r of
       Inl e \<Rightarrow> if IsNotFound e then returnA () else failA (docker_go e)
     | Inr v \<Rightarrow>
         if \<not> ownedByMachine (vs_Labels v) machineID
         then failD (''volume '' @ volumeName @ '' is not owned by machine'')
         else unless_gone (dc_unit (dr_client R)) (VolumeRemove volumeName))"

definition removeListed :: "DockerRuntime \<Rightarrow> uuid \<Rightarrow> container_item \<Rightarrow> unit dact" where
  "removeListed R machineID item =
     (if label (ci_Labels item) ''com.kuayle.managed'' \<noteq> ''true''
         \<or> label (ci_Labels item) ''com.kuayle.machine-id'' \<noteq> uuid_String machineID
      then failD (''container '' @ ci_ID item @ '' is not owned by machine'')
      else unless_gone (dc_unit (dr_client R)) (ContainerRemove (ci_ID item)))"

definition runtimeTeardown :: "DockerRuntime \<Rightarrow> DevMachine \<Rightarrow> DevMachineService list \<Rightarrow> unit dact" where
  "runtimeTeardown R machine services =
     thenA (eachA (removeManagedContainer R (m_ID machine))
              (first_seen [] (List.map_filter sv_ContainerID services)))
    (bindA (answer_of R dc_items (ContainerList (Some (''com.kuayle.machine-id='' @ uuid_String (m_ID machine))))) (\<lambda>items.
     thenA (eachA (removeListed R (m_ID machine)) items)
    (thenA (dropped R (NetworkDisconnect (networkNameOf machine) (dg_GatewayContainerName (dr_config R))))
    (thenA (removeManagedNetwork R (m_ID machine) (networkNameOf machine))
     (removeManagedVolume R (m_ID machine) (volumeNameOf machine))))))"

section \<open>Inspection\<close>

definition no_inspection :: RuntimeServiceInspection where
  "no_inspection = \<lparr>si_ContainerID = [], si_Status = [], si_HealthStatus = [], si_Exists = False,
     si_Running = False, si_Paused = False, si_OnNetwork = False\<rparr>"

definition service_inspection :: "string \<Rightarrow> container_state \<Rightarrow> RuntimeServiceInspection" where
  "service_inspection networkName c =
     \<lparr>si_ContainerID = cs_ID c, si_Status = cs_Status c,
      si_HealthStatus = (case cs_Health c of
          Some health \<Rightarrow> health
        | None \<Rightarrow> if cs_Running c then ''healthy'' else cs_Status c),
      si_Exists = True, si_Running = cs_Running c, si_Paused = cs_Paused c,
      si_OnNetwork = networkName \<in> set (cs_Networks c)\<rparr>"

definition inspect_service :: "DockerRuntime \<Rightarrow> string \<Rightarrow> DevMachineService \<Rightarrow> RuntimeServiceInspection dact" where
  "inspect_service R networkName service =
     (let reference = (if container_of service \<noteq> [] then container_of service else sv_ContainerName service) in
      bindA (asked R dc_container (ContainerInspect reference)) (\<lambda>first.
      bindA (if (case first of Inl e \<Rightarrow> IsNotFound e | Inr _ \<Rightarrow> False) \<and> reference \<noteq> sv_ContainerName service
             then asked R dc_container (ContainerInspect (sv_ContainerName service)) else returnA first) (\<lambda>r. case r of
        Inl e \<Rightarrow> if IsNotFound e then returnA no_inspection else failA (docker_go e)
      | Inr c \<Rightarrow> returnA (service_inspection networkName c))))"

fun inspect_services ::
  "DockerRuntime \<Rightarrow> string \<Rightarrow> DevMachineService list \<Rightarrow> (string \<rightharpoonup> RuntimeServiceInspection)
     \<Rightarrow> (string \<rightharpoonup> RuntimeServiceInspection) dact" where
  "inspect_services R networkName [] found = returnA found"
| "inspect_services R networkName (service # services) found =
     bindA (inspect_service R networkName service) (\<lambda>s.
       inspect_services R networkName services (found(sv_ServiceKey service \<mapsto> s)))"

definition runtimeInspect :: "DockerRuntime \<Rightarrow> DevMachine \<Rightarrow> DevMachineService list \<Rightarrow> RuntimeInspection dact" where
  "runtimeInspect R machine services =
     (let networkName = networkNameOf machine; volumeName = volumeNameOf machine;
          gatewayName = dg_GatewayContainerName (dr_config R) in
      bindA (asked R dc_network (NetworkInspect networkName)) (\<lambda>n.
      bindA (case n of
          Inl e \<Rightarrow> if IsNotFound e then returnA (False, False) else failA (docker_go e)
        | Inr network \<Rightarrow>
            if gatewayName = [] then returnA (True, False)
            else bindA (asked R dc_container (ContainerInspect gatewayName)) (\<lambda>g. returnA (True, case g of
                Inr gateway \<Rightarrow> cs_ID gateway \<in> set (nw_Containers network) | Inl _ \<Rightarrow> False))) (\<lambda>(networkExists, gatewayAttached).
      bindA (inspectWorkspaceVolume R volumeName (machineLabels machine) (m_DiskGB machine)) (\<lambda>volumeExists.
      bindA (inspect_services R networkName services Map.empty) (\<lambda>found.
        returnA \<lparr>ri_NetworkName = networkName, ri_VolumeName = volumeName, ri_NetworkExists = networkExists,
                 ri_VolumeExists = volumeExists, ri_GatewayAttached = gatewayAttached, ri_Services = found\<rparr>)))))"

end
