(* ===== verification/Docker_Agents.thy ===== *)
theory Docker_Agents
  imports Docker_Runtime
begin

text \<open>
  The methods of \<open>DockerRuntime\<close> for agent runs, usage, repositories, terminals and environments.
\<close>

section \<open>Agents\<close>

text \<open>
  An execution and an error can be returned together; the failure of an action is \<open>nil\<close> with the error.
\<close>

type_synonym execution_result = "AgentExecution option \<times> go_error option"

definition executed :: "string \<Rightarrow> int \<Rightarrow> go_error option \<Rightarrow> execution_result dact" where
  "executed containerID exitCode err = returnA
     (Some \<lparr>ex_ContainerID = containerID, ex_Stdout = [], ex_Stderr = [], ex_ExitCode = exitCode\<rparr>, err)"

definition agent_output :: "DockerRuntime \<Rightarrow> string \<Rightarrow> int \<Rightarrow> execution_result dact" where
  "agent_output R containerID exitCode = bindA (attempt (containerLogs R containerID)) (\<lambda>logs. case logs of
     Inl e \<Rightarrow> executed containerID exitCode (Some e)
   | Inr (stdout, stderr) \<Rightarrow> returnA (Some \<lparr>ex_ContainerID = containerID, ex_Stdout = stdout,
       ex_Stderr = stderr, ex_ExitCode = exitCode\<rparr>, None))"

definition wait_for_agent :: "DockerRuntime \<Rightarrow> string \<Rightarrow> execution_result dact" where
  "wait_for_agent R containerID = bindA (asked R dc_wait (ContainerWait containerID)) (\<lambda>ended. case ended of
     Exited statusCode \<Rightarrow> agent_output R containerID statusCode
   | WaitFailed e \<Rightarrow> executed containerID (-1) (Some (docker_go e))
   | ContextDone ctxErr \<Rightarrow> bindA (asked R dc_unit (ContainerStop containerID None)) (\<lambda>stopped.
       executed containerID (-1) (Some (case stopped of
           Inl e \<Rightarrow> if \<not> IsNotFound e then Wrapped ''stop timed out agent'' (docker_go e) else ctxErr
         | Inr _ \<Rightarrow> ctxErr))))"

definition resumeAgent :: "DockerRuntime \<Rightarrow> container_state \<Rightarrow> bool \<Rightarrow> secrets \<Rightarrow> execution_result dact" where
  "resumeAgent R c interactive secrets = (let containerID = cs_ID c; running = (cs_Running c \<or> cs_Paused c);
        stopped = (cs_Status c = ''exited'' \<or> cs_Status c = ''dead'') in
     thenA (whenA (cs_Paused c) (answer_of R dc_unit (ContainerUnpause containerID)))
    (thenA (whenA (\<not> running \<and> \<not> stopped)
       (thenA (answer_of R dc_unit (ContainerStart containerID)) (copySecrets R containerID secrets)))
    (if running \<or> \<not> stopped
     then (if interactive
           then bindA (attempt (requireRunning R containerID)) (\<lambda>r. case r of
               Inl e \<Rightarrow> executed containerID (-1) (Some e)
             | Inr _ \<Rightarrow> executed containerID 0 None)
           else wait_for_agent R containerID)
     else agent_output R containerID (cs_ExitCode c))))"

definition agent_environment :: "DockerRuntime \<Rightarrow> DevMachine \<Rightarrow> secrets \<Rightarrow> string list" where
  "agent_environment R machine secrets = (let key = m_RoutingKey machine in
     [''HOME=/home/kuayle'', ''HTTP_PROXY=http://'' @ key @ ''-egress:3128'',
      ''HTTPS_PROXY=http://'' @ key @ ''-egress:3128'', ''NO_PROXY=localhost,127.0.0.1,'' @ key @ ''-collector'',
      ''KUAYLE_COLLECTOR_URL=http://'' @ key @ ''-collector:8091'',
      ''KUAYLE_SECRET_NAMES='' @ commas (dr_range R (map fst secrets))])"

definition agent_spec ::
  "DockerRuntime \<Rightarrow> DevMachine \<Rightarrow> DevMachineAgentRun \<Rightarrow> DevMachineAgentProvider \<Rightarrow> DevMachineCheckout option \<Rightarrow> secrets
     \<Rightarrow> string \<Rightarrow> string \<Rightarrow> string list \<Rightarrow> string list \<Rightarrow> container_spec" where
  "agent_spec R machine run provider checkout secrets networkName volumeName argv imageEnvironment =
     \<lparr>sp_Config = \<lparr>cc_Image = ap_ImageRef provider, cc_User = ''1000:1000'',
        cc_WorkingDir = (case checkout of None \<Rightarrow> ''/workspace'' | Some c \<Rightarrow> co_WorkspacePath c),
        cc_Entrypoint = (if ap_IsCustom provider then [''/bin/sh'', ''-c'', customAgentBootstrap, ''kuayle-agent'']
                         else [''/usr/local/bin/kuayle-agent-runner'']),
        cc_Cmd = argv, cc_Env = mergeEnvironment imageEnvironment (agent_environment R machine secrets),
        cc_Labels = map_put ''com.kuayle.agent-run-id'' (uuid_String (ar_ID run))
          (map_put ''com.kuayle.service'' ''agent'' (machineLabels machine)),
        cc_Healthcheck = None, cc_AttachOutput = True, cc_Interactive = (ar_Mode run = ''interactive'')\<rparr>,
      sp_Host = secureHostConfig R machine ''agent'' networkName volumeName,
      sp_Networks = [(networkName, [''agent-'' @ uuid_String (ar_ID run)])],
      sp_Name = ''kuayle-'' @ m_RoutingKey machine @ ''-agent-'' @ uuid_String (ar_ID run)\<rparr>"

text \<open>An error of \<open>a\<close> removes the container before it is returned.\<close>

definition or_remove :: "DockerRuntime \<Rightarrow> string \<Rightarrow> unit dact \<Rightarrow> unit dact" where
  "or_remove R containerID a = bindA (attempt a) (\<lambda>r. case r of
     Inl e \<Rightarrow> thenA (dropped R (ContainerRemove containerID)) (failA e) | Inr u \<Rightarrow> returnA u)"

definition start_agent :: "DockerRuntime \<Rightarrow> container_spec \<Rightarrow> bool \<Rightarrow> secrets \<Rightarrow> execution_result dact" where
  "start_agent R spec interactive secrets =
     bindA (answer_of R dc_id (ContainerCreate spec)) (\<lambda>containerID.
     thenA (or_remove R containerID (answer_of R dc_unit (ContainerStart containerID)))
    (thenA (or_remove R containerID (copySecrets R containerID secrets))
    (bindA (answer_of R dc_container (ContainerInspect containerID)) (\<lambda>c. resumeAgent R c interactive []))))"

definition run_agent ::
  "DockerRuntime \<Rightarrow> DevMachine \<Rightarrow> DevMachineAgentRun \<Rightarrow> DevMachineAgentProvider \<Rightarrow> DevMachineCheckout option \<Rightarrow> secrets
     \<Rightarrow> string \<Rightarrow> string \<Rightarrow> execution_result dact" where
  "run_agent R machine run provider checkout secrets networkName volumeName =
     thenA (ensureImage R (ap_ImageRef provider))
    (bindA (imageConfig R (ap_ImageRef provider)) (\<lambda>(_, imageEnvironment).
     case Unmarshal_strings (ar_CommandArgv run) of (argv, ok) \<Rightarrow>
     if \<not> ok \<or> argv = [] then failD ''invalid agent argv''
     else (let spec = agent_spec R machine run provider checkout secrets networkName volumeName argv imageEnvironment;
               interactive = (ar_Mode run = ''interactive'') in
       bindA (asked R dc_container (ContainerInspect (sp_Name spec))) (\<lambda>r. case r of
         Inr c \<Rightarrow>
           if cs_Image c \<noteq> ap_ImageRef provider
              \<or> label (cs_Labels c) ''com.kuayle.agent-run-id'' \<noteq> uuid_String (ar_ID run)
           then failD ''existing agent container does not match run''
           else resumeAgent R c interactive secrets
       | Inl e \<Rightarrow>
           if \<not> IsNotFound e then failA (docker_go e) else start_agent R spec interactive secrets))))"

definition runtimeRunAgent ::
  "DockerRuntime \<Rightarrow> DevMachine \<Rightarrow> DevMachineAgentRun \<Rightarrow> DevMachineAgentProvider \<Rightarrow> DevMachineCheckout option \<Rightarrow> secrets
     \<Rightarrow> execution_result dact" where
  "runtimeRunAgent R machine run provider checkout secrets =
     bindA (attempt (case (m_DockerNetworkName machine, m_WorkspaceVolumeName machine) of
         (Some networkName, Some volumeName) \<Rightarrow> run_agent R machine run provider checkout secrets networkName volumeName
       | _ \<Rightarrow> failD ''machine runtime resources are unavailable'')) (\<lambda>r. case r of
       Inl e \<Rightarrow> returnA (None, Some e) | Inr x \<Rightarrow> returnA x)"

text \<open>The first container with the label of the run; the others are left.\<close>

definition runtimeCancelAgent :: "DockerRuntime \<Rightarrow> DevMachineAgentRun \<Rightarrow> unit dact" where
  "runtimeCancelAgent R run =
     bindA (answer_of R dc_items (ContainerList None)) (\<lambda>items.
     case find (\<lambda>item. label (ci_Labels item) ''com.kuayle.agent-run-id'' = uuid_String (ar_ID run)) items of
       None \<Rightarrow> returnA ()
     | Some item \<Rightarrow>
         if label (ci_Labels item) ''com.kuayle.managed'' \<noteq> ''true''
         then failD (''agent container '' @ ci_ID item @ '' is not managed by Kuayle'')
         else answer_of R dc_unit (ContainerRemove (ci_ID item)))"


section \<open>Usage\<close>

text \<open>
  Counters of the engine are unsigned with 64 bits, their difference wraps. The percentage is computed
  without the rounding of \<open>float64\<close>.
\<close>

definition uint64 :: "int \<Rightarrow> int" where
  "uint64 x = x mod 2 ^ 64"

definition cpu_percent :: "container_stats \<Rightarrow> float64" where
  "cpu_percent s = (let cpuDelta = uint64 (cp_CPUTotal s - cp_PreCPUTotal s);
        systemDelta = uint64 (cp_System s - cp_PreSystem s) in
     if 0 < cpuDelta \<and> 0 < systemDelta
     then rat_of_int cpuDelta / rat_of_int systemDelta * rat_of_int (cp_OnlineCPUs s) * 100 else 0)"

definition add_usage :: "container_stats \<Rightarrow> ResourceUsage \<Rightarrow> ResourceUsage" where
  "add_usage s u = u\<lparr>ru_CPUPercent := ru_CPUPercent u + cpu_percent s,
     ru_MemoryBytes := int64 (ru_MemoryBytes u + int64 (cp_Memory s)),
     ru_Pids := int64 (ru_Pids u + int64 (cp_Pids s)),
     ru_NetworkRxBytes := fold (\<lambda>(rx, tx) n. int64 (n + int64 rx)) (cp_Networks s) (ru_NetworkRxBytes u),
     ru_NetworkTxBytes := fold (\<lambda>(rx, tx) n. int64 (n + int64 tx)) (cp_Networks s) (ru_NetworkTxBytes u)\<rparr>"

definition no_usage :: ResourceUsage where
  "no_usage = \<lparr>ru_CPUPercent = 0, ru_MemoryBytes = 0, ru_DiskBytes = 0, ru_Pids = 0, ru_NetworkRxBytes = 0,
     ru_NetworkTxBytes = 0\<rparr>"

fun collect_usage ::
  "DockerRuntime \<Rightarrow> string list \<Rightarrow> string \<Rightarrow> ResourceUsage \<Rightarrow> DevMachineService list \<Rightarrow> (string \<times> ResourceUsage) dact" where
  "collect_usage R seen collectorID usage [] = returnA (collectorID, usage)"
| "collect_usage R seen collectorID usage (service # services) = (case sv_ContainerID service of
     None \<Rightarrow> collect_usage R seen collectorID usage services
   | Some containerID \<Rightarrow>
       if sv_Status service \<noteq> ''running'' \<or> containerID \<in> set seen
       then collect_usage R seen collectorID usage services
       else (let collectorID' = (if sv_ServiceType service = ''collector'' then containerID else collectorID) in
         bindA (asked R dc_stats (ContainerStats containerID)) (\<lambda>r. case r of
           Inl e \<Rightarrow> if IsNotFound e then collect_usage R (containerID # seen) collectorID' usage services
                    else failA (docker_go e)
         | Inr (Inl e) \<Rightarrow> failA e
         | Inr (Inr s) \<Rightarrow> collect_usage R (containerID # seen) collectorID' (add_usage s usage) services)))"

definition runtimeStats :: "DockerRuntime \<Rightarrow> DevMachineService list \<Rightarrow> ResourceUsage dact" where
  "runtimeStats R services =
     bindA (collect_usage R [] [] no_usage services) (\<lambda>(collectorID, usage).
     if collectorID = [] then returnA usage
     else bindA (attempt (workspaceSize R collectorID)) (\<lambda>r. returnA (case r of
         Inl _ \<Rightarrow> usage | Inr disk \<Rightarrow> usage\<lparr>ru_DiskBytes := disk\<rparr>)))"

section \<open>Repositories and terminals\<close>

definition output_or_empty :: "go_error + string \<Rightarrow> string" where
  "output_or_empty r = (case r of Inl _ \<Rightarrow> [] | Inr s \<Rightarrow> s)"

definition runtimeGitState ::
  "DockerRuntime \<Rightarrow> DevMachine \<Rightarrow> DevMachineService list \<Rightarrow> DevMachineCheckout option \<Rightarrow> GitState dact" where
  "runtimeGitState R machine services checkout =
     (let ideContainer = developerContainerID services;
          workspacePath = (case checkout of None \<Rightarrow> ''/workspace'' | Some c \<Rightarrow> co_WorkspacePath c);
          baseBranch = (case checkout of None \<Rightarrow> m_BaseBranch machine | Some c \<Rightarrow> co_BaseBranch c) in
      if ideContainer = [] then failD ''IDE container is unavailable''
      else bindA (execOutput R ideContainer [''git'', ''-C'', workspacePath, ''branch'', ''--show-current'']) (\<lambda>branch.
        bindA (attempt (execOutput R ideContainer
          [''git'', ''-C'', workspacePath, ''rev-list'', ''origin/'' @ baseBranch @ ''..HEAD''])) (\<lambda>commits.
        bindA (attempt (execOutput R ideContainer
          [''git'', ''-C'', workspacePath, ''diff'', ''--name-only'', ''origin/'' @ baseBranch @ ''...HEAD''])) (\<lambda>changed.
          returnA \<lparr>gs_Branch = TrimSpace branch, gs_Commits = Some (nonEmptyLines (output_or_empty commits)),
                   gs_ChangedFiles = Some (nonEmptyLines (output_or_empty changed))\<rparr>))))"

definition runtimePrepareCheckout ::
  "DockerRuntime \<Rightarrow> DevMachineService list \<Rightarrow> DevMachineCheckout \<Rightarrow> string \<Rightarrow> unit dact" where
  "runtimePrepareCheckout R services checkout token =
     (if developerContainerID services = [] then failD ''developer container is unavailable''
      else if token = [] then failD ''repository credential is unavailable''
      else execWithInput R (developerContainerID services)
        [''/usr/local/bin/kuayle-checkout'', co_RepositoryFullName checkout, co_BaseBranch checkout,
         co_WorkingBranch checkout, co_WorkspacePath checkout] (token @ [CHR 0x0A]))"

definition closeTerminal :: "DockerRuntime \<Rightarrow> string \<Rightarrow> DevMachineTerminalSession \<Rightarrow> unit dact" where
  "closeTerminal R containerID session = wrapping ''close tmux session'' (bindA (execOutput R containerID
     [''/usr/local/bin/kuayle-terminal-session'', ''--close'', ts_RuntimeSessionName session]) (\<lambda>_. returnA ()))"

text \<open>The deferred pause of a container that was paused; its error is returned when there is no other.\<close>

definition pausing_again :: "DockerRuntime \<Rightarrow> string \<Rightarrow> unit dact \<Rightarrow> unit dact" where
  "pausing_again R containerID a =
     bindA (attempt a) (\<lambda>resultErr.
     bindA (asked R dc_unit (ContainerPause containerID)) (\<lambda>r. case (resultErr, r) of
         (Inl e, _) \<Rightarrow> failA e
       | (Inr _, Inl e) \<Rightarrow> if IsNotFound e then returnA ()
                          else failA (Wrapped ''restore paused developer container'' (docker_go e))
       | (Inr _, Inr _) \<Rightarrow> returnA ()))"

definition runtimeTerminateTerminal ::
  "DockerRuntime \<Rightarrow> DevMachine \<Rightarrow> DevMachineService list \<Rightarrow> DevMachineTerminalSession \<Rightarrow> unit dact" where
  "runtimeTerminateTerminal R machine services session =
     (let developerContainer = developerContainerID services in
      if developerContainer = []
      then (if m_Status machine = StatusStopped \<or> m_Status machine = StatusDestroyed \<or> m_Status machine = StatusTearingDown
            then returnA () else failD ''developer container is unavailable'')
      else bindA (asked R dc_container (ContainerInspect developerContainer)) (\<lambda>r. case r of
        Inl e \<Rightarrow> if IsNotFound e then returnA () else failA (docker_go e)
      | Inr c \<Rightarrow>
          if \<not> cs_Running c then returnA ()
          else if cs_Paused c
          then thenA (answer_of R dc_unit (ContainerUnpause developerContainer))
                     (pausing_again R developerContainer (closeTerminal R developerContainer session))
          else closeTerminal R developerContainer session))"

section \<open>Environments\<close>

text \<open>The state in which the container was found, which is restored before the commit and, again, at the end.\<close>

definition restoreState :: "DockerRuntime \<Rightarrow> string \<Rightarrow> bool \<Rightarrow> bool \<Rightarrow> unit dact" where
  "restoreState R containerID wasPaused wasRunning =
     (if wasPaused then dropped R (ContainerPause containerID)
      else if \<not> wasRunning then dropped R (ContainerStop containerID (Some 10))
      else returnA ())"

definition snapshot_options :: "DevMachine \<Rightarrow> DevMachineEnvironment \<Rightarrow> commit_options" where
  "snapshot_options machine environment =
     \<lparr>cm_Reference = en_ImageRef environment, cm_Comment = ''Kuayle Development Environment '' @ en_Name environment,
      cm_Author = ''Kuayle'', cm_Changes =
        [''LABEL com.kuayle.managed=true'',
         ''LABEL com.kuayle.kind=dev-machine-environment'',
         ''LABEL com.kuayle.environment-id='' @ uuid_String (en_ID environment),
         ''LABEL com.kuayle.workspace-id='' @ uuid_String (en_WorkspaceID environment),
         ''LABEL com.kuayle.source-machine-id='' @ uuid_String (m_ID machine),
         ''LABEL com.kuayle.machine-id='',
         ''LABEL com.kuayle.routing-key='',
         ''LABEL com.kuayle.service='']\<rparr>"

definition runtimeSnapshotEnvironment ::
  "DockerRuntime \<Rightarrow> DevMachine \<Rightarrow> DevMachineService list \<Rightarrow> DevMachineEnvironment \<Rightarrow> string dact" where
  "runtimeSnapshotEnvironment R machine services environment =
     (let developerContainer = developerContainerID services in
      if developerContainer = [] then failD ''developer container is unavailable''
      else bindA (answer_of R dc_container (ContainerInspect developerContainer)) (\<lambda>c.
        let restore = restoreState R developerContainer (cs_Paused c) (cs_Running c) in
        thenA (if cs_Paused c then answer_of R dc_unit (ContainerUnpause developerContainer)
               else whenA (\<not> cs_Running c) (answer_of R dc_unit (ContainerStart developerContainer)))
       (deferA
          (bindA (wrapping ''prepare environment home template''
                   (execOutputAs R developerContainer [''/bin/sh'', ''-c'', homeTemplateScript] ''0:0'')) (\<lambda>_.
           thenA restore (answer_of R dc_id (ContainerCommit developerContainer (snapshot_options machine environment)))))
          (\<lambda>_. restore))))"

end
