(* ===== verification/Docker_Rules.thy ===== *)
theory Docker_Rules
  imports Docker_Agents
begin

text \<open>
  A logic for the actions of the runtime, and what keeps an invariant of the calls: \<open>client_policy\<close> is
  the interface of an invariant that a call which creates, removes and connects nothing cannot break,
  \<open>image_policy\<close> of one that the pull of an image cannot break either, and \<open>open_policy\<close> of one that stands
  connections to networks as well.
\<close>

section \<open>Judgements\<close>

text \<open>
  From a state with \<open>P\<close> the action ends with \<open>Q\<close> of its result and of the state it leaves, whether it fails
  or not; \<open>rests I\<close> says that it keeps \<open>I\<close>.
\<close>

definition leads :: "('w \<Rightarrow> bool) \<Rightarrow> ('w, 'a) action \<Rightarrow> (go_error + 'a \<Rightarrow> 'w \<Rightarrow> bool) \<Rightarrow> bool" where
  "leads P a Q \<longleftrightarrow> (\<forall>w. P w \<longrightarrow> Q (fst (a w)) (snd (a w)))"

definition rests :: "('w \<Rightarrow> bool) \<Rightarrow> ('w, 'a) action \<Rightarrow> bool" where
  "rests I a \<longleftrightarrow> leads I a (\<lambda>_. I)"

named_theorems resting \<open>what keeps an invariant\<close>

lemma leadsD: "leads P a Q \<Longrightarrow> P w \<Longrightarrow> Q (fst (a w)) (snd (a w))"
  by (simp add: leads_def)

lemma leads_weaken: "leads P a Q \<Longrightarrow> (\<And>w. P' w \<Longrightarrow> P w) \<Longrightarrow> (\<And>r w. Q r w \<Longrightarrow> Q' r w) \<Longrightarrow> leads P' a Q'"
  by (simp add: leads_def)

lemma leads_rests: "rests I a \<Longrightarrow> leads I a (\<lambda>_. I)"
  by (simp add: rests_def)

lemma leads_return: "(\<And>w. P w \<Longrightarrow> Q (Inr x) w) \<Longrightarrow> leads P (returnA x) Q"
  by (simp add: leads_def returnA_def)

lemma leads_fail: "(\<And>w. P w \<Longrightarrow> Q (Inl e) w) \<Longrightarrow> leads P (failA e) Q"
  by (simp add: leads_def failA_def)

lemma leads_bind:
  assumes "leads P a S" and "\<And>x. leads (S (Inr x)) (f x) Q" and "\<And>e w. S (Inl e) w \<Longrightarrow> Q (Inl e) w"
  shows "leads P (bindA a f) Q"
proof -
  have "Q (fst (bindA a f w)) (snd (bindA a f w))" if "P w" for w
  proof (cases "a w")
    case (Pair r w')
    then have "S r w'" using leadsD [OF assms(1) that] by simp
    then show ?thesis using assms(2,3) Pair
      by (cases r) (auto simp: bindA_def leads_def)
  qed
  then show ?thesis by (simp add: leads_def)
qed

lemma leads_then:
  "leads P a S \<Longrightarrow> (\<And>x. leads (S (Inr x)) b Q) \<Longrightarrow> (\<And>e w. S (Inl e) w \<Longrightarrow> Q (Inl e) w) \<Longrightarrow> leads P (thenA a b) Q"
  unfolding thenA_def by (rule leads_bind)

lemma leads_attempt: "leads P a (\<lambda>r. Q (Inr r)) \<Longrightarrow> leads P (attempt a) Q"
  by (simp add: leads_def attempt_def case_prod_beta)

lemma leads_ignore: "leads P a (\<lambda>r. Q (Inr ())) \<Longrightarrow> leads P (ignore a) Q"
  by (simp add: leads_def ignore_def case_prod_beta)

lemma leads_defer:
  assumes "leads P a S" and "\<And>r. leads (S r) (b r) (\<lambda>_. Q r)"
  shows "leads P (deferA a b) Q"
  unfolding deferA_def
  by (rule leads_bind [OF leads_attempt [where Q = "\<lambda>s w. \<exists>r. s = Inr r \<and> S r w"]])
    (use assms in \<open>auto simp: leads_def thenA_def bindA_def ignore_def returnA_def failA_def case_prod_beta split: sum.split\<close>)

lemma leads_wrapping:
  assumes "leads P a (\<lambda>r. case r of Inl e \<Rightarrow> Q (Inl (Wrapped s e)) | Inr x \<Rightarrow> Q (Inr x))"
  shows "leads P (wrapping s a) Q"
  unfolding wrapping_def using assms
  by (auto simp: leads_def bindA_def attempt_def returnA_def failA_def split: prod.splits sum.splits)

section \<open>Keeping an invariant\<close>

lemma rests_return [resting]: "rests I (returnA x)"
  by (simp add: rests_def leads_return)

lemma rests_fail [resting]: "rests I (failA e)"
  by (simp add: rests_def leads_fail)

lemma rests_failD [resting]: "rests I (failD s)"
  by (simp add: failD_def rests_fail)

lemma rests_bind [resting]: "rests I a \<Longrightarrow> (\<And>x. rests I (f x)) \<Longrightarrow> rests I (bindA a f)"
  unfolding rests_def by (rule leads_bind)

lemma rests_then [resting]: "rests I a \<Longrightarrow> rests I b \<Longrightarrow> rests I (thenA a b)"
  unfolding thenA_def by (rule rests_bind)

lemma rests_attempt [resting]: "rests I a \<Longrightarrow> rests I (attempt a)"
  by (simp add: rests_def leads_attempt)

lemma rests_ignore [resting]: "rests I a \<Longrightarrow> rests I (ignore a)"
  by (simp add: rests_def leads_ignore)

lemma rests_get [resting]: "rests I (getA f)"
  by (simp add: rests_def leads_def getA_def)

lemma rests_when [resting]: "(b \<Longrightarrow> rests I a) \<Longrightarrow> rests I (whenA b a)"
  by (simp add: whenA_def rests_return)

lemma rests_each: "(\<And>x. x \<in> set xs \<Longrightarrow> rests I (f x)) \<Longrightarrow> rests I (eachA f xs)"
  by (induction xs) (auto intro: resting)

lemma rests_all [resting]: "(\<And>x. rests I (f x)) \<Longrightarrow> rests I (eachA f xs)"
  by (rule rests_each)

lemma rests_defer [resting]: "rests I a \<Longrightarrow> (\<And>r. rests I (b r)) \<Longrightarrow> rests I (deferA a b)"
  unfolding rests_def by (rule leads_defer)

lemma rests_wrapping [resting]: "rests I a \<Longrightarrow> rests I (wrapping s a)"
  unfolding rests_def by (rule leads_wrapping) (auto elim: leads_weaken split: sum.split)

lemma rests_cases [resting]:
  "(b \<Longrightarrow> rests I a) \<Longrightarrow> (\<not> b \<Longrightarrow> rests I a') \<Longrightarrow> rests I (if b then a else a')"
  "(\<And>e. r = Inl e \<Longrightarrow> rests I (f e)) \<Longrightarrow> (\<And>x. r = Inr x \<Longrightarrow> rests I (g x)) \<Longrightarrow> rests I (case r of Inl e \<Rightarrow> f e | Inr x \<Rightarrow> g x)"
  "(z = None \<Longrightarrow> rests I n) \<Longrightarrow> (\<And>x. z = Some x \<Longrightarrow> rests I (h x)) \<Longrightarrow> rests I (case z of None \<Rightarrow> n | Some x \<Rightarrow> h x)"
  "(\<And>x y. p = (x, y) \<Longrightarrow> rests I (l x y)) \<Longrightarrow> rests I (case p of (x, y) \<Rightarrow> l x y)"
  by (simp_all split: sum.split option.split prod.split)


section \<open>Policies\<close>

text \<open>
  The calls that create and remove no container, network, volume or image, and connect no container to a network. A
  commit and a pull create an image.
\<close>

fun harmless_call :: "docker_call \<Rightarrow> bool" where
  "harmless_call (ContainerCreate s) = False"
| "harmless_call (ContainerRemove s) = False"
| "harmless_call (NetworkCreate n i l) = False"
| "harmless_call (NetworkRemove n) = False"
| "harmless_call (VolumeCreate v) = False"
| "harmless_call (VolumeRemove v) = False"
| "harmless_call (ImageRemove i) = False"
| "harmless_call (ImagePull i) = False"
| "harmless_call (ContainerCommit i o') = False"
| "harmless_call (NetworkConnect n i as) = False"
| "harmless_call _ = True"

lemma rests_ask: "(\<And>k. I k \<Longrightarrow> I (k\<lparr>dk_log := dk_log k @ [c]\<rparr>)) \<Longrightarrow> rests I (ask f c)"
  by (simp add: rests_def leads_def ask_def Let_def)

lemma rests_given [resting]: "rests I (given r)"
  unfolding given_def by (intro resting)

lemma rests_through_ask:
  assumes "rests I (ask f c)"
  shows "rests I (demand f c)" and "rests I (ignore (ask f c))"
  using assms by (simp_all add: demand_def resting)

lemma rests_unless:
  assumes "rests I (ask f c)"
  shows "rests I (unless_gone f c)" and "rests I (unless_idle f c)"
  unfolding unless_gone_def unless_idle_def by (intro resting assms)+

locale client_policy =
  fixes R :: DockerRuntime and I :: "docker_state \<Rightarrow> bool"
  assumes harmless: "harmless_call c \<Longrightarrow> I k \<Longrightarrow> I (k\<lparr>dk_log := dk_log k @ [c]\<rparr>)"
    and quota: "I k \<Longrightarrow> I (k\<lparr>dk_quotaReady := True\<rparr>)"
begin

lemma harmless_ask: "harmless_call c \<Longrightarrow> rests I (ask f c)"
  by (rule rests_ask) (rule harmless)

lemma harmless_calls [resting]:
  "harmless_call c \<Longrightarrow> rests I (asked R g c)"
  "harmless_call c \<Longrightarrow> rests I (answer_of R f c)"
  "harmless_call c \<Longrightarrow> rests I (dropped R c)"
  "harmless_call c \<Longrightarrow> rests I (unless_gone u c)"
  "harmless_call c \<Longrightarrow> rests I (unless_idle u c)"
  by (simp_all add: asked_def answer_of_def dropped_def harmless_ask rests_through_ask rests_unless)

lemma quota_flag [resting]: "rests I (putA (\<lambda>k. k\<lparr>dk_quotaReady := True\<rparr>))"
  by (simp add: rests_def leads_def putA_def quota)

lemma exec_rests [resting]:
  "rests I (stdCopy R s)" "rests I (copied R s)" "rests I (discarded R s)" "rests I (containerLogs R s)"
  "rests I (execOutputAs R s command user)" "rests I (execOutput R s command)"
  "rests I (execWithInput R s command input)" "rests I (workspaceSize R s)"
proof -
  show copy [resting]: "rests I (stdCopy R s)" "rests I (discarded R s)" for s
    unfolding stdCopy_def discarded_def by (intro resting; simp)+
  show copied [resting]: "rests I (copied R s)" for s
    unfolding copied_def by (intro resting)
  show "rests I (containerLogs R s)"
    unfolding containerLogs_def by (intro resting; simp)
  show as [resting]: "rests I (execOutputAs R s command user)" for command user
    unfolding execOutputAs_def by (intro resting; simp)
  show [resting]: "rests I (execOutput R s command)" for command
    unfolding execOutput_def by (intro resting)
  show "rests I (execWithInput R s command input)"
    unfolding execWithInput_def by (intro resting; simp)
  show "rests I (workspaceSize R s)"
    unfolding workspaceSize_def by (auto intro!: resting split: list.split option.split)
qed

lemma secrets_rest [resting]:
  "rests I (clearSecretFiles R s)" "rests I (writeSecretFile R s n v)" "rests I (copySecrets R s m)"
proof -
  show [resting]: "rests I (clearSecretFiles R s)" for s
    unfolding clearSecretFiles_def by (intro resting)
  show [resting]: "rests I (writeSecretFile R s n v)" for n v
    unfolding writeSecretFile_def by (intro resting; simp)
  show "rests I (copySecrets R s m)"
    unfolding copySecrets_def installSecrets_def by (intro resting)
qed

lemma reads_rest [resting]: "rests I (imageConfig R i)" "rests I (containerOnNetwork R n c)"
proof -
  show "rests I (imageConfig R i)"
    unfolding imageConfig_def by (intro resting; simp)
  show "rests I (containerOnNetwork R n c)"
    unfolding containerOnNetwork_def by (intro resting; simp)
qed

lemma volumes_rest [resting]:
  "rests I (inspectWorkspaceVolumeWithOptions R v)" "rests I (inspectWorkspaceVolume R n l d)"
proof -
  show [resting]: "rests I (inspectWorkspaceVolumeWithOptions R v)" for v
    unfolding inspectWorkspaceVolumeWithOptions_def by (intro resting; simp)
  show "rests I (inspectWorkspaceVolume R n l d)"
    unfolding inspectWorkspaceVolume_def by (intro resting)
qed

lemma requireRunning_rests [resting]: "rests I (requireRunning R i)"
proof -
  have "rests I (requireRunning_turns R i turns)" for turns
  proof (induction turns)
    case (Suc turns)
    then show ?case
      by (auto intro!: resting split: poll_event.split simp: Let_def)
  qed (simp add: resting)
  then show ?thesis by (simp add: requireRunning_def)
qed

lemma starting_rests [resting]:
  "rests I (startContainerWithSecrets R i s)" "rests I (restartContainerWithSecrets R i running paused s)"
  "rests I (ensureContainerStarted R i st running paused s)"
proof -
  show [resting]: "rests I (startContainerWithSecrets R i s)"
    unfolding startContainerWithSecrets_def by (intro resting; simp)
  show [resting]: "rests I (restartContainerWithSecrets R i running paused s)"
    unfolding restartContainerWithSecrets_def by (intro resting; simp)
  show "rests I (ensureContainerStarted R i st running paused s)"
    unfolding ensureContainerStarted_def by (auto intro!: resting split: containerStartAction.split)
qed

end


section \<open>Methods that keep every policy\<close>

context client_policy
begin

lemma agents_rest [resting]: "rests I (agent_output R i code)" "rests I (wait_for_agent R i)" "rests I (resumeAgent R c interactive s)"
proof -
  have [resting]: "rests I (executed i code e)" for i code e
    unfolding executed_def by (intro resting)
  show [resting]: "rests I (agent_output R i code)" for i code
    unfolding agent_output_def by (intro resting)
  show [resting]: "rests I (wait_for_agent R i)" for i
    unfolding wait_for_agent_def by (auto intro!: resting split: wait_event.split)
  show "rests I (resumeAgent R c interactive s)"
    unfolding resumeAgent_def Let_def by (intro resting; simp)
qed

lemma lifecycle_rests [resting]:
  "rests I (runtimeStart R machine services secrets)" "rests I (runtimePause R services)" "rests I (runtimeStop R services)"
proof -
  show "rests I (runtimeStart R machine services secrets)"
    unfolding runtimeStart_def start_service_def Let_def by (intro resting; simp)
  show "rests I (runtimePause R services)" "rests I (runtimeStop R services)"
    unfolding runtimePause_def runtimeStop_def by (intro resting; simp)+
qed

lemma inspection_rests [resting]: "rests I (runtimeInspect R machine services)"
proof -
  have [resting]: "rests I (inspect_service R n s)" for n s
    unfolding inspect_service_def Let_def by (intro resting; simp)
  have [resting]: "rests I (inspect_services R n services found)" for n found
    by (induction services arbitrary: found) (auto intro: resting)
  show ?thesis
    unfolding runtimeInspect_def Let_def by (intro resting; simp)
qed

lemma usage_rests [resting]: "rests I (runtimeStats R services)"
proof -
  have [resting]: "rests I (collect_usage R seen i u services)" for seen i u
    by (induction services arbitrary: seen i u) (auto intro!: resting split: option.split sum.split simp: Let_def)
  show ?thesis
    unfolding runtimeStats_def by (intro resting)
qed

lemma developer_rests [resting]:
  "rests I (runtimeGitState R machine services checkout)" "rests I (runtimePrepareCheckout R services c token)"
  "rests I (runtimeTerminateTerminal R machine services session)"
proof -
  show "rests I (runtimeGitState R machine services checkout)"
    unfolding runtimeGitState_def Let_def by (intro resting)
  show "rests I (runtimePrepareCheckout R services c token)"
    unfolding runtimePrepareCheckout_def by (intro resting)
  have [resting]: "rests I (closeTerminal R i session)" for i
    unfolding closeTerminal_def by (intro resting)
  have [resting]: "rests I (pausing_again R i a)" if "rests I a" for i a
    unfolding pausing_again_def using that by (auto intro!: resting split: sum.split)
  show "rests I (runtimeTerminateTerminal R machine services session)"
    unfolding runtimeTerminateTerminal_def Let_def by (intro resting; simp)
qed

text \<open>A snapshot commits the developer container, and is harmless beside.\<close>

lemma snapshot_rests:
  assumes "\<And>k. I k \<Longrightarrow> I (k\<lparr>dk_log := dk_log k
    @ [ContainerCommit (developerContainerID services) (snapshot_options machine environment)]\<rparr>)"
  shows "rests I (runtimeSnapshotEnvironment R machine services environment)"
proof -
  have [resting]: "rests I (restoreState R i paused running)" for i paused running
    unfolding restoreState_def by (intro resting; simp)
  have [resting]: "rests I (answer_of R dc_id
      (ContainerCommit (developerContainerID services) (snapshot_options machine environment)))"
    unfolding answer_of_def by (intro rests_through_ask rests_ask assms)
  show ?thesis
    unfolding runtimeSnapshotEnvironment_def Let_def by (intro resting; simp)
qed

end

text \<open>Invariants that stand more.\<close>

locale image_policy = client_policy +
  assumes pulls: "I k \<Longrightarrow> I (k\<lparr>dk_log := dk_log k @ [ImagePull i]\<rparr>)"
begin

lemma images_rest [resting]:
  "rests I (ensureImage R i)" "rests I (ensureEnvironmentImage R i w e)" "rests I (imageConfig R i)"
proof -
  have [resting]: "rests I (answer_of R f (ImagePull i))" for f :: "docker_client \<Rightarrow> docker_call list \<Rightarrow> docker_error + 'x" and i
    unfolding answer_of_def by (intro rests_through_ask rests_ask pulls)
  show [resting]: "rests I (ensureImage R i)"
    unfolding ensureImage_def by (intro resting; simp)
  show "rests I (ensureEnvironmentImage R i w e)"
    unfolding ensureEnvironmentImage_def by (intro resting; simp)
  show "rests I (imageConfig R i)"
    by (rule reads_rest)
qed

end

locale open_policy = image_policy +
  assumes connects: "I k \<Longrightarrow> I (k\<lparr>dk_log := dk_log k @ [NetworkConnect n i as]\<rparr>)"
begin

lemma networks_rest [resting]: "rests I (containerOnNetwork R n i)" "rests I (connectNetwork R n i as)"
proof -
  show [resting]: "rests I (containerOnNetwork R n i)"
    by (rule reads_rest)
  have [resting]: "rests I (asked R f (NetworkConnect n i as))" for f :: "docker_client \<Rightarrow> docker_call list \<Rightarrow> 'x"
    unfolding asked_def by (intro rests_ask connects)
  show "rests I (connectNetwork R n i as)"
    unfolding connectNetwork_def by (intro resting; simp)
qed

end

end
