(* ===== verification/Docker_Ledger.thy ===== *)
theory Docker_Ledger
  imports Docker_Rules
begin

text \<open>
  The ledger of a sequence of calls: which calls are permitted, what they have created and not removed
  since, and why a removal was justified. It is an invariant that a harmless call keeps, so that the helpers
  of the runtime keep it by \<open>open_policy\<close>; what remains are the creations and the removals.
\<close>

section \<open>Confinement\<close>

text \<open>
  What a policy names: the machine, its network and volume, and the labels that make something its own.
\<close>

record docker_policy =
  po_machine :: DevMachine
  po_network :: string
  po_volume :: string
  po_own :: "labels \<Rightarrow> bool"

text \<open>
  A container runs without privileges, on the machine's network or none, with the machine's volume as its only
  mount, with bounded memory, processes and logs, and under the machine's labels. Unless it is the IDE of an
  environment builder it has a read-only root, no new privileges, and no capability but, without a network,
  the one to change owners.
\<close>

definition hardened :: "container_spec \<Rightarrow> bool" where
  "hardened s \<longleftrightarrow> hc_ReadonlyRootfs (sp_Host s) \<and> hc_CapDrop (sp_Host s) = [''ALL'']
   \<and> ''no-new-privileges=true'' \<in> set (hc_SecurityOpt (sp_Host s))
   \<and> (hc_CapAdd (sp_Host s) = [] \<and> cc_User (sp_Config s) = ''1000:1000''
     \<or> hc_CapAdd (sp_Host s) = [''CHOWN''] \<and> hc_NetworkMode (sp_Host s) = ''none'' \<and> sp_Networks s = [])"

definition confined :: "docker_policy \<Rightarrow> container_spec \<Rightarrow> bool" where
  "confined P s \<longleftrightarrow> \<not> hc_Privileged (sp_Host s)
   \<and> list_all (\<lambda>m. mt_Source m = po_volume P \<and> mt_Target m = ''/workspace'') (hc_Mounts (sp_Host s))
   \<and> (hc_NetworkMode (sp_Host s) = po_network P \<or> hc_NetworkMode (sp_Host s) = ''none'')
   \<and> list_all (\<lambda>n. fst n = po_network P) (sp_Networks s)
   \<and> 0 < hc_Memory (sp_Host s) \<and> hc_MemorySwap (sp_Host s) = hc_Memory (sp_Host s) \<and> 0 < hc_PidsLimit (sp_Host s)
   \<and> hc_LogConfig (sp_Host s) = boundedLogConfig
   \<and> ownedByMachine (cc_Labels (sp_Config s)) (m_ID (po_machine P))
   \<and> (hardened s \<or> m_EnvironmentBuilder (po_machine P)
       \<and> label (cc_Labels (sp_Config s)) ''com.kuayle.service'' = ''ide'')"

section \<open>Creation, ownership and removal\<close>

datatype docker_resource = AContainer string | ANetwork string | AVolume string

text \<open>What the last call of a log has created, what it removes, and what its answer shows to be owned.\<close>

definition made :: "docker_client \<Rightarrow> docker_call list \<Rightarrow> docker_resource option" where
  "made C calls = (case last calls of
       ContainerCreate s \<Rightarrow> (case dc_id C calls of Inr i \<Rightarrow> Some (AContainer i) | Inl _ \<Rightarrow> None)
     | NetworkCreate n i l \<Rightarrow> (case dc_unit C calls of Inr _ \<Rightarrow> Some (ANetwork n) | Inl _ \<Rightarrow> None)
     | VolumeCreate v \<Rightarrow> (case dc_volume C calls of Inr _ \<Rightarrow> Some (AVolume (vp_Name v)) | Inl _ \<Rightarrow> None)
     | _ \<Rightarrow> None)"

fun removed_by :: "docker_call \<Rightarrow> docker_resource option" where
  "removed_by (ContainerRemove i) = Some (AContainer i)"
| "removed_by (NetworkRemove n) = Some (ANetwork n)"
| "removed_by (VolumeRemove v) = Some (AVolume v)"
| "removed_by _ = None"

definition shows_owned :: "docker_client \<Rightarrow> (labels \<Rightarrow> bool) \<Rightarrow> docker_call list \<Rightarrow> docker_resource \<Rightarrow> bool" where
  "shows_owned C own calls x = (case last calls of
       ContainerInspect i \<Rightarrow> (case dc_container C calls of
           Inr c \<Rightarrow> own (cs_Labels c) \<and> (x = AContainer i \<or> x = AContainer (cs_ID c)) | Inl _ \<Rightarrow> False)
     | ContainerList f \<Rightarrow> (case dc_items C calls of
           Inr items \<Rightarrow> list_ex (\<lambda>item. own (ci_Labels item) \<and> x = AContainer (ci_ID item)) items | Inl _ \<Rightarrow> False)
     | NetworkInspect n \<Rightarrow> (case dc_network C calls of
           Inr s \<Rightarrow> own (nw_Labels s) \<and> x = ANetwork n | Inl _ \<Rightarrow> False)
     | VolumeInspect v \<Rightarrow> (case dc_volume C calls of
           Inr s \<Rightarrow> own (vs_Labels s) \<and> x = AVolume v | Inl _ \<Rightarrow> False)
     | _ \<Rightarrow> False)"

text \<open>A removal is justified when an earlier call has created the thing, or its answer showed it as owned.\<close>

definition justified :: "docker_client \<Rightarrow> (labels \<Rightarrow> bool) \<Rightarrow> docker_call list \<Rightarrow> docker_resource \<Rightarrow> bool" where
  "justified C own calls x = list_ex (\<lambda>n. made C (take (Suc n) calls) = Some x
     \<or> shows_owned C own (take (Suc n) calls) x) [0..<length calls]"

text \<open>What those made after \<open>calls\<close> have created and not removed, beside \<open>D\<close>.\<close>

definition left_by_call :: "docker_client \<Rightarrow> docker_call list \<Rightarrow> docker_resource set \<Rightarrow> docker_resource set" where
  "left_by_call C calls D = (case made C calls of
       Some x \<Rightarrow> insert x D
     | None \<Rightarrow> (case removed_by (last calls) of Some x \<Rightarrow> D - {x} | None \<Rightarrow> D))"

fun leftover :: "docker_client \<Rightarrow> docker_call list \<Rightarrow> docker_resource set \<Rightarrow> docker_call list \<Rightarrow> docker_resource set" where
  "leftover C calls D [] = D"
| "leftover C calls D (c # cs) = leftover C (calls @ [c]) (left_by_call C (calls @ [c]) D) cs"

section \<open>Permitted calls\<close>

fun permitted :: "docker_client \<Rightarrow> docker_policy \<Rightarrow> docker_call list \<Rightarrow> docker_call \<Rightarrow> bool" where
  "permitted C P calls (ContainerCreate s) = confined P s"
| "permitted C P calls (NetworkCreate n internal l) = (n = po_network P \<and> internal \<or> n = egressNetworkName \<and> \<not> internal)"
| "permitted C P calls (VolumeCreate v) = (vp_Name v = po_volume P
     \<and> vp_DriverOpts v = [(''size'', int_decimal (int64 (m_DiskGB (po_machine P) * 1024 * 1024 * 1024)))])"
| "permitted C P calls (ImageRemove i) = False"
| "permitted C P calls c = (case removed_by c of Some x \<Rightarrow> justified C (po_own P) calls x | None \<Rightarrow> True)"

fun all_permitted :: "docker_client \<Rightarrow> docker_policy \<Rightarrow> docker_call list \<Rightarrow> docker_call list \<Rightarrow> bool" where
  "all_permitted C P calls [] = True"
| "all_permitted C P calls (c # cs) = (permitted C P calls c \<and> all_permitted C P (calls @ [c]) cs)"

text \<open>
  Those made since \<open>calls\<close> are permitted, and leave at most \<open>D\<close> behind, beside the network that all machines
  share and what the engine has given no identifier.
\<close>

definition spared :: "docker_resource set" where
  "spared = {ANetwork egressNetworkName, AContainer []}"

definition ledger :: "DockerRuntime \<Rightarrow> docker_policy \<Rightarrow> docker_call list \<Rightarrow> docker_resource set \<Rightarrow> docker_state \<Rightarrow> bool" where
  "ledger R P calls D k \<longleftrightarrow> (\<exists>cs. dk_log k = calls @ cs \<and> all_permitted (dr_client R) P calls cs
     \<and> leftover (dr_client R) calls {} cs \<subseteq> spared \<union> D
     \<and> (\<forall>x \<in> D. justified (dr_client R) (po_own P) (dk_log k) x))"

lemma leftover_snoc: "leftover C calls D (cs @ [c]) = left_by_call C (calls @ cs @ [c]) (leftover C calls D cs)"
  by (induction cs arbitrary: calls D) simp_all

lemma all_permitted_snoc: "all_permitted C P calls (cs @ [c]) \<longleftrightarrow> all_permitted C P calls cs \<and> permitted C P (calls @ cs) c"
  by (induction cs arbitrary: calls) simp_all

lemma justified_later: "justified C own calls x \<Longrightarrow> justified C own (calls @ cs) x"
proof -
  assume "justified C own calls x"
  then obtain n where n: "n < length calls"
    "made C (take (Suc n) calls) = Some x \<or> shows_owned C own (take (Suc n) calls) x"
    by (auto simp: justified_def list_ex_iff)
  then show ?thesis
    by (auto simp: justified_def list_ex_iff intro!: bexI [where x = n])
qed

lemma justified_now:
  "made C (calls @ [c]) = Some x \<or> shows_owned C own (calls @ [c]) x \<Longrightarrow> justified C own (calls @ [c]) x"
  unfolding justified_def list_ex_iff by (auto intro!: bexI [where x = "length calls"])


section \<open>How a call changes the ledger\<close>

lemma made_harmless: "harmless_call c \<Longrightarrow> made C (calls @ [c]) = None" "harmless_call c \<Longrightarrow> removed_by c = None"
  by (cases c; simp add: made_def)+

lemma permitted_harmless: "harmless_call c \<Longrightarrow> permitted C P calls c"
  by (cases c) simp_all

text \<open>A further call, with what it makes added and what it removes taken away.\<close>

lemma ledger_call:
  assumes "ledger R P calls D k" and "permitted (dr_client R) P (dk_log k) c"
    and "left_by_call (dr_client R) (dk_log k @ [c]) (spared \<union> D)
      \<subseteq> spared \<union> D'"
    and "\<And>x. x \<in> D' \<Longrightarrow> x \<in> D \<or> justified (dr_client R) (po_own P) (dk_log k @ [c]) x"
  shows "ledger R P calls D' (k\<lparr>dk_log := dk_log k @ [c]\<rparr>)"
proof -
  obtain cs where cs: "dk_log k = calls @ cs" "all_permitted (dr_client R) P calls cs"
      "leftover (dr_client R) calls {} cs \<subseteq> spared \<union> D"
      "\<And>x. x \<in> D \<Longrightarrow> justified (dr_client R) (po_own P) (dk_log k) x"
    using assms(1) by (auto simp: ledger_def)
  have "left_by_call C l A \<subseteq> left_by_call C l B" if "A \<subseteq> B" for C l A B
    using that by (auto simp: left_by_call_def split: option.split)
  then have "leftover (dr_client R) calls {} (cs @ [c]) \<subseteq> spared \<union> D'"
    using assms(3) cs(1,3) by (simp add: leftover_snoc) blast
  moreover have "justified (dr_client R) (po_own P) (dk_log k @ [c]) x" if "x \<in> D'" for x
    using assms(4) [OF that] cs(4) justified_later by blast
  moreover have "all_permitted (dr_client R) P calls (cs @ [c])"
    using cs(1,2) assms(2) by (simp add: all_permitted_snoc)
  ultimately show ?thesis
    unfolding ledger_def using cs(1) by (intro exI [of _ "cs @ [c]"]) simp
qed

lemma ledger_harmless: "harmless_call c \<Longrightarrow> ledger R P calls D k \<Longrightarrow> ledger R P calls D (k\<lparr>dk_log := dk_log k @ [c]\<rparr>)"
  by (rule ledger_call) (auto simp: made_harmless left_by_call_def intro: permitted_harmless)

text \<open>Pulls and connections are no matter of the ledger.\<close>

lemma ledger_free:
  "c \<in> {ImagePull i, NetworkConnect n j as} \<Longrightarrow> ledger R P calls D k \<Longrightarrow> ledger R P calls D (k\<lparr>dk_log := dk_log k @ [c]\<rparr>)"
  by (rule ledger_call) (auto simp: left_by_call_def made_def)

interpretation ledger: open_policy R "ledger R P calls D" for R P calls D
proof unfold_locales
  show "ledger R P calls D (k\<lparr>dk_log := dk_log k @ [c]\<rparr>)" if "harmless_call c" "ledger R P calls D k" for c k
    using that by (rule ledger_harmless)
  show "ledger R P calls D (k\<lparr>dk_quotaReady := True\<rparr>)" if "ledger R P calls D k" for k
    using that by (simp add: ledger_def)
  show "ledger R P calls D (k\<lparr>dk_log := dk_log k @ [ImagePull i]\<rparr>)" if "ledger R P calls D k" for k i
    using that by (intro ledger_free) auto
  show "ledger R P calls D (k\<lparr>dk_log := dk_log k @ [NetworkConnect n i as]\<rparr>)" if "ledger R P calls D k" for k n i as
    using that by (intro ledger_free) auto
qed

lemma ledger_weaken:
  "ledger R P calls D k \<Longrightarrow> D \<subseteq> D' \<Longrightarrow> (\<And>x. x \<in> D' \<Longrightarrow> x \<in> D \<or> justified (dr_client R) (po_own P) (dk_log k) x)
    \<Longrightarrow> ledger R P calls D' k"
  unfolding ledger_def by (elim exE conjE, rule exI, intro conjI) auto

lemma ledger_justified: "ledger R P calls D k \<Longrightarrow> x \<in> D \<Longrightarrow> justified (dr_client R) (po_own P) (dk_log k) x"
  by (auto simp: ledger_def)

lemma leads_asked:
  assumes "\<And>k. A k \<Longrightarrow> Q (Inr (f (dr_client R) (dk_log k @ [c]))) (k\<lparr>dk_log := dk_log k @ [c]\<rparr>)"
  shows "leads A (asked R f c) Q"
  using assms by (simp add: leads_def asked_def ask_def Let_def)

lemma leads_answer:
  assumes "\<And>k. A k \<Longrightarrow> case f (dr_client R) (dk_log k @ [c]) of
      Inl e \<Rightarrow> Q (Inl (docker_go e)) (k\<lparr>dk_log := dk_log k @ [c]\<rparr>)
    | Inr x \<Rightarrow> Q (Inr x) (k\<lparr>dk_log := dk_log k @ [c]\<rparr>)"
  shows "leads A (answer_of R f c) Q"
proof -
  have "Q (fst (answer_of R f c k)) (snd (answer_of R f c k))" if "A k" for k
    using assms [OF that]
    by (cases "f (dr_client R) (dk_log k @ [c])")
      (simp_all add: answer_of_def demand_def ask_def given_def bindA_def returnA_def failA_def Let_def)
  then show ?thesis by (simp add: leads_def)
qed

text \<open>Whatever a removal answers, the ledger is the same for all ways in which the runtime asks for it.\<close>

lemma leads_removal:
  assumes "\<And>k. A k \<Longrightarrow> B (k\<lparr>dk_log := dk_log k @ [c]\<rparr>)"
  shows "leads A (dropped R c) (\<lambda>_. B)" "leads A (unless_gone f c) (\<lambda>_. B)" "leads A (answer_of R g c) (\<lambda>_. B)"
proof -
  show "leads A (dropped R c) (\<lambda>_. B)"
    unfolding dropped_def by (intro leads_ignore leads_asked assms)
  show "leads A (unless_gone f c) (\<lambda>_. B)"
    using assms by (auto simp: leads_def unless_gone_def ask_def bindA_def returnA_def failA_def Let_def split: sum.split)
  show "leads A (answer_of R g c) (\<lambda>_. B)"
    by (rule leads_answer) (simp add: assms split: sum.split)
qed

lemma ledger_removed:
  assumes "removed_by c = Some x" and "ledger R P calls D k" and "x \<in> D \<or> justified (dr_client R) (po_own P) (dk_log k) x"
    and "D - {x} \<subseteq> D'" and "D' \<subseteq> D"
  shows "ledger R P calls D' (k\<lparr>dk_log := dk_log k @ [c]\<rparr>)"
proof (rule ledger_call [OF assms(2)])
  have "justified (dr_client R) (po_own P) (dk_log k) x"
    using assms(2,3) ledger_justified by blast
  then show "permitted (dr_client R) P (dk_log k) c"
    using assms(1) by (cases c) simp_all
  have "made (dr_client R) (dk_log k @ [c]) = None"
    using assms(1) by (cases c) (simp_all add: made_def)
  then show "left_by_call (dr_client R) (dk_log k @ [c]) (spared \<union> D)
      \<subseteq> spared \<union> D'"
    using assms(1,4) by (auto simp: left_by_call_def)
qed (use assms(5) in blast)

end
