(* ===== verification/Docker_Properties.thy ===== *)
theory Docker_Properties
  imports Docker_Ledger
begin

text \<open>
  What the runtime does to the engine: which containers it creates, what it removes, and that a failed spawn
  leaves nothing behind.
\<close>

section \<open>Containers are confined\<close>

lemma label_map_put [simp]: "label (map_put k v m) x = (if x = k then v else label m x)"
proof -
  have "map_of (map (\<lambda>p. if fst p = k then (k, v) else p) m) x = (if x = k \<and> map_of m k \<noteq> None then Some v else map_of m x)"
    by (induction m) auto
  moreover have "map_of m k \<noteq> None \<longleftrightarrow> list_ex (\<lambda>p. fst p = k) m"
    by (induction m) auto
  ultimately show ?thesis
    by (auto simp: label_def map_put_def split: option.splits)
qed

lemma owned_labels: "ownedByMachine (machineLabels machine) (m_ID machine)"
  by (simp add: ownedByMachine_def machineLabels_def label_def)

lemma owned_map_put:
  "k \<noteq> ''com.kuayle.managed'' \<Longrightarrow> k \<noteq> ''com.kuayle.machine-id'' \<Longrightarrow>
    ownedByMachine (map_put k v m) i = ownedByMachine m i"
  by (simp add: ownedByMachine_def)

lemma secure_sizes:
  "0 < hc_Memory (secureHostConfig R machine st n v)" "0 < hc_PidsLimit (secureHostConfig R machine st n v)"
  "hc_MemorySwap (secureHostConfig R machine st n v) = hc_Memory (secureHostConfig R machine st n v)"
  by (simp_all add: secureHostConfig_def memory_of_def pids_of_def Let_def)

lemma secure_frame:
  "\<not> hc_Privileged (secureHostConfig R machine st n v)" "hc_NetworkMode (secureHostConfig R machine st n v) = n"
  "hc_LogConfig (secureHostConfig R machine st n v) = boundedLogConfig" "hc_CapAdd (secureHostConfig R machine st n v) = []"
  "list_all (\<lambda>m. mt_Source m = v \<and> mt_Target m = ''/workspace'') (hc_Mounts (secureHostConfig R machine st n v))"
  by (simp_all add: secureHostConfig_def Let_def)

lemma secure_hardened:
  assumes "\<not> (m_EnvironmentBuilder machine \<and> st = ''ide'')"
  shows "hc_ReadonlyRootfs (secureHostConfig R machine st n v) \<and> hc_CapDrop (secureHostConfig R machine st n v) = [''ALL'']
    \<and> ''no-new-privileges=true'' \<in> set (hc_SecurityOpt (secureHostConfig R machine st n v))"
  using assms by (auto simp: secureHostConfig_def security_options_def Let_def)

lemma service_spec_confined:
  "confined P (service_spec R (po_machine P) service (po_network P) (po_volume P) secrets command environment)"
  using secure_hardened [of "po_machine P" "sv_ServiceType service"]
  by (auto simp: confined_def hardened_def service_spec_def secure_sizes secure_frame owned_map_put owned_labels)

lemma agent_spec_confined:
  "confined P (agent_spec R (po_machine P) run provider checkout secrets (po_network P) (po_volume P) argv environment)"
  using secure_hardened [of "po_machine P" "''agent''"]
  by (auto simp: confined_def hardened_def agent_spec_def secure_sizes secure_frame owned_map_put owned_labels)

lemma initializer_spec_confined: "confined P (initializer_spec (po_machine P) (po_volume P) reference)"
  by (simp add: confined_def hardened_def initializer_spec_def owned_map_put owned_labels)

section \<open>Creations and removals in the ledger\<close>

lemma ledger_created:
  assumes "confined P s"
  shows "leads (ledger R P calls D) (answer_of R dc_id (ContainerCreate s))
    (\<lambda>r. ledger R P calls (case r of Inr i \<Rightarrow> insert (AContainer i) D | Inl _ \<Rightarrow> D))"
proof (rule leads_answer)
  fix k assume k: "ledger R P calls D k"
  let ?l = "dk_log k @ [ContainerCreate s]"
  show "case dc_id (dr_client R) ?l of
      Inl e \<Rightarrow> ledger R P calls (case Inl (docker_go e) of Inr i \<Rightarrow> insert (AContainer i) D | Inl _ \<Rightarrow> D) (k\<lparr>dk_log := ?l\<rparr>)
    | Inr x \<Rightarrow> ledger R P calls (case Inr x of Inr i \<Rightarrow> insert (AContainer i) D | Inl _ \<Rightarrow> D) (k\<lparr>dk_log := ?l\<rparr>)"
    by (cases "dc_id (dr_client R) ?l")
      (auto intro!: ledger_call [OF k] justified_now simp: assms left_by_call_def made_def)
qed

lemma rests_removal:
  assumes "removed_by c = Some x"
    and "\<And>k. J k \<Longrightarrow> ledger R P calls D k \<and> (x \<in> D \<or> justified (dr_client R) (po_own P) (dk_log k) x)"
    and "D - {x} \<subseteq> D'" and "D' \<subseteq> D"
  shows "leads J (dropped R c) (\<lambda>_. ledger R P calls D')" "leads J (unless_gone f c) (\<lambda>_. ledger R P calls D')"
    "leads J (answer_of R g c) (\<lambda>_. ledger R P calls D')"
  by (rule leads_removal, use assms(2) ledger_removed [OF assms(1) _ _ assms(3,4)] in blast)+

text \<open>An answer with labels that make the thing one's own justifies its removal.\<close>

lemma leads_inspect:
  "leads (ledger R P calls D) (asked R dc_container (ContainerInspect i)) (\<lambda>r k. ledger R P calls D k
     \<and> (\<forall>c. r = Inr (Inr c) \<and> po_own P (cs_Labels c) \<longrightarrow>
          justified (dr_client R) (po_own P) (dk_log k) (AContainer i)
        \<and> justified (dr_client R) (po_own P) (dk_log k) (AContainer (cs_ID c))))"
  by (rule leads_asked) (auto intro!: ledger_harmless justified_now simp: shows_owned_def)

lemma leads_network:
  "leads (ledger R P calls D) (asked R dc_network (NetworkInspect n)) (\<lambda>r k. ledger R P calls D k
     \<and> (\<forall>s. r = Inr (Inr s) \<and> po_own P (nw_Labels s) \<longrightarrow> justified (dr_client R) (po_own P) (dk_log k) (ANetwork n)))"
  by (rule leads_asked) (auto intro!: ledger_harmless justified_now simp: shows_owned_def)

lemma leads_volume:
  "leads (ledger R P calls D) (asked R dc_volume (VolumeInspect v)) (\<lambda>r k. ledger R P calls D k
     \<and> (\<forall>s. r = Inr (Inr s) \<and> po_own P (vs_Labels s) \<longrightarrow> justified (dr_client R) (po_own P) (dk_log k) (AVolume v)))"
  by (rule leads_asked) (auto intro!: ledger_harmless justified_now simp: shows_owned_def)

lemma rests_weaken: "leads J a (\<lambda>_. I) \<Longrightarrow> (\<And>k. I k \<Longrightarrow> J k) \<Longrightarrow> rests I a"
  unfolding rests_def by (erule leads_weaken) auto


section \<open>Teardown\<close>

lemma managed_removals_rest:
  assumes "\<And>l. po_own P l \<longleftrightarrow> ownedByMachine l i"
  shows "rests (ledger R P calls D) (removeManagedContainer R i c)"
    and "rests (ledger R P calls D) (removeManagedNetwork R i n)"
    and "rests (ledger R P calls D) (removeManagedVolume R i v)"
  unfolding rests_def removeManagedContainer_def removeManagedNetwork_def removeManagedVolume_def
  by (rule leads_bind [OF leads_inspect] leads_bind [OF leads_network] leads_bind [OF leads_volume],
    auto split: sum.split simp: assms failD_def intro!: leads_return leads_fail rests_removal, blast?)+

lemma removeListed_rests:
  assumes "\<And>l. po_own P l \<longleftrightarrow> ownedByMachine l i"
  shows "leads (\<lambda>k. ledger R P calls D k \<and> (ownedByMachine (ci_Labels item) i \<longrightarrow>
      justified (dr_client R) (po_own P) (dk_log k) (AContainer (ci_ID item)))) (removeListed R i item) (\<lambda>_. ledger R P calls D)"
  unfolding removeListed_def failD_def
  by (auto simp: ownedByMachine_def intro!: leads_fail rests_removal)


text \<open>The containers of a list that are the machine's own.\<close>

definition own_items :: "uuid \<Rightarrow> container_item list \<Rightarrow> docker_resource set" where
  "own_items i items = {AContainer (ci_ID item) |item. item \<in> set items \<and> ownedByMachine (ci_Labels item) i}"

lemma leads_list:
  assumes "\<And>l. po_own P l \<longleftrightarrow> ownedByMachine l i"
  shows "leads (ledger R P calls {}) (answer_of R dc_items (ContainerList f))
    (\<lambda>r. ledger R P calls (case r of Inl _ \<Rightarrow> {} | Inr items \<Rightarrow> own_items i items))"
proof (rule leads_answer)
  fix k assume k: "ledger R P calls {} k"
  let ?l = "dk_log k @ [ContainerList f]"
  have "ledger R P calls {} (k\<lparr>dk_log := ?l\<rparr>)"
    using ledger_harmless [OF _ k] by simp
  then show "case dc_items (dr_client R) ?l of
      Inl e \<Rightarrow> ledger R P calls (case Inl (docker_go e) of Inl _ \<Rightarrow> {} | Inr items \<Rightarrow> own_items i items) (k\<lparr>dk_log := ?l\<rparr>)
    | Inr x \<Rightarrow> ledger R P calls (case Inr x of Inl _ \<Rightarrow> {} | Inr items \<Rightarrow> own_items i items) (k\<lparr>dk_log := ?l\<rparr>)"
    by (cases "dc_items (dr_client R) ?l")
      (auto elim!: ledger_weaken intro!: justified_now simp: own_items_def shows_owned_def assms list_ex_iff, blast)
qed

lemma removeListed_keeps:
  assumes "item \<in> set items"
  shows "rests (ledger R P calls (own_items i items)) (removeListed R i item)"
  unfolding removeListed_def failD_def rests_def
  using assms by (auto simp: own_items_def ownedByMachine_def intro!: leads_fail rests_removal)

lemma teardown_lawful:
  assumes "\<And>l. po_own P l \<longleftrightarrow> ownedByMachine l (m_ID machine)"
  shows "leads (ledger R P calls {}) (runtimeTeardown R machine services) (\<lambda>_ k. \<exists>D. ledger R P calls D k)"
proof -
  note managed = managed_removals_rest [OF assms]
  let ?a = "\<lambda>items. thenA (eachA (removeListed R (m_ID machine)) items)
      (thenA (dropped R (NetworkDisconnect (networkNameOf machine) (dg_GatewayContainerName (dr_config R))))
      (thenA (removeManagedNetwork R (m_ID machine) (networkNameOf machine))
       (removeManagedVolume R (m_ID machine) (volumeNameOf machine))))"
  have rest: "rests (ledger R P calls (own_items (m_ID machine) items)) (?a items)" for items
    by (intro rests_then rests_each removeListed_keeps managed ledger.harmless_calls) simp_all
  show ?thesis
    unfolding runtimeTeardown_def
  proof (rule leads_then [OF leads_rests [OF rests_all [OF managed(1)]]])
    show "leads (ledger R P calls {})
        (bindA (answer_of R dc_items (ContainerList (Some (''com.kuayle.machine-id='' @ uuid_String (m_ID machine))))) ?a)
        (\<lambda>_ k. \<exists>D. ledger R P calls D k)"
      by (rule leads_bind [OF leads_list [OF assms]])
        (auto intro: leads_weaken [OF leads_rests [OF rest]])
  qed auto
qed

section \<open>Cancelling an agent\<close>

lemma cancel_lawful:
  assumes "\<And>l. po_own P l \<longleftrightarrow> label l ''com.kuayle.managed'' = ''true'' \<and> label l ''com.kuayle.agent-run-id'' = uuid_String (ar_ID run)"
  shows "rests (ledger R P calls {}) (runtimeCancelAgent R run)"
proof -
  let ?mine = "\<lambda>items item. item \<in> set items \<and> po_own P (ci_Labels item)"
  have "leads (ledger R P calls {}) (answer_of R dc_items (ContainerList None)) (\<lambda>r k. ledger R P calls {} k
      \<and> (\<forall>items item. r = Inr items \<and> ?mine items item \<longrightarrow>
          justified (dr_client R) (po_own P) (dk_log k) (AContainer (ci_ID item))))"
    by (rule leads_answer)
      (auto intro!: ledger_harmless justified_now simp: shows_owned_def list_ex_iff split: sum.split)
  then show ?thesis
    unfolding runtimeCancelAgent_def rests_def failD_def
    by (rule leads_bind) (auto split: option.split simp: find_Some_iff assms intro!: leads_return leads_fail rests_removal)
qed


section \<open>Spawn: networks, volumes and the initializer\<close>

lemma network_created:
  assumes "permitted (dr_client R) P [] (NetworkCreate n internal l)"
  shows "leads (ledger R P calls D) (answer_of R dc_unit (NetworkCreate n internal l))
    (\<lambda>r. ledger R P calls (case r of Inr _ \<Rightarrow> insert (ANetwork n) D | Inl _ \<Rightarrow> D))"
proof (rule leads_answer)
  fix k assume k: "ledger R P calls D k"
  let ?l = "dk_log k @ [NetworkCreate n internal l]"
  show "case dc_unit (dr_client R) ?l of
      Inl e \<Rightarrow> ledger R P calls (case Inl (docker_go e) of Inr _ \<Rightarrow> insert (ANetwork n) D | Inl _ \<Rightarrow> D) (k\<lparr>dk_log := ?l\<rparr>)
    | Inr x \<Rightarrow> ledger R P calls (case Inr x of Inr _ \<Rightarrow> insert (ANetwork n) D | Inl _ \<Rightarrow> D) (k\<lparr>dk_log := ?l\<rparr>)"
    using assms by (cases "dc_unit (dr_client R) ?l")
      (auto intro!: ledger_call [OF k] justified_now simp: left_by_call_def made_def)
qed

lemma volume_created:
  assumes "permitted (dr_client R) P [] (VolumeCreate v)"
  shows "leads (ledger R P calls D) (answer_of R dc_volume (VolumeCreate v))
    (\<lambda>r. ledger R P calls (case r of Inr _ \<Rightarrow> insert (AVolume (vp_Name v)) D | Inl _ \<Rightarrow> D))"
proof (rule leads_answer)
  fix k assume k: "ledger R P calls D k"
  let ?l = "dk_log k @ [VolumeCreate v]"
  show "case dc_volume (dr_client R) ?l of
      Inl e \<Rightarrow> ledger R P calls (case Inl (docker_go e) of Inr _ \<Rightarrow> insert (AVolume (vp_Name v)) D | Inl _ \<Rightarrow> D) (k\<lparr>dk_log := ?l\<rparr>)
    | Inr x \<Rightarrow> ledger R P calls (case Inr x of Inr _ \<Rightarrow> insert (AVolume (vp_Name v)) D | Inl _ \<Rightarrow> D) (k\<lparr>dk_log := ?l\<rparr>)"
    using assms by (cases "dc_volume (dr_client R) ?l")
      (auto intro!: ledger_call [OF k] justified_now simp: left_by_call_def made_def)
qed

lemma ensureNetwork_ledger:
  assumes "permitted (dr_client R) P [] (NetworkCreate n internal l)"
  shows "leads (ledger R P calls D) (ensureNetwork R n internal l)
    (\<lambda>r. ledger R P calls (if r = Inr True then insert (ANetwork n) D else D))"
  unfolding ensureNetwork_def failD_def
  by (rule leads_bind [OF leads_rests [OF ledger.harmless_calls(1)]])
    (auto split: sum.split intro!: leads_return leads_fail leads_then [OF network_created [OF assms]])

lemma volume_options:
  "workspaceVolumeCreateOptions n l d = Inr v \<Longrightarrow> vp_Name v = n
    \<and> vp_DriverOpts v = [(''size'', int_decimal (int64 (d * 1024 * 1024 * 1024)))]"
  by (auto simp: workspaceVolumeCreateOptions_def Let_def split: if_splits)

lemma ensureVolume_ledger:
  assumes n: "n = po_volume P" and d: "d = m_DiskGB (po_machine P)"
  shows "leads (ledger R P calls D) (ensureVolume R n l d)
    (\<lambda>r. ledger R P calls (if r = Inr True then insert (AVolume n) D else D))"
proof (cases "workspaceVolumeCreateOptions n l d")
  case (Inl e)
  then show ?thesis by (auto simp: ensureVolume_def intro: leads_fail)
next
  case (Inr v)
  note v = volume_options [OF Inr]
  have ok: "permitted (dr_client R) P [] (VolumeCreate v)" using v by (simp add: n d)
  have "leads (ledger R P calls D) (wrapping ''create hard-quota workspace volume'' (answer_of R dc_volume (VolumeCreate v)))
      (\<lambda>r. ledger R P calls (case r of Inr _ \<Rightarrow> insert (AVolume n) D | Inl _ \<Rightarrow> D))"
    by (rule leads_wrapping, rule leads_weaken [OF volume_created [OF ok]]) (auto simp: v split: sum.splits)
  note created = leads_bind [OF this]
  show ?thesis
    unfolding ensureVolume_def Inr sum.case
    by (rule leads_bind [OF leads_rests [OF ledger.volumes_rest(1)]])
      (auto split: option.split intro!: leads_return leads_fail created leads_then [OF rests_removal(1)])
qed

lemma leads_both: "leads P a Q \<Longrightarrow> leads P a Q' \<Longrightarrow> leads P a (\<lambda>r w. Q r w \<and> Q' r w)"
  by (simp add: leads_def)

lemma prepareWorkspaceVolume_rests:
  assumes own: "\<And>l. po_own P l \<longleftrightarrow> label l ''com.kuayle.machine-id'' = uuid_String (m_ID machine)"
    and machine: "machine = po_machine P" "volumeName = po_volume P"
  shows "rests (ledger R P calls D) (prepareWorkspaceVolume R machine volumeName reference)"
proof -
  have remove: "rests (ledger R P calls D) (removeInitializer R machine)"
    unfolding rests_def removeInitializer_def failD_def
    by (rule leads_bind [OF leads_inspect])
      (auto split: sum.split simp: own intro!: leads_return leads_fail rests_removal)
  have run: "rests (ledger R P calls E) (runInitializer R i)" for E i
    unfolding runInitializer_def
    by (auto intro!: resting ledger.harmless_calls split: wait_event.split sum.split prod.split simp: Let_def)
  have drop: "leads (ledger R P calls (insert (AContainer i) D)) (dropped R (ContainerRemove i)) (\<lambda>_. ledger R P calls D)" for i
    by (rule leads_removal(1), rule ledger_removed [where D = "insert (AContainer i) D" and x = "AContainer i"])
      (auto intro: ledger_justified)
  note created = ledger_created [OF initializer_spec_confined [of P reference], folded machine]
  show ?thesis
    unfolding prepareWorkspaceVolume_def
    by (intro rests_then ledger.images_rest remove, unfold rests_def,
      rule leads_bind [OF created]) (auto intro!: leads_defer [OF leads_rests [OF run] drop])
qed


section \<open>Spawn: services\<close>

lemma createService_ledger:
  assumes machine: "machine = po_machine P" "networkName = po_network P" "volumeName = po_volume P"
  shows "leads (ledger R P calls D) (createService R machine service networkName volumeName secrets)
    (\<lambda>r. ledger R P calls (case r of Inr i \<Rightarrow> insert (AContainer i) D | Inl _ \<Rightarrow> D))"
proof -
  let ?in = "\<lambda>i. ledger R P calls (insert (AContainer i) D)"
  let ?run = "\<lambda>i. thenA (answer_of R dc_unit (ContainerStart i)) (thenA (copySecrets R i secrets)
      (thenA (requireRunning R i) (returnA i)))"
  have run: "leads (?in i) (?run i) (\<lambda>r k. ?in i k \<and> (\<forall>x. r = Inr x \<longrightarrow> x = i))" for i
    by (intro leads_both leads_rests resting ledger.harmless_calls ledger.secrets_rest ledger.requireRunning_rests, simp)
      (auto simp: leads_def thenA_def bindA_def returnA_def split: prod.split sum.split)
  have drop: "leads (?in i) (dropped R (ContainerRemove i)) (\<lambda>_. ledger R P calls D)" for i
    by (rule leads_removal(1), rule ledger_removed [where D = "insert (AContainer i) D" and x = "AContainer i"])
      (auto intro: ledger_justified)
  have start: "leads (?in i) (deferA (?run i) (\<lambda>r. case r of Inl _ \<Rightarrow> dropped R (ContainerRemove i) | Inr _ \<Rightarrow> returnA ()))
      (\<lambda>r. ledger R P calls (case r of Inr i \<Rightarrow> insert (AContainer i) D | Inl _ \<Rightarrow> D))" for i
    by (rule leads_defer [OF run]) (auto split: sum.split intro!: leads_return leads_weaken [OF drop])
  note created = ledger_created [OF service_spec_confined [of P R service secrets], folded machine]
  show ?thesis
    unfolding createService_def failD_def
    by (rule leads_then [OF leads_rests], intro resting ledger.images_rest,
        rule leads_bind [OF leads_rests [OF ledger.images_rest(3)]])
      (auto intro!: leads_fail leads_bind [OF created] start)
qed

text \<open>What \<open>ensureService\<close> returns says whether there is a container more.\<close>

definition service_created :: "go_error + (string \<times> bool \<times> bool \<times> go_error option) \<Rightarrow> docker_resource set" where
  "service_created r = (case r of Inr (i, True, _, _) \<Rightarrow> {AContainer i} | _ \<Rightarrow> {})"

lemma ensureService_ledger:
  assumes machine: "machine = po_machine P" "networkName = po_network P" "volumeName = po_volume P"
  shows "leads (ledger R P calls D) (ensureService R machine service networkName volumeName secrets)
    (\<lambda>r k. ledger R P calls (service_created r \<union> D) k
       \<and> (\<exists>i created attached err. r = Inr (i, created, attached, err) \<and> (created \<longrightarrow> err = None)))"
proof -
  note create = leads_attempt [OF leads_weaken [OF createService_ledger [OF machine]], where Q = "\<lambda>s k. \<exists>r. s = Inr r
      \<and> ledger R P calls (case r of Inr i \<Rightarrow> insert (AContainer i) D | Inl _ \<Rightarrow> D) k" for R calls D]
  have made: "leads (ledger R P calls D) (bindA (attempt (createService R machine service networkName volumeName secrets))
      (\<lambda>created. case created of
         Inl e \<Rightarrow> returnA ([], False, False, Some e) | Inr containerID \<Rightarrow> returnA (containerID, True, False, None)))
    (\<lambda>r k. ledger R P calls (service_created r \<union> D) k
       \<and> (\<exists>i created attached err. r = Inr (i, created, attached, err) \<and> (created \<longrightarrow> err = None)))"
    by (rule leads_bind [OF create]) (auto simp: service_created_def intro!: leads_return split: sum.split)
  have found: "leads (ledger R P calls D) (bindA (attempt (connectNetwork R networkName (cs_ID c) [sv_InternalHost service]))
      (\<lambda>connected. case connected of
         Inl e \<Rightarrow> returnA (cs_ID c, False, False, Some e)
       | Inr attached \<Rightarrow> bindA (attempt (thenA
             (ensureContainerStarted R (cs_ID c) (m_Status machine) (cs_Running c) (cs_Paused c) secrets)
             (requireRunning R (cs_ID c)))) (\<lambda>started. returnA (cs_ID c, False, attached, error_in started))))
    (\<lambda>r k. ledger R P calls (service_created r \<union> D) k
       \<and> (\<exists>i created attached err. r = Inr (i, created, attached, err) \<and> (created \<longrightarrow> err = None)))" for c
  proof (rule leads_bind [where S = "\<lambda>r k. (\<exists>x. r = Inr x) \<and> ledger R P calls D k"])
    show "leads (ledger R P calls D) (attempt (connectNetwork R networkName (cs_ID c) [sv_InternalHost service]))
        (\<lambda>r k. (\<exists>x. r = Inr x) \<and> ledger R P calls D k)"
      by (rule leads_attempt) (auto intro: leads_weaken [OF leads_rests [OF ledger.networks_rest(2)]])
  qed (auto split: sum.split simp: service_created_def
      intro!: leads_return leads_bind [OF leads_attempt [where Q = "\<lambda>r k. (\<exists>x. r = Inr x) \<and> ledger R P calls D k"]]
        leads_weaken [OF leads_rests [OF rests_then [OF ledger.starting_rests(3) ledger.requireRunning_rests]]])
  show ?thesis
    unfolding ensureService_def
    by (rule leads_bind [where S = "\<lambda>r k. (\<exists>x. r = Inr x) \<and> ledger R P calls D k"], rule leads_asked,
        simp add: ledger_harmless)
      (auto split: sum.split simp: service_created_def intro!: leads_return found [unfolded service_created_def]
        made [unfolded service_created_def])
qed

end
