(* ===== verification/Spawn_Properties.thy ===== *)
theory Spawn_Properties
  imports Docker_Properties
begin

text \<open>
  \<open>Spawn\<close>: what its deferred function reads is always a complete account of what it has created, so that a
  failure removes all of it.
\<close>

section \<open>The book of a spawn\<close>

definition booked :: "docker_policy \<Rightarrow> spawn_book \<Rightarrow> docker_resource set" where
  "booked P b = AContainer ` snd ` set (bk_createdContainers b)
     \<union> (if bk_networkCreated b then {ANetwork (po_network P)} else {})
     \<union> (if bk_volumeCreated b then {AVolume (po_volume P)} else {})"

text \<open>The services whose keys are in \<open>done\<close> have been handled.\<close>

definition accounted :: "string set \<Rightarrow> spawn_book \<Rightarrow> bool" where
  "accounted seen b \<longleftrightarrow> distinct (map fst (bk_createdContainers b)) \<and> fst ` set (bk_containers b) \<subseteq> seen
     \<and> set (bk_createdContainers b) \<subseteq> set (bk_containers b) \<and> [] \<notin> snd ` set (bk_createdContainers b)"

definition spawning :: "DockerRuntime \<Rightarrow> docker_policy \<Rightarrow> docker_call list \<Rightarrow> string set \<Rightarrow> docker_state \<times> spawn_book \<Rightarrow> bool" where
  "spawning R P calls seen w \<longleftrightarrow> accounted seen (snd w) \<and> ledger R P calls (booked P (snd w)) (fst w)"

lemma leads_inside:
  "(\<And>b. leads (\<lambda>k. J (k, b)) a (\<lambda>r k. Q r (k, b))) \<Longrightarrow> leads J (inside a) Q"
  by (simp add: leads_def inside_def case_prod_beta)

lemma leads_noted: "(\<And>k b. J (k, b) \<Longrightarrow> Q (Inr ()) (k, f b)) \<Longrightarrow> leads J (noted f) Q"
  by (simp add: leads_def noted_def putA_def)

lemma leads_when: "(b \<Longrightarrow> leads P a Q) \<Longrightarrow> (\<And>w. \<not> b \<Longrightarrow> P w \<Longrightarrow> Q (Inr ()) w) \<Longrightarrow> leads P (whenA b a) Q"
  by (simp add: whenA_def leads_return)

lemma leads_get: "(\<And>w. P w \<Longrightarrow> Q (Inr (f w)) w) \<Longrightarrow> leads P (getA f) Q"
  by (simp add: leads_def getA_def)

lemma ledger_spare: "ledger R P calls (insert x D) k \<Longrightarrow> x \<in> spared \<Longrightarrow> ledger R P calls D k"
  unfolding ledger_def by (elim exE conjE, rule exI, intro conjI) auto

lemma map_put_fresh: "k \<notin> fst ` set m \<Longrightarrow> map_put k v m = m @ [(k, v)]"
  by (auto simp: map_put_def list_ex_iff)

lemma booked_untouched [simp]:
  "booked P (b\<lparr>bk_machineConnections := x\<rparr>) = booked P b" "booked P (b\<lparr>bk_egressConnections := x\<rparr>) = booked P b"
  "accounted seen (b\<lparr>bk_machineConnections := x\<rparr>) = accounted seen b"
  "accounted seen (b\<lparr>bk_egressConnections := x\<rparr>) = accounted seen b"
  by (simp_all add: booked_def accounted_def)

section \<open>One service\<close>

text \<open>A service with a new key enters the book with the container that was created for it.\<close>

lemma recorded:
  assumes "accounted seen b" and "key \<notin> seen" and "ledger R P calls (if created then insert (AContainer i) (booked P b) else booked P b) k"
    and "maps = recordSpawnServiceContainer (bk_containers b, bk_createdContainers b) key i created"
    and "b' = b\<lparr>bk_containers := fst maps, bk_createdContainers := snd maps\<rparr>"
  shows "spawning R P calls (insert key seen) (k, b')"
proof (cases "i = []")
  case True
  then have "b' = b" using assms(4,5) by (simp add: recordSpawnServiceContainer_def)
  moreover have "ledger R P calls (booked P b) k"
    using assms(3) True ledger_spare [of R P calls "AContainer []"] by (auto simp: spared_def split: if_splits)
  ultimately show ?thesis using assms(1) by (auto simp: spawning_def accounted_def)
next
  case False
  have key: "key \<notin> fst ` set (bk_containers b)" "key \<notin> fst ` set (bk_createdContainers b)"
    using assms(1,2) by (auto simp: accounted_def)
  have maps: "maps = (bk_containers b @ [(key, i)],
      if created then bk_createdContainers b @ [(key, i)] else bk_createdContainers b)"
    using False by (simp add: assms(4) recordSpawnServiceContainer_def map_put_fresh key)
  have "booked P b' = (if created then insert (AContainer i) (booked P b) else booked P b)"
    by (auto simp: booked_def assms(5) maps)
  moreover have "accounted (insert key seen) b'"
    using assms(1) key False by (auto simp: accounted_def assms(5) maps)
  ultimately show ?thesis using assms(3) by (simp add: spawning_def)
qed

lemma record_service_spawning:
  assumes "sv_ServiceKey service \<notin> seen"
  shows "leads (\<lambda>w. accounted seen (snd w) \<and> ledger R P calls
      (if created then insert (AContainer i) (booked P (snd w)) else booked P (snd w)) (fst w))
    (record_service service i created) (\<lambda>_. spawning R P calls (insert (sv_ServiceKey service) seen))"
  unfolding record_service_def Let_def
  by (rule leads_noted, rule recorded [OF _ assms _ refl refl]) (auto split: if_splits)

lemma accounted_more: "accounted seen b \<Longrightarrow> seen \<subseteq> seen' \<Longrightarrow> accounted seen' b"
  by (auto simp: accounted_def)

lemma spawning_more: "spawning R P calls seen w \<Longrightarrow> seen \<subseteq> seen' \<Longrightarrow> spawning R P calls seen' w"
  by (auto simp: spawning_def intro: accounted_more)

lemma rests_inside:
  assumes "\<And>D. rests (ledger R P calls D) a"
  shows "rests (spawning R P calls seen) (inside a)"
  unfolding rests_def spawning_def
  by (rule leads_inside) (use assms in \<open>auto simp: rests_def leads_def\<close>)


lemma spawn_service_spawning:
  assumes machine: "machine = po_machine P" "networkName = po_network P" "volumeName = po_volume P"
    and key: "sv_ServiceKey service \<notin> seen"
  shows "leads (spawning R P calls seen) (spawn_service R machine networkName volumeName secrets service)
    (\<lambda>_. spawning R P calls (insert (sv_ServiceKey service) seen))"
proof -
  let ?S = "\<lambda>r w. accounted seen (snd w) \<and> ledger R P calls (service_created r \<union> booked P (snd w)) (fst w)
      \<and> (\<exists>i created attached err. r = Inr (i, created, attached, err) \<and> (created \<longrightarrow> err = None))"
  let ?after = "spawning R P calls (insert (sv_ServiceKey service) seen)"
  let ?a = "inside (ensureService R machine service networkName volumeName (secrets_for secrets (sv_ServiceKey service)))"
  have ensure: "leads (spawning R P calls seen) ?a ?S"
    unfolding spawning_def
    by (rule leads_inside) (use ensureService_ledger [OF machine] in \<open>auto simp: leads_def\<close>)
  have noting: "leads (\<lambda>w. ?S (Inr x) w) (whenA attached (noted (\<lambda>b. b\<lparr>bk_machineConnections :=
      map_put key i (bk_machineConnections b)\<rparr>))) (\<lambda>r w. r = Inr () \<and> ?S (Inr x) w)" for x attached i key
    by (rule leads_when) (auto intro!: leads_noted)
  have egress: "rests ?after (whenA b (bindA (inside (wrapping s (connectNetwork R n i aliases)))
      (\<lambda>connected. whenA (connected \<and> \<not> created) (noted (\<lambda>b. b\<lparr>bk_egressConnections := f b\<rparr>)))))" for b s n i aliases created f
    by (intro rests_when rests_bind rests_inside rests_wrapping ledger.networks_rest)
      (auto simp: rests_def spawning_def intro!: leads_noted)
  have recording: "leads (\<lambda>w. ?S (Inr (i, created, attached, None)) w) (record_service service i created) (\<lambda>_. ?after)" for i created attached
    by (rule leads_weaken [OF record_service_spawning [OF key, where i = i and created = created]])
      (auto simp: service_created_def split: if_splits bool.splits)
  show ?thesis
    unfolding spawn_service_def Let_def
  proof (rule leads_bind [OF ensure], goal_cases)
    case (1 x)
    obtain i created attached err where x: "x = (i, created, attached, err)" by (cases x)
    show ?case
      unfolding x prod.case
    proof (rule leads_then [OF noting], goal_cases)
      case (1 u)
      show ?case
      proof (cases err)
        case None
        show ?thesis
          unfolding None option.case
          by (rule leads_then [OF leads_weaken [OF recording] leads_rests [OF egress]]) auto
      next
        case (Some e)
        show ?thesis
          unfolding Some option.case
          by (rule leads_fail) (auto intro: accounted_more simp: spawning_def service_created_def)
      qed
    qed simp
  next
    case (2 e w)
    then show ?case by auto
  qed
qed


section \<open>All services\<close>

lemma services_spawning:
  assumes machine: "machine = po_machine P" "networkName = po_network P" "volumeName = po_volume P"
    and "distinct (map sv_ServiceKey services)" and "seen \<inter> sv_ServiceKey ` set services = {}"
  shows "leads (spawning R P calls seen) (eachA (spawn_service R machine networkName volumeName secrets) services)
    (\<lambda>_. spawning R P calls (seen \<union> sv_ServiceKey ` set services))"
  using assms(4,5)
proof (induction services arbitrary: seen)
  case (Cons s ss)
  have key: "sv_ServiceKey s \<notin> seen" using Cons.prems by auto
  have "leads (spawning R P calls (insert (sv_ServiceKey s) seen)) (eachA (spawn_service R machine networkName volumeName secrets) ss)
      (\<lambda>_. spawning R P calls (insert (sv_ServiceKey s) seen \<union> sv_ServiceKey ` set ss))"
    using Cons.prems by (intro Cons.IH) auto
  then show ?case
    unfolding eachA.simps
    by (intro leads_then [OF spawn_service_spawning [OF machine key]]) (auto intro: spawning_more)
qed (simp add: leads_return)

lemma terminals_spawning:
  assumes "distinct (map sv_ServiceKey services)" and "seen \<inter> sv_ServiceKey ` set services = {}"
  shows "leads (spawning R P calls seen) (eachA spawn_terminal services)
    (\<lambda>_. spawning R P calls (seen \<union> sv_ServiceKey ` set services))"
  using assms
proof (induction services arbitrary: seen)
  case (Cons s ss)
  have key: "sv_ServiceKey s \<notin> seen" using Cons.prems by auto
  have one: "leads (spawning R P calls seen) (spawn_terminal s) (\<lambda>_. spawning R P calls (insert (sv_ServiceKey s) seen))"
    unfolding spawn_terminal_def
    by (rule leads_bind [OF leads_get [where Q = "\<lambda>_. spawning R P calls seen"]])
      (auto intro!: leads_fail leads_weaken [OF record_service_spawning [OF key, where created = False]]
        intro: accounted_more simp: spawning_def)
  have "leads (spawning R P calls (insert (sv_ServiceKey s) seen)) (eachA spawn_terminal ss)
      (\<lambda>_. spawning R P calls (insert (sv_ServiceKey s) seen \<union> sv_ServiceKey ` set ss))"
    using Cons.prems by (intro Cons.IH) auto
  then show ?case
    unfolding eachA.simps by (intro leads_then [OF one]) (auto intro: spawning_more)
qed (simp add: leads_return)


section \<open>The body\<close>

text \<open>The book when the networks and the volume are there, and what \<open>Spawn\<close> leaves behind.\<close>

definition opened :: "DockerRuntime \<Rightarrow> docker_policy \<Rightarrow> docker_call list \<Rightarrow> spawn_book \<Rightarrow> docker_resource set
    \<Rightarrow> docker_state \<times> spawn_book \<Rightarrow> bool" where
  "opened R P calls b D w \<longleftrightarrow> snd w = b \<and> ledger R P calls D (fst w)"

definition spawned :: "DockerRuntime \<Rightarrow> docker_policy \<Rightarrow> docker_call list \<Rightarrow> docker_state \<times> spawn_book \<Rightarrow> bool" where
  "spawned R P calls w \<longleftrightarrow> (\<exists>seen. spawning R P calls seen w)"

definition spawn_end :: "DockerRuntime \<Rightarrow> docker_policy \<Rightarrow> docker_call list \<Rightarrow> string \<Rightarrow> string
    \<Rightarrow> go_error + (string \<times> string \<times> labels) \<Rightarrow> docker_state \<times> spawn_book \<Rightarrow> bool" where
  "spawn_end R P calls networkName volumeName r w \<longleftrightarrow> spawned R P calls w
     \<and> (\<forall>x. r = Inr x \<longrightarrow> x = (networkName, volumeName, bk_containers (snd w)))"

lemma spawn_end_error: "spawned R P calls w \<Longrightarrow> spawn_end R P calls n v (Inl e) w"
  by (simp add: spawn_end_def)

lemma leads_opened:
  assumes "leads (ledger R P calls D) a (\<lambda>r. ledger R P calls (E r))"
  shows "leads (opened R P calls b D) (inside a) (\<lambda>r. opened R P calls b (E r))"
  unfolding opened_def by (rule leads_inside) (use assms in \<open>auto simp: leads_def\<close>)

lemma wrapped_ledger:
  assumes "leads J a (\<lambda>r. ledger R P calls (if r = Inr True then insert x D else D))"
  shows "leads J (wrapping s a) (\<lambda>r. ledger R P calls (if r = Inr True then insert x D else D))"
  by (rule leads_wrapping, rule leads_weaken [OF assms]) (auto split: sum.split)

lemma spawned_open:
  assumes "opened R P calls b D w" and "bk_containers b = []" and "bk_createdContainers b = []" and "D = booked P b"
  shows "spawning R P calls {} w" and "spawned R P calls w"
  using assms by (auto simp: opened_def spawning_def spawned_def accounted_def)

lemma spawned_spawning: "spawning R P calls seen w \<Longrightarrow> spawned R P calls w"
  by (auto simp: spawned_def)

lemma keys_of_kinds:
  assumes "distinct (map sv_ServiceKey services)"
  shows "distinct (map sv_ServiceKey (filter Q services))"
    and "({} \<union> sv_ServiceKey ` set (filter (\<lambda>s. \<not> Q s) services)) \<inter> sv_ServiceKey ` set (filter Q services) = {}"
  using assms by (auto simp: distinct_map intro: inj_on_subset dest: inj_onD)

lemma started_spawned:
  assumes machine: "machine = po_machine P" "networkName = po_network P" "volumeName = po_volume P"
    and keys: "distinct (map sv_ServiceKey services)"
  shows "leads (spawning R P calls {})
    (thenA (eachA (spawn_service R machine networkName volumeName secrets) (filter (\<lambda>s. sv_ServiceType s \<noteq> ''terminal'') services))
    (thenA (eachA spawn_terminal (filter (\<lambda>s. sv_ServiceType s = ''terminal'') services))
       (getA (\<lambda>(k, b). (networkName, volumeName, bk_containers b)))))
    (spawn_end R P calls networkName volumeName)"
  by (rule leads_then [OF services_spawning [OF machine keys_of_kinds(1) [OF keys]]], simp,
      rule leads_then [OF terminals_spawning [OF keys_of_kinds [OF keys]]])
    (auto intro!: leads_get intro: spawned_spawning spawn_end_error simp: spawn_end_def [of _ _ _ _ _ "Inr _"])

lemma spawn_containers_spawned:
  assumes machine: "machine = po_machine P" "networkName = po_network P" "volumeName = po_volume P"
    and own: "\<And>l. po_own P l \<longleftrightarrow> label l ''com.kuayle.machine-id'' = uuid_String (m_ID machine)"
    and keys: "distinct (map sv_ServiceKey services)"
  shows "leads (spawning R P calls {}) (spawn_containers R machine services secrets networkName volumeName)
    (spawn_end R P calls networkName volumeName)"
proof -
  have prepare: "rests (spawning R P calls {}) (inside (wrapping s (prepareWorkspaceVolume R machine volumeName i)))" for s i
    by (intro rests_inside rests_wrapping prepareWorkspaceVolume_rests own machine)
  have connect: "rests (spawning R P calls {}) (inside (wrapping s (connectNetwork R n c as)))" for s n c as
    by (intro rests_inside rests_wrapping ledger.networks_rest)
  have gateway: "rests (spawning R P calls {}) (whenA on (noted (\<lambda>b. b\<lparr>bk_machineConnections := f b\<rparr>)))" for on f
    unfolding rests_def by (rule leads_when) (auto intro!: leads_noted simp: spawning_def)
  note start = leads_then [OF leads_rests [OF gateway] started_spawned [OF machine keys]]
  show ?thesis
    unfolding spawn_containers_def
    by (rule leads_then [OF leads_rests [OF prepare]])
      (auto intro!: leads_fail leads_bind [OF leads_rests [OF connect]] start intro: spawn_end_error spawned_spawning)
qed

lemma spawn_body_spawned:
  assumes machine: "machine = po_machine P" "networkName = po_network P" "volumeName = po_volume P"
    and own: "\<And>l. po_own P l \<longleftrightarrow> label l ''com.kuayle.machine-id'' = uuid_String (m_ID machine)"
    and keys: "distinct (map sv_ServiceKey services)"
  shows "leads (opened R P calls empty_book {}) (spawn_body R machine services secrets networkName volumeName)
    (spawn_end R P calls networkName volumeName)"
proof -
  let ?b = "\<lambda>n. empty_book\<lparr>bk_networkCreated := n\<rparr>"
  let ?c = "\<lambda>n v. empty_book\<lparr>bk_networkCreated := n, bk_volumeCreated := v\<rparr>"
  have book: "bk_containers (?b n) = []" "bk_createdContainers (?b n) = []" "bk_containers (?c n v) = []"
      "bk_createdContainers (?c n v) = []" "bk_containers empty_book = []" "bk_createdContainers empty_book = []"
      "{} = booked P empty_book" for n v
    by (simp_all add: empty_book_def booked_def)
  have network: "leads (opened R P calls empty_book {}) (inside (wrapping s (ensureNetwork R networkName True l)))
      (\<lambda>r. opened R P calls empty_book (if r = Inr True then {ANetwork networkName} else {}))" for s l
    by (rule leads_opened [OF wrapped_ledger [OF ensureNetwork_ledger]]) (simp add: machine)
  have egress: "leads (opened R P calls b D) (inside (wrapping s (ensureNetwork R egressNetworkName False l)))
      (\<lambda>r. opened R P calls b D)" for b D s l
    by (rule leads_weaken [OF leads_opened [OF wrapped_ledger [OF ensureNetwork_ledger]]])
      (auto simp: opened_def spared_def intro: ledger_spare [where x = "ANetwork egressNetworkName"] split: if_splits)
  have volume: "leads (opened R P calls b D) (inside (wrapping s (ensureVolume R volumeName l (m_DiskGB machine))))
      (\<lambda>r. opened R P calls b (if r = Inr True then insert (AVolume volumeName) D else D))" for b D s l
    by (rule leads_opened [OF wrapped_ledger [OF ensureVolume_ledger]]) (simp_all add: machine)
  have noted1: "leads (opened R P calls empty_book (if Inr n = (Inr True :: go_error + bool) then {ANetwork networkName} else {}))
      (noted (\<lambda>b. b\<lparr>bk_networkCreated := n\<rparr>)) (\<lambda>r w. r = Inr () \<and> opened R P calls (?b n) (booked P (?b n)) w)" for n
    by (rule leads_noted) (auto simp: opened_def booked_def empty_book_def machine split: if_splits)
  have noted2: "leads (opened R P calls (?b n) (if Inr v = (Inr True :: go_error + bool)
        then insert (AVolume volumeName) (booked P (?b n)) else booked P (?b n)))
      (noted (\<lambda>b. b\<lparr>bk_volumeCreated := v\<rparr>)) (\<lambda>r w. r = Inr () \<and> spawning R P calls {} w)" for n v
    by (rule leads_noted)
      (auto simp: opened_def booked_def spawning_def accounted_def empty_book_def machine split: if_splits)
  note body = spawn_containers_spawned [OF machine own keys]
  show ?thesis
    unfolding spawn_body_def
  proof (rule leads_bind [OF network], goal_cases)
    case (1 n)
    then show ?case
    proof (rule leads_then [OF noted1], goal_cases)
      case (1 u)
      then show ?case
        by (rule leads_then [OF leads_weaken [OF egress [of "?b n" "booked P (?b n)"]]], simp, assumption,
            rule leads_bind [OF volume], rule leads_then [OF noted2])
          (auto intro: leads_weaken [OF body] spawn_end_error spawned_spawning spawned_open book)
    qed simp
  next
    case (2 e w)
    then show ?case using book by (auto intro: spawn_end_error spawned_open)
  qed
qed


section \<open>The cleanup\<close>

definition ranges :: "DockerRuntime \<Rightarrow> bool" where
  "ranges R \<longleftrightarrow> (\<forall>keys. set (dr_range R keys) = set keys)"

text \<open>The deferred function drops every error, so that it goes on to its end.\<close>

definition never_fails :: "('w, 'a) action \<Rightarrow> bool" where
  "never_fails a \<longleftrightarrow> (\<forall>w. \<exists>x. fst (a w) = Inr x)"

lemma leads_on:
  assumes "never_fails a" and "leads P a (\<lambda>_. S)" and "leads S b Q"
  shows "leads P (thenA a b) Q"
proof (rule leads_then [where S = "\<lambda>r w. (\<exists>x. r = Inr x) \<and> S w"])
  show "leads P a (\<lambda>r w. (\<exists>x. r = Inr x) \<and> S w)"
    using assms(1,2) by (simp add: leads_def never_fails_def)
qed (use assms(3) in \<open>auto simp: leads_def\<close>)

lemma never_fails_rules:
  "never_fails (dropped R c)" "(\<And>x. never_fails (f x)) \<Longrightarrow> never_fails (eachA f xs)"
  "never_fails a \<Longrightarrow> never_fails (whenA b a)"
proof -
  show "never_fails (dropped R c)"
    by (simp add: never_fails_def dropped_def ignore_def case_prod_beta)
  show "never_fails (whenA b a)" if "never_fails a"
    using that by (simp add: never_fails_def whenA_def returnA_def)
  show "never_fails (eachA f xs)" if f: "\<And>x. never_fails (f x)"
  proof (induction xs)
    case (Cons x xs)
    have "\<exists>y. fst (thenA (f x) (eachA f xs) w) = Inr y" for w
    proof -
      obtain u where "fst (f x w) = Inr u" using f [of x] by (auto simp: never_fails_def)
      then show ?thesis
        using Cons.IH by (simp add: never_fails_def thenA_def bindA_def case_prod_beta)
    qed
    then show ?case by (simp add: never_fails_def)
  qed (simp add: never_fails_def returnA_def)
qed

lemma first_seen_set: "set (first_seen seen xs) = set xs - set seen"
  by (induction seen xs rule: first_seen.induct) auto

lemma first_seen_distinct: "distinct (first_seen seen xs)"
  by (induction seen xs rule: first_seen.induct) (auto simp: first_seen_set)

lemma ranged_set: "ranges R \<Longrightarrow> distinct (map fst m) \<Longrightarrow> set (ranged R m) = snd ` set m"
  by (force simp: ranges_def ranged_def label_def)

lemma removals_ledger:
  assumes "distinct xs" and "AContainer ` set xs \<subseteq> D"
  shows "leads (ledger R P calls D) (eachA (\<lambda>i. dropped R (ContainerRemove i)) xs)
    (\<lambda>_. ledger R P calls (D - AContainer ` set xs))"
  using assms
proof (induction xs arbitrary: D)
  case (Cons x xs)
  have "D - {AContainer x} - AContainer ` set xs = D - AContainer ` set (x # xs)" by auto
  moreover have "leads (ledger R P calls D) (dropped R (ContainerRemove x)) (\<lambda>_. ledger R P calls (D - {AContainer x}))"
    by (rule rests_removal(1)) (use Cons.prems in auto)
  moreover have "leads (ledger R P calls (D - {AContainer x})) (eachA (\<lambda>i. dropped R (ContainerRemove i)) xs)
      (\<lambda>_. ledger R P calls (D - {AContainer x} - AContainer ` set xs))"
    using Cons.prems by (intro Cons.IH) auto
  ultimately show ?case
    unfolding eachA.simps by (metis leads_on never_fails_rules(1))
qed (simp add: leads_return)

lemma cleanup_ledger:
  assumes "accounted seen b" and R: "ranges R" and names: "networkName = po_network P" "volumeName = po_volume P"
  shows "leads (ledger R P calls (booked P b)) (spawn_cleanup R networkName volumeName b) (\<lambda>_. ledger R P calls {})"
proof -
  let ?n = "if bk_networkCreated b then {ANetwork networkName} else {}"
  let ?v = "if bk_volumeCreated b then {AVolume volumeName} else {}"
  let ?ids = "first_seen [] (filter (\<lambda>i. i \<noteq> []) (ranged R (filter (\<lambda>(key, i). i \<noteq> []) (bk_createdContainers b))))"
  have keep: "filter (\<lambda>(key, i). i \<noteq> []) (bk_createdContainers b) = bk_createdContainers b"
    using assms(1) by (force simp: accounted_def image_iff intro!: filter_True)
  have named: "(a, []) \<notin> set (bk_createdContainers b)" for a
    using assms(1) by (force simp: accounted_def)
  have "set ?ids = snd ` set (bk_createdContainers b)"
    unfolding first_seen_set keep set_filter using assms(1) R by (subst ranged_set) (auto simp: accounted_def named)
  then have split: "booked P b - AContainer ` set ?ids = ?n \<union> ?v" and ids: "AContainer ` set ?ids \<subseteq> booked P b"
    by (auto simp: booked_def names)
  have containers: "leads (ledger R P calls (booked P b)) (removeContainers R (filter (\<lambda>(key, i). i \<noteq> []) (bk_createdContainers b)))
      (\<lambda>_. ledger R P calls (?n \<union> ?v))"
    unfolding removeContainers_def using removals_ledger [OF first_seen_distinct ids] split by simp
  have disconnect: "rests (ledger R P calls D) (eachA (\<lambda>i. dropped R (NetworkDisconnect n i)) xs)" for D n xs
    by (intro rests_all ledger.harmless_calls) simp
  have network: "leads (ledger R P calls (?n \<union> ?v)) (whenA (bk_networkCreated b) (dropped R (NetworkRemove networkName)))
      (\<lambda>_. ledger R P calls ?v)"
    by (rule leads_when, rule rests_removal(1)) auto
  have volume: "leads (ledger R P calls ?v) (whenA (bk_volumeCreated b) (dropped R (VolumeRemove volumeName)))
      (\<lambda>_. ledger R P calls {})"
    by (rule leads_when, rule rests_removal(1)) auto
  show ?thesis
    unfolding spawn_cleanup_def planSpawnFailureCleanup_def Let_def spawnFailureCleanup.simps
    by (intro leads_on [OF _ containers] leads_on [OF _ leads_rests [OF disconnect]] leads_on [OF _ network] volume
          never_fails_rules)
      (simp add: removeContainers_def never_fails_rules)
qed

end
