(* ===== verification/Container_Properties.thy ===== *)
theory Container_Properties
  imports Spawn_Properties Docker_Agents Machine_Samples
begin

text \<open>
  The properties of the container runtime: every container is confined, only what is one's own is removed,
  a failed spawn leaves nothing behind; and the plan of a start, the state of a container whose terminal is
  closed, and the captured output.
\<close>

section \<open>Samples\<close>

text \<open>
  An engine that has no container, no network and no volume, and creates what it is asked to, but whose containers
  are gone when they are looked for; and one whose only container is paused.
\<close>

definition volume_answer :: "docker_call list \<Rightarrow> docker_error + volume_state" where
  "volume_answer calls = (case last calls of
     VolumeCreate v \<Rightarrow> Inr \<lparr>vs_Driver = vp_Driver v, vs_Labels = vp_Labels v, vs_Options = vp_DriverOpts v\<rparr>
   | _ \<Rightarrow> Inl (NotFound ''no such volume''))"

definition client0 :: docker_client where
  "client0 = \<lparr>dc_unit = (\<lambda>log. Inr ()), dc_container = (\<lambda>log. Inl (NotFound ''no such container'')),
     dc_id = (\<lambda>log. Inr ''id''), dc_items = (\<lambda>log. Inr []), dc_code = (\<lambda>log. Inr 0), dc_output = (\<lambda>log. ([], [], None)),
     dc_stats = (\<lambda>log. Inl (NotFound ''no such container'')),
     dc_image = (\<lambda>log. Inr (Some \<lparr>ic_Cmd = [''run''], ic_Env = [], ic_Labels = [], ic_Volumes = []\<rparr>)),
     dc_network = (\<lambda>log. Inl (NotFound ''no such network'')), dc_volume = volume_answer,
     dc_select = (\<lambda>log. Ticked), dc_wait = (\<lambda>log. Exited 0)\<rparr>"

definition docker0 :: DockerRuntime where
  "docker0 = \<lparr>dr_client = client0,
     dr_config = \<lparr>dg_GatewayContainerName = ''gw'', dg_SeccompProfile = [], dg_AppArmorProfile = [], dg_PullImages = False,
       dg_IngestURL = [], dg_EgressAllowlist = [], dg_EgressDenylist = []\<rparr>,
     dr_Quote = (\<lambda>s. s), dr_range = (\<lambda>keys. keys), dr_NewString = ''u'', dr_isEOF = (\<lambda>e. False), dr_polls = 2\<rparr>"

definition collector0 :: DevMachineService where
  "collector0 = service0\<lparr>sv_ServiceType := ''collector'', sv_ServiceKey := ''collector'', sv_ContainerID := None,
     sv_ContainerName := ''co'', sv_ImageRef := ''img'', sv_InternalHost := ''co''\<rparr>"

definition idle0 :: docker_state where
  "idle0 = \<lparr>dk_log = [], dk_quotaReady = False\<rparr>"

definition paused0 :: container_state where
  "paused0 = \<lparr>cs_ID = ''c1'', cs_Image = ''img'', cs_Labels = [], cs_Status = ''paused'', cs_Running = True, cs_Paused = True,
     cs_ExitCode = 0, cs_Error = [], cs_Health = None, cs_Networks = []\<rparr>"

definition docker1 :: DockerRuntime where
  "docker1 = docker0\<lparr>dr_client := client0\<lparr>dc_container := \<lambda>log. Inr paused0\<rparr>\<rparr>"

text \<open>A machine without disk, whose spawn fails when both networks are there.\<close>

definition diskless0 :: DevMachine where
  "diskless0 = machine0\<lparr>m_DiskGB := 0\<rparr>"

lemma spawn0_fails:
  "fst (runtimeSpawn docker0 diskless0 [collector0] [] idle0)
    = Inl (Wrapped ''create workspace volume'' (Errorf ''workspace disk quota must be positive''))"
  by code_simp

section \<open>The calls of a method\<close>

definition calls_made :: "'a dact \<Rightarrow> docker_state \<Rightarrow> docker_call list" where
  "calls_made a k = drop (length (dk_log k)) (dk_log (snd (a k)))"

fun justified_removals :: "docker_client \<Rightarrow> (labels \<Rightarrow> bool) \<Rightarrow> docker_call list \<Rightarrow> docker_call list \<Rightarrow> bool" where
  "justified_removals C own earlier [] = True"
| "justified_removals C own earlier (c # cs) =
     ((case removed_by c of Some x \<Rightarrow> justified C own earlier x | None \<Rightarrow> True)
      \<and> justified_removals C own (earlier @ [c]) cs)"

lemma permitted_removal:
  "permitted C P calls c \<Longrightarrow> removed_by c = Some x \<Longrightarrow> justified C (po_own P) calls x"
  by (cases c) simp_all

lemma permitted_removals:
  "all_permitted C P calls cs \<Longrightarrow> justified_removals C (po_own P) calls cs"
  by (induction cs arbitrary: calls) (auto intro: permitted_removal split: option.split)

lemma ledger_now: "ledger R P (dk_log k) {} k"
  unfolding ledger_def by (rule exI [of _ "[]"]) simp

lemma ledger_calls_made:
  assumes "leads (ledger R P (dk_log k) {}) a (\<lambda>_ k'. \<exists>D. ledger R P (dk_log k) D k')"
  shows "justified_removals (dr_client R) (po_own P) (dk_log k) (calls_made a k)"
proof -
  obtain D where "ledger R P (dk_log k) D (snd (a k))"
    using leadsD [OF assms ledger_now] by blast
  then show ?thesis by (auto simp: ledger_def calls_made_def intro: permitted_removals)
qed

section \<open>Confinement\<close>

text \<open>
  A container is known as the machine's service of a kind when an earlier answer of the engine has shown it with the labels
  of the machine and of that kind, or when an earlier call has created it with these labels.
\<close>

definition labelled_service :: "DevMachine \<Rightarrow> string \<Rightarrow> labels \<Rightarrow> bool" where
  "labelled_service machine kind l \<longleftrightarrow> label l ''com.kuayle.machine-id'' = uuid_String (m_ID machine)
     \<and> label l ''com.kuayle.service'' = kind"

definition shows_service :: "docker_client \<Rightarrow> DevMachine \<Rightarrow> docker_call list \<Rightarrow> string \<times> string \<Rightarrow> bool" where
  "shows_service C machine calls = (\<lambda>(i, kind). case last calls of
       ContainerInspect name \<Rightarrow> (case dc_container C calls of
           Inr c \<Rightarrow> cs_ID c = i \<and> labelled_service machine kind (cs_Labels c) | Inl _ \<Rightarrow> False)
     | ContainerCreate s \<Rightarrow> dc_id C calls = Inr i \<and> labelled_service machine kind (cc_Labels (sp_Config s))
     | _ \<Rightarrow> False)"

definition known_service :: "docker_client \<Rightarrow> DevMachine \<Rightarrow> docker_call list \<Rightarrow> string \<times> string \<Rightarrow> bool" where
  "known_service C machine calls x = list_ex (\<lambda>n. shows_service C machine (take (Suc n) calls) x) [0..<length calls]"

text \<open>
  A call keeps the confinement: a container is created confined; one is connected to the machine's own network
  when it is the gateway or known as a service of the machine, and to the network of egress when it is known as the machine's
  egress service; and to no other network.
\<close>

definition contained :: "DockerRuntime \<Rightarrow> docker_policy \<Rightarrow> docker_call list \<Rightarrow> docker_call \<Rightarrow> bool" where
  "contained R P calls c = (case c of
       ContainerCreate s \<Rightarrow> confined P s
     | NetworkConnect n i aliases \<Rightarrow>
         n = po_network P \<and> (i = dg_GatewayContainerName (dr_config R)
            \<or> (\<exists>kind. known_service (dr_client R) (po_machine P) calls (i, kind)))
       \<or> n = egressNetworkName \<and> known_service (dr_client R) (po_machine P) calls (i, ''egress'')
     | _ \<Rightarrow> True)"

fun all_contained :: "DockerRuntime \<Rightarrow> docker_policy \<Rightarrow> docker_call list \<Rightarrow> docker_call list \<Rightarrow> bool" where
  "all_contained R P calls [] = True"
| "all_contained R P calls (c # cs) = (contained R P calls c \<and> all_contained R P (calls @ [c]) cs)"

lemma all_contained_snoc: "all_contained R P calls (cs @ [c]) \<longleftrightarrow> all_contained R P calls cs \<and> contained R P (calls @ cs) c"
  by (induction cs arbitrary: calls) simp_all

lemma known_later: "known_service C m calls x \<Longrightarrow> known_service C m (calls @ cs) x"
proof -
  assume "known_service C m calls x"
  then obtain n where "n < length calls" "shows_service C m (take (Suc n) calls) x"
    by (auto simp: known_service_def list_ex_iff)
  then show ?thesis by (auto simp: known_service_def list_ex_iff intro!: bexI [where x = n])
qed

lemma known_now: "shows_service C m (calls @ [c]) x \<Longrightarrow> known_service C m (calls @ [c]) x"
  unfolding known_service_def list_ex_iff by (auto intro!: bexI [where x = "length calls"])

text \<open>
  The invariant that all calls since \<open>calls\<close> keep the confinement is one more policy; \<open>D\<close> are services that are known.
\<close>

definition confining :: "DockerRuntime \<Rightarrow> docker_policy \<Rightarrow> docker_call list \<Rightarrow> (string \<times> string) set \<Rightarrow> docker_state \<Rightarrow> bool" where
  "confining R P calls D k \<longleftrightarrow> (\<exists>cs. dk_log k = calls @ cs \<and> all_contained R P calls cs)
     \<and> (\<forall>x \<in> D. known_service (dr_client R) (po_machine P) (dk_log k) x)"

lemma confining_call:
  assumes "confining R P calls D k" and "contained R P (dk_log k) c"
    and "\<And>x. x \<in> D' \<Longrightarrow> x \<in> D \<or> shows_service (dr_client R) (po_machine P) (dk_log k @ [c]) x"
  shows "confining R P calls D' (k\<lparr>dk_log := dk_log k @ [c]\<rparr>)"
proof -
  obtain cs where cs: "dk_log k = calls @ cs" "all_contained R P calls cs"
    using assms(1) by (auto simp: confining_def)
  then have "all_contained R P calls (cs @ [c])" using assms(2) by (simp add: all_contained_snoc)
  moreover have "known_service (dr_client R) (po_machine P) (dk_log k @ [c]) x" if "x \<in> D'" for x
    using assms(1) assms(3) [OF that] known_later known_now unfolding confining_def by blast
  ultimately show ?thesis unfolding confining_def using cs(1) by auto
qed

lemma contained_harmless: "harmless_call c \<Longrightarrow> contained R P calls c"
  by (cases c) (simp_all add: contained_def)

interpretation confining: image_policy R "confining R P calls D" for R P calls D
proof unfold_locales
  show "confining R P calls D (k\<lparr>dk_log := dk_log k @ [c]\<rparr>)" if "harmless_call c" "confining R P calls D k" for c k
    using that by (intro confining_call [of R P calls D] contained_harmless) auto
  show "confining R P calls D (k\<lparr>dk_quotaReady := True\<rparr>)" if "confining R P calls D k" for k
    using that by (simp add: confining_def)
  show "confining R P calls D (k\<lparr>dk_log := dk_log k @ [ImagePull i]\<rparr>)" if "confining R P calls D k" for k i
    using that by (intro confining_call [of R P calls D]) (auto simp: contained_def)
qed

lemma confining_less: "confining R P calls D k \<Longrightarrow> D' \<subseteq> D \<Longrightarrow> confining R P calls D' k"
  unfolding confining_def by blast

text \<open>Calls that neither create nor connect a container, and those that do.\<close>

fun neutral_call :: "docker_call \<Rightarrow> bool" where
  "neutral_call (ContainerCreate s) = False"
| "neutral_call (NetworkConnect n i aliases) = False"
| "neutral_call c = True"

lemma contained_neutral: "neutral_call c \<Longrightarrow> contained R P calls c"
  by (cases c) (simp_all add: contained_def)

lemma confining_calls:
  assumes "neutral_call c"
  shows "rests (confining R P calls D) (answer_of R f c)" and "rests (confining R P calls D) (dropped R c)"
proof -
  have "rests (confining R P calls D) (ask g c)" for g :: "docker_call list \<Rightarrow> 'z"
    by (rule rests_ask, rule confining_call) (auto intro: contained_neutral assms)
  then have [resting]: "rests (confining R P calls D) (ask g c)" for g :: "docker_call list \<Rightarrow> docker_error + 'a" .
  show "rests (confining R P calls D) (answer_of R f c)"
    unfolding answer_of_def by (intro rests_through_ask resting)
  show "rests (confining R P calls D) (dropped R c)"
    unfolding dropped_def asked_def
    by (intro resting rests_ask confining_call) (auto intro: contained_neutral assms)
qed

lemma confining_connect:
  assumes "n = po_network P \<and> i = dg_GatewayContainerName (dr_config R)
    \<or> n = po_network P \<and> (i, kind) \<in> D \<or> n = egressNetworkName \<and> (i, ''egress'') \<in> D"
  shows "rests (confining R P calls D) (connectNetwork R n i aliases)"
proof -
  have ask: "rests (confining R P calls D) (asked R f (NetworkConnect n i aliases))" for f :: "docker_client \<Rightarrow> docker_call list \<Rightarrow> docker_error + unit"
    unfolding asked_def
    by (rule rests_ask, rule confining_call [where D = D], assumption)
      (use assms in \<open>auto simp: contained_def confining_def\<close>)
  show ?thesis
    unfolding connectNetwork_def by (intro resting ask confining.reads_rest)
qed

lemma confining_create:
  assumes "confined P s" and "labelled_service (po_machine P) kind (cc_Labels (sp_Config s))"
  shows "leads (confining R P calls D) (answer_of R dc_id (ContainerCreate s))
    (\<lambda>r. confining R P calls (case r of Inl _ \<Rightarrow> D | Inr i \<Rightarrow> insert (i, kind) D))"
  by (rule leads_answer)
    (auto split: sum.split intro!: confining_call [where D = D] simp: contained_def assms shows_service_def)

lemmas confining_rests = resting confining.harmless_calls confining.quota_flag confining.exec_rests confining.secrets_rest
  confining.images_rest confining.reads_rest confining.volumes_rest confining.requireRunning_rests
  confining.starting_rests

lemma networks_confining:
  "rests (confining R P calls D) (ensureNetwork R n internal l)" "rests (confining R P calls D) (ensureVolume R v l d)"
  "rests (confining R P calls D) (removeInitializer R machine)" "rests (confining R P calls D) (runInitializer R i)"
proof -
  show "rests (confining R P calls D) (ensureNetwork R n internal l)"
    unfolding ensureNetwork_def by (intro confining_rests confining_calls; simp)
  show "rests (confining R P calls D) (ensureVolume R v l d)"
    unfolding ensureVolume_def by (intro confining_rests confining_calls; simp)
  show "rests (confining R P calls D) (removeInitializer R machine)"
    unfolding removeInitializer_def by (intro confining_rests confining_calls; simp)
  show "rests (confining R P calls D) (runInitializer R i)"
    unfolding runInitializer_def
    by (auto intro!: confining_rests split: wait_event.split sum.split prod.split simp: Let_def)
qed

lemma leads_rests_less: "rests (confining R P calls D) a \<Longrightarrow> D' \<subseteq> D \<Longrightarrow> leads (confining R P calls D) a (\<lambda>_. confining R P calls D')"
  unfolding rests_def by (erule leads_weaken) (auto intro: confining_less)

text \<open>What a service of a machine is known as once \<open>ensureService\<close> has returned its container.\<close>

definition service_known :: "go_error + (string \<times> bool \<times> bool \<times> go_error option) \<Rightarrow> string \<Rightarrow> (string \<times> string) set" where
  "service_known r kind = (case r of Inr (i, _, _, None) \<Rightarrow> {(i, kind)} | _ \<Rightarrow> {})"

lemma createService_confining:
  assumes machine: "machine = po_machine P" "networkName = po_network P" "volumeName = po_volume P"
  shows "leads (confining R P calls D) (createService R machine service networkName volumeName secrets)
    (\<lambda>r. confining R P calls (case r of Inl _ \<Rightarrow> D | Inr i \<Rightarrow> insert (i, sv_ServiceType service) D))"
proof -
  let ?in = "\<lambda>i. confining R P calls (insert (i, sv_ServiceType service) D)"
  let ?run = "\<lambda>i. thenA (answer_of R dc_unit (ContainerStart i)) (thenA (copySecrets R i secrets)
      (thenA (requireRunning R i) (returnA i)))"
  have run: "leads (?in i) (?run i) (\<lambda>r k. ?in i k \<and> (\<forall>x. r = Inr x \<longrightarrow> x = i))" for i
    by (intro leads_both leads_rests confining_rests, simp)
      (auto simp: leads_def thenA_def bindA_def returnA_def split: prod.split sum.split)
  have drop: "leads (?in i) (dropped R (ContainerRemove i)) (\<lambda>_. confining R P calls D)" for i
    by (rule leads_rests_less [OF confining_calls(2)]) auto
  have start: "leads (?in i) (deferA (?run i) (\<lambda>r. case r of Inl _ \<Rightarrow> dropped R (ContainerRemove i) | Inr _ \<Rightarrow> returnA ()))
      (\<lambda>r. confining R P calls (case r of Inl _ \<Rightarrow> D | Inr i \<Rightarrow> insert (i, sv_ServiceType service) D))" for i
    by (rule leads_defer [OF run]) (auto split: sum.split intro!: leads_return leads_weaken [OF drop])
  have spec: "confined P (service_spec R machine service networkName volumeName secrets argv env)"
    "labelled_service (po_machine P) (sv_ServiceType service)
       (cc_Labels (sp_Config (service_spec R machine service networkName volumeName secrets argv env)))" for argv env
    using service_spec_confined [of P R service secrets argv env]
    by (simp_all add: machine labelled_service_def service_spec_def machineLabels_def label_def map_put_def)
  have image: "rests (confining R P calls D) (case (if sv_ServiceType service = ''ide'' then m_EnvironmentID machine else None) of
         Some environmentID \<Rightarrow> ensureEnvironmentImage R (sv_ImageRef service) (m_WorkspaceID machine) environmentID
       | None \<Rightarrow> ensureImage R (sv_ImageRef service))"
    by (intro confining_rests)
  show ?thesis
    unfolding createService_def failD_def
    by (rule leads_then [OF leads_rests [OF image]], rule leads_bind [OF leads_rests [OF confining.images_rest(3)]])
      (auto intro!: leads_fail leads_bind [OF confining_create [OF spec]] start)
qed

lemma ensureService_confining:
  assumes machine: "machine = po_machine P" "networkName = po_network P" "volumeName = po_volume P"
  shows "leads (confining R P calls D) (ensureService R machine service networkName volumeName secrets)
    (\<lambda>r. confining R P calls (service_known r (sv_ServiceType service) \<union> D))"
proof -
  let ?Q = "\<lambda>r. confining R P calls (service_known r (sv_ServiceType service) \<union> D)"
  have made: "leads (confining R P calls D) (bindA (attempt (createService R machine service networkName volumeName secrets))
      (\<lambda>created. case created of
         Inl e \<Rightarrow> returnA ([], False, False, Some e) | Inr containerID \<Rightarrow> returnA (containerID, True, False, None))) ?Q"
    by (rule leads_bind [OF leads_attempt [OF leads_weaken [OF createService_confining [OF machine]],
          where Q = "\<lambda>s k. \<exists>r. s = Inr r \<and> confining R P calls (case r of Inl _ \<Rightarrow> D | Inr i \<Rightarrow> insert (i, sv_ServiceType service) D) k"]])
      (auto simp: service_known_def intro!: leads_return split: sum.split)
  have found: "leads (confining R P calls (insert (cs_ID c, sv_ServiceType service) D))
     (bindA (attempt (connectNetwork R networkName (cs_ID c) [sv_InternalHost service]))
      (\<lambda>connected. case connected of
         Inl e \<Rightarrow> returnA (cs_ID c, False, False, Some e)
       | Inr attached \<Rightarrow> bindA (attempt (thenA
             (ensureContainerStarted R (cs_ID c) (m_Status machine) (cs_Running c) (cs_Paused c) secrets)
             (requireRunning R (cs_ID c)))) (\<lambda>started. returnA (cs_ID c, False, attached, error_in started)))) ?Q" for c
  proof -
    let ?J = "confining R P calls (insert (cs_ID c, sv_ServiceType service) D)"
    have known: "?J k \<Longrightarrow> ?Q (Inr (cs_ID c, a, b, e)) k" for a b e k
      by (erule confining_less) (auto simp: service_known_def split: option.split)
    have failed: "?J k \<Longrightarrow> ?Q (Inl e) k" for e k
      by (erule confining_less) (auto simp: service_known_def)
    have connect: "rests ?J (connectNetwork R networkName (cs_ID c) [sv_InternalHost service])"
      by (rule confining_connect [where kind = "sv_ServiceType service"]) (simp add: machine)
    have start: "rests ?J (attempt (thenA
             (ensureContainerStarted R (cs_ID c) (m_Status machine) (cs_Running c) (cs_Paused c) secrets)
             (requireRunning R (cs_ID c))))"
      by (intro confining_rests)
    show ?thesis
      by (rule leads_bind [OF leads_rests [OF rests_attempt [OF connect]]])
        (auto split: sum.split intro!: leads_return leads_bind [OF leads_rests [OF start]] known failed)
  qed
  let ?S = "\<lambda>r k. case r of
      Inr (Inr c) \<Rightarrow> confining R P calls D k
        \<and> (labelled_service machine (sv_ServiceType service) (cs_Labels c) \<longrightarrow>
             confining R P calls (insert (cs_ID c, sv_ServiceType service) D) k)
    | _ \<Rightarrow> confining R P calls D k"
  have look: "leads (confining R P calls D) (asked R dc_container (ContainerInspect (sv_ContainerName service))) ?S"
    by (rule leads_asked)
      (auto split: sum.split intro!: confining_call [where D = D] simp: contained_def shows_service_def machine)
  have other: "confining R P calls D k \<Longrightarrow> ?Q (Inr (i, a, b, Some e)) k" for i a b e k
    by (erule confining_less) (auto simp: service_known_def)
  show ?thesis
    unfolding ensureService_def
  proof (rule leads_bind [OF look])
    fix r
    show "leads (?S (Inr r)) (case r of
       Inr c \<Rightarrow>
         if cs_Image c \<noteq> sv_ImageRef service
            \<or> label (cs_Labels c) ''com.kuayle.machine-id'' \<noteq> uuid_String (m_ID machine)
            \<or> label (cs_Labels c) ''com.kuayle.service'' \<noteq> sv_ServiceType service
         then returnA ([], False, False, Some (Errorf ''existing container does not match service''))
         else bindA (attempt (connectNetwork R networkName (cs_ID c) [sv_InternalHost service])) (\<lambda>connected.
           case connected of
             Inl e \<Rightarrow> returnA (cs_ID c, False, False, Some e)
           | Inr attached \<Rightarrow>
               bindA (attempt (thenA
                   (ensureContainerStarted R (cs_ID c) (m_Status machine) (cs_Running c) (cs_Paused c) secrets)
                   (requireRunning R (cs_ID c)))) (\<lambda>started.
                 returnA (cs_ID c, False, attached, error_in started)))
     | Inl e \<Rightarrow>
         if \<not> IsNotFound e then returnA ([], False, False, Some (docker_go e))
         else bindA (attempt (createService R machine service networkName volumeName secrets)) (\<lambda>created.
           case created of
             Inl e \<Rightarrow> returnA ([], False, False, Some e)
           | Inr containerID \<Rightarrow> returnA (containerID, True, False, None))) ?Q"
    proof (cases r)
      case (Inl e)
      then show ?thesis using made by (auto intro!: leads_return other)
    next
      case (Inr c)
      show ?thesis
        unfolding Inr sum.case
        by (auto intro!: leads_return other leads_weaken [OF found] simp: labelled_service_def)
    qed
  qed (auto intro: confining_less simp: service_known_def)
qed

lemma prepare_confining:
  assumes machine: "machine = po_machine P" "volumeName = po_volume P"
  shows "rests (confining R P calls D) (prepareWorkspaceVolume R machine volumeName i)"
proof -
  have created: "leads (confining R P calls D) (answer_of R dc_id (ContainerCreate (initializer_spec machine volumeName i)))
      (\<lambda>_. confining R P calls D)"
    by (rule leads_answer)
      (auto split: sum.split intro!: confining_call [where D = D]
        simp: contained_def machine initializer_spec_confined shows_service_def)
  then have create: "rests (confining R P calls D) (answer_of R dc_id (ContainerCreate (initializer_spec machine volumeName i)))"
    by (simp add: rests_def)
  have remove: "rests (confining R P calls D) (dropped R (ContainerRemove j))" for j
    by (rule confining_calls(2)) simp
  show ?thesis
    unfolding prepareWorkspaceVolume_def
    by (intro rests_then rests_bind rests_defer confining.images_rest networks_confining create remove)
qed

text \<open>The state of \<open>Spawn\<close> has the book beside it, of which this invariant does not speak.\<close>

lemma resting_inside: "rests I a \<Longrightarrow> rests (\<lambda>w. I (fst w)) (inside a)"
  by (simp add: rests_def leads_def inside_def case_prod_beta)

lemma confining_noted [resting]: "rests (\<lambda>w. I (fst w)) (noted f)"
  by (simp add: rests_def leads_def noted_def putA_def case_prod_beta)

lemma confining_inside: "leads (confining R P calls D) a (\<lambda>r. confining R P calls (E r))
    \<Longrightarrow> leads (\<lambda>w. confining R P calls D (fst w)) (inside a) (\<lambda>r w. confining R P calls (E r) (fst w))"
  by (simp add: leads_def inside_def case_prod_beta)

lemma spawn_service_confining:
  assumes machine: "machine = po_machine P" "networkName = po_network P" "volumeName = po_volume P"
  shows "rests (\<lambda>w. confining R P calls {} (fst w)) (spawn_service R machine networkName volumeName secrets service)"
proof -
  let ?I = "\<lambda>D w. confining R P calls D (fst w)"
  let ?kind = "sv_ServiceType service"
  have less: "?I D w \<Longrightarrow> ?I {} w" for D w
    by (erule confining_less) simp
  have ensure: "leads (?I {}) (inside (ensureService R machine service networkName volumeName
        (secrets_for secrets (sv_ServiceKey service)))) (\<lambda>r. ?I (service_known r ?kind))"
    using confining_inside [OF ensureService_confining [OF machine, of R calls "{}"]] by simp
  have noted [resting]: "rests (?I D) (whenA b (noted f))" for D b f
    by (intro rests_when) (simp add: rests_def leads_def noted_def putA_def)
  have recorded: "rests (?I D) (record_service service i created)" for D i created
    unfolding record_service_def Let_def by (simp add: rests_def leads_def noted_def putA_def)
  have egress: "leads (?I {(i, ?kind)}) (thenA (record_service service i created) (whenA (?kind = ''egress'')
      (bindA (inside (wrapping ''attach egress service'' (connectNetwork R egressNetworkName i []))) (\<lambda>connected.
         whenA (connected \<and> \<not> created) (noted (\<lambda>b. b\<lparr>bk_egressConnections := f b\<rparr>)))))) (\<lambda>_. ?I {})" for i created f
  proof -
    have connect: "rests (?I {(i, ?kind)}) (inside (wrapping ''attach egress service'' (connectNetwork R egressNetworkName i [])))"
      if "?kind = ''egress''"
      by (intro resting_inside rests_wrapping confining_connect) (simp add: that)
    have "rests (?I {(i, ?kind)}) (thenA (record_service service i created) (whenA (?kind = ''egress'')
      (bindA (inside (wrapping ''attach egress service'' (connectNetwork R egressNetworkName i []))) (\<lambda>connected.
         whenA (connected \<and> \<not> created) (noted (\<lambda>b. b\<lparr>bk_egressConnections := f b\<rparr>))))))"
      by (intro rests_then rests_bind rests_when [of "?kind = ''egress''"] recorded connect noted)
    then show ?thesis by (rule leads_weaken [OF leads_rests]) (auto intro: less)
  qed
  show ?thesis
    unfolding spawn_service_def Let_def rests_def
  proof (rule leads_bind [OF ensure])
    fix x :: "string \<times> bool \<times> bool \<times> go_error option"
    obtain i created attached err where x: "x = (i, created, attached, err)" by (cases x)
    show "leads (?I (service_known (Inr x) ?kind)) (case x of (containerID, containerCreated, networkAttached, err) \<Rightarrow>
       thenA (whenA networkAttached (noted (\<lambda>b. b\<lparr>bk_machineConnections :=
             map_put (sv_ServiceKey service) containerID (bk_machineConnections b)\<rparr>)))
         (case err of
            Some e \<Rightarrow> failA (Wrapped (''start '' @ sv_ServiceKey service) e)
          | None \<Rightarrow> thenA (record_service service containerID containerCreated)
              (whenA (?kind = ''egress'')
                (bindA (inside (wrapping ''attach egress service'' (connectNetwork R egressNetworkName containerID [])))
                  (\<lambda>connected. whenA (connected \<and> \<not> containerCreated)
                    (noted (\<lambda>b. b\<lparr>bk_egressConnections :=
                       map_put (sv_ServiceKey service) containerID (bk_egressConnections b)\<rparr>))))))) (\<lambda>_. ?I {})"
      unfolding x prod.case
      by (rule leads_then [OF leads_rests [OF noted]])
        (cases err, auto simp: service_known_def intro!: egress leads_fail intro: less)
  qed (auto intro: less)
qed

lemma spawn_confining:
  assumes machine: "machine = po_machine P" "networkName = po_network P" "volumeName = po_volume P"
  shows "rests (\<lambda>w. confining R P calls {} (fst w)) (spawn_body R machine services secrets networkName volumeName)"
proof -
  note services [resting] = spawn_service_confining [OF machine]
  have prepare [resting]: "rests (confining R P calls {}) (prepareWorkspaceVolume R machine volumeName i)" for i
    using machine by (intro prepare_confining)
  have terminal [resting]: "rests (\<lambda>w. confining R P calls {} (fst w)) (spawn_terminal s)" for s
    unfolding spawn_terminal_def record_service_def by (intro resting resting_inside)
  have gateway [resting]: "rests (confining R P calls {}) (connectNetwork R networkName (dg_GatewayContainerName (dr_config R)) as)" for as
    by (rule confining_connect [where kind = "[]"]) (simp add: machine)
  show ?thesis
    unfolding spawn_body_def spawn_containers_def by (intro resting resting_inside networks_confining)
qed

lemma cleanup_confining: "rests (confining R P calls D) (spawn_cleanup R n v b)"
  unfolding spawn_cleanup_def removeContainers_def Let_def by (intro resting confining_calls; simp)

lemma runtimeSpawn_confining:
  assumes "machine = po_machine P" "po_network P = ''kuayle-machine-'' @ m_RoutingKey machine"
    "po_volume P = ''kuayle-workspace-'' @ m_RoutingKey machine"
  shows "rests (confining R P calls {}) (runtimeSpawn R machine services secrets)"
proof -
  have "confining R P calls {} (snd (runtimeSpawn R machine services secrets k))" if k: "confining R P calls {} k" for k
  proof -
    let ?body = "spawn_body R machine services secrets (po_network P) (po_volume P) (k, empty_book)"
    have body: "confining R P calls {} (fst (snd ?body))"
      using spawn_confining [OF assms(1) refl refl, of R calls services secrets] k
      by (simp add: rests_def leads_def)
    have clean: "confining R P calls {} (snd (spawn_cleanup R n v b k'))" if "confining R P calls {} k'" for n v b k'
      using cleanup_confining [of R P calls "{}" n v b] that by (simp add: rests_def leads_def)
    show ?thesis
      unfolding runtimeSpawn_def Let_def assms(2,3) [symmetric]
      using body clean by (auto split: sum.split prod.split)
  qed
  then show ?thesis by (simp add: rests_def leads_def)
qed


section \<open>Agents\<close>

definition agent_policy :: "DevMachine \<Rightarrow> (labels \<Rightarrow> bool) \<Rightarrow> docker_policy" where
  "agent_policy machine own = \<lparr>po_machine = machine,
     po_network = (case m_DockerNetworkName machine of None \<Rightarrow> [] | Some n \<Rightarrow> n),
     po_volume = (case m_WorkspaceVolumeName machine of None \<Rightarrow> [] | Some v \<Rightarrow> v), po_own = own\<rparr>"

lemma agent_confining: "rests (confining R (agent_policy machine own) calls {}) (runtimeRunAgent R machine run provider checkout secrets)"
proof -
  let ?I = "confining R (agent_policy machine own) calls {}"
  have create: "rests ?I (answer_of R dc_id (ContainerCreate s))" if "confined (agent_policy machine own) s" for s
    unfolding rests_def
    by (rule leads_answer) (auto split: sum.split intro!: confining_call [where D = "{}"] simp: contained_def that)
  have start: "rests ?I (start_agent R s interactive secrets)" if "confined (agent_policy machine own) s" for s interactive
    unfolding start_agent_def or_remove_def
    by (rule rests_bind [OF create [OF that]]) (intro confining_rests confining_calls confining.agents_rest; simp)
  have run: "rests ?I (run_agent R machine run provider checkout secrets n v)"
    if "m_DockerNetworkName machine = Some n" "m_WorkspaceVolumeName machine = Some v" for n v
  proof -
    have "confined (agent_policy machine own) (agent_spec R machine run provider checkout secrets n v argv env)" for argv env
      using agent_spec_confined [of "agent_policy machine own" R run provider checkout secrets argv env] that
      by (simp add: agent_policy_def)
    then show ?thesis
      unfolding run_agent_def Let_def by (intro confining_rests confining.agents_rest start; simp)
  qed
  show ?thesis
    unfolding runtimeRunAgent_def by (auto intro!: resting run split: option.split sum.split)
qed

lemma agent_ledger:
  "leads (ledger R (agent_policy machine own) calls {}) (runtimeRunAgent R machine run provider checkout secrets)
    (\<lambda>_ k. \<exists>D. ledger R (agent_policy machine own) calls D k)"
proof -
  let ?P = "agent_policy machine own"
  let ?I = "ledger R ?P calls"
  note reads = resting ledger.images_rest ledger.agents_rest ledger.secrets_rest ledger.harmless_calls
  have remove: "rests (?I (insert (AContainer i) D)) (dropped R (ContainerRemove i))" for i D
    unfolding rests_def by (rule rests_removal(1) [where D = "insert (AContainer i) D"]) auto
  have after: "rests (?I (insert (AContainer i) {})) (thenA (or_remove R i (answer_of R dc_unit (ContainerStart i)))
      (thenA (or_remove R i (copySecrets R i s)) (bindA (answer_of R dc_container (ContainerInspect i))
        (\<lambda>c. resumeAgent R c interactive []))))" for i s interactive
    unfolding or_remove_def by (intro reads remove; simp)
  have start: "leads (?I {}) (start_agent R s interactive secrets) (\<lambda>_ k. \<exists>D. ?I D k)" if "confined ?P s" for s interactive
    unfolding start_agent_def
    by (rule leads_bind [OF ledger_created [OF that]])
      (auto intro: leads_weaken [OF leads_rests [OF after]])
  have some: "leads (?I {}) a (\<lambda>_ k. \<exists>D. ?I D k)" if "rests (?I {}) a" for a :: "'c dact"
    by (rule leads_weaken [OF leads_rests [OF that]]) auto
  have run: "leads (?I {}) (run_agent R machine run provider checkout secrets n v) (\<lambda>_ k. \<exists>D. ?I D k)"
    if "m_DockerNetworkName machine = Some n" "m_WorkspaceVolumeName machine = Some v" for n v
  proof -
    have spec: "confined ?P (agent_spec R machine run provider checkout secrets n v argv env)" for argv env
      using agent_spec_confined [of ?P R run provider checkout secrets argv env] that
      by (simp add: agent_policy_def)
    show ?thesis
      unfolding run_agent_def Let_def
      by (rule leads_then [OF leads_rests [OF ledger.images_rest(1)]],
          rule leads_bind [OF leads_rests [OF ledger.images_rest(3)]])
        (auto split: prod.split intro!: leads_bind [OF leads_rests [OF ledger.harmless_calls(1)]] start spec
          some [OF ledger.agents_rest(3)] leads_fail simp: failD_def split: sum.split)
  qed
  show ?thesis
    unfolding runtimeRunAgent_def
    by (rule leads_bind [OF leads_attempt [where Q = "\<lambda>_ k. \<exists>D. ?I D k"]])
      (auto simp: failD_def intro!: run leads_fail leads_return split: option.split sum.split)
qed


section \<open>The properties of creation and removal\<close>

definition spawn_policy :: "DevMachine \<Rightarrow> (labels \<Rightarrow> bool) \<Rightarrow> docker_policy" where
  "spawn_policy machine own = \<lparr>po_machine = machine, po_network = ''kuayle-machine-'' @ m_RoutingKey machine,
     po_volume = ''kuayle-workspace-'' @ m_RoutingKey machine, po_own = own\<rparr>"

lemma confining_calls_made:
  assumes "rests (confining R P (dk_log k) {}) a"
  shows "all_contained R P (dk_log k) (calls_made a k)"
proof -
  have "confining R P (dk_log k) {} k" by (simp add: confining_def)
  then have "confining R P (dk_log k) {} (snd (a k))" using assms by (simp add: rests_def leads_def)
  then show ?thesis by (auto simp: confining_def calls_made_def)
qed

text \<open>
  (C37) Containers are confined: whatever the engine answers, each container that \<open>Spawn\<close> or \<open>RunAgent\<close> creates is
  unprivileged, created on the machine's own network or none, with the machine's workspace volume as its only mount, with
  bounded memory, processes and logs, and labelled as the machine's. It has a read-only root, no capability and no
  new privileges, save that the initializer of the volume, which has no network, may change owners, and that the
  IDE of an environment builder has none of the three. To the machine's network they connect nothing else but the gateway
  and containers that are known, by their labels or their creation, as services of the machine; to the shared network of egress they connect only a
  container that is known, by its labels or its creation, as the egress service of the machine; and to no other
  network anything.
\<close>

theorem containers_are_confined:
  "all_contained R (spawn_policy machine own) (dk_log k) (calls_made (runtimeSpawn R machine services secrets) k)
   \<and> all_contained R (agent_policy machine own) (dk_log k)
       (calls_made (runtimeRunAgent R machine run provider checkout names) k)"
  by (intro conjI confining_calls_made agent_confining runtimeSpawn_confining) (simp_all add: spawn_policy_def)

text \<open>
  (C38) Only what is one's own is removed: each removal of a container, a network or a volume by \<open>Teardown\<close> is
  preceded by an answer of the engine in which that thing has the labels of the machine; by \<open>CancelAgent\<close>, by one
  in which it has the label of the run and is managed; and \<open>RunAgent\<close> removes only what it has created itself.
\<close>

theorem only_own_resources_are_removed:
  "justified_removals (dr_client R) (\<lambda>l. ownedByMachine l (m_ID machine)) (dk_log k)
     (calls_made (runtimeTeardown R machine services) k)
   \<and> justified_removals (dr_client R) (\<lambda>l. label l ''com.kuayle.managed'' = ''true''
         \<and> label l ''com.kuayle.agent-run-id'' = uuid_String (ar_ID run)) (dk_log k)
       (calls_made (runtimeCancelAgent R run) k)
   \<and> justified_removals (dr_client R) (\<lambda>l. False) (dk_log k)
       (calls_made (runtimeRunAgent R machine run provider checkout secrets) k)"
proof (intro conjI)
  let ?own = "\<lambda>l. label l ''com.kuayle.managed'' = ''true'' \<and> label l ''com.kuayle.agent-run-id'' = uuid_String (ar_ID run)"
  show "justified_removals (dr_client R) (\<lambda>l. ownedByMachine l (m_ID machine)) (dk_log k)
      (calls_made (runtimeTeardown R machine services) k)"
    using ledger_calls_made [OF teardown_lawful, of "spawn_policy machine (\<lambda>l. ownedByMachine l (m_ID machine))"]
    by (simp add: spawn_policy_def)
  have "leads (ledger R (spawn_policy machine ?own) (dk_log k) {}) (runtimeCancelAgent R run)
      (\<lambda>_ k'. \<exists>D. ledger R (spawn_policy machine ?own) (dk_log k) D k')"
    by (rule leads_weaken [OF leads_rests [OF cancel_lawful [of "spawn_policy machine ?own"]]]) (auto simp: spawn_policy_def)
  from ledger_calls_made [OF this]
  show "justified_removals (dr_client R) ?own (dk_log k) (calls_made (runtimeCancelAgent R run) k)"
    by (simp add: spawn_policy_def)
  show "justified_removals (dr_client R) (\<lambda>l. False) (dk_log k)
      (calls_made (runtimeRunAgent R machine run provider checkout secrets) k)"
    using ledger_calls_made [OF agent_ledger [of R machine "\<lambda>l. False"]] by (simp add: agent_policy_def)
qed

text \<open>
  (C39) A failed spawn leaves nothing behind: when \<open>Spawn\<close> fails, at whatever step, the deferred function has asked
  for the removal of every container and volume and of the machine's network that it has created since, provided that
  the services have distinct keys; what remains is the network that all machines share. It asks for the removal
  of nothing else, but the initializer of a volume that the engine shows to be this machine's.
\<close>

theorem failed_spawn_leaves_nothing:
  assumes "ranges R" and "distinct (map sv_ServiceKey services)"
    and "fst (runtimeSpawn R machine services secrets k) = Inl e"
  shows "leftover (dr_client R) (dk_log k) {} (calls_made (runtimeSpawn R machine services secrets) k) \<subseteq> spared
    \<and> justified_removals (dr_client R) (\<lambda>l. label l ''com.kuayle.machine-id'' = uuid_String (m_ID machine)) (dk_log k)
        (calls_made (runtimeSpawn R machine services secrets) k)"
proof -
  let ?P = "spawn_policy machine (\<lambda>l. label l ''com.kuayle.machine-id'' = uuid_String (m_ID machine))"
  let ?r = "spawn_body R machine services secrets (po_network ?P) (po_volume ?P) (k, empty_book)"
  have "opened R ?P (dk_log k) empty_book {} (k, empty_book)"
    by (simp add: opened_def ledger_now)
  then have end1: "spawn_end R ?P (dk_log k) (po_network ?P) (po_volume ?P) (fst ?r) (snd ?r)"
    by (intro leadsD [OF spawn_body_spawned]) (simp_all add: spawn_policy_def assms(2))
  obtain r k' b where r: "?r = (r, (k', b))" by (metis prod.collapse)
  obtain seen where seen: "accounted seen b" "ledger R ?P (dk_log k) (booked ?P b) k'"
    using end1 by (auto simp: r spawn_end_def spawned_def spawning_def)
  have "ledger R ?P (dk_log k) {} (snd (spawn_cleanup R (po_network ?P) (po_volume ?P) b k'))"
    using cleanup_ledger [OF seen(1) assms(1), of "po_network ?P" ?P "po_volume ?P" "dk_log k"] seen(2)
    unfolding leads_def by blast
  moreover have "snd (runtimeSpawn R machine services secrets k) = snd (spawn_cleanup R (po_network ?P) (po_volume ?P) b k')"
    using assms(3) r by (auto simp: runtimeSpawn_def Let_def spawn_policy_def split: sum.splits)
  ultimately have "ledger R ?P (dk_log k) {} (snd (runtimeSpawn R machine services secrets k))" by simp
  then show ?thesis
    using permitted_removals [of "dr_client R" ?P "dk_log k"]
    by (auto simp: ledger_def calls_made_def spawn_policy_def)
qed

text \<open>Witness: the spawn of a machine without disk, which fails when the network has been created.\<close>

theorem failed_spawn_leaves_nothing_witness:
  "ranges docker0 \<and> distinct (map sv_ServiceKey [collector0])
   \<and> leftover (dr_client docker0) (dk_log idle0) {} (calls_made (runtimeSpawn docker0 diskless0 [collector0] []) idle0) \<subseteq> spared"
proof -
  have R: "ranges docker0" and keys: "distinct (map sv_ServiceKey [collector0])"
    by (simp_all add: ranges_def docker0_def)
  show ?thesis
    using R keys failed_spawn_leaves_nothing [OF R keys spawn0_fails] by blast
qed

end
