(* ===== verification/Start_Properties.thy ===== *)
theory Start_Properties
  imports Container_Properties
begin

text \<open>
  The other methods of the runtime: they create and remove nothing, a start handles each container once, a
  terminal is closed without waking its container for good, and captured output is bounded.
\<close>

section \<open>Methods without creations and removals\<close>

text \<open>All calls since \<open>calls\<close> are harmless, or are among the exceptions \<open>E\<close>.\<close>

definition harmless_since :: "(docker_call \<Rightarrow> bool) \<Rightarrow> docker_call list \<Rightarrow> docker_state \<Rightarrow> bool" where
  "harmless_since E calls k \<longleftrightarrow> (\<exists>cs. dk_log k = calls @ cs \<and> list_all (\<lambda>c. harmless_call c \<or> E c) cs)"

lemma harmless_since_call:
  "harmless_call c \<or> E c \<Longrightarrow> harmless_since E calls k \<Longrightarrow> harmless_since E calls (k\<lparr>dk_log := dk_log k @ [c]\<rparr>)"
  unfolding harmless_since_def by (elim exE conjE, rule_tac x = "cs @ [c]" in exI) auto

interpretation harmless: client_policy R "harmless_since E calls" for R E calls
  by unfold_locales (rule harmless_since_call, simp, assumption, simp add: harmless_since_def)

lemma harmless_calls_made: "rests (harmless_since E (dk_log k)) a \<Longrightarrow> list_all (\<lambda>c. harmless_call c \<or> E c) (calls_made a k)"
proof -
  assume a: "rests (harmless_since E (dk_log k)) a"
  have "harmless_since E (dk_log k) k" by (simp add: harmless_since_def)
  then have "harmless_since E (dk_log k) (snd (a k))" using a by (simp add: rests_def leads_def)
  then show ?thesis by (auto simp: harmless_since_def calls_made_def)
qed

lemma only_harmless: "rests (harmless_since (\<lambda>_. False) (dk_log k)) a \<Longrightarrow> list_all harmless_call (calls_made a k)"
  using harmless_calls_made [where E = "\<lambda>_. False"] by simp

text \<open>
  (C40) To operate a machine creates and removes nothing: whatever the engine answers, no call by which it is started, paused,
  stopped or inspected, by which its usage or the state of its repository is read, a checkout is prepared or a terminal is
  closed creates or removes a container, a network, a volume or an image, commits a container or connects
  one to a network. To snapshot an environment makes no such call either but the commit of the developer container as the
  image of that environment. (\<open>Spawn\<close>, \<open>RunAgent\<close>, \<open>CancelAgent\<close> and \<open>Teardown\<close> have statements of their
  own; \<open>Ping\<close>, which tries a volume with a quota, and \<open>DeleteEnvironmentImage\<close> are not spoken of.)
\<close>

theorem operating_creates_and_removes_nothing:
  "list_all harmless_call (calls_made (runtimeStart R machine services secrets) k)
   \<and> list_all harmless_call (calls_made (runtimePause R services) k)
   \<and> list_all harmless_call (calls_made (runtimeStop R services) k)
   \<and> list_all harmless_call (calls_made (runtimeInspect R machine services) k)
   \<and> list_all harmless_call (calls_made (runtimeStats R services) k)
   \<and> list_all harmless_call (calls_made (runtimeGitState R machine services checkout) k)
   \<and> list_all harmless_call (calls_made (runtimePrepareCheckout R services target token) k)
   \<and> list_all harmless_call (calls_made (runtimeTerminateTerminal R machine services session) k)
   \<and> list_all (\<lambda>c. harmless_call c
        \<or> c = ContainerCommit (developerContainerID services) (snapshot_options machine environment))
      (calls_made (runtimeSnapshotEnvironment R machine services environment) k)"
proof -
  have "list_all (\<lambda>c. harmless_call c
        \<or> c = ContainerCommit (developerContainerID services) (snapshot_options machine environment))
      (calls_made (runtimeSnapshotEnvironment R machine services environment) k)"
    by (intro harmless_calls_made harmless.snapshot_rests harmless_since_call) simp_all
  moreover note harmless.lifecycle_rests harmless.inspection_rests harmless.usage_rests harmless.developer_rests
  ultimately show ?thesis by (intro conjI only_harmless)
qed

section \<open>The plan of a start\<close>

text \<open>What holds of the plan and of the index after the services \<open>ss\<close>.\<close>

definition planned_well ::
  "DevMachineStatus \<Rightarrow> DevMachineService list \<Rightarrow> DevMachineService list \<times> (string \<rightharpoonup> nat) \<Rightarrow> bool" where
  "planned_well st ss state \<longleftrightarrow> (case state of (planned, index) \<Rightarrow>
     (\<forall>c i. index c = Some i \<longleftrightarrow> c \<noteq> [] \<and> i < length planned \<and> container_of (planned ! i) = c)
   \<and> set planned \<subseteq> {s \<in> set ss. startIncludesService st s}
   \<and> (\<forall>s \<in> set ss. startIncludesService st s \<longrightarrow> container_of s \<in> container_of ` set planned)
   \<and> (\<forall>s \<in> set ss. \<forall>p \<in> set planned. startIncludesService st s \<and> sv_ServiceType s = ''ide'' \<and> container_of s \<noteq> []
        \<and> container_of p = container_of s \<longrightarrow> sv_ServiceType p \<noteq> ''terminal''))"


lemma plan_step_well:
  assumes "planned_well st ss (planned, index)"
  shows "planned_well st (ss @ [s]) (plan_step st s (planned, index))"
proof -
  have index: "\<And>c i. index c = Some i \<longleftrightarrow> c \<noteq> [] \<and> i < length planned \<and> container_of (planned ! i) = c"
    and sub: "set planned \<subseteq> {s \<in> set ss. startIncludesService st s}"
    and all: "\<And>s. s \<in> set ss \<Longrightarrow> startIncludesService st s \<Longrightarrow> container_of s \<in> container_of ` set planned"
    and ide: "\<And>s p. s \<in> set ss \<Longrightarrow> p \<in> set planned \<Longrightarrow> startIncludesService st s \<Longrightarrow> sv_ServiceType s = ''ide''
        \<Longrightarrow> container_of s \<noteq> [] \<Longrightarrow> container_of p = container_of s \<Longrightarrow> sv_ServiceType p \<noteq> ''terminal''"
    using assms by (auto simp: planned_well_def)
  have unique: "j = i" if "index c = Some i" "j < length planned" "container_of (planned ! j) = c" for j c i
  proof -
    have "c \<noteq> []" using that(1) index by auto
    then have "index c = Some j" using that(2,3) index by auto
    with that(1) show ?thesis by simp
  qed
  show ?thesis
  proof (cases "startIncludesService st s")
    case False
    then show ?thesis using assms by (auto simp: planned_well_def plan_step_def)
  next
    case True
    show ?thesis
    proof (cases "container_of s = []")
      case empty: True
      have "index c = Some i \<longleftrightarrow> c \<noteq> [] \<and> i < length (planned @ [s]) \<and> container_of ((planned @ [s]) ! i) = c" for c i
        using index [of c i] empty by (auto simp: nth_append less_Suc_eq)
      then show ?thesis
        using True empty sub all ide by (auto simp: planned_well_def plan_step_def)
    next
      case named: False
      show ?thesis
      proof (cases "index (container_of s)")
        case None
        have fresh: "container_of p \<noteq> container_of s" if p: "p \<in> set planned" for p
        proof
          assume "container_of p = container_of s"
          moreover obtain j where "j < length planned" "p = planned ! j" using p by (auto simp: in_set_conv_nth)
          ultimately have "index (container_of s) = Some j" using named index by auto
          with None show False by simp
        qed
        then have new: "container_of s \<noteq> container_of s'" if "s' \<in> set ss" "startIncludesService st s'" for s'
          using all [OF that] by (metis imageE)
        have "(index(container_of s \<mapsto> length planned)) c = Some i
            \<longleftrightarrow> c \<noteq> [] \<and> i < length (planned @ [s]) \<and> container_of ((planned @ [s]) ! i) = c" for c i
          using index [of c i] named fresh [OF nth_mem] by (auto simp: nth_append less_Suc_eq)
        then show ?thesis
          using True named None sub all ide fresh by (auto simp: planned_well_def plan_step_def dest: new)
      next
        case (Some i)
        let ?next = "if preferStartService s (planned ! i) then planned[i := s] else planned"
        have i: "i < length planned" "container_of (planned ! i) = container_of s" using index Some by auto
        have same: "container_of (?next ! j) = container_of (planned ! j)" if "j < length planned" for j
          using that i by (auto simp: nth_list_update)
        then have "map container_of ?next = map container_of planned"
          by (intro nth_equalityI) auto
        then have cover: "container_of ` set ?next = container_of ` set planned"
          by (metis list.set_map)
        have subset: "set ?next \<subseteq> {s' \<in> set (ss @ [s]). startIncludesService st s'}"
          using sub True set_update_subset_insert [of planned i s] by auto
        have kind: "sv_ServiceType p \<noteq> ''terminal''" if s': "s' \<in> set (ss @ [s])" "p \<in> set ?next"
          "startIncludesService st s'" "sv_ServiceType s' = ''ide''" "container_of s' \<noteq> []" "container_of p = container_of s'" for s' p
        proof -
          obtain j where j: "j < length planned" "p = ?next ! j"
            using s'(2) by (auto simp: in_set_conv_nth split: if_splits)
          show ?thesis
          proof (cases "j = i")
            case False
            then have "p = planned ! j" using j i by (simp add: nth_list_update)
            moreover have "s' \<noteq> s" using unique [OF Some j(1)] False s'(6) calculation by auto
            ultimately show ?thesis using ide [of s' p] s' j(1) by auto
          next
            case True
            then show ?thesis
              using j(2) i ide [of s' p] s' by (auto simp: preferStartService_def split: if_splits)
          qed
        qed
        have positions: "index c = Some j \<longleftrightarrow> c \<noteq> [] \<and> j < length ?next \<and> container_of (?next ! j) = c" for c j
          using index [of c j] same [of j] by auto
        have reached: "container_of s' \<in> container_of ` set ?next" if "s' \<in> set (ss @ [s])" "startIncludesService st s'" for s'
        proof -
          have "container_of s \<in> container_of ` set planned" using i by (metis imageI nth_mem)
          with that all [of s'] show ?thesis unfolding cover by auto
        qed
        have "plan_step st s (planned, index) = (?next, index)"
          using True named Some by (simp add: plan_step_def)
        then have step: "planned_well st (ss @ [s]) (plan_step st s (planned, index))
            = planned_well st (ss @ [s]) (?next, index)" by simp
        show ?thesis
          unfolding step unfolding planned_well_def prod.case
        proof (intro conjI allI ballI impI)
          show "index c = Some j \<longleftrightarrow> c \<noteq> [] \<and> j < length ?next \<and> container_of (?next ! j) = c" for c j
            by (rule positions)
        qed (use subset reached kind in blast)+
      qed
    qed
  qed
qed


lemma plan_well: "planned_well st services (fold (plan_step st) services ([], Map.empty))"
proof (induction services rule: rev_induct)
  case (snoc s ss)
  then show ?case
    using plan_step_well [of st ss "fst (fold (plan_step st) ss ([], Map.empty))" "snd (fold (plan_step st) ss ([], Map.empty))"]
    by simp
qed (simp add: planned_well_def)

text \<open>
  A start handles each container once: the plan of \<open>Start\<close> names no container twice, it names exactly the
  containers of the services that the start includes, by services among them, and a container that the IDE and the
  terminal share is started as the IDE's, with the secrets its entrypoint reads.
\<close>

theorem start_handles_each_container_once:
  "distinct (filter (\<lambda>c. c \<noteq> []) (map container_of (plannedStartServices st services)))
   \<and> set (plannedStartServices st services) \<subseteq> {s \<in> set services. startIncludesService st s}
   \<and> container_of ` set (plannedStartServices st services) = container_of ` {s \<in> set services. startIncludesService st s}
   \<and> (\<forall>p \<in> set (plannedStartServices st services). \<forall>s \<in> set services.
        startIncludesService st s \<and> sv_ServiceType s = ''ide'' \<and> container_of s \<noteq> [] \<and> container_of p = container_of s
        \<longrightarrow> sv_ServiceType p \<noteq> ''terminal'')"
proof -
  obtain planned index where fold: "fold (plan_step st) services ([], Map.empty) = (planned, index)" by fastforce
  then have p: "plannedStartServices st services = planned" by (simp add: plannedStartServices_def)
  have well: "planned_well st services (planned, index)" using plan_well [of st services] by (simp add: fold)
  have "i = j" if "i < length planned" "j < length planned" "container_of (planned ! i) \<noteq> []"
    "container_of (planned ! i) = container_of (planned ! j)" for i j
  proof -
    have "index (container_of (planned ! i)) = Some i" "index (container_of (planned ! i)) = Some j"
      using well that by (simp_all add: planned_well_def)
    then show ?thesis by simp
  qed
  then have "distinct (filter (\<lambda>c. c \<noteq> []) (map container_of planned))"
  proof (induction planned)
    case (Cons q qs)
    have "i = j" if "i < length qs" "j < length qs" "container_of (qs ! i) \<noteq> []" "container_of (qs ! i) = container_of (qs ! j)" for i j
      using Cons.prems [of "Suc i" "Suc j"] that by simp
    moreover have "container_of q \<notin> set (map container_of qs)" if "container_of q \<noteq> []"
      using Cons.prems [of 0 "Suc _"] that by (auto simp: in_set_conv_nth, blast)
    ultimately show ?case using Cons.IH by auto
  qed simp
  with well show ?thesis unfolding p by (auto simp: planned_well_def)
qed

text \<open>Witness: a terminal and an IDE in one container.\<close>

definition shell0 :: DevMachineService where
  "shell0 = service0\<lparr>sv_ServiceType := ''terminal'', sv_ServiceKey := ''terminal''\<rparr>"

theorem start_handles_each_container_once_witness:
  "plannedStartServices StatusRunning [shell0, service0] = [service0]
   \<and> startIncludesService StatusRunning service0 \<and> sv_ServiceType service0 = ''ide'' \<and> container_of service0 = ''c1''
   \<and> sv_ServiceType service0 \<noteq> ''terminal''"
proof -
  have plan: "plannedStartServices StatusRunning [shell0, service0] = [service0]"
    by (simp add: plannedStartServices_def plan_step_def startIncludesService_def preferStartService_def container_of_def
      shell0_def service0_def)
  have ide: "startIncludesService StatusRunning service0" "sv_ServiceType service0 = ''ide''" "container_of service0 = ''c1''"
    by (simp_all add: startIncludesService_def container_of_def service0_def)
  have "sv_ServiceType service0 \<noteq> ''terminal''"
    by (rule start_handles_each_container_once [of StatusRunning "[shell0, service0]", THEN conjunct2, THEN conjunct2,
        THEN conjunct2, rule_format, of _ service0]) (simp_all add: plan ide)
  then show ?thesis using plan ide by (intro conjI)
qed

section \<open>Captured output\<close>

definition written :: "nat \<Rightarrow> string list \<Rightarrow> nat list \<times> cappedBuffer" where
  "written limit chunks = fold (\<lambda>chunk (counts, b). case cappedWrite b chunk of (n, b') \<Rightarrow> (counts @ [n], b'))
     chunks ([], newCappedBuffer limit)"

text \<open>
  Captured output is bounded: however a stream is divided into writes, a capped buffer holds its first bytes, up
  to the limit, and each write reports that it was complete, so that the copy of the stream does not stop.
\<close>

theorem captured_output_is_bounded:
  "written limit chunks = (map length chunks,
     \<lparr>cb_Buffer = take limit (concat chunks), cb_remaining = limit - length (concat chunks)\<rparr>)"
proof (induction chunks rule: rev_induct)
  case (snoc chunk chunks)
  then show ?case
    by (auto simp: written_def cappedWrite_def Let_def min_def)
qed (simp add: written_def newCappedBuffer_def)


section \<open>Containers left as they were found\<close>

lemma calls_made_last:
  assumes "snd (a k) = k'\<lparr>dk_log := dk_log k' @ [c]\<rparr>" and "length (dk_log k) \<le> length (dk_log k')"
  shows "last (calls_made a k) = c"
  using assms by (simp add: calls_made_def)

lemma harmless_grows: "(\<And>calls. rests (harmless_since E calls) a) \<Longrightarrow> length (dk_log k) \<le> length (dk_log (snd (a k)))"
proof -
  assume a: "\<And>calls. rests (harmless_since E calls) a"
  have "harmless_since E (dk_log k) k" by (simp add: harmless_since_def)
  then have "harmless_since E (dk_log k) (snd (a k))" using a [of "dk_log k"] by (simp add: rests_def leads_def)
  then show ?thesis by (auto simp: harmless_since_def)
qed

lemma commit_rests: "rests (harmless_since (\<lambda>_. True) calls) (answer_of R f (ContainerCommit i options))"
  unfolding answer_of_def by (intro rests_through_ask rests_ask harmless_since_call) simp_all

lemma last_pause:
  "snd (pausing_again R i a k) = (let k' = snd (a k) in k'\<lparr>dk_log := dk_log k' @ [ContainerPause i]\<rparr>)"
  by (simp add: pausing_again_def bindA_def attempt_def asked_def ask_def returnA_def failA_def Let_def case_prod_beta
    split: sum.split)

lemma last_deferred:
  "snd (deferA a (\<lambda>_. dropped R c) k) = (let k' = snd (a k) in k'\<lparr>dk_log := dk_log k' @ [c]\<rparr>)"
  by (simp add: deferA_def bindA_def thenA_def attempt_def ignore_def dropped_def asked_def ask_def returnA_def failA_def
    Let_def case_prod_beta split: sum.split)

lemma asked_step: "asked R f c k = (Inr (f (dr_client R) (dk_log k @ [c])), k\<lparr>dk_log := dk_log k @ [c]\<rparr>)"
  by (simp add: asked_def ask_def Let_def)

lemma answer_step: "answer_of R f c k = (case f (dr_client R) (dk_log k @ [c]) of
    Inl e \<Rightarrow> (Inl (docker_go e), k\<lparr>dk_log := dk_log k @ [c]\<rparr>) | Inr x \<Rightarrow> (Inr x, k\<lparr>dk_log := dk_log k @ [c]\<rparr>))"
  by (simp add: answer_of_def demand_def given_def ask_def bindA_def returnA_def failA_def Let_def split: sum.split)

text \<open>
  A paused container stays paused: when the developer container is found paused, and can be woken, the last
  thing that closing a terminal in it or a snapshot of it does is to pause it again, whatever has failed in between.
\<close>

theorem paused_container_is_paused_again:
  assumes "developerContainerID services = i" and "i \<noteq> []" and "cs_Running c" and "cs_Paused c"
    and "dc_container (dr_client R) (dk_log k @ [ContainerInspect i]) = Inr c"
    and "dc_unit (dr_client R) (dk_log k @ [ContainerInspect i, ContainerUnpause i]) = Inr u"
  shows "last (calls_made (runtimeTerminateTerminal R machine services session) k) = ContainerPause i
    \<and> last (calls_made (runtimeSnapshotEnvironment R machine services environment) k) = ContainerPause i"
proof
  let ?k = "k\<lparr>dk_log := dk_log k @ [ContainerInspect i, ContainerUnpause i]\<rparr>"
  let ?a = "closeTerminal R i session"
  have "runtimeTerminateTerminal R machine services session k = pausing_again R i ?a ?k"
    using assms by (simp add: runtimeTerminateTerminal_def bindA_def thenA_def asked_step answer_step)
  moreover have "length (dk_log ?k) \<le> length (dk_log (snd (?a ?k)))"
    by (rule harmless_grows [where E = "\<lambda>_. False"]) (simp add: closeTerminal_def resting harmless.exec_rests)
  ultimately show "last (calls_made (runtimeTerminateTerminal R machine services session) k) = ContainerPause i"
    by (intro calls_made_last [of _ _ "snd (?a ?k)"]) (simp_all add: last_pause Let_def)
  let ?b = "bindA (wrapping ''prepare environment home template''
      (execOutputAs R i [''/bin/sh'', ''-c'', homeTemplateScript] ''0:0'')) (\<lambda>_. thenA (dropped R (ContainerPause i))
        (answer_of R dc_id (ContainerCommit i (snapshot_options machine environment))))"
  have "runtimeSnapshotEnvironment R machine services environment k = deferA ?b (\<lambda>_. dropped R (ContainerPause i)) ?k"
    using assms by (simp add: runtimeSnapshotEnvironment_def bindA_def thenA_def answer_step restoreState_def Let_def)
  moreover have "length (dk_log ?k) \<le> length (dk_log (snd (?b ?k)))"
    by (rule harmless_grows [where E = "\<lambda>_. True"])
      (intro resting commit_rests harmless.exec_rests harmless.harmless_calls; simp)
  ultimately show "last (calls_made (runtimeSnapshotEnvironment R machine services environment) k) = ContainerPause i"
    by (intro calls_made_last [of _ _ "snd (?b ?k)"]) (simp_all add: last_deferred Let_def)
qed

text \<open>Witness: a paused IDE.\<close>

theorem paused_container_is_paused_again_witness:
  "developerContainerID [service0] = ''c1'' \<and> cs_Running paused0 \<and> cs_Paused paused0
   \<and> last (calls_made (runtimeTerminateTerminal docker1 machine0 [service0] terminal0) idle0) = ContainerPause ''c1''"
proof -
  have dev: "developerContainerID [service0] = ''c1''"
    by (simp add: developerContainerID_def container_of_def service0_def)
  have state: "cs_Running paused0" "cs_Paused paused0" by (simp_all add: paused0_def)
  have found: "dc_container (dr_client docker1) (dk_log idle0 @ [ContainerInspect ''c1'']) = Inr paused0"
    and woken: "dc_unit (dr_client docker1) (dk_log idle0 @ [ContainerInspect ''c1'', ContainerUnpause ''c1'']) = Inr ()"
    by (simp_all add: docker1_def docker0_def client0_def)
  show ?thesis
    using dev state paused_container_is_paused_again [OF dev _ state found woken] by simp
qed

end
