(* ===== verification/Workspace_Store.thy ===== *)
theory Workspace_Store
  imports Tracker_Store Machine_Lifecycle
begin

text \<open>
  Workspaces, their members and what they share with the public: the rows of \<open>BE/internal/domain/workspace.go\<close>,
  \<open>user.go\<close>, \<open>view.go\<close>, \<open>shared_link.go\<close>, \<open>cycle.go\<close> and \<open>asset.go\<close>, and the operations of
  \<open>BE/internal/repository/workspace.go\<close>, \<open>shared_link.go\<close> and of the lookups in \<open>user.go\<close>, \<open>view.go\<close>,
  \<open>team_status.go\<close> and \<open>asset.go\<close> that their services use. The database is that of the issue tracker and that of the
  development machines with the tables that only occur here; \<open>workspace_members\<close> is \<open>db_members\<close>.
  The keys \<open>tr_workspaces\<close> and \<open>tr_users\<close> of the tracker and the rows \<open>db_teams\<close>, \<open>db_projects\<close> and
  \<open>db_issues\<close> of the machines are copies.

  Constraints that a statement can violate are errors. Rows of one workspace refer to rows of the same one
  as far as the deletion of a workspace is concerned.
\<close>

section \<open>Rows\<close>

record Workspace =
  wk_ID :: uuid
  wk_Name :: string
  wk_Slug :: string
  wk_LogoURL :: "string option"
  wk_OwnerID :: uuid
  wk_ShareLinkMinRole :: string
  wk_CreatedAt :: time
  wk_UpdatedAt :: time

record User =
  us_ID :: uuid
  us_Email :: string
  us_Name :: string
  us_DisplayName :: string
  us_AvatarURL :: "string option"

record WorkspaceMemberWithUser =
  mu_WorkspaceID :: uuid
  mu_UserID :: uuid
  mu_Role :: string
  mu_Email :: string
  mu_Name :: string
  mu_DisplayName :: string
  mu_AvatarURL :: "string option"
  mu_CreatedAt :: time

record View =
  vw_ID :: uuid
  vw_WorkspaceID :: uuid
  vw_CreatorID :: uuid
  vw_Name :: string
  vw_Description :: "string option"
  vw_Filters :: string
  vw_IsShared :: bool

record SharedLink =
  sl_ID :: uuid
  sl_Token :: string
  sl_WorkspaceID :: uuid
  sl_CreatedBy :: uuid
  sl_Scope :: string
  sl_ScopeID :: "uuid option"
  sl_Filters :: string
  sl_IncludeDescription :: bool
  sl_IsActive :: bool
  sl_ExpiresAt :: "time option"
  sl_CreatedAt :: time
  sl_UpdatedAt :: time

record Cycle =
  cy_ID :: uuid
  cy_TeamID :: uuid
  cy_Name :: string
  cy_Status :: string
  cy_Description :: "string option"
  cy_Goals :: "string option"
  cy_Retrospective :: "string option"
  cy_StartDate :: "time option"
  cy_EndDate :: "time option"

record Asset =
  ast_ID :: uuid
  ast_WorkspaceID :: uuid
  ast_StorageKey :: string
  ast_Filename :: string
  ast_ContentType :: string

record office =
  of_tracker :: tracker
  of_machines :: db
  of_workspaces :: "Workspace list"
  of_users :: "User list"
  of_views :: "View list"
  of_links :: "SharedLink list"
  of_cycles :: "Cycle list"
  of_assets :: "Asset list"

definition of_members :: "office \<Rightarrow> WorkspaceMember list" where
  "of_members d = db_members (of_machines d)"

definition set_members :: "WorkspaceMember list \<Rightarrow> office \<Rightarrow> office" where
  "set_members ms d = d\<lparr>of_machines := (of_machines d)\<lparr>db_members := ms\<rparr>\<rparr>"

abbreviation RoleOwner :: string where "RoleOwner \<equiv> ''owner''"
abbreviation RoleAdmin :: string where "RoleAdmin \<equiv> ''admin''"
abbreviation RoleMember :: string where "RoleMember \<equiv> ''member''"
abbreviation RoleGuest :: string where "RoleGuest \<equiv> ''guest''"

section \<open>Workspaces\<close>

text \<open>
  The statements that insert a workspace and a member. \<open>workspaceCreateError\<close> names the violation of the key on the
  slug; the columns that the statement leaves out have the schema's defaults.
\<close>

definition insert_workspace :: "time \<Rightarrow> Workspace \<Rightarrow> office \<Rightarrow> store_error + office" where
  "insert_workspace now ws d =
     (if too_long 100 (wk_Name ws) \<or> too_long 50 (wk_Slug ws) then Inl ErrDatabase
      else if exists_where (\<lambda>w. wk_ID w = wk_ID ws) (of_workspaces d) then Inl ErrUniqueViolation
      else if exists_where (\<lambda>w. wk_Slug w = wk_Slug ws) (of_workspaces d) then Inl ErrWorkspaceSlugTaken
      else if wk_OwnerID ws \<notin> set (map us_ID (of_users d)) then Inl ErrForeignKey
      else Inr (d\<lparr>of_workspaces := of_workspaces d @ [ws\<lparr>wk_LogoURL := None, wk_ShareLinkMinRole := RoleAdmin,
             wk_CreatedAt := now, wk_UpdatedAt := now\<rparr>],
           of_tracker := (of_tracker d)\<lparr>tr_workspaces := tr_workspaces (of_tracker d) @ [wk_ID ws]\<rparr>\<rparr>))"

definition workspace_Create :: "time \<Rightarrow> Workspace \<Rightarrow> office \<Rightarrow> store_error + (Workspace \<times> office)" where
  "workspace_Create now ws d = (case insert_workspace now ws d of
     Inl e \<Rightarrow> Inl e | Inr d' \<Rightarrow> Inr (ws\<lparr>wk_CreatedAt := now, wk_UpdatedAt := now\<rparr>, d'))"

definition AddMember :: "time \<Rightarrow> WorkspaceMember \<Rightarrow> office \<Rightarrow> store_error + office" where
  "AddMember now m d =
     (if wm_Role m \<notin> {RoleOwner, RoleAdmin, RoleMember, RoleGuest} then Inl ErrCheckViolation
      else if exists_where (\<lambda>r. wm_WorkspaceID r = wm_WorkspaceID m \<and> wm_UserID r = wm_UserID m) (of_members d)
      then Inl ErrUniqueViolation
      else if wm_WorkspaceID m \<notin> set (map wk_ID (of_workspaces d)) \<or> wm_UserID m \<notin> set (map us_ID (of_users d))
      then Inl ErrForeignKey
      else Inr (set_members (of_members d @ [m\<lparr>wm_CreatedAt := now\<rparr>]) d))"

definition insert_label :: "time \<Rightarrow> Label \<Rightarrow> office \<Rightarrow> store_error + office" where
  "insert_label now l d =
     (if too_long 50 (la_Name l) \<or> too_long 7 (la_Color l) then Inl ErrDatabase
      else if exists_where (\<lambda>r. la_ID r = la_ID l) (tr_labels (of_tracker d)) then Inl ErrUniqueViolation
      else if la_WorkspaceID l \<notin> set (map wk_ID (of_workspaces d))
        \<or> \<not> keyed (map la_ID (tr_labels (of_tracker d))) (la_ParentID l) then Inl ErrForeignKey
      else Inr (d\<lparr>of_tracker := (of_tracker d)\<lparr>tr_labels := tr_labels (of_tracker d)
             @ [l\<lparr>la_DeletedAt := None, la_CreatedAt := now, la_UpdatedAt := now\<rparr>]\<rparr>\<rparr>))"

fun insert_labels :: "time \<Rightarrow> Label list \<Rightarrow> office \<Rightarrow> store_error + office" where
  "insert_labels now [] d = Inr d"
| "insert_labels now (l # ls) d = (case insert_label now l d of Inl e \<Rightarrow> Inl e | Inr d' \<Rightarrow> insert_labels now ls d')"

definition CreateWithMemberAndLabels ::
  "time \<Rightarrow> Workspace \<Rightarrow> WorkspaceMember \<Rightarrow> Label list \<Rightarrow> office \<Rightarrow> store_error + (Workspace \<times> office)" where
  "CreateWithMemberAndLabels now ws member labels d = (case workspace_Create now ws d of
     Inl e \<Rightarrow> Inl e
   | Inr (ws', d1) \<Rightarrow> (case AddMember now member d1 of
       Inl e \<Rightarrow> Inl e
     | Inr d2 \<Rightarrow> (case insert_labels now labels d2 of Inl e \<Rightarrow> Inl e | Inr d3 \<Rightarrow> Inr (ws', d3))))"

definition workspace_GetBySlug :: "string \<Rightarrow> office \<Rightarrow> Workspace option" where
  "workspace_GetBySlug slug d = find (\<lambda>w. wk_Slug w = slug) (of_workspaces d)"

definition workspace_GetByID :: "uuid \<Rightarrow> office \<Rightarrow> Workspace option" where
  "workspace_GetByID i d = find (\<lambda>w. wk_ID w = i) (of_workspaces d)"

definition workspace_Update :: "time \<Rightarrow> Workspace \<Rightarrow> office \<Rightarrow> store_error + (Workspace \<times> office)" where
  "workspace_Update now ws d =
     (if \<not> exists_where (\<lambda>w. wk_ID w = wk_ID ws) (of_workspaces d) then Inl ErrNoRows
      else if too_long 100 (wk_Name ws) \<or> too_long 20 (wk_ShareLinkMinRole ws) then Inl ErrDatabase
      else if wk_ShareLinkMinRole ws \<notin> {RoleOwner, RoleAdmin, RoleMember} then Inl ErrCheckViolation
      else Inr (ws\<lparr>wk_UpdatedAt := now\<rparr>, d\<lparr>of_workspaces := update_where (\<lambda>w. wk_ID w = wk_ID ws)
             (\<lambda>w. w\<lparr>wk_Name := wk_Name ws, wk_LogoURL := wk_LogoURL ws,
               wk_ShareLinkMinRole := wk_ShareLinkMinRole ws, wk_UpdatedAt := now\<rparr>) (of_workspaces d)\<rparr>))"

text \<open>\<open>DELETE FROM workspaces\<close>, with its cascades in the tables of the issue tracker and of the machines.\<close>

definition delete_tracker :: "uuid \<Rightarrow> (uuid \<Rightarrow> bool) \<Rightarrow> tracker \<Rightarrow> tracker" where
  "delete_tracker i cycles d =
     (let team = (\<lambda>t. t \<in> set (map ow_ID (filter (\<lambda>r. ow_WorkspaceID r = i) (tr_teams d))));
        label = (\<lambda>l. l \<in> set (map la_ID (filter (\<lambda>r. la_WorkspaceID r = i) (tr_labels d))));
        d1 = delete_issues (\<lambda>r. ow_WorkspaceID r = i) d in d1\<lparr>
        tr_workspaces := delete_where (\<lambda>w. w = i) (tr_workspaces d1),
        tr_teams := delete_where (\<lambda>r. ow_WorkspaceID r = i) (tr_teams d1),
        tr_statuses := delete_where (\<lambda>s. team (st_TeamID s)) (tr_statuses d1),
        tr_projects := delete_where (\<lambda>r. ow_WorkspaceID r = i) (tr_projects d1),
        tr_cycles := delete_where (\<lambda>(c, s). cycles c) (tr_cycles d1),
        tr_labels := delete_where (\<lambda>l. la_WorkspaceID l = i) (tr_labels d1),
        tr_issue_labels := delete_where (\<lambda>(r, l). label l) (tr_issue_labels d1),
        tr_notifications := delete_where (\<lambda>n. no_WorkspaceID n = i) (tr_notifications d1),
        tr_lifecycle := delete_where (\<lambda>e. le_WorkspaceID e = i) (tr_lifecycle d1)\<rparr>)"

definition delete_machine_rows :: "time \<Rightarrow> uuid \<Rightarrow> db \<Rightarrow> db" where
  "delete_machine_rows now i d =
     (let d1 = delete_machines now (\<lambda>m. m_WorkspaceID m = i) d in d1\<lparr>
        db_members := delete_where (\<lambda>m. wm_WorkspaceID m = i) (db_members d1),
        db_policies := delete_where (\<lambda>p. wp_WorkspaceID p = i) (db_policies d1),
        db_settings := delete_where (\<lambda>s. ss_WorkspaceID s = i) (db_settings d1),
        db_installations := delete_where (\<lambda>r. gi_WorkspaceID r = i) (db_installations d1),
        db_repos := delete_where (\<lambda>r. gh_WorkspaceID r = i) (db_repos d1),
        db_appconfigs := delete_where (\<lambda>r. gc_WorkspaceID r = i) (db_appconfigs d1),
        db_accesslogs := update_where (\<lambda>l. al_WorkspaceID l = Some i) (\<lambda>l. l\<lparr>al_WorkspaceID := None\<rparr>)
          (db_accesslogs d1),
        db_teams := delete_where (\<lambda>r. ow_WorkspaceID r = i) (db_teams d1),
        db_projects := delete_where (\<lambda>r. ow_WorkspaceID r = i) (db_projects d1),
        db_issues := delete_where (\<lambda>r. ow_WorkspaceID r = i) (db_issues d1)\<rparr>)"

definition delete_workspace :: "time \<Rightarrow> uuid \<Rightarrow> office \<Rightarrow> office" where
  "delete_workspace now i d =
     (let teams = map ow_ID (filter (\<lambda>t. ow_WorkspaceID t = i) (tr_teams (of_tracker d)));
        cycles = (\<lambda>c. c \<in> set (map cy_ID (filter (\<lambda>r. cy_TeamID r \<in> set teams) (of_cycles d)))) in d\<lparr>
        of_tracker := delete_tracker i cycles (of_tracker d),
        of_machines := delete_machine_rows now i (of_machines d),
        of_workspaces := delete_where (\<lambda>w. wk_ID w = i) (of_workspaces d),
        of_views := delete_where (\<lambda>v. vw_WorkspaceID v = i) (of_views d),
        of_links := delete_where (\<lambda>l. sl_WorkspaceID l = i) (of_links d),
        of_cycles := delete_where (\<lambda>c. cycles (cy_ID c)) (of_cycles d),
        of_assets := delete_where (\<lambda>a. ast_WorkspaceID a = i) (of_assets d)\<rparr>)"

text \<open>
  The preparation of the environments of a workspace that is to go: snapshots that nobody is taking are
  cancelled, and the environments without a snapshot that is being taken are to be deleted.
\<close>

definition snapshot_to_cancel :: "time \<Rightarrow> uuid \<Rightarrow> DevMachineOperation \<Rightarrow> bool" where
  "snapshot_to_cancel now i r \<longleftrightarrow> op_WorkspaceID r = i \<and> op_EnvironmentID r \<noteq> None
     \<and> op_Action r = OpSnapshotEnvironment
     \<and> (op_Status r = OpStatusPending
        \<or> op_Status r = OpStatusLeased \<and> (case op_LeaseExpiresAt r of None \<Rightarrow> False | Some t \<Rightarrow> t < now))"

definition cancelled_snapshot :: "time \<Rightarrow> DevMachineOperation \<Rightarrow> DevMachineOperation" where
  "cancelled_snapshot now r = r\<lparr>op_Status := OpStatusCancelled, op_ErrorCode := Some ''workspace_deletion_requested'',
     op_ErrorMessage := Some ''snapshot cancelled because workspace deletion was requested'',
     op_LeaseOwner := None, op_LeaseExpiresAt := None, op_CompletedAt := Some now, op_UpdatedAt := now\<rparr>"

definition snapshot_running :: "time \<Rightarrow> db \<Rightarrow> DevMachineEnvironment \<Rightarrow> bool" where
  "snapshot_running now d e \<longleftrightarrow> exists_where (\<lambda>r. op_EnvironmentID r = Some (en_ID e)
     \<and> op_Action r = OpSnapshotEnvironment \<and> op_Status r = OpStatusLeased
     \<and> (case op_LeaseExpiresAt r of None \<Rightarrow> True | Some t \<Rightarrow> now \<le> t)) (db_operations d)"

definition request_environment_cleanup :: "time \<Rightarrow> uuid \<Rightarrow> db \<Rightarrow> db" where
  "request_environment_cleanup now i d =
     (let d1 = d\<lparr>db_operations := update_where (snapshot_to_cancel now i) (cancelled_snapshot now) (db_operations d)\<rparr> in
      d1\<lparr>db_environments := update_where (\<lambda>e. en_WorkspaceID e = i \<and> \<not> snapshot_running now d1 e)
          (\<lambda>e. e\<lparr>en_Status := ''delete_requested'', en_DeleteRequestedAt := coalesce (en_DeleteRequestedAt e) (Some now),
            en_UpdatedAt := now\<rparr>) (db_environments d1)\<rparr>)"

text \<open>
  \<open>Delete\<close>: the transaction that only prepares the environments is committed and reported as an error, the first
  component of the result. The message of the first error also has the number of machines.
\<close>

definition workspace_Delete :: "time \<Rightarrow> uuid \<Rightarrow> office \<Rightarrow> store_error option \<times> office" where
  "workspace_Delete now i d =
     (if exists_where (\<lambda>m. m_WorkspaceID m = i \<and> m_Status m \<noteq> StatusDestroyed) (db_machines (of_machines d))
      then (Some ErrWorkspaceHasDevMachineRuntimes, d)
      else if exists_where (\<lambda>e. en_WorkspaceID e = i) (db_environments (of_machines d))
      then (Some ErrWorkspaceEnvironmentCleanupPending,
        d\<lparr>of_machines := request_environment_cleanup now i (of_machines d)\<rparr>)
      else (None, delete_workspace now i d))"

text \<open>\<open>INNER JOIN\<close> gives a workspace once for each of the user's memberships in it.\<close>

definition ListByUser :: "(string \<Rightarrow> nat) \<Rightarrow> uuid \<Rightarrow> office \<Rightarrow> Workspace list" where
  "ListByUser collate userID d = sort_key (\<lambda>w. collate (wk_Name w))
     (concat (map (\<lambda>w. map (\<lambda>m. w) (filter (\<lambda>m. wm_WorkspaceID m = wk_ID w \<and> wm_UserID m = userID) (of_members d)))
       (of_workspaces d)))"

section \<open>Members\<close>

definition GetMember :: "uuid \<Rightarrow> uuid \<Rightarrow> office \<Rightarrow> WorkspaceMember option" where
  "GetMember workspaceID userID d =
     find (\<lambda>m. wm_WorkspaceID m = workspaceID \<and> wm_UserID m = userID) (of_members d)"

definition ListMembers :: "uuid \<Rightarrow> office \<Rightarrow> WorkspaceMember list" where
  "ListMembers workspaceID d = sort_key wm_CreatedAt (filter (\<lambda>m. wm_WorkspaceID m = workspaceID) (of_members d))"

definition repo_UpdateMemberRole :: "uuid \<Rightarrow> uuid \<Rightarrow> string \<Rightarrow> office \<Rightarrow> store_error + office" where
  "repo_UpdateMemberRole workspaceID userID role d =
     (let P = (\<lambda>m. wm_WorkspaceID m = workspaceID \<and> wm_UserID m = userID) in
      if exists_where P (of_members d) \<and> role \<notin> {RoleOwner, RoleAdmin, RoleMember, RoleGuest} then Inl ErrCheckViolation
      else Inr (set_members (update_where P (\<lambda>m. m\<lparr>wm_Role := role\<rparr>) (of_members d)) d))"

definition repo_RemoveMember :: "uuid \<Rightarrow> uuid \<Rightarrow> office \<Rightarrow> office" where
  "repo_RemoveMember workspaceID userID d =
     set_members (delete_where (\<lambda>m. wm_WorkspaceID m = workspaceID \<and> wm_UserID m = userID) (of_members d)) d"

definition CountMembersByRole :: "uuid \<Rightarrow> string \<Rightarrow> office \<Rightarrow> nat" where
  "CountMembersByRole workspaceID role d =
     rows_affected (\<lambda>m. wm_WorkspaceID m = workspaceID \<and> wm_Role m = role) (of_members d)"

definition member_with_user :: "WorkspaceMember \<Rightarrow> User \<Rightarrow> WorkspaceMemberWithUser" where
  "member_with_user m u = \<lparr>mu_WorkspaceID = wm_WorkspaceID m, mu_UserID = wm_UserID m, mu_Role = wm_Role m,
     mu_Email = us_Email u, mu_Name = us_Name u, mu_DisplayName = us_DisplayName u, mu_AvatarURL = us_AvatarURL u,
     mu_CreatedAt = wm_CreatedAt m\<rparr>"

definition ListMembersWithUsers :: "uuid \<Rightarrow> office \<Rightarrow> WorkspaceMemberWithUser list" where
  "ListMembersWithUsers workspaceID d = concat (map (\<lambda>m. map (member_with_user m)
     (filter (\<lambda>u. us_ID u = wm_UserID m) (of_users d))) (ListMembers workspaceID d))"

section \<open>Users and views\<close>

definition user_GetByID :: "uuid \<Rightarrow> office \<Rightarrow> User option" where
  "user_GetByID i d = find (\<lambda>u. us_ID u = i) (of_users d)"

definition GetByEmail :: "string \<Rightarrow> office \<Rightarrow> User option" where
  "GetByEmail email d = find (\<lambda>u. us_Email u = email) (of_users d)"

definition view_GetByID :: "uuid \<Rightarrow> office \<Rightarrow> View option" where
  "view_GetByID i d = find (\<lambda>v. vw_ID v = i) (of_views d)"

definition asset_GetByID :: "uuid \<Rightarrow> office \<Rightarrow> Asset option" where
  "asset_GetByID i d = find (\<lambda>a. ast_ID a = i) (of_assets d)"

section \<open>Shared links\<close>

definition link_Create :: "time \<Rightarrow> SharedLink \<Rightarrow> office \<Rightarrow> store_error + (SharedLink \<times> office)" where
  "link_Create now l d =
     (let row = l\<lparr>sl_CreatedAt := now, sl_UpdatedAt := now\<rparr> in
      if too_long 64 (sl_Token l) then Inl ErrDatabase
      else if sl_Scope l \<notin> {''workspace'', ''team'', ''project'', ''view''} then Inl ErrCheckViolation
      else if exists_where (\<lambda>r. sl_ID r = sl_ID l \<or> sl_Token r = sl_Token l) (of_links d) then Inl ErrUniqueViolation
      else if sl_WorkspaceID l \<notin> set (map wk_ID (of_workspaces d)) \<or> sl_CreatedBy l \<notin> set (map us_ID (of_users d))
      then Inl ErrForeignKey
      else Inr (row, d\<lparr>of_links := of_links d @ [row]\<rparr>))"

definition link_GetByID :: "uuid \<Rightarrow> office \<Rightarrow> SharedLink option" where
  "link_GetByID i d = find (\<lambda>l. sl_ID l = i) (of_links d)"

definition link_GetByToken :: "string \<Rightarrow> office \<Rightarrow> SharedLink option" where
  "link_GetByToken token d = find (\<lambda>l. sl_Token l = token) (of_links d)"

definition link_ListByWorkspace :: "uuid \<Rightarrow> office \<Rightarrow> SharedLink list" where
  "link_ListByWorkspace workspaceID d =
     sort_key (\<lambda>l. - sl_CreatedAt l) (filter (\<lambda>l. sl_WorkspaceID l = workspaceID) (of_links d))"

definition link_Update :: "time \<Rightarrow> SharedLink \<Rightarrow> office \<Rightarrow> store_error + (SharedLink \<times> office)" where
  "link_Update now l d =
     (if \<not> exists_where (\<lambda>r. sl_ID r = sl_ID l) (of_links d) then Inl ErrNoRows
      else Inr (l\<lparr>sl_UpdatedAt := now\<rparr>, d\<lparr>of_links := update_where (\<lambda>r. sl_ID r = sl_ID l)
             (\<lambda>r. r\<lparr>sl_IsActive := sl_IsActive l, sl_IncludeDescription := sl_IncludeDescription l,
               sl_ExpiresAt := sl_ExpiresAt l, sl_UpdatedAt := now\<rparr>) (of_links d)\<rparr>))"

definition link_Delete :: "uuid \<Rightarrow> office \<Rightarrow> office" where
  "link_Delete i d = d\<lparr>of_links := delete_where (\<lambda>l. sl_ID l = i) (of_links d)\<rparr>"

end
