(* ===== verification/Issue_Listing.thy ===== *)
theory Issue_Listing
  imports Workspace_Store "HOL-Library.Multiset"
begin

text \<open>
  The query behind every list of issues: \<open>List\<close> of \<open>BE/internal/repository/issue.go\<close> and the parameters of
  \<open>BE/internal/dto/issue.go\<close> and \<open>common.go\<close>. The statement is put together from texts; its \<open>WHERE\<close> clause is
  here the list of the conditions that the code appends, and its \<open>ORDER BY\<close> clause a list of stable sorts.
  A condition is an error when the database cannot read its argument.
\<close>

section \<open>Parameters\<close>

record IssueFilterParams =
  fp_Page :: int
  fp_PerPage :: int
  fp_Status :: string
  fp_StatusType :: string
  fp_Priority :: string
  fp_AssigneeID :: string
  fp_CreatorID :: string
  fp_TeamID :: string
  fp_ProjectID :: string
  fp_CycleID :: string
  fp_LabelID :: string
  fp_Search :: string
  fp_DueBefore :: string
  fp_DueAfter :: string
  fp_Triaged :: string
  fp_SubIssues :: string
  fp_ParentID :: string
  fp_GroupBy :: string
  fp_Sort :: string
  fp_Order :: string

text \<open>\<open>IssueFilterParams{}\<close>\<close>

definition no_filter :: IssueFilterParams where
  "no_filter = \<lparr>fp_Page = 0, fp_PerPage = 0, fp_Status = [], fp_StatusType = [], fp_Priority = [], fp_AssigneeID = [],
     fp_CreatorID = [], fp_TeamID = [], fp_ProjectID = [], fp_CycleID = [], fp_LabelID = [], fp_Search = [],
     fp_DueBefore = [], fp_DueAfter = [], fp_Triaged = [], fp_SubIssues = [], fp_ParentID = [], fp_GroupBy = [],
     fp_Sort = [], fp_Order = []\<rparr>"

definition Defaults :: "IssueFilterParams \<Rightarrow> IssueFilterParams" where
  "Defaults p = p\<lparr>fp_Page := (if fp_Page p = 0 then 1 else fp_Page p),
     fp_PerPage := (if fp_PerPage p = 0 then 50 else fp_PerPage p)\<rparr>"

text \<open>An \<open>int\<close> has 64 bits.\<close>

definition go_int :: "int \<Rightarrow> int" where
  "go_int x = (x + 2 ^ 63) mod 2 ^ 64 - 2 ^ 63"

definition params_offset :: "IssueFilterParams \<Rightarrow> int" where
  "params_offset p = go_int ((fp_Page p - 1) * fp_PerPage p)"

text \<open>
  What the statement needs of the database and of Go: the input functions of the types \<open>uuid\<close>, \<open>smallint\<close> and
  \<open>date\<close>, which fail on other texts, \<open>lower\<close>, \<open>to_char\<close> of a date and \<open>uuid.Parse\<close>.
\<close>

record sql =
  sq_uuid :: "string \<Rightarrow> uuid option"
  sq_int :: "string \<Rightarrow> int option"
  sq_date :: "string \<Rightarrow> time option"
  sq_lower :: "string \<Rightarrow> string"
  sq_to_char :: "time \<Rightarrow> string"
  sq_uuid_Parse :: "string \<Rightarrow> uuid \<times> bool"

section \<open>Conditions\<close>

type_synonym condition = "store_error + (Issue \<Rightarrow> bool)"

text \<open>A condition on a value that is read from a text.\<close>

definition reading :: "(string \<Rightarrow> 'a option) \<Rightarrow> string \<Rightarrow> ('a \<Rightarrow> Issue \<Rightarrow> bool) \<Rightarrow> condition" where
  "reading parse s P = (case parse s of None \<Rightarrow> Inl ErrDatabase | Some x \<Rightarrow> Inr (P x))"

definition reading_all :: "(string \<Rightarrow> 'a option) \<Rightarrow> string list \<Rightarrow> ('a list \<Rightarrow> Issue \<Rightarrow> bool) \<Rightarrow> condition" where
  "reading_all parse ss P =
     (if list_ex (\<lambda>s. parse s = None) ss then Inl ErrDatabase else Inr (P (List.map_filter parse ss)))"

text \<open>The conditions of one filter: none when the parameter is empty.\<close>

definition given_filter :: "string \<Rightarrow> condition \<Rightarrow> condition list" where
  "given_filter s c = (if s = [] then [] else [c])"

definition status_filter :: "sql \<Rightarrow> string \<Rightarrow> condition" where
  "status_filter Q status =
     (let statuses = Split status (CHR '','') in
      if snd (sq_uuid_Parse Q (TrimSpace (hd statuses)))
      then reading_all (sq_uuid Q) (map TrimSpace statuses) (\<lambda>ids i. iss_StatusID i \<in> Some ` set ids)
      else Inr (\<lambda>i. iss_Status i \<in> set (map TrimSpace statuses)))"

fun category_text :: "StatusCategory \<Rightarrow> string" where
  "category_text Backlog = ''backlog''"
| "category_text Unstarted = ''unstarted''"
| "category_text Started = ''started''"
| "category_text Completed = ''completed''"
| "category_text Cancelled = ''cancelled''"

definition priority_filter :: "sql \<Rightarrow> string \<Rightarrow> condition" where
  "priority_filter Q priority = (case Split priority (CHR '','') of
     [p] \<Rightarrow> reading (sq_int Q) p (\<lambda>n i. iss_Priority i = n)
   | ps \<Rightarrow> reading_all (sq_int Q) (map TrimSpace ps) (\<lambda>ns i. iss_Priority i \<in> set ns))"

text \<open>\<open>none\<close> asks for the rows without the reference.\<close>

definition reference_filter :: "sql \<Rightarrow> (Issue \<Rightarrow> uuid option) \<Rightarrow> string \<Rightarrow> condition" where
  "reference_filter Q f s =
     (if s = ''none'' then Inr (\<lambda>i. f i = None) else reading (sq_uuid Q) s (\<lambda>u i. f i = Some u))"

definition assignee_filter :: "sql \<Rightarrow> tracker \<Rightarrow> string \<Rightarrow> condition" where
  "assignee_filter Q d s =
     (if s = ''none'' then Inr (\<lambda>i. \<not> exists_where (\<lambda>a. ia_IssueID a = ow_ID i) (tr_assignees d))
      else reading (sq_uuid Q) s (\<lambda>u i. exists_where (\<lambda>a. ia_IssueID a = ow_ID i \<and> ia_UserID a = u) (tr_assignees d)))"

definition label_filter :: "sql \<Rightarrow> tracker \<Rightarrow> string \<Rightarrow> condition" where
  "label_filter Q d s =
     (if s = ''none'' then Inr (\<lambda>i. \<not> list_ex (\<lambda>l. la_DeletedAt l = None) (labels_of (ow_ID i) d))
      else reading (sq_uuid Q) s (\<lambda>l i. (ow_ID i, l) \<in> set (tr_issue_labels d)))"

definition sub_issue_filter :: "tracker \<Rightarrow> string \<Rightarrow> condition list" where
  "sub_issue_filter d s =
     (if s = ''exclude'' \<or> s = ''top_level'' then [Inr (\<lambda>i. iss_ParentID i = None)]
      else if s = ''only'' then [Inr (\<lambda>i. iss_ParentID i \<noteq> None)]
      else if s = ''has_sub_issues'' then [Inr (\<lambda>i. exists_where (\<lambda>c. iss_ParentID c = Some (ow_ID i)) (tr_issues d))]
      else [])"

section \<open>Search\<close>

text \<open>
  \<open>LIKE\<close> on lists of characters: the percent sign stands for any characters, the low line for one, and the
  backslash takes the next character as it is.
\<close>

fun like :: "nat list \<Rightarrow> nat list \<Rightarrow> bool" where
  "like [] s \<longleftrightarrow> s = []"
| "like (c # p) s \<longleftrightarrow>
     (if c = 37 then like p s \<or> (case s of [] \<Rightarrow> False | x # xs \<Rightarrow> like (c # p) xs)
      else if c = 95 then (case s of [] \<Rightarrow> False | x # xs \<Rightarrow> like p xs)
      else if c = 92 then (case p of [] \<Rightarrow> False | e # q \<Rightarrow> (case s of [] \<Rightarrow> False | x # xs \<Rightarrow> x = e \<and> like q xs))
      else (case s of [] \<Rightarrow> False | x # xs \<Rightarrow> x = c \<and> like p xs))"

definition ilike :: "sql \<Rightarrow> string \<Rightarrow> string \<Rightarrow> bool" where
  "ilike Q search s \<longleftrightarrow> like (map fst (runes (sq_lower Q (''%'' @ search @ ''%'')))) (map fst (runes (sq_lower Q s)))"

definition priority_name :: "int \<Rightarrow> string list" where
  "priority_name n =
     (if n = 0 then [''No priority''] else if n = 1 then [''Urgent''] else if n = 2 then [''High'']
      else if n = 3 then [''Medium''] else if n = 4 then [''Low''] else [])"

definition optional :: "'a option \<Rightarrow> 'a list" where
  "optional x = (case x of None \<Rightarrow> [] | Some y \<Rightarrow> [y])"

definition user_texts :: "User \<Rightarrow> string list" where
  "user_texts u = [us_Name u, us_DisplayName u, us_Email u]"

text \<open>The texts that the search compares, in the order of \<open>searchFields\<close>; \<open>NULL\<close> does not match.\<close>

definition own_texts :: "sql \<Rightarrow> Issue \<Rightarrow> string list" where
  "own_texts Q i = [iss_Title i, iss_Identifier i] @ optional (iss_Description i)
     @ [iss_Status i, int_decimal (iss_Number i), int_decimal (iss_Priority i)] @ priority_name (iss_Priority i)
     @ optional (map_option (sq_to_char Q) (iss_DueDate i))"

definition plan_texts :: "sql \<Rightarrow> office \<Rightarrow> Issue \<Rightarrow> string list" where
  "plan_texts Q d i =
     concat (map (\<lambda>s. [st_Name s, st_Slug s, category_text (st_Category s)])
       (filter (\<lambda>s. Some (st_ID s) = iss_StatusID i) (tr_statuses (of_tracker d))))
   @ concat (map (\<lambda>p. [pj_Name p] @ optional (pj_Description p) @ [pj_Status p])
       (filter (\<lambda>p. Some (ow_ID p) = iss_ProjectID i) (tr_projects (of_tracker d))))
   @ concat (map (\<lambda>c. [cy_Name c, cy_Status c] @ optional (cy_Description c) @ optional (cy_Goals c)
         @ optional (cy_Retrospective c) @ map (sq_to_char Q) (optional (cy_StartDate c) @ optional (cy_EndDate c)))
       (filter (\<lambda>c. Some (cy_ID c) = iss_CycleID i) (of_cycles d)))"

definition people_texts :: "office \<Rightarrow> Issue \<Rightarrow> string list" where
  "people_texts d i =
     concat (map user_texts (filter (\<lambda>u. us_ID u = iss_CreatorID i) (of_users d)))
   @ concat (map user_texts (filter (\<lambda>u. Some (us_ID u) = iss_AssigneeID i) (of_users d)))
   @ concat (map (\<lambda>a. concat (map user_texts (filter (\<lambda>u. us_ID u = ia_UserID a) (of_users d))))
       (filter (\<lambda>a. ia_IssueID a = ow_ID i) (tr_assignees (of_tracker d))))"

definition place_texts :: "office \<Rightarrow> Issue \<Rightarrow> string list" where
  "place_texts d i =
     concat (map (\<lambda>l. [la_Name l] @ optional (la_Description l) @ [la_Color l])
       (filter (\<lambda>l. la_DeletedAt l = None) (labels_of (ow_ID i) (of_tracker d))))
   @ concat (map (\<lambda>t. [te_Name t, te_Key t] @ optional (te_Description t))
       (filter (\<lambda>t. ow_ID t = iss_TeamID i) (tr_teams (of_tracker d))))"

definition search_filter :: "sql \<Rightarrow> office \<Rightarrow> string \<Rightarrow> Issue \<Rightarrow> bool" where
  "search_filter Q d search i \<longleftrightarrow>
     list_ex (ilike Q search) (own_texts Q i @ plan_texts Q d i @ people_texts d i @ place_texts d i)"

section \<open>The statement\<close>

text \<open>A comparison with a due date that is \<open>NULL\<close> does not hold.\<close>

definition due :: "(time \<Rightarrow> bool) \<Rightarrow> Issue \<Rightarrow> bool" where
  "due P i \<longleftrightarrow> (case iss_DueDate i of None \<Rightarrow> False | Some t \<Rightarrow> P t)"

definition where_clause :: "sql \<Rightarrow> office \<Rightarrow> IssueFilterParams \<Rightarrow> condition list" where
  "where_clause Q d p = (let t = of_tracker d in
     given_filter (fp_Status p) (status_filter Q (fp_Status p))
   @ given_filter (fp_StatusType p) (Inr (\<lambda>i. category_text (issueStatusCategoryExpr t i) = fp_StatusType p))
   @ given_filter (fp_Priority p) (priority_filter Q (fp_Priority p))
   @ given_filter (fp_AssigneeID p) (assignee_filter Q t (fp_AssigneeID p))
   @ given_filter (fp_CreatorID p) (reading (sq_uuid Q) (fp_CreatorID p) (\<lambda>u i. iss_CreatorID i = u))
   @ given_filter (fp_TeamID p) (reading (sq_uuid Q) (fp_TeamID p) (\<lambda>u i. iss_TeamID i = u))
   @ given_filter (fp_ProjectID p) (reference_filter Q iss_ProjectID (fp_ProjectID p))
   @ given_filter (fp_CycleID p) (reference_filter Q iss_CycleID (fp_CycleID p))
   @ given_filter (fp_LabelID p) (label_filter Q t (fp_LabelID p))
   @ given_filter (fp_Search p) (Inr (search_filter Q d (fp_Search p)))
   @ given_filter (fp_DueBefore p) (reading (sq_date Q) (fp_DueBefore p) (\<lambda>x. due (\<lambda>y. y \<le> x)))
   @ given_filter (fp_DueAfter p) (reading (sq_date Q) (fp_DueAfter p) (\<lambda>x. due (\<lambda>y. x \<le> y)))
   @ given_filter (fp_Triaged p) (Inr (\<lambda>i. iss_Triaged i = (fp_Triaged p \<noteq> ''false'')))
   @ given_filter (fp_ParentID p) (reference_filter Q iss_ParentID (fp_ParentID p))
   @ sub_issue_filter t (fp_SubIssues p))"

text \<open>The rows of a workspace that satisfy all conditions, when every condition can be read.\<close>

definition selected :: "uuid \<Rightarrow> condition list \<Rightarrow> Issue list \<Rightarrow> Issue list" where
  "selected workspaceID cs rows =
     filter (\<lambda>i. ow_WorkspaceID i = workspaceID \<and> list_all (\<lambda>c. case c of Inl e \<Rightarrow> False | Inr P \<Rightarrow> P i) cs) rows"

definition unreadable :: "condition list \<Rightarrow> store_error option" where
  "unreadable cs = (case List.map_filter (case_sum Some (\<lambda>P. None)) cs of [] \<Rightarrow> None | e # es \<Rightarrow> Some e)"

text \<open>
  A term of the \<open>ORDER BY\<close> clause sorts stably; \<open>NULL\<close> comes last in ascending and first in descending order.
\<close>

definition by_key :: "bool \<Rightarrow> (Issue \<Rightarrow> 'a :: {linorder, uminus}) \<Rightarrow> Issue list \<Rightarrow> Issue list" where
  "by_key asc f = sort_key (\<lambda>i. if asc then f i else - f i)"

definition by_nullable :: "bool \<Rightarrow> (Issue \<Rightarrow> int option) \<Rightarrow> Issue list \<Rightarrow> Issue list" where
  "by_nullable asc f = sort_key (\<lambda>i. case f i of
     None \<Rightarrow> (if asc then 1 else 0 :: nat, 0) | Some x \<Rightarrow> (if asc then 0 else 1, if asc then x else - x))"

definition status_position :: "tracker \<Rightarrow> Issue \<Rightarrow> int" where
  "status_position d i = (case status_row d (iss_StatusID i) of None \<Rightarrow> 999 | Some s \<Rightarrow> st_Position s)"

definition group_order :: "tracker \<Rightarrow> string \<Rightarrow> (Issue list \<Rightarrow> Issue list) list" where
  "group_order d grouping =
     (if grouping = ''status'' then [by_key True (status_position d), by_nullable True (map_option int \<circ> iss_StatusID)]
      else if grouping = ''priority'' then [by_key True iss_Priority]
      else if grouping = ''assignee'' then [by_nullable True (map_option int \<circ> iss_AssigneeID)]
      else if grouping = ''project'' then [by_nullable True (map_option int \<circ> iss_ProjectID)]
      else [])"

definition sort_order :: "tracker \<Rightarrow> string \<Rightarrow> bool \<Rightarrow> (Issue list \<Rightarrow> Issue list) list" where
  "sort_order d column asc =
     (if column = ''updated_at'' then [by_key asc iss_UpdatedAt, by_key False iss_CreatedAt]
      else if column = ''priority'' then [by_key asc iss_Priority, by_key False iss_CreatedAt]
      else if column = ''sort_order'' then [by_key asc iss_SortOrder, by_key False iss_CreatedAt]
      else if column = ''status'' then [by_key asc (status_position d), by_key False iss_CreatedAt]
      else if column = ''due_date'' then [by_nullable asc iss_DueDate, by_key False iss_CreatedAt]
      else [by_key asc iss_CreatedAt])"

definition order_by :: "tracker \<Rightarrow> IssueFilterParams \<Rightarrow> Issue list \<Rightarrow> Issue list" where
  "order_by d p rows = foldr (\<lambda>f. f)
     (group_order d (fp_GroupBy p) @ sort_order d (fp_Sort p) (fp_Order p = ''asc'') @ [by_key False (int \<circ> ow_ID)]) rows"

definition repo_List :: "sql \<Rightarrow> uuid \<Rightarrow> IssueFilterParams \<Rightarrow> office \<Rightarrow> store_error + (Issue list \<times> nat)" where
  "repo_List Q workspaceID p0 d =
     (let cs = where_clause Q d p0; rows = selected workspaceID cs (tr_issues (of_tracker d)); p = Defaults p0 in
      case unreadable cs of Some e \<Rightarrow> Inl e | None \<Rightarrow>
      if fp_PerPage p < 0 \<or> params_offset p < 0 then Inl ErrDatabase
      else Inr (take (nat (fp_PerPage p)) (drop (nat (params_offset p)) (order_by (of_tracker d) p rows)), length rows))"

section \<open>What is listed\<close>

lemma set_by_key [simp]: "set (by_key asc f rows) = set rows" "mset (by_key asc f rows) = mset rows"
  by (simp_all add: by_key_def)

lemma set_by_nullable [simp]: "set (by_nullable asc f rows) = set rows" "mset (by_nullable asc f rows) = mset rows"
  by (simp_all add: by_nullable_def)

lemma mset_order_by: "mset (order_by d p rows) = mset rows"
proof -
  have "mset (foldr (\<lambda>f. f) fs rows) = mset rows" if "\<forall>f \<in> set fs. \<forall>xs. mset (f xs) = mset xs" for fs
    using that by (induction fs) simp_all
  then show ?thesis by (simp add: order_by_def group_order_def sort_order_def)
qed

lemma set_order_by [simp]: "set (order_by d p rows) = set rows"
  by (metis mset_eq_setD mset_order_by)

lemma unreadable_None: "unreadable cs = None \<longleftrightarrow> (\<forall>c \<in> set cs. \<exists>P. c = Inr P)"
  by (induction cs) (auto simp: unreadable_def List.map_filter_def split: list.splits sum.splits)

lemma listed_selected:
  assumes "repo_List Q w p d = Inr (rows, n)" and "i \<in> set rows"
  shows "i \<in> set (tr_issues (of_tracker d))" "ow_WorkspaceID i = w"
    "Inr P \<in> set (where_clause Q d p) \<Longrightarrow> P i" "Inl e \<notin> set (where_clause Q d p)"
proof -
  have i: "i \<in> set (selected w (where_clause Q d p) (tr_issues (of_tracker d)))"
    and ok: "unreadable (where_clause Q d p) = None"
    using assms by (auto simp: repo_List_def Let_def split: option.splits if_splits dest!: in_set_takeD in_set_dropD)
  show "i \<in> set (tr_issues (of_tracker d))" "ow_WorkspaceID i = w" using i by (simp_all add: selected_def)
  show "Inr P \<in> set (where_clause Q d p) \<Longrightarrow> P i" using i by (auto simp: selected_def list_all_iff)
  show "Inl e \<notin> set (where_clause Q d p)" using ok unfolding unreadable_None by blast
qed

end
