(* ===== verification/Workspace_Service.thy ===== *)
theory Workspace_Service
  imports Issue_Listing
begin

text \<open>
  \<open>WorkspaceService\<close> (\<open>BE/internal/service/workspace.go\<close>), the permissions of the roles
  (\<open>BE/internal/domain/permission.go\<close>) and what they act on. As for the other services, every call of the store
  takes the next entry of a script: how much time passes before it, what other requests do to the tables,
  and whether the call fails. The audit log is left out.
\<close>

section \<open>The front office\<close>

text \<open>\<open>ft_random\<close> is the source of random bytes, of which \<open>ft_draws\<close> have been taken; \<open>None\<close> is its failure.\<close>

record front =
  ft_db :: office
  ft_now :: time
  ft_fresh :: uuid
  ft_random :: "nat \<Rightarrow> string option"
  ft_draws :: nat
  ft_script :: "(duration \<times> (office \<Rightarrow> office) \<times> store_error option) list"

type_synonym 'a office_act = "(front, 'a) action"

definition storeF :: "(time \<Rightarrow> office \<Rightarrow> store_error + ('a \<times> office)) \<Rightarrow> 'a office_act" where
  "storeF f k = (case ft_script k of
     [] \<Rightarrow> (case f (ft_now k) (ft_db k) of
        Inl e \<Rightarrow> (Inl (StoreError e), k) | Inr (x, d) \<Rightarrow> (Inr x, k\<lparr>ft_db := d\<rparr>))
   | (dt, g, fault) # rest \<Rightarrow>
       (let k1 = k\<lparr>ft_now := ft_now k + dt, ft_db := g (ft_db k), ft_script := rest\<rparr> in
        case fault of Some e \<Rightarrow> (Inl (StoreError e), k1)
        | None \<Rightarrow> (case f (ft_now k1) (ft_db k1) of
            Inl e \<Rightarrow> (Inl (StoreError e), k1) | Inr (x, d) \<Rightarrow> (Inr x, k1\<lparr>ft_db := d\<rparr>))))"

definition readF :: "(office \<Rightarrow> 'a) \<Rightarrow> 'a office_act" where
  "readF f = storeF (\<lambda>now d. Inr (f d, d))"

definition queryF :: "(office \<Rightarrow> store_error + 'a) \<Rightarrow> 'a office_act" where
  "queryF f = storeF (\<lambda>now d. case f d of Inl e \<Rightarrow> Inl e | Inr x \<Rightarrow> Inr (x, d))"

definition writeF :: "(time \<Rightarrow> office \<Rightarrow> store_error + office) \<Rightarrow> unit office_act" where
  "writeF f = storeF (\<lambda>now d. case f now d of Inl e \<Rightarrow> Inl e | Inr d' \<Rightarrow> Inr ((), d'))"

text \<open>\<open>uuid.New()\<close>, \<open>rand.Read\<close>, \<open>time.Now()\<close> and an error of \<open>fmt.Errorf\<close>.\<close>

definition freshF :: "uuid office_act" where
  "freshF k = (Inr (ft_fresh k), k\<lparr>ft_fresh := ft_fresh k + 1\<rparr>)"

definition randomF :: "string office_act" where
  "randomF k = (case ft_random k (ft_draws k) of
     None \<Rightarrow> (Inl (Errorf ''rand''), k) | Some b \<Rightarrow> (Inr b, k\<lparr>ft_draws := ft_draws k + 1\<rparr>))"

definition nowF :: "time office_act" where
  "nowF = getA ft_now"

definition failF :: "string \<Rightarrow> 'a office_act" where
  "failF s = failA (Errorf s)"

text \<open>\<open>if err != nil || x == nil\<close>, a result that is dropped with its error, and a pointer to a zero row after an error.\<close>

definition foundF :: "go_error \<Rightarrow> 'a option office_act \<Rightarrow> 'a office_act" where
  "foundF e a = bindA (attempt a) (\<lambda>r. case r of Inr (Some x) \<Rightarrow> returnA x | _ \<Rightarrow> failA e)"

definition at_leastF :: "'a \<Rightarrow> 'a office_act \<Rightarrow> 'a office_act" where
  "at_leastF otherwise a = bindA (attempt a) (\<lambda>r. returnA (case r of Inl e \<Rightarrow> otherwise | Inr x \<Rightarrow> x))"

definition despiteF :: "'a \<Rightarrow> 'a option office_act \<Rightarrow> 'a option office_act" where
  "despiteF zero a = at_leastF (Some zero) a"

fun mapF :: "('a \<Rightarrow> 'b office_act) \<Rightarrow> 'a list \<Rightarrow> 'b list office_act" where
  "mapF f [] = returnA []"
| "mapF f (x # xs) = bindA (f x) (\<lambda>y. bindA (mapF f xs) (\<lambda>ys. returnA (y # ys)))"

section \<open>Permissions\<close>

datatype permission =
    PermWorkspaceManage | PermWorkspaceTransfer | PermTeamManage | PermIssueCreate | PermIssueRead | PermIssueUpdate
  | PermIssueDelete | PermIssueDeleteOwn | PermProjectManage | PermLabelManage | PermMemberInvite | PermCycleManage
  | PermViewManage | PermDevMachineRead | PermDevMachineCreate | PermDevMachineManage | PermDevMachineAdmin

definition RolePermissions :: "(string \<times> permission list) list" where
  "RolePermissions =
    [(RoleOwner,
      [PermWorkspaceManage, PermWorkspaceTransfer, PermTeamManage, PermIssueCreate, PermIssueRead, PermIssueUpdate,
       PermIssueDelete, PermIssueDeleteOwn, PermProjectManage, PermLabelManage, PermMemberInvite, PermCycleManage,
       PermViewManage, PermDevMachineRead, PermDevMachineCreate, PermDevMachineManage, PermDevMachineAdmin]),
     (RoleAdmin,
      [PermWorkspaceTransfer, PermTeamManage, PermIssueCreate, PermIssueRead, PermIssueUpdate, PermIssueDelete,
       PermIssueDeleteOwn, PermProjectManage, PermLabelManage, PermMemberInvite, PermCycleManage, PermViewManage,
       PermDevMachineRead, PermDevMachineCreate, PermDevMachineManage, PermDevMachineAdmin]),
     (RoleMember,
      [PermIssueCreate, PermIssueRead, PermIssueUpdate, PermIssueDeleteOwn, PermProjectManage, PermLabelManage,
       PermCycleManage, PermViewManage, PermDevMachineRead, PermDevMachineCreate, PermDevMachineManage]),
     (RoleGuest, [PermIssueRead])]"

definition HasPermission :: "string \<Rightarrow> permission \<Rightarrow> bool" where
  "HasPermission role permission = (case map_of RolePermissions role of
     None \<Rightarrow> False | Some perms \<Rightarrow> list_ex (\<lambda>p. p = permission) perms)"

section \<open>Requests\<close>

record CreateWorkspaceRequest =
  cw_Name :: string
  cw_Slug :: string

text \<open>\<open>OptionalString\<close>: absent, \<open>null\<close> or a text.\<close>

record UpdateWorkspaceRequest =
  uw_Name :: "string option"
  uw_LogoURL :: "string option option"
  uw_ShareLinkMinRole :: "string option"

record InviteMemberRequest =
  im_Email :: string
  im_Role :: string

section \<open>Workspaces\<close>

definition defaultWorkspaceLabelSpecs :: "(string \<times> string \<times> string) list" where
  "defaultWorkspaceLabelSpecs =
    [(''Bug'', ''#EF4444'', ''Something is broken or not working as expected.''),
     (''Feature'', ''#3B82F6'', ''A new feature or capability.''),
     (''Improvement'', ''#22C55E'', ''An enhancement to existing functionality.''),
     (''Documentation'', ''#A855F7'', ''Documentation or content updates.''),
     (''Question'', ''#F59E0B'', ''Needs clarification or discussion.'')]"

definition defaultWorkspaceLabels :: "uuid \<Rightarrow> Label list office_act" where
  "defaultWorkspaceLabels workspaceID = mapF (\<lambda>(name, color, description). bindA freshF (\<lambda>i. returnA
     \<lparr>la_ID = i, la_WorkspaceID = workspaceID, la_Name = name, la_Color = color, la_Description = Some description,
      la_ParentID = None, la_DeletedAt = None, la_CreatedAt = 0, la_UpdatedAt = 0\<rparr>)) defaultWorkspaceLabelSpecs"

text \<open>An error of the store becomes that of the service.\<close>

definition renamed :: "(store_error \<times> service_error) list \<Rightarrow> 'a office_act \<Rightarrow> 'a office_act" where
  "renamed table a = bindA (attempt a) (\<lambda>r. case r of
     Inr x \<Rightarrow> returnA x
   | Inl (StoreError e) \<Rightarrow> (case map_of table e of
       Some s \<Rightarrow> failA (ServiceError s []) | None \<Rightarrow> failA (StoreError e))
   | Inl e \<Rightarrow> failA e)"

definition svc_Create :: "uuid \<Rightarrow> CreateWorkspaceRequest \<Rightarrow> Workspace office_act" where
  "svc_Create userID req = bindA (readF (workspace_GetBySlug (cw_Slug req))) (\<lambda>existing.
     if existing \<noteq> None then failA (ServiceError ErrServiceWorkspaceSlugTaken [])
     else bindA freshF (\<lambda>i.
       let ws = \<lparr>wk_ID = i, wk_Name = cw_Name req, wk_Slug = cw_Slug req, wk_LogoURL = None, wk_OwnerID = userID,
              wk_ShareLinkMinRole = RoleAdmin, wk_CreatedAt = 0, wk_UpdatedAt = 0\<rparr>;
         member = \<lparr>wm_WorkspaceID = i, wm_UserID = userID, wm_Role = RoleOwner, wm_CreatedAt = 0\<rparr> in
       bindA (defaultWorkspaceLabels i) (\<lambda>labels.
         renamed [(ErrWorkspaceSlugTaken, ErrServiceWorkspaceSlugTaken)]
           (storeF (\<lambda>now. CreateWithMemberAndLabels now ws member labels)))))"

definition svc_ListByUser :: "(string \<Rightarrow> nat) \<Rightarrow> uuid \<Rightarrow> Workspace list office_act" where
  "svc_ListByUser collate userID = readF (ListByUser collate userID)"

text \<open>The start of \<open>Update\<close> and \<open>Delete\<close>.\<close>

definition owned_workspace :: "string \<Rightarrow> uuid \<Rightarrow> Workspace office_act" where
  "owned_workspace slug userID =
     bindA (foundF (ServiceError ErrWorkspaceNotFound []) (readF (workspace_GetBySlug slug))) (\<lambda>ws.
       if wk_OwnerID ws \<noteq> userID then failA (ServiceError ErrNotWorkspaceOwner []) else returnA ws)"

definition trimmed_logo :: "string option \<Rightarrow> string option" where
  "trimmed_logo v = (case v of None \<Rightarrow> None | Some s \<Rightarrow> if TrimSpace s = [] then None else Some (TrimSpace s))"

definition updated_workspace :: "UpdateWorkspaceRequest \<Rightarrow> Workspace \<Rightarrow> Workspace" where
  "updated_workspace req ws = ws\<lparr>
     wk_Name := (case uw_Name req of None \<Rightarrow> wk_Name ws | Some s \<Rightarrow> s),
     wk_LogoURL := (case uw_LogoURL req of None \<Rightarrow> wk_LogoURL ws | Some v \<Rightarrow> trimmed_logo v),
     wk_ShareLinkMinRole := (case uw_ShareLinkMinRole req of None \<Rightarrow> wk_ShareLinkMinRole ws | Some s \<Rightarrow> s)\<rparr>"

definition svc_Update :: "string \<Rightarrow> uuid \<Rightarrow> UpdateWorkspaceRequest \<Rightarrow> Workspace office_act" where
  "svc_Update slug userID req = bindA (owned_workspace slug userID) (\<lambda>ws.
     storeF (\<lambda>now. workspace_Update now (updated_workspace req ws)))"

definition svc_Delete :: "string \<Rightarrow> uuid \<Rightarrow> unit office_act" where
  "svc_Delete slug userID = bindA (owned_workspace slug userID) (\<lambda>ws.
     bindA (storeF (\<lambda>now d. Inr (workspace_Delete now (wk_ID ws) d))) (\<lambda>r. case r of
         None \<Rightarrow> returnA ()
       | Some e \<Rightarrow> failA (if e = ErrWorkspaceHasDevMachineRuntimes then ServiceError ErrServiceWorkspaceHasRuntimes []
           else if e = ErrWorkspaceEnvironmentCleanupPending then ServiceError ErrServiceWorkspaceCleanupPending []
           else StoreError e)))"

definition GetOwner :: "Workspace \<Rightarrow> User option office_act" where
  "GetOwner ws = (if wk_OwnerID ws = uuid_Nil then returnA None else readF (user_GetByID (wk_OwnerID ws)))"

section \<open>Members\<close>

text \<open>A membership is looked up although an error of the lookup is dropped: then there is a zero row.\<close>

definition zero_member :: WorkspaceMember where
  "zero_member = \<lparr>wm_WorkspaceID = uuid_Nil, wm_UserID = uuid_Nil, wm_Role = [], wm_CreatedAt = 0\<rparr>"

definition svc_InviteMember :: "uuid \<Rightarrow> InviteMemberRequest \<Rightarrow> unit office_act" where
  "svc_InviteMember workspaceID req = bindA (readF (GetByEmail (im_Email req))) (\<lambda>user. case user of
       None \<Rightarrow> failF ''user not found''
     | Some u \<Rightarrow> bindA (despiteF zero_member (readF (GetMember workspaceID (us_ID u)))) (\<lambda>existing.
         if existing \<noteq> None then failF ''user is already a member''
         else writeF (\<lambda>now. AddMember now
           \<lparr>wm_WorkspaceID = workspaceID, wm_UserID = us_ID u, wm_Role = im_Role req, wm_CreatedAt = 0\<rparr>)))"

definition svc_UpdateMemberRole :: "uuid \<Rightarrow> uuid \<Rightarrow> string \<Rightarrow> unit office_act" where
  "svc_UpdateMemberRole workspaceID userID role =
     bindA (readF (workspace_GetByID workspaceID)) (\<lambda>found. case found of
         None \<Rightarrow> failA (ServiceError ErrWorkspaceNotFound [])
       | Some ws \<Rightarrow> bindA (foundF (Errorf ''member not found'') (readF (GetMember workspaceID userID))) (\<lambda>member.
           if userID = wk_OwnerID ws \<and> role \<noteq> RoleOwner then failF ''workspace owner cannot be demoted''
           else if userID \<noteq> wk_OwnerID ws \<and> role = RoleOwner then failF ''ownership transfer is not supported''
           else writeF (\<lambda>now. repo_UpdateMemberRole workspaceID userID role)))"

definition svc_RemoveMember :: "uuid \<Rightarrow> uuid \<Rightarrow> unit office_act" where
  "svc_RemoveMember workspaceID userID =
     bindA (foundF (Errorf ''member not found'') (readF (GetMember workspaceID userID))) (\<lambda>member.
       bindA (if wm_Role member = RoleOwner
           then bindA (readF (CountMembersByRole workspaceID RoleOwner)) (\<lambda>count.
             if count \<le> 1 then failF ''cannot remove the last owner'' else returnA ())
           else returnA ()) (\<lambda>u.
         writeF (\<lambda>now d. Inr (repo_RemoveMember workspaceID userID d))))"

definition svc_ListMembersWithUsers :: "uuid \<Rightarrow> WorkspaceMemberWithUser list office_act" where
  "svc_ListMembersWithUsers workspaceID = readF (ListMembersWithUsers workspaceID)"

end
