(* ===== verification/Shared_Links.thy ===== *)
theory Shared_Links
  imports Workspace_Service Go_Json
begin

text \<open>
  Links that show issues of a workspace to the public: \<open>SharedLinkService\<close> (\<open>BE/internal/service/shared_link.go\<close>) with
  its requests and responses (\<open>BE/internal/dto/shared_link.go\<close>) and the tokens for the assets of a description
  (\<open>BE/pkg/assettoken\<close>). Outside are the library of signed tokens, \<open>time.Parse\<close> and \<open>uuid.Parse\<close>.
\<close>

section \<open>Tokens for assets\<close>

record asset_claims =
  ac_Purpose :: string
  ac_AssetID :: uuid
  ac_WorkspaceID :: uuid
  ac_IssueID :: uuid
  ac_ExpiresAt :: time
  ac_IssuedAt :: time

text \<open>
  \<open>sh_SignedString\<close> signs claims with a secret, \<open>sh_ParseWithClaims\<close> gives the claims of a valid token at a time.
\<close>

record SharedLinkService =
  sh_sql :: sql
  sh_collate :: "string \<Rightarrow> nat"
  sh_ParseTime :: "string \<Rightarrow> time option"
  sh_assetTokenSecret :: string
  sh_SignedString :: "asset_claims \<Rightarrow> string \<Rightarrow> string option"
  sh_ParseWithClaims :: "time \<Rightarrow> string \<Rightarrow> string \<Rightarrow> asset_claims option"

text \<open>\<open>jwt.NewNumericDate\<close> drops the fractions of a second.\<close>

definition numeric_date :: "time \<Rightarrow> time" where
  "numeric_date t = seconds (t div seconds 1)"

definition Generate ::
  "SharedLinkService \<Rightarrow> time \<Rightarrow> uuid \<Rightarrow> uuid \<Rightarrow> uuid \<Rightarrow> duration \<Rightarrow> string option" where
  "Generate S now assetID workspaceID issueID ttl = sh_SignedString S
     \<lparr>ac_Purpose = ''prompt_asset'', ac_AssetID = assetID, ac_WorkspaceID = workspaceID, ac_IssueID = issueID,
      ac_ExpiresAt = numeric_date (now + ttl), ac_IssuedAt = numeric_date now\<rparr> (sh_assetTokenSecret S)"

definition Validate :: "SharedLinkService \<Rightarrow> time \<Rightarrow> string \<Rightarrow> asset_claims option" where
  "Validate S now token = (case sh_ParseWithClaims S now token (sh_assetTokenSecret S) of
     None \<Rightarrow> None | Some c \<Rightarrow> if ac_Purpose c \<noteq> ''prompt_asset'' then None else Some c)"

section \<open>Assets of a description\<close>

text \<open>
  A character of the pattern, whatever its case: with \<open>(?i)\<close> the letters s and k also stand for the long s and the
  sign of the kelvin, which have two and three bytes.
\<close>

definition eat_char :: "char \<Rightarrow> string \<Rightarrow> string option" where
  "eat_char c s = (case s of [] \<Rightarrow> None | x # xs \<Rightarrow>
     if x = c \<or> 97 \<le> byte c \<and> byte c \<le> 122 \<and> byte x + 32 = byte c then Some xs
     else if c = CHR ''s'' \<and> take 2 s = map char_of [0xC5 :: nat, 0xBF] then Some (drop 2 s)
     else if c = CHR ''k'' \<and> take 3 s = map char_of [0xE2 :: nat, 0x84, 0xAA] then Some (drop 3 s)
     else None)"

fun eat :: "string \<Rightarrow> string \<Rightarrow> string option" where
  "eat [] s = Some s"
| "eat (c # cs) s = (case eat_char c s of None \<Rightarrow> None | Some r \<Rightarrow> eat cs r)"

definition word_char :: "char \<Rightarrow> bool" where
  "word_char c \<longleftrightarrow> (let b = byte c in 48 \<le> b \<and> b \<le> 57 \<or> 65 \<le> b \<and> b \<le> 90 \<or> b = 95 \<or> 97 \<le> b \<and> b \<le> 122)"

definition hex_or_dash :: "char \<Rightarrow> bool" where
  "hex_or_dash c \<longleftrightarrow> (let b = byte c in 48 \<le> b \<and> b \<le> 57 \<or> 65 \<le> b \<and> b \<le> 70 \<or> 97 \<le> b \<and> b \<le> 102 \<or> b = 45)"

definition quote_char :: "char \<Rightarrow> bool" where
  "quote_char c \<longleftrightarrow> c = CHR 0x22 \<or> c = CHR 0x27"

text \<open>
  A match of \<open>protectedPublicAssetPattern\<close> at the start of a text after the character \<open>prev\<close>: the attribute with
  its quote, the text of the identifier, the query and the quote that closes, with what follows.
\<close>

record asset_match =
  am_attribute :: string
  am_asset :: string
  am_download :: string
  am_quote :: char
  am_rest :: string

definition match_path :: "string \<Rightarrow> (string \<times> string) option" where
  "match_path s = (case eat ''/api/workspaces/'' s of None \<Rightarrow> None | Some r \<Rightarrow>
     (let inner = (\<lambda>c. c \<noteq> CHR ''/'' \<and> \<not> quote_char c) in
      if takeWhile inner r = [] then None
      else case eat ''/assets/'' (dropWhile inner r) of None \<Rightarrow> None | Some t \<Rightarrow>
        if length (take 36 t) = 36 \<and> list_all hex_or_dash (take 36 t) then Some (take 36 t, drop 36 t) else None))"

definition match_attribute :: "char option \<Rightarrow> string \<Rightarrow> (string \<times> string) option" where
  "match_attribute prev s = (case s of [] \<Rightarrow> None | c # cs \<Rightarrow>
     if (case prev of None \<Rightarrow> False | Some p \<Rightarrow> word_char p) = word_char c then None
     else case (case eat ''src'' s of None \<Rightarrow> eat ''href'' s | Some r \<Rightarrow> Some r) of
         Some (e # q # r) \<Rightarrow> if e = CHR ''='' \<and> quote_char q then Some (take (length s - length r) s, r) else None
       | _ \<Rightarrow> None)"

definition protectedPublicAssetPattern :: "char option \<Rightarrow> string \<Rightarrow> asset_match option" where
  "protectedPublicAssetPattern prev s = (case match_attribute prev s of None \<Rightarrow> None | Some (a, r) \<Rightarrow>
     (case match_path r of None \<Rightarrow> None | Some (i, t) \<Rightarrow>
      (let u = (case eat ''?download=1'' t of None \<Rightarrow> t | Some u \<Rightarrow> u) in
       case u of [] \<Rightarrow> None | q # v \<Rightarrow>
         if quote_char q then Some \<lparr>am_attribute = a, am_asset = i, am_download = take (length t - length u) t,
             am_quote = q, am_rest = v\<rparr> else None)))"

text \<open>\<open>ReplaceAllStringFunc\<close>; \<open>skip\<close> counts the bytes of a match still to drop.\<close>

fun replace_matches :: "(asset_match \<Rightarrow> string option) \<Rightarrow> char option \<Rightarrow> nat \<Rightarrow> string \<Rightarrow> string" where
  "replace_matches f prev skip [] = []"
| "replace_matches f prev (Suc n) (c # cs) = replace_matches f (Some c) n cs"
| "replace_matches f prev 0 (c # cs) = (case protectedPublicAssetPattern prev (c # cs) of
     None \<Rightarrow> c # replace_matches f (Some c) 0 cs
   | Some m \<Rightarrow> (let n = length (c # cs) - length (am_rest m) in
       (case f m of None \<Rightarrow> take n (c # cs) | Some t \<Rightarrow> t) @ replace_matches f (Some c) (n - 1) cs))"

definition sign_match :: "SharedLinkService \<Rightarrow> time \<Rightarrow> uuid \<Rightarrow> uuid \<Rightarrow> asset_match \<Rightarrow> string option" where
  "sign_match S now workspaceID issueID m = (case sq_uuid_Parse (sh_sql S) (am_asset m) of (assetID, ok) \<Rightarrow>
     if \<not> ok then None else
     (case Generate S now assetID workspaceID issueID (minutes 60) of None \<Rightarrow> None
      | Some token \<Rightarrow> Some (am_attribute m @ ''/api/public/assets/'' @ token @ am_download m @ [am_quote m])))"

definition signPublicAssetURLs :: "SharedLinkService \<Rightarrow> time \<Rightarrow> string \<Rightarrow> uuid \<Rightarrow> uuid \<Rightarrow> string" where
  "signPublicAssetURLs S now description workspaceID issueID =
     replace_matches (sign_match S now workspaceID issueID) None 0 description"

section \<open>Requests and responses\<close>

record CreateSharedLinkRequest =
  cl_Scope :: string
  cl_ScopeID :: "string option"
  cl_Filters :: "string option"
  cl_IncludeDescription :: bool
  cl_ExpiresAt :: "string option"

record UpdateSharedLinkRequest =
  ul_IsActive :: "bool option"
  ul_IncludeDescription :: "bool option"
  ul_ExpiresAt :: "string option"

record PublicStatusResponse =
  ps_ID :: uuid
  ps_Name :: string
  ps_Category :: StatusCategory
  ps_Color :: "string option"
  ps_Position :: int

record PublicShareMetaResponse =
  pm_Scope :: string
  pm_ScopeID :: "uuid option"
  pm_ScopeName :: string
  pm_WorkspaceName :: string
  pm_Filters :: string
  pm_Statuses :: "PublicStatusResponse list"

record PublicUserResponse =
  pu_Name :: string
  pu_DisplayName :: string
  pu_AvatarURL :: "string option"

record PublicLabelResponse =
  pl_ID :: uuid
  pl_Name :: string
  pl_Color :: string
  pl_Description :: "string option"
  pl_ParentID :: "uuid option"
  pl_CreatedAt :: time
  pl_UpdatedAt :: time

record PublicIssueResponse =
  pi_Identifier :: string
  pi_Title :: string
  pi_Description :: "string option"
  pi_Status :: string
  pi_StatusInfo :: "PublicStatusResponse option"
  pi_Priority :: int
  pi_Labels :: "PublicLabelResponse list"
  pi_Assignees :: "PublicUserResponse list"
  pi_DueDate :: "time option"
  pi_CreatedAt :: time
  pi_UpdatedAt :: time

record 'a ListResponse =
  lr_Data :: "'a list"
  lr_TotalCount :: nat
  lr_Page :: int
  lr_PerPage :: int
  lr_HasMore :: bool

section \<open>Links\<close>

definition CanCreateSharedLink :: "string \<Rightarrow> string \<Rightarrow> bool" where
  "CanCreateSharedLink userRole minRole \<longleftrightarrow>
     (let roleRank = (\<lambda>r. case map_of [(RoleGuest, 0), (RoleMember, 1), (RoleAdmin, 2), (RoleOwner, 3)] r of
        None \<Rightarrow> 0 :: nat | Some n \<Rightarrow> n) in
      roleRank minRole \<le> roleRank userRole)"

definition generateToken :: "string office_act" where
  "generateToken = bindA randomF (\<lambda>b. returnA (EncodeToString b))"

definition team_found :: "uuid \<Rightarrow> office \<Rightarrow> Team option" where
  "team_found i d = find (\<lambda>t. ow_ID t = i) (tr_teams (of_tracker d))"

definition project_found :: "uuid \<Rightarrow> office \<Rightarrow> Project option" where
  "project_found i d = find (\<lambda>p. ow_ID p = i) (tr_projects (of_tracker d))"

text \<open>What the scope of a new link refers to must exist.\<close>

definition scope_exists :: "string \<Rightarrow> uuid option \<Rightarrow> unit office_act" where
  "scope_exists scope scopeID =
     (let check = (\<lambda>missing unknown f. case scopeID of None \<Rightarrow> failF missing
        | Some i \<Rightarrow> thenA (foundF (Errorf unknown) (readF (\<lambda>d. if f i d then Some () else None))) (returnA ())) in
      if scope = ''workspace'' then returnA ()
      else if scope = ''team'' then check ''scope_id is required for team scope'' ''team not found'' (\<lambda>i d. team_found i d \<noteq> None)
      else if scope = ''project''
      then check ''scope_id is required for project scope'' ''project not found'' (\<lambda>i d. project_found i d \<noteq> None)
      else if scope = ''view'' then check ''scope_id is required for view scope'' ''view not found'' (\<lambda>i d. view_GetByID i d \<noteq> None)
      else failF ''invalid scope'')"

definition new_expiry :: "SharedLinkService \<Rightarrow> string option \<Rightarrow> time option office_act" where
  "new_expiry S expires = (case expires of None \<Rightarrow> returnA None | Some s \<Rightarrow>
     (case sh_ParseTime S s of None \<Rightarrow> failF ''invalid expires_at format, use RFC3339'' | Some t \<Rightarrow>
      bindA nowF (\<lambda>now. if t < now then failF ''expires_at must be in the future'' else returnA (Some t))))"

definition link_svc_Create ::
  "SharedLinkService \<Rightarrow> uuid \<Rightarrow> uuid \<Rightarrow> CreateSharedLinkRequest \<Rightarrow> SharedLink office_act" where
  "link_svc_Create S workspaceID userID req =
     bindA (case cl_ScopeID req of None \<Rightarrow> returnA None | Some s \<Rightarrow>
       (case sq_uuid_Parse (sh_sql S) s of (i, ok) \<Rightarrow> if ok then returnA (Some i) else failF ''invalid scope_id'')) (\<lambda>scopeID.
     bindA (scope_exists (cl_Scope req) scopeID) (\<lambda>u.
     bindA (attempt generateToken) (\<lambda>r. case r of Inl e \<Rightarrow> failF ''failed to generate token'' | Inr token \<Rightarrow>
     bindA (new_expiry S (cl_ExpiresAt req)) (\<lambda>expiresAt.
     bindA freshF (\<lambda>i. storeF (\<lambda>now. link_Create now
       \<lparr>sl_ID = i, sl_Token = token, sl_WorkspaceID = workspaceID, sl_CreatedBy = userID, sl_Scope = cl_Scope req,
        sl_ScopeID = scopeID, sl_Filters = (case cl_Filters req of None \<Rightarrow> ''{}'' | Some f \<Rightarrow> f),
        sl_IncludeDescription = cl_IncludeDescription req, sl_IsActive = True, sl_ExpiresAt = expiresAt,
        sl_CreatedAt = 0, sl_UpdatedAt = 0\<rparr>))))))"

definition link_svc_List :: "uuid \<Rightarrow> SharedLink list office_act" where
  "link_svc_List workspaceID = readF (link_ListByWorkspace workspaceID)"

definition found_link :: "uuid \<Rightarrow> SharedLink office_act" where
  "found_link i = foundF (Errorf ''shared link not found'') (readF (link_GetByID i))"

definition link_svc_Update :: "SharedLinkService \<Rightarrow> uuid \<Rightarrow> UpdateSharedLinkRequest \<Rightarrow> SharedLink office_act" where
  "link_svc_Update S i req = bindA (found_link i) (\<lambda>l0.
     let l = l0\<lparr>sl_IsActive := (case ul_IsActive req of None \<Rightarrow> sl_IsActive l0 | Some b \<Rightarrow> b),
         sl_IncludeDescription := (case ul_IncludeDescription req of None \<Rightarrow> sl_IncludeDescription l0 | Some b \<Rightarrow> b)\<rparr> in
     bindA (case ul_ExpiresAt req of None \<Rightarrow> returnA (sl_ExpiresAt l)
       | Some s \<Rightarrow> if s = [] then returnA None else (case sh_ParseTime S s of
             None \<Rightarrow> failF ''invalid expires_at format, use RFC3339'' | Some t \<Rightarrow> returnA (Some t))) (\<lambda>expires.
     storeF (\<lambda>now. link_Update now (l\<lparr>sl_ExpiresAt := expires\<rparr>))))"

definition link_svc_Delete :: "uuid \<Rightarrow> unit office_act" where
  "link_svc_Delete i = thenA (found_link i) (writeF (\<lambda>now d. Inr (link_Delete i d)))"

section \<open>What the public sees\<close>

definition resolveActiveLink :: "string \<Rightarrow> SharedLink office_act" where
  "resolveActiveLink token = bindA (foundF (Errorf ''not found'') (readF (link_GetByToken token))) (\<lambda>l.
     if \<not> sl_IsActive l then failF ''not found''
     else bindA nowF (\<lambda>now. case sl_ExpiresAt l of
         None \<Rightarrow> returnA l | Some t \<Rightarrow> if t < now then failF ''not found'' else returnA l))"

definition public_status :: "TeamStatus \<Rightarrow> PublicStatusResponse" where
  "public_status s = \<lparr>ps_ID = st_ID s, ps_Name = st_Name s, ps_Category = st_Category s, ps_Color = st_Color s,
     ps_Position = st_Position s\<rparr>"

definition loadTeamStatuses :: "uuid \<Rightarrow> PublicStatusResponse list office_act" where
  "loadTeamStatuses teamID = bindA (at_leastF [] (readF (\<lambda>d.
     sort_key st_Position (filter (\<lambda>s. st_TeamID s = teamID) (tr_statuses (of_tracker d)))))) (\<lambda>ss.
     returnA (map public_status ss))"

definition scope_name :: "SharedLink \<Rightarrow> string \<Rightarrow> (string \<times> PublicStatusResponse list) office_act" where
  "scope_name l workspace = (case sl_ScopeID l of None \<Rightarrow> returnA (workspace, []) | Some i \<Rightarrow>
     if sl_Scope l = ''team'' then bindA (at_leastF None (readF (team_found i))) (\<lambda>t. case t of
         None \<Rightarrow> returnA (workspace, [])
       | Some team \<Rightarrow> bindA (loadTeamStatuses (ow_ID team)) (\<lambda>ss. returnA (te_Name team, ss)))
     else if sl_Scope l = ''project'' then bindA (at_leastF None (readF (project_found i))) (\<lambda>p.
         returnA (case p of None \<Rightarrow> workspace | Some project \<Rightarrow> pj_Name project, []))
     else if sl_Scope l = ''view'' then bindA (at_leastF None (readF (view_GetByID i))) (\<lambda>v.
         returnA (case v of None \<Rightarrow> workspace | Some view \<Rightarrow> vw_Name view, []))
     else returnA (workspace, []))"

definition GetPublicMeta :: "string \<Rightarrow> PublicShareMetaResponse office_act" where
  "GetPublicMeta token = bindA (resolveActiveLink token) (\<lambda>l.
     bindA (foundF (Errorf ''not found'') (readF (workspace_GetByID (sl_WorkspaceID l)))) (\<lambda>ws.
     bindA (scope_name l (wk_Name ws)) (\<lambda>(name, statuses).
     returnA \<lparr>pm_Scope = sl_Scope l, pm_ScopeID = sl_ScopeID l, pm_ScopeName = name, pm_WorkspaceName = wk_Name ws,
       pm_Filters = sl_Filters l, pm_Statuses = statuses\<rparr>)))"

text \<open>\<open>json.Unmarshal\<close> into a \<open>map[string]string\<close>; \<open>None\<close> is an error. A \<open>null\<close> gives the empty text.\<close>

definition Unmarshal_map :: "string \<Rightarrow> (string \<rightharpoonup> string) option" where
  "Unmarshal_map raw = (case decode raw of
     Some JNull \<Rightarrow> Some Map.empty
   | Some (JObject ms) \<Rightarrow> if list_all (\<lambda>(k, v). snd (string_element v)) ms
       then Some (map_of (rev (map (\<lambda>(k, v). (k, fst (string_element v))) ms))) else None
   | _ \<Rightarrow> None)"

text \<open>A stored filter is taken when the parameter is still empty.\<close>

definition filled :: "string \<Rightarrow> (string \<rightharpoonup> string) \<Rightarrow> string \<Rightarrow> string" where
  "filled key filters current = (case filters key of None \<Rightarrow> current | Some v \<Rightarrow> if current = [] then v else current)"

definition applyStoredFilters :: "IssueFilterParams \<Rightarrow> (string \<rightharpoonup> string) \<Rightarrow> IssueFilterParams" where
  "applyStoredFilters p filters = p\<lparr>
     fp_Status := filled ''status'' filters (fp_Status p), fp_Priority := filled ''priority'' filters (fp_Priority p),
     fp_AssigneeID := filled ''assignee'' filters (fp_AssigneeID p), fp_TeamID := filled ''team'' filters (fp_TeamID p),
     fp_ProjectID := filled ''project'' filters (fp_ProjectID p), fp_LabelID := filled ''label'' filters (fp_LabelID p),
     fp_CycleID := filled ''cycle'' filters (fp_CycleID p)\<rparr>"

definition apply_raw_filters :: "string \<Rightarrow> IssueFilterParams \<Rightarrow> IssueFilterParams" where
  "apply_raw_filters raw p = (case Unmarshal_map raw of None \<Rightarrow> p | Some filters \<Rightarrow> applyStoredFilters p filters)"

definition scope_params :: "SharedLink \<Rightarrow> IssueFilterParams office_act" where
  "scope_params l = (case sl_ScopeID l of None \<Rightarrow> returnA no_filter | Some i \<Rightarrow>
     if sl_Scope l = ''team'' then returnA (no_filter\<lparr>fp_TeamID := uuid_String i\<rparr>)
     else if sl_Scope l = ''project'' then returnA (no_filter\<lparr>fp_ProjectID := uuid_String i\<rparr>)
     else if sl_Scope l = ''view'' then bindA (at_leastF None (readF (view_GetByID i))) (\<lambda>v. returnA (case v of
         None \<Rightarrow> no_filter | Some view \<Rightarrow> apply_raw_filters (vw_Filters view) no_filter))
     else returnA no_filter)"

text \<open>A parameter of the query takes the place of what is there, unless it is empty.\<close>

definition layered :: "string \<Rightarrow> string \<Rightarrow> string" where
  "layered query current = (if query = [] then current else query)"

definition with_query :: "IssueFilterParams \<Rightarrow> IssueFilterParams \<Rightarrow> IssueFilterParams" where
  "with_query query p = Defaults (p\<lparr>
     fp_Status := layered (fp_Status query) (fp_Status p), fp_Priority := layered (fp_Priority query) (fp_Priority p),
     fp_LabelID := layered (fp_LabelID query) (fp_LabelID p), fp_Search := layered (fp_Search query) (fp_Search p),
     fp_DueBefore := layered (fp_DueBefore query) (fp_DueBefore p),
     fp_DueAfter := layered (fp_DueAfter query) (fp_DueAfter p),
     fp_GroupBy := layered (fp_GroupBy query) (fp_GroupBy p), fp_Sort := layered (fp_Sort query) (fp_Sort p),
     fp_Order := layered (fp_Order query) (fp_Order p), fp_Page := fp_Page query, fp_PerPage := fp_PerPage query\<rparr>)"

definition buildPublicFilterParams :: "SharedLink \<Rightarrow> IssueFilterParams \<Rightarrow> IssueFilterParams office_act" where
  "buildPublicFilterParams l query =
     bindA (scope_params l) (\<lambda>p. returnA (with_query query (apply_raw_filters (sl_Filters l) p)))"

definition public_label :: "Label \<Rightarrow> PublicLabelResponse" where
  "public_label l = \<lparr>pl_ID = la_ID l, pl_Name = la_Name l, pl_Color = la_Color l, pl_Description = la_Description l,
     pl_ParentID = la_ParentID l, pl_CreatedAt = la_CreatedAt l, pl_UpdatedAt = la_UpdatedAt l\<rparr>"

definition public_user :: "User \<Rightarrow> PublicUserResponse" where
  "public_user u = \<lparr>pu_Name = us_Name u, pu_DisplayName = us_DisplayName u, pu_AvatarURL = us_AvatarURL u\<rparr>"

definition zero_user :: User where
  "zero_user = \<lparr>us_ID = uuid_Nil, us_Email = [], us_Name = [], us_DisplayName = [], us_AvatarURL = None\<rparr>"

definition public_assignees :: "uuid list \<Rightarrow> PublicUserResponse list office_act" where
  "public_assignees users = bindA (mapF (\<lambda>u. despiteF zero_user (readF (user_GetByID u))) users) (\<lambda>found.
     returnA (map public_user (concat (map optional found))))"

text \<open>One issue as the public sees it; \<open>labels\<close> and \<open>statuses\<close> are those loaded for the whole page.\<close>

definition public_issue ::
  "SharedLinkService \<Rightarrow> SharedLink \<Rightarrow> (uuid \<Rightarrow> Label list) \<Rightarrow> TeamStatus list \<Rightarrow> (uuid \<Rightarrow> uuid list) \<Rightarrow> Issue
   \<Rightarrow> PublicIssueResponse office_act" where
  "public_issue S l labels statuses assignees i =
     bindA nowF (\<lambda>now. bindA (public_assignees (assignees (ow_ID i))) (\<lambda>users. returnA
       \<lparr>pi_Identifier = iss_Identifier i, pi_Title = iss_Title i,
        pi_Description = (if sl_IncludeDescription l
          then map_option (\<lambda>t. signPublicAssetURLs S now t (ow_WorkspaceID i) (ow_ID i)) (iss_Description i) else None),
        pi_Status = iss_Status i,
        pi_StatusInfo = map_option public_status (find (\<lambda>s. Some (st_ID s) = iss_StatusID i) statuses),
        pi_Priority = iss_Priority i, pi_Labels = map public_label (labels (ow_ID i)), pi_Assignees = users,
        pi_DueDate = iss_DueDate i, pi_CreatedAt = iss_CreatedAt i, pi_UpdatedAt = iss_UpdatedAt i\<rparr>))"

definition load_statuses :: "uuid list \<Rightarrow> TeamStatus list office_act" where
  "load_statuses ids = (if ids = [] then returnA []
     else at_leastF [] (readF (\<lambda>d. filter (\<lambda>s. st_ID s \<in> set ids) (tr_statuses (of_tracker d)))))"

definition ListPublicIssues ::
  "SharedLinkService \<Rightarrow> string \<Rightarrow> IssueFilterParams \<Rightarrow> PublicIssueResponse ListResponse office_act" where
  "ListPublicIssues S token query = bindA (resolveActiveLink token) (\<lambda>l.
     bindA (buildPublicFilterParams l query) (\<lambda>params.
     bindA (queryF (repo_List (sh_sql S) (sl_WorkspaceID l) params)) (\<lambda>(issues, total).
     let ids = map ow_ID issues in
     bindA (at_leastF (\<lambda>i. []) (readF (\<lambda>d. GetLabelsForIssues (sh_collate S) ids (of_tracker d)))) (\<lambda>labels.
     bindA (at_leastF (\<lambda>i. []) (readF (\<lambda>d. GetAssigneesForIssues ids (of_tracker d)))) (\<lambda>assignees.
     bindA (load_statuses (concat (map (optional \<circ> iss_StatusID) issues))) (\<lambda>statuses.
     bindA (mapF (public_issue S l labels statuses assignees) issues) (\<lambda>rows.
     returnA \<lparr>lr_Data = rows, lr_TotalCount = total, lr_Page = fp_Page params, lr_PerPage = fp_PerPage params,
       lr_HasMore = go_int (fp_Page params * fp_PerPage params) < int total\<rparr>)))))))"

end
