(* ===== verification/Workspace_Requests.thy ===== *)
theory Workspace_Requests
  imports Shared_Links
begin

text \<open>
  Requests about workspaces from the outside to the services: the middlewares of \<open>BE/internal/middleware/workspace.go\<close>
  and \<open>permission.go\<close>, the handlers of \<open>BE/internal/handler/workspace.go\<close> and \<open>shared_link.go\<close>, the validation tags of
  their requests, \<open>PublicAsset\<close> and \<open>GetAsset\<close> of \<open>upload.go\<close>, and the routes of \<open>BE/cmd/server/main.go\<close> that lead to
  them. A request that cannot be decoded is \<open>None\<close>. Of a failed validation the fields are left out.
\<close>

section \<open>Replies\<close>

datatype 'a reply =
    Success nat 'a
  | Refused nat string string

fun status_code :: "'a reply \<Rightarrow> nat" where
  "status_code (Success n x) = n"
| "status_code (Refused n code message) = n"

fun map_reply :: "('a \<Rightarrow> 'b) \<Rightarrow> 'a reply \<Rightarrow> 'b reply" where
  "map_reply f (Success n x) = Success n (f x)"
| "map_reply f (Refused n code message) = Refused n code message"

type_synonym 'a handler = "'a reply office_act"

definition not_found :: "string \<Rightarrow> 'a reply" where
  "not_found resource = Refused 404 ''NOT_FOUND'' (resource @ '' not found'')"

definition forbidden :: "'a reply" where
  "forbidden = Refused 403 ''FORBIDDEN'' ''You do not have permission to perform this action''"

definition unauthorized :: "'a reply" where
  "unauthorized = Refused 401 ''UNAUTHORIZED'' ''Authentication required''"

definition internal_error :: "'a reply" where
  "internal_error = Refused 500 ''INTERNAL_ERROR'' ''An internal error occurred''"

definition bad_request :: "string \<Rightarrow> 'a reply" where
  "bad_request message = Refused 400 ''BAD_REQUEST'' message"

definition validation_error :: "'a reply" where
  "validation_error = Refused 400 ''VALIDATION_ERROR'' ''Request validation failed''"

text \<open>The reply to the result of a service, and a handler that decodes and validates its request first.\<close>

definition answering :: "(go_error \<Rightarrow> 'b reply) \<Rightarrow> ('a \<Rightarrow> 'b reply) \<Rightarrow> 'a office_act \<Rightarrow> 'b handler" where
  "answering bad good a = bindA (attempt a) (\<lambda>r. returnA (case r of Inl e \<Rightarrow> bad e | Inr x \<Rightarrow> good x))"

definition bound :: "('r \<Rightarrow> bool) \<Rightarrow> 'r option \<Rightarrow> ('r \<Rightarrow> 'a handler) \<Rightarrow> 'a handler" where
  "bound valid request next_step = (case request of
     None \<Rightarrow> returnA (bad_request ''Invalid request body'')
   | Some r \<Rightarrow> if valid r then next_step r else returnA validation_error)"

section \<open>Middlewares\<close>

text \<open>
  What the middlewares put into the context: the workspace and the role of the user in it. Without it the handlers
  of a workspace panic, which \<open>Recovery\<close> answers with an internal error.
\<close>

type_synonym workspace_context = "(Workspace \<times> string) option"

definition WorkspaceMembership :: "string \<Rightarrow> uuid \<Rightarrow> (workspace_context \<Rightarrow> 'a handler) \<Rightarrow> 'a handler" where
  "WorkspaceMembership slug userID next_step =
     (if slug = [] then next_step None
      else bindA (attempt (readF (workspace_GetBySlug slug))) (\<lambda>r. case r of
         Inr (Some ws) \<Rightarrow>
           if userID = uuid_Nil then returnA unauthorized
           else bindA (attempt (readF (GetMember (wk_ID ws) userID))) (\<lambda>m. case m of
               Inr (Some member) \<Rightarrow> next_step (Some (ws, wm_Role member))
             | _ \<Rightarrow> returnA forbidden)
       | _ \<Rightarrow> returnA (not_found ''Workspace'')))"

definition RequirePermission ::
  "permission \<Rightarrow> (workspace_context \<Rightarrow> 'a handler) \<Rightarrow> workspace_context \<Rightarrow> 'a handler" where
  "RequirePermission permission next_step c = (case c of
     None \<Rightarrow> returnA forbidden
   | Some (ws, role) \<Rightarrow> if HasPermission role permission then next_step c else returnA forbidden)"

definition RequireOwner :: "uuid \<Rightarrow> (workspace_context \<Rightarrow> 'a handler) \<Rightarrow> workspace_context \<Rightarrow> 'a handler" where
  "RequireOwner userID next_step c = (case c of
     None \<Rightarrow> returnA forbidden
   | Some (ws, role) \<Rightarrow> if wk_OwnerID ws = uuid_Nil \<or> wk_OwnerID ws \<noteq> userID then returnA forbidden else next_step c)"

definition with_context :: "(Workspace \<Rightarrow> string \<Rightarrow> 'a handler) \<Rightarrow> workspace_context \<Rightarrow> 'a handler" where
  "with_context h c = (case c of None \<Rightarrow> returnA internal_error | Some (ws, role) \<Rightarrow> h ws role)"

section \<open>Validation\<close>

text \<open>\<open>fe_email\<close> is the tag \<open>email\<close> and \<open>fe_uuid\<close> the tag \<open>uuid\<close> of the library; \<open>fe_ParseURL\<close> is \<open>url.Parse\<close>
  with the scheme and the host name.\<close>

record frontend =
  fe_links :: SharedLinkService
  fe_email :: "string \<Rightarrow> bool"
  fe_uuid :: "string \<Rightarrow> bool"
  fe_ParseURL :: "string \<Rightarrow> (string \<times> string) option"
  fe_ToLower :: "string \<Rightarrow> string"

definition rune_count :: "string \<Rightarrow> nat" where
  "rune_count s = length (runes s)"

definition isSlug :: "string \<Rightarrow> bool" where
  "isSlug s \<longleftrightarrow> list_all (\<lambda>part. part \<noteq> []
     \<and> list_all (\<lambda>c. let b = byte c in 97 \<le> b \<and> b \<le> 122 \<or> 48 \<le> b \<and> b \<le> 57) part) (Split s (CHR ''-''))"

definition valid_create :: "CreateWorkspaceRequest \<Rightarrow> bool" where
  "valid_create r \<longleftrightarrow> cw_Name r \<noteq> [] \<and> rune_count (cw_Name r) \<le> 100
     \<and> cw_Slug r \<noteq> [] \<and> rune_count (cw_Slug r) \<le> 50 \<and> isSlug (cw_Slug r)"

definition valid_update :: "UpdateWorkspaceRequest \<Rightarrow> bool" where
  "valid_update r \<longleftrightarrow> (case uw_Name r of None \<Rightarrow> True | Some s \<Rightarrow> s \<noteq> [] \<and> rune_count s \<le> 100)
     \<and> (case uw_ShareLinkMinRole r of None \<Rightarrow> True | Some s \<Rightarrow> s \<in> {RoleOwner, RoleAdmin, RoleMember})"

definition valid_invite :: "frontend \<Rightarrow> InviteMemberRequest \<Rightarrow> bool" where
  "valid_invite F r \<longleftrightarrow> im_Email r \<noteq> [] \<and> fe_email F (im_Email r) \<and> im_Role r \<in> {RoleAdmin, RoleMember, RoleGuest}"

definition valid_role :: "string \<Rightarrow> bool" where
  "valid_role r \<longleftrightarrow> r \<in> {RoleOwner, RoleAdmin, RoleMember, RoleGuest}"

definition valid_link :: "frontend \<Rightarrow> CreateSharedLinkRequest \<Rightarrow> bool" where
  "valid_link F r \<longleftrightarrow> cl_Scope r \<in> {''workspace'', ''team'', ''project'', ''view''}
     \<and> (case cl_ScopeID r of None \<Rightarrow> True | Some s \<Rightarrow> fe_uuid F s)"

definition validateLogoURL :: "frontend \<Rightarrow> string \<Rightarrow> bool" where
  "validateLogoURL F raw = (case fe_ParseURL F (TrimSpace raw) of None \<Rightarrow> False
     | Some (scheme, host) \<Rightarrow> host \<noteq> [] \<and> fe_ToLower F scheme \<in> {''http'', ''https''})"

definition parseUUID :: "frontend \<Rightarrow> string \<Rightarrow> uuid option" where
  "parseUUID F s = (case sq_uuid_Parse (sh_sql (fe_links F)) s of (i, ok) \<Rightarrow> if ok then Some i else None)"

section \<open>Handlers of workspaces and members\<close>

record WorkspaceResponse =
  wr_Workspace :: Workspace
  wr_Owner :: "User option"
  wr_CurrentUserRole :: string

definition toWorkspaceResponse :: "string \<Rightarrow> Workspace \<Rightarrow> WorkspaceResponse office_act" where
  "toWorkspaceResponse role ws = bindA (at_leastF None (GetOwner ws)) (\<lambda>owner.
     returnA \<lparr>wr_Workspace = ws, wr_Owner = owner, wr_CurrentUserRole = role\<rparr>)"

definition responding :: "string \<Rightarrow> nat \<Rightarrow> (go_error \<Rightarrow> WorkspaceResponse reply) \<Rightarrow> Workspace office_act
   \<Rightarrow> WorkspaceResponse handler" where
  "responding role code bad a = bindA (attempt a) (\<lambda>r. case r of
     Inl e \<Rightarrow> returnA (bad e)
   | Inr ws \<Rightarrow> bindA (toWorkspaceResponse role ws) (\<lambda>x. returnA (Success code x)))"

definition handle_List :: "frontend \<Rightarrow> uuid \<Rightarrow> WorkspaceResponse list handler" where
  "handle_List F userID = bindA (attempt (svc_ListByUser (sh_collate (fe_links F)) userID)) (\<lambda>r. case r of
     Inl e \<Rightarrow> returnA internal_error
   | Inr ws \<Rightarrow> bindA (mapF (toWorkspaceResponse []) ws) (\<lambda>xs. returnA (Success 200 xs)))"

definition handle_Create :: "uuid \<Rightarrow> CreateWorkspaceRequest option \<Rightarrow> WorkspaceResponse handler" where
  "handle_Create userID request = bound valid_create request (\<lambda>req. responding [] 201 (\<lambda>e.
     if e = ServiceError ErrServiceWorkspaceSlugTaken []
     then Refused 409 ''WORKSPACE_SLUG_TAKEN'' ''Workspace slug is already taken'' else internal_error)
     (svc_Create userID req))"

definition handle_Get :: "Workspace \<Rightarrow> string \<Rightarrow> WorkspaceResponse handler" where
  "handle_Get ws role = bindA (toWorkspaceResponse role ws) (\<lambda>x. returnA (Success 200 x))"

definition update_refusal :: "go_error \<Rightarrow> 'a reply" where
  "update_refusal e =
     (if e = ServiceError ErrWorkspaceNotFound [] then not_found ''Workspace''
      else if e = ServiceError ErrNotWorkspaceOwner []
      then Refused 403 ''FORBIDDEN'' ''Only the workspace owner can edit workspace settings''
      else internal_error)"

definition handle_Update ::
  "frontend \<Rightarrow> string \<Rightarrow> uuid \<Rightarrow> UpdateWorkspaceRequest option \<Rightarrow> string \<Rightarrow> WorkspaceResponse handler" where
  "handle_Update F slug userID request role = bound valid_update request (\<lambda>req.
     if (case uw_LogoURL req of Some (Some s) \<Rightarrow> TrimSpace s \<noteq> [] \<and> \<not> validateLogoURL F s | _ \<Rightarrow> False)
     then returnA validation_error
     else responding role 200 update_refusal (svc_Update slug userID req))"

definition delete_refusal :: "go_error \<Rightarrow> 'a reply" where
  "delete_refusal e =
     (if e = ServiceError ErrWorkspaceNotFound [] then not_found ''Workspace''
      else if e = ServiceError ErrNotWorkspaceOwner []
      then Refused 403 ''FORBIDDEN'' ''Only the workspace owner can delete this workspace''
      else if e = ServiceError ErrServiceWorkspaceHasRuntimes []
      then Refused 409 ''WORKSPACE_HAS_DEV_MACHINES'' ''Destroy all dev machines before deleting this workspace''
      else if e = ServiceError ErrServiceWorkspaceCleanupPending []
      then Refused 409 ''WORKSPACE_CLEANUP_PENDING''
        ''Development environment image cleanup is in progress; retry workspace deletion shortly''
      else internal_error)"

definition handle_Delete :: "string \<Rightarrow> uuid \<Rightarrow> unit handler" where
  "handle_Delete slug userID = answering delete_refusal (Success 200) (svc_Delete slug userID)"

text \<open>The handlers of members and links report the text of an error.\<close>

definition refusing :: "go_error \<Rightarrow> 'a reply" where
  "refusing e = bad_request (error_text (\<lambda>s. ''store'') e)"

definition handle_Invite :: "frontend \<Rightarrow> InviteMemberRequest option \<Rightarrow> Workspace \<Rightarrow> string \<Rightarrow> unit handler" where
  "handle_Invite F request ws role = bound (valid_invite F) request (\<lambda>req.
     answering refusing (Success 200) (svc_InviteMember (wk_ID ws) req))"

definition handle_ListMembers :: "Workspace \<Rightarrow> string \<Rightarrow> WorkspaceMemberWithUser list handler" where
  "handle_ListMembers ws role =
     answering (\<lambda>e. internal_error) (Success 200) (svc_ListMembersWithUsers (wk_ID ws))"

definition handle_UpdateMemberRole ::
  "frontend \<Rightarrow> string \<Rightarrow> string option \<Rightarrow> Workspace \<Rightarrow> string \<Rightarrow> unit handler" where
  "handle_UpdateMemberRole F user request ws role = bound valid_role request (\<lambda>new_role. case parseUUID F user of
     None \<Rightarrow> returnA (bad_request ''Invalid user ID'')
   | Some userID \<Rightarrow> answering refusing (Success 200) (svc_UpdateMemberRole (wk_ID ws) userID new_role))"

definition handle_RemoveMember :: "frontend \<Rightarrow> string \<Rightarrow> Workspace \<Rightarrow> string \<Rightarrow> unit handler" where
  "handle_RemoveMember F user ws role = (case parseUUID F user of
     None \<Rightarrow> returnA (bad_request ''Invalid user ID'')
   | Some userID \<Rightarrow> answering refusing (Success 200) (svc_RemoveMember (wk_ID ws) userID))"

section \<open>Handlers of shared links\<close>

definition may_share :: "Workspace \<Rightarrow> string \<Rightarrow> 'a handler \<Rightarrow> 'a handler" where
  "may_share ws role h = (if CanCreateSharedLink role (wk_ShareLinkMinRole ws) then h else returnA forbidden)"

definition handle_CreateLink ::
  "frontend \<Rightarrow> uuid \<Rightarrow> CreateSharedLinkRequest option \<Rightarrow> Workspace \<Rightarrow> string \<Rightarrow> SharedLink handler" where
  "handle_CreateLink F userID request ws role = bound (valid_link F) request (\<lambda>req. may_share ws role
     (answering refusing (Success 201) (link_svc_Create (fe_links F) (wk_ID ws) userID req)))"

definition handle_ListLinks :: "Workspace \<Rightarrow> string \<Rightarrow> SharedLink list handler" where
  "handle_ListLinks ws role = may_share ws role
     (answering (\<lambda>e. internal_error) (Success 200) (link_svc_List (wk_ID ws)))"

definition handle_UpdateLink ::
  "frontend \<Rightarrow> string \<Rightarrow> UpdateSharedLinkRequest option \<Rightarrow> Workspace \<Rightarrow> string \<Rightarrow> SharedLink handler" where
  "handle_UpdateLink F i request ws role = (case parseUUID F i of
     None \<Rightarrow> returnA (bad_request ''Invalid shared link ID'')
   | Some linkID \<Rightarrow> (case request of
       None \<Rightarrow> returnA (bad_request ''Invalid request body'')
     | Some req \<Rightarrow> may_share ws role
         (answering refusing (Success 200) (link_svc_Update (fe_links F) linkID req))))"

definition handle_DeleteLink :: "frontend \<Rightarrow> string \<Rightarrow> Workspace \<Rightarrow> string \<Rightarrow> unit handler" where
  "handle_DeleteLink F i ws role = (case parseUUID F i of
     None \<Rightarrow> returnA (bad_request ''Invalid shared link ID'')
   | Some linkID \<Rightarrow> may_share ws role (answering refusing (Success 200) (link_svc_Delete linkID)))"

definition handle_GetPublicMeta :: "string \<Rightarrow> PublicShareMetaResponse handler" where
  "handle_GetPublicMeta token = (if token = [] then returnA (not_found ''Share link'')
     else answering (\<lambda>e. not_found ''Share link'') (Success 200) (GetPublicMeta token))"

definition handle_ListPublicIssues ::
  "frontend \<Rightarrow> string \<Rightarrow> IssueFilterParams option \<Rightarrow> PublicIssueResponse ListResponse handler" where
  "handle_ListPublicIssues F token query = (if token = [] then returnA (not_found ''Share link'')
     else case query of None \<Rightarrow> returnA (bad_request ''Invalid parameters'')
       | Some q \<Rightarrow> answering (\<lambda>e. not_found ''Share link'') (Success 200) (ListPublicIssues (fe_links F) token q))"

section \<open>Assets\<close>

text \<open>Which asset a request streams: that of a valid token, or that of a workspace.\<close>

definition PublicAsset :: "frontend \<Rightarrow> string \<Rightarrow> Asset handler" where
  "PublicAsset F token = bindA nowF (\<lambda>now. case Validate (fe_links F) now token of
     None \<Rightarrow> returnA (not_found ''Asset'')
   | Some c \<Rightarrow> bindA (attempt (readF (asset_GetByID (ac_AssetID c)))) (\<lambda>r. returnA (case r of
       Inr (Some a) \<Rightarrow> if ast_WorkspaceID a \<noteq> ac_WorkspaceID c then not_found ''Asset'' else Success 200 a
     | _ \<Rightarrow> not_found ''Asset'')))"

definition GetAsset :: "frontend \<Rightarrow> string \<Rightarrow> Workspace \<Rightarrow> string \<Rightarrow> Asset handler" where
  "GetAsset F i ws role = (case parseUUID F i of
     None \<Rightarrow> returnA (not_found ''Asset'')
   | Some assetID \<Rightarrow> bindA (attempt (readF (asset_GetByID assetID))) (\<lambda>r. returnA (case r of
       Inr (Some a) \<Rightarrow> if ast_WorkspaceID a \<noteq> wk_ID ws then not_found ''Asset'' else Success 200 a
     | _ \<Rightarrow> not_found ''Asset'')))"

section \<open>Routes\<close>

datatype workspace_request =
    ListWorkspaces
  | CreateWorkspace "CreateWorkspaceRequest option"
  | GetWorkspace string
  | UpdateWorkspace string "UpdateWorkspaceRequest option"
  | DeleteWorkspace string
  | Invite string "InviteMemberRequest option"
  | ListWorkspaceMembers string
  | UpdateMemberRole string string "string option"
  | RemoveMember string string
  | ListLinks string
  | CreateLink string "CreateSharedLinkRequest option"
  | UpdateLink string string "UpdateSharedLinkRequest option"
  | DeleteLink string string

text \<open>The status of the reply to an authenticated user.\<close>

definition code_of :: "'a handler \<Rightarrow> nat office_act" where
  "code_of h = bindA h (\<lambda>r. returnA (status_code r))"

definition in_workspace :: "string \<Rightarrow> uuid \<Rightarrow> (workspace_context \<Rightarrow> 'a handler) \<Rightarrow> nat office_act" where
  "in_workspace slug userID h = code_of (WorkspaceMembership slug userID h)"

fun serve_workspaces :: "frontend \<Rightarrow> uuid \<Rightarrow> workspace_request \<Rightarrow> nat office_act" where
  "serve_workspaces F user ListWorkspaces = code_of (handle_List F user)"
| "serve_workspaces F user (CreateWorkspace r) = code_of (handle_Create user r)"
| "serve_workspaces F user (GetWorkspace slug) = in_workspace slug user (with_context handle_Get)"
| "serve_workspaces F user (UpdateWorkspace slug r) =
     in_workspace slug user (RequireOwner user (with_context (\<lambda>ws. handle_Update F slug user r)))"
| "serve_workspaces F user (DeleteWorkspace slug) =
     in_workspace slug user (RequireOwner user (with_context (\<lambda>ws role. handle_Delete slug user)))"
| "serve_workspaces F user (Invite slug r) =
     in_workspace slug user (RequirePermission PermMemberInvite (with_context (handle_Invite F r)))"
| "serve_workspaces F user (ListWorkspaceMembers slug) = in_workspace slug user (with_context handle_ListMembers)"
| "serve_workspaces F user (UpdateMemberRole slug u r) =
     in_workspace slug user (RequirePermission PermMemberInvite (with_context (handle_UpdateMemberRole F u r)))"
| "serve_workspaces F user (RemoveMember slug u) =
     in_workspace slug user (RequirePermission PermMemberInvite (with_context (handle_RemoveMember F u)))"
| "serve_workspaces F user (ListLinks slug) = in_workspace slug user (with_context handle_ListLinks)"
| "serve_workspaces F user (CreateLink slug r) = in_workspace slug user (with_context (handle_CreateLink F user r))"
| "serve_workspaces F user (UpdateLink slug i r) = in_workspace slug user (with_context (handle_UpdateLink F i r))"
| "serve_workspaces F user (DeleteLink slug i) = in_workspace slug user (with_context (handle_DeleteLink F i))"

end
