(* ===== verification/Workspace_Rules.thy ===== *)
theory Workspace_Rules
  imports Workspace_Requests
begin

text \<open>
  Rules for the actions on the front office: what they keep under interference by other requests (judgement \<open>holds\<close>),
  what they keep of the tables (\<open>leaves\<close>), and what they do when nobody interferes (collection \<open>calm\<close>).
\<close>

section \<open>Facts that stay\<close>

text \<open>
  The tables satisfy \<open>J\<close>, which every other request of the script keeps, and identifiers still to be drawn satisfy
  \<open>U\<close>. \<open>holds J U a Q\<close> says that the action keeps it so, and that its result, if it has one, satisfies \<open>Q\<close>.
\<close>

definition steady :: "(office \<Rightarrow> bool) \<Rightarrow> (uuid \<Rightarrow> bool) \<Rightarrow> front \<Rightarrow> bool" where
  "steady J U k \<longleftrightarrow> J (ft_db k) \<and> list_all (\<lambda>e. \<forall>d. J d \<longrightarrow> J (fst (snd e) d)) (ft_script k) \<and> (\<forall>i \<ge> ft_fresh k. U i)"

definition holds :: "(office \<Rightarrow> bool) \<Rightarrow> (uuid \<Rightarrow> bool) \<Rightarrow> 'a office_act \<Rightarrow> ('a \<Rightarrow> bool) \<Rightarrow> bool" where
  "holds J U a Q \<longleftrightarrow> (\<forall>k. steady J U k \<longrightarrow> steady J U (snd (a k)) \<and> (\<forall>x. fst (a k) = Inr x \<longrightarrow> Q x))"

lemma holdsD: "holds J U a Q \<Longrightarrow> steady J U k \<Longrightarrow> steady J U (snd (a k))"
  by (simp add: holds_def)

lemma holds_weaken: "holds J U a Q \<Longrightarrow> (\<And>x. Q x \<Longrightarrow> R x) \<Longrightarrow> holds J U a R"
  unfolding holds_def by blast

named_theorems holding \<open>actions that keep an invariant\<close>

lemma holds_return: "Q x \<Longrightarrow> holds J U (returnA x) Q"
  by (simp add: holds_def returnA_def)

lemma holds_fail [holding]: "holds J U (failA e) Q" "holds J U (failF s) Q"
  by (simp_all add: holds_def failA_def failF_def)

lemma holds_bind:
  assumes "holds J U a Q" and "\<And>x. Q x \<Longrightarrow> holds J U (f x) R"
  shows "holds J U (bindA a f) R"
  unfolding holds_def
proof (intro allI impI)
  fix k assume "steady J U k"
  with assms(1) have a: "steady J U (snd (a k))" "\<And>x. fst (a k) = Inr x \<Longrightarrow> Q x" by (auto simp: holds_def)
  show "steady J U (snd (bindA a f k)) \<and> (\<forall>x. fst (bindA a f k) = Inr x \<longrightarrow> R x)"
  proof (cases "fst (a k)")
    case (Inl e)
    then show ?thesis using a(1) by (simp add: bindA_def split_beta)
  next
    case (Inr x)
    then show ?thesis using assms(2) [OF a(2) [OF Inr]] a(1) by (simp add: bindA_def split_beta holds_def)
  qed
qed

lemma holds_then: "holds J U a (\<lambda>x. True) \<Longrightarrow> holds J U b R \<Longrightarrow> holds J U (thenA a b) R"
  unfolding thenA_def by (rule holds_bind)

lemma holds_attempt: "holds J U a Q \<Longrightarrow> holds J U (attempt a) (\<lambda>r. \<forall>x. r = Inr x \<longrightarrow> Q x)"
  by (simp add: holds_def attempt_def split_beta)

lemma holds_found: "holds J U a (\<lambda>r. \<forall>x. r = Some x \<longrightarrow> Q x) \<Longrightarrow> holds J U (foundF e a) Q"
  unfolding foundF_def
  by (rule holds_bind, erule holds_attempt) (auto intro: holds_return holds_fail split: sum.split option.split)

lemma holds_at_least: "holds J U a Q \<Longrightarrow> Q z \<Longrightarrow> holds J U (at_leastF z a) Q"
  unfolding at_leastF_def
  by (rule holds_bind, erule holds_attempt) (auto intro: holds_return split: sum.split)

lemma holds_store:
  assumes "\<And>now d x d'. J d \<Longrightarrow> f now d = Inr (x, d') \<Longrightarrow> J d' \<and> Q x"
  shows "holds J U (storeF f) Q"
  unfolding holds_def
proof (intro allI impI)
  fix k assume k: "steady J U k"
  show "steady J U (snd (storeF f k)) \<and> (\<forall>x. fst (storeF f k) = Inr x \<longrightarrow> Q x)"
  proof (cases "ft_script k")
    case Nil
    then show ?thesis
      using k assms [of "ft_db k" "ft_now k"] by (auto simp: steady_def storeF_def split: sum.splits)
  next
    case (Cons e rest)
    obtain dt g fault where e: "e = (dt, g, fault)" by (cases e)
    have "J (g (ft_db k))" and "list_all (\<lambda>e. \<forall>d. J d \<longrightarrow> J (fst (snd e) d)) rest" "\<forall>i \<ge> ft_fresh k. U i"
      using k Cons e by (simp_all add: steady_def)
    then show ?thesis
      using assms [of "g (ft_db k)" "ft_now k + dt"]
      by (cases "f (ft_now k + dt) (g (ft_db k))") (auto simp: steady_def storeF_def Let_def Cons e split: option.split)
  qed
qed

lemma holds_read: "(\<And>d. J d \<Longrightarrow> Q (f d)) \<Longrightarrow> holds J U (readF f) Q"
  unfolding readF_def by (rule holds_store) auto

lemma holds_query: "holds J U (queryF f) (\<lambda>x. True)"
  unfolding queryF_def by (rule holds_store) (auto split: sum.splits)

lemma holds_write: "(\<And>now d d'. J d \<Longrightarrow> f now d = Inr d' \<Longrightarrow> J d') \<Longrightarrow> holds J U (writeF f) (\<lambda>u. True)"
  unfolding writeF_def by (rule holds_store) (auto split: sum.splits)

lemma holds_fresh: "holds J U freshF U"
  by (simp add: holds_def freshF_def steady_def)

lemma holds_random [holding]: "holds J U randomF (\<lambda>x. True)"
  by (auto simp: holds_def randomF_def steady_def split: option.split)

lemma holds_now [holding]: "holds J U nowF (\<lambda>x. True)"
  by (simp add: holds_def nowF_def getA_def steady_def)

lemma holds_map: "(\<And>x. holds J U (f x) (\<lambda>y. True)) \<Longrightarrow> holds J U (mapF f xs) (\<lambda>ys. True)"
  by (induction xs) (auto intro!: holds_bind [where Q = "\<lambda>y. True"] holds_return)

text \<open>The weaker judgement, without a fact on the result.\<close>

definition keeps :: "(office \<Rightarrow> bool) \<Rightarrow> (uuid \<Rightarrow> bool) \<Rightarrow> 'a office_act \<Rightarrow> bool" where
  "keeps J U a \<longleftrightarrow> holds J U a (\<lambda>x. True)"

lemma office_keepsD: "keeps J U a \<Longrightarrow> steady J U k \<Longrightarrow> steady J U (snd (a k))"
  unfolding keeps_def by (rule holdsD)

lemma keepsI: "holds J U a Q \<Longrightarrow> keeps J U a"
  unfolding keeps_def by (rule holds_weaken) simp_all

lemma office_keeps_basic [holding]:
  "keeps J U (returnA x)" "keeps J U (failA e)" "keeps J U (failF s)" "keeps J U freshF" "keeps J U randomF"
  "keeps J U nowF" "keeps J U (readF f)" "keeps J U (queryF g)"
  unfolding keeps_def
  by (rule holds_return holds_fail holds_weaken [OF holds_fresh] holds_random holds_now holds_query TrueI
      | rule holds_read, rule TrueI)+

lemma office_keeps_bind [holding]: "keeps J U a \<Longrightarrow> (\<And>x. keeps J U (f x)) \<Longrightarrow> keeps J U (bindA a f)"
  unfolding keeps_def by (rule holds_bind)

lemma office_keeps_known: "holds J U a Q \<Longrightarrow> (\<And>x. Q x \<Longrightarrow> keeps J U (f x)) \<Longrightarrow> keeps J U (bindA a f)"
  unfolding keeps_def by (rule holds_bind)

lemma office_keeps_then [holding]: "keeps J U a \<Longrightarrow> keeps J U b \<Longrightarrow> keeps J U (thenA a b)"
  unfolding keeps_def by (rule holds_then)

lemma office_keeps_attempt [holding]: "keeps J U a \<Longrightarrow> keeps J U (attempt a)"
  unfolding keeps_def by (rule holds_weaken [OF holds_attempt]) simp_all

lemma office_keeps_found [holding]: "keeps J U a \<Longrightarrow> keeps J U (foundF e a)"
  unfolding keeps_def by (rule holds_found, rule holds_weaken) simp_all

lemma office_keeps_at_least [holding]: "keeps J U a \<Longrightarrow> keeps J U (at_leastF z a)" "keeps J U b \<Longrightarrow> keeps J U (despiteF y b)"
  unfolding keeps_def despiteF_def by (rule holds_at_least; simp)+

lemma office_keeps_map [holding]: "(\<And>x. keeps J U (f x)) \<Longrightarrow> keeps J U (mapF f xs)"
  unfolding keeps_def by (rule holds_map)

lemma office_keeps_cases [holding]:
  "(b \<Longrightarrow> keeps J U a1) \<Longrightarrow> (\<not> b \<Longrightarrow> keeps J U a2) \<Longrightarrow> keeps J U (if b then a1 else a2)"
  "(x = None \<Longrightarrow> keeps J U a3) \<Longrightarrow> (\<And>y. x = Some y \<Longrightarrow> keeps J U (a4 y)) \<Longrightarrow> keeps J U (case x of None \<Rightarrow> a3 | Some y \<Rightarrow> a4 y)"
  "(\<And>e. s = Inl e \<Longrightarrow> keeps J U (a5 e)) \<Longrightarrow> (\<And>y. s = Inr y \<Longrightarrow> keeps J U (a6 y)) \<Longrightarrow>
    keeps J U (case s of Inl e \<Rightarrow> a5 e | Inr y \<Rightarrow> a6 y)"
  "(\<And>v w. p = (v, w) \<Longrightarrow> keeps J U (a7 v w)) \<Longrightarrow> keeps J U (case p of (v, w) \<Rightarrow> a7 v w)"
  by (simp_all split: option.split sum.split prod.split)

lemma office_keeps_renamed [holding]: "keeps J U a \<Longrightarrow> keeps J U (renamed table a)"
  unfolding renamed_def
proof (rule office_keeps_bind [OF office_keeps_attempt])
  fix r :: "go_error + 'a"
  show "keeps J U (case r of Inr x \<Rightarrow> returnA x
     | Inl (StoreError e) \<Rightarrow> (case map_of table e of Some s \<Rightarrow> failA (ServiceError s []) | None \<Rightarrow> failA (StoreError e))
     | Inl e \<Rightarrow> failA e)"
    by (auto intro: holding split: sum.split go_error.split option.split)
qed

text \<open>Handlers and middlewares.\<close>

lemma office_keeps_handlers [holding]:
  "keeps J U a \<Longrightarrow> keeps J U (answering bad good a)"
  "(\<And>r. valid r \<Longrightarrow> keeps J U (f r)) \<Longrightarrow> keeps J U (bound valid request f)"
  "keeps J U (toWorkspaceResponse role ws)"
  "keeps J U b \<Longrightarrow> keeps J U (responding role code bad' b)"
  "keeps J U h \<Longrightarrow> keeps J U (may_share ws role h)"
  "keeps J U h \<Longrightarrow> keeps J U (code_of h)"
  by (auto intro!: holding simp: answering_def bound_def toWorkspaceResponse_def GetOwner_def responding_def
    may_share_def code_of_def split: option.split)

lemma office_keeps_middlewares [holding]:
  "(\<And>c. keeps J U (h c)) \<Longrightarrow> keeps J U (in_workspace slug user h)"
  "(\<And>c. keeps J U (h c)) \<Longrightarrow> keeps J U (RequirePermission permission h c)"
  "(\<And>c. keeps J U (h c)) \<Longrightarrow> keeps J U (RequireOwner user h c)"
  "(\<And>ws role. keeps J U (g ws role)) \<Longrightarrow> keeps J U (with_context g c)"
proof -
  assume h: "\<And>c. keeps J U (h c)"
  show "keeps J U (in_workspace slug user h)"
    unfolding in_workspace_def WorkspaceMembership_def
    by (intro holding h | (auto intro!: holding h split: sum.split option.split)[1])+
qed (auto intro!: holding simp: RequirePermission_def RequireOwner_def with_context_def split: option.split)

section \<open>Without interference\<close>

named_theorems calm \<open>actions without interference\<close>

lemma storeF_calm [calm]: "ft_script k = [] \<Longrightarrow> storeF f k = (case f (ft_now k) (ft_db k) of
    Inl e \<Rightarrow> (Inl (StoreError e), k) | Inr (x, d) \<Rightarrow> (Inr x, k\<lparr>ft_db := d\<rparr>))"
  by (simp add: storeF_def)

lemma same_office_db [simp]: "k\<lparr>ft_db := ft_db k\<rparr> = k"
  by simp

lemma readF_calm [calm]: "ft_script k = [] \<Longrightarrow> readF f k = (Inr (f (ft_db k)), k)"
  by (simp add: readF_def storeF_calm)

lemma queryF_calm [calm]: "ft_script k = [] \<Longrightarrow> queryF f k = (case f (ft_db k) of
    Inl e \<Rightarrow> (Inl (StoreError e), k) | Inr x \<Rightarrow> (Inr x, k))"
  by (simp add: queryF_def storeF_calm split: sum.split)

lemma writeF_calm [calm]: "ft_script k = [] \<Longrightarrow> writeF f k = (case f (ft_now k) (ft_db k) of
    Inl e \<Rightarrow> (Inl (StoreError e), k) | Inr d \<Rightarrow> (Inr (), k\<lparr>ft_db := d\<rparr>))"
  by (simp add: writeF_def storeF_calm split: sum.split)

lemma bind_calm [calm]: "bindA a f k = (case a k of (Inl e, k') \<Rightarrow> (Inl e, k') | (Inr x, k') \<Rightarrow> f x k')"
  by (simp add: bindA_def split: prod.split sum.split)

lemma basic_calm [calm]:
  "returnA x k = (Inr x, k)" "failA e k = (Inl e, k)" "failF s k = (Inl (Errorf s), k)" "thenA a b = bindA a (\<lambda>_. b)"
  "nowF k = (Inr (ft_now k), k)" "attempt a k = (Inr (fst (a k)), snd (a k))"
  by (simp_all add: returnA_def failF_def failA_def thenA_def nowF_def getA_def attempt_def split_beta)

lemma foundF_calm [calm]: "ft_script k = [] \<Longrightarrow> foundF e (readF f) k =
    (case f (ft_db k) of None \<Rightarrow> (Inl e, k) | Some x \<Rightarrow> (Inr x, k))"
  by (simp add: foundF_def calm split: option.split)

lemma at_leastF_calm [calm]: "ft_script k = [] \<Longrightarrow> at_leastF z (readF f) k = (Inr (f (ft_db k)), k)"
  by (simp add: at_leastF_def calm)

lemma despiteF_calm [calm]: "ft_script k = [] \<Longrightarrow> despiteF z (readF f) k = (Inr (f (ft_db k)), k)"
  by (simp add: despiteF_def calm)

lemma mapF_calm: "(\<And>x. x \<in> set xs \<Longrightarrow> f x k = (Inr (g x), k)) \<Longrightarrow> mapF f xs k = (Inr (map g xs), k)"
  by (induction xs) (simp_all add: calm)

section \<open>Samples\<close>

text \<open>
  A small front office for the witnesses: workspace 1 with the slug \<open>acme\<close>, its owner 7 and the member 8, team 2 with
  the issue 11, which is urgent, and the issue 12, and a link to the team; and what the services need from outside.
\<close>

definition user_row :: "uuid \<Rightarrow> string \<Rightarrow> User" where
  "user_row i name = \<lparr>us_ID = i, us_Email = name, us_Name = name, us_DisplayName = name, us_AvatarURL = None\<rparr>"

definition acme :: Workspace where
  "acme = \<lparr>wk_ID = 1, wk_Name = ''A'', wk_Slug = ''acme'', wk_LogoURL = None, wk_OwnerID = 7,
     wk_ShareLinkMinRole = ''admin'', wk_CreatedAt = 0, wk_UpdatedAt = 0\<rparr>"

definition member_row :: "uuid \<Rightarrow> string \<Rightarrow> WorkspaceMember" where
  "member_row u role = \<lparr>wm_WorkspaceID = 1, wm_UserID = u, wm_Role = role, wm_CreatedAt = 0\<rparr>"

definition issue_row :: "uuid \<Rightarrow> int \<Rightarrow> string \<Rightarrow> string \<Rightarrow> string \<Rightarrow> Issue" where
  "issue_row i n name status text = \<lparr>ow_ID = i, ow_WorkspaceID = 1, iss_TeamID = 2, iss_ProjectID = None,
     iss_CycleID = None, iss_Number = n, iss_Identifier = name, iss_Title = name, iss_Description = Some text,
     iss_Status = status, iss_Priority = n, iss_CreatorID = 7, iss_AssigneeID = None, iss_ParentID = None,
     iss_DueDate = None, iss_SortOrder = 0, iss_StatusID = None, iss_Triaged = True, iss_StartedAt = None,
     iss_CompletedAt = None, iss_CancelledAt = None, iss_TriagedAt = None, iss_CreatedAt = n, iss_UpdatedAt = n\<rparr>"

definition tracker_rows :: "Issue list \<Rightarrow> tracker" where
  "tracker_rows issues = \<lparr>tr_workspaces = [1], tr_users = [7, 8], tr_teams = [], tr_statuses = [], tr_projects = [],
     tr_cycles = [], tr_labels = [], tr_issues = issues, tr_issue_labels = [], tr_assignees = [], tr_subscribers = [],
     tr_history = [], tr_relations = [], tr_notifications = [], tr_lifecycle = []\<rparr>"

definition team_link :: SharedLink where
  "team_link = \<lparr>sl_ID = 5, sl_Token = ''t'', sl_WorkspaceID = 1, sl_CreatedBy = 7, sl_Scope = ''team'',
     sl_ScopeID = Some 2, sl_Filters = ''{}'', sl_IncludeDescription = False, sl_IsActive = True, sl_ExpiresAt = None,
     sl_CreatedAt = 0, sl_UpdatedAt = 0\<rparr>"

definition office0 :: office where
  "office0 = \<lparr>of_tracker = tracker_rows [issue_row 11 1 ''K-1'' ''d'' ''x'', issue_row 12 2 ''K-2'' ''t'' ''y''],
     of_machines = db0\<lparr>db_machines := [], db_members := [member_row 7 ''owner'', member_row 8 ''member'']\<rparr>,
     of_workspaces = [acme], of_users = [user_row 7 ''u'', user_row 8 ''v''], of_views = [], of_links = [team_link],
     of_cycles = [], of_assets = []\<rparr>"

definition front0 :: front where
  "front0 = \<lparr>ft_db = office0, ft_now = 5, ft_fresh = 100, ft_random = (\<lambda>n. Some ''r''), ft_draws = 0, ft_script = []\<rparr>"

definition sql0 :: sql where
  "sql0 = \<lparr>sq_uuid = (\<lambda>s. if s = uuid_String 2 then Some 2 else None), sq_int = (\<lambda>s. if s = ''1'' then Some 1 else if s = ''2'' then Some 2 else None), sq_date = (\<lambda>s. None),
     sq_lower = (\<lambda>s. s), sq_to_char = (\<lambda>t. []), sq_uuid_Parse = (\<lambda>s. if s = ''8'' then (8, True) else if s = ''5'' then (5, True) else (0, False))\<rparr>"

definition links0 :: SharedLinkService where
  "links0 = \<lparr>sh_sql = sql0, sh_collate = length, sh_ParseTime = (\<lambda>s. None), sh_assetTokenSecret = ''s'',
     sh_SignedString = (\<lambda>c s. None), sh_ParseWithClaims = (\<lambda>now t s. None)\<rparr>"

definition frontend0 :: frontend where
  "frontend0 = \<lparr>fe_links = links0, fe_email = (\<lambda>s. True), fe_uuid = (\<lambda>s. True), fe_ParseURL = (\<lambda>s. None),
     fe_ToLower = (\<lambda>s. s)\<rparr>"

text \<open>The same office with another description of issue 11 and another address of user 8.\<close>

definition front1 :: front where
  "front1 = front0\<lparr>ft_db := office0\<lparr>
     of_tracker := tracker_rows [issue_row 11 1 ''K-1'' ''d'' ''z'', issue_row 12 2 ''K-2'' ''t'' ''y''],
     of_users := [user_row 7 ''u'', (user_row 8 ''v'')\<lparr>us_Email := ''w''\<rparr>]\<rparr>\<rparr>"

text \<open>A link with a filter, a link to a view that is gone, and a second workspace, of user 8, who is in no other.\<close>

definition urgent_link :: SharedLink where
  "urgent_link = team_link\<lparr>sl_ID := 6, sl_Token := ''f'', sl_Scope := ''workspace'', sl_ScopeID := None,
     sl_Filters := ''{\"priority\":\"1\"}''\<rparr>"

definition view_link :: SharedLink where
  "view_link = team_link\<lparr>sl_ID := 9, sl_Token := ''v'', sl_Scope := ''view'', sl_ScopeID := Some 33\<rparr>"

definition zeta :: Workspace where
  "zeta = acme\<lparr>wk_ID := 3, wk_Slug := ''zeta'', wk_OwnerID := 8\<rparr>"

definition front2 :: front where
  "front2 = front0\<lparr>ft_db := office0\<lparr>of_workspaces := [acme, zeta], of_links := [team_link, urgent_link, view_link],
     of_machines := db0\<lparr>db_machines := [], db_members := [member_row 7 ''owner'',
       (member_row 8 ''owner'')\<lparr>wm_WorkspaceID := 3\<rparr>]\<rparr>\<rparr>\<rparr>"

end
