(* ===== verification/Membership_Properties.thy ===== *)
theory Membership_Properties
  imports Workspace_Rules
begin

text \<open>
  What the services of workspaces promise: every workspace keeps the owner who has made it, under all requests and
  interference; who has no right to a request changes nothing; and a workspace goes only when its machines have gone.
\<close>

section \<open>The contract of an invariant of owners\<close>

text \<open>
  \<open>owners\<close> gives every identifier of a workspace, used or not, the user it is for. The laws say what operations of
  the store keep the invariant, and what may be read from tables that satisfy it.
\<close>

locale owner_invariant =
  fixes J :: "office \<Rightarrow> bool" and owners :: "uuid \<Rightarrow> uuid"
  assumes founding: "\<lbrakk>J d; owners (wk_ID ws) = wk_OwnerID ws; wm_WorkspaceID m = wk_ID ws; wm_UserID m = wk_OwnerID ws;
      wm_Role m = RoleOwner; CreateWithMemberAndLabels now ws m labels d = Inr (x, d')\<rbrakk> \<Longrightarrow> J d'"
    and joining: "\<lbrakk>J d; wm_Role m \<noteq> RoleOwner; AddMember now m d = Inr d'\<rbrakk> \<Longrightarrow> J d'"
    and renaming: "\<lbrakk>J d; workspace_Update now ws d = Inr (x, d')\<rbrakk> \<Longrightarrow> J d'"
    and closing: "J d \<Longrightarrow> J (snd (workspace_Delete now i d))"
    and promoting: "\<lbrakk>J d; role = RoleOwner \<longleftrightarrow> u = owners i; repo_UpdateMemberRole i u role d = Inr d'\<rbrakk> \<Longrightarrow> J d'"
    and expelling: "\<lbrakk>J d; u \<noteq> owners i\<rbrakk> \<Longrightarrow> J (repo_RemoveMember i u d)"
    and sharing: "J d \<Longrightarrow> J (d\<lparr>of_links := links\<rparr>)"
    and owner_read: "\<lbrakk>J d; workspace_GetByID i d = Some ws\<rbrakk> \<Longrightarrow> wk_OwnerID ws = owners i"
    and role_read: "\<lbrakk>J d; GetMember i u d = Some m\<rbrakk> \<Longrightarrow> wm_Role m = RoleOwner \<longleftrightarrow> u = owners i"
    and owners_counted: "J d \<Longrightarrow> CountMembersByRole i RoleOwner d \<le> 1"
begin

lemma kept_links [holding]:
  "keeps J U (storeF (\<lambda>now. link_Create now l))" "keeps J U (storeF (\<lambda>now. link_Update now l))"
  "keeps J U (writeF (\<lambda>now d. Inr (link_Delete i d)))"
proof -
  show "keeps J U (storeF (\<lambda>now. link_Create now l))" "keeps J U (storeF (\<lambda>now. link_Update now l))"
    unfolding keeps_def
    by (rule holds_store; auto simp: link_Create_def link_Update_def Let_def sharing split: if_splits)+
  show "keeps J U (writeF (\<lambda>now d. Inr (link_Delete i d)))"
    unfolding keeps_def by (rule holds_write) (auto simp: link_Delete_def sharing)
qed

lemma kept_workspaces [holding]:
  "keeps J U (storeF (\<lambda>now. workspace_Update now ws))"
  "keeps J U (storeF (\<lambda>now d. Inr (workspace_Delete now i d)))"
  "wm_Role m \<noteq> RoleOwner \<Longrightarrow> keeps J U (writeF (\<lambda>now. AddMember now m))"
  "role = RoleOwner \<longleftrightarrow> u = owners i \<Longrightarrow> keeps J U (writeF (\<lambda>now. repo_UpdateMemberRole i u role))"
  "u \<noteq> owners i \<Longrightarrow> keeps J U (writeF (\<lambda>now d. Inr (repo_RemoveMember i u d)))"
proof -
  show "keeps J U (storeF (\<lambda>now. workspace_Update now ws))"
    unfolding keeps_def by (rule holds_store) (use renaming in blast)
  show "keeps J U (storeF (\<lambda>now d. Inr (workspace_Delete now i d)))"
    unfolding keeps_def by (rule holds_store) (metis closing snd_conv sum.inject(2))
  show "wm_Role m \<noteq> RoleOwner \<Longrightarrow> keeps J U (writeF (\<lambda>now. AddMember now m))"
    unfolding keeps_def by (rule holds_write) (rule joining)
  show "role = RoleOwner \<longleftrightarrow> u = owners i \<Longrightarrow> keeps J U (writeF (\<lambda>now. repo_UpdateMemberRole i u role))"
    unfolding keeps_def by (rule holds_write) (rule promoting)
  show "u \<noteq> owners i \<Longrightarrow> keeps J U (writeF (\<lambda>now d. Inr (repo_RemoveMember i u d)))"
    unfolding keeps_def by (rule holds_write) (auto intro: expelling)
qed

text \<open>A workspace is founded with the identifier that its founder draws.\<close>

lemma kept_founding: "keeps J (\<lambda>i. owners i = user) (svc_Create user req)"
  unfolding svc_Create_def defaultWorkspaceLabels_def Let_def
proof (rule office_keeps_bind [OF office_keeps_basic(7)], rule office_keeps_cases(1) [OF office_keeps_basic(2)])
  fix existing :: "Workspace option"
  let ?ws = "\<lambda>i. \<lparr>wk_ID = i, wk_Name = cw_Name req, wk_Slug = cw_Slug req, wk_LogoURL = None, wk_OwnerID = user,
        wk_ShareLinkMinRole = RoleAdmin, wk_CreatedAt = 0, wk_UpdatedAt = 0\<rparr>"
  let ?m = "\<lambda>i. \<lparr>wm_WorkspaceID = i, wm_UserID = user, wm_Role = RoleOwner, wm_CreatedAt = 0\<rparr>"
  have "keeps J (\<lambda>i. owners i = user) (storeF (\<lambda>now. CreateWithMemberAndLabels now (?ws i) (?m i) labels))"
    if "owners i = user" for i labels
    unfolding keeps_def by (rule holds_store) (use founding [of _ "?ws i" "?m i"] that in auto)
  then show "keeps J (\<lambda>i. owners i = user) (bindA freshF (\<lambda>i. bindA (mapF (\<lambda>(name, color, description).
       bindA freshF (\<lambda>j. returnA \<lparr>la_ID = j, la_WorkspaceID = i, la_Name = name, la_Color = color,
        la_Description = Some description, la_ParentID = None, la_DeletedAt = None, la_CreatedAt = 0,
        la_UpdatedAt = 0\<rparr>)) defaultWorkspaceLabelSpecs)
     (\<lambda>labels. renamed [(ErrWorkspaceSlugTaken, ErrServiceWorkspaceSlugTaken)]
       (storeF (\<lambda>now. CreateWithMemberAndLabels now (?ws i) (?m i) labels)))))"
    by (intro office_keeps_known [OF holds_fresh] holding)
qed

lemma kept_role: "keeps J U (svc_UpdateMemberRole i u role)"
  unfolding svc_UpdateMemberRole_def
  by (rule office_keeps_known [OF holds_read [where Q = "\<lambda>r. \<forall>ws. r = Some ws \<longrightarrow> wk_OwnerID ws = owners i"]])
    (auto intro!: holding dest: owner_read)

lemma kept_removal: "keeps J U (svc_RemoveMember i u)"
  unfolding svc_RemoveMember_def
proof (rule office_keeps_known [OF holds_found [where Q = "\<lambda>m. wm_Role m = RoleOwner \<longleftrightarrow> u = owners i"]])
  show "holds J U (readF (GetMember i u)) (\<lambda>r. \<forall>m. r = Some m \<longrightarrow> (wm_Role m = RoleOwner \<longleftrightarrow> u = owners i))"
    by (rule holds_read) (use role_read in blast)
next
  fix m :: WorkspaceMember
  assume m: "wm_Role m = RoleOwner \<longleftrightarrow> u = owners i"
  have "holds J U (bindA (readF (CountMembersByRole i RoleOwner)) (\<lambda>count.
      if count \<le> 1 then failF ''cannot remove the last owner'' else returnA ())) (\<lambda>x. u \<noteq> owners i)"
    by (rule holds_bind [OF holds_read [where Q = "\<lambda>n. n \<le> 1"], OF owners_counted]) (auto intro: holds_fail)
  then have "holds J U (if wm_Role m = RoleOwner then bindA (readF (CountMembersByRole i RoleOwner)) (\<lambda>count.
      if count \<le> 1 then failF ''cannot remove the last owner'' else returnA ()) else returnA ()) (\<lambda>x. u \<noteq> owners i)"
    using m by (auto intro: holds_return)
  then show "keeps J U (bindA (if wm_Role m = RoleOwner then bindA (readF (CountMembersByRole i RoleOwner)) (\<lambda>count.
      if count \<le> 1 then failF ''cannot remove the last owner'' else returnA ()) else returnA ())
      (\<lambda>u'. writeF (\<lambda>now d. Inr (repo_RemoveMember i u d))))"
    by (rule office_keeps_known) (rule holding)
qed

lemma kept_invitation: "valid_invite F req \<Longrightarrow> keeps J U (svc_InviteMember i req)"
  unfolding svc_InviteMember_def by (intro holding) (auto simp: valid_invite_def)

lemma kept_services [holding]:
  "keeps J U (svc_Update slug user ureq)" "keeps J U (svc_Delete slug user)" "keeps J U (svc_ListByUser collate user)"
  "keeps J U (svc_ListMembersWithUsers i)" "keeps J U (link_svc_Update S i lreq)" "keeps J U (link_svc_Delete i)"
  "keeps J U (link_svc_List i)"
  by (auto intro!: holding simp: svc_Update_def svc_Delete_def owned_workspace_def svc_ListByUser_def
    svc_ListMembersWithUsers_def link_svc_Update_def link_svc_Delete_def link_svc_List_def found_link_def Let_def)

lemma kept_new_link [holding]: "keeps J U (link_svc_Create S i user req)"
  unfolding link_svc_Create_def scope_exists_def generateToken_def new_expiry_def Let_def
  by (intro holding)

lemma kept_serve: "keeps J (\<lambda>i. owners i = user) (serve_workspaces F user r)"
  by (cases r) (auto intro!: holding kept_founding kept_role kept_removal kept_invitation
    simp: handle_List_def handle_Create_def handle_Get_def handle_Update_def handle_Delete_def handle_Invite_def
      handle_ListMembers_def handle_UpdateMemberRole_def handle_RemoveMember_def handle_CreateLink_def
      handle_ListLinks_def handle_UpdateLink_def handle_DeleteLink_def)

end

section \<open>The owners of the workspaces\<close>

text \<open>
  Every workspace has its owner in its column and among its members; a member has the role of an owner exactly when it
  is the owner; a user is a member of a workspace only once, and of workspaces that exist.
\<close>

definition member_key :: "WorkspaceMember \<Rightarrow> uuid \<times> uuid" where
  "member_key m = (wm_WorkspaceID m, wm_UserID m)"

definition well_owned :: "(uuid \<Rightarrow> uuid) \<Rightarrow> office \<Rightarrow> bool" where
  "well_owned owners d \<longleftrightarrow>
     list_all (\<lambda>w. wk_OwnerID w = owners (wk_ID w)
       \<and> (wk_ID w, owners (wk_ID w)) \<in> set (map member_key (of_members d))) (of_workspaces d)
   \<and> list_all (\<lambda>m. (wm_Role m = RoleOwner) = (wm_UserID m = owners (wm_WorkspaceID m))
       \<and> wm_WorkspaceID m \<in> set (map wk_ID (of_workspaces d))) (of_members d)
   \<and> distinct (map member_key (of_members d))"

lemma members_set [simp]: "of_members (set_members ms d) = ms" "of_workspaces (set_members ms d) = of_workspaces d"
  "of_users (set_members ms d) = of_users d"
  by (simp_all add: of_members_def set_members_def)

lemma insert_labels_same:
  "insert_labels now ls d = Inr d' \<Longrightarrow> of_workspaces d' = of_workspaces d \<and> of_members d' = of_members d"
proof (induction ls arbitrary: d)
  case (Cons l ls)
  from Cons.prems obtain d1 where "insert_label now l d = Inr d1" "insert_labels now ls d1 = Inr d'"
    by (auto split: sum.splits)
  with Cons.IH [of d1] show ?case by (auto simp: insert_label_def of_members_def split: if_splits)
qed simp

lemma joined:
  assumes "AddMember now m d = Inr d'"
  shows "of_workspaces d' = of_workspaces d" "of_members d' = of_members d @ [m\<lparr>wm_CreatedAt := now\<rparr>]"
    "member_key m \<notin> set (map member_key (of_members d))" "wm_WorkspaceID m \<in> set (map wk_ID (of_workspaces d))"
  using assms by (auto simp: AddMember_def member_key_def exists_where_iff split: if_splits)

lemma founded:
  assumes "CreateWithMemberAndLabels now ws m labels d = Inr (x, d')"
  obtains ws' where "wk_ID ws' = wk_ID ws" "wk_OwnerID ws' = wk_OwnerID ws" "of_workspaces d' = of_workspaces d @ [ws']"
    "of_members d' = of_members d @ [m\<lparr>wm_CreatedAt := now\<rparr>]" "member_key m \<notin> set (map member_key (of_members d))"
    "wk_ID ws \<notin> set (map wk_ID (of_workspaces d))"
proof -
  obtain d1 d2 where d1: "insert_workspace now ws d = Inr d1" and d2: "AddMember now m d1 = Inr d2"
    and d3: "insert_labels now labels d2 = Inr d'"
    using assms by (auto simp: CreateWithMemberAndLabels_def workspace_Create_def split: sum.splits)
  let ?row = "ws\<lparr>wk_LogoURL := None, wk_ShareLinkMinRole := RoleAdmin, wk_CreatedAt := now, wk_UpdatedAt := now\<rparr>"
  from d1 have "of_workspaces d1 = of_workspaces d @ [?row]" "of_members d1 = of_members d"
    "wk_ID ws \<notin> set (map wk_ID (of_workspaces d))"
    by (auto simp: insert_workspace_def of_members_def exists_where_iff split: if_splits)
  then show thesis
    using joined [OF d2] insert_labels_same [OF d3] by (intro that [of ?row]) simp_all
qed

lemma well_ownedD:
  assumes "well_owned owners d"
  shows "w \<in> set (of_workspaces d) \<Longrightarrow> wk_OwnerID w = owners (wk_ID w)"
    and "w \<in> set (of_workspaces d) \<Longrightarrow> (wk_ID w, owners (wk_ID w)) \<in> set (map member_key (of_members d))"
    and "m \<in> set (of_members d) \<Longrightarrow> wm_Role m = RoleOwner \<longleftrightarrow> wm_UserID m = owners (wm_WorkspaceID m)"
    and "m \<in> set (of_members d) \<Longrightarrow> wm_WorkspaceID m \<in> set (map wk_ID (of_workspaces d))"
    and "distinct (map member_key (of_members d))"
  using assms by (auto simp: well_owned_def list_all_iff)

text \<open>Of the workspaces only identifiers and owners matter.\<close>

definition owner_pair :: "Workspace \<Rightarrow> uuid \<times> uuid" where
  "owner_pair w = (wk_ID w, wk_OwnerID w)"

lemma well_owned_pairs: "well_owned owners d \<longleftrightarrow>
    list_all (\<lambda>(i, u). u = owners i \<and> (i, owners i) \<in> set (map member_key (of_members d))) (map owner_pair (of_workspaces d))
  \<and> list_all (\<lambda>m. (wm_Role m = RoleOwner) = (wm_UserID m = owners (wm_WorkspaceID m))
       \<and> wm_WorkspaceID m \<in> set (map fst (map owner_pair (of_workspaces d)))) (of_members d)
  \<and> distinct (map member_key (of_members d))"
  by (simp add: well_owned_def list_all_iff owner_pair_def image_image)

lemma well_owned_renaming:
  assumes "well_owned owners d" and "workspace_Update now ws d = Inr (x, d')"
  shows "well_owned owners d'"
proof -
  have "map owner_pair (of_workspaces d') = map owner_pair (of_workspaces d)" "of_members d' = of_members d"
    using assms(2) by (auto simp: workspace_Update_def update_where_def owner_pair_def of_members_def split: if_splits)
  then show ?thesis using assms(1) by (simp only: well_owned_pairs)
qed

lemma well_owned_founding:
  assumes d: "well_owned owners d" and o: "owners (wk_ID ws) = wk_OwnerID ws"
    and m: "wm_WorkspaceID m = wk_ID ws" "wm_UserID m = wk_OwnerID ws" "wm_Role m = RoleOwner"
    and step: "CreateWithMemberAndLabels now ws m labels d = Inr (x, d')"
  shows "well_owned owners d'"
proof (rule founded [OF step])
  fix ws'
  assume new: "wk_ID ws' = wk_ID ws" "wk_OwnerID ws' = wk_OwnerID ws" "of_workspaces d' = of_workspaces d @ [ws']"
    "of_members d' = of_members d @ [m\<lparr>wm_CreatedAt := now\<rparr>]" "member_key m \<notin> set (map member_key (of_members d))"
  have key: "member_key (m\<lparr>wm_CreatedAt := t\<rparr>) = member_key m" for t by (simp add: member_key_def)
  show ?thesis using d o m new by (auto simp: well_owned_def list_all_iff key) (simp_all add: member_key_def)
qed

lemma well_owned_joining:
  assumes d: "well_owned owners d" and m: "wm_Role m \<noteq> RoleOwner" and step: "AddMember now m d = Inr d'"
  shows "well_owned owners d'"
proof -
  note j = joined [OF step]
  have key: "member_key (m\<lparr>wm_CreatedAt := t\<rparr>) = member_key m" for t by (simp add: member_key_def)
  obtain w where w: "w \<in> set (of_workspaces d)" "wk_ID w = wm_WorkspaceID m" using j(4) by auto
  then have "wm_UserID m \<noteq> owners (wm_WorkspaceID m)"
    using well_ownedD(2) [OF d w(1)] j(3) by (auto simp: member_key_def)
  then show ?thesis using d m j by (auto simp: well_owned_def list_all_iff key)
qed

lemma kept_keys:
  assumes "map member_key ms = map member_key (of_members d)" and "well_owned owners d"
    and "\<And>m. m \<in> set ms \<Longrightarrow> (wm_Role m = RoleOwner) = (wm_UserID m = owners (wm_WorkspaceID m))"
  shows "well_owned owners (set_members ms d)"
proof -
  have "wm_WorkspaceID m \<in> set (map wk_ID (of_workspaces d))" if "m \<in> set ms" for m
  proof -
    have "member_key m \<in> set (map member_key (of_members d))" using that assms(1) by (metis image_eqI list.set_map)
    then show ?thesis using well_ownedD(4) [OF assms(2)] by (auto simp: member_key_def)
  qed
  then show ?thesis using assms by (auto simp: well_owned_def list_all_iff)
qed

lemma well_owned_promoting:
  assumes d: "well_owned owners d" and r: "role = RoleOwner \<longleftrightarrow> u = owners i"
    and step: "repo_UpdateMemberRole i u role d = Inr d'"
  shows "well_owned owners d'"
proof -
  let ?ms = "update_where (\<lambda>m. wm_WorkspaceID m = i \<and> wm_UserID m = u) (\<lambda>m. m\<lparr>wm_Role := role\<rparr>) (of_members d)"
  have "d' = set_members ?ms d" using step by (auto simp: repo_UpdateMemberRole_def Let_def split: if_splits)
  moreover have "well_owned owners (set_members ?ms d)"
    using r well_ownedD(3) [OF d]
    by (intro kept_keys d) (auto simp: update_where_def member_key_def)
  ultimately show ?thesis by simp
qed

lemma well_owned_filter:
  assumes d: "well_owned owners d"
    and fewer: "of_workspaces d' = filter W (of_workspaces d)" "of_members d' = filter M (of_members d)"
    and owner: "\<And>w m. \<lbrakk>W w; member_key m = (wk_ID w, owners (wk_ID w))\<rbrakk> \<Longrightarrow> M m"
    and home: "\<And>w m. \<lbrakk>M m; wk_ID w = wm_WorkspaceID m\<rbrakk> \<Longrightarrow> W w"
  shows "well_owned owners d'"
proof -
  have "(wk_ID w, owners (wk_ID w)) \<in> set (map member_key (of_members d'))" if w: "w \<in> set (of_workspaces d')" for w
  proof -
    obtain m where m: "m \<in> set (of_members d)" "member_key m = (wk_ID w, owners (wk_ID w))"
      using well_ownedD(2) [OF d, of w] w fewer(1) by auto
    moreover have "M m" using owner m(2) w fewer(1) by auto
    ultimately have "m \<in> set (of_members d')" by (simp add: fewer(2))
    then show ?thesis using m(2) by (metis image_eqI list.set_map)
  qed
  moreover have "wm_WorkspaceID m \<in> set (map wk_ID (of_workspaces d'))" if "m \<in> set (of_members d')" for m
    using that well_ownedD(4) [OF d, of m] home fewer by auto
  moreover have "distinct (map member_key (of_members d'))"
    using well_ownedD(5) [OF d] by (simp add: fewer(2) distinct_map_filter)
  ultimately show ?thesis
    using well_ownedD(1,3) [OF d] fewer by (auto simp: well_owned_def list_all_iff)
qed

lemma well_owned_expelling:
  assumes "well_owned owners d" and "u \<noteq> owners i"
  shows "well_owned owners (repo_RemoveMember i u d)"
  by (rule well_owned_filter [OF assms(1), of _ "\<lambda>w. True" "\<lambda>m. \<not> (wm_WorkspaceID m = i \<and> wm_UserID m = u)"])
    (use assms(2) in \<open>auto simp: repo_RemoveMember_def delete_where_def member_key_def\<close>)

lemma well_owned_closing:
  assumes d: "well_owned owners d"
  shows "well_owned owners (snd (workspace_Delete now i d))"
proof -
  have "well_owned owners (d\<lparr>of_machines := m\<rparr>)" if "db_members m = db_members (of_machines d)" for m
    using d that by (simp add: well_owned_def of_members_def)
  moreover have "well_owned owners (delete_workspace now i d)"
    by (rule well_owned_filter [OF d, of _ "\<lambda>w. wk_ID w \<noteq> i" "\<lambda>m. wm_WorkspaceID m \<noteq> i"])
      (auto simp: delete_workspace_def delete_machine_rows_def delete_machines_def delete_where_def of_members_def
        member_key_def Let_def)
  ultimately show ?thesis
    using d by (simp add: workspace_Delete_def request_environment_cleanup_def Let_def)
qed

lemma owners_counted:
  assumes d: "well_owned owners d"
  shows "CountMembersByRole i RoleOwner d \<le> 1"
proof -
  let ?ms = "filter (\<lambda>m. wm_WorkspaceID m = i \<and> wm_Role m = RoleOwner) (of_members d)"
  have "set (map member_key ?ms) \<subseteq> {(i, owners i)}"
    using well_ownedD(3) [OF d] by (auto simp: member_key_def)
  moreover have "distinct (map member_key ?ms)" by (rule distinct_map_filter [OF well_ownedD(5) [OF d]])
  ultimately have "length (map member_key ?ms) \<le> card {(i, owners i)}"
    by (simp only: distinct_card [symmetric] card_mono finite.emptyI finite.insertI)
  then show ?thesis by (simp add: CountMembersByRole_def rows_affected_def)
qed

interpretation owned: owner_invariant "well_owned owners" owners for owners
proof
  fix d ws m now labels x d' assume "well_owned owners d" "owners (wk_ID ws) = wk_OwnerID ws" "wm_WorkspaceID m = wk_ID ws"
    "wm_UserID m = wk_OwnerID ws" "wm_Role m = RoleOwner" "CreateWithMemberAndLabels now ws m labels d = Inr (x, d')"
  then show "well_owned owners d'" by (rule well_owned_founding)
next
  fix d now ws x d' assume "well_owned owners d" "workspace_Update now ws d = Inr (x, d')"
  then show "well_owned owners d'" by (rule well_owned_renaming)
next
  fix d i ws assume "well_owned owners d" "workspace_GetByID i d = Some ws"
  then show "wk_OwnerID ws = owners i"
    using well_ownedD(1) [of owners d ws] by (auto simp: workspace_GetByID_def find_Some_iff)
next
  fix d i u m assume "well_owned owners d" "GetMember i u d = Some m"
  then show "wm_Role m = RoleOwner \<longleftrightarrow> u = owners i"
    using well_ownedD(3) [of owners d m] by (auto simp: GetMember_def find_Some_iff)
qed (erule (2) well_owned_joining, erule well_owned_closing, erule (2) well_owned_promoting,
  erule (1) well_owned_expelling, simp add: well_owned_def of_members_def, erule owners_counted)

section \<open>Owners stay\<close>

text \<open>
  (C21) A workspace keeps its owner: whatever request anybody sends, and whatever else happens to the tables meanwhile that
  keeps it so, every workspace has the owner it was made with, who is a member with the role of an owner, and nobody
  else has that role. Nobody can be promoted to owner, and the owner can neither be demoted nor removed. Identifiers
  that are still to be drawn belong to the user who sends the request.
\<close>

theorem workspaces_keep_their_owner:
  assumes "steady (well_owned owners) (\<lambda>i. owners i = user) k"
  shows "well_owned owners (ft_db (snd (serve_workspaces F user request k)))"
  using office_keepsD [OF owned.kept_serve assms, of F request] by (simp add: steady_def)

text \<open>Witness: the owner removes the other member.\<close>

theorem workspaces_keep_their_owner_witness:
  "steady (well_owned (\<lambda>i. 7)) (\<lambda>i. (7 :: uuid) = 7) front0
   \<and> well_owned (\<lambda>i. 7) (ft_db (snd (serve_workspaces frontend0 7 (RemoveMember ''acme'' ''8'') front0)))"
proof -
  have k: "steady (well_owned (\<lambda>i. 7)) (\<lambda>i. (7 :: uuid) = 7) front0"
    by (simp add: steady_def front0_def office0_def well_owned_def acme_def of_members_def member_row_def member_key_def)
  show ?thesis
    by (rule conjI [OF k workspaces_keep_their_owner [OF k, of frontend0 "RemoveMember ''acme'' ''8''"]])
qed

end
