(* ===== verification/Rights_Properties.thy ===== *)
theory Rights_Properties
  imports Membership_Properties Lifecycle_Properties
begin

text \<open>
  Who may do what in a workspace, and what is left when it goes.
\<close>

section \<open>Rights\<close>

text \<open>
  The rights that a request takes, stated by the tables: the membership of the user and the role in it, the column of
  the owner, and the least role for shared links.
\<close>

definition role_in :: "office \<Rightarrow> string \<Rightarrow> uuid \<Rightarrow> (Workspace \<times> string) option" where
  "role_in d slug user = (case workspace_GetBySlug slug d of None \<Rightarrow> None
     | Some ws \<Rightarrow> map_option (\<lambda>m. (ws, wm_Role m)) (GetMember (wk_ID ws) user d))"

definition sharing_roles :: "string \<Rightarrow> string list" where
  "sharing_roles least =
     (if least = RoleOwner then [RoleOwner] else if least = RoleAdmin then [RoleOwner, RoleAdmin]
      else [RoleOwner, RoleAdmin, RoleMember])"

definition entitled_as :: "office \<Rightarrow> string \<Rightarrow> uuid \<Rightarrow> (Workspace \<Rightarrow> string \<Rightarrow> bool) \<Rightarrow> bool" where
  "entitled_as d slug user P \<longleftrightarrow> (case role_in d slug user of None \<Rightarrow> False | Some (ws, role) \<Rightarrow> P ws role)"

fun entitled :: "office \<Rightarrow> uuid \<Rightarrow> workspace_request \<Rightarrow> bool" where
  "entitled d user ListWorkspaces = True"
| "entitled d user (CreateWorkspace r) = True"
| "entitled d user (GetWorkspace slug) = entitled_as d slug user (\<lambda>ws role. True)"
| "entitled d user (UpdateWorkspace slug r) = entitled_as d slug user (\<lambda>ws role. wk_OwnerID ws = user)"
| "entitled d user (DeleteWorkspace slug) = entitled_as d slug user (\<lambda>ws role. wk_OwnerID ws = user)"
| "entitled d user (Invite slug r) = entitled_as d slug user (\<lambda>ws role. role \<in> {RoleOwner, RoleAdmin})"
| "entitled d user (ListWorkspaceMembers slug) = entitled_as d slug user (\<lambda>ws role. True)"
| "entitled d user (UpdateMemberRole slug u r) = entitled_as d slug user (\<lambda>ws role. role \<in> {RoleOwner, RoleAdmin})"
| "entitled d user (RemoveMember slug u) = entitled_as d slug user (\<lambda>ws role. role \<in> {RoleOwner, RoleAdmin})"
| "entitled d user (ListLinks slug) =
     entitled_as d slug user (\<lambda>ws role. role \<in> set (sharing_roles (wk_ShareLinkMinRole ws)))"
| "entitled d user (CreateLink slug r) =
     entitled_as d slug user (\<lambda>ws role. role \<in> set (sharing_roles (wk_ShareLinkMinRole ws)))"
| "entitled d user (UpdateLink slug i r) =
     entitled_as d slug user (\<lambda>ws role. role \<in> set (sharing_roles (wk_ShareLinkMinRole ws)))"
| "entitled d user (DeleteLink slug i) =
     entitled_as d slug user (\<lambda>ws role. role \<in> set (sharing_roles (wk_ShareLinkMinRole ws)))"

text \<open>The least role is one that the schema allows.\<close>

definition share_roles_checked :: "office \<Rightarrow> bool" where
  "share_roles_checked d \<longleftrightarrow>
     list_all (\<lambda>w. wk_ShareLinkMinRole w \<in> {RoleOwner, RoleAdmin, RoleMember}) (of_workspaces d)"

text \<open>A refusal: the tables stay as they are, and the code of the reply is one of an error.\<close>

definition refused :: "nat office_act \<Rightarrow> front \<Rightarrow> bool" where
  "refused a k \<longleftrightarrow> snd (a k) = k \<and> (\<exists>c. fst (a k) = Inr c \<and> 400 \<le> c)"

lemma refused_code: "refused (code_of (returnA r)) k \<longleftrightarrow> 400 \<le> status_code r"
  by (simp add: refused_def code_of_def calm)

lemma codes [simp]: "status_code forbidden = 403" "status_code unauthorized = 401" "status_code (not_found s) = 404"
  "status_code internal_error = 500" "status_code (bad_request s) = 400" "status_code validation_error = 400"
  by (simp_all add: forbidden_def unauthorized_def not_found_def internal_error_def bad_request_def validation_error_def)

lemma refused_workspace:
  assumes "ft_script k = []" and "refused (code_of (h None)) k"
    and "\<And>ws role. role_in (ft_db k) slug user = Some (ws, role) \<Longrightarrow> refused (code_of (h (Some (ws, role)))) k"
  shows "refused (in_workspace slug user h) k"
  using assms
  by (auto simp: in_workspace_def WorkspaceMembership_def refused_def code_of_def calm role_in_def
    split: option.splits)

lemma admin_permission: "HasPermission role PermMemberInvite \<longleftrightarrow> role \<in> {RoleOwner, RoleAdmin}"
  by (auto simp: HasPermission_def RolePermissions_def)

lemma sharing_rank:
  "least \<in> {RoleOwner, RoleAdmin, RoleMember} \<Longrightarrow> CanCreateSharedLink role least \<longleftrightarrow> role \<in> set (sharing_roles least)"
  by (auto simp: CanCreateSharedLink_def sharing_roles_def)

lemma refused_handlers:
  "\<not> CanCreateSharedLink role (wk_ShareLinkMinRole ws) \<Longrightarrow> refused (code_of (handle_CreateLink F user r ws role)) k"
  "\<not> CanCreateSharedLink role (wk_ShareLinkMinRole ws) \<Longrightarrow> refused (code_of (handle_UpdateLink F i q ws role)) k"
  "\<not> CanCreateSharedLink role (wk_ShareLinkMinRole ws) \<Longrightarrow> refused (code_of (handle_DeleteLink F i ws role)) k"
  "\<not> CanCreateSharedLink role (wk_ShareLinkMinRole ws) \<Longrightarrow> refused (code_of (handle_ListLinks ws role)) k"
  by (auto simp: handle_CreateLink_def handle_UpdateLink_def handle_DeleteLink_def handle_ListLinks_def may_share_def
    bound_def refused_code split: option.split)

lemma role_in_workspace:
  assumes "role_in d slug user = Some (ws, role)" and "share_roles_checked d"
  shows "CanCreateSharedLink role (wk_ShareLinkMinRole ws) \<longleftrightarrow> role \<in> set (sharing_roles (wk_ShareLinkMinRole ws))"
proof -
  have "ws \<in> set (of_workspaces d)"
    using assms(1) by (auto simp: role_in_def workspace_GetBySlug_def find_Some_iff split: option.splits)
  then show ?thesis using assms(2) by (intro sharing_rank) (auto simp: share_roles_checked_def list_all_iff)
qed

text \<open>
  (C20) Rights are required: a user without the right to a request changes nothing by it and gets an error. Workspaces and
  their members are seen by members only, members are invited, promoted and removed by owners and administrators,
  settings are changed and workspaces deleted by the owner, and links are shared, listed, changed and deleted by users whose
  role is among those the workspace lets share.
\<close>

theorem rights_are_required:
  assumes "ft_script k = []" and "share_roles_checked (ft_db k)" and "\<not> entitled (ft_db k) user request"
  shows "snd (serve_workspaces F user request k) = k \<and> (\<exists>c. fst (serve_workspaces F user request k) = Inr c \<and> 400 \<le> c)"
proof -
  have role: "CanCreateSharedLink role (wk_ShareLinkMinRole ws) \<longleftrightarrow> role \<in> set (sharing_roles (wk_ShareLinkMinRole ws))"
    if "role_in (ft_db k) slug user = Some (ws, role)" for slug ws role
    by (rule role_in_workspace [OF that assms(2)])
  have "refused (serve_workspaces F user request) k"
    using assms(3)
    by (cases request) (auto intro!: refused_workspace [OF assms(1)] refused_handlers
      simp: entitled_as_def with_context_def RequirePermission_def RequireOwner_def refused_code admin_permission role)
  then show ?thesis by (simp add: refused_def)
qed

text \<open>Witness: the member 8 removes nobody.\<close>

theorem rights_are_required_witness:
  "snd (serve_workspaces frontend0 8 (RemoveMember ''acme'' ''8'') front0) = front0"
proof -
  have "ft_script front0 = []" and "share_roles_checked (ft_db front0)"
    and "\<not> entitled (ft_db front0) 8 (RemoveMember ''acme'' ''8'')"
    by (simp_all add: front0_def office0_def acme_def share_roles_checked_def entitled_as_def role_in_def
      workspace_GetBySlug_def GetMember_def of_members_def member_row_def)
  from rights_are_required [OF this] show ?thesis by simp
qed

section \<open>The links of another workspace\<close>

text \<open>
  (C26) A link is not kept by the workspace it belongs to: whoever may share in one workspace deletes a link of any other by
  its identifier.
\<close>

theorem links_of_others_can_be_deleted:
  assumes "ft_script k = []" and "share_roles_checked (ft_db k)" and "slug \<noteq> []" and "user \<noteq> uuid_Nil"
    and "entitled (ft_db k) user (DeleteLink slug i)" and "parseUUID F i = Some linkID"
    and "link_GetByID linkID (ft_db k) = Some l"
  shows "serve_workspaces F user (DeleteLink slug i) k = (Inr 200, k\<lparr>ft_db := link_Delete linkID (ft_db k)\<rparr>)"
proof -
  obtain ws role where w: "role_in (ft_db k) slug user = Some (ws, role)"
    and shared: "role \<in> set (sharing_roles (wk_ShareLinkMinRole ws))"
    using assms(5) by (auto simp: entitled_as_def split: option.splits)
  have may: "CanCreateSharedLink role (wk_ShareLinkMinRole ws)"
    using role_in_workspace [OF w assms(2)] shared by simp
  obtain m where ws: "workspace_GetBySlug slug (ft_db k) = Some ws" and m: "GetMember (wk_ID ws) user (ft_db k) = Some m"
    and role: "wm_Role m = role" using w by (auto simp: role_in_def split: option.splits)
  show ?thesis
    using assms ws m role may
    by (simp add: in_workspace_def WorkspaceMembership_def with_context_def code_of_def handle_DeleteLink_def may_share_def
      answering_def link_svc_Delete_def found_link_def calm)
qed

text \<open>Witness: user 8, who is only in the workspace 3, deletes a link of the workspace 1.\<close>

theorem links_of_others_can_be_deleted_witness:
  "serve_workspaces frontend0 8 (DeleteLink ''zeta'' ''5'') front2 = (Inr 200, front2\<lparr>ft_db := link_Delete 5 (ft_db front2)\<rparr>)
   \<and> sl_WorkspaceID team_link = 1 \<and> map wm_WorkspaceID (filter (\<lambda>m. wm_UserID m = 8) (of_members (ft_db front2))) = [3]"
proof -
  have tables: "ft_script front2 = []" "share_roles_checked (ft_db front2)"
    "entitled (ft_db front2) 8 (DeleteLink ''zeta'' ''5'')" "link_GetByID 5 (ft_db front2) = Some team_link"
    "map wm_WorkspaceID (filter (\<lambda>m. wm_UserID m = 8) (of_members (ft_db front2))) = [3]"
    by (simp_all add: front2_def front0_def office0_def acme_def zeta_def share_roles_checked_def entitled_as_def role_in_def
      workspace_GetBySlug_def GetMember_def of_members_def member_row_def sharing_roles_def link_GetByID_def team_link_def)
  moreover have "parseUUID frontend0 ''5'' = Some 5"
    by (simp add: parseUUID_def frontend0_def links0_def sql0_def)
  ultimately have "serve_workspaces frontend0 8 (DeleteLink ''zeta'' ''5'') front2 = (Inr 200, front2\<lparr>ft_db := link_Delete 5 (ft_db front2)\<rparr>)"
    by (intro links_of_others_can_be_deleted [where l = team_link]) simp_all
  then show ?thesis using tables by (simp add: team_link_def)
qed

section \<open>The end of a workspace\<close>






















end
