(* ===== verification/Sharing_Rules.thy ===== *)
theory Sharing_Rules
  imports Workspace_Rules
begin

text \<open>
  The public list of issues as a function of the tables, when no other request comes in between, and what of the
  tables it depends on.
\<close>

section \<open>The list as a function\<close>

definition active_link :: "time \<Rightarrow> string \<Rightarrow> office \<Rightarrow> SharedLink option" where
  "active_link now token d = (case link_GetByToken token d of None \<Rightarrow> None | Some l \<Rightarrow>
     if sl_IsActive l \<and> (case sl_ExpiresAt l of None \<Rightarrow> True | Some t \<Rightarrow> now \<le> t) then Some l else None)"

definition scope_filter :: "office \<Rightarrow> SharedLink \<Rightarrow> IssueFilterParams" where
  "scope_filter d l = (case sl_ScopeID l of None \<Rightarrow> no_filter | Some i \<Rightarrow>
     if sl_Scope l = ''team'' then no_filter\<lparr>fp_TeamID := uuid_String i\<rparr>
     else if sl_Scope l = ''project'' then no_filter\<lparr>fp_ProjectID := uuid_String i\<rparr>
     else if sl_Scope l = ''view'' then (case view_GetByID i d of None \<Rightarrow> no_filter
       | Some view \<Rightarrow> apply_raw_filters (vw_Filters view) no_filter)
     else no_filter)"

definition link_params :: "office \<Rightarrow> SharedLink \<Rightarrow> IssueFilterParams \<Rightarrow> IssueFilterParams" where
  "link_params d l query = with_query query (apply_raw_filters (sl_Filters l) (scope_filter d l))"

definition public_row :: "SharedLinkService \<Rightarrow> time \<Rightarrow> office \<Rightarrow> SharedLink \<Rightarrow> Issue \<Rightarrow> PublicIssueResponse" where
  "public_row S now d l i =
     \<lparr>pi_Identifier = iss_Identifier i, pi_Title = iss_Title i,
      pi_Description = (if sl_IncludeDescription l
        then map_option (\<lambda>t. signPublicAssetURLs S now t (ow_WorkspaceID i) (ow_ID i)) (iss_Description i) else None),
      pi_Status = iss_Status i,
      pi_StatusInfo = map_option public_status (find (\<lambda>s. Some (st_ID s) = iss_StatusID i) (tr_statuses (of_tracker d))),
      pi_Priority = iss_Priority i,
      pi_Labels = map public_label (filter (\<lambda>l. la_DeletedAt l = None) (GetLabels (sh_collate S) (ow_ID i) (of_tracker d))),
      pi_Assignees = map public_user
        (concat (map (\<lambda>u. optional (user_GetByID u d)) (GetAssignees (ow_ID i) (of_tracker d)))),
      pi_DueDate = iss_DueDate i, pi_CreatedAt = iss_CreatedAt i, pi_UpdatedAt = iss_UpdatedAt i\<rparr>"

definition public_list :: "SharedLinkService \<Rightarrow> time \<Rightarrow> string \<Rightarrow> IssueFilterParams \<Rightarrow> office
   \<Rightarrow> go_error + PublicIssueResponse ListResponse" where
  "public_list S now token query d = (case active_link now token d of None \<Rightarrow> Inl (Errorf ''not found'') | Some l \<Rightarrow>
     (let p = link_params d l query in
      case repo_List (sh_sql S) (sl_WorkspaceID l) p d of Inl e \<Rightarrow> Inl (StoreError e) | Inr (issues, amount) \<Rightarrow>
      Inr \<lparr>lr_Data = map (public_row S now d l) issues, lr_TotalCount = amount, lr_Page = fp_Page p, lr_PerPage = fp_PerPage p,
        lr_HasMore = go_int (fp_Page p * fp_PerPage p) < int amount\<rparr>))"

lemma resolve_calm: "ft_script k = [] \<Longrightarrow> resolveActiveLink token k = (case active_link (ft_now k) token (ft_db k) of
    None \<Rightarrow> (Inl (Errorf ''not found''), k) | Some l \<Rightarrow> (Inr l, k))"
  by (auto simp: resolveActiveLink_def active_link_def calm split: option.split)

lemma params_calm: "ft_script k = [] \<Longrightarrow> buildPublicFilterParams l query k = (Inr (link_params (ft_db k) l query), k)"
  by (auto simp: buildPublicFilterParams_def scope_params_def scope_filter_def link_params_def calm split: option.split)

lemma found_in_filter:
  assumes "\<And>x. P x \<Longrightarrow> Q x"
  shows "find P (filter Q xs) = find P xs"
  using assms by (induction xs) auto

lemma row_calm:
  assumes "ft_script k = []" and "i \<in> set issues"
  shows "public_issue S l (GetLabelsForIssues (sh_collate S) (map ow_ID issues) (of_tracker (ft_db k)))
      (filter (\<lambda>s. st_ID s \<in> set (concat (map (optional \<circ> iss_StatusID) issues))) (tr_statuses (of_tracker (ft_db k))))
      (GetAssigneesForIssues (map ow_ID issues) (of_tracker (ft_db k))) i k
    = (Inr (public_row S (ft_now k) (ft_db k) l i), k)"
proof -
  let ?ids = "set (concat (map (optional \<circ> iss_StatusID) issues))"
  have "st_ID s \<in> ?ids" if "Some (st_ID s) = iss_StatusID i" for s
    using that assms(2) by (force simp: optional_def)
  then have "find (\<lambda>s. Some (st_ID s) = iss_StatusID i) (filter (\<lambda>s. st_ID s \<in> ?ids) (tr_statuses (of_tracker (ft_db k))))
    = find (\<lambda>s. Some (st_ID s) = iss_StatusID i) (tr_statuses (of_tracker (ft_db k)))"
    by (rule found_in_filter)
  moreover have "mapF (\<lambda>u. despiteF zero_user (readF (user_GetByID u))) us k = (Inr (map (\<lambda>u. user_GetByID u (ft_db k)) us), k)" for us
    by (rule mapF_calm) (simp add: calm assms(1))
  ultimately show ?thesis
    using assms by (simp add: public_issue_def public_assignees_def public_row_def calm GetLabelsForIssues_def
      GetAssigneesForIssues_def comp_def)
qed

lemma statuses_calm: "ft_script k = [] \<Longrightarrow> load_statuses ids k =
    (Inr (filter (\<lambda>s. st_ID s \<in> set ids) (tr_statuses (of_tracker (ft_db k)))), k)"
  by (simp add: load_statuses_def calm)

lemma public_list_calm:
  assumes "ft_script k = []"
  shows "ListPublicIssues S token query k = (public_list S (ft_now k) token query (ft_db k), k)"
proof (cases "active_link (ft_now k) token (ft_db k)")
  case None
  then show ?thesis by (simp add: ListPublicIssues_def public_list_def bind_calm resolve_calm assms)
next
  case (Some l)
  let ?p = "link_params (ft_db k) l query"
  show ?thesis
  proof (cases "repo_List (sh_sql S) (sl_WorkspaceID l) ?p (ft_db k)")
    case (Inl e)
    then show ?thesis
      using Some assms by (simp add: ListPublicIssues_def public_list_def bind_calm resolve_calm params_calm queryF_calm)
  next
    case (Inr r)
    then obtain issues amount where r: "repo_List (sh_sql S) (sl_WorkspaceID l) ?p (ft_db k) = Inr (issues, amount)"
      by (cases r) auto
    have "mapF (public_issue S l (GetLabelsForIssues (sh_collate S) (map ow_ID issues) (of_tracker (ft_db k)))
        (filter (\<lambda>s. st_ID s \<in> set (concat (map (optional \<circ> iss_StatusID) issues))) (tr_statuses (of_tracker (ft_db k))))
        (GetAssigneesForIssues (map ow_ID issues) (of_tracker (ft_db k)))) issues k
      = (Inr (map (public_row S (ft_now k) (ft_db k) l) issues), k)"
      by (rule mapF_calm) (rule row_calm [OF assms])
    then show ?thesis
      using Some r assms by (simp add: ListPublicIssues_def public_list_def bind_calm resolve_calm params_calm queryF_calm
        statuses_calm at_leastF_calm basic_calm Let_def)
  qed
qed

section \<open>What the list depends on\<close>

text \<open>
  Tables that look the same to the public: the issues but for their descriptions, the users but for their addresses,
  labels, assignees and statuses, links and views. Everything else may differ.
\<close>

definition hide_issue :: "Issue \<Rightarrow> Issue" where
  "hide_issue i = i\<lparr>iss_Description := None\<rparr>"

definition hide_user :: "User \<Rightarrow> User" where
  "hide_user u = u\<lparr>us_Email := []\<rparr>"

definition alike :: "office \<Rightarrow> office \<Rightarrow> bool" where
  "alike d d' \<longleftrightarrow> (let t = of_tracker d; t' = of_tracker d' in
     map hide_issue (tr_issues t) = map hide_issue (tr_issues t') \<and> map hide_user (of_users d) = map hide_user (of_users d')
   \<and> tr_labels t = tr_labels t' \<and> tr_issue_labels t = tr_issue_labels t' \<and> tr_assignees t = tr_assignees t'
   \<and> tr_statuses t = tr_statuses t' \<and> of_links d = of_links d' \<and> of_views d = of_views d')"

lemma hide_issue_same [simp]:
  "ow_ID (hide_issue i) = ow_ID i" "ow_WorkspaceID (hide_issue i) = ow_WorkspaceID i" "iss_TeamID (hide_issue i) = iss_TeamID i"
  "iss_ProjectID (hide_issue i) = iss_ProjectID i" "iss_CycleID (hide_issue i) = iss_CycleID i"
  "iss_Identifier (hide_issue i) = iss_Identifier i" "iss_Title (hide_issue i) = iss_Title i"
  "iss_Status (hide_issue i) = iss_Status i" "iss_Priority (hide_issue i) = iss_Priority i"
  "iss_CreatorID (hide_issue i) = iss_CreatorID i" "iss_AssigneeID (hide_issue i) = iss_AssigneeID i"
  "iss_ParentID (hide_issue i) = iss_ParentID i" "iss_DueDate (hide_issue i) = iss_DueDate i"
  "iss_SortOrder (hide_issue i) = iss_SortOrder i" "iss_StatusID (hide_issue i) = iss_StatusID i"
  "iss_Triaged (hide_issue i) = iss_Triaged i" "iss_CreatedAt (hide_issue i) = iss_CreatedAt i"
  "iss_UpdatedAt (hide_issue i) = iss_UpdatedAt i" "iss_Description (hide_issue i) = None"
  by (simp_all add: hide_issue_def)

lemma insort_map: "map g (insort_key (\<lambda>x. f (g x)) x xs) = insort_key f (g x) (map g xs)"
  by (induction xs) simp_all

lemma sort_map: "map g (sort_key (\<lambda>x. f (g x)) xs) = sort_key f (map g xs)"
  by (induction xs) (simp_all add: insort_map)

lemma by_key_hide: "(\<And>i. f (hide_issue i) = f i) \<Longrightarrow> map hide_issue (by_key asc f xs) = by_key asc f (map hide_issue xs)"
  by (simp add: by_key_def sort_map [symmetric] cong: if_cong)

lemma by_nullable_hide:
  "(\<And>i. f (hide_issue i) = f i) \<Longrightarrow> map hide_issue (by_nullable asc f xs) = by_nullable asc f (map hide_issue xs)"
  by (simp add: by_nullable_def sort_map [symmetric])

lemma category_hide [simp]: "issueStatusCategoryExpr t (hide_issue i) = issueStatusCategoryExpr t i"
  by (simp add: issueStatusCategoryExpr_def split: option.split)

lemma order_by_hide: "map hide_issue (order_by t p rows) = order_by t p (map hide_issue rows)"
proof -
  have "map hide_issue (foldr (\<lambda>f. f) fs ys) = foldr (\<lambda>f. f) fs (map hide_issue ys)"
    if "\<forall>f \<in> set fs. \<forall>xs. map hide_issue (f xs) = f (map hide_issue xs)" for fs ys
    using that by (induction fs) simp_all
  moreover have "\<forall>f \<in> set (group_order t s). \<forall>xs. map hide_issue (f xs) = f (map hide_issue xs)" for s
    by (simp add: group_order_def status_position_def by_key_hide by_nullable_hide)
  moreover have "\<forall>f \<in> set (sort_order t s asc). \<forall>xs. map hide_issue (f xs) = f (map hide_issue xs)" for s asc
    by (simp add: sort_order_def status_position_def by_key_hide by_nullable_hide)
  ultimately show ?thesis by (simp add: order_by_def by_key_hide ball_Un)
qed

lemma order_by_alike: "tr_statuses t = tr_statuses t' \<Longrightarrow> order_by t p = order_by t' p"
  by (simp add: order_by_def group_order_def sort_order_def status_position_def [abs_def] status_row_def fun_eq_iff)

lemma exists_hide: "exists_where P (map hide_issue rows) = exists_where (\<lambda>i. P (hide_issue i)) rows"
  by (simp add: exists_where_iff)

lemma where_clause_alike:
  assumes "alike d d'" and "fp_Search p = []"
  shows "where_clause Q d p = where_clause Q d' p"
proof -
  have same: "tr_labels (of_tracker d) = tr_labels (of_tracker d')" "tr_assignees (of_tracker d) = tr_assignees (of_tracker d')"
    "tr_issue_labels (of_tracker d) = tr_issue_labels (of_tracker d')" "tr_statuses (of_tracker d) = tr_statuses (of_tracker d')"
    and issues: "map hide_issue (tr_issues (of_tracker d)) = map hide_issue (tr_issues (of_tracker d'))"
    using assms(1) by (simp_all add: alike_def Let_def)
  have "exists_where (\<lambda>c. iss_ParentID c = x) (tr_issues (of_tracker d))
      = exists_where (\<lambda>c. iss_ParentID c = x) (tr_issues (of_tracker d'))" for x
    using exists_hide [of "\<lambda>c. iss_ParentID c = x"] issues by simp metis
  then have "sub_issue_filter (of_tracker d) s = sub_issue_filter (of_tracker d') s" for s
    by (simp add: sub_issue_filter_def)
  moreover have "labels_of i (of_tracker d) = labels_of i (of_tracker d')" for i
    by (simp only: labels_of_def same)
  ultimately show ?thesis
    using assms(2) by (simp add: where_clause_def given_filter_def assignee_filter_def label_filter_def same
      issueStatusCategoryExpr_def status_row_def Let_def)
qed

text \<open>A condition does not read the description, when there is no search.\<close>

definition blind :: "condition \<Rightarrow> bool" where
  "blind c \<longleftrightarrow> (case c of Inl e \<Rightarrow> True | Inr P \<Rightarrow> \<forall>i. P (hide_issue i) = P i)"

lemma blind_reading:
  "(\<And>x i. P x (hide_issue i) = P x i) \<Longrightarrow> blind (reading parse s P)"
  "(\<And>xs i. R xs (hide_issue i) = R xs i) \<Longrightarrow> blind (reading_all parse' ss R)"
  by (simp_all add: blind_def reading_def reading_all_def split: option.split)

lemma blind_filters [simp]:
  "blind (status_filter Q s)" "blind (priority_filter Q s)" "blind (assignee_filter Q t s)" "blind (label_filter Q t s)"
  "blind (Inr (\<lambda>i. category_text (issueStatusCategoryExpr t i) = s))" "blind (Inr (\<lambda>i. iss_Triaged i = b))"
  "list_all blind (sub_issue_filter t s)"
proof -
  show "blind (status_filter Q s)" by (auto simp: status_filter_def Let_def blind_def [of "Inr _"] intro: blind_reading)
  show "blind (priority_filter Q s)" by (auto simp: priority_filter_def intro!: blind_reading split: list.split)
  show "blind (assignee_filter Q t s)" by (auto simp: assignee_filter_def blind_def [of "Inr _"] intro: blind_reading)
  show "blind (label_filter Q t s)" by (auto simp: label_filter_def blind_def [of "Inr _"] intro: blind_reading)
qed (simp_all add: blind_def sub_issue_filter_def)

lemma blind_references [simp]:
  "blind (reference_filter Q iss_ProjectID s)" "blind (reference_filter Q iss_CycleID s)"
  "blind (reference_filter Q iss_ParentID s)" "blind (reading f s (\<lambda>u i. iss_CreatorID i = u))"
  "blind (reading f s (\<lambda>u i. iss_TeamID i = u))" "blind (reading g s (\<lambda>x. due (\<lambda>y. y \<le> x)))"
  "blind (reading g s (\<lambda>x. due (\<lambda>y. x \<le> y)))"
  by (auto simp: reference_filter_def blind_def [of "Inr _"] due_def intro: blind_reading)

lemma condition_hide:
  assumes "fp_Search p = []" and "Inr P \<in> set (where_clause Q d p)"
  shows "P (hide_issue i) = P i"
proof -
  have "list_all blind (where_clause Q d p)"
    by (simp add: where_clause_def given_filter_def assms(1) Let_def)
  then have "blind (Inr P)" using assms(2) unfolding list_all_iff by blast
  then show ?thesis by (simp add: blind_def)
qed

lemma selected_hide:
  assumes "fp_Search p = []"
  shows "map hide_issue (selected w (where_clause Q d p) rows) = selected w (where_clause Q d p) (map hide_issue rows)"
proof -
  have "list_all (\<lambda>c. case c of Inl e \<Rightarrow> False | Inr P \<Rightarrow> P (hide_issue i)) (where_clause Q d p)
      = list_all (\<lambda>c. case c of Inl e \<Rightarrow> False | Inr P \<Rightarrow> P i) (where_clause Q d p)" for i
    by (rule list.pred_cong_simp) (auto simp: simp_implies_def condition_hide [OF assms] split: sum.split)
  then show ?thesis by (simp add: selected_def filter_map comp_def)
qed

lemma repo_List_alike:
  assumes alike: "alike d d'" and p: "fp_Search p = []"
  shows "map_sum id (apfst (map hide_issue)) (repo_List Q w p d) = map_sum id (apfst (map hide_issue)) (repo_List Q w p d')"
proof -
  let ?rows = "\<lambda>d. selected w (where_clause Q d p) (tr_issues (of_tracker d))"
  have "map hide_issue (?rows d) = map hide_issue (?rows d')"
    using alike by (simp add: selected_hide [OF p] where_clause_alike [OF alike p] alike_def Let_def)
  moreover from this have "length (?rows d) = length (?rows d')" by (metis length_map)
  moreover have "order_by (of_tracker d) q = order_by (of_tracker d') q" for q
    by (rule order_by_alike) (use alike in \<open>simp add: alike_def Let_def\<close>)
  ultimately show ?thesis
    by (simp add: repo_List_def Let_def where_clause_alike [OF alike p] order_by_hide take_map [symmetric] drop_map [symmetric]
      split: option.split)
qed

lemma find_hide_user:
  assumes "map hide_user us = map hide_user us'"
  shows "map_option public_user (find (\<lambda>u. us_ID u = i) us) = map_option public_user (find (\<lambda>u. us_ID u = i) us')"
proof -
  have "map_option public_user (find (\<lambda>u. us_ID u = i) us) = map_option public_user (find (\<lambda>u. us_ID u = i) (map hide_user us))"
    for us by (induction us) (simp_all add: hide_user_def public_user_def)
  then show ?thesis using assms by metis
qed

lemma public_row_alike:
  assumes "alike d d'" and "\<not> sl_IncludeDescription l" and "hide_issue i = hide_issue i'"
  shows "public_row S now d l i = public_row S now d' l i'"
proof -
  have i: "f i = f i'" if "\<And>j. f (hide_issue j) = f j" for f :: "Issue \<Rightarrow> 'x" using that assms(3) by metis
  have u: "map public_user (concat (map (\<lambda>u. optional (user_GetByID u d)) us))
    = map public_user (concat (map (\<lambda>u. optional (user_GetByID u d')) us))" for us
  proof -
    have "map public_user (optional x) = optional (map_option public_user x)" for x
      by (simp add: optional_def split: option.split)
    then have "map public_user (optional (user_GetByID u d)) = map public_user (optional (user_GetByID u d'))" for u
      using find_hide_user [of "of_users d" "of_users d'" u] assms(1) by (simp add: user_GetByID_def alike_def Let_def)
    then show ?thesis by (simp add: map_concat comp_def)
  qed
  have "labels_of j (of_tracker d) = labels_of j (of_tracker d')" for j
    using assms(1) by (simp only: labels_of_def alike_def Let_def)
  moreover have "GetAssignees j (of_tracker d) = GetAssignees j (of_tracker d')" for j
    using assms(1) by (simp add: GetAssignees_def alike_def Let_def)
  ultimately show ?thesis
    using assms(1,2) u i [of iss_Identifier] i [of iss_Title] i [of iss_Status] i [of iss_StatusID] i [of iss_Priority]
      i [of ow_ID] i [of iss_DueDate] i [of iss_CreatedAt] i [of iss_UpdatedAt]
    by (simp add: public_row_def GetLabels_def alike_def Let_def)
qed

end
