(* ===== verification/Sharing_Properties.thy ===== *)
theory Sharing_Properties
  imports Sharing_Rules
begin

text \<open>
  What a shared link shows to the public, and what it does not protect.
\<close>

section \<open>The scope of a link\<close>

definition in_scope :: "SharedLink \<Rightarrow> Issue \<Rightarrow> bool" where
  "in_scope l i \<longleftrightarrow> ow_WorkspaceID i = sl_WorkspaceID l
     \<and> (sl_ScopeID l = None
        \<or> (if sl_Scope l = ''team'' then Some (iss_TeamID i) = sl_ScopeID l
           else if sl_Scope l = ''project'' then iss_ProjectID i = sl_ScopeID l else True))"

text \<open>A row of the list shows an issue of the scope, and its description only if the link includes descriptions.\<close>

definition shows_issue :: "SharedLink \<Rightarrow> Issue list \<Rightarrow> PublicIssueResponse \<Rightarrow> bool" where
  "shows_issue l issues r \<longleftrightarrow> list_ex (\<lambda>i. in_scope l i \<and> pi_Identifier r = iss_Identifier i \<and> pi_Title r = iss_Title i
     \<and> (sl_IncludeDescription l \<or> pi_Description r = None)) issues"

lemma uuid_String_text [simp]: "uuid_String i \<noteq> []"
  by (simp add: uuid_String_def Let_def)

lemma kept_params:
  "fp_TeamID (applyStoredFilters p f) = filled ''team'' f (fp_TeamID p)"
  "fp_ProjectID (applyStoredFilters p f) = filled ''project'' f (fp_ProjectID p)"
  "fp_TeamID (with_query q p) = fp_TeamID p" "fp_ProjectID (with_query q p) = fp_ProjectID p"
  by (simp_all add: applyStoredFilters_def with_query_def Defaults_def)

lemma filled_kept: "x \<noteq> [] \<Longrightarrow> filled key f x = x"
  by (simp add: filled_def split: option.split)

lemma link_team: "sl_Scope l = ''team'' \<Longrightarrow> sl_ScopeID l = Some t \<Longrightarrow> fp_TeamID (link_params d l q) = uuid_String t"
  by (simp add: link_params_def scope_filter_def apply_raw_filters_def kept_params filled_kept split: option.split)

lemma link_project:
  "sl_Scope l = ''project'' \<Longrightarrow> sl_ScopeID l = Some p \<Longrightarrow> fp_ProjectID (link_params d l q) = uuid_String p"
  by (simp add: link_params_def scope_filter_def apply_raw_filters_def kept_params filled_kept split: option.split)

lemma dash_in_uuid: "CHR ''-'' \<in> set (uuid_String i)"
  by (simp add: uuid_String_def Let_def)

lemma not_none [simp]: "uuid_String i \<noteq> ''none''"
  using dash_in_uuid [of i] by auto

lemma listed_in_scope:
  assumes law: "\<And>i. sl_ScopeID l = Some i \<Longrightarrow> sq_uuid Q (uuid_String i) = Some i"
    and r: "repo_List Q (sl_WorkspaceID l) (link_params d l query) d = Inr (rows, n)" and i: "i \<in> set rows"
  shows "in_scope l i"
proof -
  note listed = listed_selected(3) [OF r i]
  have "iss_TeamID i = t" if "sl_Scope l = ''team''" "sl_ScopeID l = Some t" for t
    using listed [of "\<lambda>i. iss_TeamID i = t"] link_team [OF that, of d query]
    by (simp add: where_clause_def given_filter_def reading_def law that(2) Let_def)
  moreover have "iss_ProjectID i = Some p" if "sl_Scope l = ''project''" "sl_ScopeID l = Some p" for p
    using listed [of "\<lambda>i. iss_ProjectID i = Some p"] link_project [OF that, of d query]
    by (simp add: where_clause_def given_filter_def reference_filter_def reading_def law that(2) Let_def)
  ultimately show ?thesis
    using listed_selected(2) [OF r i] by (cases "sl_ScopeID l") (auto simp: in_scope_def)
qed

text \<open>The database reads the texts that \<open>uuid.String\<close> writes for the scopes of the links.\<close>

definition scopes_read :: "sql \<Rightarrow> office \<Rightarrow> bool" where
  "scopes_read Q d \<longleftrightarrow>
     list_all (\<lambda>l. case sl_ScopeID l of None \<Rightarrow> True | Some i \<Rightarrow> sq_uuid Q (uuid_String i) = Some i) (of_links d)"

lemma active_in_links: "active_link now token d = Some l \<Longrightarrow> l \<in> set (of_links d)"
  by (auto simp: active_link_def link_GetByToken_def find_Some_iff split: option.splits if_splits)

text \<open>
  (C23) The public sees only what the link is for: a list is shown only to somebody with the token of a link that is active
  and has not expired; whatever the query asks for, each row shows an issue of the workspace of the link, of its team or
  of its project if it is for one, and shows no description unless the link includes them.
\<close>

theorem public_list_stays_in_scope:
  assumes "ft_script k = []" and "scopes_read (sh_sql S) (ft_db k)"
    and "ListPublicIssues S token query k = (Inr response, k')"
  shows "k' = k \<and> (\<exists>l. active_link (ft_now k) token (ft_db k) = Some l
      \<and> list_all (shows_issue l (tr_issues (of_tracker (ft_db k)))) (lr_Data response))"
proof -
  have step: "public_list S (ft_now k) token query (ft_db k) = Inr response" "k' = k"
    using assms(3) unfolding public_list_calm [OF assms(1)] by auto
  from step(1) obtain l rows n where l: "active_link (ft_now k) token (ft_db k) = Some l"
    and r: "repo_List (sh_sql S) (sl_WorkspaceID l) (link_params (ft_db k) l query) (ft_db k) = Inr (rows, n)"
    and data: "lr_Data response = map (public_row S (ft_now k) (ft_db k) l) rows"
    by (auto simp: public_list_def Let_def split: option.splits sum.splits prod.splits)
  have law: "sq_uuid (sh_sql S) (uuid_String i) = Some i" if "sl_ScopeID l = Some i" for i
    using assms(2) active_in_links [OF l] that by (force simp: scopes_read_def list_all_iff)
  have "shows_issue l (tr_issues (of_tracker (ft_db k))) (public_row S (ft_now k) (ft_db k) l i)" if "i \<in> set rows" for i
    unfolding shows_issue_def list_ex_iff
    by (rule bexI [OF _ listed_selected(1) [OF r that]])
      (simp add: listed_in_scope [OF law r that] public_row_def)
  then show ?thesis using l data step(2) by (auto simp: list_all_iff)
qed

section \<open>What the public does not see\<close>

lemma no_search_stored: "fp_Search (apply_raw_filters raw p) = fp_Search p"
  by (simp add: apply_raw_filters_def applyStoredFilters_def split: option.split)

lemma no_search_link: "fp_Search q = [] \<Longrightarrow> fp_Search (link_params d l q) = []"
  by (simp add: link_params_def with_query_def Defaults_def layered_def scope_filter_def no_search_stored no_filter_def
    split: option.split)

lemma alike_link:
  assumes "alike d d'"
  shows "active_link now token d = active_link now token d'" "link_params d l q = link_params d' l q"
proof -
  have links: "of_links d = of_links d'" and views: "of_views d = of_views d'" using assms by (simp_all add: alike_def Let_def)
  show "active_link now token d = active_link now token d'"
    unfolding active_link_def link_GetByToken_def links by (rule refl)
  show "link_params d l q = link_params d' l q"
    unfolding link_params_def scope_filter_def view_GetByID_def views by (rule refl)
qed

lemma rows_alike:
  assumes "alike d d'" and "\<not> sl_IncludeDescription l" and "map hide_issue rows = map hide_issue rows'"
  shows "map (public_row S now d l) rows = map (public_row S now d' l) rows'"
  using assms(3)
proof (induction rows arbitrary: rows')
  case (Cons i rows)
  then obtain i' rs where "rows' = i' # rs" "hide_issue i = hide_issue i'" "map hide_issue rows = map hide_issue rs"
    by (cases rows') auto
  then show ?case using public_row_alike [OF assms(1,2), of i i'] Cons.IH [of rs] by simp
qed simp

text \<open>
  (C24) The public learns nothing of what is hidden: two databases that differ in nothing but the descriptions of issues, the
  addresses of users, and everything that has nothing to do with the list (projects, cycles, teams, machines, the
  history) give the same list by a link that does not include descriptions, as long as the query does not search.
\<close>

theorem public_list_hides_descriptions:
  assumes "ft_script k = []" and "ft_script k' = []" and "ft_now k' = ft_now k"
    and "alike (ft_db k) (ft_db k')" and "fp_Search query = []"
    and "active_link (ft_now k) token (ft_db k) = Some l" and "\<not> sl_IncludeDescription l"
  shows "fst (ListPublicIssues S token query k) = fst (ListPublicIssues S token query k')"
proof -
  let ?p = "link_params (ft_db k) l query"
  have p: "fp_Search ?p = []" by (rule no_search_link [OF assms(5)])
  have rows: "map_sum id (apfst (map hide_issue)) (repo_List (sh_sql S) (sl_WorkspaceID l) ?p (ft_db k))
    = map_sum id (apfst (map hide_issue)) (repo_List (sh_sql S) (sl_WorkspaceID l) ?p (ft_db k'))"
    by (rule repo_List_alike [OF assms(4) p])
  have "active_link (ft_now k) token (ft_db k') = Some l" "link_params (ft_db k') l query = ?p"
    using alike_link [OF assms(4)] assms(6) by simp_all
  then show ?thesis
    using rows assms(6)
    by (auto intro!: rows_alike [OF assms(4,7)] simp: public_list_calm assms(1-3) public_list_def Let_def apfst_def split: sum.splits prod.splits)
qed

text \<open>Witnesses: the link to team 2.\<close>

lemma front_calm [simp]: "ft_script front0 = []" "ft_script front1 = []" "ft_script front2 = []" "ft_now front0 = 5"
  "ft_now front1 = 5" "ft_now front2 = 5" "ft_db front0 = office0"
  by (simp_all add: front0_def front1_def front2_def)

lemma front0_link: "active_link (ft_now front0) ''t'' (ft_db front0) = Some team_link"
  by (simp add: active_link_def link_GetByToken_def office0_def team_link_def)

theorem public_list_stays_in_scope_witness:
  "\<exists>r. ListPublicIssues links0 ''t'' no_filter front0 = (Inr r, front0)
     \<and> list_all (shows_issue team_link (tr_issues (of_tracker office0))) (lr_Data r)"
proof -
  have "case public_list links0 5 ''t'' no_filter office0 of Inl e \<Rightarrow> False | Inr r \<Rightarrow> True"
    by code_simp
  then obtain r where "public_list links0 5 ''t'' no_filter office0 = Inr r" by (auto split: sum.splits)
  then have step: "ListPublicIssues links0 ''t'' no_filter front0 = (Inr r, front0)"
    by (simp add: public_list_calm)
  have "scopes_read (sh_sql links0) (ft_db front0)"
    by (simp add: scopes_read_def office0_def team_link_def links0_def sql0_def)
  from public_list_stays_in_scope [OF _ this step] show ?thesis
    using step front0_link by auto
qed

theorem public_list_hides_descriptions_witness:
  "alike (ft_db front0) (ft_db front1) \<and> ft_db front0 \<noteq> ft_db front1
   \<and> fst (ListPublicIssues links0 ''t'' no_filter front0) = fst (ListPublicIssues links0 ''t'' no_filter front1)"
proof -
  have alike: "alike (ft_db front0) (ft_db front1)" and other: "ft_db front0 \<noteq> ft_db front1"
    by (simp_all add: alike_def front1_def office0_def tracker_rows_def issue_row_def user_row_def hide_issue_def
      hide_user_def Let_def)
  have hidden: "\<not> sl_IncludeDescription team_link" "fp_Search no_filter = []"
    by (simp_all add: team_link_def no_filter_def)
  show ?thesis
    using public_list_hides_descriptions [OF _ _ _ alike hidden(2) front0_link hidden(1), of links0] alike other by simp
qed

section \<open>What a link does not protect\<close>

text \<open>The identifiers that a list shows.\<close>

definition shown :: "string \<Rightarrow> IssueFilterParams \<Rightarrow> front \<Rightarrow> string list" where
  "shown token query k = (case fst (ListPublicIssues links0 token query k) of
     Inl e \<Rightarrow> [] | Inr r \<Rightarrow> map pi_Identifier (lr_Data r))"

lemma shown_list: "ft_script k = [] \<Longrightarrow> shown token query k = (case public_list links0 (ft_now k) token query (ft_db k) of
    Inl e \<Rightarrow> [] | Inr r \<Rightarrow> map pi_Identifier (lr_Data r))"
  by (simp add: shown_def public_list_calm)

text \<open>
  A search reveals what is hidden: of two databases that differ only in the description of one issue and one address, a
  search by a link without descriptions shows the issue for the one and not for the other. Anybody with the link can
  guess descriptions, and the addresses of the people of an issue, letter by letter.
\<close>

theorem search_reveals_hidden_text:
  "alike (ft_db front0) (ft_db front1) \<and> active_link (ft_now front0) ''t'' (ft_db front0) = Some team_link
   \<and> \<not> sl_IncludeDescription team_link
   \<and> shown ''t'' (no_filter\<lparr>fp_Search := ''x''\<rparr>) front0 = [''K-1''] \<and> shown ''t'' (no_filter\<lparr>fp_Search := ''x''\<rparr>) front1 = []"
proof (intro conjI)
  show "alike (ft_db front0) (ft_db front1)"
    by (simp add: alike_def front1_def office0_def tracker_rows_def issue_row_def user_row_def hide_issue_def
      hide_user_def Let_def)
  show "active_link (ft_now front0) ''t'' (ft_db front0) = Some team_link" by (rule front0_link)
  show "\<not> sl_IncludeDescription team_link" by (simp add: team_link_def)
  show "shown ''t'' (no_filter\<lparr>fp_Search := ''x''\<rparr>) front0 = [''K-1'']" unfolding shown_list [OF front_calm(1)] by code_simp
  show "shown ''t'' (no_filter\<lparr>fp_Search := ''x''\<rparr>) front1 = []" unfolding shown_list [OF front_calm(2)] by code_simp
qed

text \<open>The link without its filters, and without its view.\<close>

definition bare_link :: "SharedLink \<Rightarrow> SharedLink" where
  "bare_link l = l\<lparr>sl_Filters := ''{}'', sl_Scope := if sl_Scope l = ''view'' then ''workspace'' else sl_Scope l\<rparr>"

definition with_bare_link :: "string \<Rightarrow> front \<Rightarrow> front" where
  "with_bare_link token k = k\<lparr>ft_db := (ft_db k)\<lparr>of_links := update_where (\<lambda>l. sl_Token l = token) bare_link (of_links (ft_db k))\<rparr>\<rparr>"

lemma no_filters: "Unmarshal_map ''{}'' = Some Map.empty"
proof -
  have "decode ''{}'' = Some (JObject [])" by code_simp
  then show ?thesis by (simp add: Unmarshal_map_def)
qed

lemma bare_same [simp]: "sl_IncludeDescription (bare_link l) = sl_IncludeDescription l" "sl_WorkspaceID (bare_link l) = sl_WorkspaceID l"
  "sl_ScopeID (bare_link l) = sl_ScopeID l" "sl_Token (bare_link l) = sl_Token l" "sl_IsActive (bare_link l) = sl_IsActive l"
  "sl_ExpiresAt (bare_link l) = sl_ExpiresAt l"
  by (simp_all add: bare_link_def)

lemma find_bare: "find (\<lambda>l. sl_Token l = token) (update_where (\<lambda>l. sl_Token l = token) bare_link ls)
    = map_option bare_link (find (\<lambda>l. sl_Token l = token) ls)"
  by (induction ls) (simp_all add: update_where_def)

lemma search_without_links: "search_filter Q (d\<lparr>of_links := ls\<rparr>) t = search_filter Q d t"
  by (rule ext) (simp add: search_filter_def plan_texts_def people_texts_def place_texts_def user_GetByID_def)

lemma where_without_links: "where_clause Q (d\<lparr>of_links := ls\<rparr>) p = where_clause Q d p"
  by (simp add: where_clause_def search_without_links)

lemma links_do_not_count:
  "repo_List Q w p (d\<lparr>of_links := ls\<rparr>) = repo_List Q w p d"
  "public_row S now (d\<lparr>of_links := ls\<rparr>) l i = public_row S now d l i"
proof -
  have same: "of_tracker (d\<lparr>of_links := ls\<rparr>) = of_tracker d" by simp
  show "repo_List Q w p (d\<lparr>of_links := ls\<rparr>) = repo_List Q w p d"
    unfolding repo_List_def where_without_links same by (rule refl)
  show "public_row S now (d\<lparr>of_links := ls\<rparr>) l i = public_row S now d l i"
    by (simp add: public_row_def user_GetByID_def)
qed

lemma with_bare_parts [simp]: "ft_now (with_bare_link token k) = ft_now k" "ft_script (with_bare_link token k) = ft_script k"
  "ft_db (with_bare_link token k)
    = (ft_db k)\<lparr>of_links := update_where (\<lambda>l. sl_Token l = token) bare_link (of_links (ft_db k))\<rparr>"
  by (simp_all add: with_bare_link_def)

definition view_is_gone :: "office \<Rightarrow> SharedLink \<Rightarrow> bool" where
  "view_is_gone d l \<longleftrightarrow> sl_Scope l \<noteq> ''view'' \<or> (case sl_ScopeID l of None \<Rightarrow> True | Some v \<Rightarrow> view_GetByID v d = None)"

lemma bare_scope: "view_is_gone d l \<Longrightarrow> scope_filter (d\<lparr>of_links := ls\<rparr>) (bare_link l) = scope_filter d l"
  by (auto simp: scope_filter_def view_is_gone_def bare_link_def view_GetByID_def split: option.splits)

lemma bare_params:
  assumes "Unmarshal_map (sl_Filters l) = Some f" and "dom f \<subseteq> {''status'', ''priority'', ''label''}"
    and "fp_Status q \<noteq> []" and "fp_Priority q \<noteq> []" and "fp_LabelID q \<noteq> []" and "view_is_gone d l"
  shows "link_params (d\<lparr>of_links := ls\<rparr>) (bare_link l) q = link_params d l q"
proof -
  have none: "f ''assignee'' = None" "f ''team'' = None" "f ''project'' = None" "f ''cycle'' = None"
    using assms(2) by (auto simp: subset_iff domIff)
  have bare: "sl_Filters (bare_link l) = ''{}''" by (simp add: bare_link_def)
  show ?thesis
    by (simp add: link_params_def bare_scope [OF assms(6)] bare apply_raw_filters_def no_filters assms(1) with_query_def
      layered_def assms(3-5) applyStoredFilters_def filled_def none)
qed

lemma bare_active: "active_link now token (d\<lparr>of_links := update_where (\<lambda>l. sl_Token l = token) bare_link (of_links d)\<rparr>)
    = map_option bare_link (active_link now token d)"
  by (simp add: active_link_def link_GetByToken_def find_bare split: option.split)

text \<open>
  (C25) The filters of a link are no limits. Take a link whose stored filters can be read and name nothing but status, priority
  and label, and which was not made for a view unless the view has been deleted since. Then, while nobody else writes, a query
  that names a status, a priority and a label gets, page for page, what the link would show without filters and
  without its view. (Stored assignees, teams, projects and cycles are not replaced by the query and are no part of this.)
\<close>

theorem filters_of_a_link_are_no_limits:
  assumes "ft_script k = []" and "active_link (ft_now k) token (ft_db k) = Some l"
    and "Unmarshal_map (sl_Filters l) = Some f" and "dom f \<subseteq> {''status'', ''priority'', ''label''}"
    and "fp_Status query \<noteq> []" and "fp_Priority query \<noteq> []" and "fp_LabelID query \<noteq> []"
    and "view_is_gone (ft_db k) l"
  shows "fst (ListPublicIssues S token query k) = fst (ListPublicIssues S token query (with_bare_link token k))"
proof -
  have "public_row S now d (bare_link l) = public_row S now d l" for now d
    by (rule ext) (simp add: public_row_def)
  then have rows: "public_row S now (d\<lparr>of_links := ls\<rparr>) (bare_link l) = public_row S now d l" for now d ls
    by (rule_tac ext) (simp add: links_do_not_count)
  show ?thesis
    by (simp add: public_list_calm assms(1) public_list_def bare_active assms(2) bare_params [OF assms(3-8)]
      links_do_not_count(1) rows Let_def split: sum.splits prod.splits)
qed

text \<open>Witness: a link made for urgent issues.\<close>

theorem filters_of_a_link_are_no_limits_witness:
  "fst (ListPublicIssues links0 ''f'' (no_filter\<lparr>fp_Status := ''open'', fp_Priority := ''2'', fp_LabelID := ''none''\<rparr>) front2)
   = fst (ListPublicIssues links0 ''f'' (no_filter\<lparr>fp_Status := ''open'', fp_Priority := ''2'', fp_LabelID := ''none''\<rparr>)
       (with_bare_link ''f'' front2))"
proof -
  have "decode ''{\"priority\":\"1\"}'' = Some (JObject [(''priority'', JString ''1'')])" by code_simp
  then have "Unmarshal_map (sl_Filters urgent_link) = Some [''priority'' \<mapsto> ''1'']"
    by (simp add: Unmarshal_map_def string_element_def urgent_link_def)
  moreover have "active_link (ft_now front2) ''f'' (ft_db front2) = Some urgent_link"
    by (simp add: active_link_def link_GetByToken_def front2_def urgent_link_def view_link_def team_link_def)
  moreover have "view_is_gone (ft_db front2) urgent_link"
    by (simp add: view_is_gone_def urgent_link_def)
  moreover have "dom [''priority'' \<mapsto> ''1''] \<subseteq> {''status'', ''priority'', ''label''}"
    by (auto split: if_splits)
  ultimately show ?thesis
    by (intro filters_of_a_link_are_no_limits [OF front_calm(3), where l = urgent_link and f = "[''priority'' \<mapsto> ''1'']"])
      (simp_all only: front_calm, simp_all add: no_filter_def)
qed

end
