(* ===== verification/Spec2Isabelle.thy ===== *)
theory Spec2Isabelle
  imports Queue_Properties Run_Properties Access_Properties Environment_Properties Manager_Calls
    Manager_Settlement Setting_Properties Outsider_Properties Launch_Properties Collector_Properties
    Creation_Properties Hub_Properties Gateway_Properties Tracker_Properties Update_Properties
    Automation_Properties Relation_Properties Start_Properties Rights_Properties Sharing_Properties
begin

text \<open>
  \<^bold>\<open>Kuayle: the issue tracker, its workspaces and the control plane of its development machines.\<close>

  Kuayle is an issue tracker whose backend (Go, \<open>src/BE\<close>) also runs development machines: groups of
  containers with an IDE, a terminal, a browser and coding agents. The parts, and how they interact:

  \<^item> the data (\<open>internal/domain/dev_machine.go\<close>) and the PostgreSQL store
    (\<open>internal/repository/dev_machine.go\<close>). The store holds machines, their services, volumes, secrets,
    tokens, agent runs, events, logs, checkouts, environments and terminal sessions, and a queue of
    operations that workers lease;
  \<^item> the operation manager (\<open>internal/machine/manager.go\<close>), a worker that leases operations, drives the
    container runtime through an interface, records results, and reconciles the store with what runs;
  \<^item> the container runtime (\<open>internal/machine/docker.go\<close>), the implementation of that interface by calls of the
    API of Docker: it names and labels containers, networks and volumes after their machine, confines them, starts,
    pauses and removes them, reads usage and logs, runs agents and reads the state of a checkout;
  \<^item> the machine service (\<open>internal/service/dev_machine.go\<close>, requests in \<open>internal/dto/dev_machine.go\<close>),
    which the HTTP handlers call: it checks requests against the policy of the workspace, writes rows and
    enqueues operations, opens terminals and IDEs through one-time tickets, and takes the events and logs
    of the collectors inside the machines;
  \<^item> the gateway (\<open>internal/machine/gateway.go\<close>, \<open>gateway_guard.go\<close>), which stands before the services of
    the machines, exchanges tickets for sessions and forwards requests;
  \<^item> the hub (\<open>internal/realtime/hub.go\<close>, \<open>internal/handler/ws.go\<close>), which passes events to the browsers
    that are connected;
  \<^item> the issue tracker itself: \<open>internal/service/issue.go\<close> and \<open>issue_relation.go\<close> over \<open>internal/repository/issue.go\<close>,
    \<open>issue_relation.go\<close>, \<open>issue_history.go\<close>, \<open>notification.go\<close> and the triggers of the migrations. It sends the
    events of its changes to the hub;
  \<^item> workspaces, their members and what they share with the public: \<open>internal/service/workspace.go\<close> and
    \<open>shared_link.go\<close> over \<open>internal/repository/workspace.go\<close>, \<open>shared_link.go\<close> and the list of \<open>issue.go\<close>, behind the
    handlers of the same names and the checks of \<open>internal/middleware/workspace.go\<close> and \<open>permission.go\<close>. Deleting a
    workspace reaches into the tables of both the tracker and the machines.

  \<^bold>\<open>How the model corresponds to the code.\<close> A table is a list of records, a row of it a record with the
  columns as fields (\<open>Machine_Domain\<close>: one record per struct, one datatype per enumeration; a prefix of
  the field names the struct). The database \<open>db\<close> is the record of the tables. A method of the repository
  is a function of the database that returns its result and the new database, or the error and thereby
  the database unchanged, which is what the transaction gives: SQL conditions are predicates on rows,
  \<open>UPDATE\<close> is \<open>update_where\<close>, \<open>DELETE\<close> \<open>delete_where\<close>. Unique keys, checks and references that a
  statement can violate are errors of the operation. The time is an argument.

  Manager and service call the store many times, and other requests and workers run in between. Their
  functions are actions on a \<open>world\<close> (\<open>Manager_World\<close>): the database, the clock, the fresh identifiers,
  the log of runtime calls and a script, which says what happens before each call of the store: how much
  time passes, how the database is changed by others, and whether the call fails. A theorem about all
  worlds therefore holds under every interleaving at the granularity of store calls; a hypothesis
  \<open>w_script w = []\<close> says that nobody interferes. Errors are values of the sum type; \<open>bindA\<close> returns early.
  Goroutines of one worker are taken one after the other. The combinators of actions (\<open>Go_Action\<close>) serve four
  kinds of state: \<open>world\<close> for machines, \<open>desk\<close> (\<open>Tracker_World\<close>) for the tables of the issue tracker, which are
  separate ones (\<open>tracker\<close> in \<open>Tracker_Store\<close>), with the events sent to the hub, \<open>front\<close> (\<open>Workspace_Service\<close>) for the
  workspaces, over the tables of the tracker and the machines together (\<open>office\<close> in \<open>Workspace_Store\<close>), and for the
  container runtime the log of its calls of the container engine (\<open>Docker_World\<close>). The engine itself is a client whose answer to a call is
  any function of the calls made so far, so that a theorem about all clients says what the runtime does whatever
  the engine, other programs and the network do; what was created, removed or left behind is read off the log.

  \<^bold>\<open>Theories.\<close>

  \<^item> \<open>Kuayle_Prelude\<close>: tables, decimal numbers, cursors and pages, time; \<open>Go_Text\<close>: UTF-8, the functions of
    \<open>strings\<close>, \<open>strconv\<close> and \<open>hex\<close> that the code uses; \<open>Go_Json\<close>: \<open>encoding/json\<close>, with the round trip of lists of strings.
  \<^item> \<open>Machine_Store\<close> (queue: \<open>enqueueOperation\<close>, \<open>LeaseOperations\<close>, \<open>RenewOperationLease\<close>, \<open>CompleteOperation\<close>,
    \<open>FailOperation\<close>), \<open>Machine_Lifecycle\<close> (creation, desired and observed state, deletion, purging),
    \<open>Agent_Runs\<close>, \<open>Machine_Access\<close> (services, credentials, tokens, tickets, sessions),
    \<open>Machine_Environments\<close> (environments, checkouts, terminals, settings, sweeps): the repository.
    \<open>Queue_Properties\<close>, \<open>Lifecycle_Properties\<close>, \<open>Run_Properties\<close>, \<open>Access_Properties\<close>, \<open>Environment_Properties\<close>
    hold what they promise; \<open>Machine_Samples\<close> the rows of the witnesses.
  \<^item> \<open>Manager_World\<close>, \<open>Manager_Operations\<close>, \<open>Manager_Agent\<close>, \<open>Manager_Loop\<close>, \<open>Manager_Reconcile\<close>: the manager.
    \<open>Manager_Logic\<close> is a small program logic over actions (locale \<open>world_relation\<close> for what interference and the
    program keep, \<open>op_log\<close> for what a call may log), \<open>Manager_Calls\<close> uses it to license every runtime call,
    \<open>Manager_Settlement\<close> shows that every leased operation is settled and every failure recorded.
  \<^item> \<open>Service_Requests\<close>, \<open>Service_Text\<close>, \<open>Service_Base\<close>, \<open>Service_Create\<close>, \<open>Service_Machines\<close>, \<open>Service_Agents\<close>,
    \<open>Service_Launch\<close>: the service, in the order of its file. \<open>Service_Rules\<close> inverts actions
    (collection \<open>inversion\<close>), \<open>Text_Rules\<close> holds the facts on substrings and replacement. \<open>Setting_Properties\<close>,
    \<open>Outsider_Properties\<close>, \<open>Launch_Properties\<close>, \<open>Collector_Properties\<close>, \<open>Creation_Properties\<close> hold what it promises.

  \<^item> \<open>Docker_World\<close> (the calls, their answers, the log), \<open>Docker_Config\<close> (names, labels, environment, host
    configuration), \<open>Docker_Exec\<close> (processes in containers), \<open>Docker_Services\<close> (networks, volumes, containers),
    \<open>Docker_Runtime\<close> (the methods of \<open>Runtime\<close>), \<open>Docker_Agents\<close> (agents, checkouts, terminals): the container
    runtime, in the order of its file. \<open>Docker_Rules\<close> holds the judgements \<open>leads\<close> and \<open>rests\<close> with their
    rules (collection \<open>resting\<close>) and the locales of policies, invariants of the calls made: \<open>client_policy\<close> stands
    every call that creates, removes and connects nothing, \<open>image_policy\<close> pulls of images, too, and \<open>open_policy\<close>
    also connections to networks. They are interpreted as \<open>harmless\<close> (\<open>Start_Properties\<close>, no other calls are made),
    \<open>confining\<close> (\<open>Container_Properties\<close>, what is created and connected) and \<open>ledger\<close> (\<open>Docker_Ledger\<close>, what is removed
    was made or carries the label of the machine).
    \<open>Docker_Properties\<close> and \<open>Spawn_Properties\<close> have the lemmas on single methods, \<open>Container_Properties\<close> begins with
    the clients of the witnesses.

  \<^item> \<open>Realtime_Hub\<close>: the hub, its rooms and the queues of its clients; \<open>Hub_Properties\<close> refines it to a set of
    connections. \<open>Gateway_Guard\<close> and \<open>Machine_Gateway\<close>: the gateway; \<open>Gateway_Properties\<close> what gets through it.
  \<^item> \<open>Tracker_Store\<close>, \<open>Tracker_World\<close>, \<open>Issue_Service\<close> (creation, automation, notifications), \<open>Issue_Changes\<close>
    (updates, deletion, triage, bulk operations), \<open>Issue_Relations\<close>: the issue tracker. \<open>Tracker_Invariants\<close> holds the
    locales \<open>issue_frame\<close> and \<open>issue_invariant\<close>: what an invariant of the table of issues has to stand, and that
    every operation of the services then keeps it; \<open>Issue_Properties\<close> interprets them for the hierarchy, the numbers
    and the timestamps. \<open>Automation_Properties\<close> holds the locale \<open>automation_invariant\<close>, with one interpretation for
    termination and one for what the automation changes. \<open>Tracker_Rules\<close> has the rules for actions without
    interference, \<open>Tracker_Properties\<close>, \<open>Update_Properties\<close> and \<open>Relation_Properties\<close> the other properties,
    \<open>Tracker_Rules\<close> also the rows of the witnesses.
  \<^item> \<open>Workspace_Store\<close> (rows and statements), \<open>Issue_Listing\<close> (the filters, the order and the pages of \<open>List\<close>),
    \<open>Workspace_Service\<close> (the service and the rights of the roles), \<open>Shared_Links\<close> (links, what the public sees, the
    tokens for assets), \<open>Workspace_Requests\<close> (middleware, handlers, validation and the routes, \<open>serve_workspaces\<close>):
    workspaces and sharing. \<open>Workspace_Rules\<close> has the rules for actions with and without interference and the rows of the
    witnesses; \<open>Membership_Properties\<close> the locale \<open>owner_invariant\<close>, interpreted for the owners of workspaces;
    \<open>Rights_Properties\<close> who may do what; \<open>Sharing_Rules\<close> the public list as a function of the tables and what it
    depends on; \<open>Sharing_Properties\<close> what it shows and what it does not protect.

  \<^bold>\<open>What the theorems show.\<close>

  \<^item> Queue: leases of a machine are exclusive as long as renewals are in time, and not otherwise; retries are
    bounded; operations are settled by their holder only; order, back-off, idempotent enqueueing.
  \<^item> Lifecycle and environments: desired states change by newer generations only, quotas hold, purging is safe,
    complete and leaves all rows of other machines alone, deletion requests are honoured and never taken back, sweeps leave nothing unfinished behind.
  \<^item> Runs and access: one active run per machine, final states are final, a ticket opens once, revocation is
    final, leaving the running state cuts access.
  \<^item> Manager: every runtime call is licensed by the state of the store, a leased operation is settled whatever
    the runtime does, as long as no call of the store fails and others respect the lease; a failure is recorded exactly
    where it belongs.
  \<^item> Service: who has not created a machine is denied every operation on it or its runs that acts for a user (the purge
    of administrators does not ask who created a machine); a created machine is well-formed
    and within the policy, and so are the rows it gets; a repeated request is harmless; the ticket of a launch opens;
    collected logs and events hide the secrets that cannot be taken for the marker that replaces them; settings are inherited from the nearest scope; a policy reads back as written.
  \<^item> Container runtime: a container runs without privileges, with its machine's volume as its only mount, on the
    machine's network or none, with bounded memory, processes and logs; all but the IDE of an environment builder
    also without capabilities and with a read-only root; only the machine's egress service is also connected to the shared
    network of egress. Only resources of the machine, or made by the same call, are
    removed; a spawn that fails removes all it has made; to operate a machine creates, removes and connects nothing, and a
    snapshot only commits its image; starting
    goes through each container once; captured output is bounded; a paused container is paused again.
  \<^item> Gateway and hub: only the creator of a machine gets through, credentials are not forwarded, the tables of
    the abuse guard stay bounded; the hub does what a set of message queues does, but a broadcast that races
    with a client that leaves panics.
  \<^item> Issue tracker: under every sequence of requests and every interference that does so, too, the hierarchy
    stays a forest within its workspace (statements are taken one after the other, see below), numbers and identifiers stay unique and the times of an issue agree
    with the category of its status; the automation ends and, when the store does not fail, only completes open issues; created issues are
    filed under the right number, status and parent; a refused update changes nothing but the history; relations
    look the same from both sides.
  \<^item> Workspaces and sharing: every workspace keeps the owner who has made it, under all requests and every interference
    that does so, too; without the right to a request nothing changes; a workspace goes with all its rows and no other, and only when
    its machines and environments have gone. The public sees issues of the workspace, team or project of a
    link only, and without descriptions nothing depends on them, as long as nobody searches; but a search does,
    filters of a link by status, priority and label do not hold against a query that names these, and links are not kept by their workspace.

  \<^bold>\<open>Parameters and bounds.\<close> Code outside the repository is an argument: the runtime, the agent providers and
  the GitHub client of the manager (record \<open>Manager\<close>), and in the record \<open>MachineService\<close> the ciphers, SHA-256,
  the random source, \<open>url.Parse\<close>, \<open>uuid.Parse\<close>, the Unicode tables, the collation of the database and the
  texts of its driver's errors; for lists of issues the record \<open>sql\<close> holds the input functions of PostgreSQL's types,
  \<open>lower\<close> and \<open>to_char\<close>, for shared links the record \<open>SharedLinkService\<close> the library of signed tokens and \<open>time.Parse\<close>. Loops over tables are structural; the JSON parser carries a fuel of twice the
  length of its input, and each of its calls consumes a byte or makes a shorter text; \<open>GenerateName\<close> tries 20
  names, as the code does. The automation of the tracker has a fuel of two more than there are issues, which
  \<open>automation_terminates\<close> shows to be enough; the recursive queries of the tracker (\<open>ancestors\<close>, \<open>descendants\<close>) one more
  than there are rows, beyond which a query would go on for ever. The loop of the container runtime that waits for
  containers to run ends by a deadline; the number of its turns is an argument (\<open>dr_polls\<close>), and every theorem holds
  for any number. Counters and delays are integers: they stay far below \<open>2 ^ 31\<close> by the schema's
  checks; where the code multiplies (back-off) the bound is proved.

  \<^bold>\<open>Not modelled.\<close> Of the manager: \<open>Run\<close>, \<open>Ready\<close> and \<open>Metrics\<close> (tickers and counters). The rounding of
  \<open>time.Until\<close> to floats, the normal form of \<open>jsonb\<close>, run steps and artifacts (no Go code writes them). Of the
  container runtime: its constructor, which connects to the engine; closing a stream is a call without an answer; the
  percentages of usage are numbers without rounding. Of the tracker: projects, teams,
  cycles and labels beyond the rows that are read. Of workspaces: export and import, uploads, the audit log.
  Isolation is that of statements one after the other: races inside one statement, such as the one of two updates that
  make two issues each other's parent and do not see each other in the trigger, are not modelled. The other HTTP handlers and services (GitHub, comments, AI) and
  the analytics queries are not modelled.
\<close>

end
